(* ===== verification/Prelude.thy ===== *)
theory Prelude
  imports Main "HOL-Library.Word" "HOL-Library.Monad_Syntax"
begin

text \<open>
  Shared vocabulary of the development: the machine integers of the Rust sources as
  words of their width, the casts and byte/word conversions the cores use, and the
  generic lemmas about them that every component needs.

  Conventions.
  \<^item> \<open>u8\<close>, \<open>u16\<close>, \<open>u32\<close>, \<open>u64\<close> are words; \<open>wrapping_add\<close> and \<open>wrapping_sub\<close> are the
    word operations \<open>+\<close> and \<open>-\<close>, shifts are \<open>push_bit\<close> and \<open>drop_bit\<close>, an \<open>as\<close> cast to
    a narrower or wider unsigned type is \<open>ucast\<close>, a cast through a signed type is
    \<open>scast\<close>.
  \<^item> A Rust panic (an \<open>unreachable!\<close>, an \<open>expect\<close> on \<open>None\<close>, an index out of range)
    is the value \<open>None\<close> of an option; a function that cannot panic has no option.
  \<^item> A method with \<open>&mut self\<close> takes the state last and returns it last.
\<close>

unbundle bit_operations_syntax

type_synonym u8 = "8 word"
type_synonym u16 = "16 word"
type_synonym u32 = "32 word"
type_synonym u64 = "64 word"

named_theorems frame_simps \<open>what an operation leaves unchanged\<close>
named_theorems clock_simps \<open>the clocks an operation takes\<close>

section \<open>Bytes and words\<close>

definition lo8 :: "u16 \<Rightarrow> u8" where
  "lo8 w = ucast w"

definition hi8 :: "u16 \<Rightarrow> u8" where
  "hi8 w = ucast (drop_bit 8 w)"

definition le16 :: "u8 \<Rightarrow> u8 \<Rightarrow> u16" where
  "le16 low high = ucast low OR push_bit 8 (ucast high)"

lemma bit_lo8: "bit (lo8 w) n \<longleftrightarrow> n < 8 \<and> bit w n"
  by (simp add: lo8_def bit_ucast_iff)

lemma bit_hi8: "bit (hi8 w) n \<longleftrightarrow> n < 8 \<and> bit w (n + 8)"
  by (auto simp: hi8_def bit_ucast_iff bit_drop_bit_eq add.commute dest: bit_imp_le_length)

lemma bit_le16: "bit (le16 l h) n \<longleftrightarrow> (if n < 8 then bit l n else bit h (n - 8) \<and> n < 16)"
  by (auto simp: le16_def bit_or_iff bit_push_bit_iff bit_ucast_iff dest: bit_imp_le_length)

lemma lo8_le16 [simp]: "lo8 (le16 l h) = l"
  by (rule bit_eqI) (auto simp: bit_lo8 bit_le16 dest: bit_imp_le_length)

lemma hi8_le16 [simp]: "hi8 (le16 l h) = h"
  by (rule bit_eqI) (auto simp: bit_hi8 bit_le16 dest: bit_imp_le_length)

lemma le16_lo8_hi8 [simp]: "le16 (lo8 w) (hi8 w) = w"
  by (rule bit_eqI) (auto simp: bit_lo8 bit_hi8 bit_le16 dest: bit_imp_le_length)

lemma le16_eq_iff [simp]: "le16 l h = le16 l' h' \<longleftrightarrow> l = l' \<and> h = h'"
  by (metis lo8_le16 hi8_le16)

lemma ucast_back: "ucast (ucast (a :: u16) :: u32) = a" "ucast (ucast (b :: u8) :: u32) = b"
  by (transfer, simp)+

lemma unat_u8_less: "unat (x :: u8) < 256"
  using unsigned_less [of x, where ?'a = nat] by simp

lemma unat_u16_less: "unat (x :: u16) < 65536"
  using unsigned_less [of x, where ?'a = nat] by simp

lemma unat_le16: "unat (le16 l h) = unat l + 256 * unat h"
proof -
  have disj: "(ucast l :: u16) AND push_bit 8 (ucast h) = 0"
    by (rule bit_eqI) (auto simp: bit_and_iff bit_push_bit_iff bit_ucast_iff dest: bit_imp_le_length)
  have "le16 l h = ucast l + push_bit 8 (ucast h)"
    unfolding le16_def using disj by (simp add: disjunctive_add_eq_or)
  moreover have "unat l + unat h * 256 < 65536"
    using unat_u8_less [of l] unat_u8_less [of h] by linarith
  ultimately show ?thesis
    by (simp add: unat_word_ariths push_bit_eq_mult unsigned_ucast_eq take_bit_eq_mod mod_simps)
qed

section \<open>Bits of a byte as arithmetic\<close>

lemma bit_odd_div: "bit (x :: 'a::len word) n \<longleftrightarrow> odd (unat x div 2 ^ n)"
  using bit_iff_odd [of "unat x" n] by (simp add: bit_unsigned_iff)

lemma and_pow2_nonzero: "(x AND 2 ^ n \<noteq> 0) \<longleftrightarrow> bit (x :: 'a::len word) n"
  by (simp add: and_exp_eq_0_iff_not_bit)

lemma bit7_u8: "bit (x :: u8) 7 \<longleftrightarrow> 128 \<le> unat x"
proof -
  have "unat x div 128 = (if unat x < 128 then 0 else 1)"
    using unat_u8_less [of x] by (auto simp: div_if)
  then have "odd (unat x div 128) \<longleftrightarrow> 128 \<le> unat x" by auto
  then show ?thesis by (simp add: bit_odd_div)
qed

lemma sint_u8: "sint (x :: u8) = int (unat x) - (if bit x 7 then 256 else 0)"
proof -
  have "sint x = take_bit 8 (int (unat x) + 128) - 128"
    by (simp add: sint_uint signed_take_bit_eq_take_bit_shift)
  also have "\<dots> = (int (unat x) + 128) mod 256 - 128"
    by (simp add: take_bit_eq_mod)
  also have "\<dots> = int (unat x) - (if 128 \<le> unat x then 256 else 0)"
  proof (cases "128 \<le> unat x")
    case True
    have "(int (unat x) + 128) mod 256 = (int (unat x) - 128) mod 256"
      using minus_mod_self2 [of "int (unat x) + 128" 256] by simp
    also have "\<dots> = int (unat x) - 128"
      using True unat_u8_less [of x] by (intro mod_pos_pos_trivial) linarith+
    finally show ?thesis using True by simp
  next
    case False
    then have "(int (unat x) + 128) mod 256 = int (unat x) + 128"
      by (intro mod_pos_pos_trivial) linarith+
    then show ?thesis using False by simp
  qed
  finally show ?thesis by (simp add: bit7_u8)
qed

section \<open>Standard library operations on bytes\<close>

definition rotate_left8 :: "nat \<Rightarrow> u8 \<Rightarrow> u8" where
  "rotate_left8 n v = push_bit n v OR drop_bit (8 - n) v"

definition rotate_right8 :: "nat \<Rightarrow> u8 \<Rightarrow> u8" where
  "rotate_right8 n v = drop_bit n v OR push_bit (8 - n) v"

definition count_ones8 :: "u8 \<Rightarrow> nat" where
  "count_ones8 v = length (filter (bit v) [0..<8])"

definition u8_of_bool :: "bool \<Rightarrow> u8" where
  "u8_of_bool v = (if v then 1 else 0)"

definition u16_of_bool :: "bool \<Rightarrow> u16" where
  "u16_of_bool v = (if v then 1 else 0)"

text \<open>\<open>wrapping_add_signed\<close> with a displacement byte read as \<open>i8\<close>.\<close>

definition add_signed8 :: "u16 \<Rightarrow> u8 \<Rightarrow> u16" where
  "add_signed8 w d = w + scast d"

lemma less8_cases:
  "(n :: nat) < 8 \<longleftrightarrow> n = 0 \<or> n = 1 \<or> n = 2 \<or> n = 3 \<or> n = 4 \<or> n = 5 \<or> n = 6 \<or> n = 7"
  by auto

lemma u8_eq_iff:
  "(x :: u8) = y \<longleftrightarrow>
     (bit x 0 \<longleftrightarrow> bit y 0) \<and> (bit x 1 \<longleftrightarrow> bit y 1) \<and> (bit x 2 \<longleftrightarrow> bit y 2) \<and> (bit x 3 \<longleftrightarrow> bit y 3)
   \<and> (bit x 4 \<longleftrightarrow> bit y 4) \<and> (bit x 5 \<longleftrightarrow> bit y 5) \<and> (bit x 6 \<longleftrightarrow> bit y 6) \<and> (bit x 7 \<longleftrightarrow> bit y 7)"
proof
  assume r: "(bit x 0 \<longleftrightarrow> bit y 0) \<and> (bit x 1 \<longleftrightarrow> bit y 1) \<and> (bit x 2 \<longleftrightarrow> bit y 2) \<and> (bit x 3 \<longleftrightarrow> bit y 3)
   \<and> (bit x 4 \<longleftrightarrow> bit y 4) \<and> (bit x 5 \<longleftrightarrow> bit y 5) \<and> (bit x 6 \<longleftrightarrow> bit y 6) \<and> (bit x 7 \<longleftrightarrow> bit y 7)"
  show "x = y"
  proof (rule bit_word_eqI)
    fix n assume "n < LENGTH(8)"
    then show "bit x n \<longleftrightarrow> bit y n" using r by (auto simp: less8_cases)
  qed
qed simp

lemma bit_rotate_left8:
  "0 < n \<Longrightarrow> n < 8 \<Longrightarrow> k < 8 \<Longrightarrow>
     bit (rotate_left8 n v) k \<longleftrightarrow> bit v (if n \<le> k then k - n else k + 8 - n)"
  by (auto simp: rotate_left8_def bit_or_iff bit_push_bit_iff bit_drop_bit_eq not_le add.commute
      dest: bit_imp_le_length)

lemma bit_rotate_right8:
  "0 < n \<Longrightarrow> n < 8 \<Longrightarrow> k < 8 \<Longrightarrow>
     bit (rotate_right8 n v) k \<longleftrightarrow> bit v (if k + n < 8 then k + n else k + n - 8)"
  by (auto simp: rotate_right8_def bit_or_iff bit_push_bit_iff bit_drop_bit_eq not_le add.commute
      dest: bit_imp_le_length)

lemma rotate_right_left8 [simp]: "0 < n \<Longrightarrow> n < 8 \<Longrightarrow> rotate_right8 n (rotate_left8 n v) = v"
  by (rule bit_word_eqI) (auto simp: bit_rotate_right8 bit_rotate_left8)

lemma rotate_left_right8 [simp]: "0 < n \<Longrightarrow> n < 8 \<Longrightarrow> rotate_left8 n (rotate_right8 n v) = v"
  by (rule bit_word_eqI) (auto simp: bit_rotate_right8 bit_rotate_left8)

end
