(* ===== verification/Bus_Interface.thy ===== *)
theory Bus_Interface
  imports Prelude
begin

text \<open>
  The trait \<open>common::Bus\<close> (\<open>crates/common/src/lib.rs\<close>): what a processor core asks of
  the machine it sits in. A machine's bus is a state \<open>'b\<close> together with a dictionary of
  the trait's methods; a core takes the dictionary as its argument and threads the state.
  Methods with a default body in the trait are modelled by functions that build that
  body from the required methods, and \<open>bus_with_defaults\<close> is the dictionary of an
  implementation that overrides none of them. The 68000, FPU and word-wide hooks that
  the eight-bit cores never call are left out of the dictionary, the word-wide defaults
  are modelled as functions over it.
\<close>

record 'b bus_ops =
  bus_read_byte :: "u32 \<Rightarrow> 'b \<Rightarrow> u8 \<times> 'b"
  bus_write_byte :: "u32 \<Rightarrow> u8 \<Rightarrow> 'b \<Rightarrow> 'b"
  bus_io_read_byte :: "u16 \<Rightarrow> 'b \<Rightarrow> u8 \<times> 'b"
  bus_io_write_byte :: "u16 \<Rightarrow> u8 \<Rightarrow> 'b \<Rightarrow> 'b"
  bus_has_irq :: "'b \<Rightarrow> bool"
  bus_acknowledge_irq :: "'b \<Rightarrow> u8 \<times> 'b"
  bus_acknowledge_firq :: "'b \<Rightarrow> 'b"
  bus_has_nmi :: "'b \<Rightarrow> bool"
  bus_acknowledge_nmi :: "'b \<Rightarrow> 'b"
  bus_notify_reti :: "'b \<Rightarrow> 'b"
  bus_current_cycle :: "'b \<Rightarrow> u64"
  bus_set_current_cycle :: "u64 \<Rightarrow> 'b \<Rightarrow> 'b"
  bus_drain_wait_cycles :: "'b \<Rightarrow> int \<times> 'b"
  bus_on_instruction_end :: "'b \<Rightarrow> 'b"
  bus_fetch_opcode_byte :: "u32 \<Rightarrow> 'b \<Rightarrow> u8 \<times> 'b"
  bus_reset_pending :: "'b \<Rightarrow> bool"
  bus_cpu_should_yield :: "'b \<Rightarrow> bool"

text \<open>The latches of interrupt inputs that the cores share (\<open>crates/cpu/src/lib.rs\<close>).\<close>

definition PENDING_IRQ :: u8 where "PENDING_IRQ = 0x01"
definition PENDING_NMI :: u8 where "PENDING_NMI = 0x02"

section \<open>Default methods\<close>

definition bus_read_word :: "'b bus_ops \<Rightarrow> u32 \<Rightarrow> 'b \<Rightarrow> u16 \<times> 'b" where
  "bus_read_word io address b =
     (let (low, b) = bus_read_byte io address b;
          (high, b) = bus_read_byte io (address + 1) b
      in (le16 low high, b))"

definition bus_write_word :: "'b bus_ops \<Rightarrow> u32 \<Rightarrow> u16 \<Rightarrow> 'b \<Rightarrow> 'b" where
  "bus_write_word io address value b =
     bus_write_byte io (address + 1) (hi8 value) (bus_write_byte io address (lo8 value) b)"

definition bus_read_dword :: "'b bus_ops \<Rightarrow> u32 \<Rightarrow> 'b \<Rightarrow> u32 \<times> 'b" where
  "bus_read_dword io address b =
     (let (low, b) = bus_read_word io address b;
          (high, b) = bus_read_word io (address + 2) b
      in (ucast low OR push_bit 16 (ucast high), b))"

definition bus_write_dword :: "'b bus_ops \<Rightarrow> u32 \<Rightarrow> u32 \<Rightarrow> 'b \<Rightarrow> 'b" where
  "bus_write_dword io address value b =
     bus_write_word io (address + 2) (ucast (drop_bit 16 value))
       (bus_write_word io address (ucast value) b)"

definition bus_io_read_word :: "'b bus_ops \<Rightarrow> u16 \<Rightarrow> 'b \<Rightarrow> u16 \<times> 'b" where
  "bus_io_read_word io port b =
     (let (low, b) = bus_io_read_byte io port b;
          (high, b) = bus_io_read_byte io (port + 1) b
      in (le16 low high, b))"

definition bus_io_write_word :: "'b bus_ops \<Rightarrow> u16 \<Rightarrow> u16 \<Rightarrow> 'b \<Rightarrow> 'b" where
  "bus_io_write_word io port value b =
     bus_io_write_byte io (port + 1) (hi8 value) (bus_io_write_byte io port (lo8 value) b)"

definition bus_with_defaults ::
  "(u32 \<Rightarrow> 'b \<Rightarrow> u8 \<times> 'b) \<Rightarrow> (u32 \<Rightarrow> u8 \<Rightarrow> 'b \<Rightarrow> 'b)
   \<Rightarrow> (u16 \<Rightarrow> 'b \<Rightarrow> u8 \<times> 'b) \<Rightarrow> (u16 \<Rightarrow> u8 \<Rightarrow> 'b \<Rightarrow> 'b)
   \<Rightarrow> ('b \<Rightarrow> bool) \<Rightarrow> ('b \<Rightarrow> u8 \<times> 'b) \<Rightarrow> ('b \<Rightarrow> bool) \<Rightarrow> ('b \<Rightarrow> 'b)
   \<Rightarrow> ('b \<Rightarrow> u64) \<Rightarrow> (u64 \<Rightarrow> 'b \<Rightarrow> 'b) \<Rightarrow> 'b bus_ops" where
  "bus_with_defaults read_byte write_byte io_read io_write has_irq ack_irq has_nmi ack_nmi
     current_cycle set_current_cycle =
   \<lparr> bus_read_byte = read_byte,
     bus_write_byte = write_byte,
     bus_io_read_byte = io_read,
     bus_io_write_byte = io_write,
     bus_has_irq = has_irq,
     bus_acknowledge_irq = ack_irq,
     bus_acknowledge_firq = (\<lambda>b. b),
     bus_has_nmi = has_nmi,
     bus_acknowledge_nmi = ack_nmi,
     bus_notify_reti = (\<lambda>b. b),
     bus_current_cycle = current_cycle,
     bus_set_current_cycle = set_current_cycle,
     bus_drain_wait_cycles = (\<lambda>b. (0, b)),
     bus_on_instruction_end = (\<lambda>b. b),
     bus_fetch_opcode_byte = read_byte,
     bus_reset_pending = (\<lambda>b. False),
     bus_cpu_should_yield = (\<lambda>b. False) \<rparr>"

section \<open>Memory behind a bus\<close>

text \<open>
  The contract of the memory side of an eight-bit processor's bus, on the 64 KiB it can
  address, for a set \<open>ram\<close> of writable addresses: \<open>peek\<close> is the byte a read returns, a
  read changes no byte, a write changes the byte at its own address when it is writable,
  and no other one.
\<close>

locale memory_bus =
  fixes io :: "'b bus_ops"
    and peek :: "'b \<Rightarrow> u16 \<Rightarrow> u8"
    and ram :: "u16 set"
  assumes read_peek: "fst (bus_read_byte io (ucast a) b) = peek b a"
    and read_keeps: "peek (snd (bus_read_byte io (ucast a) b)) = peek b"
    and fetch_peek: "fst (bus_fetch_opcode_byte io (ucast a) b) = peek b a"
    and fetch_keeps: "peek (snd (bus_fetch_opcode_byte io (ucast a) b)) = peek b"
    and write_same: "a \<in> ram \<Longrightarrow> peek (bus_write_byte io (ucast a) v b) a = v"
    and write_other: "a' \<noteq> a \<or> a \<notin> ram \<Longrightarrow> peek (bus_write_byte io (ucast a) v b) a' = peek b a'"
begin

lemma peek_write:
  "peek (bus_write_byte io (ucast a) v b) = (if a \<in> ram then (peek b)(a := v) else peek b)"
  by (rule ext) (auto simp: write_same write_other)

text \<open>The word-wide defaults step a 32-bit address, so they cross FFFF differently.\<close>

lemma next_address: "a \<noteq> 0xFFFF \<Longrightarrow> (ucast a :: u32) + 1 = ucast (a + 1 :: u16)"
proof -
  assume "a \<noteq> 0xFFFF"
  then have "unat a \<noteq> 65535" by (auto simp: word_unat_eq_iff)
  then have "unat a + 1 < 65536" using unat_u16_less [of a] by linarith
  then show ?thesis
    by (simp add: word_unat_eq_iff unat_word_ariths unsigned_ucast_eq take_bit_eq_mod)
qed

lemma read_word_peek:
  "a \<noteq> 0xFFFF \<Longrightarrow> fst (bus_read_word io (ucast a) b) = le16 (peek b a) (peek b (a + 1))"
  by (simp add: bus_read_word_def case_prod_unfold read_peek read_keeps next_address)

text \<open>A word written to memory is read back.\<close>

lemma read_write_word:
  assumes "a \<in> ram" "a + 1 \<in> ram" "a \<noteq> 0xFFFF"
  shows "fst (bus_read_word io (ucast a) (bus_write_word io (ucast a) v b)) = v"
  using assms by (simp add: read_word_peek bus_write_word_def peek_write next_address)

end

text \<open>
  The contract of a bus that keeps an invariant of its own through every call of a processor;
  and that never takes back wait cycles in the states of the invariant.
\<close>

locale guarded_bus =
  fixes io :: "'b bus_ops"
    and ok :: "'b \<Rightarrow> bool"
  assumes read_ok: "ok b \<Longrightarrow> ok (snd (bus_read_byte io a b))"
    and write_ok: "ok b \<Longrightarrow> ok (bus_write_byte io a v b)"
    and fetch_ok: "ok b \<Longrightarrow> ok (snd (bus_fetch_opcode_byte io a b))"
    and irq_ok: "ok b \<Longrightarrow> ok (snd (bus_acknowledge_irq io b))"
    and firq_ok: "ok b \<Longrightarrow> ok (bus_acknowledge_firq io b)"
    and nmi_ok: "ok b \<Longrightarrow> ok (bus_acknowledge_nmi io b)"
    and cycle_ok: "ok b \<Longrightarrow> ok (bus_set_current_cycle io c b)"
    and drain_ok: "ok b \<Longrightarrow> ok (snd (bus_drain_wait_cycles io b))"
    and instruction_end_ok: "ok b \<Longrightarrow> ok (bus_on_instruction_end io b)"
    and drain_positive: "ok b \<Longrightarrow> 0 \<le> fst (bus_drain_wait_cycles io b)"

text \<open>
  The contract of a window of memory on a bus whose other addresses may do anything: in the states
  \<open>ok\<close>, reads of the window return what \<open>peek\<close> shows and change nothing in it, and writes
  change the one byte.
\<close>

locale ram_window =
  fixes io :: "'b bus_ops"
    and ok :: "'b \<Rightarrow> bool"
    and peek :: "'b \<Rightarrow> u16 \<Rightarrow> u8"
    and ram :: "u16 set"
  assumes window_read: "ok b \<Longrightarrow> a \<in> ram \<Longrightarrow> fst (bus_read_byte io (ucast a) b) = peek b a"
    and window_read_ok: "ok b \<Longrightarrow> a \<in> ram \<Longrightarrow> ok (snd (bus_read_byte io (ucast a) b))"
    and window_read_keeps: "ok b \<Longrightarrow> a \<in> ram \<Longrightarrow> peek (snd (bus_read_byte io (ucast a) b)) = peek b"
    and window_fetch: "ok b \<Longrightarrow> a \<in> ram \<Longrightarrow> fst (bus_fetch_opcode_byte io (ucast a) b) = peek b a"
    and window_fetch_ok: "ok b \<Longrightarrow> a \<in> ram \<Longrightarrow> ok (snd (bus_fetch_opcode_byte io (ucast a) b))"
    and window_fetch_keeps:
      "ok b \<Longrightarrow> a \<in> ram \<Longrightarrow> peek (snd (bus_fetch_opcode_byte io (ucast a) b)) = peek b"
    and window_write_ok: "ok b \<Longrightarrow> a \<in> ram \<Longrightarrow> ok (bus_write_byte io (ucast a) v b)"
    and window_write: "ok b \<Longrightarrow> a \<in> ram \<Longrightarrow> peek (bus_write_byte io (ucast a) v b) = (peek b)(a := v)"
    and window_acknowledge_ok: "ok b \<Longrightarrow> ok (snd (bus_acknowledge_irq io b))"
    and window_acknowledge: "ok b \<Longrightarrow> peek (snd (bus_acknowledge_irq io b)) = peek b"

end
