(* ===== verification/Save_Restore.thy ===== *)
theory Save_Restore
  imports Prelude
begin

text \<open>
  The transactional restore of \<open>crates/save_state/src/lib.rs\<close>. A runtime object that
  can be restored (\<open>RestoreTarget\<close>) validates a candidate state, replaces its own state
  and rebuilds derived data; \<open>restore_root\<close> is generic over these three operations,
  which are arguments here. A \<open>StateValidationError\<close> is its message.

  The locale \<open>restore_target\<close> is the contract between \<open>restore_root\<close> and the objects
  that implement the traits: replacing the state makes it the captured one, and
  rebuilding derived data does not touch it.
\<close>

type_synonym validation_error = string

definition restore_root ::
  "('s \<Rightarrow> validation_error + unit) \<Rightarrow> ('s \<Rightarrow> 't \<Rightarrow> 't) \<Rightarrow> ('t \<Rightarrow> 't)
     \<Rightarrow> 's \<Rightarrow> 't \<Rightarrow> (validation_error + unit) \<times> 't" where
  "restore_root validate_state replace_state after_restore candidate target =
     (case validate_state candidate of
        Inl e \<Rightarrow> (Inl e, target)
      | Inr _ \<Rightarrow> (Inr (), after_restore (replace_state candidate target)))"

text \<open>
  \<open>restore_transactionally\<close>: the captured state is applied again when applying the
  candidate fails, and a failing rollback is reported with both errors. The errors about
  media and decoding carry their displayed text.
\<close>

datatype save_state_error =
    Unsupported
  | WrongRuntimeType
  | ResourceMismatch string
  | MediaMismatch string
  | Decode string
  | InvalidInvariant string
  | WorkerFailure string

definition save_state_error_display :: "save_state_error \<Rightarrow> string" where
  "save_state_error_display e =
     (case e of
        Unsupported \<Rightarrow> ''save states are unsupported''
      | WrongRuntimeType \<Rightarrow> ''runtime snapshot belongs to another machine type''
      | ResourceMismatch m \<Rightarrow> ''resource mismatch: '' @ m
      | MediaMismatch m \<Rightarrow> ''media mismatch: '' @ m
      | Decode m \<Rightarrow> ''save-state payload is invalid: '' @ m
      | InvalidInvariant m \<Rightarrow> ''save-state invariant is invalid: '' @ m
      | WorkerFailure m \<Rightarrow> ''save-state worker failed: '' @ m)"

definition restore_transactionally ::
  "'s \<Rightarrow> ('t \<Rightarrow> (save_state_error + 's) \<times> 't) \<Rightarrow> ('s \<Rightarrow> 't \<Rightarrow> (save_state_error + unit) \<times> 't)
     \<Rightarrow> 't \<Rightarrow> (save_state_error + unit) \<times> 't" where
  "restore_transactionally candidate capture apply target =
     (case capture target of
        (Inl e, t0) \<Rightarrow> (Inl e, t0)
      | (Inr rollback, t0) \<Rightarrow>
          (case apply candidate t0 of
             (Inr _, t1) \<Rightarrow> (Inr (), t1)
           | (Inl error, t1) \<Rightarrow>
               (case apply rollback t1 of
                  (Inl rollback_error, t2) \<Rightarrow>
                    (Inl (WorkerFailure (''runtime restore failed: '' @ save_state_error_display error
                        @ ''; rollback also failed: '' @ save_state_error_display rollback_error)), t2)
                | (Inr _, t2) \<Rightarrow> (Inl error, t2))))"

locale restore_target =
  fixes validate_state :: "'s \<Rightarrow> validation_error + unit"
    and replace_state :: "'s \<Rightarrow> 't \<Rightarrow> 't"
    and after_restore :: "'t \<Rightarrow> 't"
    and capture_state :: "'t \<Rightarrow> 's"
  assumes capture_replace: "capture_state (replace_state s t) = s"
    and capture_after: "capture_state (after_restore t) = capture_state t"
begin

abbreviation restore :: "'s \<Rightarrow> 't \<Rightarrow> (validation_error + unit) \<times> 't" where
  "restore \<equiv> restore_root validate_state replace_state after_restore"

lemma restore_accepts:
  assumes "validate_state s = Inr ()"
  shows "fst (restore s t) = Inr () \<and> capture_state (snd (restore s t)) = s"
  using assms by (simp add: restore_root_def capture_replace capture_after)

lemma restore_rejects:
  assumes "validate_state s = Inl e"
  shows "restore s t = (Inl e, t)"
  using assms by (simp add: restore_root_def)

text \<open>Whatever the candidate, the object is left in a valid state if it was in one.\<close>

lemma restore_keeps_valid:
  assumes "validate_state (capture_state t) = Inr ()"
  shows "validate_state (capture_state (snd (restore s t))) = Inr ()"
  using assms by (cases "validate_state s") (auto simp: restore_root_def capture_replace capture_after)

lemma capture_restore:
  assumes "validate_state (capture_state t) = Inr ()"
  shows "fst (restore (capture_state t) u) = Inr ()
    \<and> capture_state (snd (restore (capture_state t) u)) = capture_state t"
  using assms by (rule restore_accepts)

text \<open>
  A transactional restore on top of it never changes what would be captured when it
  reports an error.
\<close>

definition apply_restore :: "'s \<Rightarrow> 't \<Rightarrow> (save_state_error + unit) \<times> 't" where
  "apply_restore s t =
     (case restore s t of (Inl e, t') \<Rightarrow> (Inl (InvalidInvariant e), t') | (Inr u, t') \<Rightarrow> (Inr u, t'))"

lemma transactional_error_rolls_back:
  assumes "validate_state (capture_state t) = Inr ()"
    and "validate_state s = Inl e"
  shows "fst (restore_transactionally s (\<lambda>t. (Inr (capture_state t), t)) apply_restore t) = Inl (InvalidInvariant e)
    \<and> capture_state (snd (restore_transactionally s (\<lambda>t. (Inr (capture_state t), t)) apply_restore t))
        = capture_state t"
  using assms
  by (simp add: restore_transactionally_def apply_restore_def restore_root_def
      capture_replace capture_after)

end

end
