(* ===== verification/Z80_State.thy ===== *)
theory Z80_State
  imports Bus_Interface Save_Restore
begin

text \<open>
  The register file of the Z80 core: \<open>crates/cpu/src/z80/state.rs\<close> and \<open>flags.rs\<close>.
  \<open>Z80Flags\<close> is a struct around one byte and is that byte here. \<open>z80_state\<close> has the
  fields of \<open>Z80State\<close> in their order; \<open>z80\<close> extends it with the fields the struct
  \<open>Z80\<close> adds around it, as its \<open>Deref\<close> to \<open>Z80State\<close> does, and with the bus, which the
  code passes as \<open>bus: &mut impl Bus\<close> next to \<open>&mut self\<close> to every method.
  \<open>cycles_remaining\<close> is an \<open>i64\<close> that stays far from its bounds (a step takes at most a
  few dozen clocks), so it is an \<open>int\<close>; the casts at the ends of \<open>run_for\<close> are explicit.
\<close>

section \<open>Flags\<close>

type_synonym z80_flags = u8

definition FLAG_CARRY :: u8 where "FLAG_CARRY = 0x01"
definition FLAG_SUBTRACT :: u8 where "FLAG_SUBTRACT = 0x02"
definition FLAG_PARITY_OVERFLOW :: u8 where "FLAG_PARITY_OVERFLOW = 0x04"
definition FLAG_X :: u8 where "FLAG_X = 0x08"
definition FLAG_HALF_CARRY :: u8 where "FLAG_HALF_CARRY = 0x10"
definition FLAG_Y :: u8 where "FLAG_Y = 0x20"
definition FLAG_ZERO :: u8 where "FLAG_ZERO = 0x40"
definition FLAG_SIGN :: u8 where "FLAG_SIGN = 0x80"

lemmas flag_masks = FLAG_CARRY_def FLAG_SUBTRACT_def FLAG_PARITY_OVERFLOW_def FLAG_X_def
  FLAG_HALF_CARRY_def FLAG_Y_def FLAG_ZERO_def FLAG_SIGN_def

definition flags_set :: "u8 \<Rightarrow> bool \<Rightarrow> z80_flags \<Rightarrow> z80_flags" where
  "flags_set bit_mask value bits =
     (if value then bits OR bit_mask else bits AND NOT bit_mask)"

definition flags_carry :: "z80_flags \<Rightarrow> bool" where
  "flags_carry bits \<longleftrightarrow> bits AND FLAG_CARRY \<noteq> 0"

definition flags_subtract :: "z80_flags \<Rightarrow> bool" where
  "flags_subtract bits \<longleftrightarrow> bits AND FLAG_SUBTRACT \<noteq> 0"

definition flags_parity_overflow :: "z80_flags \<Rightarrow> bool" where
  "flags_parity_overflow bits \<longleftrightarrow> bits AND FLAG_PARITY_OVERFLOW \<noteq> 0"

definition flags_half_carry :: "z80_flags \<Rightarrow> bool" where
  "flags_half_carry bits \<longleftrightarrow> bits AND FLAG_HALF_CARRY \<noteq> 0"

definition flags_zero :: "z80_flags \<Rightarrow> bool" where
  "flags_zero bits \<longleftrightarrow> bits AND FLAG_ZERO \<noteq> 0"

definition flags_sign :: "z80_flags \<Rightarrow> bool" where
  "flags_sign bits \<longleftrightarrow> bits AND FLAG_SIGN \<noteq> 0"

definition flags_set_carry :: "bool \<Rightarrow> z80_flags \<Rightarrow> z80_flags" where
  "flags_set_carry = flags_set FLAG_CARRY"

definition flags_set_subtract :: "bool \<Rightarrow> z80_flags \<Rightarrow> z80_flags" where
  "flags_set_subtract = flags_set FLAG_SUBTRACT"

definition flags_set_parity_overflow :: "bool \<Rightarrow> z80_flags \<Rightarrow> z80_flags" where
  "flags_set_parity_overflow = flags_set FLAG_PARITY_OVERFLOW"

definition flags_set_half_carry :: "bool \<Rightarrow> z80_flags \<Rightarrow> z80_flags" where
  "flags_set_half_carry = flags_set FLAG_HALF_CARRY"

definition flags_set_zero :: "bool \<Rightarrow> z80_flags \<Rightarrow> z80_flags" where
  "flags_set_zero = flags_set FLAG_ZERO"

definition flags_set_sign :: "bool \<Rightarrow> z80_flags \<Rightarrow> z80_flags" where
  "flags_set_sign = flags_set FLAG_SIGN"

definition flags_set_xy :: "u8 \<Rightarrow> z80_flags \<Rightarrow> z80_flags" where
  "flags_set_xy value bits =
     (bits AND NOT (FLAG_X OR FLAG_Y)) OR (value AND (FLAG_X OR FLAG_Y))"

text \<open>Every getter reads one bit, every setter writes one bit.\<close>

lemma flag_mask_exp:
  "FLAG_CARRY = 2 ^ 0" "FLAG_SUBTRACT = 2 ^ 1" "FLAG_PARITY_OVERFLOW = 2 ^ 2" "FLAG_X = 2 ^ 3"
  "FLAG_HALF_CARRY = 2 ^ 4" "FLAG_Y = 2 ^ 5" "FLAG_ZERO = 2 ^ 6" "FLAG_SIGN = 2 ^ 7"
  by (simp_all add: flag_masks)

lemma flag_getter_bit:
  "flags_carry f \<longleftrightarrow> bit f 0" "flags_subtract f \<longleftrightarrow> bit f 1"
  "flags_parity_overflow f \<longleftrightarrow> bit f 2" "flags_half_carry f \<longleftrightarrow> bit f 4"
  "flags_zero f \<longleftrightarrow> bit f 6" "flags_sign f \<longleftrightarrow> bit f 7"
  by (simp_all only: flags_carry_def flags_subtract_def flags_parity_overflow_def
      flags_half_carry_def flags_zero_def flags_sign_def flag_mask_exp and_pow2_nonzero)

lemma bit_flags_set_exp:
  "k < 8 \<Longrightarrow> bit (flags_set (2 ^ k) v f) n \<longleftrightarrow> (if n = k then v else bit f n)"
  by (auto simp: flags_set_def bit_or_iff bit_and_iff bit_not_iff bit_exp_iff
      dest: bit_imp_le_length)

lemma bit_flags_set_xy: "bit (flags_set_xy v f) n \<longleftrightarrow> (if n = 3 \<or> n = 5 then bit v n else bit f n)"
  by (auto simp: flags_set_xy_def flag_mask_exp bit_or_iff bit_and_iff bit_not_iff bit_exp_iff
      simp del: power_numeral dest: bit_imp_le_length)

lemma flag_setter_bit:
  "bit (flags_set_carry v f) n \<longleftrightarrow> (if n = 0 then v else bit f n)"
  "bit (flags_set_subtract v f) n \<longleftrightarrow> (if n = 1 then v else bit f n)"
  "bit (flags_set_parity_overflow v f) n \<longleftrightarrow> (if n = 2 then v else bit f n)"
  "bit (flags_set_half_carry v f) n \<longleftrightarrow> (if n = 4 then v else bit f n)"
  "bit (flags_set_zero v f) n \<longleftrightarrow> (if n = 6 then v else bit f n)"
  "bit (flags_set_sign v f) n \<longleftrightarrow> (if n = 7 then v else bit f n)"
  by (simp_all only: flags_set_carry_def flags_set_subtract_def flags_set_parity_overflow_def
      flags_set_half_carry_def flags_set_zero_def flags_set_sign_def flag_mask_exp)
    (subst bit_flags_set_exp; simp)+

lemmas flag_bits = flag_getter_bit flag_setter_bit bit_flags_set_xy

section \<open>State\<close>

record z80_state =
  z_a :: u8
  z_flags :: z80_flags
  z_b :: u8
  z_c :: u8
  z_d :: u8
  z_e :: u8
  z_h :: u8
  z_l :: u8
  z_i :: u8
  z_r :: u8
  z_r_high :: u8
  z_af_alt :: u16
  z_bc_alt :: u16
  z_de_alt :: u16
  z_hl_alt :: u16
  z_ix :: u16
  z_iy :: u16
  z_sp :: u16
  z_pc :: u16
  z_wz :: u16
  z_iff1 :: bool
  z_iff2 :: bool
  z_im :: u8
  z_ei :: u8
  z_p :: u8
  z_q :: u8
  z_halted :: bool
  z_pending_irq :: u8
  z_q_latch :: bool

record 'b z80 = z80_state +
  z_clock_hz :: u32
  z_cycles_remaining :: int
  z_bus :: 'b

definition z80_state_default :: z80_state where
  "z80_state_default =
   \<lparr> z_a = 0, z_flags = 0, z_b = 0, z_c = 0, z_d = 0, z_e = 0, z_h = 0, z_l = 0,
     z_i = 0, z_r = 0, z_r_high = 0, z_af_alt = 0, z_bc_alt = 0, z_de_alt = 0, z_hl_alt = 0,
     z_ix = 0, z_iy = 0, z_sp = 0, z_pc = 0, z_wz = 0, z_iff1 = False, z_iff2 = False,
     z_im = 0, z_ei = 0, z_p = 0, z_q = 0, z_halted = False, z_pending_irq = 0,
     z_q_latch = False \<rparr>"

definition z80_af :: "'x z80_state_scheme \<Rightarrow> u16" where
  "z80_af s = le16 (z_flags s) (z_a s)"

definition z80_set_af :: "u16 \<Rightarrow> 'x z80_state_scheme \<Rightarrow> 'x z80_state_scheme" where
  "z80_set_af value s = s\<lparr>z_a := hi8 value, z_flags := lo8 value\<rparr>"

definition z80_bc :: "'x z80_state_scheme \<Rightarrow> u16" where
  "z80_bc s = le16 (z_c s) (z_b s)"

definition z80_set_bc :: "u16 \<Rightarrow> 'x z80_state_scheme \<Rightarrow> 'x z80_state_scheme" where
  "z80_set_bc value s = s\<lparr>z_b := hi8 value, z_c := lo8 value\<rparr>"

definition z80_de :: "'x z80_state_scheme \<Rightarrow> u16" where
  "z80_de s = le16 (z_e s) (z_d s)"

definition z80_set_de :: "u16 \<Rightarrow> 'x z80_state_scheme \<Rightarrow> 'x z80_state_scheme" where
  "z80_set_de value s = s\<lparr>z_d := hi8 value, z_e := lo8 value\<rparr>"

definition z80_hl :: "'x z80_state_scheme \<Rightarrow> u16" where
  "z80_hl s = le16 (z_l s) (z_h s)"

definition z80_set_hl :: "u16 \<Rightarrow> 'x z80_state_scheme \<Rightarrow> 'x z80_state_scheme" where
  "z80_set_hl value s = s\<lparr>z_h := hi8 value, z_l := lo8 value\<rparr>"

definition z80_r :: "'x z80_state_scheme \<Rightarrow> u8" where
  "z80_r s = z_r_high s OR (z_r s AND 0x7F)"

definition z80_set_r :: "u8 \<Rightarrow> 'x z80_state_scheme \<Rightarrow> 'x z80_state_scheme" where
  "z80_set_r value s = s\<lparr>z_r := value AND 0x7F, z_r_high := value AND 0x80\<rparr>"

definition z80_validate_state :: "'x z80_state_scheme \<Rightarrow> validation_error + unit" where
  "z80_validate_state s =
     (if z_r s > 0x7F \<or> z_r_high s AND 0x7F \<noteq> 0
      then Inl ''Z80 refresh register representation is invalid''
      else if z_im s > 2 \<or> z_ei s > 1 \<or> z_p s > 1
      then Inl ''Z80 interrupt or verification latch is invalid''
      else if z_pending_irq s AND NOT 0x03 \<noteq> 0
      then Inl ''Z80 pending interrupt mask is invalid''
      else Inr ())"

lemmas z80_pair_defs = z80_af_def z80_set_af_def z80_bc_def z80_set_bc_def z80_de_def
  z80_set_de_def z80_hl_def z80_set_hl_def

text \<open>A register pair reads back what was stored in it.\<close>

lemma z80_pairs_read_back [simp]:
  "z80_af (z80_set_af v s) = v" "z80_bc (z80_set_bc v s) = v"
  "z80_de (z80_set_de v s) = v" "z80_hl (z80_set_hl v s) = v"
  by (simp_all add: z80_pair_defs)

lemma z80_pairs_store_back [simp]:
  "z80_set_af (z80_af s) s = s" "z80_set_bc (z80_bc s) s = s"
  "z80_set_de (z80_de s) s = s" "z80_set_hl (z80_hl s) s = s"
  by (simp_all add: z80_pair_defs)

lemma z80_r_read_back: "z80_r (z80_set_r v s) = v"
  by (rule bit_word_eqI)
    (auto simp: z80_r_def z80_set_r_def bit_or_iff bit_and_iff bit_mask_iff less_Suc_eq
      eval_nat_numeral)

section \<open>Reset and restore\<close>

definition z80_reset :: "'b z80 \<Rightarrow> 'b z80" where
  "z80_reset s =
     (let s = z80_state.extend z80_state_default (z80_state.more s)
      in s\<lparr>z_clock_hz := max (z_clock_hz s) 1, z_halted := False, z_pending_irq := 0,
           z_q_latch := False\<rparr>)"

definition z80_new :: "u32 \<Rightarrow> 'b \<Rightarrow> 'b z80" where
  "z80_new clock_hz b =
     z80_reset (z80_state.extend z80_state_default
       (z80.fields clock_hz 0 b))"

definition z80_capture_state :: "'b z80 \<Rightarrow> z80_state" where
  "z80_capture_state s = z80_state.truncate s"

definition z80_load_state :: "z80_state \<Rightarrow> 'b z80 \<Rightarrow> 'b z80" where
  "z80_load_state st s = z80_state.extend st (z80_state.more s)"

definition z80_after_restore :: "'b z80 \<Rightarrow> 'b z80" where
  "z80_after_restore s = s\<lparr>z_cycles_remaining := 0\<rparr>"

definition z80_restore_state :: "z80_state \<Rightarrow> 'b z80 \<Rightarrow> (validation_error + unit) \<times> 'b z80" where
  "z80_restore_state = restore_root z80_validate_state z80_load_state z80_after_restore"

lemma z80_capture_load [simp]: "z80_capture_state (z80_load_state st s) = st"
  by (simp add: z80_capture_state_def z80_load_state_def z80_state.defs)

lemma z80_capture_after [simp]: "z80_capture_state (z80_after_restore s) = z80_capture_state s"
  by (simp add: z80_capture_state_def z80_after_restore_def z80_state.defs)

interpretation z80_target:
  restore_target z80_validate_state z80_load_state z80_after_restore z80_capture_state
  by unfold_locales simp_all

end
