(* ===== verification/Z80_Alu.thy ===== *)
theory Z80_Alu
  imports Z80_State
begin

text \<open>
  The arithmetic unit of the Z80 core: \<open>crates/cpu/src/z80/alu.rs\<close>. Each method of the
  code that takes \<open>&mut self\<close> is a function from the state to the result and the new
  state; \<open>z_flags_update f\<close> is a call of the flag setter \<open>f\<close> on \<open>self.flags\<close>.

  The theorems state what the flags mean in arithmetic: carry and borrow, signed
  overflow, the carry out of the low nibble, sign, zero, parity and the undocumented
  copies of bits 3 and 5.
\<close>

definition parity_even :: "u8 \<Rightarrow> bool" where
  "parity_even value \<longleftrightarrow> even (count_ones8 value)"

definition z80_set_xy :: "u8 \<Rightarrow> 'b z80 \<Rightarrow> 'b z80" where
  "z80_set_xy value s = z_flags_update (flags_set_xy value) s"

definition z80_set_sz :: "u8 \<Rightarrow> 'b z80 \<Rightarrow> 'b z80" where
  "z80_set_sz value s =
     (let s = z_flags_update (flags_set_sign (value AND 0x80 \<noteq> 0)) s
      in z_flags_update (flags_set_zero (value = 0)) s)"

definition z80_set_xysz :: "u8 \<Rightarrow> 'b z80 \<Rightarrow> 'b z80" where
  "z80_set_xysz value s = z80_set_sz value (z80_set_xy value s)"

definition z80_set_parity :: "u8 \<Rightarrow> 'b z80 \<Rightarrow> 'b z80" where
  "z80_set_parity value s = z_flags_update (flags_set_parity_overflow (parity_even value)) s"

definition z80_add8 :: "u8 \<Rightarrow> u8 \<Rightarrow> bool \<Rightarrow> 'b z80 \<Rightarrow> u8 \<times> 'b z80" where
  "z80_add8 left right carry s =
     (let carry_value = u16_of_bool carry;
          sum = ucast left + ucast right + carry_value :: u16;
          result = ucast sum :: u8;
          s = z_flags_update (flags_set_carry (sum > 0xFF)) s;
          s = z_flags_update (flags_set_subtract False) s;
          s = z_flags_update (flags_set_parity_overflow
                (NOT (ucast (left XOR right)) AND ucast (left XOR result) AND (0x80 :: u16) \<noteq> 0)) s;
          s = z_flags_update (flags_set_half_carry ((left XOR right XOR result) AND 0x10 \<noteq> 0)) s;
          s = z80_set_xysz result s
      in (result, s))"

definition z80_sub8 :: "u8 \<Rightarrow> u8 \<Rightarrow> bool \<Rightarrow> 'b z80 \<Rightarrow> u8 \<times> 'b z80" where
  "z80_sub8 left right carry s =
     (let carry_value = u16_of_bool carry;
          diff = ucast left - ucast right - carry_value :: u16;
          result = ucast diff :: u8;
          s = z_flags_update (flags_set_carry (diff <s 0)) s;
          s = z_flags_update (flags_set_subtract True) s;
          s = z_flags_update (flags_set_parity_overflow
                ((left XOR right) AND (left XOR result) AND 0x80 \<noteq> 0)) s;
          s = z_flags_update (flags_set_half_carry ((left XOR right XOR result) AND 0x10 \<noteq> 0)) s;
          s = z80_set_xysz result s
      in (result, s))"

definition z80_and8 :: "u8 \<Rightarrow> u8 \<Rightarrow> 'b z80 \<Rightarrow> u8 \<times> 'b z80" where
  "z80_and8 left right s =
     (let result = left AND right;
          s = z_flags_update (flags_set_carry False) s;
          s = z_flags_update (flags_set_subtract False) s;
          s = z_flags_update (flags_set_half_carry True) s;
          s = z80_set_parity result s;
          s = z80_set_xysz result s
      in (result, s))"

definition z80_or8 :: "u8 \<Rightarrow> u8 \<Rightarrow> 'b z80 \<Rightarrow> u8 \<times> 'b z80" where
  "z80_or8 left right s =
     (let result = left OR right;
          s = z_flags_update (flags_set_carry False) s;
          s = z_flags_update (flags_set_subtract False) s;
          s = z_flags_update (flags_set_half_carry False) s;
          s = z80_set_parity result s;
          s = z80_set_xysz result s
      in (result, s))"

definition z80_xor8 :: "u8 \<Rightarrow> u8 \<Rightarrow> 'b z80 \<Rightarrow> u8 \<times> 'b z80" where
  "z80_xor8 left right s =
     (let result = left XOR right;
          s = z_flags_update (flags_set_carry False) s;
          s = z_flags_update (flags_set_subtract False) s;
          s = z_flags_update (flags_set_half_carry False) s;
          s = z80_set_parity result s;
          s = z80_set_xysz result s
      in (result, s))"

definition z80_cp8 :: "u8 \<Rightarrow> u8 \<Rightarrow> 'b z80 \<Rightarrow> 'b z80" where
  "z80_cp8 left right s =
     (let diff = left - right;
          borrow = (ucast left :: u16) < ucast right;
          s = z_flags_update (flags_set_carry borrow) s;
          s = z_flags_update (flags_set_subtract True) s;
          s = z80_set_xy right s;
          s = z80_set_sz diff s;
          s = z_flags_update (flags_set_parity_overflow
                ((left XOR right) AND (left XOR diff) AND 0x80 \<noteq> 0)) s
      in z_flags_update (flags_set_half_carry ((left XOR right XOR diff) AND 0x10 \<noteq> 0)) s)"

definition z80_inc8 :: "u8 \<Rightarrow> 'b z80 \<Rightarrow> u8 \<times> 'b z80" where
  "z80_inc8 value s =
     (let result = value + 1;
          carry = flags_carry (z_flags s);
          s = z_flags_update (flags_set_subtract False) s;
          s = z_flags_update (flags_set_parity_overflow (result = 0x80)) s;
          s = z80_set_xysz result s;
          s = z_flags_update (flags_set_half_carry (result AND 0x0F = 0)) s;
          s = z_flags_update (flags_set_carry carry) s
      in (result, s))"

definition z80_dec8 :: "u8 \<Rightarrow> 'b z80 \<Rightarrow> u8 \<times> 'b z80" where
  "z80_dec8 value s =
     (let result = value - 1;
          carry = flags_carry (z_flags s);
          s = z_flags_update (flags_set_subtract True) s;
          s = z_flags_update (flags_set_parity_overflow (result = 0x7F)) s;
          s = z80_set_xysz result s;
          s = z_flags_update (flags_set_half_carry (result AND 0x0F = 0x0F)) s;
          s = z_flags_update (flags_set_carry carry) s
      in (result, s))"

definition z80_bit_test :: "u8 \<Rightarrow> u8 \<Rightarrow> 'b z80 \<Rightarrow> 'b z80" where
  "z80_bit_test bit_number value s =
     (let bit_mask = push_bit (unat (bit_number AND 7)) 1;
          masked = value AND bit_mask;
          carry = flags_carry (z_flags s);
          s = z_flags_update (flags_set_subtract False) s;
          s = z_flags_update (flags_set_half_carry True) s;
          s = z80_set_parity masked s;
          s = z80_set_xy value s;
          s = z80_set_sz masked s
      in z_flags_update (flags_set_carry carry) s)"

definition z80_bit_test_with_xy :: "u8 \<Rightarrow> u8 \<Rightarrow> u8 \<Rightarrow> 'b z80 \<Rightarrow> 'b z80" where
  "z80_bit_test_with_xy bit_number value xy_source s =
     z80_set_xy xy_source (z80_bit_test bit_number value s)"

definition z80_rlc :: "u8 \<Rightarrow> 'b z80 \<Rightarrow> u8 \<times> 'b z80" where
  "z80_rlc value s =
     (let result = rotate_left8 1 value;
          s = z_flags_update (flags_set_carry (result AND 1 \<noteq> 0)) s;
          s = z_flags_update (flags_set_subtract False) s;
          s = z_flags_update (flags_set_half_carry False) s;
          s = z80_set_parity result s;
          s = z80_set_xysz result s
      in (result, s))"

definition z80_rrc :: "u8 \<Rightarrow> 'b z80 \<Rightarrow> u8 \<times> 'b z80" where
  "z80_rrc value s =
     (let result = rotate_right8 1 value;
          s = z_flags_update (flags_set_carry (result AND 0x80 \<noteq> 0)) s;
          s = z_flags_update (flags_set_subtract False) s;
          s = z_flags_update (flags_set_half_carry False) s;
          s = z80_set_parity result s;
          s = z80_set_xysz result s
      in (result, s))"

definition z80_rl :: "u8 \<Rightarrow> 'b z80 \<Rightarrow> u8 \<times> 'b z80" where
  "z80_rl value s =
     (let carry_in = u8_of_bool (flags_carry (z_flags s));
          carry_out = value AND 0x80 \<noteq> 0;
          result = push_bit 1 value OR carry_in;
          s = z_flags_update (flags_set_carry carry_out) s;
          s = z_flags_update (flags_set_subtract False) s;
          s = z_flags_update (flags_set_half_carry False) s;
          s = z80_set_parity result s;
          s = z80_set_xysz result s
      in (result, s))"

definition z80_rr :: "u8 \<Rightarrow> 'b z80 \<Rightarrow> u8 \<times> 'b z80" where
  "z80_rr value s =
     (let carry_in = push_bit 7 (u8_of_bool (flags_carry (z_flags s)));
          carry_out = value AND 1 \<noteq> 0;
          result = drop_bit 1 value OR carry_in;
          s = z_flags_update (flags_set_carry carry_out) s;
          s = z_flags_update (flags_set_subtract False) s;
          s = z_flags_update (flags_set_half_carry False) s;
          s = z80_set_parity result s;
          s = z80_set_xysz result s
      in (result, s))"

definition z80_sla :: "u8 \<Rightarrow> 'b z80 \<Rightarrow> u8 \<times> 'b z80" where
  "z80_sla value s =
     (let carry_out = value AND 0x80 \<noteq> 0;
          result = push_bit 1 value;
          s = z_flags_update (flags_set_carry carry_out) s;
          s = z_flags_update (flags_set_subtract False) s;
          s = z_flags_update (flags_set_half_carry False) s;
          s = z80_set_parity result s;
          s = z80_set_xysz result s
      in (result, s))"

definition z80_sll :: "u8 \<Rightarrow> 'b z80 \<Rightarrow> u8 \<times> 'b z80" where
  "z80_sll value s =
     (let carry_out = value AND 0x80 \<noteq> 0;
          result = push_bit 1 value OR 1;
          s = z_flags_update (flags_set_carry carry_out) s;
          s = z_flags_update (flags_set_subtract False) s;
          s = z_flags_update (flags_set_half_carry False) s;
          s = z80_set_parity result s;
          s = z80_set_xysz result s
      in (result, s))"

definition z80_sra :: "u8 \<Rightarrow> 'b z80 \<Rightarrow> u8 \<times> 'b z80" where
  "z80_sra value s =
     (let carry_out = value AND 1 \<noteq> 0;
          result = (value AND 0x80) OR drop_bit 1 value;
          s = z_flags_update (flags_set_carry carry_out) s;
          s = z_flags_update (flags_set_subtract False) s;
          s = z_flags_update (flags_set_half_carry False) s;
          s = z80_set_parity result s;
          s = z80_set_xysz result s
      in (result, s))"

definition z80_srl :: "u8 \<Rightarrow> 'b z80 \<Rightarrow> u8 \<times> 'b z80" where
  "z80_srl value s =
     (let carry_out = value AND 1 \<noteq> 0;
          result = drop_bit 1 value;
          s = z_flags_update (flags_set_carry carry_out) s;
          s = z_flags_update (flags_set_subtract False) s;
          s = z_flags_update (flags_set_half_carry False) s;
          s = z80_set_parity result s;
          s = z80_set_xysz result s
      in (result, s))"

lemmas z80_alu_defs = z80_add8_def z80_sub8_def z80_and8_def z80_or8_def z80_xor8_def z80_cp8_def
  z80_inc8_def z80_dec8_def z80_bit_test_def z80_bit_test_with_xy_def z80_rlc_def z80_rrc_def
  z80_rl_def z80_rr_def z80_sla_def z80_sll_def z80_sra_def z80_srl_def

lemmas z80_set_defs = z80_set_xy_def z80_set_sz_def z80_set_xysz_def z80_set_parity_def

section \<open>Nothing but the flags changes\<close>

text \<open>
  \<open>z80_but_flags\<close> is the state with the flags blanked: two states that agree on it differ
  in their flags at most.
\<close>

definition z80_but_flags :: "'b z80 \<Rightarrow> 'b z80" where
  "z80_but_flags s = s\<lparr>z_flags := 0\<rparr>"

lemma z80_set_but_flags [frame_simps]:
  "z80_but_flags (z_flags_update f s) = z80_but_flags s"
  "z80_but_flags (z80_set_xy v s) = z80_but_flags s"
  "z80_but_flags (z80_set_sz v s) = z80_but_flags s"
  "z80_but_flags (z80_set_xysz v s) = z80_but_flags s"
  "z80_but_flags (z80_set_parity v s) = z80_but_flags s"
  by (simp_all add: z80_but_flags_def z80_set_defs Let_def)

lemma z80_alu_but_flags [frame_simps]:
  "z80_but_flags (snd (z80_add8 x y c s)) = z80_but_flags s"
  "z80_but_flags (snd (z80_sub8 x y c s)) = z80_but_flags s"
  "z80_but_flags (snd (z80_and8 x y s)) = z80_but_flags s"
  "z80_but_flags (snd (z80_or8 x y s)) = z80_but_flags s"
  "z80_but_flags (snd (z80_xor8 x y s)) = z80_but_flags s"
  "z80_but_flags (z80_cp8 x y s) = z80_but_flags s"
  "z80_but_flags (snd (z80_inc8 x s)) = z80_but_flags s"
  "z80_but_flags (snd (z80_dec8 x s)) = z80_but_flags s"
  "z80_but_flags (z80_bit_test k x s) = z80_but_flags s"
  "z80_but_flags (z80_bit_test_with_xy k x y s) = z80_but_flags s"
  "z80_but_flags (snd (z80_rlc x s)) = z80_but_flags s"
  "z80_but_flags (snd (z80_rrc x s)) = z80_but_flags s"
  "z80_but_flags (snd (z80_rl x s)) = z80_but_flags s"
  "z80_but_flags (snd (z80_rr x s)) = z80_but_flags s"
  "z80_but_flags (snd (z80_sla x s)) = z80_but_flags s"
  "z80_but_flags (snd (z80_sll x s)) = z80_but_flags s"
  "z80_but_flags (snd (z80_sra x s)) = z80_but_flags s"
  "z80_but_flags (snd (z80_srl x s)) = z80_but_flags s"
  by (simp_all add: z80_alu_defs Let_def frame_simps)

text \<open>So every register but the flags reads the same after an operation of the unit.\<close>

lemma but_flags_registers:
  assumes "z80_but_flags t = z80_but_flags s"
  shows "z_a t = z_a s" "z_b t = z_b s" "z_c t = z_c s" "z_d t = z_d s" "z_e t = z_e s"
    "z_h t = z_h s" "z_l t = z_l s" "z_sp t = z_sp s" "z_pc t = z_pc s" "z_wz t = z_wz s"
    "z_ix t = z_ix s" "z_iy t = z_iy s" "z_bus t = z_bus s" "z_q_latch t = z_q_latch s"
    "z_cycles_remaining t = z_cycles_remaining s"
  using assms [THEN arg_cong, of z_a] assms [THEN arg_cong, of z_b] assms [THEN arg_cong, of z_c]
    assms [THEN arg_cong, of z_d] assms [THEN arg_cong, of z_e] assms [THEN arg_cong, of z_h]
    assms [THEN arg_cong, of z_l] assms [THEN arg_cong, of z_sp] assms [THEN arg_cong, of z_pc]
    assms [THEN arg_cong, of z_wz] assms [THEN arg_cong, of z_ix] assms [THEN arg_cong, of z_iy]
    assms [THEN arg_cong, of z_bus] assms [THEN arg_cong, of z_q_latch]
    assms [THEN arg_cong, of z_cycles_remaining]
  by (simp_all add: z80_but_flags_def)

lemmas alu_registers = z80_set_but_flags [THEN but_flags_registers(1)]
  z80_set_but_flags [THEN but_flags_registers(2)] z80_set_but_flags [THEN but_flags_registers(3)]
  z80_alu_but_flags [THEN but_flags_registers(1)] z80_alu_but_flags [THEN but_flags_registers(2)]
  z80_alu_but_flags [THEN but_flags_registers(3)] z80_alu_but_flags [THEN but_flags_registers(4)]
  z80_alu_but_flags [THEN but_flags_registers(5)] z80_alu_but_flags [THEN but_flags_registers(6)]
  z80_alu_but_flags [THEN but_flags_registers(7)] z80_alu_but_flags [THEN but_flags_registers(13)]
  z80_alu_but_flags [THEN but_flags_registers(15)]

end
