(* ===== verification/Z80_Access.thy ===== *)
theory Z80_Access
  imports Z80_Alu
begin

text \<open>
  What the instructions of the Z80 core are made of: the clocked bus accesses and the
  stack of \<open>crates/cpu/src/z80.rs\<close>, and the register selectors of \<open>execute_xy.rs\<close>. A
  method that takes the bus takes the dictionary \<open>io\<close>; the bus state is the field
  \<open>z_bus\<close>.
\<close>

datatype index_mode = HL | IX | IY

section \<open>Clocked accesses\<close>

definition z80_clk :: "int \<Rightarrow> 'b z80 \<Rightarrow> 'b z80" where
  "z80_clk cycles s = s\<lparr>z_cycles_remaining := z_cycles_remaining s - cycles\<rparr>"

definition z80_increment_r :: "'b z80 \<Rightarrow> 'b z80" where
  "z80_increment_r s =
     (let s = s\<lparr>z_r := (z_r_high s AND 0x80) OR ((z_r s + 1) AND 0x7F)\<rparr>;
          s = s\<lparr>z_r_high := z_r_high s AND 0x80\<rparr>
      in s\<lparr>z_r := z_r s AND 0x7F\<rparr>)"

definition z80_read_byte :: "'b bus_ops \<Rightarrow> u16 \<Rightarrow> 'b z80 \<Rightarrow> u8 \<times> 'b z80" where
  "z80_read_byte io address s =
     (let (value, b) = bus_read_byte io (ucast address) (z_bus s);
          s = s\<lparr>z_bus := b\<rparr>
      in (value, z80_clk 3 s))"

definition z80_write_byte :: "'b bus_ops \<Rightarrow> u16 \<Rightarrow> u8 \<Rightarrow> 'b z80 \<Rightarrow> 'b z80" where
  "z80_write_byte io address value s =
     z80_clk 3 (s\<lparr>z_bus := bus_write_byte io (ucast address) value (z_bus s)\<rparr>)"

definition z80_fetch_u8 :: "'b bus_ops \<Rightarrow> 'b z80 \<Rightarrow> u8 \<times> 'b z80" where
  "z80_fetch_u8 io s =
     (let (value, b) = bus_read_byte io (ucast (z_pc s)) (z_bus s);
          s = s\<lparr>z_bus := b\<rparr>;
          s = s\<lparr>z_pc := z_pc s + 1\<rparr>
      in (value, z80_clk 3 s))"

definition z80_fetch_u16 :: "'b bus_ops \<Rightarrow> 'b z80 \<Rightarrow> u16 \<times> 'b z80" where
  "z80_fetch_u16 io s =
     (let (low, s) = z80_fetch_u8 io s;
          (high, s) = z80_fetch_u8 io s
      in (le16 low high, s))"

definition z80_fetch_m1 :: "'b bus_ops \<Rightarrow> 'b z80 \<Rightarrow> u8 \<times> 'b z80" where
  "z80_fetch_m1 io s =
     (let (value, b) = bus_fetch_opcode_byte io (ucast (z_pc s)) (z_bus s);
          s = s\<lparr>z_bus := b\<rparr>;
          s = s\<lparr>z_pc := z_pc s + 1\<rparr>;
          s = z80_increment_r s
      in (value, z80_clk 4 s))"

definition z80_read_port :: "'b bus_ops \<Rightarrow> u16 \<Rightarrow> 'b z80 \<Rightarrow> u8 \<times> 'b z80" where
  "z80_read_port io port s =
     (let (value, b) = bus_io_read_byte io port (z_bus s);
          s = s\<lparr>z_bus := b\<rparr>
      in (value, z80_clk 4 s))"

definition z80_write_port :: "'b bus_ops \<Rightarrow> u16 \<Rightarrow> u8 \<Rightarrow> 'b z80 \<Rightarrow> 'b z80" where
  "z80_write_port io port value s =
     z80_clk 4 (s\<lparr>z_bus := bus_io_write_byte io port value (z_bus s)\<rparr>)"

definition z80_push :: "'b bus_ops \<Rightarrow> u16 \<Rightarrow> 'b z80 \<Rightarrow> 'b z80" where
  "z80_push io value s =
     (let s = s\<lparr>z_sp := z_sp s - 1\<rparr>;
          s = z80_write_byte io (z_sp s) (hi8 value) s;
          s = s\<lparr>z_sp := z_sp s - 1\<rparr>
      in z80_write_byte io (z_sp s) (lo8 value) s)"

definition z80_pop :: "'b bus_ops \<Rightarrow> 'b z80 \<Rightarrow> u16 \<times> 'b z80" where
  "z80_pop io s =
     (let (low, s) = z80_read_byte io (z_sp s) s;
          s = s\<lparr>z_sp := z_sp s + 1\<rparr>;
          (high, s) = z80_read_byte io (z_sp s) s;
          s = s\<lparr>z_sp := z_sp s + 1\<rparr>
      in (le16 low high, s))"

definition z80_set_q_latch :: "bool \<Rightarrow> 'b z80 \<Rightarrow> 'b z80" where
  "z80_set_q_latch value s = s\<lparr>z_q_latch := value\<rparr>"

definition z80_finish_q :: "'b z80 \<Rightarrow> 'b z80" where
  "z80_finish_q s = s\<lparr>z_q := (if z_q_latch s then z_flags s else 0)\<rparr>"

section \<open>Register selectors\<close>

definition z80_current_hl :: "index_mode \<Rightarrow> 'b z80 \<Rightarrow> u16" where
  "z80_current_hl mode s = (case mode of HL \<Rightarrow> z80_hl s | IX \<Rightarrow> z_ix s | IY \<Rightarrow> z_iy s)"

definition z80_set_current_hl :: "index_mode \<Rightarrow> u16 \<Rightarrow> 'b z80 \<Rightarrow> 'b z80" where
  "z80_set_current_hl mode value s =
     (case mode of HL \<Rightarrow> z80_set_hl value s | IX \<Rightarrow> s\<lparr>z_ix := value\<rparr> | IY \<Rightarrow> s\<lparr>z_iy := value\<rparr>)"

definition z80_read_pair :: "u8 \<Rightarrow> index_mode \<Rightarrow> 'b z80 \<Rightarrow> u16" where
  "z80_read_pair pair mode s =
     (let k = pair AND 3 in
      if k = 0 then z80_bc s
      else if k = 1 then z80_de s
      else if k = 2 then z80_current_hl mode s
      else z_sp s)"

definition z80_write_pair :: "u8 \<Rightarrow> index_mode \<Rightarrow> u16 \<Rightarrow> 'b z80 \<Rightarrow> 'b z80" where
  "z80_write_pair pair mode value s =
     (let k = pair AND 3 in
      if k = 0 then z80_set_bc value s
      else if k = 1 then z80_set_de value s
      else if k = 2 then z80_set_current_hl mode value s
      else s\<lparr>z_sp := value\<rparr>)"

definition z80_read_pair2 :: "u8 \<Rightarrow> index_mode \<Rightarrow> 'b z80 \<Rightarrow> u16" where
  "z80_read_pair2 pair mode s =
     (let k = pair AND 3 in
      if k = 0 then z80_bc s
      else if k = 1 then z80_de s
      else if k = 2 then z80_current_hl mode s
      else z80_af s)"

definition z80_write_pair2 :: "u8 \<Rightarrow> index_mode \<Rightarrow> u16 \<Rightarrow> 'b z80 \<Rightarrow> 'b z80" where
  "z80_write_pair2 pair mode value s =
     (let k = pair AND 3 in
      if k = 0 then z80_set_bc value s
      else if k = 1 then z80_set_de value s
      else if k = 2 then z80_set_current_hl mode value s
      else z80_set_af value s)"

text \<open>Selector 6 is memory, for which the code has \<open>unreachable!\<close> here.\<close>

definition z80_read_reg8_plain :: "u8 \<Rightarrow> index_mode \<Rightarrow> 'b z80 \<Rightarrow> u8 option" where
  "z80_read_reg8_plain reg mode s =
     (let k = reg AND 7 in
      if k = 0 then Some (z_b s)
      else if k = 1 then Some (z_c s)
      else if k = 2 then Some (z_d s)
      else if k = 3 then Some (z_e s)
      else if k = 4 then
        Some (case mode of HL \<Rightarrow> z_h s | IX \<Rightarrow> hi8 (z_ix s) | IY \<Rightarrow> hi8 (z_iy s))
      else if k = 5 then
        Some (case mode of HL \<Rightarrow> z_l s | IX \<Rightarrow> lo8 (z_ix s) | IY \<Rightarrow> lo8 (z_iy s))
      else if k = 7 then Some (z_a s)
      else None)"

definition z80_write_reg8_plain :: "u8 \<Rightarrow> index_mode \<Rightarrow> u8 \<Rightarrow> 'b z80 \<Rightarrow> 'b z80" where
  "z80_write_reg8_plain reg mode value s =
     (let k = reg AND 7 in
      if k = 0 then s\<lparr>z_b := value\<rparr>
      else if k = 1 then s\<lparr>z_c := value\<rparr>
      else if k = 2 then s\<lparr>z_d := value\<rparr>
      else if k = 3 then s\<lparr>z_e := value\<rparr>
      else if k = 4 then
        (case mode of
           HL \<Rightarrow> s\<lparr>z_h := value\<rparr>
         | IX \<Rightarrow> s\<lparr>z_ix := le16 (lo8 (z_ix s)) value\<rparr>
         | IY \<Rightarrow> s\<lparr>z_iy := le16 (lo8 (z_iy s)) value\<rparr>)
      else if k = 5 then
        (case mode of
           HL \<Rightarrow> s\<lparr>z_l := value\<rparr>
         | IX \<Rightarrow> s\<lparr>z_ix := (z_ix s AND 0xFF00) OR ucast value\<rparr>
         | IY \<Rightarrow> s\<lparr>z_iy := (z_iy s AND 0xFF00) OR ucast value\<rparr>)
      else if k = 7 then s\<lparr>z_a := value\<rparr>
      else s)"

definition z80_fetch_indexed_addr :: "'b bus_ops \<Rightarrow> index_mode \<Rightarrow> 'b z80 \<Rightarrow> u16 \<times> 'b z80" where
  "z80_fetch_indexed_addr io mode s =
     (case mode of
        HL \<Rightarrow> (z80_hl s, s)
      | _ \<Rightarrow>
          (let (displacement, s) = z80_fetch_u8 io s;
               address = add_signed8 (z80_current_hl mode s) displacement;
               s = s\<lparr>z_wz := address\<rparr>;
               s = z80_clk 5 s
           in (address, s)))"

definition z80_read_condition :: "u8 \<Rightarrow> 'b z80 \<Rightarrow> bool" where
  "z80_read_condition condition s =
     (let k = condition AND 7 in
      if k = 0 then \<not> flags_zero (z_flags s)
      else if k = 1 then flags_zero (z_flags s)
      else if k = 2 then \<not> flags_carry (z_flags s)
      else if k = 3 then flags_carry (z_flags s)
      else if k = 4 then \<not> flags_parity_overflow (z_flags s)
      else if k = 5 then flags_parity_overflow (z_flags s)
      else if k = 6 then \<not> flags_sign (z_flags s)
      else flags_sign (z_flags s))"

definition z80_exchange_de_with_hl :: "index_mode \<Rightarrow> 'b z80 \<Rightarrow> 'b z80" where
  "z80_exchange_de_with_hl mode s =
     (let current = z80_current_hl mode s;
          s = z80_set_current_hl mode (z80_de s) s
      in z80_set_de current s)"

definition z80_exchange_af :: "'b z80 \<Rightarrow> 'b z80" where
  "z80_exchange_af s =
     (let current = z80_af s;
          s = z80_set_af (z_af_alt s) s
      in s\<lparr>z_af_alt := current\<rparr>)"

definition z80_exchange_shadow :: "'b z80 \<Rightarrow> 'b z80" where
  "z80_exchange_shadow s =
     (let current_bc = z80_bc s;
          current_de = z80_de s;
          current_hl = z80_hl s;
          s = z80_set_bc (z_bc_alt s) s;
          s = z80_set_de (z_de_alt s) s;
          s = z80_set_hl (z_hl_alt s) s
      in s\<lparr>z_bc_alt := current_bc, z_de_alt := current_de, z_hl_alt := current_hl\<rparr>)"

text \<open>
  Operands that are a register or memory (\<open>execute.rs\<close>). The \<open>expect\<close> on a missing
  indexed address is \<open>None\<close>.
\<close>

definition z80_operand_address :: "index_mode \<Rightarrow> u16 option \<Rightarrow> 'b z80 \<Rightarrow> u16 option" where
  "z80_operand_address mode indexed_address s =
     (if mode = HL then Some (z80_hl s) else indexed_address)"

definition z80_read_reg8_or_mem ::
  "'b bus_ops \<Rightarrow> u8 \<Rightarrow> index_mode \<Rightarrow> u16 option \<Rightarrow> 'b z80 \<Rightarrow> (u8 \<times> 'b z80) option" where
  "z80_read_reg8_or_mem io reg mode indexed_address s =
     (if reg AND 7 = 6 then
        do { address \<leftarrow> z80_operand_address mode indexed_address s;
             Some (z80_read_byte io address s) }
      else
        (let register_mode = (if indexed_address \<noteq> None then HL else mode) in
         do { value \<leftarrow> z80_read_reg8_plain reg register_mode s;
              Some (value, s) }))"

definition z80_write_reg8_or_mem ::
  "'b bus_ops \<Rightarrow> u8 \<Rightarrow> index_mode \<Rightarrow> u16 option \<Rightarrow> u8 \<Rightarrow> 'b z80 \<Rightarrow> 'b z80 option" where
  "z80_write_reg8_or_mem io reg mode indexed_address value s =
     (if reg AND 7 = 6 then
        do { address \<leftarrow> z80_operand_address mode indexed_address s;
             Some (z80_write_byte io address value s) }
      else
        (let register_mode = (if indexed_address \<noteq> None then HL else mode) in
         Some (z80_write_reg8_plain reg register_mode value s)))"

end
