(* ===== verification/Z80_Base.thy ===== *)
theory Z80_Base
  imports Z80_Access
begin

text \<open>
  The unprefixed instructions of the Z80 core, \<open>crates/cpu/src/z80/execute.rs\<close>. An
  opcode is decoded as the code does, into \<open>x = opcode >> 6\<close>, \<open>y = (opcode >> 3) & 7\<close>,
  \<open>z = opcode & 7\<close>, \<open>p = y >> 1\<close> and \<open>q = y & 1\<close>; the big \<open>match\<close> of \<open>execute_base\<close>
  is split into one function per value of \<open>x\<close> and, inside, per group of instructions.
  \<open>None\<close> is a panic: the \<open>unreachable!\<close> for the prefix bytes, and the ones of the
  register selectors.
\<close>

section \<open>Single instructions\<close>

definition z80_preserve_szp :: "'b z80 \<Rightarrow> z80_flags" where
  "z80_preserve_szp s = z_flags s AND (FLAG_SIGN OR FLAG_ZERO OR FLAG_PARITY_OVERFLOW)"

definition z80_add_hl_rr :: "index_mode \<Rightarrow> u8 \<Rightarrow> 'b z80 \<Rightarrow> 'b z80" where
  "z80_add_hl_rr mode pair s =
     (let s = z80_set_q_latch True s;
          left = z80_current_hl mode s;
          right = z80_read_pair pair mode s;
          preserve = z80_preserve_szp s;
          result = left + right;
          s = s\<lparr>z_wz := left + 1\<rparr>;
          s = s\<lparr>z_flags := preserve\<rparr>;
          s = z_flags_update (flags_set_subtract False) s;
          s = z_flags_update (flags_set_half_carry ((left XOR right XOR result) AND 0x1000 \<noteq> 0)) s;
          s = z_flags_update (flags_set_carry ((ucast left :: u32) + ucast right > 0xFFFF)) s;
          s = z80_set_xy (hi8 result) s;
          s = z80_set_current_hl mode result s
      in z80_clk 7 s)"

definition z80_daa :: "'b z80 \<Rightarrow> 'b z80" where
  "z80_daa s =
     (let s = z80_set_q_latch True s;
          before = z_a s;
          s = (if flags_carry (z_flags s) \<or> z_a s > 0x99 then
                 (let s = s\<lparr>z_a := (if flags_subtract (z_flags s) then z_a s - 0x60
                                  else z_a s + 0x60)\<rparr>
                  in z_flags_update (flags_set_carry True) s)
               else s);
          s = (if flags_half_carry (z_flags s) \<or> (z_a s AND 0x0F) > 0x09 then
                 s\<lparr>z_a := (if flags_subtract (z_flags s) then z_a s - 0x06 else z_a s + 0x06)\<rparr>
               else s);
          s = z80_set_parity (z_a s) s;
          s = z80_set_xysz (z_a s) s;
          half_carry = (z_a s XOR before) AND 0x10 \<noteq> 0
      in z_flags_update (flags_set_half_carry half_carry) s)"

definition z80_rotate_a_left_circular :: "'b z80 \<Rightarrow> 'b z80" where
  "z80_rotate_a_left_circular s =
     (let s = z80_set_q_latch True s;
          preserve = z80_preserve_szp s;
          carry = z_a s AND 0x80 \<noteq> 0;
          s = s\<lparr>z_a := rotate_left8 1 (z_a s)\<rparr>;
          s = s\<lparr>z_flags := preserve\<rparr>;
          s = z_flags_update (flags_set_carry carry) s;
          s = z_flags_update (flags_set_subtract False) s;
          s = z_flags_update (flags_set_half_carry False) s
      in z80_set_xy (z_a s) s)"

definition z80_rotate_a_right_circular :: "'b z80 \<Rightarrow> 'b z80" where
  "z80_rotate_a_right_circular s =
     (let s = z80_set_q_latch True s;
          preserve = z80_preserve_szp s;
          carry = z_a s AND 1 \<noteq> 0;
          s = s\<lparr>z_a := rotate_right8 1 (z_a s)\<rparr>;
          s = s\<lparr>z_flags := preserve\<rparr>;
          s = z_flags_update (flags_set_carry carry) s;
          s = z_flags_update (flags_set_subtract False) s;
          s = z_flags_update (flags_set_half_carry False) s
      in z80_set_xy (z_a s) s)"

definition z80_rotate_a_left_through_carry :: "'b z80 \<Rightarrow> 'b z80" where
  "z80_rotate_a_left_through_carry s =
     (let s = z80_set_q_latch True s;
          preserve = z80_preserve_szp s;
          carry = z_a s AND 0x80 \<noteq> 0;
          s = s\<lparr>z_a := push_bit 1 (z_a s) OR u8_of_bool (flags_carry (z_flags s))\<rparr>;
          s = s\<lparr>z_flags := preserve\<rparr>;
          s = z_flags_update (flags_set_carry carry) s;
          s = z_flags_update (flags_set_subtract False) s;
          s = z_flags_update (flags_set_half_carry False) s
      in z80_set_xy (z_a s) s)"

definition z80_rotate_a_right_through_carry :: "'b z80 \<Rightarrow> 'b z80" where
  "z80_rotate_a_right_through_carry s =
     (let s = z80_set_q_latch True s;
          preserve = z80_preserve_szp s;
          carry = z_a s AND 1 \<noteq> 0;
          s = s\<lparr>z_a := push_bit 7 (u8_of_bool (flags_carry (z_flags s))) OR drop_bit 1 (z_a s)\<rparr>;
          s = s\<lparr>z_flags := preserve\<rparr>;
          s = z_flags_update (flags_set_carry carry) s;
          s = z_flags_update (flags_set_subtract False) s;
          s = z_flags_update (flags_set_half_carry False) s
      in z80_set_xy (z_a s) s)"

definition z80_cpl :: "'b z80 \<Rightarrow> 'b z80" where
  "z80_cpl s =
     (let s = z80_set_q_latch True s;
          s = s\<lparr>z_a := z_a s XOR 0xFF\<rparr>;
          s = z_flags_update (flags_set_subtract True) s;
          s = z_flags_update (flags_set_half_carry True) s
      in z80_set_xy (z_a s) s)"

definition z80_scf :: "bool \<Rightarrow> 'b z80 \<Rightarrow> 'b z80" where
  "z80_scf xy_prefixed s =
     (let s = (if z_q s \<noteq> 0 \<and> \<not> xy_prefixed then z_flags_update (flags_set_xy 0) s else s);
          s = z_flags_update (flags_set_carry True) s;
          s = z_flags_update (flags_set_subtract False) s;
          s = z_flags_update (flags_set_half_carry False) s;
          xy = (z_flags s OR z_a s) AND (FLAG_X OR FLAG_Y);
          f = z_flags s;
          s = s\<lparr>z_flags := (f AND NOT (FLAG_X OR FLAG_Y)) OR xy\<rparr>
      in z80_set_q_latch True s)"

definition z80_ccf :: "bool \<Rightarrow> 'b z80 \<Rightarrow> 'b z80" where
  "z80_ccf xy_prefixed s =
     (let s = (if z_q s \<noteq> 0 \<and> \<not> xy_prefixed then z_flags_update (flags_set_xy 0) s else s);
          carry = flags_carry (z_flags s);
          s = z_flags_update (flags_set_half_carry carry) s;
          s = z_flags_update (flags_set_carry (\<not> carry)) s;
          s = z_flags_update (flags_set_subtract False) s;
          xy = (z_flags s OR z_a s) AND (FLAG_X OR FLAG_Y);
          f = z_flags s;
          s = s\<lparr>z_flags := (f AND NOT (FLAG_X OR FLAG_Y)) OR xy\<rparr>
      in z80_set_q_latch True s)"

definition z80_jump_relative :: "u8 \<Rightarrow> 'b z80 \<Rightarrow> 'b z80" where
  "z80_jump_relative displacement s =
     (let s = z80_clk 5 s;
          s = s\<lparr>z_wz := add_signed8 (z_pc s) displacement\<rparr>
      in s\<lparr>z_pc := z_wz s\<rparr>)"

definition z80_jr :: "'b bus_ops \<Rightarrow> 'b z80 \<Rightarrow> 'b z80" where
  "z80_jr io s =
     (let s = z80_set_q_latch False s;
          (displacement, s) = z80_fetch_u8 io s
      in z80_jump_relative displacement s)"

definition z80_jr_conditional :: "'b bus_ops \<Rightarrow> u8 \<Rightarrow> 'b z80 \<Rightarrow> 'b z80" where
  "z80_jr_conditional io condition s =
     (let s = z80_set_q_latch False s;
          (displacement, s) = z80_fetch_u8 io s
      in if \<not> z80_read_condition condition s then s
         else z80_jump_relative displacement s)"

definition z80_djnz :: "'b bus_ops \<Rightarrow> 'b z80 \<Rightarrow> 'b z80" where
  "z80_djnz io s =
     (let s = z80_set_q_latch False s;
          s = z80_clk 1 s;
          (displacement, s) = z80_fetch_u8 io s;
          s = s\<lparr>z_b := z_b s - 1\<rparr>
      in if z_b s = 0 then s else z80_jump_relative displacement s)"

section \<open>Groups of instructions\<close>

text \<open>\<open>(cond).then(|| self.fetch_indexed_addr(mode, bus))\<close>\<close>

definition z80_indexed_address_if ::
  "'b bus_ops \<Rightarrow> bool \<Rightarrow> index_mode \<Rightarrow> 'b z80 \<Rightarrow> u16 option \<times> 'b z80" where
  "z80_indexed_address_if io condition mode s =
     (if condition then
        (let (address, s) = z80_fetch_indexed_addr io mode s in (Some address, s))
      else (None, s))"

text \<open>The eight accumulator operations, with a register, memory or immediate operand.\<close>

definition z80_accumulator_op :: "u8 \<Rightarrow> u8 \<Rightarrow> 'b z80 \<Rightarrow> 'b z80" where
  "z80_accumulator_op y value s =
     (if y = 0 then (let (r, s) = z80_add8 (z_a s) value False s in s\<lparr>z_a := r\<rparr>)
      else if y = 1 then
        (let (r, s) = z80_add8 (z_a s) value (flags_carry (z_flags s)) s in s\<lparr>z_a := r\<rparr>)
      else if y = 2 then (let (r, s) = z80_sub8 (z_a s) value False s in s\<lparr>z_a := r\<rparr>)
      else if y = 3 then
        (let (r, s) = z80_sub8 (z_a s) value (flags_carry (z_flags s)) s in s\<lparr>z_a := r\<rparr>)
      else if y = 4 then (let (r, s) = z80_and8 (z_a s) value s in s\<lparr>z_a := r\<rparr>)
      else if y = 5 then (let (r, s) = z80_xor8 (z_a s) value s in s\<lparr>z_a := r\<rparr>)
      else if y = 6 then (let (r, s) = z80_or8 (z_a s) value s in s\<lparr>z_a := r\<rparr>)
      else z80_cp8 (z_a s) value s)"

text \<open>\<open>x = 0, z = 0\<close>: NOP, EX AF, DJNZ, JR.\<close>

definition z80_base_relative_jumps :: "'b bus_ops \<Rightarrow> u8 \<Rightarrow> 'b z80 \<Rightarrow> 'b z80" where
  "z80_base_relative_jumps io y s =
     (if y = 0 then z80_set_q_latch False s
      else if y = 1 then z80_exchange_af (z80_set_q_latch False s)
      else if y = 2 then z80_djnz io s
      else if y = 3 then z80_jr io s
      else z80_jr_conditional io (y - 4) s)"

text \<open>\<open>x = 0, z = 1\<close>: LD rr,nn and ADD HL,rr.\<close>

definition z80_base_load_pair :: "'b bus_ops \<Rightarrow> u8 \<Rightarrow> u8 \<Rightarrow> index_mode \<Rightarrow> 'b z80 \<Rightarrow> 'b z80" where
  "z80_base_load_pair io q p mode s =
     (if q = 0 then
        (let s = z80_set_q_latch False s;
             (value, s) = z80_fetch_u16 io s
         in z80_write_pair p mode value s)
      else z80_add_hl_rr mode p s)"

text \<open>\<open>x = 0, z = 2\<close>: loads and stores through (BC), (DE) and (nn).\<close>

definition z80_store_a_wz :: "u16 \<Rightarrow> 'b z80 \<Rightarrow> 'b z80" where
  "z80_store_a_wz address s =
     s\<lparr>z_wz := push_bit 8 (ucast (z_a s)) OR ((address + 1) AND 0x00FF)\<rparr>"

definition z80_base_indirect :: "'b bus_ops \<Rightarrow> u8 \<Rightarrow> u8 \<Rightarrow> index_mode \<Rightarrow> 'b z80 \<Rightarrow> 'b z80" where
  "z80_base_indirect io q p mode s =
     (let s = z80_set_q_latch False s in
      if q = 0 then
        (if p = 0 then
           (let address = z80_bc s;
                s = z80_write_byte io address (z_a s) s
            in z80_store_a_wz address s)
         else if p = 1 then
           (let address = z80_de s;
                s = z80_write_byte io address (z_a s) s
            in z80_store_a_wz address s)
         else if p = 2 then
           (let (address, s) = z80_fetch_u16 io s;
                value = z80_current_hl mode s;
                s = z80_write_byte io address (lo8 value) s;
                s = z80_write_byte io (address + 1) (hi8 value) s
            in s\<lparr>z_wz := address + 1\<rparr>)
         else
           (let (address, s) = z80_fetch_u16 io s;
                s = z80_write_byte io address (z_a s) s
            in z80_store_a_wz address s))
      else
        (if p = 0 then
           (let address = z80_bc s;
                (value, s) = z80_read_byte io address s;
                s = s\<lparr>z_a := value\<rparr>
            in s\<lparr>z_wz := address + 1\<rparr>)
         else if p = 1 then
           (let address = z80_de s;
                (value, s) = z80_read_byte io address s;
                s = s\<lparr>z_a := value\<rparr>
            in s\<lparr>z_wz := address + 1\<rparr>)
         else if p = 2 then
           (let (address, s) = z80_fetch_u16 io s;
                (low, s) = z80_read_byte io address s;
                (high, s) = z80_read_byte io (address + 1) s;
                s = z80_set_current_hl mode (le16 low high) s
            in s\<lparr>z_wz := address + 1\<rparr>)
         else
           (let (address, s) = z80_fetch_u16 io s;
                (value, s) = z80_read_byte io address s;
                s = s\<lparr>z_a := value\<rparr>
            in s\<lparr>z_wz := address + 1\<rparr>)))"

text \<open>\<open>x = 0, z = 3\<close>: INC rr and DEC rr.\<close>

definition z80_base_inc_dec_pair :: "u8 \<Rightarrow> u8 \<Rightarrow> index_mode \<Rightarrow> 'b z80 \<Rightarrow> 'b z80" where
  "z80_base_inc_dec_pair q p mode s =
     (let s = z80_set_q_latch False s;
          s = (if q = 0 then z80_write_pair p mode (z80_read_pair p mode s + 1) s
               else z80_write_pair p mode (z80_read_pair p mode s - 1) s)
      in z80_clk 2 s)"

text \<open>\<open>x = 0, z = 4\<close> and \<open>5\<close>: INC r and DEC r, on a register or memory.\<close>

definition z80_base_inc_dec ::
  "'b bus_ops \<Rightarrow> (u8 \<Rightarrow> 'b z80 \<Rightarrow> u8 \<times> 'b z80) \<Rightarrow> u8 \<Rightarrow> index_mode \<Rightarrow> 'b z80 \<Rightarrow> 'b z80 option" where
  "z80_base_inc_dec io inc_or_dec y mode s =
     do { let s = z80_set_q_latch True s;
          let (indexed_address, s) = z80_indexed_address_if io (mode \<noteq> HL \<and> y = 6) mode s;
          (value, s) \<leftarrow> z80_read_reg8_or_mem io y mode indexed_address s;
          let (result, s) = inc_or_dec value s;
          let s = (if y = 6 then z80_clk 1 s else s);
          z80_write_reg8_or_mem io y mode indexed_address result s }"

text \<open>\<open>x = 0, z = 6\<close>: LD r,n.\<close>

definition z80_base_load_immediate ::
  "'b bus_ops \<Rightarrow> u8 \<Rightarrow> index_mode \<Rightarrow> 'b z80 \<Rightarrow> 'b z80 option" where
  "z80_base_load_immediate io y mode s =
     (let s = z80_set_q_latch False s;
          (indexed_address, s) =
            (if mode \<noteq> HL \<and> y = 6 then
               (let (displacement, s) = z80_fetch_u8 io s;
                    address = add_signed8 (z80_current_hl mode s) displacement;
                    s = s\<lparr>z_wz := address\<rparr>
                in (Some address, s))
             else (None, s));
          (value, s) = z80_fetch_u8 io s;
          s = (if indexed_address \<noteq> None then z80_clk 2 s else s)
      in z80_write_reg8_or_mem io y mode indexed_address value s)"

text \<open>\<open>x = 0, z = 7\<close>: rotates of A, DAA, CPL, SCF, CCF.\<close>

definition z80_base_accumulator_misc :: "u8 \<Rightarrow> bool \<Rightarrow> 'b z80 \<Rightarrow> 'b z80" where
  "z80_base_accumulator_misc y xy_prefixed s =
     (if y = 0 then z80_rotate_a_left_circular s
      else if y = 1 then z80_rotate_a_right_circular s
      else if y = 2 then z80_rotate_a_left_through_carry s
      else if y = 3 then z80_rotate_a_right_through_carry s
      else if y = 4 then z80_daa s
      else if y = 5 then z80_cpl s
      else if y = 6 then z80_scf xy_prefixed s
      else z80_ccf xy_prefixed s)"

definition z80_base_x0 ::
  "'b bus_ops \<Rightarrow> u8 \<Rightarrow> u8 \<Rightarrow> index_mode \<Rightarrow> bool \<Rightarrow> 'b z80 \<Rightarrow> 'b z80 option" where
  "z80_base_x0 io y z mode xy_prefixed s =
     (let p = drop_bit 1 y; q = y AND 1 in
      if z = 0 then Some (z80_base_relative_jumps io y s)
      else if z = 1 then Some (z80_base_load_pair io q p mode s)
      else if z = 2 then Some (z80_base_indirect io q p mode s)
      else if z = 3 then Some (z80_base_inc_dec_pair q p mode s)
      else if z = 4 then z80_base_inc_dec io z80_inc8 y mode s
      else if z = 5 then z80_base_inc_dec io z80_dec8 y mode s
      else if z = 6 then z80_base_load_immediate io y mode s
      else Some (z80_base_accumulator_misc y xy_prefixed s))"

text \<open>\<open>x = 1\<close>: HALT and LD r,r'.\<close>

definition z80_base_x1 :: "'b bus_ops \<Rightarrow> u8 \<Rightarrow> u8 \<Rightarrow> index_mode \<Rightarrow> 'b z80 \<Rightarrow> 'b z80 option" where
  "z80_base_x1 io y z mode s =
     (if y = 6 \<and> z = 6 then
        Some ((z80_set_q_latch False s)\<lparr>z_halted := True\<rparr>)
      else
        do { let s = z80_set_q_latch False s;
             let (indexed_address, s) =
               z80_indexed_address_if io (mode \<noteq> HL \<and> (y = 6 \<or> z = 6)) mode s;
             (value, s) \<leftarrow> z80_read_reg8_or_mem io z mode indexed_address s;
             z80_write_reg8_or_mem io y mode indexed_address value s })"

text \<open>\<open>x = 2\<close>: the accumulator operations on r.\<close>

definition z80_base_x2 :: "'b bus_ops \<Rightarrow> u8 \<Rightarrow> u8 \<Rightarrow> index_mode \<Rightarrow> 'b z80 \<Rightarrow> 'b z80 option" where
  "z80_base_x2 io y z mode s =
     do { let s = z80_set_q_latch True s;
          let (indexed_address, s) = z80_indexed_address_if io (mode \<noteq> HL \<and> z = 6) mode s;
          (value, s) \<leftarrow> z80_read_reg8_or_mem io z mode indexed_address s;
          Some (z80_accumulator_op y value s) }"

text \<open>\<open>x = 3\<close>: jumps, calls, stack, ports and exchanges.\<close>

definition z80_base_ret_conditional :: "'b bus_ops \<Rightarrow> u8 \<Rightarrow> 'b z80 \<Rightarrow> 'b z80" where
  "z80_base_ret_conditional io y s =
     (let s = z80_set_q_latch False s;
          s = z80_clk 1 s
      in if z80_read_condition y s then
           (let (address, s) = z80_pop io s;
                s = s\<lparr>z_wz := address\<rparr>
            in s\<lparr>z_pc := z_wz s\<rparr>)
         else s)"

definition z80_base_pop_group :: "'b bus_ops \<Rightarrow> u8 \<Rightarrow> u8 \<Rightarrow> index_mode \<Rightarrow> 'b z80 \<Rightarrow> 'b z80" where
  "z80_base_pop_group io q p mode s =
     (let s = z80_set_q_latch False s in
      if q = 0 then
        (let (value, s) = z80_pop io s in z80_write_pair2 p mode value s)
      else if p = 0 then
        (let (address, s) = z80_pop io s;
             s = s\<lparr>z_wz := address\<rparr>
         in s\<lparr>z_pc := z_wz s\<rparr>)
      else if p = 1 then z80_exchange_shadow s
      else if p = 2 then s\<lparr>z_pc := z80_current_hl mode s\<rparr>
      else (let s = z80_clk 2 s in s\<lparr>z_sp := z80_current_hl mode s\<rparr>))"

definition z80_base_jump_conditional :: "'b bus_ops \<Rightarrow> u8 \<Rightarrow> 'b z80 \<Rightarrow> 'b z80" where
  "z80_base_jump_conditional io y s =
     (let s = z80_set_q_latch False s;
          (address, s) = z80_fetch_u16 io s;
          s = s\<lparr>z_wz := address\<rparr>
      in if z80_read_condition y s then s\<lparr>z_pc := address\<rparr> else s)"

definition z80_base_x3_z3 :: "'b bus_ops \<Rightarrow> u8 \<Rightarrow> index_mode \<Rightarrow> 'b z80 \<Rightarrow> 'b z80 option" where
  "z80_base_x3_z3 io y mode s =
     (if y = 1 then None
      else
        (let s = z80_set_q_latch False s in
         if y = 0 then
           (let (address, s) = z80_fetch_u16 io s;
                s = s\<lparr>z_wz := address\<rparr>
            in Some (s\<lparr>z_pc := address\<rparr>))
         else if y = 2 then
           (let (low, s) = z80_fetch_u8 io s;
                s = s\<lparr>z_wz := le16 low (z_a s)\<rparr>;
                s = z80_write_port io (z_wz s) (z_a s) s
            in Some (s\<lparr>z_wz := (z_wz s AND 0xFF00) OR ((z_wz s + 1) AND 0x00FF)\<rparr>))
         else if y = 3 then
           (let (low, s) = z80_fetch_u8 io s;
                s = s\<lparr>z_wz := le16 low (z_a s)\<rparr>;
                (value, s) = z80_read_port io (z_wz s) s;
                s = s\<lparr>z_a := value\<rparr>
            in Some (s\<lparr>z_wz := z_wz s + 1\<rparr>))
         else if y = 4 then
           (let current = z80_current_hl mode s;
                (low, s) = z80_read_byte io (z_sp s) s;
                (high, s) = z80_read_byte io (z_sp s + 1) s;
                s = s\<lparr>z_wz := le16 low high\<rparr>;
                s = z80_clk 1 s;
                s = z80_write_byte io (z_sp s + 1) (hi8 current) s;
                s = z80_write_byte io (z_sp s) (lo8 current) s;
                s = z80_clk 2 s
            in Some (z80_set_current_hl mode (z_wz s) s))
         else if y = 5 then Some (z80_exchange_de_with_hl HL s)
         else if y = 6 then Some (s\<lparr>z_iff1 := False, z_iff2 := False\<rparr>)
         else Some (s\<lparr>z_iff1 := True, z_iff2 := True, z_ei := 1\<rparr>)))"

definition z80_base_call_conditional :: "'b bus_ops \<Rightarrow> u8 \<Rightarrow> 'b z80 \<Rightarrow> 'b z80" where
  "z80_base_call_conditional io y s =
     (let s = z80_set_q_latch False s;
          (address, s) = z80_fetch_u16 io s;
          s = s\<lparr>z_wz := address\<rparr>
      in if z80_read_condition y s then
           (let s = z80_clk 1 s;
                s = z80_push io (z_pc s) s
            in s\<lparr>z_pc := address\<rparr>)
         else s)"

definition z80_base_push_group ::
  "'b bus_ops \<Rightarrow> u8 \<Rightarrow> u8 \<Rightarrow> index_mode \<Rightarrow> 'b z80 \<Rightarrow> 'b z80 option" where
  "z80_base_push_group io q p mode s =
     (if q = 0 then
        (let s = z80_set_q_latch False s;
             s = z80_clk 1 s;
             value = z80_read_pair2 p mode s
         in Some (z80_push io value s))
      else if p = 0 then
        (let s = z80_set_q_latch False s;
             (address, s) = z80_fetch_u16 io s;
             s = s\<lparr>z_wz := address\<rparr>;
             s = z80_clk 1 s;
             s = z80_push io (z_pc s) s
         in Some (s\<lparr>z_pc := address\<rparr>))
      else None)"

definition z80_base_accumulator_immediate :: "'b bus_ops \<Rightarrow> u8 \<Rightarrow> 'b z80 \<Rightarrow> 'b z80" where
  "z80_base_accumulator_immediate io y s =
     (let (immediate, s) = z80_fetch_u8 io s;
          s = z80_set_q_latch True s
      in z80_accumulator_op y immediate s)"

definition z80_base_rst :: "'b bus_ops \<Rightarrow> u8 \<Rightarrow> 'b z80 \<Rightarrow> 'b z80" where
  "z80_base_rst io y s =
     (let s = z80_set_q_latch False s;
          s = z80_clk 1 s;
          s = z80_push io (z_pc s) s;
          s = s\<lparr>z_wz := push_bit 3 (ucast y)\<rparr>
      in s\<lparr>z_pc := z_wz s\<rparr>)"

definition z80_base_x3 :: "'b bus_ops \<Rightarrow> u8 \<Rightarrow> u8 \<Rightarrow> index_mode \<Rightarrow> 'b z80 \<Rightarrow> 'b z80 option" where
  "z80_base_x3 io y z mode s =
     (let p = drop_bit 1 y; q = y AND 1 in
      if z = 0 then Some (z80_base_ret_conditional io y s)
      else if z = 1 then Some (z80_base_pop_group io q p mode s)
      else if z = 2 then Some (z80_base_jump_conditional io y s)
      else if z = 3 then z80_base_x3_z3 io y mode s
      else if z = 4 then Some (z80_base_call_conditional io y s)
      else if z = 5 then z80_base_push_group io q p mode s
      else if z = 6 then Some (z80_base_accumulator_immediate io y s)
      else Some (z80_base_rst io y s))"

definition z80_execute_base ::
  "'b bus_ops \<Rightarrow> u8 \<Rightarrow> index_mode \<Rightarrow> bool \<Rightarrow> 'b z80 \<Rightarrow> 'b z80 option" where
  "z80_execute_base io opcode mode xy_prefixed s =
     (let x = drop_bit 6 opcode;
          y = drop_bit 3 opcode AND 7;
          z = opcode AND 7
      in if x = 0 then z80_base_x0 io y z mode xy_prefixed s
         else if x = 1 then z80_base_x1 io y z mode s
         else if x = 2 then z80_base_x2 io y z mode s
         else z80_base_x3 io y z mode s)"

end
