(* ===== verification/Z80_Prefixed.thy ===== *)
theory Z80_Prefixed
  imports Z80_Base
begin

text \<open>
  The prefixed instructions of the Z80 core: the rotate, shift and bit group behind CB
  and DD CB / FD CB (\<open>crates/cpu/src/z80/execute_cb.rs\<close>) and the extended group behind
  ED (\<open>execute_ed.rs\<close>): 16-bit ADC and SBC, the I/O instructions with flags, the
  interrupt registers, the decimal rotates and the block instructions.
\<close>

section \<open>The CB group\<close>

text \<open>The rotation or shift that \<open>y\<close> selects, in the order of the code's \<open>match\<close>.\<close>

definition z80_rotate_op :: "u8 \<Rightarrow> u8 \<Rightarrow> 'b z80 \<Rightarrow> u8 \<times> 'b z80" where
  "z80_rotate_op y value s =
     (if y = 0 then z80_rlc value s
      else if y = 1 then z80_rrc value s
      else if y = 2 then z80_rl value s
      else if y = 3 then z80_rr value s
      else if y = 4 then z80_sla value s
      else if y = 5 then z80_sra value s
      else if y = 6 then z80_sll value s
      else z80_srl value s)"

definition z80_execute_cb :: "'b bus_ops \<Rightarrow> u8 \<Rightarrow> 'b z80 \<Rightarrow> 'b z80 option" where
  "z80_execute_cb io opcode s =
     (let x = drop_bit 6 opcode;
          y = drop_bit 3 opcode AND 7;
          z = opcode AND 7
      in if x = 0 then
           do { let s = z80_set_q_latch True s;
                let indexed_address = (if z = 6 then Some (z80_hl s) else None);
                (value, s) \<leftarrow> z80_read_reg8_or_mem io z HL indexed_address s;
                let (result, s) = z80_rotate_op y value s;
                let s = (if z = 6 then z80_clk 1 s else s);
                z80_write_reg8_or_mem io z HL indexed_address result s }
         else if x = 1 then
           do { let s = z80_set_q_latch True s;
                let indexed_address = (if z = 6 then Some (z80_hl s) else None);
                (value, s) \<leftarrow> z80_read_reg8_or_mem io z HL indexed_address s;
                Some (if z = 6 then
                        (let s = z80_clk 1 s
                         in z80_bit_test_with_xy y value (hi8 (z_wz s)) s)
                      else z80_bit_test y value s) }
         else if x = 2 then
           do { let s = z80_set_q_latch False s;
                let indexed_address = (if z = 6 then Some (z80_hl s) else None);
                (value, s) \<leftarrow> z80_read_reg8_or_mem io z HL indexed_address s;
                let result = value AND NOT (push_bit (unat y) 1);
                let s = (if z = 6 then z80_clk 1 s else s);
                z80_write_reg8_or_mem io z HL indexed_address result s }
         else
           do { let s = z80_set_q_latch False s;
                let indexed_address = (if z = 6 then Some (z80_hl s) else None);
                (value, s) \<leftarrow> z80_read_reg8_or_mem io z HL indexed_address s;
                let result = value OR push_bit (unat y) 1;
                let s = (if z = 6 then z80_clk 1 s else s);
                z80_write_reg8_or_mem io z HL indexed_address result s })"

text \<open>Behind DD CB d and FD CB d: the result also goes to a register unless \<open>z = 6\<close>.\<close>

definition z80_write_indexed_result :: "'b bus_ops \<Rightarrow> u8 \<Rightarrow> u16 \<Rightarrow> u8 \<Rightarrow> 'b z80 \<Rightarrow> 'b z80" where
  "z80_write_indexed_result io z address result s =
     (let s = z80_clk 1 s;
          s = (if z \<noteq> 6 then z80_write_reg8_plain z HL result s else s)
      in z80_write_byte io address result s)"

definition z80_execute_cb_indexed :: "'b bus_ops \<Rightarrow> u8 \<Rightarrow> u16 \<Rightarrow> 'b z80 \<Rightarrow> 'b z80" where
  "z80_execute_cb_indexed io opcode address s =
     (let x = drop_bit 6 opcode;
          y = drop_bit 3 opcode AND 7;
          z = opcode AND 7;
          (value, s) = z80_read_byte io address s
      in if x = 0 then
           (let s = z80_set_q_latch True s;
                (result, s) = z80_rotate_op y value s
            in z80_write_indexed_result io z address result s)
         else if x = 1 then
           (let s = z80_set_q_latch True s;
                s = z80_clk 1 s
            in z80_bit_test_with_xy y value (hi8 (z_wz s)) s)
         else if x = 2 then
           (let s = z80_set_q_latch False s;
                result = value AND NOT (push_bit (unat y) 1)
            in z80_write_indexed_result io z address result s)
         else
           (let s = z80_set_q_latch False s;
                result = value OR push_bit (unat y) 1
            in z80_write_indexed_result io z address result s))"

section \<open>The ED group\<close>

definition z80_ld_a_i_or_r :: "u8 \<Rightarrow> 'b z80 \<Rightarrow> 'b z80" where
  "z80_ld_a_i_or_r value s =
     (let s = z80_set_q_latch True s;
          iff2 = z_iff2 s;
          s = s\<lparr>z_a := value\<rparr>;
          s = z_flags_update (flags_set_subtract False) s;
          s = z_flags_update (flags_set_half_carry False) s;
          s = z_flags_update (flags_set_parity_overflow iff2) s;
          s = z80_set_xysz value s
      in s\<lparr>z_p := 1\<rparr>)"

definition z80_adc_hl_rr :: "u8 \<Rightarrow> 'b z80 \<Rightarrow> 'b z80" where
  "z80_adc_hl_rr pair s =
     (let s = z80_set_q_latch True s;
          right = z80_read_pair pair HL s;
          hl = z80_hl s;
          s = s\<lparr>z_wz := hl + 1\<rparr>;
          carry_in = flags_carry (z_flags s);
          (low, s) = z80_add8 (z_l s) (lo8 right) carry_in s;
          (high, s) = z80_add8 (z_h s) (hi8 right) (flags_carry (z_flags s)) s;
          result = le16 low high;
          s = z80_set_hl result s;
          s = z_flags_update (flags_set_zero (result = 0)) s
      in z80_clk 7 s)"

definition z80_sbc_hl_rr :: "u8 \<Rightarrow> 'b z80 \<Rightarrow> 'b z80" where
  "z80_sbc_hl_rr pair s =
     (let s = z80_set_q_latch True s;
          right = z80_read_pair pair HL s;
          hl = z80_hl s;
          s = s\<lparr>z_wz := hl + 1\<rparr>;
          carry_in = flags_carry (z_flags s);
          (low, s) = z80_sub8 (z_l s) (lo8 right) carry_in s;
          (high, s) = z80_sub8 (z_h s) (hi8 right) (flags_carry (z_flags s)) s;
          result = le16 low high;
          s = z80_set_hl result s;
          s = z_flags_update (flags_set_zero (result = 0)) s
      in z80_clk 7 s)"

definition z80_in_flags :: "u8 \<Rightarrow> 'b z80 \<Rightarrow> 'b z80" where
  "z80_in_flags value s =
     (let s = z_flags_update (flags_set_subtract False) s;
          s = z_flags_update (flags_set_half_carry False) s;
          s = z80_set_parity value s
      in z80_set_xysz value s)"

definition step_pointer :: "bool \<Rightarrow> u16 \<Rightarrow> u16" where
  "step_pointer decrement w = (if decrement then w - 1 else w + 1)"

text \<open>The X and Y flags of the block instructions: bits 3 and 1 of a byte.\<close>

definition z80_block_xy :: "u8 \<Rightarrow> z80_flags \<Rightarrow> z80_flags" where
  "z80_block_xy value f =
     (f AND NOT (FLAG_X OR FLAG_Y)) OR (value AND FLAG_X) OR push_bit 4 (value AND 0x02)"

definition z80_block_compare :: "'b bus_ops \<Rightarrow> bool \<Rightarrow> 'b z80 \<Rightarrow> 'b z80" where
  "z80_block_compare io decrement s =
     (let s = z80_set_q_latch True s;
          s = s\<lparr>z_wz := step_pointer decrement (z_wz s)\<rparr>;
          address = z80_hl s;
          (data, s) = z80_read_byte io address s;
          s = z80_set_hl (step_pointer decrement address) s;
          s = z80_clk 5 s;
          result = z_a s - data;
          carry = flags_carry (z_flags s);
          count = z80_bc s - 1;
          s = z80_set_bc count s;
          s = z_flags_update (flags_set_subtract True) s;
          s = z_flags_update (flags_set_parity_overflow (count \<noteq> 0)) s;
          half_carry = (z_a s XOR data XOR result) AND 0x10 \<noteq> 0;
          s = z_flags_update (flags_set_half_carry half_carry) s;
          s = z_flags_update (flags_set_sign (result AND 0x80 \<noteq> 0)) s;
          s = z_flags_update (flags_set_zero (result = 0)) s;
          adjusted = result - u8_of_bool half_carry;
          s = z_flags_update (z80_block_xy adjusted) s
      in z_flags_update (flags_set_carry carry) s)"

definition z80_block_load :: "'b bus_ops \<Rightarrow> bool \<Rightarrow> 'b z80 \<Rightarrow> 'b z80" where
  "z80_block_load io decrement s =
     (let s = z80_set_q_latch True s;
          source = z80_hl s;
          (data, s) = z80_read_byte io source s;
          s = z80_set_hl (step_pointer decrement source) s;
          destination = z80_de s;
          s = z80_write_byte io destination data s;
          s = z80_set_de (step_pointer decrement destination) s;
          s = z80_clk 2 s;
          preserve = z_flags s AND (FLAG_SIGN OR FLAG_ZERO OR FLAG_CARRY);
          count = z80_bc s - 1;
          s = z80_set_bc count s;
          s = s\<lparr>z_flags := preserve\<rparr>;
          s = z_flags_update (flags_set_subtract False) s;
          s = z_flags_update (flags_set_half_carry False) s;
          s = z_flags_update (flags_set_parity_overflow (count \<noteq> 0)) s;
          xy = z_a s + data
      in z_flags_update (z80_block_xy xy) s)"

definition z80_block_io_flags :: "u8 \<Rightarrow> u8 \<Rightarrow> 'b z80 \<Rightarrow> 'b z80" where
  "z80_block_io_flags base data s =
     (let carry = (ucast base :: u16) + ucast data > 0xFF;
          pv_value = ((base + data) AND 7) XOR z_b s;
          s = z_flags_update (flags_set_carry carry) s;
          s = z_flags_update (flags_set_subtract (data AND 0x80 \<noteq> 0)) s;
          s = z_flags_update (flags_set_parity_overflow (parity_even pv_value)) s;
          s = z80_set_xysz (z_b s) s
      in z_flags_update (flags_set_half_carry carry) s)"

definition z80_block_in :: "'b bus_ops \<Rightarrow> bool \<Rightarrow> 'b z80 \<Rightarrow> (u8 \<times> u16) \<times> 'b z80" where
  "z80_block_in io decrement s =
     (let s = z80_set_q_latch True s;
          port = z80_bc s;
          s = z80_clk 1 s;
          (data, s) = z80_read_port io port s;
          s = s\<lparr>z_b := z_b s - 1\<rparr>;
          address = z80_hl s;
          s = z80_write_byte io address data s;
          s = z80_set_hl (step_pointer decrement address) s;
          carry_base = (if decrement then z_c s - 1 else z_c s + 1);
          s = z80_block_io_flags carry_base data s
      in ((data, port), s))"

definition z80_block_out :: "'b bus_ops \<Rightarrow> bool \<Rightarrow> 'b z80 \<Rightarrow> u8 \<times> 'b z80" where
  "z80_block_out io decrement s =
     (let s = z80_set_q_latch True s;
          s = z80_clk 1 s;
          address = z80_hl s;
          (data, s) = z80_read_byte io address s;
          s = z80_set_hl (step_pointer decrement address) s;
          s = s\<lparr>z_b := z_b s - 1\<rparr>;
          port = z80_bc s;
          s = z80_write_port io port data s;
          s = s\<lparr>z_wz := step_pointer decrement port\<rparr>;
          l_value = z_l s;
          s = z80_block_io_flags l_value data s
      in (data, s))"

definition z80_repeat_xy_from_pc :: "'b z80 \<Rightarrow> 'b z80" where
  "z80_repeat_xy_from_pc s = z80_set_xy (hi8 (z_pc s)) s"

definition z80_repeat_io_adjust_flags :: "u8 \<Rightarrow> 'b z80 \<Rightarrow> 'b z80" where
  "z80_repeat_io_adjust_flags data s =
     (let s = z80_repeat_xy_from_pc s;
          parity = flags_parity_overflow (z_flags s);
          (parity, s) =
            (if flags_carry (z_flags s) then
               (if data AND 0x80 \<noteq> 0 then
                  (parity \<noteq> (\<not> parity_even ((z_b s - 1) AND 7)),
                   z_flags_update (flags_set_half_carry (z_b s AND 0x0F = 0)) s)
                else
                  (parity \<noteq> (\<not> parity_even ((z_b s + 1) AND 7)),
                   z_flags_update (flags_set_half_carry (z_b s AND 0x0F = 0x0F)) s))
             else (parity \<noteq> (\<not> parity_even (z_b s AND 7)), s))
      in z_flags_update (flags_set_parity_overflow parity) s)"

text \<open>What the repeating forms do before they fetch themselves again.\<close>

definition z80_block_rewind :: "'b z80 \<Rightarrow> 'b z80" where
  "z80_block_rewind s =
     (let s = z80_clk 5 s;
          s = s\<lparr>z_pc := z_pc s - 2\<rparr>
      in s\<lparr>z_wz := z_pc s + 1\<rparr>)"

definition z80_block_load_repeat :: "'b bus_ops \<Rightarrow> bool \<Rightarrow> 'b z80 \<Rightarrow> 'b z80" where
  "z80_block_load_repeat io decrement s =
     (let s = z80_block_load io decrement s in
      if z80_bc s \<noteq> 0 then z80_repeat_xy_from_pc (z80_block_rewind s) else s)"

definition z80_block_compare_repeat :: "'b bus_ops \<Rightarrow> bool \<Rightarrow> 'b z80 \<Rightarrow> 'b z80" where
  "z80_block_compare_repeat io decrement s =
     (let s = z80_block_compare io decrement s in
      if z80_bc s \<noteq> 0 \<and> \<not> flags_zero (z_flags s)
      then z80_repeat_xy_from_pc (z80_block_rewind s) else s)"

definition z80_block_in_step :: "'b bus_ops \<Rightarrow> bool \<Rightarrow> bool \<Rightarrow> 'b z80 \<Rightarrow> 'b z80" where
  "z80_block_in_step io decrement repeats s =
     (let ((data, port), s) = z80_block_in io decrement s;
          s = s\<lparr>z_wz := step_pointer decrement port\<rparr>
      in if repeats \<and> z_b s \<noteq> 0
         then z80_repeat_io_adjust_flags data (z80_block_rewind s) else s)"

definition z80_block_out_step :: "'b bus_ops \<Rightarrow> bool \<Rightarrow> bool \<Rightarrow> 'b z80 \<Rightarrow> 'b z80" where
  "z80_block_out_step io decrement repeats s =
     (let (data, s) = z80_block_out io decrement s in
      if repeats \<and> z_b s \<noteq> 0
      then z80_repeat_io_adjust_flags data (z80_block_rewind s) else s)"

text \<open>\<open>x = 1, z = 7\<close>: the transfers with I and R, RRD and RLD.\<close>

definition z80_ed_digit_rotate :: "'b bus_ops \<Rightarrow> bool \<Rightarrow> 'b z80 \<Rightarrow> 'b z80" where
  "z80_ed_digit_rotate io left s =
     (let s = z80_set_q_latch True s;
          address = z80_hl s;
          s = s\<lparr>z_wz := address + 1\<rparr>;
          (data, s) = z80_read_byte io address s;
          s = z80_clk 4 s;
          s = z80_write_byte io address
                (if left then push_bit 4 data OR (z_a s AND 0x0F)
                 else drop_bit 4 data OR push_bit 4 (z_a s)) s;
          s = s\<lparr>z_a := (z_a s AND 0xF0) OR (if left then drop_bit 4 data else data AND 0x0F)\<rparr>;
          s = z_flags_update (flags_set_subtract False) s;
          s = z_flags_update (flags_set_half_carry False) s;
          s = z80_set_parity (z_a s) s
      in z80_set_xysz (z_a s) s)"

definition z80_ed_misc :: "'b bus_ops \<Rightarrow> u8 \<Rightarrow> 'b z80 \<Rightarrow> 'b z80" where
  "z80_ed_misc io y s =
     (if y = 0 then
        (let s = z80_clk 1 (z80_set_q_latch False s) in s\<lparr>z_i := z_a s\<rparr>)
      else if y = 1 then
        (let s = z80_clk 1 (z80_set_q_latch False s) in z80_set_r (z_a s) s)
      else if y = 2 then
        (let s = z80_clk 1 s in z80_ld_a_i_or_r (z_i s) s)
      else if y = 3 then
        (let s = z80_clk 1 s in z80_ld_a_i_or_r (z80_r s) s)
      else if y = 4 then z80_ed_digit_rotate io False s
      else if y = 5 then z80_ed_digit_rotate io True s
      else z80_set_q_latch False s)"

text \<open>\<open>x = 1\<close>: everything else, by \<open>z\<close>.\<close>

definition z80_ed_in :: "'b bus_ops \<Rightarrow> u8 \<Rightarrow> 'b z80 \<Rightarrow> 'b z80" where
  "z80_ed_in io y s =
     (let s = z80_set_q_latch True s;
          s = s\<lparr>z_wz := z80_bc s + 1\<rparr>;
          port = z80_bc s;
          (raw, s) = z80_read_port io port s;
          s = z80_in_flags raw s
      in if y \<noteq> 6 then z80_write_reg8_plain y HL raw s else s)"

definition z80_ed_out :: "'b bus_ops \<Rightarrow> u8 \<Rightarrow> 'b z80 \<Rightarrow> 'b z80 option" where
  "z80_ed_out io y s =
     do { let s = z80_set_q_latch False s;
          value \<leftarrow> (if y = 6 then Some 0 else z80_read_reg8_plain y HL s);
          let port = z80_bc s;
          let s = z80_write_port io port value s;
          Some (s\<lparr>z_wz := port + 1\<rparr>) }"

definition z80_ed_store_pair :: "'b bus_ops \<Rightarrow> u8 \<Rightarrow> 'b z80 \<Rightarrow> 'b z80" where
  "z80_ed_store_pair io p s =
     (let s = z80_set_q_latch False s;
          (address, s) = z80_fetch_u16 io s;
          value = z80_read_pair p HL s;
          s = z80_write_byte io address (lo8 value) s;
          s = z80_write_byte io (address + 1) (hi8 value) s
      in s\<lparr>z_wz := address + 1\<rparr>)"

definition z80_ed_load_pair :: "'b bus_ops \<Rightarrow> u8 \<Rightarrow> 'b z80 \<Rightarrow> 'b z80" where
  "z80_ed_load_pair io p s =
     (let s = z80_set_q_latch False s;
          (address, s) = z80_fetch_u16 io s;
          (low, s) = z80_read_byte io address s;
          (high, s) = z80_read_byte io (address + 1) s;
          s = z80_write_pair p HL (le16 low high) s
      in s\<lparr>z_wz := address + 1\<rparr>)"

definition z80_ed_neg :: "'b z80 \<Rightarrow> 'b z80" where
  "z80_ed_neg s =
     (let s = z80_set_q_latch True s;
          (r, s) = z80_sub8 0 (z_a s) False s
      in s\<lparr>z_a := r\<rparr>)"

definition z80_ed_return :: "'b bus_ops \<Rightarrow> u8 \<Rightarrow> 'b z80 \<Rightarrow> 'b z80" where
  "z80_ed_return io y s =
     (let s = z80_set_q_latch False s;
          (address, s) = z80_pop io s;
          s = s\<lparr>z_wz := address\<rparr>;
          s = s\<lparr>z_pc := z_wz s\<rparr>;
          s = s\<lparr>z_iff1 := z_iff2 s\<rparr>
      in if y = 1 then s\<lparr>z_bus := bus_notify_reti io (z_bus s)\<rparr> else s)"

definition z80_ed_interrupt_mode :: "u8 \<Rightarrow> 'b z80 \<Rightarrow> 'b z80" where
  "z80_ed_interrupt_mode y s =
     (let s = z80_set_q_latch False s in
      s\<lparr>z_im := (if y = 0 \<or> y = 1 \<or> y = 4 \<or> y = 5 then 0
                 else if y = 2 \<or> y = 6 then 1
                 else if y = 3 \<or> y = 7 then 2
                 else 0)\<rparr>)"

text \<open>\<open>x = 2\<close>: the block instructions; \<open>y = 4..7\<close> are the forms I, D, IR, DR.\<close>

definition z80_ed_block :: "'b bus_ops \<Rightarrow> u8 \<Rightarrow> u8 \<Rightarrow> 'b z80 \<Rightarrow> 'b z80" where
  "z80_ed_block io y z s =
     (if z = 0 then
        (if y = 4 then z80_block_load io False s
         else if y = 5 then z80_block_load io True s
         else if y = 6 then z80_block_load_repeat io False s
         else if y = 7 then z80_block_load_repeat io True s
         else z80_set_q_latch False s)
      else if z = 1 then
        (if y = 4 then z80_block_compare io False s
         else if y = 5 then z80_block_compare io True s
         else if y = 6 then z80_block_compare_repeat io False s
         else if y = 7 then z80_block_compare_repeat io True s
         else z80_set_q_latch False s)
      else if z = 2 then
        (if y = 4 then z80_block_in_step io False False s
         else if y = 5 then z80_block_in_step io True False s
         else if y = 6 then z80_block_in_step io False True s
         else if y = 7 then z80_block_in_step io True True s
         else z80_set_q_latch False s)
      else
        (if y = 4 then z80_block_out_step io False False s
         else if y = 5 then z80_block_out_step io True False s
         else if y = 6 then z80_block_out_step io False True s
         else if y = 7 then z80_block_out_step io True True s
         else z80_set_q_latch False s))"

definition z80_execute_ed :: "'b bus_ops \<Rightarrow> u8 \<Rightarrow> 'b z80 \<Rightarrow> 'b z80 option" where
  "z80_execute_ed io opcode s =
     (let x = drop_bit 6 opcode;
          y = drop_bit 3 opcode AND 7;
          z = opcode AND 7;
          p = drop_bit 1 y;
          q = y AND 1
      in if x = 1 then
           (if z = 0 then Some (z80_ed_in io y s)
            else if z = 1 then z80_ed_out io y s
            else if z = 2 then Some (if q = 0 then z80_sbc_hl_rr p s else z80_adc_hl_rr p s)
            else if z = 3 then Some (if q = 0 then z80_ed_store_pair io p s else z80_ed_load_pair io p s)
            else if z = 4 then Some (z80_ed_neg s)
            else if z = 5 then Some (z80_ed_return io y s)
            else if z = 6 then Some (z80_ed_interrupt_mode y s)
            else Some (z80_ed_misc io y s))
         else if x = 2 \<and> z < 4 then Some (z80_ed_block io y z s)
         else Some (z80_set_q_latch False s))"

end
