(* ===== verification/Byte_Arith.thy ===== *)
theory Byte_Arith
  imports Prelude
begin

text \<open>
  Additions and subtractions of bytes as the eight-bit processors report them: half carries
  and borrows, signed overflow, and the digits of packed decimal numbers under decimal
  adjustment. No processor is mentioned here; the arithmetic of each core rests on it.
\<close>

section \<open>Carries between digits\<close>

lemma nibble_carry:
  fixes a b c :: nat
  assumes "c \<le> 1"
  shows "odd ((a + b + c) div 16) \<longleftrightarrow>
    ((odd (a div 16) \<noteq> odd (b div 16)) \<noteq> (16 \<le> a mod 16 + b mod 16 + c))"
proof -
  have "a + b + c = 16 * (a div 16 + b div 16) + (a mod 16 + b mod 16 + c)"
    by simp
  then have "(a + b + c) div 16 = a div 16 + b div 16 + (a mod 16 + b mod 16 + c) div 16"
    by (metis add.commute div_mult_self2 mult.commute zero_neq_numeral)
  moreover have "(a mod 16 + b mod 16 + c) div 16 = (if 16 \<le> a mod 16 + b mod 16 + c then 1 else 0)"
    using assms mod_less_divisor [of 16 a] mod_less_divisor [of 16 b] by (auto simp: div_if)
  ultimately show ?thesis by auto
qed

lemma wrap256: "k < 512 \<Longrightarrow> k mod 256 = (if k < 256 then k else k - 256)" for k :: nat
  by (simp add: le_mod_geq)

lemma wrap16_less:
  fixes a b c d :: nat
  assumes "(b + d + c) mod 16 = a" "b < 16" "d < 16" "c \<le> 1"
  shows "16 \<le> b + d + c \<longleftrightarrow> a < b + c"
  using assms by (cases "16 \<le> b + d + c") (auto simp: le_mod_geq)

lemma bit_div_mod: "n < 8 \<Longrightarrow> odd (k mod 256 div 2 ^ n) \<longleftrightarrow> odd (k div 2 ^ n)" for k :: nat
  using bit_take_bit_iff [of 8 k n] by (simp add: bit_iff_odd take_bit_eq_mod)

lemma nibble_borrow:
  fixes a b c :: nat
  assumes "c \<le> 1" "a < 256" "b < 256"
  shows "odd ((a + 256 - b - c) mod 256 div 16) \<longleftrightarrow>
    ((odd (a div 16) \<noteq> odd (b div 16)) \<noteq> (a mod 16 < b mod 16 + c))"
proof -
  define d where "d = a + 256 - b - c"
  have "b + c + d = a + 256" using assms by (simp add: d_def)
  then have sum: "b + d + c = a + 256" by simp
  have "odd ((b + d + c) div 16) \<longleftrightarrow> odd (a div 16)"
    using div_mult_self1 [of 16 a 16] by (simp add: sum)
  with nibble_carry [OF assms(1), of b d]
  have "odd (a div 16) \<longleftrightarrow> ((odd (b div 16) \<noteq> odd (d div 16)) \<noteq> (16 \<le> b mod 16 + d mod 16 + c))"
    by simp
  moreover have "16 \<le> b mod 16 + d mod 16 + c \<longleftrightarrow> a mod 16 < b mod 16 + c"
  proof -
    have "(b mod 16 + d mod 16 + c) mod 16 = (a + 256) mod 16"
      unfolding sum [symmetric] by (metis mod_add_eq mod_add_left_eq)
    then have "(b mod 16 + d mod 16 + c) mod 16 = a mod 16"
      using mod_mult_self1 [of a 16 16] by simp
    then show ?thesis using assms(1) by (intro wrap16_less) simp_all
  qed
  ultimately show ?thesis
    using bit_div_mod [of 4 d] by (auto simp: d_def)
qed

lemma half_carry_bit:
  fixes l r v :: u8
  assumes v: "unat v = (unat l + unat r + of_bool c) mod 256"
  shows "(bit l 4 \<noteq> (bit r 4 \<noteq> bit v 4)) \<longleftrightarrow> 16 \<le> unat l mod 16 + unat r mod 16 + of_bool c"
proof -
  have b: "bit x 4 \<longleftrightarrow> odd (unat x div 16)" for x :: u8 by (simp add: bit_odd_div)
  have "odd ((unat l + unat r + of_bool c) mod 256 div 2 ^ 4) \<longleftrightarrow> odd ((unat l + unat r + of_bool c) div 2 ^ 4)"
    by (rule bit_div_mod) simp
  then have "bit v 4 \<longleftrightarrow> odd ((unat l + unat r + of_bool c) div 16)"
    by (simp only: b v) simp
  moreover have "(of_bool c :: nat) \<le> 1" by simp
  note nibble_carry [OF this, of "unat l" "unat r"]
  ultimately show ?thesis unfolding b by blast
qed

lemma and_mask_bit:
  "x AND 0x80 \<noteq> 0 \<longleftrightarrow> bit x 7" "x AND 0x10 \<noteq> 0 \<longleftrightarrow> bit x 4" "x AND 1 \<noteq> 0 \<longleftrightarrow> bit x 0"
  "y AND 0x80 \<noteq> 0 \<longleftrightarrow> bit y 7" for x :: u8 and y :: u16
  using and_pow2_nonzero [of x 7] and_pow2_nonzero [of x 4] and_pow2_nonzero [of x 0]
    and_pow2_nonzero [of y 7] by simp_all

section \<open>Signed overflow, from the top bits of the operands and of the wrapped result\<close>

definition signed8 :: "nat \<Rightarrow> int" where
  "signed8 n = int n - (if 128 \<le> n then 256 else 0)"

lemma sint_signed8: "sint (x :: u8) = signed8 (unat x)"
  by (simp add: sint_u8 signed8_def bit7_u8)

lemma signed8_negative: "n < 256 \<Longrightarrow> signed8 n < 0 \<longleftrightarrow> 128 \<le> n"
  by (cases "128 \<le> n") (simp_all add: signed8_def)

lemma sint_u8_negative: "sint (x :: u8) < 0 \<longleftrightarrow> bit x 7"
  by (simp only: sint_signed8 bit7_u8 signed8_negative [OF unat_u8_less])

lemma signed_add_overflow_nat:
  assumes "l < 256" "r < 256" "c \<le> 1" "v = l + r + c - (if 256 \<le> l + r + c then 256 else 0)"
  shows "((128 \<le> l) = (128 \<le> r) \<and> (128 \<le> l) \<noteq> (128 \<le> v)) \<longleftrightarrow>
    \<not> (- 128 \<le> signed8 l + signed8 r + int c \<and> signed8 l + signed8 r + int c \<le> 127)"
  using assms unfolding signed8_def
  by (cases "128 \<le> l"; cases "128 \<le> r"; cases "256 \<le> l + r + c"; simp; linarith)

lemma signed_add_overflow:
  fixes l r v :: u8
  assumes v: "unat v = (unat l + unat r + of_bool c) mod 256"
  shows "(bit l 7 = bit r 7 \<and> bit l 7 \<noteq> bit v 7) \<longleftrightarrow>
    \<not> (- 128 \<le> sint l + sint r + of_bool c \<and> sint l + sint r + of_bool c \<le> 127)"
proof -
  have "unat l + unat r + of_bool c < 512"
    using unat_u8_less [of l] unat_u8_less [of r] by simp
  then have "unat v = unat l + unat r + of_bool c - (if 256 \<le> unat l + unat r + of_bool c then 256 else 0)"
    unfolding v by (simp add: wrap256)
  from signed_add_overflow_nat [OF unat_u8_less unat_u8_less _ this] show ?thesis
    by (simp add: sint_signed8 bit7_u8)
qed

lemma signed_sub_overflow_nat:
  assumes "l < 256" "r < 256" "c \<le> 1"
    "int v = int l - int r - int c + (if l < r + c then 256 else 0)"
  shows "((128 \<le> l) \<noteq> (128 \<le> r) \<and> (128 \<le> l) \<noteq> (128 \<le> v)) \<longleftrightarrow>
    \<not> (- 128 \<le> signed8 l - signed8 r - int c \<and> signed8 l - signed8 r - int c \<le> 127)"
  using assms unfolding signed8_def
  by (cases "128 \<le> l"; cases "128 \<le> r"; cases "l < r + c"; simp; linarith)

lemma signed_sub_overflow:
  fixes l r v :: u8
  assumes v: "unat v = (unat l + 256 - unat r - of_bool c) mod 256"
  shows "(bit l 7 \<noteq> bit r 7 \<and> bit l 7 \<noteq> bit v 7) \<longleftrightarrow>
    \<not> (- 128 \<le> sint l - sint r - of_bool c \<and> sint l - sint r - of_bool c \<le> 127)"
proof -
  have "unat l + 256 - unat r - of_bool c < 512"
    using unat_u8_less [of l] unat_u8_less [of r] by simp
  then have "int (unat v) = int (unat l) - int (unat r) - int (of_bool c)
      + (if unat l < unat r + of_bool c then 256 else 0)"
    unfolding v using unat_u8_less [of r] by (cases c) (auto simp: wrap256 of_nat_diff simp del: of_nat_unat)
  from signed_sub_overflow_nat [OF unat_u8_less unat_u8_less _ this] show ?thesis
    by (simp add: sint_signed8 bit7_u8)
qed

section \<open>Packed decimal\<close>

definition bcd :: "nat \<Rightarrow> u8" where
  "bcd n = of_nat (16 * (n div 10) + n mod 10)"

lemma unat_bcd: "n \<le> 99 \<Longrightarrow> unat (bcd n) = 16 * (n div 10) + n mod 10"
proof -
  assume "n \<le> 99"
  then have "n div 10 \<le> 9" "n mod 10 \<le> 9" by auto
  then have "16 * (n div 10) + n mod 10 < 256" by linarith
  then show ?thesis unfolding bcd_def unat_of_nat by simp
qed

lemma int_bcd: "n \<le> 99 \<Longrightarrow> int (unat (bcd n)) = 16 * (int n div 10) + int n mod 10"
  by (simp only: unat_bcd) (simp add: zdiv_int zmod_int)

lemma mod_99: "(n :: nat) mod 100 \<le> 99"
  using mod_less_divisor [of 100 n] by linarith

lemma nat_mod_99: "nat ((d :: int) mod 100) \<le> 99"
  using pos_mod_bound [of 100 d] by linarith

lemma low_nibble: "unat ((x :: u8) AND 0x0F) = unat x mod 16"
proof -
  have "x AND 0x0F = take_bit 4 x" by (simp add: take_bit_eq_mask mask_eq_exp_minus_1)
  then show ?thesis by (simp only: unsigned_take_bit_eq) (simp add: take_bit_eq_mod)
qed

lemma daa_add_digits:
  fixes s1 s0 :: nat
  assumes "s1 \<le> 18" "s0 \<le> 19"
  defines "decimal \<equiv> 10 * s1 + s0" and "raw \<equiv> 16 * s1 + s0"
  defines "high \<equiv> 255 < raw \<or> 153 < raw mod 256"
    and "low \<equiv> 16 \<le> s0 \<or> 9 < s0 mod 16"
  shows "high \<longleftrightarrow> 100 \<le> decimal"
    "(raw mod 256 + 96 * of_bool high + 6 * of_bool low) mod 256
      = 16 * (decimal mod 100 div 10) + decimal mod 100 mod 10"
proof -
  have raw: "raw \<le> 307" using assms(1-2) by (simp add: raw_def)
  have high: "high \<longleftrightarrow> 153 < raw"
    unfolding high_def using raw by (cases "raw < 256") auto
  have low: "low \<longleftrightarrow> 10 \<le> s0"
    unfolding low_def using assms(1-2) by (cases "s0 < 16") auto
  have carry: "high \<longleftrightarrow> 10 \<le> s1 + of_bool low"
    unfolding high low raw_def using assms(1-2) by (cases "10 \<le> s0") (simp_all, linarith+)
  define tens where "tens = s1 + of_bool low - 10 * of_bool high"
  define ones where "ones = s0 - 10 * of_bool low"
  have ones: "ones \<le> 9" "s0 = ones + 10 * of_bool low"
    unfolding ones_def low using assms(1-2) by auto
  have tens: "tens \<le> 9" "s1 + of_bool low = tens + 10 * of_bool high"
    unfolding tens_def carry using assms(1-2) by (auto simp: low)
  have dec: "decimal = 100 * of_bool high + (10 * tens + ones)"
    using ones(2) tens(2) by (cases low; cases high) (simp_all add: decimal_def)
  show "high \<longleftrightarrow> 100 \<le> decimal"
    unfolding dec using ones(1) tens(1) by (cases high) simp_all
  have dec_mod: "decimal mod 100 = 10 * tens + ones" unfolding dec using ones(1) tens(1) by simp
  have "raw + 96 * of_bool high + 6 * of_bool low = 256 * of_bool high + (16 * tens + ones)"
    using ones(2) tens(2) by (cases low; cases high) (simp_all add: raw_def)
  then have "(raw + 96 * of_bool high + 6 * of_bool low) mod 256
      = (256 * of_bool high + (16 * tens + ones)) mod 256" by (rule arg_cong)
  also have "\<dots> = 16 * tens + ones" using ones(1) tens(1) by (cases high) simp_all
  finally have "(raw + 96 * of_bool high + 6 * of_bool low) mod 256 = 16 * tens + ones" .
  moreover have "(raw mod 256 + 96 * of_bool high + 6 * of_bool low) mod 256
      = (raw + 96 * of_bool high + 6 * of_bool low) mod 256"
    by (simp add: mod_simps)
  ultimately show "(raw mod 256 + 96 * of_bool high + 6 * of_bool low) mod 256
      = 16 * (decimal mod 100 div 10) + decimal mod 100 mod 10"
    using ones(1) dec_mod by simp
qed

lemma daa_sub_digits:
  fixes d1 d0 :: int
  assumes "- 9 \<le> d1" "d1 \<le> 9" "- 10 \<le> d0" "d0 \<le> 9"
  defines "decimal \<equiv> 10 * d1 + d0" and "raw \<equiv> 16 * d1 + d0"
  defines "high \<equiv> raw < 0 \<or> 153 < raw mod 256" and "low \<equiv> d0 < 0 \<or> 9 < raw mod 256 mod 16"
  shows "high \<longleftrightarrow> decimal < 0"
    "(raw mod 256 - 96 * of_bool high - 6 * of_bool low) mod 256
      = 16 * (decimal mod 100 div 10) + decimal mod 100 mod 10"
proof -
  have high: "high \<longleftrightarrow> raw < 0"
    unfolding high_def using assms(1-4) by (cases "raw < 0") (simp_all add: raw_def)
  have "raw mod 256 mod 16 = d0 mod 16"
    by (simp add: raw_def mod_mod_cancel)
  then have low: "low \<longleftrightarrow> d0 < 0"
    unfolding low_def using assms(1-4) by (cases "d0 < 0") simp_all
  have borrow: "high \<longleftrightarrow> d1 - of_bool low < 0"
    unfolding high low raw_def using assms(1-4) by (cases "d0 < 0") (simp_all, linarith+)
  define tens where "tens = d1 - of_bool low + 10 * of_bool high"
  define ones where "ones = d0 + 10 * of_bool low"
  have ones: "0 \<le> ones" "ones \<le> 9" unfolding ones_def low using assms(1-4) by auto
  have tens: "0 \<le> tens" "tens \<le> 9"
    unfolding tens_def using assms(1-4) borrow by (cases low; cases high; simp)+
  have dec: "decimal = (10 * tens + ones) - 100 * of_bool high"
    by (simp add: decimal_def tens_def ones_def)
  show "high \<longleftrightarrow> decimal < 0"
    unfolding dec using ones tens by (cases high) simp_all
  have dec_mod: "decimal mod 100 = 10 * tens + ones"
    unfolding dec using ones tens minus_mod_self2 [of "10 * tens + ones" 100] by (cases high) simp_all
  have "raw - 96 * of_bool high - 6 * of_bool low = (16 * tens + ones) - 256 * of_bool high"
    by (simp add: raw_def tens_def ones_def)
  then have "(raw - 96 * of_bool high - 6 * of_bool low) mod 256
      = ((16 * tens + ones) - 256 * of_bool high) mod 256" by (rule arg_cong)
  also have "\<dots> = 16 * tens + ones"
    using ones tens minus_mod_self2 [of "16 * tens + ones" 256] by (cases high) simp_all
  finally have "(raw - 96 * of_bool high - 6 * of_bool low) mod 256 = 16 * tens + ones" .
  moreover have "(raw mod 256 - 96 * of_bool high - 6 * of_bool low) mod 256
      = (raw - 96 * of_bool high - 6 * of_bool low) mod 256"
    by (simp add: mod_simps)
  ultimately show "(raw mod 256 - 96 * of_bool high - 6 * of_bool low) mod 256
      = 16 * (decimal mod 100 div 10) + decimal mod 100 mod 10"
    using ones dec_mod by simp
qed

text \<open>The decimal adjustment of a sum: what a processor has to add, and the carry it reports.\<close>

lemma bcd_add_adjusted:
  fixes c :: bool
  assumes m: "m \<le> 99" and n: "n \<le> 99"
  defines "binary \<equiv> unat (bcd m) + unat (bcd n) + of_bool c"
  assumes carry: "carry \<longleftrightarrow> 256 \<le> binary" and v: "v = binary mod 256"
    and half: "half \<longleftrightarrow> 16 \<le> unat (bcd m) mod 16 + unat (bcd n) mod 16 + of_bool c"
  defines "high \<equiv> carry \<or> 153 < v" and "low \<equiv> half \<or> 9 < v mod 16"
  shows "high \<longleftrightarrow> 100 \<le> m + n + of_bool c"
    "(v + 96 * of_bool high + 6 * of_bool low) mod 256 = unat (bcd ((m + n + of_bool c) mod 100))"
proof -
  define s1 where "s1 = m div 10 + n div 10"
  define s0 where "s0 = m mod 10 + n mod 10 + of_bool c"
  have raw: "16 * s1 + s0 = binary" using m n by (simp add: s1_def s0_def binary_def unat_bcd)
  have decimal: "10 * s1 + s0 = m + n + of_bool c" by (simp add: s1_def s0_def)
  have ones: "m mod 10 \<le> 9" "n mod 10 \<le> 9" by simp_all
  have digits: "unat (bcd m) mod 16 = m mod 10" "unat (bcd n) mod 16 = n mod 10"
    using m n by (simp_all add: unat_bcd)
  have tens: "m div 10 \<le> 9" "n div 10 \<le> 9" using m n by auto
  then have bounds: "s1 \<le> 18" "s0 \<le> 19" using ones by (simp_all add: s1_def s0_def)
  have "(16 * s1 + s0) mod 256 mod 16 = s0 mod 16" by (simp add: mod_mod_cancel)
  then have high: "high \<longleftrightarrow> 255 < 16 * s1 + s0 \<or> 153 < (16 * s1 + s0) mod 256"
    and low: "low \<longleftrightarrow> 16 \<le> s0 \<or> 9 < s0 mod 16"
    unfolding high_def low_def carry half v digits raw [symmetric] s0_def by auto
  note adjusted = daa_add_digits [OF bounds, folded high low, unfolded decimal]
  show "high \<longleftrightarrow> 100 \<le> m + n + of_bool c" by (rule adjusted(1))
  show "(v + 96 * of_bool high + 6 * of_bool low) mod 256 = unat (bcd ((m + n + of_bool c) mod 100))"
    unfolding v raw [symmetric] adjusted(2) by (rule unat_bcd [OF mod_99, symmetric])
qed

end
