(* ===== verification/Z80_Arith.thy ===== *)
theory Z80_Arith
  imports Z80_Prefixed Byte_Arith
begin

text \<open>
  What the arithmetic of the Z80 core computes: the flags of additions and subtractions as
  statements about the numbers involved, decimal adjustment as decimal addition, the
  16-bit operations, and the rotations as permutations of bits.
\<close>

section \<open>Additions\<close>

lemma add8_sum:
  "unat (ucast (l :: u8) + ucast (r :: u8) + u16_of_bool c :: u16) = unat l + unat r + of_bool c"
  using unat_u8_less [of l] unat_u8_less [of r]
  by (simp add: unat_word_ariths u16_of_bool_def unsigned_ucast_eq take_bit_eq_mod)

lemma add8_value: "unat (fst (z80_add8 l r c s)) = (unat l + unat r + of_bool c) mod 256"
  by (simp add: z80_add8_def Let_def unsigned_ucast_eq add8_sum take_bit_eq_mod)

lemma add8_flags:
  fixes l r :: u8 and c :: bool and s :: "'b z80"
  defines "R \<equiv> z80_add8 l r c s"
  shows "flags_carry (z_flags (snd R)) \<longleftrightarrow> 255 < unat l + unat r + of_bool c"
    "flags_parity_overflow (z_flags (snd R)) \<longleftrightarrow> bit l 7 = bit r 7 \<and> bit l 7 \<noteq> bit (fst R) 7"
    "flags_half_carry (z_flags (snd R)) \<longleftrightarrow> (bit l 4 \<noteq> bit r 4) \<noteq> bit (fst R) 4"
    "flags_sign (z_flags (snd R)) \<longleftrightarrow> bit (fst R) 7"
    "flags_zero (z_flags (snd R)) \<longleftrightarrow> fst R = 0"
    "\<not> flags_subtract (z_flags (snd R))"
    "bit (z_flags (snd R)) 3 \<longleftrightarrow> bit (fst R) 3" "bit (z_flags (snd R)) 5 \<longleftrightarrow> bit (fst R) 5"
  by (auto simp: R_def and.assoc [symmetric] z80_add8_def Let_def z80_set_defs flag_bits
      word_less_nat_alt add8_sum and_mask_bit bit_xor_iff bit_and_iff bit_not_iff bit_ucast_iff)

lemma add8_arith:
  fixes l r :: u8 and c :: bool and s :: "'b z80"
  defines "v \<equiv> fst (z80_add8 l r c s)" and "f \<equiv> z_flags (snd (z80_add8 l r c s))"
  shows "unat v + 256 * of_bool (flags_carry f) = unat l + unat r + of_bool c
    \<and> (flags_parity_overflow f \<longleftrightarrow> \<not> (- 128 \<le> sint l + sint r + of_bool c \<and> sint l + sint r + of_bool c \<le> 127))
    \<and> (flags_half_carry f \<longleftrightarrow> 16 \<le> unat l mod 16 + unat r mod 16 + of_bool c)
    \<and> (flags_sign f \<longleftrightarrow> sint v < 0) \<and> (flags_zero f \<longleftrightarrow> v = 0) \<and> \<not> flags_subtract f
    \<and> (bit f 3 \<longleftrightarrow> bit v 3) \<and> (bit f 5 \<longleftrightarrow> bit v 5)
    \<and> z80_but_flags (snd (z80_add8 l r c s)) = z80_but_flags s"
proof -
  note v = add8_value [of l r c s, folded v_def]
  note f = add8_flags [of l r c s, folded v_def f_def]
  have "unat l + unat r + of_bool c < 512"
    using unat_u8_less [of l] unat_u8_less [of r] by simp
  then have sum: "unat v + 256 * of_bool (flags_carry f) = unat l + unat r + of_bool c"
    unfolding v f(1) by (simp add: wrap256)
  have half: "flags_half_carry f \<longleftrightarrow> 16 \<le> unat l mod 16 + unat r mod 16 + of_bool c"
    using nibble_carry [of "of_bool c" "unat l" "unat r"] bit_div_mod [of 4]
    unfolding f(3) bit_odd_div v by auto
  show ?thesis
    using sum half f signed_add_overflow [OF v] by (simp add: sint_u8_negative z80_alu_but_flags)
qed

section \<open>Subtractions\<close>

lemma sub8_value: "unat (fst (z80_sub8 l r c s)) = (unat l + 256 - unat r - of_bool c) mod 256"
proof -
  have "uint (fst (z80_sub8 l r c s)) = (uint l - uint r - of_bool c) mod 256"
    by (simp add: z80_sub8_def Let_def unsigned_ucast_eq take_bit_eq_mod uint_word_ariths
        u16_of_bool_def mod_mod_cancel mod_simps)
  also have "\<dots> = (int (unat l + 256 - unat r - of_bool c)) mod 256"
    using unat_u8_less [of r] mod_add_self2 [of "uint l - uint r - of_bool c" 256]
    by (simp add: of_nat_diff algebra_simps)
  finally have "int (unat (fst (z80_sub8 l r c s))) = int ((unat l + 256 - unat r - of_bool c) mod 256)"
    by (simp only: zmod_int of_nat_unat of_nat_numeral)
  then show ?thesis by (simp only: of_nat_eq_iff)
qed

lemma sub8_borrow:
  "(ucast (l :: u8) - ucast (r :: u8) - u16_of_bool c :: u16) <s 0 \<longleftrightarrow> unat l < unat r + of_bool c"
proof -
  let ?k = "int (unat l) - int (unat r) - of_bool c"
  have eq: "(ucast l - ucast r - u16_of_bool c :: u16) = word_of_int ?k"
    by (simp add: u16_of_bool_def)
  have small: "signed_take_bit 15 ?k = ?k"
  proof (rule signed_take_bit_int_eq_self)
    have "- 256 \<le> ?k \<and> ?k < 256"
      using unat_u8_less [of l] unat_u8_less [of r] by (cases c) (simp_all only: of_bool_eq, linarith+)
    then show "- (2 ^ 15) \<le> ?k" "?k < 2 ^ 15" by simp_all
  qed
  have "sint (word_of_int ?k :: u16) = ?k"
    unfolding signed_of_int by (simp only: len_num1 len_bit0) (use small in simp)
  then have "sint (ucast l - ucast r - u16_of_bool c :: u16) = ?k"
    unfolding eq .
  then show ?thesis
    unfolding word_sless_alt sint_0 by (cases c) (simp_all only: of_bool_eq, linarith+)
qed

lemma sub8_flags:
  fixes l r :: u8 and c :: bool and s :: "'b z80"
  defines "R \<equiv> z80_sub8 l r c s"
  shows "flags_carry (z_flags (snd R)) \<longleftrightarrow> unat l < unat r + of_bool c"
    "flags_parity_overflow (z_flags (snd R)) \<longleftrightarrow> bit l 7 \<noteq> bit r 7 \<and> bit l 7 \<noteq> bit (fst R) 7"
    "flags_half_carry (z_flags (snd R)) \<longleftrightarrow> (bit l 4 \<noteq> bit r 4) \<noteq> bit (fst R) 4"
    "flags_sign (z_flags (snd R)) \<longleftrightarrow> bit (fst R) 7"
    "flags_zero (z_flags (snd R)) \<longleftrightarrow> fst R = 0"
    "flags_subtract (z_flags (snd R))"
    "bit (z_flags (snd R)) 3 \<longleftrightarrow> bit (fst R) 3" "bit (z_flags (snd R)) 5 \<longleftrightarrow> bit (fst R) 5"
  by (auto simp: R_def and.assoc [symmetric] z80_sub8_def Let_def z80_set_defs flag_bits
      sub8_borrow and_mask_bit bit_xor_iff bit_and_iff bit_ucast_iff)

lemma sub8_arith:
  fixes l r :: u8 and c :: bool and s :: "'b z80"
  defines "v \<equiv> fst (z80_sub8 l r c s)" and "f \<equiv> z_flags (snd (z80_sub8 l r c s))"
  shows "int (unat v) - 256 * of_bool (flags_carry f) = int (unat l) - int (unat r) - of_bool c
    \<and> (flags_parity_overflow f \<longleftrightarrow> \<not> (- 128 \<le> sint l - sint r - of_bool c \<and> sint l - sint r - of_bool c \<le> 127))
    \<and> (flags_half_carry f \<longleftrightarrow> unat l mod 16 < unat r mod 16 + of_bool c)
    \<and> (flags_sign f \<longleftrightarrow> sint v < 0) \<and> (flags_zero f \<longleftrightarrow> v = 0) \<and> flags_subtract f
    \<and> (bit f 3 \<longleftrightarrow> bit v 3) \<and> (bit f 5 \<longleftrightarrow> bit v 5)
    \<and> z80_but_flags (snd (z80_sub8 l r c s)) = z80_but_flags s"
proof -
  note v = sub8_value [of l r c s, folded v_def]
  note f = sub8_flags [of l r c s, folded v_def f_def]
  have "unat l + 256 - unat r - of_bool c < 512"
    using unat_u8_less [of l] by simp
  then have "unat v = (if unat l < unat r + of_bool c then unat l + 256 - unat r - of_bool c
      else unat l - unat r - of_bool c)"
    unfolding v using unat_u8_less [of r] by (cases c) (auto simp: wrap256)
  then have sum: "int (unat v) - 256 * of_bool (flags_carry f) = int (unat l) - int (unat r) - of_bool c"
    unfolding f(1) using unat_u8_less [of r] by (cases c) (simp_all add: of_nat_diff del: of_nat_unat)
  have half: "flags_half_carry f \<longleftrightarrow> unat l mod 16 < unat r mod 16 + of_bool c"
    using nibble_borrow [of "of_bool c" "unat l" "unat r"] unat_u8_less
    unfolding f(3) bit_odd_div v by auto
  show ?thesis
    using sum half f signed_sub_overflow [OF v] by (simp add: sint_u8_negative z80_alu_but_flags)
qed

end
