(* ===== verification/Z80_Arith16.thy ===== *)
theory Z80_Arith16
  imports Z80_Arith
begin

text \<open>
  The 16-bit operations behind ED, built in the code from two 8-bit ones, as 16-bit
  arithmetic with a carry, decimal adjustment as addition in decimal, and the rotations
  and shifts as permutations of bits.
\<close>

section \<open>16-bit addition and subtraction\<close>

lemma sint_u16: "sint (x :: u16) = int (unat x) - (if 32768 \<le> unat x then 65536 else 0)"
proof -
  have "sint x = take_bit 16 (int (unat x) + 32768) - 32768"
    by (simp add: sint_uint signed_take_bit_eq_take_bit_shift)
  also have "\<dots> = (int (unat x) + 32768) mod 65536 - 32768"
    by (simp add: take_bit_eq_mod)
  also have "\<dots> = int (unat x) - (if 32768 \<le> unat x then 65536 else 0)"
  proof (cases "32768 \<le> unat x")
    case True
    have "(int (unat x) + 32768) mod 65536 = (int (unat x) - 32768) mod 65536"
      using minus_mod_self2 [of "int (unat x) + 32768" 65536] by simp
    also have "\<dots> = int (unat x) - 32768"
      using True unat_u16_less [of x] by (intro mod_pos_pos_trivial) linarith+
    finally show ?thesis using True by simp
  next
    case False
    then have "(int (unat x) + 32768) mod 65536 = int (unat x) + 32768"
      by (intro mod_pos_pos_trivial) linarith+
    then show ?thesis using False by simp
  qed
  finally show ?thesis .
qed

lemma sint_le16: "sint (le16 l h) = int (unat l) + 256 * sint h"
proof -
  have "32768 \<le> unat l + 256 * unat h \<longleftrightarrow> 128 \<le> unat h"
    using unat_u8_less [of l] by linarith
  then show ?thesis by (simp add: sint_u16 unat_le16 sint_u8 bit7_u8)
qed

lemma le16_split:
  "unat w = unat (lo8 w) + 256 * unat (hi8 w)" "sint w = int (unat (lo8 w)) + 256 * sint (hi8 w)"
  using unat_le16 [of "lo8 w" "hi8 w"] sint_le16 [of "lo8 w" "hi8 w"] by simp_all

lemma signed_word_range:
  fixes k :: int and a :: u8
  assumes "w = int (unat a) + 256 * k"
  shows "- 32768 \<le> w \<and> w \<le> 32767 \<longleftrightarrow> - 128 \<le> k \<and> k \<le> 127"
proof -
  have "0 \<le> int (unat a) \<and> int (unat a) < 256" using unat_u8_less [of a] by linarith
  then show ?thesis unfolding assms by linarith
qed

lemma read_pair_latch [simp]: "z80_read_pair k m (z80_set_q_latch b s) = z80_read_pair k m s"
  by (cases m) (simp_all add: z80_read_pair_def z80_set_q_latch_def z80_pair_defs z80_current_hl_def
      Let_def)

text \<open>
  Addition of register pairs. \<open>ADC HL, rr\<close> adds the pair and the carry to HL as
  16-bit numbers: the carry flag is the bit lost, overflow is set exactly when the signed
  sum does not fit, sign and zero describe the result, and the subtract flag is clear.
\<close>

theorem z80_adc_hl_rr_meaning:
  fixes s :: "'b z80" and pair :: u8
  defines "x \<equiv> z80_hl s" and "y \<equiv> z80_read_pair pair HL s" and "c \<equiv> flags_carry (z_flags s)"
    and "v \<equiv> z80_hl (z80_adc_hl_rr pair s)" and "f \<equiv> z_flags (z80_adc_hl_rr pair s)"
  shows "unat v + 65536 * of_bool (flags_carry f) = unat x + unat y + of_bool c
    \<and> (flags_parity_overflow f \<longleftrightarrow>
        \<not> (- 32768 \<le> sint x + sint y + of_bool c \<and> sint x + sint y + of_bool c \<le> 32767))
    \<and> (flags_sign f \<longleftrightarrow> sint v < 0) \<and> (flags_zero f \<longleftrightarrow> v = 0) \<and> \<not> flags_subtract f"
proof -
  define u where "u = (z80_set_q_latch True s)\<lparr>z_wz := z80_hl s + 1\<rparr>"
  define A where "A = z80_add8 (z_l s) (lo8 y) c u"
  define B where "B = z80_add8 (z_h s) (hi8 y) (flags_carry (z_flags (snd A))) (snd A)"
  define c1 where "c1 = flags_carry (z_flags (snd A))"
  have h: "z_h (snd A) = z_h s"
    by (simp add: A_def alu_registers u_def z80_set_q_latch_def)
  have run: "z80_adc_hl_rr pair s =
    z80_clk 7 (z_flags_update (flags_set_zero (le16 (fst A) (fst B) = 0))
      (z80_set_hl (le16 (fst A) (fst B)) (snd B)))"
    unfolding z80_adc_hl_rr_def Let_def case_prod_unfold read_pair_latch y_def [symmetric]
    by (simp add: A_def B_def u_def c_def h z80_set_q_latch_def z80_hl_def
        alu_registers del: le16_eq_iff)
  have v: "v = le16 (fst A) (fst B)"
    by (simp add: v_def run z80_clk_def z80_pair_defs)
  have f: "f = flags_set_zero (v = 0) (z_flags (snd B))"
    by (simp add: f_def v run z80_clk_def z80_pair_defs)
  note low = add8_arith [of "z_l s" "lo8 y" c u, folded A_def, folded c1_def]
  note high = add8_arith [of "z_h s" "hi8 y" c1 "snd A", folded B_def [folded c1_def]]
  let ?k = "flags_carry (z_flags (snd B))"
  have digits: "unat (fst A) + 256 * of_bool c1 = unat (z_l s) + unat (lo8 y) + of_bool c"
    "unat (fst B) + 256 * of_bool ?k = unat (z_h s) + unat (hi8 y) + of_bool c1"
    using low high by blast+
  have sum: "unat v + 65536 * of_bool ?k = unat x + unat y + of_bool c"
    using digits unfolding v x_def z80_hl_def unat_le16 le16_split(1) [of y] by linarith
  have "int (unat (fst A)) + 256 * of_bool c1 = int (unat (z_l s)) + int (unat (lo8 y)) + of_bool c"
    using arg_cong [OF digits(1), of int] by simp
  then have "sint x + sint y + of_bool c
      = int (unat (fst A)) + 256 * (sint (z_h s) + sint (hi8 y) + of_bool c1)"
    unfolding x_def z80_hl_def sint_le16 le16_split(2) [of y] by (simp add: algebra_simps)
  note signed = signed_word_range [OF this]
  have "sint v < 0 \<longleftrightarrow> sint (fst B) < 0"
    unfolding v sint_le16 using unat_u8_less [of "fst A"] by linarith
  with sum signed high show ?thesis by (simp add: f flag_bits)
qed

text \<open>
  Subtraction of register pairs. \<open>SBC HL, rr\<close> subtracts the pair and the carry from
  HL as 16-bit numbers: the carry flag is the borrow, overflow is set exactly when the
  signed difference does not fit, sign and zero describe the result, and the subtract
  flag is set.
\<close>

theorem z80_sbc_hl_rr_meaning:
  fixes s :: "'b z80" and pair :: u8
  defines "x \<equiv> z80_hl s" and "y \<equiv> z80_read_pair pair HL s" and "c \<equiv> flags_carry (z_flags s)"
    and "v \<equiv> z80_hl (z80_sbc_hl_rr pair s)" and "f \<equiv> z_flags (z80_sbc_hl_rr pair s)"
  shows "int (unat v) - 65536 * of_bool (flags_carry f) = int (unat x) - int (unat y) - of_bool c
    \<and> (flags_parity_overflow f \<longleftrightarrow>
        \<not> (- 32768 \<le> sint x - sint y - of_bool c \<and> sint x - sint y - of_bool c \<le> 32767))
    \<and> (flags_sign f \<longleftrightarrow> sint v < 0) \<and> (flags_zero f \<longleftrightarrow> v = 0) \<and> flags_subtract f"
proof -
  define u where "u = (z80_set_q_latch True s)\<lparr>z_wz := z80_hl s + 1\<rparr>"
  define A where "A = z80_sub8 (z_l s) (lo8 y) c u"
  define B where "B = z80_sub8 (z_h s) (hi8 y) (flags_carry (z_flags (snd A))) (snd A)"
  define c1 where "c1 = flags_carry (z_flags (snd A))"
  have h: "z_h (snd A) = z_h s"
    by (simp add: A_def alu_registers u_def z80_set_q_latch_def)
  have run: "z80_sbc_hl_rr pair s =
    z80_clk 7 (z_flags_update (flags_set_zero (le16 (fst A) (fst B) = 0))
      (z80_set_hl (le16 (fst A) (fst B)) (snd B)))"
    unfolding z80_sbc_hl_rr_def Let_def case_prod_unfold read_pair_latch y_def [symmetric]
    by (simp add: A_def B_def u_def c_def h z80_set_q_latch_def z80_hl_def
        alu_registers del: le16_eq_iff)
  have v: "v = le16 (fst A) (fst B)"
    by (simp add: v_def run z80_clk_def z80_pair_defs)
  have f: "f = flags_set_zero (v = 0) (z_flags (snd B))"
    by (simp add: f_def v run z80_clk_def z80_pair_defs)
  note low = sub8_arith [of "z_l s" "lo8 y" c u, folded A_def, folded c1_def]
  note high = sub8_arith [of "z_h s" "hi8 y" c1 "snd A", folded B_def [folded c1_def]]
  let ?k = "flags_carry (z_flags (snd B))"
  have digits: "int (unat (fst A)) - 256 * of_bool c1 = int (unat (z_l s)) - int (unat (lo8 y)) - of_bool c"
    "int (unat (fst B)) - 256 * of_bool ?k = int (unat (z_h s)) - int (unat (hi8 y)) - of_bool c1"
    using low high by blast+
  have sum: "int (unat v) - 65536 * of_bool ?k = int (unat x) - int (unat y) - of_bool c"
    using digits unfolding v x_def z80_hl_def unat_le16 le16_split(1) [of y] by (simp add: algebra_simps)
  have "sint x - sint y - of_bool c
      = int (unat (fst A)) + 256 * (sint (z_h s) - sint (hi8 y) - of_bool c1)"
    using digits(1) unfolding x_def z80_hl_def sint_le16 le16_split(2) [of y] by (simp add: algebra_simps)
  note signed = signed_word_range [OF this]
  have "sint v < 0 \<longleftrightarrow> sint (fst B) < 0"
    unfolding v sint_le16 using unat_u8_less [of "fst A"] by linarith
  with sum signed high show ?thesis by (simp add: f flag_bits)
qed

section \<open>Decimal adjustment\<close>

definition daa_high :: "'b z80 \<Rightarrow> bool" where
  "daa_high s \<longleftrightarrow> flags_carry (z_flags s) \<or> 0x99 < unat (z_a s)"

definition daa_low :: "'b z80 \<Rightarrow> bool" where
  "daa_low s \<longleftrightarrow> flags_half_carry (z_flags s) \<or> 9 < unat (z_a s) mod 16"

lemma daa_effect:
  "z_a (z80_daa s) =
     (if flags_subtract (z_flags s)
      then z_a s - 0x60 * of_bool (daa_high s) - 0x06 * of_bool (daa_low s)
      else z_a s + 0x60 * of_bool (daa_high s) + 0x06 * of_bool (daa_low s))"
  "flags_carry (z_flags (z80_daa s)) \<longleftrightarrow> daa_high s"
proof -
  have n: "(x + 0x60 :: u8) AND 0x0F = x AND 0x0F" for x
  proof -
    have "unat ((x + 0x60) AND 0x0F) = unat (x AND 0x0F)"
      using mod_mult_self1 [of "unat x" 6 16]
      by (simp only: low_nibble unat_word_ariths) (simp add: mod_mod_cancel)
    then show ?thesis by (simp only: word_unat_eq_iff)
  qed
  have n': "(x - 0x60 :: u8) AND 0x0F = x AND 0x0F" for x
    using n [of "x - 0x60"] by simp
  have high: "flags_carry (z_flags s) \<or> z_a s > 0x99 \<longleftrightarrow> daa_high s"
    by (simp add: daa_high_def word_less_nat_alt)
  have low: "flags_half_carry (z_flags s) \<or> (z_a s AND 0x0F) > 9 \<longleftrightarrow> daa_low s"
    by (simp add: daa_low_def word_less_nat_alt low_nibble)
  show "z_a (z80_daa s) =
     (if flags_subtract (z_flags s)
      then z_a s - 0x60 * of_bool (daa_high s) - 0x06 * of_bool (daa_low s)
      else z_a s + 0x60 * of_bool (daa_high s) + 0x06 * of_bool (daa_low s))"
    by (simp add: z80_daa_def Let_def high [symmetric] low [symmetric] n n' z80_set_defs
        z80_set_q_latch_def flag_bits)
  show "flags_carry (z_flags (z80_daa s)) \<longleftrightarrow> daa_high s"
    by (simp add: z80_daa_def Let_def high [symmetric] z80_set_defs z80_set_q_latch_def flag_bits)
qed

lemma daa_after_add:
  fixes s :: "'b z80" and c :: bool
  assumes m: "m \<le> 99" and n: "n \<le> 99"
  defines "t \<equiv> z80_daa ((snd (z80_add8 (bcd m) (bcd n) c s))\<lparr>z_a := fst (z80_add8 (bcd m) (bcd n) c s)\<rparr>)"
  shows "z_a t = bcd ((m + n + of_bool c) mod 100)"
    "flags_carry (z_flags t) \<longleftrightarrow> 100 \<le> m + n + of_bool c"
proof -
  define R where "R = z80_add8 (bcd m) (bcd n) c s"
  define u where "u = (snd R)\<lparr>z_a := fst R\<rparr>"
  have za: "z_a u = fst R" by (simp add: u_def)
  have flags: "flags_carry (z_flags u) \<longleftrightarrow> 256 \<le> unat (bcd m) + unat (bcd n) + of_bool c"
    "flags_half_carry (z_flags u) \<longleftrightarrow> 16 \<le> unat (bcd m) mod 16 + unat (bcd n) mod 16 + of_bool c"
    "\<not> flags_subtract (z_flags u)"
    using add8_arith [of "bcd m" "bcd n" c s, folded R_def] add8_flags(1) [of "bcd m" "bcd n" c s, folded R_def]
    by (simp add: u_def less_eq_Suc_le, simp add: u_def, simp add: u_def)
  have v: "unat (z_a u) = (unat (bcd m) + unat (bcd n) + of_bool c) mod 256"
    by (simp add: za R_def add8_value)
  note adjusted = bcd_add_adjusted [OF m n flags(1) v flags(2), folded daa_high_def daa_low_def]
  have t: "t = z80_daa u" by (simp only: t_def R_def u_def)
  show "flags_carry (z_flags t) \<longleftrightarrow> 100 \<le> m + n + of_bool c"
    using adjusted(1) by (simp add: t daa_effect)
  have "unat (z_a t) = (unat (z_a u) + 96 * of_bool (daa_high u) + 6 * of_bool (daa_low u)) mod 256"
    unfolding t daa_effect(1) using flags(3) by (simp add: unat_word_ariths) (simp add: mod_simps)
  then show "z_a t = bcd ((m + n + of_bool c) mod 100)"
    by (simp only: adjusted(2) word_unat_eq_iff)
qed

lemma daa_after_sub:
  fixes s :: "'b z80" and c :: bool
  assumes m: "m \<le> 99" and n: "n \<le> 99"
  defines "t \<equiv> z80_daa ((snd (z80_sub8 (bcd m) (bcd n) c s))\<lparr>z_a := fst (z80_sub8 (bcd m) (bcd n) c s)\<rparr>)"
    and "d \<equiv> int m - int n - of_bool c"
  shows "z_a t = bcd (nat (d mod 100))" "flags_carry (z_flags t) \<longleftrightarrow> d < 0"
proof -
  define R where "R = z80_sub8 (bcd m) (bcd n) c s"
  define u where "u = (snd R)\<lparr>z_a := fst R\<rparr>"
  define d1 where "d1 = int m div 10 - int n div 10"
  define d0 where "d0 = int m mod 10 - int n mod 10 - of_bool c"
  have raw: "16 * d1 + d0 = int (unat (bcd m)) - int (unat (bcd n)) - of_bool c"
    using m n by (simp only: int_bcd) (simp add: d1_def d0_def)
  have decimal: "10 * d1 + d0 = d"
    using mult_div_mod_eq [of 10 "int m"] mult_div_mod_eq [of 10 "int n"]
    unfolding d1_def d0_def d_def by (simp only: right_diff_distrib)
  have tens: "0 \<le> int k div 10 \<and> int k div 10 \<le> 9" if "k \<le> 99" for k using that by auto
  have ones: "0 \<le> int k mod 10 \<and> int k mod 10 \<le> 9" for k
    using pos_mod_bound [of 10 "int k"] by simp
  have bounds: "- 9 \<le> d1" "d1 \<le> 9"
    unfolding d1_def using tens [OF m] tens [OF n] by linarith+
  have "0 \<le> (of_bool c :: int) \<and> (of_bool c :: int) \<le> 1" by simp
  then have bounds0: "- 10 \<le> d0" "d0 \<le> 9"
    unfolding d0_def using ones [of m] ones [of n] by linarith+
  have digits: "int (unat (bcd m) mod 16) = int m mod 10" "int (unat (bcd n) mod 16) = int n mod 10"
    using m n by (simp_all add: unat_bcd zmod_int)
  note f = sub8_arith [of "bcd m" "bcd n" c s, folded R_def]
  have za: "z_a u = fst R" by (simp add: u_def)
  have v: "int (unat (fst R)) = (16 * d1 + d0) mod 256"
  proof -
    have "int (unat (fst R)) = 16 * d1 + d0 + 256 * of_bool (flags_carry (z_flags (snd R)))"
      using f raw by linarith
    then have "int (unat (fst R)) mod 256 = (16 * d1 + d0) mod 256" by simp
    moreover have "int (unat (fst R)) mod 256 = int (unat (fst R))"
      using unat_u8_less [of "fst R"] by (intro mod_pos_pos_trivial) linarith+
    ultimately show ?thesis by simp
  qed
  have flags: "flags_carry (z_flags u) \<longleftrightarrow> 16 * d1 + d0 < 0"
    "flags_half_carry (z_flags u) \<longleftrightarrow> d0 < 0" "flags_subtract (z_flags u)"
  proof -
    have "int (unat (fst R)) - 256 * of_bool (flags_carry (z_flags (snd R))) = 16 * d1 + d0"
      using f raw by linarith
    then show "flags_carry (z_flags u) \<longleftrightarrow> 16 * d1 + d0 < 0"
      using uint_lt2p [of "fst R"] uint_ge_0 [of "fst R"]
      by (cases "flags_carry (z_flags (snd R))") (simp_all add: u_def)
    have "flags_half_carry (z_flags (snd R)) \<longleftrightarrow>
        int (unat (bcd m) mod 16) < int (unat (bcd n) mod 16) + of_bool c"
    proof -
      have "flags_half_carry (z_flags (snd R)) \<longleftrightarrow>
          unat (bcd m) mod 16 < unat (bcd n) mod 16 + of_bool c" using f by blast
      also have "\<dots> \<longleftrightarrow> int (unat (bcd m) mod 16) < int (unat (bcd n) mod 16 + of_bool c)"
        by (simp only: of_nat_less_iff)
      finally show ?thesis by (simp only: of_nat_add of_nat_of_bool)
    qed
    then show "flags_half_carry (z_flags u) \<longleftrightarrow> d0 < 0"
      unfolding digits by (auto simp: u_def d0_def)
    show "flags_subtract (z_flags u)" using f by (simp add: u_def)
  qed
  have high: "daa_high u \<longleftrightarrow> 16 * d1 + d0 < 0 \<or> 153 < (16 * d1 + d0) mod 256"
    and low: "daa_low u \<longleftrightarrow> d0 < 0 \<or> 9 < (16 * d1 + d0) mod 256 mod 16"
    unfolding daa_high_def daa_low_def flags za v [symmetric]
    by (metis of_nat_less_iff of_nat_numeral, metis of_nat_less_iff of_nat_mod of_nat_numeral)
  note sum = daa_sub_digits [OF bounds bounds0, folded high low, unfolded decimal]
  show "flags_carry (z_flags t) \<longleftrightarrow> d < 0"
    using sum(1) by (simp add: t_def R_def [symmetric] u_def [symmetric] daa_effect)
  have "int (unat (z_a (z80_daa u))) = ((16 * d1 + d0) mod 256 - 96 * of_bool (daa_high u) - 6 * of_bool (daa_low u)) mod 256"
    unfolding daa_effect(1) v [symmetric] using flags(3)
    by (simp add: za uint_word_ariths) (simp add: mod_simps)
  with sum(2) have "int (unat (z_a (z80_daa u))) = int (unat (bcd (nat (d mod 100))))"
    by (subst int_bcd) (simp_all add: nat_mod_99)
  then show "z_a t = bcd (nat (d mod 100))"
    by (simp only: t_def R_def [symmetric] u_def [symmetric] word_unat_eq_iff of_nat_eq_iff)
qed

text \<open>
  C11 Decimal arithmetic. For packed decimal operands, an addition (ADD or ADC) followed by
  DAA leaves the packed decimal sum modulo 100 in A and the decimal carry in the carry
  flag, and a subtraction (SUB or SBC) followed by DAA the decimal difference and borrow.
\<close>

theorem z80_daa_decimal:
  fixes s :: "'b z80" and with_carry :: bool
  assumes "m \<le> 99" "n \<le> 99" "z_a s = bcd m"
  defines "c \<equiv> with_carry \<and> flags_carry (z_flags s)"
  defines "add \<equiv> z80_daa (z80_accumulator_op (if with_carry then 1 else 0) (bcd n) s)"
    and "sub \<equiv> z80_daa (z80_accumulator_op (if with_carry then 3 else 2) (bcd n) s)"
  shows "z_a add = bcd ((m + n + of_bool c) mod 100)
    \<and> (flags_carry (z_flags add) \<longleftrightarrow> 100 \<le> m + n + of_bool c)
    \<and> z_a sub = bcd (nat ((int m - int n - of_bool c) mod 100))
    \<and> (flags_carry (z_flags sub) \<longleftrightarrow> int m - int n < of_bool c)"
proof -
  have "add = z80_daa ((snd (z80_add8 (bcd m) (bcd n) c s))\<lparr>z_a := fst (z80_add8 (bcd m) (bcd n) c s)\<rparr>)"
    "sub = z80_daa ((snd (z80_sub8 (bcd m) (bcd n) c s))\<lparr>z_a := fst (z80_sub8 (bcd m) (bcd n) c s)\<rparr>)"
    by (simp_all add: add_def sub_def c_def z80_accumulator_op_def case_prod_unfold Let_def assms(3))
  then show ?thesis
    using daa_after_add [OF assms(1,2), of c s] daa_after_sub [OF assms(1,2), of c s] by simp
qed

theorem z80_daa_decimal_witness:
  "z_a (z80_daa (z80_accumulator_op 1 (bcd 85)
      ((z80_new 4000000 ())\<lparr>z_a := bcd 47, z_flags := FLAG_CARRY\<rparr>))) = bcd 33
   \<and> flags_carry (z_flags (z80_daa (z80_accumulator_op 1 (bcd 85)
      ((z80_new 4000000 ())\<lparr>z_a := bcd 47, z_flags := FLAG_CARRY\<rparr>))))"
  using z80_daa_decimal [of 47 85 "(z80_new 4000000 ())\<lparr>z_a := bcd 47, z_flags := FLAG_CARRY\<rparr>" True]
  by (simp add: flags_carry_def FLAG_CARRY_def)

end
