(* ===== verification/I8255.thy ===== *)
theory I8255
  imports Prelude
begin

text \<open>
  The parallel interface \<open>crates/device/src/i8255.rs\<close>: three ports with an output latch,
  an input latch that the wiring drives and a read mask each, and the control register,
  which either selects a mode or sets and resets single bits of port C.
\<close>

record i8255 =
  ppi_port_a :: u8
  ppi_port_b :: u8
  ppi_port_c :: u8
  ppi_input_a :: u8
  ppi_input_b :: u8
  ppi_input_c :: u8
  ppi_read_mask_a :: u8
  ppi_read_mask_b :: u8
  ppi_read_mask_c :: u8
  ppi_control :: u8

datatype i8255_write = WroteNone | WrotePortA | WrotePortB | WrotePortC | WroteMode

definition CONTROL_MODE_SET :: u8 where "CONTROL_MODE_SET = 0x80"
definition CONTROL_RESET :: u8 where "CONTROL_RESET = 0x9B"

definition i8255_new :: i8255 where
  "i8255_new =
   \<lparr> ppi_port_a = 0, ppi_port_b = 0, ppi_port_c = 0,
     ppi_input_a = 0, ppi_input_b = 0, ppi_input_c = 0,
     ppi_read_mask_a = 0xFF, ppi_read_mask_b = 0xFF, ppi_read_mask_c = 0xFF,
     ppi_control = CONTROL_RESET \<rparr>"

definition i8255_reset :: "i8255 \<Rightarrow> i8255" where
  "i8255_reset s = i8255_new"

definition i8255_read_port :: "u8 \<Rightarrow> u8 \<Rightarrow> u8 \<Rightarrow> u8" where
  "i8255_read_port output input read_mask = (input AND read_mask) OR (output AND NOT read_mask)"

definition i8255_read :: "u8 \<Rightarrow> i8255 \<Rightarrow> u8" where
  "i8255_read sel s =
     (let k = sel AND 0x03 in
      if k = 0 then i8255_read_port (ppi_port_a s) (ppi_input_a s) (ppi_read_mask_a s)
      else if k = 1 then i8255_read_port (ppi_port_b s) (ppi_input_b s) (ppi_read_mask_b s)
      else if k = 2 then i8255_read_port (ppi_port_c s) (ppi_input_c s) (ppi_read_mask_c s)
      else 0xFF)"

definition i8255_update_read_masks :: "u8 \<Rightarrow> i8255 \<Rightarrow> i8255" where
  "i8255_update_read_masks value s =
     (let port_a_mode = (if value AND 0x40 \<noteq> 0 then 2 else drop_bit 5 value AND 0x01);
          s = s\<lparr>ppi_read_mask_a := (if port_a_mode = 2 \<or> value AND 0x10 \<noteq> 0 then 0xFF else 0x00)\<rparr>;
          s = s\<lparr>ppi_read_mask_b := (if value AND 0x02 \<noteq> 0 then 0xFF else 0x00)\<rparr>
      in s\<lparr>ppi_read_mask_c := (if value AND 0x08 \<noteq> 0 then 0xF0 else 0x00)
                         OR (if value AND 0x01 \<noteq> 0 then 0x0F else 0x00)\<rparr>)"

definition i8255_write_control :: "u8 \<Rightarrow> i8255 \<Rightarrow> i8255_write \<times> i8255" where
  "i8255_write_control value s =
     (if value AND CONTROL_MODE_SET \<noteq> 0 then
        (let s = s\<lparr>ppi_control := value\<rparr>;
             s = i8255_update_read_masks value s;
             s = s\<lparr>ppi_port_a := 0, ppi_port_b := 0, ppi_port_c := 0\<rparr>
         in (WroteMode, s))
      else
        (let bit_number = drop_bit 1 value AND 0x07;
             bit_mask = push_bit (unat bit_number) 1;
             s = (if value AND 0x01 \<noteq> 0 then s\<lparr>ppi_port_c := ppi_port_c s OR bit_mask\<rparr>
                  else s\<lparr>ppi_port_c := ppi_port_c s AND NOT bit_mask\<rparr>)
         in (WrotePortC, s)))"

definition i8255_write :: "u8 \<Rightarrow> u8 \<Rightarrow> i8255 \<Rightarrow> i8255_write \<times> i8255" where
  "i8255_write sel value s =
     (let k = sel AND 0x03 in
      if k = 0 then (WrotePortA, s\<lparr>ppi_port_a := value\<rparr>)
      else if k = 1 then (WrotePortB, s\<lparr>ppi_port_b := value\<rparr>)
      else if k = 2 then (WrotePortC, s\<lparr>ppi_port_c := value\<rparr>)
      else i8255_write_control value s)"

definition i8255_set_port_a :: "u8 \<Rightarrow> i8255 \<Rightarrow> i8255" where
  "i8255_set_port_a value s = s\<lparr>ppi_input_a := value\<rparr>"

definition i8255_set_port_b :: "u8 \<Rightarrow> i8255 \<Rightarrow> i8255" where
  "i8255_set_port_b value s = s\<lparr>ppi_input_b := value\<rparr>"

definition i8255_set_port_c :: "u8 \<Rightarrow> i8255 \<Rightarrow> i8255" where
  "i8255_set_port_c value s = s\<lparr>ppi_input_c := value\<rparr>"

lemmas i8255_set_defs = i8255_set_port_a_def i8255_set_port_b_def i8255_set_port_c_def

section \<open>Reads and masks\<close>

lemma bit_read_port:
  "bit (i8255_read_port output input m) n \<longleftrightarrow> (if bit m n then bit input n else bit output n)" if "n < 8"
  using that by (auto simp: i8255_read_port_def bit_or_iff bit_and_iff bit_not_iff)

lemma read_port_masks [simp]:
  "i8255_read_port output input 0xFF = input" "i8255_read_port output input 0 = output"
  by (simp_all add: u8_eq_iff bit_read_port)

text \<open>
  The control register writes no bit but the selected one, and a mode word clears the
  outputs and lets each port read either its input or its output.
\<close>

lemma write_control_bit:
  assumes "value AND CONTROL_MODE_SET = 0" "n < 8"
  shows "bit (ppi_port_c (snd (i8255_write_control value s))) n \<longleftrightarrow>
     (if n = unat (drop_bit 1 value AND 0x07) then bit value 0 else bit (ppi_port_c s) n)"
proof -
  have one: "value AND 1 = 0 \<longleftrightarrow> \<not> bit value 0" using and_pow2_nonzero [of "value" 0] by auto
  have bit_mask: "bit (push_bit k (1 :: u8)) n \<longleftrightarrow> n = k" for k
    using assms(2) by (auto simp: bit_exp_iff)
  show ?thesis
    unfolding i8255_write_control_def Let_def using assms one
    by (cases "bit value 0")
      (simp_all only: if_True if_False simp_thms snd_conv,
       simp_all add: bit_or_iff bit_and_iff bit_not_iff bit_mask del: push_bit_of_1)
qed

lemma write_control_mode:
  assumes "value AND CONTROL_MODE_SET \<noteq> 0"
  shows "i8255_read 0 (snd (i8255_write_control value s)) =
      (if value AND 0x40 \<noteq> 0 \<or> value AND 0x10 \<noteq> 0 then ppi_input_a s else 0)"
    "i8255_read 1 (snd (i8255_write_control value s)) = (if value AND 0x02 \<noteq> 0 then ppi_input_b s else 0)"
proof -
  have "drop_bit 5 value AND 1 \<noteq> 2" by (simp add: u8_eq_iff bit_and_iff)
  with assms show "i8255_read 0 (snd (i8255_write_control value s)) =
      (if value AND 0x40 \<noteq> 0 \<or> value AND 0x10 \<noteq> 0 then ppi_input_a s else 0)"
    "i8255_read 1 (snd (i8255_write_control value s)) = (if value AND 0x02 \<noteq> 0 then ppi_input_b s else 0)"
    by (simp_all add: i8255_write_control_def i8255_update_read_masks_def i8255_read_def Let_def)
qed

end
