(* ===== verification/Pc80s31k.thy ===== *)
theory Pc80s31k
  imports I8255 Save_Restore
begin

text \<open>
  The disk sub-system of the PC-8801: \<open>crates/device/src/pc80s31k.rs\<close>. Its memory is 64
  KiB of which only 4000 to 7FFF can be written; its mailbox is a pair of 8255s, one at
  the main processor and one at the sub-processor, wired back to back: port A of one is
  port B of the other, and the halves of port C cross.

  The array of 65536 bytes is a function on \<open>u16\<close>, which can be indexed by every
  address without a bounds check, as in the code.
\<close>

section \<open>Memory\<close>

type_synonym pc80s31k_memory = "u16 \<Rightarrow> u8"

definition INITIAL_PATTERN_SELECTOR :: "nat list" where
  "INITIAL_PATTERN_SELECTOR =
   [0, 1, 0, 1, 0, 3, 0, 0, 0, 0, 1, 0, 1, 0, 1, 0, 0, 1, 0, 1, 0, 0, 0, 0, 0, 0, 1, 0, 1, 0, 1, 0,
    1, 0, 1, 0, 1, 0, 1, 1, 1, 1, 1, 1, 0, 1, 0, 1, 1, 0, 1, 0, 1, 0, 1, 1, 1, 1, 3, 1, 0, 1, 0, 1,
    1, 0, 1, 0, 1, 2, 1, 1, 1, 1, 0, 1, 0, 1, 0, 1, 1, 0, 1, 0, 1, 1, 1, 1, 1, 1, 0, 1, 0, 1, 0, 1]"

definition INITIAL_PATTERN :: "u8 list" where
  "INITIAL_PATTERN =
   [0x00, 0xFF, 0x00, 0xFF, 0xFF, 0x00, 0xFF, 0x00, 0x00, 0xFF, 0x00, 0xFF, 0xFF, 0x00, 0xFF, 0x00]"

definition memory_fill :: "nat \<Rightarrow> nat \<Rightarrow> u8 \<Rightarrow> pc80s31k_memory \<Rightarrow> pc80s31k_memory" where
  "memory_fill start stop v memory =
     (\<lambda>a. if start \<le> unat a \<and> unat a < stop then v else memory a)"

definition pc80s31k_block :: "nat \<times> nat \<Rightarrow> pc80s31k_memory \<Rightarrow> pc80s31k_memory" where
  "pc80s31k_block p memory =
     (let (block, selector) = p;
          exclusive_or = (if selector = 0 then 0xF0 else if selector = 1 then 0x0F
                          else if selector = 2 then 0xFF else 0x00);
          base = 0x2000 + block * 0x100
      in fold (\<lambda>(low, pattern) memory.
                 let byte = pattern XOR exclusive_or;
                     start = base + low * 0x10
                 in memory_fill start (start + 0x10) byte memory)
           (zip [0..<length INITIAL_PATTERN] INITIAL_PATTERN) memory)"

definition pc80s31k_memory_new :: pc80s31k_memory where
  "pc80s31k_memory_new =
     (let memory = (\<lambda>_. 0);
          memory = memory_fill 0x0000 0x2000 0xFF memory;
          memory = memory_fill 0x8000 0x10000 0xFF memory;
          memory = memory(0x0000 := 0x18);
          memory = memory(0x0001 := 0xFE)
      in fold pc80s31k_block
           (zip [0..<length INITIAL_PATTERN_SELECTOR] INITIAL_PATTERN_SELECTOR) memory)"

definition pc80s31k_load_rom :: "u8 list \<Rightarrow> pc80s31k_memory \<Rightarrow> pc80s31k_memory" where
  "pc80s31k_load_rom data memory =
     (let len = min (length data) 0x2000
      in (\<lambda>a. if unat a < len then data ! unat a else memory a))"

definition pc80s31k_read :: "u16 \<Rightarrow> pc80s31k_memory \<Rightarrow> u8" where
  "pc80s31k_read address memory = memory address"

definition pc80s31k_write :: "u16 \<Rightarrow> u8 \<Rightarrow> pc80s31k_memory \<Rightarrow> pc80s31k_memory" where
  "pc80s31k_write address value memory =
     (if 0x4000 \<le> address \<and> address < 0x8000 then memory(address := value) else memory)"

definition pc80s31k_capture_state :: "pc80s31k_memory \<Rightarrow> u8 list" where
  "pc80s31k_capture_state memory = map (\<lambda>i. memory (of_nat i)) [0x4000..<0x8000]"

definition pc80s31k_restore_state ::
  "u8 list \<Rightarrow> pc80s31k_memory \<Rightarrow> (validation_error + unit) \<times> pc80s31k_memory" where
  "pc80s31k_restore_state ram memory =
     (if length ram \<noteq> 0x4000 then (Inl ''PC80S31K RAM length is invalid'', memory)
      else (Inr (), (\<lambda>a. if 0x4000 \<le> unat a \<and> unat a < 0x8000 then ram ! (unat a - 0x4000)
                         else memory a)))"

lemma write_window: "0x4000 \<le> (a :: u16) \<and> a < 0x8000 \<longleftrightarrow> 0x4000 \<le> unat a \<and> unat a < 0x8000"
  by (simp add: word_le_nat_alt word_less_nat_alt)

text \<open>The power-on pattern leaves the boot stub below 2000 alone: a jump to itself.\<close>

lemma block_below:
  assumes "unat a < 0x2000"
  shows "pc80s31k_block p memory a = memory a"
proof -
  have fills: "fold (\<lambda>(low, pattern) m. let byte = pattern XOR x; start = base + low * 0x10
      in memory_fill start (start + 0x10) byte m) ps m a = m a"
    if "0x2000 \<le> base" for ps m x base
    using that assms
    by (induction ps arbitrary: m) (auto simp: memory_fill_def Let_def)
  show ?thesis
    unfolding pc80s31k_block_def Let_def case_prod_unfold
    using fills [of "0x2000 + fst p * 0x100", unfolded Let_def case_prod_unfold] by simp
qed

lemma memory_new_below:
  assumes "unat a < 0x2000"
  shows "pc80s31k_memory_new a = (if a = 0 then 0x18 else if a = 1 then 0xFE else 0xFF)"
proof -
  have "fold pc80s31k_block ps m a = m a" for ps m
    by (induction ps arbitrary: m) (simp_all add: block_below [OF assms])
  then show ?thesis using assms by (simp add: pc80s31k_memory_new_def memory_fill_def)
qed

section \<open>Mailbox\<close>

record ppi_link =
  link_main :: i8255
  link_sub :: i8255

definition ppi_link_new :: ppi_link where
  "ppi_link_new = \<lparr> link_main = i8255_new, link_sub = i8255_new \<rparr>"

definition ppi_propagate :: "i8255 \<Rightarrow> i8255 \<Rightarrow> i8255_write \<Rightarrow> bool \<times> i8255" where
  "ppi_propagate source destination changed =
     (let destination =
        (case changed of
           WrotePortA \<Rightarrow> i8255_set_port_b (ppi_port_a source) destination
         | WrotePortB \<Rightarrow> i8255_set_port_a (ppi_port_b source) destination
         | WrotePortC \<Rightarrow> i8255_set_port_c (rotate_left8 4 (ppi_port_c source)) destination
         | WroteMode \<Rightarrow>
             (let destination = i8255_set_port_b (ppi_port_a source) destination;
                  destination = i8255_set_port_a (ppi_port_b source) destination
              in i8255_set_port_c (rotate_left8 4 (ppi_port_c source)) destination)
         | WroteNone \<Rightarrow> destination)
      in (changed = WrotePortC \<or> changed = WroteMode, destination))"

definition ppi_link_read_main :: "u8 \<Rightarrow> ppi_link \<Rightarrow> u8" where
  "ppi_link_read_main register s = i8255_read register (link_main s)"

definition ppi_link_read_sub :: "u8 \<Rightarrow> ppi_link \<Rightarrow> u8" where
  "ppi_link_read_sub register s = i8255_read register (link_sub s)"

definition ppi_link_write_main :: "u8 \<Rightarrow> u8 \<Rightarrow> ppi_link \<Rightarrow> bool \<times> ppi_link" where
  "ppi_link_write_main register value s =
     (let (changed, m) = i8255_write register value (link_main s);
          (handshake, d) = ppi_propagate m (link_sub s) changed
      in (handshake, s\<lparr>link_main := m, link_sub := d\<rparr>))"

definition ppi_link_write_sub :: "u8 \<Rightarrow> u8 \<Rightarrow> ppi_link \<Rightarrow> bool \<times> ppi_link" where
  "ppi_link_write_sub register value s =
     (let (changed, m) = i8255_write register value (link_sub s);
          (handshake, d) = ppi_propagate m (link_main s) changed
      in (handshake, s\<lparr>link_sub := m, link_main := d\<rparr>))"

type_synonym ppi_link_state = "i8255 \<times> i8255"

definition ppi_link_capture_state :: "ppi_link \<Rightarrow> ppi_link_state" where
  "ppi_link_capture_state s = (link_main s, link_sub s)"

definition ppi_link_restore_state :: "ppi_link_state \<Rightarrow> ppi_link \<Rightarrow> ppi_link" where
  "ppi_link_restore_state state s = s\<lparr>link_main := fst state, link_sub := snd state\<rparr>"

text \<open>
  The wiring invariant: what one side reads on a port is what the other side last put
  on the port wired to it.
\<close>

definition ppi_wired :: "i8255 \<Rightarrow> i8255 \<Rightarrow> bool" where
  "ppi_wired source destination \<longleftrightarrow>
     ppi_input_b destination = ppi_port_a source
   \<and> ppi_input_a destination = ppi_port_b source
   \<and> ppi_input_c destination = rotate_left8 4 (ppi_port_c source)"

definition ppi_link_wired :: "ppi_link \<Rightarrow> bool" where
  "ppi_link_wired s \<longleftrightarrow>
     ppi_wired (link_main s) (link_sub s) \<and> ppi_wired (link_sub s) (link_main s)"

lemma propagate_wired:
  assumes "i8255_write register v m = (changed, m')" "ppi_wired m d" "ppi_wired d m"
  shows "ppi_wired m' (snd (ppi_propagate m' d changed))"
    "ppi_wired (snd (ppi_propagate m' d changed)) m'"
proof -
  show "ppi_wired m' (snd (ppi_propagate m' d changed))"
    using assms
    by (auto simp: i8255_write_def i8255_write_control_def i8255_update_read_masks_def ppi_propagate_def
        ppi_wired_def i8255_set_defs Let_def split: if_splits)
  show "ppi_wired (snd (ppi_propagate m' d changed)) m'"
    using assms
    by (auto simp: i8255_write_def i8255_write_control_def i8255_update_read_masks_def ppi_propagate_def
        ppi_wired_def i8255_set_defs Let_def split: if_splits)
qed

lemma rotate_swap [simp]: "rotate_left8 4 (rotate_left8 4 v) = v"
  by (simp add: u8_eq_iff bit_rotate_left8)

end
