(* ===== verification/Z80_Run.thy ===== *)
theory Z80_Run
  imports Z80_Prefixed
begin

text \<open>
  Interrupts and the execution loop of the Z80 core: \<open>crates/cpu/src/z80/interrupt.rs\<close>
  and \<open>execute_one\<close>, \<open>step\<close> and \<open>run_for\<close> of \<open>crates/cpu/src/z80.rs\<close>.

  A value \<open>None\<close> means that the call does not return: it panics, or it never leaves a
  loop. Two loops of the code have no bound of their own, the one over DD and FD
  prefixes in \<open>execute_one\<close> and the one over instructions in \<open>run_for\<close>; both are
  \<open>partial_function (option)\<close>, so that not returning is \<open>None\<close>.
\<close>

section \<open>Interrupts\<close>

definition z80_service_nmi :: "'b bus_ops \<Rightarrow> 'b z80 \<Rightarrow> 'b z80" where
  "z80_service_nmi io s =
     (let s = s\<lparr>z_halted := False\<rparr>;
          s = s\<lparr>z_iff1 := False\<rparr>;
          s = z80_increment_r s;
          s = z80_clk 5 s;
          return_pc = z_pc s;
          s = z80_push io return_pc s;
          s = s\<lparr>z_pc := 0x0066\<rparr>;
          s = s\<lparr>z_wz := z_pc s\<rparr>;
          s = s\<lparr>z_pending_irq := z_pending_irq s AND NOT PENDING_NMI\<rparr>
      in s\<lparr>z_bus := bus_acknowledge_nmi io (z_bus s)\<rparr>)"

definition z80_execute_im0_opcode :: "'b bus_ops \<Rightarrow> u8 \<Rightarrow> 'b z80 \<Rightarrow> 'b z80 option" where
  "z80_execute_im0_opcode io opcode s = z80_execute_base io opcode HL False s"

text \<open>The \<open>match self.state.im & 3\<close> of \<open>service_irq\<close>.\<close>

definition z80_irq_transfer :: "'b bus_ops \<Rightarrow> u8 \<Rightarrow> 'b z80 \<Rightarrow> 'b z80 option" where
  "z80_irq_transfer io vector s =
     (if z_im s AND 3 = 2 then
        (let s = z80_clk 7 s;
             table = le16 vector (z_i s);
             (low, s) = z80_read_byte io table s;
             (high, s) = z80_read_byte io (table + 1) s;
             return_pc = z_pc s;
             s = z80_push io return_pc s
         in Some (s\<lparr>z_pc := le16 low high\<rparr>))
      else if z_im s AND 3 = 1 then
        (let s = z80_clk 7 s;
             return_pc = z_pc s;
             s = z80_push io return_pc s
         in Some (s\<lparr>z_pc := 0x0038\<rparr>))
      else
        (let s = z80_clk 6 s
         in z80_execute_im0_opcode io vector s))"

definition z80_service_irq :: "'b bus_ops \<Rightarrow> 'b z80 \<Rightarrow> 'b z80 option" where
  "z80_service_irq io s =
     do { let s = s\<lparr>z_halted := False\<rparr>;
          let s = s\<lparr>z_iff1 := False\<rparr>;
          let s = s\<lparr>z_iff2 := False\<rparr>;
          let s = z80_increment_r s;
          let (vector, b) = bus_acknowledge_irq io (z_bus s);
          let s = s\<lparr>z_bus := b\<rparr>;
          s \<leftarrow> z80_irq_transfer io vector s;
          let s = s\<lparr>z_wz := z_pc s\<rparr>;
          Some (s\<lparr>z_pending_irq := z_pending_irq s AND NOT PENDING_IRQ\<rparr>) }"

definition z80_check_interrupts :: "'b bus_ops \<Rightarrow> 'b z80 \<Rightarrow> 'b z80 option" where
  "z80_check_interrupts io s =
     (if z_pending_irq s AND PENDING_NMI \<noteq> 0 then Some (z80_service_nmi io s)
      else if z_pending_irq s AND PENDING_IRQ \<noteq> 0 \<and> z_iff1 s \<and> z_ei s = 0
      then z80_service_irq io s
      else Some s)"

section \<open>One instruction\<close>

text \<open>The \<open>loop\<close> over the index prefixes: the last one wins, each is an M1 fetch.\<close>

partial_function (option) z80_skip_prefixes ::
  "'b bus_ops \<Rightarrow> u8 \<Rightarrow> index_mode \<Rightarrow> bool \<Rightarrow> 'b z80
     \<Rightarrow> (u8 \<times> index_mode \<times> bool \<times> 'b z80) option" where
  "z80_skip_prefixes io opcode mode xy_prefix s =
     (if opcode = 0xDD then
        (let (opcode, s) = z80_fetch_m1 io s in z80_skip_prefixes io opcode IX True s)
      else if opcode = 0xFD then
        (let (opcode, s) = z80_fetch_m1 io s in z80_skip_prefixes io opcode IY True s)
      else Some (opcode, mode, xy_prefix, s))"

definition z80_dispatch ::
  "'b bus_ops \<Rightarrow> u8 \<Rightarrow> index_mode \<Rightarrow> bool \<Rightarrow> 'b z80 \<Rightarrow> 'b z80 option" where
  "z80_dispatch io opcode mode xy_prefix s =
     (if opcode = 0xCB \<and> mode \<noteq> HL then
        (let (displacement, s) = z80_fetch_u8 io s;
             address = add_signed8 (z80_current_hl mode s) displacement;
             s = s\<lparr>z_wz := address\<rparr>;
             (cb_opcode, s) = z80_fetch_u8 io s;
             s = z80_clk 2 s
         in Some (z80_execute_cb_indexed io cb_opcode address s))
      else if opcode = 0xCB then
        (let (cb_opcode, s) = z80_fetch_m1 io s in z80_execute_cb io cb_opcode s)
      else if opcode = 0xED then
        (let (ed_opcode, s) = z80_fetch_m1 io s in z80_execute_ed io ed_opcode s)
      else z80_execute_base io opcode mode xy_prefix s)"

definition z80_execute_instruction :: "'b bus_ops \<Rightarrow> 'b z80 \<Rightarrow> 'b z80 option" where
  "z80_execute_instruction io s =
     do { let s = s\<lparr>z_p := 0\<rparr>;
          let s = z80_set_q_latch False s;
          let (opcode, s) = z80_fetch_m1 io s;
          (opcode, mode, xy_prefix, s) \<leftarrow> z80_skip_prefixes io opcode HL False s;
          s \<leftarrow> z80_dispatch io opcode mode xy_prefix s;
          Some (z80_finish_q s) }"

definition z80_execute_one :: "'b bus_ops \<Rightarrow> 'b z80 \<Rightarrow> 'b z80 option" where
  "z80_execute_one io s =
     do { s \<leftarrow> (if z_pending_irq s \<noteq> 0 then z80_check_interrupts io s else Some s);
          let s = s\<lparr>z_ei := 0\<rparr>;
          if z_halted s then Some (z80_clk 4 (z80_increment_r s))
          else z80_execute_instruction io s }"

section \<open>Running for a number of clocks\<close>

definition i64_max :: int where
  "i64_max = 2 ^ 63 - 1"

definition z80_cycles_consumed :: "'b z80 \<Rightarrow> u64" where
  "z80_cycles_consumed s = word_of_int (i64_max - z_cycles_remaining s)"

definition z80_drain_wait :: "'b bus_ops \<Rightarrow> 'b z80 \<Rightarrow> 'b z80" where
  "z80_drain_wait io s =
     (let (waits, b) = bus_drain_wait_cycles io (z_bus s)
      in z80_clk waits (s\<lparr>z_bus := b\<rparr>))"

definition z80_set_bus_cycle :: "'b bus_ops \<Rightarrow> u64 \<Rightarrow> 'b z80 \<Rightarrow> 'b z80" where
  "z80_set_bus_cycle io cycle s = s\<lparr>z_bus := bus_set_current_cycle io cycle (z_bus s)\<rparr>"

definition z80_step :: "'b bus_ops \<Rightarrow> 'b z80 \<Rightarrow> 'b z80 option" where
  "z80_step io s =
     do { let start_cycle = bus_current_cycle io (z_bus s);
          let s = s\<lparr>z_cycles_remaining := i64_max\<rparr>;
          s \<leftarrow> z80_execute_one io s;
          let s = z80_drain_wait io s;
          let s = z80_set_bus_cycle io (start_cycle + z80_cycles_consumed s) s;
          let s = s\<lparr>z_bus := bus_on_instruction_end io (z_bus s)\<rparr>;
          let s = z80_drain_wait io s;
          Some (z80_set_bus_cycle io (start_cycle + z80_cycles_consumed s) s) }"

text \<open>The interrupt inputs, sampled after an instruction and, while halted, before it.\<close>

definition z80_sample_nmi :: "'b bus_ops \<Rightarrow> 'b z80 \<Rightarrow> 'b z80" where
  "z80_sample_nmi io s =
     (if bus_has_nmi io (z_bus s) then s\<lparr>z_pending_irq := z_pending_irq s OR PENDING_NMI\<rparr> else s)"

definition z80_latch_irq :: "bool \<Rightarrow> 'b z80 \<Rightarrow> 'b z80" where
  "z80_latch_irq asserted s =
     (if asserted then s\<lparr>z_pending_irq := z_pending_irq s OR PENDING_IRQ\<rparr>
      else s\<lparr>z_pending_irq := z_pending_irq s AND NOT PENDING_IRQ\<rparr>)"

definition z80_sample_halted :: "'b bus_ops \<Rightarrow> 'b z80 \<Rightarrow> 'b z80" where
  "z80_sample_halted io s =
     (if z_halted s then
        (let s = z80_sample_nmi io s
         in z80_latch_irq (z_iff1 s \<and> bus_has_irq io (z_bus s)) s)
      else s)"

text \<open>The body of the \<open>while\<close>; the flag says whether it reaches the \<open>break\<close>.\<close>

definition z80_run_body ::
  "'b bus_ops \<Rightarrow> int \<Rightarrow> u64 \<Rightarrow> 'b z80 \<Rightarrow> (bool \<times> 'b z80) option" where
  "z80_run_body io budget start_cycle s =
     do { let s = z80_sample_halted io s;
          s \<leftarrow> z80_execute_one io s;
          let s = z80_drain_wait io s;
          let consumed = budget - z_cycles_remaining s;
          let s = z80_set_bus_cycle io (start_cycle + word_of_int consumed) s;
          let s = s\<lparr>z_bus := bus_on_instruction_end io (z_bus s)\<rparr>;
          let s = z80_drain_wait io s;
          let consumed = budget - z_cycles_remaining s;
          let s = z80_set_bus_cycle io (start_cycle + word_of_int consumed) s;
          let s = z80_sample_nmi io s;
          let s = z80_latch_irq (bus_has_irq io (z_bus s)) s;
          Some (bus_reset_pending io (z_bus s) \<or> bus_cpu_should_yield io (z_bus s), s) }"

partial_function (option) z80_run_loop ::
  "'b bus_ops \<Rightarrow> int \<Rightarrow> u64 \<Rightarrow> 'b z80 \<Rightarrow> 'b z80 option" where
  "z80_run_loop io budget start_cycle s =
     (if z_cycles_remaining s > 0 then
        do { (stop, s) \<leftarrow> z80_run_body io budget start_cycle s;
             if stop then Some s else z80_run_loop io budget start_cycle s }
      else Some s)"

definition z80_run_for :: "'b bus_ops \<Rightarrow> u64 \<Rightarrow> 'b z80 \<Rightarrow> (u64 \<times> 'b z80) option" where
  "z80_run_for io cycles_to_run s =
     do { let start_cycle = bus_current_cycle io (z_bus s);
          let budget = sint cycles_to_run;
          let s = s\<lparr>z_cycles_remaining := budget\<rparr>;
          s \<leftarrow> z80_run_loop io budget start_cycle s;
          let actual = word_of_int (budget - z_cycles_remaining s);
          Some (actual, z80_set_bus_cycle io (start_cycle + actual) s) }"

section \<open>Accessors of the trait\<close>

definition z80_set_clock_hz :: "u32 \<Rightarrow> 'b z80 \<Rightarrow> 'b z80" where
  "z80_set_clock_hz clock_hz s = s\<lparr>z_clock_hz := max clock_hz 1\<rparr>"

definition z80_set_im :: "u8 \<Rightarrow> 'b z80 \<Rightarrow> 'b z80" where
  "z80_set_im value s = s\<lparr>z_im := value AND 0x03\<rparr>"

end
