(* ===== verification/Z80_Invariant.thy ===== *)
theory Z80_Invariant
  imports Z80_Run
begin

text \<open>
  What every instruction of the Z80 core keeps and what it costs. \<open>z80_ctl\<close> collects the
  registers that only a few instructions write: the refresh register, the interrupt mode
  and latches, the pending inputs and the configured clock; \<open>z_cycles_remaining\<close> is the
  clock account. Every operation of the core gets two facts, one in \<open>frame_simps\<close>
  about \<open>z80_ctl\<close> and one in \<open>clock_simps\<close> about the clocks it takes. From them follow
  the state invariant that the code checks when it restores a state, the bounds on the
  clocks of an instruction, and the progress of the execution loop.
\<close>

definition z80_ctl :: "'b z80 \<Rightarrow> u8 \<times> u8 \<times> u8 \<times> u8 \<times> u8 \<times> u8 \<times> u32" where
  "z80_ctl s = (z_r s, z_r_high s, z_im s, z_ei s, z_p s, z_pending_irq s, z_clock_hz s)"

lemma z80_ctl_update [frame_simps]:
  "z80_ctl (z_a_update f s) = z80_ctl s" "z80_ctl (z_flags_update f s) = z80_ctl s"
  "z80_ctl (z_b_update f s) = z80_ctl s" "z80_ctl (z_c_update f s) = z80_ctl s"
  "z80_ctl (z_d_update f s) = z80_ctl s" "z80_ctl (z_e_update f s) = z80_ctl s"
  "z80_ctl (z_h_update f s) = z80_ctl s" "z80_ctl (z_l_update f s) = z80_ctl s"
  "z80_ctl (z_i_update f s) = z80_ctl s"
  "z80_ctl (z_af_alt_update g s) = z80_ctl s" "z80_ctl (z_bc_alt_update g s) = z80_ctl s"
  "z80_ctl (z_de_alt_update g s) = z80_ctl s" "z80_ctl (z_hl_alt_update g s) = z80_ctl s"
  "z80_ctl (z_ix_update g s) = z80_ctl s" "z80_ctl (z_iy_update g s) = z80_ctl s"
  "z80_ctl (z_sp_update g s) = z80_ctl s" "z80_ctl (z_pc_update g s) = z80_ctl s"
  "z80_ctl (z_wz_update g s) = z80_ctl s" "z80_ctl (z_q_update f s) = z80_ctl s"
  "z80_ctl (z_iff1_update h s) = z80_ctl s" "z80_ctl (z_iff2_update h s) = z80_ctl s"
  "z80_ctl (z_halted_update h s) = z80_ctl s" "z80_ctl (z_q_latch_update h s) = z80_ctl s"
  "z80_ctl (z_cycles_remaining_update c s) = z80_ctl s" "z80_ctl (z_bus_update k s) = z80_ctl s"
  by (simp_all add: z80_ctl_def)

lemma z80_ctl_latches [frame_simps]:
  "z80_ctl (z_ei_update f s) = (case z80_ctl s of (r, rh, im, e, v) \<Rightarrow> (r, rh, im, f e, v))"
  "z80_ctl (z_im_update f s) = (case z80_ctl s of (r, rh, im, v) \<Rightarrow> (r, rh, f im, v))"
  "z80_ctl (z_p_update f s) = (case z80_ctl s of (r, rh, im, e, p, v) \<Rightarrow> (r, rh, im, e, f p, v))"
  by (simp_all add: z80_ctl_def)

lemma but_flags_same:
  assumes "z80_but_flags t = z80_but_flags s"
  shows "z80_ctl t = z80_ctl s" "z_cycles_remaining t = z_cycles_remaining s"
    "z_bus t = z_bus s"
proof -
  have "z80_ctl (z80_but_flags t) = z80_ctl (z80_but_flags s)"
    "z_cycles_remaining (z80_but_flags t) = z_cycles_remaining (z80_but_flags s)"
    "z_bus (z80_but_flags t) = z_bus (z80_but_flags s)"
    using assms by simp_all
  then show "z80_ctl t = z80_ctl s" "z_cycles_remaining t = z_cycles_remaining s"
    "z_bus t = z_bus s"
    by (simp_all add: z80_but_flags_def frame_simps)
qed

lemmas alu_ctl [frame_simps] = z80_set_but_flags(2-5) [THEN but_flags_same(1)]
  z80_alu_but_flags [THEN but_flags_same(1)]

lemmas alu_clock [clock_simps] = z80_set_but_flags(2-5) [THEN but_flags_same(2)]
  z80_alu_but_flags [THEN but_flags_same(2)]

section \<open>Accesses and register selectors\<close>

lemmas access_defs = z80_clk_def z80_read_byte_def z80_write_byte_def z80_fetch_u8_def
  z80_read_port_def z80_write_port_def z80_set_q_latch_def z80_finish_q_def

lemma access_ctl [frame_simps]:
  "z80_ctl (z80_clk n s) = z80_ctl s"
  "z80_ctl (snd (z80_read_byte io a s)) = z80_ctl s"
  "z80_ctl (z80_write_byte io a v s) = z80_ctl s"
  "z80_ctl (snd (z80_fetch_u8 io s)) = z80_ctl s"
  "z80_ctl (snd (z80_read_port io w s)) = z80_ctl s"
  "z80_ctl (z80_write_port io w v s) = z80_ctl s"
  "z80_ctl (z80_set_q_latch c s) = z80_ctl s"
  "z80_ctl (z80_finish_q s) = z80_ctl s"
  by (simp_all add: access_defs frame_simps case_prod_unfold Let_def)

lemma access_clock [clock_simps]:
  "z_cycles_remaining (z80_clk n s) = z_cycles_remaining s - n"
  "z_cycles_remaining (snd (z80_read_byte io a s)) = z_cycles_remaining s - 3"
  "z_cycles_remaining (z80_write_byte io a v s) = z_cycles_remaining s - 3"
  "z_cycles_remaining (snd (z80_fetch_u8 io s)) = z_cycles_remaining s - 3"
  "z_cycles_remaining (snd (z80_read_port io w s)) = z_cycles_remaining s - 4"
  "z_cycles_remaining (z80_write_port io w v s) = z_cycles_remaining s - 4"
  "z_cycles_remaining (z80_set_q_latch c s) = z_cycles_remaining s"
  "z_cycles_remaining (z80_finish_q s) = z_cycles_remaining s"
  by (simp_all add: access_defs case_prod_unfold Let_def)

lemma fetch_stack_ctl [frame_simps]:
  "z80_ctl (snd (z80_fetch_u16 io s)) = z80_ctl s"
  "z80_ctl (z80_push io w s) = z80_ctl s"
  "z80_ctl (snd (z80_pop io s)) = z80_ctl s"
  by (simp_all add: z80_fetch_u16_def z80_push_def z80_pop_def Let_def case_prod_unfold frame_simps)

lemma fetch_stack_clock [clock_simps]:
  "z_cycles_remaining (snd (z80_fetch_u16 io s)) = z_cycles_remaining s - 6"
  "z_cycles_remaining (z80_push io w s) = z_cycles_remaining s - 6"
  "z_cycles_remaining (snd (z80_pop io s)) = z_cycles_remaining s - 6"
  by (simp_all add: z80_fetch_u16_def z80_push_def z80_pop_def Let_def case_prod_unfold clock_simps)

lemma pair_ctl [frame_simps]:
  "z80_ctl (z80_set_af w s) = z80_ctl s" "z80_ctl (z80_set_bc w s) = z80_ctl s"
  "z80_ctl (z80_set_de w s) = z80_ctl s" "z80_ctl (z80_set_hl w s) = z80_ctl s"
  by (simp_all add: z80_pair_defs frame_simps)

lemma pair_clock [clock_simps]:
  "z_cycles_remaining (z80_set_af w s) = z_cycles_remaining s"
  "z_cycles_remaining (z80_set_bc w s) = z_cycles_remaining s"
  "z_cycles_remaining (z80_set_de w s) = z_cycles_remaining s"
  "z_cycles_remaining (z80_set_hl w s) = z_cycles_remaining s"
  by (simp_all add: z80_pair_defs)

lemmas selector_defs = z80_set_current_hl_def z80_write_pair_def z80_write_pair2_def
  z80_write_reg8_plain_def z80_exchange_de_with_hl_def z80_exchange_af_def
  z80_exchange_shadow_def

lemma selector_ctl [frame_simps]:
  "z80_ctl (z80_set_current_hl m w s) = z80_ctl s"
  "z80_ctl (z80_write_pair k m w s) = z80_ctl s"
  "z80_ctl (z80_write_pair2 k m w s) = z80_ctl s"
  "z80_ctl (z80_write_reg8_plain k m v s) = z80_ctl s"
  "z80_ctl (z80_exchange_de_with_hl m s) = z80_ctl s"
  "z80_ctl (z80_exchange_af s) = z80_ctl s"
  "z80_ctl (z80_exchange_shadow s) = z80_ctl s"
  by (cases m; simp add: selector_defs Let_def frame_simps)+

lemma selector_clock [clock_simps]:
  "z_cycles_remaining (z80_set_current_hl m w s) = z_cycles_remaining s"
  "z_cycles_remaining (z80_write_pair k m w s) = z_cycles_remaining s"
  "z_cycles_remaining (z80_write_pair2 k m w s) = z_cycles_remaining s"
  "z_cycles_remaining (z80_write_reg8_plain k m v s) = z_cycles_remaining s"
  "z_cycles_remaining (z80_exchange_de_with_hl m s) = z_cycles_remaining s"
  "z_cycles_remaining (z80_exchange_af s) = z_cycles_remaining s"
  "z_cycles_remaining (z80_exchange_shadow s) = z_cycles_remaining s"
  by (cases m; simp add: selector_defs Let_def clock_simps)+

section \<open>Unprefixed instructions\<close>

text \<open>
  \<open>z80_within lo hi s t\<close>: between \<open>s\<close> and \<open>t\<close> at least \<open>lo\<close> and at most \<open>hi\<close> clocks
  were taken.
\<close>

definition z80_within :: "int \<Rightarrow> int \<Rightarrow> 'b z80 \<Rightarrow> 'b z80 \<Rightarrow> bool" where
  "z80_within lo hi s t \<longleftrightarrow>
     z_cycles_remaining s - hi \<le> z_cycles_remaining t
   \<and> z_cycles_remaining t \<le> z_cycles_remaining s - lo"

lemmas single_defs = z80_add_hl_rr_def z80_daa_def z80_rotate_a_left_circular_def
  z80_rotate_a_right_circular_def z80_rotate_a_left_through_carry_def
  z80_rotate_a_right_through_carry_def z80_cpl_def z80_scf_def z80_ccf_def
  z80_jump_relative_def

lemma single_ctl [frame_simps]:
  "z80_ctl (z80_add_hl_rr m k s) = z80_ctl s"
  "z80_ctl (z80_daa s) = z80_ctl s"
  "z80_ctl (z80_rotate_a_left_circular s) = z80_ctl s"
  "z80_ctl (z80_rotate_a_right_circular s) = z80_ctl s"
  "z80_ctl (z80_rotate_a_left_through_carry s) = z80_ctl s"
  "z80_ctl (z80_rotate_a_right_through_carry s) = z80_ctl s"
  "z80_ctl (z80_cpl s) = z80_ctl s"
  "z80_ctl (z80_scf x s) = z80_ctl s"
  "z80_ctl (z80_ccf x s) = z80_ctl s"
  "z80_ctl (z80_jump_relative v s) = z80_ctl s"
  by (simp_all add: single_defs Let_def frame_simps if_distrib)

lemma single_clock [clock_simps]:
  "z_cycles_remaining (z80_add_hl_rr m k s) = z_cycles_remaining s - 7"
  "z_cycles_remaining (z80_daa s) = z_cycles_remaining s"
  "z_cycles_remaining (z80_rotate_a_left_circular s) = z_cycles_remaining s"
  "z_cycles_remaining (z80_rotate_a_right_circular s) = z_cycles_remaining s"
  "z_cycles_remaining (z80_rotate_a_left_through_carry s) = z_cycles_remaining s"
  "z_cycles_remaining (z80_rotate_a_right_through_carry s) = z_cycles_remaining s"
  "z_cycles_remaining (z80_cpl s) = z_cycles_remaining s"
  "z_cycles_remaining (z80_scf x s) = z_cycles_remaining s"
  "z_cycles_remaining (z80_ccf x s) = z_cycles_remaining s"
  "z_cycles_remaining (z80_jump_relative v s) = z_cycles_remaining s - 5"
  by (simp_all add: single_defs Let_def clock_simps if_distrib)

lemmas group_defs = z80_jr_def z80_jr_conditional_def z80_djnz_def
  z80_base_relative_jumps_def z80_base_load_pair_def z80_base_indirect_def
  z80_store_a_wz_def z80_base_inc_dec_pair_def z80_base_accumulator_misc_def
  z80_accumulator_op_def z80_base_ret_conditional_def z80_base_pop_group_def
  z80_base_jump_conditional_def z80_base_call_conditional_def
  z80_base_accumulator_immediate_def z80_base_rst_def

lemma group_ctl [frame_simps]:
  "z80_ctl (z80_accumulator_op k v s) = z80_ctl s"
  "z80_ctl (z80_base_relative_jumps io k s) = z80_ctl s"
  "z80_ctl (z80_base_load_pair io q p m s) = z80_ctl s"
  "z80_ctl (z80_base_indirect io q p m s) = z80_ctl s"
  "z80_ctl (z80_base_inc_dec_pair q p m s) = z80_ctl s"
  "z80_ctl (z80_base_accumulator_misc k x s) = z80_ctl s"
  "z80_ctl (z80_base_ret_conditional io k s) = z80_ctl s"
  "z80_ctl (z80_base_pop_group io q p m s) = z80_ctl s"
  "z80_ctl (z80_base_jump_conditional io k s) = z80_ctl s"
  "z80_ctl (z80_base_call_conditional io k s) = z80_ctl s"
  "z80_ctl (z80_base_rst io k s) = z80_ctl s"
  by (simp_all add: group_defs Let_def case_prod_unfold frame_simps if_distrib)

lemma accumulator_immediate_ctl [frame_simps]:
  "z80_ctl (z80_base_accumulator_immediate io k s) = z80_ctl s"
  by (simp add: z80_base_accumulator_immediate_def Let_def case_prod_unfold frame_simps)

lemma group_clock:
  "z_cycles_remaining (z80_accumulator_op k v s) = z_cycles_remaining s"
  "z80_within 0 9 s (z80_base_relative_jumps io k s)"
  "z80_within 6 7 s (z80_base_load_pair io q p m s)"
  "z80_within 3 12 s (z80_base_indirect io q p m s)"
  "z80_within 2 2 s (z80_base_inc_dec_pair q p m s)"
  "z80_within 0 0 s (z80_base_accumulator_misc k x s)"
  "z80_within 1 7 s (z80_base_ret_conditional io k s)"
  "z80_within 0 6 s (z80_base_pop_group io q p m s)"
  "z80_within 6 6 s (z80_base_jump_conditional io k s)"
  "z80_within 6 13 s (z80_base_call_conditional io k s)"
  "z80_within 7 7 s (z80_base_rst io k s)"
  by (simp_all add: z80_within_def group_defs Let_def case_prod_unfold clock_simps)

lemma accumulator_immediate_clock:
  "z80_within 3 3 s (z80_base_accumulator_immediate io k s)"
  by (simp add: z80_within_def z80_base_accumulator_immediate_def Let_def case_prod_unfold
      clock_simps group_clock)

text \<open>A case split on the condition of a decoder that forgets the condition.\<close>

lemma decoded_cases:
  "(if c then A else B) = Some t \<Longrightarrow> (A = Some t \<Longrightarrow> P) \<Longrightarrow> (B = Some t \<Longrightarrow> P) \<Longrightarrow> P"
  by (cases c) simp_all

text \<open>Both facts in one: \<open>t\<close> has the control registers of \<open>s\<close> and took so many clocks.\<close>

definition z80_quiet :: "int \<Rightarrow> int \<Rightarrow> 'b z80 \<Rightarrow> 'b z80 \<Rightarrow> bool" where
  "z80_quiet lo hi s t \<longleftrightarrow> z80_ctl t = z80_ctl s \<and> z80_within lo hi s t"

lemma quiet_weaken: "z80_quiet lo' hi' s t \<Longrightarrow> lo \<le> lo' \<Longrightarrow> hi' \<le> hi \<Longrightarrow> z80_quiet lo hi s t"
  by (simp add: z80_quiet_def z80_within_def)

lemma group_quiet:
  "z80_quiet 0 0 s (z80_accumulator_op k v s)"
  "z80_quiet 0 9 s (z80_base_relative_jumps io k s)"
  "z80_quiet 6 7 s (z80_base_load_pair io q p m s)"
  "z80_quiet 3 12 s (z80_base_indirect io q p m s)"
  "z80_quiet 2 2 s (z80_base_inc_dec_pair q p m s)"
  "z80_quiet 0 0 s (z80_base_accumulator_misc k x s)"
  "z80_quiet 1 7 s (z80_base_ret_conditional io k s)"
  "z80_quiet 0 6 s (z80_base_pop_group io q p m s)"
  "z80_quiet 6 6 s (z80_base_jump_conditional io k s)"
  "z80_quiet 6 13 s (z80_base_call_conditional io k s)"
  "z80_quiet 7 7 s (z80_base_rst io k s)"
  "z80_quiet 3 3 s (z80_base_accumulator_immediate io k s)"
  by (simp_all add: z80_quiet_def frame_simps group_clock accumulator_immediate_clock)
    (simp add: z80_within_def group_clock)

lemma indexed_address_quiet:
  "z80_indexed_address_if io c m s = (a, t) \<Longrightarrow> z80_quiet 0 8 s t"
  by (auto simp: z80_indexed_address_if_def z80_fetch_indexed_addr_def z80_quiet_def z80_within_def
      Let_def case_prod_unfold frame_simps clock_simps split: if_splits index_mode.splits)

lemma read_operand_quiet:
  "z80_read_reg8_or_mem io r m a s = Some (v, t) \<Longrightarrow> z80_quiet 0 3 s t"
  by (auto simp: z80_read_reg8_or_mem_def z80_quiet_def z80_within_def bind_eq_Some_conv
      frame_simps clock_simps split: if_splits dest!: arg_cong [where f = snd])

lemma write_operand_quiet:
  "z80_write_reg8_or_mem io r m a v s = Some t \<Longrightarrow> z80_quiet 0 3 s t"
  by (auto simp: z80_write_reg8_or_mem_def z80_quiet_def z80_within_def bind_eq_Some_conv
      frame_simps clock_simps split: if_splits)

text \<open>
  The two increments, the rotations and the bit operations sit between an operand read
  and an operand write; one lemma covers them all.
\<close>

lemma modify_operand_quiet:
  assumes f: "\<And>v u. z80_ctl (snd (f v u)) = z80_ctl u"
      "\<And>v u. z_cycles_remaining (snd (f v u)) = z_cycles_remaining u"
    and run: "do { (value, u) \<leftarrow> z80_read_reg8_or_mem io r m a s;
          let (result, u) = f value u;
          let u = (if c then z80_clk 1 u else u);
          z80_write_reg8_or_mem io r m a result u } = Some t"
  shows "z80_quiet 0 7 s t"
proof -
  from run obtain v u where read: "z80_read_reg8_or_mem io r m a s = Some (v, u)"
    and wr: "z80_write_reg8_or_mem io r m a (fst (f v u))
      (if c then z80_clk 1 (snd (f v u)) else snd (f v u)) = Some t"
    by (cases c) (auto simp: bind_eq_Some_conv case_prod_unfold Let_def)
  show ?thesis
    using read_operand_quiet [OF read] write_operand_quiet [OF wr] f
    by (simp add: z80_quiet_def z80_within_def frame_simps clock_simps split: if_splits)
qed

lemma inc_dec_quiet:
  assumes "z80_base_inc_dec io f k m s = Some t"
    and f: "\<And>v u. z80_ctl (snd (f v u)) = z80_ctl u"
      "\<And>v u. z_cycles_remaining (snd (f v u)) = z_cycles_remaining u"
  shows "z80_quiet 0 15 s t"
proof -
  obtain a u where addr: "z80_indexed_address_if io (m \<noteq> HL \<and> k = 6) m (z80_set_q_latch True s) = (a, u)"
    by fastforce
  have run: "do { (value, u) \<leftarrow> z80_read_reg8_or_mem io k m a u;
          let (result, u) = f value u;
          let u = (if k = 6 then z80_clk 1 u else u);
          z80_write_reg8_or_mem io k m a result u } = Some t"
    using assms(1) by (simp add: z80_base_inc_dec_def addr Let_def)
  show ?thesis
    using modify_operand_quiet [OF f run] indexed_address_quiet [OF addr]
    by (simp add: z80_quiet_def z80_within_def frame_simps clock_simps)
qed

lemma load_immediate_quiet:
  "z80_base_load_immediate io k m s = Some t \<Longrightarrow> z80_quiet 0 11 s t"
  by (auto simp: z80_base_load_immediate_def z80_quiet_def z80_within_def Let_def
      case_prod_unfold frame_simps clock_simps split: if_splits dest!: write_operand_quiet)

lemma inc_dec8_quiet:
  "z80_base_inc_dec io z80_inc8 k m s = Some t \<Longrightarrow> z80_quiet 0 15 s t"
  "z80_base_inc_dec io z80_dec8 k m s = Some t \<Longrightarrow> z80_quiet 0 15 s t"
  by (erule inc_dec_quiet; simp add: frame_simps clock_simps)+

lemma x0_quiet:
  assumes "z80_base_x0 io y z m x s = Some t"
  shows "z80_quiet 0 15 s t"
proof -
  note base = group_quiet [THEN quiet_weaken] load_immediate_quiet [THEN quiet_weaken] inc_dec8_quiet
  from assms show ?thesis
    unfolding z80_base_x0_def Let_def
    by (elim decoded_cases) (simp_all only: option.inject, auto intro: base)
qed

lemma x1_quiet:
  assumes "z80_base_x1 io y z m s = Some t"
  shows "z80_quiet 0 14 s t"
proof (cases "y = 6 \<and> z = 6")
  case True
  with assms show ?thesis
    by (auto simp: z80_base_x1_def z80_quiet_def z80_within_def frame_simps clock_simps)
next
  case False
  with assms obtain a u v w where
    "z80_indexed_address_if io (m \<noteq> HL \<and> (y = 6 \<or> z = 6)) m (z80_set_q_latch False s) = (a, u)"
    "z80_read_reg8_or_mem io z m a u = Some (v, w)"
    "z80_write_reg8_or_mem io y m a v w = Some t"
    by (auto simp: z80_base_x1_def bind_eq_Some_conv Let_def split: prod.splits)
  then show ?thesis
    by (auto simp: z80_quiet_def z80_within_def frame_simps clock_simps
        dest!: indexed_address_quiet read_operand_quiet write_operand_quiet)
qed

lemma x2_quiet:
  assumes "z80_base_x2 io y z m s = Some t"
  shows "z80_quiet 0 11 s t"
proof -
  from assms obtain a u v w where
    "z80_indexed_address_if io (m \<noteq> HL \<and> z = 6) m (z80_set_q_latch True s) = (a, u)"
    "z80_read_reg8_or_mem io z m a u = Some (v, w)" "t = z80_accumulator_op y v w"
    by (auto simp: z80_base_x2_def bind_eq_Some_conv Let_def split: prod.splits)
  then show ?thesis
    by (auto simp: z80_quiet_def z80_within_def frame_simps clock_simps group_clock
        dest!: indexed_address_quiet read_operand_quiet)
qed

text \<open>Among the instructions with \<open>x = 3\<close> only EI (FB) writes a control register.\<close>

lemma x3_z3_effect:
  assumes "z80_base_x3_z3 io y m s = Some t"
  shows "z80_within 0 15 s t" "z80_ctl t = z80_ctl s \<or> z80_ctl t = z80_ctl (s\<lparr>z_ei := 1\<rparr>)"
  using assms
  by (auto simp: z80_base_x3_z3_def z80_within_def Let_def case_prod_unfold frame_simps clock_simps
      split: if_splits)

lemma push_group_quiet:
  "z80_base_push_group io q p m s = Some t \<Longrightarrow> z80_quiet 0 13 s t"
  by (auto simp: z80_base_push_group_def z80_quiet_def z80_within_def Let_def case_prod_unfold
      frame_simps clock_simps split: if_splits)

end
