(* ===== verification/Z80_Steps.thy ===== *)
theory Z80_Steps
  imports Z80_Invariant
begin

text \<open>
  From the single instructions to \<open>execute_one\<close>. \<open>z80_keeps lo hi s t\<close> says that between
  \<open>s\<close> and \<open>t\<close> at least \<open>lo\<close> and at most \<open>hi\<close> clocks were taken and that a state the code
  would accept in \<open>validate_state\<close> is still one. The section on panics shows which
  opcodes reach an \<open>unreachable!\<close>.
\<close>

definition z80_ctl_ok :: "u8 \<times> u8 \<times> u8 \<times> u8 \<times> u8 \<times> u8 \<times> u32 \<Rightarrow> bool" where
  "z80_ctl_ok c = (case c of (r, r_high, im, ei, p, pending, clock_hz) \<Rightarrow>
     r \<le> 0x7F \<and> r_high AND 0x7F = 0 \<and> im \<le> 2 \<and> ei \<le> 1 \<and> p \<le> 1 \<and> pending AND NOT 0x03 = 0)"

lemma valid_ctl: "z80_validate_state s = Inr () \<longleftrightarrow> z80_ctl_ok (z80_ctl s)"
  by (auto simp: z80_validate_state_def z80_ctl_ok_def z80_ctl_def not_less)

definition z80_keeps :: "int \<Rightarrow> int \<Rightarrow> 'b z80 \<Rightarrow> 'b z80 \<Rightarrow> bool" where
  "z80_keeps lo hi s t \<longleftrightarrow>
     (z80_ctl_ok (z80_ctl s) \<longrightarrow> z80_ctl_ok (z80_ctl t)) \<and> z80_within lo hi s t"

lemma keeps_weaken: "z80_keeps lo' hi' s t \<Longrightarrow> lo \<le> lo' \<Longrightarrow> hi' \<le> hi \<Longrightarrow> z80_keeps lo hi s t"
  by (simp add: z80_keeps_def z80_within_def)

lemma quiet_keeps: "z80_quiet lo' hi' s t \<Longrightarrow> lo \<le> lo' \<Longrightarrow> hi' \<le> hi \<Longrightarrow> z80_keeps lo hi s t"
  by (simp add: z80_keeps_def z80_quiet_def z80_within_def)

lemma keeps_trans:
  "z80_keeps lo hi s t \<Longrightarrow> z80_keeps lo' hi' t u \<Longrightarrow> z80_keeps (lo + lo') (hi + hi') s u"
  by (auto simp: z80_keeps_def z80_within_def)

section \<open>The unprefixed opcodes\<close>

lemma x3_keeps:
  assumes "z80_base_x3 io y z m s = Some t"
  shows "z80_keeps 0 15 s t"
proof -
  have ei: "z80_keeps 0 15 s u" if "z80_base_x3_z3 io y m s = Some u" for u
    using x3_z3_effect [OF that]
    by (auto simp: z80_keeps_def frame_simps z80_ctl_ok_def split: prod.splits)
  note base = group_quiet [THEN quiet_keeps] push_group_quiet [THEN quiet_keeps] ei
  from assms show ?thesis
    unfolding z80_base_x3_def Let_def
    by (elim decoded_cases) (simp_all only: option.inject, auto intro: base)
qed

lemma base_keeps:
  assumes "z80_execute_base io opcode m x s = Some t"
  shows "z80_keeps 0 15 s t"
  using assms unfolding z80_execute_base_def Let_def
  by (elim decoded_cases)
    (auto intro: x0_quiet [THEN quiet_keeps] x1_quiet [THEN quiet_keeps]
      x2_quiet [THEN quiet_keeps] x3_keeps)

section \<open>The CB group\<close>

lemma rotate_op_frame [frame_simps]: "z80_but_flags (snd (z80_rotate_op y v s)) = z80_but_flags s"
  by (simp add: z80_rotate_op_def frame_simps)

lemmas rotate_op_same = rotate_op_frame [THEN but_flags_same(1)] rotate_op_frame [THEN but_flags_same(2)]

lemma cb_quiet:
  assumes "z80_execute_cb io opcode s = Some t"
  shows "z80_quiet 0 7 s t"
  using assms unfolding z80_execute_cb_def Let_def
  by (elim decoded_cases)
    (auto simp: z80_quiet_def z80_within_def bind_eq_Some_conv case_prod_unfold frame_simps
      clock_simps rotate_op_same split: if_splits
      dest!: read_operand_quiet [unfolded z80_quiet_def z80_within_def]
        write_operand_quiet [unfolded z80_quiet_def z80_within_def])

lemma cb_indexed_quiet: "z80_quiet 4 7 s (z80_execute_cb_indexed io opcode address s)"
  by (auto simp: z80_execute_cb_indexed_def z80_write_indexed_result_def z80_quiet_def
      z80_within_def Let_def case_prod_unfold frame_simps clock_simps rotate_op_same)

section \<open>The ED group\<close>

lemmas block_defs = z80_block_compare_def z80_block_load_def z80_block_in_def z80_block_out_def
  z80_block_io_flags_def z80_repeat_xy_from_pc_def z80_repeat_io_adjust_flags_def
  z80_block_rewind_def z80_block_load_repeat_def z80_block_compare_repeat_def
  z80_block_in_step_def z80_block_out_step_def

lemma block_parts_ctl [frame_simps]:
  "z80_ctl (z80_block_load io d s) = z80_ctl s" "z80_ctl (z80_block_compare io d s) = z80_ctl s"
  "z80_ctl (snd (z80_block_in io d s)) = z80_ctl s"
  "z80_ctl (snd (z80_block_out io d s)) = z80_ctl s"
  "z80_ctl (z80_block_rewind s) = z80_ctl s" "z80_ctl (z80_repeat_xy_from_pc s) = z80_ctl s"
  "z80_ctl (z80_repeat_io_adjust_flags data s) = z80_ctl s"
  by (simp_all add: block_defs Let_def case_prod_unfold frame_simps)

lemma block_parts_clock [clock_simps]:
  "z_cycles_remaining (z80_block_load io d s) = z_cycles_remaining s - 8"
  "z_cycles_remaining (z80_block_compare io d s) = z_cycles_remaining s - 8"
  "z_cycles_remaining (snd (z80_block_in io d s)) = z_cycles_remaining s - 8"
  "z_cycles_remaining (snd (z80_block_out io d s)) = z_cycles_remaining s - 8"
  "z_cycles_remaining (z80_block_rewind s) = z_cycles_remaining s - 5"
  "z_cycles_remaining (z80_repeat_xy_from_pc s) = z_cycles_remaining s"
  "z_cycles_remaining (z80_repeat_io_adjust_flags data s) = z_cycles_remaining s"
  by (simp_all add: block_defs Let_def case_prod_unfold clock_simps)

lemma block_repeat_quiet:
  "z80_quiet 8 13 s (z80_block_load_repeat io d s)"
  "z80_quiet 8 13 s (z80_block_compare_repeat io d s)"
  "z80_quiet 8 13 s (z80_block_in_step io d rep s)"
  "z80_quiet 8 13 s (z80_block_out_step io d rep s)"
  by (simp_all add: z80_block_load_repeat_def z80_block_compare_repeat_def z80_block_in_step_def
      z80_block_out_step_def z80_quiet_def z80_within_def Let_def case_prod_unfold frame_simps
      clock_simps)

lemma block_quiet: "z80_quiet 0 13 s (z80_ed_block io y z s)"
proof -
  have nop: "z80_quiet 0 13 s (z80_set_q_latch False s)"
    by (simp add: z80_quiet_def z80_within_def frame_simps clock_simps)
  have once: "z80_quiet 0 13 s (z80_block_load io d s)" "z80_quiet 0 13 s (z80_block_compare io d s)" for d
    by (simp_all add: z80_quiet_def z80_within_def frame_simps clock_simps)
  show ?thesis
    unfolding z80_ed_block_def by (simp add: once block_repeat_quiet [THEN quiet_weaken] nop)
qed

lemma ed_quiet:
  "z80_quiet 0 13 s (z80_ed_in io y s)" "z80_quiet 0 13 s (z80_adc_hl_rr k s)"
  "z80_quiet 0 13 s (z80_sbc_hl_rr k s)" "z80_quiet 0 13 s (z80_ed_store_pair io k s)"
  "z80_quiet 0 13 s (z80_ed_load_pair io k s)" "z80_quiet 0 13 s (z80_ed_neg s)"
  "z80_quiet 0 13 s (z80_ed_return io y s)" "z80_quiet 0 13 s (z80_ed_digit_rotate io left s)"
  by (simp_all add: z80_ed_in_def z80_in_flags_def z80_adc_hl_rr_def z80_sbc_hl_rr_def
      z80_ed_store_pair_def z80_ed_load_pair_def z80_ed_neg_def z80_ed_return_def
      z80_ed_digit_rotate_def z80_quiet_def z80_within_def Let_def case_prod_unfold frame_simps
      clock_simps)

lemma ed_out_quiet: "z80_ed_out io y s = Some t \<Longrightarrow> z80_quiet 0 13 s t"
  by (auto simp: z80_ed_out_def Let_def bind_eq_Some_conv z80_quiet_def z80_within_def frame_simps
      clock_simps)

text \<open>IM, LD R,A and LD A,I / LD A,R write a control register; the value is always legal.\<close>

lemma set_r_ctl [frame_simps]:
  "z80_ctl (z80_set_r v s) = (case z80_ctl s of (r, rh, w) \<Rightarrow> (v AND 0x7F, v AND 0x80, w))"
  by (simp add: z80_ctl_def z80_set_r_def)

lemma set_r_clock [clock_simps]: "z_cycles_remaining (z80_set_r v s) = z_cycles_remaining s"
  by (simp add: z80_set_r_def)

lemma r_halves: "(v :: u8) AND 0x7F \<le> 0x7F" "((v :: u8) AND 0x80) AND 0x7F = 0"
proof -
  show "(v :: u8) AND 0x7F \<le> 0x7F" by (rule word_and_le1)
  show "((v :: u8) AND 0x80) AND 0x7F = 0" by (simp add: and.assoc)
qed

lemma ed_misc_keeps: "z80_keeps 0 13 s (z80_ed_misc io y s)"
  using ed_quiet(8) [of s io]
  by (auto simp: z80_ed_misc_def z80_ld_a_i_or_r_def z80_keeps_def z80_quiet_def z80_within_def
      Let_def frame_simps clock_simps z80_ctl_ok_def r_halves split: prod.splits)

lemma interrupt_mode_keeps: "z80_keeps 0 13 s (z80_ed_interrupt_mode y s)"
  by (auto simp: z80_ed_interrupt_mode_def z80_keeps_def z80_within_def frame_simps clock_simps
      z80_ctl_ok_def split: prod.splits)

lemma ed_keeps:
  assumes "z80_execute_ed io opcode s = Some t"
  shows "z80_keeps 0 13 s t"
proof -
  have nop: "z80_keeps 0 13 s (z80_set_q_latch False s)"
    by (simp add: z80_keeps_def z80_within_def frame_simps clock_simps)
  note base = ed_quiet [THEN quiet_keeps] ed_out_quiet [THEN quiet_keeps] nop
    block_quiet [THEN quiet_keeps] ed_misc_keeps interrupt_mode_keeps
  from assms show ?thesis
    unfolding z80_execute_ed_def Let_def
    by (elim decoded_cases) (auto intro: base)
qed

section \<open>Panics\<close>

lemma u8_bit_ge [simp]: "8 \<le> n \<Longrightarrow> \<not> bit (w :: u8) n"
  by (auto dest: bit_imp_le_length)

lemma reg_panics:
  "z80_read_reg8_plain k m s = None \<longleftrightarrow> k AND 7 = 6"
  by (auto simp: z80_read_reg8_plain_def Let_def u8_eq_iff bit_and_iff)

lemma operand_panics:
  "z80_read_reg8_or_mem io k m a s = None \<longleftrightarrow> k AND 7 = 6 \<and> m \<noteq> HL \<and> a = None"
  "z80_write_reg8_or_mem io k m a v s = None \<longleftrightarrow> k AND 7 = 6 \<and> m \<noteq> HL \<and> a = None"
  by (auto simp: z80_read_reg8_or_mem_def z80_write_reg8_or_mem_def z80_operand_address_def
      reg_panics Let_def bind_eq_None_conv)

lemma indexed_address_some: "fst (z80_indexed_address_if io c m s) = None \<longleftrightarrow> \<not> c"
  by (simp add: z80_indexed_address_if_def case_prod_unfold Let_def)

lemmas panic_simps = operand_panics indexed_address_some bind_eq_None_conv case_prod_unfold Let_def

lemma memory_selector: "(k AND 7) AND 7 = (k AND 7 :: u8)"
  by (simp add: and.assoc)

text \<open>The \<open>expect("indexed address")\<close> calls are never reached without one.\<close>

lemma x012_return:
  "z80_base_x0 io (k AND 7) z m x s \<noteq> None" "z80_base_x1 io (k AND 7) (j AND 7) m s \<noteq> None"
  "z80_base_x2 io y (j AND 7) m s \<noteq> None"
  by (auto simp add: z80_base_x0_def z80_base_inc_dec_def z80_base_load_immediate_def
      z80_base_x1_def z80_base_x2_def panic_simps memory_selector simp del: not_None_eq)

lemma decode_prefixes:
  "drop_bit 6 opcode \<noteq> 0 \<and> drop_bit 6 opcode \<noteq> 1 \<and> drop_bit 6 opcode \<noteq> 2
     \<longleftrightarrow> bit opcode 6 \<and> bit (opcode :: u8) 7"
  by (auto simp: u8_eq_iff bit_drop_bit_eq)

lemma base_panics:
  "z80_execute_base io opcode m x s = None \<longleftrightarrow> opcode = 0xCB \<or> opcode = 0xDD \<or> opcode = 0xED \<or> opcode = 0xFD"
proof (cases "bit opcode 6 \<and> bit opcode 7")
  case True
  then have top: "drop_bit 6 opcode \<noteq> 0" "drop_bit 6 opcode \<noteq> 1" "drop_bit 6 opcode \<noteq> 2"
    by (simp_all add: u8_eq_iff bit_drop_bit_eq)
  have z3: "z80_base_x3_z3 io y m s = None \<longleftrightarrow> y = 1" for y
    by (simp add: z80_base_x3_z3_def Let_def case_prod_unfold)
  have z5: "z80_base_push_group io q p m s = None \<longleftrightarrow> q \<noteq> 0 \<and> p \<noteq> 0" for q p
    by (simp add: z80_base_push_group_def Let_def case_prod_unfold)
  show ?thesis
    using True
    by (auto simp: z80_execute_base_def Let_def top z80_base_x3_def z3 z5 u8_eq_iff bit_and_iff
        bit_drop_bit_eq)
next
  case False
  then have "opcode \<noteq> 0xCB \<and> opcode \<noteq> 0xDD \<and> opcode \<noteq> 0xED \<and> opcode \<noteq> 0xFD" by auto
  with False show ?thesis
    using decode_prefixes [of opcode]
    by (auto simp: z80_execute_base_def Let_def x012_return simp del: not_None_eq)
qed

lemma cb_returns: "z80_execute_cb io opcode s \<noteq> None"
  by (simp add: z80_execute_cb_def panic_simps del: not_None_eq)

lemma ed_returns: "z80_execute_ed io opcode s \<noteq> None"
  by (auto simp: z80_execute_ed_def z80_ed_out_def panic_simps reg_panics memory_selector
      simp del: not_None_eq)

lemma dispatch_returns:
  assumes "opcode \<noteq> 0xDD" "opcode \<noteq> 0xFD"
  shows "z80_dispatch io opcode m x s \<noteq> None"
  using assms
  by (simp add: z80_dispatch_def Let_def case_prod_unfold base_panics cb_returns ed_returns
      del: not_None_eq)

end
