(* ===== verification/Z80_Progress.thy ===== *)
theory Z80_Progress
  imports Z80_Steps
begin

text \<open>
  The execution loop of the Z80 core: what \<open>execute_one\<close>, \<open>step\<close> and \<open>run_for\<close> keep, the
  clocks they take, when they return and when they do not. Every instruction takes at
  least four clocks, which is what makes \<open>run_for\<close> end; the exception is a memory full of
  index prefixes, on which \<open>execute_one\<close> never ends.
\<close>

section \<open>Interrupts and fetches\<close>

lemma increment_r_ctl [frame_simps]:
  "z80_ctl (z80_increment_r s) =
     (case z80_ctl s of (r, rh, v) \<Rightarrow> (((rh AND 0x80) OR ((r + 1) AND 0x7F)) AND 0x7F, rh AND 0x80, v))"
  by (simp add: z80_ctl_def z80_increment_r_def)

lemma increment_r_clock [clock_simps]:
  "z_cycles_remaining (z80_increment_r s) = z_cycles_remaining s"
  by (simp add: z80_increment_r_def)

lemma pending_ctl [frame_simps]:
  "z80_ctl (z_pending_irq_update f s) =
     (case z80_ctl s of (r, rh, im, e, p, n, c) \<Rightarrow> (r, rh, im, e, p, f n, c))"
  by (simp add: z80_ctl_def)

lemma pending_of_ctl: "z_pending_irq s = (case z80_ctl s of (r, rh, im, e, p, n, c) \<Rightarrow> n)"
  by (simp add: z80_ctl_def)

lemma pending_mask:
  assumes "n AND - 4 = (0 :: u8)"
  shows "(n AND m) AND - 4 = 0" "m AND - 4 = 0 \<Longrightarrow> (n OR m) AND - 4 = 0"
proof -
  have "(n AND m) AND - 4 = (n AND - 4) AND m"
    by (simp only: and.assoc and.commute and.left_commute)
  then show "(n AND m) AND - 4 = 0" using assms by simp
  show "(n OR m) AND - 4 = 0" if "m AND - 4 = 0"
    using assms that by (simp add: bit.conj_disj_distrib2)
qed

lemma increment_r_keeps: "z80_keeps 0 0 s (z80_increment_r s)"
  by (auto simp: z80_keeps_def z80_within_def frame_simps clock_simps z80_ctl_ok_def r_halves
      split: prod.splits)

lemma fetch_m1_keeps: "z80_keeps 4 4 s (snd (z80_fetch_m1 io s))"
  by (auto simp: z80_fetch_m1_def Let_def case_prod_unfold z80_keeps_def z80_within_def frame_simps
      clock_simps z80_ctl_ok_def r_halves split: prod.splits)

lemma nmi_keeps: "z80_keeps 11 11 s (z80_service_nmi io s)"
  by (auto simp: z80_service_nmi_def Let_def z80_keeps_def z80_within_def frame_simps clock_simps
      pending_of_ctl z80_ctl_ok_def r_halves pending_mask split: prod.splits)

lemma clear_pending_keeps:
  "z80_keeps lo hi s t \<Longrightarrow>
     z80_keeps lo hi s (t\<lparr>z_wz := w, z_pending_irq := z_pending_irq t AND NOT m\<rparr>)"
  by (auto simp: z80_keeps_def z80_within_def frame_simps z80_ctl_ok_def pending_mask
      pending_of_ctl split: prod.splits)

lemma irq_transfer_keeps:
  assumes "z80_irq_transfer io vector s = Some t"
  shows "z80_keeps 6 21 s t"
  using assms unfolding z80_irq_transfer_def z80_execute_im0_opcode_def Let_def
  by (elim decoded_cases)
    (auto simp: case_prod_unfold z80_keeps_def z80_within_def frame_simps clock_simps
      dest!: base_keeps)

lemma irq_keeps:
  assumes "z80_service_irq io s = Some t"
  shows "z80_keeps 6 21 s t"
proof -
  let ?a = "z80_increment_r (s\<lparr>z_halted := False, z_iff1 := False, z_iff2 := False\<rparr>)"
  let ?v = "bus_acknowledge_irq io (z_bus ?a)"
  have a: "z80_keeps 0 0 s (?a\<lparr>z_bus := snd ?v\<rparr>)"
    using increment_r_keeps [of s]
    by (simp add: z80_keeps_def z80_within_def frame_simps clock_simps)
  from assms obtain b where b: "z80_irq_transfer io (fst ?v) (?a\<lparr>z_bus := snd ?v\<rparr>) = Some b"
    and t: "t = b\<lparr>z_wz := z_pc b, z_pending_irq := z_pending_irq b AND NOT PENDING_IRQ\<rparr>"
    by (auto simp: z80_service_irq_def Let_def bind_eq_Some_conv case_prod_unfold)
  show ?thesis
    using clear_pending_keeps [OF keeps_trans [OF a irq_transfer_keeps [OF b]]] by (simp add: t)
qed

section \<open>One instruction\<close>

lemma check_interrupts_keeps:
  assumes "z80_check_interrupts io s = Some t"
  shows "z80_keeps 0 21 s t"
proof -
  have "z80_keeps 0 21 s s" by (simp add: z80_keeps_def z80_within_def)
  with assms show ?thesis
    by (auto simp: z80_check_interrupts_def split: if_splits
        intro: nmi_keeps [THEN keeps_weaken] irq_keeps [THEN keeps_weaken])
qed

text \<open>
  The prefix loop is a number of opcode fetches, costs four clocks each, and ends at an
  opcode that is no prefix.
\<close>

lemma skip_prefixes_iterate:
  assumes "z80_skip_prefixes io opcode m x s = Some r"
  shows "case r of (op', m', x', t) \<Rightarrow>
     op' \<noteq> 0xDD \<and> op' \<noteq> 0xFD \<and> (\<exists>n. t = ((\<lambda>s. snd (z80_fetch_m1 io s)) ^^ n) s)"
proof (rule z80_skip_prefixes.raw_induct [where P = "\<lambda>io opcode m x s r. case r of (op', m', x', t) \<Rightarrow>
     op' \<noteq> 0xDD \<and> op' \<noteq> 0xFD \<and> (\<exists>n. t = ((\<lambda>s. snd (z80_fetch_m1 io s)) ^^ n) s)", rotated, OF assms])
  fix f and io :: "'a bus_ops" and opcode :: u8 and m x s and r :: "u8 \<times> index_mode \<times> bool \<times> 'a z80"
  let ?t = "z80_fetch_m1 io s"
  assume IH: "\<And>io opcode m x s r. f io opcode m x s = Some r \<Longrightarrow> case r of (op', m', x', t) \<Rightarrow>
     op' \<noteq> 0xDD \<and> op' \<noteq> 0xFD \<and> (\<exists>n. t = ((\<lambda>s. snd (z80_fetch_m1 io s)) ^^ n) s)"
    and run: "(if opcode = 0xDD then (let (opcode, s) = z80_fetch_m1 io s in f io opcode IX True s)
      else if opcode = 0xFD then (let (opcode, s) = z80_fetch_m1 io s in f io opcode IY True s)
      else Some (opcode, m, x, s)) = Some r"
  have more: "\<exists>n'. ((\<lambda>s. snd (z80_fetch_m1 io s)) ^^ n) (snd ?t) = ((\<lambda>s. snd (z80_fetch_m1 io s)) ^^ n') s" for n
    by (rule exI [of _ "Suc n"]) (simp only: funpow_Suc_right comp_apply)
  have stay: "\<exists>n. s = ((\<lambda>s. snd (z80_fetch_m1 io s)) ^^ n) s" by (rule exI [of _ 0]) simp
  show "case r of (op', m', x', t) \<Rightarrow>
     op' \<noteq> 0xDD \<and> op' \<noteq> 0xFD \<and> (\<exists>n. t = ((\<lambda>s. snd (z80_fetch_m1 io s)) ^^ n) s)"
    using run IH [of io "fst ?t" IX True "snd ?t" r] IH [of io "fst ?t" IY True "snd ?t" r] more stay
    by (auto simp: case_prod_unfold Let_def split: if_split_asm)
qed

lemma fetches_keep: "z80_keeps (4 * int n) (4 * int n) s (((\<lambda>s. snd (z80_fetch_m1 io s)) ^^ n) s)"
proof (induction n)
  case 0
  show ?case by (simp add: z80_keeps_def z80_within_def)
next
  case (Suc n)
  from keeps_trans [OF Suc fetch_m1_keeps [of _ io]] show ?case by (simp add: algebra_simps)
qed

lemma skip_prefixes_effect:
  assumes "z80_skip_prefixes io opcode m x s = Some r"
  shows "case r of (op', m', x', t) \<Rightarrow>
     op' \<noteq> 0xDD \<and> op' \<noteq> 0xFD \<and> (\<exists>n :: nat. z80_keeps (4 * int n) (4 * int n) s t)"
  using skip_prefixes_iterate [OF assms] fetches_keep by (auto split: prod.splits)

lemma dispatch_keeps:
  assumes "z80_dispatch io opcode m x s = Some t"
  shows "z80_keeps 0 17 s t"
proof -
  have indexed: "z80_keeps 0 17 s (z80_execute_cb_indexed io c a (z80_clk 2 (snd (z80_fetch_u8 io
      (snd (z80_fetch_u8 io s)\<lparr>z_wz := w\<rparr>)))))" for c a w
    using cb_indexed_quiet [of "z80_clk 2 (snd (z80_fetch_u8 io
      (snd (z80_fetch_u8 io s)\<lparr>z_wz := w\<rparr>)))" io c a]
    by (simp add: z80_keeps_def z80_quiet_def z80_within_def frame_simps clock_simps)
  have cb: "z80_keeps 0 17 s u" if "z80_execute_cb io c (snd (z80_fetch_m1 io s)) = Some u" for c u
    using keeps_trans [OF fetch_m1_keeps cb_quiet [OF that, THEN quiet_keeps, of 0 13]]
    by (rule keeps_weaken) simp_all
  have ed: "z80_keeps 0 17 s u" if "z80_execute_ed io c (snd (z80_fetch_m1 io s)) = Some u" for c u
    using keeps_trans [OF fetch_m1_keeps ed_keeps [OF that]] by (rule keeps_weaken) simp_all
  from assms show ?thesis
    unfolding z80_dispatch_def Let_def case_prod_unfold
    by (elim decoded_cases) (auto intro: indexed cb ed base_keeps [THEN keeps_weaken])
qed

lemma start_keeps: "z80_keeps 0 0 s (z80_set_q_latch False (s\<lparr>z_p := 0\<rparr>))"
  by (auto simp: z80_keeps_def z80_within_def frame_simps clock_simps z80_ctl_ok_def
      split: prod.splits)

lemma finish_keeps: "z80_keeps 0 0 s (z80_finish_q s)"
  by (simp add: z80_keeps_def z80_within_def frame_simps clock_simps)

lemma instruction_keeps:
  assumes "z80_execute_instruction io s = Some t"
  shows "\<exists>n :: nat. z80_keeps (4 + 4 * int n) (21 + 4 * int n) s t"
proof -
  let ?s = "z80_set_q_latch False (s\<lparr>z_p := 0\<rparr>)"
  from assms obtain op m x u v
    where skip: "z80_skip_prefixes io (fst (z80_fetch_m1 io ?s)) HL False (snd (z80_fetch_m1 io ?s))
        = Some (op, m, x, u)"
      and run: "z80_dispatch io op m x u = Some v" "t = z80_finish_q v"
    by (auto simp: z80_execute_instruction_def Let_def case_prod_unfold bind_eq_Some_conv)
  obtain n :: nat where n: "z80_keeps (4 * int n) (4 * int n) (snd (z80_fetch_m1 io ?s)) u"
    using skip_prefixes_effect [OF skip] by auto
  show ?thesis
    using keeps_trans [OF keeps_trans [OF start_keeps fetch_m1_keeps]
        keeps_trans [OF n keeps_trans [OF dispatch_keeps [OF run(1)] finish_keeps]]]
    by (intro exI [of _ n]) (simp add: run(2) algebra_simps)
qed

lemma idle_keeps: "z80_keeps 4 4 s (z80_clk 4 (z80_increment_r s))"
  using increment_r_keeps [of s] by (simp add: z80_keeps_def z80_within_def frame_simps clock_simps)

lemma ei_reset_keeps: "z80_keeps 0 0 s (s\<lparr>z_ei := 0\<rparr>)"
  by (auto simp: z80_keeps_def z80_within_def frame_simps z80_ctl_ok_def split: prod.splits)

lemma execute_one_keeps:
  assumes "z80_execute_one io s = Some t"
  shows "\<exists>n :: nat. z80_keeps 4 (42 + 4 * int n) s t"
proof -
  from assms obtain u where irq: "(if z_pending_irq s \<noteq> 0 then z80_check_interrupts io s else Some s) = Some u"
    and run: "(if z_halted u then Some (z80_clk 4 (z80_increment_r (u\<lparr>z_ei := 0\<rparr>)))
        else z80_execute_instruction io (u\<lparr>z_ei := 0\<rparr>)) = Some t"
    by (auto simp: z80_execute_one_def Let_def bind_eq_Some_conv)
  have "z80_keeps 0 21 s s" by (simp add: z80_keeps_def z80_within_def)
  with irq have pre: "z80_keeps 0 21 s (u\<lparr>z_ei := 0\<rparr>)"
    using check_interrupts_keeps [of io s u] keeps_trans [OF _ ei_reset_keeps, of 0 21 s u]
    by (cases "z_pending_irq s = 0") simp_all
  show ?thesis
  proof (cases "z_halted u")
    case True
    then have "z80_keeps 4 (42 + 4 * int 0) s t"
      using keeps_weaken [OF keeps_trans [OF pre idle_keeps], of 4 42] run by simp
    then show ?thesis by blast
  next
    case False
    then have "z80_execute_instruction io (u\<lparr>z_ei := 0\<rparr>) = Some t" using run by simp
    from instruction_keeps [OF this] obtain n :: nat
      where n: "z80_keeps (4 + 4 * int n) (21 + 4 * int n) (u\<lparr>z_ei := 0\<rparr>) t" ..
    have "z80_keeps 4 (42 + 4 * int n) s t"
      by (rule keeps_weaken [OF keeps_trans [OF pre n]]) simp_all
    then show ?thesis ..
  qed
qed

section \<open>When an instruction returns\<close>

text \<open>An instruction returns exactly when the prefix loop does: no opcode panics.\<close>

lemma instruction_returns_iff:
  "z80_execute_instruction io s = None \<longleftrightarrow>
     (let (opcode, u) = z80_fetch_m1 io (z80_set_q_latch False (s\<lparr>z_p := 0\<rparr>))
      in z80_skip_prefixes io opcode HL False u = None)"
proof -
  let ?f = "z80_fetch_m1 io (z80_set_q_latch False (s\<lparr>z_p := 0\<rparr>))"
  show ?thesis
  proof (cases "z80_skip_prefixes io (fst ?f) HL False (snd ?f)")
    case None
    then show ?thesis by (simp add: z80_execute_instruction_def Let_def case_prod_unfold)
  next
    case (Some r)
    obtain op m x u where r: "r = (op, m, x, u)" by (cases r)
    have "z80_dispatch io op m x u \<noteq> None"
      using skip_prefixes_effect [OF Some] by (intro dispatch_returns) (auto simp: r)
    with Some r show ?thesis
      by (auto simp: z80_execute_instruction_def Let_def case_prod_unfold)
  qed
qed

lemma skip_no_prefix:
  "opcode \<noteq> 0xDD \<Longrightarrow> opcode \<noteq> 0xFD \<Longrightarrow> z80_skip_prefixes io opcode m x s = Some (opcode, m, x, s)"
  by (subst z80_skip_prefixes.simps) simp

context memory_bus
begin

text \<open>Behind a memory, the loop ends at the first byte from PC on that is no prefix.\<close>

lemma fetch_m1_memory:
  "fst (z80_fetch_m1 io s) = peek (z_bus s) (z_pc s)"
  "peek (z_bus (snd (z80_fetch_m1 io s))) = peek (z_bus s)"
  "z_pc (snd (z80_fetch_m1 io s)) = z_pc s + 1"
  by (simp_all add: z80_fetch_m1_def case_prod_unfold Let_def fetch_peek fetch_keeps
      z80_clk_def z80_increment_r_def)

lemma skip_prefixes_ends:
  assumes "peek (z_bus s) (z_pc s + of_nat n) \<noteq> 0xDD"
    "peek (z_bus s) (z_pc s + of_nat n) \<noteq> 0xFD"
  shows "z80_skip_prefixes io opcode m x s \<noteq> None"
  using assms
proof (induction n arbitrary: opcode m x s)
  case 0
  then show ?case
    by (subst z80_skip_prefixes.simps)
      (simp add: case_prod_unfold Let_def fetch_m1_memory skip_no_prefix del: not_None_eq)
next
  case (Suc n)
  let ?u = "snd (z80_fetch_m1 io s)"
  have "z80_skip_prefixes io op m x ?u \<noteq> None" for op m x
    using Suc.IH [of ?u] Suc.prems by (simp add: fetch_m1_memory add.assoc del: not_None_eq)
  then show ?case
    by (subst z80_skip_prefixes.simps) (simp add: case_prod_unfold Let_def del: not_None_eq)
qed

text \<open>The loop never ends when all 64 KiB are prefixes.\<close>

lemma fetches_memory:
  "peek (z_bus (((\<lambda>s. snd (z80_fetch_m1 io s)) ^^ n) s)) = peek (z_bus s)"
  by (induction n) (simp_all add: fetch_m1_memory)

lemma skip_prefixes_diverges:
  assumes memory: "\<And>a. peek (z_bus s) a = 0xDD \<or> peek (z_bus s) a = 0xFD"
    and start: "opcode = 0xDD \<or> opcode = 0xFD"
  shows "z80_skip_prefixes io opcode m x s = None"
proof (rule ccontr)
  assume "z80_skip_prefixes io opcode m x s \<noteq> None"
  then obtain r where "z80_skip_prefixes io opcode m x s = Some r" by auto
  then have "io = io \<longrightarrow> (\<forall>a. peek (z_bus s) a = 0xDD \<or> peek (z_bus s) a = 0xFD) \<longrightarrow>
      opcode \<noteq> 0xDD \<and> opcode \<noteq> 0xFD"
  proof (rule z80_skip_prefixes.raw_induct
      [where P = "\<lambda>io' opcode m x s r. io' = io \<longrightarrow>
          (\<forall>a. peek (z_bus s) a = 0xDD \<or> peek (z_bus s) a = 0xFD) \<longrightarrow> opcode \<noteq> 0xDD \<and> opcode \<noteq> 0xFD",
        rotated])
    fix f and io' :: "'b bus_ops" and opcode :: u8 and m x s and r :: "u8 \<times> index_mode \<times> bool \<times> 'b z80"
    let ?t = "z80_fetch_m1 io' s"
    assume IH: "\<And>io' opcode m x s r. f io' opcode m x s = Some r \<Longrightarrow> io' = io \<longrightarrow>
        (\<forall>a. peek (z_bus s) a = 0xDD \<or> peek (z_bus s) a = 0xFD) \<longrightarrow> opcode \<noteq> 0xDD \<and> opcode \<noteq> 0xFD"
      and run: "(if opcode = 0xDD then (let (opcode, s) = z80_fetch_m1 io' s in f io' opcode IX True s)
        else if opcode = 0xFD then (let (opcode, s) = z80_fetch_m1 io' s in f io' opcode IY True s)
        else Some (opcode, m, x, s)) = Some r"
    show "io' = io \<longrightarrow> (\<forall>a. peek (z_bus s) a = 0xDD \<or> peek (z_bus s) a = 0xFD) \<longrightarrow>
        opcode \<noteq> 0xDD \<and> opcode \<noteq> 0xFD"
      using run IH [of io' "fst ?t" IX True "snd ?t" r] IH [of io' "fst ?t" IY True "snd ?t" r]
      by (auto simp: case_prod_unfold Let_def fetch_m1_memory split: if_split_asm)
  qed
  with memory start show False by simp
qed

text \<open>So an instruction returns unless every byte of the memory is a prefix.\<close>

lemma instruction_returns:
  "z80_execute_instruction io s = None \<longleftrightarrow>
     (\<forall>a. peek (z_bus s) a = 0xDD \<or> peek (z_bus s) a = 0xFD)"
proof -
  let ?u = "z80_set_q_latch False (s\<lparr>z_p := 0\<rparr>)"
  let ?f = "z80_fetch_m1 io ?u"
  have same: "z_bus ?u = z_bus s" by (simp add: z80_set_q_latch_def)
  show ?thesis
  proof (cases "\<forall>a. peek (z_bus s) a = 0xDD \<or> peek (z_bus s) a = 0xFD")
    case True
    then have "z80_skip_prefixes io (fst ?f) HL False (snd ?f) = None"
      by (intro skip_prefixes_diverges) (simp_all add: fetch_m1_memory same)
    with True show ?thesis by (simp add: instruction_returns_iff case_prod_unfold Let_def)
  next
    case False
    then obtain a where a: "peek (z_bus s) a \<noteq> 0xDD" "peek (z_bus s) a \<noteq> 0xFD" by auto
    have "z80_skip_prefixes io (fst ?f) HL False (snd ?f) \<noteq> None"
      by (rule skip_prefixes_ends [where n = "unat (a - z_pc (snd ?f))"])
        (simp_all add: fetch_m1_memory same a)
    with False show ?thesis
      by (simp add: instruction_returns_iff case_prod_unfold Let_def del: not_None_eq)
  qed
qed

end

section \<open>Running\<close>

lemma sample_keeps:
  "z80_keeps 0 0 s (z80_sample_nmi io s)" "z80_keeps 0 0 s (z80_latch_irq b s)"
  by (auto simp: z80_sample_nmi_def z80_latch_irq_def PENDING_NMI_def PENDING_IRQ_def z80_keeps_def
      z80_within_def frame_simps pending_of_ctl z80_ctl_ok_def pending_mask split: prod.splits)

lemma sample_halted_keeps: "z80_keeps 0 0 s (z80_sample_halted io s)"
proof -
  have "z80_keeps 0 0 s s" by (simp add: z80_keeps_def z80_within_def)
  then show ?thesis
    using keeps_trans [OF sample_keeps(1) [of s io] sample_keeps(2)]
    by (simp add: z80_sample_halted_def Let_def)
qed

lemma bus_update_keeps:
  "z80_keeps 0 0 s (z80_set_bus_cycle io c s)" "z80_keeps 0 0 s (z_bus_update f s)"
  by (simp_all add: z80_set_bus_cycle_def z80_keeps_def z80_within_def frame_simps)

lemma drain_effect:
  "z80_ctl (z80_drain_wait io s) = z80_ctl s"
  "z_cycles_remaining (z80_drain_wait io s) =
     z_cycles_remaining s - fst (bus_drain_wait_cycles io (z_bus s))"
  by (simp_all add: z80_drain_wait_def case_prod_unfold Let_def frame_simps clock_simps)

text \<open>The two accounts of wait cycles and the bus callbacks around one instruction.\<close>

definition z80_after_instruction :: "'b bus_ops \<Rightarrow> (int \<Rightarrow> u64) \<Rightarrow> 'b z80 \<Rightarrow> 'b z80" where
  "z80_after_instruction io cycle s =
     (let s = z80_drain_wait io s;
          s = z80_set_bus_cycle io (cycle (z_cycles_remaining s)) s;
          s = s\<lparr>z_bus := bus_on_instruction_end io (z_bus s)\<rparr>;
          s = z80_drain_wait io s
      in z80_set_bus_cycle io (cycle (z_cycles_remaining s)) s)"

lemma after_instruction_effect:
  assumes "\<And>b. 0 \<le> fst (bus_drain_wait_cycles io b)"
  shows "z80_ctl (z80_after_instruction io c s) = z80_ctl s"
    "z_cycles_remaining (z80_after_instruction io c s) \<le> z_cycles_remaining s"
proof -
  have set: "z80_ctl (z80_set_bus_cycle io k u) = z80_ctl u"
    "z_cycles_remaining (z80_set_bus_cycle io k u) = z_cycles_remaining u" for k u
    by (simp_all add: z80_set_bus_cycle_def frame_simps)
  show "z80_ctl (z80_after_instruction io c s) = z80_ctl s"
    by (simp add: z80_after_instruction_def Let_def set drain_effect frame_simps)
  have drain: "z_cycles_remaining (z80_drain_wait io u) \<le> z_cycles_remaining u" for u
    using assms [of "z_bus u"] by (simp add: drain_effect)
  show "z_cycles_remaining (z80_after_instruction io c s) \<le> z_cycles_remaining s"
    unfolding z80_after_instruction_def Let_def set
    by (rule order_trans [OF drain]) (simp add: set drain)
qed

lemma run_body_split:
  "z80_run_body io budget start s =
     do { s \<leftarrow> z80_execute_one io (z80_sample_halted io s);
          let s = z80_after_instruction io (\<lambda>left. start + word_of_int (budget - left)) s;
          let s = z80_sample_nmi io s;
          let s = z80_latch_irq (bus_has_irq io (z_bus s)) s;
          Some (bus_reset_pending io (z_bus s) \<or> bus_cpu_should_yield io (z_bus s), s) }"
  by (simp add: z80_run_body_def z80_after_instruction_def Let_def)

lemma run_body_progress:
  assumes waits: "\<And>b. 0 \<le> fst (bus_drain_wait_cycles io b)"
    and run: "z80_run_body io budget start s = Some (stop, t)"
  shows "z80_ctl_ok (z80_ctl s) \<longrightarrow> z80_ctl_ok (z80_ctl t)"
    "z_cycles_remaining t \<le> z_cycles_remaining s - 4"
    "stop \<longleftrightarrow> bus_reset_pending io (z_bus t) \<or> bus_cpu_should_yield io (z_bus t)"
proof -
  let ?c = "\<lambda>left. start + word_of_int (budget - left)"
  from run obtain u where u: "z80_execute_one io (z80_sample_halted io s) = Some u"
    and t: "t = z80_latch_irq (bus_has_irq io (z_bus (z80_sample_nmi io (z80_after_instruction io ?c u))))
        (z80_sample_nmi io (z80_after_instruction io ?c u))"
    and stop: "stop \<longleftrightarrow> bus_reset_pending io (z_bus t) \<or> bus_cpu_should_yield io (z_bus t)"
    by (auto simp: run_body_split bind_eq_Some_conv Let_def)
  obtain n :: nat where "z80_keeps 4 (42 + 4 * int n) (z80_sample_halted io s) u"
    using execute_one_keeps [OF u] ..
  then have su: "z80_keeps 4 (42 + 4 * int n) s u"
    using keeps_trans [OF sample_halted_keeps] by fastforce
  have ut: "z80_keeps 0 0 (z80_after_instruction io ?c u) t"
    using keeps_trans [OF sample_keeps(1) sample_keeps(2)] by (simp add: t)
  show "z80_ctl_ok (z80_ctl s) \<longrightarrow> z80_ctl_ok (z80_ctl t)"
    "z_cycles_remaining t \<le> z_cycles_remaining s - 4"
    using su ut after_instruction_effect [OF waits, of ?c u]
    by (auto simp: z80_keeps_def z80_within_def)
  show "stop \<longleftrightarrow> bus_reset_pending io (z_bus t) \<or> bus_cpu_should_yield io (z_bus t)"
    by (rule stop)
qed

lemma run_loop_valid:
  assumes waits: "\<And>b. 0 \<le> fst (bus_drain_wait_cycles io b)"
    and run: "z80_run_loop io budget start s = Some t"
  shows "z80_ctl_ok (z80_ctl s) \<longrightarrow> z80_ctl_ok (z80_ctl t)"
proof -
  have "io = io \<longrightarrow> z80_ctl_ok (z80_ctl s) \<longrightarrow> z80_ctl_ok (z80_ctl t)"
  proof (rule z80_run_loop.raw_induct [where P = "\<lambda>io' budget start s t. io' = io \<longrightarrow>
      z80_ctl_ok (z80_ctl s) \<longrightarrow> z80_ctl_ok (z80_ctl t)", rotated, OF run])
    fix f and io' :: "'a bus_ops" and budget start s t
    assume IH: "\<And>io' budget start s t. f io' budget start s = Some t \<Longrightarrow> io' = io \<longrightarrow>
        z80_ctl_ok (z80_ctl s) \<longrightarrow> z80_ctl_ok (z80_ctl t)"
      and body: "(if 0 < z_cycles_remaining s then
          z80_run_body io' budget start s \<bind>
            (\<lambda>(stop, s). if stop then Some s else f io' budget start s) else Some s) = Some t"
    show "io' = io \<longrightarrow> z80_ctl_ok (z80_ctl s) \<longrightarrow> z80_ctl_ok (z80_ctl t)"
      using body run_body_progress(1) [OF waits] IH
      by (fastforce simp: bind_eq_Some_conv split: if_split_asm)
  qed
  then show ?thesis by simp
qed

text \<open>
  \<open>run_for\<close> returns for every budget, as long as single rounds of its loop do: a set of
  states closed under the rounds is enough. When it returns, the budget is used up or
  the bus asked for the stop.
\<close>

lemma run_loop_returns:
  assumes waits: "\<And>b. 0 \<le> fst (bus_drain_wait_cycles io b)"
    and rounds: "\<And>s. I s \<Longrightarrow> \<exists>stop t. z80_run_body io budget start s = Some (stop, t) \<and> I t"
    and start: "I s"
  shows "\<exists>t. z80_run_loop io budget start s = Some t \<and> I t
    \<and> (z_cycles_remaining t \<le> 0 \<or> bus_reset_pending io (z_bus t) \<or> bus_cpu_should_yield io (z_bus t))"
  using start
proof (induction "nat (z_cycles_remaining s)" arbitrary: s rule: less_induct)
  case less
  show ?case
  proof (cases "z_cycles_remaining s > 0")
    case False
    with less.prems show ?thesis by (subst z80_run_loop.simps) simp
  next
    case True
    obtain stop t where body: "z80_run_body io budget start s = Some (stop, t)" and t: "I t"
      using rounds [OF less.prems] by blast
    have progress: "z_cycles_remaining t \<le> z_cycles_remaining s - 4"
      and stop: "stop \<longleftrightarrow> bus_reset_pending io (z_bus t) \<or> bus_cpu_should_yield io (z_bus t)"
      using run_body_progress [OF waits body] by auto
    show ?thesis
    proof (cases stop)
      case True
      with body t stop \<open>z_cycles_remaining s > 0\<close> show ?thesis
        by (subst z80_run_loop.simps) auto
    next
      case False
      have "nat (z_cycles_remaining t) < nat (z_cycles_remaining s)"
        using progress \<open>z_cycles_remaining s > 0\<close> by linarith
      from less.hyps [OF this t] False body \<open>z_cycles_remaining s > 0\<close> show ?thesis
        by (subst z80_run_loop.simps) auto
    qed
  qed
qed

end
