(* ===== verification/Z80_Memory.thy ===== *)
theory Z80_Memory
  imports Z80_Progress
begin

text \<open>
  Programs running on the Z80 core: what the stack, a call and a block copy do to the
  memory behind the bus, proved for every bus that keeps the contract \<open>memory_bus\<close>,
  and on buses with ROM, which no run changes.
\<close>

definition z80_running :: "'b z80 \<Rightarrow> bool" where
  "z80_running s \<longleftrightarrow> z_pending_irq s = 0 \<and> \<not> z_halted s"

text \<open>\<open>n\<close> calls of \<open>execute_one\<close>.\<close>

fun z80_execute_many :: "'b bus_ops \<Rightarrow> nat \<Rightarrow> 'b z80 \<Rightarrow> 'b z80 option" where
  "z80_execute_many io 0 s = Some s"
| "z80_execute_many io (Suc n) s = do { s \<leftarrow> z80_execute_one io s; z80_execute_many io n s }"

text \<open>The specification of LDIR and LDDR: bytes are copied one by one, in order.\<close>

fun block_copy :: "(u16 \<Rightarrow> u16) \<Rightarrow> u16 set \<Rightarrow> nat \<Rightarrow> u16 \<Rightarrow> u16 \<Rightarrow> (u16 \<Rightarrow> u8) \<Rightarrow> u16 \<Rightarrow> u8" where
  "block_copy next ram 0 source destination memory = memory"
| "block_copy next ram (Suc n) source destination memory =
     block_copy next ram n (next source) (next destination)
       (if destination \<in> ram then memory(destination := memory source) else memory)"

lemma running_one:
  "z80_running s \<Longrightarrow> z80_execute_one io s = z80_execute_instruction io (s\<lparr>z_ei := 0\<rparr>)"
  by (simp add: z80_running_def z80_execute_one_def)

context memory_bus
begin

lemmas memory_laws = read_peek read_keeps fetch_peek fetch_keeps peek_write

lemma access_memory:
  "fst (z80_read_byte io a s) = peek (z_bus s) a"
  "peek (z_bus (snd (z80_read_byte io a s))) = peek (z_bus s)"
  "peek (z_bus (z80_write_byte io a v s)) =
     (if a \<in> ram then (peek (z_bus s))(a := v) else peek (z_bus s))"
  "fst (z80_fetch_u8 io s) = peek (z_bus s) (z_pc s)"
  "peek (z_bus (snd (z80_fetch_u8 io s))) = peek (z_bus s)"
  by (simp_all add: access_defs case_prod_unfold Let_def memory_laws)

text \<open>A word pushed into writable memory is popped again, and nothing else has changed.\<close>

lemma push_pop:
  assumes "z_sp s - 1 \<in> ram" "z_sp s - 2 \<in> ram"
  shows "fst (z80_pop io (z80_push io w s)) = w"
    "z80_capture_state (snd (z80_pop io (z80_push io w s))) = z80_capture_state s"
    "z_cycles_remaining (snd (z80_pop io (z80_push io w s))) = z_cycles_remaining s - 12"
proof -
  have sp: "z_sp s - 1 - 1 = z_sp s - 2" "z_sp s - 2 + 1 = z_sp s - 1" "z_sp s - 2 \<noteq> z_sp s - 1"
    by simp_all
  show "fst (z80_pop io (z80_push io w s)) = w"
    using assms
    by (simp add: z80_pop_def z80_push_def Let_def case_prod_unfold z80_read_byte_def
        z80_write_byte_def z80_clk_def memory_laws sp)
  show "z80_capture_state (snd (z80_pop io (z80_push io w s))) = z80_capture_state s"
    by (simp add: z80_pop_def z80_push_def Let_def case_prod_unfold z80_read_byte_def
        z80_write_byte_def z80_clk_def z80_capture_state_def z80_state.defs)
  show "z_cycles_remaining (snd (z80_pop io (z80_push io w s))) = z_cycles_remaining s - 12"
    by (simp add: clock_simps)
qed

lemma unprefixed:
  assumes "peek (z_bus s) (z_pc s) = opcode" "opcode \<noteq> 0xDD" "opcode \<noteq> 0xFD"
  shows "z80_execute_instruction io s =
     map_option z80_finish_q
       (z80_dispatch io opcode HL False (snd (z80_fetch_m1 io (z80_set_q_latch False (s\<lparr>z_p := 0\<rparr>)))))"
  using assms
  by (simp add: z80_execute_instruction_def Let_def case_prod_unfold fetch_m1_memory skip_no_prefix
      z80_set_q_latch_def map_conv_bind_option comp_def)

lemma ldir_step:
  assumes run: "z80_running s"
    and code: "peek (z_bus s) (z_pc s) = 0xED" "peek (z_bus s) (z_pc s + 1) = 0xB0"
  shows "\<exists>t. z80_execute_one io s = Some t \<and> z80_running t
    \<and> z80_hl t = z80_hl s + 1 \<and> z80_de t = z80_de s + 1 \<and> z80_bc t = z80_bc s - 1
    \<and> peek (z_bus t) = (if z80_de s \<in> ram
        then (peek (z_bus s))(z80_de s := peek (z_bus s) (z80_hl s)) else peek (z_bus s))
    \<and> z_pc t = (if z80_bc s = 1 then z_pc s + 2 else z_pc s)
    \<and> z_cycles_remaining t = z_cycles_remaining s - (if z80_bc s = 1 then 16 else 21)"
proof -
  have "z80_execute_one io s = map_option z80_finish_q
      (z80_dispatch io 0xED HL False (snd (z80_fetch_m1 io (z80_set_q_latch False (s\<lparr>z_ei := 0, z_p := 0\<rparr>)))))"
    using code by (simp add: running_one [OF run] unprefixed)
  then show ?thesis
    using run code
    by (simp add: z80_dispatch_def Let_def case_prod_unfold z80_execute_ed_def z80_ed_block_def
      fetch_m1_memory z80_set_q_latch_def z80_block_load_repeat_def z80_block_load_def
      z80_block_rewind_def z80_repeat_xy_from_pc_def z80_set_defs z80_fetch_m1_def z80_increment_r_def z80_clk_def
      z80_read_byte_def z80_write_byte_def z80_pair_defs z80_finish_q_def step_pointer_def memory_laws z80_running_def)
qed

lemma count_is_one: "0 < n \<Longrightarrow> n \<le> 65536 \<Longrightarrow> (of_nat n :: u16) = 1 \<longleftrightarrow> n = 1"
  by (auto simp: word_unat_eq_iff unat_of_nat take_bit_eq_mod mod_if split: if_splits)

lemma ldir_run:
  assumes "z80_running s" "peek (z_bus s) (z_pc s) = 0xED" "peek (z_bus s) (z_pc s + 1) = 0xB0"
    and "0 < n" "n \<le> 65536" "z80_bc s = of_nat n"
    and "\<And>i. i < n \<Longrightarrow> z80_de s + of_nat i \<in> ram \<Longrightarrow>
      z80_de s + of_nat i \<noteq> z_pc s \<and> z80_de s + of_nat i \<noteq> z_pc s + 1"
  shows "\<exists>t. z80_execute_many io n s = Some t \<and> z80_running t
    \<and> peek (z_bus t) = block_copy (\<lambda>a. a + 1) ram n (z80_hl s) (z80_de s) (peek (z_bus s))
    \<and> z80_hl t = z80_hl s + of_nat n \<and> z80_de t = z80_de s + of_nat n \<and> z80_bc t = 0
    \<and> z_pc t = z_pc s + 2
    \<and> z_cycles_remaining t = z_cycles_remaining s - (21 * int n - 5)"
  using assms
proof (induction n arbitrary: s)
  case 0
  then show ?case by simp
next
  case (Suc n)
  obtain u where u: "z80_execute_one io s = Some u" "z80_running u"
      "z80_hl u = z80_hl s + 1" "z80_de u = z80_de s + 1" "z80_bc u = z80_bc s - 1"
      "peek (z_bus u) = (if z80_de s \<in> ram
        then (peek (z_bus s))(z80_de s := peek (z_bus s) (z80_hl s)) else peek (z_bus s))"
      "z_pc u = (if z80_bc s = 1 then z_pc s + 2 else z_pc s)"
      "z_cycles_remaining u = z_cycles_remaining s - (if z80_bc s = 1 then 16 else 21)"
    using ldir_step [OF Suc.prems(1-3)] by blast
  have one: "z80_bc s = 1 \<longleftrightarrow> n = 0"
    using count_is_one [of "Suc n"] Suc.prems(5,6) by auto
  show ?case
  proof (cases "n = 0")
    case True
    with u one Suc.prems(6) show ?thesis by simp
  next
    case False
    have keep: "z80_de s \<in> ram \<Longrightarrow> z80_de s \<noteq> z_pc s \<and> z80_de s \<noteq> z_pc s + 1"
      using Suc.prems(7) [of 0] by simp
    have "\<exists>t. z80_execute_many io n u = Some t \<and> z80_running t
      \<and> peek (z_bus t) = block_copy (\<lambda>a. a + 1) ram n (z80_hl u) (z80_de u) (peek (z_bus u))
      \<and> z80_hl t = z80_hl u + of_nat n \<and> z80_de t = z80_de u + of_nat n \<and> z80_bc t = 0
      \<and> z_pc t = z_pc u + 2
      \<and> z_cycles_remaining t = z_cycles_remaining u - (21 * int n - 5)"
    proof (rule Suc.IH)
      show "z80_running u" "0 < n" "n \<le> 65536" using u(2) False Suc.prems(5) by auto
      show "peek (z_bus u) (z_pc u) = 0xED" "peek (z_bus u) (z_pc u + 1) = 0xB0"
        using u(6,7) one False Suc.prems(2,3) keep by auto
      show "z80_bc u = of_nat n" using u(5) Suc.prems(6) by simp
      show "z80_de u + of_nat i \<noteq> z_pc u \<and> z80_de u + of_nat i \<noteq> z_pc u + 1"
        if "i < n" "z80_de u + of_nat i \<in> ram" for i
        using Suc.prems(7) [of "Suc i"] that u(4,7) one False by (simp add: algebra_simps)
    qed
    with u one False show ?thesis by (auto simp: algebra_simps)
  qed
qed

end

text \<open>
  What no program can change. The locale \<open>framed_bus\<close> is a bus with a part, its \<open>view\<close>,
  that none of the calls of the core touches; the first section follows the core
  instruction by instruction and shows that running it leaves the view alone. The locale
  \<open>rom_bus\<close> is a memory with read-only bytes, whose view is the contents of the ROM.
  Together with the exact condition for an instruction to return this gives the
  termination of \<open>run_for\<close>: one byte of ROM that is no index prefix is enough.
\<close>

section \<open>The part of a bus that the core does not touch\<close>

locale framed_bus =
  fixes io :: "'b bus_ops"
    and view :: "'b \<Rightarrow> 'v"
  assumes read_view: "view (snd (bus_read_byte io (ucast (a :: u16)) b)) = view b"
    and fetch_view: "view (snd (bus_fetch_opcode_byte io (ucast (a :: u16)) b)) = view b"
    and write_view: "view (bus_write_byte io (ucast (a :: u16)) v b) = view b"
    and io_read_view: "view (snd (bus_io_read_byte io p b)) = view b"
    and io_write_view: "view (bus_io_write_byte io p v b) = view b"
    and acknowledge_view: "view (snd (bus_acknowledge_irq io b)) = view b"
      "view (bus_acknowledge_nmi io b) = view b" "view (bus_notify_reti io b) = view b"
    and clock_view: "view (bus_set_current_cycle io c b) = view b"
      "view (snd (bus_drain_wait_cycles io b)) = view b"
      "view (bus_on_instruction_end io b) = view b"
begin

lemmas view_laws = read_view fetch_view write_view io_read_view io_write_view acknowledge_view
  clock_view

lemma access_view:
  "view (z_bus (z80_clk n s)) = view (z_bus s)"
  "view (z_bus (snd (z80_read_byte io a s))) = view (z_bus s)"
  "view (z_bus (z80_write_byte io a v s)) = view (z_bus s)"
  "view (z_bus (snd (z80_fetch_u8 io s))) = view (z_bus s)"
  "view (z_bus (snd (z80_fetch_m1 io s))) = view (z_bus s)"
  "view (z_bus (snd (z80_read_port io w s))) = view (z_bus s)"
  "view (z_bus (z80_write_port io w v s)) = view (z_bus s)"
  "view (z_bus (z80_set_q_latch c s)) = view (z_bus s)"
  "view (z_bus (z80_finish_q s)) = view (z_bus s)"
  "view (z_bus (z80_increment_r s)) = view (z_bus s)"
  by (simp_all add: access_defs z80_fetch_m1_def z80_increment_r_def case_prod_unfold Let_def view_laws)

lemma stack_view:
  "view (z_bus (snd (z80_fetch_u16 io s))) = view (z_bus s)"
  "view (z_bus (z80_push io w s)) = view (z_bus s)"
  "view (z_bus (snd (z80_pop io s))) = view (z_bus s)"
  by (simp_all add: z80_fetch_u16_def z80_push_def z80_pop_def Let_def case_prod_unfold access_view)

lemma selector_view:
  "view (z_bus (z80_set_current_hl m w s)) = view (z_bus s)"
  "view (z_bus (z80_write_pair k m w s)) = view (z_bus s)"
  "view (z_bus (z80_write_pair2 k m w s)) = view (z_bus s)"
  "view (z_bus (z80_write_reg8_plain k m v s)) = view (z_bus s)"
  "view (z_bus (z80_exchange_de_with_hl m s)) = view (z_bus s)"
  "view (z_bus (z80_exchange_af s)) = view (z_bus s)"
  "view (z_bus (z80_exchange_shadow s)) = view (z_bus s)"
  "view (z_bus (z80_set_bc w s)) = view (z_bus s)" "view (z_bus (z80_set_de w s)) = view (z_bus s)"
  "view (z_bus (z80_set_hl w s)) = view (z_bus s)" "view (z_bus (z80_set_r v s)) = view (z_bus s)"
  by (cases m; simp add: selector_defs z80_pair_defs z80_set_r_def Let_def)+

lemmas alu_view = z80_set_but_flags [THEN but_flags_registers(13), THEN arg_cong [where f = view]]
  z80_alu_but_flags [THEN but_flags_registers(13), THEN arg_cong [where f = view]]
  rotate_op_frame [THEN but_flags_registers(13), THEN arg_cong [where f = view]]

lemmas view_simps = access_view stack_view selector_view alu_view view_laws

lemma single_view:
  "view (z_bus (z80_add_hl_rr m k s)) = view (z_bus s)" "view (z_bus (z80_daa s)) = view (z_bus s)"
  "view (z_bus (z80_rotate_a_left_circular s)) = view (z_bus s)"
  "view (z_bus (z80_rotate_a_right_circular s)) = view (z_bus s)"
  "view (z_bus (z80_rotate_a_left_through_carry s)) = view (z_bus s)"
  "view (z_bus (z80_rotate_a_right_through_carry s)) = view (z_bus s)"
  "view (z_bus (z80_cpl s)) = view (z_bus s)" "view (z_bus (z80_scf x s)) = view (z_bus s)"
  "view (z_bus (z80_ccf x s)) = view (z_bus s)" "view (z_bus (z80_jump_relative v s)) = view (z_bus s)"
  by (simp_all add: single_defs Let_def view_simps)

lemma group_view:
  "view (z_bus (z80_accumulator_op k v s)) = view (z_bus s)"
  "view (z_bus (z80_base_relative_jumps io k s)) = view (z_bus s)"
  "view (z_bus (z80_base_load_pair io q p m s)) = view (z_bus s)"
  "view (z_bus (z80_base_indirect io q p m s)) = view (z_bus s)"
  "view (z_bus (z80_base_inc_dec_pair q p m s)) = view (z_bus s)"
  "view (z_bus (z80_base_accumulator_misc k x s)) = view (z_bus s)"
  "view (z_bus (z80_base_ret_conditional io k s)) = view (z_bus s)"
  "view (z_bus (z80_base_pop_group io q p m s)) = view (z_bus s)"
  "view (z_bus (z80_base_jump_conditional io k s)) = view (z_bus s)"
  "view (z_bus (z80_base_call_conditional io k s)) = view (z_bus s)"
  "view (z_bus (z80_base_rst io k s)) = view (z_bus s)"
  by (simp_all add: group_defs Let_def case_prod_unfold view_simps single_view)

lemma immediate_view: "view (z_bus (z80_base_accumulator_immediate io k s)) = view (z_bus s)"
  by (simp add: z80_base_accumulator_immediate_def Let_def case_prod_unfold view_simps group_view)

text \<open>The operations that may panic, through the operand selectors.\<close>

lemma operand_view:
  "view (z_bus (snd (z80_indexed_address_if io c m s))) = view (z_bus s)"
  "z80_read_reg8_or_mem io r m a s = Some (v, t) \<Longrightarrow> view (z_bus t) = view (z_bus s)"
  "z80_write_reg8_or_mem io r m a w s = Some t \<Longrightarrow> view (z_bus t) = view (z_bus s)"
  by (auto simp: z80_indexed_address_if_def z80_fetch_indexed_addr_def z80_read_reg8_or_mem_def
      z80_write_reg8_or_mem_def Let_def case_prod_unfold bind_eq_Some_conv view_simps
      dest: arg_cong [where f = "\<lambda>p. view (z_bus (snd p))"] split: if_splits index_mode.splits)

lemmas base_view_defs = z80_base_inc_dec_def z80_base_load_immediate_def z80_base_x1_def
  z80_base_x2_def z80_base_push_group_def z80_base_x3_z3_def

lemma base_group_view:
  "z80_base_inc_dec io z80_inc8 k m s = Some t \<Longrightarrow> view (z_bus t) = view (z_bus s)"
  "z80_base_inc_dec io z80_dec8 k m s = Some t \<Longrightarrow> view (z_bus t) = view (z_bus s)"
  "z80_base_load_immediate io k m s = Some t \<Longrightarrow> view (z_bus t) = view (z_bus s)"
  "z80_base_x1 io y z m s = Some t \<Longrightarrow> view (z_bus t) = view (z_bus s)"
  "z80_base_x2 io y z m s = Some t \<Longrightarrow> view (z_bus t) = view (z_bus s)"
  "z80_base_push_group io q p m s = Some t \<Longrightarrow> view (z_bus t) = view (z_bus s)"
  "z80_base_x3_z3 io y m s = Some t \<Longrightarrow> view (z_bus t) = view (z_bus s)"
  by (auto simp: base_view_defs Let_def case_prod_unfold bind_eq_Some_conv view_simps group_view
      operand_view(1) dest!: operand_view(2,3) split: if_splits)

lemma base_view:
  assumes "z80_execute_base io opcode m x s = Some t"
  shows "view (z_bus t) = view (z_bus s)"
  using assms unfolding z80_execute_base_def z80_base_x0_def z80_base_x3_def Let_def
  by (elim decoded_cases) (auto simp: group_view immediate_view dest: base_group_view)

lemma cb_view: "z80_execute_cb io opcode s = Some t \<Longrightarrow> view (z_bus t) = view (z_bus s)"
  by (auto simp: z80_execute_cb_def Let_def case_prod_unfold bind_eq_Some_conv view_simps
      dest!: operand_view(2,3) split: if_split_asm)

lemma cb_indexed_view: "view (z_bus (z80_execute_cb_indexed io opcode address s)) = view (z_bus s)"
  by (simp add: z80_execute_cb_indexed_def z80_write_indexed_result_def Let_def case_prod_unfold
      view_simps)

lemma block_view:
  "view (z_bus (z80_block_load io d s)) = view (z_bus s)"
  "view (z_bus (z80_block_compare io d s)) = view (z_bus s)"
  "view (z_bus (z80_block_load_repeat io d s)) = view (z_bus s)"
  "view (z_bus (z80_block_compare_repeat io d s)) = view (z_bus s)"
  "view (z_bus (z80_block_in_step io d rep s)) = view (z_bus s)"
  "view (z_bus (z80_block_out_step io d rep s)) = view (z_bus s)"
  by (simp_all add: block_defs Let_def case_prod_unfold view_simps)

lemma ed_group_view:
  "view (z_bus (z80_ed_in io y s)) = view (z_bus s)" "view (z_bus (z80_adc_hl_rr k s)) = view (z_bus s)"
  "view (z_bus (z80_sbc_hl_rr k s)) = view (z_bus s)"
  "view (z_bus (z80_ed_store_pair io k s)) = view (z_bus s)"
  "view (z_bus (z80_ed_load_pair io k s)) = view (z_bus s)" "view (z_bus (z80_ed_neg s)) = view (z_bus s)"
  "view (z_bus (z80_ed_return io y s)) = view (z_bus s)" "view (z_bus (z80_ed_misc io y s)) = view (z_bus s)"
  "view (z_bus (z80_ed_interrupt_mode y s)) = view (z_bus s)"
  "view (z_bus (z80_ed_block io y z s)) = view (z_bus s)"
  by (simp_all add: z80_ed_in_def z80_in_flags_def z80_adc_hl_rr_def z80_sbc_hl_rr_def
      z80_ed_store_pair_def z80_ed_load_pair_def z80_ed_neg_def z80_ed_return_def
      z80_ed_digit_rotate_def z80_ed_misc_def z80_ld_a_i_or_r_def z80_ed_interrupt_mode_def
      z80_ed_block_def block_view Let_def case_prod_unfold view_simps)

lemma ed_view:
  assumes "z80_execute_ed io opcode s = Some t"
  shows "view (z_bus t) = view (z_bus s)"
proof -
  have out: "z80_ed_out io y s = Some u \<Longrightarrow> view (z_bus u) = view (z_bus s)" for y u
    by (auto simp: z80_ed_out_def Let_def bind_eq_Some_conv view_simps)
  from assms show ?thesis
    unfolding z80_execute_ed_def Let_def
    by (elim decoded_cases) (auto simp: ed_group_view view_simps dest: out)
qed

lemma dispatch_view:
  assumes "z80_dispatch io opcode m x s = Some t"
  shows "view (z_bus t) = view (z_bus s)"
  using assms unfolding z80_dispatch_def Let_def case_prod_unfold
  by (elim decoded_cases)
    (auto simp: cb_indexed_view view_simps dest!: cb_view ed_view base_view)

lemma instruction_view:
  assumes "z80_execute_instruction io s = Some t"
  shows "view (z_bus t) = view (z_bus s)"
proof -
  have fetches: "view (z_bus (((\<lambda>s. snd (z80_fetch_m1 io s)) ^^ n) u)) = view (z_bus u)" for n u
    by (induction n) (simp_all add: view_simps)
  from assms obtain op m x u v
    where skip: "z80_skip_prefixes io (fst (z80_fetch_m1 io (z80_set_q_latch False (s\<lparr>z_p := 0\<rparr>))))
        HL False (snd (z80_fetch_m1 io (z80_set_q_latch False (s\<lparr>z_p := 0\<rparr>)))) = Some (op, m, x, u)"
      and run: "z80_dispatch io op m x u = Some v" "t = z80_finish_q v"
    by (auto simp: z80_execute_instruction_def Let_def case_prod_unfold bind_eq_Some_conv)
  have "view (z_bus u) = view (z_bus s)"
    using skip_prefixes_iterate [OF skip] by (auto simp: fetches view_simps)
  with run dispatch_view [OF run(1)] show ?thesis by (simp add: view_simps)
qed

lemma interrupt_view:
  assumes "z80_check_interrupts io s = Some t"
  shows "view (z_bus t) = view (z_bus s)"
proof -
  have nmi: "view (z_bus (z80_service_nmi io s)) = view (z_bus s)"
    by (simp add: z80_service_nmi_def Let_def view_simps)
  have transfer: "z80_irq_transfer io v u = Some w \<Longrightarrow> view (z_bus w) = view (z_bus u)" for v u w
    by (auto simp: z80_irq_transfer_def z80_execute_im0_opcode_def Let_def case_prod_unfold
        view_simps dest!: base_view split: if_split_asm)
  have irq: "z80_service_irq io s = Some u \<Longrightarrow> view (z_bus u) = view (z_bus s)" for u
    by (auto simp: z80_service_irq_def Let_def case_prod_unfold bind_eq_Some_conv view_simps
        dest!: transfer)
  from assms show ?thesis
    by (auto simp: z80_check_interrupts_def nmi dest: irq split: if_split_asm)
qed

lemma execute_one_view:
  assumes "z80_execute_one io s = Some t"
  shows "view (z_bus t) = view (z_bus s)"
  using assms
  by (auto simp: z80_execute_one_def Let_def bind_eq_Some_conv view_simps
      dest!: instruction_view interrupt_view split: if_split_asm)

lemma run_body_view:
  assumes "z80_run_body io budget start s = Some (stop, t)"
  shows "view (z_bus t) = view (z_bus s)"
proof -
  have same: "view (z_bus (z80_sample_nmi io u)) = view (z_bus u)"
    "view (z_bus (z80_latch_irq b u)) = view (z_bus u)"
    "view (z_bus (z80_sample_halted io u)) = view (z_bus u)"
    "view (z_bus (z80_after_instruction io c u)) = view (z_bus u)" for u b c
    by (simp_all add: z80_sample_nmi_def z80_latch_irq_def z80_sample_halted_def
        z80_after_instruction_def z80_drain_wait_def z80_set_bus_cycle_def Let_def case_prod_unfold
        view_simps)
  from assms show ?thesis
    by (auto simp: run_body_split bind_eq_Some_conv Let_def same dest!: execute_one_view)
qed

lemma run_loop_view:
  assumes "z80_run_loop io budget start s = Some t"
  shows "view (z_bus t) = view (z_bus s)"
proof -
  have "io = io \<longrightarrow> view (z_bus t) = view (z_bus s)"
  proof (rule z80_run_loop.raw_induct [where P = "\<lambda>io' budget start s t. io' = io \<longrightarrow>
      view (z_bus t) = view (z_bus s)", rotated, OF assms])
    fix f and io' :: "'b bus_ops" and budget start s t
    assume IH: "\<And>io' budget start s t. f io' budget start s = Some t \<Longrightarrow> io' = io \<longrightarrow>
        view (z_bus t) = view (z_bus s)"
      and body: "(if 0 < z_cycles_remaining s then
          z80_run_body io' budget start s \<bind>
            (\<lambda>(stop, s). if stop then Some s else f io' budget start s) else Some s) = Some t"
    show "io' = io \<longrightarrow> view (z_bus t) = view (z_bus s)"
      using body run_body_view IH
      by (fastforce simp: bind_eq_Some_conv split: if_split_asm)
  qed
  then show ?thesis by simp
qed

lemma run_for_view:
  assumes "z80_run_for io cycles s = Some (k, t)"
  shows "view (z_bus t) = view (z_bus s)"
  using assms
  by (auto simp: z80_run_for_def Let_def bind_eq_Some_conv z80_set_bus_cycle_def view_simps
      dest!: run_loop_view)

end

section \<open>Read-only memory and termination\<close>

text \<open>
  With one byte of ROM that is no prefix, and no prefix byte as an interrupt vector,
  every instruction returns, and so does \<open>run_for\<close>, for every number of clocks.
\<close>

locale rom_bus = memory_bus io peek ram + framed_bus io rom
  for io :: "'b bus_ops" and peek :: "'b \<Rightarrow> u16 \<Rightarrow> u8" and ram :: "u16 set"
    and rom :: "'b \<Rightarrow> u16 \<Rightarrow> u8 option" +
  assumes rom_byte: "rom b a = (if a \<in> ram then None else Some (peek b a))"
begin

lemma execute_one_returns:
  assumes byte: "rom (z_bus s) a = Some v" "v \<noteq> 0xDD" "v \<noteq> 0xFD"
    and vector: "\<And>b. fst (bus_acknowledge_irq io b) \<notin> {0xCB, 0xDD, 0xED, 0xFD}"
  shows "z80_execute_one io s \<noteq> None"
proof -
  have peek: "peek (z_bus u) a = v" if "rom (z_bus u) = rom (z_bus s)" for u :: "'b z80"
    using byte(1) that rom_byte [of "z_bus u" a] by (simp split: if_split_asm)
  have "z80_irq_transfer io (fst (bus_acknowledge_irq io b)) u \<noteq> None" for b u
    using vector [of b]
    by (auto simp: z80_irq_transfer_def z80_execute_im0_opcode_def Let_def case_prod_unfold base_panics
        simp del: not_None_eq)
  then have "z80_service_irq io s \<noteq> None"
    by (simp add: z80_service_irq_def Let_def case_prod_unfold bind_eq_None_conv del: not_None_eq)
  then have irq: "z80_check_interrupts io s \<noteq> None" by (simp add: z80_check_interrupts_def)
  have "z80_execute_instruction io (u\<lparr>z_ei := 0\<rparr>) \<noteq> None" if "rom (z_bus u) = rom (z_bus s)" for u
    using peek [OF that] byte(2,3) by (auto simp: instruction_returns simp del: not_None_eq)
  with irq interrupt_view show ?thesis
    by (auto simp: z80_execute_one_def Let_def bind_eq_None_conv simp del: not_None_eq)
qed

lemma run_for_returns:
  assumes waits: "\<And>b. 0 \<le> fst (bus_drain_wait_cycles io b)"
    and vector: "\<And>b. fst (bus_acknowledge_irq io b) \<notin> {0xCB, 0xDD, 0xED, 0xFD}"
    and byte: "rom (z_bus s) a = Some v" "v \<noteq> 0xDD" "v \<noteq> 0xFD"
  shows "\<exists>t. z80_run_for io cycles s = Some (word_of_int (sint cycles - z_cycles_remaining t), t)
    \<and> rom (z_bus t) = rom (z_bus s)
    \<and> (z_cycles_remaining t \<le> 0 \<or> (\<exists>b. bus_reset_pending io b \<or> bus_cpu_should_yield io b))"
proof -
  let ?start = "bus_current_cycle io (z_bus s)"
  let ?I = "\<lambda>u. rom (z_bus u) = rom (z_bus s)"
  have "\<exists>stop t. z80_run_body io (sint cycles) ?start u = Some (stop, t) \<and> ?I t" if "?I u" for u
  proof -
    have "rom (z_bus (z80_sample_halted io u)) = rom (z_bus s)"
      using that by (simp add: z80_sample_halted_def z80_sample_nmi_def z80_latch_irq_def Let_def)
    then have "z80_execute_one io (z80_sample_halted io u) \<noteq> None"
      using execute_one_returns [OF _ byte(2,3) vector] byte(1) by simp
    then obtain stop t where "z80_run_body io (sint cycles) ?start u = Some (stop, t)"
      by (auto simp: run_body_split Let_def)
    with run_body_view [OF this] that show ?thesis by auto
  qed
  then obtain t where t: "z80_run_loop io (sint cycles) ?start (s\<lparr>z_cycles_remaining := sint cycles\<rparr>) = Some t"
    "?I t" "z_cycles_remaining t \<le> 0 \<or> bus_reset_pending io (z_bus t) \<or> bus_cpu_should_yield io (z_bus t)"
    using run_loop_returns [OF waits, of ?I "sint cycles" ?start "s\<lparr>z_cycles_remaining := sint cycles\<rparr>"]
    by auto
  then have "z80_run_for io cycles s = Some (word_of_int (sint cycles - z_cycles_remaining t),
      z80_set_bus_cycle io (?start + word_of_int (sint cycles - z_cycles_remaining t)) t)"
    by (simp add: z80_run_for_def Let_def)
  with t show ?thesis
    by (intro exI [of _ "z80_set_bus_cycle io (?start + word_of_int (sint cycles - z_cycles_remaining t)) t"])
      (auto simp: z80_set_bus_cycle_def view_simps)
qed

end

end
