(* ===== verification/Pc88_Disk.thy ===== *)
theory Pc88_Disk
  imports Pc80s31k Z80_Memory
begin

text \<open>
  The disk sub-processor of the PC-8801: a Z80 on the bus that \<open>SubBusView\<close> in
  \<open>crates/machine_88/src/bus.rs\<close> implements, with the ports of \<open>bus/sub_io_read.rs\<close> and
  \<open>bus/sub_io_write.rs\<close>, and the conversion of main clocks to sub clocks in
  \<open>run_sub_for_main_cycles\<close> (\<open>machine_88/src/machine.rs\<close>). Tracing is compiled out
  (\<open>T::ENABLED\<close> is false), so a view is never asked to yield.

  The floppy controller behind ports FA and FB, with the drives and the event scheduler it
  works with, is a component of its own (\<open>bus/sub_fdc.rs\<close>, \<open>device/src/upd765a_fdc.rs\<close>)
  and a state \<open>'f\<close> here. The bus reaches it through the operations of \<open>fdc_ops\<close>, which are
  an argument; of the bus they read the main clock and the drive mode latch only.
\<close>

section \<open>The bus of the disk unit\<close>

record 'f pc88_disk =
  d_memory :: pc80s31k_memory
  d_link :: ppi_link
  d_fdc :: 'f
  d_drive_mode :: u8
  d_motor_on :: u8
  d_sub_cycle :: u64
  d_current_cycle :: u64
  d_resync_until :: u64
  d_sub_to_main_shift :: nat
  d_sub_clock_credit :: u64

record 'f fdc_ops =
  fdc_read_status :: "'f \<Rightarrow> u8"
  fdc_read_data :: "u64 \<Rightarrow> 'f \<Rightarrow> u8 \<times> 'f"
  fdc_write_data :: "u64 \<Rightarrow> u8 \<Rightarrow> u8 \<Rightarrow> 'f \<Rightarrow> 'f"
  fdc_terminal_count :: "u64 \<Rightarrow> 'f \<Rightarrow> 'f"
  fdc_force_ready :: "'f \<Rightarrow> 'f"
  fdc_interrupt :: "'f \<Rightarrow> bool"

definition SYNC_SLICE :: u64 where "SYNC_SLICE = 4"
definition SUB_OPEN_BUS :: u8 where "SUB_OPEN_BUS = 0xFF"

definition pc88_arm_ppi_resync :: "'f pc88_disk \<Rightarrow> 'f pc88_disk" where
  "pc88_arm_ppi_resync s = s\<lparr>d_resync_until := d_current_cycle s + SYNC_SLICE\<rparr>"

definition pc88_sub_io_read :: "'f fdc_ops \<Rightarrow> u16 \<Rightarrow> 'f pc88_disk \<Rightarrow> (u8 \<times> bool) \<times> 'f pc88_disk" where
  "pc88_sub_io_read fdc port s =
     (let p = port AND 0xFF in
      if p = 0xF0 then ((0x00, True), s)
      else if p = 0xF8 then 
        ((0x00, True), s\<lparr>d_fdc := fdc_terminal_count fdc (d_current_cycle s) (d_fdc s)\<rparr>)
      else if p = 0xFA then ((fdc_read_status fdc (d_fdc s), True), s)
      else if p = 0xFB then 
        (let (value, f) = fdc_read_data fdc (d_current_cycle s) (d_fdc s)
         in ((value, True), s\<lparr>d_fdc := f\<rparr>))
      else if 0xFC \<le> p \<and> p \<le> 0xFF then
        ((ppi_link_read_sub (ucast (port AND 0x03)) (d_link s), True), s)
      else ((SUB_OPEN_BUS, False), s))"

definition pc88_sub_io_write :: "'f fdc_ops \<Rightarrow> u16 \<Rightarrow> u8 \<Rightarrow> 'f pc88_disk \<Rightarrow> bool \<times> 'f pc88_disk" where
  "pc88_sub_io_write fdc port value s =
     (let p = port AND 0xFF in
      if p = 0xF0 then (True, s)
      else if p = 0xF4 then (True, s\<lparr>d_drive_mode := value\<rparr>)
      else if p = 0xF7 then (True, s)
      else if p = 0xF8 then
        (True, s\<lparr>d_motor_on := value, d_fdc := fdc_force_ready fdc (d_fdc s)\<rparr>)
      else if p = 0xFB then 
        (True, s\<lparr>d_fdc := fdc_write_data fdc (d_current_cycle s) (d_drive_mode s) value (d_fdc s)\<rparr>)
      else if p = 0xFC then (True, s\<lparr>d_link := snd (ppi_link_write_sub 0 value (d_link s))\<rparr>)
      else if p = 0xFD then (True, s\<lparr>d_link := snd (ppi_link_write_sub 1 value (d_link s))\<rparr>)
      else if p = 0xFE \<or> p = 0xFF then
        (let (handshake, link) = ppi_link_write_sub (ucast (port AND 0x03)) value (d_link s);
             s = s\<lparr>d_link := link\<rparr>
         in (True, if handshake then pc88_arm_ppi_resync s else s))
      else (False, s))"

text \<open>\<open>SubBusView\<close>: the trait's methods; those it does not define are the defaults.\<close>

definition pc88_sub_bus :: "'f fdc_ops \<Rightarrow> 'f pc88_disk bus_ops" where
  "pc88_sub_bus fdc =
     (bus_with_defaults
        (\<lambda>address s. (pc80s31k_read (ucast address) (d_memory s), s))
        (\<lambda>address value s. s\<lparr>d_memory := pc80s31k_write (ucast address) value (d_memory s)\<rparr>)
        (\<lambda>port s. let ((value, _), s) = pc88_sub_io_read fdc port s in (value, s))
        (\<lambda>port value s. snd (pc88_sub_io_write fdc port value s))
        (\<lambda>s. fdc_interrupt fdc (d_fdc s))
        (\<lambda>s. (0x00, s))
        (\<lambda>_. False)
        (\<lambda>s. s)
        d_sub_cycle
        (\<lambda>cycle s. s\<lparr>d_sub_cycle := cycle\<rparr>))
     \<lparr> bus_fetch_opcode_byte := (\<lambda>address s. (pc80s31k_read (ucast address) (d_memory s), s)),
       bus_drain_wait_cycles := (\<lambda>s. (0, s)) \<rparr>"

section \<open>Its memory\<close>

definition pc88_sub_ram :: "u16 set" where
  "pc88_sub_ram = {a. 0x4000 \<le> a \<and> a < 0x8000}"

definition pc88_sub_peek :: "'f pc88_disk \<Rightarrow> u16 \<Rightarrow> u8" where
  "pc88_sub_peek s address = pc80s31k_read address (d_memory s)"

lemma ucast_up_down [simp]: "ucast (ucast (a :: u16) :: u32) = a"
  by (rule bit_word_eqI) (simp add: bit_ucast_iff)

definition pc88_sub_rom :: "'f pc88_disk \<Rightarrow> u16 \<Rightarrow> u8 option" where
  "pc88_sub_rom s a = (if a \<in> pc88_sub_ram then None else Some (pc88_sub_peek s a))"

lemmas pc88_bus_defs = pc88_sub_bus_def bus_with_defaults_def pc88_sub_peek_def pc80s31k_read_def
  pc80s31k_write_def pc88_sub_ram_def

lemma io_keeps_memory:
  "d_memory (snd (pc88_sub_io_read fdc port s)) = d_memory s"
  "d_memory (snd (pc88_sub_io_write fdc port v s)) = d_memory s"
  by (simp_all add: pc88_sub_io_read_def pc88_sub_io_write_def pc88_arm_ppi_resync_def Let_def
      case_prod_unfold)

interpretation pc88_memory: memory_bus "pc88_sub_bus fdc" pc88_sub_peek pc88_sub_ram
  by unfold_locales (auto simp: pc88_bus_defs)

interpretation pc88_rom: rom_bus "pc88_sub_bus fdc" pc88_sub_peek pc88_sub_ram pc88_sub_rom
  by unfold_locales
    (auto simp: pc88_bus_defs pc88_sub_rom_def case_prod_unfold Let_def io_keeps_memory fun_eq_iff)

interpretation pc88_credit: framed_bus "pc88_sub_bus fdc" d_sub_clock_credit
  by unfold_locales
    (auto simp: pc88_bus_defs pc88_sub_io_read_def pc88_sub_io_write_def pc88_arm_ppi_resync_def
      Let_def case_prod_unfold)

section \<open>Clocking the sub-processor\<close>

text \<open>
  \<open>run_sub_for_main_cycles\<close>: the elapsed main clocks and the credit carried over make a
  whole number of sub clocks, for which the core runs.
\<close>

definition pc88_run_sub_for_main_cycles ::
  "'f fdc_ops \<Rightarrow> u64 \<Rightarrow> 'f pc88_disk z80 \<Rightarrow> 'f pc88_disk z80 option" where
  "pc88_run_sub_for_main_cycles fdc main_cycles s =
     (let shift = d_sub_to_main_shift (z_bus s);
          available_cycles = main_cycles + d_sub_clock_credit (z_bus s);
          sub_cycles = drop_bit shift available_cycles;
          credit = available_cycles - push_bit shift sub_cycles;
          s = s\<lparr>z_bus := (z_bus s)\<lparr>d_sub_clock_credit := credit\<rparr>\<rparr>
      in if sub_cycles = 0 then Some s
         else map_option snd (z80_run_for (pc88_sub_bus fdc) sub_cycles s))"

end
