(* ===== verification/Z80_Properties.thy ===== *)
theory Z80_Properties
  imports Z80_Arith16 Pc88_Disk
begin

text \<open>
  The properties of the Z80 core and of the disk unit that runs on it, each with a
  concrete instance. The instances use a disk unit without a floppy controller
  (\<open>fdc_absent\<close>) and memory images given as functions.
\<close>

definition fdc_absent :: "unit fdc_ops" where
  "fdc_absent =
   \<lparr> fdc_read_status = (\<lambda>_. 0x80), fdc_read_data = (\<lambda>_ f. (0xFF, f)),
     fdc_write_data = (\<lambda>_ _ _ f. f), fdc_terminal_count = (\<lambda>_ f. f),
     fdc_force_ready = (\<lambda>f. f), fdc_interrupt = (\<lambda>_. False) \<rparr>"

definition disk_with_memory :: "pc80s31k_memory \<Rightarrow> unit pc88_disk" where
  "disk_with_memory memory =
   \<lparr> d_memory = memory, d_link = ppi_link_new, d_fdc = (), d_drive_mode = 0, d_motor_on = 0,
     d_sub_cycle = 0, d_current_cycle = 0, d_resync_until = 0, d_sub_to_main_shift = 0,
     d_sub_clock_credit = 0 \<rparr>"

definition cpu_with_memory :: "pc80s31k_memory \<Rightarrow> unit pc88_disk z80" where
  "cpu_with_memory memory = z80_new 4000000 (disk_with_memory memory)"

lemma cpu_with_memory_registers:
  "z_pc (cpu_with_memory m) = 0" "z_halted (cpu_with_memory m) = False"
  "z_pending_irq (cpu_with_memory m) = 0" "z_bus (cpu_with_memory m) = disk_with_memory m"
  "z_sp (cpu_with_memory m) = 0" "z_im (cpu_with_memory m) = 0" "z_ei (cpu_with_memory m) = 0"
  "d_memory (disk_with_memory m) = m"
  by (simp_all add: cpu_with_memory_def z80_new_def z80_reset_def z80_state_default_def
      z80_state.defs z80.defs disk_with_memory_def)

lemma cpu_with_memory_valid: "z80_validate_state (cpu_with_memory m) = Inr ()"
  by (simp add: cpu_with_memory_def z80_new_def z80_reset_def z80_state_default_def
      z80_state.defs z80.defs z80_validate_state_def)

lemma pc88_bus_calm:
  "0 \<le> fst (bus_drain_wait_cycles (pc88_sub_bus fdc) b)"
  "fst (bus_acknowledge_irq (pc88_sub_bus fdc) b) = 0"
  "bus_reset_pending (pc88_sub_bus fdc) b = False" "bus_cpu_should_yield (pc88_sub_bus fdc) b = False"
  "bus_current_cycle (pc88_sub_bus fdc) b = d_sub_cycle b"
  "bus_set_current_cycle (pc88_sub_bus fdc) c b = b\<lparr>d_sub_cycle := c\<rparr>"
  by (simp_all add: pc88_sub_bus_def bus_with_defaults_def)

lemma capture_valid: "z80_validate_state (z80_capture_state s) = z80_validate_state s"
  by (simp add: z80_capture_state_def z80_state.defs z80_validate_state_def)

lemma run_for_valid:
  assumes "\<And>b. 0 \<le> fst (bus_drain_wait_cycles io b)"
    and "z80_validate_state s = Inr ()" and "z80_run_for io cycles s = Some (k, t)"
  shows "z80_validate_state t = Inr ()"
proof -
  let ?s = "s\<lparr>z_cycles_remaining := sint cycles\<rparr>"
  obtain u where u: "z80_run_loop io (sint cycles) (bus_current_cycle io (z_bus s)) ?s = Some u"
    and t: "t = z80_set_bus_cycle io
      (bus_current_cycle io (z_bus s) + word_of_int (sint cycles - z_cycles_remaining u)) u"
    using assms(3) by (auto simp: z80_run_for_def Let_def bind_eq_Some_conv)
  have "z80_ctl_ok (z80_ctl ?s)" using assms(2) by (simp add: valid_ctl frame_simps)
  then have "z80_ctl_ok (z80_ctl u)" using run_loop_valid [OF assms(1) u] by simp
  then show ?thesis by (simp add: t valid_ctl z80_set_bus_cycle_def frame_simps)
qed

lemma disk_run_returns:
  assumes "a \<notin> pc88_sub_ram" "d_memory (z_bus s) a \<noteq> 0xDD" "d_memory (z_bus s) a \<noteq> 0xFD"
  shows "\<exists>t. z80_run_for (pc88_sub_bus fdc) cycles s
        = Some (word_of_int (sint cycles - z_cycles_remaining t), t)
    \<and> pc88_sub_rom (z_bus t) = pc88_sub_rom (z_bus s) \<and> z_cycles_remaining t \<le> 0"
proof -
  have "pc88_sub_rom (z_bus s) a = Some (d_memory (z_bus s) a)"
    using assms(1) by (simp add: pc88_sub_rom_def pc88_sub_peek_def pc80s31k_read_def)
  from pc88_rom.run_for_returns [OF pc88_bus_calm(1) _ this assms(2,3), of fdc cycles]
  show ?thesis by (simp add: pc88_bus_calm)
qed

text \<open>
  C3 State invariant. Whatever program runs, for however many clocks and with whatever
  interrupts, the state of the core stays one that \<open>validate_state\<close> accepts, and a state
  captured after the run is restored into any core unchanged.
\<close>

theorem z80_run_for_keeps_state_valid:
  assumes "\<And>b. 0 \<le> fst (bus_drain_wait_cycles io b)"
    and "z80_validate_state (z80_capture_state s) = Inr ()"
    and "z80_run_for io cycles s = Some (k, t)"
  shows "z80_validate_state (z80_capture_state t) = Inr ()
    \<and> fst (z80_restore_state (z80_capture_state t) u) = Inr ()
    \<and> z80_capture_state (snd (z80_restore_state (z80_capture_state t) u)) = z80_capture_state t"
proof -
  have "z80_validate_state (z80_capture_state t) = Inr ()"
    using run_for_valid [OF assms(1) _ assms(3)] assms(2) by (simp add: capture_valid)
  then show ?thesis
    using z80_target.restore_accepts [of "z80_capture_state t" u] by (simp add: z80_restore_state_def)
qed

theorem z80_run_for_keeps_state_valid_witness:
  "\<exists>k t. z80_run_for (pc88_sub_bus fdc_absent) 100 (cpu_with_memory (\<lambda>_. 0)) = Some (k, t)
     \<and> z80_validate_state (z80_capture_state t) = Inr ()"
proof -
  have "0 \<notin> pc88_sub_ram" by (simp add: pc88_sub_ram_def)
  from disk_run_returns [OF this, of "cpu_with_memory (\<lambda>_. 0)" fdc_absent 100]
  obtain k t where run: "z80_run_for (pc88_sub_bus fdc_absent) 100 (cpu_with_memory (\<lambda>_. 0)) = Some (k, t)"
    by (auto simp: cpu_with_memory_registers)
  with z80_run_for_keeps_state_valid [OF pc88_bus_calm(1) _ run, of "cpu_with_memory (\<lambda>_. 0)"]
  show ?thesis by (auto simp: capture_valid cpu_with_memory_valid)
qed

text \<open>
  C4 Termination of the disk processor. If one byte outside the writable window is no
  index prefix, as in every boot ROM, then \<open>run_for\<close> returns for every number of clocks:
  the whole budget is used up, the number returned is the clocks taken, and no byte
  outside the window has changed.
\<close>

theorem pc88_disk_run_for_returns:
  assumes "\<not> (0x4000 \<le> a \<and> a < 0x8000)" "d_memory (z_bus s) a \<noteq> 0xDD" "d_memory (z_bus s) a \<noteq> 0xFD"
  shows "\<exists>t. z80_run_for (pc88_sub_bus fdc) cycles s
        = Some (word_of_int (sint cycles - z_cycles_remaining t), t)
    \<and> z_cycles_remaining t \<le> 0
    \<and> (\<forall>b. \<not> (0x4000 \<le> b \<and> b < 0x8000) \<longrightarrow> d_memory (z_bus t) b = d_memory (z_bus s) b)"
proof -
  have same: "d_memory y b = d_memory x b"
    if "pc88_sub_rom x = pc88_sub_rom y" "\<not> (0x4000 \<le> b \<and> b < 0x8000)" for x y :: "'a pc88_disk" and b
    using fun_cong [OF that(1), of b] that(2)
    by (auto simp: pc88_sub_rom_def pc88_sub_ram_def pc88_sub_peek_def pc80s31k_read_def)
  have "a \<notin> pc88_sub_ram" using assms(1) by (auto simp: pc88_sub_ram_def)
  from disk_run_returns [OF this assms(2,3), of fdc cycles] show ?thesis
    using same by (metis (no_types, lifting))
qed

theorem pc88_disk_run_for_returns_witness:
  "\<exists>t. z80_run_for (pc88_sub_bus fdc_absent) 1000 (cpu_with_memory pc80s31k_memory_new)
        = Some (word_of_int (1000 - z_cycles_remaining t), t) \<and> z_cycles_remaining t \<le> 0"
proof -
  have "pc80s31k_memory_new 0 = 0x18" by (simp add: memory_new_below)
  then show ?thesis
    using pc88_disk_run_for_returns [of 0 "cpu_with_memory pc80s31k_memory_new" fdc_absent 1000]
    by (auto simp: cpu_with_memory_registers)
qed

end
