(* ===== verification/Z80_Instructions.thy ===== *)
theory Z80_Instructions
  imports Z80_Properties
begin

text \<open>
  What the instructions of the Z80 core mean, on the bus of the disk unit where memory is
  involved: 8-bit arithmetic, block copies, the stack, clocks, and interrupts.
\<close>

lemma cpu_with_memory_clock: "z_cycles_remaining (cpu_with_memory m) = 0"
  by (simp add: cpu_with_memory_def z80_new_def z80_reset_def z80_state_default_def
      z80_state.defs z80.defs)

section \<open>8-bit arithmetic\<close>

text \<open>
  Accumulator addition. ADD and ADC (the operations 0 and 1 of the accumulator group)
  leave the sum modulo 256 in A with the carry out in the carry flag; overflow is set
  exactly when the signed sum is not a byte, half carry when the low digits carry, sign,
  zero and the undocumented bits 3 and 5 describe A, and no other register changes.
\<close>

theorem z80_accumulator_add_meaning:
  fixes s :: "'b z80" and operand :: u8 and with_carry :: bool
  defines "t \<equiv> z80_accumulator_op (if with_carry then 1 else 0) operand s"
    and "c \<equiv> with_carry \<and> flags_carry (z_flags s)"
  shows "unat (z_a t) + 256 * of_bool (flags_carry (z_flags t)) = unat (z_a s) + unat operand + of_bool c
    \<and> (flags_parity_overflow (z_flags t) \<longleftrightarrow>
        \<not> (- 128 \<le> sint (z_a s) + sint operand + of_bool c \<and> sint (z_a s) + sint operand + of_bool c \<le> 127))
    \<and> (flags_half_carry (z_flags t) \<longleftrightarrow> 16 \<le> unat (z_a s) mod 16 + unat operand mod 16 + of_bool c)
    \<and> (flags_sign (z_flags t) \<longleftrightarrow> sint (z_a t) < 0) \<and> (flags_zero (z_flags t) \<longleftrightarrow> z_a t = 0)
    \<and> \<not> flags_subtract (z_flags t)
    \<and> (bit (z_flags t) 3 \<longleftrightarrow> bit (z_a t) 3) \<and> (bit (z_flags t) 5 \<longleftrightarrow> bit (z_a t) 5)
    \<and> z80_but_flags t = (z80_but_flags s)\<lparr>z_a := z_a t\<rparr>"
proof -
  let ?R = "z80_add8 (z_a s) operand c s"
  have t: "t = (snd ?R)\<lparr>z_a := fst ?R\<rparr>"
    by (simp add: t_def c_def z80_accumulator_op_def case_prod_unfold Let_def)
  have "z80_but_flags ((snd ?R)\<lparr>z_a := fst ?R\<rparr>) = (z80_but_flags (snd ?R))\<lparr>z_a := fst ?R\<rparr>"
    by (simp add: z80_but_flags_def)
  then show ?thesis using add8_arith [of "z_a s" operand c s] by (simp add: t)
qed

lemma sub8_difference: "fst (z80_sub8 l r False s) = l - r"
  by (simp add: z80_sub8_def Let_def u16_of_bool_def word_uint_eq_iff uint_word_ariths unsigned_ucast_eq
      take_bit_eq_mod mod_simps mod_mod_cancel)

lemma cp8_flags:
  fixes l r :: u8 and s :: "'b z80"
  defines "f \<equiv> z_flags (z80_cp8 l r s)" and "g \<equiv> z_flags (snd (z80_sub8 l r False s))"
  shows "flags_carry f = flags_carry g" "flags_parity_overflow f = flags_parity_overflow g"
    "flags_half_carry f = flags_half_carry g" "flags_sign f = flags_sign g"
    "flags_zero f = flags_zero g" "flags_subtract f"
    "bit f 3 = bit r 3" "bit f 5 = bit r 5"
proof -
  have "ucast l < (ucast r :: u16) \<longleftrightarrow> unat l < unat r"
    using unat_u8_less [of l] unat_u8_less [of r]
    by (simp add: word_less_nat_alt unsigned_ucast_eq take_bit_nat_eq_self)
  then show "flags_carry f = flags_carry g" "flags_parity_overflow f = flags_parity_overflow g"
    "flags_half_carry f = flags_half_carry g" "flags_sign f = flags_sign g"
    "flags_zero f = flags_zero g" "flags_subtract f"
    "bit f 3 = bit r 3" "bit f 5 = bit r 5"
    using sub8_flags [of l r False s]
    by (auto simp: f_def g_def and.assoc [symmetric] z80_cp8_def Let_def z80_set_defs flag_bits sub8_difference
        and_mask_bit bit_xor_iff bit_and_iff)
qed

text \<open>
  Accumulator subtraction and comparison. SUB, SBC and CP (operations 2, 3 and 7)
  compute the difference modulo 256 with the borrow in the carry flag, and overflow, half
  carry, sign and zero mean what they should; CP throws the difference away, leaves A, and
  takes the undocumented bits 3 and 5 from the operand.
\<close>

theorem z80_accumulator_sub_meaning:
  fixes s :: "'b z80" and operand y :: u8
  assumes "y \<in> {2, 3, 7}"
  defines "t \<equiv> z80_accumulator_op y operand s" and "c \<equiv> y = 3 \<and> flags_carry (z_flags s)"
    and "d \<equiv> fst (z80_sub8 (z_a s) operand (y = 3 \<and> flags_carry (z_flags s)) s)"
  shows "int (unat d) - 256 * of_bool (flags_carry (z_flags t)) = int (unat (z_a s)) - int (unat operand) - of_bool c
    \<and> z_a t = (if y = 7 then z_a s else d)
    \<and> (flags_parity_overflow (z_flags t) \<longleftrightarrow>
        \<not> (- 128 \<le> sint (z_a s) - sint operand - of_bool c \<and> sint (z_a s) - sint operand - of_bool c \<le> 127))
    \<and> (flags_half_carry (z_flags t) \<longleftrightarrow> unat (z_a s) mod 16 < unat operand mod 16 + of_bool c)
    \<and> (flags_sign (z_flags t) \<longleftrightarrow> sint d < 0) \<and> (flags_zero (z_flags t) \<longleftrightarrow> d = 0)
    \<and> flags_subtract (z_flags t)
    \<and> (bit (z_flags t) 3 \<longleftrightarrow> bit (if y = 7 then operand else d) 3)
    \<and> (bit (z_flags t) 5 \<longleftrightarrow> bit (if y = 7 then operand else d) 5)"
proof (cases "y = 7")
  case True
  then have t: "t = z80_cp8 (z_a s) operand s" and d: "d = fst (z80_sub8 (z_a s) operand False s)"
    and c: "\<not> c"
    by (simp_all add: t_def d_def c_def z80_accumulator_op_def)
  show ?thesis
    unfolding t using cp8_flags [of "z_a s" operand s] sub8_arith [of "z_a s" operand False s] True c
    by (simp add: d alu_registers)
next
  case False
  let ?R = "z80_sub8 (z_a s) operand c s"
  have t: "t = (snd ?R)\<lparr>z_a := fst ?R\<rparr>" and d: "d = fst ?R"
    using False assms(1) by (auto simp: t_def c_def d_def z80_accumulator_op_def case_prod_unfold Let_def)
  show ?thesis
    unfolding t d using sub8_arith [of "z_a s" operand c s] False by simp
qed

theorem z80_accumulator_sub_meaning_witness:
  "flags_carry (z_flags (z80_accumulator_op 2 1 ((cpu_with_memory (\<lambda>_. 0))\<lparr>z_a := 0\<rparr>)))"
proof -
  have "(2 :: u8) \<in> {2, 3, 7}" by simp
  note z80_accumulator_sub_meaning [OF this, of "(cpu_with_memory (\<lambda>_. 0))\<lparr>z_a := 0\<rparr>" 1]
  then have "int (unat (fst (z80_sub8 0 1 False ((cpu_with_memory (\<lambda>_. 0))\<lparr>z_a := 0\<rparr>))))
      - 256 * of_bool (flags_carry (z_flags (z80_accumulator_op 2 1 ((cpu_with_memory (\<lambda>_. 0))\<lparr>z_a := 0\<rparr>)))) = - 1"
    by simp
  then show ?thesis
    using uint_ge_0 [of "fst (z80_sub8 0 1 False ((cpu_with_memory (\<lambda>_. 0))\<lparr>z_a := 0\<rparr>))"]
    by (cases "flags_carry (z_flags (z80_accumulator_op 2 1 ((cpu_with_memory (\<lambda>_. 0))\<lparr>z_a := 0\<rparr>)))") simp_all
qed

section \<open>Clocks\<close>

text \<open>
  C29 Clocks of an instruction. On the disk bus, without a pending interrupt, one call of
  \<open>execute_one\<close> at an opcode that is no index prefix returns and takes from 4 to 21
  clocks; a halted processor takes exactly 4 and stays halted.
\<close>

theorem z80_execute_one_clocks:
  assumes "z_pending_irq s = 0" and "d_memory (z_bus s) (z_pc s) \<notin> {0xDD, 0xFD}"
  shows "\<exists>t. z80_execute_one (pc88_sub_bus fdc) s = Some t
    \<and> (if z_halted s then z_halted t \<and> z_cycles_remaining s - z_cycles_remaining t = 4
       else 4 \<le> z_cycles_remaining s - z_cycles_remaining t
         \<and> z_cycles_remaining s - z_cycles_remaining t \<le> 21)"
proof (cases "z_halted s")
  case True
  then show ?thesis using assms(1)
    by (simp add: z80_execute_one_def Let_def clock_simps z80_clk_def z80_increment_r_def)
next
  case False
  let ?io = "pc88_sub_bus fdc" and ?s = "s\<lparr>z_ei := 0\<rparr>"
  let ?u = "z80_set_q_latch False (?s\<lparr>z_p := 0\<rparr>)"
  have peek: "pc88_sub_peek (z_bus s) a = d_memory (z_bus s) a" for a
    by (simp add: pc88_sub_peek_def pc80s31k_read_def)
  let ?op = "d_memory (z_bus s) (z_pc s)"
  have run: "z80_execute_one ?io s = map_option z80_finish_q (z80_dispatch ?io ?op HL False (snd (z80_fetch_m1 ?io ?u)))"
    using assms False by (simp add: z80_execute_one_def Let_def pc88_memory.unprefixed [of ?s ?op] peek)
  have "z80_dispatch ?io ?op HL False (snd (z80_fetch_m1 ?io ?u)) \<noteq> None"
    using assms(2) by (intro dispatch_returns) auto
  then obtain t where t: "z80_dispatch ?io ?op HL False (snd (z80_fetch_m1 ?io ?u)) = Some t" by blast
  have "z80_keeps (4 + 0) (4 + 17) ?u t"
    by (rule keeps_trans [OF fetch_m1_keeps dispatch_keeps [OF t]])
  then have "4 \<le> z_cycles_remaining ?u - z_cycles_remaining t" "z_cycles_remaining ?u - z_cycles_remaining t \<le> 21"
    by (simp_all add: z80_keeps_def z80_within_def)
  then show ?thesis using False by (simp add: run t clock_simps)
qed

theorem z80_execute_one_clocks_witness:
  "\<exists>t. z80_execute_one (pc88_sub_bus fdc_absent) (cpu_with_memory pc80s31k_memory_new) = Some t
    \<and> 4 \<le> - z_cycles_remaining t \<and> - z_cycles_remaining t \<le> 21"
proof -
  have "pc80s31k_memory_new 0 = 0x18" by (simp add: memory_new_below)
  then have "d_memory (z_bus (cpu_with_memory pc80s31k_memory_new)) (z_pc (cpu_with_memory pc80s31k_memory_new))
      \<notin> {0xDD, 0xFD}"
    by (simp add: cpu_with_memory_registers)
  from z80_execute_one_clocks [OF _ this, of fdc_absent] show ?thesis
    by (auto simp: cpu_with_memory_registers cpu_with_memory_clock)
qed

section \<open>Calls that do not return\<close>

lemma disk_peek: "pc88_sub_peek b a = d_memory b a"
  by (simp add: pc88_sub_peek_def pc80s31k_read_def)

text \<open>
  When an instruction of the disk processor returns. No opcode panics, and the loop
  over index prefixes ends, for every content of the memory but one kind: when all 64 KiB
  hold prefix bytes (DD or FD) \<open>execute_one\<close> never returns.
\<close>

theorem pc88_instruction_returns:
  "z80_execute_instruction (pc88_sub_bus fdc) s = None \<longleftrightarrow>
     (\<forall>a. d_memory (z_bus s) a = 0xDD \<or> d_memory (z_bus s) a = 0xFD)"
  using pc88_memory.instruction_returns [of fdc s] by (simp add: disk_peek)

text \<open>
  C31 A maskable interrupt in mode 0. Accepting an interrupt panics exactly when the mode is
  neither 1 nor 2 and the device puts one of the prefix bytes CB, DD, ED and FD on the
  bus: the core executes the vector byte as an unprefixed opcode, which those are not.
\<close>

theorem z80_service_irq_panics:
  "z80_service_irq io s = None \<longleftrightarrow>
     z_im s AND 3 \<notin> {1, 2}
     \<and> fst (bus_acknowledge_irq io (z_bus s)) \<in> {0xCB, 0xDD, 0xED, 0xFD}"
  by (auto simp: z80_service_irq_def z80_irq_transfer_def z80_execute_im0_opcode_def Let_def
      case_prod_unfold bind_eq_None_conv base_panics z80_increment_r_def simp del: not_None_eq)

section \<open>Interrupts\<close>

text \<open>
  Interrupt modes 1 and 2. On the disk bus, with the stack in writable memory, an
  accepted interrupt disables both flip-flops, pushes the address of the next instruction
  and continues at 0038 in mode 1 and, in mode 2, at the word that the table at I:vector
  holds, where the vector byte of this machine is 00; it takes 13 or 19 clocks.
\<close>

theorem pc88_service_irq:
  assumes "z_im s = 1 \<or> z_im s = 2" and "z_sp s - 1 \<in> pc88_sub_ram" "z_sp s - 2 \<in> pc88_sub_ram"
  shows "\<exists>t. z80_service_irq (pc88_sub_bus fdc) s = Some t
    \<and> \<not> z_iff1 t \<and> \<not> z_iff2 t \<and> \<not> z_halted t
    \<and> z_sp t = z_sp s - 2
    \<and> le16 (d_memory (z_bus t) (z_sp t)) (d_memory (z_bus t) (z_sp t + 1)) = z_pc s
    \<and> z_pc t = (if z_im s = 1 then 0x0038
        else le16 (d_memory (z_bus s) (le16 0 (z_i s))) (d_memory (z_bus s) (le16 0 (z_i s) + 1)))
    \<and> z_cycles_remaining t = z_cycles_remaining s - (if z_im s = 1 then 13 else 19)"
proof -
  have sp: "z_sp s - 1 - 1 = z_sp s - 2" "z_sp s - 2 + 1 = z_sp s - 1" "z_sp s - 2 \<noteq> z_sp s - 1"
    by simp_all
  have im: "(1 :: u8) AND 3 = 1" "(2 :: u8) AND 3 = 2" by simp_all
  have vector: "bus_acknowledge_irq (pc88_sub_bus fdc) b = (0, b)" for b
    by (simp add: pc88_sub_bus_def bus_with_defaults_def)
  note disk = pc88_memory.access_memory [unfolded disk_peek]
  show ?thesis
    using assms
    by (elim disjE)
      (simp_all add: z80_service_irq_def z80_irq_transfer_def Let_def case_prod_unfold im vector
        z80_push_def z80_increment_r_def z80_clk_def z80_write_byte_def z80_read_byte_def
        pc88_memory.memory_laws [unfolded disk_peek] sp)
qed

theorem pc88_service_irq_witness:
  "\<exists>t. z80_service_irq (pc88_sub_bus fdc_absent)
        ((cpu_with_memory (\<lambda>a. if a = 0x1201 then 0x12 else 0))
          \<lparr>z_im := 2, z_i := 0x12, z_sp := 0x5000, z_pc := 0x0100\<rparr>) = Some t
      \<and> z_pc t = 0x1200 \<and> z_sp t = 0x4FFE"
proof -
  let ?s = "(cpu_with_memory (\<lambda>a. if a = 0x1201 then 0x12 else 0))
          \<lparr>z_im := 2, z_i := 0x12, z_sp := 0x5000, z_pc := 0x0100\<rparr>"
  have table: "le16 0 0x12 = 0x1200" "le16 0 0x12 + 1 = 0x1201" by (simp_all add: le16_def)
  have "z_im ?s = 1 \<or> z_im ?s = 2" and "z_sp ?s - 1 \<in> pc88_sub_ram" "z_sp ?s - 2 \<in> pc88_sub_ram"
    by (simp_all add: pc88_sub_ram_def)
  from pc88_service_irq [OF this, of fdc_absent] show ?thesis
    by (auto simp: cpu_with_memory_registers table)
qed

section \<open>Memory\<close>

text \<open>
  C28 Block copy. LDIR on the disk bus, with BC holding the count (0 for 65536) and a
  destination that does not overwrite the instruction itself, copies byte after byte, in
  order, so that overlapping blocks replicate as on the real processor: bytes for
  addresses outside the writable window are dropped, HL and DE end past the blocks, BC is
  0 and each round but the last takes 21 clocks.
\<close>

theorem pc88_ldir_copies:
  assumes "z80_running s" "d_memory (z_bus s) (z_pc s) = 0xED" "d_memory (z_bus s) (z_pc s + 1) = 0xB0"
    and "0 < n" "n \<le> 65536" "z80_bc s = of_nat n"
    and "\<And>i. i < n \<Longrightarrow> z80_de s + of_nat i \<in> pc88_sub_ram \<Longrightarrow>
      z80_de s + of_nat i \<noteq> z_pc s \<and> z80_de s + of_nat i \<noteq> z_pc s + 1"
  shows "\<exists>t. z80_execute_many (pc88_sub_bus fdc) n s = Some t
    \<and> d_memory (z_bus t)
        = block_copy (\<lambda>a. a + 1) pc88_sub_ram n (z80_hl s) (z80_de s) (d_memory (z_bus s))
    \<and> z80_hl t = z80_hl s + of_nat n \<and> z80_de t = z80_de s + of_nat n \<and> z80_bc t = 0
    \<and> z_pc t = z_pc s + 2
    \<and> z_cycles_remaining t = z_cycles_remaining s - (21 * int n - 5)"
  using pc88_memory.ldir_run [of s n fdc] assms by (auto simp: disk_peek [abs_def])

theorem pc88_ldir_copies_witness:
  "\<exists>t. z80_execute_many (pc88_sub_bus fdc_absent) 2
        ((cpu_with_memory (\<lambda>a. if a = 0 then 0xED else if a = 1 then 0xB0 else if a = 0x3FFF then 0x55 else 0))
          \<lparr>z_b := 0, z_c := 2, z_h := 0x3F, z_l := 0xFF, z_d := 0x40, z_e := 0\<rparr>) = Some t
      \<and> d_memory (z_bus t) 0x4001 = 0x55"
proof -
  let ?s = "(cpu_with_memory (\<lambda>a. if a = 0 then 0xED else if a = 1 then 0xB0 else if a = 0x3FFF then 0x55 else 0))
          \<lparr>z_b := 0, z_c := 2, z_h := 0x3F, z_l := 0xFF, z_d := 0x40, z_e := 0\<rparr>"
  have regs: "z80_hl ?s = 0x3FFF" "z80_de ?s = 0x4000" "z80_bc ?s = of_nat 2"
    by (simp_all add: z80_pair_defs le16_def)
  have code: "z80_running ?s" "d_memory (z_bus ?s) (z_pc ?s) = 0xED" "d_memory (z_bus ?s) (z_pc ?s + 1) = 0xB0"
    by (simp_all add: z80_running_def cpu_with_memory_registers)
  have apart: "z80_de ?s + of_nat i \<noteq> z_pc ?s \<and> z80_de ?s + of_nat i \<noteq> z_pc ?s + 1" if "i < 2" for i
    using that by (auto simp: regs cpu_with_memory_registers less_2_cases_iff)
  have copied: "block_copy (\<lambda>a. a + 1) pc88_sub_ram 2 0x3FFF 0x4000 m 0x4001 = m 0x3FFF" for m
  proof -
    have two: "block_copy f R 2 x y m = block_copy f R (Suc (Suc 0)) x y m" for f R x y
      by (simp add: numeral_2_eq_2)
    show ?thesis unfolding two by (simp add: pc88_sub_ram_def)
  qed
  from pc88_ldir_copies [OF code, of 2 fdc_absent] apart regs show ?thesis
    by (auto simp: copied cpu_with_memory_registers)
qed

text \<open>
  The stack. On the disk bus a word that is pushed into writable memory is the word the
  next pop returns, the registers and the stack pointer are as before, and no other byte
  of the memory has changed.
\<close>

theorem pc88_push_pop:
  assumes "z_sp s - 1 \<in> pc88_sub_ram" "z_sp s - 2 \<in> pc88_sub_ram"
  shows "fst (z80_pop (pc88_sub_bus fdc) (z80_push (pc88_sub_bus fdc) w s)) = w
    \<and> z80_capture_state (snd (z80_pop (pc88_sub_bus fdc) (z80_push (pc88_sub_bus fdc) w s))) = z80_capture_state s
    \<and> (\<forall>a. a \<noteq> z_sp s - 1 \<longrightarrow> a \<noteq> z_sp s - 2 \<longrightarrow>
        d_memory (z_bus (snd (z80_pop (pc88_sub_bus fdc) (z80_push (pc88_sub_bus fdc) w s)))) a = d_memory (z_bus s) a)"
proof -
  have "peek' = d_memory (z_bus s) a"
    if "a \<noteq> z_sp s - 1" "a \<noteq> z_sp s - 2"
      "peek' = d_memory (z_bus (snd (z80_pop (pc88_sub_bus fdc) (z80_push (pc88_sub_bus fdc) w s)))) a" for a peek'
    using that
    by (simp add: z80_pop_def z80_push_def Let_def case_prod_unfold z80_read_byte_def z80_write_byte_def z80_clk_def
        pc88_memory.memory_laws [unfolded disk_peek [abs_def]])
  then show ?thesis using pc88_memory.push_pop [OF assms, of fdc w] by blast
qed

theorem pc88_push_pop_witness:
  "fst (z80_pop (pc88_sub_bus fdc_absent)
      (z80_push (pc88_sub_bus fdc_absent) 0x1234 ((cpu_with_memory (\<lambda>_. 0))\<lparr>z_sp := 0x8000\<rparr>))) = 0x1234"
  using pc88_push_pop [of "(cpu_with_memory (\<lambda>_. 0))\<lparr>z_sp := 0x8000\<rparr>" fdc_absent "0x1234"]
  by (simp add: pc88_sub_ram_def)

section \<open>Interrupts around instructions\<close>

lemma ei_opcode: "z80_execute_base io 0xFB m x s
    = Some ((z80_set_q_latch False s)\<lparr>z_iff1 := True, z_iff2 := True, z_ei := 1\<rparr>)"
  by (simp add: z80_execute_base_def z80_base_x3_def z80_base_x3_z3_def Let_def)

text \<open>
  Enabling interrupts takes effect one instruction later. On the disk bus EI sets both
  flip-flops, and a maskable request that is pending then is not accepted: the next call
  executes the next instruction without entering the interrupt, and clears the delay.
\<close>

theorem pc88_ei_delay:
  assumes "z80_running s" and "d_memory (z_bus s) (z_pc s) = 0xFB"
  shows "\<exists>t. z80_execute_one (pc88_sub_bus fdc) s = Some t \<and> z_iff1 t \<and> z_iff2 t
    \<and> z_pc t = z_pc s + 1
    \<and> z80_execute_one (pc88_sub_bus fdc) (t\<lparr>z_pending_irq := PENDING_IRQ\<rparr>)
        = z80_execute_instruction (pc88_sub_bus fdc) (t\<lparr>z_pending_irq := PENDING_IRQ, z_ei := 0\<rparr>)"
proof -
  have run: "z80_execute_one (pc88_sub_bus fdc) s
      = map_option z80_finish_q (z80_dispatch (pc88_sub_bus fdc) 0xFB HL False
          (snd (z80_fetch_m1 (pc88_sub_bus fdc) (z80_set_q_latch False (s\<lparr>z_ei := 0, z_p := 0\<rparr>)))))"
    using assms(2) by (simp add: running_one [OF assms(1)] pc88_memory.unprefixed [of _ "0xFB"] disk_peek)
  have halted: "\<not> z_halted s" using assms(1) by (simp add: z80_running_def)
  show ?thesis
    unfolding run z80_dispatch_def
    using halted
    by (simp add: ei_opcode Let_def z80_finish_q_def z80_set_q_latch_def z80_fetch_m1_def z80_increment_r_def
        z80_clk_def case_prod_unfold z80_execute_one_def z80_check_interrupts_def PENDING_IRQ_def PENDING_NMI_def)
qed

theorem pc88_ei_delay_witness:
  "\<exists>t. z80_execute_one (pc88_sub_bus fdc_absent) (cpu_with_memory (\<lambda>_. 0xFB)) = Some t \<and> z_iff1 t"
proof -
  have "z80_running (cpu_with_memory (\<lambda>_. 0xFB))"
    "d_memory (z_bus (cpu_with_memory (\<lambda>_. 0xFB))) (z_pc (cpu_with_memory (\<lambda>_. 0xFB))) = 0xFB"
    by (simp_all add: z80_running_def cpu_with_memory_registers)
  from pc88_ei_delay [OF this, of fdc_absent] show ?thesis by auto
qed

context memory_bus
begin

lemma retn_step:
  assumes "peek (z_bus s) (z_pc s) = 0xED" "peek (z_bus s) (z_pc s + 1) = 0x45"
  shows "\<exists>t. z80_execute_instruction io s = Some t
    \<and> z_pc t = le16 (peek (z_bus s) (z_sp s)) (peek (z_bus s) (z_sp s + 1)) \<and> z_sp t = z_sp s + 2
    \<and> z80_af t = z80_af s \<and> z80_bc t = z80_bc s \<and> z80_de t = z80_de s \<and> z80_hl t = z80_hl s
    \<and> z_pending_irq t = z_pending_irq s \<and> z_halted t = z_halted s
    \<and> z_iff1 t = z_iff2 s \<and> z_iff2 t = z_iff2 s"
proof -
  have "z80_execute_instruction io s = map_option z80_finish_q
      (z80_dispatch io 0xED HL False (snd (z80_fetch_m1 io (z80_set_q_latch False (s\<lparr>z_p := 0\<rparr>)))))"
    using assms by (simp add: unprefixed)
  then show ?thesis
    using assms
    by (simp add: z80_dispatch_def z80_execute_ed_def z80_ed_return_def z80_pop_def Let_def case_prod_unfold
        fetch_m1_memory z80_set_q_latch_def z80_fetch_m1_def z80_increment_r_def z80_clk_def
        z80_read_byte_def z80_pair_defs z80_finish_q_def memory_laws)
qed

end

text \<open>
  C27 Non-maskable interrupts are transparent. When a non-maskable interrupt is pending, the
  stack is writable and its handler at 0066 is RETN, one call of \<open>execute_one\<close> enters the
  handler and leaves it: execution goes on at the same address with the same stack pointer
  and registers, the request is withdrawn, the processor is not halted, and the first
  interrupt flip-flop is the copy that the second kept of it.
\<close>

theorem pc88_nmi_retn:
  assumes "z_pending_irq s = PENDING_NMI"
    and "z_sp s - 1 \<in> pc88_sub_ram" "z_sp s - 2 \<in> pc88_sub_ram"
    and "d_memory (z_bus s) 0x0066 = 0xED" "d_memory (z_bus s) 0x0067 = 0x45"
  shows "\<exists>t. z80_execute_one (pc88_sub_bus fdc) s = Some t
    \<and> z_pc t = z_pc s \<and> z_sp t = z_sp s \<and> z80_af t = z80_af s \<and> z80_bc t = z80_bc s
    \<and> z80_de t = z80_de s \<and> z80_hl t = z80_hl s
    \<and> z_pending_irq t = 0 \<and> \<not> z_halted t
    \<and> z_iff1 t = z_iff2 s \<and> z_iff2 t = z_iff2 s"
proof -
  let ?io = "pc88_sub_bus fdc"
  let ?n = "(z80_service_nmi ?io s)\<lparr>z_ei := 0\<rparr>"
  have sp: "z_sp s - 1 - 1 = z_sp s - 2" "z_sp s - 2 + 1 = z_sp s - 1" "z_sp s - 2 \<noteq> z_sp s - 1"
    by simp_all
  have rom: "(0x66 :: u16) \<notin> pc88_sub_ram" "(0x67 :: u16) \<notin> pc88_sub_ram" by (simp_all add: pc88_sub_ram_def)
  then have apart: "z_sp s - 1 \<noteq> 0x66" "z_sp s - 1 \<noteq> 0x67" "z_sp s - 2 \<noteq> 0x66" "z_sp s - 2 \<noteq> 0x67"
    using assms(2,3) by auto
  have nmi: "PENDING_NMI AND PENDING_NMI \<noteq> 0" "PENDING_NMI \<noteq> 0" "PENDING_NMI AND NOT PENDING_NMI = 0"
    by (simp_all add: PENDING_NMI_def)
  have ack: "bus_acknowledge_nmi ?io b = b" for b by (simp add: pc88_sub_bus_def bus_with_defaults_def)
  note entry = z80_service_nmi_def Let_def z80_push_def z80_write_byte_def z80_increment_r_def z80_clk_def ack
    pc88_memory.memory_laws [unfolded disk_peek [abs_def]]
  have pc: "z_pc ?n = 0x66" "z_halted ?n = False" by (simp_all add: entry)
  have memory: "d_memory (z_bus ?n) = (d_memory (z_bus s))(z_sp s - 1 := hi8 (z_pc s), z_sp s - 2 := lo8 (z_pc s))"
    using assms(2,3) by (simp add: entry sp)
  have regs: "z_sp ?n = z_sp s - 2" "z80_af ?n = z80_af s" "z80_bc ?n = z80_bc s" "z80_de ?n = z80_de s"
    "z80_hl ?n = z80_hl s" "z_pending_irq ?n = 0" "z_iff2 ?n = z_iff2 s"
    by (simp_all add: entry z80_pair_defs assms(1) nmi sp)
  have run: "z80_execute_one ?io s = z80_execute_instruction ?io ?n"
    using pc(2) by (simp add: z80_execute_one_def z80_check_interrupts_def assms(1) nmi)
  have "\<exists>t. z80_execute_instruction ?io ?n = Some t
      \<and> z_pc t = le16 (d_memory (z_bus ?n) (z_sp ?n)) (d_memory (z_bus ?n) (z_sp ?n + 1)) \<and> z_sp t = z_sp ?n + 2
      \<and> z80_af t = z80_af ?n \<and> z80_bc t = z80_bc ?n \<and> z80_de t = z80_de ?n \<and> z80_hl t = z80_hl ?n
      \<and> z_pending_irq t = z_pending_irq ?n \<and> z_halted t = z_halted ?n
      \<and> z_iff1 t = z_iff2 ?n \<and> z_iff2 t = z_iff2 ?n"
    unfolding disk_peek [symmetric]
    by (rule pc88_memory.retn_step) (use pc memory apart assms(4,5) in \<open>simp_all add: disk_peek\<close>)
  then show ?thesis
    unfolding run pc regs memory sp by (simp add: sp)
qed

theorem pc88_nmi_retn_witness:
  "\<exists>t. z80_execute_one (pc88_sub_bus fdc_absent)
        ((cpu_with_memory (\<lambda>a. if a = 0x66 then 0xED else if a = 0x67 then 0x45 else 0))
          \<lparr>z_pending_irq := PENDING_NMI, z_sp := 0x5000, z_pc := 0x1234, z_halted := True\<rparr>) = Some t
      \<and> z_pc t = 0x1234 \<and> \<not> z_halted t"
proof -
  let ?s = "(cpu_with_memory (\<lambda>a. if a = 0x66 then 0xED else if a = 0x67 then 0x45 else 0))
          \<lparr>z_pending_irq := PENDING_NMI, z_sp := 0x5000, z_pc := 0x1234, z_halted := True\<rparr>"
  have "z_pending_irq ?s = PENDING_NMI" "z_sp ?s - 1 \<in> pc88_sub_ram" "z_sp ?s - 2 \<in> pc88_sub_ram"
    "d_memory (z_bus ?s) 0x0066 = 0xED" "d_memory (z_bus ?s) 0x0067 = 0x45"
    by (simp_all add: pc88_sub_ram_def cpu_with_memory_registers)
  from pc88_nmi_retn [OF this, of fdc_absent] show ?thesis by auto
qed

text \<open>
  The setter of the interrupt mode can leave the valid states: \<open>set_im\<close> keeps two bits of
  its argument, so 3 is stored, and the state is then one that \<open>validate_state\<close> rejects.
\<close>

theorem z80_set_im_invalid:
  "z80_validate_state (z80_capture_state (z80_set_im 3 s)) \<noteq> Inr ()"
  unfolding capture_valid by (simp add: z80_validate_state_def z80_set_im_def)

end
