(* ===== verification/Pc88_Properties.thy ===== *)
theory Pc88_Properties
  imports Z80_Properties
begin

text \<open>
  The properties of the disk unit of the PC-8801 around its processor: the mailbox between
  the two processors, the memory, and the clocks granted to the sub-processor.
\<close>

section \<open>The mailbox\<close>

datatype link_request = WriteMain u8 u8 | WriteSub u8 u8

fun link_perform :: "link_request \<Rightarrow> ppi_link \<Rightarrow> ppi_link" where
  "link_perform (WriteMain register v) s = snd (ppi_link_write_main register v s)"
| "link_perform (WriteSub register v) s = snd (ppi_link_write_sub register v s)"

lemma link_perform_wired: "ppi_link_wired s \<Longrightarrow> ppi_link_wired (link_perform r s)"
proof (cases r)
  case (WriteMain register v)
  assume "ppi_link_wired s"
  then show ?thesis
    using propagate_wired [of register v "link_main s" _ _ "link_sub s"]
    by (cases "i8255_write register v (link_main s)")
      (auto simp: WriteMain ppi_link_write_main_def ppi_link_wired_def Let_def case_prod_unfold)
next
  case (WriteSub register v)
  assume "ppi_link_wired s"
  then show ?thesis
    using propagate_wired [of register v "link_sub s" _ _ "link_main s"]
    by (cases "i8255_write register v (link_sub s)")
      (auto simp: WriteSub ppi_link_write_sub_def ppi_link_wired_def Let_def case_prod_unfold)
qed

lemma link_run_wired: "ppi_link_wired s \<Longrightarrow> ppi_link_wired (fold link_perform rs s)"
  by (induction rs arbitrary: s) (simp_all add: link_perform_wired)

lemma link_new_wired: "ppi_link_wired ppi_link_new"
  by (simp add: ppi_link_wired_def ppi_wired_def ppi_link_new_def i8255_new_def rotate_left8_def)

text \<open>The 8255 \<open>s\<close> with its inputs taken from the outputs of the one across.\<close>

definition ppi_crossed :: "i8255 \<Rightarrow> i8255 \<Rightarrow> i8255" where
  "ppi_crossed peer s =
     s\<lparr>ppi_input_a := ppi_port_b peer, ppi_input_b := ppi_port_a peer,
       ppi_input_c := rotate_left8 4 (ppi_port_c peer)\<rparr>"

text \<open>
  C30 The mailbox never shows stale data. After any sequence of writes to the two 8255s,
  mode words and single-bit writes included, a read on either side is what it would be
  with the ports connected by wires: port A of one side is port B of the other, and the
  halves of port C cross. A write reports a handshake exactly when it goes to port C or
  to the control register.
\<close>

theorem ppi_link_is_crossed:
  fixes rs :: "link_request list"
  defines "s \<equiv> fold link_perform rs ppi_link_new"
  shows "ppi_link_read_main r s = i8255_read r (ppi_crossed (link_sub s) (link_main s))
    \<and> ppi_link_read_sub r s = i8255_read r (ppi_crossed (link_main s) (link_sub s))
    \<and> (fst (ppi_link_write_main r v s) \<longleftrightarrow> r AND 3 = 2 \<or> r AND 3 = 3)
    \<and> (fst (ppi_link_write_sub r v s) \<longleftrightarrow> r AND 3 = 2 \<or> r AND 3 = 3)"
proof -
  have wired: "ppi_link_wired s" unfolding s_def by (rule link_run_wired [OF link_new_wired])
  have crossed: "ppi_crossed p d = d" if "ppi_wired p d" for p d :: i8255
    using that by (cases d) (simp add: ppi_crossed_def ppi_wired_def)
  have three: "r AND 3 = 3" if "r AND 3 \<noteq> 0" "r AND 3 \<noteq> 1" "r AND 3 \<noteq> 2"
    using that by (auto simp: u8_eq_iff bit_and_iff)
  have handshake: "fst (ppi_propagate m d (fst (i8255_write r v p))) \<longleftrightarrow> r AND 3 = 2 \<or> r AND 3 = 3" for m d p
    using three
    by (auto simp: ppi_propagate_def i8255_write_def i8255_write_control_def Let_def)
  show ?thesis
    using wired handshake
    by (simp add: ppi_link_wired_def crossed ppi_link_read_main_def ppi_link_read_sub_def
        ppi_link_write_main_def ppi_link_write_sub_def Let_def case_prod_unfold)
qed

section \<open>Memory\<close>

text \<open>
  Saving the disk memory. The captured bytes have the length that \<open>restore_state\<close>
  demands; restoring them into any memory gives it the writable window of the first and
  keeps its own ROM, and every other length is rejected without a change.
\<close>

theorem pc80s31k_capture_restore:
  "length (pc80s31k_capture_state m) = 0x4000
   \<and> pc80s31k_restore_state (pc80s31k_capture_state m) m'
      = (Inr (), \<lambda>a. if 0x4000 \<le> a \<and> a < 0x8000 then m a else m' a)
   \<and> (length ram \<noteq> 0x4000 \<longrightarrow> snd (pc80s31k_restore_state ram m') = m'
      \<and> fst (pc80s31k_restore_state ram m') \<noteq> Inr ())"
proof (intro conjI)
  show len: "length (pc80s31k_capture_state m) = 0x4000"
    unfolding pc80s31k_capture_state_def length_map length_upt by simp
  have "pc80s31k_capture_state m ! (unat a - 0x4000) = m a" if "0x4000 \<le> unat a" "unat a < 0x8000" for a
  proof -
    have "unat a - 0x4000 < length [0x4000..<0x8000]" unfolding length_upt using that by linarith
    then have "pc80s31k_capture_state m ! (unat a - 0x4000) = m (of_nat (0x4000 + (unat a - 0x4000)))"
      unfolding pc80s31k_capture_state_def by (subst nth_map) (simp_all only: nth_upt length_upt less_diff_conv2)
    then show ?thesis using that by simp
  qed
  then have read: "(\<lambda>a. if 0x4000 \<le> unat a \<and> unat a < 0x8000
      then pc80s31k_capture_state m ! (unat a - 0x4000) else m' a)
      = (\<lambda>a. if 0x4000 \<le> a \<and> a < 0x8000 then m a else m' a)"
    by (auto simp: write_window)
  show "pc80s31k_restore_state (pc80s31k_capture_state m) m'
      = (Inr (), \<lambda>a. if 0x4000 \<le> a \<and> a < 0x8000 then m a else m' a)"
    unfolding pc80s31k_restore_state_def using len read by simp
  show "length ram \<noteq> 0x4000 \<longrightarrow> snd (pc80s31k_restore_state ram m') = m'
      \<and> fst (pc80s31k_restore_state ram m') \<noteq> Inr ()"
    by (simp add: pc80s31k_restore_state_def)
qed

theorem pc80s31k_capture_restore_witness:
  "fst (pc80s31k_restore_state [] pc80s31k_memory_new) \<noteq> Inr ()"
  using pc80s31k_capture_restore [of pc80s31k_memory_new pc80s31k_memory_new "[]"] by simp

section \<open>Clocks of the sub-processor\<close>

lemma credit_split:
  fixes available :: u64
  shows "available - push_bit n (drop_bit n available) = take_bit n available"
  using bits_ident [of n available] by (metis add_diff_cancel_left')

text \<open>
  The clock credit. While the sum of the main clocks and the credit fits in 64 bits, a
  call of \<open>run_sub_for_main_cycles\<close> on a disk unit with a boot ROM returns; the credit
  left is less than one sub clock, the main clocks and the credit before are the sub
  clocks asked for, times the ratio, plus the credit left, and the processor runs for at
  least those sub clocks.
\<close>

theorem pc88_run_sub_credit:
  assumes "\<not> (0x4000 \<le> a \<and> a < 0x8000)" "d_memory (z_bus s) a \<noteq> 0xDD" "d_memory (z_bus s) a \<noteq> 0xFD"
    and "unat main_cycles + unat (d_sub_clock_credit (z_bus s)) < 2 ^ 64"
    and "d_sub_to_main_shift (z_bus s) < 64"
  defines "shift \<equiv> d_sub_to_main_shift (z_bus s)"
    and "sub_cycles \<equiv> drop_bit (d_sub_to_main_shift (z_bus s)) (main_cycles + d_sub_clock_credit (z_bus s))"
  shows "\<exists>t. pc88_run_sub_for_main_cycles fdc main_cycles s = Some t
    \<and> unat (d_sub_clock_credit (z_bus t)) < 2 ^ shift
    \<and> unat main_cycles + unat (d_sub_clock_credit (z_bus s))
        = 2 ^ shift * unat sub_cycles + unat (d_sub_clock_credit (z_bus t))
    \<and> (sub_cycles \<noteq> 0 \<longrightarrow> z_cycles_remaining t \<le> 0)"
proof -
  define available where "available = main_cycles + d_sub_clock_credit (z_bus s)"
  have total: "unat available = unat main_cycles + unat (d_sub_clock_credit (z_bus s))"
    unfolding available_def using assms(4) by (simp add: unat_add_lem [THEN iffD1])
  have low: "unat (take_bit shift available) = unat available mod 2 ^ shift"
    by (subst unsigned_take_bit_eq) (simp add: take_bit_eq_mod)
  have high: "unat sub_cycles = unat available div 2 ^ shift"
    unfolding sub_cycles_def shift_def available_def [symmetric]
    by (subst unsigned_drop_bit_eq) (simp add: drop_bit_eq_div take_bit_nat_eq_self unsigned_less [of available, where ?'a = nat, simplified])
  let ?s = "s\<lparr>z_bus := (z_bus s)\<lparr>d_sub_clock_credit := take_bit shift available\<rparr>\<rparr>"
  have call: "pc88_run_sub_for_main_cycles fdc main_cycles s
      = (if sub_cycles = 0 then Some ?s else map_option snd (z80_run_for (pc88_sub_bus fdc) sub_cycles ?s))"
    by (simp only: pc88_run_sub_for_main_cycles_def Let_def credit_split sub_cycles_def shift_def available_def)
  have sum: "unat available = 2 ^ shift * unat sub_cycles + unat (take_bit shift available)"
    unfolding low high by simp
  have small: "unat (take_bit shift available) < 2 ^ shift" unfolding low by simp
  show ?thesis
  proof (cases "sub_cycles = 0")
    case True
    then show ?thesis using sum small by (simp add: call total)
  next
    case False
    have "a \<notin> pc88_sub_ram" using assms(1) by (auto simp: pc88_sub_ram_def)
    then obtain t where t: "z80_run_for (pc88_sub_bus fdc) sub_cycles ?s
        = Some (word_of_int (sint sub_cycles - z_cycles_remaining t), t)" "z_cycles_remaining t \<le> 0"
      using disk_run_returns [of a ?s fdc sub_cycles] assms(2,3) by auto
    have "d_sub_clock_credit (z_bus t) = take_bit shift available"
      using pc88_credit.run_for_view [OF t(1)] by simp
    then show ?thesis using sum small False t by (simp add: call total)
  qed
qed

theorem pc88_run_sub_credit_witness:
  "\<exists>t. pc88_run_sub_for_main_cycles fdc_absent 5 (cpu_with_memory pc80s31k_memory_new) = Some t
    \<and> unat (d_sub_clock_credit (z_bus t)) = 0"
proof -
  let ?s = "cpu_with_memory pc80s31k_memory_new"
  have boot: "pc80s31k_memory_new 0 = 0x18" by (simp add: memory_new_below)
  have zero: "d_sub_clock_credit (z_bus ?s) = 0" "d_sub_to_main_shift (z_bus ?s) = 0"
    by (simp_all add: cpu_with_memory_registers disk_with_memory_def)
  show ?thesis
    using pc88_run_sub_credit [of 0 ?s 5 fdc_absent] boot zero by (auto simp: cpu_with_memory_registers)
qed

text \<open>
  \<open>n\<close> slices of one main clock each, on a unit whose two clocks are equal.
\<close>

fun disk_slices :: "'f fdc_ops \<Rightarrow> nat \<Rightarrow> 'f pc88_disk z80 \<Rightarrow> 'f pc88_disk z80 option" where
  "disk_slices fdc 0 s = Some s"
| "disk_slices fdc (Suc n) s = do { s \<leftarrow> pc88_run_sub_for_main_cycles fdc 1 s; disk_slices fdc n s }"

definition disk_nops :: "unit pc88_disk z80 \<Rightarrow> bool" where
  "disk_nops s \<longleftrightarrow> z_pending_irq s = 0 \<and> \<not> z_halted s \<and> d_memory (z_bus s) = (\<lambda>_. 0)
     \<and> d_sub_to_main_shift (z_bus s) = 0 \<and> d_sub_clock_credit (z_bus s) = 0"

lemma nop_opcode: "z80_execute_base io 0 m x s = Some (z80_set_q_latch False s)"
  by (simp add: z80_execute_base_def z80_base_x0_def z80_base_relative_jumps_def Let_def)

lemma nop_instruction:
  assumes "disk_nops s"
  shows "\<exists>t. z80_execute_one (pc88_sub_bus fdc_absent) s = Some t \<and> z_bus t = z_bus s
    \<and> z_pending_irq t = 0 \<and> \<not> z_halted t \<and> z_cycles_remaining t = z_cycles_remaining s - 4"
proof -
  have fetch: "bus_fetch_opcode_byte (pc88_sub_bus fdc_absent) a b = (d_memory b (ucast a), b)" for a b
    by (simp add: pc88_sub_bus_def bus_with_defaults_def pc80s31k_read_def)
  show ?thesis
    using assms
    by (simp add: disk_nops_def z80_execute_one_def z80_execute_instruction_def Let_def z80_fetch_m1_def
        case_prod_unfold fetch skip_no_prefix z80_dispatch_def nop_opcode z80_finish_q_def z80_set_q_latch_def
        z80_increment_r_def z80_clk_def)
qed

lemma nop_slice:
  assumes "disk_nops s"
  shows "\<exists>t. pc88_run_sub_for_main_cycles fdc_absent 1 s = Some t \<and> disk_nops t
    \<and> d_sub_cycle (z_bus t) = d_sub_cycle (z_bus s) + 4"
proof -
  let ?io = "pc88_sub_bus fdc_absent"
  let ?s = "s\<lparr>z_cycles_remaining := 1\<rparr>"
  have "disk_nops ?s" using assms by (simp add: disk_nops_def)
  then obtain u where u: "z80_execute_one ?io ?s = Some u" "z_bus u = z_bus s" "z_pending_irq u = 0"
      "\<not> z_halted u" "z_cycles_remaining u = - 3"
    using nop_instruction [of ?s] by auto
  have calm: "bus_drain_wait_cycles ?io b = (0, b)" "bus_on_instruction_end ?io b = b" "bus_has_nmi ?io b = False"
    "bus_has_irq ?io b = False" for b
    by (simp_all add: pc88_sub_bus_def bus_with_defaults_def fdc_absent_def)
  let ?t = "u\<lparr>z_bus := (z_bus s)\<lparr>d_sub_cycle := d_sub_cycle (z_bus s) + 4\<rparr>\<rparr>"
  have body: "z80_run_body ?io 1 (d_sub_cycle (z_bus s)) ?s = Some (False, ?t)"
    using u assms
    by (simp add: z80_run_body_def Let_def z80_sample_halted_def disk_nops_def z80_drain_wait_def calm
        z80_set_bus_cycle_def pc88_bus_calm z80_sample_nmi_def z80_latch_irq_def z80_clk_def)
  have "z80_run_loop ?io 1 (d_sub_cycle (z_bus s)) ?s = Some ?t"
    using u(5) by (simp add: z80_run_loop.simps [of ?io 1 _ ?s] body z80_run_loop.simps [of ?io 1 _ ?t])
  then have "z80_run_for ?io 1 s = Some (4, ?t)"
    using u(5) by (simp add: z80_run_for_def Let_def pc88_bus_calm z80_set_bus_cycle_def)
  moreover have same: "s\<lparr>z_bus := (z_bus s)\<lparr>d_sub_clock_credit := 0\<rparr>\<rparr> = s"
    using assms by (simp add: disk_nops_def)
  ultimately have "pc88_run_sub_for_main_cycles fdc_absent 1 s = Some ?t"
    using assms by (simp add: pc88_run_sub_for_main_cycles_def Let_def disk_nops_def same)
  then show ?thesis using u assms by (simp add: disk_nops_def)
qed

text \<open>
  The clock ratio drifts. The clocks by which an instruction runs past its budget are
  never taken off a later one: with equal clocks, slices of one main clock and a memory of
  NOPs, \<open>n\<close> main clocks advance the clock of the sub-processor by \<open>4 * n\<close>, and no debt is
  recorded in the credit.
\<close>

theorem pc88_sub_clock_drifts:
  assumes "disk_nops s"
  shows "\<exists>t. disk_slices fdc_absent n s = Some t \<and> d_sub_clock_credit (z_bus t) = 0
    \<and> d_sub_cycle (z_bus t) = d_sub_cycle (z_bus s) + of_nat (4 * n)"
  using assms
proof (induction n arbitrary: s)
  case 0
  then show ?case by (simp add: disk_nops_def)
next
  case (Suc n)
  from nop_slice [OF Suc.prems] obtain u where "pc88_run_sub_for_main_cycles fdc_absent 1 s = Some u"
    "disk_nops u" "d_sub_cycle (z_bus u) = d_sub_cycle (z_bus s) + 4" by blast
  with Suc.IH [of u] show ?case by (auto simp: algebra_simps)
qed

theorem pc88_sub_clock_drifts_witness:
  "\<exists>t. disk_slices fdc_absent 1000 (cpu_with_memory (\<lambda>_. 0)) = Some t
    \<and> d_sub_cycle (z_bus t) = 4000"
proof -
  have "disk_nops (cpu_with_memory (\<lambda>_. 0))"
    by (simp add: disk_nops_def cpu_with_memory_registers) (simp add: disk_with_memory_def)
  from pc88_sub_clock_drifts [OF this, of 1000] show ?thesis
    by (auto simp: cpu_with_memory_registers disk_with_memory_def)
qed

end
