(* ===== verification/Stack_Vec.thy ===== *)
theory Stack_Vec
  imports Prelude
begin

text \<open>
  The fixed-capacity vector of \<open>crates/stack_vec/src/lib.rs\<close>. The capacity, the constant
  parameter \<open>N\<close> of the Rust type, is the length of the storage and an argument of the
  operations that create a vector. A slot of the storage is \<open>None\<close> while it is
  uninitialised; reading or dropping such a slot is undefined behaviour and has the
  value \<open>None\<close>, as has the panic of a push past the capacity.

  \<open>stack_vec_ok\<close> is the invariant behind the SAFETY comments of the source: elements
  \<open>0..length\<close> are initialised. The lemmas show that every operation keeps it, that no
  operation on a vector in this state reads an uninitialised slot, and what each does
  to the list of elements (\<open>stack_vec_deref\<close>, the abstraction function).
\<close>

record 'a stack_vec =
  sv_data :: "'a option list"
  sv_length :: nat

definition stack_vec_new :: "nat \<Rightarrow> 'a stack_vec" where
  "stack_vec_new n = \<lparr> sv_data = replicate n None, sv_length = 0 \<rparr>"

definition stack_vec_is_full :: "'a stack_vec \<Rightarrow> bool" where
  "stack_vec_is_full v \<longleftrightarrow> sv_length v = length (sv_data v)"

definition stack_vec_push :: "'a \<Rightarrow> 'a stack_vec \<Rightarrow> 'a stack_vec option" where
  "stack_vec_push x v =
     (if sv_length v < length (sv_data v)
      then Some (v\<lparr>sv_data := (sv_data v)[sv_length v := Some x], sv_length := sv_length v + 1\<rparr>)
      else None)"

text \<open>\<open>deref\<close>: the slice of the elements; every one of its slots has to be initialised.\<close>

definition stack_vec_deref :: "'a stack_vec \<Rightarrow> 'a list option" where
  "stack_vec_deref v = those (take (sv_length v) (sv_data v))"

text \<open>
  \<open>deref_mut\<close> gives a slice to write to. A use of it is a function on the list of the
  elements that keeps their number, as \<open>sort_by_key\<close> does.
\<close>

definition stack_vec_deref_mut :: "('a list \<Rightarrow> 'a list) \<Rightarrow> 'a stack_vec \<Rightarrow> 'a stack_vec option" where
  "stack_vec_deref_mut f v =
     map_option (\<lambda>xs. v\<lparr>sv_data := map Some (f xs) @ drop (sv_length v) (sv_data v)\<rparr>)
       (stack_vec_deref v)"

text \<open>
  \<open>clear\<close> returns the elements it drops, in order. The length is zero before the first
  of them is dropped.
\<close>

fun stack_vec_drop_slots :: "'a option list \<Rightarrow> 'a list option" where
  "stack_vec_drop_slots [] = Some []"
| "stack_vec_drop_slots (None # slots) = None"
| "stack_vec_drop_slots (Some x # slots) = map_option (Cons x) (stack_vec_drop_slots slots)"

definition stack_vec_clear :: "'a stack_vec \<Rightarrow> ('a list \<times> 'a stack_vec) option" where
  "stack_vec_clear v =
     (let n = sv_length v; v = v\<lparr>sv_length := 0\<rparr> in
      map_option (\<lambda>dropped. (dropped,
          v\<lparr>sv_data := replicate n None @ drop n (sv_data v)\<rparr>))
        (stack_vec_drop_slots (take n (sv_data v))))"

fun stack_vec_extend :: "'a list \<Rightarrow> 'a stack_vec \<Rightarrow> 'a stack_vec option" where
  "stack_vec_extend [] v = Some v"
| "stack_vec_extend (item # iter) v =
     (case stack_vec_push item v of None \<Rightarrow> None | Some v \<Rightarrow> stack_vec_extend iter v)"

definition stack_vec_from_iter :: "nat \<Rightarrow> 'a list \<Rightarrow> 'a stack_vec option" where
  "stack_vec_from_iter n iter = stack_vec_extend iter (stack_vec_new n)"

text \<open>
  \<open>From<[T; M]>\<close>: an array longer than the capacity does not compile, so the function is
  only there for the other ones.
\<close>

definition stack_vec_from_array :: "nat \<Rightarrow> 'a list \<Rightarrow> 'a stack_vec option" where
  "stack_vec_from_array n array = (if length array \<le> n then stack_vec_from_iter n array else None)"

definition stack_vec_clone :: "'a stack_vec \<Rightarrow> 'a stack_vec option" where
  "stack_vec_clone v =
     (case stack_vec_deref v of None \<Rightarrow> None
      | Some xs \<Rightarrow> stack_vec_from_iter (length (sv_data v)) xs)"

definition stack_vec_eq :: "'a stack_vec \<Rightarrow> 'a stack_vec \<Rightarrow> bool option" where
  "stack_vec_eq v w =
     (case (stack_vec_deref v, stack_vec_deref w) of
        (Some xs, Some ys) \<Rightarrow> Some (xs = ys) | _ \<Rightarrow> None)"

section \<open>The safety invariant\<close>

definition stack_vec_ok :: "'a stack_vec \<Rightarrow> bool" where
  "stack_vec_ok v \<longleftrightarrow> sv_length v \<le> length (sv_data v) \<and> None \<notin> set (take (sv_length v) (sv_data v))"

text \<open>The abstraction: the vector holds the list, and its storage has the capacity.\<close>

definition stack_vec_holds :: "nat \<Rightarrow> 'a list \<Rightarrow> 'a stack_vec \<Rightarrow> bool" where
  "stack_vec_holds n xs v \<longleftrightarrow>
     length (sv_data v) = n \<and> sv_length v = length xs \<and> length xs \<le> n
     \<and> take (length xs) (sv_data v) = map Some xs"

lemma those_map_Some [simp]: "those (map Some xs) = Some xs"
  by (induction xs) auto

lemma drop_slots_map [simp]: "stack_vec_drop_slots (map Some xs) = Some xs"
  by (induction xs) auto

lemma ok_holds: "stack_vec_ok v \<longleftrightarrow> (\<exists>xs. stack_vec_holds (length (sv_data v)) xs v)"
proof
  assume ok: "stack_vec_ok v"
  have "None \<notin> set ys \<Longrightarrow> \<exists>xs. ys = map Some xs" for ys :: "'a option list"
  proof (induction ys)
    case (Cons y ys)
    then obtain x xs where "y = Some x" "ys = map Some xs" by (cases y) auto
    then show ?case by (intro exI [of _ "x # xs"]) simp
  qed simp
  then obtain xs where xs: "take (sv_length v) (sv_data v) = map Some xs"
    using ok by (auto simp: stack_vec_ok_def)
  then have "length xs = sv_length v"
    using ok by (metis stack_vec_ok_def length_map length_take min.absorb2)
  then show "\<exists>xs. stack_vec_holds (length (sv_data v)) xs v"
    using xs ok by (intro exI [of _ xs]) (auto simp: stack_vec_holds_def stack_vec_ok_def)
qed (auto simp: stack_vec_ok_def stack_vec_holds_def)

lemma holds_ok: "stack_vec_holds n xs v \<Longrightarrow> stack_vec_ok v"
  by (auto simp: stack_vec_ok_def stack_vec_holds_def)

lemma holds_deref: "stack_vec_holds n xs v \<Longrightarrow> stack_vec_deref v = Some xs"
  by (simp add: stack_vec_holds_def stack_vec_deref_def)

lemma holds_full: "stack_vec_holds n xs v \<Longrightarrow> stack_vec_is_full v \<longleftrightarrow> length xs = n"
  by (simp add: stack_vec_holds_def stack_vec_is_full_def)

lemma new_holds: "stack_vec_holds n [] (stack_vec_new n)"
  by (simp add: stack_vec_holds_def stack_vec_new_def)

lemma push_holds:
  assumes "stack_vec_holds n xs v"
  shows "if length xs < n then \<exists>w. stack_vec_push x v = Some w \<and> stack_vec_holds n (xs @ [x]) w
    else stack_vec_push x v = None"
  using assms
  by (auto simp: stack_vec_holds_def stack_vec_push_def take_Suc_conv_app_nth)

lemma extend_holds:
  assumes "stack_vec_holds n xs v"
  shows "if length xs + length ys \<le> n
    then \<exists>w. stack_vec_extend ys v = Some w \<and> stack_vec_holds n (xs @ ys) w
    else stack_vec_extend ys v = None"
  using assms
proof (induction ys arbitrary: xs v)
  case Nil
  then show ?case by (auto simp: stack_vec_holds_def)
next
  case (Cons y ys)
  show ?case
  proof (cases "length xs < n")
    case True
    then obtain w where "stack_vec_push y v = Some w" "stack_vec_holds n (xs @ [y]) w"
      using push_holds [OF Cons.prems, of y] by auto
    then show ?thesis using Cons.IH [of "xs @ [y]" w] by (auto split: if_splits)
  next
    case False
    then show ?thesis using push_holds [OF Cons.prems, of y] by simp
  qed
qed

lemma from_iter_holds:
  "if length ys \<le> n then \<exists>w. stack_vec_from_iter n ys = Some w \<and> stack_vec_holds n ys w
   else stack_vec_from_iter n ys = None"
  using extend_holds [OF new_holds, of ys n] by (auto simp: stack_vec_from_iter_def)

lemma from_array_holds:
  "length ys \<le> n \<Longrightarrow> \<exists>w. stack_vec_from_array n ys = Some w \<and> stack_vec_holds n ys w"
  using from_iter_holds [of ys n] by (simp add: stack_vec_from_array_def)

lemma deref_mut_holds:
  assumes "stack_vec_holds n xs v" and "length (f xs) = length xs"
  shows "\<exists>w. stack_vec_deref_mut f v = Some w \<and> stack_vec_holds n (f xs) w"
  using assms holds_deref [OF assms(1)] by (auto simp: stack_vec_deref_mut_def stack_vec_holds_def)

lemma clear_holds:
  assumes "stack_vec_holds n xs v"
  shows "\<exists>w. stack_vec_clear v = Some (xs, w) \<and> stack_vec_holds n [] w"
  using assms by (auto simp: stack_vec_clear_def stack_vec_holds_def Let_def)

lemma clone_holds:
  assumes "stack_vec_holds n xs v"
  shows "\<exists>w. stack_vec_clone v = Some w \<and> stack_vec_holds n xs w"
  using assms from_iter_holds [of xs n] holds_deref [OF assms]
  by (auto simp: stack_vec_clone_def stack_vec_holds_def split: if_splits)

lemma eq_holds:
  assumes "stack_vec_holds n xs v" and "stack_vec_holds m ys w"
  shows "stack_vec_eq v w = Some (xs = ys)"
  using holds_deref [OF assms(1)] holds_deref [OF assms(2)] by (simp add: stack_vec_eq_def)

section \<open>Programs over one vector\<close>

text \<open>
  A use of a vector is a sequence of requests. Each returns what the caller sees of it.
\<close>

datatype 'a stack_vec_request =
    SvPush 'a
  | SvClear
  | SvExtend "'a list"
  | SvSet nat 'a

fun stack_vec_step :: "'a stack_vec_request \<Rightarrow> 'a stack_vec \<Rightarrow> 'a stack_vec option" where
  "stack_vec_step (SvPush x) v = stack_vec_push x v"
| "stack_vec_step SvClear v = map_option snd (stack_vec_clear v)"
| "stack_vec_step (SvExtend xs) v = stack_vec_extend xs v"
| "stack_vec_step (SvSet i x) v =
     (if i < sv_length v then stack_vec_deref_mut (\<lambda>xs. xs[i := x]) v else None)"

text \<open>The same requests on the list of the elements, with the panic of a full vector and of an
  index out of range.\<close>

fun list_step :: "nat \<Rightarrow> 'a stack_vec_request \<Rightarrow> 'a list \<Rightarrow> 'a list option" where
  "list_step n (SvPush x) xs = (if length xs < n then Some (xs @ [x]) else None)"
| "list_step n SvClear xs = Some []"
| "list_step n (SvExtend ys) xs = (if length xs + length ys \<le> n then Some (xs @ ys) else None)"
| "list_step n (SvSet i x) xs = (if i < length xs then Some (xs[i := x]) else None)"

fun run_steps :: "('r \<Rightarrow> 's \<Rightarrow> 's option) \<Rightarrow> 'r list \<Rightarrow> 's \<Rightarrow> 's option" where
  "run_steps step [] s = Some s"
| "run_steps step (r # rs) s = (case step r s of None \<Rightarrow> None | Some t \<Rightarrow> run_steps step rs t)"

lemma step_refines:
  assumes "stack_vec_holds n xs v"
  shows "case list_step n r xs of
      None \<Rightarrow> stack_vec_step r v = None
    | Some ys \<Rightarrow> \<exists>w. stack_vec_step r v = Some w \<and> stack_vec_holds n ys w"
proof (cases r)
  case (SvPush x)
  then show ?thesis using push_holds [OF assms, of x] by simp
next
  case SvClear
  then show ?thesis using clear_holds [OF assms] by auto
next
  case (SvExtend ys)
  then show ?thesis using extend_holds [OF assms, of ys] by simp
next
  case (SvSet i x)
  then show ?thesis using deref_mut_holds [OF assms, of "\<lambda>xs. xs[i := x]"] assms
    by (auto simp: stack_vec_holds_def)
qed

lemma run_refines:
  assumes "stack_vec_holds n xs v"
  shows "case run_steps (list_step n) rs xs of
      None \<Rightarrow> run_steps stack_vec_step rs v = None
    | Some ys \<Rightarrow> \<exists>w. run_steps stack_vec_step rs v = Some w \<and> stack_vec_holds n ys w"
  using assms
proof (induction rs arbitrary: xs v)
  case (Cons r rs)
  show ?case
  proof (cases "list_step n r xs")
    case None
    then show ?thesis using step_refines [OF Cons.prems, of r] by simp
  next
    case (Some ys)
    then obtain w where "stack_vec_step r v = Some w" "stack_vec_holds n ys w"
      using step_refines [OF Cons.prems, of r] by auto
    then show ?thesis using Some Cons.IH [of ys w] by (auto split: option.splits)
  qed
qed simp

text \<open>
  C35 Memory safety and functional refinement of the stack vector. Every program of
  pushes, extensions, writes through the mutable slice and clears, started on a new
  vector of capacity \<open>n\<close>, does to the vector what the same program does to a list: it
  panics exactly when a push meets \<open>n\<close> elements, and otherwise the slice it reads back is
  that list, so no uninitialised slot is ever read or dropped.
\<close>

theorem stack_vec_refines_list:
  "Option.bind (run_steps stack_vec_step rs (stack_vec_new n)) stack_vec_deref
     = run_steps (list_step n) rs []"
  using run_refines [OF new_holds, of rs n] holds_deref
  by (auto split: option.splits)

end
