(* ===== verification/Scheduler.thy ===== *)
theory Scheduler
  imports Save_Restore Stack_Vec "HOL-Library.Product_Lexorder"
begin

text \<open>
  The shared event scheduler \<open>SchedulerState\<close> of \<open>crates/common/src/scheduler.rs\<close>: one
  deadline per event kind in the order of the machine's frozen priorities. An index out
  of range panics (\<open>None\<close>), as does a \<open>pop_due\<close> whose capacity is too small.

  The locale \<open>event_queue\<close> is the contract a machine's main loop relies on. It is
  interpreted here on the shared state with \<open>n\<close> slots (\<open>slots\<close>) and in
  \<open>Pc88_Scheduler\<close> on the scheduler of the PC-8801.
\<close>

section \<open>The shared scheduler state\<close>

record scheduler_state =
  sched_fire_cycles :: "u64 option list"

record scheduled_event_index =
  sei_index :: nat
  sei_fire_cycle :: u64

definition scheduler_state_new :: "nat \<Rightarrow> scheduler_state" where
  "scheduler_state_new event_count = \<lparr> sched_fire_cycles = replicate event_count None \<rparr>"

definition scheduler_set_slot ::
  "nat \<Rightarrow> u64 option \<Rightarrow> scheduler_state \<Rightarrow> scheduler_state option" where
  "scheduler_set_slot index slot s =
     (if index < length (sched_fire_cycles s)
      then Some (s\<lparr>sched_fire_cycles := (sched_fire_cycles s)[index := slot]\<rparr>) else None)"

definition scheduler_schedule :: "nat \<Rightarrow> u64 \<Rightarrow> scheduler_state \<Rightarrow> scheduler_state option" where
  "scheduler_schedule index fire_cycle = scheduler_set_slot index (Some fire_cycle)"

definition scheduler_cancel :: "nat \<Rightarrow> scheduler_state \<Rightarrow> scheduler_state option" where
  "scheduler_cancel index = scheduler_set_slot index None"

definition scheduler_is_scheduled :: "nat \<Rightarrow> scheduler_state \<Rightarrow> bool option" where
  "scheduler_is_scheduled index s =
     (if index < length (sched_fire_cycles s)
      then Some (sched_fire_cycles s ! index \<noteq> None) else None)"

definition scheduler_next_event_cycle :: "scheduler_state \<Rightarrow> u64 option" where
  "scheduler_next_event_cycle s =
     (case List.map_filter id (sched_fire_cycles s) of
        [] \<Rightarrow> None
      | c # cs \<Rightarrow> Some (foldl min c cs))"

fun scheduler_collect_due ::
  "u64 \<Rightarrow> nat \<Rightarrow> u64 option list \<Rightarrow> scheduled_event_index stack_vec
     \<Rightarrow> (u64 option list \<times> scheduled_event_index stack_vec) option" where
  "scheduler_collect_due current_cycle index [] due = Some ([], due)"
| "scheduler_collect_due current_cycle index (slot # slots) due =
     (if (case slot of Some fire_cycle \<Rightarrow> fire_cycle \<le> current_cycle | None \<Rightarrow> False)
      then Option.bind (stack_vec_push \<lparr> sei_index = index, sei_fire_cycle = the slot \<rparr> due) (\<lambda>due.
        Option.bind (scheduler_collect_due current_cycle (index + 1) slots due) (\<lambda>(slots, due).
          Some (None # slots, due)))
      else Option.bind (scheduler_collect_due current_cycle (index + 1) slots due) (\<lambda>(slots, due).
          Some (slot # slots, due)))"

definition scheduler_pop_due ::
  "nat \<Rightarrow> u64 \<Rightarrow> scheduler_state \<Rightarrow> (scheduled_event_index stack_vec \<times> scheduler_state) option" where
  "scheduler_pop_due capacity current_cycle s =
     (if length (sched_fire_cycles s) \<le> capacity then
        Option.bind (scheduler_collect_due current_cycle 0 (sched_fire_cycles s) (stack_vec_new capacity))
          (\<lambda>(slots, due).
             Option.bind (stack_vec_deref_mut (sort_key (\<lambda>event. (sei_fire_cycle event, sei_index event))) due)
               (\<lambda>due. Some (due, s\<lparr>sched_fire_cycles := slots\<rparr>)))
      else None)"

fun decimal :: "nat \<Rightarrow> string" where
  "decimal n = (if n < 10 then [char_of (48 + n)] else decimal (n div 10) @ [char_of (48 + n mod 10)])"

definition scheduler_validate_state :: "nat \<Rightarrow> scheduler_state \<Rightarrow> validation_error + unit" where
  "scheduler_validate_state expected_event_count s =
     (if length (sched_fire_cycles s) \<noteq> expected_event_count
      then Inl (''scheduler event count differs: expected '' @ decimal expected_event_count
        @ '', decoded '' @ decimal (length (sched_fire_cycles s)))
      else Inr ())"

section \<open>The contract of an event queue\<close>

text \<open>
  \<open>pending\<close> is what a queue promises about: the deadline of every event kind. Popping
  returns the events that are due, in the order of their deadlines and, for equal
  deadlines, of their kinds, and leaves the others.
\<close>

locale event_queue =
  fixes valid :: "'s \<Rightarrow> bool"
    and kinds :: "'k::linorder set"
    and pending :: "'s \<Rightarrow> 'k \<Rightarrow> u64 option"
    and schedule :: "'k \<Rightarrow> u64 \<Rightarrow> 's \<Rightarrow> 's option"
    and cancel :: "'k \<Rightarrow> 's \<Rightarrow> 's option"
    and next_cycle :: "'s \<Rightarrow> u64 option"
    and pop :: "u64 \<Rightarrow> 's \<Rightarrow> ((u64 \<times> 'k) list \<times> 's) option"
  assumes schedule_law: "valid s \<Longrightarrow> k \<in> kinds
      \<Longrightarrow> \<exists>t. schedule k c s = Some t \<and> valid t \<and> pending t = (pending s)(k \<mapsto> c)"
    and cancel_law: "valid s \<Longrightarrow> k \<in> kinds
      \<Longrightarrow> \<exists>t. cancel k s = Some t \<and> valid t \<and> pending t = (pending s)(k := None)"
    and next_law: "valid s \<Longrightarrow> next_cycle s = None \<longleftrightarrow> dom (pending s) = {}"
    and next_law_Some: "valid s \<Longrightarrow> next_cycle s = Some c
      \<Longrightarrow> c \<in> ran (pending s) \<and> (\<forall>d\<in>ran (pending s). c \<le> d)"
    and pop_law: "valid s \<Longrightarrow> \<exists>es t. pop now s = Some (es, t) \<and> valid t
      \<and> pending t = (\<lambda>k. case pending s k of Some c \<Rightarrow> if c \<le> now then None else Some c | None \<Rightarrow> None)
      \<and> set es = {(c, k). pending s k = Some c \<and> c \<le> now} \<and> sorted_wrt (<) es"
begin

lemma popD:
  assumes "valid s" and "pop now s = Some (es, t)"
  shows "valid t"
    and "pending t = (\<lambda>k. case pending s k of Some c \<Rightarrow> if c \<le> now then None else Some c | None \<Rightarrow> None)"
    and "set es = {(c, k). pending s k = Some c \<and> c \<le> now}" and "sorted_wrt (<) es"
  using pop_law [OF assms(1), of now] assms(2) by auto

lemma next_after_pop:
  assumes "valid s" and "pop now s = Some (es, t)" and "next_cycle t = Some c"
  shows "now < c"
  using next_law_Some [OF popD(1) [OF assms(1,2)] assms(3)] popD(2) [OF assms(1,2)]
  by (auto simp: ran_def split: option.splits if_splits)

text \<open>Before the next deadline there is nothing to pop.\<close>

lemma pop_before_next:
  assumes "valid s" and "case next_cycle s of None \<Rightarrow> True | Some c \<Rightarrow> now < c"
  shows "\<exists>t. pop now s = Some ([], t) \<and> pending t = pending s"
proof -
  obtain es t where pop: "pop now s = Some (es, t)" using pop_law [OF assms(1), of now] by blast
  note laws = popD [OF assms(1) pop]
  have late: "\<not> c \<le> now" if "pending s k = Some c" for k c
  proof (cases "next_cycle s")
    case None
    then show ?thesis using next_law [OF assms(1)] that by auto
  next
    case (Some d)
    then have "d \<le> c" using next_law_Some [OF assms(1) Some] that by (auto simp: ran_def)
    then show ?thesis using Some assms(2) by simp
  qed
  then have "set es = {}" using laws(3) by auto
  then have "es = []" by simp
  moreover have "pending t = pending s" using laws(2) late by (auto simp: fun_eq_iff split: option.splits)
  ultimately show ?thesis using pop by blast
qed

text \<open>
  Stepping to a cycle in one go or by way of an earlier cycle delivers the same events in
  the same order.
\<close>

lemma pop_split:
  assumes "valid s" and "now \<le> later"
    and "pop now s = Some (es, t)" and "pop later t = Some (fs, u)"
  shows "\<exists>v. pop later s = Some (es @ fs, v) \<and> pending v = pending u"
proof -
  note e = popD [OF assms(1,3)]
  note f = popD [OF e(1) assms(4)]
  obtain gs v where pop: "pop later s = Some (gs, v)" using pop_law [OF assms(1), of later] by blast
  note g = popD [OF assms(1) pop]
  have "sorted_wrt (<) (es @ fs)"
    using e(4) f(4) e(2,3) f(3) by (auto simp: sorted_wrt_append less_prod_def split: option.splits if_splits)
  moreover have "set (es @ fs) = set gs"
    using e(2,3) f(3) g(3) assms(2) by (auto split: option.splits if_splits)
  ultimately have "gs = es @ fs" using g(4) strict_sorted_equal by blast
  moreover have "pending v = pending u"
    using e(2) f(2) g(2) assms(2) by (auto simp: fun_eq_iff split: option.splits)
  ultimately show ?thesis using pop by blast
qed

text \<open>An event that is due is delivered once.\<close>

lemma pop_once:
  assumes "valid s" and "pop now s = Some (es, t)"
  shows "distinct (map snd es)"
proof -
  have inj: "inj_on snd (set es)" using popD(3) [OF assms] by (auto simp: inj_on_def)
  have "distinct es" using popD(4) [OF assms] by (rule strict_sorted_iff [THEN iffD1, THEN conjunct2])
  then show ?thesis using inj by (simp add: distinct_map)
qed

end

section \<open>The shared state keeps the contract\<close>

definition scheduler_pending :: "scheduler_state \<Rightarrow> nat \<Rightarrow> u64 option" where
  "scheduler_pending s k =
     (if k < length (sched_fire_cycles s) then sched_fire_cycles s ! k else None)"

lemma set_slot_pending:
  assumes "k < length (sched_fire_cycles s)"
  shows "\<exists>t. scheduler_set_slot k slot s = Some t
    \<and> length (sched_fire_cycles t) = length (sched_fire_cycles s)
    \<and> scheduler_pending t = (scheduler_pending s)(k := slot)"
  using assms by (auto simp: scheduler_set_slot_def scheduler_pending_def fun_eq_iff nth_list_update)

lemma set_filter_id: "set (List.map_filter id xs) = {c. Some c \<in> set xs}"
  by (induction xs) (auto simp: map_filter_simps split: option.splits)

lemma ran_pending: "ran (scheduler_pending s) = {c. Some c \<in> set (sched_fire_cycles s)}"
  by (auto simp: ran_def scheduler_pending_def in_set_conv_nth split: if_splits)

lemma foldl_min_least: "foldl min (c :: 'a::linorder) cs \<in> set (c # cs) \<and> (\<forall>d\<in>set (c # cs). foldl min c cs \<le> d)"
proof (induction cs arbitrary: c)
  case (Cons d cs)
  from Cons.IH [of "min c d"] show ?case
    by (auto simp: min_def split: if_splits)
qed simp

lemma next_event_cycle_least:
  "case scheduler_next_event_cycle s of
     None \<Rightarrow> ran (scheduler_pending s) = {}
   | Some c \<Rightarrow> c \<in> ran (scheduler_pending s) \<and> (\<forall>d\<in>ran (scheduler_pending s). c \<le> d)"
proof -
  have r: "ran (scheduler_pending s) = set (List.map_filter id (sched_fire_cycles s))"
    by (simp add: ran_pending set_filter_id)
  show ?thesis
  proof (cases "List.map_filter id (sched_fire_cycles s)")
    case Nil
    then show ?thesis by (simp add: r scheduler_next_event_cycle_def)
  next
    case (Cons c cs)
    then show ?thesis using foldl_min_least [of c cs] by (simp add: r scheduler_next_event_cycle_def)
  qed
qed

text \<open>What the scan of the slots collects, from the slot numbered \<open>i\<close> on.\<close>

definition due_slots :: "u64 \<Rightarrow> nat \<Rightarrow> u64 option list \<Rightarrow> scheduled_event_index list" where
  "due_slots now i slots =
     map (\<lambda>k. \<lparr> sei_index = i + k, sei_fire_cycle = the (slots ! k) \<rparr>)
       (filter (\<lambda>k. \<exists>c. slots ! k = Some c \<and> c \<le> now) [0..<length slots])"

definition later_slot :: "u64 \<Rightarrow> u64 option \<Rightarrow> u64 option" where
  "later_slot now slot = (case slot of Some c \<Rightarrow> if c \<le> now then None else Some c | None \<Rightarrow> None)"

lemma filter_upt_Suc: "filter P [0..<Suc n] = (if P 0 then [0] else []) @ map Suc (filter (P \<circ> Suc) [0..<n])"
proof -
  have "[0..<Suc n] = 0 # map Suc [0..<n]" by (simp add: map_Suc_upt upt_conv_Cons del: upt_Suc)
  then show ?thesis by (simp only: filter.simps filter_map) auto
qed

lemma due_slots_Cons:
  "due_slots now i (slot # slots) =
     (case slot of Some c \<Rightarrow> if c \<le> now then [\<lparr> sei_index = i, sei_fire_cycle = c \<rparr>] else [] | None \<Rightarrow> [])
       @ due_slots now (i + 1) slots"
  by (simp add: due_slots_def filter_upt_Suc comp_def split: option.splits del: upt_Suc)

lemma due_slots_length: "length (due_slots now i slots) \<le> length slots"
  unfolding due_slots_def length_map
  by (rule order_trans [OF length_filter_le]) simp

lemma collect_due_result:
  assumes "stack_vec_holds n xs due" and "length xs + length slots \<le> n"
  shows "\<exists>w. scheduler_collect_due now i slots due = Some (map (later_slot now) slots, w)
    \<and> stack_vec_holds n (xs @ due_slots now i slots) w"
  using assms
proof (induction slots arbitrary: i xs due)
  case Nil
  then show ?case by (simp add: due_slots_def)
next
  case (Cons slot slots)
  show ?case
  proof (cases "\<exists>c. slot = Some c \<and> c \<le> now")
    case True
    then obtain c where c: "slot = Some c" "c \<le> now" by blast
    obtain w where "stack_vec_push \<lparr> sei_index = i, sei_fire_cycle = c \<rparr> due = Some w"
      "stack_vec_holds n (xs @ [\<lparr> sei_index = i, sei_fire_cycle = c \<rparr>]) w"
      using push_holds [OF Cons.prems(1)] Cons.prems(2) by fastforce
    then show ?thesis
      using Cons.IH [of _ w "i + 1"] Cons.prems(2) c
      by (fastforce simp: due_slots_Cons later_slot_def)
  next
    case False
    then show ?thesis
      using Cons.IH [OF Cons.prems(1), of "i + 1"] Cons.prems(2)
      by (auto simp: due_slots_Cons later_slot_def split: option.splits)
  qed
qed

definition event_key :: "scheduled_event_index \<Rightarrow> u64 \<times> nat" where
  "event_key e = (sei_fire_cycle e, sei_index e)"

lemma due_slots_keys:
  "set (map event_key (due_slots now 0 slots))
     = {(c, k). k < length slots \<and> slots ! k = Some c \<and> c \<le> now}"
proof -
  have "set (map event_key (due_slots now 0 slots))
      = (\<lambda>k. (the (slots ! k), k)) ` {k. k < length slots \<and> (\<exists>c. slots ! k = Some c \<and> c \<le> now)}"
    by (simp add: due_slots_def event_key_def image_image atLeast0LessThan Collect_conj_eq Int_commute lessThan_def)
  also have "\<dots> = {(c, k). k < length slots \<and> slots ! k = Some c \<and> c \<le> now}"
    by (auto simp: image_iff)
  finally show ?thesis .
qed

lemma due_slots_distinct: "distinct (map event_key (due_slots now i slots))"
proof -
  have "distinct (map (sei_index) (due_slots now i slots))"
    by (simp add: due_slots_def comp_def distinct_map inj_on_def)
  then show ?thesis by (auto simp: distinct_map inj_on_def event_key_def)
qed

lemma sort_key_strict:
  assumes "distinct (map f xs)"
  shows "sorted_wrt (<) (map f (sort_key f xs))"
proof -
  have "distinct (map f (sort_key f xs))"
    using assms by (simp add: distinct_map)
  then show ?thesis by (simp add: strict_sorted_iff)
qed

text \<open>
  \<open>pop_due\<close> neither panics nor reads an uninitialised slot when its capacity is that of
  the event table.
\<close>

lemma pop_due_result:
  assumes "length (sched_fire_cycles s) \<le> capacity"
  shows "\<exists>w. scheduler_pop_due capacity now s
        = Some (w, s\<lparr>sched_fire_cycles := map (later_slot now) (sched_fire_cycles s)\<rparr>)
    \<and> stack_vec_holds capacity (sort_key event_key (due_slots now 0 (sched_fire_cycles s))) w"
proof -
  obtain v where v: "scheduler_collect_due now 0 (sched_fire_cycles s) (stack_vec_new capacity)
      = Some (map (later_slot now) (sched_fire_cycles s), v)"
    and h: "stack_vec_holds capacity (due_slots now 0 (sched_fire_cycles s)) v"
    using collect_due_result [OF new_holds, of "sched_fire_cycles s" capacity now 0] assms by auto
  obtain w where "stack_vec_deref_mut (sort_key event_key) v = Some w"
    "stack_vec_holds capacity (sort_key event_key (due_slots now 0 (sched_fire_cycles s))) w"
    using deref_mut_holds [OF h, of "sort_key event_key"] by auto
  then show ?thesis
    using assms v by (auto simp: scheduler_pop_due_def event_key_def [abs_def])
qed

lemma pop_due_pending:
  "scheduler_pending (s\<lparr>sched_fire_cycles := map (later_slot now) (sched_fire_cycles s)\<rparr>)
     = (\<lambda>k. case scheduler_pending s k of Some c \<Rightarrow> if c \<le> now then None else Some c | None \<Rightarrow> None)"
  by (auto simp: scheduler_pending_def later_slot_def fun_eq_iff)

text \<open>The popped events as the contract sees them.\<close>

definition scheduler_pop :: "nat \<Rightarrow> u64 \<Rightarrow> scheduler_state \<Rightarrow> ((u64 \<times> nat) list \<times> scheduler_state) option" where
  "scheduler_pop capacity now s =
     Option.bind (scheduler_pop_due capacity now s) (\<lambda>(due, s).
       map_option (\<lambda>events. (map event_key events, s)) (stack_vec_deref due))"

lemma pop_law_slots:
  assumes "length (sched_fire_cycles s) = n"
  shows "\<exists>es t. scheduler_pop n now s = Some (es, t) \<and> length (sched_fire_cycles t) = n
      \<and> scheduler_pending t
          = (\<lambda>k. case scheduler_pending s k of Some c \<Rightarrow> if c \<le> now then None else Some c | None \<Rightarrow> None)
      \<and> set es = {(c, k). scheduler_pending s k = Some c \<and> c \<le> now} \<and> sorted_wrt (<) es"
proof -
  let ?slots = "sched_fire_cycles s"
  let ?es = "sort_key event_key (due_slots now 0 ?slots)"
  obtain w where w: "scheduler_pop_due n now s = Some (w, s\<lparr>sched_fire_cycles := map (later_slot now) ?slots\<rparr>)"
    and h: "stack_vec_holds n ?es w"
    using pop_due_result [of s n now] assms by auto
  have "scheduler_pop n now s = Some (map event_key ?es, s\<lparr>sched_fire_cycles := map (later_slot now) ?slots\<rparr>)"
    using w holds_deref [OF h] by (simp add: scheduler_pop_def)
  moreover have "set (map event_key ?es) = {(c, k). scheduler_pending s k = Some c \<and> c \<le> now}"
    using due_slots_keys [of now ?slots] by (auto simp: scheduler_pending_def split: if_splits)
  ultimately show ?thesis
    using pop_due_pending [of now s] sort_key_strict [OF due_slots_distinct, of now 0 ?slots] assms
    by (intro exI conjI) auto
qed

interpretation slots: event_queue "\<lambda>s. length (sched_fire_cycles s) = n" "{..<n}" scheduler_pending
  scheduler_schedule scheduler_cancel scheduler_next_event_cycle "scheduler_pop n" for n
proof
  show "scheduler_next_event_cycle s = None \<longleftrightarrow> dom (scheduler_pending s) = {}" for s
    using next_event_cycle_least [of s]
    by (cases "scheduler_next_event_cycle s") (auto simp: ran_def dom_def)
  show "c \<in> ran (scheduler_pending s) \<and> (\<forall>d\<in>ran (scheduler_pending s). c \<le> d)"
    if "scheduler_next_event_cycle s = Some c" for s c
    using next_event_cycle_least [of s] that by simp
qed (use set_slot_pending in \<open>auto simp: scheduler_schedule_def scheduler_cancel_def pop_law_slots\<close>)

end
