(* ===== verification/Pc88_Scheduler.thy ===== *)
theory Pc88_Scheduler
  imports Scheduler
begin

text \<open>
  The scheduler of the PC-8801 (\<open>crates/machine_88/src/scheduler.rs\<close>): its fifteen kinds
  of events over the shared \<open>scheduler_state\<close>. Event kinds are ordered by their
  discriminant, the frozen priority of the machine; the scheduler is an interpretation
  of \<open>event_queue\<close>, from which its properties follow.
\<close>

section \<open>Events and operations\<close>

datatype event88 =
    ClockTimer | CrtcVline | CrtcBusRequestEnd | CrtcVsync | CrtcDisplayStart | FmTimerA | FmTimerB
  | FdcPhaseComplete | FdcDrqByte | FdcDataLost | FdcResult | FdcIndexPulse | FdcSeekComplete
  | FdcTcClear | BeepToggle

definition event88_kind_count :: nat where
  "event88_kind_count = 15"

text \<open>\<open>kind as usize\<close>: the position of the variant in the declaration of the enum.\<close>

fun event88_discriminant :: "event88 \<Rightarrow> nat" where
  "event88_discriminant ClockTimer = 0"
| "event88_discriminant CrtcVline = 1"
| "event88_discriminant CrtcBusRequestEnd = 2"
| "event88_discriminant CrtcVsync = 3"
| "event88_discriminant CrtcDisplayStart = 4"
| "event88_discriminant FmTimerA = 5"
| "event88_discriminant FmTimerB = 6"
| "event88_discriminant FdcPhaseComplete = 7"
| "event88_discriminant FdcDrqByte = 8"
| "event88_discriminant FdcDataLost = 9"
| "event88_discriminant FdcResult = 10"
| "event88_discriminant FdcIndexPulse = 11"
| "event88_discriminant FdcSeekComplete = 12"
| "event88_discriminant FdcTcClear = 13"
| "event88_discriminant BeepToggle = 14"

definition event88_all :: "event88 list" where
  "event88_all =
    [ClockTimer, CrtcVline, CrtcBusRequestEnd, CrtcVsync, CrtcDisplayStart, FmTimerA, FmTimerB,
     FdcPhaseComplete, FdcDrqByte, FdcDataLost, FdcResult, FdcIndexPulse, FdcSeekComplete,
     FdcTcClear, BeepToggle]"

definition event88_from_index :: "nat \<Rightarrow> event88 option" where
  "event88_from_index index = (if index < length event88_all then Some (event88_all ! index) else None)"

record scheduled_event88 =
  se88_fire_cycle :: u64
  se88_kind :: event88

record pc8801_scheduler =
  p88s_state :: scheduler_state

definition pc8801_scheduler_new :: pc8801_scheduler where
  "pc8801_scheduler_new = \<lparr> p88s_state = scheduler_state_new event88_kind_count \<rparr>"

definition pc8801_scheduler_capture_state :: "pc8801_scheduler \<Rightarrow> scheduler_state" where
  "pc8801_scheduler_capture_state p = p88s_state p"

definition pc8801_scheduler_restore_state ::
  "scheduler_state \<Rightarrow> pc8801_scheduler \<Rightarrow> (validation_error + unit) \<times> pc8801_scheduler" where
  "pc8801_scheduler_restore_state s p =
     (case scheduler_validate_state event88_kind_count s of
        Inl e \<Rightarrow> (Inl e, p)
      | Inr _ \<Rightarrow> (Inr (), p\<lparr>p88s_state := s\<rparr>))"

definition pc8801_scheduler_schedule ::
  "event88 \<Rightarrow> u64 \<Rightarrow> pc8801_scheduler \<Rightarrow> pc8801_scheduler option" where
  "pc8801_scheduler_schedule kind fire_cycle p =
     map_option (\<lambda>s. p\<lparr>p88s_state := s\<rparr>)
       (scheduler_schedule (event88_discriminant kind) fire_cycle (p88s_state p))"

definition pc8801_scheduler_cancel :: "event88 \<Rightarrow> pc8801_scheduler \<Rightarrow> pc8801_scheduler option" where
  "pc8801_scheduler_cancel kind p =
     map_option (\<lambda>s. p\<lparr>p88s_state := s\<rparr>) (scheduler_cancel (event88_discriminant kind) (p88s_state p))"

definition pc8801_scheduler_next_event_cycle :: "pc8801_scheduler \<Rightarrow> u64 option" where
  "pc8801_scheduler_next_event_cycle p = scheduler_next_event_cycle (p88s_state p)"

fun pc8801_push_due ::
  "scheduled_event_index list \<Rightarrow> scheduled_event88 stack_vec \<Rightarrow> scheduled_event88 stack_vec option" where
  "pc8801_push_due [] due = Some due"
| "pc8801_push_due (event # events) due =
     Option.bind (event88_from_index (sei_index event)) (\<lambda>kind.
     Option.bind (stack_vec_push \<lparr> se88_fire_cycle = sei_fire_cycle event, se88_kind = kind \<rparr> due)
       (pc8801_push_due events))"

definition pc8801_scheduler_pop_due_events ::
  "u64 \<Rightarrow> pc8801_scheduler \<Rightarrow> (scheduled_event88 stack_vec \<times> pc8801_scheduler) option" where
  "pc8801_scheduler_pop_due_events current_cycle p =
     Option.bind (scheduler_pop_due event88_kind_count current_cycle (p88s_state p)) (\<lambda>(indexes, s).
     Option.bind (stack_vec_deref indexes) (\<lambda>events.
     Option.bind (pc8801_push_due events (stack_vec_new event88_kind_count)) (\<lambda>due.
       Some (due, p\<lparr>p88s_state := s\<rparr>))))"

section \<open>The order of the event kinds\<close>

lemma discriminant_inject: "event88_discriminant a = event88_discriminant b \<longleftrightarrow> a = b"
  by (cases a; cases b) simp_all

instantiation event88 :: linorder
begin

definition less_eq_event88 :: "event88 \<Rightarrow> event88 \<Rightarrow> bool" where
  "less_eq_event88 a b \<longleftrightarrow> event88_discriminant a \<le> event88_discriminant b"

definition less_event88 :: "event88 \<Rightarrow> event88 \<Rightarrow> bool" where
  "less_event88 a b \<longleftrightarrow> event88_discriminant a < event88_discriminant b"

instance
  by intro_classes (auto simp: less_eq_event88_def less_event88_def discriminant_inject)

end

lemma discriminant_less: "event88_discriminant k < event88_kind_count"
  by (cases k) (simp_all add: event88_kind_count_def)

lemma from_index_discriminant: "event88_from_index (event88_discriminant k) = Some k"
  by (cases k) (simp_all add: event88_from_index_def event88_all_def)

lemma from_index_Some:
  "i < event88_kind_count \<Longrightarrow> \<exists>k. event88_from_index i = Some k \<and> event88_discriminant k = i"
proof -
  assume "i < event88_kind_count"
  then have "i \<in> {0, 1, 2, 3, 4, 5, 6, 7, 8, 9, 10, 11, 12, 13, 14}"
    unfolding event88_kind_count_def insert_iff empty_iff by presburger
  then show ?thesis by (auto simp: event88_from_index_def event88_all_def)
qed

section \<open>The scheduler keeps the contract\<close>

definition pc8801_valid :: "pc8801_scheduler \<Rightarrow> bool" where
  "pc8801_valid p \<longleftrightarrow> length (sched_fire_cycles (p88s_state p)) = event88_kind_count"

definition pc8801_pending :: "pc8801_scheduler \<Rightarrow> event88 \<Rightarrow> u64 option" where
  "pc8801_pending p k = scheduler_pending (p88s_state p) (event88_discriminant k)"

definition event88_key :: "scheduled_event88 \<Rightarrow> u64 \<times> event88" where
  "event88_key e = (se88_fire_cycle e, se88_kind e)"

definition pc8801_pop ::
  "u64 \<Rightarrow> pc8801_scheduler \<Rightarrow> ((u64 \<times> event88) list \<times> pc8801_scheduler) option" where
  "pc8801_pop now p =
     Option.bind (pc8801_scheduler_pop_due_events now p) (\<lambda>(due, p).
       map_option (\<lambda>events. (map event88_key events, p)) (stack_vec_deref due))"

lemma push_due_result:
  assumes "stack_vec_holds n xs due" and "length xs + length events \<le> n"
    and "\<And>e. e \<in> set events \<Longrightarrow> sei_index e < event88_kind_count"
  shows "\<exists>w ys. pc8801_push_due events due = Some w \<and> stack_vec_holds n (xs @ ys) w
    \<and> map (\<lambda>e. (se88_fire_cycle e, event88_discriminant (se88_kind e))) ys = map event_key events"
  using assms
proof (induction events arbitrary: xs due)
  case Nil
  then show ?case by auto
next
  case (Cons e events)
  obtain k where k: "event88_from_index (sei_index e) = Some k" "event88_discriminant k = sei_index e"
    using from_index_Some Cons.prems(3) by (meson list.set_intros(1))
  let ?e = "\<lparr> se88_fire_cycle = sei_fire_cycle e, se88_kind = k \<rparr>"
  obtain w where w: "stack_vec_push ?e due = Some w" "stack_vec_holds n (xs @ [?e]) w"
    using push_holds [OF Cons.prems(1), of ?e] Cons.prems(2) by auto
  obtain v ys where v: "pc8801_push_due events w = Some v" "stack_vec_holds n ((xs @ [?e]) @ ys) v"
    "map (\<lambda>e. (se88_fire_cycle e, event88_discriminant (se88_kind e))) ys = map event_key events"
    using Cons.IH [OF w(2)] Cons.prems(2,3) by auto
  show ?case
    using k w(1) v by (intro exI [of _ v] exI [of _ "?e # ys"]) (auto simp: event_key_def)
qed

text \<open>Popping never panics: the events of the shared state, with their kinds.\<close>

lemma pop_due_events_result:
  assumes "pc8801_valid p"
  shows "\<exists>ks q es. pc8801_pop now p = Some (ks, q)
    \<and> scheduler_pop event88_kind_count now (p88s_state p) = Some (es, p88s_state q)
    \<and> map (map_prod id event88_discriminant) ks = es"
proof -
  let ?s = "p88s_state p"
  let ?due = "sort_key event_key (due_slots now 0 (sched_fire_cycles ?s))"
  have len: "length (sched_fire_cycles ?s) = event88_kind_count" using assms by (simp add: pc8801_valid_def)
  obtain w where w: "scheduler_pop_due event88_kind_count now ?s
      = Some (w, ?s\<lparr>sched_fire_cycles := map (later_slot now) (sched_fire_cycles ?s)\<rparr>)"
    and h: "stack_vec_holds event88_kind_count ?due w"
    using pop_due_result [of ?s event88_kind_count now] len by auto
  have small: "length ?due \<le> event88_kind_count"
    using due_slots_length [of now 0 "sched_fire_cycles ?s"] len by simp
  have index: "sei_index e < event88_kind_count" if "e \<in> set ?due" for e
    using that len by (auto simp: due_slots_def)
  obtain v ys where v: "pc8801_push_due ?due (stack_vec_new event88_kind_count) = Some v"
    "stack_vec_holds event88_kind_count ys v"
    "map (\<lambda>e. (se88_fire_cycle e, event88_discriminant (se88_kind e))) ys = map event_key ?due"
    using push_due_result [OF new_holds, of ?due event88_kind_count] small index by auto
  have "map (map_prod id event88_discriminant) (map event88_key ys) = map event_key ?due"
    using v(3) by (simp add: event88_key_def comp_def)
  then show ?thesis
    using w holds_deref [OF h] v(1) holds_deref [OF v(2)]
    by (auto simp: pc8801_pop_def pc8801_scheduler_pop_due_events_def scheduler_pop_def)
qed

lemma pc8801_pop_law:
  assumes "pc8801_valid p"
  shows "\<exists>es q. pc8801_pop now p = Some (es, q) \<and> pc8801_valid q
    \<and> pc8801_pending q
        = (\<lambda>k. case pc8801_pending p k of Some c \<Rightarrow> if c \<le> now then None else Some c | None \<Rightarrow> None)
    \<and> set es = {(c, k). pc8801_pending p k = Some c \<and> c \<le> now} \<and> sorted_wrt (<) es"
proof -
  obtain ks q es where p: "pc8801_pop now p = Some (ks, q)"
    and s: "scheduler_pop event88_kind_count now (p88s_state p) = Some (es, p88s_state q)"
    and es: "map (map_prod id event88_discriminant) ks = es"
    using pop_due_events_result [OF assms] by blast
  have "length (sched_fire_cycles (p88s_state p)) = event88_kind_count" using assms by (simp add: pc8801_valid_def)
  note law = slots.popD [OF this s]
  have "(c, k) \<in> set ks \<longleftrightarrow> (c, event88_discriminant k) \<in> set es" for c k
    unfolding es [symmetric] set_map image_iff by (force simp: discriminant_inject)
  then have "set ks = {(c, k). pc8801_pending p k = Some c \<and> c \<le> now}"
    by (auto simp: law(3) pc8801_pending_def)
  moreover have "sorted_wrt (<) ks"
    using law(4) unfolding es [symmetric] sorted_wrt_map
    by (rule sorted_wrt_mono_rel [rotated]) (auto simp: less_prod_def less_event88_def less_eq_event88_def)
  ultimately show ?thesis
    using p law(1,2) by (auto simp: pc8801_pending_def pc8801_valid_def)
qed

lemma pending_kinds:
  assumes "pc8801_valid p"
  shows "ran (pc8801_pending p) = ran (scheduler_pending (p88s_state p))"
proof -
  have "\<exists>k. pc8801_pending p k = Some c" if "scheduler_pending (p88s_state p) i = Some c" for i c
  proof -
    have "i < event88_kind_count"
      using that assms by (auto simp: pc8801_valid_def scheduler_pending_def split: if_splits)
    then obtain k where "event88_discriminant k = i" using from_index_Some by blast
    then show ?thesis using that by (auto simp: pc8801_pending_def)
  qed
  then show ?thesis by (auto simp: ran_def pc8801_pending_def)
qed

lemma pc8801_set_slot:
  assumes "pc8801_valid p"
  shows "\<exists>s. scheduler_set_slot (event88_discriminant k) slot (p88s_state p) = Some s
    \<and> pc8801_valid (p\<lparr>p88s_state := s\<rparr>)
    \<and> pc8801_pending (p\<lparr>p88s_state := s\<rparr>) = (pc8801_pending p)(k := slot)"
  using set_slot_pending [of "event88_discriminant k" "p88s_state p" slot] discriminant_less [of k] assms
  by (auto simp: pc8801_valid_def pc8801_pending_def fun_eq_iff discriminant_inject)

interpretation pc8801: event_queue pc8801_valid UNIV pc8801_pending pc8801_scheduler_schedule
  pc8801_scheduler_cancel pc8801_scheduler_next_event_cycle pc8801_pop
proof
  show "\<exists>q. pc8801_scheduler_schedule k c p = Some q \<and> pc8801_valid q
      \<and> pc8801_pending q = (pc8801_pending p)(k \<mapsto> c)" if "pc8801_valid p" for p k c
    using pc8801_set_slot [OF that, of k "Some c"]
    by (auto simp: pc8801_scheduler_schedule_def scheduler_schedule_def)
  show "\<exists>q. pc8801_scheduler_cancel k p = Some q \<and> pc8801_valid q
      \<and> pc8801_pending q = (pc8801_pending p)(k := None)" if "pc8801_valid p" for p k
    using pc8801_set_slot [OF that, of k None]
    by (auto simp: pc8801_scheduler_cancel_def scheduler_cancel_def)
  show "pc8801_scheduler_next_event_cycle p = None \<longleftrightarrow> dom (pc8801_pending p) = {}"
    if "pc8801_valid p" for p
  proof -
    have "dom (pc8801_pending p) = {} \<longleftrightarrow> ran (pc8801_pending p) = {}"
      by (auto simp: ran_def dom_def) (metis option.exhaust)
    then show ?thesis
      using next_event_cycle_least [of "p88s_state p"] pending_kinds [OF that]
      by (cases "scheduler_next_event_cycle (p88s_state p)")
        (auto simp: pc8801_scheduler_next_event_cycle_def)
  qed
  show "c \<in> ran (pc8801_pending p) \<and> (\<forall>d\<in>ran (pc8801_pending p). c \<le> d)"
    if "pc8801_valid p" and "pc8801_scheduler_next_event_cycle p = Some c" for p c
    using next_event_cycle_least [of "p88s_state p"] pending_kinds [OF that(1)] that(2)
    by (simp add: pc8801_scheduler_next_event_cycle_def)
qed (rule pc8801_pop_law)

lemma pc8801_new_valid: "pc8801_valid pc8801_scheduler_new"
  by (simp add: pc8801_valid_def pc8801_scheduler_new_def scheduler_state_new_def)

section \<open>Properties\<close>

text \<open>
  C34 Delivery of timed events. On a scheduler with one slot per event kind,
  \<open>pop_due_events\<close> never panics, and it is a contract on deadlines: it returns, each once
  and ordered by deadline and then by the frozen priority of the kind, exactly the events
  whose deadline has been reached, and leaves exactly the others pending.
\<close>

theorem pc8801_pop_due_events_delivers:
  assumes "length (sched_fire_cycles (p88s_state p)) = event88_kind_count"
  shows "\<exists>due q es. pc8801_scheduler_pop_due_events now p = Some (due, q)
    \<and> stack_vec_deref due = Some es
    \<and> sorted_wrt (\<lambda>e f. se88_fire_cycle e < se88_fire_cycle f
        \<or> se88_fire_cycle e = se88_fire_cycle f \<and> se88_kind e < se88_kind f) es
    \<and> set es = {e. scheduler_pending (p88s_state p) (event88_discriminant (se88_kind e))
                     = Some (se88_fire_cycle e) \<and> se88_fire_cycle e \<le> now}
    \<and> (\<forall>i. scheduler_pending (p88s_state q) i
        = (case scheduler_pending (p88s_state p) i of
             None \<Rightarrow> None | Some c \<Rightarrow> if c \<le> now then None else Some c))"
proof -
  have valid: "pc8801_valid p" using assms by (simp add: pc8801_valid_def)
  obtain ks q fs where pop: "pc8801_pop now p = Some (ks, q)"
    and shared: "scheduler_pop event88_kind_count now (p88s_state p) = Some (fs, p88s_state q)"
    using pop_due_events_result [OF valid] by blast
  then obtain due es where due: "pc8801_scheduler_pop_due_events now p = Some (due, q)"
    "stack_vec_deref due = Some es" "ks = map event88_key es"
    by (auto simp: pc8801_pop_def bind_eq_Some_conv)
  note law = pc8801.popD [OF valid pop]
  have "e \<in> set es \<longleftrightarrow> event88_key e \<in> set ks" for e
    unfolding due(3) set_map by (auto simp: event88_key_def image_iff) (metis scheduled_event88.equality old.unit.exhaust)
  then have "set es = {e. scheduler_pending (p88s_state p) (event88_discriminant (se88_kind e))
                     = Some (se88_fire_cycle e) \<and> se88_fire_cycle e \<le> now}"
    by (auto simp: law(3) event88_key_def pc8801_pending_def)
  moreover have "sorted_wrt (\<lambda>e f. se88_fire_cycle e < se88_fire_cycle f
        \<or> se88_fire_cycle e = se88_fire_cycle f \<and> se88_kind e < se88_kind f) es"
    using law(4) unfolding due(3) sorted_wrt_map
    by (rule sorted_wrt_mono_rel [rotated]) (auto simp: less_prod_def event88_key_def)
  ultimately show ?thesis
    using due(1,2) slots.popD(2) [OF assms shared] by (auto cong: option.case_cong)
qed

theorem pc8801_pop_due_events_delivers_witness:
  "\<exists>due q es. pc8801_scheduler_pop_due_events 50
        \<lparr> p88s_state = \<lparr> sched_fire_cycles =
            [None, None, Some 40, Some 80, None, None, None, Some 40, None, None, None, None, None, None, None] \<rparr> \<rparr>
      = Some (due, q) \<and> stack_vec_deref due = Some es
    \<and> \<lparr> se88_fire_cycle = 40, se88_kind = CrtcBusRequestEnd \<rparr> \<in> set es"
proof -
  let ?s = "\<lparr> sched_fire_cycles =
      [None, None, Some 40, Some 80, None, None, None, Some 40, None, None, None, None, None, None, None] \<rparr>"
  let ?p = "\<lparr> p88s_state = ?s \<rparr>"
  have count: "length (sched_fire_cycles (p88s_state ?p)) = event88_kind_count"
    by (simp add: event88_kind_count_def)
  have "scheduler_pending ?s 2 = Some 40" by (simp add: scheduler_pending_def)
  then show ?thesis
    using pc8801_pop_due_events_delivers [OF count, of 50] by (elim exE conjE) auto
qed

text \<open>
  Stepping does not reorder events. Running a scheduler to \<open>now\<close> and then to \<open>later\<close>
  delivers the events, in the order, that running it to \<open>later\<close> in one go does, and
  the same events stay pending (\<open>pc8801_pop\<close> is \<open>pop_due_events\<close> with its result read
  back as a list of deadlines and kinds).
\<close>

theorem pc8801_pop_due_events_split:
  assumes "length (sched_fire_cycles (p88s_state p)) = event88_kind_count" and "now \<le> later"
  shows "\<exists>es q fs r r'. pc8801_pop now p = Some (es, q) \<and> pc8801_pop later q = Some (fs, r)
    \<and> pc8801_pop later p = Some (es @ fs, r') \<and> pc8801_pending r' = pc8801_pending r"
proof -
  have valid: "pc8801_valid p" using assms(1) by (simp add: pc8801_valid_def)
  then obtain es q where e: "pc8801_pop now p = Some (es, q)" "pc8801_valid q"
    using pc8801_pop_law [of p now] by blast
  then obtain fs r where f: "pc8801_pop later q = Some (fs, r)"
    using pc8801_pop_law [of q later] by blast
  from pc8801.pop_split [OF valid assms(2) e(1) f] show ?thesis using e(1) f by blast
qed

theorem pc8801_pop_due_events_split_witness:
  "\<exists>es q fs r. pc8801_pop 50 pc8801_scheduler_new = Some (es, q) \<and> pc8801_pop 80 q = Some (fs, r)
    \<and> pc8801_pop 80 pc8801_scheduler_new \<noteq> None"
proof -
  have "length (sched_fire_cycles (p88s_state pc8801_scheduler_new)) = event88_kind_count"
    using pc8801_new_valid by (simp add: pc8801_valid_def)
  from pc8801_pop_due_events_split [OF this, of 50 80] show ?thesis by auto
qed

text \<open>
  C36 The main loop makes progress. If the next deadline is after \<open>now\<close>, or there is none,
  then popping at \<open>now\<close> returns nothing and changes no deadline; and after a pop at \<open>now\<close>
  the next deadline is later than \<open>now\<close>.
\<close>

theorem pc8801_next_event_cycle_progress:
  assumes "length (sched_fire_cycles (p88s_state p)) = event88_kind_count"
  shows "((case pc8801_scheduler_next_event_cycle p of None \<Rightarrow> True | Some c \<Rightarrow> now < c)
      \<longrightarrow> (\<exists>q. pc8801_pop now p = Some ([], q) \<and> pc8801_pending q = pc8801_pending p))
    \<and> (\<exists>es q. pc8801_pop now p = Some (es, q)
      \<and> (\<forall>c. pc8801_scheduler_next_event_cycle q = Some c \<longrightarrow> now < c))"
  using pc8801.pop_before_next [of p now] pc8801_pop_law [of p now] pc8801.next_after_pop [of p now] assms
  by (auto simp: pc8801_valid_def)

theorem pc8801_next_event_cycle_progress_witness:
  "\<exists>es q. pc8801_pop 7 pc8801_scheduler_new = Some (es, q)"
proof -
  have "length (sched_fire_cycles (p88s_state pc8801_scheduler_new)) = event88_kind_count"
    using pc8801_new_valid by (simp add: pc8801_valid_def)
  from pc8801_next_event_cycle_progress [OF this, of 7] show ?thesis by auto
qed

end
