(* ===== verification/I8259A.thy ===== *)
theory I8259A
  imports Save_Restore
begin

text \<open>
  The pair of interrupt controllers of the PC-98, \<open>crates/device/src/i8259a_pic.rs\<close>:
  registers, initialisation sequence, priority resolution, acknowledge and the cached
  answer of \<open>has_pending_irq\<close>.

  The two chips are the fields \<open>pic_master\<close> and \<open>pic_slave\<close> (\<open>chips[0]\<close> and \<open>chips[1]\<close>);
  an index that is neither panics (\<open>None\<close>), as does an initialisation word stored outside
  \<open>icw\<close> and a shift by more than 7. The scans for the highest priority level are loops
  (\<open>partial_function\<close>); a scan of an empty set of levels does not end (\<open>None\<close>).
\<close>

section \<open>State\<close>

record pic_chip =
  pc_icw :: "u8 list"
  pc_imr :: u8
  pc_isr :: u8
  pc_irr :: u8
  pc_ocw3 :: u8
  pc_pry :: u8
  pc_write_icw :: u8

record i8259a_state =
  pic_master :: pic_chip
  pic_slave :: pic_chip

record i8259a = i8259a_state +
  pic_irq_cache :: "bool option"

datatype pending_irq = PendingMaster u8 | PendingSlave u8

record pic_ack =
  ack_line :: "u8 option"
  ack_vector :: u8

definition pic_chip_new :: "u8 list \<Rightarrow> u8 \<Rightarrow> pic_chip" where
  "pic_chip_new icw imr =
     \<lparr> pc_icw = icw, pc_imr = imr, pc_isr = 0, pc_irr = 0, pc_ocw3 = 0, pc_pry = 0, pc_write_icw = 0 \<rparr>"

definition i8259a_new :: i8259a where
  "i8259a_new =
     \<lparr> pic_master = pic_chip_new [0x11, 0x08, 0x80, 0x1D] 0x7D,
       pic_slave = pic_chip_new [0x11, 0x10, 0x07, 0x09] 0x71,
       pic_irq_cache = None \<rparr>"

definition i8259a_new_zeroed :: i8259a where
  "i8259a_new_zeroed =
     \<lparr> pic_master = pic_chip_new [0, 0, 0, 0] 0, pic_slave = pic_chip_new [0, 0, 0, 0] 0,
       pic_irq_cache = None \<rparr>"

definition i8259a_capture_state :: "i8259a \<Rightarrow> i8259a_state" where
  "i8259a_capture_state p = i8259a_state.truncate p"

definition i8259a_invalidate_irq_cache :: "i8259a \<Rightarrow> i8259a" where
  "i8259a_invalidate_irq_cache p = p\<lparr>pic_irq_cache := None\<rparr>"

definition i8259a_restore_state :: "i8259a_state \<Rightarrow> i8259a \<Rightarrow> (validation_error + unit) \<times> i8259a" where
  "i8259a_restore_state s p =
     (if (\<exists>chip\<in>set [pic_master s, pic_slave s]. pc_pry chip > 7 \<or> pc_write_icw chip > 4)
      then (Inl ''i8259A priority or initialization position is invalid'', p)
      else (Inr (), i8259a_invalidate_irq_cache
        (p\<lparr>pic_master := pic_master s, pic_slave := pic_slave s\<rparr>)))"

definition pic_chip_at :: "nat \<Rightarrow> i8259a \<Rightarrow> pic_chip option" where
  "pic_chip_at chip_index p =
     (if chip_index = 0 then Some (pic_master p) else if chip_index = 1 then Some (pic_slave p) else None)"

definition pic_set_chip :: "nat \<Rightarrow> pic_chip \<Rightarrow> i8259a \<Rightarrow> i8259a" where
  "pic_set_chip chip_index chip p =
     (if chip_index = 0 then p\<lparr>pic_master := chip\<rparr> else p\<lparr>pic_slave := chip\<rparr>)"

section \<open>Priority\<close>

text \<open>
  The loop \<open>while mask & (1 << l) == 0 { l = (l + 1) & 7 }\<close>, from the level \<open>l\<close>.
\<close>

partial_function (option) pic_scan :: "u8 \<Rightarrow> u8 \<Rightarrow> u8 option" where
  "pic_scan mask_bits l =
     (if l > 7 then None
      else if mask_bits AND push_bit (unat l) 1 = 0 then pic_scan mask_bits ((l + 1) AND 7)
      else Some l)"

definition pic_blocking_isr :: "pic_chip \<Rightarrow> u8" where
  "pic_blocking_isr chip =
     (if pc_ocw3 chip AND 0x20 = 0 then pc_isr chip else pc_isr chip AND NOT (pc_imr chip))"

definition i8259a_find_pending_irq :: "'a i8259a_state_scheme \<Rightarrow> pending_irq option option" where
  "i8259a_find_pending_irq p =
     (let master = pic_master p; slave = pic_slave p;
          sir = pc_irr slave AND NOT (pc_imr slave);
          slave_bit = push_bit (unat (pc_icw slave ! 2 AND 7)) 1;
          mir = (if sir \<noteq> 0 then pc_irr master OR slave_bit else pc_irr master) AND NOT (pc_imr master) in
      if mir = 0 then Some None
      else
        Option.bind (pic_scan (mir OR pic_blocking_isr master) (pc_pry master)) (\<lambda>num.
          let level_bit = push_bit (unat num) 1 in
          if pc_icw master ! 2 AND level_bit \<noteq> 0 then
            if sir = 0 then Some None
            else
              Option.bind (pic_scan (sir OR pic_blocking_isr slave) (pc_pry slave)) (\<lambda>snum.
                let slave_level_bit = push_bit (unat snum) 1 in
                if pc_isr slave AND slave_level_bit \<noteq> 0 then Some None else Some (Some (PendingSlave snum)))
          else if pc_isr master AND level_bit \<noteq> 0 then Some None
          else Some (Some (PendingMaster num))))"

definition i8259a_has_pending_irq :: "i8259a \<Rightarrow> (bool \<times> i8259a) option" where
  "i8259a_has_pending_irq p =
     (case pic_irq_cache p of
        Some cached \<Rightarrow> Some (cached, p)
      | None \<Rightarrow>
          Option.bind (i8259a_find_pending_irq p) (\<lambda>pending.
            let result = pending \<noteq> None in Some (result, p\<lparr>pic_irq_cache := Some result\<rparr>)))"

section \<open>Port writes and reads\<close>

definition pic_ocw2 :: "u8 \<Rightarrow> u8 \<Rightarrow> pic_chip \<Rightarrow> pic_chip" where
  "pic_ocw2 data level chip =
     (let chip = (if data AND 0x80 \<noteq> 0 then chip\<lparr>pc_pry := (level + 1) AND 7\<rparr> else chip) in
      if data AND 0x20 \<noteq> 0
      then chip\<lparr>pc_isr := pc_isr chip AND NOT (push_bit (unat level) 1)\<rparr> else chip)"

definition pic_ocw3 :: "u8 \<Rightarrow> pic_chip \<Rightarrow> pic_chip" where
  "pic_ocw3 data chip =
     (let old_ocw3 = pc_ocw3 chip;
          new = data;
          new = (if data AND 0x02 = 0 then (new AND NOT 0x01) OR (old_ocw3 AND 0x01) else new);
          new = (if data AND 0x40 = 0 then (new AND NOT 0x20) OR (old_ocw3 AND 0x20) else new) in
      chip\<lparr>pc_ocw3 := new\<rparr>)"

definition pic_icw1 :: "u8 \<Rightarrow> pic_chip \<Rightarrow> pic_chip" where
  "pic_icw1 data chip =
     chip\<lparr>pc_icw := (pc_icw chip)[0 := data], pc_imr := 0, pc_isr := 0, pc_irr := 0, pc_ocw3 := 0,
       pc_pry := 0, pc_write_icw := 1\<rparr>"

text \<open>
  The end-of-interrupt branch returns early, without dropping the cached answer, when a
  non-specific command finds nothing in service.
\<close>

definition i8259a_write_port0 :: "nat \<Rightarrow> u8 \<Rightarrow> i8259a \<Rightarrow> i8259a option" where
  "i8259a_write_port0 chip_index data p =
     Option.bind (pic_chip_at chip_index p) (\<lambda>chip.
     let chip = chip\<lparr>pc_write_icw := 0\<rparr>;
         finish = (\<lambda>chip. Some (i8259a_invalidate_irq_cache (pic_set_chip chip_index chip p))) in
     if data AND 0x18 = 0 then
       if data AND 0x40 \<noteq> 0 then finish (pic_ocw2 data (data AND 0x07) chip)
       else if pc_isr chip = 0 then Some (pic_set_chip chip_index chip p)
       else Option.bind (pic_scan (pc_isr chip) (pc_pry chip)) (\<lambda>level. finish (pic_ocw2 data level chip))
     else if data AND 0x18 = 0x08 then finish (pic_ocw3 data chip)
     else finish (pic_icw1 data chip))"

definition i8259a_write_port2 :: "nat \<Rightarrow> u8 \<Rightarrow> i8259a \<Rightarrow> i8259a option" where
  "i8259a_write_port2 chip_index data p =
     Option.bind (pic_chip_at chip_index p) (\<lambda>chip.
     let finish = (\<lambda>chip. Some (i8259a_invalidate_irq_cache (pic_set_chip chip_index chip p))) in
     if pc_write_icw chip = 0 then finish (chip\<lparr>pc_imr := data\<rparr>)
     else if unat (pc_write_icw chip) < length (pc_icw chip) then
       let chip = chip\<lparr>pc_icw := (pc_icw chip)[unat (pc_write_icw chip) := data],
                       pc_write_icw := pc_write_icw chip + 1\<rparr> in
       finish (if pc_write_icw chip \<ge> 3 + (pc_icw chip ! 0 AND 1)
               then chip\<lparr>pc_write_icw := 0\<rparr> else chip)
     else None)"

definition i8259a_read_port0 :: "nat \<Rightarrow> i8259a \<Rightarrow> u8 option" where
  "i8259a_read_port0 chip_index p =
     map_option (\<lambda>chip. if pc_ocw3 chip AND 0x01 = 0 then pc_irr chip else pc_isr chip)
       (pic_chip_at chip_index p)"

definition i8259a_read_port2 :: "nat \<Rightarrow> i8259a \<Rightarrow> u8 option" where
  "i8259a_read_port2 chip_index p = map_option pc_imr (pic_chip_at chip_index p)"

section \<open>Request lines\<close>

definition i8259a_set_irq :: "u8 \<Rightarrow> i8259a \<Rightarrow> bool \<times> i8259a" where
  "i8259a_set_irq irq p =
     (let level_bit = push_bit (unat (irq AND 7)) 1;
          (changed, p) =
            (if irq AND 8 = 0
             then (pc_irr (pic_master p) AND level_bit = 0,
                   p\<lparr>pic_master := (pic_master p)\<lparr>pc_irr := pc_irr (pic_master p) OR level_bit\<rparr>\<rparr>)
             else (pc_irr (pic_slave p) AND level_bit = 0,
                   p\<lparr>pic_slave := (pic_slave p)\<lparr>pc_irr := pc_irr (pic_slave p) OR level_bit\<rparr>\<rparr>)) in
      (changed, if changed then i8259a_invalidate_irq_cache p else p))"

definition i8259a_clear_irq :: "u8 \<Rightarrow> i8259a \<Rightarrow> bool \<times> i8259a" where
  "i8259a_clear_irq irq p =
     (let level_bit = push_bit (unat (irq AND 7)) 1;
          (changed, p) =
            (if irq AND 8 = 0
             then (pc_irr (pic_master p) AND level_bit \<noteq> 0,
                   p\<lparr>pic_master := (pic_master p)\<lparr>pc_irr := pc_irr (pic_master p) AND NOT level_bit\<rparr>\<rparr>)
             else (pc_irr (pic_slave p) AND level_bit \<noteq> 0,
                   p\<lparr>pic_slave := (pic_slave p)\<lparr>pc_irr := pc_irr (pic_slave p) AND NOT level_bit\<rparr>\<rparr>)) in
      (changed, if changed then i8259a_invalidate_irq_cache p else p))"

section \<open>Acknowledge\<close>

definition pic_start_service :: "u8 \<Rightarrow> pic_chip \<Rightarrow> pic_chip" where
  "pic_start_service level_bit chip =
     chip\<lparr>pc_isr := pc_isr chip OR level_bit, pc_irr := pc_irr chip AND NOT level_bit\<rparr>"

definition i8259a_acknowledge_with_line :: "i8259a \<Rightarrow> (pic_ack \<times> i8259a) option" where
  "i8259a_acknowledge_with_line p =
     (let p = i8259a_invalidate_irq_cache p in
      Option.bind (i8259a_find_pending_irq p) (\<lambda>pending.
        case pending of
          None \<Rightarrow>
            Some (\<lparr> ack_line = None, ack_vector = (pc_icw (pic_master p) ! 1 AND 0xF8) OR 7 \<rparr>, p)
        | Some (PendingMaster num) \<Rightarrow>
            let level_bit = push_bit (unat num) 1;
                p = p\<lparr>pic_master := pic_start_service level_bit (pic_master p)\<rparr> in
            Some (\<lparr> ack_line = Some num, ack_vector = (pc_icw (pic_master p) ! 1 AND 0xF8) OR num \<rparr>, p)
        | Some (PendingSlave num) \<Rightarrow>
            let slave_bit = push_bit (unat (pc_icw (pic_slave p) ! 2 AND 7)) 1;
                p = p\<lparr>pic_master := pic_start_service slave_bit (pic_master p)\<rparr>;
                level_bit = push_bit (unat num) 1;
                p = p\<lparr>pic_slave := pic_start_service level_bit (pic_slave p)\<rparr> in
            Some (\<lparr> ack_line = Some (8 + num),
                    ack_vector = (pc_icw (pic_slave p) ! 1 AND 0xF8) OR num \<rparr>, p)))"

definition i8259a_acknowledge :: "i8259a \<Rightarrow> (u8 \<times> i8259a) option" where
  "i8259a_acknowledge p = map_option (\<lambda>(a, p). (ack_vector a, p)) (i8259a_acknowledge_with_line p)"

end
