(* ===== verification/I8259A_Properties.thy ===== *)
theory I8259A_Properties
  imports I8259A
begin

text \<open>
  The interrupt controllers: the scan for the highest priority level against its
  specification by cyclic distance, priority resolution, the registers an arbitrary
  sequence of accesses can reach, the coherence of the cached answer, and nested
  end-of-interrupt commands.
\<close>

section \<open>Levels as bits\<close>

lemma and_bit_zero: "(x :: u8) AND 2 ^ n = 0 \<longleftrightarrow> \<not> bit x n"
  by (rule and_exp_eq_0_iff_not_bit)

lemma and_7_mod: "unat (x AND 7 :: u8) = unat x mod 8"
proof -
  have take: "x AND 7 = take_bit 3 x" by (simp add: take_bit_eq_mask mask_eq_exp_minus_1)
  show ?thesis by (simp only: take unsigned_take_bit_eq) (simp add: take_bit_eq_mod)
qed

lemma next_level: "l \<le> 7 \<Longrightarrow> unat ((l + 1 :: u8) AND 7) = (unat l + 1) mod 8"
proof -
  assume "l \<le> 7"
  then have "unat l \<le> 7" using word_le_nat_alt [of l 7] by simp
  then have "unat (l + 1) = unat l + 1" by (simp add: unat_word_ariths)
  then show ?thesis by (simp add: and_7_mod)
qed

lemma level_le_7: "(l :: u8) \<le> 7 \<longleftrightarrow> unat l < 8"
  using word_le_nat_alt [of l 7] by auto

lemma and_7_le: "(x AND 7 :: u8) \<le> 7"
  by (simp add: level_le_7 and_7_mod)

lemma word_zero_bits: "(x :: u8) = 0 \<longleftrightarrow> (\<forall>n<8. \<not> bit x n)"
  by (auto simp: bit_eq_iff dest: bit_imp_le_length)

section \<open>The scan\<close>

text \<open>The distance of a level from the level of the highest priority.\<close>

definition pic_rank :: "u8 \<Rightarrow> nat \<Rightarrow> nat" where
  "pic_rank pry l = (l + 8 - unat pry) mod 8"

definition pic_highest :: "u8 \<Rightarrow> u8 \<Rightarrow> u8 \<Rightarrow> bool" where
  "pic_highest levels pry l \<longleftrightarrow> l \<le> 7 \<and> bit levels (unat l)
     \<and> (\<forall>m<8. bit levels m \<longrightarrow> pic_rank pry (unat l) \<le> pic_rank pry m)"

lemma rank_offset: "unat pry < 8 \<Longrightarrow> k < 8 \<Longrightarrow> pic_rank pry ((unat pry + k) mod 8) = k"
proof -
  assume "unat pry < 8" "k < 8"
  then show ?thesis
    by (cases "unat pry + k < 8") (simp_all add: pic_rank_def le_mod_geq)
qed

lemma offset_rank: "unat pry < 8 \<Longrightarrow> l < 8 \<Longrightarrow> (unat pry + pic_rank pry l) mod 8 = l"
proof -
  assume "unat pry < 8" "l < 8"
  then show ?thesis
    by (cases "unat pry \<le> l") (simp_all add: pic_rank_def le_mod_geq)
qed

lemma rank_less: "pic_rank pry l < 8"
  by (simp add: pic_rank_def)

lemma rank_inject:
  "unat pry < 8 \<Longrightarrow> l < 8 \<Longrightarrow> m < 8 \<Longrightarrow> pic_rank pry l = pic_rank pry m \<longleftrightarrow> l = m"
  by (metis offset_rank)

lemma scan_offset:
  assumes "unat l < 8" and "bit levels ((unat l + k) mod 8)"
    and "\<And>j. j < k \<Longrightarrow> \<not> bit levels ((unat l + j) mod 8)"
  shows "pic_scan levels l = Some (word_of_nat ((unat l + k) mod 8))"
  using assms
proof (induction k arbitrary: l)
  case 0
  then have "bit levels (unat l)" by simp
  then show ?case
    using 0(1) by (simp add: pic_scan.simps [of levels l] and_bit_zero level_le_7 [symmetric] not_less)
next
  case (Suc k)
  have l: "\<not> l > 7" using Suc.prems(1) by (simp add: level_le_7 [symmetric] not_less)
  have "\<not> bit levels (unat l)" using Suc.prems(3) [of 0] Suc.prems(1) by simp
  then have step: "pic_scan levels l = pic_scan levels ((l + 1) AND 7)"
    using l by (simp add: pic_scan.simps [of levels l] and_bit_zero)
  have n: "unat ((l + 1) AND 7) = (unat l + 1) mod 8" using l by (simp add: next_level)
  have shift: "(unat ((l + 1) AND 7) + j) mod 8 = (unat l + Suc j) mod 8" for j
    unfolding n by (simp add: mod_simps)
  have "pic_scan levels ((l + 1) AND 7) = Some (word_of_nat ((unat ((l + 1) AND 7) + k) mod 8))"
  proof (rule Suc.IH)
    show "unat ((l + 1) AND 7) < 8" by (simp add: n)
    show "bit levels ((unat ((l + 1) AND 7) + k) mod 8)" using Suc.prems(2) unfolding shift .
    show "\<not> bit levels ((unat ((l + 1) AND 7) + j) mod 8)" if "j < k" for j
      using Suc.prems(3) [of "Suc j"] that unfolding shift by simp
  qed
  then show ?case unfolding step shift .
qed

text \<open>A scan of a set of levels that is not empty ends at the one of the highest priority.\<close>

lemma scan_highest:
  assumes "levels \<noteq> 0" and "pry \<le> 7"
  shows "\<exists>l. pic_scan levels pry = Some l \<and> pic_highest levels pry l"
proof -
  have p: "unat pry < 8" using assms(2) by (simp add: level_le_7)
  obtain m where m: "m < 8" "bit levels m" using assms(1) by (auto simp: word_zero_bits)
  let ?P = "\<lambda>k. bit levels ((unat pry + k) mod 8)"
  have "?P (pic_rank pry m)" using offset_rank [OF p m(1)] m(2) by simp
  then obtain k where k: "?P k" "\<And>j. j < k \<Longrightarrow> \<not> ?P j" "k \<le> pic_rank pry m"
    using LeastI [of ?P] not_less_Least [of _ ?P] Least_le [of ?P] by metis
  then have "k < 8" using rank_less [of pry m] by linarith
  let ?l = "word_of_nat ((unat pry + k) mod 8) :: u8"
  have u: "unat ?l = (unat pry + k) mod 8"
    by (simp add: unsigned_of_nat take_bit_nat_eq_self_iff) 
  have "pic_highest levels pry ?l"
    unfolding pic_highest_def level_le_7 u rank_offset [OF p \<open>k < 8\<close>]
  proof (intro conjI allI impI)
    show "k \<le> pic_rank pry i" if "i < 8" "bit levels i" for i
      using k(2) [of "pic_rank pry i"] that offset_rank [OF p that(1)] by (metis not_le)
  qed (use k(1) in simp_all)
  then show ?thesis using scan_offset [OF p k(1,2)] by blast
qed

lemma highest_unique:
  assumes "pic_highest levels pry l" "pic_highest levels pry m" "pry \<le> 7"
  shows "l = m"
proof -
  have "unat l < 8" "unat m < 8" "unat pry < 8"
    using assms by (simp_all add: pic_highest_def level_le_7)
  moreover have "pic_rank pry (unat l) = pic_rank pry (unat m)"
    using assms by (auto simp: pic_highest_def level_le_7 intro: antisym)
  ultimately show ?thesis using rank_inject by (metis unsigned_word_eqI)
qed

lemma scan_eq: "pic_highest levels pry l \<Longrightarrow> pry \<le> 7 \<Longrightarrow> pic_scan levels pry = Some l"
  using scan_highest [of levels pry] highest_unique [of levels pry]
  by (metis bit_0_eq pic_highest_def bot_apply bot_bool_def)

section \<open>Priority resolution\<close>

definition pic_pry_ok :: "'a i8259a_state_scheme \<Rightarrow> bool" where
  "pic_pry_ok p \<longleftrightarrow> pc_pry (pic_master p) \<le> 7 \<and> pc_pry (pic_slave p) \<le> 7"

definition pic_slave_bit :: "'a i8259a_state_scheme \<Rightarrow> u8" where
  "pic_slave_bit p = push_bit (unat (pc_icw (pic_slave p) ! 2 AND 7)) 1"

text \<open>The unmasked requests a chip sees; the slave asks on its line of the master.\<close>

definition pic_slave_requests :: "'a i8259a_state_scheme \<Rightarrow> u8" where
  "pic_slave_requests p = pc_irr (pic_slave p) AND NOT (pc_imr (pic_slave p))"

definition pic_master_requests :: "'a i8259a_state_scheme \<Rightarrow> u8" where
  "pic_master_requests p =
     (if pic_slave_requests p \<noteq> 0 then pc_irr (pic_master p) OR pic_slave_bit p
      else pc_irr (pic_master p)) AND NOT (pc_imr (pic_master p))"

text \<open>The level a chip attends to: the first of the requests and what blocks them.\<close>

abbreviation pic_master_attends :: "'a i8259a_state_scheme \<Rightarrow> u8 \<Rightarrow> bool" where
  "pic_master_attends p \<equiv>
     pic_highest (pic_master_requests p OR pic_blocking_isr (pic_master p)) (pc_pry (pic_master p))"

abbreviation pic_slave_attends :: "'a i8259a_state_scheme \<Rightarrow> u8 \<Rightarrow> bool" where
  "pic_slave_attends p \<equiv>
     pic_highest (pic_slave_requests p OR pic_blocking_isr (pic_slave p)) (pc_pry (pic_slave p))"

abbreviation pic_cascaded :: "'a i8259a_state_scheme \<Rightarrow> u8 \<Rightarrow> bool" where
  "pic_cascaded p l \<equiv> bit (pc_icw (pic_master p) ! 2) (unat l)"

lemma blocking_in_service: "bit (pic_blocking_isr chip) n \<Longrightarrow> bit (pc_isr chip) n"
  by (auto simp: pic_blocking_isr_def bit_and_iff split: if_splits)

lemma or_not_zero: "(x :: u8) \<noteq> 0 \<Longrightarrow> x OR y \<noteq> 0"
  by (auto simp: word_zero_bits bit_or_iff)

lemma find_pending_unfold:
  "i8259a_find_pending_irq p =
     (if pic_master_requests p = 0 then Some None
      else Option.bind (pic_scan (pic_master_requests p OR pic_blocking_isr (pic_master p)) (pc_pry (pic_master p)))
        (\<lambda>num. if pic_cascaded p num then
            if pic_slave_requests p = 0 then Some None
            else Option.bind (pic_scan (pic_slave_requests p OR pic_blocking_isr (pic_slave p)) (pc_pry (pic_slave p)))
              (\<lambda>snum. if bit (pc_isr (pic_slave p)) (unat snum) then Some None else Some (Some (PendingSlave snum)))
          else if bit (pc_isr (pic_master p)) (unat num) then Some None
          else Some (Some (PendingMaster num))))"
  by (simp add: i8259a_find_pending_irq_def Let_def pic_master_requests_def pic_slave_requests_def
      pic_slave_bit_def and_bit_zero cong: if_cong)

lemma find_pending_cases:
  assumes "pic_pry_ok p"
  obtains (idle) "pic_master_requests p = 0" "i8259a_find_pending_irq p = Some None"
  | (master_blocked) m where "pic_master_attends p m" "\<not> pic_cascaded p m"
      "bit (pc_isr (pic_master p)) (unat m)" "i8259a_find_pending_irq p = Some None"
  | (master) m where "pic_master_attends p m" "\<not> pic_cascaded p m"
      "bit (pic_master_requests p) (unat m)" "\<not> bit (pc_isr (pic_master p)) (unat m)"
      "i8259a_find_pending_irq p = Some (Some (PendingMaster m))"
  | (slave_idle) m where "pic_master_attends p m" "pic_cascaded p m" "pic_slave_requests p = 0"
      "i8259a_find_pending_irq p = Some None"
  | (slave_blocked) m n where "pic_master_attends p m" "pic_cascaded p m" "pic_slave_attends p n"
      "bit (pc_isr (pic_slave p)) (unat n)" "i8259a_find_pending_irq p = Some None"
  | (slave) m n where "pic_master_attends p m" "pic_cascaded p m" "pic_slave_attends p n"
      "bit (pic_slave_requests p) (unat n)" "\<not> bit (pc_isr (pic_slave p)) (unat n)"
      "i8259a_find_pending_irq p = Some (Some (PendingSlave n))"
proof (cases "pic_master_requests p = 0")
  case True
  then show ?thesis using idle by (simp add: find_pending_unfold)
next
  case False
  obtain m where m: "pic_scan (pic_master_requests p OR pic_blocking_isr (pic_master p)) (pc_pry (pic_master p)) = Some m"
    "pic_master_attends p m"
    using scan_highest or_not_zero [OF False] assms unfolding pic_pry_ok_def by blast
  have request: "bit (pic_master_requests p) (unat m)" if "\<not> bit (pc_isr (pic_master p)) (unat m)"
    using m(2) that blocking_in_service by (auto simp: pic_highest_def bit_or_iff)
  show ?thesis
  proof (cases "pic_cascaded p m")
    case cascaded: False
    show ?thesis
    proof (cases "bit (pc_isr (pic_master p)) (unat m)")
      case True
      show ?thesis
        by (rule master_blocked [OF m(2) cascaded True]) (simp add: find_pending_unfold False m(1) cascaded True)
    next
      case served: False
      show ?thesis
        by (rule master [OF m(2) cascaded request [OF served] served])
          (simp add: find_pending_unfold False m(1) cascaded served)
    qed
  next
    case cascaded: True
    show ?thesis
    proof (cases "pic_slave_requests p = 0")
      case True
      show ?thesis
        by (rule slave_idle [OF m(2) cascaded True]) (simp add: find_pending_unfold False m(1) cascaded True)
    next
      case asks: False
      obtain n where n: "pic_scan (pic_slave_requests p OR pic_blocking_isr (pic_slave p)) (pc_pry (pic_slave p)) = Some n"
        "pic_slave_attends p n"
        using scan_highest or_not_zero [OF asks] assms unfolding pic_pry_ok_def by blast
      show ?thesis
      proof (cases "bit (pc_isr (pic_slave p)) (unat n)")
        case True
        show ?thesis
          by (rule slave_blocked [OF m(2) cascaded n(2) True])
            (simp add: find_pending_unfold False m(1) cascaded asks n(1) True)
      next
        case served: False
        have "bit (pic_slave_requests p) (unat n)"
          using n(2) served blocking_in_service by (auto simp: pic_highest_def bit_or_iff)
        then show ?thesis
          by (rule slave [OF m(2) cascaded n(2) _ served])
            (simp add: find_pending_unfold False m(1) cascaded asks n(1) served)
      qed
    qed
  qed
qed

section \<open>Acknowledge\<close>

lemma find_pending_cache [simp]:
  "i8259a_find_pending_irq (p\<lparr>pic_irq_cache := c\<rparr>) = i8259a_find_pending_irq p"
  by (simp add: i8259a_find_pending_irq_def)

lemma add_8_level: "(n :: u8) \<le> 7 \<Longrightarrow> \<not> 8 + n \<le> 7"
proof -
  assume "n \<le> 7"
  then have "unat n < 8" by (simp add: level_le_7)
  moreover from this have "unat (8 + n) = 8 + unat n" by (simp add: unat_word_ariths)
  ultimately show ?thesis by (simp add: level_le_7)
qed

text \<open>
  When a level must be delivered, without reference to the scan or to the resolution: its
  request is unmasked, no other unmasked request of its chip is ahead of it, and it is
  strictly ahead of every level in service that blocks. A level of the slave further needs
  the master to attend to a line on which a slave sits.
\<close>

definition pic_blocks :: "pic_chip \<Rightarrow> nat \<Rightarrow> bool" where
  "pic_blocks chip m \<longleftrightarrow> bit (pc_isr chip) m \<and> \<not> (bit (pc_ocw3 chip) 5 \<and> bit (pc_imr chip) m)"

definition pic_ahead :: "u8 \<Rightarrow> pic_chip \<Rightarrow> u8 \<Rightarrow> bool" where
  "pic_ahead requests chip l \<longleftrightarrow> l \<le> 7 \<and> bit requests (unat l)
     \<and> (\<forall>m<8. bit requests m \<longrightarrow> pic_rank (pc_pry chip) (unat l) \<le> pic_rank (pc_pry chip) m)
     \<and> (\<forall>m<8. pic_blocks chip m \<longrightarrow> pic_rank (pc_pry chip) (unat l) < pic_rank (pc_pry chip) m)"

definition pic_first :: "u8 \<Rightarrow> pic_chip \<Rightarrow> u8 \<Rightarrow> bool" where
  "pic_first requests chip l \<longleftrightarrow> l \<le> 7 \<and> (bit requests (unat l) \<or> pic_blocks chip (unat l))
     \<and> (\<forall>m<8. bit requests m \<or> pic_blocks chip m
          \<longrightarrow> pic_rank (pc_pry chip) (unat l) \<le> pic_rank (pc_pry chip) m)"

definition pic_deliverable :: "'a i8259a_state_scheme \<Rightarrow> u8 \<Rightarrow> bool" where
  "pic_deliverable p l \<longleftrightarrow>
     (if l \<le> 7
      then \<not> pic_cascaded p l \<and> pic_ahead (pic_master_requests p) (pic_master p) l
      else pic_master_requests p \<noteq> 0
        \<and> (\<exists>m. pic_first (pic_master_requests p) (pic_master p) m \<and> pic_cascaded p m)
        \<and> pic_ahead (pic_slave_requests p) (pic_slave p) (l - 8))"

lemma blocks_iff: "pic_blocks chip m \<longleftrightarrow> bit (pic_blocking_isr chip) m"
proof -
  have "pc_ocw3 chip AND 0x20 = 0 \<longleftrightarrow> \<not> bit (pc_ocw3 chip) 5"
    using and_exp_eq_0_iff_not_bit [of "pc_ocw3 chip" 5] by simp
  then show ?thesis
    using bit_imp_le_length [of "pc_isr chip" m] by (auto simp: pic_blocks_def pic_blocking_isr_def bit_simps)
qed

lemma first_iff_highest:
  "pic_first requests chip l \<longleftrightarrow> pic_highest (requests OR pic_blocking_isr chip) (pc_pry chip) l"
  by (auto simp: pic_first_def pic_highest_def blocks_iff bit_or_iff)

lemma ahead_iff_highest:
  assumes "pc_pry chip \<le> 7"
  shows "pic_ahead requests chip l
    \<longleftrightarrow> pic_highest (requests OR pic_blocking_isr chip) (pc_pry chip) l
      \<and> \<not> bit (pic_blocking_isr chip) (unat l)"
proof
  assume "pic_ahead requests chip l"
  then show "pic_highest (requests OR (pic_blocking_isr chip)) (pc_pry chip) l \<and> \<not> bit (pic_blocking_isr chip) (unat l)"
    by (auto simp: pic_ahead_def blocks_iff pic_highest_def bit_or_iff level_le_7 intro: less_imp_le)
next
  assume first: "pic_highest (requests OR (pic_blocking_isr chip)) (pc_pry chip) l \<and> \<not> bit (pic_blocking_isr chip) (unat l)"
  have "pic_rank (pc_pry chip) (unat l) < pic_rank (pc_pry chip) m" if "m < 8" "bit (pic_blocking_isr chip) m" for m
  proof -
    have "pic_rank (pc_pry chip) (unat l) \<le> pic_rank (pc_pry chip) m" "unat l \<noteq> m" "unat l < 8"
      using first that by (auto simp: pic_highest_def bit_or_iff level_le_7)
    moreover have "unat (pc_pry chip) < 8" using assms by (simp add: level_le_7)
    ultimately show ?thesis using rank_inject [OF _ _ that(1)] by (metis le_neq_implies_less)
  qed
  then show "pic_ahead requests chip l"
    using first by (auto simp: pic_ahead_def blocks_iff pic_highest_def bit_or_iff)
qed

lemma blocking_request:
  "bit (pc_isr chip) n \<Longrightarrow> \<not> bit (pc_imr chip) n \<Longrightarrow> n < 8 \<Longrightarrow> bit (pic_blocking_isr chip) n"
  by (auto simp: pic_blocking_isr_def bit_and_iff bit_not_iff)

lemma attended_blocks:
  assumes "pic_highest (r AND NOT (pc_imr chip) OR pic_blocking_isr chip) pry n" "bit (pc_isr chip) (unat n)"
  shows "bit (pic_blocking_isr chip) (unat n)"
  using assms blocking_request [of chip "unat n"]
  by (auto simp: pic_highest_def bit_or_iff bit_and_iff bit_not_iff level_le_7)

lemma master_attended_blocks:
  "pic_master_attends p m \<Longrightarrow> bit (pc_isr (pic_master p)) (unat m)
    \<Longrightarrow> bit (pic_blocking_isr (pic_master p)) (unat m)"
  unfolding pic_master_requests_def by (rule attended_blocks)

lemma slave_attended_blocks:
  "pic_slave_attends p n \<Longrightarrow> bit (pc_isr (pic_slave p)) (unat n)
    \<Longrightarrow> bit (pic_blocking_isr (pic_slave p)) (unat n)"
  unfolding pic_slave_requests_def by (rule attended_blocks)

lemma level_minus_8: "(n :: u8) \<le> 7 \<Longrightarrow> (8 + n) - 8 = n"
  by simp

text \<open>The resolution finds the deliverable level, and finds none exactly when there is none.\<close>

lemma find_pending_deliverable:
  assumes ok: "pic_pry_ok p"
  shows "case i8259a_find_pending_irq p of
      Some None \<Rightarrow> \<forall>l. \<not> pic_deliverable p l
    | Some (Some (PendingMaster m)) \<Rightarrow> pic_deliverable p m
    | Some (Some (PendingSlave n)) \<Rightarrow> pic_deliverable p (8 + n)
    | None \<Rightarrow> False"
  using ok
proof (cases rule: find_pending_cases)
  note pry = ok [unfolded pic_pry_ok_def, THEN conjunct1] ok [unfolded pic_pry_ok_def, THEN conjunct2]
  note ahead = ahead_iff_highest [OF pry(1)] ahead_iff_highest [OF pry(2)]
  note unique = highest_unique [OF _ _ pry(1)] highest_unique [OF _ _ pry(2)]
  {
    case idle
    then show ?thesis by (simp add: pic_deliverable_def pic_ahead_def)
  next
    case (master_blocked m)
    then have "\<not> pic_deliverable p l" for l
      using master_attended_blocks [of p m] unique(1) by (auto simp: pic_deliverable_def first_iff_highest ahead)
    then show ?thesis using master_blocked by simp
  next
    case (master m)
    have "\<not> bit (pic_blocking_isr (pic_master p)) (unat m)" using master(4) blocking_in_service by blast
    then show ?thesis using master by (auto simp: pic_deliverable_def first_iff_highest ahead pic_highest_def)
  next
    case (slave_idle m)
    then have "\<not> pic_deliverable p l" for l
      using unique(1) [of _ m] by (auto simp: pic_deliverable_def first_iff_highest ahead(1)) (simp add: pic_ahead_def)
    then show ?thesis using slave_idle by simp
  next
    case (slave_blocked m n)
    then have "\<not> pic_deliverable p l" for l
      using slave_attended_blocks [of p n] unique(1) [of _ m] unique(2) [of _ n]
      by (auto simp: pic_deliverable_def first_iff_highest ahead)
    then show ?thesis using slave_blocked by simp
  next
    case (slave m n)
    have "\<not> bit (pic_blocking_isr (pic_slave p)) (unat n)" using slave(5) blocking_in_service by blast
    moreover have "\<not> 8 + n \<le> 7" using slave(3) add_8_level by (simp add: pic_highest_def)
    moreover have "pic_master_requests p \<noteq> 0"
      using slave(6) by (auto simp: find_pending_unfold)
    ultimately show ?thesis using slave by (auto simp: pic_deliverable_def first_iff_highest ahead)
  }
qed

text \<open>
  C32 Acknowledge serves the highest priority, and serves whenever a request is due. With
  valid priority bases an acknowledge returns. It answers the spurious vector, with nothing
  changed, exactly when no level is deliverable: no unmasked request of a chip is first
  among the requests of the chip and strictly ahead of the levels in service that block it,
  the slave being asked only on a line the master attends to. Otherwise it names the
  deliverable level, which the priority order puts first among the unmasked requests and
  the levels in service, which is a request and not in service. That level, and nothing
  else in its chip, moves from the request to the in-service register, and the vector is
  the chip's base with the level.
\<close>

theorem i8259a_acknowledge_priority:
  assumes "pc_pry (pic_master p) \<le> 7" and "pc_pry (pic_slave p) \<le> 7"
  shows "\<exists>a q. i8259a_acknowledge_with_line p = Some (a, q) \<and>
    (case ack_line a of
       None \<Rightarrow> i8259a_capture_state q = i8259a_capture_state p
         \<and> (\<nexists>l. pic_deliverable p l)
         \<and> ack_vector a = (pc_icw (pic_master p) ! 1 AND 0xF8) OR 7
     | Some l \<Rightarrow> pic_deliverable p l \<and>
         (if l \<le> 7 then
           pic_master_attends p l \<and> bit (pic_master_requests p) (unat l)
           \<and> \<not> bit (pc_isr (pic_master p)) (unat l)
           \<and> ack_vector a = (pc_icw (pic_master p) ! 1 AND 0xF8) OR l
           \<and> i8259a_capture_state q =
               (i8259a_capture_state p)\<lparr>pic_master := (pic_master p)
                  \<lparr>pc_isr := pc_isr (pic_master p) OR push_bit (unat l) 1,
                   pc_irr := pc_irr (pic_master p) AND NOT (push_bit (unat l) 1)\<rparr>\<rparr>
         else \<exists>n m. l = 8 + n \<and> pic_master_attends p m \<and> pic_cascaded p m
           \<and> pic_slave_attends p n \<and> bit (pic_slave_requests p) (unat n)
           \<and> \<not> bit (pc_isr (pic_slave p)) (unat n)
           \<and> ack_vector a = (pc_icw (pic_slave p) ! 1 AND 0xF8) OR n
           \<and> i8259a_capture_state q =
               \<lparr>pic_master = (pic_master p)
                  \<lparr>pc_isr := pc_isr (pic_master p) OR pic_slave_bit p,
                   pc_irr := pc_irr (pic_master p) AND NOT (pic_slave_bit p)\<rparr>,
                pic_slave = (pic_slave p)
                  \<lparr>pc_isr := pc_isr (pic_slave p) OR push_bit (unat n) 1,
                   pc_irr := pc_irr (pic_slave p) AND NOT (push_bit (unat n) 1)\<rparr>\<rparr>))"
proof -
  note ack = i8259a_acknowledge_with_line_def i8259a_invalidate_irq_cache_def Let_def
    i8259a_capture_state_def i8259a_state.defs pic_start_service_def pic_slave_bit_def
  have ok: "pic_pry_ok p" using assms by (simp add: pic_pry_ok_def)
  note due = find_pending_deliverable [OF ok]
  show ?thesis
    using ok
  proof (cases rule: find_pending_cases)
    case (master m)
    then have "m \<le> 7" by (simp add: pic_highest_def)
    then show ?thesis using master due by (simp add: ack)
  next
    case (slave m n)
    then have "\<not> 8 + n \<le> 7" by (intro add_8_level) (simp add: pic_highest_def)
    then show ?thesis using slave due by (auto simp: ack intro!: exI [of _ n] exI [of _ m])
  qed (use due in \<open>simp_all add: ack\<close>)
qed

lemma all_levels:
  "(\<forall>m<8. P m) \<longleftrightarrow> P 0 \<and> P 1 \<and> P 2 \<and> P 3 \<and> P 4 \<and> P 5 \<and> P 6 \<and> P (7 :: nat)"
  by (simp add: numeral_eq_Suc All_less_Suc conj_ac)

text \<open>Level 7 is in service and level 1 asks: the acknowledge is not spurious.\<close>

theorem i8259a_acknowledge_priority_witness:
  "\<exists>a q. i8259a_acknowledge_with_line
      (i8259a_new\<lparr>pic_master := (pic_master i8259a_new)\<lparr>pc_irr := 0x02, pc_isr := 0x80\<rparr>\<rparr>) = Some (a, q)
    \<and> ack_line a \<noteq> None"
proof -
  let ?p = "i8259a_new\<lparr>pic_master := (pic_master i8259a_new)\<lparr>pc_irr := 0x02, pc_isr := 0x80\<rparr>\<rparr>"
  have pry: "pc_pry (pic_master ?p) \<le> 7" "pc_pry (pic_slave ?p) \<le> 7"
    by (simp_all add: i8259a_new_def pic_chip_new_def)
  have "pic_slave_requests ?p = 0" "pic_master_requests ?p = 2" "\<not> pic_cascaded ?p 1"
    by (simp_all add: pic_slave_requests_def pic_master_requests_def pic_blocking_isr_def i8259a_new_def
        pic_chip_new_def i8259a_invalidate_irq_cache_def)
  moreover have "pic_ahead 2 (pic_master ?p) 1"
    unfolding pic_ahead_def pic_blocks_def
    by (simp add: pic_rank_def all_levels i8259a_new_def pic_chip_new_def i8259a_invalidate_irq_cache_def)
  ultimately have "pic_deliverable ?p 1"
    by (simp add: pic_deliverable_def)
  then show ?thesis
    using i8259a_acknowledge_priority [OF pry] by (auto split: option.splits)
qed

section \<open>Accesses and the states they reach\<close>

datatype pic_request =
    PicWritePort0 nat u8
  | PicWritePort2 nat u8
  | PicSetIrq u8
  | PicClearIrq u8
  | PicHasPending
  | PicAcknowledge

definition pic_perform :: "pic_request \<Rightarrow> i8259a \<Rightarrow> i8259a option" where
  "pic_perform r p =
     (case r of
        PicWritePort0 i data \<Rightarrow> i8259a_write_port0 i data p
      | PicWritePort2 i data \<Rightarrow> i8259a_write_port2 i data p
      | PicSetIrq irq \<Rightarrow> Some (snd (i8259a_set_irq irq p))
      | PicClearIrq irq \<Rightarrow> Some (snd (i8259a_clear_irq irq p))
      | PicHasPending \<Rightarrow> map_option snd (i8259a_has_pending_irq p)
      | PicAcknowledge \<Rightarrow> map_option snd (i8259a_acknowledge p))"

fun pic_addressed :: "pic_request \<Rightarrow> bool" where
  "pic_addressed (PicWritePort0 i data) \<longleftrightarrow> i < 2"
| "pic_addressed (PicWritePort2 i data) \<longleftrightarrow> i < 2"
| "pic_addressed _ \<longleftrightarrow> True"

inductive pic_reachable :: "i8259a \<Rightarrow> bool" where
  reach_new: "pic_reachable i8259a_new"
| reach_zeroed: "pic_reachable i8259a_new_zeroed"
| reach_step: "pic_reachable p \<Longrightarrow> pic_addressed r \<Longrightarrow> pic_perform r p = Some q \<Longrightarrow> pic_reachable q"

inductive_cases pic_reachable_stepE: "pic_reachable p"

definition pic_chip_ok :: "pic_chip \<Rightarrow> bool" where
  "pic_chip_ok chip \<longleftrightarrow> length (pc_icw chip) = 4 \<and> pc_pry chip \<le> 7 \<and> pc_write_icw chip \<le> 3"

definition pic_ok :: "i8259a \<Rightarrow> bool" where
  "pic_ok p \<longleftrightarrow> pic_chip_ok (pic_master p) \<and> pic_chip_ok (pic_slave p)"

text \<open>The cached answer is the one a fresh computation would give.\<close>

definition pic_cache_ok :: "i8259a \<Rightarrow> bool" where
  "pic_cache_ok p \<longleftrightarrow> (\<forall>b. pic_irq_cache p = Some b
     \<longrightarrow> (\<exists>r. i8259a_find_pending_irq p = Some r \<and> b = (r \<noteq> None)))"

lemma ok_find: "pic_ok p \<Longrightarrow> \<exists>r. i8259a_find_pending_irq p = Some r"
proof -
  assume "pic_ok p"
  then have "pic_pry_ok p" by (simp add: pic_ok_def pic_chip_ok_def pic_pry_ok_def)
  then show ?thesis by (cases rule: find_pending_cases) auto
qed

lemma has_pending_ok:
  assumes "pic_ok p" and "pic_cache_ok p"
  shows "\<exists>r q. i8259a_find_pending_irq p = Some r \<and> i8259a_has_pending_irq p = Some (r \<noteq> None, q)
    \<and> pic_ok q \<and> pic_cache_ok q \<and> i8259a_capture_state q = i8259a_capture_state p"
proof -
  obtain r where r: "i8259a_find_pending_irq p = Some r" using ok_find [OF assms(1)] by blast
  show ?thesis
  proof (cases "pic_irq_cache p")
    case None
    then show ?thesis
      using r assms(1)
      by (auto simp: i8259a_has_pending_irq_def Let_def pic_ok_def pic_cache_ok_def
          i8259a_capture_state_def i8259a_state.defs)
  next
    case (Some b)
    then show ?thesis using r assms by (auto simp: i8259a_has_pending_irq_def pic_cache_ok_def)
  qed
qed

lemma chip_at_Some: "i < 2 \<Longrightarrow> \<exists>chip. pic_chip_at i p = Some chip"
  by (simp add: pic_chip_at_def)

lemma chip_at_ok: "pic_chip_at i p = Some chip \<Longrightarrow> pic_ok p \<Longrightarrow> pic_chip_ok chip"
  by (auto simp: pic_chip_at_def pic_ok_def split: if_splits)

lemma set_chip_ok: "pic_ok p \<Longrightarrow> pic_chip_ok chip \<Longrightarrow> pic_ok (pic_set_chip i chip p)"
  by (simp add: pic_set_chip_def pic_ok_def)

lemma invalidate_ok:
  "pic_ok p \<Longrightarrow> pic_ok (i8259a_invalidate_irq_cache p)" "pic_cache_ok (i8259a_invalidate_irq_cache p)"
  by (simp_all add: i8259a_invalidate_irq_cache_def pic_ok_def pic_cache_ok_def)

lemma chip_ok_updates:
  "pic_chip_ok chip \<Longrightarrow> pic_chip_ok (pic_ocw3 data chip)"
  "pic_chip_ok chip \<Longrightarrow> pic_chip_ok (pic_icw1 data chip)"
  "pic_chip_ok chip \<Longrightarrow> pic_chip_ok (pic_ocw2 data level chip)"
  "pic_chip_ok chip \<Longrightarrow> pic_chip_ok (chip\<lparr>pc_write_icw := 0\<rparr>)"
  "pic_chip_ok chip \<Longrightarrow> pic_chip_ok (chip\<lparr>pc_imr := data\<rparr>)"
  "pic_chip_ok chip \<Longrightarrow> pic_chip_ok (pic_start_service b chip)"
  "pic_chip_ok chip \<Longrightarrow> pic_chip_ok (chip\<lparr>pc_irr := data\<rparr>)"
  by (simp_all add: pic_chip_ok_def pic_ocw2_def pic_ocw3_def pic_icw1_def pic_start_service_def
      Let_def and_7_le)

text \<open>A write to a chip that leaves out the invalidation has to leave what the scan reads.\<close>

lemma find_pending_write_icw:
  assumes "pic_chip_at i p = Some chip"
  shows "i8259a_find_pending_irq (pic_set_chip i (chip\<lparr>pc_write_icw := 0\<rparr>) p) = i8259a_find_pending_irq p"
  using assms
  by (auto simp: pic_chip_at_def pic_set_chip_def find_pending_unfold pic_blocking_isr_def
      pic_master_requests_def pic_slave_requests_def pic_slave_bit_def cong: if_cong split: if_split_asm)

lemma write_port0_ok:
  assumes "pic_ok p" "pic_cache_ok p" "i < 2"
  shows "\<exists>q. i8259a_write_port0 i data p = Some q \<and> pic_ok q \<and> pic_cache_ok q"
proof -
  obtain chip where chip: "pic_chip_at i p = Some chip" using chip_at_Some [OF assms(3)] by blast
  have ok: "pic_chip_ok chip" using chip_at_ok [OF chip assms(1)] .
  have calm: "pic_cache_ok (pic_set_chip i (chip\<lparr>pc_write_icw := 0\<rparr>) p)"
    using assms(2) find_pending_write_icw [OF chip]
    by (simp add: pic_cache_ok_def pic_set_chip_def)
  have scan: "\<exists>l. pic_scan (pc_isr chip) (pc_pry chip) = Some l" if "pc_isr chip \<noteq> 0"
    using scan_highest [OF that] ok by (auto simp: pic_chip_ok_def)
  show ?thesis
  proof (cases "data AND 0x18 = 0 \<and> data AND 0x40 = 0 \<and> pc_isr chip \<noteq> 0")
    case True
    then obtain l where "pic_scan (pc_isr chip) (pc_pry chip) = Some l" using scan by blast
    then show ?thesis using True chip ok assms(1)
      by (simp add: i8259a_write_port0_def Let_def invalidate_ok set_chip_ok chip_ok_updates)
  next
    case False
    then show ?thesis using chip ok assms(1) calm
      by (auto simp: i8259a_write_port0_def Let_def invalidate_ok set_chip_ok chip_ok_updates)
  qed
qed

lemma write_icw_step:
  "(w :: u8) \<noteq> 0 \<Longrightarrow> w \<le> 3 \<Longrightarrow> \<not> 3 + (c AND 1) \<le> w + 1 \<Longrightarrow> w + 1 \<le> 3"
proof -
  assume w: "w \<noteq> 0" "w \<le> 3" and n: "\<not> 3 + (c AND 1) \<le> w + 1"
  have "unat (c AND 1) \<le> 1" by (simp add: and_one_eq unat_mod)
  then have c: "unat (3 + (c AND 1)) = 3 + unat (c AND 1)" "unat (c AND 1) \<le> 1"
    by (simp_all add: unat_word_ariths)
  have "unat w \<le> 3" using w(2) by (simp add: word_le_nat_alt)
  then have "unat (w + 1) = unat w + 1" by (simp add: unat_word_ariths)
  then show ?thesis using n c by (simp add: word_le_nat_alt)
qed

lemma write_port2_ok:
  assumes "pic_ok p" "i < 2"
  shows "\<exists>q. i8259a_write_port2 i data p = Some q \<and> pic_ok q \<and> pic_cache_ok q"
proof -
  obtain chip where chip: "pic_chip_at i p = Some chip" using chip_at_Some [OF assms(2)] by blast
  have ok: "pic_chip_ok chip" using chip_at_ok [OF chip assms(1)] .
  show ?thesis
  proof (cases "pc_write_icw chip = 0")
    case True
    then show ?thesis using chip ok assms(1)
      by (simp add: i8259a_write_port2_def Let_def invalidate_ok set_chip_ok chip_ok_updates)
  next
    case False
    have w: "pc_write_icw chip \<le> 3" "unat (pc_write_icw chip) < length (pc_icw chip)"
      using ok by (auto simp: pic_chip_ok_def word_le_nat_alt)
    have "pic_chip_ok (chip\<lparr>pc_icw := (pc_icw chip)[n := data], pc_write_icw := 0\<rparr>)
      \<and> (3 + (c AND 1) \<le> pc_write_icw chip + 1
        \<or> pic_chip_ok (chip\<lparr>pc_icw := (pc_icw chip)[n := data], pc_write_icw := pc_write_icw chip + 1\<rparr>))" for c n
      using ok write_icw_step [OF False w(1), of c] by (auto simp: pic_chip_ok_def)
    note chip_ok = this [of "unat (pc_write_icw chip)" "(pc_icw chip)[unat (pc_write_icw chip) := data] ! 0"]
    show ?thesis
      using chip_ok False w(2) chip assms(1)
      by (cases "3 + ((pc_icw chip)[unat (pc_write_icw chip) := data] ! 0 AND 1) \<le> pc_write_icw chip + 1")
        (simp_all add: i8259a_write_port2_def Let_def invalidate_ok set_chip_ok)
  qed
qed

lemma or_bit_same: "bit (x :: u8) n \<Longrightarrow> x OR 2 ^ n = x"
  by (rule bit_eqI) (auto simp: bit_or_iff bit_exp_iff)

lemma and_not_bit_same: "\<not> bit (x :: u8) n \<Longrightarrow> x AND NOT (2 ^ n) = x"
  by (rule bit_eqI) (auto simp: bit_and_iff bit_not_iff bit_exp_iff)

lemma irr_same [simp]: "chip\<lparr>pc_irr := pc_irr chip\<rparr> = chip"
  by (cases chip) simp

lemma chip_same [simp]: "(p :: i8259a)\<lparr>pic_master := pic_master p\<rparr> = p" "p\<lparr>pic_slave := pic_slave p\<rparr> = p"
  by (cases p, simp)+

lemma set_irq_ok:
  assumes "pic_ok p" "pic_cache_ok p"
  shows "pic_ok (snd (i8259a_set_irq irq p)) \<and> pic_cache_ok (snd (i8259a_set_irq irq p))"
proof -
  have "pic_ok (p\<lparr>pic_master := (pic_master p)\<lparr>pc_irr := b\<rparr>\<rparr>)"
    "pic_ok (p\<lparr>pic_slave := (pic_slave p)\<lparr>pc_irr := b\<rparr>\<rparr>)" for b
    using assms(1) by (simp_all add: pic_ok_def chip_ok_updates)
  then show ?thesis using assms
    by (auto simp: i8259a_set_irq_def Let_def invalidate_ok and_bit_zero or_bit_same)
qed

lemma clear_irq_ok:
  assumes "pic_ok p" "pic_cache_ok p"
  shows "pic_ok (snd (i8259a_clear_irq irq p)) \<and> pic_cache_ok (snd (i8259a_clear_irq irq p))"
proof -
  have "pic_ok (p\<lparr>pic_master := (pic_master p)\<lparr>pc_irr := b\<rparr>\<rparr>)"
    "pic_ok (p\<lparr>pic_slave := (pic_slave p)\<lparr>pc_irr := b\<rparr>\<rparr>)" for b
    using assms(1) by (simp_all add: pic_ok_def chip_ok_updates)
  then show ?thesis using assms
    by (auto simp: i8259a_clear_irq_def Let_def invalidate_ok and_bit_zero and_not_bit_same)
qed

lemma acknowledge_ok:
  assumes "pic_ok p"
  shows "\<exists>v q. i8259a_acknowledge p = Some (v, q) \<and> pic_ok q \<and> pic_cache_ok q"
proof -
  obtain r where r: "i8259a_find_pending_irq p = Some r" using ok_find [OF assms] by blast
  show ?thesis
    using r assms
    by (auto simp: i8259a_acknowledge_def i8259a_acknowledge_with_line_def i8259a_invalidate_irq_cache_def
        Let_def pic_ok_def pic_cache_ok_def chip_ok_updates split: option.splits pending_irq.splits)
qed

lemma perform_ok:
  assumes "pic_ok p" "pic_cache_ok p" "pic_addressed r"
  shows "\<exists>q. pic_perform r p = Some q \<and> pic_ok q \<and> pic_cache_ok q"
proof (cases r)
  case (PicWritePort0 i data)
  then show ?thesis using write_port0_ok [OF assms(1,2)] assms(3) by (simp add: pic_perform_def)
next
  case (PicWritePort2 i data)
  then show ?thesis using write_port2_ok [OF assms(1)] assms(3) by (simp add: pic_perform_def)
next
  case PicHasPending
  then show ?thesis using has_pending_ok [OF assms(1,2)] by (auto simp: pic_perform_def)
next
  case PicAcknowledge
  then show ?thesis using acknowledge_ok [OF assms(1)] by (auto simp: pic_perform_def)
qed (use set_irq_ok [OF assms(1,2)] clear_irq_ok [OF assms(1,2)] in \<open>simp_all add: pic_perform_def\<close>)

lemma reachable_ok: "pic_reachable p \<Longrightarrow> pic_ok p \<and> pic_cache_ok p"
proof (induction rule: pic_reachable.induct)
  case (reach_step p r q)
  then show ?case using perform_ok [of p r] by auto
qed (simp_all add: i8259a_new_def i8259a_new_zeroed_def pic_chip_new_def pic_ok_def pic_chip_ok_def pic_cache_ok_def)

text \<open>
  C33 The controllers never panic. From power on, any sequence of port writes to the two
  chips, requests, withdrawals, queries and acknowledges keeps the invariants of the
  registers: every further access returns, and the captured state is one that
  \<open>restore_state\<close> accepts and reproduces.
\<close>

theorem i8259a_reachable_returns:
  assumes "pic_reachable p" and "pic_addressed r"
  shows "(\<exists>q. pic_perform r p = Some q \<and> pic_reachable q)
    \<and> fst (i8259a_restore_state (i8259a_capture_state p) u) = Inr ()
    \<and> i8259a_capture_state (snd (i8259a_restore_state (i8259a_capture_state p) u)) = i8259a_capture_state p"
proof -
  have ok: "pic_ok p" "pic_cache_ok p" using reachable_ok [OF assms(1)] by simp_all
  then obtain q where "pic_perform r p = Some q" using perform_ok [OF _ _ assms(2)] by blast
  moreover have "\<not> 4 < w" if "w \<le> 3" for w :: u8
    using that by (simp add: word_le_nat_alt not_less)
  ultimately show ?thesis
    using assms ok(1) by (auto simp: i8259a_restore_state_def i8259a_capture_state_def i8259a_state.defs pic_ok_def
        pic_chip_ok_def i8259a_invalidate_irq_cache_def not_less intro: reach_step)
qed

theorem i8259a_reachable_returns_witness:
  "\<exists>q. pic_perform (PicWritePort0 0 0x20) i8259a_new = Some q \<and> pic_reachable q"
  using i8259a_reachable_returns [OF reach_new, of "PicWritePort0 0 0x20"] by simp

text \<open>
  The cached answer is right. In every state the controllers can reach,
  \<open>has_pending_irq\<close> answers what a fresh priority resolution would, although \<open>set_irq\<close>,
  \<open>clear_irq\<close> and an end-of-interrupt command without a level in service do not drop the
  cache; and the query changes nothing that is captured.
\<close>

theorem i8259a_has_pending_irq_cached:
  assumes "pic_reachable p"
  shows "\<exists>r q. i8259a_find_pending_irq p = Some r
    \<and> i8259a_has_pending_irq p = Some (r \<noteq> None, q) \<and> i8259a_capture_state q = i8259a_capture_state p"
  using has_pending_ok reachable_ok [OF assms] by blast

theorem i8259a_has_pending_irq_cached_witness:
  "\<exists>b q. i8259a_has_pending_irq (snd (i8259a_set_irq 9 i8259a_new)) = Some (b, q)"
proof -
  have "pic_reachable (snd (i8259a_set_irq 9 i8259a_new))"
    by (rule reach_step [OF reach_new, of "PicSetIrq 9"]) (simp_all add: pic_perform_def)
  from i8259a_has_pending_irq_cached [OF this] show ?thesis by blast
qed

text \<open>
  A saved state can still panic. \<open>restore_state\<close> accepts an initialisation position of
  4, one past the four words; the next write to the mask port of that chip then indexes
  \<open>icw\<close> out of range. No sequence of accesses reaches that position by itself.
\<close>

theorem i8259a_restored_position_panics:
  assumes "length (pc_icw (pic_master s)) = 4" and "pc_write_icw (pic_master s) = 4"
    and "pc_pry (pic_master s) \<le> 7" and "pc_pry (pic_slave s) \<le> 7" and "pc_write_icw (pic_slave s) \<le> 4"
  shows "\<exists>q. i8259a_restore_state s p = (Inr (), q) \<and> i8259a_write_port2 0 data q = None
    \<and> \<not> pic_reachable q"
proof -
  let ?q = "snd (i8259a_restore_state s p)"
  have q: "i8259a_restore_state s p = (Inr (), ?q)" "pic_master ?q = pic_master s"
    using assms by (auto simp: i8259a_restore_state_def i8259a_invalidate_irq_cache_def not_less)
  have "\<not> pic_ok ?q" using q(2) assms(2) by (simp add: pic_ok_def pic_chip_ok_def)
  then have "\<not> pic_reachable ?q" using reachable_ok by blast
  moreover have "i8259a_write_port2 0 data ?q = None"
    using assms(1,2) q(2) by (simp add: i8259a_write_port2_def pic_chip_at_def)
  ultimately show ?thesis using q(1) by blast
qed

theorem i8259a_restored_position_panics_witness:
  "\<exists>q. i8259a_restore_state
        \<lparr> pic_master = (pic_chip_new [0x11, 0x08, 0x80, 0x1D] 0)\<lparr>pc_write_icw := 4\<rparr>,
          pic_slave = pic_chip_new [0x11, 0x10, 0x07, 0x09] 0 \<rparr> i8259a_new = (Inr (), q)
      \<and> i8259a_write_port2 0 0xFF q = None"
  using i8259a_restored_position_panics [where s = "\<lparr> pic_master = (pic_chip_new [0x11, 0x08, 0x80, 0x1D] 0)\<lparr>pc_write_icw := 4\<rparr>,
          pic_slave = pic_chip_new [0x11, 0x10, 0x07, 0x09] 0 \<rparr>" and p = i8259a_new and data = "0xFF"]
  by (auto simp: pic_chip_new_def)

section \<open>Nested service\<close>

text \<open>
  A level that comes into service ahead of those in service is the one a non-specific
  end-of-interrupt command takes out.
\<close>

lemma eoi_level:
  assumes "pic_highest (requests OR in_service) pry l" and "\<not> bit in_service (unat l)" and "pry \<le> 7"
  shows "pic_scan (in_service OR push_bit (unat l) 1) pry = Some l
    \<and> (in_service OR push_bit (unat l) 1) AND NOT (push_bit (unat l) 1) = in_service"
proof
  have "pic_highest (in_service OR push_bit (unat l) 1) pry l"
    using assms(1) by (auto simp: pic_highest_def bit_or_iff bit_exp_iff level_le_7)
  then show "pic_scan (in_service OR push_bit (unat l) 1) pry = Some l"
    using assms(3) by (rule scan_eq)
  show "(in_service OR push_bit (unat l) 1) AND NOT (push_bit (unat l) 1) = in_service"
    using assms(2) by (intro bit_eqI) (auto simp: bit_simps)
qed

lemma eoi_write:
  assumes "pic_chip_at i q = Some chip" and "i < 2"
    and "pic_scan (pc_isr chip) (pc_pry chip) = Some l" and "pc_isr chip \<noteq> 0"
  shows "\<exists>r. i8259a_write_port0 i 0x20 q = Some r
    \<and> pic_chip_at i r = Some (chip\<lparr>pc_write_icw := 0,
        pc_isr := pc_isr chip AND NOT (push_bit (unat l) 1)\<rparr>)"
  using assms
  by (auto simp: i8259a_write_port0_def Let_def pic_ocw2_def pic_chip_at_def pic_set_chip_def
      i8259a_invalidate_irq_cache_def less_2_cases_iff)

text \<open>
  Interrupts nest. Outside special mask mode, when an acknowledge has put a level of
  the master or of the slave into service, the non-specific end-of-interrupt command
  (\<open>0x20\<close> to port 0) of that chip ends exactly that level: the in-service register is
  what it was before the acknowledge, whatever levels of lower priority were in service.
\<close>

theorem i8259a_acknowledge_eoi:
  assumes "pc_pry (pic_master p) \<le> 7" and "pc_pry (pic_slave p) \<le> 7"
    and "pc_ocw3 (pic_master p) AND 0x20 = 0" and "pc_ocw3 (pic_slave p) AND 0x20 = 0"
    and "i8259a_acknowledge_with_line p = Some (a, q)" and "ack_line a = Some l"
  shows "\<exists>r. i8259a_write_port0 (if l \<le> 7 then 0 else 1) 0x20 q = Some r
    \<and> (if l \<le> 7 then pc_isr (pic_master r) = pc_isr (pic_master p)
       else pc_isr (pic_slave r) = pc_isr (pic_slave p))"
proof -
  note ack = i8259a_acknowledge_with_line_def i8259a_invalidate_irq_cache_def Let_def
    pic_start_service_def
  have nonzero: "x OR push_bit (unat m) 1 \<noteq> 0" if "m \<le> 7" for x m :: u8
    using that by (auto simp: word_zero_bits bit_or_iff bit_exp_iff level_le_7)
  have "pic_pry_ok p" using assms(1,2) by (simp add: pic_pry_ok_def)
  then show ?thesis
  proof (cases rule: find_pending_cases)
    case (master m)
    have level: "m \<le> 7" using master(1) by (simp add: pic_highest_def)
    have blocking: "pic_blocking_isr (pic_master p) = pc_isr (pic_master p)"
      using assms(3) by (simp add: pic_blocking_isr_def)
    have l: "l = m" and q: "pic_master q = pic_start_service (push_bit (unat m) 1) (pic_master p)"
      using assms(5,6) master(5) by (auto simp: ack)
    note eoi = eoi_level [OF master(1) [unfolded blocking] master(4) assms(1)]
    have "\<exists>r. i8259a_write_port0 0 0x20 q = Some r \<and> pic_chip_at 0 r = Some ((pic_master q)\<lparr>pc_write_icw := 0,
        pc_isr := pc_isr (pic_master q) AND NOT (push_bit (unat m) 1)\<rparr>)"
      by (rule eoi_write) (use eoi nonzero [OF level] in \<open>simp_all add: q pic_chip_at_def pic_start_service_def\<close>)
    then show ?thesis using eoi level by (auto simp: l q pic_chip_at_def pic_start_service_def)
  next
    case (slave m n)
    have level: "n \<le> 7" using slave(3) by (simp add: pic_highest_def)
    have blocking: "pic_blocking_isr (pic_slave p) = pc_isr (pic_slave p)"
      using assms(4) by (simp add: pic_blocking_isr_def)
    have l: "l = 8 + n" and q: "pic_slave q = pic_start_service (push_bit (unat n) 1) (pic_slave p)"
      using assms(5,6) slave(6) by (auto simp: ack)
    note eoi = eoi_level [OF slave(3) [unfolded blocking] slave(5) assms(2)]
    have "\<exists>r. i8259a_write_port0 1 0x20 q = Some r \<and> pic_chip_at 1 r = Some ((pic_slave q)\<lparr>pc_write_icw := 0,
        pc_isr := pc_isr (pic_slave q) AND NOT (push_bit (unat n) 1)\<rparr>)"
      by (rule eoi_write) (use eoi nonzero [OF level] in \<open>simp_all add: q pic_chip_at_def pic_start_service_def\<close>)
    then show ?thesis using eoi add_8_level [OF level] by (auto simp: l q pic_chip_at_def pic_start_service_def)
  qed (use assms(5,6) in \<open>auto simp: ack\<close>)
qed

theorem i8259a_acknowledge_eoi_witness:
  "\<exists>a q r. i8259a_acknowledge_with_line (snd (i8259a_set_irq 1 i8259a_new)) = Some (a, q)
    \<and> ack_line a = Some 1 \<and> i8259a_write_port0 0 0x20 q = Some r \<and> pc_isr (pic_master r) = 0"
proof -
  let ?p = "snd (i8259a_set_irq 1 i8259a_new)"
  have p: "pic_master ?p = (pic_chip_new [0x11, 0x08, 0x80, 0x1D] 0x7D)\<lparr>pc_irr := 2\<rparr>"
    "pic_slave ?p = pic_chip_new [0x11, 0x10, 0x07, 0x09] 0x71"
    by (simp_all add: i8259a_set_irq_def i8259a_new_def pic_chip_new_def i8259a_invalidate_irq_cache_def)
  have scan: "pic_scan 2 0 = Some 1"
    by (simp add: pic_scan.simps [of 2 0] pic_scan.simps [of 2 1])
  obtain a q where ack: "i8259a_acknowledge_with_line ?p = Some (a, q)" "ack_line a = Some 1"
    by (simp add: i8259a_acknowledge_with_line_def i8259a_find_pending_irq_def i8259a_invalidate_irq_cache_def
        p pic_chip_new_def pic_blocking_isr_def scan Let_def)
  then show ?thesis
    using i8259a_acknowledge_eoi [of ?p a q 1] by (auto simp: p pic_chip_new_def)
qed

end
