(* ===== verification/I8253.thy ===== *)
theory I8253
  imports Prelude
begin

text \<open>
  The interval timer \<open>crates/device/src/i8253_pit.rs\<close>: three counters whose current count is
  computed on demand from the reload value and the processor clocks since it was loaded.

  The 64-bit products of clocks and frequencies wrap (\<open>mod 2 ^ 64\<close>), a saturating
  subtraction is the subtraction of \<open>nat\<close>, and the count itself is computed in \<open>int\<close>, so
  that an unsigned underflow would show as a negative number; the lemmas prove that it
  stays between 0 and the period. A division by a frequency of 0 and a channel number
  above 2 panic (\<open>None\<close>).
\<close>

definition PIT_CTRL_RL :: u8 where "PIT_CTRL_RL = 0x30"
definition PIT_RL_L :: u8 where "PIT_RL_L = 0x10"
definition PIT_RL_H :: u8 where "PIT_RL_H = 0x20"
definition PIT_RL_ALL :: u8 where "PIT_RL_ALL = 0x30"
definition PIT_STAT_CMD :: u8 where "PIT_STAT_CMD = 0x40"
definition PIT_FLAG_R :: u8 where "PIT_FLAG_R = 0x01"
definition PIT_FLAG_W :: u8 where "PIT_FLAG_W = 0x02"
definition PIT_FLAG_L :: u8 where "PIT_FLAG_L = 0x04"
definition PIT_FLAG_C :: u8 where "PIT_FLAG_C = 0x10"
definition PIT_FLAG_I :: u8 where "PIT_FLAG_I = 0x20"

lemmas pit_constants = PIT_CTRL_RL_def PIT_RL_L_def PIT_RL_H_def PIT_RL_ALL_def PIT_STAT_CMD_def
  PIT_FLAG_R_def PIT_FLAG_W_def PIT_FLAG_L_def PIT_FLAG_C_def PIT_FLAG_I_def

datatype pit_write_result = Skip | InitialLoad | SubsequentLoad

record pit_channel =
  pit_ctrl :: u8
  pit_flag :: u8
  pit_value :: u16
  pit_latch :: u16
  pit_last_load_cycle :: u64
  pit_output :: bool
  pit_reload_pending :: "u16 option"
  pit_status_latch :: "u8 option"

record i8253 =
  pit_channels :: "pit_channel list"

definition pit_channel_zeroed :: pit_channel where
  "pit_channel_zeroed =
     \<lparr> pit_ctrl = 0, pit_flag = 0, pit_value = 0, pit_latch = 0, pit_last_load_cycle = 0,
       pit_output = False, pit_reload_pending = None, pit_status_latch = None \<rparr>"

definition BEEP_COUNTER_8MHZ :: u16 where "BEEP_COUNTER_8MHZ = 998"
definition BEEP_COUNTER_5_10MHZ :: u16 where "BEEP_COUNTER_5_10MHZ = 1229"

definition i8253_new :: "bool \<Rightarrow> i8253" where
  "i8253_new is_8mhz_lineage =
     (let beep_counter = (if is_8mhz_lineage then BEEP_COUNTER_8MHZ else BEEP_COUNTER_5_10MHZ) in
      \<lparr> pit_channels =
          [pit_channel_zeroed\<lparr>pit_ctrl := 0x56 AND 0x3F, pit_flag := PIT_FLAG_I, pit_output := True\<rparr>,
           pit_channel_zeroed\<lparr>pit_value := beep_counter\<rparr>,
           pit_channel_zeroed\<lparr>pit_ctrl := 0xB6 AND 0x3F, pit_output := True\<rparr>] \<rparr>)"

definition i8253_new_zeroed :: i8253 where
  "i8253_new_zeroed =
     \<lparr> pit_channels = [pit_channel_zeroed, pit_channel_zeroed, pit_channel_zeroed] \<rparr>"

text \<open>\<open>&mut self.channels[channel]\<close>: what a function does to one channel.\<close>

definition pit_with_channel ::
  "nat \<Rightarrow> (pit_channel \<Rightarrow> ('r \<times> pit_channel) option) \<Rightarrow> i8253 \<Rightarrow> ('r \<times> i8253) option" where
  "pit_with_channel channel f p =
     (if channel < length (pit_channels p) then
        map_option (\<lambda>(r, ch). (r, p\<lparr>pit_channels := (pit_channels p)[channel := ch]\<rparr>))
          (f (pit_channels p ! channel))
      else None)"

section \<open>The current count\<close>

definition pit_mode :: "pit_channel \<Rightarrow> u8" where
  "pit_mode ch = drop_bit 1 (pit_ctrl ch) AND 7"

definition pit_bcd_to_binary :: "u16 \<Rightarrow> nat" where
  "pit_bcd_to_binary w =
     (let d0 = unat (w AND 0x000F);
          d1 = unat (drop_bit 4 w AND 0x000F);
          d2 = unat (drop_bit 8 w AND 0x000F);
          d3 = unat (drop_bit 12 w AND 0x000F)
      in d3 * 1000 + d2 * 100 + d1 * 10 + d0)"

definition pit_binary_to_bcd :: "nat \<Rightarrow> u16" where
  "pit_binary_to_bcd n =
     (let d3 = n div 1000;
          n = n mod 1000;
          d2 = n div 100;
          n = n mod 100;
          d1 = n div 10;
          d0 = n mod 10
      in of_nat (push_bit 12 d3 OR push_bit 8 d2 OR push_bit 4 d1 OR d0))"

definition pit_count_period :: "pit_channel \<Rightarrow> nat" where
  "pit_count_period ch =
     (if pit_ctrl ch AND 1 \<noteq> 0 then
        (if pit_value ch = 0 then 10000 else pit_bcd_to_binary (pit_value ch))
      else if pit_value ch = 0 then 0x10000
      else unat (pit_value ch))"

definition pit_elapsed_cpu :: "pit_channel \<Rightarrow> u64 \<Rightarrow> nat" where
  "pit_elapsed_cpu ch current_cycle = unat current_cycle - unat (pit_last_load_cycle ch)"

definition pit_ticks :: "nat \<Rightarrow> u32 \<Rightarrow> u32 \<Rightarrow> nat option" where
  "pit_ticks elapsed_cpu cpu_clock_hz pit_clock_hz =
     (if cpu_clock_hz = 0 then None
      else Some (elapsed_cpu * unat pit_clock_hz mod 2 ^ 64 div unat cpu_clock_hz))"

text \<open>\<open>div_ceil(2)\<close>\<close>

definition div_ceil2 :: "nat \<Rightarrow> nat" where
  "div_ceil2 n = (n + 1) div 2"

definition pit_binary_count :: "u8 \<Rightarrow> nat \<Rightarrow> nat \<Rightarrow> int" where
  "pit_binary_count mode period ticks =
     (if mode = 2 then
        (let pos = ticks mod period in if pos = 0 then int period else int period - int pos)
      else if mode = 3 then
        (let is_odd = odd period;
             high_half = div_ceil2 period;
             pos = ticks mod period
         in if pos = 0 then int period
            else if pos < high_half then
              (if is_odd then int period + 1 - int pos * 2 else int period - int pos * 2)
            else
              (let pos_in_low = int pos - int high_half
               in if pos_in_low = 0 then int period
                  else if is_odd then int period - 1 - pos_in_low * 2
                  else int period - pos_in_low * 2))
      else int (period - ticks))"

definition pit_get_count :: "pit_channel \<Rightarrow> u64 \<Rightarrow> u32 \<Rightarrow> u32 \<Rightarrow> u16 option" where
  "pit_get_count ch current_cycle cpu_clock_hz pit_clock_hz =
     (let period = pit_count_period ch;
          elapsed_cpu = pit_elapsed_cpu ch current_cycle in
      if elapsed_cpu = 0 then Some (pit_value ch)
      else map_option (\<lambda>ticks.
             let is_bcd = pit_ctrl ch AND 1 \<noteq> 0;
                 binary_count = pit_binary_count (pit_mode ch) period ticks
             in if is_bcd then pit_binary_to_bcd (nat binary_count) else word_of_int binary_count)
           (pit_ticks elapsed_cpu cpu_clock_hz pit_clock_hz))"

definition i8253_get_count :: "nat \<Rightarrow> u64 \<Rightarrow> u32 \<Rightarrow> u32 \<Rightarrow> i8253 \<Rightarrow> u16 option" where
  "i8253_get_count channel current_cycle cpu_clock_hz pit_clock_hz p =
     (if channel < length (pit_channels p)
      then pit_get_count (pit_channels p ! channel) current_cycle cpu_clock_hz pit_clock_hz else None)"

definition pit_get_output :: "pit_channel \<Rightarrow> u64 \<Rightarrow> u32 \<Rightarrow> u32 \<Rightarrow> bool option" where
  "pit_get_output ch current_cycle cpu_clock_hz pit_clock_hz =
     (let period = pit_count_period ch;
          elapsed_cpu = pit_elapsed_cpu ch current_cycle in
      if elapsed_cpu = 0 then Some (pit_output ch)
      else map_option (\<lambda>ticks.
             let mode = pit_mode ch in
             if mode = 0 then period \<le> ticks
             else if mode = 2 then ticks mod period \<noteq> period - 1
             else if mode = 3 then ticks mod period < div_ceil2 period
             else if mode = 4 then (if period \<le> ticks then 1 \<le> ticks - period else True)
             else pit_output ch)
           (pit_ticks elapsed_cpu cpu_clock_hz pit_clock_hz))"

definition i8253_get_output :: "nat \<Rightarrow> u64 \<Rightarrow> u32 \<Rightarrow> u32 \<Rightarrow> i8253 \<Rightarrow> bool option" where
  "i8253_get_output channel current_cycle cpu_clock_hz pit_clock_hz p =
     (if channel < length (pit_channels p)
      then pit_get_output (pit_channels p ! channel) current_cycle cpu_clock_hz pit_clock_hz else None)"

section \<open>Accesses\<close>

definition pit_latch_count :: "u16 \<Rightarrow> pit_channel \<Rightarrow> pit_channel" where
  "pit_latch_count count ch =
     ch\<lparr>pit_flag := (pit_flag ch OR PIT_FLAG_C) AND NOT PIT_FLAG_L, pit_latch := count\<rparr>"

definition pit_channel_write_control ::
  "u8 \<Rightarrow> u64 \<Rightarrow> u32 \<Rightarrow> u32 \<Rightarrow> pit_channel \<Rightarrow> (unit \<times> pit_channel) option" where
  "pit_channel_write_control v current_cycle cpu_clock_hz pit_clock_hz ch =
     (if v AND PIT_CTRL_RL \<noteq> 0 then
        (let mode = drop_bit 1 v AND 7 in
         Some ((), ch\<lparr>pit_ctrl := (v AND 0x3F) OR PIT_STAT_CMD,
           pit_flag := pit_flag ch AND NOT (PIT_FLAG_R OR PIT_FLAG_W OR PIT_FLAG_L OR PIT_FLAG_C),
           pit_reload_pending := None, pit_status_latch := None, pit_output := (mode \<noteq> 0)\<rparr>))
      else map_option (\<lambda>count. ((), pit_latch_count count ch))
             (pit_get_count ch current_cycle cpu_clock_hz pit_clock_hz))"

definition i8253_write_control ::
  "nat \<Rightarrow> u8 \<Rightarrow> u64 \<Rightarrow> u32 \<Rightarrow> u32 \<Rightarrow> i8253 \<Rightarrow> (unit \<times> i8253) option" where
  "i8253_write_control channel v current_cycle cpu_clock_hz pit_clock_hz =
     pit_with_channel channel (pit_channel_write_control v current_cycle cpu_clock_hz pit_clock_hz)"

text \<open>The end of \<open>write_counter\<close>, once the reload value is complete.\<close>

definition pit_load_result :: "bool \<Rightarrow> pit_channel \<Rightarrow> pit_write_result \<times> pit_channel" where
  "pit_load_result is_initial ch =
     (let ch = ch\<lparr>pit_ctrl := pit_ctrl ch AND NOT PIT_STAT_CMD\<rparr> in
      (if pit_ctrl ch AND 0x06 = 0x02 \<and> pit_flag ch AND PIT_FLAG_I \<noteq> 0 then Skip
       else if is_initial then InitialLoad else SubsequentLoad, ch))"

definition pit_channel_write_counter :: "u8 \<Rightarrow> pit_channel \<Rightarrow> pit_write_result \<times> pit_channel" where
  "pit_channel_write_counter v ch =
     (let is_initial = pit_ctrl ch AND PIT_STAT_CMD \<noteq> 0;
          rl = pit_ctrl ch AND PIT_CTRL_RL in
      if rl = PIT_RL_L then pit_load_result is_initial (ch\<lparr>pit_value := ucast v\<rparr>)
      else if rl = PIT_RL_H then pit_load_result is_initial (ch\<lparr>pit_value := push_bit 8 (ucast v)\<rparr>)
      else if rl = PIT_RL_ALL then
        (let ch = ch\<lparr>pit_flag := pit_flag ch XOR PIT_FLAG_W\<rparr> in
         if pit_flag ch AND PIT_FLAG_W \<noteq> 0 then
           (let ch = (if pit_mode ch = 0 then ch\<lparr>pit_output := False\<rparr> else ch) in
            (Skip, ch\<lparr>pit_value := (pit_value ch AND 0xFF00) OR ucast v\<rparr>))
         else pit_load_result is_initial
           (ch\<lparr>pit_value := (pit_value ch AND 0x00FF) OR push_bit 8 (ucast v)\<rparr>))
      else pit_load_result is_initial ch)"

definition i8253_write_counter :: "nat \<Rightarrow> u8 \<Rightarrow> i8253 \<Rightarrow> (pit_write_result \<times> i8253) option" where
  "i8253_write_counter channel v =
     pit_with_channel channel (\<lambda>ch. Some (pit_channel_write_counter v ch))"

definition pit_channel_read_back ::
  "u8 \<Rightarrow> u64 \<Rightarrow> u32 \<Rightarrow> u32 \<Rightarrow> pit_channel \<Rightarrow> (unit \<times> pit_channel) option" where
  "pit_channel_read_back v current_cycle cpu_clock_hz pit_clock_hz ch =
     (let latch_count = (v AND 0x20 = 0);
          latch_status = (v AND 0x10 = 0) in
      Option.bind
        (if latch_status \<and> pit_status_latch ch = None then
           map_option (\<lambda>output.
             let ctrl = pit_ctrl ch;
                 null_count = (if ctrl AND PIT_STAT_CMD \<noteq> 0 then 0x40 else 0)
             in ch\<lparr>pit_status_latch :=
                  Some (push_bit 7 (u8_of_bool output) OR null_count OR (ctrl AND 0x3F))\<rparr>)
             (pit_get_output ch current_cycle cpu_clock_hz pit_clock_hz)
         else Some ch)
        (\<lambda>ch. if latch_count \<and> pit_flag ch AND PIT_FLAG_C = 0 then
                 map_option (\<lambda>count. ((), pit_latch_count count ch))
                   (pit_get_count ch current_cycle cpu_clock_hz pit_clock_hz)
               else Some ((), ch)))"

fun pit_read_back_channels ::
  "nat list \<Rightarrow> u8 \<Rightarrow> u64 \<Rightarrow> u32 \<Rightarrow> u32 \<Rightarrow> i8253 \<Rightarrow> i8253 option" where
  "pit_read_back_channels [] v now cpu pit p = Some p"
| "pit_read_back_channels (channel # channels) v now cpu pit p =
     (if v AND push_bit channel 0x02 = 0 then pit_read_back_channels channels v now cpu pit p
      else Option.bind (pit_with_channel channel (pit_channel_read_back v now cpu pit) p)
             (\<lambda>(_, p). pit_read_back_channels channels v now cpu pit p))"

definition i8253_write_read_back :: "u8 \<Rightarrow> u64 \<Rightarrow> u32 \<Rightarrow> u32 \<Rightarrow> i8253 \<Rightarrow> i8253 option" where
  "i8253_write_read_back = pit_read_back_channels [0, 1, 2]"

definition pit_channel_read_counter ::
  "u64 \<Rightarrow> u32 \<Rightarrow> u32 \<Rightarrow> pit_channel \<Rightarrow> (u8 \<times> pit_channel) option" where
  "pit_channel_read_counter current_cycle cpu_clock_hz pit_clock_hz ch =
     (case pit_status_latch ch of
        Some status \<Rightarrow> Some (status, ch\<lparr>pit_status_latch := None\<rparr>)
      | None \<Rightarrow>
          (let rl = pit_ctrl ch AND PIT_CTRL_RL in
           Option.bind
             (if pit_flag ch AND (PIT_FLAG_C OR PIT_FLAG_L) \<noteq> 0 then
                (let ch = ch\<lparr>pit_flag := pit_flag ch AND NOT PIT_FLAG_C\<rparr>;
                     ch = (if rl = PIT_RL_ALL then ch\<lparr>pit_flag := pit_flag ch XOR PIT_FLAG_L\<rparr> else ch)
                 in Some (pit_latch ch, ch))
              else map_option (\<lambda>count. (count, ch)) (pit_get_count ch current_cycle cpu_clock_hz pit_clock_hz))
             (\<lambda>(w, ch).
                if rl = PIT_RL_L then Some (ucast w, ch)
                else if rl = PIT_RL_H then Some (ucast (drop_bit 8 w), ch)
                else Some (if pit_flag ch AND PIT_FLAG_R = 0 then ucast w else ucast (drop_bit 8 w),
                           ch\<lparr>pit_flag := pit_flag ch XOR PIT_FLAG_R\<rparr>))))"

definition i8253_read_counter :: "nat \<Rightarrow> u64 \<Rightarrow> u32 \<Rightarrow> u32 \<Rightarrow> i8253 \<Rightarrow> (u8 \<times> i8253) option" where
  "i8253_read_counter channel current_cycle cpu_clock_hz pit_clock_hz =
     pit_with_channel channel (pit_channel_read_counter current_cycle cpu_clock_hz pit_clock_hz)"

section \<open>Timer 0\<close>

definition i8253_timer0_period_cycles :: "u32 \<Rightarrow> u32 \<Rightarrow> i8253 \<Rightarrow> nat option" where
  "i8253_timer0_period_cycles cpu_clock_hz pit_clock_hz p =
     (if pit_clock_hz = 0 \<or> pit_channels p = [] then None
      else Some (pit_count_period (pit_channels p ! 0) * unat cpu_clock_hz div unat pit_clock_hz))"

text \<open>The inner option is the one the method returns; the outer one is a panic.\<close>

definition i8253_timer0_high_cycles :: "u32 \<Rightarrow> u32 \<Rightarrow> i8253 \<Rightarrow> nat option option" where
  "i8253_timer0_high_cycles cpu_clock_hz pit_clock_hz p =
     (if pit_channels p = [] then None
      else
        (let channel = pit_channels p ! 0;
             reload = pit_count_period channel;
             cycles = (\<lambda>high_ticks. if pit_clock_hz = 0 then None
               else Some (Some (max (high_ticks * unat cpu_clock_hz div unat pit_clock_hz) 1)))
         in if pit_mode channel = 2 then cycles (max (reload - 1) 1)
            else if pit_mode channel = 3 then cycles (div_ceil2 reload)
            else Some None))"

definition pit_channel_advance :: "u64 \<Rightarrow> pit_channel \<Rightarrow> bool \<times> pit_channel" where
  "pit_channel_advance current_cycle ch =
     (let raise_irq = (pit_flag ch AND PIT_FLAG_I \<noteq> 0);
          ch = (if raise_irq then ch\<lparr>pit_flag := pit_flag ch AND NOT PIT_FLAG_I\<rparr> else ch);
          mode = pit_mode ch;
          ch = (case pit_reload_pending ch of
                  Some pending \<Rightarrow> ch\<lparr>pit_reload_pending := None, pit_value := pending\<rparr>
                | None \<Rightarrow> ch);
          ch = (if mode = 0 then ch\<lparr>pit_output := True\<rparr>
                else if mode = 3 then ch\<lparr>pit_output := \<not> pit_output ch\<rparr> else ch);
          ch = (if mode = 2 \<or> mode = 3 then ch\<lparr>pit_flag := pit_flag ch OR PIT_FLAG_I\<rparr> else ch)
      in (raise_irq, ch\<lparr>pit_last_load_cycle := current_cycle\<rparr>))"

definition i8253_advance_timer0 :: "u64 \<Rightarrow> i8253 \<Rightarrow> (bool \<times> i8253) option" where
  "i8253_advance_timer0 current_cycle =
     pit_with_channel 0 (\<lambda>ch. Some (pit_channel_advance current_cycle ch))"

definition i8253_capture_state :: "i8253 \<Rightarrow> i8253" where
  "i8253_capture_state p = p"

definition i8253_restore_state :: "i8253 \<Rightarrow> i8253 \<Rightarrow> i8253" where
  "i8253_restore_state state p = state"

end
