(* ===== verification/I8253_Properties.thy ===== *)
theory I8253_Properties
  imports I8253
begin

text \<open>
  The interval timer: bounds of the computed count and what it means in each mode, the
  packed decimal conversion, and the latched two-byte read.
\<close>

section \<open>Packed decimal\<close>

lemma or_low:
  fixes a b :: nat
  assumes "b < 2 ^ n"
  shows "push_bit n a OR b = a * 2 ^ n + b"
proof -
  have "take_bit n b = b" using assms by (rule take_bit_nat_eq_self)
  then have "bit b m \<Longrightarrow> m < n" for m by (metis bit_take_bit_iff)
  then have "push_bit n a AND b = 0"
    by (intro bit_eqI) (force simp: bit_and_iff bit_push_bit_iff)
  then have "push_bit n a OR b = push_bit n a + b" by (simp add: disjunctive_add_eq_or)
  then show ?thesis by (simp add: push_bit_eq_mult)
qed

lemma bcd_word:
  assumes "a < 16" "b < 16" "c < 16" "d < 16"
  shows "push_bit 12 a OR push_bit 8 b OR push_bit 4 c OR d = 4096 * a + 256 * b + 16 * c + (d :: nat)"
proof -
  have c: "push_bit 4 c OR d = c * 16 + d" using or_low [of d 4 c] assms by simp
  have b: "push_bit 8 b OR (c * 16 + d) = b * 256 + (c * 16 + d)" using or_low [of "c * 16 + d" 8 b] assms by simp
  have a: "push_bit 12 a OR (b * 256 + (c * 16 + d)) = a * 4096 + (b * 256 + (c * 16 + d))"
    using or_low [of "b * 256 + (c * 16 + d)" 12 a] assms by simp
  show ?thesis using a b c by (simp add: or.assoc)
qed

lemma unat_binary_to_bcd:
  assumes "n < 16000"
  shows "unat (pit_binary_to_bcd n)
    = 4096 * (n div 1000) + 256 * (n mod 1000 div 100) + 16 * (n mod 100 div 10) + n mod 10"
proof -
  have digits: "n div 1000 < 16" "n mod 1000 div 100 < 10" "n mod 100 div 10 < 10" "n mod 10 < 10"
    using assms by linarith+
  have short: "n mod 1000 mod 100 = n mod 100" "n mod 100 mod 10 = n mod 10"
    by (simp_all add: mod_mod_cancel)
  have "4096 * (n div 1000) + 256 * (n mod 1000 div 100) + 16 * (n mod 100 div 10) + n mod 10 < 65536"
    using digits by linarith
  moreover have "pit_binary_to_bcd n
      = of_nat (4096 * (n div 1000) + 256 * (n mod 1000 div 100) + 16 * (n mod 100 div 10) + n mod 10)"
    using digits bcd_word [of "n div 1000" "n mod 1000 div 100" "n mod 100 div 10" "n mod 10"]
    by (simp only: pit_binary_to_bcd_def Let_def short)
  ultimately show ?thesis
    by (simp only: unat_of_nat) (simp add: take_bit_nat_eq_self)
qed

lemma unat_nibble: "unat (drop_bit k w AND 0x000F) = unat (w :: u16) div 2 ^ k mod 16"
proof -
  have "drop_bit k w AND 0x000F = take_bit 4 (drop_bit k w)"
    by (simp add: take_bit_eq_mask mask_eq_exp_minus_1)
  then have "unat (drop_bit k w AND 0x000F) = take_bit 4 (unat (drop_bit k w))"
    by (simp only: unsigned_take_bit_eq)
  also have "unat (drop_bit k w) = unat w div 2 ^ k"
    by (subst unsigned_drop_bit_eq)
      (simp add: drop_bit_eq_div take_bit_nat_eq_self unat_u16_less [simplified])
  finally show ?thesis by (simp add: take_bit_eq_mod)
qed

lemma bcd_to_binary_digits:
  "pit_bcd_to_binary w = 1000 * (unat w div 4096 mod 16) + 100 * (unat w div 256 mod 16)
     + 10 * (unat w div 16 mod 16) + unat w mod 16"
  using unat_nibble [of 12 w] unat_nibble [of 8 w] unat_nibble [of 4 w] unat_nibble [of 0 w]
  by (simp add: pit_bcd_to_binary_def Let_def)

lemma nibbles:
  fixes a b c d :: nat
  assumes "a < 16" "b < 16" "c < 16" "d < 16"
  shows "(4096 * a + 256 * b + 16 * c + d) div 4096 mod 16 = a"
    "(4096 * a + 256 * b + 16 * c + d) div 256 mod 16 = b"
    "(4096 * a + 256 * b + 16 * c + d) div 16 mod 16 = c"
    "(4096 * a + 256 * b + 16 * c + d) mod 16 = d"
proof -
  let ?n = "4096 * a + 256 * b + 16 * c + d"
  have n: "?n = d + 16 * (c + 16 * (b + 16 * a))" by simp
  have digit: "(x + 16 * y) div 16 = y" "(x + 16 * y) mod 16 = x" if "x < 16" for x y :: nat
    using that by simp_all
  have step: "m div 256 = m div 16 div 16" "m div 4096 = m div 16 div 16 div 16" for m :: nat
    by (simp_all add: div_mult2_eq [symmetric])
  have 1: "?n div 16 = c + 16 * (b + 16 * a)" "?n mod 16 = d"
    unfolding n digit [OF assms(4)] by (rule refl)+
  have 2: "?n div 256 = b + 16 * a" "?n div 4096 = a"
    unfolding step 1 digit [OF assms(3)] digit [OF assms(2)] by (rule refl)+
  show "?n div 4096 mod 16 = a" unfolding 2 using assms(1) by simp
  show "?n div 256 mod 16 = b" unfolding 2 by (rule digit(2) [OF assms(2)])
  show "?n div 16 mod 16 = c" unfolding 1 by (rule digit(2) [OF assms(3)])
  show "?n mod 16 = d" by (rule 1(2))
qed

text \<open>
  Packed decimal counts. Converting a count of at most four decimal digits to packed
  decimal and back is the identity, and the digits of the word are the digits of the
  number.
\<close>

theorem pit_bcd_roundtrip:
  assumes "n \<le> 9999"
  shows "pit_bcd_to_binary (pit_binary_to_bcd n) = n
    \<and> unat (pit_binary_to_bcd n) = 4096 * (n div 1000) + 256 * (n div 100 mod 10) + 16 * (n div 10 mod 10) + n mod 10"
proof -
  have digits: "n div 1000 < 10" "n mod 1000 div 100 < 10" "n mod 100 div 10 < 10" "n mod 10 < 10"
    using assms by linarith+
  let ?a = "n div 1000" and ?b = "n mod 1000 div 100" and ?c = "n mod 100 div 10" and ?d = "n mod 10"
  have w: "unat (pit_binary_to_bcd n) = 4096 * ?a + 256 * ?b + 16 * ?c + ?d"
    using unat_binary_to_bcd [of n] assms by simp
  have split: "(4096 * a + 256 * b + 16 * c + d) div 4096 mod 16 = a"
    "(4096 * a + 256 * b + 16 * c + d) div 256 mod 16 = b"
    "(4096 * a + 256 * b + 16 * c + d) div 16 mod 16 = c" "(4096 * a + 256 * b + 16 * c + d) mod 16 = d"
    if "a < 10" "b < 10" "c < 10" "d < 10" for a b c d :: nat
    using nibbles [of a b c d] that by simp_all
  have "pit_bcd_to_binary (pit_binary_to_bcd n) = 1000 * ?a + 100 * ?b + 10 * ?c + ?d"
    unfolding bcd_to_binary_digits w split [OF digits] ..
  moreover have quotient: "x div k = q" if "x = k * q + r" "r < k" for x k q r :: nat
    using that by simp
  have split: "n mod 1000 = 100 * (n div 100 mod 10) + n mod 100" "n mod 100 = 10 * (n div 10 mod 10) + n mod 10"
    using mod_mult2_eq [of n 100 10] mod_mult2_eq [of n 10 10] by simp_all
  have "n div 100 mod 10 = ?b" "n div 10 mod 10 = ?c"
    using quotient [OF split(1)] quotient [OF split(2)] by simp_all
  moreover from this have "1000 * ?a + 100 * ?b + 10 * ?c + ?d = n"
    using split mult_div_mod_eq [of 1000 n] by linarith
  ultimately show ?thesis using w by simp
qed

theorem pit_bcd_roundtrip_witness: "pit_bcd_to_binary (pit_binary_to_bcd 1234) = 1234"
  using pit_bcd_roundtrip [of 1234] by simp

text \<open>
  A decimal count of 10000. In BCD mode a reload value of 0 stands for 10000 ticks, and
  the count at the start of a period in mode 2 or 3 is read back as the word A000, which is
  not packed decimal: the thousands digit holds ten.
\<close>

theorem pit_bcd_zero_reload:
  assumes "pit_ctrl ch AND 1 \<noteq> 0" and "pit_value ch = 0" and "pit_mode ch = 2 \<or> pit_mode ch = 3"
    and "pit_elapsed_cpu ch now \<noteq> 0" and "pit_ticks (pit_elapsed_cpu ch now) cpu pit = Some ticks"
    and "ticks mod 10000 = 0"
  shows "pit_get_count ch now cpu pit = Some 0xA000"
proof -
  have "pit_binary_to_bcd 10000 = 0xA000"
    using unat_binary_to_bcd [of 10000] by (simp add: word_unat_eq_iff)
  then show ?thesis
    using assms by (auto simp: pit_get_count_def pit_binary_count_def pit_count_period_def Let_def)
qed

theorem pit_bcd_zero_reload_witness:
  "pit_get_count (pit_channel_zeroed\<lparr>pit_ctrl := 0x35\<rparr>) 10000 1 1 = Some 0xA000"
  by (rule pit_bcd_zero_reload [of _ _ _ _ 10000])
    (simp_all add: pit_channel_zeroed_def pit_mode_def pit_elapsed_cpu_def pit_ticks_def)

section \<open>Bounds of the count\<close>

lemma count_period_pos: "0 < pit_count_period ch"
proof -
  have "pit_bcd_to_binary w \<noteq> 0" if "w \<noteq> 0" for w
  proof
    assume zero: "pit_bcd_to_binary w = 0"
    have "unat w < 65536" by (rule unat_u16_less)
    then have "unat w div 4096 < 16" by linarith
    moreover have "unat w = 4096 * (unat w div 4096) + 256 * (unat w div 256 mod 16)
        + 16 * (unat w div 16 mod 16) + unat w mod 16"
      using mod_mult2_eq [of "unat w" 16 256] mod_mult2_eq [of "unat w div 16" 16 16] div_mult2_eq [of "unat w" 16 16]
        mult_div_mod_eq [of 4096 "unat w"] by (simp add: div_mult2_eq [symmetric])
    ultimately have "unat w = 0" using zero unfolding bcd_to_binary_digits by simp
    then show False using that by (simp add: unat_eq_0)
  qed
  then show ?thesis by (auto simp: pit_count_period_def unat_gt_0)
qed

lemma rate_count:
  assumes "0 < period"
  shows "0 < pit_binary_count 2 period ticks \<and> pit_binary_count 2 period ticks \<le> int period
    \<and> (pit_binary_count 2 period ticks + int ticks) mod int period = 0"
proof -
  let ?pos = "ticks mod period"
  have pos: "?pos < period" using assms by simp
  have ticks: "int ticks = int period * int (ticks div period) + int ?pos"
    using mult_div_mod_eq [of period ticks] by (metis of_nat_add of_nat_mult)
  have "int period - int ?pos + int ticks = int period * (int (ticks div period) + 1)"
    unfolding ticks by (simp add: algebra_simps)
  then have "(int period - int ?pos + int ticks) mod int period = 0" by simp
  then show ?thesis
    using pos by (cases "?pos = 0") (simp_all add: pit_binary_count_def Let_def)
qed

lemma square_count:
  assumes "0 < period"
  shows "min 2 (int period) \<le> pit_binary_count 3 period ticks \<and> pit_binary_count 3 period ticks \<le> int period"
proof -
  define p where "p = ticks mod period"
  have pos: "p < period" using assms by (simp add: p_def)
  show ?thesis
  proof (cases "odd period")
    case True
    then obtain k where k: "period = 2 * k + 1" by (rule oddE)
    then have half: "div_ceil2 period = k + 1" by (simp add: div_ceil2_def)
    show ?thesis using pos True unfolding pit_binary_count_def Let_def half p_def [symmetric] by (auto simp: k)
  next
    case False
    then obtain k where k: "period = 2 * k" by (auto elim: evenE)
    then have half: "div_ceil2 period = k" by (simp add: div_ceil2_def)
    show ?thesis using pos False unfolding pit_binary_count_def Let_def half p_def [symmetric] by (auto simp: k)
  qed
qed

text \<open>
  The binary count. With a processor clock, a count is always computed. Once a clock has
  passed since the reload, in binary counting, it is a number between 0 and the period
  (65536 reads as 0), so that no unsigned subtraction of the code underflows: in mode 2 it is
  never 0 and falls by one per tick through the period, in mode 3 it is at least 2 unless
  the period is 1, and in the other modes it counts down to 0 once.
\<close>

theorem pit_get_count_bounds:
  assumes "cpu \<noteq> 0" and "pit_ctrl ch AND 1 = 0" and "pit_elapsed_cpu ch now \<noteq> 0"
  shows "\<exists>c ticks n. pit_ticks (pit_elapsed_cpu ch now) cpu pit = Some ticks
    \<and> pit_get_count ch now cpu pit = Some c \<and> unat c = n mod 65536
    \<and> int n = pit_binary_count (pit_mode ch) (pit_count_period ch) ticks \<and> n \<le> pit_count_period ch
    \<and> (pit_mode ch = 2 \<longrightarrow> 0 < n \<and> (n + ticks) mod pit_count_period ch = 0)
    \<and> (pit_mode ch = 3 \<longrightarrow> min 2 (pit_count_period ch) \<le> n)
    \<and> (pit_mode ch \<noteq> 2 \<and> pit_mode ch \<noteq> 3 \<longrightarrow> n + ticks = max (pit_count_period ch) ticks)"
proof -
  obtain ticks where ticks: "pit_ticks (pit_elapsed_cpu ch now) cpu pit = Some ticks"
    using assms(1) by (simp add: pit_ticks_def)
  let ?count = "pit_binary_count (pit_mode ch) (pit_count_period ch) ticks"
  note rate = rate_count [OF count_period_pos, of ch ticks]
  note square = square_count [OF count_period_pos, of ch ticks]
  have other: "?count = int (pit_count_period ch - ticks)" if "pit_mode ch \<noteq> 2" "pit_mode ch \<noteq> 3"
    using that by (simp add: pit_binary_count_def)
  have "0 \<le> ?count" using rate square other by (cases "pit_mode ch = 2"; cases "pit_mode ch = 3") auto
  then obtain n where n: "int n = ?count" by (metis nonneg_int_cases)
  have count: "pit_get_count ch now cpu pit = Some (of_nat n)"
    using assms ticks n by (simp add: pit_get_count_def Let_def n [symmetric])
  have wrap: "unat (of_nat n :: u16) = n mod 65536" by (simp add: unat_of_nat take_bit_eq_mod)
  have modular: "(n + ticks) mod pit_count_period ch = 0"
    if "(int n + int ticks) mod int (pit_count_period ch) = 0"
    using that by (metis of_nat_0_eq_iff of_nat_add of_nat_mod)
  have "n \<le> pit_count_period ch"
    using rate square other n by (cases "pit_mode ch = 2"; cases "pit_mode ch = 3") auto
  moreover have "0 < n \<and> (n + ticks) mod pit_count_period ch = 0" if "pit_mode ch = 2"
    using rate modular n that by simp
  moreover have "min 2 (pit_count_period ch) \<le> n" if "pit_mode ch = 3"
    using square n that by (simp add: min_def split: if_split_asm)
  moreover have "n + ticks = max (pit_count_period ch) ticks" if "pit_mode ch \<noteq> 2" "pit_mode ch \<noteq> 3"
    using other [OF that] n by simp
  ultimately show ?thesis
    by - (rule exI [of _ "of_nat n"], rule exI [of _ ticks], rule exI [of _ n], simp add: ticks count wrap n)
qed

theorem pit_get_count_bounds_witness:
  "\<exists>c. pit_get_count (pit_channel_zeroed\<lparr>pit_ctrl := 0x34, pit_value := 100\<rparr>) 250 1 1 = Some c \<and> unat c = 50"
proof -
  let ?ch = "pit_channel_zeroed\<lparr>pit_ctrl := 0x34, pit_value := 100\<rparr>"
  have ch: "pit_ctrl ?ch AND 1 = 0" "pit_mode ?ch = 2" "pit_count_period ?ch = 100"
    "pit_elapsed_cpu ?ch 250 = 250" "pit_ticks 250 1 1 = Some 250"
    by (simp_all add: pit_channel_zeroed_def pit_mode_def pit_count_period_def pit_elapsed_cpu_def pit_ticks_def)
  then show ?thesis
    using pit_get_count_bounds [of 1 ?ch 250 1] by (auto simp: pit_binary_count_def Let_def)
qed

section \<open>The latched read\<close>

lemma flag_bits_off: "PIT_FLAG_C AND PIT_FLAG_L = 0"
  by (simp add: pit_constants)

text \<open>
  Reading a latched counter. When a channel is read as two bytes, no byte of a read is
  outstanding and no status is latched, a latch command freezes the count of that moment:
  the next two reads return its low and its high byte, however much time passes between
  the command and the reads, and leave no latch behind.
\<close>

theorem pit_latch_read:
  assumes "pit_ctrl ch AND PIT_CTRL_RL = PIT_RL_ALL" and "pit_flag ch AND PIT_FLAG_R = 0"
    and "pit_status_latch ch = None" and "v AND PIT_CTRL_RL = 0" and "cpu \<noteq> 0"
  shows "\<exists>count latched one two. pit_get_count ch now cpu pit = Some count
    \<and> pit_channel_write_control v now cpu pit ch = Some ((), latched)
    \<and> pit_channel_read_counter later cpu pit latched = Some (lo8 count, one)
    \<and> pit_channel_read_counter even_later cpu pit one = Some (hi8 count, two)
    \<and> pit_flag two AND (PIT_FLAG_C OR PIT_FLAG_L OR PIT_FLAG_R) = 0"
proof -
  obtain count where count: "pit_get_count ch now cpu pit = Some count"
  proof -
    have "pit_get_count ch now cpu pit \<noteq> None"
      using assms(5) by (simp add: pit_get_count_def pit_ticks_def Let_def)
    with that show ?thesis by blast
  qed
  let ?latched = "pit_latch_count count ch"
  have bits: "\<not> bit (pit_flag ch) 0" using assms(2) and_pow2_nonzero [of "pit_flag ch" 0] by (simp add: PIT_FLAG_R_def)
  let ?one = "?latched\<lparr>pit_flag := (((pit_flag ?latched AND NOT PIT_FLAG_C) XOR PIT_FLAG_L) XOR PIT_FLAG_R)\<rparr>"
  let ?two = "?one\<lparr>pit_flag := (((pit_flag ?one AND NOT PIT_FLAG_C) XOR PIT_FLAG_L) XOR PIT_FLAG_R)\<rparr>"
  have flags:
    "pit_flag ?latched AND (PIT_FLAG_C OR PIT_FLAG_L) \<noteq> 0"
    "((pit_flag ?latched AND NOT PIT_FLAG_C) XOR PIT_FLAG_L) AND PIT_FLAG_R = 0"
    "pit_flag ?one AND (PIT_FLAG_C OR PIT_FLAG_L) \<noteq> 0"
    "((pit_flag ?one AND NOT PIT_FLAG_C) XOR PIT_FLAG_L) AND PIT_FLAG_R \<noteq> 0"
    "pit_flag ?two AND (PIT_FLAG_C OR PIT_FLAG_L OR PIT_FLAG_R) = 0"
    using bits
    by (auto simp: pit_latch_count_def pit_constants u8_eq_iff bit_and_iff bit_or_iff bit_xor_iff bit_not_iff)
  have "pit_channel_write_control v now cpu pit ch = Some ((), ?latched)"
    using assms(4) count by (simp add: pit_channel_write_control_def)
  moreover have "pit_channel_read_counter later cpu pit ?latched = Some (lo8 count, ?one)"
    using assms(1,3) flags(1,2)
    by (simp add: pit_channel_read_counter_def Let_def pit_latch_count_def lo8_def pit_constants)
  moreover have "pit_channel_read_counter even_later cpu pit ?one = Some (hi8 count, ?two)"
    using assms(1,3) flags(3,4)
    by (simp add: pit_channel_read_counter_def Let_def pit_latch_count_def hi8_def pit_constants)
  ultimately show ?thesis using count flags(5) by blast
qed

theorem pit_latch_read_witness:
  "\<exists>latched one two. pit_channel_write_control 0 30 1 1 (pit_channel_zeroed\<lparr>pit_ctrl := 0x34, pit_value := 0x1234\<rparr>)
      = Some ((), latched)
    \<and> pit_channel_read_counter 99 1 1 latched = Some (0x16, one)
    \<and> pit_channel_read_counter 500 1 1 one = Some (0x12, two)"
proof -
  let ?ch = "pit_channel_zeroed\<lparr>pit_ctrl := 0x34, pit_value := 0x1234\<rparr>"
  have "pit_get_count ?ch 30 1 1 = Some 0x1216"
    by (simp add: pit_get_count_def pit_channel_zeroed_def pit_mode_def pit_count_period_def pit_elapsed_cpu_def
        pit_ticks_def pit_binary_count_def Let_def)
  moreover have "lo8 0x1216 = 0x16" "hi8 0x1216 = 0x12" by (simp_all add: lo8_def hi8_def)
  ultimately show ?thesis
    using pit_latch_read [of ?ch 0 1 30 1 99 500]
    by (auto simp: pit_channel_zeroed_def pit_constants)
qed

end
