(* ===== verification/Bytes.thy ===== *)
theory Bytes
  imports Prelude
begin

text \<open>
  Byte strings: indexed access that may fail, copying into a buffer, little-endian words and
  the decoding of byte strings to text, as the standard library of Rust defines them. A
  \<open>String\<close> is the list of its bytes in UTF-8.
\<close>

section \<open>Slices\<close>

text \<open>\<open>slice.get(i)\<close>\<close>

definition list_get :: "'a list \<Rightarrow> nat \<Rightarrow> 'a option" where
  "list_get xs i = (if i < length xs then Some (xs ! i) else None)"

text \<open>\<open>slice[i] = value\<close>, which panics out of range\<close>

definition list_put :: "'a list \<Rightarrow> nat \<Rightarrow> 'a \<Rightarrow> 'a list option" where
  "list_put xs i v = (if i < length xs then Some (xs[i := v]) else None)"

text \<open>\<open>slice[a..b]\<close>, which panics out of range\<close>

definition slice_range :: "nat \<Rightarrow> nat \<Rightarrow> 'a list \<Rightarrow> 'a list option" where
  "slice_range a b xs = (if a \<le> b \<and> b \<le> length xs then Some (take (b - a) (drop a xs)) else None)"

text \<open>\<open>buffer[pos..pos + bytes.len()].copy_from_slice(bytes)\<close>\<close>

definition copy_into :: "nat \<Rightarrow> 'a list \<Rightarrow> 'a list \<Rightarrow> 'a list" where
  "copy_into pos bs xs = take pos xs @ bs @ drop (pos + length bs) xs"

lemma length_copy_into [simp]: "pos + length bs \<le> length xs \<Longrightarrow> length (copy_into pos bs xs) = length xs"
  by (simp add: copy_into_def)

lemma copy_into_append:
  "length ys = length bs \<Longrightarrow> copy_into (length xs) bs (xs @ ys @ zs) = xs @ bs @ zs"
  by (simp add: copy_into_def)

lemma copy_into_Nil [simp]: "copy_into pos [] xs = xs"
  by (simp add: copy_into_def)

lemma copy_into_split:
  assumes "n \<le> length bs" and "pos + length bs \<le> length xs"
  shows "copy_into (pos + n) (drop n bs) (copy_into pos (take n bs) xs) = copy_into pos bs xs"
proof -
  have "take n bs @ drop n bs @ zs = bs @ zs" for zs
    by (metis append_assoc append_take_drop_id)
  then show ?thesis
    using assms by (simp add: copy_into_def add.commute)
qed

lemma nth_copy_into:
  assumes "pos + length bs \<le> length xs" and "i < length xs"
  shows "copy_into pos bs xs ! i = (if pos \<le> i \<and> i < pos + length bs then bs ! (i - pos) else xs ! i)"
  using assms by (auto simp: copy_into_def nth_append)

text \<open>Reading a slice of a buffer that another slice was copied into.\<close>

lemma slice_copy_into_same:
  "\<lbrakk>pos + length bs \<le> length xs\<rbrakk> \<Longrightarrow> take (length bs) (drop pos (copy_into pos bs xs)) = bs"
  by (simp add: copy_into_def)

lemma slice_copy_into_other:
  assumes "pos + length bs \<le> length xs" and "p + n \<le> pos \<or> pos + length bs \<le> p"
  shows "take n (drop p (copy_into pos bs xs)) = take n (drop p xs)"
  using assms(2)
proof
  assume before: "p + n \<le> pos"
  have "take n (drop p (copy_into pos bs xs)) = drop p (take (p + n) (copy_into pos bs xs))"
    by (simp add: take_drop add.commute)
  also have "take (p + n) (copy_into pos bs xs) = take (p + n) xs"
    using before assms(1) by (simp add: copy_into_def min_def)
  finally show ?thesis
    by (simp add: take_drop add.commute)
next
  assume "pos + length bs \<le> p"
  then show ?thesis
    using assms(1) by (simp add: copy_into_def)
qed

lemma list_get_Some_iff: "list_get xs i = Some x \<longleftrightarrow> i < length xs \<and> xs ! i = x"
  by (simp add: list_get_def)

lemma list_get_None_iff: "list_get xs i = None \<longleftrightarrow> length xs \<le> i"
  by (auto simp: list_get_def)

lemma list_get_update:
  "list_get (xs[i := x]) j = (if j = i \<and> i < length xs then Some x else list_get xs j)"
  by (simp add: list_get_def)

text \<open>\<open>iter().position(p)\<close>\<close>

fun position :: "('a \<Rightarrow> bool) \<Rightarrow> 'a list \<Rightarrow> nat option" where
  "position p [] = None"
| "position p (x # xs) = (if p x then Some 0 else map_option Suc (position p xs))"

lemma position_Some_iff:
  "position p xs = Some k \<longleftrightarrow> k < length xs \<and> p (xs ! k) \<and> (\<forall>j<k. \<not> p (xs ! j))"
proof (induction xs arbitrary: k)
  case (Cons x xs)
  show ?case by (cases k) (auto simp: Cons.IH less_Suc_eq_0_disj)
qed simp

lemma find_position: "List.find p xs = map_option ((!) xs) (position p xs)"
  by (induction xs) (auto simp: option.map_comp o_def)

section \<open>Little-endian words\<close>

definition u32_to_le_bytes :: "u32 \<Rightarrow> u8 list" where
  "u32_to_le_bytes w = [ucast w, ucast (drop_bit 8 w), ucast (drop_bit 16 w), ucast (drop_bit 24 w)]"

definition u32_from_le_bytes :: "u8 \<Rightarrow> u8 \<Rightarrow> u8 \<Rightarrow> u8 \<Rightarrow> u32" where
  "u32_from_le_bytes a b c d =
     ucast a OR push_bit 8 (ucast b) OR push_bit 16 (ucast c) OR push_bit 24 (ucast d)"

definition u16_to_le_bytes :: "u16 \<Rightarrow> u8 list" where
  "u16_to_le_bytes w = [lo8 w, hi8 w]"

lemma length_u16_to_le_bytes [simp]: "length (u16_to_le_bytes w) = 2"
  by (simp add: u16_to_le_bytes_def)

text \<open>The word that starts at an index of a byte string, where the string is long enough.\<close>

definition u16_at :: "nat \<Rightarrow> u8 list \<Rightarrow> u16" where
  "u16_at i bs = le16 (bs ! i) (bs ! (i + 1))"

definition u32_at :: "nat \<Rightarrow> u8 list \<Rightarrow> u32" where
  "u32_at i bs = u32_from_le_bytes (bs ! i) (bs ! (i + 1)) (bs ! (i + 2)) (bs ! (i + 3))"

text \<open>\<open>is_power_of_two\<close>: exactly one bit is set.\<close>

definition is_power_of_two :: "'a::len word \<Rightarrow> bool" where
  "is_power_of_two w \<longleftrightarrow> w \<noteq> 0 \<and> w AND (w - 1) = 0"

lemma length_u32_to_le_bytes [simp]: "length (u32_to_le_bytes w) = 4"
  by (simp add: u32_to_le_bytes_def)

lemma u32_le_bytes_roundtrip [simp]:
  "u32_from_le_bytes (ucast w) (ucast (drop_bit 8 w)) (ucast (drop_bit 16 w)) (ucast (drop_bit 24 w)) = w"
proof (rule bit_eqI)
  fix n assume "possible_bit TYPE(32 word) n"
  then have "n < 32" by simp
  moreover have "n < 8 \<or> n \<ge> 8 \<and> n < 16 \<or> n \<ge> 16 \<and> n < 24 \<or> n \<ge> 24" by linarith
  ultimately show "bit (u32_from_le_bytes (ucast w) (ucast (drop_bit 8 w)) (ucast (drop_bit 16 w))
      (ucast (drop_bit 24 w))) n \<longleftrightarrow> bit w n"
    by (elim disjE conjE)
      (auto simp: u32_from_le_bytes_def bit_or_iff bit_push_bit_iff bit_ucast_iff bit_drop_bit_eq
        elim: disjE)
qed

section \<open>UTF-8\<close>

text \<open>
  \<open>String::from_utf8_lossy\<close>. \<open>utf8_first\<close> looks at the start of a non-empty byte string: whether
  it is a well-formed code point, and how many bytes the code point or the ill-formed prefix
  has. A missing byte counts as 0, which is no continuation byte. Each ill-formed prefix
  becomes the replacement character U+FFFD.
\<close>

definition utf8_between :: "u8 \<Rightarrow> u8 \<Rightarrow> u8 \<Rightarrow> bool" where
  "utf8_between low high b \<longleftrightarrow> low \<le> b \<and> b \<le> high"

definition utf8_peek :: "u8 list \<Rightarrow> nat \<Rightarrow> u8" where
  "utf8_peek bs i = (case list_get bs i of Some b \<Rightarrow> b | None \<Rightarrow> 0)"

definition utf8_second_ok :: "u8 \<Rightarrow> u8 \<Rightarrow> bool" where
  "utf8_second_ok b c =
     (if b = 0xE0 then utf8_between 0xA0 0xBF c
      else if b = 0xED then utf8_between 0x80 0x9F c
      else if b = 0xF0 then utf8_between 0x90 0xBF c
      else if b = 0xF4 then utf8_between 0x80 0x8F c
      else utf8_between 0x80 0xBF c)"

definition utf8_first :: "u8 list \<Rightarrow> bool \<times> nat" where
  "utf8_first bs =
     (let b = utf8_peek bs 0; cont = (\<lambda>i. utf8_between 0x80 0xBF (utf8_peek bs i)) in
      if b < 0x80 then (True, 1)
      else if utf8_between 0xC2 0xDF b then (if cont 1 then (True, 2) else (False, 1))
      else if utf8_between 0xE0 0xEF b then
        (if \<not> utf8_second_ok b (utf8_peek bs 1) then (False, 1)
         else if \<not> cont 2 then (False, 2) else (True, 3))
      else if utf8_between 0xF0 0xF4 b then
        (if \<not> utf8_second_ok b (utf8_peek bs 1) then (False, 1)
         else if \<not> cont 2 then (False, 2)
         else if \<not> cont 3 then (False, 3) else (True, 4))
      else (False, 1))"

definition utf8_replacement :: "u8 list" where
  "utf8_replacement = [0xEF, 0xBF, 0xBD]"

function utf8_lossy :: "u8 list \<Rightarrow> u8 list" where
  "utf8_lossy [] = []"
| "utf8_lossy (b # bs) =
     (let (ok, n) = utf8_first (b # bs)
      in (if ok then take n (b # bs) else utf8_replacement) @ utf8_lossy (drop (n - 1) bs))"
  by pat_completeness auto
termination by (relation "measure length") auto

lemma utf8_lossy_ascii: "(\<forall>b\<in>set bs. b < 0x80) \<Longrightarrow> utf8_lossy bs = bs"
  by (induction bs) (simp_all add: utf8_first_def utf8_peek_def list_get_def)

end
