(* ===== verification/D88.thy ===== *)
theory D88
  imports Bytes
begin

text \<open>
  The D88 disk image of \<open>device/src/floppy/d88.rs\<close>: the parsed disk, sector lookup by identifier
  and by rotational position, FORMAT TRACK, the parser and the serializer, and the sector
  write of \<open>device/src/floppy.rs\<close> for an image without NFD metadata.

  A disk name is the list of the bytes of the \<open>String\<close>, \<open>reserved\<close> a list that has five elements
  in every sector the code can hold. A reference to a sector that a method returns is the
  sector; one that it returns as mutable is its track and slot with a function that updates
  the disk there.
\<close>

section \<open>The parsed disk\<close>

datatype d88_media_type = Disk2D | Disk2DD | Disk2HD

datatype d88_error =
    D88TooSmall
  | D88SizeMismatch u32 nat
  | D88UnknownMediaType u8
  | D88TruncatedSector nat nat

record d88_sector =
  sec_cylinder :: u8
  sec_head :: u8
  sec_record :: u8
  sec_size_code :: u8
  sec_sector_count :: u16
  sec_mfm_flag :: u8
  sec_deleted :: u8
  sec_status :: u8
  sec_reserved :: "u8 list"
  sec_data :: "u8 list"
  sec_source_offset :: "u64 option"

type_synonym d88_track = "d88_sector list"

record d88_disk =
  d88_name :: "u8 list"
  d88_write_protected :: bool
  d88_media_type :: d88_media_type
  d88_tracks :: "d88_track option list"

definition d88_header_size :: nat where "d88_header_size = 0x2B0"
definition d88_track_max :: nat where "d88_track_max = 164"
definition d88_sector_header_size :: nat where "d88_sector_header_size = 16"

definition d88_from_tracks ::
  "u8 list \<Rightarrow> bool \<Rightarrow> d88_media_type \<Rightarrow> d88_sector list option list \<Rightarrow> d88_disk" where
  "d88_from_tracks name write_protected media_type track_sectors =
     \<lparr> d88_name = name, d88_write_protected = write_protected, d88_media_type = media_type,
       d88_tracks = track_sectors \<rparr>"

section \<open>Sector lookup\<close>

definition d88_track :: "d88_disk \<Rightarrow> nat \<Rightarrow> d88_track option" where
  "d88_track d i = Option.bind (list_get (d88_tracks d) i) id"

definition d88_matches :: "u8 \<Rightarrow> u8 \<Rightarrow> u8 \<Rightarrow> u8 \<Rightarrow> d88_sector \<Rightarrow> bool" where
  "d88_matches c h r n s \<longleftrightarrow>
     sec_cylinder s = c \<and> sec_head s = h \<and> sec_record s = r \<and> sec_size_code s = n"

definition d88_matches_id :: "u8 \<Rightarrow> u8 \<Rightarrow> u8 \<Rightarrow> d88_sector \<Rightarrow> bool" where
  "d88_matches_id c h r s \<longleftrightarrow> sec_cylinder s = c \<and> sec_head s = h \<and> sec_record s = r"

definition d88_find_sector_on_track_index ::
  "d88_disk \<Rightarrow> nat \<Rightarrow> u8 \<Rightarrow> u8 \<Rightarrow> u8 \<Rightarrow> u8 \<Rightarrow> d88_sector option" where
  "d88_find_sector_on_track_index d i c h r n =
     Option.bind (d88_track d i) (List.find (d88_matches c h r n))"

definition d88_find_sector_id_on_track_index ::
  "d88_disk \<Rightarrow> nat \<Rightarrow> u8 \<Rightarrow> u8 \<Rightarrow> u8 \<Rightarrow> d88_sector option" where
  "d88_find_sector_id_on_track_index d i c h r =
     Option.bind (d88_track d i) (List.find (d88_matches_id c h r))"

text \<open>
  The loop that three methods share: a lookup on \<open>track_index\<close> and then on the tracks above and
  below it, for the distances in the order of the list.
\<close>

fun d88_search_distances :: "nat \<Rightarrow> (nat \<Rightarrow> 'a option) \<Rightarrow> nat \<Rightarrow> nat list \<Rightarrow> 'a option" where
  "d88_search_distances len look i [] = None"
| "d88_search_distances len look i (k # ks) =
     (case (if i + k < len then look (i + k) else None) of
        Some x \<Rightarrow> Some x
      | None \<Rightarrow>
          (case (if k \<le> i then look (i - k) else None) of
             Some x \<Rightarrow> Some x
           | None \<Rightarrow> d88_search_distances len look i ks))"

definition d88_search_outward :: "nat \<Rightarrow> (nat \<Rightarrow> 'a option) \<Rightarrow> nat \<Rightarrow> 'a option" where
  "d88_search_outward len look i =
     (if len \<le> i then None
      else case look i of Some x \<Rightarrow> Some x | None \<Rightarrow> d88_search_distances len look i [1..<len])"

definition d88_find_sector_near_track_index ::
  "d88_disk \<Rightarrow> nat \<Rightarrow> u8 \<Rightarrow> u8 \<Rightarrow> u8 \<Rightarrow> u8 \<Rightarrow> d88_sector option" where
  "d88_find_sector_near_track_index d i c h r n =
     d88_search_outward (length (d88_tracks d)) (\<lambda>j. d88_find_sector_on_track_index d j c h r n) i"

definition d88_find_sector :: "d88_disk \<Rightarrow> u8 \<Rightarrow> u8 \<Rightarrow> u8 \<Rightarrow> u8 \<Rightarrow> d88_sector option" where
  "d88_find_sector d c h r n =
     d88_find_sector_near_track_index d (unat c * 2 + unat h) c h r n"

definition d88_find_sector_id_near_track_index ::
  "d88_disk \<Rightarrow> nat \<Rightarrow> u8 \<Rightarrow> u8 \<Rightarrow> u8 \<Rightarrow> d88_sector option" where
  "d88_find_sector_id_near_track_index d i c h r =
     d88_search_outward (length (d88_tracks d)) (\<lambda>j. d88_find_sector_id_on_track_index d j c h r) i"

definition d88_find_target_track_index ::
  "d88_disk \<Rightarrow> nat \<Rightarrow> u8 \<Rightarrow> u8 \<Rightarrow> u8 \<Rightarrow> u8 \<Rightarrow> nat option" where
  "d88_find_target_track_index d i c h r n =
     d88_search_outward (length (d88_tracks d))
       (\<lambda>j. if d88_find_sector_on_track_index d j c h r n \<noteq> None then Some j else None) i"

definition d88_find_sector_slot_near_track_index ::
  "d88_disk \<Rightarrow> nat \<Rightarrow> u8 \<Rightarrow> u8 \<Rightarrow> u8 \<Rightarrow> u8 \<Rightarrow> (nat \<times> nat) option" where
  "d88_find_sector_slot_near_track_index d i c h r n =
     do { target \<leftarrow> d88_find_target_track_index d i c h r n;
          track \<leftarrow> d88_track d target;
          slot \<leftarrow> position (d88_matches c h r n) track;
          Some (target, slot) }"

definition d88_sector_at_index :: "d88_disk \<Rightarrow> nat \<Rightarrow> nat \<Rightarrow> d88_sector option" where
  "d88_sector_at_index d i k =
     do { track \<leftarrow> d88_track d i;
          if track = [] then None else Some (track ! (k mod length track)) }"

text \<open>An update of the sector that \<open>sector_at_index_mut\<close> refers to.\<close>

definition d88_update_sector :: "nat \<Rightarrow> nat \<Rightarrow> (d88_sector \<Rightarrow> d88_sector) \<Rightarrow> d88_disk \<Rightarrow> d88_disk" where
  "d88_update_sector i k f d =
     (case d88_track d i of
        None \<Rightarrow> d
      | Some track \<Rightarrow>
          d\<lparr>d88_tracks := (d88_tracks d)[i := Some (track[k := f (track ! k)])]\<rparr>)"

definition d88_sector_at_index_mut ::
  "d88_disk \<Rightarrow> nat \<Rightarrow> nat \<Rightarrow> (d88_sector \<times> ((d88_sector \<Rightarrow> d88_sector) \<Rightarrow> d88_disk)) option" where
  "d88_sector_at_index_mut d i k =
     do { track \<leftarrow> d88_track d i;
          if track = [] then None
          else let j = k mod length track in Some (track ! j, \<lambda>f. d88_update_sector i j f d) }"

definition d88_find_sector_on_track_index_mut ::
  "d88_disk \<Rightarrow> nat \<Rightarrow> u8 \<Rightarrow> u8 \<Rightarrow> u8 \<Rightarrow> u8 \<Rightarrow>
     (d88_sector \<times> ((d88_sector \<Rightarrow> d88_sector) \<Rightarrow> d88_disk)) option" where
  "d88_find_sector_on_track_index_mut d i c h r n =
     do { track \<leftarrow> d88_track d i;
          slot \<leftarrow> position (d88_matches c h r n) track;
          Some (track ! slot, \<lambda>f. d88_update_sector i slot f d) }"

definition d88_find_sector_near_track_index_mut ::
  "d88_disk \<Rightarrow> nat \<Rightarrow> u8 \<Rightarrow> u8 \<Rightarrow> u8 \<Rightarrow> u8 \<Rightarrow>
     (d88_sector \<times> ((d88_sector \<Rightarrow> d88_sector) \<Rightarrow> d88_disk)) option" where
  "d88_find_sector_near_track_index_mut d i c h r n =
     do { target \<leftarrow> d88_find_target_track_index d i c h r n;
          d88_find_sector_on_track_index_mut d target c h r n }"

definition d88_sector_count :: "d88_disk \<Rightarrow> nat \<Rightarrow> nat" where
  "d88_sector_count d i = (case d88_track d i of None \<Rightarrow> 0 | Some track \<Rightarrow> length track)"

definition d88_track_slot_count :: "d88_disk \<Rightarrow> nat" where
  "d88_track_slot_count d =
     length (dropWhile (\<lambda>t. t = None) (rev (d88_tracks d)))"

section \<open>Writing and formatting\<close>

definition d88_formatted_sector ::
  "u16 \<Rightarrow> nat \<Rightarrow> u8 \<Rightarrow> u8 \<times> u8 \<times> u8 \<times> u8 \<Rightarrow> d88_sector" where
  "d88_formatted_sector count sector_size fill_byte chrn =
     (case chrn of (c, h, r, n) \<Rightarrow>
        \<lparr> sec_cylinder = c, sec_head = h, sec_record = r, sec_size_code = n,
          sec_sector_count = count, sec_mfm_flag = 0, sec_deleted = 0, sec_status = 0,
          sec_reserved = replicate 5 0, sec_data = replicate sector_size fill_byte,
          sec_source_offset = None \<rparr>)"

definition d88_format_track ::
  "nat \<Rightarrow> (u8 \<times> u8 \<times> u8 \<times> u8) list \<Rightarrow> u8 \<Rightarrow> u8 \<Rightarrow> d88_disk \<Rightarrow> d88_disk" where
  "d88_format_track i chrn data_n fill_byte d =
     (let tracks = d88_tracks d;
          tracks = (if length tracks \<le> i then tracks @ replicate (i + 1 - length tracks) None
                    else tracks);
          sector_size = 128 * 2 ^ min (unat data_n) 7;
          count = of_nat (length chrn)
      in d\<lparr>d88_tracks := tracks[i := Some (map (d88_formatted_sector count sector_size fill_byte) chrn)]\<rparr>)"

text \<open>
  \<open>write_sector_payload\<close>: the sector found first, overwritten from its start with as much of the
  payload as it holds. The result names where the sector is in the image file, and its size.
\<close>

definition d88_overwrite :: "u8 list \<Rightarrow> d88_sector \<Rightarrow> d88_sector" where
  "d88_overwrite payload s =
     (let k = min (length payload) (length (sec_data s))
      in s\<lparr>sec_data := copy_into 0 (take k payload) (sec_data s)\<rparr>)"

definition d88_write_sector_payload ::
  "nat \<Rightarrow> u8 \<Rightarrow> u8 \<Rightarrow> u8 \<Rightarrow> u8 \<Rightarrow> u8 list \<Rightarrow> d88_disk \<Rightarrow> ((u64 option \<times> nat) \<times> d88_disk) option" where
  "d88_write_sector_payload i c h r n payload d =
     do { (track, slot) \<leftarrow> d88_find_sector_slot_near_track_index d i c h r n;
          (sector, update) \<leftarrow> d88_sector_at_index_mut d track slot;
          Some ((sec_source_offset sector, length (sec_data sector)), update (d88_overwrite payload)) }"

section \<open>Parsing\<close>

text \<open>The sector at a position, of which the header and the data lie inside the image.\<close>

definition d88_data_size :: "u8 list \<Rightarrow> nat \<Rightarrow> nat" where
  "d88_data_size dat pos = unat (le16 (dat ! (pos + 0x0E)) (dat ! (pos + 0x0F)))"

definition d88_parse_sector :: "u8 list \<Rightarrow> nat \<Rightarrow> d88_sector" where
  "d88_parse_sector dat pos =
     (let data_start = pos + d88_sector_header_size
      in \<lparr> sec_cylinder = dat ! pos, sec_head = dat ! (pos + 1), sec_record = dat ! (pos + 2),
           sec_size_code = dat ! (pos + 3),
           sec_sector_count = le16 (dat ! (pos + 4)) (dat ! (pos + 5)),
           sec_mfm_flag = dat ! (pos + 6), sec_deleted = dat ! (pos + 7),
           sec_status = dat ! (pos + 8), sec_reserved = take 5 (drop (pos + 9) dat),
           sec_data = take (d88_data_size dat pos) (drop data_start dat),
           sec_source_offset = Some (of_nat data_start) \<rparr>)"

function d88_parse_sectors ::
  "u8 list \<Rightarrow> nat \<Rightarrow> nat \<Rightarrow> nat \<Rightarrow> d88_sector list \<Rightarrow> d88_error + d88_sector list" where
  "d88_parse_sectors dat track_idx track_end pos sectors =
     (if pos + d88_sector_header_size > length dat \<or> pos \<ge> track_end then Inr sectors
      else
        let data_end = pos + d88_sector_header_size + d88_data_size dat pos in
        if data_end > length dat then Inl (D88TruncatedSector track_idx pos)
        else
          let sector = d88_parse_sector dat pos;
              sectors = sectors @ [sector]
          in if length sectors \<ge> unat (sec_sector_count sector) \<and> sec_sector_count sector > 0
             then Inr sectors
             else d88_parse_sectors dat track_idx track_end data_end sectors)"
  by pat_completeness auto
termination
  by (relation "measure (\<lambda>(dat, _, _, pos, _). Suc (length dat) - pos)")
    (auto simp: d88_sector_header_size_def)

declare d88_parse_sectors.simps [simp del]

definition d88_find_track_end :: "u32 list \<Rightarrow> u32 \<Rightarrow> u32 \<Rightarrow> nat" where
  "d88_find_track_end offsets current disk_size =
     unat (fold (\<lambda>off end. if off > current \<and> off < end then off else end) offsets disk_size)"

fun d88_parse_tracks ::
  "u8 list \<Rightarrow> u32 list \<Rightarrow> u32 \<Rightarrow> (nat \<times> u32) list \<Rightarrow> d88_error + d88_track option list" where
  "d88_parse_tracks dat offsets disk_size [] = Inr []"
| "d88_parse_tracks dat offsets disk_size ((i, off) # rest) =
     (case (if off = 0 then Inr []
            else d88_parse_sectors dat i (d88_find_track_end offsets off disk_size) (unat off) []) of
        Inl e \<Rightarrow> Inl e
      | Inr sectors \<Rightarrow>
          map_sum id (Cons (if sectors = [] then None else Some sectors))
            (d88_parse_tracks dat offsets disk_size rest))"

definition d88_u32_at :: "u8 list \<Rightarrow> nat \<Rightarrow> u32" where
  "d88_u32_at dat i = u32_from_le_bytes (dat ! i) (dat ! (i + 1)) (dat ! (i + 2)) (dat ! (i + 3))"

definition d88_track_offsets :: "u8 list \<Rightarrow> u32 list" where
  "d88_track_offsets dat = map (\<lambda>i. d88_u32_at dat (0x20 + i * 4)) [0..<d88_track_max]"

definition d88_media_of_byte :: "u8 \<Rightarrow> d88_media_type option" where
  "d88_media_of_byte b =
     (if drop_bit 4 b = 0 then Some Disk2D
      else if drop_bit 4 b = 1 then Some Disk2DD
      else if drop_bit 4 b = 2 then Some Disk2HD else None)"

definition d88_from_bytes :: "u8 list \<Rightarrow> d88_error + d88_disk" where
  "d88_from_bytes dat =
     (if length dat < d88_header_size then Inl D88TooSmall
      else
        let name = utf8_lossy (takeWhile (\<lambda>b. b \<noteq> 0) (take 17 dat)) in
        case d88_media_of_byte (dat ! 0x1B) of
          None \<Rightarrow> Inl (D88UnknownMediaType (dat ! 0x1B))
        | Some media_type \<Rightarrow>
            let disk_size = d88_u32_at dat 0x1C in
            if unat disk_size \<noteq> length dat then Inl (D88SizeMismatch disk_size (length dat))
            else
              let offsets = d88_track_offsets dat in
              map_sum id (d88_from_tracks name (dat ! 0x1A AND 0x10 \<noteq> 0) media_type)
                (d88_parse_tracks dat offsets disk_size (List.enumerate 0 offsets)))"

section \<open>Serializing\<close>

definition d88_sector_bytes :: "d88_sector \<Rightarrow> u8 list" where
  "d88_sector_bytes s =
     (let count = sec_sector_count s; data_size = of_nat (length (sec_data s))
      in [sec_cylinder s, sec_head s, sec_record s, sec_size_code s, lo8 count, hi8 count,
          sec_mfm_flag s, sec_deleted s, sec_status s]
         @ sec_reserved s @ [lo8 data_size, hi8 data_size] @ sec_data s)"

definition d88_track_blob :: "d88_track \<Rightarrow> u8 list" where
  "d88_track_blob sectors = concat (map d88_sector_bytes sectors)"

text \<open>The table has room for \<open>TRACK_MAX\<close> offsets; storing one past it panics.\<close>

fun d88_assign_offsets ::
  "nat \<Rightarrow> u32 \<Rightarrow> u8 list option list \<Rightarrow> u32 list \<Rightarrow> (u32 list \<times> u32) option" where
  "d88_assign_offsets i offset [] offsets = Some (offsets, offset)"
| "d88_assign_offsets i offset (None # blobs) offsets =
     d88_assign_offsets (i + 1) offset blobs offsets"
| "d88_assign_offsets i offset (Some blob # blobs) offsets =
     (if i < length offsets
      then d88_assign_offsets (i + 1) (offset + of_nat (length blob)) blobs (offsets[i := offset])
      else None)"

definition d88_media_byte :: "d88_media_type \<Rightarrow> u8" where
  "d88_media_byte m = (case m of Disk2D \<Rightarrow> 0x00 | Disk2DD \<Rightarrow> 0x10 | Disk2HD \<Rightarrow> 0x20)"

definition d88_header :: "d88_disk \<Rightarrow> u32 \<Rightarrow> u32 list \<Rightarrow> u8 list" where
  "d88_header d disk_size offsets =
     (let image = copy_into 0 (take 16 (d88_name d)) (replicate d88_header_size 0);
          image = (if d88_write_protected d then image[0x1A := 0x10] else image);
          image = image[0x1B := d88_media_byte (d88_media_type d)];
          image = copy_into 0x1C (u32_to_le_bytes disk_size) image
      in fold (\<lambda>(i, off). copy_into (0x20 + i * 4) (u32_to_le_bytes off))
           (List.enumerate 0 offsets) image)"

definition d88_to_bytes :: "d88_disk \<Rightarrow> u8 list option" where
  "d88_to_bytes d =
     (let blobs = map (map_option d88_track_blob) (d88_tracks d);
          blobs = blobs @ replicate (d88_track_max - length blobs) None
      in map_option
           (\<lambda>(offsets, disk_size). d88_header d disk_size offsets @ concat (List.map_filter id blobs))
           (d88_assign_offsets 0 (of_nat d88_header_size) blobs (replicate d88_track_max 0)))"

end
