(* ===== verification/D88_Lookup.thy ===== *)
theory D88_Lookup
  imports D88
begin

text \<open>
  Sector lookup on a D88 disk. The search outward from a track finds the track that is first in
  the order of \<open>d88_nearer\<close>: by distance, and above before below. A sector that was written is
  read back, and a formatted track holds the sectors that it was formatted with.
\<close>

section \<open>The search outward from a track\<close>

definition d88_distance :: "nat \<Rightarrow> nat \<Rightarrow> nat" where
  "d88_distance i t = (if i \<le> t then t - i else i - t)"

definition d88_nearer :: "nat \<Rightarrow> nat \<Rightarrow> nat \<Rightarrow> bool" where
  "d88_nearer i u t \<longleftrightarrow>
     d88_distance i u < d88_distance i t \<or> d88_distance i u = d88_distance i t \<and> t < u"

lemma d88_nearer_linear: "u \<noteq> t \<Longrightarrow> d88_nearer i u t \<or> d88_nearer i t u"
  by (auto simp: d88_nearer_def)

lemma d88_at_distance: "d88_distance i t = k \<longleftrightarrow> t = i + k \<or> k \<le> i \<and> t = i - k"
  by (auto simp: d88_distance_def)

lemma d88_search_distances_None:
  assumes "d88_search_distances len look i [k..<len] = None" "i < len"
    and "u < len" "k \<le> d88_distance i u"
  shows "look u = None"
  using assms
proof (induction "len - k" arbitrary: k)
  case 0
  then show ?case by (auto simp: d88_distance_def split: if_splits)
next
  case (Suc m)
  then have k: "[k..<len] = k # [Suc k..<len]" by (simp add: upt_conv_Cons)
  show ?case
  proof (cases "d88_distance i u = k")
    case True
    then have "u = i + k \<or> k \<le> i \<and> u = i - k" by (simp add: d88_at_distance)
    then show ?thesis
      using Suc.prems by (auto simp: k split: option.splits if_splits)
  next
    case False
    show ?thesis
    proof (rule Suc.hyps(1) [of "Suc k"])
      show "d88_search_distances len look i [Suc k..<len] = None"
        using Suc.prems(1) by (simp add: k split: option.splits)
      show "Suc k \<le> d88_distance i u" using False Suc.prems(4) by simp
    qed (use Suc in auto)
  qed
qed

lemma d88_search_distances_Some:
  assumes "d88_search_distances len look i [k..<len] = Some x" "i < len" "0 < k"
  shows "\<exists>t<len. k \<le> d88_distance i t \<and> look t = Some x
    \<and> (\<forall>u<len. k \<le> d88_distance i u \<and> d88_nearer i u t \<longrightarrow> look u = None)"
  using assms
proof (induction "len - k" arbitrary: k)
  case 0
  then show ?case by simp
next
  case (Suc m)
  let ?up = "if i + k < len then look (i + k) else None"
  let ?down = "if k \<le> i then look (i - k) else None"
  have k: "[k..<len] = k # [Suc k..<len]" using Suc.hyps(2) by (simp add: upt_conv_Cons)
  have at_k: "u = i + k \<or> k \<le> i \<and> u = i - k" if "k \<le> d88_distance i u" "\<not> Suc k \<le> d88_distance i u" for u
    using that d88_at_distance [of i u k] by simp
  consider (up) "?up = Some x" | (down) "?up = None" "?down = Some x"
    | (beyond) "?up = None" "?down = None" "d88_search_distances len look i [Suc k..<len] = Some x"
    using Suc.prems(1) by (auto simp: k split: option.splits if_splits)
  then show ?case
  proof cases
    case up
    then show ?thesis
      by (intro exI [of _ "i + k"])
        (auto simp: d88_nearer_def d88_distance_def split: if_splits)
  next
    case down
    then have "k \<le> i" "look (i - k) = Some x" by (auto split: if_splits)
    moreover have "look u = None" if "u < len" "k \<le> d88_distance i u" "d88_nearer i u (i - k)" for u
    proof -
      have "d88_distance i (i - k) = k" using \<open>k \<le> i\<close> by (simp add: d88_at_distance)
      then have "u = i + k"
        using that \<open>0 < k\<close> at_k [of u] by (auto simp: d88_nearer_def)
      then show ?thesis using down(1) that(1) by simp
    qed
    ultimately show ?thesis
      using Suc.prems(2,3) by (intro exI [of _ "i - k"]) (auto simp: d88_distance_def)
  next
    case beyond
    obtain t where t: "t < len" "Suc k \<le> d88_distance i t" "look t = Some x"
      and none: "\<And>u. u < len \<Longrightarrow> Suc k \<le> d88_distance i u \<Longrightarrow> d88_nearer i u t \<Longrightarrow> look u = None"
    proof -
      have "m = len - Suc k" using Suc.hyps(2) by simp
      from Suc.hyps(1) [OF this beyond(3) Suc.prems(2)] show thesis using that by blast
    qed
    have "look u = None" if "u < len" "k \<le> d88_distance i u" "d88_nearer i u t" for u
      using beyond(1,2) none [OF that(1) _ that(3)] at_k [OF that(2)] that(1)
      by (cases "Suc k \<le> d88_distance i u") (auto split: if_splits)
    then show ?thesis using t by (intro exI [of _ t]) auto
  qed
qed

lemma d88_search_outward_Some:
  "d88_search_outward len look i = Some x \<longleftrightarrow>
     i < len \<and> (\<exists>t<len. look t = Some x \<and> (\<forall>u<len. d88_nearer i u t \<longrightarrow> look u = None))"
    (is "?l \<longleftrightarrow> ?r")
proof
  have pos: "1 \<le> d88_distance i u" if "u \<noteq> i" for u using that by (auto simp: d88_distance_def)
  have here: "\<not> d88_nearer i u i" for u by (auto simp: d88_nearer_def d88_distance_def split: if_splits)
  show ?r if l: ?l
  proof (cases "look i")
    case None
    then obtain t where t: "t < len" "look t = Some x"
      and none: "\<forall>u<len. 1 \<le> d88_distance i u \<and> d88_nearer i u t \<longrightarrow> look u = None"
      using d88_search_distances_Some [of len look i 1 x] None l
      by (auto simp: d88_search_outward_def split: if_splits)
    have "look u = None" if "u < len" "d88_nearer i u t" for u
      using none that None pos [of u] by (cases "u = i") auto
    then show ?thesis
      using t l by (intro conjI exI [of _ t]) (auto simp: d88_search_outward_def split: if_splits)
  next
    case (Some y)
    then show ?thesis
      using l here by (intro conjI exI [of _ i]) (auto simp: d88_search_outward_def split: if_splits)
  qed
  show ?l if r: ?r
  proof -
    obtain t where t: "i < len" "t < len" "look t = Some x"
      and none: "\<forall>u<len. d88_nearer i u t \<longrightarrow> look u = None"
      using r by blast
    show ?thesis
    proof (cases "look i")
      case (Some y)
      have "d88_nearer i i t" if "t \<noteq> i" using that by (auto simp: d88_nearer_def d88_distance_def)
      then have "t = i" using none t(1) Some by fastforce
      then show ?thesis using t by (simp add: d88_search_outward_def)
    next
      case None
      show ?thesis
      proof (cases "d88_search_distances len look i [1..<len]")
        case search_none: None
        have "t \<noteq> i" using t None by auto
        then show ?thesis
          using d88_search_distances_None [OF search_none t(1,2)] pos [of t] t(3) by simp
      next
        case (Some y)
        then obtain t' where t': "t' < len" "look t' = Some y"
          and none': "\<forall>u<len. 1 \<le> d88_distance i u \<and> d88_nearer i u t' \<longrightarrow> look u = None"
          using d88_search_distances_Some [of len look i 1 y] t(1) by auto
        have "t' = t"
        proof (rule ccontr)
          assume "t' \<noteq> t"
          then consider "d88_nearer i t' t" | "d88_nearer i t t'" using d88_nearer_linear by blast
          then show False
          proof cases
            case 1 then show False using none t' by simp
          next
            case 2
            moreover have "t \<noteq> i" using t None by auto
            ultimately show False using none' t pos [of t] by simp
          qed
        qed
        then show ?thesis using None Some t t' by (simp add: d88_search_outward_def)
      qed
    qed
  qed
qed

lemma d88_search_distances_indicator:
  "d88_search_distances len look i ks =
     Option.bind (d88_search_distances len (\<lambda>j. if look j \<noteq> None then Some j else None) i ks) look"
  by (induction ks) (auto split: option.splits)

lemma d88_search_outward_indicator:
  "d88_search_outward len look i =
     Option.bind (d88_search_outward len (\<lambda>j. if look j \<noteq> None then Some j else None) i) look"
  unfolding d88_search_outward_def
  by (subst d88_search_distances_indicator) (auto split: option.splits)

lemma d88_find_sector_near_target:
  "d88_find_sector_near_track_index d i c h r n =
     Option.bind (d88_find_target_track_index d i c h r n)
       (\<lambda>t. d88_find_sector_on_track_index d t c h r n)"
  unfolding d88_find_sector_near_track_index_def d88_find_target_track_index_def
  by (rule d88_search_outward_indicator)

section \<open>Tracks that hold a sector\<close>

definition d88_holds :: "d88_disk \<Rightarrow> u8 \<Rightarrow> u8 \<Rightarrow> u8 \<Rightarrow> u8 \<Rightarrow> nat \<Rightarrow> bool" where
  "d88_holds d c h r n t \<longleftrightarrow>
     (\<exists>track. d88_track d t = Some track \<and> (\<exists>s\<in>set track. d88_matches c h r n s))"

lemma d88_find_on_None_iff:
  "d88_find_sector_on_track_index d t c h r n = None \<longleftrightarrow> \<not> d88_holds d c h r n t"
  by (cases "d88_track d t")
    (auto simp: d88_find_sector_on_track_index_def d88_holds_def find_None_iff)

lemma d88_target_iff:
  "d88_find_target_track_index d i c h r n = Some t \<longleftrightarrow>
     i < length (d88_tracks d) \<and> t < length (d88_tracks d) \<and> d88_holds d c h r n t
   \<and> (\<forall>u<length (d88_tracks d). d88_nearer i u t \<longrightarrow> \<not> d88_holds d c h r n u)"
  unfolding d88_find_target_track_index_def d88_search_outward_Some d88_find_on_None_iff
  by auto

section \<open>Positions\<close>

lemma find_list_update_hit:
  "position p xs = Some k \<Longrightarrow> p y \<Longrightarrow> List.find p (xs[k := y]) = Some y"
  by (induction xs arbitrary: k) (auto split: if_splits)

lemma find_list_update_miss:
  "k < length xs \<Longrightarrow> \<not> p (xs ! k) \<Longrightarrow> \<not> p y \<Longrightarrow> List.find p (xs[k := y]) = List.find p xs"
proof (induction xs arbitrary: k)
  case (Cons x xs)
  then show ?case by (cases k) auto
qed simp

section \<open>Writing a sector\<close>

lemma d88_track_update_sector:
  assumes "d88_track d i = Some track"
  shows "d88_track (d88_update_sector i k f d) j =
      (if j = i then Some (track[k := f (track ! k)]) else d88_track d j)"
    and "length (d88_tracks (d88_update_sector i k f d)) = length (d88_tracks d)"
  using assms
  by (auto simp: d88_update_sector_def d88_track_def list_get_def split: if_splits)

lemma d88_matches_overwrite [simp]:
  "d88_matches c h r n (d88_overwrite payload s) \<longleftrightarrow> d88_matches c h r n s"
  by (simp add: d88_matches_def d88_overwrite_def Let_def)

lemma d88_overwrite_data:
  "sec_data (d88_overwrite payload s) =
     take (length (sec_data s)) payload @ drop (length payload) (sec_data s)"
  by (simp add: d88_overwrite_def copy_into_def Let_def min_def)

text \<open>A successful lookup names a track and a slot, and the write goes there.\<close>

lemma d88_write_at:
  assumes "d88_find_target_track_index d i c h r n = Some t"
  obtains track k where "d88_track d t = Some track"
    and "position (d88_matches c h r n) track = Some k"
    and "d88_find_sector_near_track_index d i c h r n = Some (track ! k)"
    and "d88_write_sector_payload i c h r n payload d =
      Some ((sec_source_offset (track ! k), length (sec_data (track ! k))),
        d88_update_sector t k (d88_overwrite payload) d)"
proof -
  obtain track s where track: "d88_track d t = Some track" "s \<in> set track" "d88_matches c h r n s"
    using assms by (auto simp: d88_target_iff d88_holds_def)
  then have "List.find (d88_matches c h r n) track \<noteq> None" by (auto simp: find_None_iff)
  then obtain k where k: "position (d88_matches c h r n) track = Some k"
    by (auto simp: find_position)
  moreover have "k < length track" "track \<noteq> []" using k track(2) by (auto simp: position_Some_iff)
  ultimately show thesis
    using that [OF track(1) k] assms track(1)
    by (auto simp: d88_find_sector_near_target d88_find_sector_on_track_index_def find_position
        d88_write_sector_payload_def d88_find_sector_slot_near_track_index_def
        d88_sector_at_index_mut_def)
qed

lemma d88_find_on_written:
  assumes "d88_track d t = Some track" "position (d88_matches c h r n) track = Some k"
  shows "d88_find_sector_on_track_index (d88_update_sector t k (d88_overwrite payload) d) j c' h' r' n' =
    (if j = t \<and> (c', h', r', n') = (c, h, r, n) then Some (d88_overwrite payload (track ! k))
     else d88_find_sector_on_track_index d j c' h' r' n')"
proof -
  have k: "k < length track" "d88_matches c h r n (track ! k)"
    using assms(2) by (auto simp: position_Some_iff)
  have other: "\<not> d88_matches c' h' r' n' (track ! k)" if "(c', h', r', n') \<noteq> (c, h, r, n)"
    using that k(2) by (auto simp: d88_matches_def)
  show ?thesis
    using assms k other
    by (auto simp: d88_find_sector_on_track_index_def d88_track_update_sector find_list_update_hit
        find_list_update_miss)
qed

lemma d88_holds_written:
  assumes "d88_track d t = Some track" "position (d88_matches c h r n) track = Some k"
  shows "d88_holds (d88_update_sector t k (d88_overwrite payload) d) c' h' r' n' u \<longleftrightarrow>
    d88_holds d c' h' r' n' u"
proof -
  have "d88_find_sector_on_track_index d t c h r n = Some (track ! k)"
    using assms by (simp add: d88_find_sector_on_track_index_def find_position)
  then have "d88_find_sector_on_track_index (d88_update_sector t k (d88_overwrite payload) d)
      u c' h' r' n' = None \<longleftrightarrow> d88_find_sector_on_track_index d u c' h' r' n' = None"
    by (simp add: d88_find_on_written [OF assms])
  then show ?thesis by (simp add: d88_find_on_None_iff)
qed

lemma d88_target_written:
  assumes "d88_track d t = Some track" "position (d88_matches c h r n) track = Some k"
  shows "d88_find_target_track_index (d88_update_sector t k (d88_overwrite payload) d) i c' h' r' n' =
    d88_find_target_track_index d i c' h' r' n'"
proof (rule option.expand)
  let ?d = "d88_update_sector t k (d88_overwrite payload) d"
  have iff: "d88_find_target_track_index ?d i c' h' r' n' = Some u \<longleftrightarrow>
      d88_find_target_track_index d i c' h' r' n' = Some u" for u
    by (simp add: d88_target_iff d88_holds_written [OF assms] d88_track_update_sector [OF assms(1)])
  then show "(d88_find_target_track_index ?d i c' h' r' n' = None) \<longleftrightarrow>
      (d88_find_target_track_index d i c' h' r' n' = None)"
    by (metis not_Some_eq)
  show "the (d88_find_target_track_index ?d i c' h' r' n') =
      the (d88_find_target_track_index d i c' h' r' n')"
    if "d88_find_target_track_index ?d i c' h' r' n' \<noteq> None"
    using that iff by (metis not_Some_eq)
qed

section \<open>Formatting a track\<close>

lemma d88_track_formatted:
  "d88_track (d88_format_track i chrn data_n fill d) j =
     (if j = i then Some (map (d88_formatted_sector (of_nat (length chrn))
        (128 * 2 ^ min (unat data_n) 7) fill) chrn) else d88_track d j)"
  by (auto simp: d88_format_track_def d88_track_def list_get_def Let_def nth_append)

end
