(* ===== verification/D88_Codec.thy ===== *)
theory D88_Codec
  imports D88
begin

text \<open>
  The serializer and the parser of D88 images. The layout that the serializer gives the tracks
  is stated as offsets into the image (\<open>d88_start\<close>), the parser is followed through the header,
  the end of a track and its sectors, and both are put together for a whole disk
  (\<open>d88_reparse\<close>). The parser identifies a track by its offset only, so a track without
  sectors reads as the next track that has some (\<open>d88_first_nonempty\<close>).
\<close>

section \<open>Sectors\<close>

definition d88_sector_ok :: "d88_sector \<Rightarrow> bool" where
  "d88_sector_ok s \<longleftrightarrow> length (sec_reserved s) = 5 \<and> length (sec_data s) < 65536"

lemma length_d88_sector_bytes:
  "d88_sector_ok s \<Longrightarrow> length (d88_sector_bytes s) = d88_sector_header_size + length (sec_data s)"
  by (simp add: d88_sector_ok_def d88_sector_bytes_def d88_sector_header_size_def Let_def)

definition d88_place :: "nat \<Rightarrow> d88_sector \<Rightarrow> d88_sector" where
  "d88_place pos s = s\<lparr>sec_source_offset := Some (of_nat (pos + d88_sector_header_size))\<rparr>"

lemma nth_after: "length pre = p \<Longrightarrow> (pre @ xs) ! (p + k) = xs ! k" for p :: nat
  by auto

lemma d88_parse_sector_bytes:
  assumes ok: "d88_sector_ok s" and p: "length pre = p"
  shows "d88_data_size (pre @ d88_sector_bytes s @ post) p = length (sec_data s)"
    and "d88_parse_sector (pre @ d88_sector_bytes s @ post) p = d88_place p s"
proof -
  let ?dat = "pre @ d88_sector_bytes s @ post"
  obtain r0 r1 r2 r3 r4 where r: "sec_reserved s = [r0, r1, r2, r3, r4]"
  proof -
    have "length (sec_reserved s) = Suc (Suc (Suc (Suc (Suc 0))))"
      using ok by (simp add: d88_sector_ok_def)
    then show thesis using that by (auto simp: length_Suc_conv)
  qed
  have size: "unat (of_nat (length (sec_data s)) :: u16) = length (sec_data s)"
    using ok by (simp add: d88_sector_ok_def unat_of_nat)
  have at: "?dat ! (p + k) = (d88_sector_bytes s @ post) ! k" for k
    using p by (rule nth_after)
  have at0: "?dat ! p = (d88_sector_bytes s @ post) ! 0" using at [of 0] by simp
  have dr: "drop (p + k) ?dat = drop k (d88_sector_bytes s @ post)" for k
    using p by simp
  note bytes = d88_sector_bytes_def Let_def r
  show n: "d88_data_size ?dat p = length (sec_data s)"
    by (simp only: d88_data_size_def at) (simp add: bytes size)
  show "d88_parse_sector ?dat p = d88_place p s"
    unfolding d88_parse_sector_def n Let_def d88_sector_header_size_def at at0 dr d88_place_def
    by (simp add: bytes)
qed

section \<open>Sectors of a track\<close>

fun d88_counts_ok :: "nat \<Rightarrow> d88_track \<Rightarrow> bool" where
  "d88_counts_ok k (s # s' # ss) \<longleftrightarrow>
     (sec_sector_count s = 0 \<or> Suc k < unat (sec_sector_count s)) \<and> d88_counts_ok (Suc k) (s' # ss)"
| "d88_counts_ok k ss \<longleftrightarrow> True"

definition d88_track_ok :: "d88_track \<Rightarrow> bool" where
  "d88_track_ok ss \<longleftrightarrow> list_all d88_sector_ok ss \<and> d88_counts_ok 0 ss"

fun d88_place_all :: "nat \<Rightarrow> d88_track \<Rightarrow> d88_track" where
  "d88_place_all pos [] = []"
| "d88_place_all pos (s # ss) = d88_place pos s # d88_place_all (pos + length (d88_sector_bytes s)) ss"

lemma d88_track_blob_simps [simp]:
  "d88_track_blob [] = []"
  "d88_track_blob (s # ss) = d88_sector_bytes s @ d88_track_blob ss"
  by (simp_all add: d88_track_blob_def)

lemma d88_track_blob_eq_Nil: "list_all d88_sector_ok ss \<Longrightarrow> d88_track_blob ss = [] \<longleftrightarrow> ss = []"
proof (cases ss)
  case (Cons s ss')
  moreover assume "list_all d88_sector_ok ss"
  ultimately have "length (d88_sector_bytes s) \<noteq> 0"
    by (simp add: length_d88_sector_bytes d88_sector_header_size_def)
  then show ?thesis using Cons by auto
qed simp

lemma d88_parse_sectors_end:
  "track_end \<le> pos \<Longrightarrow> d88_parse_sectors dat t track_end pos acc = Inr acc"
  by (simp add: d88_parse_sectors.simps)

lemma d88_parse_sectors_blob:
  assumes "list_all d88_sector_ok ss" "d88_counts_ok (length acc) ss" "length pre = p"
    and "track_end = p + length (d88_track_blob ss)"
  shows "d88_parse_sectors (pre @ d88_track_blob ss @ post) t track_end p acc =
    Inr (acc @ d88_place_all p ss)"
  using assms
proof (induction ss arbitrary: pre p acc)
  case Nil
  then show ?case by (simp add: d88_parse_sectors_end)
next
  case (Cons s ss)
  let ?dat = "pre @ d88_sector_bytes s @ d88_track_blob ss @ post"
  let ?next = "p + length (d88_sector_bytes s)"
  have ok: "d88_sector_ok s" using Cons.prems(1) by simp
  note len = length_d88_sector_bytes [OF ok]
  have size: "d88_data_size ?dat p = length (sec_data s)"
    and parse: "d88_parse_sector ?dat p = d88_place p s"
    using d88_parse_sector_bytes [OF ok Cons.prems(3), of "d88_track_blob ss @ post"] by simp_all
  have count: "sec_sector_count (d88_place p s) = sec_sector_count s" by (simp add: d88_place_def)
  have "d88_parse_sectors ?dat t track_end p acc =
      (if length (acc @ [d88_place p s]) \<ge> unat (sec_sector_count s) \<and> sec_sector_count s > 0
       then Inr (acc @ [d88_place p s])
       else d88_parse_sectors ?dat t track_end ?next (acc @ [d88_place p s]))"
    using Cons.prems(3,4) len
    by (subst d88_parse_sectors.simps)
      (simp add: size parse count Let_def d88_sector_header_size_def add.assoc)
  also have "\<dots> = Inr (acc @ d88_place_all p (s # ss))"
  proof (cases ss)
    case Nil
    then show ?thesis using Cons.prems(4) by (simp add: d88_parse_sectors_end)
  next
    case (Cons s' ss')
    have go: "\<not> (length (acc @ [d88_place p s]) \<ge> unat (sec_sector_count s) \<and> sec_sector_count s > 0)"
      and rest: "d88_counts_ok (length (acc @ [d88_place p s])) ss"
      using Cons.prems(2) by (auto simp: Cons)
    have "d88_parse_sectors ((pre @ d88_sector_bytes s) @ d88_track_blob ss @ post) t track_end ?next
        (acc @ [d88_place p s]) = Inr ((acc @ [d88_place p s]) @ d88_place_all ?next ss)"
      using Cons.prems rest by (intro Cons.IH) auto
    then show ?thesis using go by auto
  qed
  finally show ?case by simp
qed

section \<open>Layout of the tracks\<close>

definition d88_body :: "d88_track option list \<Rightarrow> u8 list" where
  "d88_body ts = concat (map (case_option [] d88_track_blob) ts)"

definition d88_start :: "d88_track option list \<Rightarrow> nat \<Rightarrow> nat" where
  "d88_start ts i = d88_header_size + length (d88_body (take i ts))"

lemma d88_body_simps [simp]:
  "d88_body [] = []"
  "d88_body (t # ts) = case_option [] d88_track_blob t @ d88_body ts"
  "d88_body (ts @ ts') = d88_body ts @ d88_body ts'"
  by (simp_all add: d88_body_def)

lemma d88_body_map_filter:
  "concat (List.map_filter id (map (map_option d88_track_blob) ts)) = d88_body ts"
  by (induction ts) (auto simp: List.map_filter_simps split: option.splits)

lemma d88_start_Suc:
  "i < length ts \<Longrightarrow>
     d88_start ts (Suc i) = d88_start ts i + length (case_option [] d88_track_blob (ts ! i))"
  by (simp add: d88_start_def take_Suc_conv_app_nth)

lemma d88_start_mono: "i \<le> j \<Longrightarrow> d88_start ts i \<le> d88_start ts j"
proof -
  assume "i \<le> j"
  then obtain k where "j = i + k" using le_Suc_ex by blast
  then show ?thesis by (simp add: d88_start_def take_add)
qed

lemma d88_start_empty_range:
  assumes "i \<le> j" "j \<le> length ts" "\<And>k. i \<le> k \<Longrightarrow> k < j \<Longrightarrow> case_option [] d88_track_blob (ts ! k) = []"
  shows "d88_start ts j = d88_start ts i"
  using assms by (induction rule: dec_induct) (auto simp: d88_start_Suc)

lemma d88_assign_offsets_eq:
  assumes "i + length ts \<le> length offs"
  shows "\<exists>offs'. d88_assign_offsets i off (map (map_option d88_track_blob) ts) offs =
      Some (offs', off + of_nat (length (d88_body ts)))
    \<and> length offs' = length offs
    \<and> (\<forall>j<length offs. offs' ! j =
        (if i \<le> j \<and> j < i + length ts \<and> ts ! (j - i) \<noteq> None
         then off + of_nat (length (d88_body (take (j - i) ts))) else offs ! j))"
  using assms
proof (induction ts arbitrary: i off offs)
  case (Cons t ts)
  have shift: "j - i = Suc (j - Suc i)" if "Suc i \<le> j" for j using that by simp
  show ?case
  proof (cases t)
    case None
    have "\<exists>offs'. d88_assign_offsets (Suc i) off (map (map_option d88_track_blob) ts) offs =
        Some (offs', off + of_nat (length (d88_body ts)))
      \<and> length offs' = length offs
      \<and> (\<forall>j<length offs. offs' ! j =
          (if Suc i \<le> j \<and> j < Suc i + length ts \<and> ts ! (j - Suc i) \<noteq> None
           then off + of_nat (length (d88_body (take (j - Suc i) ts))) else offs ! j))"
      using Cons.prems by (intro Cons.IH) simp
    then obtain offs' where o: "d88_assign_offsets (Suc i) off (map (map_option d88_track_blob) ts) offs =
        Some (offs', off + of_nat (length (d88_body ts)))" "length offs' = length offs"
      and at: "\<And>j. j < length offs \<Longrightarrow> offs' ! j =
          (if Suc i \<le> j \<and> j < Suc i + length ts \<and> ts ! (j - Suc i) \<noteq> None
           then off + of_nat (length (d88_body (take (j - Suc i) ts))) else offs ! j)"
      by blast
    have "offs' ! j = (if i \<le> j \<and> j < i + length (t # ts) \<and> (t # ts) ! (j - i) \<noteq> None
         then off + of_nat (length (d88_body (take (j - i) (t # ts)))) else offs ! j)"
      if "j < length offs" for j
      using at [OF that] None shift [of j] by (cases "j = i") (auto simp: not_less_eq_eq)
    then show ?thesis using o None by auto
  next
    case (Some ss)
    let ?off = "off + of_nat (length (d88_track_blob ss))"
    have "\<exists>offs'. d88_assign_offsets (Suc i) ?off (map (map_option d88_track_blob) ts) (offs[i := off]) =
        Some (offs', ?off + of_nat (length (d88_body ts)))
      \<and> length offs' = length (offs[i := off])
      \<and> (\<forall>j<length (offs[i := off]). offs' ! j =
          (if Suc i \<le> j \<and> j < Suc i + length ts \<and> ts ! (j - Suc i) \<noteq> None
           then ?off + of_nat (length (d88_body (take (j - Suc i) ts))) else offs[i := off] ! j))"
      using Cons.prems by (intro Cons.IH) simp
    then obtain offs' where
      o: "d88_assign_offsets (Suc i) ?off (map (map_option d88_track_blob) ts) (offs[i := off]) =
        Some (offs', ?off + of_nat (length (d88_body ts)))" "length offs' = length offs"
      and at: "\<And>j. j < length offs \<Longrightarrow> offs' ! j =
          (if Suc i \<le> j \<and> j < Suc i + length ts \<and> ts ! (j - Suc i) \<noteq> None
           then ?off + of_nat (length (d88_body (take (j - Suc i) ts))) else offs[i := off] ! j)"
      by auto
    have "offs' ! j = (if i \<le> j \<and> j < i + length (t # ts) \<and> (t # ts) ! (j - i) \<noteq> None
         then off + of_nat (length (d88_body (take (j - i) (t # ts)))) else offs ! j)"
      if "j < length offs" for j
      using at [OF that] Some shift [of j] that
      by (cases "j = i") (auto simp: not_less_eq_eq ac_simps)
    then show ?thesis using o Some Cons.prems by (auto simp: ac_simps)
  qed
qed auto

section \<open>The header\<close>

definition d88_fields :: "d88_disk \<Rightarrow> u32 \<Rightarrow> u8 list" where
  "d88_fields d disk_size =
     take 16 (d88_name d) @ replicate (0x1A - length (take 16 (d88_name d))) 0
     @ [if d88_write_protected d then 0x10 else 0, d88_media_byte (d88_media_type d)]
     @ u32_to_le_bytes disk_size"

lemma length_d88_fields [simp]: "length (d88_fields d sz) = 0x20"
  by (simp add: d88_fields_def)

lemma d88_copy_offsets:
  assumes "length pre = 0x20 + k * 4" "length zs = 4 * length offs"
  shows "fold (\<lambda>(i, off). copy_into (0x20 + i * 4) (u32_to_le_bytes off)) (List.enumerate k offs)
      (pre @ zs) = pre @ concat (map u32_to_le_bytes offs)"
  using assms
proof (induction offs arbitrary: k pre zs)
  case (Cons off offs)
  define ys where "ys = take 4 zs"
  define zs' where "zs' = drop 4 zs"
  have zs: "zs = ys @ zs'" "length ys = 4" "length zs' = 4 * length offs"
    using Cons.prems(2) by (simp_all add: ys_def zs'_def)
  have "copy_into (0x20 + k * 4) (u32_to_le_bytes off) (pre @ zs) = (pre @ u32_to_le_bytes off) @ zs'"
    using copy_into_append [of ys "u32_to_le_bytes off" pre zs'] zs Cons.prems(1) by simp
  then show ?case
    using Cons.IH [of "pre @ u32_to_le_bytes off" "Suc k" zs'] Cons.prems(1) zs(3) by simp
qed simp

lemma d88_header_eq:
  assumes "length offs = 164"
  shows "d88_header d sz offs = d88_fields d sz @ concat (map u32_to_le_bytes offs)"
proof -
  define nm where "nm = take 16 (d88_name d)"
  define gap where "gap = replicate (0x1A - length nm) (0 :: u8)"
  have nm: "length nm \<le> 16" by (simp add: nm_def)
  have "replicate d88_header_size 0 =
      replicate (length nm) 0 @ gap @ [0, 0] @ [0, 0, 0, 0] @ replicate 656 (0 :: u8)"
    using nm unfolding gap_def d88_header_size_def
    by (intro nth_equalityI) (auto simp: nth_append nth_Cons' nth_replicate)
  then have 1: "copy_into 0 nm (replicate d88_header_size 0) =
      nm @ gap @ [0, 0] @ [0, 0, 0, 0] @ replicate 656 0"
    by (simp add: copy_into_def)
  have at: "length (nm @ gap) = 0x1A" using nm by (simp add: gap_def)
  define wp where "wp = (if d88_write_protected d then 0x10 else (0 :: u8))"
  define med where "med = d88_media_byte (d88_media_type d)"
  define zs where "zs = [0, 0, 0, 0] @ replicate 656 (0 :: u8)"
  have 2: "(if d88_write_protected d then (nm @ gap @ [0, 0] @ zs)[0x1A := 0x10]
      else nm @ gap @ [0, 0] @ zs) = nm @ gap @ [wp, 0] @ zs"
    using at by (auto simp: wp_def list_update_append)
  have 3: "(nm @ gap @ [wp, 0] @ zs)[0x1B := med] = nm @ gap @ [wp, med] @ zs"
    using at by (auto simp: list_update_append)
  have 4: "copy_into 0x1C (u32_to_le_bytes sz) (nm @ gap @ [wp, med] @ zs) =
      (nm @ gap @ [wp, med] @ u32_to_le_bytes sz) @ replicate 656 0"
    using copy_into_append [of "[0, 0, 0, 0]" "u32_to_le_bytes sz" "nm @ gap @ [wp, med]"] at
    by (simp add: zs_def)
  have f: "nm @ gap @ [wp, med] @ u32_to_le_bytes sz = d88_fields d sz"
    by (simp add: d88_fields_def nm_def gap_def wp_def med_def)
  have "d88_header d sz offs =
      fold (\<lambda>(i, off). copy_into (0x20 + i * 4) (u32_to_le_bytes off)) (List.enumerate 0 offs)
        (d88_fields d sz @ replicate 656 0)"
    unfolding d88_header_def Let_def nm_def [symmetric] med_def [symmetric] 1 zs_def [symmetric] 2 3 4 f
    by (rule refl)
  also have "\<dots> = d88_fields d sz @ concat (map u32_to_le_bytes offs)"
    using assms by (intro d88_copy_offsets) simp_all
  finally show ?thesis .
qed

section \<open>Reading the header\<close>

lemma d88_u32_at_append:
  "length pre = i \<Longrightarrow> d88_u32_at (pre @ u32_to_le_bytes w @ post) i = w"
  unfolding d88_u32_at_def u32_to_le_bytes_def
  by (simp add: nth_append)

lemma length_concat_offsets [simp]: "length (concat (map u32_to_le_bytes offs)) = 4 * length offs"
  by (induction offs) simp_all

lemma d88_track_offsets_eq:
  assumes "length offs = d88_track_max"
  shows "d88_track_offsets (d88_fields d sz @ concat (map u32_to_le_bytes offs) @ body) = offs"
proof (rule nth_equalityI)
  show "length (d88_track_offsets (d88_fields d sz @ concat (map u32_to_le_bytes offs) @ body)) = length offs"
    using assms by (simp add: d88_track_offsets_def)
  fix i
  assume "i < length (d88_track_offsets (d88_fields d sz @ concat (map u32_to_le_bytes offs) @ body))"
  then have i: "i < length offs" using assms by (simp add: d88_track_offsets_def)
  let ?pre = "d88_fields d sz @ concat (map u32_to_le_bytes (take i offs))"
  let ?post = "concat (map u32_to_le_bytes (drop (Suc i) offs)) @ body"
  have "d88_fields d sz @ concat (map u32_to_le_bytes offs) @ body =
      ?pre @ u32_to_le_bytes (offs ! i) @ ?post"
    by (subst id_take_nth_drop [OF i]) simp
  moreover have "d88_u32_at (?pre @ u32_to_le_bytes (offs ! i) @ ?post) (0x20 + i * 4) = offs ! i"
    using i by (intro d88_u32_at_append) simp
  ultimately show "d88_track_offsets (d88_fields d sz @ concat (map u32_to_le_bytes offs) @ body) ! i = offs ! i"
    using i assms by (simp add: d88_track_offsets_def)
qed

lemma d88_fields_read:
  assumes "length (d88_name d) \<le> 16" "\<forall>b\<in>set (d88_name d). b \<noteq> 0"
  shows "takeWhile (\<lambda>b. b \<noteq> 0) (take 17 (d88_fields d sz @ rest)) = d88_name d"
    and "(d88_fields d sz @ rest) ! 0x1A = (if d88_write_protected d then 0x10 else 0)"
    and "(d88_fields d sz @ rest) ! 0x1B = d88_media_byte (d88_media_type d)"
    and "d88_u32_at (d88_fields d sz @ rest) 0x1C = sz"
proof -
  let ?name = "d88_name d"
  let ?gap = "replicate (0x1A - length ?name) (0 :: u8)"
  let ?wp = "if d88_write_protected d then 0x10 else (0 :: u8)"
  let ?med = "d88_media_byte (d88_media_type d)"
  have f: "d88_fields d sz @ rest = ?name @ ?gap @ [?wp, ?med] @ u32_to_le_bytes sz @ rest"
    using assms(1) by (simp add: d88_fields_def)
  have "?gap = 0 # replicate (0x19 - length ?name) 0"
    using assms(1) by (simp add: replicate_Suc [symmetric] Suc_diff_le del: replicate_Suc)
  then have "take 17 (?name @ ?gap @ [?wp, ?med] @ u32_to_le_bytes sz @ rest) =
      ?name @ 0 # take (16 - length ?name) (replicate (0x19 - length ?name) 0 @ [?wp, ?med] @ u32_to_le_bytes sz @ rest)"
    using assms(1) by (simp add: take_Cons' Suc_diff_le)
  then show "takeWhile (\<lambda>b. b \<noteq> 0) (take 17 (d88_fields d sz @ rest)) = ?name"
    using assms(2) unfolding f by (simp add: takeWhile_append2)
  have at: "length (?name @ ?gap) = 0x1A" using assms(1) by simp
  have g: "d88_fields d sz @ rest = (?name @ ?gap) @ [?wp, ?med] @ u32_to_le_bytes sz @ rest"
    using f by simp
  show "(d88_fields d sz @ rest) ! 0x1A = ?wp" "(d88_fields d sz @ rest) ! 0x1B = ?med"
    unfolding g nth_append at by simp_all
  show "d88_u32_at (d88_fields d sz @ rest) 0x1C = sz"
    using d88_u32_at_append [of "?name @ ?gap @ [?wp, ?med]" "0x1C" sz rest] at f by simp
qed

lemma d88_media_roundtrip [simp]: "d88_media_of_byte (d88_media_byte m) = Some m"
  by (cases m) (simp_all add: d88_media_byte_def d88_media_of_byte_def)

section \<open>The end of a track\<close>

lemma d88_track_end_fold:
  assumes "\<And>off. off \<in> set offs \<Longrightarrow> off > cur \<Longrightarrow> e \<le> off" "e \<le> e0" "e \<in> set offs \<or> e = e0" "cur < e"
  shows "fold (\<lambda>off end. if off > cur \<and> off < end then off else end) offs e0 = (e :: u32)"
  using assms
proof (induction offs arbitrary: e0)
  case (Cons a offs)
  let ?e1 = "if a > cur \<and> a < e0 then a else e0"
  have "fold (\<lambda>off end. if off > cur \<and> off < end then off else end) offs ?e1 = e"
  proof (rule Cons.IH)
    show "e \<le> ?e1" using Cons.prems by auto
    have "e \<le> a" if "a > cur" using Cons.prems(1) [of a] that by simp
    with Cons.prems(2-4) show "e \<in> set offs \<or> e = ?e1"
      by (cases "cur < a \<and> a < e0") (simp_all; metis leD order_le_less)+
  qed (use Cons.prems in auto)
  then show ?case by simp
qed simp

section \<open>Tracks of a serialized disk\<close>

fun d88_first_nonempty :: "d88_track option list \<Rightarrow> d88_track option" where
  "d88_first_nonempty [] = None"
| "d88_first_nonempty (Some (s # ss) # ts) = Some (s # ss)"
| "d88_first_nonempty (t # ts) = d88_first_nonempty ts"

lemma d88_first_nonempty_Cons:
  "d88_first_nonempty (t # ts) = (if t = None \<or> t = Some [] then d88_first_nonempty ts else t)"
  by (rule d88_first_nonempty.cases [of "t # ts"]) auto

lemma d88_first_nonempty_None:
  "d88_first_nonempty ts = None \<Longrightarrow> k < length ts \<Longrightarrow> case_option [] d88_track_blob (ts ! k) = []"
proof (induction ts arbitrary: k)
  case (Cons t ts)
  then show ?case by (cases k) (auto simp: d88_first_nonempty_Cons split: if_splits)
qed simp

lemma d88_first_nonempty_Some:
  "d88_first_nonempty ts = Some ss \<Longrightarrow>
     ss \<noteq> [] \<and> (\<exists>k<length ts. ts ! k = Some ss \<and> (\<forall>j<k. case_option [] d88_track_blob (ts ! j) = []))"
proof (induction ts)
  case (Cons t ts)
  show ?case
  proof (cases "t = None \<or> t = Some []")
    case True
    then obtain k where "ss \<noteq> []" "k < length ts" "ts ! k = Some ss"
      "\<forall>j<k. case_option [] d88_track_blob (ts ! j) = []"
      using Cons by (auto simp: d88_first_nonempty_Cons)
    with True show ?thesis by (intro conjI exI [of _ "Suc k"]) (auto simp: less_Suc_eq_0_disj)
  next
    case False
    then show ?thesis using Cons.prems by (auto simp: d88_first_nonempty_Cons split: if_splits)
  qed
qed simp

text \<open>The offsets and the image of a disk with a full list of tracks.\<close>

definition d88_laid_out :: "d88_track option list \<Rightarrow> bool" where
  "d88_laid_out ts \<longleftrightarrow> length ts = d88_track_max \<and> d88_start ts (length ts) < 2 ^ 32
     \<and> (\<forall>ss. Some ss \<in> set ts \<longrightarrow> d88_track_ok ss)"

definition d88_offsets :: "d88_track option list \<Rightarrow> u32 list" where
  "d88_offsets ts = map (\<lambda>i. if ts ! i = None then 0 else of_nat (d88_start ts i)) [0..<length ts]"

definition d88_image :: "d88_disk \<Rightarrow> d88_track option list \<Rightarrow> u8 list" where
  "d88_image d ts = d88_fields d (of_nat (d88_start ts (length ts)))
     @ concat (map u32_to_le_bytes (d88_offsets ts)) @ d88_body ts"

lemma length_d88_offsets [simp]: "length (d88_offsets ts) = length ts"
  by (simp add: d88_offsets_def)

lemma length_d88_image: "length ts = d88_track_max \<Longrightarrow> length (d88_image d ts) = d88_start ts (length ts)"
  by (simp add: d88_image_def d88_start_def d88_header_size_def d88_track_max_def)

lemma d88_laid_out_start:
  assumes "d88_laid_out ts" "i \<le> length ts"
  shows "unat (of_nat (d88_start ts i) :: u32) = d88_start ts i"
    and "0 < d88_start ts i" and "d88_start ts i < 2 ^ 32"
proof -
  show "d88_start ts i < 2 ^ 32"
    using d88_start_mono [OF assms(2), of ts] assms(1) unfolding d88_laid_out_def by linarith
  then show "unat (of_nat (d88_start ts i) :: u32) = d88_start ts i"
    by (simp add: unat_of_nat)
  show "0 < d88_start ts i" by (simp add: d88_start_def d88_header_size_def)
qed

lemma d88_image_at:
  assumes "length ts = d88_track_max" "i \<le> length ts"
  obtains pre where "d88_image d ts = pre @ d88_body (drop i ts)" "length pre = d88_start ts i"
proof
  let ?pre = "d88_fields d (of_nat (d88_start ts (length ts)))
     @ concat (map u32_to_le_bytes (d88_offsets ts)) @ d88_body (take i ts)"
  have "d88_body ts = d88_body (take i ts) @ d88_body (drop i ts)"
    by (simp flip: d88_body_simps(3))
  then show "d88_image d ts = ?pre @ d88_body (drop i ts)" by (simp add: d88_image_def)
  show "length ?pre = d88_start ts i"
    using assms by (simp add: d88_start_def d88_header_size_def d88_track_max_def)
qed

lemma d88_start_next:
  assumes "k < length ts"
  shows "(\<exists>j<length ts. k < j \<and> ts ! j \<noteq> None \<and> d88_start ts j = d88_start ts (Suc k))
    \<or> d88_start ts (length ts) = d88_start ts (Suc k)"
proof (cases "\<exists>j. k < j \<and> j < length ts \<and> ts ! j \<noteq> None")
  case True
  define j where "j = (LEAST j. k < j \<and> j < length ts \<and> ts ! j \<noteq> None)"
  have j: "k < j" "j < length ts" "ts ! j \<noteq> None"
    using LeastI_ex [OF True] by (auto simp: j_def)
  have "ts ! i = None" if "Suc k \<le> i" "i < j" for i
    using not_less_Least [of i "\<lambda>j. k < j \<and> j < length ts \<and> ts ! j \<noteq> None"] that j
    unfolding j_def by auto
  then have "d88_start ts j = d88_start ts (Suc k)"
    using j by (intro d88_start_empty_range) auto
  then show ?thesis using j by blast
next
  case False
  then have "d88_start ts (length ts) = d88_start ts (Suc k)"
    using assms by (intro d88_start_empty_range) (auto simp: not_less_eq_eq)
  then show ?thesis by blast
qed

lemma d88_track_end_eq:
  assumes lo: "d88_laid_out ts" and i: "i \<le> k" "k < length ts"
    and empty: "d88_start ts k = d88_start ts i" and more: "d88_start ts k < d88_start ts (Suc k)"
  shows "d88_find_track_end (d88_offsets ts) (of_nat (d88_start ts i)) (of_nat (d88_start ts (length ts)))
    = d88_start ts (Suc k)"
proof -
  note un = d88_laid_out_start(1) [OF lo]
  have k: "unat (of_nat (d88_start ts (Suc k)) :: u32) = d88_start ts (Suc k)" using i by (intro un) simp
  have cur: "unat (of_nat (d88_start ts i) :: u32) = d88_start ts k" using i un [of i] empty by simp
  have "fold (\<lambda>off end. if off > of_nat (d88_start ts i) \<and> off < end then off else end) (d88_offsets ts)
      (of_nat (d88_start ts (length ts))) = (of_nat (d88_start ts (Suc k)) :: u32)"
  proof (rule d88_track_end_fold)
    fix off assume "off \<in> set (d88_offsets ts)" and gt: "off > of_nat (d88_start ts i)"
    then obtain j where j: "j < length ts" "off = (if ts ! j = None then 0 else of_nat (d88_start ts j))"
      by (auto simp: d88_offsets_def)
    then have off: "unat off = d88_start ts j" using gt un [of j] by (auto split: if_splits)
    have "d88_start ts k < d88_start ts j" using gt cur off by (simp add: word_less_nat_alt)
    then have "Suc k \<le> j" using d88_start_mono [of j k ts] by (meson leI le_less_trans less_le_not_le not_less_eq_eq)
    then show "of_nat (d88_start ts (Suc k)) \<le> off"
      using d88_start_mono [of "Suc k" j ts] off k by (simp add: word_le_nat_alt)
  next
    show "(of_nat (d88_start ts (Suc k)) :: u32) \<le> of_nat (d88_start ts (length ts))"
      using d88_start_mono [of "Suc k" "length ts" ts] i k un [of "length ts"]
      by (simp add: word_le_nat_alt)
    show "of_nat (d88_start ts (Suc k)) \<in> set (d88_offsets ts)
        \<or> (of_nat (d88_start ts (Suc k)) :: u32) = of_nat (d88_start ts (length ts))"
      using d88_start_next [OF i(2)]
    proof (elim disjE exE conjE)
      fix j assume j: "j < length ts" "ts ! j \<noteq> None" "d88_start ts j = d88_start ts (Suc k)"
      then have "of_nat (d88_start ts (Suc k)) = d88_offsets ts ! j"
        by (auto simp: d88_offsets_def)
      then show ?thesis using j(1) by (simp add: nth_mem)
    qed simp
    show "(of_nat (d88_start ts i) :: u32) < of_nat (d88_start ts (Suc k))"
      using more cur k by (simp add: word_less_nat_alt)
  qed
  then show ?thesis by (simp only: d88_find_track_end_def k)
qed

lemma d88_parse_laid_out:
  assumes lo: "d88_laid_out ts" and i: "i < length ts"
  shows "d88_parse_sectors (d88_image d ts) t
      (d88_find_track_end (d88_offsets ts) (of_nat (d88_start ts i)) (of_nat (d88_start ts (length ts))))
      (d88_start ts i) [] =
    Inr (case d88_first_nonempty (drop i ts) of None \<Rightarrow> [] | Some ss \<Rightarrow> d88_place_all (d88_start ts i) ss)"
proof (cases "d88_first_nonempty (drop i ts)")
  case None
  have "case_option [] d88_track_blob (ts ! k) = []" if "i \<le> k" "k < length ts" for k
    using d88_first_nonempty_None [OF None, of "k - i"] that by simp
  then have "d88_start ts (length ts) = d88_start ts i"
    using i by (intro d88_start_empty_range) auto
  moreover have "length (d88_image d ts) = d88_start ts (length ts)"
    using lo by (simp add: length_d88_image d88_laid_out_def)
  ultimately show ?thesis
    using None by (simp add: d88_parse_sectors.simps d88_sector_header_size_def)
next
  case (Some ss)
  then obtain m where m: "ss \<noteq> []" "m < length ts - i" "ts ! (i + m) = Some ss"
      and gap: "\<forall>j<m. case_option [] d88_track_blob (ts ! (i + j)) = []"
    using d88_first_nonempty_Some [OF Some] i by auto
  define k where "k = i + m"
  have k: "i \<le> k" "k < length ts" "ts ! k = Some ss" using m by (auto simp: k_def)
  have "case_option [] d88_track_blob (ts ! j) = []" if "i \<le> j" "j < k" for j
    using gap [rule_format, of "j - i"] that by (auto simp: k_def)
  then have start: "d88_start ts k = d88_start ts i"
    using k by (intro d88_start_empty_range) auto
  have ok: "d88_track_ok ss"
    using lo k by (metis d88_laid_out_def nth_mem)
  have "d88_track_blob ss \<noteq> []"
    using ok m(1) d88_track_blob_eq_Nil by (auto simp: d88_track_ok_def)
  then have len: "d88_start ts (Suc k) = d88_start ts k + length (d88_track_blob ss)"
    and more: "d88_start ts k < d88_start ts (Suc k)"
    using k by (auto simp: d88_start_Suc)
  obtain pre where pre: "d88_image d ts = pre @ d88_body (drop k ts)" "length pre = d88_start ts k"
    using d88_image_at [of ts k d] lo k by (auto simp: d88_laid_out_def)
  have body: "d88_body (drop k ts) = d88_track_blob ss @ d88_body (drop (Suc k) ts)"
    using k by (simp flip: Cons_nth_drop_Suc)
  have "d88_parse_sectors (pre @ d88_track_blob ss @ d88_body (drop (Suc k) ts)) t (d88_start ts (Suc k))
      (d88_start ts k) [] = Inr ([] @ d88_place_all (d88_start ts k) ss)"
    using ok pre(2) len by (intro d88_parse_sectors_blob) (auto simp: d88_track_ok_def)
  then show ?thesis
    using Some start
    by (simp add: d88_track_end_eq [OF lo k(1,2) start more] pre(1) body)
qed

section \<open>Whole disks\<close>

lemma d88_parse_tracks_all:
  assumes "\<And>i off. (i, off) \<in> set xs \<Longrightarrow> off \<noteq> 0 \<Longrightarrow>
      d88_parse_sectors dat i (d88_find_track_end offs off sz) (unat off) [] = Inr (f i)"
  shows "d88_parse_tracks dat offs sz xs =
    Inr (map (\<lambda>(i, off). if off = 0 \<or> f i = [] then None else Some (f i)) xs)"
  using assms
proof (induction xs)
  case (Cons x xs)
  obtain i off where x: "x = (i, off)" by force
  have "d88_parse_tracks dat offs sz xs =
      Inr (map (\<lambda>(i, off). if off = 0 \<or> f i = [] then None else Some (f i)) xs)"
    using Cons.prems by (intro Cons.IH) auto
  then show ?case using Cons.prems [of i off] by (auto simp: x)
qed simp

definition d88_reparsed :: "d88_track option list \<Rightarrow> nat \<Rightarrow> d88_track option" where
  "d88_reparsed ts i =
     (if ts ! i = None then None
      else map_option (d88_place_all (d88_start ts i)) (d88_first_nonempty (drop i ts)))"

lemma d88_place_all_eq_Nil [simp]: "d88_place_all p ss = [] \<longleftrightarrow> ss = []"
  by (cases ss) simp_all

lemma d88_parse_image_tracks:
  assumes lo: "d88_laid_out ts"
  shows "d88_parse_tracks (d88_image d ts) (d88_offsets ts) (of_nat (d88_start ts (length ts)))
      (List.enumerate 0 (d88_offsets ts)) = Inr (map (d88_reparsed ts) [0..<length ts])"
proof -
  let ?f = "\<lambda>i. case d88_first_nonempty (drop i ts) of None \<Rightarrow> [] | Some ss \<Rightarrow> d88_place_all (d88_start ts i) ss"
  have off: "off = (if ts ! i = None then 0 else of_nat (d88_start ts i)) \<and> i < length ts"
    if "(i, off) \<in> set (List.enumerate 0 (d88_offsets ts))" for i off
    using that by (auto simp: in_set_enumerate_eq d88_offsets_def)
  have "d88_parse_tracks (d88_image d ts) (d88_offsets ts) (of_nat (d88_start ts (length ts)))
      (List.enumerate 0 (d88_offsets ts)) =
      Inr (map (\<lambda>(i, off). if off = 0 \<or> ?f i = [] then None else Some (?f i))
        (List.enumerate 0 (d88_offsets ts)))"
  proof (rule d88_parse_tracks_all)
    fix i off assume "(i, off) \<in> set (List.enumerate 0 (d88_offsets ts))" "off \<noteq> 0"
    then have o: "off = of_nat (d88_start ts i)" "i < length ts" using off [of i off] by (auto split: if_splits)
    then show "d88_parse_sectors (d88_image d ts) i
        (d88_find_track_end (d88_offsets ts) off (of_nat (d88_start ts (length ts)))) (unat off) [] = Inr (?f i)"
      using d88_parse_laid_out [OF lo o(2), of d i] d88_laid_out_start(1) [OF lo, of i] by simp
  qed
  also have "map (\<lambda>(i, off). if off = 0 \<or> ?f i = [] then None else Some (?f i))
      (List.enumerate 0 (d88_offsets ts)) = map (d88_reparsed ts) [0..<length ts]"
  proof (rule nth_equalityI)
    fix i assume "i < length (map (\<lambda>(i, off). if off = 0 \<or> ?f i = [] then None else Some (?f i))
      (List.enumerate 0 (d88_offsets ts)))"
    then have i: "i < length ts" by simp
    have "(of_nat (d88_start ts i) :: u32) \<noteq> 0"
      using d88_laid_out_start(1,2) [OF lo, of i] i by (metis less_imp_le_nat not_less_zero unat_0)
    moreover have "ss \<noteq> []" if "d88_first_nonempty (drop i ts) = Some ss" for ss
      using d88_first_nonempty_Some [OF that] by simp
    ultimately show "map (\<lambda>(i, off). if off = 0 \<or> ?f i = [] then None else Some (?f i))
      (List.enumerate 0 (d88_offsets ts)) ! i = map (d88_reparsed ts) [0..<length ts] ! i"
      using i by (auto simp: nth_enumerate_eq d88_offsets_def d88_reparsed_def split: option.splits)
  qed simp
  finally show ?thesis .
qed

definition d88_name_ok :: "u8 list \<Rightarrow> bool" where
  "d88_name_ok name \<longleftrightarrow> length name \<le> 16 \<and> (\<forall>b\<in>set name. b \<noteq> 0 \<and> b < 0x80)"

lemma d88_from_bytes_image:
  assumes lo: "d88_laid_out ts" and name: "d88_name_ok (d88_name d)"
  shows "d88_from_bytes (d88_image d ts) = Inr (d88_from_tracks (d88_name d) (d88_write_protected d)
    (d88_media_type d) (map (d88_reparsed ts) [0..<length ts]))"
proof -
  let ?sz = "of_nat (d88_start ts (length ts)) :: u32"
  let ?rest = "concat (map u32_to_le_bytes (d88_offsets ts)) @ d88_body ts"
  have n: "length (d88_name d) \<le> 16" "\<forall>b\<in>set (d88_name d). b \<noteq> 0" "\<forall>b\<in>set (d88_name d). b < 0x80"
    using name by (auto simp: d88_name_ok_def)
  note read = d88_fields_read [OF n(1,2), of ?sz ?rest]
  have image: "d88_image d ts = d88_fields d ?sz @ ?rest" by (simp add: d88_image_def)
  have max: "length ts = d88_track_max" using lo by (simp add: d88_laid_out_def)
  have len: "length (d88_image d ts) = d88_start ts (length ts)" using max by (rule length_d88_image)
  have size: "unat ?sz = length (d88_image d ts)"
    using d88_laid_out_start(1) [OF lo, of "length ts"] len by simp
  have big: "\<not> length (d88_image d ts) < d88_header_size"
    unfolding len by (simp add: d88_start_def)
  have offs: "d88_track_offsets (d88_image d ts) = d88_offsets ts"
    unfolding image using max by (intro d88_track_offsets_eq) simp
  have wp: "(d88_image d ts ! 0x1A AND 0x10 \<noteq> 0) = d88_write_protected d"
    unfolding image read(2) by simp
  show ?thesis
    unfolding d88_from_bytes_def Let_def offs
    using big size wp d88_parse_image_tracks [OF lo, of d] read(1,3,4) utf8_lossy_ascii [OF n(3)]
    by (simp add: image [symmetric])
qed

definition d88_pad :: "d88_disk \<Rightarrow> d88_track option list" where
  "d88_pad d = d88_tracks d @ replicate (d88_track_max - length (d88_tracks d)) None"

lemma d88_to_bytes_image:
  assumes "length (d88_tracks d) \<le> d88_track_max"
  shows "d88_to_bytes d = Some (d88_image d (d88_pad d))"
proof -
  let ?ts = "d88_pad d"
  have len: "length ?ts = d88_track_max" using assms by (simp add: d88_pad_def)
  obtain offs where offs: "d88_assign_offsets 0 (of_nat d88_header_size)
      (map (map_option d88_track_blob) ?ts) (replicate d88_track_max 0) =
        Some (offs, of_nat d88_header_size + of_nat (length (d88_body ?ts)))"
    "length offs = d88_track_max"
    "\<And>j. j < d88_track_max \<Longrightarrow> offs ! j = (if ?ts ! j \<noteq> None
       then of_nat d88_header_size + of_nat (length (d88_body (take j ?ts))) else 0)"
    using d88_assign_offsets_eq [of 0 ?ts "replicate d88_track_max 0" "of_nat d88_header_size"] len
    by auto
  have "offs = d88_offsets ?ts"
    by (rule nth_equalityI) (auto simp: offs(2,3) len d88_offsets_def d88_start_def)
  moreover have "map (map_option d88_track_blob) (d88_tracks d)
      @ replicate (d88_track_max - length (d88_tracks d)) None = map (map_option d88_track_blob) ?ts"
    by (simp add: d88_pad_def)
  ultimately show ?thesis
    using offs len unfolding d88_to_bytes_def Let_def
    by (simp add: d88_body_map_filter d88_header_eq d88_image_def d88_start_def d88_track_max_def)
qed

end
