(* ===== verification/D88_Properties.thy ===== *)
theory D88_Properties
  imports D88_Lookup D88_Codec
begin

text \<open>
  Properties of D88 images: which sector a lookup finds, that a write is read back, that a
  serialized disk parses to the same disk with every sector located in the image, and for
  which disks the serializer panics or merges tracks.
\<close>

section \<open>Lookup and writing\<close>

text \<open>
  C24 \<open>find_sector_near_track_index\<close> finds a sector exactly when the starting track is
  within the disk and some track holds a sector with the identifier, and then it is the first
  such sector on the track nearest to the starting track, above before below at equal distance.
\<close>

theorem d88_find_sector_nearest:
  "d88_find_sector_near_track_index d i c h r n = Some s \<longleftrightarrow>
     i < length (d88_tracks d)
   \<and> (\<exists>t track. d88_track d t = Some track \<and> List.find (d88_matches c h r n) track = Some s
       \<and> (\<forall>u. d88_nearer i u t \<longrightarrow> \<not> d88_holds d c h r n u))"
proof -
  have inside: "u < length (d88_tracks d)" if "d88_track d u = Some track" for u track
    using that by (auto simp: d88_track_def bind_eq_Some_conv list_get_Some_iff)
  then have holds: "u < length (d88_tracks d)" if "d88_holds d c h r n u" for u
    using that by (auto simp: d88_holds_def)
  have "List.find (d88_matches c h r n) track = Some s \<Longrightarrow> d88_track d t = Some track \<Longrightarrow>
      d88_holds d c h r n t" for t track
    by (auto simp: d88_holds_def find_Some_iff)
  then show ?thesis
    using inside holds
    by (auto simp: d88_find_sector_near_target bind_eq_Some_conv d88_target_iff
        d88_find_sector_on_track_index_def) blast+
qed

theorem d88_find_sector_nearest_witness:
  defines "s x \<equiv> d88_formatted_sector 1 2 x (0, 0, 1, 0)"
  shows "d88_find_sector_near_track_index
     (d88_from_tracks [] False Disk2D [Some [s 0xAA], None, Some [s 0xBB]]) 1 0 0 1 0 = Some (s 0xBB)"
proof -
  let ?d = "d88_from_tracks [] False Disk2D [Some [s 0xAA], None, Some [s 0xBB]]"
  have "d88_track ?d 1 = None" "d88_track ?d 2 = Some [s 0xBB]"
    by (simp_all add: d88_track_def d88_from_tracks_def list_get_def)
  moreover have "List.find (d88_matches 0 0 1 0) [s 0xBB] = Some (s 0xBB)"
    by (simp add: s_def d88_formatted_sector_def d88_matches_def)
  moreover have "d88_nearer 1 u 2 \<longrightarrow> \<not> d88_holds ?d 0 0 1 0 u" for u
  proof
    assume near: "d88_nearer 1 u 2"
    then consider "u = 1" | "2 < u" by (force simp: d88_nearer_def d88_distance_def split: if_splits)
    then show "\<not> d88_holds ?d 0 0 1 0 u"
      by cases (simp_all add: d88_holds_def d88_track_def d88_from_tracks_def list_get_def)
  qed
  moreover have "1 < length (d88_tracks ?d)" by (simp add: d88_from_tracks_def)
  ultimately show ?thesis unfolding d88_find_sector_nearest by blast
qed

text \<open>
  When a lookup finds a sector, a write with the same arguments succeeds and the
  sector then reads as the payload, cut to the size of the sector, over its old data; no
  lookup for another identifier changes. When the lookup finds nothing, so does the write.
\<close>

theorem d88_write_then_read:
  "case d88_find_sector_near_track_index d i c h r n of
     None \<Rightarrow> d88_write_sector_payload i c h r n payload d = None
   | Some s \<Rightarrow> \<exists>place d'. d88_write_sector_payload i c h r n payload d = Some (place, d')
       \<and> place = (sec_source_offset s, length (sec_data s))
       \<and> d88_find_sector_near_track_index d' i c h r n =
           Some (s\<lparr>sec_data := take (length (sec_data s)) payload @ drop (length payload) (sec_data s)\<rparr>)
       \<and> (\<forall>j c' h' r' n'. (c', h', r', n') = (c, h, r, n)
            \<or> d88_find_sector_near_track_index d' j c' h' r' n' =
              d88_find_sector_near_track_index d j c' h' r' n')"
proof (cases "d88_find_target_track_index d i c h r n")
  case None
  then show ?thesis
    by (simp add: d88_find_sector_near_target d88_write_sector_payload_def
        d88_find_sector_slot_near_track_index_def)
next
  case (Some t)
  obtain track k where at: "d88_track d t = Some track" "position (d88_matches c h r n) track = Some k"
    and found: "d88_find_sector_near_track_index d i c h r n = Some (track ! k)"
    and written: "d88_write_sector_payload i c h r n payload d =
      Some ((sec_source_offset (track ! k), length (sec_data (track ! k))),
        d88_update_sector t k (d88_overwrite payload) d)"
    using d88_write_at [OF Some] .
  let ?d = "d88_update_sector t k (d88_overwrite payload) d"
  have over: "d88_overwrite payload s =
      s\<lparr>sec_data := take (length (sec_data s)) payload @ drop (length payload) (sec_data s)\<rparr>" for s
    by (simp add: d88_overwrite_def Let_def copy_into_def min_def)
  have "d88_find_sector_near_track_index ?d i c h r n = Some (d88_overwrite payload (track ! k))"
    using Some by (simp add: d88_find_sector_near_target d88_target_written [OF at] d88_find_on_written [OF at])
  moreover have "(c', h', r', n') = (c, h, r, n)
      \<or> d88_find_sector_near_track_index ?d j c' h' r' n' = d88_find_sector_near_track_index d j c' h' r' n'"
    for j c' h' r' n'
    unfolding d88_find_sector_near_target d88_target_written [OF at] d88_find_on_written [OF at]
    by (cases "(c', h', r', n') = (c, h, r, n)") (auto intro!: bind_option_cong)
  ultimately show ?thesis
    unfolding found written option.case over by blast
qed

section \<open>Parsing\<close>

definition d88_located :: "u8 list \<Rightarrow> d88_sector \<Rightarrow> bool" where
  "d88_located dat s \<longleftrightarrow>
     (\<exists>off. sec_source_offset s = Some off
        \<and> take (length (sec_data s)) (drop (unat off) dat) = sec_data s)"

lemma d88_parse_sector_located:
  "pos + d88_sector_header_size < 2 ^ 64 \<Longrightarrow> d88_located dat (d88_parse_sector dat pos)"
  by (simp add: d88_located_def d88_parse_sector_def Let_def unat_of_nat min_def del: of_nat_add)

lemma d88_parse_sectors_located:
  assumes "d88_parse_sectors dat t track_end pos acc = Inr ss" "length dat < 2 ^ 64"
    and "\<forall>s\<in>set acc. d88_located dat s"
  shows "\<forall>s\<in>set ss. d88_located dat s"
  using assms
proof (induction dat t track_end pos acc rule: d88_parse_sectors.induct)
  case (1 dat t track_end pos acc)
  show ?case
  proof (cases "pos + d88_sector_header_size > length dat \<or> pos \<ge> track_end")
    case True
    then show ?thesis using "1.prems" by (subst (asm) d88_parse_sectors.simps) auto
  next
    case False
    let ?data_end = "pos + d88_sector_header_size + d88_data_size dat pos"
    let ?s = "d88_parse_sector dat pos"
    have inside: "\<not> ?data_end > length dat"
      using "1.prems"(1) False by (subst (asm) d88_parse_sectors.simps) (auto simp: Let_def)
    have located: "d88_located dat ?s"
      using False "1.prems"(2) by (intro d88_parse_sector_located) linarith
    show ?thesis
    proof (cases "length (acc @ [?s]) \<ge> unat (sec_sector_count ?s) \<and> sec_sector_count ?s > 0")
      case True
      then have "ss = acc @ [?s]"
        using "1.prems"(1) False inside by (subst (asm) d88_parse_sectors.simps) (auto simp: Let_def)
      then show ?thesis using "1.prems"(3) located by auto
    next
      case more: False
      then have "d88_parse_sectors dat t track_end ?data_end (acc @ [?s]) = Inr ss"
        using "1.prems"(1) False inside
        by (subst (asm) d88_parse_sectors.simps) (auto simp: Let_def split: if_splits)
      with more show ?thesis
        using "1.IH" [OF False refl _ refl refl] inside "1.prems"(2,3) located by auto
    qed
  qed
qed

lemma d88_parse_tracks_located:
  assumes "d88_parse_tracks dat offs sz xs = Inr ts" "length dat < 2 ^ 64" "Some ss \<in> set ts"
  shows "\<forall>s\<in>set ss. d88_located dat s"
  using assms
proof (induction dat offs sz xs arbitrary: ts rule: d88_parse_tracks.induct)
  case (2 dat offs sz i off rest)
  from "2.prems"(1) obtain sectors ts' where
    first: "(if off = 0 then Inr [] else
      d88_parse_sectors dat i (d88_find_track_end offs off sz) (unat off) []) = Inr sectors"
    and rest: "d88_parse_tracks dat offs sz rest = Inr ts'"
    and ts: "ts = (if sectors = [] then None else Some sectors) # ts'"
    by (auto split: sum.splits simp: map_sum_def)
  have "\<forall>s\<in>set sectors. d88_located dat s"
    using first "2.prems"(2) by (auto split: if_splits dest: d88_parse_sectors_located)
  then show ?case
    using "2.IH" [OF first rest "2.prems"(2)] "2.prems"(3) ts by (auto split: if_splits)
qed simp

lemma d88_from_bytes_located:
  assumes "d88_from_bytes dat = Inr d" "d88_track d i = Some ss" "s \<in> set ss"
  shows "d88_located dat s"
proof -
  let ?sz = "d88_u32_at dat 0x1C"
  have len: "length dat = unat ?sz"
    and tracks: "d88_parse_tracks dat (d88_track_offsets dat) ?sz
      (List.enumerate 0 (d88_track_offsets dat)) = Inr (d88_tracks d)"
    using assms(1)
    by (auto simp: d88_from_bytes_def Let_def map_sum_def d88_from_tracks_def
        split: if_splits option.splits sum.splits)
  have "unat ?sz < 2 ^ 32" using unsigned_less [of ?sz, where ?'a = nat] by simp
  then have "length dat < 2 ^ 64" unfolding len by (rule order.strict_trans) simp
  moreover have "Some ss \<in> set (d88_tracks d)"
    using assms(2) by (auto simp: d88_track_def bind_eq_Some_conv list_get_Some_iff in_set_conv_nth)
  ultimately show ?thesis
    using d88_parse_tracks_located [OF tracks] assms(3) by blast
qed

section \<open>Serializing and parsing\<close>

definition d88_unplaced :: "d88_sector \<Rightarrow> d88_sector" where
  "d88_unplaced s = s\<lparr>sec_source_offset := None\<rparr>"

definition d88_writable :: "d88_disk \<Rightarrow> bool" where
  "d88_writable d \<longleftrightarrow> d88_name_ok (d88_name d) \<and> length (d88_tracks d) \<le> d88_track_max
     \<and> d88_start (d88_pad d) (length (d88_pad d)) < 2 ^ 32
     \<and> (\<forall>ss. Some ss \<in> set (d88_tracks d) \<longrightarrow> d88_track_ok ss)"

lemma d88_unplaced_place_all: "map d88_unplaced (d88_place_all p ss) = map d88_unplaced ss"
  by (induction ss arbitrary: p) (simp_all add: d88_unplaced_def d88_place_def)

lemma length_d88_pad: "length (d88_tracks d) \<le> d88_track_max \<Longrightarrow> length (d88_pad d) = d88_track_max"
  by (simp add: d88_pad_def)

lemma d88_reparse:
  assumes "d88_writable d"
  obtains image d' where "d88_to_bytes d = Some image" "d88_from_bytes image = Inr d'"
    and "d88_name d' = d88_name d" "d88_write_protected d' = d88_write_protected d"
    and "d88_media_type d' = d88_media_type d" "length (d88_tracks d') = d88_track_max"
    and "\<And>i. d88_track d' i = (if i < d88_track_max then d88_reparsed (d88_pad d) i else None)"
proof -
  have max: "length (d88_tracks d) \<le> d88_track_max" using assms by (simp add: d88_writable_def)
  have "d88_laid_out (d88_pad d)"
    using assms length_d88_pad [OF max] by (auto simp: d88_laid_out_def d88_writable_def d88_pad_def)
  from d88_from_bytes_image [OF this, of d]
  have "d88_from_bytes (d88_image d (d88_pad d)) = Inr (d88_from_tracks (d88_name d)
      (d88_write_protected d) (d88_media_type d) (map (d88_reparsed (d88_pad d)) [0..<d88_track_max]))"
    using assms by (simp add: length_d88_pad [OF max] d88_writable_def)
  then show thesis
    using that [OF d88_to_bytes_image [OF max]]
    by (simp add: d88_from_tracks_def d88_track_def list_get_def)
qed

lemma d88_track_pad: "d88_track d i = (if i < length (d88_pad d) then d88_pad d ! i else None)"
  by (simp add: d88_track_def list_get_def d88_pad_def nth_append)

lemma d88_first_nonempty_here:
  "i < length ts \<Longrightarrow> ts ! i = Some ss \<Longrightarrow> ss \<noteq> [] \<Longrightarrow> d88_first_nonempty (drop i ts) = Some ss"
  by (cases ss) (simp_all flip: Cons_nth_drop_Suc)

text \<open>
  C20 A disk whose name is ASCII of at most 16 characters, whose at most 164 tracks have
  sectors, with sector counts that do not end a track early, serializes to an image that parses
  to the same disk: the same name, flags and sectors on every track. Each parsed sector's
  \<open>source_offset\<close> is the place of its data in the image.
\<close>

theorem d88_roundtrip:
  assumes "d88_writable d" and "\<forall>i. d88_track d i \<noteq> Some []"
  shows "\<exists>image d'. d88_to_bytes d = Some image \<and> d88_from_bytes image = Inr d'
    \<and> d88_name d' = d88_name d \<and> d88_write_protected d' = d88_write_protected d
    \<and> d88_media_type d' = d88_media_type d \<and> length (d88_tracks d') = d88_track_max
    \<and> (\<forall>i. map_option (map d88_unplaced) (d88_track d' i) =
            map_option (map d88_unplaced) (d88_track d i))
    \<and> (\<forall>i track. d88_track d' i = Some track \<longrightarrow> list_all (d88_located image) track)"
proof -
  obtain image d' where d': "d88_to_bytes d = Some image" "d88_from_bytes image = Inr d'"
      "d88_name d' = d88_name d" "d88_write_protected d' = d88_write_protected d"
      "d88_media_type d' = d88_media_type d" "length (d88_tracks d') = d88_track_max"
    and tracks: "\<And>i. d88_track d' i = (if i < d88_track_max then d88_reparsed (d88_pad d) i else None)"
    using d88_reparse [OF assms(1)] by blast
  have len: "length (d88_pad d) = d88_track_max"
    using assms(1) by (intro length_d88_pad) (simp add: d88_writable_def)
  have "map_option (map d88_unplaced) (d88_track d' i) = map_option (map d88_unplaced) (d88_track d i)" for i
  proof (cases "d88_track d i")
    case None
    then show ?thesis
      using d88_track_pad [of d i] len by (auto simp: tracks d88_reparsed_def split: if_splits)
  next
    case (Some ss)
    then have "i < length (d88_pad d)" "d88_pad d ! i = Some ss" "ss \<noteq> []"
      using assms(2) by (auto simp: d88_track_pad split: if_splits)
    then show ?thesis
      by (simp add: tracks len d88_reparsed_def d88_first_nonempty_here d88_unplaced_place_all Some)
  qed
  moreover have "list_all (d88_located image) track" if "d88_track d' i = Some track" for i track
    using d88_from_bytes_located [OF d'(2) that] by (simp add: list_all_iff)
  ultimately show ?thesis using d' by blast
qed

lemma d88_roundtrip_witness:
  defines "s \<equiv> \<lparr> sec_cylinder = 0, sec_head = 0, sec_record = 1, sec_size_code = 0,
      sec_sector_count = 1, sec_mfm_flag = 0, sec_deleted = 0, sec_status = 0,
      sec_reserved = [0, 0, 0, 0, 0], sec_data = [0xE5, 0x41], sec_source_offset = None \<rparr>"
  shows "\<exists>image d'. d88_to_bytes (d88_from_tracks [0x54] False Disk2D [None, Some [s]]) = Some image
    \<and> d88_from_bytes image = Inr d'
    \<and> map_option (map d88_unplaced) (d88_track d' 1) = Some [s]"
proof -
  let ?d = "d88_from_tracks [0x54] False Disk2D [None, Some [s]]"
  have "d88_body (replicate n None) = []" for n by (induction n) simp_all
  then have "d88_writable ?d"
    by (auto simp: d88_writable_def d88_from_tracks_def d88_name_ok_def d88_track_max_def d88_pad_def
        d88_start_def d88_header_size_def d88_track_ok_def d88_sector_ok_def s_def
        d88_sector_bytes_def Let_def)
  moreover have "\<forall>i. d88_track ?d i \<noteq> Some []"
    by (auto simp: d88_from_tracks_def d88_track_def list_get_def nth_Cons' split: if_splits)
  ultimately have "\<exists>image d'. d88_to_bytes ?d = Some image \<and> d88_from_bytes image = Inr d'
      \<and> map_option (map d88_unplaced) (d88_track d' 1) = map_option (map d88_unplaced) (d88_track ?d 1)"
    using d88_roundtrip [of ?d] by blast
  then show ?thesis
    unfolding d88_from_tracks_def
    by (simp add: d88_track_def list_get_def d88_unplaced_def s_def)
qed

section \<open>Disks that do not serialize\<close>

text \<open>
  FORMAT TRACK without any sector identifier leaves a track without sectors. Its offset in the
  image is that of the next track that has sectors, and it parses as a copy of that track.
\<close>

theorem d88_empty_track_aliases:
  assumes "d88_writable d" and "d88_track d i = Some []"
    and "d88_first_nonempty (drop i (d88_tracks d)) = Some ss"
  shows "\<exists>image d' track. d88_to_bytes d = Some image \<and> d88_from_bytes image = Inr d'
    \<and> d88_track d' i = Some track \<and> map d88_unplaced track = map d88_unplaced ss"
proof -
  obtain image d' where d': "d88_to_bytes d = Some image" "d88_from_bytes image = Inr d'"
    and tracks: "\<And>i. d88_track d' i = (if i < d88_track_max then d88_reparsed (d88_pad d) i else None)"
    using d88_reparse [OF assms(1)] by metis
  have len: "length (d88_pad d) = d88_track_max"
    using assms(1) by (intro length_d88_pad) (simp add: d88_writable_def)
  have more: "d88_first_nonempty (xs @ ys) = Some ss" if "d88_first_nonempty xs = Some ss" for xs ys
    using that by (induction xs rule: d88_first_nonempty.induct) auto
  have i: "i < d88_track_max" "d88_pad d ! i = Some []"
    using assms(2) len by (auto simp: d88_track_pad split: if_splits)
  moreover have "d88_first_nonempty (drop i (d88_pad d)) = Some ss"
    using assms(3) by (simp add: d88_pad_def more)
  ultimately show ?thesis
    using d' by (simp add: tracks d88_reparsed_def d88_unplaced_place_all)
qed

lemma d88_assign_offsets_None:
  "d88_assign_offsets i off blobs offs = None \<longleftrightarrow>
     (\<exists>j<length blobs. blobs ! j \<noteq> None \<and> length offs \<le> i + j)"
proof (induction i off blobs offs rule: d88_assign_offsets.induct)
  case (2 i off blobs offs)
  then show ?case by (simp add: Ex_less_Suc2)
next
  case (3 i off blob blobs offs)
  then show ?case by (auto simp: Ex_less_Suc2)
qed simp

text \<open>A disk of at most 164 tracks; parsing gives no other.\<close>

definition d88_fits :: "d88_disk \<Rightarrow> bool" where
  "d88_fits d \<longleftrightarrow> (\<forall>j\<ge>d88_track_max. d88_track d j = None)"

lemma d88_to_bytes_returns_iff: "(\<exists>bytes. d88_to_bytes d = Some bytes) \<longleftrightarrow> d88_fits d"
proof -
  have "d88_to_bytes d = None \<longleftrightarrow> (\<exists>j<length (d88_pad d). d88_pad d ! j \<noteq> None \<and> d88_track_max \<le> j)"
    by (auto simp: d88_to_bytes_def Let_def d88_assign_offsets_None d88_pad_def nth_append)
  also have "\<dots> \<longleftrightarrow> \<not> d88_fits d" by (auto simp: d88_track_pad d88_fits_def)
  finally show ?thesis by (cases "d88_to_bytes d") auto
qed

lemma d88_to_bytes_None_iff: "d88_to_bytes d = None \<longleftrightarrow> \<not> d88_fits d"
  using d88_to_bytes_returns_iff [of d] by (cases "d88_to_bytes d") auto

lemma map_sum_InrE:
  assumes "map_sum f g x = Inr y"
  obtains z where "x = Inr z" "y = g z"
  using assms by (cases x) auto

lemma d88_parse_tracks_length:
  "d88_parse_tracks dat offs sz xs = Inr ts \<Longrightarrow> length ts = length xs"
  by (induction dat offs sz xs arbitrary: ts rule: d88_parse_tracks.induct)
    (auto split: sum.splits if_splits elim!: map_sum_InrE)

lemma d88_short_fits: "length (d88_tracks d) \<le> d88_track_max \<Longrightarrow> d88_fits d"
  by (simp add: d88_fits_def d88_track_def list_get_def)

lemma d88_from_bytes_fits:
  assumes "d88_from_bytes dat = Inr d"
  shows "d88_fits d"
proof -
  obtain ts where "d88_parse_tracks dat (d88_track_offsets dat) (d88_u32_at dat 0x1C)
      (List.enumerate 0 (d88_track_offsets dat)) = Inr ts" "d88_tracks d = ts"
    using assms by (auto simp: d88_from_bytes_def Let_def d88_from_tracks_def split: if_splits option.splits
        elim!: map_sum_InrE)
  then have "length (d88_tracks d) = d88_track_max"
    using d88_parse_tracks_length by (fastforce simp: d88_track_offsets_def)
  then show ?thesis by (simp add: d88_short_fits)
qed

text \<open>
  C37 \<open>to_bytes\<close> panics exactly on a disk that has a track at index 164 or above, and
  FORMAT TRACK makes such a disk of any disk when the drive is on cylinder 82 or above, which a
  seek command can reach.
\<close>

theorem d88_to_bytes_panics_iff:
  "(d88_to_bytes d = None \<longleftrightarrow> (\<exists>k. d88_track d (d88_track_max + k) \<noteq> None))
   \<and> d88_to_bytes (d88_format_track (d88_track_max + k) chrn data_n fill_byte d) = None"
proof -
  have "(\<exists>j\<ge>d88_track_max. d88_track e j \<noteq> None) \<longleftrightarrow> (\<exists>k. d88_track e (d88_track_max + k) \<noteq> None)" for e
    by (metis le_add1 le_Suc_ex)
  then have panics: "d88_to_bytes e = None \<longleftrightarrow> (\<exists>k. d88_track e (d88_track_max + k) \<noteq> None)" for e
    by (auto simp: d88_to_bytes_None_iff d88_fits_def)
  then show ?thesis using panics by (auto simp: d88_track_formatted)
qed

end
