(* ===== verification/Upd765a.thy ===== *)
theory Upd765a
  imports Bytes
begin

text \<open>
  The floppy disk controller of \<open>device/src/upd765a_fdc.rs\<close>: its registers, the command engine
  behind the data register, and the operations by which a bus drives an execution phase. The
  constant parameter \<open>PLATFORM\<close> of the type is an argument of the methods that look at it.

  The record \<open>upd765a\<close> extends the saved state \<open>upd765a_state\<close> by the front end's flags that the
  command engine reads; the AT and X68000 registers (\<open>upd765a_fdc/at.rs\<close>, \<open>x68k.rs\<close>) and the
  mounted drives of the type are not modelled. Arrays are lists of their fixed length
  (\<open>upd765a_arrays\<close>); an index past the end is a panic, the value \<open>None\<close>.
\<close>

section \<open>State\<close>

datatype fdc_platform = FdcStandard | FdcX68k | FdcIsaAt

datatype fdc_phase = FdcIdle | FdcCommandPhase | FdcExecution | FdcResultPhase

datatype fdc_action =
    FdcNoAction | FdcScheduleSeekInterrupt | FdcStartReadData | FdcStartReadId | FdcStartWriteData
  | FdcStartFormatTrack | FdcStartScan | FdcReadyChangeInterrupt

datatype fdc_command = FdcNone | FdcReadData | FdcReadId | FdcWriteData | FdcFormatTrack | FdcScan

record upd765a_state =
  fd_phase :: fdc_phase
  fd_status :: u8
  fd_control :: u8
  fd_prev_control :: u8
  fd_command_byte :: u8
  fd_command :: u8
  fd_active_command :: fdc_command
  fd_params :: "u8 list"
  fd_params_expected :: u8
  fd_params_received :: u8
  fd_result :: "u8 list"
  fd_result_count :: u8
  fd_result_index :: u8
  fd_drive_st0 :: "u8 list"
  fd_drive_st0_waiting :: "u8 list"
  fd_drive_cylinder :: "u8 list"
  fd_interrupt_pending :: bool
  fd_sense_interrupt_result :: bool
  fd_mt :: bool
  fd_mf :: bool
  fd_sk :: bool
  fd_c :: u8
  fd_h :: u8
  fd_r :: u8
  fd_n :: u8
  fd_eot :: u8
  fd_gpl :: u8
  fd_dtl :: u8
  fd_hd_us :: u8
  fd_crcn :: u8
  fd_srt :: u8
  fd_hut :: u8
  fd_hlt :: u8
  fd_nd :: bool
  fd_tc :: bool
  fd_drive_equipped :: u8
  fd_drive_has_disk :: u8
  fd_drive_write_protected :: u8
  fd_drive_ready_line :: u8
  fd_drive_ready_reported :: u8
  fd_exec_buf :: "u8 list"
  fd_exec_index :: nat
  fd_exec_len :: nat
  fd_exec_reading :: bool
  fd_exec_pio :: bool
  fd_exec_dma :: bool
  fd_scan_condition_held :: bool

record upd765a = upd765a_state +
  fd_reset_held :: bool
  fd_warned_non_dma :: bool
  fd_standby :: bool

definition upd765a_validate_runtime_state :: "'a upd765a_state_scheme \<Rightarrow> bool" where
  "upd765a_validate_runtime_state s \<longleftrightarrow>
     \<not> (fd_params_received s > fd_params_expected s
      \<or> fd_params_expected s > of_nat (length (fd_params s))
      \<or> fd_result_index s > fd_result_count s
      \<or> fd_result_count s > of_nat (length (fd_result s))
      \<or> fd_exec_index s > fd_exec_len s
      \<or> fd_exec_len s > length (fd_exec_buf s))"

section \<open>Constants\<close>

named_theorems fdc_consts \<open>register bits and command codes of the floppy controller\<close>

definition MSR_RQM :: u8 where [fdc_consts]: "MSR_RQM = 0x80"
definition MSR_DIO :: u8 where [fdc_consts]: "MSR_DIO = 0x40"
definition MSR_EXM :: u8 where [fdc_consts]: "MSR_EXM = 0x20"
definition MSR_CB :: u8 where [fdc_consts]: "MSR_CB = 0x10"
definition MSR_DB :: u8 where [fdc_consts]: "MSR_DB = 0x0F"
definition ST0_ABNORMAL_TERMINATION :: u8 where [fdc_consts]: "ST0_ABNORMAL_TERMINATION = 0x40"
definition ST0_INVALID_COMMAND :: u8 where [fdc_consts]: "ST0_INVALID_COMMAND = 0x80"
definition ST0_SEEK_END :: u8 where [fdc_consts]: "ST0_SEEK_END = 0x20"
definition ST0_EQUIPMENT_CHECK :: u8 where [fdc_consts]: "ST0_EQUIPMENT_CHECK = 0x10"
definition ST0_NOT_READY :: u8 where [fdc_consts]: "ST0_NOT_READY = 0x08"
definition ST0_READY_LINE_CHANGED :: u8 where [fdc_consts]: "ST0_READY_LINE_CHANGED = 0xC0"
definition ST1_MISSING_ADDRESS_MARK :: u8 where [fdc_consts]: "ST1_MISSING_ADDRESS_MARK = 0x01"
definition ST1_NOT_WRITABLE :: u8 where [fdc_consts]: "ST1_NOT_WRITABLE = 0x02"
definition ST3_READY :: u8 where [fdc_consts]: "ST3_READY = 0x20"
definition ST3_TRACK_0 :: u8 where [fdc_consts]: "ST3_TRACK_0 = 0x10"
definition ST3_WRITE_PROTECT :: u8 where [fdc_consts]: "ST3_WRITE_PROTECT = 0x40"
definition ST3_TWO_SIDE :: u8 where [fdc_consts]: "ST3_TWO_SIDE = 0x08"
definition CMD_FLAG_MT :: u8 where [fdc_consts]: "CMD_FLAG_MT = 0x80"
definition CMD_FLAG_MF :: u8 where [fdc_consts]: "CMD_FLAG_MF = 0x40"
definition CMD_FLAG_SK :: u8 where [fdc_consts]: "CMD_FLAG_SK = 0x20"
definition CMD_INDEX_MASK :: u8 where [fdc_consts]: "CMD_INDEX_MASK = 0x1F"
definition CMD_READ_DIAGNOSTIC :: u8 where [fdc_consts]: "CMD_READ_DIAGNOSTIC = 0x02"
definition CMD_SPECIFY :: u8 where [fdc_consts]: "CMD_SPECIFY = 0x03"
definition CMD_SENSE_DRIVE_STATUS :: u8 where [fdc_consts]: "CMD_SENSE_DRIVE_STATUS = 0x04"
definition CMD_WRITE_DATA :: u8 where [fdc_consts]: "CMD_WRITE_DATA = 0x05"
definition CMD_READ_DATA :: u8 where [fdc_consts]: "CMD_READ_DATA = 0x06"
definition CMD_RECALIBRATE :: u8 where [fdc_consts]: "CMD_RECALIBRATE = 0x07"
definition CMD_SENSE_INTERRUPT_STATUS :: u8 where [fdc_consts]: "CMD_SENSE_INTERRUPT_STATUS = 0x08"
definition CMD_WRITE_DELETED_DATA :: u8 where [fdc_consts]: "CMD_WRITE_DELETED_DATA = 0x09"
definition CMD_READ_ID :: u8 where [fdc_consts]: "CMD_READ_ID = 0x0A"
definition CMD_READ_DELETED_DATA :: u8 where [fdc_consts]: "CMD_READ_DELETED_DATA = 0x0C"
definition CMD_WRITE_ID :: u8 where [fdc_consts]: "CMD_WRITE_ID = 0x0D"
definition CMD_SEEK :: u8 where [fdc_consts]: "CMD_SEEK = 0x0F"
definition CMD_SCAN_EQUAL :: u8 where [fdc_consts]: "CMD_SCAN_EQUAL = 0x11"
definition CMD_SCAN_LOW_OR_EQUAL :: u8 where [fdc_consts]: "CMD_SCAN_LOW_OR_EQUAL = 0x19"
definition CMD_SCAN_HIGH_OR_EQUAL :: u8 where [fdc_consts]: "CMD_SCAN_HIGH_OR_EQUAL = 0x1D"
definition HD_US_DRIVE_MASK :: u8 where [fdc_consts]: "HD_US_DRIVE_MASK = 0x03"
definition HD_US_HEAD_SHIFT :: nat where [fdc_consts]: "HD_US_HEAD_SHIFT = 2"
definition CTRL_RESET :: u8 where [fdc_consts]: "CTRL_RESET = 0x80"
definition CTRL_FORCED_READY :: u8 where [fdc_consts]: "CTRL_FORCED_READY = 0x40"
definition DEFAULT_DRIVE_EQUIPPED :: u8 where [fdc_consts]: "DEFAULT_DRIVE_EQUIPPED = 0x03"
definition AT_DRIVES_READY_MASK :: u8 where [fdc_consts]: "AT_DRIVES_READY_MASK = 0x03"

definition CMD_PARAMS :: "u8 list" where
  "CMD_PARAMS =
     [0, 0, 8, 2, 1, 8, 8, 1, 0, 8, 1, 0, 8, 5, 0, 2, 0, 8, 0, 0, 0, 0, 0, 0, 0, 8, 0, 0, 0, 8, 0, 0]"

text \<open>\<open>1u8 << drive\<close>\<close>

definition drive_mask :: "nat \<Rightarrow> u8" where
  "drive_mask drive = push_bit drive 1"

definition upd765a_new :: "fdc_platform \<Rightarrow> upd765a" where
  "upd765a_new p =
     \<lparr> fd_phase = FdcIdle, fd_status = MSR_RQM, fd_control = 0, fd_prev_control = 0,
       fd_command_byte = 0, fd_command = 0, fd_active_command = FdcNone,
       fd_params = replicate 9 0, fd_params_expected = 0, fd_params_received = 0,
       fd_result = replicate 7 0, fd_result_count = 0, fd_result_index = 0,
       fd_drive_st0 = replicate 4 0, fd_drive_st0_waiting = replicate 4 0,
       fd_drive_cylinder = replicate 4 0, fd_interrupt_pending = False,
       fd_sense_interrupt_result = False, fd_mt = False, fd_mf = False, fd_sk = False,
       fd_c = 0, fd_h = 0, fd_r = 0, fd_n = 0, fd_eot = 0, fd_gpl = 0, fd_dtl = 0, fd_hd_us = 0,
       fd_crcn = 0, fd_srt = 0, fd_hut = 0, fd_hlt = 0, fd_nd = False, fd_tc = False,
       fd_drive_equipped = DEFAULT_DRIVE_EQUIPPED,
       fd_drive_has_disk = (if p = FdcIsaAt then AT_DRIVES_READY_MASK else 0),
       fd_drive_write_protected = 0, fd_drive_ready_line = 0, fd_drive_ready_reported = 0,
       fd_exec_buf = [], fd_exec_index = 0, fd_exec_len = 0, fd_exec_reading = False,
       fd_exec_pio = False, fd_exec_dma = False, fd_scan_condition_held = False,
       fd_reset_held = (p = FdcIsaAt), fd_warned_non_dma = False, fd_standby = False \<rparr>"

section \<open>Ready lines and seek statuses\<close>

definition upd765a_take_interrupt_pending :: "upd765a \<Rightarrow> bool \<times> upd765a" where
  "upd765a_take_interrupt_pending s = (fd_interrupt_pending s, s\<lparr>fd_interrupt_pending := False\<rparr>)"

definition upd765a_set_ready_line :: "nat \<Rightarrow> bool \<Rightarrow> upd765a \<Rightarrow> upd765a" where
  "upd765a_set_ready_line drive ready s =
     (let mask = drive_mask drive in
      if ready then s\<lparr>fd_drive_ready_line := fd_drive_ready_line s OR mask\<rparr>
      else s\<lparr>fd_drive_ready_line := fd_drive_ready_line s AND NOT mask\<rparr>)"

text \<open>The body of the loop in \<open>poll_ready_lines\<close>, for one drive.\<close>

definition upd765a_poll_drive :: "nat \<Rightarrow> bool \<times> upd765a \<Rightarrow> bool \<times> upd765a" where
  "upd765a_poll_drive drive = (\<lambda>(reported, s).
     let mask = drive_mask drive;
         changed = (fd_drive_ready_line s XOR fd_drive_ready_reported s) AND mask
     in if changed = 0 \<or> fd_drive_equipped s AND mask = 0 \<or> fd_drive_st0 s ! drive \<noteq> 0
        then (reported, s)
        else
          let not_ready = (if fd_drive_ready_line s AND mask \<noteq> 0 then 0 else ST0_NOT_READY)
          in (True,
              s\<lparr>fd_drive_st0 :=
                  (fd_drive_st0 s)[drive := ST0_READY_LINE_CHANGED OR not_ready OR of_nat drive],
                fd_drive_ready_reported := fd_drive_ready_reported s XOR mask,
                fd_interrupt_pending := True\<rparr>))"

definition upd765a_poll_ready_lines :: "upd765a \<Rightarrow> bool \<times> upd765a" where
  "upd765a_poll_ready_lines s =
     (if fd_phase s \<noteq> FdcIdle \<or> fd_control s AND CTRL_FORCED_READY \<noteq> 0 then (False, s)
      else fold upd765a_poll_drive [0..<length (fd_drive_st0 s)] (False, s))"

definition upd765a_signal_ready_line_change :: "nat \<Rightarrow> bool \<Rightarrow> upd765a \<Rightarrow> bool \<times> upd765a" where
  "upd765a_signal_ready_line_change drive ready s =
     (if drive \<ge> 4 then (False, s)
      else upd765a_poll_ready_lines (upd765a_set_ready_line drive ready s))"

definition upd765a_latch_ready_line :: "nat \<Rightarrow> bool \<Rightarrow> upd765a \<Rightarrow> upd765a" where
  "upd765a_latch_ready_line drive ready s =
     (if drive \<ge> 4 then s
      else let s = upd765a_set_ready_line drive ready s; mask = drive_mask drive
           in s\<lparr>fd_drive_ready_reported :=
                (fd_drive_ready_reported s AND NOT mask) OR (fd_drive_ready_line s AND mask)\<rparr>)"

definition upd765a_defer_drive_status :: "nat \<Rightarrow> upd765a \<Rightarrow> upd765a option" where
  "upd765a_defer_drive_status drive s =
     (if drive < length (fd_drive_st0 s) \<and> drive < length (fd_drive_st0_waiting s)
      then Some (s\<lparr>fd_drive_st0_waiting := (fd_drive_st0_waiting s)[drive := fd_drive_st0 s ! drive],
                   fd_drive_st0 := (fd_drive_st0 s)[drive := 0]\<rparr>)
      else None)"

definition upd765a_has_waiting_drive_status :: "upd765a \<Rightarrow> bool" where
  "upd765a_has_waiting_drive_status s \<longleftrightarrow> list_ex (\<lambda>status. status \<noteq> 0) (fd_drive_st0_waiting s)"

definition upd765a_any_drive_status :: "upd765a \<Rightarrow> bool" where
  "upd765a_any_drive_status s \<longleftrightarrow> list_ex (\<lambda>status. status \<noteq> 0) (fd_drive_st0 s)"

definition upd765a_release_drive :: "nat \<Rightarrow> upd765a \<Rightarrow> upd765a" where
  "upd765a_release_drive drive s =
     (let waiting_status = fd_drive_st0_waiting s ! drive in
      if waiting_status = 0 then s
      else
        let s = s\<lparr>fd_status := fd_status s AND NOT (drive_mask drive)\<rparr> in
        if fd_drive_st0 s ! drive = 0
        then s\<lparr>fd_drive_st0 := (fd_drive_st0 s)[drive := waiting_status],
               fd_drive_st0_waiting := (fd_drive_st0_waiting s)[drive := 0]\<rparr>
        else s)"

definition upd765a_release_waiting_drive_statuses :: "upd765a \<Rightarrow> upd765a" where
  "upd765a_release_waiting_drive_statuses s =
     (let s = fold upd765a_release_drive [0..<length (fd_drive_st0 s)] s
      in s\<lparr>fd_interrupt_pending := upd765a_any_drive_status s\<rparr>)"

section \<open>Status, control and results\<close>

definition upd765a_read_status :: "upd765a \<Rightarrow> u8" where
  "upd765a_read_status s = fd_status s"

definition upd765a_forced_ready :: "upd765a \<Rightarrow> bool" where
  "upd765a_forced_ready s \<longleftrightarrow> fd_control s AND CTRL_FORCED_READY \<noteq> 0"

definition upd765a_enter_result :: "u8 \<Rightarrow> upd765a \<Rightarrow> upd765a" where
  "upd765a_enter_result count s =
     s\<lparr>fd_phase := FdcResultPhase, fd_result_count := count, fd_result_index := 0,
       fd_status := MSR_RQM OR MSR_DIO OR MSR_CB, fd_exec_pio := False, fd_exec_dma := False\<rparr>"

definition upd765a_head :: "upd765a \<Rightarrow> u8" where
  "upd765a_head s = drop_bit HD_US_HEAD_SHIFT (fd_hd_us s) AND 0x01"

definition upd765a_head_drive :: "upd765a \<Rightarrow> u8" where
  "upd765a_head_drive s =
     push_bit HD_US_HEAD_SHIFT (upd765a_head s) OR (fd_hd_us s AND HD_US_DRIVE_MASK)"

text \<open>The seven result bytes that \<open>complete_success_with_status\<close> and \<open>complete_error\<close> store.\<close>

definition upd765a_data_result :: "u8 \<Rightarrow> u8 \<Rightarrow> u8 \<Rightarrow> upd765a \<Rightarrow> upd765a" where
  "upd765a_data_result st0 st1 st2 s =
     upd765a_enter_result 7
       (s\<lparr>fd_result := [st0, st1, st2, fd_c s, fd_h s, fd_r s, fd_n s],
          fd_interrupt_pending := True\<rparr>)"

definition upd765a_complete_success_with_status :: "u8 \<Rightarrow> u8 \<Rightarrow> upd765a \<Rightarrow> upd765a" where
  "upd765a_complete_success_with_status st1 st2 s =
     upd765a_data_result (upd765a_head_drive s) st1 st2 s"

definition upd765a_complete_success :: "upd765a \<Rightarrow> upd765a" where
  "upd765a_complete_success s = upd765a_complete_success_with_status 0x00 0x00 s"

definition upd765a_complete_error :: "u8 \<Rightarrow> u8 \<Rightarrow> u8 \<Rightarrow> upd765a \<Rightarrow> upd765a" where
  "upd765a_complete_error st0_extra st1 st2 s =
     upd765a_data_result (ST0_ABNORMAL_TERMINATION OR st0_extra OR upd765a_head_drive s) st1 st2 s"

definition upd765a_at_last_sector :: "upd765a \<Rightarrow> bool" where
  "upd765a_at_last_sector s \<longleftrightarrow>
     (if fd_r s \<noteq> fd_eot s then False else \<not> fd_mt s \<or> upd765a_head s = 1)"

definition upd765a_advance_sector :: "fdc_platform \<Rightarrow> upd765a \<Rightarrow> bool \<times> upd765a" where
  "upd765a_advance_sector p s =
     (if fd_r s = fd_eot s then
        if p = FdcStandard then
          let s = s\<lparr>fd_r := 1\<rparr>;
              s = (if fd_mt s then s\<lparr>fd_h := fd_h s XOR 1\<rparr> else s)
          in if fd_mt s \<and> fd_h s = 1 then (False, s)
             else (True, s\<lparr>fd_c := fd_c s + 1\<rparr>)
        else if fd_mt s \<and> fd_h s = 0 then (False, s\<lparr>fd_h := 1, fd_r := 1\<rparr>)
        else (True, s)
      else (False, s\<lparr>fd_r := fd_r s + 1\<rparr>))"

definition upd765a_current_drive :: "upd765a \<Rightarrow> nat" where
  "upd765a_current_drive s = unat (fd_hd_us s AND HD_US_DRIVE_MASK)"

definition upd765a_is_read_track :: "upd765a \<Rightarrow> bool" where
  "upd765a_is_read_track s \<longleftrightarrow> fd_command s = CMD_READ_DIAGNOSTIC"

definition upd765a_is_read_deleted :: "upd765a \<Rightarrow> bool" where
  "upd765a_is_read_deleted s \<longleftrightarrow> fd_command s = CMD_READ_DELETED_DATA"

definition upd765a_current_track_index :: "upd765a \<Rightarrow> nat" where
  "upd765a_current_track_index s =
     (let cylinder = unat (fd_drive_cylinder s ! upd765a_current_drive s)
      in cylinder * 2 + unat (upd765a_head s))"

definition upd765a_reset :: "upd765a \<Rightarrow> upd765a" where
  "upd765a_reset s =
     s\<lparr>fd_phase := FdcIdle, fd_status := MSR_RQM, fd_command := 0, fd_command_byte := 0,
       fd_active_command := FdcNone, fd_params_received := 0, fd_params_expected := 0,
       fd_result_count := 0, fd_result_index := 0, fd_drive_st0 := replicate 4 0,
       fd_drive_st0_waiting := replicate 4 0, fd_drive_ready_reported := fd_drive_ready_line s,
       fd_interrupt_pending := False, fd_sense_interrupt_result := False, fd_exec_pio := False,
       fd_exec_dma := False, fd_exec_index := 0, fd_exec_len := 0\<rparr>"

definition upd765a_write_control :: "u8 \<Rightarrow> upd765a \<Rightarrow> upd765a" where
  "upd765a_write_control value s =
     (let s = s\<lparr>fd_prev_control := fd_control s, fd_control := value\<rparr> in
      if value AND CTRL_RESET \<noteq> 0 \<and> fd_prev_control s AND CTRL_RESET = 0
      then upd765a_reset s else s)"

definition upd765a_provide_sector_data :: "u8 list \<Rightarrow> u8 \<Rightarrow> upd765a \<Rightarrow> upd765a" where
  "upd765a_provide_sector_data sector d88_status s = s"

definition upd765a_provide_read_id :: "u8 \<Rightarrow> u8 \<Rightarrow> u8 \<Rightarrow> u8 \<Rightarrow> upd765a \<Rightarrow> upd765a" where
  "upd765a_provide_read_id c h r n s = s\<lparr>fd_c := c, fd_h := h, fd_r := r, fd_n := n\<rparr>"

definition upd765a_signal_terminal_count :: "upd765a \<Rightarrow> upd765a" where
  "upd765a_signal_terminal_count s = s\<lparr>fd_tc := True\<rparr>"

section \<open>Execution phase\<close>

definition upd765a_begin_pio_read :: "u8 list \<Rightarrow> upd765a \<Rightarrow> upd765a" where
  "upd765a_begin_pio_read sector s =
     s\<lparr>fd_exec_buf := sector, fd_exec_index := 0, fd_exec_len := length sector,
       fd_exec_reading := True, fd_exec_pio := True, fd_phase := FdcExecution,
       fd_status := MSR_DIO OR MSR_EXM OR MSR_CB\<rparr>"

definition upd765a_begin_pio_write :: "nat \<Rightarrow> upd765a \<Rightarrow> upd765a" where
  "upd765a_begin_pio_write len s =
     s\<lparr>fd_exec_buf := replicate len 0, fd_exec_index := 0, fd_exec_len := len,
       fd_exec_reading := False, fd_exec_pio := True, fd_phase := FdcExecution,
       fd_status := MSR_EXM OR MSR_CB\<rparr>"

definition upd765a_pio_release_byte :: "upd765a \<Rightarrow> upd765a" where
  "upd765a_pio_release_byte s =
     (if fd_phase s \<noteq> FdcExecution \<or> \<not> fd_exec_pio s then s
      else if fd_exec_index s < fd_exec_len s then s\<lparr>fd_status := fd_status s OR MSR_RQM\<rparr>
      else s)"

definition upd765a_pio_active :: "upd765a \<Rightarrow> bool" where
  "upd765a_pio_active s \<longleftrightarrow> fd_exec_pio s \<and> fd_phase s = FdcExecution"

definition upd765a_pio_byte_ready :: "upd765a \<Rightarrow> bool" where
  "upd765a_pio_byte_ready s \<longleftrightarrow> upd765a_pio_active s \<and> fd_status s AND MSR_RQM \<noteq> 0"

definition upd765a_pio_sector_done :: "upd765a \<Rightarrow> bool" where
  "upd765a_pio_sector_done s \<longleftrightarrow> fd_exec_index s \<ge> fd_exec_len s"

definition upd765a_take_pio_write_buf :: "upd765a \<Rightarrow> u8 list option" where
  "upd765a_take_pio_write_buf s =
     (if fd_exec_len s \<le> length (fd_exec_buf s) then Some (take (fd_exec_len s) (fd_exec_buf s))
      else None)"

definition upd765a_begin_execution_read :: "u8 list \<Rightarrow> upd765a \<Rightarrow> upd765a" where
  "upd765a_begin_execution_read sector s =
     s\<lparr>fd_exec_buf := sector, fd_exec_index := 0, fd_exec_len := length sector,
       fd_exec_reading := True, fd_exec_dma := True, fd_exec_pio := False,
       fd_phase := FdcExecution, fd_status := MSR_CB\<rparr>"

definition upd765a_begin_execution_write :: "nat \<Rightarrow> upd765a \<Rightarrow> upd765a" where
  "upd765a_begin_execution_write len s =
     s\<lparr>fd_exec_buf := replicate len 0, fd_exec_index := 0, fd_exec_len := len,
       fd_exec_reading := False, fd_exec_dma := True, fd_exec_pio := False,
       fd_phase := FdcExecution, fd_status := MSR_CB\<rparr>"

definition upd765a_begin_scan_sector :: "u8 list \<Rightarrow> upd765a \<Rightarrow> upd765a" where
  "upd765a_begin_scan_sector sector s =
     s\<lparr>fd_exec_buf := sector, fd_exec_index := 0, fd_exec_len := length sector,
       fd_exec_reading := False, fd_exec_dma := True, fd_exec_pio := False,
       fd_scan_condition_held := True, fd_phase := FdcExecution, fd_status := MSR_CB\<rparr>"

definition upd765a_execution_active :: "upd765a \<Rightarrow> bool" where
  "upd765a_execution_active s \<longleftrightarrow> fd_exec_dma s \<and> fd_phase s = FdcExecution"

definition upd765a_execution_sector_done :: "upd765a \<Rightarrow> bool" where
  "upd765a_execution_sector_done s \<longleftrightarrow> fd_exec_index s \<ge> fd_exec_len s"

definition upd765a_execution_write_buf :: "upd765a \<Rightarrow> u8 list option" where
  "upd765a_execution_write_buf s =
     (if fd_exec_len s \<le> length (fd_exec_buf s) then Some (take (fd_exec_len s) (fd_exec_buf s))
      else None)"

definition upd765a_scan_sector_satisfied :: "upd765a \<Rightarrow> bool" where
  "upd765a_scan_sector_satisfied s \<longleftrightarrow> fd_scan_condition_held s"

definition upd765a_scan_step :: "upd765a \<Rightarrow> u8" where
  "upd765a_scan_step s = (if fd_dtl s AND 0x03 = 2 then 2 else 1)"

definition upd765a_is_scan_equal :: "upd765a \<Rightarrow> bool" where
  "upd765a_is_scan_equal s \<longleftrightarrow> fd_command s = CMD_SCAN_EQUAL"

definition upd765a_scan_byte_holds :: "u8 \<Rightarrow> u8 \<Rightarrow> u8 \<Rightarrow> bool" where
  "upd765a_scan_byte_holds command disk_byte host_byte \<longleftrightarrow>
     (if host_byte = 0xFF then True
      else if command = CMD_SCAN_EQUAL then disk_byte = host_byte
      else if command = CMD_SCAN_LOW_OR_EQUAL then disk_byte \<le> host_byte
      else if command = CMD_SCAN_HIGH_OR_EQUAL then disk_byte \<ge> host_byte
      else False)"

section \<open>Commands\<close>

definition upd765a_pending_interrupt_drive :: "upd765a \<Rightarrow> nat option" where
  "upd765a_pending_interrupt_drive s = position (\<lambda>st0. st0 \<noteq> 0) (fd_drive_st0 s)"

definition upd765a_extract_data_params :: "upd765a \<Rightarrow> upd765a" where
  "upd765a_extract_data_params s =
     (let p = fd_params s in
      s\<lparr>fd_hd_us := p ! 0, fd_c := p ! 1, fd_h := p ! 2, fd_r := p ! 3, fd_n := p ! 4,
        fd_eot := p ! 5, fd_gpl := p ! 6, fd_dtl := p ! 7\<rparr>)"

definition upd765a_specify :: "upd765a \<Rightarrow> fdc_action \<times> upd765a" where
  "upd765a_specify s =
     (let p = fd_params s;
          s = s\<lparr>fd_srt := drop_bit 4 (p ! 0) AND 0x0F, fd_hut := p ! 0 AND 0x0F,
                fd_hlt := drop_bit 1 (p ! 1) AND 0x7F, fd_nd := (p ! 1 AND 0x01 \<noteq> 0),
                fd_phase := FdcIdle, fd_status := MSR_RQM\<rparr>;
          (reported, s) = upd765a_poll_ready_lines s
      in (if reported then FdcReadyChangeInterrupt else FdcNoAction, s))"

definition upd765a_st3 :: "fdc_platform \<Rightarrow> upd765a \<Rightarrow> u8" where
  "upd765a_st3 p s =
     (let us = fd_params s ! 0;
          drive = unat (us AND HD_US_DRIVE_MASK);
          head = (if p \<noteq> FdcX68k then drop_bit HD_US_HEAD_SHIFT us AND 0x01 else 0);
          track0 = (if fd_drive_cylinder s ! drive = 0 then ST3_TRACK_0 else 0);
          equipped = (fd_drive_equipped s AND drive_mask drive \<noteq> 0);
          has_disk = (fd_drive_has_disk s AND drive_mask drive \<noteq> 0);
          ready = (if equipped \<and> (fd_control s AND CTRL_FORCED_READY \<noteq> 0 \<or> has_disk)
                   then ST3_READY else 0);
          two_side = (if equipped \<and> p \<noteq> FdcX68k then ST3_TWO_SIDE else 0);
          write_protect = (if fd_drive_write_protected s AND drive_mask drive \<noteq> 0
                           then ST3_WRITE_PROTECT else 0)
      in push_bit HD_US_HEAD_SHIFT head OR of_nat drive OR track0 OR ready OR two_side
           OR write_protect)"

definition upd765a_sense_drive_status :: "fdc_platform \<Rightarrow> upd765a \<Rightarrow> upd765a" where
  "upd765a_sense_drive_status p s =
     upd765a_enter_result 1 (s\<lparr>fd_result := (fd_result s)[0 := upd765a_st3 p s]\<rparr>)"

text \<open>What the commands with an execution phase share: nothing moves before the bus starts it.\<close>

definition upd765a_start_execution :: "fdc_command \<Rightarrow> upd765a \<Rightarrow> upd765a" where
  "upd765a_start_execution command s =
     s\<lparr>fd_active_command := command, fd_tc := False, fd_phase := FdcExecution, fd_status := MSR_CB\<rparr>"

text \<open>The end of SEEK and RECALIBRATE: the drive reports in its own status register.\<close>

definition upd765a_seek_done :: "nat \<Rightarrow> u8 \<Rightarrow> u8 \<Rightarrow> upd765a \<Rightarrow> fdc_action \<times> upd765a" where
  "upd765a_seek_done drive cylinder st0 s =
     (let drive_busy = drive_mask drive AND MSR_DB;
          s = s\<lparr>fd_drive_cylinder := (fd_drive_cylinder s)[drive := cylinder],
                fd_drive_st0 := (fd_drive_st0 s)[drive := st0],
                fd_interrupt_pending := True, fd_phase := FdcIdle,
                fd_status := MSR_RQM OR drive_busy\<rparr>
      in (FdcScheduleSeekInterrupt, snd (upd765a_poll_ready_lines s)))"

definition upd765a_recalibrate :: "fdc_platform \<Rightarrow> upd765a \<Rightarrow> fdc_action \<times> upd765a" where
  "upd765a_recalibrate p s =
     (let drive = unat (fd_params s ! 0 AND HD_US_DRIVE_MASK);
          pos = fd_drive_cylinder s ! drive;
          limit = (if p = FdcX68k then 0xFF else 77)
      in if pos > limit
         then upd765a_seek_done drive (pos - limit)
                (ST0_ABNORMAL_TERMINATION OR ST0_SEEK_END OR ST0_EQUIPMENT_CHECK OR of_nat drive) s
         else upd765a_seek_done drive 0 (ST0_SEEK_END OR of_nat drive) s)"

definition upd765a_seek :: "upd765a \<Rightarrow> fdc_action \<times> upd765a" where
  "upd765a_seek s =
     (let drive = unat (fd_params s ! 0 AND HD_US_DRIVE_MASK)
      in upd765a_seek_done drive (fd_params s ! 1) (ST0_SEEK_END OR of_nat drive) s)"

definition upd765a_sense_interrupt_status :: "upd765a \<Rightarrow> upd765a" where
  "upd765a_sense_interrupt_status s =
     (let s = s\<lparr>fd_sense_interrupt_result := True\<rparr> in
      case upd765a_pending_interrupt_drive s of
        Some drive \<Rightarrow>
          (let s = s\<lparr>fd_result := (fd_result s)[0 := fd_drive_st0 s ! drive, 1 := fd_drive_cylinder s ! drive],
                     fd_drive_st0 := (fd_drive_st0 s)[drive := 0],
                     fd_status := fd_status s AND NOT (drive_mask drive)\<rparr>
           in upd765a_enter_result 2 (s\<lparr>fd_interrupt_pending := upd765a_any_drive_status s\<rparr>))
      | None \<Rightarrow>
          upd765a_enter_result 1
            (s\<lparr>fd_interrupt_pending := False, fd_result := (fd_result s)[0 := ST0_INVALID_COMMAND]\<rparr>))"

definition upd765a_read_id :: "upd765a \<Rightarrow> upd765a" where
  "upd765a_read_id s =
     s\<lparr>fd_hd_us := fd_params s ! 0, fd_active_command := FdcReadId, fd_phase := FdcExecution,
       fd_status := MSR_CB\<rparr>"

definition upd765a_write_id :: "upd765a \<Rightarrow> upd765a" where
  "upd765a_write_id s =
     (let p = fd_params s in
      upd765a_start_execution FdcFormatTrack
        (s\<lparr>fd_hd_us := p ! 0, fd_n := p ! 1, fd_eot := p ! 2, fd_gpl := p ! 3, fd_dtl := p ! 4\<rparr>))"

definition upd765a_scan :: "fdc_platform \<Rightarrow> upd765a \<Rightarrow> fdc_action \<times> upd765a" where
  "upd765a_scan p s =
     (let s = upd765a_extract_data_params (s\<lparr>fd_hd_us := fd_params s ! 0\<rparr>) in
      if p = FdcStandard then (FdcNoAction, upd765a_complete_error ST0_NOT_READY 0x00 0x00 s)
      else (FdcStartScan, upd765a_start_execution FdcScan (s\<lparr>fd_scan_condition_held := True\<rparr>)))"

definition upd765a_invalid_command :: "upd765a \<Rightarrow> upd765a" where
  "upd765a_invalid_command s =
     upd765a_enter_result 1 (s\<lparr>fd_result := (fd_result s)[0 := ST0_INVALID_COMMAND]\<rparr>)"

definition upd765a_execute_command :: "fdc_platform \<Rightarrow> upd765a \<Rightarrow> fdc_action \<times> upd765a" where
  "upd765a_execute_command p s =
     (let command = fd_command s in
      if command = CMD_SPECIFY then upd765a_specify s
      else if command = CMD_SENSE_DRIVE_STATUS then (FdcNoAction, upd765a_sense_drive_status p s)
      else if command \<in> {CMD_READ_DATA, CMD_READ_DELETED_DATA, CMD_READ_DIAGNOSTIC} then
        (FdcStartReadData, upd765a_start_execution FdcReadData (upd765a_extract_data_params s))
      else if command = CMD_RECALIBRATE then upd765a_recalibrate p s
      else if command = CMD_SENSE_INTERRUPT_STATUS then
        (FdcNoAction, upd765a_sense_interrupt_status s)
      else if command = CMD_READ_ID then (FdcStartReadId, upd765a_read_id s)
      else if command = CMD_SEEK then upd765a_seek s
      else if command \<in> {CMD_WRITE_DATA, CMD_WRITE_DELETED_DATA} then
        (FdcStartWriteData, upd765a_start_execution FdcWriteData (upd765a_extract_data_params s))
      else if command = CMD_WRITE_ID then (FdcStartFormatTrack, upd765a_write_id s)
      else if command \<in> {CMD_SCAN_EQUAL, CMD_SCAN_LOW_OR_EQUAL, CMD_SCAN_HIGH_OR_EQUAL} then
        upd765a_scan p s
      else (FdcNoAction, upd765a_invalid_command s))"

section \<open>The data register\<close>

text \<open>The byte that an execution phase serves; past the end of the buffer it is FF.\<close>

definition upd765a_exec_byte :: "upd765a \<Rightarrow> u8 \<times> upd765a" where
  "upd765a_exec_byte s =
     ((case list_get (fd_exec_buf s) (fd_exec_index s) of Some b \<Rightarrow> b | None \<Rightarrow> 0xFF),
      if fd_exec_index s < fd_exec_len s then s\<lparr>fd_exec_index := fd_exec_index s + 1\<rparr> else s)"

definition upd765a_read_data_reporting ::
  "fdc_platform \<Rightarrow> upd765a \<Rightarrow> ((u8 \<times> bool) \<times> upd765a) option" where
  "upd765a_read_data_reporting p s =
     (if p = FdcIsaAt \<and> fd_reset_held s then Some ((0xFF, False), s)
      else if fd_phase s = FdcExecution \<and> fd_exec_dma s \<and> fd_exec_reading s then
        (let (value, s) = upd765a_exec_byte s in Some ((value, False), s))
      else if fd_phase s = FdcExecution \<and> fd_exec_pio s \<and> fd_exec_reading s then
        (if fd_status s AND MSR_RQM = 0 then Some ((0xFF, False), s)
         else
           let (value, s) = upd765a_exec_byte s
           in Some ((value, False), s\<lparr>fd_status := MSR_DIO OR MSR_EXM OR MSR_CB\<rparr>))
      else if fd_phase s \<noteq> FdcResultPhase then Some ((0xFF, False), s)
      else
        (case list_get (fd_result s) (unat (fd_result_index s)) of
           None \<Rightarrow> None
         | Some value \<Rightarrow>
             let s = s\<lparr>fd_result_index := fd_result_index s + 1\<rparr> in
             if fd_result_index s \<ge> fd_result_count s then
               let s = s\<lparr>fd_phase := FdcIdle, fd_status := MSR_RQM, fd_sense_interrupt_result := False\<rparr>;
                   s = s\<lparr>fd_interrupt_pending := upd765a_any_drive_status s\<rparr>;
                   (reported, s) = upd765a_poll_ready_lines s
               in Some ((value, reported), s)
             else Some ((value, False), s)))"

definition upd765a_read_data :: "fdc_platform \<Rightarrow> upd765a \<Rightarrow> (u8 \<times> upd765a) option" where
  "upd765a_read_data p s =
     map_option (\<lambda>((value, _), s). (value, s)) (upd765a_read_data_reporting p s)"

definition upd765a_begin_command :: "fdc_platform \<Rightarrow> u8 \<Rightarrow> upd765a \<Rightarrow> fdc_action \<times> upd765a" where
  "upd765a_begin_command p v s =
     (let s = s\<lparr>fd_interrupt_pending := False, fd_command_byte := v,
                fd_command := v AND CMD_INDEX_MASK, fd_params_received := 0,
                fd_params_expected := CMD_PARAMS ! unat (v AND CMD_INDEX_MASK),
                fd_mt := (v AND CMD_FLAG_MT \<noteq> 0), fd_mf := (v AND CMD_FLAG_MF \<noteq> 0),
                fd_sk := (v AND CMD_FLAG_SK \<noteq> 0)\<rparr>
      in if fd_params_expected s = 0 then upd765a_execute_command p s
         else (FdcNoAction, s\<lparr>fd_phase := FdcCommandPhase, fd_status := MSR_RQM OR MSR_CB\<rparr>))"

definition upd765a_command_param ::
  "fdc_platform \<Rightarrow> u8 \<Rightarrow> upd765a \<Rightarrow> (fdc_action \<times> upd765a) option" where
  "upd765a_command_param p v s =
     (let index = unat (fd_params_received s) in
      if index < length (fd_params s) then
        let s = s\<lparr>fd_params := (fd_params s)[index := v],
                  fd_params_received := fd_params_received s + 1\<rparr>
        in Some (if fd_params_received s \<ge> fd_params_expected s then upd765a_execute_command p s
                 else (FdcNoAction, s))
      else None)"

definition upd765a_exec_write :: "u8 \<Rightarrow> upd765a \<Rightarrow> upd765a option" where
  "upd765a_exec_write v s =
     (if (fd_exec_pio s \<or> fd_exec_dma s) \<and> \<not> fd_exec_reading s then
        map_option
          (\<lambda>s. if fd_exec_pio s then s\<lparr>fd_status := MSR_EXM OR MSR_CB\<rparr> else s)
          (if fd_exec_index s < fd_exec_len s then
             (if fd_exec_index s < length (fd_exec_buf s) then
                Some (let s' = (if fd_active_command s = FdcScan then
                                  (if \<not> upd765a_scan_byte_holds (fd_command s)
                                          (fd_exec_buf s ! fd_exec_index s) v
                                   then s\<lparr>fd_scan_condition_held := False\<rparr> else s)
                                else s\<lparr>fd_exec_buf := (fd_exec_buf s)[fd_exec_index s := v]\<rparr>)
                      in s'\<lparr>fd_exec_index := fd_exec_index s' + 1\<rparr>)
              else None)
           else Some s)
      else Some s)"

definition upd765a_write_data ::
  "fdc_platform \<Rightarrow> u8 \<Rightarrow> upd765a \<Rightarrow> (fdc_action \<times> upd765a) option" where
  "upd765a_write_data p v s =
     (if p = FdcIsaAt \<and> fd_reset_held s \<or> p = FdcX68k \<and> fd_standby s then Some (FdcNoAction, s)
      else
        map_option
          (\<lambda>(action, s).
             (action,
              if p = FdcIsaAt \<and> action \<noteq> FdcNoAction \<and> fd_nd s \<and> \<not> fd_warned_non_dma s
              then s\<lparr>fd_warned_non_dma := True\<rparr> else s))
          (case fd_phase s of
             FdcIdle \<Rightarrow> Some (upd765a_begin_command p v s)
           | FdcCommandPhase \<Rightarrow> upd765a_command_param p v s
           | FdcExecution \<Rightarrow> map_option (Pair FdcNoAction) (upd765a_exec_write v s)
           | FdcResultPhase \<Rightarrow> Some (FdcNoAction, s)))"

end
