(* ===== verification/Upd765a_Invariant.thy ===== *)
theory Upd765a_Invariant
  imports Upd765a
begin

text \<open>
  The invariant of the floppy controller: its arrays have their length, \<open>validate_runtime_state\<close>
  accepts it, and while a command or a result is under way there is room for its next byte.
  Every operation keeps it, and under it the data register never panics.
\<close>

section \<open>The invariant\<close>

definition upd765a_arrays :: "upd765a \<Rightarrow> bool" where
  "upd765a_arrays s \<longleftrightarrow> length (fd_params s) = 9 \<and> length (fd_result s) = 7
     \<and> length (fd_drive_st0 s) = 4 \<and> length (fd_drive_st0_waiting s) = 4
     \<and> length (fd_drive_cylinder s) = 4"

definition upd765a_ok :: "upd765a \<Rightarrow> bool" where
  "upd765a_ok s \<longleftrightarrow> upd765a_arrays s \<and> upd765a_validate_runtime_state s
     \<and> (fd_phase s = FdcCommandPhase \<longrightarrow> fd_params_received s < fd_params_expected s)
     \<and> (fd_phase s = FdcResultPhase \<longrightarrow> fd_result_index s < fd_result_count s)"

lemma upd765a_ok_iff:
  "upd765a_ok s \<longleftrightarrow> length (fd_params s) = 9 \<and> length (fd_result s) = 7
     \<and> length (fd_drive_st0 s) = 4 \<and> length (fd_drive_st0_waiting s) = 4
     \<and> length (fd_drive_cylinder s) = 4
     \<and> fd_params_received s \<le> fd_params_expected s \<and> fd_params_expected s \<le> 9
     \<and> fd_result_index s \<le> fd_result_count s \<and> fd_result_count s \<le> 7
     \<and> fd_exec_index s \<le> fd_exec_len s \<and> fd_exec_len s \<le> length (fd_exec_buf s)
     \<and> (fd_phase s = FdcCommandPhase \<longrightarrow> fd_params_received s < fd_params_expected s)
     \<and> (fd_phase s = FdcResultPhase \<longrightarrow> fd_result_index s < fd_result_count s)"
  by (auto simp: upd765a_ok_def upd765a_arrays_def upd765a_validate_runtime_state_def not_less)

text \<open>Fields that the invariant does not read.\<close>

lemma upd765a_ok_flags [simp]:
  "upd765a_ok (fd_tc_update f s) \<longleftrightarrow> upd765a_ok s"
  "upd765a_ok (fd_interrupt_pending_update f s) \<longleftrightarrow> upd765a_ok s"
  "upd765a_ok (fd_control_update g s) \<longleftrightarrow> upd765a_ok s"
  "upd765a_ok (fd_drive_has_disk_update g s) \<longleftrightarrow> upd765a_ok s"
  "upd765a_ok (fd_crcn_update g s) \<longleftrightarrow> upd765a_ok s"
  "upd765a_ok (fd_warned_non_dma_update f s) \<longleftrightarrow> upd765a_ok s"
  by (simp_all add: upd765a_ok_iff)

named_theorems fdc_keeps \<open>operations that keep the invariant of the floppy controller\<close>

lemma upd765a_new_ok [simp]: "upd765a_ok (upd765a_new p)"
  by (simp add: upd765a_ok_iff upd765a_new_def)

section \<open>Ready lines and statuses\<close>

lemma take_interrupt_pending_ok [fdc_keeps]:
  "upd765a_ok s \<Longrightarrow> upd765a_ok (snd (upd765a_take_interrupt_pending s))"
  by (simp add: upd765a_ok_iff upd765a_take_interrupt_pending_def)

lemma set_ready_line_ok [fdc_keeps]: "upd765a_ok s \<Longrightarrow> upd765a_ok (upd765a_set_ready_line d r s)"
  by (simp add: upd765a_ok_iff upd765a_set_ready_line_def Let_def)

lemma fold_keeps: "(\<And>x a. P a \<Longrightarrow> P (f x a)) \<Longrightarrow> P a \<Longrightarrow> P (fold f xs a)"
  by (induction xs arbitrary: a) simp_all

lemma poll_drive_ok: "upd765a_ok (snd rs) \<Longrightarrow> upd765a_ok (snd (upd765a_poll_drive d rs))"
  by (cases rs) (simp add: upd765a_poll_drive_def upd765a_ok_iff Let_def)

lemma poll_ready_lines_ok [fdc_keeps]: "upd765a_ok s \<Longrightarrow> upd765a_ok (snd (upd765a_poll_ready_lines s))"
  unfolding upd765a_poll_ready_lines_def
  by (auto intro: fold_keeps [where P = "\<lambda>rs. upd765a_ok (snd rs)"] poll_drive_ok)

lemma poll_drive_phase: "fd_phase (snd (upd765a_poll_drive d rs)) = fd_phase (snd rs)"
  by (cases rs) (simp add: upd765a_poll_drive_def Let_def)

lemma poll_ready_lines_phase [simp]: "fd_phase (snd (upd765a_poll_ready_lines s)) = fd_phase s"
proof -
  have "fd_phase (snd (fold upd765a_poll_drive ds rs)) = fd_phase (snd rs)" for ds rs
    by (induction ds arbitrary: rs) (simp_all add: poll_drive_phase)
  then show ?thesis by (simp add: upd765a_poll_ready_lines_def)
qed

lemma signal_ready_line_change_ok [fdc_keeps]:
  "upd765a_ok s \<Longrightarrow> upd765a_ok (snd (upd765a_signal_ready_line_change d r s))"
  by (simp add: upd765a_signal_ready_line_change_def fdc_keeps)

lemma latch_ready_line_ok [fdc_keeps]: "upd765a_ok s \<Longrightarrow> upd765a_ok (upd765a_latch_ready_line d r s)"
  by (simp add: upd765a_latch_ready_line_def upd765a_set_ready_line_def upd765a_ok_iff Let_def)

lemma defer_drive_status_ok:
  "upd765a_ok s \<Longrightarrow> d < 4 \<Longrightarrow> \<exists>s'. upd765a_defer_drive_status d s = Some s' \<and> upd765a_ok s'"
  by (simp add: upd765a_ok_iff upd765a_defer_drive_status_def)

lemma release_drive_ok: "upd765a_ok s \<Longrightarrow> upd765a_ok (upd765a_release_drive d s)"
  by (simp add: upd765a_release_drive_def upd765a_ok_iff Let_def)

lemma release_waiting_ok [fdc_keeps]:
  "upd765a_ok s \<Longrightarrow> upd765a_ok (upd765a_release_waiting_drive_statuses s)"
proof -
  assume "upd765a_ok s"
  then have "upd765a_ok (fold upd765a_release_drive ds s)" for ds
    by (rule fold_keeps [rotated]) (rule release_drive_ok)
  then show ?thesis
    by (simp add: upd765a_release_waiting_drive_statuses_def Let_def upd765a_ok_iff)
qed

section \<open>Results, control and execution\<close>

lemma enter_result_ok:
  "upd765a_ok s \<Longrightarrow> 0 < count \<Longrightarrow> count \<le> 7 \<Longrightarrow> upd765a_ok (upd765a_enter_result count s)"
  by (simp add: upd765a_ok_iff upd765a_enter_result_def)

lemma data_result_ok [fdc_keeps]: "upd765a_ok s \<Longrightarrow> upd765a_ok (upd765a_data_result a b c s)"
  by (simp add: upd765a_data_result_def upd765a_enter_result_def upd765a_ok_iff)

lemma complete_ok [fdc_keeps]:
  assumes "upd765a_ok s"
  shows "upd765a_ok (upd765a_complete_success_with_status a b s)"
    and "upd765a_ok (upd765a_complete_success s)" and "upd765a_ok (upd765a_complete_error x a b s)"
  using assms
  by (simp_all add: upd765a_complete_success_with_status_def upd765a_complete_success_def
      upd765a_complete_error_def fdc_keeps)

lemma advance_sector_ok [fdc_keeps]: "upd765a_ok s \<Longrightarrow> upd765a_ok (snd (upd765a_advance_sector p s))"
  by (auto simp: upd765a_advance_sector_def upd765a_ok_iff Let_def)

lemma reset_ok [fdc_keeps]: "upd765a_ok s \<Longrightarrow> upd765a_ok (upd765a_reset s)"
  by (simp add: upd765a_reset_def upd765a_ok_iff)

lemma write_control_ok [fdc_keeps]: "upd765a_ok s \<Longrightarrow> upd765a_ok (upd765a_write_control v s)"
  by (simp add: upd765a_write_control_def upd765a_reset_def upd765a_ok_iff Let_def)

lemma provide_ok [fdc_keeps]:
  "upd765a_ok s \<Longrightarrow> upd765a_ok (upd765a_provide_read_id c h r n s)"
  "upd765a_ok s \<Longrightarrow> upd765a_ok (upd765a_signal_terminal_count s)"
  by (simp_all add: upd765a_provide_read_id_def upd765a_signal_terminal_count_def upd765a_ok_iff)

lemma begin_ok [fdc_keeps]:
  assumes "upd765a_ok s"
  shows "upd765a_ok (upd765a_begin_pio_read sector s)" "upd765a_ok (upd765a_begin_pio_write len s)"
    "upd765a_ok (upd765a_begin_execution_read sector s)"
    "upd765a_ok (upd765a_begin_execution_write len s)" "upd765a_ok (upd765a_begin_scan_sector sector s)"
  using assms
  by (simp_all add: upd765a_begin_pio_read_def upd765a_begin_pio_write_def
      upd765a_begin_execution_read_def upd765a_begin_execution_write_def
      upd765a_begin_scan_sector_def upd765a_ok_iff)

lemma release_byte_ok [fdc_keeps]: "upd765a_ok s \<Longrightarrow> upd765a_ok (upd765a_pio_release_byte s)"
  by (simp add: upd765a_pio_release_byte_def upd765a_ok_iff)

lemma write_buf_returns:
  "upd765a_ok s \<Longrightarrow> upd765a_take_pio_write_buf s = Some (take (fd_exec_len s) (fd_exec_buf s))"
  "upd765a_ok s \<Longrightarrow> upd765a_execution_write_buf s = Some (take (fd_exec_len s) (fd_exec_buf s))"
  by (simp_all add: upd765a_take_pio_write_buf_def upd765a_execution_write_buf_def upd765a_ok_iff)

section \<open>Commands\<close>

text \<open>
  The condition under which a command may run: as the invariant, but its last parameter may
  have arrived while the phase is still that of the command.
\<close>

definition upd765a_ready :: "upd765a \<Rightarrow> bool" where
  "upd765a_ready s \<longleftrightarrow> upd765a_ok (s\<lparr>fd_phase := FdcIdle\<rparr>)"

lemma upd765a_ready_iff:
  "upd765a_ready s \<longleftrightarrow> length (fd_params s) = 9 \<and> length (fd_result s) = 7
     \<and> length (fd_drive_st0 s) = 4 \<and> length (fd_drive_st0_waiting s) = 4
     \<and> length (fd_drive_cylinder s) = 4
     \<and> fd_params_received s \<le> fd_params_expected s \<and> fd_params_expected s \<le> 9
     \<and> fd_result_index s \<le> fd_result_count s \<and> fd_result_count s \<le> 7
     \<and> fd_exec_index s \<le> fd_exec_len s \<and> fd_exec_len s \<le> length (fd_exec_buf s)"
  by (simp add: upd765a_ready_def upd765a_ok_iff)

lemma specify_ok: "upd765a_ready s \<Longrightarrow> upd765a_ok (snd (upd765a_specify s))"
  unfolding upd765a_specify_def Let_def case_prod_beta snd_conv
  by (rule poll_ready_lines_ok) (simp add: upd765a_ready_iff upd765a_ok_iff)

lemma seek_done_ok: "upd765a_ready s \<Longrightarrow> upd765a_ok (snd (upd765a_seek_done d c st0 s))"
  unfolding upd765a_seek_done_def Let_def snd_conv
  by (rule poll_ready_lines_ok) (simp add: upd765a_ready_iff upd765a_ok_iff)

lemma sense_interrupt_ok: "upd765a_ready s \<Longrightarrow> upd765a_ok (upd765a_sense_interrupt_status s)"
  by (simp add: upd765a_sense_interrupt_status_def upd765a_enter_result_def upd765a_ready_iff
      upd765a_ok_iff Let_def split: option.split)

lemma execute_command_ok:
  assumes "upd765a_ready s"
  shows "upd765a_ok (snd (upd765a_execute_command p s))"
proof -
  have exec: "upd765a_ok (upd765a_start_execution c (upd765a_extract_data_params s))"
      "upd765a_ok (upd765a_read_id s)" "upd765a_ok (upd765a_write_id s)" for c
    using assms
    by (simp_all add: upd765a_start_execution_def upd765a_extract_data_params_def upd765a_read_id_def
        upd765a_write_id_def upd765a_ready_iff upd765a_ok_iff Let_def)
  have results: "upd765a_ok (upd765a_sense_drive_status p s)" "upd765a_ok (upd765a_invalid_command s)"
    using assms
    by (simp_all add: upd765a_sense_drive_status_def upd765a_invalid_command_def upd765a_enter_result_def
        upd765a_ready_iff upd765a_ok_iff)
  have scan: "upd765a_ok (snd (upd765a_scan p s))"
    using assms
    by (simp add: upd765a_scan_def upd765a_extract_data_params_def upd765a_complete_error_def
        upd765a_data_result_def upd765a_enter_result_def upd765a_start_execution_def
        upd765a_ready_iff upd765a_ok_iff Let_def)
  have "upd765a_ok (snd (upd765a_recalibrate p s))" "upd765a_ok (snd (upd765a_seek s))"
    using assms by (simp_all add: upd765a_recalibrate_def upd765a_seek_def Let_def seek_done_ok)
  then show ?thesis
    using exec results scan specify_ok [OF assms] sense_interrupt_ok [OF assms]
    by (simp add: upd765a_execute_command_def Let_def)
qed

section \<open>The data register\<close>

lemma CMD_PARAMS_bound: "CMD_PARAMS ! unat (v AND CMD_INDEX_MASK) \<le> 8"
proof -
  have "unat (v AND CMD_INDEX_MASK) < length CMD_PARAMS"
    using word_and_le1 [of v CMD_INDEX_MASK]
    by (simp add: CMD_PARAMS_def CMD_INDEX_MASK_def word_le_nat_alt)
  then have "CMD_PARAMS ! unat (v AND CMD_INDEX_MASK) \<in> set CMD_PARAMS" by (rule nth_mem)
  then show ?thesis by (auto simp: CMD_PARAMS_def)
qed

lemma begin_command_ok [fdc_keeps]:
  assumes "upd765a_ok s"
  shows "upd765a_ok (snd (upd765a_begin_command p v s))"
proof -
  let ?n = "CMD_PARAMS ! unat (v AND CMD_INDEX_MASK)"
  have n: "?n \<le> 9" using CMD_PARAMS_bound [of v] by (rule order_trans) simp
  show ?thesis
  proof (cases "?n = 0")
    case True
    have "upd765a_ready (s\<lparr>fd_interrupt_pending := False, fd_command_byte := v,
        fd_command := v AND CMD_INDEX_MASK, fd_params_received := 0, fd_params_expected := 0,
        fd_mt := (v AND CMD_FLAG_MT \<noteq> 0), fd_mf := (v AND CMD_FLAG_MF \<noteq> 0),
        fd_sk := (v AND CMD_FLAG_SK \<noteq> 0)\<rparr>)"
      using assms by (simp add: upd765a_ready_iff upd765a_ok_iff)
    from execute_command_ok [OF this, of p] True show ?thesis
      by (simp add: upd765a_begin_command_def Let_def)
  next
    case False
    then have "0 < ?n" by (simp add: word_neq_0_conv)
    then show ?thesis
      using assms n False unfolding upd765a_begin_command_def Let_def
      by (simp add: upd765a_ok_iff)
  qed
qed

lemma u8_inc_le: "a < b \<Longrightarrow> a + 1 \<le> (b :: u8)"
  by (simp add: inc_le)

lemma u8_inc_less: "a < b \<Longrightarrow> \<not> b \<le> a + 1 \<Longrightarrow> a + 1 < (b :: u8)"
  by simp

lemma command_param_ok:
  assumes "upd765a_ok s" "fd_phase s = FdcCommandPhase"
  shows "\<exists>r. upd765a_command_param p v s = Some r \<and> upd765a_ok (snd r)"
proof -
  have lt: "fd_params_received s < fd_params_expected s" using assms by (simp add: upd765a_ok_iff)
  have "unat (fd_params_received s) < 9"
    using lt assms(1) by (auto simp: upd765a_ok_iff word_less_nat_alt word_le_nat_alt)
  let ?s = "s\<lparr>fd_params := (fd_params s)[unat (fd_params_received s) := v],
    fd_params_received := fd_params_received s + 1\<rparr>"
  have "upd765a_ready ?s" using assms u8_inc_le [OF lt] by (simp add: upd765a_ready_iff upd765a_ok_iff)
  from execute_command_ok [OF this, of p]
  have run: "upd765a_ok (snd (upd765a_execute_command p ?s))" .
  have more: "upd765a_ok ?s" if "\<not> fd_params_expected s \<le> fd_params_received s + 1"
    using assms u8_inc_le [OF lt] that by (simp add: upd765a_ok_iff)
  have "unat (fd_params_received s) < length (fd_params s)"
    using \<open>unat (fd_params_received s) < 9\<close> assms(1) by (simp add: upd765a_ok_iff)
  then show ?thesis using run more by (simp add: upd765a_command_param_def Let_def)
qed

lemma exec_write_ok:
  assumes "upd765a_ok s"
  shows "\<exists>r. upd765a_exec_write v s = Some r \<and> (fd_phase s = FdcExecution \<longrightarrow> upd765a_ok r)"
  using assms by (auto simp: upd765a_exec_write_def Let_def upd765a_ok_iff)

lemma write_data_ok:
  assumes "upd765a_ok s"
  shows "\<exists>action s'. upd765a_write_data p v s = Some (action, s') \<and> upd765a_ok s'"
proof -
  have "\<exists>r. (case fd_phase s of
      FdcIdle \<Rightarrow> Some (upd765a_begin_command p v s)
    | FdcCommandPhase \<Rightarrow> upd765a_command_param p v s
    | FdcExecution \<Rightarrow> map_option (Pair FdcNoAction) (upd765a_exec_write v s)
    | FdcResultPhase \<Rightarrow> Some (FdcNoAction, s)) = Some r \<and> upd765a_ok (snd r)"
    using assms begin_command_ok [OF assms, of p v] command_param_ok [OF assms, of p v]
      exec_write_ok [OF assms, of v]
    by (cases "fd_phase s") auto
  then obtain action s' where "(case fd_phase s of
      FdcIdle \<Rightarrow> Some (upd765a_begin_command p v s)
    | FdcCommandPhase \<Rightarrow> upd765a_command_param p v s
    | FdcExecution \<Rightarrow> map_option (Pair FdcNoAction) (upd765a_exec_write v s)
    | FdcResultPhase \<Rightarrow> Some (FdcNoAction, s)) = Some (action, s')" "upd765a_ok s'"
    by force
  then show ?thesis using assms by (simp add: upd765a_write_data_def)
qed

lemma read_data_reporting_ok:
  assumes "upd765a_ok s"
  shows "\<exists>v reported s'. upd765a_read_data_reporting p s = Some ((v, reported), s') \<and> upd765a_ok s'"
proof (cases "fd_phase s = FdcResultPhase \<and> \<not> (p = FdcIsaAt \<and> fd_reset_held s)")
  case False
  then show ?thesis
    using assms
    by (auto simp: upd765a_read_data_reporting_def upd765a_exec_byte_def Let_def upd765a_ok_iff)
next
  case True
  have lt: "fd_result_index s < fd_result_count s" using True assms by (simp add: upd765a_ok_iff)
  then have "unat (fd_result_index s) < 7"
    using assms by (auto simp: upd765a_ok_iff word_less_nat_alt word_le_nat_alt)
  then obtain v where v: "list_get (fd_result s) (unat (fd_result_index s)) = Some v"
    using assms by (simp add: list_get_def upd765a_ok_iff)
  have idle: "upd765a_ok (s\<lparr>fd_result_index := fd_result_index s + 1, fd_phase := FdcIdle,
      fd_status := st, fd_sense_interrupt_result := b, fd_interrupt_pending := b'\<rparr>)" for st b b'
    using assms u8_inc_le [OF lt] by (simp add: upd765a_ok_iff)
  have more: "upd765a_ok (s\<lparr>fd_result_index := fd_result_index s + 1\<rparr>)"
    if "\<not> fd_result_count s \<le> fd_result_index s + 1"
    using assms u8_inc_le [OF lt] u8_inc_less [OF lt that] by (simp add: upd765a_ok_iff)
  show ?thesis
    using True v more poll_ready_lines_ok [OF idle]
    by (auto simp: upd765a_read_data_reporting_def Let_def case_prod_beta)
qed

lemma read_data_ok:
  assumes "upd765a_ok s"
  shows "\<exists>v s'. upd765a_read_data p s = Some (v, s') \<and> upd765a_ok s'"
  using read_data_reporting_ok [OF assms, of p] by (auto simp: upd765a_read_data_def)

end
