(* ===== verification/Pc88_Fdc.thy ===== *)
theory Pc88_Fdc
  imports Upd765a_Invariant D88_Lookup Pc88_Scheduler
begin

text \<open>
  The floppy side of the PC-8801's disk unit: the drives of \<open>FloppyController\<close>
  (\<open>device/src/upd765a_fdc.rs\<close>) as the unit uses them, and \<open>machine_88/src/bus/sub_fdc.rs\<close>,
  which moves the bytes of a transfer between the controller and the disks by programmed I/O,
  paced by scheduled events.

  A mounted disk is an image in the D88 format, for which \<open>lossless_reemit_error\<close> has no reason to
  refuse, which has no NFD metadata, and which \<open>load_floppy_image\<close> parses as D88; the other formats are
  not modelled. It may be bound to a host file, whose writes may fail. Errors are reported without
  their messages, so \<open>last_flush_error\<close>, which only keeps an eject from logging one twice, the
  identity and the path of the source are left out.
  A drive number is at most 3 here, the low two bits of a parameter, and there are four drives.
  Tracing is compiled out. A panic is the value \<open>None\<close>. Operations that read the main clock of
  the bus take it as the argument \<open>now\<close>, those that read the drive mode latch as \<open>drive_mode\<close>.
\<close>

section \<open>A disk and its host file\<close>

text \<open>
  \<open>DiskBackend\<close>: an open file of the host, with the calls that the code makes of it. Each reports
  whether it succeeded and leaves a file of which more calls can be made. What the host does is not
  fixed: any such behaviour is a \<open>disk_file\<close>.
\<close>

codatatype disk_file = Disk_File
  (file_write_at: "nat \<Rightarrow> u8 list \<Rightarrow> bool \<times> disk_file")
  (file_replace_atomic: "u8 list \<Rightarrow> bool \<times> disk_file")
  (file_flush: "bool \<times> disk_file")

text \<open>\<open>MediaBacking\<close>; the argument is what opening the path gives, if it can be opened.\<close>

datatype media_backing = BackingReadOnly | BackingRam | BackingWriteThrough "disk_file option"

record mounted_floppy =
  mf_image :: d88_disk
  mf_backend :: "disk_file option"
  mf_unwritable :: bool
  mf_dirty :: bool
  mf_read_only :: bool

definition mounted_floppy_new :: "d88_disk \<Rightarrow> disk_file option option \<Rightarrow> mounted_floppy" where
  "mounted_floppy_new img path =
     \<lparr> mf_image = img, mf_backend = Option.bind path id,
       mf_unwritable = (case path of Some None \<Rightarrow> True | _ \<Rightarrow> False),
       mf_dirty = False, mf_read_only = False \<rparr>"

definition mounted_floppy_new_read_only :: "d88_disk \<Rightarrow> mounted_floppy" where
  "mounted_floppy_new_read_only img = (mounted_floppy_new img None)\<lparr>mf_read_only := True\<rparr>"

definition mounted_from_backing :: "d88_disk \<Rightarrow> media_backing \<Rightarrow> mounted_floppy" where
  "mounted_from_backing img backing =
     (case backing of
        BackingRam \<Rightarrow> mounted_floppy_new img None
      | BackingWriteThrough opened \<Rightarrow> mounted_floppy_new img (Some opened)
      | BackingReadOnly \<Rightarrow> mounted_floppy_new_read_only img)"

definition mounted_floppy_write_sector_data ::
  "nat \<Rightarrow> u8 \<Rightarrow> u8 \<Rightarrow> u8 \<Rightarrow> u8 \<Rightarrow> u8 list \<Rightarrow> mounted_floppy \<Rightarrow> bool \<times> mounted_floppy" where
  "mounted_floppy_write_sector_data i c h r n payload m =
     (if mf_read_only m then (True, m)
      else case d88_write_sector_payload i c h r n payload (mf_image m) of
        None \<Rightarrow> (False, m)
      | Some ((source_offset, sector_size), img) \<Rightarrow>
          let m = m\<lparr>mf_image := img\<rparr>; copy_len = min (length payload) sector_size in
          (True,
           case (mf_backend m, source_offset) of
             (Some file, Some offset) \<Rightarrow>
               (case file_write_at file (unat offset) (take copy_len payload) of
                  (True, file) \<Rightarrow> m\<lparr>mf_backend := Some file\<rparr>
                | (False, file) \<Rightarrow> m\<lparr>mf_backend := Some file, mf_dirty := True\<rparr>)
           | _ \<Rightarrow> m\<lparr>mf_dirty := True\<rparr>))"

text \<open>
  The common end of \<open>format_track\<close> and \<open>flush_if_dirty\<close>: the whole image replaces the file and is
  read back. Serializing it may panic.
\<close>

definition mounted_floppy_reemit :: "disk_file \<Rightarrow> mounted_floppy \<Rightarrow> (bool \<times> mounted_floppy) option" where
  "mounted_floppy_reemit file m =
     map_option
       (\<lambda>bytes. case file_replace_atomic file bytes of
            (False, file) \<Rightarrow> (False, m\<lparr>mf_backend := Some file\<rparr>)
          | (True, file) \<Rightarrow>
              (case d88_from_bytes bytes of
                 Inr reparsed \<Rightarrow> (True, m\<lparr>mf_backend := Some file, mf_image := reparsed, mf_dirty := False\<rparr>)
               | Inl _ \<Rightarrow> (False, m\<lparr>mf_backend := Some file\<rparr>)))
       (d88_to_bytes (mf_image m))"

definition mounted_floppy_format_track ::
  "nat \<Rightarrow> (u8 \<times> u8 \<times> u8 \<times> u8) list \<Rightarrow> u8 \<Rightarrow> u8 \<Rightarrow> mounted_floppy \<Rightarrow> mounted_floppy option" where
  "mounted_floppy_format_track i chrn data_n fill_byte m =
     (if mf_read_only m then Some m
      else
        let m = m\<lparr>mf_image := d88_format_track i chrn data_n fill_byte (mf_image m), mf_dirty := True\<rparr> in
        case mf_backend m of
          None \<Rightarrow> Some m
        | Some file \<Rightarrow> map_option snd (mounted_floppy_reemit file m))"

definition mounted_floppy_flush_if_dirty :: "mounted_floppy \<Rightarrow> (bool \<times> mounted_floppy) option" where
  "mounted_floppy_flush_if_dirty m =
     (if \<not> mf_dirty m then Some (True, m)
      else case mf_backend m of
        None \<Rightarrow> Some (\<not> mf_unwritable m, m)
      | Some file \<Rightarrow> mounted_floppy_reemit file m)"

definition mounted_floppy_flush :: "mounted_floppy \<Rightarrow> (bool \<times> mounted_floppy) option" where
  "mounted_floppy_flush m =
     map_option
       (\<lambda>(dirty_ok, m). case mf_backend m of
            None \<Rightarrow> (dirty_ok, m)
          | Some file \<Rightarrow>
              (case file_flush file of
                 (True, file) \<Rightarrow> (dirty_ok, m\<lparr>mf_backend := Some file\<rparr>)
               | (False, file) \<Rightarrow> (False, m\<lparr>mf_backend := Some file, mf_dirty := True\<rparr>)))
       (mounted_floppy_flush_if_dirty m)"

definition mounted_floppy_eject :: "mounted_floppy \<Rightarrow> unit option" where
  "mounted_floppy_eject m = map_option (\<lambda>_. ()) (mounted_floppy_flush m)"

section \<open>Drives\<close>

type_synonym drives = "mounted_floppy option list"

definition floppy_has_drive :: "nat \<Rightarrow> drives \<Rightarrow> bool" where
  "floppy_has_drive drive ds \<longleftrightarrow> ds ! drive \<noteq> None"

definition floppy_is_write_protected :: "nat \<Rightarrow> drives \<Rightarrow> bool" where
  "floppy_is_write_protected drive ds \<longleftrightarrow>
     (case ds ! drive of None \<Rightarrow> False | Some m \<Rightarrow> d88_write_protected (mf_image m))"

definition floppy_read_sector_data ::
  "nat \<Rightarrow> nat \<Rightarrow> u8 \<Rightarrow> u8 \<Rightarrow> u8 \<Rightarrow> u8 \<Rightarrow> drives \<Rightarrow> u8 list option" where
  "floppy_read_sector_data drive i c h r n ds =
     map_option sec_data
       (Option.bind (ds ! drive) (\<lambda>m. d88_find_sector_near_track_index (mf_image m) i c h r n))"

definition floppy_write_sector_data ::
  "nat \<Rightarrow> nat \<Rightarrow> u8 \<Rightarrow> u8 \<Rightarrow> u8 \<Rightarrow> u8 \<Rightarrow> u8 list \<Rightarrow> drives \<Rightarrow> bool \<times> drives" where
  "floppy_write_sector_data drive i c h r n payload ds =
     (case ds ! drive of
        None \<Rightarrow> (False, ds)
      | Some m \<Rightarrow>
          let (found, m) = mounted_floppy_write_sector_data i c h r n payload m
          in (found, ds[drive := Some m]))"

definition floppy_format_track ::
  "nat \<Rightarrow> nat \<Rightarrow> (u8 \<times> u8 \<times> u8 \<times> u8) list \<Rightarrow> u8 \<Rightarrow> u8 \<Rightarrow> drives \<Rightarrow> drives option" where
  "floppy_format_track drive i chrn data_n fill_byte ds =
     (case ds ! drive of
        None \<Rightarrow> Some ds
      | Some m \<Rightarrow>
          map_option (\<lambda>m. ds[drive := Some m]) (mounted_floppy_format_track i chrn data_n fill_byte m))"

text \<open>
  Taking a disk out flushes it. Mounting takes out what was in the drive; the controller's own
  two \<open>Upd765aFdc\<close>, whose drive masks these operations also set, are not those of this unit.
\<close>

definition floppy_eject_drive :: "nat \<Rightarrow> drives \<Rightarrow> drives option" where
  "floppy_eject_drive drive ds =
     (if drive < length ds then
        map_option (\<lambda>_. ds[drive := None])
          (case ds ! drive of None \<Rightarrow> Some () | Some m \<Rightarrow> mounted_floppy_eject m)
      else None)"

definition floppy_insert_drive_backed ::
  "nat \<Rightarrow> d88_disk \<Rightarrow> media_backing \<Rightarrow> drives \<Rightarrow> drives option" where
  "floppy_insert_drive_backed drive img backing ds =
     map_option (\<lambda>ds. ds[drive := Some (mounted_from_backing img backing)]) (floppy_eject_drive drive ds)"

definition floppy_flush_drive :: "nat \<Rightarrow> drives \<Rightarrow> (bool \<times> drives) option" where
  "floppy_flush_drive drive ds =
     (case ds ! drive of
        None \<Rightarrow> Some (True, ds)
      | Some m \<Rightarrow> map_option (\<lambda>(ok, m). (ok, ds[drive := Some m])) (mounted_floppy_flush m))"

fun floppy_flush_drives :: "nat list \<Rightarrow> drives \<Rightarrow> (bool \<times> drives) option" where
  "floppy_flush_drives [] ds = Some (True, ds)"
| "floppy_flush_drives (drive # rest) ds =
     do { (ok, ds) \<leftarrow> floppy_flush_drive drive ds;
          (all_ok, ds) \<leftarrow> floppy_flush_drives rest ds;
          Some (ok \<and> all_ok, ds) }"

definition floppy_flush_all_drives :: "drives \<Rightarrow> (bool \<times> drives) option" where
  "floppy_flush_all_drives = floppy_flush_drives [0, 1, 2, 3]"

definition floppy_read_id_at_index :: "nat \<Rightarrow> nat \<Rightarrow> nat \<Rightarrow> drives \<Rightarrow> (u8 \<times> u8 \<times> u8 \<times> u8) option" where
  "floppy_read_id_at_index drive i k ds =
     map_option (\<lambda>s. (sec_cylinder s, sec_head s, sec_record s, sec_size_code s))
       (Option.bind (ds ! drive) (\<lambda>m. d88_sector_at_index (mf_image m) i k))"

definition floppy_sector_count :: "nat \<Rightarrow> nat \<Rightarrow> drives \<Rightarrow> nat" where
  "floppy_sector_count drive i ds =
     (case ds ! drive of None \<Rightarrow> 0 | Some m \<Rightarrow> d88_sector_count (mf_image m) i)"

section \<open>State\<close>

record pc88_fdc =
  pf_fdc :: upd765a
  pf_drives :: drives
  pf_scheduler :: pc8801_scheduler
  pf_next_event_cycle :: u64
  pf_tc_active :: bool
  pf_drq_byte_cycles :: u64
  pf_main_clock_hz :: u32

definition SEEK_INTERRUPT_DELAY_CYCLES :: u64 where "SEEK_INTERRUPT_DELAY_CYCLES = 2000"
definition FDC_FORCED_READY :: u8 where "FDC_FORCED_READY = 0x40"

definition pf_update :: "(upd765a \<Rightarrow> upd765a) \<Rightarrow> pc88_fdc \<Rightarrow> pc88_fdc" where
  "pf_update f s = s\<lparr>pf_fdc := f (pf_fdc s)\<rparr>"

definition pc88_update_next_event_cycle :: "pc88_fdc \<Rightarrow> pc88_fdc" where
  "pc88_update_next_event_cycle s =
     s\<lparr>pf_next_event_cycle :=
         (case pc8801_scheduler_next_event_cycle (pf_scheduler s) of Some c \<Rightarrow> c | None \<Rightarrow> - 1)\<rparr>"

text \<open>\<open>scheduler.schedule\<close> followed by \<open>update_next_event_cycle\<close>.\<close>

definition pc88_fdc_schedule :: "event88 \<Rightarrow> u64 \<Rightarrow> pc88_fdc \<Rightarrow> pc88_fdc option" where
  "pc88_fdc_schedule event cycle s =
     map_option (\<lambda>sch. pc88_update_next_event_cycle (s\<lparr>pf_scheduler := sch\<rparr>))
       (pc8801_scheduler_schedule event cycle (pf_scheduler s))"

definition pc88_schedule_drq_byte :: "u64 \<Rightarrow> pc88_fdc \<Rightarrow> pc88_fdc option" where
  "pc88_schedule_drq_byte now s = pc88_fdc_schedule FdcDrqByte (now + pf_drq_byte_cycles s) s"

section \<open>Density and sizes\<close>

definition pc88_drive_media_type :: "u8 \<Rightarrow> nat \<Rightarrow> d88_media_type" where
  "pc88_drive_media_type drive_mode drive =
     (let two_hd_bit = (if drive = 0 then 0x01 else 0x02);
          two_dd_bit = (if drive = 0 then 0x04 else 0x08)
      in if drive_mode AND two_hd_bit \<noteq> 0 then Disk2HD
         else if drive_mode AND two_dd_bit \<noteq> 0 then Disk2DD
         else Disk2D)"

definition pc88_density_matches :: "u8 \<Rightarrow> nat \<Rightarrow> pc88_fdc \<Rightarrow> bool" where
  "pc88_density_matches drive_mode drive s \<longleftrightarrow>
     (case pf_drives s ! drive of
        None \<Rightarrow> True
      | Some m \<Rightarrow>
          let media = d88_media_type (mf_image m) in
          (case pc88_drive_media_type drive_mode drive of
             Disk2D \<Rightarrow> media = Disk2D
           | Disk2DD \<Rightarrow> media = Disk2D \<or> media = Disk2DD
           | Disk2HD \<Rightarrow> media = Disk2HD))"

definition pc88_fdc_sector_size :: "pc88_fdc \<Rightarrow> nat" where
  "pc88_fdc_sector_size s = 128 * 2 ^ min (unat (fd_n (pf_fdc s))) 7"

definition pc88_complete_no_disk :: "pc88_fdc \<Rightarrow> pc88_fdc" where
  "pc88_complete_no_disk s =
     (if upd765a_forced_ready (pf_fdc s)
      then pf_update (upd765a_complete_error 0 ST1_MISSING_ADDRESS_MARK 0) s
      else pf_update (upd765a_complete_error ST0_NOT_READY 0 0) s)"

definition pc88_no_address_mark :: "pc88_fdc \<Rightarrow> pc88_fdc" where
  "pc88_no_address_mark = pf_update (upd765a_complete_error 0 ST1_MISSING_ADDRESS_MARK 0)"

section \<open>Reading\<close>

definition pc88_load_current_read_sector :: "nat \<Rightarrow> pc88_fdc \<Rightarrow> bool \<times> pc88_fdc" where
  "pc88_load_current_read_sector drive s =
     (let f = pf_fdc s in
      case floppy_read_sector_data drive (upd765a_current_track_index f)
             (fd_c f) (fd_h f) (fd_r f) (fd_n f) (pf_drives s) of
        Some sector \<Rightarrow> (True, pf_update (upd765a_begin_pio_read sector) s)
      | None \<Rightarrow> (False, s))"

definition pc88_start_pio_read :: "u64 \<Rightarrow> u8 \<Rightarrow> pc88_fdc \<Rightarrow> pc88_fdc option" where
  "pc88_start_pio_read now drive_mode s =
     (let drive = upd765a_current_drive (pf_fdc s) in
      if \<not> floppy_has_drive drive (pf_drives s) then Some (pc88_complete_no_disk s)
      else if \<not> pc88_density_matches drive_mode drive s then Some (pc88_no_address_mark s)
      else
        let (loaded, s) = pc88_load_current_read_sector drive s in
        if \<not> loaded then Some (pc88_no_address_mark s) else pc88_schedule_drq_byte now s)"

definition pc88_advance_pio_read :: "pc88_fdc \<Rightarrow> pc88_fdc" where
  "pc88_advance_pio_read s =
     (let (last, f) = upd765a_advance_sector FdcStandard (pf_fdc s); s = s\<lparr>pf_fdc := f\<rparr> in
      if last then pf_update upd765a_complete_success s
      else
        let (loaded, s) = pc88_load_current_read_sector (upd765a_current_drive (pf_fdc s)) s in
        if \<not> loaded then pc88_no_address_mark s else s)"

section \<open>Writing and formatting\<close>

definition pc88_start_pio_write :: "u64 \<Rightarrow> u8 \<Rightarrow> pc88_fdc \<Rightarrow> pc88_fdc option" where
  "pc88_start_pio_write now drive_mode s =
     (let drive = upd765a_current_drive (pf_fdc s) in
      if \<not> floppy_has_drive drive (pf_drives s) then Some (pc88_complete_no_disk s)
      else if floppy_is_write_protected drive (pf_drives s) then
        Some (pf_update (upd765a_complete_error 0 ST1_NOT_WRITABLE 0) s)
      else if \<not> pc88_density_matches drive_mode drive s then Some (pc88_no_address_mark s)
      else pc88_schedule_drq_byte now
             (pf_update (upd765a_begin_pio_write (pc88_fdc_sector_size s)) s))"

definition pc88_start_pio_format :: "u64 \<Rightarrow> u8 \<Rightarrow> pc88_fdc \<Rightarrow> pc88_fdc option" where
  "pc88_start_pio_format now drive_mode s =
     (let drive = upd765a_current_drive (pf_fdc s) in
      if \<not> floppy_has_drive drive (pf_drives s) then Some (pc88_complete_no_disk s)
      else if floppy_is_write_protected drive (pf_drives s) then
        Some (pf_update (upd765a_complete_error 0 ST1_NOT_WRITABLE 0) s)
      else if \<not> pc88_density_matches drive_mode drive s then Some (pc88_no_address_mark s)
      else pc88_schedule_drq_byte now
             (pf_update (upd765a_begin_pio_write (unat (fd_eot (pf_fdc s)) * 4)) s))"

text \<open>The identifiers in a byte stream: its chunks of four, a shorter rest dropped.\<close>

fun chrn_chunks :: "u8 list \<Rightarrow> (u8 \<times> u8 \<times> u8 \<times> u8) list" where
  "chrn_chunks (c # h # r # n # rest) = (c, h, r, n) # chrn_chunks rest"
| "chrn_chunks _ = []"

definition pc88_flush_pio_format :: "pc88_fdc \<Rightarrow> pc88_fdc option" where
  "pc88_flush_pio_format s =
     (let f = pf_fdc s in
      Option.bind (upd765a_take_pio_write_buf f) (\<lambda>ids.
        map_option (\<lambda>ds. pf_update upd765a_complete_success (s\<lparr>pf_drives := ds\<rparr>))
          (floppy_format_track (upd765a_current_drive f) (upd765a_current_track_index f)
             (chrn_chunks ids) (fd_n f) (fd_dtl f) (pf_drives s))))"

definition pc88_flush_pio_write_sector :: "pc88_fdc \<Rightarrow> pc88_fdc option" where
  "pc88_flush_pio_write_sector s =
     (let f = pf_fdc s in
      if fd_active_command f = FdcFormatTrack then pc88_flush_pio_format s
      else
        map_option
          (\<lambda>payload. s\<lparr>pf_drives :=
             snd (floppy_write_sector_data (upd765a_current_drive f) (upd765a_current_track_index f)
               (fd_c f) (fd_h f) (fd_r f) (fd_n f) payload (pf_drives s))\<rparr>)
          (upd765a_take_pio_write_buf f))"

definition pc88_advance_pio_write :: "u64 \<Rightarrow> pc88_fdc \<Rightarrow> pc88_fdc option" where
  "pc88_advance_pio_write now s =
     Option.bind (pc88_flush_pio_write_sector s) (\<lambda>s.
       if fd_active_command (pf_fdc s) = FdcFormatTrack then Some s
       else
         let (last, f) = upd765a_advance_sector FdcStandard (pf_fdc s); s = s\<lparr>pf_fdc := f\<rparr> in
         if last then Some (pf_update upd765a_complete_success s)
         else pc88_schedule_drq_byte now
                (pf_update (upd765a_begin_pio_write (pc88_fdc_sector_size s)) s))"

section \<open>READ ID\<close>

definition pc88_handle_read_id :: "u8 \<Rightarrow> pc88_fdc \<Rightarrow> pc88_fdc" where
  "pc88_handle_read_id drive_mode s =
     (let f = pf_fdc s; drive = upd765a_current_drive f in
      if \<not> floppy_has_drive drive (pf_drives s) then pc88_complete_no_disk s
      else if \<not> pc88_density_matches drive_mode drive s then pc88_no_address_mark s
      else
        let i = upd765a_current_track_index f; crcn = unat (fd_crcn f) in
        case floppy_read_id_at_index drive i crcn (pf_drives s) of
          None \<Rightarrow> pc88_no_address_mark s
        | Some (c, h, r, n) \<Rightarrow>
            let count = floppy_sector_count drive i (pf_drives s);
                f = upd765a_provide_read_id c h r n f;
                f = f\<lparr>fd_crcn := (if count > 0 then of_nat ((crcn + 1) mod count) else 0)\<rparr>
            in s\<lparr>pf_fdc := upd765a_complete_success f\<rparr>)"

section \<open>Ports and events\<close>

definition pc88_on_fdc_action :: "u64 \<Rightarrow> u8 \<Rightarrow> fdc_action \<Rightarrow> pc88_fdc \<Rightarrow> pc88_fdc option" where
  "pc88_on_fdc_action now drive_mode action s =
     (case action of
        FdcNoAction \<Rightarrow> Some s
      | FdcReadyChangeInterrupt \<Rightarrow> Some s
      | FdcScheduleSeekInterrupt \<Rightarrow>
          pc88_fdc_schedule FdcSeekComplete (now + SEEK_INTERRUPT_DELAY_CYCLES)
            (pf_update (fd_interrupt_pending_update (\<lambda>_. False)) s)
      | FdcStartReadData \<Rightarrow> pc88_start_pio_read now drive_mode s
      | FdcStartWriteData \<Rightarrow> pc88_start_pio_write now drive_mode s
      | FdcStartReadId \<Rightarrow> Some (pc88_handle_read_id drive_mode s)
      | FdcStartFormatTrack \<Rightarrow> pc88_start_pio_format now drive_mode s
      | FdcStartScan \<Rightarrow> None)"

definition pc88_read_fdc_data :: "u64 \<Rightarrow> pc88_fdc \<Rightarrow> (u8 \<times> pc88_fdc) option" where
  "pc88_read_fdc_data now s =
     Option.bind (upd765a_read_data FdcStandard (pf_fdc s)) (\<lambda>(v, f).
       let s = s\<lparr>pf_fdc := f\<rparr> in
       if upd765a_pio_active f \<and> fd_exec_reading f then
         (if upd765a_pio_sector_done f \<and> upd765a_at_last_sector f
          then Some (v, pf_update upd765a_complete_success s)
          else map_option (Pair v) (pc88_schedule_drq_byte now s))
       else Some (v, s))"

definition pc88_write_fdc_data :: "u64 \<Rightarrow> u8 \<Rightarrow> u8 \<Rightarrow> pc88_fdc \<Rightarrow> pc88_fdc option" where
  "pc88_write_fdc_data now drive_mode v s =
     (let was_pio_write = (upd765a_pio_active (pf_fdc s) \<and> \<not> fd_exec_reading (pf_fdc s)) in
      Option.bind (upd765a_write_data FdcStandard v (pf_fdc s)) (\<lambda>(action, f).
        let s = s\<lparr>pf_fdc := f\<rparr> in
        if was_pio_write then
          (if upd765a_pio_sector_done f then pc88_advance_pio_write now s
           else pc88_schedule_drq_byte now s)
        else pc88_on_fdc_action now drive_mode action s))"

definition pc88_on_fdc_drq_byte :: "pc88_fdc \<Rightarrow> pc88_fdc" where
  "pc88_on_fdc_drq_byte s =
     (let f = pf_fdc s;
          s = (if upd765a_pio_active f \<and> fd_exec_reading f \<and> upd765a_pio_sector_done f
               then pc88_advance_pio_read s else s)
      in pf_update upd765a_pio_release_byte s)"

definition pc88_assert_fdc_terminal_count :: "u64 \<Rightarrow> pc88_fdc \<Rightarrow> pc88_fdc option" where
  "pc88_assert_fdc_terminal_count now s =
     (let s = pf_update upd765a_signal_terminal_count (s\<lparr>pf_tc_active := True\<rparr>);
          pulse = max (ucast (pf_main_clock_hz s) div 20000) 1
      in Option.bind
           (if upd765a_pio_active (pf_fdc s) then
              map_option (pf_update upd765a_complete_success)
                (if \<not> fd_exec_reading (pf_fdc s) then pc88_flush_pio_write_sector s else Some s)
            else Some s)
           (pc88_fdc_schedule FdcTcClear (now + pulse)))"

text \<open>The controller's arms of \<open>process_events\<close>, for an event that has come due.\<close>

definition pc88_fdc_event :: "event88 \<Rightarrow> pc88_fdc \<Rightarrow> pc88_fdc" where
  "pc88_fdc_event event s =
     (case event of
        FdcDrqByte \<Rightarrow> pc88_on_fdc_drq_byte s
      | FdcSeekComplete \<Rightarrow> pf_update (fd_interrupt_pending_update (\<lambda>_. True)) s
      | FdcTcClear \<Rightarrow> pf_update (fd_tc_update (\<lambda>_. False)) (s\<lparr>pf_tc_active := False\<rparr>)
      | _ \<Rightarrow> s)"

text \<open>The motor port: the unit forces the drives ready.\<close>

definition pc88_force_ready :: "pc88_fdc \<Rightarrow> pc88_fdc" where
  "pc88_force_ready = pf_update (\<lambda>f. f\<lparr>fd_control := fd_control f OR FDC_FORCED_READY\<rparr>)"

definition pc88_sub_irq_pending :: "pc88_fdc \<Rightarrow> bool" where
  "pc88_sub_irq_pending s \<longleftrightarrow> fd_interrupt_pending (pf_fdc s) \<or> upd765a_pio_byte_ready (pf_fdc s)"

text \<open>Mounting, ejecting and flushing disks, from the host side; there are four drives.\<close>

definition pc88_insert_floppy :: "nat \<Rightarrow> d88_disk \<Rightarrow> media_backing \<Rightarrow> pc88_fdc \<Rightarrow> pc88_fdc option" where
  "pc88_insert_floppy drive img backing s =
     map_option
       (\<lambda>ds. let s = s\<lparr>pf_drives := ds\<rparr> in
          if drive < 4
          then pf_update (\<lambda>f. f\<lparr>fd_drive_has_disk := fd_drive_has_disk f OR drive_mask drive\<rparr>) s
          else s)
       (floppy_insert_drive_backed drive img backing (pf_drives s))"

definition pc88_eject_floppy :: "nat \<Rightarrow> pc88_fdc \<Rightarrow> pc88_fdc option" where
  "pc88_eject_floppy drive s =
     map_option
       (\<lambda>ds. let s = s\<lparr>pf_drives := ds\<rparr> in
          if drive < 4
          then pf_update (\<lambda>f. f\<lparr>fd_drive_has_disk := fd_drive_has_disk f AND NOT (drive_mask drive)\<rparr>) s
          else s)
       (floppy_eject_drive drive (pf_drives s))"

definition pc88_flush_floppies :: "pc88_fdc \<Rightarrow> (bool \<times> pc88_fdc) option" where
  "pc88_flush_floppies s =
     map_option (\<lambda>(ok, ds). (ok, s\<lparr>pf_drives := ds\<rparr>)) (floppy_flush_all_drives (pf_drives s))"

definition pc88_image_bytes :: "nat \<Rightarrow> pc88_fdc \<Rightarrow> u8 list option option" where
  "pc88_image_bytes drive s =
     (case Option.bind (list_get (pf_drives s) drive) id of
        None \<Rightarrow> Some None | Some m \<Rightarrow> map_option Some (d88_to_bytes (mf_image m)))"

definition pc88_fdc_new :: "u32 \<Rightarrow> pc88_fdc" where
  "pc88_fdc_new main_clock_hz =
     \<lparr> pf_fdc = upd765a_new FdcStandard, pf_drives = replicate 4 None,
       pf_scheduler = pc8801_scheduler_new, pf_next_event_cycle = - 1, pf_tc_active = False,
       pf_drq_byte_cycles = max (ucast main_clock_hz div 31250) 1, pf_main_clock_hz = main_clock_hz \<rparr>"

end
