(* ===== verification/Pc88_Fdc_Invariant.thy ===== *)
theory Pc88_Fdc_Invariant
  imports Pc88_Fdc Pc88_Disk D88_Properties
begin

text \<open>
  When the floppy side of the disk unit panics: its invariant, that every operation keeps it, and that
  each returns but for one case, the write-back of a disk whose formatted image the D88 file
  format has no room for.
\<close>

section \<open>The invariant\<close>

definition pc88_fdc_ok :: "pc88_fdc \<Rightarrow> bool" where
  "pc88_fdc_ok s \<longleftrightarrow> upd765a_ok (pf_fdc s) \<and> length (pf_drives s) = 4 \<and> pc8801_valid (pf_scheduler s)"

text \<open>The invariant together with a property of the mounted disks.\<close>

definition fdc_inv :: "(drives \<Rightarrow> bool) \<Rightarrow> pc88_fdc \<Rightarrow> bool" where
  "fdc_inv P s \<longleftrightarrow> pc88_fdc_ok s \<and> P (pf_drives s)"

lemmas fdc_inv_simps = fdc_inv_def pc88_fdc_ok_def

lemma pc88_fdc_new_ok [simp]: "pc88_fdc_ok (pc88_fdc_new hz)"
  by (simp add: pc88_fdc_ok_def pc88_fdc_new_def pc8801_new_valid)

lemma pf_update_ok:
  "fdc_inv P s \<Longrightarrow> upd765a_ok (f (pf_fdc s)) \<Longrightarrow> fdc_inv P (pf_update f s)"
  by (simp add: fdc_inv_simps pf_update_def)

lemma pf_fdc_update_ok:
  "fdc_inv P s \<Longrightarrow> upd765a_ok f \<Longrightarrow> fdc_inv P (s\<lparr>pf_fdc := f\<rparr>)"
  by (simp add: fdc_inv_simps)

lemma fdc_invD: "fdc_inv P s \<Longrightarrow> upd765a_ok (pf_fdc s)"
  by (simp add: fdc_inv_simps)

lemma pc88_fdc_okD: "pc88_fdc_ok s \<Longrightarrow> upd765a_ok (pf_fdc s)"
  by (simp add: pc88_fdc_ok_def)

text \<open>A step that returns, to a state of the invariant.\<close>

definition fdc_returns :: "(drives \<Rightarrow> bool) \<Rightarrow> pc88_fdc option \<Rightarrow> bool" where
  "fdc_returns P r \<longleftrightarrow> (\<exists>s. r = Some s \<and> fdc_inv P s)"

lemma fdc_returns_Some [simp]: "fdc_returns P (Some s) \<longleftrightarrow> fdc_inv P s"
  by (simp add: fdc_returns_def)

lemma fdc_returns_bind: "fdc_returns P r \<Longrightarrow> (\<And>s. fdc_inv P s \<Longrightarrow> fdc_returns P (g s)) \<Longrightarrow> fdc_returns P (Option.bind r g)"
  by (auto simp: fdc_returns_def)

lemma fdc_returns_map: "fdc_returns P r \<Longrightarrow> (\<And>s. fdc_inv P s \<Longrightarrow> fdc_inv P (g s)) \<Longrightarrow> fdc_returns P (map_option g r)"
  by (auto simp: fdc_returns_def)

lemma schedule_returns: "fdc_inv P s \<Longrightarrow> fdc_returns P (pc88_fdc_schedule e c s)"
proof -
  assume s: "fdc_inv P s"
  then obtain q where "pc8801_scheduler_schedule e c (pf_scheduler s) = Some q" "pc8801_valid q"
    using pc8801.schedule_law [of "pf_scheduler s" e c] by (auto simp: fdc_inv_simps)
  then show ?thesis
    using s by (simp add: pc88_fdc_schedule_def pc88_update_next_event_cycle_def fdc_inv_simps)
qed

lemma schedule_drq_returns: "fdc_inv P s \<Longrightarrow> fdc_returns P (pc88_schedule_drq_byte now s)"
  by (simp add: pc88_schedule_drq_byte_def schedule_returns)

section \<open>Every operation returns\<close>

lemmas pc88_completions = pc88_complete_no_disk_def pc88_no_address_mark_def

lemma completions_ok:
  "fdc_inv P s \<Longrightarrow> fdc_inv P (pc88_complete_no_disk s)"
  "fdc_inv P s \<Longrightarrow> fdc_inv P (pc88_no_address_mark s)"
  "fdc_inv P s \<Longrightarrow> fdc_inv P (pf_update upd765a_complete_success s)"
  "fdc_inv P s \<Longrightarrow> fdc_inv P (pf_update (upd765a_complete_error a b c) s)"
  by (simp_all add: pc88_completions pf_update_ok fdc_keeps fdc_invD)

lemma load_sector_ok: "fdc_inv P s \<Longrightarrow> fdc_inv P (snd (pc88_load_current_read_sector d s))"
  by (simp add: pc88_load_current_read_sector_def Let_def pf_update_ok fdc_keeps fdc_invD
      split: option.split)

lemma start_read_returns: "fdc_inv P s \<Longrightarrow> fdc_returns P (pc88_start_pio_read now mode s)"
  using load_sector_ok [of P s "upd765a_current_drive (pf_fdc s)"]
  by (simp add: pc88_start_pio_read_def Let_def case_prod_beta completions_ok schedule_drq_returns)

lemma advance_read_ok: "fdc_inv P s \<Longrightarrow> fdc_inv P (pc88_advance_pio_read s)"
  by (simp add: pc88_advance_pio_read_def Let_def case_prod_beta completions_ok load_sector_ok
      pf_fdc_update_ok fdc_keeps fdc_invD)

lemma begin_write_ok: "fdc_inv P s \<Longrightarrow> fdc_inv P (pf_update (upd765a_begin_pio_write n) s)"
  by (simp add: pf_update_ok fdc_keeps fdc_invD)

lemma start_write_returns:
  "fdc_inv P s \<Longrightarrow> fdc_returns P (pc88_start_pio_write now mode s)"
  "fdc_inv P s \<Longrightarrow> fdc_returns P (pc88_start_pio_format now mode s)"
  by (simp_all add: pc88_start_pio_write_def pc88_start_pio_format_def Let_def completions_ok
      schedule_drq_returns begin_write_ok)

section \<open>Disks and their files\<close>

text \<open>A disk with a host file has at most 164 tracks, the most that a D88 file holds.\<close>

definition floppy_fits :: "mounted_floppy \<Rightarrow> bool" where
  "floppy_fits m \<longleftrightarrow> mf_backend m = None \<or> d88_fits (mf_image m)"

definition drives_fit :: "drives \<Rightarrow> bool" where
  "drives_fit ds \<longleftrightarrow> (\<forall>m. Some m \<in> set ds \<longrightarrow> floppy_fits m)"

abbreviation fdc_sound :: "pc88_fdc \<Rightarrow> bool" where
  "fdc_sound \<equiv> fdc_inv drives_fit"

lemma drives_fit_nth: "drives_fit ds \<Longrightarrow> drive < length ds \<Longrightarrow> ds ! drive = Some m \<Longrightarrow> floppy_fits m"
  by (metis drives_fit_def nth_mem)

lemma drives_fit_update:
  "drives_fit ds \<Longrightarrow> (\<And>m. x = Some m \<Longrightarrow> floppy_fits m) \<Longrightarrow> drives_fit (ds[drive := x])"
  using set_update_subset_insert [of ds drive x] by (auto simp: drives_fit_def)

lemma d88_fits_write:
  assumes "d88_write_sector_payload i c h r n payload d = Some (place, d')" "d88_fits d"
  shows "d88_fits d'"
proof -
  obtain t where t: "d88_find_target_track_index d i c h r n = Some t"
    using assms(1) by (cases "d88_find_target_track_index d i c h r n")
      (auto simp: d88_write_sector_payload_def d88_find_sector_slot_near_track_index_def)
  obtain track k where "d88_track d t = Some track" "d' = d88_update_sector t k (d88_overwrite payload) d"
    using assms(1) by (rule_tac d88_write_at [OF t, of payload]) auto
  then show ?thesis using assms(2) by (auto simp: d88_fits_def d88_track_update_sector)
qed

lemma floppy_fits_write:
  "floppy_fits m \<Longrightarrow> floppy_fits (snd (mounted_floppy_write_sector_data i c h r n payload m))"
  using d88_fits_write [of i c h r n payload "mf_image m"]
  by (auto simp: mounted_floppy_write_sector_data_def floppy_fits_def Let_def
      split: option.split bool.split prod.split)

text \<open>Writing the whole image back: it panics exactly on a disk that does not fit.\<close>

lemma reemit_None: "mounted_floppy_reemit file m = None \<longleftrightarrow> \<not> d88_fits (mf_image m)"
  by (simp add: mounted_floppy_reemit_def d88_to_bytes_None_iff)

lemma reemit_fits:
  assumes "mounted_floppy_reemit file m = Some (ok, m')"
  shows "d88_fits (mf_image m')"
proof -
  have "d88_fits (mf_image m)" using assms reemit_None [of "file" m] by auto
  moreover obtain bytes where bytes: "d88_to_bytes (mf_image m) = Some bytes"
    using assms by (auto simp: mounted_floppy_reemit_def)
  moreover obtain written rest where "file_replace_atomic file bytes = (written, rest)" by fastforce
  ultimately show ?thesis
    using assms d88_from_bytes_fits [of bytes]
    by (cases "d88_from_bytes bytes"; cases written) (auto simp: mounted_floppy_reemit_def)
qed

lemma format_track_None:
  assumes "floppy_fits m"
  shows "mounted_floppy_format_track i chrn data_n fill m = None \<longleftrightarrow>
    \<not> mf_read_only m \<and> mf_backend m \<noteq> None \<and> d88_track_max \<le> i"
  using assms
  by (auto simp: mounted_floppy_format_track_def Let_def reemit_None floppy_fits_def d88_fits_def
      d88_track_formatted split: option.split)

lemma format_track_fits:
  "floppy_fits m \<Longrightarrow> mounted_floppy_format_track i chrn data_n fill m = Some m' \<Longrightarrow> floppy_fits m'"
  using reemit_fits
  by (fastforce simp: mounted_floppy_format_track_def Let_def floppy_fits_def split: if_splits option.splits)

lemma flush_mounted:
  assumes "floppy_fits m"
  shows "\<exists>ok m'. mounted_floppy_flush m = Some (ok, m') \<and> floppy_fits m'"
proof -
  obtain ok m1 where m1: "mounted_floppy_flush_if_dirty m = Some (ok, m1)" "floppy_fits m1"
  proof (cases "\<not> mf_dirty m \<or> mf_backend m = None")
    case True
    then have "\<exists>ok. mounted_floppy_flush_if_dirty m = Some (ok, m)"
      by (auto simp: mounted_floppy_flush_if_dirty_def)
    then show ?thesis using that assms by blast
  next
    case False
    then obtain handle where bound: "mf_backend m = Some handle" by auto
    then have "mounted_floppy_reemit handle m \<noteq> None" using assms by (simp add: reemit_None floppy_fits_def)
    then show ?thesis
      using that False bound reemit_fits by (auto simp: mounted_floppy_flush_if_dirty_def floppy_fits_def)
  qed
  then show ?thesis
    by (auto simp: mounted_floppy_flush_def floppy_fits_def split: option.split prod.split bool.split)
qed

lemma eject_drive_fits:
  assumes "drives_fit ds" "drive < length ds"
  shows "\<exists>ds'. floppy_eject_drive drive ds = Some ds' \<and> ds' = ds[drive := None] \<and> drives_fit ds'"
proof -
  have "drives_fit (ds[drive := None])" using assms(1) by (intro drives_fit_update) simp_all
  then show ?thesis
    using assms(2) flush_mounted [OF drives_fit_nth [OF assms]]
    by (auto simp: floppy_eject_drive_def mounted_floppy_eject_def split: option.split)
qed

lemma insert_drive_fits:
  assumes "drives_fit ds" "drive < length ds" "d88_fits img"
  shows "\<exists>ds'. floppy_insert_drive_backed drive img backing ds = Some ds'
    \<and> drives_fit ds' \<and> length ds' = length ds"
proof -
  have "floppy_fits (mounted_from_backing img backing)"
    using assms(3) by (cases backing)
      (simp_all add: mounted_from_backing_def mounted_floppy_new_def mounted_floppy_new_read_only_def
        floppy_fits_def)
  moreover obtain ds' where "floppy_eject_drive drive ds = Some ds'" "ds' = ds[drive := None]" "drives_fit ds'"
    using eject_drive_fits [OF assms(1,2)] by blast
  ultimately show ?thesis
    using drives_fit_update [of ds' "Some (mounted_from_backing img backing)" drive]
    by (simp add: floppy_insert_drive_backed_def)
qed

lemma flush_drives_fit:
  "drives_fit ds \<Longrightarrow> \<forall>d\<in>set numbers. d < length ds \<Longrightarrow>
    \<exists>ok ds'. floppy_flush_drives numbers ds = Some (ok, ds') \<and> drives_fit ds' \<and> length ds' = length ds"
proof (induction numbers arbitrary: ds)
  case (Cons d numbers)
  obtain ok ds1 where one: "floppy_flush_drive d ds = Some (ok, ds1)" "drives_fit ds1" "length ds1 = length ds"
  proof (cases "ds ! d")
    case None
    then show ?thesis using that Cons.prems by (simp add: floppy_flush_drive_def)
  next
    case (Some m)
    then obtain ok m' where "mounted_floppy_flush m = Some (ok, m')" "floppy_fits m'"
      using flush_mounted drives_fit_nth Cons.prems by (metis list.set_intros(1))
    then show ?thesis
      using that Cons.prems(1) Some drives_fit_update [of ds "Some m'" d] by (simp add: floppy_flush_drive_def)
  qed
  then show ?case using Cons.IH [of ds1] Cons.prems(2) by auto
qed (auto intro: exI [of _ True])

section \<open>Writing to the disks\<close>

text \<open>
  What is lost: the controller is formatting, the drive holds a writable disk with a host file, and
  the head is on cylinder 82 or above, at a track index that the file format has no room for.
\<close>

definition pc88_format_lost :: "pc88_fdc \<Rightarrow> bool" where
  "pc88_format_lost s \<longleftrightarrow> fd_active_command (pf_fdc s) = FdcFormatTrack
     \<and> (\<exists>m. pf_drives s ! upd765a_current_drive (pf_fdc s) = Some m
          \<and> \<not> mf_read_only m \<and> mf_backend m \<noteq> None)
     \<and> 164 \<le> upd765a_current_track_index (pf_fdc s)"

text \<open>A step that panics when its disk is lost, and otherwise returns to the invariant.\<close>

definition fdc_unless :: "bool \<Rightarrow> pc88_fdc option \<Rightarrow> bool" where
  "fdc_unless lost r \<longleftrightarrow> (r = None \<longleftrightarrow> lost) \<and> (\<forall>s. r = Some s \<longrightarrow> fdc_sound s)"

lemma fdc_unless_returns [simp]: "fdc_unless False r \<longleftrightarrow> fdc_returns drives_fit r"
  by (cases r) (auto simp: fdc_unless_def fdc_returns_def)

lemma fdc_unless_bind:
  "fdc_unless lost r \<Longrightarrow> (\<And>s. fdc_sound s \<Longrightarrow> fdc_returns drives_fit (g s)) \<Longrightarrow> fdc_unless lost (Option.bind r g)"
  by (cases r) (fastforce simp: fdc_unless_def fdc_returns_def)+

lemma fdc_unless_map:
  "fdc_unless lost r \<Longrightarrow> (\<And>s. fdc_sound s \<Longrightarrow> fdc_sound (g s)) \<Longrightarrow> fdc_unless lost (map_option g r)"
  by (cases r) (auto simp: fdc_unless_def)

lemma current_drive_less: "upd765a_current_drive f < 4"
proof -
  have "fd_hd_us f AND HD_US_DRIVE_MASK \<le> 3" by (simp add: HD_US_DRIVE_MASK_def word_and_le1)
  then show ?thesis by (simp add: upd765a_current_drive_def word_le_nat_alt)
qed

lemma flush_unless:
  assumes s: "fdc_sound s"
  shows "fdc_unless (pc88_format_lost s) (pc88_flush_pio_write_sector s)"
proof -
  let ?f = "pf_fdc s" and ?ds = "pf_drives s"
  let ?drive = "upd765a_current_drive ?f"
  obtain ids where ids: "upd765a_take_pio_write_buf ?f = Some ids"
    using write_buf_returns(1) [OF fdc_invD [OF s]] by blast
  have ok: "fdc_sound (s\<lparr>pf_drives := ds\<rparr>)" if "drives_fit ds" "length ds = length ?ds" for ds
    using s that by (simp add: fdc_inv_simps)
  have fit: "drives_fit ?ds" "?drive < length ?ds"
    using s current_drive_less by (simp_all add: fdc_inv_simps)
  show ?thesis
  proof (cases "fd_active_command ?f = FdcFormatTrack")
    case False
    have "drives_fit (snd (floppy_write_sector_data ?drive i c h r n payload ?ds))" for i c h r n payload
      using fit floppy_fits_write [OF drives_fit_nth [OF fit]]
      by (auto simp: floppy_write_sector_data_def Let_def case_prod_beta split: option.split
          intro!: drives_fit_update)
    moreover have "length (snd (floppy_write_sector_data ?drive i c h r n payload ?ds)) = length ?ds"
      for i c h r n payload
      by (simp add: floppy_write_sector_data_def Let_def case_prod_beta split: option.split)
    ultimately show ?thesis
      using False ids ok by (simp add: pc88_flush_pio_write_sector_def pc88_format_lost_def Let_def)
  next
    case format: True
    have max: "d88_track_max = 164" by (simp add: d88_track_max_def)
    have fdc: "fdc_sound (pf_update upd765a_complete_success (s\<lparr>pf_drives := ds\<rparr>))"
      if "drives_fit ds" "length ds = length ?ds" for ds
      using ok [OF that] by (intro completions_ok)
    show ?thesis
    proof (cases "?ds ! ?drive")
      case None
      then show ?thesis
        using format ids fdc [OF fit(1)]
        by (simp add: pc88_flush_pio_write_sector_def pc88_flush_pio_format_def pc88_format_lost_def
            floppy_format_track_def Let_def)
    next
      case (Some m)
      have m: "floppy_fits m" using drives_fit_nth [OF fit Some] .
      have "drives_fit (?ds[?drive := Some m'])"
        if "mounted_floppy_format_track i chrn data_n fill m = Some m'" for i chrn data_n fill m'
        using format_track_fits [OF m that] fit(1) by (intro drives_fit_update) simp_all
      then show ?thesis
        using format ids Some fdc format_track_None [OF m]
        by (auto simp: pc88_flush_pio_write_sector_def pc88_flush_pio_format_def pc88_format_lost_def
            floppy_format_track_def fdc_unless_def max Let_def)
    qed
  qed
qed

lemma advance_write_unless:
  assumes "fdc_sound s"
  shows "fdc_unless (pc88_format_lost s) (pc88_advance_pio_write now s)"
  unfolding pc88_advance_pio_write_def
  by (rule fdc_unless_bind [OF flush_unless [OF assms]])
    (simp_all add: Let_def case_prod_beta completions_ok schedule_drq_returns begin_write_ok
      pf_fdc_update_ok fdc_keeps fdc_invD)

section \<open>The registers\<close>

lemma read_id_ok: "fdc_inv P s \<Longrightarrow> fdc_inv P (pc88_handle_read_id mode s)"
proof -
  assume s: "fdc_inv P s"
  have "upd765a_ok ((upd765a_provide_read_id c h r n (pf_fdc s))\<lparr>fd_crcn := x\<rparr>)" for c h r n x
    using fdc_invD [OF s] by (simp add: fdc_keeps)
  then show ?thesis
    using s by (simp add: pc88_handle_read_id_def Let_def completions_ok pf_fdc_update_ok fdc_keeps
        split: option.split)
qed

text \<open>The SCAN commands do not reach the bus: the standard controller refuses them.\<close>

lemma no_scan_action: "fst (upd765a_execute_command FdcStandard s) \<noteq> FdcStartScan"
  by (simp add: upd765a_execute_command_def Let_def upd765a_specify_def case_prod_beta
      upd765a_recalibrate_def upd765a_seek_def upd765a_seek_done_def upd765a_scan_def)

lemma no_scan_write:
  "upd765a_write_data FdcStandard v s = Some (action, s') \<Longrightarrow> action \<noteq> FdcStartScan"
  using no_scan_action
  by (auto simp: upd765a_write_data_def upd765a_begin_command_def upd765a_command_param_def Let_def
      prod_eq_iff split: fdc_phase.splits if_splits)

lemma on_action_returns:
  "fdc_inv P s \<Longrightarrow> action \<noteq> FdcStartScan \<Longrightarrow> fdc_returns P (pc88_on_fdc_action now mode action s)"
proof -
  assume s: "fdc_inv P s" and action: "action \<noteq> FdcStartScan"
  have "fdc_inv P (pf_update (fd_interrupt_pending_update (\<lambda>_. b)) s)" for b
    using s by (intro pf_update_ok) (simp_all add: fdc_inv_simps)
  then show ?thesis
    using s action
    by (cases action) (simp_all add: pc88_on_fdc_action_def schedule_returns start_read_returns
        start_write_returns read_id_ok)
qed

lemma read_fdc_data_returns:
  assumes "fdc_inv P s"
  shows "\<exists>v s'. pc88_read_fdc_data now s = Some (v, s') \<and> fdc_inv P s'"
proof -
  obtain v f where f: "upd765a_read_data FdcStandard (pf_fdc s) = Some (v, f)" "upd765a_ok f"
    using read_data_ok [OF fdc_invD [OF assms]] by blast
  have "fdc_inv P (s\<lparr>pf_fdc := f\<rparr>)" using assms f(2) by (rule pf_fdc_update_ok)
  then show ?thesis
    using f(1) completions_ok(3) schedule_drq_returns [of P "s\<lparr>pf_fdc := f\<rparr>" now]
    by (auto simp: pc88_read_fdc_data_def Let_def fdc_returns_def)
qed

text \<open>The byte of a write that fills the controller's buffer.\<close>

definition pc88_last_write :: "pc88_fdc \<Rightarrow> bool" where
  "pc88_last_write s \<longleftrightarrow> upd765a_pio_active (pf_fdc s) \<and> \<not> fd_exec_reading (pf_fdc s)
     \<and> fd_exec_len (pf_fdc s) \<le> Suc (fd_exec_index (pf_fdc s))"

lemma write_in_execution:
  assumes "upd765a_write_data FdcStandard v f = Some (action, g)" "upd765a_pio_active f"
    "\<not> fd_exec_reading f" "upd765a_ok f"
  shows "fd_active_command g = fd_active_command f" "upd765a_current_drive g = upd765a_current_drive f"
    "upd765a_current_track_index g = upd765a_current_track_index f"
    "upd765a_pio_sector_done g \<longleftrightarrow> fd_exec_len f \<le> Suc (fd_exec_index f)"
proof -
  have index: "fd_exec_index f \<le> fd_exec_len f" using assms(4) by (simp add: upd765a_ok_iff)
  obtain h where h: "upd765a_exec_write v f = Some h" "g = h"
    using assms(1,2) by (auto simp: upd765a_write_data_def upd765a_pio_active_def)
  have same: "fd_active_command h = fd_active_command f" "fd_hd_us h = fd_hd_us f"
    "fd_drive_cylinder h = fd_drive_cylinder f" "fd_exec_len h = fd_exec_len f"
    "fd_exec_index h = (if fd_exec_index f < fd_exec_len f then Suc (fd_exec_index f) else fd_exec_index f)"
    using h(1) assms(2,3)
    by (auto simp: upd765a_exec_write_def upd765a_pio_active_def Let_def split: if_splits)
  then show "fd_active_command g = fd_active_command f"
    "upd765a_current_drive g = upd765a_current_drive f"
    "upd765a_current_track_index g = upd765a_current_track_index f"
    "upd765a_pio_sector_done g \<longleftrightarrow> fd_exec_len f \<le> Suc (fd_exec_index f)"
    using index by (auto simp: h(2) upd765a_current_drive_def upd765a_current_track_index_def
        upd765a_head_def upd765a_pio_sector_done_def Let_def)
qed

lemma write_fdc_data_unless:
  assumes s: "fdc_sound s"
  shows "fdc_unless (pc88_last_write s \<and> pc88_format_lost s) (pc88_write_fdc_data now mode v s)"
proof -
  obtain action f where f: "upd765a_write_data FdcStandard v (pf_fdc s) = Some (action, f)" "upd765a_ok f"
    using write_data_ok [OF fdc_invD [OF s]] by blast
  let ?t = "s\<lparr>pf_fdc := f\<rparr>"
  have t: "fdc_sound ?t" using s f(2) by (rule pf_fdc_update_ok)
  show ?thesis
  proof (cases "upd765a_pio_active (pf_fdc s) \<and> \<not> fd_exec_reading (pf_fdc s)")
    case False
    then have "\<not> pc88_last_write s" by (auto simp: pc88_last_write_def)
    then show ?thesis
      using False f(1) no_scan_write [OF f(1)] on_action_returns [OF t]
      by (auto simp: pc88_write_fdc_data_def Let_def)
  next
    case True
    note kept = write_in_execution [OF f(1) _ _ fdc_invD [OF s]]
    have "pc88_format_lost ?t = pc88_format_lost s"
      using True kept by (simp add: pc88_format_lost_def)
    then show ?thesis
      using True f(1) kept(4) advance_write_unless [OF t] schedule_drq_returns [OF t, of now]
      by (auto simp: pc88_write_fdc_data_def pc88_last_write_def Let_def)
  qed
qed

lemma drq_byte_ok: "fdc_inv P s \<Longrightarrow> fdc_inv P (pc88_on_fdc_drq_byte s)"
  by (simp add: pc88_on_fdc_drq_byte_def Let_def pf_update_ok fdc_keeps fdc_invD [where P = P] advance_read_ok)

lemma terminal_count_unless:
  assumes "fdc_sound s"
  shows "fdc_unless (upd765a_pio_active (pf_fdc s) \<and> \<not> fd_exec_reading (pf_fdc s) \<and> pc88_format_lost s)
    (pc88_assert_fdc_terminal_count now s)"
proof -
  let ?t = "pf_update upd765a_signal_terminal_count (s\<lparr>pf_tc_active := True\<rparr>)"
  have t: "fdc_sound ?t"
    using assms by (simp add: fdc_inv_simps pf_update_def fdc_keeps)
  have "pc88_format_lost ?t = pc88_format_lost s" "upd765a_pio_active (pf_fdc ?t) = upd765a_pio_active (pf_fdc s)"
    "fd_exec_reading (pf_fdc ?t) = fd_exec_reading (pf_fdc s)"
    by (simp_all add: pc88_format_lost_def pf_update_def upd765a_signal_terminal_count_def
        upd765a_current_drive_def upd765a_current_track_index_def upd765a_head_def upd765a_pio_active_def Let_def)
  moreover have "fdc_unless (pc88_format_lost ?t)
      (map_option (pf_update upd765a_complete_success) (pc88_flush_pio_write_sector ?t))"
    by (rule fdc_unless_map [OF flush_unless [OF t]]) (rule completions_ok)
  ultimately show ?thesis
    unfolding pc88_assert_fdc_terminal_count_def Let_def
    by (intro fdc_unless_bind schedule_returns) (simp_all add: t completions_ok)
qed

lemma fdc_event_ok: "fdc_inv P s \<Longrightarrow> fdc_inv P (pc88_fdc_event e s)"
  by (cases e) (simp_all add: pc88_fdc_event_def drq_byte_ok, simp_all add: pf_update_def fdc_inv_simps)

lemma force_ready_ok: "fdc_inv P s \<Longrightarrow> fdc_inv P (pc88_force_ready s)"
  by (simp add: pc88_force_ready_def pf_update_def fdc_inv_simps)

lemma host_returns:
  assumes "fdc_sound s" "drive < 4"
  shows "fdc_returns drives_fit (pc88_eject_floppy drive s)"
    "d88_fits img \<Longrightarrow> fdc_returns drives_fit (pc88_insert_floppy drive img backing s)"
    "\<exists>ok t. pc88_flush_floppies s = Some (ok, t) \<and> fdc_sound t"
proof -
  have fit: "drives_fit (pf_drives s)" "length (pf_drives s) = 4"
    using assms(1) by (simp_all add: fdc_inv_simps)
  then have drive: "drive < length (pf_drives s)" using assms(2) by simp
  have ok: "fdc_sound (pf_update (\<lambda>f. f\<lparr>fd_drive_has_disk := g f\<rparr>) (s\<lparr>pf_drives := ds\<rparr>))"
    if "drives_fit ds" "length ds = 4" for ds g
    using assms(1) that by (simp add: fdc_inv_simps pf_update_def)
  show "fdc_returns drives_fit (pc88_eject_floppy drive s)"
    using eject_drive_fits [OF fit(1) drive] assms(2) ok fit(2)
    by (auto simp: pc88_eject_floppy_def Let_def)
  show "fdc_returns drives_fit (pc88_insert_floppy drive img backing s)" if "d88_fits img"
    using insert_drive_fits [OF fit(1) drive that, of backing] assms(2) ok fit(2)
    by (auto simp: pc88_insert_floppy_def Let_def)
  show "\<exists>ok t. pc88_flush_floppies s = Some (ok, t) \<and> fdc_sound t"
    using flush_drives_fit [OF fit(1), of "[0, 1, 2, 3]"] assms(1) fit(2)
    by (auto simp: pc88_flush_floppies_def floppy_flush_all_drives_def fdc_inv_simps)
qed

end
