(* ===== verification/Upd765a_Properties.thy ===== *)
theory Upd765a_Properties
  imports Upd765a_Invariant
begin

text \<open>
  The command protocol of the floppy controller: how a command is assembled from its bytes and
  how its result is drained, a seek with the SENSE INTERRUPT STATUS that reports it, and the
  states that \<open>validate_runtime_state\<close> accepts but the data register cannot continue from.
\<close>

section \<open>Assembling a command\<close>

fun upd765a_writes ::
  "fdc_platform \<Rightarrow> u8 list \<Rightarrow> upd765a \<Rightarrow> (fdc_action list \<times> upd765a) option" where
  "upd765a_writes p [] s = Some ([], s)"
| "upd765a_writes p (b # bs) s =
     do { (action, s) \<leftarrow> upd765a_write_data p b s;
          (actions, s) \<leftarrow> upd765a_writes p bs s;
          Some (action # actions, s) }"

text \<open>The state in which a command runs, its parameters in place.\<close>

definition upd765a_assembled :: "u8 \<Rightarrow> u8 list \<Rightarrow> upd765a \<Rightarrow> upd765a" where
  "upd765a_assembled v ps s =
     (let s = s\<lparr>fd_interrupt_pending := False, fd_command_byte := v,
                fd_command := v AND CMD_INDEX_MASK,
                fd_params := ps @ drop (length ps) (fd_params s),
                fd_params_received := of_nat (length ps), fd_params_expected := of_nat (length ps),
                fd_mt := (v AND CMD_FLAG_MT \<noteq> 0), fd_mf := (v AND CMD_FLAG_MF \<noteq> 0),
                fd_sk := (v AND CMD_FLAG_SK \<noteq> 0)\<rparr>
      in if ps = [] then s
         else s\<lparr>fd_phase := FdcCommandPhase, fd_status := MSR_RQM OR MSR_CB\<rparr>)"

text \<open>The front end forwards writes to the command engine without looking at them.\<close>

definition upd765a_listens :: "fdc_platform \<Rightarrow> upd765a \<Rightarrow> bool" where
  "upd765a_listens p s \<longleftrightarrow> p = FdcStandard \<or> p = FdcX68k \<and> \<not> fd_standby s"

lemma write_listens:
  assumes "upd765a_listens p s"
  shows "upd765a_write_data p v s =
    (case fd_phase s of
       FdcIdle \<Rightarrow> Some (upd765a_begin_command p v s)
     | FdcCommandPhase \<Rightarrow> upd765a_command_param p v s
     | FdcExecution \<Rightarrow> map_option (Pair FdcNoAction) (upd765a_exec_write v s)
     | FdcResultPhase \<Rightarrow> Some (FdcNoAction, s))"
  using assms
  by (auto simp: upd765a_write_data_def upd765a_listens_def case_prod_beta option.map_id)

text \<open>A parameter that is not the last, and the last one.\<close>

definition upd765a_with_param :: "u8 \<Rightarrow> upd765a \<Rightarrow> upd765a" where
  "upd765a_with_param v s =
     s\<lparr>fd_params := (fd_params s)[unat (fd_params_received s) := v],
       fd_params_received := fd_params_received s + 1\<rparr>"

lemma write_param:
  assumes "upd765a_listens p s" "fd_phase s = FdcCommandPhase"
    and "unat (fd_params_received s) < length (fd_params s)"
  shows "upd765a_write_data p v s =
    Some (if fd_params_received s + 1 \<ge> fd_params_expected s
          then upd765a_execute_command p (upd765a_with_param v s)
          else (FdcNoAction, upd765a_with_param v s))"
  using assms by (simp add: write_listens upd765a_command_param_def Let_def upd765a_with_param_def)

lemma writes_Cons:
  "upd765a_write_data p v s = Some (action, s') \<Longrightarrow> upd765a_writes p (v # vs) s =
     map_option (\<lambda>(actions, s). (action # actions, s)) (upd765a_writes p vs s')"
  by (cases "upd765a_writes p vs s'") auto

lemma unat_of_small: "n \<le> 9 \<Longrightarrow> unat (of_nat n :: u8) = n"
  by (simp add: unat_of_nat)

lemma writes_params:
  assumes "upd765a_listens p s" "fd_phase s = FdcCommandPhase" "length (fd_params s) = 9"
    and "fd_params_received s = of_nat k" "fd_params_expected s = of_nat (k + length ps)"
    and "ps \<noteq> []" "k + length ps \<le> 9"
  shows "upd765a_writes p ps s =
    (let (action, s') = upd765a_execute_command p
       (s\<lparr>fd_params := take k (fd_params s) @ ps @ drop (k + length ps) (fd_params s),
          fd_params_received := of_nat (k + length ps)\<rparr>)
     in Some (replicate (length ps - 1) FdcNoAction @ [action], s'))"
  using assms
proof (induction ps arbitrary: k s)
  case (Cons v ps)
  let ?s = "upd765a_with_param v s"
  have k: "unat (fd_params_received s) = k" "k < 9"
    using Cons.prems by (simp_all add: unat_of_small)
  have next_param: "fd_params_received s + 1 = of_nat (Suc k)" using Cons.prems(4) by simp
  have reached: "fd_params_received s + 1 \<ge> fd_params_expected s \<longleftrightarrow> ps = []"
  proof -
    have "unat (fd_params_received s + 1) = Suc k"
      unfolding next_param using Cons.prems(7) by (intro unat_of_small) simp
    moreover have "unat (fd_params_expected s) = Suc k + length ps"
      unfolding Cons.prems(5) using Cons.prems(7) by (subst unat_of_small) simp_all
    ultimately show ?thesis by (simp add: word_le_nat_alt)
  qed
  have params: "fd_params ?s = take k (fd_params s) @ v # drop (Suc k) (fd_params s)"
    using k Cons.prems(3) by (simp add: upd765a_with_param_def upd_conv_take_nth_drop)
  note w = write_param [OF Cons.prems(1,2), of v]
  show ?case
  proof (cases "ps = []")
    case True
    then have "?s = s\<lparr>fd_params := take k (fd_params s) @ [v] @ drop (k + 1) (fd_params s),
        fd_params_received := of_nat (k + 1)\<rparr>"
      using params k next_param by (simp add: upd765a_with_param_def)
    then show ?thesis
      using True w reached k Cons.prems(3) by (simp add: case_prod_beta Let_def)
  next
    case False
    have "upd765a_writes p ps ?s =
      (let (action, s') = upd765a_execute_command p
         (?s\<lparr>fd_params := take (Suc k) (fd_params ?s) @ ps @ drop (Suc k + length ps) (fd_params ?s),
            fd_params_received := of_nat (Suc k + length ps)\<rparr>)
       in Some (replicate (length ps - 1) FdcNoAction @ [action], s'))"
      using Cons.prems False next_param
      by (intro Cons.IH) (simp_all add: upd765a_with_param_def upd765a_listens_def)
    moreover have "take (Suc k) (fd_params ?s) @ ps @ drop (Suc k + length ps) (fd_params ?s) =
        take k (fd_params s) @ (v # ps) @ drop (k + length (v # ps)) (fd_params s)"
      using k Cons.prems(3) unfolding params by (simp add: take_Cons' add.commute)
    moreover have "?s\<lparr>fd_params := x, fd_params_received := y\<rparr> =
        s\<lparr>fd_params := x, fd_params_received := y\<rparr>" for x y
      by (simp add: upd765a_with_param_def)
    moreover obtain m where "length ps = Suc m" using False by (cases ps) auto
    ultimately show ?thesis
      using w reached False k Cons.prems(3) by (simp add: case_prod_beta Let_def)
  qed
qed simp

lemma upd765a_writes_command:
  assumes "upd765a_ok s" "fd_phase s = FdcIdle" "upd765a_listens p s"
    and "length ps = unat (CMD_PARAMS ! unat (v AND CMD_INDEX_MASK))"
  shows "upd765a_writes p (v # ps) s =
    (let (action, s') = upd765a_execute_command p (upd765a_assembled v ps s)
     in Some (replicate (length ps) FdcNoAction @ [action], s'))"
proof -
  let ?n = "CMD_PARAMS ! unat (v AND CMD_INDEX_MASK)"
  have n: "of_nat (length ps) = ?n" using assms(4) by simp
  have len: "length ps \<le> 9"
    using CMD_PARAMS_bound [of v] assms(4) by (simp add: word_le_nat_alt)
  show ?thesis
  proof (cases "ps = []")
    case True
    then show ?thesis
      using assms n by (simp add: write_listens upd765a_begin_command_def upd765a_assembled_def
          Let_def case_prod_beta)
  next
    case False
    then have "?n \<noteq> 0" using assms(4) by (metis length_0_conv unat_0)
    let ?s = "snd (upd765a_begin_command p v s)"
    have begin_command: "upd765a_begin_command p v s = (FdcNoAction, ?s)"
      using \<open>?n \<noteq> 0\<close> by (simp add: upd765a_begin_command_def Let_def)
    have run: "upd765a_writes p ps ?s =
      (let (action, s') = upd765a_execute_command p
         (?s\<lparr>fd_params := take 0 (fd_params ?s) @ ps @ drop (0 + length ps) (fd_params ?s),
            fd_params_received := of_nat (0 + length ps)\<rparr>)
       in Some (replicate (length ps - 1) FdcNoAction @ [action], s'))"
      using assms(1,3) False len n \<open>?n \<noteq> 0\<close>
      by (intro writes_params)
        (simp_all add: upd765a_begin_command_def Let_def upd765a_listens_def upd765a_ok_iff)
    have "?s\<lparr>fd_params := take 0 (fd_params ?s) @ ps @ drop (0 + length ps) (fd_params ?s),
        fd_params_received := of_nat (0 + length ps)\<rparr> = upd765a_assembled v ps s"
      using \<open>?n \<noteq> 0\<close> False n by (simp add: upd765a_begin_command_def upd765a_assembled_def Let_def)
    moreover have "upd765a_write_data p v s = Some (FdcNoAction, ?s)"
      using begin_command assms(2,3) by (simp add: write_listens)
    ultimately show ?thesis
      using run False by (cases "length ps") (simp_all add: writes_Cons case_prod_beta Let_def)
  qed
qed

text \<open>
  C22 From the idle phase, a command byte followed by as many parameters as the table
  gives for the command runs it with exactly these parameters when the last byte arrives, and
  no byte before that asks the bus for anything: byte by byte, the controller computes what
  running the assembled command in one step does.
\<close>

theorem upd765a_command_assembly:
  assumes "upd765a_ok s" "fd_phase s = FdcIdle" "upd765a_listens p s"
    and "length ps = unat (CMD_PARAMS ! unat (v AND CMD_INDEX_MASK))"
  shows "upd765a_writes p (v # ps) s =
    (let (action, s') = upd765a_execute_command p (upd765a_assembled v ps s)
     in Some (replicate (length ps) FdcNoAction @ [action], s'))"
  using assms by (rule upd765a_writes_command)

lemma upd765a_command_assembly_witness:
  "\<exists>s. upd765a_writes FdcStandard [0x0F, 0x01, 0x20] (upd765a_new FdcStandard) =
     Some ([FdcNoAction, FdcNoAction, FdcScheduleSeekInterrupt], s)"
proof -
  let ?s = "upd765a_new FdcStandard"
  have "upd765a_writes FdcStandard (0x0F # [0x01, 0x20]) ?s =
    (let (action, s') = upd765a_execute_command FdcStandard (upd765a_assembled 0x0F [0x01, 0x20] ?s)
     in Some (replicate (length [0x01, 0x20 :: u8]) FdcNoAction @ [action], s'))"
    by (rule upd765a_command_assembly [OF upd765a_new_ok])
      (simp_all add: upd765a_listens_def upd765a_new_def CMD_PARAMS_def CMD_INDEX_MASK_def)
  moreover have "fd_command (upd765a_assembled 0x0F [0x01, 0x20] ?s) = CMD_SEEK"
    by (simp add: upd765a_assembled_def Let_def fdc_consts)
  then have "fst (upd765a_execute_command FdcStandard (upd765a_assembled 0x0F [0x01, 0x20] ?s)) =
      FdcScheduleSeekInterrupt"
    by (simp add: upd765a_execute_command_def Let_def fdc_consts upd765a_seek_def upd765a_seek_done_def)
  ultimately show ?thesis by (simp add: case_prod_beta Let_def)
qed

section \<open>Seeking\<close>

text \<open>No ready line of an equipped drive has changed since it was reported.\<close>

definition upd765a_lines_quiet :: "upd765a \<Rightarrow> bool" where
  "upd765a_lines_quiet s \<longleftrightarrow>
     (fd_drive_ready_line s XOR fd_drive_ready_reported s) AND fd_drive_equipped s = 0"

lemma drive_mask_and: "(x AND drive_mask d \<noteq> 0) \<longleftrightarrow> bit x d"
  by (simp add: drive_mask_def push_bit_eq_mult and_pow2_nonzero)

lemma poll_drive_quiet:
  "upd765a_lines_quiet s \<Longrightarrow> upd765a_poll_drive d (b, s) = (b, s)"
proof -
  assume quiet: "upd765a_lines_quiet s"
  have "\<not> bit ((fd_drive_ready_line s XOR fd_drive_ready_reported s) AND fd_drive_equipped s) d"
    using quiet by (simp add: upd765a_lines_quiet_def)
  then have "(fd_drive_ready_line s XOR fd_drive_ready_reported s) AND drive_mask d = 0
      \<or> fd_drive_equipped s AND drive_mask d = 0"
    using drive_mask_and by (metis bit_and_iff)
  then show ?thesis by (auto simp: upd765a_poll_drive_def Let_def)
qed

lemma poll_quiet: "upd765a_lines_quiet s \<Longrightarrow> upd765a_poll_ready_lines s = (False, s)"
proof -
  assume quiet: "upd765a_lines_quiet s"
  have "fold upd765a_poll_drive ds (False, s) = (False, s)" for ds
    by (induction ds) (simp_all add: poll_drive_quiet [OF quiet])
  then show ?thesis by (simp add: upd765a_poll_ready_lines_def)
qed

lemma position_single:
  "i < n \<Longrightarrow> x \<noteq> 0 \<Longrightarrow> position (\<lambda>y. y \<noteq> 0) ((replicate n 0)[i := x]) = Some i"
  by (simp add: position_Some_iff nth_list_update)

lemma position_none: "position (\<lambda>y. y \<noteq> 0) (replicate n 0) = None"
  by (induction n) simp_all

lemma drive_number: "unat (us AND HD_US_DRIVE_MASK) < 4"
proof -
  have "us AND HD_US_DRIVE_MASK \<le> 3" by (simp add: HD_US_DRIVE_MASK_def word_and_le1)
  then show ?thesis by (simp add: word_le_nat_alt)
qed

definition upd765a_seek_st0 :: "u8 \<Rightarrow> u8" where
  "upd765a_seek_st0 us = ST0_SEEK_END OR (us AND HD_US_DRIVE_MASK)"

lemma seek_st0_nonzero: "upd765a_seek_st0 us \<noteq> 0"
proof -
  have "bit (upd765a_seek_st0 us) 5" by (simp add: upd765a_seek_st0_def fdc_consts bit_or_iff)
  then show ?thesis by auto
qed

text \<open>What a seek leaves: the head on its cylinder, and the status that reports it.\<close>

lemma writes_seek:
  assumes "upd765a_ok s" "fd_phase s = FdcIdle" "upd765a_listens p s" "upd765a_lines_quiet s"
    and "fd_drive_st0 s = replicate 4 0"
  obtains s' where
    "upd765a_writes p [CMD_SEEK, us, cyl] s = Some ([FdcNoAction, FdcNoAction, FdcScheduleSeekInterrupt], s')"
    and "upd765a_ok s'" "fd_phase s' = FdcIdle" "upd765a_listens p s'" "upd765a_lines_quiet s'"
    and "fd_drive_st0 s' = (replicate 4 0)[unat (us AND HD_US_DRIVE_MASK) := upd765a_seek_st0 us]"
    and "fd_drive_cylinder s' = (fd_drive_cylinder s)[unat (us AND HD_US_DRIVE_MASK) := cyl]"
proof -
  let ?a = "upd765a_assembled CMD_SEEK [us, cyl] s"
  let ?d = "unat (us AND HD_US_DRIVE_MASK)"
  define s1 where "s1 = ?a\<lparr>fd_drive_cylinder := (fd_drive_cylinder s)[?d := cyl],
    fd_drive_st0 := (fd_drive_st0 s)[?d := upd765a_seek_st0 us], fd_interrupt_pending := True,
    fd_phase := FdcIdle, fd_status := MSR_RQM OR (drive_mask ?d AND MSR_DB)\<rparr>"
  have w: "upd765a_writes p [CMD_SEEK, us, cyl] s =
    (let (action, s') = upd765a_execute_command p ?a
     in Some (replicate (length [us, cyl]) FdcNoAction @ [action], s'))"
    using assms by (intro upd765a_writes_command) (simp_all add: CMD_PARAMS_def fdc_consts)
  have quiet: "upd765a_lines_quiet s1"
    using assms(4) by (simp add: s1_def upd765a_assembled_def upd765a_lines_quiet_def)
  have "fd_command ?a = CMD_SEEK" by (simp add: upd765a_assembled_def fdc_consts)
  then have "upd765a_execute_command p ?a = upd765a_seek ?a"
    by (simp add: upd765a_execute_command_def fdc_consts)
  also have "\<dots> = (FdcScheduleSeekInterrupt, s1)"
    using poll_quiet [OF quiet]
    by (simp add: upd765a_seek_def upd765a_seek_done_def Let_def s1_def upd765a_assembled_def
        upd765a_seek_st0_def)
  finally have run: "upd765a_execute_command p ?a = (FdcScheduleSeekInterrupt, s1)" .
  have "upd765a_ok s1"
  proof -
    have "upd765a_ready ?a"
      using assms(1) by (simp add: upd765a_assembled_def upd765a_ready_iff upd765a_ok_iff)
    from execute_command_ok [OF this, of p] show ?thesis by (simp add: run)
  qed
  then show thesis
    using that [of s1] w run quiet assms(3,5)
    by (simp add: s1_def upd765a_assembled_def upd765a_listens_def)
qed

section \<open>Draining a result\<close>

fun upd765a_reads :: "fdc_platform \<Rightarrow> nat \<Rightarrow> upd765a \<Rightarrow> (u8 list \<times> upd765a) option" where
  "upd765a_reads p 0 s = Some ([], s)"
| "upd765a_reads p (Suc n) s =
     do { (v, s) \<leftarrow> upd765a_read_data p s;
          (vs, s) \<leftarrow> upd765a_reads p n s;
          Some (v # vs, s) }"

lemma any_drive_status_fields [simp]:
  "upd765a_any_drive_status (fd_result_index_update f s) = upd765a_any_drive_status s"
  "upd765a_any_drive_status (fd_phase_update g s) = upd765a_any_drive_status s"
  "upd765a_any_drive_status (fd_status_update f s) = upd765a_any_drive_status s"
  "upd765a_any_drive_status (fd_sense_interrupt_result_update h s) = upd765a_any_drive_status s"
  by (simp_all add: upd765a_any_drive_status_def)

lemma pending_interrupt_drive_fields [simp]:
  "upd765a_pending_interrupt_drive (fd_sense_interrupt_result_update h s) =
     upd765a_pending_interrupt_drive s"
  by (simp add: upd765a_pending_interrupt_drive_def)

text \<open>The idle controller after its result has been read.\<close>

definition upd765a_drained :: "upd765a \<Rightarrow> upd765a" where
  "upd765a_drained s =
     s\<lparr>fd_result_index := fd_result_count s, fd_phase := FdcIdle, fd_status := MSR_RQM,
       fd_sense_interrupt_result := False, fd_interrupt_pending := upd765a_any_drive_status s\<rparr>"

lemma read_result:
  assumes "upd765a_ok s" "fd_phase s = FdcResultPhase" "p \<noteq> FdcIsaAt" "upd765a_lines_quiet s"
    and "fd_result_index s = of_nat i" "fd_result_count s = of_nat (i + Suc n)" "i + Suc n \<le> 7"
  shows "upd765a_read_data p s = Some (fd_result s ! i,
    if n = 0 then upd765a_drained s else s\<lparr>fd_result_index := of_nat (Suc i)\<rparr>)"
proof -
  have index: "unat (fd_result_index s) = i" using assms(5,7) by (simp add: unat_of_small)
  have get: "list_get (fd_result s) i = Some (fd_result s ! i)"
    using assms(1,7) by (simp add: list_get_def upd765a_ok_iff)
  have inc: "fd_result_index s + 1 = of_nat (Suc i)" using assms(5) by simp
  have reached: "fd_result_index s + 1 \<ge> fd_result_count s \<longleftrightarrow> n = 0"
  proof -
    have "unat (of_nat (Suc i) :: u8) = Suc i" using assms(7) by (intro unat_of_small) simp
    moreover have "unat (fd_result_count s) = i + Suc n"
      using assms(6,7) by (simp add: unat_of_small del: of_nat_Suc of_nat_add)
    ultimately show ?thesis unfolding inc by (simp add: word_le_nat_alt)
  qed
  have quiet: "upd765a_poll_ready_lines (upd765a_drained s) = (False, upd765a_drained s)"
    using assms(4) by (intro poll_quiet) (simp add: upd765a_lines_quiet_def upd765a_drained_def)
  have count: "n = 0 \<Longrightarrow> fd_result_index s + 1 = fd_result_count s"
    using inc assms(6) by simp
  show ?thesis
  proof (cases "n = 0")
    case True
    have "s\<lparr>fd_result_index := fd_result_index s + 1, fd_phase := FdcIdle, fd_status := MSR_RQM,
        fd_sense_interrupt_result := False, fd_interrupt_pending := upd765a_any_drive_status s\<rparr> =
        upd765a_drained s"
      using count [OF True] by (simp add: upd765a_drained_def)
    then show ?thesis
      using assms(2,3) index get reached True quiet
      by (simp add: upd765a_read_data_def upd765a_read_data_reporting_def Let_def)
  next
    case False
    then show ?thesis
      using assms(2,3) index get reached inc
      by (simp add: upd765a_read_data_def upd765a_read_data_reporting_def Let_def add.commute)
  qed
qed

lemma reads_result:
  assumes "upd765a_ok s" "fd_phase s = FdcResultPhase" "p \<noteq> FdcIsaAt" "upd765a_lines_quiet s"
    and "fd_result_index s = of_nat i" "fd_result_count s = of_nat (i + Suc n)" "i + Suc n \<le> 7"
  shows "upd765a_reads p (Suc n) s = Some (take (Suc n) (drop i (fd_result s)), upd765a_drained s)"
  using assms
proof (induction n arbitrary: i s)
  case 0
  then have "i < length (fd_result s)" by (simp add: upd765a_ok_iff)
  then have "take 1 (drop i (fd_result s)) = [fd_result s ! i]" by (simp add: take_Suc_conv_app_nth)
  then show ?case using read_result [OF 0] by simp
next
  case (Suc n)
  let ?s = "s\<lparr>fd_result_index := of_nat (Suc i)\<rparr>"
  have step: "upd765a_read_data p s = Some (fd_result s ! i, ?s)" using read_result [OF Suc.prems] by simp
  have "(of_nat (Suc i) :: u8) < of_nat (i + Suc (Suc n))"
    using Suc.prems(7) unfolding word_less_nat_alt by (subst (1 2) unat_of_small) simp_all
  then have ok: "upd765a_ok ?s"
    using Suc.prems(1,2,6) by (simp add: upd765a_ok_iff del: of_nat_Suc of_nat_add)
  have "upd765a_reads p (Suc n) ?s = Some (take (Suc n) (drop (Suc i) (fd_result ?s)), upd765a_drained ?s)"
    using Suc.prems ok by (intro Suc.IH) (simp_all add: upd765a_lines_quiet_def)
  moreover have "upd765a_drained ?s = upd765a_drained s"
    by (simp add: upd765a_drained_def upd765a_any_drive_status_def)
  moreover have "i < length (fd_result s)" using Suc.prems(1,7) by (simp add: upd765a_ok_iff)
  ultimately show ?case
    using step by (simp del: upd765a_reads.simps(2) add: upd765a_reads.simps(2) [of p "Suc n"]
        Cons_nth_drop_Suc [symmetric])
qed

section \<open>A seek and its report\<close>

lemma writes_sense:
  assumes "upd765a_ok s" "fd_phase s = FdcIdle" "upd765a_listens p s"
  defines "a \<equiv> upd765a_assembled CMD_SENSE_INTERRUPT_STATUS [] s"
  shows "upd765a_writes p [CMD_SENSE_INTERRUPT_STATUS] s =
      Some ([FdcNoAction], upd765a_sense_interrupt_status a)"
    and "upd765a_ok (upd765a_sense_interrupt_status a)"
proof -
  have w: "upd765a_writes p [CMD_SENSE_INTERRUPT_STATUS] s =
    (let (action, s') = upd765a_execute_command p a
     in Some (replicate (length ([] :: u8 list)) FdcNoAction @ [action], s'))"
    unfolding a_def
    using assms by (intro upd765a_writes_command) (simp_all add: CMD_PARAMS_def fdc_consts)
  have "fd_command a = CMD_SENSE_INTERRUPT_STATUS"
    by (simp add: a_def upd765a_assembled_def fdc_consts)
  then show "upd765a_writes p [CMD_SENSE_INTERRUPT_STATUS] s =
      Some ([FdcNoAction], upd765a_sense_interrupt_status a)"
    using w by (simp add: upd765a_execute_command_def fdc_consts)
  have "upd765a_ready a"
    using assms(1) by (simp add: a_def upd765a_assembled_def upd765a_ready_iff upd765a_ok_iff)
  then show "upd765a_ok (upd765a_sense_interrupt_status a)" by (rule sense_interrupt_ok)
qed

lemma two_results: "upd765a_ok s \<Longrightarrow> take 2 ((fd_result s)[0 := x, 1 := y]) = [x, y]"
proof -
  assume "upd765a_ok s"
  then obtain a b rest where "fd_result s = a # b # rest"
    by (auto simp: upd765a_ok_iff eval_nat_numeral length_Suc_conv)
  then show ?thesis by simp
qed

lemma upd765a_sense_pending:
  assumes "upd765a_ok s" "fd_phase s = FdcIdle" "upd765a_listens p s" "upd765a_lines_quiet s"
    and "d < 4" "st0 \<noteq> 0" "fd_drive_st0 s = (replicate 4 0)[d := st0]"
  obtains s' where
    "upd765a_writes p [CMD_SENSE_INTERRUPT_STATUS] s = Some ([FdcNoAction], s')"
    and "upd765a_reads p 2 s' = Some ([st0, fd_drive_cylinder s ! d], upd765a_drained s')"
    and "upd765a_ok s'" "fd_drive_st0 s' = replicate 4 0" "fd_drive_cylinder s' = fd_drive_cylinder s"
    and "upd765a_lines_quiet s'" "upd765a_listens p s'"
proof -
  define a where "a = upd765a_assembled CMD_SENSE_INTERRUPT_STATUS [] s"
  note a = a_def upd765a_assembled_def
  let ?s = "upd765a_sense_interrupt_status a"
  have w: "upd765a_writes p [CMD_SENSE_INTERRUPT_STATUS] s = Some ([FdcNoAction], ?s)"
    and ok: "upd765a_ok ?s"
    using writes_sense [OF assms(1-3)] by (simp_all add: a_def)
  have pending: "upd765a_pending_interrupt_drive a = Some d"
    using assms(5-7) position_single [of d 4 st0]
    by (simp add: upd765a_pending_interrupt_drive_def a)
  have sense: "?s = upd765a_enter_result 2 (a\<lparr>fd_sense_interrupt_result := True,
      fd_result := (fd_result a)[0 := fd_drive_st0 a ! d, 1 := fd_drive_cylinder a ! d],
      fd_drive_st0 := (fd_drive_st0 a)[d := 0],
      fd_status := fd_status a AND NOT (drive_mask d),
      fd_interrupt_pending := upd765a_any_drive_status (a\<lparr>fd_drive_st0 := (fd_drive_st0 a)[d := 0]\<rparr>)\<rparr>)"
    by (simp add: upd765a_sense_interrupt_status_def Let_def pending upd765a_any_drive_status_def)
  have fields: "fd_drive_st0 ?s = replicate 4 0" "fd_drive_cylinder ?s = fd_drive_cylinder s"
    "upd765a_lines_quiet ?s" "upd765a_listens p ?s" "fd_phase ?s = FdcResultPhase"
    "fd_result_index ?s = of_nat 0" "fd_result_count ?s = of_nat (0 + Suc 1)"
    "fd_result ?s = (fd_result s)[0 := st0, 1 := fd_drive_cylinder s ! d]"
    unfolding sense using assms(3-5,7) list_update_same_conv [of d "replicate 4 (0 :: u8)" 0]
    by (simp_all add: upd765a_enter_result_def a upd765a_lines_quiet_def upd765a_listens_def)
  have "p \<noteq> FdcIsaAt" using assms(3) by (auto simp: upd765a_listens_def)
  from reads_result [OF ok fields(5) this fields(3,6,7)]
  have "upd765a_reads p 2 ?s = Some (take 2 (fd_result ?s), upd765a_drained ?s)"
    by (simp add: numeral_2_eq_2)
  then show thesis
    using that [of ?s] w ok fields two_results [OF assms(1)] by simp
qed

lemma upd765a_sense_nothing:
  assumes "upd765a_ok s" "fd_phase s = FdcIdle" "upd765a_listens p s" "upd765a_lines_quiet s"
    and "fd_drive_st0 s = replicate 4 0"
  obtains s' where
    "upd765a_writes p [CMD_SENSE_INTERRUPT_STATUS] s = Some ([FdcNoAction], s')"
    and "upd765a_reads p 1 s' = Some ([ST0_INVALID_COMMAND], upd765a_drained s')"
proof -
  define a where "a = upd765a_assembled CMD_SENSE_INTERRUPT_STATUS [] s"
  note a = a_def upd765a_assembled_def
  let ?s = "upd765a_sense_interrupt_status a"
  have w: "upd765a_writes p [CMD_SENSE_INTERRUPT_STATUS] s = Some ([FdcNoAction], ?s)"
    and ok: "upd765a_ok ?s"
    using writes_sense [OF assms(1-3)] by (simp_all add: a_def)
  have pending: "upd765a_pending_interrupt_drive a = None"
    using assms(5) position_none [of 4] by (simp add: upd765a_pending_interrupt_drive_def a)
  have fields: "fd_phase ?s = FdcResultPhase" "upd765a_lines_quiet ?s" "fd_result_index ?s = of_nat 0"
    "fd_result_count ?s = of_nat (0 + Suc 0)" "fd_result ?s = (fd_result s)[0 := ST0_INVALID_COMMAND]"
    using assms(4)
    by (simp_all add: upd765a_sense_interrupt_status_def pending)
      (simp_all add: upd765a_enter_result_def a upd765a_lines_quiet_def)
  have "p \<noteq> FdcIsaAt" using assms(3) by (auto simp: upd765a_listens_def)
  from reads_result [OF ok fields(1) this fields(2,3,4)]
  have "upd765a_reads p 1 ?s = Some (take 1 (fd_result ?s), upd765a_drained ?s)" by simp
  moreover have "take 1 (fd_result ?s) = [ST0_INVALID_COMMAND]"
    using assms(1) unfolding fields(5)
    by (cases "fd_result s") (auto simp: upd765a_ok_iff)
  ultimately show thesis using that [of ?s] w by simp
qed

text \<open>
  C23 A SEEK that finds the controller idle moves the head of its drive to the cylinder
  and asks the bus for the delayed interrupt; SENSE INTERRUPT STATUS then reports exactly this
  drive with Seek End and the cylinder, after which the controller is idle, its interrupt is
  released, and a further SENSE INTERRUPT STATUS finds nothing to report.
\<close>

theorem upd765a_seek_reported:
  assumes "upd765a_ok s" "fd_phase s = FdcIdle" "upd765a_listens p s" "upd765a_lines_quiet s"
    and "fd_drive_st0 s = replicate 4 0"
  shows "\<exists>s1 s2 s3 s4 s5.
      upd765a_writes p [CMD_SEEK, us, cyl] s =
        Some ([FdcNoAction, FdcNoAction, FdcScheduleSeekInterrupt], s1)
    \<and> upd765a_writes p [CMD_SENSE_INTERRUPT_STATUS] s1 = Some ([FdcNoAction], s2)
    \<and> upd765a_reads p 2 s2 = Some ([ST0_SEEK_END OR (us AND HD_US_DRIVE_MASK), cyl], s3)
    \<and> fd_phase s3 = FdcIdle \<and> \<not> fd_interrupt_pending s3
    \<and> fd_drive_cylinder s3 = (fd_drive_cylinder s)[unat (us AND HD_US_DRIVE_MASK) := cyl]
    \<and> upd765a_writes p [CMD_SENSE_INTERRUPT_STATUS] s3 = Some ([FdcNoAction], s4)
    \<and> upd765a_reads p 1 s4 = Some ([ST0_INVALID_COMMAND], s5)"
proof -
  let ?d = "unat (us AND HD_US_DRIVE_MASK)"
  obtain s1 where s1: "upd765a_writes p [CMD_SEEK, us, cyl] s =
      Some ([FdcNoAction, FdcNoAction, FdcScheduleSeekInterrupt], s1)"
    and ok1: "upd765a_ok s1" "fd_phase s1 = FdcIdle" "upd765a_listens p s1" "upd765a_lines_quiet s1"
    and st1: "fd_drive_st0 s1 = (replicate 4 0)[?d := upd765a_seek_st0 us]"
    and cyl1: "fd_drive_cylinder s1 = (fd_drive_cylinder s)[?d := cyl]"
    using writes_seek [OF assms] by blast
  obtain s2 where s2: "upd765a_writes p [CMD_SENSE_INTERRUPT_STATUS] s1 = Some ([FdcNoAction], s2)"
    "upd765a_reads p 2 s2 = Some ([upd765a_seek_st0 us, fd_drive_cylinder s1 ! ?d], upd765a_drained s2)"
    and ok2: "upd765a_ok s2" "fd_drive_st0 s2 = replicate 4 0" "fd_drive_cylinder s2 = fd_drive_cylinder s1"
    and quiet2: "upd765a_lines_quiet s2" "upd765a_listens p s2"
    using upd765a_sense_pending [OF ok1 drive_number seek_st0_nonzero st1] by blast
  have at: "fd_drive_cylinder s1 ! ?d = cyl"
    using assms(1) drive_number [of us] by (simp add: cyl1 upd765a_ok_iff)
  let ?s3 = "upd765a_drained s2"
  have s3: "upd765a_ok ?s3" "fd_phase ?s3 = FdcIdle" "upd765a_listens p ?s3" "upd765a_lines_quiet ?s3"
    "fd_drive_st0 ?s3 = replicate 4 0" "\<not> fd_interrupt_pending ?s3" "fd_drive_cylinder ?s3 = fd_drive_cylinder s1"
    using ok2 quiet2
    by (simp_all add: upd765a_drained_def upd765a_ok_iff upd765a_listens_def upd765a_lines_quiet_def
        upd765a_any_drive_status_def list_ex_iff)
  obtain s4 where s4: "upd765a_writes p [CMD_SENSE_INTERRUPT_STATUS] ?s3 = Some ([FdcNoAction], s4)"
    "upd765a_reads p 1 s4 = Some ([ST0_INVALID_COMMAND], upd765a_drained s4)"
    using upd765a_sense_nothing [OF s3(1-5)] by blast
  show ?thesis
    using s1 s2(1) s2(2) [unfolded at upd765a_seek_st0_def] s3(2,6) s3(7) [unfolded cyl1] s4 by blast
qed

lemma upd765a_seek_reported_witness:
  "\<exists>s1 s2 s3. upd765a_writes FdcX68k [CMD_SEEK, 0x05, 0x27] (upd765a_new FdcX68k) =
        Some ([FdcNoAction, FdcNoAction, FdcScheduleSeekInterrupt], s1)
    \<and> upd765a_writes FdcX68k [CMD_SENSE_INTERRUPT_STATUS] s1 = Some ([FdcNoAction], s2)
    \<and> upd765a_reads FdcX68k 2 s2 = Some ([0x21, 0x27], s3)"
proof -
  have "upd765a_listens FdcX68k (upd765a_new FdcX68k)" "upd765a_lines_quiet (upd765a_new FdcX68k)"
    "fd_phase (upd765a_new FdcX68k) = FdcIdle" "fd_drive_st0 (upd765a_new FdcX68k) = replicate 4 0"
    by (simp_all add: upd765a_listens_def upd765a_lines_quiet_def upd765a_new_def)
  from upd765a_seek_reported [OF upd765a_new_ok this(3,1,2,4), of "0x05" "0x27"]
  show ?thesis by (auto simp: fdc_consts)
qed

section \<open>States that cannot continue\<close>

text \<open>
  \<open>validate_runtime_state\<close> accepts a command phase with every parameter received and a result
  phase with every byte read. No operation leaves the controller there, but a restored state
  can be such a one; the next access to the data register then runs past the array.
\<close>

theorem upd765a_validated_position_panics:
  defines "filled \<equiv> (upd765a_new FdcStandard)\<lparr>fd_phase := FdcCommandPhase,
      fd_params_expected := 9, fd_params_received := 9\<rparr>"
    and "drained \<equiv> (upd765a_new FdcStandard)\<lparr>fd_phase := FdcResultPhase,
      fd_result_count := 7, fd_result_index := 7\<rparr>"
  shows "upd765a_validate_runtime_state filled \<and> upd765a_write_data FdcStandard v filled = None"
    and "upd765a_validate_runtime_state drained \<and> upd765a_read_data FdcStandard drained = None"
  by (simp_all add: filled_def drained_def upd765a_new_def upd765a_validate_runtime_state_def
      upd765a_write_data_def upd765a_command_param_def upd765a_read_data_def
      upd765a_read_data_reporting_def list_get_def)

end
