(* ===== verification/Pc88_Fdc_Properties.thy ===== *)
theory Pc88_Fdc_Properties
  imports Pc88_Fdc_Invariant Upd765a_Properties
begin

text \<open>
  Properties of the disk unit's floppy side: over any sequence of port accesses, events and disk
  changes it panics in one case only, named exactly; a READ DATA command delivers the sectors it names, byte for byte, and
  ends in the result phase; the status of a drive never shows write protection.
\<close>

section \<open>Reachable states\<close>

inductive pc88_fdc_reachable :: "pc88_fdc \<Rightarrow> bool" where
  reach_new: "pc88_fdc_reachable (pc88_fdc_new main_clock_hz)"
| reach_read: "pc88_fdc_reachable s \<Longrightarrow> pc88_read_fdc_data now s = Some (v, s') \<Longrightarrow> pc88_fdc_reachable s'"
| reach_write: "pc88_fdc_reachable s \<Longrightarrow> pc88_write_fdc_data now mode v s = Some s' \<Longrightarrow> pc88_fdc_reachable s'"
| reach_tc: "pc88_fdc_reachable s \<Longrightarrow> pc88_assert_fdc_terminal_count now s = Some s' \<Longrightarrow> pc88_fdc_reachable s'"
| reach_motor: "pc88_fdc_reachable s \<Longrightarrow> pc88_fdc_reachable (pc88_force_ready s)"
| reach_event: "pc88_fdc_reachable s \<Longrightarrow> pc88_fdc_reachable (pc88_fdc_event e s)"
| reach_insert: "pc88_fdc_reachable s \<Longrightarrow> d88_fits img \<Longrightarrow> pc88_insert_floppy drive img backing s = Some s'
    \<Longrightarrow> pc88_fdc_reachable s'"
| reach_eject: "pc88_fdc_reachable s \<Longrightarrow> pc88_eject_floppy drive s = Some s' \<Longrightarrow> pc88_fdc_reachable s'"
| reach_flush: "pc88_fdc_reachable s \<Longrightarrow> pc88_flush_floppies s = Some (ok, s') \<Longrightarrow> pc88_fdc_reachable s'"

lemma host_drive_number:
  assumes "fdc_sound s"
  shows "pc88_eject_floppy drive s \<noteq> None \<Longrightarrow> drive < 4" "pc88_insert_floppy drive img backing s \<noteq> None \<Longrightarrow> drive < 4"
  using assms
  by (auto simp: pc88_eject_floppy_def pc88_insert_floppy_def floppy_insert_drive_backed_def
      floppy_eject_drive_def fdc_inv_simps split: if_splits)

lemma fdc_new_sound: "fdc_sound (pc88_fdc_new hz)"
  by (simp add: fdc_inv_def) (simp add: pc88_fdc_new_def drives_fit_def)

lemma fdc_reachable_sound: "pc88_fdc_reachable s \<Longrightarrow> fdc_sound s"
proof (induction rule: pc88_fdc_reachable.induct)
  case (reach_read s now v s')
  then show ?case using read_fdc_data_returns [of drives_fit s now] by auto
next
  case (reach_write s now mode v s')
  then show ?case using write_fdc_data_unless [of s now mode v] by (simp add: fdc_unless_def)
next
  case (reach_tc s now s')
  then show ?case using terminal_count_unless [of s now] by (simp add: fdc_unless_def)
next
  case (reach_insert s img drive backing s')
  then show ?case
    using host_returns(2) [of s drive img backing] host_drive_number(2) [of s drive img backing]
    by (simp add: fdc_returns_def)
next
  case (reach_eject s drive s')
  then show ?case
    using host_returns(1) [of s drive] host_drive_number(1) [of s drive] by (simp add: fdc_returns_def)
next
  case (reach_flush s ok s')
  then show ?case using host_returns(3) [of s 0] by auto
qed (auto intro: force_ready_ok fdc_event_ok fdc_new_sound)


text \<open>A host file that takes every write, and a disk mounted on it.\<close>

primcorec disk_file_good :: disk_file where
  "file_write_at disk_file_good = (\<lambda>offset bytes. (True, disk_file_good))"
| "file_replace_atomic disk_file_good = (\<lambda>bytes. (True, disk_file_good))"
| "file_flush disk_file_good = (True, disk_file_good)"


section \<open>Sending a command\<close>

fun pc88_fdc_writes :: "u64 \<Rightarrow> u8 \<Rightarrow> u8 list \<Rightarrow> pc88_fdc \<Rightarrow> pc88_fdc option" where
  "pc88_fdc_writes now mode [] s = Some s"
| "pc88_fdc_writes now mode (b # bs) s =
     Option.bind (pc88_write_fdc_data now mode b s) (pc88_fdc_writes now mode bs)"

lemma result_phases [simp]:
  "fd_phase (upd765a_enter_result n s) = FdcResultPhase"
  "fd_phase (upd765a_complete_error x a b s) = FdcResultPhase"
  "fd_phase (upd765a_sense_drive_status p s) = FdcResultPhase"
  "fd_phase (upd765a_sense_interrupt_status s) = FdcResultPhase"
  "fd_phase (upd765a_invalid_command s) = FdcResultPhase"
proof -
  show result: "fd_phase (upd765a_enter_result n s) = FdcResultPhase" for n s
    by (simp add: upd765a_enter_result_def)
  show "fd_phase (upd765a_complete_error x a b s) = FdcResultPhase"
    "fd_phase (upd765a_sense_drive_status p s) = FdcResultPhase"
    "fd_phase (upd765a_invalid_command s) = FdcResultPhase"
    "fd_phase (upd765a_sense_interrupt_status s) = FdcResultPhase"
    by (simp_all add: upd765a_complete_error_def upd765a_data_result_def upd765a_sense_drive_status_def
        upd765a_invalid_command_def upd765a_sense_interrupt_status_def Let_def result split: option.split)
qed

lemma specify_phase [simp]: "fd_phase (snd (upd765a_specify s)) = FdcIdle"
  by (simp add: upd765a_specify_def Let_def case_prod_beta)

lemma seeks_not_silent [simp]:
  "fst (upd765a_recalibrate p s) = FdcScheduleSeekInterrupt"
  "fst (upd765a_seek s) = FdcScheduleSeekInterrupt"
  by (simp_all add: upd765a_recalibrate_def upd765a_seek_def upd765a_seek_done_def Let_def)

definition fdc_silent :: "fdc_action \<times> upd765a \<Rightarrow> bool" where
  "fdc_silent r \<longleftrightarrow> (fst r = FdcNoAction \<longrightarrow> fd_phase (snd r) \<noteq> FdcExecution)"

lemma fdc_silent_if: "fdc_silent x \<Longrightarrow> fdc_silent y \<Longrightarrow> fdc_silent (if b then x else y)"
  by simp

lemma silent_command: "fdc_silent (upd765a_execute_command FdcStandard s)"
  unfolding upd765a_execute_command_def Let_def
  by (intro fdc_silent_if) (simp_all add: fdc_silent_def upd765a_scan_def Let_def)

lemma silent_write_phase:
  assumes "upd765a_write_data FdcStandard v s = Some (FdcNoAction, s')" "fd_phase s \<noteq> FdcExecution"
  shows "fd_phase s' \<noteq> FdcExecution"
proof -
  have silent: "fd_phase s' \<noteq> FdcExecution"
    if "upd765a_execute_command FdcStandard t = (FdcNoAction, s')" for t
    using silent_command [of t] that by (simp add: fdc_silent_def)
  show ?thesis
    using assms silent
    by (auto simp: upd765a_write_data_def upd765a_begin_command_def upd765a_command_param_def Let_def
        split: fdc_phase.splits if_splits)
qed

lemma pc88_writes_command:
  assumes "upd765a_writes FdcStandard bs (pf_fdc s) = Some (replicate k FdcNoAction @ [action], f)"
    and "length bs = Suc k" "fd_phase (pf_fdc s) \<noteq> FdcExecution"
  shows "pc88_fdc_writes now mode bs s = pc88_on_fdc_action now mode action (s\<lparr>pf_fdc := f\<rparr>)"
  using assms
proof (induction bs arbitrary: s k)
  case (Cons b bs)
  obtain act g acts where w: "upd765a_write_data FdcStandard b (pf_fdc s) = Some (act, g)"
    and rest: "upd765a_writes FdcStandard bs g = Some (acts, f)"
    and acts: "replicate k FdcNoAction @ [action] = act # acts"
    using Cons.prems(1) by (auto simp: bind_eq_Some_conv)
  have idle: "\<not> upd765a_pio_active (pf_fdc s)" using Cons.prems(3) by (simp add: upd765a_pio_active_def)
  then have step: "pc88_write_fdc_data now mode b s = pc88_on_fdc_action now mode act (s\<lparr>pf_fdc := g\<rparr>)"
    using w by (simp add: pc88_write_fdc_data_def Let_def)
  show ?case
  proof (cases k)
    case 0
    then have "bs = []" "act = action" "f = g" using Cons.prems(2) acts rest by auto
    then show ?thesis
      using step by (cases "pc88_on_fdc_action now mode action (s\<lparr>pf_fdc := g\<rparr>)") auto
  next
    case (Suc j)
    then have act: "act = FdcNoAction" "acts = replicate j FdcNoAction @ [action]" using acts by auto
    have "fd_phase g \<noteq> FdcExecution"
      using silent_write_phase [of b "pf_fdc s" g] w act(1) Cons.prems(3) by simp
    then have "pc88_fdc_writes now mode bs (s\<lparr>pf_fdc := g\<rparr>) =
        pc88_on_fdc_action now mode action (s\<lparr>pf_fdc := g\<rparr>\<lparr>pf_fdc := f\<rparr>)"
      using rest act(2) Cons.prems(2) Suc by (intro Cons.IH) auto
    then show ?thesis using step act(1) by (simp add: pc88_on_fdc_action_def)
  qed
qed simp

section \<open>A read transfer\<close>

text \<open>
  The host's side of a transfer: for each byte the byte's DRQ event, and then a read of the
  data register, at the main clocks given by the list.
\<close>

fun pc88_transfer :: "u64 list \<Rightarrow> pc88_fdc \<Rightarrow> (u8 list \<times> pc88_fdc) option" where
  "pc88_transfer [] s = Some ([], s)"
| "pc88_transfer (now # clks) s =
     do { (v, s) \<leftarrow> pc88_read_fdc_data now (pc88_fdc_event FdcDrqByte s);
          (vs, s) \<leftarrow> pc88_transfer clks s;
          Some (v # vs, s) }"

text \<open>What a READ DATA command fixes: the drives, the head position and the parameters.\<close>

record read_request =
  rq_drives :: drives
  rq_cylinder :: "u8 list"
  rq_us :: u8
  rq_c :: u8
  rq_h :: u8
  rq_n :: u8
  rq_eot :: u8

definition rq_matches :: "read_request \<Rightarrow> pc88_fdc \<Rightarrow> bool" where
  "rq_matches q s \<longleftrightarrow> pf_drives s = rq_drives q \<and> pc8801_valid (pf_scheduler s)
     \<and> fd_drive_cylinder (pf_fdc s) = rq_cylinder q \<and> fd_hd_us (pf_fdc s) = rq_us q
     \<and> fd_c (pf_fdc s) = rq_c q \<and> fd_h (pf_fdc s) = rq_h q \<and> fd_n (pf_fdc s) = rq_n q
     \<and> fd_eot (pf_fdc s) = rq_eot q \<and> \<not> fd_mt (pf_fdc s) \<and> \<not> fd_exec_dma (pf_fdc s)"

definition rq_sector :: "read_request \<Rightarrow> u8 \<Rightarrow> u8 list option" where
  "rq_sector q r =
     (let drive = unat (rq_us q AND HD_US_DRIVE_MASK);
          head = unat (drop_bit HD_US_HEAD_SHIFT (rq_us q) AND 1)
      in floppy_read_sector_data drive (unat (rq_cylinder q ! drive) * 2 + head)
           (rq_c q) (rq_h q) r (rq_n q) (rq_drives q))"

lemma load_sector_rq:
  assumes "rq_matches q s"
  shows "pc88_load_current_read_sector (upd765a_current_drive (pf_fdc s)) s =
    (case rq_sector q (fd_r (pf_fdc s)) of
       Some sector \<Rightarrow> (True, pf_update (upd765a_begin_pio_read sector) s) | None \<Rightarrow> (False, s))"
  using assms
  by (simp add: pc88_load_current_read_sector_def rq_matches_def rq_sector_def Let_def
      upd765a_current_drive_def upd765a_current_track_index_def upd765a_head_def)

text \<open>In the middle of a transfer: \<open>i\<close> bytes of the sector \<open>d\<close> are read, the sectors \<open>ds\<close> follow.\<close>

definition rq_reading :: "read_request \<Rightarrow> u8 list \<Rightarrow> nat \<Rightarrow> u8 list list \<Rightarrow> pc88_fdc \<Rightarrow> bool" where
  "rq_reading q d i ds s \<longleftrightarrow> rq_matches q s
     \<and> fd_phase (pf_fdc s) = FdcExecution \<and> fd_exec_pio (pf_fdc s) \<and> fd_exec_reading (pf_fdc s)
     \<and> fd_exec_buf (pf_fdc s) = d \<and> fd_exec_len (pf_fdc s) = length d
     \<and> fd_exec_index (pf_fdc s) = i \<and> i \<le> length d
     \<and> unat (fd_r (pf_fdc s)) + length ds = unat (rq_eot q)
     \<and> (\<forall>k<length ds. ds ! k \<noteq> [] \<and> rq_sector q (fd_r (pf_fdc s) + of_nat (Suc k)) = Some (ds ! k))"

definition rq_finished :: "read_request \<Rightarrow> pc88_fdc \<Rightarrow> bool" where
  "rq_finished q s \<longleftrightarrow> pf_drives s = rq_drives q \<and> fd_phase (pf_fdc s) = FdcResultPhase
     \<and> fd_result (pf_fdc s) = [rq_us q AND 0x07, 0, 0, rq_c q, rq_h q, rq_eot q, rq_n q]
     \<and> fd_result_index (pf_fdc s) = 0 \<and> fd_result_count (pf_fdc s) = 7
     \<and> fd_interrupt_pending (pf_fdc s)"

lemma head_drive_bits: "push_bit 2 (drop_bit 2 us AND 1) OR (us AND 3) = us AND (7 :: u8)"
  by (simp add: u8_eq_iff bit_or_iff bit_and_iff bit_push_bit_iff bit_drop_bit_eq)

text \<open>After the event, the current sector has a byte to serve and RQM is set.\<close>

lemma drq_in_sector:
  assumes "rq_reading q d i ds s" "i < length d"
  shows "rq_reading q d i ds (pc88_fdc_event FdcDrqByte s)"
    and "fd_status (pf_fdc (pc88_fdc_event FdcDrqByte s)) AND MSR_RQM \<noteq> 0"
proof -
  have event: "pc88_fdc_event FdcDrqByte s = pf_update (\<lambda>f. f\<lparr>fd_status := fd_status f OR MSR_RQM\<rparr>) s"
    using assms
    by (simp add: pc88_fdc_event_def pc88_on_fdc_drq_byte_def upd765a_pio_sector_done_def Let_def
        rq_reading_def pf_update_def upd765a_pio_release_byte_def)
  show "rq_reading q d i ds (pc88_fdc_event FdcDrqByte s)"
    using assms(1) unfolding event by (simp add: rq_reading_def rq_matches_def pf_update_def)
  have "bit ((fd_status (pf_fdc s) OR MSR_RQM) AND MSR_RQM) 7"
    by (simp add: bit_and_iff bit_or_iff MSR_RQM_def)
  then show "fd_status (pf_fdc (pc88_fdc_event FdcDrqByte s)) AND MSR_RQM \<noteq> 0"
    unfolding event by (auto simp: pf_update_def)
qed

lemma drq_next_sector:
  assumes "rq_reading q d (length d) (d' # ds) s"
  shows "rq_reading q d' 0 ds (pc88_fdc_event FdcDrqByte s)"
    and "fd_status (pf_fdc (pc88_fdc_event FdcDrqByte s)) AND MSR_RQM \<noteq> 0"
proof -
  let ?f = "pf_fdc s"
  define t where "t = s\<lparr>pf_fdc := ?f\<lparr>fd_r := fd_r ?f + 1\<rparr>\<rparr>"
  have r: "fd_r ?f \<noteq> fd_eot ?f" "unat (fd_r ?f + 1) = Suc (unat (fd_r ?f))"
  proof -
    have lt: "unat (fd_r ?f) < unat (rq_eot q)" using assms by (simp add: rq_reading_def)
    then show "fd_r ?f \<noteq> fd_eot ?f" using assms by (auto simp: rq_reading_def rq_matches_def)
    show "unat (fd_r ?f + 1) = Suc (unat (fd_r ?f))"
      using lt unat_u8_less [of "rq_eot q"] by (simp add: unat_word_ariths)
  qed
  have match: "rq_matches q t" using assms by (simp add: t_def rq_reading_def rq_matches_def)
  have sector: "rq_sector q (fd_r (pf_fdc t)) = Some d'" and more: "d' \<noteq> []"
    and later: "\<And>k. k < length ds \<Longrightarrow> ds ! k \<noteq> [] \<and> rq_sector q (fd_r (pf_fdc t) + of_nat (Suc k)) = Some (ds ! k)"
  proof -
    have all: "(d' # ds) ! k \<noteq> [] \<and> rq_sector q (fd_r ?f + of_nat (Suc k)) = Some ((d' # ds) ! k)"
      if "k < Suc (length ds)" for k
      using assms that by (simp add: rq_reading_def del: of_nat_Suc)
    show "rq_sector q (fd_r (pf_fdc t)) = Some d'" "d' \<noteq> []" using all [of 0] by (simp_all add: t_def)
    show "ds ! k \<noteq> [] \<and> rq_sector q (fd_r (pf_fdc t) + of_nat (Suc k)) = Some (ds ! k)"
      if "k < length ds" for k
      using all [of "Suc k"] that by (simp add: t_def add.assoc)
  qed
  have advance: "pc88_advance_pio_read s = pf_update (upd765a_begin_pio_read d') t"
    using load_sector_rq [OF match] sector r(1)
    by (simp add: pc88_advance_pio_read_def upd765a_advance_sector_def Let_def t_def)
  have event: "pc88_fdc_event FdcDrqByte s =
      pf_update (\<lambda>f. (upd765a_begin_pio_read d' f)\<lparr>fd_status := (MSR_DIO OR MSR_EXM OR MSR_CB) OR MSR_RQM\<rparr>) t"
    using assms more advance
    by (simp add: pc88_fdc_event_def pc88_on_fdc_drq_byte_def upd765a_pio_sector_done_def Let_def
        rq_reading_def upd765a_pio_active_def pf_update_def upd765a_pio_release_byte_def
        upd765a_begin_pio_read_def)
  have "unat (fd_r (pf_fdc t)) + length ds = unat (rq_eot q)"
    using assms r(2) by (simp add: t_def rq_reading_def)
  then show "rq_reading q d' 0 ds (pc88_fdc_event FdcDrqByte s)"
    using match later unfolding event
    by (simp add: rq_reading_def rq_matches_def pf_update_def upd765a_begin_pio_read_def del: of_nat_Suc)
  show "fd_status (pf_fdc (pc88_fdc_event FdcDrqByte s)) AND MSR_RQM \<noteq> 0"
    unfolding event by (simp add: pf_update_def fdc_consts)
qed

lemma schedule_drq_rq:
  assumes "rq_reading q d i ds s"
  obtains s' where "pc88_schedule_drq_byte now s = Some s'" "rq_reading q d i ds s'"
proof -
  obtain p where "pc8801_scheduler_schedule FdcDrqByte (now + pf_drq_byte_cycles s) (pf_scheduler s) = Some p"
    "pc8801_valid p"
    using pc8801.schedule_law [of "pf_scheduler s" FdcDrqByte "now + pf_drq_byte_cycles s"] assms
    by (auto simp: rq_reading_def rq_matches_def)
  then show thesis
    using that assms
    by (simp add: pc88_schedule_drq_byte_def pc88_fdc_schedule_def pc88_update_next_event_cycle_def
        rq_reading_def rq_matches_def)
qed

lemma read_in_sector:
  assumes "rq_reading q d i ds s" "i < length d" "fd_status (pf_fdc s) AND MSR_RQM \<noteq> 0"
  obtains s' where "pc88_read_fdc_data now s = Some (d ! i, s')"
    and "if Suc i = length d \<and> ds = [] then rq_finished q s' else rq_reading q d (Suc i) ds s'"
proof -
  let ?f = "(pf_fdc s)\<lparr>fd_exec_index := Suc i, fd_status := MSR_DIO OR MSR_EXM OR MSR_CB\<rparr>"
  let ?s = "s\<lparr>pf_fdc := ?f\<rparr>"
  have read: "upd765a_read_data FdcStandard (pf_fdc s) = Some (d ! i, ?f)"
    using assms
    by (simp add: rq_reading_def rq_matches_def upd765a_read_data_def upd765a_read_data_reporting_def
        upd765a_exec_byte_def list_get_def Let_def)
  have reading: "rq_reading q d (Suc i) ds ?s"
    using assms(1,2) by (simp add: rq_reading_def rq_matches_def)
  have active: "upd765a_pio_active ?f" "fd_exec_reading ?f"
    using assms(1) by (simp_all add: rq_reading_def upd765a_pio_active_def)
  have last: "upd765a_at_last_sector ?f \<longleftrightarrow> ds = []"
    using assms(1) by (auto simp: rq_reading_def rq_matches_def upd765a_at_last_sector_def word_unat_eq_iff)
  have empty: "upd765a_pio_sector_done ?f \<longleftrightarrow> Suc i = length d"
    using assms(1,2) by (auto simp: rq_reading_def upd765a_pio_sector_done_def)
  show thesis
  proof (cases "Suc i = length d \<and> ds = []")
    case True
    then have r: "fd_r (pf_fdc s) = rq_eot q"
      using assms(1) by (simp add: rq_reading_def word_unat_eq_iff)
    have "rq_finished q (pf_update upd765a_complete_success ?s)"
      using assms(1) r head_drive_bits [of "rq_us q"]
      by (simp add: rq_finished_def pf_update_def upd765a_complete_success_def rq_reading_def rq_matches_def
          upd765a_complete_success_with_status_def upd765a_data_result_def upd765a_enter_result_def
          upd765a_head_drive_def upd765a_head_def HD_US_HEAD_SHIFT_def HD_US_DRIVE_MASK_def)
    then show thesis
      using that [of "pf_update upd765a_complete_success ?s"] True read active last empty
      by (simp add: pc88_read_fdc_data_def Let_def)
  next
    case False
    obtain s' where "pc88_schedule_drq_byte now ?s = Some s'" "rq_reading q d (Suc i) ds s'"
      using schedule_drq_rq [OF reading, of now] by blast
    then show thesis
      using that [of s'] False read active last empty
      by (auto simp: pc88_read_fdc_data_def Let_def)
  qed
qed

lemma transfer_reading:
  assumes "rq_reading q d i ds s" "length clks = length (drop i d @ concat ds)" "clks \<noteq> []"
  shows "\<exists>s'. pc88_transfer clks s = Some (drop i d @ concat ds, s') \<and> rq_finished q s'"
  using assms
proof (induction clks arbitrary: d i ds s)
  case (Cons now clks)
  obtain d1 i1 ds1 where at: "rq_reading q d1 i1 ds1 (pc88_fdc_event FdcDrqByte s)" "i1 < length d1"
    and rqm: "fd_status (pf_fdc (pc88_fdc_event FdcDrqByte s)) AND MSR_RQM \<noteq> 0"
    and bytes: "drop i1 d1 @ concat ds1 = drop i d @ concat ds"
  proof (cases "i < length d")
    case True
    then show thesis using that [of d i ds] drq_in_sector [OF Cons.prems(1)] by simp
  next
    case False
    then have i: "i = length d" using Cons.prems(1) by (simp add: rq_reading_def)
    then have "length (concat ds) = Suc (length clks)" using Cons.prems(2) by simp
    then obtain d' ds' where ds: "ds = d' # ds'" by (cases ds) simp_all
    have "d' \<noteq> []" using Cons.prems(1) by (auto simp: rq_reading_def ds)
    then show thesis
      using that [of d' 0 ds'] drq_next_sector [of q d d' ds' s] Cons.prems(1) i ds by simp
  qed
  obtain s' where read: "pc88_read_fdc_data now (pc88_fdc_event FdcDrqByte s) = Some (d1 ! i1, s')"
    and after: "if Suc i1 = length d1 \<and> ds1 = [] then rq_finished q s' else rq_reading q d1 (Suc i1) ds1 s'"
    using read_in_sector [OF at rqm] by blast
  have rest: "drop i d @ concat ds = d1 ! i1 # (drop (Suc i1) d1 @ concat ds1)"
    using at(2) bytes by (simp add: Cons_nth_drop_Suc [symmetric])
  then have len: "length clks = length (drop (Suc i1) d1 @ concat ds1)" using Cons.prems(2) by simp
  show ?case
  proof (cases "clks = []")
    case True
    then have "drop (Suc i1) d1 @ concat ds1 = []" using len by simp
    moreover have "ds1 = []"
    proof (rule ccontr)
      assume "ds1 \<noteq> []"
      then have "ds1 ! 0 \<noteq> []" "ds1 ! 0 \<in> set ds1" using at(1) by (auto simp: rq_reading_def)
      then show False using calculation by auto
    qed
    moreover have "Suc i1 = length d1" using calculation(1) at(2) by simp
    ultimately show ?thesis using read after rest True by simp
  next
    case False
    then have "\<not> (Suc i1 = length d1 \<and> ds1 = [])" using len by auto
    then have reading: "rq_reading q d1 (Suc i1) ds1 s'" using after by argo
    obtain s'' where "pc88_transfer clks s' = Some (drop (Suc i1) d1 @ concat ds1, s'')" "rq_finished q s''"
      using Cons.IH [OF reading len False] by blast
    then show ?thesis using read rest by simp
  qed
qed simp

section \<open>READ DATA from the first command byte\<close>

definition read_request_of ::
  "u8 \<Rightarrow> u8 \<Rightarrow> u8 \<Rightarrow> u8 \<Rightarrow> u8 \<Rightarrow> pc88_fdc \<Rightarrow> read_request" where
  "read_request_of us c h n eot s =
     \<lparr> rq_drives = pf_drives s, rq_cylinder = fd_drive_cylinder (pf_fdc s), rq_us = us, rq_c = c,
       rq_h = h, rq_n = n, rq_eot = eot \<rparr>"

text \<open>The command's nine bytes leave the first sector loaded.\<close>

lemma start_read_request:
  fixes us c h n eot :: u8 and s :: pc88_fdc
  defines "q \<equiv> read_request_of us c h n eot s"
  assumes ok: "pc88_fdc_ok s" and idle: "fd_phase (pf_fdc s) = FdcIdle" "\<not> fd_exec_dma (pf_fdc s)"
    and cmd: "cmd AND CMD_INDEX_MASK = CMD_READ_DATA" "cmd AND CMD_FLAG_MT = 0"
    and disk: "floppy_has_drive (unat (us AND HD_US_DRIVE_MASK)) (pf_drives s)"
      "pc88_density_matches mode (unat (us AND HD_US_DRIVE_MASK)) s"
    and sectors: "rq_sector q r = Some d" "unat r + length ds = unat eot"
      "\<And>k. k < length ds \<Longrightarrow> ds ! k \<noteq> [] \<and> rq_sector q (r + of_nat (Suc k)) = Some (ds ! k)"
  obtains s1 where "pc88_fdc_writes now mode [cmd, us, c, h, r, n, eot, gpl, dtl] s = Some s1"
    and "rq_reading q d 0 ds s1"
proof -
  let ?ps = "[us, c, h, r, n, eot, gpl, dtl]"
  let ?f = "upd765a_start_execution FdcReadData
    (upd765a_extract_data_params (upd765a_assembled cmd ?ps (pf_fdc s)))"
  define t where "t = s\<lparr>pf_fdc := ?f\<rparr>"
  have fok: "upd765a_ok (pf_fdc s)" using ok by (rule pc88_fdc_okD)
  have "fd_command (upd765a_assembled cmd ?ps (pf_fdc s)) = CMD_READ_DATA"
    by (simp add: upd765a_assembled_def cmd)
  then have "upd765a_execute_command FdcStandard (upd765a_assembled cmd ?ps (pf_fdc s)) =
      (FdcStartReadData, ?f)"
    by (simp add: upd765a_execute_command_def fdc_consts)
  moreover have "upd765a_writes FdcStandard (cmd # ?ps) (pf_fdc s) =
      (let (action, f) = upd765a_execute_command FdcStandard (upd765a_assembled cmd ?ps (pf_fdc s))
       in Some (replicate (length ?ps) FdcNoAction @ [action], f))"
    using fok idle(1) by (intro upd765a_writes_command)
      (simp_all add: upd765a_listens_def cmd CMD_PARAMS_def CMD_READ_DATA_def)
  ultimately have "upd765a_writes FdcStandard (cmd # ?ps) (pf_fdc s) =
      Some (replicate (length ?ps) FdcNoAction @ [FdcStartReadData], ?f)" by (simp only: Let_def split_conv)
  from pc88_writes_command [OF this, of now mode] idle(1)
  have writes: "pc88_fdc_writes now mode (cmd # ?ps) s = pc88_start_pio_read now mode t"
    by (simp add: pc88_on_fdc_action_def t_def del: pc88_fdc_writes.simps)
  have match: "rq_matches q t" and r: "fd_r (pf_fdc t) = r"
    and phase: "upd765a_current_drive (pf_fdc t) = unat (us AND HD_US_DRIVE_MASK)"
    using ok idle(2) cmd(2)
    by (simp_all add: rq_matches_def q_def read_request_of_def t_def upd765a_start_execution_def
        upd765a_extract_data_params_def upd765a_assembled_def Let_def pc88_fdc_ok_def
        upd765a_current_drive_def)
  let ?s = "pf_update (upd765a_begin_pio_read d) t"
  have load: "pc88_load_current_read_sector (unat (us AND HD_US_DRIVE_MASK)) t = (True, ?s)"
    using load_sector_rq [OF match] sectors(1) by (simp add: r phase)
  have "rq_reading q d 0 ds ?s"
    using match sectors(2,3) r
    by (simp add: rq_reading_def rq_matches_def pf_update_def upd765a_begin_pio_read_def q_def
        read_request_of_def del: of_nat_Suc)
  then obtain s1 where s1: "pc88_schedule_drq_byte now ?s = Some s1" "rq_reading q d 0 ds s1"
    using schedule_drq_rq [of q d 0 ds ?s now] by blast
  have "pf_drives t = pf_drives s" by (simp add: t_def)
  then have "pc88_start_pio_read now mode t = Some s1"
    using disk s1(1) load
    by (simp add: pc88_start_pio_read_def Let_def phase pc88_density_matches_def)
  then show thesis using that [of s1] writes s1(2) by simp
qed

text \<open>
  C21 READ DATA of the sectors R to EOT on one side of a mounted disk of the selected
  density: after the nine command bytes, a host that reads the data register once for each data
  request receives exactly the bytes of these sectors in order, whatever their sizes, and with
  the last byte the command ends: the result phase reports normal termination at EOT, the
  interrupt is raised, and the disks are unchanged.
\<close>

theorem pc88_read_data_transfers:
  assumes "pc88_fdc_ok s" "fd_phase (pf_fdc s) = FdcIdle" "\<not> fd_exec_dma (pf_fdc s)"
    and "cmd AND CMD_INDEX_MASK = CMD_READ_DATA" "cmd AND CMD_FLAG_MT = 0"
    and "pf_drives s ! unat (us AND HD_US_DRIVE_MASK) = Some m"
    and "pc88_density_matches mode (unat (us AND HD_US_DRIVE_MASK)) s"
    and "sectors \<noteq> []" "unat r + length sectors = Suc (unat eot)"
    and "\<And>k. k < length sectors \<Longrightarrow> sectors ! k \<noteq> []
      \<and> map_option sec_data (d88_find_sector_near_track_index (mf_image m)
          (unat (fd_drive_cylinder (pf_fdc s) ! unat (us AND HD_US_DRIVE_MASK)) * 2
            + unat (drop_bit 2 us AND 1)) c h (r + of_nat k) n) = Some (sectors ! k)"
    and "length clks = length (concat sectors)"
  shows "\<exists>s1 s2. pc88_fdc_writes now mode [cmd, us, c, h, r, n, eot, gpl, dtl] s = Some s1
    \<and> pc88_transfer clks s1 = Some (concat sectors, s2)
    \<and> fd_phase (pf_fdc s2) = FdcResultPhase
    \<and> fd_result (pf_fdc s2) = [us AND 0x07, 0, 0, c, h, eot, n]
    \<and> fd_interrupt_pending (pf_fdc s2) \<and> pf_drives s2 = pf_drives s"
proof -
  let ?q = "read_request_of us c h n eot s"
  obtain d ds where sectors: "sectors = d # ds" using assms(8) by (cases sectors) auto
  have rq: "rq_sector ?q (r + of_nat k) = Some (sectors ! k)" if "k < length sectors" for k
    using assms(10) [OF that] assms(6)
    by (simp add: rq_sector_def read_request_of_def floppy_read_sector_data_def Let_def
        HD_US_HEAD_SHIFT_def)
  have "rq_sector ?q r = Some d" using rq [of 0] by (simp add: sectors)
  moreover have "ds ! k \<noteq> [] \<and> rq_sector ?q (r + of_nat (Suc k)) = Some (ds ! k)" if "k < length ds" for k
    using rq [of "Suc k"] assms(10) [of "Suc k"] that by (simp add: sectors)
  moreover have "unat r + length ds = unat eot" using assms(9) by (simp add: sectors)
  moreover have "floppy_has_drive (unat (us AND HD_US_DRIVE_MASK)) (pf_drives s)"
    using assms(6) by (simp add: floppy_has_drive_def)
  ultimately obtain s1 where
    s1: "pc88_fdc_writes now mode [cmd, us, c, h, r, n, eot, gpl, dtl] s = Some s1" "rq_reading ?q d 0 ds s1"
    using start_read_request [of s cmd us mode c h n eot r d ds] assms(1-5,7) by blast
  have "clks \<noteq> []" using assms(10) [of 0] assms(11) by (auto simp: sectors)
  then obtain s2 where "pc88_transfer clks s1 = Some (concat sectors, s2)" "rq_finished ?q s2"
    using transfer_reading [OF s1(2), of clks] assms(11) by (auto simp: sectors)
  then show ?thesis
    using s1(1) by (auto simp: rq_finished_def read_request_of_def)
qed

lemma pc88_read_data_transfers_witness:
  defines "x \<equiv> \<lparr> sec_cylinder = 0, sec_head = 0, sec_record = 1, sec_size_code = 1,
      sec_sector_count = 1, sec_mfm_flag = 0, sec_deleted = 0, sec_status = 0,
      sec_reserved = [0, 0, 0, 0, 0], sec_data = [0xE5, 0x41], sec_source_offset = None \<rparr>"
  defines "s \<equiv> (pc88_fdc_new 4000000)\<lparr>pf_drives :=
      [Some (mounted_floppy_new (d88_from_tracks [] False Disk2D [Some [x]]) None), None, None, None]\<rparr>"
  shows "\<exists>s1 s2. pc88_fdc_writes 7 0 [0x46, 0, 0, 0, 1, 1, 1, 0x1B, 0xFF] s = Some s1
    \<and> pc88_transfer [300, 500] s1 = Some ([0xE5, 0x41], s2)"
proof -
  have ok: "pc88_fdc_ok s" using pc88_fdc_new_ok by (simp add: s_def pc88_fdc_ok_def)
  have idle: "fd_phase (pf_fdc s) = FdcIdle" "\<not> fd_exec_dma (pf_fdc s)"
    "fd_drive_cylinder (pf_fdc s) = replicate 4 0"
    by (simp_all add: s_def pc88_fdc_new_def upd765a_new_def)
  have density: "pc88_density_matches 0 0 s"
    by (simp add: pc88_density_matches_def pc88_drive_media_type_def s_def mounted_floppy_new_def
        d88_from_tracks_def)
  have found: "d88_find_sector_near_track_index (d88_from_tracks [] False Disk2D [Some [x]]) 0 0 0 1 1 = Some x"
    by (simp add: d88_find_sector_near_track_index_def d88_search_outward_def d88_from_tracks_def
        d88_find_sector_on_track_index_def d88_track_def list_get_def d88_matches_def x_def)
  have "\<exists>s1 s2. pc88_fdc_writes 7 0 [0x46, 0, 0, 0, 1, 1, 1, 0x1B, 0xFF] s = Some s1
    \<and> pc88_transfer [300, 500] s1 = Some (concat [[0xE5, 0x41]], s2)
    \<and> fd_phase (pf_fdc s2) = FdcResultPhase
    \<and> fd_result (pf_fdc s2) = [0 AND 0x07, 0, 0, 0, 0, 1, 1]
    \<and> fd_interrupt_pending (pf_fdc s2) \<and> pf_drives s2 = pf_drives s"
    by (rule pc88_read_data_transfers
        [OF ok idle(1,2), where m = "mounted_floppy_new (d88_from_tracks [] False Disk2D [Some [x]]) None"])
      (use idle(3) density found in
        \<open>simp_all add: fdc_consts s_def mounted_floppy_new_def x_def\<close>)
  then show ?thesis by auto
qed

end
