(* ===== verification/Pc88_Fdc_Status.thy ===== *)
theory Pc88_Fdc_Status
  imports Pc88_Fdc_Properties
begin

text \<open>
  The write protection of a disk and the status of its drive. The disk unit refuses to write
  to a protected disk, but nothing in it sets the controller's record of protected drives, from
  which SENSE DRIVE STATUS answers.
\<close>

section \<open>The record of protected drives\<close>

definition fdc_wp :: "upd765a \<Rightarrow> u8" where
  "fdc_wp = fd_drive_write_protected"

lemma wp_fields [simp]:
  "fdc_wp (fd_phase_update f0 s) = fdc_wp s"
  "fdc_wp (fd_status_update f1 s) = fdc_wp s"
  "fdc_wp (fd_control_update f2 s) = fdc_wp s"
  "fdc_wp (fd_prev_control_update f3 s) = fdc_wp s"
  "fdc_wp (fd_command_byte_update f4 s) = fdc_wp s"
  "fdc_wp (fd_command_update f5 s) = fdc_wp s"
  "fdc_wp (fd_active_command_update f6 s) = fdc_wp s"
  "fdc_wp (fd_params_update f7 s) = fdc_wp s"
  "fdc_wp (fd_params_expected_update f8 s) = fdc_wp s"
  "fdc_wp (fd_params_received_update f9 s) = fdc_wp s"
  "fdc_wp (fd_result_update f10 s) = fdc_wp s"
  "fdc_wp (fd_result_count_update f11 s) = fdc_wp s"
  "fdc_wp (fd_result_index_update f12 s) = fdc_wp s"
  "fdc_wp (fd_drive_st0_update f13 s) = fdc_wp s"
  "fdc_wp (fd_drive_st0_waiting_update f14 s) = fdc_wp s"
  "fdc_wp (fd_drive_cylinder_update f15 s) = fdc_wp s"
  "fdc_wp (fd_interrupt_pending_update f16 s) = fdc_wp s"
  "fdc_wp (fd_sense_interrupt_result_update f17 s) = fdc_wp s"
  "fdc_wp (fd_mt_update f18 s) = fdc_wp s"
  "fdc_wp (fd_mf_update f19 s) = fdc_wp s"
  "fdc_wp (fd_sk_update f20 s) = fdc_wp s"
  "fdc_wp (fd_c_update f21 s) = fdc_wp s"
  "fdc_wp (fd_h_update f22 s) = fdc_wp s"
  "fdc_wp (fd_r_update f23 s) = fdc_wp s"
  "fdc_wp (fd_n_update f24 s) = fdc_wp s"
  "fdc_wp (fd_eot_update f25 s) = fdc_wp s"
  "fdc_wp (fd_gpl_update f26 s) = fdc_wp s"
  "fdc_wp (fd_dtl_update f27 s) = fdc_wp s"
  "fdc_wp (fd_hd_us_update f28 s) = fdc_wp s"
  "fdc_wp (fd_crcn_update f29 s) = fdc_wp s"
  "fdc_wp (fd_srt_update f30 s) = fdc_wp s"
  "fdc_wp (fd_hut_update f31 s) = fdc_wp s"
  "fdc_wp (fd_hlt_update f32 s) = fdc_wp s"
  "fdc_wp (fd_nd_update f33 s) = fdc_wp s"
  "fdc_wp (fd_tc_update f34 s) = fdc_wp s"
  "fdc_wp (fd_drive_has_disk_update f35 s) = fdc_wp s"
  "fdc_wp (fd_drive_ready_reported_update f36 s) = fdc_wp s"
  "fdc_wp (fd_exec_buf_update f37 s) = fdc_wp s"
  "fdc_wp (fd_exec_index_update f38 s) = fdc_wp s"
  "fdc_wp (fd_exec_len_update f39 s) = fdc_wp s"
  "fdc_wp (fd_exec_reading_update f40 s) = fdc_wp s"
  "fdc_wp (fd_exec_pio_update f41 s) = fdc_wp s"
  "fdc_wp (fd_exec_dma_update f42 s) = fdc_wp s"
  "fdc_wp (fd_scan_condition_held_update f43 s) = fdc_wp s"
  "fdc_wp (fd_warned_non_dma_update f44 s) = fdc_wp s"
  by (simp_all add: fdc_wp_def)

lemma wp_poll [simp]: "fdc_wp (snd (upd765a_poll_ready_lines s)) = fdc_wp s"
proof -
  have step: "fdc_wp (snd (upd765a_poll_drive d rs)) = fdc_wp (snd rs)" for d rs
    by (cases rs) (simp add: upd765a_poll_drive_def Let_def)
  have "fdc_wp (snd (fold upd765a_poll_drive ds rs)) = fdc_wp (snd rs)" for ds rs
    by (induction ds arbitrary: rs) (simp_all add: step)
  then show ?thesis by (simp add: upd765a_poll_ready_lines_def)
qed

lemma wp_results [simp]:
  "fdc_wp (upd765a_enter_result n s) = fdc_wp s"
  "fdc_wp (upd765a_data_result a b c s) = fdc_wp s"
  "fdc_wp (upd765a_complete_success s) = fdc_wp s"
  "fdc_wp (upd765a_complete_error x a b s) = fdc_wp s"
  "fdc_wp (snd (upd765a_advance_sector p s)) = fdc_wp s"
  "fdc_wp (upd765a_provide_read_id c h r n s) = fdc_wp s"
  "fdc_wp (upd765a_signal_terminal_count s) = fdc_wp s"
  by (simp_all add: upd765a_enter_result_def upd765a_data_result_def
      upd765a_complete_success_def upd765a_complete_success_with_status_def
      upd765a_complete_error_def upd765a_advance_sector_def upd765a_provide_read_id_def
      upd765a_signal_terminal_count_def Let_def)

lemma wp_execution [simp]:
  "fdc_wp (upd765a_begin_pio_read sector s) = fdc_wp s"
  "fdc_wp (upd765a_begin_pio_write len s) = fdc_wp s"
  "fdc_wp (upd765a_pio_release_byte s) = fdc_wp s"
  "fdc_wp (upd765a_start_execution cmd s) = fdc_wp s"
  "fdc_wp (upd765a_extract_data_params s) = fdc_wp s"
  "fdc_wp (snd (upd765a_exec_byte s)) = fdc_wp s"
  by (simp_all add: upd765a_begin_pio_read_def upd765a_begin_pio_write_def
      upd765a_pio_release_byte_def upd765a_start_execution_def upd765a_extract_data_params_def
      upd765a_exec_byte_def Let_def)

lemma wp_seek_done [simp]: "fdc_wp (snd (upd765a_seek_done d c st0 s)) = fdc_wp s"
  unfolding upd765a_seek_done_def Let_def snd_conv wp_poll by simp

lemma wp_commands [simp]:
  "fdc_wp (snd (upd765a_specify s)) = fdc_wp s"
  "fdc_wp (upd765a_sense_drive_status p s) = fdc_wp s"
  "fdc_wp (upd765a_sense_interrupt_status s) = fdc_wp s"
  "fdc_wp (upd765a_read_id s) = fdc_wp s"
  "fdc_wp (upd765a_write_id s) = fdc_wp s"
  "fdc_wp (upd765a_invalid_command s) = fdc_wp s"
  "fdc_wp (snd (upd765a_recalibrate p s)) = fdc_wp s"
  "fdc_wp (snd (upd765a_seek s)) = fdc_wp s"
  "fdc_wp (snd (upd765a_scan p s)) = fdc_wp s"
proof -
  show "fdc_wp (snd (upd765a_specify s)) = fdc_wp s"
    unfolding upd765a_specify_def Let_def case_prod_beta snd_conv wp_poll by simp
  show "fdc_wp (upd765a_sense_interrupt_status s) = fdc_wp s"
    by (simp add: upd765a_sense_interrupt_status_def Let_def split: option.split)
qed (simp_all add: upd765a_sense_drive_status_def upd765a_read_id_def upd765a_write_id_def
    upd765a_invalid_command_def upd765a_recalibrate_def upd765a_seek_def upd765a_scan_def Let_def)

lemma wp_if: "fdc_wp (snd x) = w \<Longrightarrow> fdc_wp (snd y) = w \<Longrightarrow> fdc_wp (snd (if b then x else y)) = w"
  by simp

lemma wp_execute [simp]: "fdc_wp (snd (upd765a_execute_command p s)) = fdc_wp s"
  unfolding upd765a_execute_command_def Let_def by (intro wp_if) simp_all

lemma wp_data_register:
  "upd765a_write_data FdcStandard v s = Some (action, s') \<Longrightarrow> fdc_wp s' = fdc_wp s"
  "upd765a_read_data FdcStandard s = Some (w, s') \<Longrightarrow> fdc_wp s' = fdc_wp s"
proof -
  have begin_wp: "fdc_wp (snd (upd765a_begin_command FdcStandard v s)) = fdc_wp s"
    unfolding upd765a_begin_command_def Let_def by (intro wp_if) simp_all
  have param: "fdc_wp (snd r) = fdc_wp s" if "upd765a_command_param FdcStandard v s = Some r" for r
  proof -
    have "r = (if fd_params_expected s \<le> fd_params_received s + 1
        then upd765a_execute_command FdcStandard (upd765a_with_param v s)
        else (FdcNoAction, upd765a_with_param v s))"
      using that by (simp add: upd765a_command_param_def Let_def upd765a_with_param_def split: if_splits)
    moreover have "fdc_wp (upd765a_with_param v s) = fdc_wp s" by (simp add: upd765a_with_param_def)
    ultimately show ?thesis by simp
  qed
  have exec: "fdc_wp r = fdc_wp s" if "upd765a_exec_write v s = Some r" for r
    using that by (auto simp: upd765a_exec_write_def Let_def split: if_splits)
  show "fdc_wp s' = fdc_wp s" if "upd765a_write_data FdcStandard v s = Some (action, s')"
    using that begin_wp param exec write_listens [of FdcStandard s v]
    by (cases "fd_phase s") (auto simp: upd765a_listens_def)
  have drained: "fdc_wp (snd (upd765a_poll_ready_lines (s\<lparr>fd_result_index := a, fd_phase := b,
      fd_status := c, fd_sense_interrupt_result := d, fd_interrupt_pending := e\<rparr>))) = fdc_wp s"
    for a b c d e by simp
  show "fdc_wp s' = fdc_wp s" if "upd765a_read_data FdcStandard s = Some (w, s')"
    using that wp_execution(6) [of s] drained
    by (auto simp: upd765a_read_data_def upd765a_read_data_reporting_def Let_def case_prod_beta
        split: if_splits option.splits)
qed

section \<open>It stays empty\<close>

definition pf_wp :: "pc88_fdc \<Rightarrow> u8" where
  "pf_wp s = fdc_wp (pf_fdc s)"

lemma pf_wp_simps [simp]:
  "pf_wp (s\<lparr>pf_drives := ds\<rparr>) = pf_wp s" "pf_wp (s\<lparr>pf_tc_active := b\<rparr>) = pf_wp s"
  "pf_wp (s\<lparr>pf_fdc := f\<rparr>) = fdc_wp f" "pf_wp (pf_update g s) = fdc_wp (g (pf_fdc s))"
  by (simp_all add: pf_wp_def pf_update_def)

lemma fdc_wp_pf: "fdc_wp (pf_fdc s) = pf_wp s"
  by (simp add: pf_wp_def)

lemma wp_schedule: "pc88_fdc_schedule e c s = Some s' \<Longrightarrow> pf_wp s' = pf_wp s"
  by (auto simp: pc88_fdc_schedule_def pc88_update_next_event_cycle_def pf_wp_def)

lemma wp_drq: "pc88_schedule_drq_byte now s = Some s' \<Longrightarrow> pf_wp s' = pf_wp s"
  by (simp add: pc88_schedule_drq_byte_def wp_schedule)

lemma wp_bus [simp]:
  "pf_wp (pc88_complete_no_disk s) = pf_wp s" "pf_wp (pc88_no_address_mark s) = pf_wp s"
  "pf_wp (snd (pc88_load_current_read_sector d s)) = pf_wp s"
  "pf_wp (pc88_handle_read_id mode s) = pf_wp s"
  by (simp_all add: pc88_complete_no_disk_def pc88_no_address_mark_def
      pc88_load_current_read_sector_def pc88_handle_read_id_def Let_def fdc_wp_pf split: option.split)

lemma wp_advance_read [simp]: "pf_wp (pc88_advance_pio_read s) = pf_wp s"
  by (simp add: pc88_advance_pio_read_def Let_def case_prod_beta fdc_wp_pf)

lemma wp_flush: "pc88_flush_pio_write_sector s = Some s' \<Longrightarrow> pf_wp s' = pf_wp s"
  by (auto simp: pc88_flush_pio_write_sector_def pc88_flush_pio_format_def Let_def fdc_wp_pf
      bind_eq_Some_conv split: if_splits)

lemma wp_starts:
  "pc88_start_pio_read now mode s = Some s' \<Longrightarrow> pf_wp s' = pf_wp s"
  "pc88_start_pio_write now mode s = Some s' \<Longrightarrow> pf_wp s' = pf_wp s"
  "pc88_start_pio_format now mode s = Some s' \<Longrightarrow> pf_wp s' = pf_wp s"
  by (auto simp: pc88_start_pio_read_def pc88_start_pio_write_def pc88_start_pio_format_def Let_def
      case_prod_beta fdc_wp_pf dest!: wp_drq split: if_splits)

lemma wp_advance_write: "pc88_advance_pio_write now s = Some s' \<Longrightarrow> pf_wp s' = pf_wp s"
  by (auto simp: pc88_advance_pio_write_def Let_def case_prod_beta bind_eq_Some_conv fdc_wp_pf
      dest!: wp_flush wp_drq split: if_splits)

lemma wp_action: "pc88_on_fdc_action now mode action s = Some s' \<Longrightarrow> pf_wp s' = pf_wp s"
  by (cases action) (auto simp: pc88_on_fdc_action_def fdc_wp_pf dest!: wp_starts wp_schedule)

lemma reachable_wp: "pc88_fdc_reachable s \<Longrightarrow> pf_wp s = 0"
proof (induction rule: pc88_fdc_reachable.induct)
  case (reach_new hz)
  then show ?case by (simp add: pf_wp_def fdc_wp_def pc88_fdc_new_def upd765a_new_def)
next
  case (reach_read s now v s')
  then show ?case
    by (auto simp: pc88_read_fdc_data_def Let_def bind_eq_Some_conv fdc_wp_pf
        dest!: wp_data_register(2) wp_drq split: if_splits)
next
  case (reach_write s now mode v s')
  then show ?case
    by (auto simp: pc88_write_fdc_data_def Let_def bind_eq_Some_conv fdc_wp_pf
        dest!: wp_data_register(1) wp_drq wp_advance_write wp_action split: if_splits)
next
  case (reach_tc s now s')
  then show ?case
    by (auto simp: pc88_assert_fdc_terminal_count_def Let_def bind_eq_Some_conv fdc_wp_pf
        dest!: wp_schedule wp_flush split: if_splits)
next
  case (reach_motor s)
  then show ?case by (simp add: pc88_force_ready_def fdc_wp_pf)
next
  case (reach_event s e)
  then show ?case
    by (cases e) (simp_all add: pc88_fdc_event_def pc88_on_fdc_drq_byte_def Let_def fdc_wp_pf)
qed (auto simp: pc88_insert_floppy_def pc88_eject_floppy_def pc88_flush_floppies_def Let_def fdc_wp_pf
  split: if_splits)

text \<open>
  Whatever is mounted, write-protected or not, in every reachable state the status that SENSE
  DRIVE STATUS returns for the unit's drives has the write protection bit clear.
\<close>

theorem pc88_status_never_write_protected:
  assumes "pc88_fdc_reachable s"
  shows "\<not> bit (upd765a_st3 FdcStandard (pf_fdc s)) 6"
proof -
  have wp: "fd_drive_write_protected (pf_fdc s) = 0"
    using reachable_wp [OF assms] by (simp add: pf_wp_def fdc_wp_def)
  have small: "\<not> bit (of_nat (unat (us AND HD_US_DRIVE_MASK)) :: u8) 6" for us :: u8
    by (simp add: bit_and_iff HD_US_DRIVE_MASK_def)
  have head: "\<not> bit (push_bit HD_US_HEAD_SHIFT (drop_bit HD_US_HEAD_SHIFT us AND 0x01)) 6" for us :: u8
    by (simp add: bit_push_bit_iff bit_and_iff HD_US_HEAD_SHIFT_def)
  show ?thesis
    using small head
    by (auto simp: upd765a_st3_def Let_def wp bit_or_iff ST3_TRACK_0_def ST3_READY_def ST3_TWO_SIDE_def)
qed

end
