(* ===== verification/M6809_State.thy ===== *)
theory M6809_State
  imports Bus_Interface Save_Restore
begin

text \<open>
  The registers of the MC6809 core: \<open>crates/cpu/src/m6809/flags.rs\<close> and \<open>state.rs\<close>, and the
  part of \<open>crates/cpu/src/m6809.rs\<close> that creates, captures and restores them.
  \<open>m6809_state\<close> has the fields of \<open>M6809State\<close>; \<open>m6809\<close> extends it with those of the struct
  \<open>M6809\<close> and with the bus, which the code passes next to \<open>&mut self\<close>. As in the Z80 core,
  \<open>cycles_remaining\<close> is an \<open>i64\<close> that stays far from its bounds and an \<open>int\<close> here.
\<close>

section \<open>Condition codes\<close>

record m6809_flags =
  cc_entire :: bool
  cc_firq_mask :: bool
  cc_half_carry :: bool
  cc_irq_mask :: bool
  cc_negative :: bool
  cc_zero :: bool
  cc_overflow :: bool
  cc_carry :: bool

definition CC_ENTIRE :: u8 where "CC_ENTIRE = 0x80"
definition CC_FIRQ_MASK :: u8 where "CC_FIRQ_MASK = 0x40"
definition CC_HALF_CARRY :: u8 where "CC_HALF_CARRY = 0x20"
definition CC_IRQ_MASK :: u8 where "CC_IRQ_MASK = 0x10"
definition CC_NEGATIVE :: u8 where "CC_NEGATIVE = 0x08"
definition CC_ZERO :: u8 where "CC_ZERO = 0x04"
definition CC_OVERFLOW :: u8 where "CC_OVERFLOW = 0x02"
definition CC_CARRY :: u8 where "CC_CARRY = 0x01"
definition CC_NZ :: u8 where "CC_NZ = CC_NEGATIVE OR CC_ZERO"
definition CC_NZV :: u8 where "CC_NZV = CC_NEGATIVE OR CC_ZERO OR CC_OVERFLOW"
definition CC_NZVC :: u8 where "CC_NZVC = CC_NEGATIVE OR CC_ZERO OR CC_OVERFLOW OR CC_CARRY"
definition CC_HNZVC :: u8 where
  "CC_HNZVC = CC_HALF_CARRY OR CC_NEGATIVE OR CC_ZERO OR CC_OVERFLOW OR CC_CARRY"

lemmas cc_masks = CC_ENTIRE_def CC_FIRQ_MASK_def CC_HALF_CARRY_def CC_IRQ_MASK_def CC_NEGATIVE_def
  CC_ZERO_def CC_OVERFLOW_def CC_CARRY_def CC_NZ_def CC_NZV_def CC_NZVC_def CC_HNZVC_def

definition m6809_flags_default :: m6809_flags where
  "m6809_flags_default =
     \<lparr> cc_entire = False, cc_firq_mask = False, cc_half_carry = False, cc_irq_mask = False,
       cc_negative = False, cc_zero = False, cc_overflow = False, cc_carry = False \<rparr>"

definition m6809_compress :: "m6809_flags \<Rightarrow> u8" where
  "m6809_compress f =
     (if cc_entire f then CC_ENTIRE else 0) OR (if cc_firq_mask f then CC_FIRQ_MASK else 0)
     OR (if cc_half_carry f then CC_HALF_CARRY else 0) OR (if cc_irq_mask f then CC_IRQ_MASK else 0)
     OR (if cc_negative f then CC_NEGATIVE else 0) OR (if cc_zero f then CC_ZERO else 0)
     OR (if cc_overflow f then CC_OVERFLOW else 0) OR (if cc_carry f then CC_CARRY else 0)"

definition m6809_expand :: "u8 \<Rightarrow> m6809_flags \<Rightarrow> m6809_flags" where
  "m6809_expand value f =
     f\<lparr>cc_entire := (value AND CC_ENTIRE \<noteq> 0), cc_firq_mask := (value AND CC_FIRQ_MASK \<noteq> 0),
       cc_half_carry := (value AND CC_HALF_CARRY \<noteq> 0), cc_irq_mask := (value AND CC_IRQ_MASK \<noteq> 0),
       cc_negative := (value AND CC_NEGATIVE \<noteq> 0), cc_zero := (value AND CC_ZERO \<noteq> 0),
       cc_overflow := (value AND CC_OVERFLOW \<noteq> 0), cc_carry := (value AND CC_CARRY \<noteq> 0)\<rparr>"

definition m6809_flags_new :: "u8 \<Rightarrow> m6809_flags" where
  "m6809_flags_new value = m6809_expand value m6809_flags_default"

definition m6809_set_bits :: "u8 \<Rightarrow> u8 \<Rightarrow> m6809_flags \<Rightarrow> m6809_flags" where
  "m6809_set_bits msk value f =
     (let next = (m6809_compress f AND NOT msk) OR (value AND msk) in m6809_expand next f)"

text \<open>The packed byte holds each flag at its bit.\<close>

lemma bit_flag: "bit (if b then 2 ^ k else 0 :: u8) n \<longleftrightarrow> b \<and> n = k \<and> k < 8"
  by (auto simp: bit_exp_iff)

lemma cc_mask_exp:
  "CC_ENTIRE = 2 ^ 7" "CC_FIRQ_MASK = 2 ^ 6" "CC_HALF_CARRY = 2 ^ 5" "CC_IRQ_MASK = 2 ^ 4"
  "CC_NEGATIVE = 2 ^ 3" "CC_ZERO = 2 ^ 2" "CC_OVERFLOW = 2 ^ 1" "CC_CARRY = 2 ^ 0"
  by (simp_all add: cc_masks)

lemma bit_compress_eq:
  "bit (m6809_compress f) n \<longleftrightarrow>
     cc_carry f \<and> n = 0 \<or> cc_overflow f \<and> n = 1 \<or> cc_zero f \<and> n = 2 \<or> cc_negative f \<and> n = 3
   \<or> cc_irq_mask f \<and> n = 4 \<or> cc_half_carry f \<and> n = 5 \<or> cc_firq_mask f \<and> n = 6 \<or> cc_entire f \<and> n = 7"
  unfolding m6809_compress_def cc_mask_exp bit_or_iff bit_flag
  by (rule iffI; elim disjE conjE; simp)

lemma bit_compress [simp]:
  "bit (m6809_compress f) 0 = cc_carry f" "bit (m6809_compress f) 1 = cc_overflow f"
  "bit (m6809_compress f) (Suc 0) = cc_overflow f"
  "bit (m6809_compress f) 2 = cc_zero f" "bit (m6809_compress f) 3 = cc_negative f"
  "bit (m6809_compress f) 4 = cc_irq_mask f" "bit (m6809_compress f) 5 = cc_half_carry f"
  "bit (m6809_compress f) 6 = cc_firq_mask f" "bit (m6809_compress f) 7 = cc_entire f"
  by (simp_all add: bit_compress_eq)

lemma expand_eq:
  "m6809_expand v f =
     f\<lparr>cc_entire := bit v 7, cc_firq_mask := bit v 6, cc_half_carry := bit v 5,
       cc_irq_mask := bit v 4, cc_negative := bit v 3, cc_zero := bit v 2, cc_overflow := bit v 1,
       cc_carry := bit v 0\<rparr>"
  by (simp only: m6809_expand_def cc_mask_exp and_pow2_nonzero)

lemma expand_bits [simp]:
  "cc_carry (m6809_expand v f) = bit v 0" "cc_overflow (m6809_expand v f) = bit v 1"
  "cc_zero (m6809_expand v f) = bit v 2" "cc_negative (m6809_expand v f) = bit v 3"
  "cc_irq_mask (m6809_expand v f) = bit v 4" "cc_half_carry (m6809_expand v f) = bit v 5"
  "cc_firq_mask (m6809_expand v f) = bit v 6" "cc_entire (m6809_expand v f) = bit v 7"
  by (simp_all add: expand_eq)

lemma compress_expand [simp]: "m6809_compress (m6809_expand v f) = v"
  by (simp add: u8_eq_iff)

lemma flags_eq_iff: "f = g \<longleftrightarrow> m6809_compress f = m6809_compress (g :: m6809_flags)"
  by (auto simp: u8_eq_iff m6809_flags.equality)

lemma expand_compress [simp]: "m6809_expand (m6809_compress f) g = f"
  by (simp add: flags_eq_iff)

section \<open>Registers\<close>

record m6809_state =
  m_a :: u8
  m_b :: u8
  m_x :: u16
  m_y :: u16
  m_s :: u16
  m_u :: u16
  m_pc :: u16
  m_dp :: u8
  m_flags :: m6809_flags
  m_halted :: bool
  m_pending_irq :: u8
  m_nmi_armed :: bool
  m_cwai_waiting :: bool
  m_pending_extended_clear :: "u16 option"

record 'b m6809 = m6809_state +
  m_clock_hz :: u32
  m_cycles_remaining :: int
  m_bus :: 'b

definition m6809_state_default :: m6809_state where
  "m6809_state_default =
     \<lparr> m_a = 0, m_b = 0, m_x = 0, m_y = 0, m_s = 0, m_u = 0, m_pc = 0, m_dp = 0,
       m_flags = m6809_flags_default, m_halted = False, m_pending_irq = 0, m_nmi_armed = False,
       m_cwai_waiting = False, m_pending_extended_clear = None \<rparr>"

definition m6809_d :: "'x m6809_state_scheme \<Rightarrow> u16" where
  "m6809_d s = push_bit 8 (ucast (m_a s)) OR ucast (m_b s)"

definition m6809_set_d :: "u16 \<Rightarrow> 'x m6809_state_scheme \<Rightarrow> 'x m6809_state_scheme" where
  "m6809_set_d value s = s\<lparr>m_a := hi8 value, m_b := lo8 value\<rparr>"

definition m6809_validate_state :: "'x m6809_state_scheme \<Rightarrow> validation_error + unit" where
  "m6809_validate_state s =
     (if m_pending_irq s AND NOT 0x07 \<noteq> 0 then Inl ''MC6809 pending interrupt mask is invalid''
      else if m_cwai_waiting s \<and> \<not> m_halted s then Inl ''MC6809 CWAI state must remain halted''
      else Inr ())"

lemma m6809_d_le16: "m6809_d s = le16 (m_b s) (m_a s)"
  by (simp add: m6809_d_def le16_def or.commute)

lemma m6809_d_read_back [simp]: "m6809_d (m6809_set_d v s) = v"
  by (simp add: m6809_d_le16 m6809_set_d_def)

section \<open>Creation, capture and restore\<close>

definition m6809_reset :: "'b m6809 \<Rightarrow> 'b m6809" where
  "m6809_reset s =
     (let s = m6809_state.extend m6809_state_default (m6809_state.more s);
          s = s\<lparr>m_clock_hz := max (m_clock_hz s) 1\<rparr>
      in s\<lparr>m_flags := (m_flags s)\<lparr>cc_firq_mask := True, cc_irq_mask := True\<rparr>,
           m_halted := False, m_pending_irq := 0, m_nmi_armed := False,
           m_cwai_waiting := False, m_pending_extended_clear := None\<rparr>)"

definition m6809_new :: "u32 \<Rightarrow> 'b \<Rightarrow> 'b m6809" where
  "m6809_new clock_hz b =
     m6809_reset (m6809_state.extend m6809_state_default (m6809.fields clock_hz 0 b))"

definition m6809_load_state :: "m6809_state \<Rightarrow> 'b m6809 \<Rightarrow> 'b m6809" where
  "m6809_load_state st s = m6809_state.extend st (m6809_state.more s)"

definition m6809_capture_state :: "'b m6809 \<Rightarrow> m6809_state" where
  "m6809_capture_state s = m6809_state.truncate s"

definition m6809_after_restore :: "'b m6809 \<Rightarrow> 'b m6809" where
  "m6809_after_restore s = s\<lparr>m_cycles_remaining := 0\<rparr>"

definition m6809_restore_state :: "m6809_state \<Rightarrow> 'b m6809 \<Rightarrow> (validation_error + unit) \<times> 'b m6809" where
  "m6809_restore_state = restore_root m6809_validate_state m6809_load_state m6809_after_restore"

lemma m6809_capture_load [simp]: "m6809_capture_state (m6809_load_state st s) = st"
  by (simp add: m6809_capture_state_def m6809_load_state_def m6809_state.defs)

lemma m6809_capture_after [simp]:
  "m6809_capture_state (m6809_after_restore s) = m6809_capture_state s"
  by (simp add: m6809_capture_state_def m6809_after_restore_def m6809_state.defs)

interpretation m6809_target:
  restore_target m6809_validate_state m6809_load_state m6809_after_restore m6809_capture_state
  by unfold_locales simp_all

section \<open>Accessors of the trait\<close>

definition m6809_set_clock_hz :: "u32 \<Rightarrow> 'b m6809 \<Rightarrow> 'b m6809" where
  "m6809_set_clock_hz clock_hz s = s\<lparr>m_clock_hz := max clock_hz 1\<rparr>"

definition m6809_mark_s_loaded :: "'b m6809 \<Rightarrow> 'b m6809" where
  "m6809_mark_s_loaded s = s\<lparr>m_nmi_armed := True\<rparr>"

definition m6809_set_s :: "u16 \<Rightarrow> 'b m6809 \<Rightarrow> 'b m6809" where
  "m6809_set_s value s = m6809_mark_s_loaded (s\<lparr>m_s := value\<rparr>)"

definition m6809_cc :: "'b m6809 \<Rightarrow> u8" where
  "m6809_cc s = m6809_compress (m_flags s)"

definition m6809_set_cc :: "u8 \<Rightarrow> 'b m6809 \<Rightarrow> 'b m6809" where
  "m6809_set_cc value s = m_flags_update (m6809_expand value) s"

end
