(* ===== verification/M6809_Alu.thy ===== *)
theory M6809_Alu
  imports M6809_State
begin

text \<open>
  The arithmetic unit of the MC6809 core: \<open>crates/cpu/src/m6809/alu.rs\<close>. A method that
  returns a value is a function to the value and the new state. Every operation sets its
  flags through \<open>set_flags8\<close> or \<open>set_flags16\<close>, from operands and a 32-bit result; the lemmas of
  the last section say what each flag then is, as a bit of the result.
\<close>

section \<open>Setting flags\<close>

text \<open>\<open>if mask & flag != 0 && condition { bits |= flag }\<close>\<close>

definition m6809_flag_if :: "u8 \<Rightarrow> u8 \<Rightarrow> bool \<Rightarrow> u8 \<Rightarrow> u8" where
  "m6809_flag_if msk flag condition bits =
     (if msk AND flag \<noteq> 0 \<and> condition then bits OR flag else bits)"

definition m6809_set_flags8 :: "u8 \<Rightarrow> u8 \<Rightarrow> u8 \<Rightarrow> u32 \<Rightarrow> 'b m6809 \<Rightarrow> u8 \<times> 'b m6809" where
  "m6809_set_flags8 msk left right result s =
     (let bits = m6809_compress (m_flags s) AND NOT msk;
          bits = m6809_flag_if msk CC_HALF_CARRY
            ((ucast left XOR ucast right XOR result) AND 0x10 \<noteq> 0) bits;
          bits = m6809_flag_if msk CC_NEGATIVE (result AND 0x80 \<noteq> 0) bits;
          bits = m6809_flag_if msk CC_ZERO ((ucast result :: u8) = 0) bits;
          bits = m6809_flag_if msk CC_OVERFLOW
            ((ucast left XOR ucast right XOR result XOR drop_bit 1 result) AND 0x80 \<noteq> 0) bits;
          bits = m6809_flag_if msk CC_CARRY (result AND 0x100 \<noteq> 0) bits
      in (ucast result, m_flags_update (m6809_expand bits) s))"

definition m6809_set_flags16 :: "u8 \<Rightarrow> u16 \<Rightarrow> u16 \<Rightarrow> u32 \<Rightarrow> 'b m6809 \<Rightarrow> u16 \<times> 'b m6809" where
  "m6809_set_flags16 msk left right result s =
     (let bits = m6809_compress (m_flags s) AND NOT msk;
          bits = m6809_flag_if msk CC_HALF_CARRY
            ((ucast left XOR ucast right XOR result) AND 0x10 \<noteq> 0) bits;
          bits = m6809_flag_if msk CC_NEGATIVE (result AND 0x8000 \<noteq> 0) bits;
          bits = m6809_flag_if msk CC_ZERO ((ucast result :: u16) = 0) bits;
          bits = m6809_flag_if msk CC_OVERFLOW
            ((ucast left XOR ucast right XOR result XOR drop_bit 1 result) AND 0x8000 \<noteq> 0) bits;
          bits = m6809_flag_if msk CC_CARRY (result AND 0x10000 \<noteq> 0) bits
      in (ucast result, m_flags_update (m6809_expand bits) s))"

definition m6809_set_nz8 :: "u8 \<Rightarrow> 'b m6809 \<Rightarrow> u8 \<times> 'b m6809" where
  "m6809_set_nz8 value = m6809_set_flags8 CC_NZ 0 value (ucast value)"

definition m6809_set_nzv8 :: "u8 \<Rightarrow> 'b m6809 \<Rightarrow> u8 \<times> 'b m6809" where
  "m6809_set_nzv8 value = m6809_set_flags8 CC_NZV 0 value (ucast value)"

definition m6809_set_nzv16 :: "u16 \<Rightarrow> 'b m6809 \<Rightarrow> u16 \<times> 'b m6809" where
  "m6809_set_nzv16 value = m6809_set_flags16 CC_NZV 0 value (ucast value)"

definition m6809_set_z16 :: "u16 \<Rightarrow> 'b m6809 \<Rightarrow> u16 \<times> 'b m6809" where
  "m6809_set_z16 value = m6809_set_flags16 CC_ZERO 0 value (ucast value)"

text \<open>Assignments to single flags.\<close>

definition m6809_assign_carry :: "bool \<Rightarrow> 'b m6809 \<Rightarrow> 'b m6809" where
  "m6809_assign_carry v = m_flags_update (cc_carry_update (\<lambda>_. v))"

definition m6809_assign_overflow :: "bool \<Rightarrow> 'b m6809 \<Rightarrow> 'b m6809" where
  "m6809_assign_overflow v = m_flags_update (cc_overflow_update (\<lambda>_. v))"

section \<open>Operations on bytes\<close>

definition m6809_neg8 :: "u8 \<Rightarrow> 'b m6809 \<Rightarrow> u8 \<times> 'b m6809" where
  "m6809_neg8 value = m6809_set_flags8 CC_NZVC 0 value (0 - ucast value)"

definition m6809_com8 :: "u8 \<Rightarrow> 'b m6809 \<Rightarrow> u8 \<times> 'b m6809" where
  "m6809_com8 value s =
     m6809_set_nz8 (NOT value) (m6809_assign_carry True (m6809_assign_overflow False s))"

definition m6809_lsr8 :: "u8 \<Rightarrow> 'b m6809 \<Rightarrow> u8 \<times> 'b m6809" where
  "m6809_lsr8 value s =
     m6809_set_nz8 (drop_bit 1 value) (m6809_assign_carry (value AND 0x01 \<noteq> 0) s)"

definition m6809_ror8 :: "u8 \<Rightarrow> 'b m6809 \<Rightarrow> u8 \<times> 'b m6809" where
  "m6809_ror8 value s =
     (let old_carry = cc_carry (m_flags s);
          s = m6809_assign_carry (value AND 0x01 \<noteq> 0) s;
          result = drop_bit 1 value OR (if old_carry then 0x80 else 0)
      in m6809_set_nz8 result s)"

definition m6809_asr8 :: "u8 \<Rightarrow> 'b m6809 \<Rightarrow> u8 \<times> 'b m6809" where
  "m6809_asr8 value s =
     m6809_set_nz8 (drop_bit 1 value OR (value AND 0x80)) (m6809_assign_carry (value AND 0x01 \<noteq> 0) s)"

definition m6809_asl8 :: "u8 \<Rightarrow> 'b m6809 \<Rightarrow> u8 \<times> 'b m6809" where
  "m6809_asl8 value = m6809_set_flags8 CC_NZVC value value (push_bit 1 (ucast value))"

definition m6809_rol8 :: "u8 \<Rightarrow> 'b m6809 \<Rightarrow> u8 \<times> 'b m6809" where
  "m6809_rol8 value s =
     (let old_carry = cc_carry (m_flags s);
          s = m6809_assign_carry (value AND 0x80 \<noteq> 0) s;
          result = push_bit 1 (ucast value) OR of_bool old_carry
      in m6809_set_flags8 CC_NZV value value result s)"

definition m6809_dec8 :: "u8 \<Rightarrow> 'b m6809 \<Rightarrow> u8 \<times> 'b m6809" where
  "m6809_dec8 value = m6809_set_flags8 CC_NZV value 1 (ucast value - 1)"

definition m6809_xdec8 :: "u8 \<Rightarrow> 'b m6809 \<Rightarrow> u8 \<times> 'b m6809" where
  "m6809_xdec8 value s = m6809_dec8 value (m6809_assign_carry (value \<noteq> 0) s)"

definition m6809_inc8 :: "u8 \<Rightarrow> 'b m6809 \<Rightarrow> u8 \<times> 'b m6809" where
  "m6809_inc8 value = m6809_set_flags8 CC_NZV value 1 (ucast value + 1)"

definition m6809_tst8 :: "u8 \<Rightarrow> 'b m6809 \<Rightarrow> 'b m6809" where
  "m6809_tst8 value s = snd (m6809_set_nzv8 value s)"

definition m6809_clr8 :: "'b m6809 \<Rightarrow> u8 \<times> 'b m6809" where
  "m6809_clr8 s = (0, m_flags_update (m6809_set_bits CC_NZVC CC_ZERO) s)"

definition m6809_xclr8 :: "'b m6809 \<Rightarrow> u8 \<times> 'b m6809" where
  "m6809_xclr8 s = (0, m_flags_update (m6809_set_bits CC_NZV CC_ZERO) s)"

definition m6809_sub8 :: "u8 \<Rightarrow> u8 \<Rightarrow> 'b m6809 \<Rightarrow> u8 \<times> 'b m6809" where
  "m6809_sub8 left right = m6809_set_flags8 CC_NZVC left right (ucast left - ucast right)"

definition m6809_sbc8 :: "u8 \<Rightarrow> u8 \<Rightarrow> 'b m6809 \<Rightarrow> u8 \<times> 'b m6809" where
  "m6809_sbc8 left right s =
     (let carry = of_bool (cc_carry (m_flags s))
      in m6809_set_flags8 CC_NZVC left right (ucast left - ucast right - carry) s)"

definition m6809_cmp8 :: "u8 \<Rightarrow> u8 \<Rightarrow> 'b m6809 \<Rightarrow> 'b m6809" where
  "m6809_cmp8 left right s = snd (m6809_sub8 left right s)"

definition m6809_and8 :: "u8 \<Rightarrow> u8 \<Rightarrow> 'b m6809 \<Rightarrow> u8 \<times> 'b m6809" where
  "m6809_and8 left right s = m6809_set_nz8 (left AND right) (m6809_assign_overflow False s)"

definition m6809_bit8 :: "u8 \<Rightarrow> u8 \<Rightarrow> 'b m6809 \<Rightarrow> 'b m6809" where
  "m6809_bit8 left right s = snd (m6809_set_nz8 (left AND right) (m6809_assign_overflow False s))"

definition m6809_eor8 :: "u8 \<Rightarrow> u8 \<Rightarrow> 'b m6809 \<Rightarrow> u8 \<times> 'b m6809" where
  "m6809_eor8 left right s = m6809_set_nz8 (left XOR right) (m6809_assign_overflow False s)"

definition m6809_adc8 :: "u8 \<Rightarrow> u8 \<Rightarrow> 'b m6809 \<Rightarrow> u8 \<times> 'b m6809" where
  "m6809_adc8 left right s =
     (let carry = of_bool (cc_carry (m_flags s))
      in m6809_set_flags8 CC_HNZVC left right (ucast left + ucast right + carry) s)"

definition m6809_or8 :: "u8 \<Rightarrow> u8 \<Rightarrow> 'b m6809 \<Rightarrow> u8 \<times> 'b m6809" where
  "m6809_or8 left right s = m6809_set_nz8 (left OR right) (m6809_assign_overflow False s)"

definition m6809_add8 :: "u8 \<Rightarrow> u8 \<Rightarrow> 'b m6809 \<Rightarrow> u8 \<times> 'b m6809" where
  "m6809_add8 left right = m6809_set_flags8 CC_HNZVC left right (ucast left + ucast right)"

section \<open>Operations on words and on the accumulators\<close>

definition m6809_add16 :: "u16 \<Rightarrow> u16 \<Rightarrow> 'b m6809 \<Rightarrow> u16 \<times> 'b m6809" where
  "m6809_add16 left right = m6809_set_flags16 CC_NZVC left right (ucast left + ucast right)"

definition m6809_sub16 :: "u16 \<Rightarrow> u16 \<Rightarrow> 'b m6809 \<Rightarrow> u16 \<times> 'b m6809" where
  "m6809_sub16 left right = m6809_set_flags16 CC_NZVC left right (ucast left - ucast right)"

definition m6809_cmp16 :: "u16 \<Rightarrow> u16 \<Rightarrow> 'b m6809 \<Rightarrow> 'b m6809" where
  "m6809_cmp16 left right s = snd (m6809_sub16 left right s)"

definition m6809_daa :: "'b m6809 \<Rightarrow> 'b m6809" where
  "m6809_daa s =
     (let correction = 0 :: u16;
          most_significant_nibble = m_a s AND 0xF0;
          least_significant_nibble = m_a s AND 0x0F;
          correction = (if least_significant_nibble > 0x09 \<or> cc_half_carry (m_flags s)
                        then correction OR 0x06 else correction);
          correction = (if most_significant_nibble > 0x80 \<and> least_significant_nibble > 0x09
                        then correction OR 0x60 else correction);
          correction = (if most_significant_nibble > 0x90 \<or> cc_carry (m_flags s)
                        then correction OR 0x60 else correction);
          result = ucast (m_a s) + correction;
          s = m6809_assign_overflow False s;
          s = (if result AND 0x0100 \<noteq> 0 then m6809_assign_carry True s else s);
          (value, s) = m6809_set_nz8 (ucast result) s
      in s\<lparr>m_a := value\<rparr>)"

definition m6809_mul :: "'b m6809 \<Rightarrow> 'b m6809" where
  "m6809_mul s =
     (let result = ucast (m_a s) * ucast (m_b s) :: u16;
          (value, s) = m6809_set_flags16 CC_ZERO 0 result (ucast result) s;
          s = m6809_set_d value s
      in m6809_assign_carry (m6809_d s AND 0x0080 \<noteq> 0) s)"

definition m6809_sex :: "'b m6809 \<Rightarrow> 'b m6809" where
  "m6809_sex s =
     (let value = scast (m_b s) :: u16;
          (result, s) = m6809_set_flags16 CC_NZ 0 value (ucast value) s
      in m6809_set_d result s)"

section \<open>What the flags are\<close>

lemma bit_flag_if:
  "k < 8 \<Longrightarrow> bit (m6809_flag_if msk (2 ^ k) c bits) n \<longleftrightarrow> bit bits n \<or> n = k \<and> bit msk k \<and> c"
  by (auto simp: m6809_flag_if_def and_pow2_nonzero bit_or_iff bit_exp_iff)

lemma bit_flags_if:
  "bit (m6809_flag_if msk CC_CARRY c bits) n \<longleftrightarrow> bit bits n \<or> n = 0 \<and> bit msk 0 \<and> c"
  "bit (m6809_flag_if msk CC_OVERFLOW c bits) n \<longleftrightarrow> bit bits n \<or> n = 1 \<and> bit msk 1 \<and> c"
  "bit (m6809_flag_if msk CC_ZERO c bits) n \<longleftrightarrow> bit bits n \<or> n = 2 \<and> bit msk 2 \<and> c"
  "bit (m6809_flag_if msk CC_NEGATIVE c bits) n \<longleftrightarrow> bit bits n \<or> n = 3 \<and> bit msk 3 \<and> c"
  "bit (m6809_flag_if msk CC_HALF_CARRY c bits) n \<longleftrightarrow> bit bits n \<or> n = 5 \<and> bit msk 5 \<and> c"
  unfolding cc_mask_exp by (rule bit_flag_if; simp)+

lemma word_bit_nonzero:
  "(x :: u32) AND 0x10 \<noteq> 0 \<longleftrightarrow> bit x 4" "x AND 0x80 \<noteq> 0 \<longleftrightarrow> bit x 7"
  "x AND 0x100 \<noteq> 0 \<longleftrightarrow> bit x 8" "x AND 0x8000 \<noteq> 0 \<longleftrightarrow> bit x 15"
  "x AND 0x10000 \<noteq> 0 \<longleftrightarrow> bit x 16"
  using and_pow2_nonzero [of x 4] and_pow2_nonzero [of x 7] and_pow2_nonzero [of x 8]
    and_pow2_nonzero [of x 15] and_pow2_nonzero [of x 16] by simp_all

lemma set_flags_state:
  "fst (m6809_set_flags8 msk l r res s) = ucast res"
  "fst (m6809_set_flags16 msk l' r' res s) = ucast res"
  "snd (m6809_set_flags8 msk l r res s) =
     s\<lparr>m_flags := m_flags (snd (m6809_set_flags8 msk l r res s))\<rparr>"
  "snd (m6809_set_flags16 msk l' r' res s) =
     s\<lparr>m_flags := m_flags (snd (m6809_set_flags16 msk l' r' res s))\<rparr>"
  by (simp_all add: m6809_set_flags8_def m6809_set_flags16_def Let_def)

lemmas cc_mask_sets = CC_NZ_def CC_NZV_def CC_NZVC_def CC_HNZVC_def

lemma bit_exp8: "bit (2 ^ k :: u8) n \<longleftrightarrow> n = k \<and> k < 8"
  by (auto simp: bit_exp_iff)

lemma bit_cc_masks:
  "bit CC_NZ n \<longleftrightarrow> n = 2 \<or> n = 3" "bit CC_NZV n \<longleftrightarrow> n = 1 \<or> n = 2 \<or> n = 3"
  "bit CC_NZVC n \<longleftrightarrow> n = 0 \<or> n = 1 \<or> n = 2 \<or> n = 3"
  "bit CC_HNZVC n \<longleftrightarrow> n = 0 \<or> n = 1 \<or> n = 2 \<or> n = 3 \<or> n = 5" "bit CC_ZERO n \<longleftrightarrow> n = 2"
  unfolding cc_mask_sets cc_mask_exp bit_or_iff bit_exp8 by auto

lemma set_flags8_flags:
  fixes l r msk :: u8 and res :: u32 and s :: "'b m6809"
  defines "f \<equiv> m_flags (snd (m6809_set_flags8 msk l r res s))" and "g \<equiv> m_flags s"
  shows "cc_carry f = (if bit msk 0 then bit res 8 else cc_carry g)"
    "cc_overflow f = (if bit msk 1
       then bit l 7 \<noteq> (bit r 7 \<noteq> (bit res 7 \<noteq> bit res 8)) else cc_overflow g)"
    "cc_zero f = (if bit msk 2 then (ucast res :: u8) = 0 else cc_zero g)"
    "cc_negative f = (if bit msk 3 then bit res 7 else cc_negative g)"
    "cc_irq_mask f = (\<not> bit msk 4 \<and> cc_irq_mask g)"
    "cc_half_carry f = (if bit msk 5 then bit l 4 \<noteq> (bit r 4 \<noteq> bit res 4) else cc_half_carry g)"
    "cc_firq_mask f = (\<not> bit msk 6 \<and> cc_firq_mask g)"
    "cc_entire f = (\<not> bit msk 7 \<and> cc_entire g)"
  by (simp_all add: f_def g_def m6809_set_flags8_def Let_def bit_flags_if bit_and_iff
      bit_not_iff conj_commute word_bit_nonzero bit_xor_iff bit_ucast_iff bit_drop_bit_eq)

lemma set_flags16_flags:
  fixes l r :: u16 and msk :: u8 and res :: u32 and s :: "'b m6809"
  defines "f \<equiv> m_flags (snd (m6809_set_flags16 msk l r res s))" and "g \<equiv> m_flags s"
  shows "cc_carry f = (if bit msk 0 then bit res 16 else cc_carry g)"
    "cc_overflow f = (if bit msk 1
       then bit l 15 \<noteq> (bit r 15 \<noteq> (bit res 15 \<noteq> bit res 16)) else cc_overflow g)"
    "cc_zero f = (if bit msk 2 then (ucast res :: u16) = 0 else cc_zero g)"
    "cc_negative f = (if bit msk 3 then bit res 15 else cc_negative g)"
    "cc_irq_mask f = (\<not> bit msk 4 \<and> cc_irq_mask g)"
    "cc_half_carry f = (if bit msk 5 then bit l 4 \<noteq> (bit r 4 \<noteq> bit res 4) else cc_half_carry g)"
    "cc_firq_mask f = (\<not> bit msk 6 \<and> cc_firq_mask g)"
    "cc_entire f = (\<not> bit msk 7 \<and> cc_entire g)"
  by (simp_all add: f_def g_def m6809_set_flags16_def Let_def bit_flags_if bit_and_iff
      bit_not_iff conj_commute word_bit_nonzero bit_xor_iff bit_ucast_iff bit_drop_bit_eq)

end
