(* ===== verification/M6809_Access.thy ===== *)
theory M6809_Access
  imports M6809_Alu
begin

text \<open>
  What the instructions of the MC6809 core are made of: the clocked bus accesses and the stacks
  of \<open>crates/cpu/src/m6809.rs\<close>, the indexed addressing of \<open>m6809/indexed.rs\<close>, and the addressing
  modes of \<open>m6809/execute.rs\<close>. A stack pointer that a method takes as \<open>&mut u16\<close> is an argument
  and the first part of the result.
\<close>

section \<open>Clocked accesses\<close>

definition m6809_clk :: "int \<Rightarrow> 'b m6809 \<Rightarrow> 'b m6809" where
  "m6809_clk cycles s = s\<lparr>m_cycles_remaining := m_cycles_remaining s - cycles\<rparr>"

definition m6809_read_byte :: "'b bus_ops \<Rightarrow> u16 \<Rightarrow> 'b m6809 \<Rightarrow> u8 \<times> 'b m6809" where
  "m6809_read_byte io address s =
     (let (value, b) = bus_read_byte io (ucast address) (m_bus s);
          s = s\<lparr>m_bus := b\<rparr>
      in (value, m6809_clk 1 s))"

definition m6809_write_byte :: "'b bus_ops \<Rightarrow> u16 \<Rightarrow> u8 \<Rightarrow> 'b m6809 \<Rightarrow> 'b m6809" where
  "m6809_write_byte io address value s =
     m6809_clk 1 (s\<lparr>m_bus := bus_write_byte io (ucast address) value (m_bus s)\<rparr>)"

definition m6809_fetch_u8 :: "'b bus_ops \<Rightarrow> 'b m6809 \<Rightarrow> u8 \<times> 'b m6809" where
  "m6809_fetch_u8 io s =
     (let (value, b) = bus_fetch_opcode_byte io (ucast (m_pc s)) (m_bus s);
          s = s\<lparr>m_bus := b\<rparr>;
          s = s\<lparr>m_pc := m_pc s + 1\<rparr>
      in (value, m6809_clk 1 s))"

text \<open>\<open>(high << 8) | low\<close>: the processor reads and writes words with the high byte first.\<close>

definition m6809_fetch_u16 :: "'b bus_ops \<Rightarrow> 'b m6809 \<Rightarrow> u16 \<times> 'b m6809" where
  "m6809_fetch_u16 io s =
     (let (high, s) = m6809_fetch_u8 io s;
          (low, s) = m6809_fetch_u8 io s
      in (le16 low high, s))"

definition m6809_read_word :: "'b bus_ops \<Rightarrow> u16 \<Rightarrow> 'b m6809 \<Rightarrow> u16 \<times> 'b m6809" where
  "m6809_read_word io address s =
     (let (high, s) = m6809_read_byte io address s;
          (low, s) = m6809_read_byte io (address + 1) s
      in (le16 low high, s))"

definition m6809_write_word :: "'b bus_ops \<Rightarrow> u16 \<Rightarrow> u16 \<Rightarrow> 'b m6809 \<Rightarrow> 'b m6809" where
  "m6809_write_word io address value s =
     m6809_write_byte io (address + 1) (lo8 value) (m6809_write_byte io address (hi8 value) s)"

definition m6809_read_word_untracked :: "'b bus_ops \<Rightarrow> u16 \<Rightarrow> 'b m6809 \<Rightarrow> u16 \<times> 'b m6809" where
  "m6809_read_word_untracked io address s =
     (let (high, b) = bus_read_byte io (ucast address) (m_bus s);
          (low, b) = bus_read_byte io (ucast (address + 1)) b
      in (le16 low high, s\<lparr>m_bus := b\<rparr>))"

definition m6809_direct_address :: "'b bus_ops \<Rightarrow> 'b m6809 \<Rightarrow> u16 \<times> 'b m6809" where
  "m6809_direct_address io s =
     (let dp = m_dp s; (low, s) = m6809_fetch_u8 io s in (le16 low dp, s))"

definition m6809_finish_instruction :: "int \<Rightarrow> int \<Rightarrow> 'b m6809 \<Rightarrow> 'b m6809" where
  "m6809_finish_instruction cycle_start target_cycles s =
     (let consumed = cycle_start - m_cycles_remaining s;
          remaining = target_cycles - consumed
      in if remaining > 0 then s\<lparr>m_cycles_remaining := m_cycles_remaining s - remaining\<rparr> else s)"

section \<open>Stacks\<close>

definition m6809_push_byte :: "'b bus_ops \<Rightarrow> u8 \<Rightarrow> u16 \<times> 'b m6809 \<Rightarrow> u16 \<times> 'b m6809" where
  "m6809_push_byte io value = (\<lambda>(stack, s).
     let stack = stack - 1 in (stack, m6809_write_byte io stack value s))"

definition m6809_push_word :: "'b bus_ops \<Rightarrow> u16 \<Rightarrow> u16 \<times> 'b m6809 \<Rightarrow> u16 \<times> 'b m6809" where
  "m6809_push_word io value = (\<lambda>(stack, s).
     m6809_push_byte io (hi8 value) (m6809_push_byte io (lo8 value) (stack, s)))"

definition m6809_pull_byte :: "'b bus_ops \<Rightarrow> u16 \<times> 'b m6809 \<Rightarrow> u8 \<times> u16 \<times> 'b m6809" where
  "m6809_pull_byte io = (\<lambda>(stack, s).
     let (value, s) = m6809_read_byte io stack s in (value, stack + 1, s))"

definition m6809_pull_word :: "'b bus_ops \<Rightarrow> u16 \<times> 'b m6809 \<Rightarrow> u16 \<times> u16 \<times> 'b m6809" where
  "m6809_pull_word io = (\<lambda>(stack, s).
     let (high, stack, s) = m6809_pull_byte io (stack, s);
         (low, stack, s) = m6809_pull_byte io (stack, s)
     in (le16 low high, stack, s))"

definition m6809_push_s_word :: "'b bus_ops \<Rightarrow> u16 \<Rightarrow> 'b m6809 \<Rightarrow> 'b m6809" where
  "m6809_push_s_word io value s =
     (let (stack, s) = m6809_push_word io value (m_s s, s) in s\<lparr>m_s := stack\<rparr>)"

definition m6809_pull_s_byte :: "'b bus_ops \<Rightarrow> 'b m6809 \<Rightarrow> u8 \<times> 'b m6809" where
  "m6809_pull_s_byte io s =
     (let (value, stack, s) = m6809_pull_byte io (m_s s, s) in (value, s\<lparr>m_s := stack\<rparr>))"

definition m6809_pull_s_word :: "'b bus_ops \<Rightarrow> 'b m6809 \<Rightarrow> u16 \<times> 'b m6809" where
  "m6809_pull_s_word io s =
     (let (value, stack, s) = m6809_pull_word io (m_s s, s) in (value, s\<lparr>m_s := stack\<rparr>))"

section \<open>Indexed addressing\<close>

datatype index_register = IndexX | IndexY | IndexU | IndexS

definition m6809_index_of :: "u8 \<Rightarrow> index_register" where
  "m6809_index_of postbyte =
     (let k = postbyte AND 0x60 in
      if k = 0x00 then IndexX else if k = 0x20 then IndexY else if k = 0x40 then IndexU
      else if k = 0x60 then IndexS else IndexX)"

definition m6809_index_register :: "index_register \<Rightarrow> 'b m6809 \<Rightarrow> u16" where
  "m6809_index_register r s =
     (case r of IndexX \<Rightarrow> m_x s | IndexY \<Rightarrow> m_y s | IndexU \<Rightarrow> m_u s | IndexS \<Rightarrow> m_s s)"

definition m6809_set_index_register :: "index_register \<Rightarrow> u16 \<Rightarrow> 'b m6809 \<Rightarrow> 'b m6809" where
  "m6809_set_index_register r value s =
     (case r of IndexX \<Rightarrow> s\<lparr>m_x := value\<rparr> | IndexY \<Rightarrow> s\<lparr>m_y := value\<rparr>
      | IndexU \<Rightarrow> s\<lparr>m_u := value\<rparr> | IndexS \<Rightarrow> s\<lparr>m_s := value\<rparr>)"

definition m6809_indexed_extra_cycles :: "u8 \<Rightarrow> int" where
  "m6809_indexed_extra_cycles postbyte =
     (if postbyte AND 0x80 = 0 then 1
      else
        let indirect = (postbyte AND 0x10 \<noteq> 0); k = postbyte AND 0x0F in
        if k \<in> {0x00, 0x02} then (if indirect then 5 else 2)
        else if k \<in> {0x01, 0x03} then (if indirect then 6 else 3)
        else if k = 0x04 then (if indirect then 3 else 0)
        else if k \<in> {0x05, 0x06, 0x08, 0x0C} then (if indirect then 4 else 1)
        else if k \<in> {0x09, 0x0B} then (if indirect then 7 else 4)
        else if k = 0x0D then (if indirect then 8 else 5)
        else if k = 0x0F then (if indirect then 5 else 2)
        else if k \<in> {0x07, 0x0A, 0x0E} then (if indirect then 2 else -1)
        else 0)"

text \<open>The address before the indirection.\<close>

definition m6809_indexed_base :: "'b bus_ops \<Rightarrow> u8 \<Rightarrow> 'b m6809 \<Rightarrow> u16 \<times> 'b m6809" where
  "m6809_indexed_base io postbyte s =
     (let r = m6809_index_of postbyte; k = postbyte AND 0x0F in
      if postbyte AND 0x80 = 0 then
        (let offset = (postbyte AND 0x0F) OR (if postbyte AND 0x10 \<noteq> 0 then 0xF0 else 0)
         in (add_signed8 (m6809_index_register r s) offset, s))
      else if k = 0x00 then
        (let value = m6809_index_register r s in (value, m6809_set_index_register r (value + 1) s))
      else if k = 0x01 then
        (let value = m6809_index_register r s in (value, m6809_set_index_register r (value + 2) s))
      else if k = 0x02 then
        (let value = m6809_index_register r s - 1 in (value, m6809_set_index_register r value s))
      else if k = 0x03 then
        (let value = m6809_index_register r s - 2 in (value, m6809_set_index_register r value s))
      else if k = 0x04 then (m6809_index_register r s, s)
      else if k = 0x05 then (add_signed8 (m6809_index_register r s) (m_b s), s)
      else if k = 0x06 then (add_signed8 (m6809_index_register r s) (m_a s), s)
      else if k = 0x08 then
        (let (offset, s) = m6809_fetch_u8 io s in (add_signed8 (m6809_index_register r s) offset, s))
      else if k = 0x09 then
        (let (offset, s) = m6809_fetch_u16 io s in (m6809_index_register r s + offset, s))
      else if k = 0x0B then (m6809_index_register r s + m6809_d s, s)
      else if k = 0x0C then
        (let (offset, s) = m6809_fetch_u8 io s in (add_signed8 (m_pc s) offset, s))
      else if k = 0x0D then (let (offset, s) = m6809_fetch_u16 io s in (m_pc s + offset, s))
      else if k = 0x0F then m6809_fetch_u16 io s
      else (0, s))"

definition m6809_indexed_address :: "'b bus_ops \<Rightarrow> 'b m6809 \<Rightarrow> (u16 \<times> int) \<times> 'b m6809" where
  "m6809_indexed_address io s =
     (let (postbyte, s) = m6809_fetch_u8 io s;
          extra_cycles = m6809_indexed_extra_cycles postbyte;
          (address, s) = m6809_indexed_base io postbyte s;
          (address, s) = (if postbyte AND 0x90 = 0x90 then m6809_read_word io address s
                          else (address, s))
      in ((address, extra_cycles), s))"

section \<open>Addressing modes\<close>

datatype address_mode = Immediate | Direct | Indexed | Extended

definition m6809_mode_cycles :: "address_mode \<Rightarrow> int \<Rightarrow> int \<Rightarrow> int \<Rightarrow> int \<Rightarrow> int" where
  "m6809_mode_cycles mode immediate direct indexed extended =
     (case mode of Immediate \<Rightarrow> immediate | Direct \<Rightarrow> direct | Indexed \<Rightarrow> indexed
      | Extended \<Rightarrow> extended)"

definition m6809_address_for_mode ::
  "'b bus_ops \<Rightarrow> address_mode \<Rightarrow> 'b m6809 \<Rightarrow> (u16 \<times> int) \<times> 'b m6809" where
  "m6809_address_for_mode io mode s =
     (case mode of
        Immediate \<Rightarrow> ((m_pc s, 0), s)
      | Direct \<Rightarrow> (let (address, s) = m6809_direct_address io s in ((address, 0), s))
      | Indexed \<Rightarrow> m6809_indexed_address io s
      | Extended \<Rightarrow> (let (address, s) = m6809_fetch_u16 io s in ((address, 0), s)))"

definition m6809_read_mode_u8 ::
  "'b bus_ops \<Rightarrow> address_mode \<Rightarrow> 'b m6809 \<Rightarrow> (u8 \<times> int) \<times> 'b m6809" where
  "m6809_read_mode_u8 io mode s =
     (if mode = Immediate then (let (value, s) = m6809_fetch_u8 io s in ((value, 0), s))
      else
        let ((address, extra_cycles), s) = m6809_address_for_mode io mode s;
            (value, s) = m6809_read_byte io address s
        in ((value, extra_cycles), s))"

definition m6809_read_mode_u16 ::
  "'b bus_ops \<Rightarrow> address_mode \<Rightarrow> 'b m6809 \<Rightarrow> (u16 \<times> int) \<times> 'b m6809" where
  "m6809_read_mode_u16 io mode s =
     (if mode = Immediate then (let (value, s) = m6809_fetch_u16 io s in ((value, 0), s))
      else
        let ((address, extra_cycles), s) = m6809_address_for_mode io mode s;
            (value, s) = m6809_read_word io address s
        in ((value, extra_cycles), s))"

definition m6809_write_mode_u8 ::
  "'b bus_ops \<Rightarrow> address_mode \<Rightarrow> u8 \<Rightarrow> 'b m6809 \<Rightarrow> int \<times> 'b m6809" where
  "m6809_write_mode_u8 io mode value s =
     (let ((address, extra_cycles), s) = m6809_address_for_mode io mode s
      in (extra_cycles, m6809_write_byte io address value s))"

definition m6809_write_mode_u16 ::
  "'b bus_ops \<Rightarrow> address_mode \<Rightarrow> u16 \<Rightarrow> 'b m6809 \<Rightarrow> int \<times> 'b m6809" where
  "m6809_write_mode_u16 io mode value s =
     (let ((address, extra_cycles), s) = m6809_address_for_mode io mode s
      in (extra_cycles, m6809_write_word io address value s))"

end
