(* ===== verification/M6809_Interrupt.thy ===== *)
theory M6809_Interrupt
  imports M6809_Access
begin

text \<open>
  Interrupts and the instructions that save and restore registers: \<open>m6809/interrupt.rs\<close>. A
  method that returns its number of cycles is a function to the cycles and the new state.
\<close>

definition VECTOR_SWI3 :: u16 where "VECTOR_SWI3 = 0xFFF2"
definition VECTOR_SWI2 :: u16 where "VECTOR_SWI2 = 0xFFF4"
definition VECTOR_FIRQ :: u16 where "VECTOR_FIRQ = 0xFFF6"
definition VECTOR_IRQ :: u16 where "VECTOR_IRQ = 0xFFF8"
definition VECTOR_SWI :: u16 where "VECTOR_SWI = 0xFFFA"
definition VECTOR_NMI :: u16 where "VECTOR_NMI = 0xFFFC"
definition VECTOR_RESET :: u16 where "VECTOR_RESET = 0xFFFE"
definition PENDING_FIRQ :: u8 where "PENDING_FIRQ = 0x04"
definition PARTIAL_STATE_MASK :: u8 where "PARTIAL_STATE_MASK = 0x81"
definition ENTIRE_STATE_MASK :: u8 where "ENTIRE_STATE_MASK = 0xFF"

definition m6809_reset_with_bus :: "'b bus_ops \<Rightarrow> 'b m6809 \<Rightarrow> 'b m6809" where
  "m6809_reset_with_bus io s =
     (let s = m6809_reset s;
          (pc, s) = m6809_read_word_untracked io VECTOR_RESET s
      in s\<lparr>m_pc := pc\<rparr>)"

definition m6809_request_firq :: "'b m6809 \<Rightarrow> 'b m6809" where
  "m6809_request_firq s = s\<lparr>m_pending_irq := m_pending_irq s OR PENDING_FIRQ\<rparr>"

definition m6809_clear_firq :: "'b m6809 \<Rightarrow> 'b m6809" where
  "m6809_clear_firq s = s\<lparr>m_pending_irq := m_pending_irq s AND NOT PENDING_FIRQ\<rparr>"

definition m6809_set_entire :: "bool \<Rightarrow> 'b m6809 \<Rightarrow> 'b m6809" where
  "m6809_set_entire v = m_flags_update (cc_entire_update (\<lambda>_. v))"

definition m6809_mask_irq :: "'b m6809 \<Rightarrow> 'b m6809" where
  "m6809_mask_irq = m_flags_update (cc_irq_mask_update (\<lambda>_. True))"

definition m6809_mask_firq :: "'b m6809 \<Rightarrow> 'b m6809" where
  "m6809_mask_firq = m_flags_update (cc_firq_mask_update (\<lambda>_. True))"

section \<open>Registers on a stack\<close>

definition m6809_stack_pointer :: "bool \<Rightarrow> 'b m6809 \<Rightarrow> u16" where
  "m6809_stack_pointer hardware s = (if hardware then m_s s else m_u s)"

definition m6809_set_stack_pointer :: "bool \<Rightarrow> u16 \<times> 'b m6809 \<Rightarrow> 'b m6809" where
  "m6809_set_stack_pointer hardware =
     (\<lambda>(stack, s). if hardware then s\<lparr>m_s := stack\<rparr> else s\<lparr>m_u := stack\<rparr>)"

definition m6809_push_registers :: "'b bus_ops \<Rightarrow> bool \<Rightarrow> u8 \<Rightarrow> 'b m6809 \<Rightarrow> 'b m6809" where
  "m6809_push_registers io hardware msk s =
     (let p = (m6809_stack_pointer hardware s, s);
          p = (if msk AND 0x80 \<noteq> 0 then m6809_push_word io (m_pc s) p else p);
          p = (if msk AND 0x40 \<noteq> 0
               then m6809_push_word io (if hardware then m_u s else m_s s) p else p);
          p = (if msk AND 0x20 \<noteq> 0 then m6809_push_word io (m_y s) p else p);
          p = (if msk AND 0x10 \<noteq> 0 then m6809_push_word io (m_x s) p else p);
          p = (if msk AND 0x08 \<noteq> 0 then m6809_push_byte io (m_dp s) p else p);
          p = (if msk AND 0x04 \<noteq> 0 then m6809_push_byte io (m_b s) p else p);
          p = (if msk AND 0x02 \<noteq> 0 then m6809_push_byte io (m_a s) p else p);
          p = (if msk AND 0x01 \<noteq> 0
               then m6809_push_byte io (m6809_compress (m_flags s)) p else p)
      in m6809_set_stack_pointer hardware p)"

text \<open>A byte or a word pulled from the stack into a register, when the mask selects it.\<close>

definition m6809_pull_byte_if ::
  "'b bus_ops \<Rightarrow> bool \<Rightarrow> (u8 \<Rightarrow> 'b m6809 \<Rightarrow> 'b m6809) \<Rightarrow> u16 \<times> 'b m6809 \<Rightarrow> u16 \<times> 'b m6809" where
  "m6809_pull_byte_if io selected store p =
     (if selected then (let (value, stack, s) = m6809_pull_byte io p in (stack, store value s)) else p)"

definition m6809_pull_word_if ::
  "'b bus_ops \<Rightarrow> bool \<Rightarrow> (u16 \<Rightarrow> 'b m6809 \<Rightarrow> 'b m6809) \<Rightarrow> u16 \<times> 'b m6809 \<Rightarrow> u16 \<times> 'b m6809" where
  "m6809_pull_word_if io selected store p =
     (if selected then (let (value, stack, s) = m6809_pull_word io p in (stack, store value s)) else p)"

definition m6809_pull_registers :: "'b bus_ops \<Rightarrow> bool \<Rightarrow> u8 \<Rightarrow> 'b m6809 \<Rightarrow> 'b m6809" where
  "m6809_pull_registers io hardware msk s =
     (let p = (m6809_stack_pointer hardware s, s);
          p = m6809_pull_byte_if io (msk AND 0x01 \<noteq> 0) (\<lambda>v. m_flags_update (m6809_expand v)) p;
          p = m6809_pull_byte_if io (msk AND 0x02 \<noteq> 0) (\<lambda>v s. s\<lparr>m_a := v\<rparr>) p;
          p = m6809_pull_byte_if io (msk AND 0x04 \<noteq> 0) (\<lambda>v s. s\<lparr>m_b := v\<rparr>) p;
          p = m6809_pull_byte_if io (msk AND 0x08 \<noteq> 0) (\<lambda>v s. s\<lparr>m_dp := v\<rparr>) p;
          p = m6809_pull_word_if io (msk AND 0x10 \<noteq> 0) (\<lambda>v s. s\<lparr>m_x := v\<rparr>) p;
          p = m6809_pull_word_if io (msk AND 0x20 \<noteq> 0) (\<lambda>v s. s\<lparr>m_y := v\<rparr>) p;
          p = m6809_pull_word_if io (msk AND 0x40 \<noteq> 0)
                (\<lambda>v s. if hardware then s\<lparr>m_u := v\<rparr> else m6809_mark_s_loaded (s\<lparr>m_s := v\<rparr>)) p;
          p = m6809_pull_word_if io (msk AND 0x80 \<noteq> 0) (\<lambda>v s. s\<lparr>m_pc := v\<rparr>) p
      in m6809_set_stack_pointer hardware p)"

section \<open>Interrupt inputs\<close>

text \<open>
  What the three service methods start with: they wake the processor, and save the registers
  unless CWAI has.
\<close>

definition m6809_enter_service :: "'b bus_ops \<Rightarrow> bool \<Rightarrow> u8 \<Rightarrow> 'b m6809 \<Rightarrow> 'b m6809" where
  "m6809_enter_service io entire msk s =
     (let s = s\<lparr>m_halted := False\<rparr>; waiting = m_cwai_waiting s; s = s\<lparr>m_cwai_waiting := False\<rparr>
      in if \<not> waiting then m6809_push_registers io True msk (m6809_set_entire entire s) else s)"

definition m6809_jump_vector :: "'b bus_ops \<Rightarrow> u16 \<Rightarrow> 'b m6809 \<Rightarrow> 'b m6809" where
  "m6809_jump_vector io vector s = (let (pc, s) = m6809_read_word io vector s in s\<lparr>m_pc := pc\<rparr>)"

definition m6809_service_nmi :: "'b bus_ops \<Rightarrow> 'b m6809 \<Rightarrow> 'b m6809" where
  "m6809_service_nmi io s =
     (let s = m6809_enter_service io True ENTIRE_STATE_MASK s;
          s = m6809_mask_firq (m6809_mask_irq s);
          s = m6809_jump_vector io VECTOR_NMI s;
          s = s\<lparr>m_pending_irq := m_pending_irq s AND NOT PENDING_NMI\<rparr>
      in s\<lparr>m_bus := bus_acknowledge_nmi io (m_bus s)\<rparr>)"

definition m6809_service_firq :: "'b bus_ops \<Rightarrow> 'b m6809 \<Rightarrow> 'b m6809" where
  "m6809_service_firq io s =
     (let s = m6809_enter_service io False PARTIAL_STATE_MASK s;
          s = m6809_mask_firq (m6809_mask_irq s);
          s = m6809_jump_vector io VECTOR_FIRQ s;
          s = s\<lparr>m_pending_irq := m_pending_irq s AND NOT PENDING_FIRQ\<rparr>
      in s\<lparr>m_bus := bus_acknowledge_firq io (m_bus s)\<rparr>)"

definition m6809_service_irq :: "'b bus_ops \<Rightarrow> 'b m6809 \<Rightarrow> 'b m6809" where
  "m6809_service_irq io s =
     (let s = m6809_enter_service io True ENTIRE_STATE_MASK s;
          s = m6809_mask_irq s;
          s = m6809_jump_vector io VECTOR_IRQ s;
          s = s\<lparr>m_pending_irq := m_pending_irq s AND NOT PENDING_IRQ\<rparr>
      in s\<lparr>m_bus := snd (bus_acknowledge_irq io (m_bus s))\<rparr>)"

definition m6809_check_interrupts :: "'b bus_ops \<Rightarrow> 'b m6809 \<Rightarrow> int option \<times> 'b m6809" where
  "m6809_check_interrupts io s =
     (if m_pending_irq s AND PENDING_NMI \<noteq> 0 then (Some 19, m6809_service_nmi io s)
      else if m_pending_irq s AND PENDING_FIRQ \<noteq> 0 \<and> \<not> cc_firq_mask (m_flags s)
      then (Some 10, m6809_service_firq io s)
      else if m_pending_irq s AND PENDING_IRQ \<noteq> 0 \<and> \<not> cc_irq_mask (m_flags s)
      then (Some 19, m6809_service_irq io s)
      else (None, s))"

section \<open>Software interrupts, returns and waiting\<close>

definition m6809_software_interrupt ::
  "'b bus_ops \<Rightarrow> u16 \<Rightarrow> bool \<Rightarrow> bool \<Rightarrow> bool \<Rightarrow> 'b m6809 \<Rightarrow> 'b m6809" where
  "m6809_software_interrupt io vector irq firq entire s =
     (let s = (if entire then m6809_set_entire True s else s);
          s = m6809_push_registers io True ENTIRE_STATE_MASK s;
          s = (if irq then m6809_mask_irq s else s);
          s = (if firq then m6809_mask_firq s else s)
      in m6809_jump_vector io vector s)"

definition m6809_swi :: "'b bus_ops \<Rightarrow> 'b m6809 \<Rightarrow> 'b m6809" where
  "m6809_swi io = m6809_software_interrupt io VECTOR_SWI True True True"

definition m6809_swi2 :: "'b bus_ops \<Rightarrow> 'b m6809 \<Rightarrow> 'b m6809" where
  "m6809_swi2 io = m6809_software_interrupt io VECTOR_SWI2 False False True"

definition m6809_swi3 :: "'b bus_ops \<Rightarrow> 'b m6809 \<Rightarrow> 'b m6809" where
  "m6809_swi3 io = m6809_software_interrupt io VECTOR_SWI3 False False True"

definition m6809_x_swi2 :: "'b bus_ops \<Rightarrow> 'b m6809 \<Rightarrow> 'b m6809" where
  "m6809_x_swi2 io = m6809_software_interrupt io VECTOR_SWI2 False False False"

definition m6809_x_firq :: "'b bus_ops \<Rightarrow> 'b m6809 \<Rightarrow> 'b m6809" where
  "m6809_x_firq io = m6809_software_interrupt io VECTOR_FIRQ False False False"

definition m6809_x_reset :: "'b bus_ops \<Rightarrow> 'b m6809 \<Rightarrow> 'b m6809" where
  "m6809_x_reset io = m6809_software_interrupt io VECTOR_RESET False False False"

definition m6809_rti :: "'b bus_ops \<Rightarrow> 'b m6809 \<Rightarrow> int \<times> 'b m6809" where
  "m6809_rti io s =
     (let (condition_code, s) = m6809_pull_s_byte io s;
          s = m_flags_update (m6809_expand condition_code) s
      in if cc_entire (m_flags s) then
           (let (a, s) = m6809_pull_s_byte io s; s = s\<lparr>m_a := a\<rparr>;
                (b, s) = m6809_pull_s_byte io s; s = s\<lparr>m_b := b\<rparr>;
                (dp, s) = m6809_pull_s_byte io s; s = s\<lparr>m_dp := dp\<rparr>;
                (x, s) = m6809_pull_s_word io s; s = s\<lparr>m_x := x\<rparr>;
                (y, s) = m6809_pull_s_word io s; s = s\<lparr>m_y := y\<rparr>;
                (u, s) = m6809_pull_s_word io s; s = s\<lparr>m_u := u\<rparr>;
                (pc, s) = m6809_pull_s_word io s
            in (15, s\<lparr>m_pc := pc\<rparr>))
         else (let (pc, s) = m6809_pull_s_word io s in (6, s\<lparr>m_pc := pc\<rparr>)))"

definition m6809_cwai :: "'b bus_ops \<Rightarrow> 'b m6809 \<Rightarrow> 'b m6809" where
  "m6809_cwai io s =
     (let (msk, s) = m6809_fetch_u8 io s;
          condition_code = m6809_compress (m_flags s);
          s = m_flags_update (m6809_expand (condition_code AND msk)) s;
          s = m6809_set_entire True s;
          s = m6809_push_registers io True ENTIRE_STATE_MASK s
      in s\<lparr>m_halted := True, m_cwai_waiting := True\<rparr>)"

definition m6809_sync :: "'b m6809 \<Rightarrow> 'b m6809" where
  "m6809_sync s = s\<lparr>m_halted := True, m_cwai_waiting := False\<rparr>"

end
