(* ===== verification/M6809_Execute.thy ===== *)
theory M6809_Execute
  imports M6809_Interrupt
begin

text \<open>
  The instructions of the MC6809 core: \<open>m6809/execute.rs\<close>, \<open>execute_page2.rs\<close> and
  \<open>execute_page3.rs\<close>. The code matches on the opcode; the rows of its opcode map in which the
  low or high digit alone selects the operation are functions of that digit here. Every
  instruction returns its number of cycles first.
\<close>

section \<open>Operations on one operand\<close>

datatype unary_op =
  Neg | Xnc | Com | Lsr | Ror | Asr | Asl | Rol | Dec | Xdec | Inc | Tst | Clr | Xclr

definition m6809_apply_unary :: "unary_op \<Rightarrow> u8 \<Rightarrow> 'b m6809 \<Rightarrow> u8 \<times> 'b m6809" where
  "m6809_apply_unary operation value s =
     (case operation of
        Neg \<Rightarrow> m6809_neg8 value s
      | Xnc \<Rightarrow> (if cc_carry (m_flags s) then m6809_com8 value s else m6809_neg8 value s)
      | Com \<Rightarrow> m6809_com8 value s
      | Lsr \<Rightarrow> m6809_lsr8 value s
      | Ror \<Rightarrow> m6809_ror8 value s
      | Asr \<Rightarrow> m6809_asr8 value s
      | Asl \<Rightarrow> m6809_asl8 value s
      | Rol \<Rightarrow> m6809_rol8 value s
      | Dec \<Rightarrow> m6809_dec8 value s
      | Xdec \<Rightarrow> m6809_xdec8 value s
      | Inc \<Rightarrow> m6809_inc8 value s
      | Tst \<Rightarrow> (value, m6809_tst8 value s)
      | Clr \<Rightarrow> m6809_clr8 s
      | Xclr \<Rightarrow> m6809_xclr8 s)"

definition m6809_memory_unary ::
  "'b bus_ops \<Rightarrow> address_mode \<Rightarrow> unary_op \<Rightarrow> int \<Rightarrow> 'b m6809 \<Rightarrow> int \<times> 'b m6809" where
  "m6809_memory_unary io mode operation base_cycles s =
     (let ((address, extra_cycles), s) = m6809_address_for_mode io mode s;
          (value, s) = m6809_read_byte io address s;
          s = (case operation of
                 Tst \<Rightarrow> m6809_tst8 value s
               | Clr \<Rightarrow> (let (result, s) = m6809_clr8 s in m6809_write_byte io address result s)
               | Xclr \<Rightarrow> (let (result, s) = m6809_xclr8 s in m6809_write_byte io address result s)
               | _ \<Rightarrow> (let (result, s) = m6809_apply_unary operation value s
                       in m6809_write_byte io address result s))
      in (base_cycles + extra_cycles, s))"

definition m6809_accumulator :: "bool \<Rightarrow> 'b m6809 \<Rightarrow> u8" where
  "m6809_accumulator accumulator_b s = (if accumulator_b then m_b s else m_a s)"

definition m6809_set_accumulator :: "bool \<Rightarrow> u8 \<Rightarrow> 'b m6809 \<Rightarrow> 'b m6809" where
  "m6809_set_accumulator accumulator_b value s =
     (if accumulator_b then s\<lparr>m_b := value\<rparr> else s\<lparr>m_a := value\<rparr>)"

definition m6809_register_unary :: "bool \<Rightarrow> unary_op \<Rightarrow> 'b m6809 \<Rightarrow> int \<times> 'b m6809" where
  "m6809_register_unary accumulator_a operation s =
     (let value = m6809_accumulator (\<not> accumulator_a) s;
          s = (case operation of
                 Tst \<Rightarrow> m6809_tst8 value s
               | Clr \<Rightarrow> (let (result, s) = m6809_clr8 s
                         in m6809_set_accumulator (\<not> accumulator_a) result s)
               | Xclr \<Rightarrow> (let (result, s) = m6809_xclr8 s
                          in m6809_set_accumulator (\<not> accumulator_a) result s)
               | _ \<Rightarrow> (let (result, s) = m6809_apply_unary operation value s
                       in m6809_set_accumulator (\<not> accumulator_a) result s))
      in (2, s))"

text \<open>The operation of a low digit in the rows 0, 4, 5, 6 and 7.\<close>

definition m6809_unary_of :: "u8 \<Rightarrow> unary_op" where
  "m6809_unary_of low =
     (if low = 0x0 \<or> low = 0x1 then Neg else if low = 0x2 then Xnc else if low = 0x3 then Com
      else if low = 0x4 \<or> low = 0x5 then Lsr else if low = 0x6 then Ror else if low = 0x7 then Asr
      else if low = 0x8 then Asl else if low = 0x9 then Rol else if low = 0xA then Dec
      else if low = 0xB then Xdec else if low = 0xC then Inc else if low = 0xD then Tst
      else if low = 0xE then Xclr else Clr)"

definition m6809_begin_extended_clear :: "'b bus_ops \<Rightarrow> 'b m6809 \<Rightarrow> int \<times> 'b m6809" where
  "m6809_begin_extended_clear io s =
     (let (address, s) = m6809_fetch_u16 io s;
          (_, s) = m6809_read_byte io address s
      in (4, s\<lparr>m_pending_extended_clear := Some address\<rparr>))"

section \<open>Branches\<close>

definition m6809_condition_hi :: "'b m6809 \<Rightarrow> bool" where
  "m6809_condition_hi s \<longleftrightarrow> \<not> (cc_carry (m_flags s) \<or> cc_zero (m_flags s))"

definition m6809_condition_ge :: "'b m6809 \<Rightarrow> bool" where
  "m6809_condition_ge s \<longleftrightarrow> cc_negative (m_flags s) = cc_overflow (m_flags s)"

definition m6809_condition_gt :: "'b m6809 \<Rightarrow> bool" where
  "m6809_condition_gt s \<longleftrightarrow> m6809_condition_ge s \<and> \<not> cc_zero (m_flags s)"

text \<open>The condition of a low digit in the row 2 of the base page and of page 2.\<close>

definition m6809_condition :: "u8 \<Rightarrow> 'b m6809 \<Rightarrow> bool" where
  "m6809_condition low s \<longleftrightarrow>
     (if low = 0x0 then True else if low = 0x1 then False
      else if low = 0x2 then m6809_condition_hi s else if low = 0x3 then \<not> m6809_condition_hi s
      else if low = 0x4 then \<not> cc_carry (m_flags s) else if low = 0x5 then cc_carry (m_flags s)
      else if low = 0x6 then \<not> cc_zero (m_flags s) else if low = 0x7 then cc_zero (m_flags s)
      else if low = 0x8 then \<not> cc_overflow (m_flags s) else if low = 0x9 then cc_overflow (m_flags s)
      else if low = 0xA then \<not> cc_negative (m_flags s) else if low = 0xB then cc_negative (m_flags s)
      else if low = 0xC then m6809_condition_ge s else if low = 0xD then \<not> m6809_condition_ge s
      else if low = 0xE then m6809_condition_gt s else \<not> m6809_condition_gt s)"

definition m6809_short_branch :: "'b bus_ops \<Rightarrow> bool \<Rightarrow> 'b m6809 \<Rightarrow> int \<times> 'b m6809" where
  "m6809_short_branch io condition s =
     (let (offset, s) = m6809_fetch_u8 io s
      in (3, if condition then s\<lparr>m_pc := add_signed8 (m_pc s) offset\<rparr> else s))"

definition m6809_long_branch :: "'b bus_ops \<Rightarrow> bool \<Rightarrow> int \<Rightarrow> 'b m6809 \<Rightarrow> int \<times> 'b m6809" where
  "m6809_long_branch io condition taken_cycles s =
     (let (offset, s) = m6809_fetch_u16 io s
      in if condition then (taken_cycles, s\<lparr>m_pc := m_pc s + offset\<rparr>) else (taken_cycles - 1, s))"

definition m6809_short_bsr :: "'b bus_ops \<Rightarrow> 'b m6809 \<Rightarrow> int \<times> 'b m6809" where
  "m6809_short_bsr io s =
     (let (offset, s) = m6809_fetch_u8 io s;
          target = add_signed8 (m_pc s) offset;
          s = m6809_push_s_word io (m_pc s) s
      in (7, s\<lparr>m_pc := target\<rparr>))"

definition m6809_long_bsr :: "'b bus_ops \<Rightarrow> 'b m6809 \<Rightarrow> int \<times> 'b m6809" where
  "m6809_long_bsr io s =
     (let (offset, s) = m6809_fetch_u16 io s;
          target = m_pc s + offset;
          s = m6809_push_s_word io (m_pc s) s
      in (9, s\<lparr>m_pc := target\<rparr>))"

section \<open>Stacks and effective addresses\<close>

definition m6809_push_pull_bytes :: "u8 \<Rightarrow> int" where
  "m6809_push_pull_bytes msk =
     of_bool (msk AND 0x01 \<noteq> 0) + of_bool (msk AND 0x02 \<noteq> 0) + of_bool (msk AND 0x04 \<noteq> 0)
     + of_bool (msk AND 0x08 \<noteq> 0) + (if msk AND 0x10 \<noteq> 0 then 2 else 0)
     + (if msk AND 0x20 \<noteq> 0 then 2 else 0) + (if msk AND 0x40 \<noteq> 0 then 2 else 0)
     + (if msk AND 0x80 \<noteq> 0 then 2 else 0)"

definition m6809_push_or_pull :: "'b bus_ops \<Rightarrow> bool \<Rightarrow> bool \<Rightarrow> 'b m6809 \<Rightarrow> int \<times> 'b m6809" where
  "m6809_push_or_pull io hardware push s =
     (let (msk, s) = m6809_fetch_u8 io s;
          s = (if push then
                 (let (_, s) = m6809_read_byte io (m6809_stack_pointer hardware s) s
                  in m6809_push_registers io hardware msk s)
               else
                 (let s = m6809_pull_registers io hardware msk s
                  in snd (m6809_read_byte io (m6809_stack_pointer hardware s) s)))
      in (5 + m6809_push_pull_bytes msk, s))"

definition m6809_lea :: "'b bus_ops \<Rightarrow> address_mode \<Rightarrow> u8 \<Rightarrow> 'b m6809 \<Rightarrow> int \<times> 'b m6809" where
  "m6809_lea io mode register s =
     (let ((address, extra_cycles), s) = m6809_address_for_mode io mode s;
          s = (if register = 0 then (let (v, s) = m6809_set_z16 address s in s\<lparr>m_x := v\<rparr>)
               else if register = 1 then (let (v, s) = m6809_set_z16 address s in s\<lparr>m_y := v\<rparr>)
               else if register = 2 then m6809_mark_s_loaded (s\<lparr>m_s := address\<rparr>)
               else if register = 3 then s\<lparr>m_u := address\<rparr>
               else s)
      in (4 + extra_cycles, s))"

section \<open>Loads, stores and operations on two operands\<close>

definition m6809_alu8 ::
  "'b bus_ops \<Rightarrow> address_mode \<Rightarrow> bool \<Rightarrow> (u8 \<Rightarrow> u8 \<Rightarrow> 'b m6809 \<Rightarrow> u8 \<times> 'b m6809)
     \<Rightarrow> 'b m6809 \<Rightarrow> int \<times> 'b m6809" where
  "m6809_alu8 io mode accumulator_b operation s =
     (let ((operand, extra_cycles), s) = m6809_read_mode_u8 io mode s;
          value = m6809_accumulator accumulator_b s;
          (result, s) = operation value operand s
      in (m6809_mode_cycles mode 2 4 4 5 + extra_cycles, m6809_set_accumulator accumulator_b result s))"

definition m6809_cmp8_mode :: "'b bus_ops \<Rightarrow> address_mode \<Rightarrow> bool \<Rightarrow> 'b m6809 \<Rightarrow> int \<times> 'b m6809" where
  "m6809_cmp8_mode io mode accumulator_b s =
     (let ((operand, extra_cycles), s) = m6809_read_mode_u8 io mode s
      in (m6809_mode_cycles mode 2 4 4 5 + extra_cycles,
          m6809_cmp8 (m6809_accumulator accumulator_b s) operand s))"

definition m6809_bit8_mode :: "'b bus_ops \<Rightarrow> address_mode \<Rightarrow> bool \<Rightarrow> 'b m6809 \<Rightarrow> int \<times> 'b m6809" where
  "m6809_bit8_mode io mode accumulator_b s =
     (let ((operand, extra_cycles), s) = m6809_read_mode_u8 io mode s
      in (m6809_mode_cycles mode 2 4 4 5 + extra_cycles,
          m6809_bit8 (m6809_accumulator accumulator_b s) operand s))"

definition m6809_ld8_mode :: "'b bus_ops \<Rightarrow> address_mode \<Rightarrow> bool \<Rightarrow> 'b m6809 \<Rightarrow> int \<times> 'b m6809" where
  "m6809_ld8_mode io mode accumulator_b s =
     (let ((operand, extra_cycles), s) = m6809_read_mode_u8 io mode s;
          (value, s) = m6809_set_nzv8 operand s
      in (m6809_mode_cycles mode 2 4 4 5 + extra_cycles, m6809_set_accumulator accumulator_b value s))"

definition m6809_st8_mode :: "'b bus_ops \<Rightarrow> address_mode \<Rightarrow> bool \<Rightarrow> 'b m6809 \<Rightarrow> int \<times> 'b m6809" where
  "m6809_st8_mode io mode accumulator_b s =
     (let value = m6809_accumulator accumulator_b s;
          s = snd (m6809_set_nzv8 value s)
      in if mode = Immediate then (2, snd (m6809_fetch_u8 io s))
         else
           let (extra_cycles, s) = m6809_write_mode_u8 io mode value s
           in (m6809_mode_cycles mode 2 4 4 5 + extra_cycles, s))"

definition m6809_subd_mode :: "'b bus_ops \<Rightarrow> address_mode \<Rightarrow> 'b m6809 \<Rightarrow> int \<times> 'b m6809" where
  "m6809_subd_mode io mode s =
     (let ((operand, extra_cycles), s) = m6809_read_mode_u16 io mode s;
          (result, s) = m6809_sub16 (m6809_d s) operand s
      in (m6809_mode_cycles mode 4 6 6 7 + extra_cycles, m6809_set_d result s))"

definition m6809_addd_mode :: "'b bus_ops \<Rightarrow> address_mode \<Rightarrow> 'b m6809 \<Rightarrow> int \<times> 'b m6809" where
  "m6809_addd_mode io mode s =
     (let ((operand, extra_cycles), s) = m6809_read_mode_u16 io mode s;
          (result, s) = m6809_add16 (m6809_d s) operand s
      in (m6809_mode_cycles mode 4 6 6 7 + extra_cycles, m6809_set_d result s))"

definition m6809_cmpd_mode :: "'b bus_ops \<Rightarrow> address_mode \<Rightarrow> 'b m6809 \<Rightarrow> int \<times> 'b m6809" where
  "m6809_cmpd_mode io mode s =
     (let ((operand, extra_cycles), s) = m6809_read_mode_u16 io mode s
      in (m6809_mode_cycles mode 5 7 7 8 + extra_cycles, m6809_cmp16 (m6809_d s) operand s))"

definition m6809_cmpx_mode :: "'b bus_ops \<Rightarrow> address_mode \<Rightarrow> 'b m6809 \<Rightarrow> int \<times> 'b m6809" where
  "m6809_cmpx_mode io mode s =
     (let ((operand, extra_cycles), s) = m6809_read_mode_u16 io mode s
      in (m6809_mode_cycles mode 4 6 6 7 + extra_cycles, m6809_cmp16 (m_x s) operand s))"

definition m6809_ldd_mode :: "'b bus_ops \<Rightarrow> address_mode \<Rightarrow> 'b m6809 \<Rightarrow> int \<times> 'b m6809" where
  "m6809_ldd_mode io mode s =
     (let ((operand, extra_cycles), s) = m6809_read_mode_u16 io mode s;
          (value, s) = m6809_set_nzv16 operand s
      in (m6809_mode_cycles mode 3 5 5 6 + extra_cycles, m6809_set_d value s))"

definition m6809_ldx_mode :: "'b bus_ops \<Rightarrow> address_mode \<Rightarrow> 'b m6809 \<Rightarrow> int \<times> 'b m6809" where
  "m6809_ldx_mode io mode s =
     (let ((operand, extra_cycles), s) = m6809_read_mode_u16 io mode s;
          (value, s) = m6809_set_nzv16 operand s
      in (m6809_mode_cycles mode 3 5 5 6 + extra_cycles, s\<lparr>m_x := value\<rparr>))"

definition m6809_ldu_mode :: "'b bus_ops \<Rightarrow> address_mode \<Rightarrow> 'b m6809 \<Rightarrow> int \<times> 'b m6809" where
  "m6809_ldu_mode io mode s =
     (let ((operand, extra_cycles), s) = m6809_read_mode_u16 io mode s;
          (value, s) = m6809_set_nzv16 operand s
      in (m6809_mode_cycles mode 3 5 5 6 + extra_cycles, s\<lparr>m_u := value\<rparr>))"

definition m6809_xst16_immediate :: "'b bus_ops \<Rightarrow> u16 \<Rightarrow> 'b m6809 \<Rightarrow> 'b m6809" where
  "m6809_xst16_immediate io value s =
     (let (_, s) = m6809_fetch_u8 io s;
          s = m6809_write_byte io (m_pc s) (lo8 value) s
      in s\<lparr>m_pc := m_pc s + 1\<rparr>)"

definition m6809_std_mode :: "'b bus_ops \<Rightarrow> address_mode \<Rightarrow> 'b m6809 \<Rightarrow> int \<times> 'b m6809" where
  "m6809_std_mode io mode s =
     (let value = m6809_d s;
          s = snd (m6809_set_nzv16 value s)
      in if mode = Immediate then (3, m6809_xst16_immediate io value s)
         else
           let (extra_cycles, s) = m6809_write_mode_u16 io mode value s
           in (m6809_mode_cycles mode 3 5 5 6 + extra_cycles, s))"

text \<open>
  \<open>stx_mode\<close>, \<open>stu_mode\<close> and \<open>st_register_mode\<close> share this body: the register is read after
  the address, which may change it.
\<close>

definition m6809_store16 ::
  "'b bus_ops \<Rightarrow> address_mode \<Rightarrow> ('b m6809 \<Rightarrow> u16) \<Rightarrow> int \<Rightarrow> 'b m6809 \<Rightarrow> int \<times> 'b m6809" where
  "m6809_store16 io mode register cycles s =
     (if mode = Immediate then
        (let value = register s; s = snd (m6809_set_nzv16 value s)
         in (cycles, m6809_xst16_immediate io value s))
      else
        let ((address, extra_cycles), s) = m6809_address_for_mode io mode s;
            value = register s;
            s = snd (m6809_set_nzv16 value s);
            s = m6809_write_word io address value s
        in (m6809_mode_cycles mode cycles (cycles + 2) (cycles + 2) (cycles + 3) + extra_cycles, s))"

definition m6809_stx_mode :: "'b bus_ops \<Rightarrow> address_mode \<Rightarrow> 'b m6809 \<Rightarrow> int \<times> 'b m6809" where
  "m6809_stx_mode io mode = m6809_store16 io mode m_x 3"

definition m6809_stu_mode :: "'b bus_ops \<Rightarrow> address_mode \<Rightarrow> 'b m6809 \<Rightarrow> int \<times> 'b m6809" where
  "m6809_stu_mode io mode = m6809_store16 io mode m_u 3"

definition m6809_register16_value :: "u8 \<Rightarrow> 'b m6809 \<Rightarrow> u16" where
  "m6809_register16_value register s =
     (if register = 0 then m_x s else if register = 1 then m_y s else if register = 2 then m_u s
      else if register = 3 then m_s s else 0xFFFF)"

definition m6809_st_register_mode ::
  "'b bus_ops \<Rightarrow> address_mode \<Rightarrow> u8 \<Rightarrow> 'b m6809 \<Rightarrow> int \<times> 'b m6809" where
  "m6809_st_register_mode io mode register = m6809_store16 io mode (m6809_register16_value register) 4"

definition m6809_jsr_mode :: "'b bus_ops \<Rightarrow> address_mode \<Rightarrow> 'b m6809 \<Rightarrow> int \<times> 'b m6809" where
  "m6809_jsr_mode io mode s =
     (let ((address, extra_cycles), s) = m6809_address_for_mode io mode s;
          s = m6809_push_s_word io (m_pc s) s
      in (m6809_mode_cycles mode 7 7 7 8 + extra_cycles, s\<lparr>m_pc := address\<rparr>))"

definition m6809_cmp_register_mode ::
  "'b bus_ops \<Rightarrow> address_mode \<Rightarrow> u16 \<Rightarrow> 'b m6809 \<Rightarrow> int \<times> 'b m6809" where
  "m6809_cmp_register_mode io mode register_value s =
     (let ((operand, extra_cycles), s) = m6809_read_mode_u16 io mode s
      in (m6809_mode_cycles mode 5 7 7 8 + extra_cycles, m6809_cmp16 register_value operand s))"

definition m6809_ld_register_mode ::
  "'b bus_ops \<Rightarrow> address_mode \<Rightarrow> 'b m6809 \<Rightarrow> (u16 \<times> int) \<times> 'b m6809" where
  "m6809_ld_register_mode io mode s =
     (let ((operand, extra_cycles), s) = m6809_read_mode_u16 io mode s;
          (value, s) = m6809_set_nzv16 operand s
      in ((value, m6809_mode_cycles mode 4 6 6 7 + extra_cycles), s))"

definition m6809_xadd16_mode ::
  "'b bus_ops \<Rightarrow> address_mode \<Rightarrow> u16 \<Rightarrow> 'b m6809 \<Rightarrow> int \<times> 'b m6809" where
  "m6809_xadd16_mode io mode register_value s =
     (let ((operand, extra_cycles), s) = m6809_read_mode_u16 io mode s
      in (m6809_mode_cycles mode 5 7 7 8 + extra_cycles, snd (m6809_add16 register_value operand s)))"

definition m6809_mode_of :: "u8 \<Rightarrow> address_mode" where
  "m6809_mode_of opcode =
     (let k = opcode AND 0x30 in
      if k = 0x00 then Immediate else if k = 0x10 then Direct else if k = 0x20 then Indexed
      else if k = 0x30 then Extended else Immediate)"

definition m6809_load_store_alu :: "'b bus_ops \<Rightarrow> u8 \<Rightarrow> 'b m6809 \<Rightarrow> int \<times> 'b m6809" where
  "m6809_load_store_alu io opcode s =
     (let mode = m6809_mode_of opcode; low = opcode AND 0x0F; b_group = (opcode \<ge> 0xC0) in
      if low = 0x0 then m6809_alu8 io mode b_group m6809_sub8 s
      else if low = 0x1 then m6809_cmp8_mode io mode b_group s
      else if low = 0x2 then m6809_alu8 io mode b_group m6809_sbc8 s
      else if low = 0x3 then
        (if b_group then m6809_addd_mode io mode s else m6809_subd_mode io mode s)
      else if low = 0x4 then m6809_alu8 io mode b_group m6809_and8 s
      else if low = 0x5 then m6809_bit8_mode io mode b_group s
      else if low = 0x6 then m6809_ld8_mode io mode b_group s
      else if low = 0x7 then m6809_st8_mode io mode b_group s
      else if low = 0x8 then m6809_alu8 io mode b_group m6809_eor8 s
      else if low = 0x9 then m6809_alu8 io mode b_group m6809_adc8 s
      else if low = 0xA then m6809_alu8 io mode b_group m6809_or8 s
      else if low = 0xB then m6809_alu8 io mode b_group m6809_add8 s
      else if low = 0xC then
        (if b_group then m6809_ldd_mode io mode s else m6809_cmpx_mode io mode s)
      else if low = 0xD then
        (if b_group then m6809_std_mode io mode s else m6809_jsr_mode io mode s)
      else if low = 0xE then
        (if b_group then m6809_ldu_mode io mode s else m6809_ldx_mode io mode s)
      else (if b_group then m6809_stu_mode io mode s else m6809_stx_mode io mode s))"

end
