(* ===== verification/M6809_Run.thy ===== *)
theory M6809_Run
  imports M6809_Execute
begin

text \<open>
  The opcode pages of the MC6809 core, with the register transfers they need, and the
  execution loop of \<open>m6809.rs\<close>. No opcode panics, so an instruction is a total function. The
  loop of \<open>run_for\<close> has no bound of its own and is a \<open>partial_function (option)\<close>.
\<close>

section \<open>Register transfers\<close>

text \<open>\<open>read_tfr_exg_816_register\<close>, of which \<open>read_exg_168_register\<close> is a copy.\<close>

definition m6809_transfer_register :: "u8 \<Rightarrow> 'b m6809 \<Rightarrow> u16" where
  "m6809_transfer_register register s =
     (let k = register AND 0x0F in
      if k = 0x0 then m6809_d s else if k = 0x1 then m_x s else if k = 0x2 then m_y s
      else if k = 0x3 then m_u s else if k = 0x4 then m_s s else if k = 0x5 then m_pc s
      else if k = 0x8 then 0xFF00 OR ucast (m_a s) else if k = 0x9 then 0xFF00 OR ucast (m_b s)
      else if k = 0xA then 0xFF00 OR ucast (m6809_compress (m_flags s))
      else if k = 0xB then 0xFF00 OR ucast (m_dp s)
      else 0xFFFF)"

definition m6809_write_transfer_register :: "u8 \<Rightarrow> u16 \<Rightarrow> bool \<Rightarrow> 'b m6809 \<Rightarrow> 'b m6809" where
  "m6809_write_transfer_register register value mark_s_loaded s =
     (let k = register AND 0x0F in
      if k = 0x0 then m6809_set_d value s
      else if k = 0x1 then s\<lparr>m_x := value\<rparr> else if k = 0x2 then s\<lparr>m_y := value\<rparr>
      else if k = 0x3 then s\<lparr>m_u := value\<rparr>
      else if k = 0x4 then
        (let s = s\<lparr>m_s := value\<rparr> in if mark_s_loaded then m6809_mark_s_loaded s else s)
      else if k = 0x5 then s\<lparr>m_pc := value\<rparr>
      else if k = 0x8 then s\<lparr>m_a := lo8 value\<rparr> else if k = 0x9 then s\<lparr>m_b := lo8 value\<rparr>
      else if k = 0xA then m_flags_update (m6809_expand (lo8 value)) s
      else if k = 0xB then s\<lparr>m_dp := lo8 value\<rparr>
      else s)"

definition m6809_exg :: "'b bus_ops \<Rightarrow> 'b m6809 \<Rightarrow> int \<times> 'b m6809" where
  "m6809_exg io s =
     (let (parameter, s) = m6809_fetch_u8 io s;
          left = m6809_transfer_register (drop_bit 4 parameter) s;
          right = m6809_transfer_register parameter s;
          s = m6809_write_transfer_register parameter left False s;
          s = m6809_write_transfer_register (drop_bit 4 parameter) right False s
      in (8, s))"

definition m6809_tfr :: "'b bus_ops \<Rightarrow> 'b m6809 \<Rightarrow> int \<times> 'b m6809" where
  "m6809_tfr io s =
     (let (parameter, s) = m6809_fetch_u8 io s;
          value = m6809_transfer_register (drop_bit 4 parameter) s
      in (6, m6809_write_transfer_register parameter value True s))"

definition m6809_x18 :: "'b bus_ops \<Rightarrow> 'b m6809 \<Rightarrow> int \<times> 'b m6809" where
  "m6809_x18 io s =
     (let (operand, s) = m6809_read_byte io (m_pc s) s;
          condition_code = m6809_compress (m_flags s);
          value = push_bit 1 (condition_code AND operand)
      in (2, m_flags_update (m6809_expand (value OR drop_bit 1 (condition_code AND CC_ZERO))) s))"

section \<open>The base page\<close>

text \<open>ORCC and ANDCC.\<close>

definition m6809_orcc :: "'b bus_ops \<Rightarrow> 'b m6809 \<Rightarrow> 'b m6809" where
  "m6809_orcc io s =
     (let (value, s) = m6809_fetch_u8 io s;
          condition_code = m6809_compress (m_flags s)
      in m_flags_update (m6809_expand (condition_code OR value)) s)"

definition m6809_andcc :: "'b bus_ops \<Rightarrow> 'b m6809 \<Rightarrow> 'b m6809" where
  "m6809_andcc io s =
     (let (value, s) = m6809_fetch_u8 io s;
          condition_code = m6809_compress (m_flags s)
      in m_flags_update (m6809_expand (condition_code AND value)) s)"

definition m6809_execute_row1 :: "'b bus_ops \<Rightarrow> u8 \<Rightarrow> 'b m6809 \<Rightarrow> int \<times> 'b m6809" where
  "m6809_execute_row1 io opcode s =
     (if opcode = 0x12 \<or> opcode = 0x1B then (2, s)
      else if opcode = 0x13 then (2, m6809_sync s)
      else if opcode = 0x14 \<or> opcode = 0x15 then (1, s\<lparr>m_halted := True\<rparr>)
      else if opcode = 0x16 then m6809_long_branch io True 5 s
      else if opcode = 0x17 then m6809_long_bsr io s
      else if opcode = 0x18 then m6809_x18 io s
      else if opcode = 0x19 then (2, m6809_daa s)
      else if opcode = 0x1A then (3, m6809_orcc io s)
      else if opcode = 0x1C then (3, m6809_andcc io s)
      else if opcode = 0x1D then (2, m6809_sex s)
      else if opcode = 0x1E then m6809_exg io s
      else if opcode = 0x1F then m6809_tfr io s
      else (1, s))"

definition m6809_execute_row3 :: "'b bus_ops \<Rightarrow> u8 \<Rightarrow> 'b m6809 \<Rightarrow> int \<times> 'b m6809" where
  "m6809_execute_row3 io opcode s =
     (if opcode = 0x30 then m6809_lea io Indexed 0 s
      else if opcode = 0x31 then m6809_lea io Indexed 1 s
      else if opcode = 0x32 then m6809_lea io Indexed 2 s
      else if opcode = 0x33 then m6809_lea io Indexed 3 s
      else if opcode = 0x34 then m6809_push_or_pull io True True s
      else if opcode = 0x35 then m6809_push_or_pull io True False s
      else if opcode = 0x36 then m6809_push_or_pull io False True s
      else if opcode = 0x37 then m6809_push_or_pull io False False s
      else if opcode = 0x38 then (4, m6809_andcc io (m6809_clk 1 s))
      else if opcode = 0x39 then (let (pc, s) = m6809_pull_s_word io s in (5, s\<lparr>m_pc := pc\<rparr>))
      else if opcode = 0x3A then (3, s\<lparr>m_x := m_x s + ucast (m_b s)\<rparr>)
      else if opcode = 0x3B then m6809_rti io s
      else if opcode = 0x3C then (20, m6809_cwai io s)
      else if opcode = 0x3D then (11, m6809_mul s)
      else if opcode = 0x3E then (19, m6809_x_reset io s)
      else (19, m6809_swi io s))"

definition m6809_execute_base :: "'b bus_ops \<Rightarrow> u8 \<Rightarrow> 'b m6809 \<Rightarrow> int \<times> 'b m6809" where
  "m6809_execute_base io opcode s =
     (let row = opcode AND 0xF0; low = opcode AND 0x0F in
      if opcode = 0x0E then (let (pc, s) = m6809_direct_address io s in (3, s\<lparr>m_pc := pc\<rparr>))
      else if opcode = 0x6E then
        (let ((address, extra_cycles), s) = m6809_address_for_mode io Indexed s
         in (3 + extra_cycles, s\<lparr>m_pc := address\<rparr>))
      else if opcode = 0x7E then (let (pc, s) = m6809_fetch_u16 io s in (4, s\<lparr>m_pc := pc\<rparr>))
      else if opcode = 0x7F then m6809_begin_extended_clear io s
      else if opcode = 0xCD then (1, s\<lparr>m_halted := True\<rparr>)
      else if row = 0x00 then m6809_memory_unary io Direct (m6809_unary_of low) 6 s
      else if row = 0x10 then m6809_execute_row1 io opcode s
      else if row = 0x20 then m6809_short_branch io (m6809_condition low s) s
      else if row = 0x30 then m6809_execute_row3 io opcode s
      else if row = 0x40 then m6809_register_unary True (m6809_unary_of low) s
      else if row = 0x50 then m6809_register_unary False (m6809_unary_of low) s
      else if row = 0x60 then m6809_memory_unary io Indexed (m6809_unary_of low) 6 s
      else if row = 0x70 then m6809_memory_unary io Extended (m6809_unary_of low) 7 s
      else if opcode = 0x8D then m6809_short_bsr io s
      else m6809_load_store_alu io opcode s)"

section \<open>Pages 2 and 3\<close>

definition m6809_ldy :: "'b bus_ops \<Rightarrow> address_mode \<Rightarrow> 'b m6809 \<Rightarrow> int \<times> 'b m6809" where
  "m6809_ldy io mode s =
     (let ((value, cycles), s) = m6809_ld_register_mode io mode s in (cycles, s\<lparr>m_y := value\<rparr>))"

definition m6809_lds :: "'b bus_ops \<Rightarrow> address_mode \<Rightarrow> 'b m6809 \<Rightarrow> int \<times> 'b m6809" where
  "m6809_lds io mode s =
     (let ((value, cycles), s) = m6809_ld_register_mode io mode s
      in (cycles, m6809_mark_s_loaded (s\<lparr>m_s := value\<rparr>)))"

definition m6809_test_accumulator :: "'b bus_ops \<Rightarrow> bool \<Rightarrow> 'b m6809 \<Rightarrow> int \<times> 'b m6809" where
  "m6809_test_accumulator io accumulator_b s =
     (let (_, s) = m6809_fetch_u8 io s
      in (3, snd (m6809_set_nzv8 (m6809_accumulator accumulator_b s) s)))"

definition m6809_execute_page2 :: "'b bus_ops \<Rightarrow> u8 \<Rightarrow> 'b m6809 \<Rightarrow> int \<times> 'b m6809" where
  "m6809_execute_page2 io opcode s =
     (let mode = m6809_mode_of opcode in
      if opcode AND 0xF0 = 0x20 then
        m6809_long_branch io (m6809_condition (opcode AND 0x0F) s) 6 s
      else if opcode = 0x3E then (20, m6809_x_swi2 io s)
      else if opcode = 0x3F then (20, m6809_swi2 io s)
      else if opcode \<in> {0x83, 0x93, 0xA3, 0xB3} then m6809_cmpd_mode io mode s
      else if opcode = 0x87 then m6809_test_accumulator io False s
      else if opcode \<in> {0x8C, 0x9C, 0xAC, 0xBC} then m6809_cmp_register_mode io mode (m_y s) s
      else if opcode \<in> {0x8E, 0x9E, 0xAE, 0xBE} then m6809_ldy io mode s
      else if opcode \<in> {0x8F, 0x9F, 0xAF, 0xBF} then m6809_st_register_mode io mode 1 s
      else if opcode \<in> {0xC3, 0xD3, 0xE3, 0xF3} then m6809_xadd16_mode io mode (m6809_d s) s
      else if opcode = 0xC7 then m6809_test_accumulator io True s
      else if opcode \<in> {0xCE, 0xDE, 0xEE, 0xFE} then m6809_lds io mode s
      else if opcode \<in> {0xCF, 0xDF, 0xEF, 0xFF} then m6809_st_register_mode io mode 3 s
      else (2, s))"

definition m6809_execute_page3 :: "'b bus_ops \<Rightarrow> u8 \<Rightarrow> 'b m6809 \<Rightarrow> int \<times> 'b m6809" where
  "m6809_execute_page3 io opcode s =
     (let mode = m6809_mode_of opcode in
      if opcode = 0x3E then (20, m6809_x_firq io s)
      else if opcode = 0x3F then (20, m6809_swi3 io s)
      else if opcode \<in> {0x83, 0x93, 0xA3, 0xB3} then m6809_cmp_register_mode io mode (m_u s) s
      else if opcode = 0x87 then m6809_test_accumulator io False s
      else if opcode \<in> {0x8C, 0x9C, 0xAC, 0xBC} then m6809_cmp_register_mode io mode (m_s s) s
      else if opcode = 0x8F then m6809_st_register_mode io Immediate 0 s
      else if opcode \<in> {0xC3, 0xD3, 0xE3, 0xF3} then m6809_xadd16_mode io mode (m_u s) s
      else if opcode = 0xC7 then m6809_test_accumulator io True s
      else if opcode = 0xCF then m6809_st_register_mode io Immediate 2 s
      else (2, s))"

section \<open>One instruction\<close>

definition m6809_dispatch :: "'b bus_ops \<Rightarrow> 'b m6809 \<Rightarrow> int \<times> 'b m6809" where
  "m6809_dispatch io s =
     (let (opcode, s) = m6809_fetch_u8 io s in
      if opcode = 0x10 then
        (let (page_opcode, s) = m6809_fetch_u8 io s in m6809_execute_page2 io page_opcode s)
      else if opcode = 0x11 then
        (let (page_opcode, s) = m6809_fetch_u8 io s in m6809_execute_page3 io page_opcode s)
      else m6809_execute_base io opcode s)"

definition m6809_execute_one :: "'b bus_ops \<Rightarrow> 'b m6809 \<Rightarrow> 'b m6809" where
  "m6809_execute_one io s =
     (let cycle_start = m_cycles_remaining s in
      case m_pending_extended_clear s of
        Some address \<Rightarrow>
          (let s = s\<lparr>m_pending_extended_clear := None\<rparr>;
               s = m6809_write_byte io address 0 s;
               s = snd (m6809_clr8 s)
           in m6809_finish_instruction cycle_start 3 s)
      | None \<Rightarrow>
          (case m6809_check_interrupts io s of
             (Some cycles, s) \<Rightarrow> m6809_finish_instruction cycle_start cycles s
           | (None, s) \<Rightarrow>
               (let (target_cycles, s) = m6809_dispatch io s
                in m6809_finish_instruction cycle_start target_cycles s)))"

section \<open>Running for a number of cycles\<close>

definition m6809_cycles_consumed :: "'b m6809 \<Rightarrow> u64" where
  "m6809_cycles_consumed s = word_of_int (2 ^ 63 - 1 - m_cycles_remaining s)"

definition m6809_drain_wait :: "'b bus_ops \<Rightarrow> 'b m6809 \<Rightarrow> 'b m6809" where
  "m6809_drain_wait io s =
     (let (waits, b) = bus_drain_wait_cycles io (m_bus s)
      in m6809_clk waits (s\<lparr>m_bus := b\<rparr>))"

definition m6809_set_bus_cycle :: "'b bus_ops \<Rightarrow> u64 \<Rightarrow> 'b m6809 \<Rightarrow> 'b m6809" where
  "m6809_set_bus_cycle io cycle s = s\<lparr>m_bus := bus_set_current_cycle io cycle (m_bus s)\<rparr>"

definition m6809_step :: "'b bus_ops \<Rightarrow> 'b m6809 \<Rightarrow> 'b m6809" where
  "m6809_step io s =
     (let start_cycle = bus_current_cycle io (m_bus s);
          s = s\<lparr>m_cycles_remaining := 2 ^ 63 - 1\<rparr>;
          s = m6809_execute_one io s;
          s = (if m_pending_extended_clear s \<noteq> None then m6809_execute_one io s else s);
          s = m6809_drain_wait io s;
          s = m6809_set_bus_cycle io (start_cycle + m6809_cycles_consumed s) s;
          s = s\<lparr>m_bus := bus_on_instruction_end io (m_bus s)\<rparr>;
          s = m6809_drain_wait io s
      in m6809_set_bus_cycle io (start_cycle + m6809_cycles_consumed s) s)"

definition m6809_sample :: "'b bus_ops \<Rightarrow> 'b m6809 \<Rightarrow> 'b m6809" where
  "m6809_sample io s =
     (let s = (if bus_has_nmi io (m_bus s) \<and> m_nmi_armed s
               then s\<lparr>m_pending_irq := m_pending_irq s OR PENDING_NMI\<rparr> else s)
      in if bus_has_irq io (m_bus s) then s\<lparr>m_pending_irq := m_pending_irq s OR PENDING_IRQ\<rparr>
         else s\<lparr>m_pending_irq := m_pending_irq s AND NOT PENDING_IRQ\<rparr>)"

definition m6809_serviceable :: "'b m6809 \<Rightarrow> bool" where
  "m6809_serviceable s \<longleftrightarrow>
     m_pending_irq s AND PENDING_NMI \<noteq> 0
     \<or> m_pending_irq s AND PENDING_FIRQ \<noteq> 0 \<and> \<not> cc_firq_mask (m_flags s)
     \<or> m_pending_irq s AND PENDING_IRQ \<noteq> 0 \<and> \<not> cc_irq_mask (m_flags s)"

text \<open>How a round of the loop ends: with another one, at a \<open>break\<close>, or at the \<open>return\<close>.\<close>

datatype m6809_round = Again | Break | Return

definition m6809_run_body :: "'b bus_ops \<Rightarrow> int \<Rightarrow> u64 \<Rightarrow> 'b m6809 \<Rightarrow> m6809_round \<times> 'b m6809" where
  "m6809_run_body io budget start_cycle s =
     (let s = m6809_sample io s in
      if m_halted s
         \<and> (m_cwai_waiting s \<and> \<not> m6809_serviceable s \<or> m_pending_irq s = 0) then
        (Return, m6809_set_bus_cycle io (start_cycle + word_of_int (budget - m_cycles_remaining s)) s)
      else
        let s = (if m_halted s \<and> \<not> m_cwai_waiting s then s\<lparr>m_halted := False\<rparr> else s);
            s = m6809_execute_one io s;
            s = m6809_drain_wait io s;
            s = m6809_set_bus_cycle io (start_cycle + word_of_int (budget - m_cycles_remaining s)) s
        in if m_pending_extended_clear s \<noteq> None then (Break, s)
           else
             let s = s\<lparr>m_bus := bus_on_instruction_end io (m_bus s)\<rparr>;
                 s = m6809_drain_wait io s;
                 s = m6809_set_bus_cycle io (start_cycle + word_of_int (budget - m_cycles_remaining s)) s
             in (if bus_reset_pending io (m_bus s) \<or> bus_cpu_should_yield io (m_bus s)
                 then Break else Again, s))"

partial_function (option) m6809_run_loop ::
  "'b bus_ops \<Rightarrow> int \<Rightarrow> u64 \<Rightarrow> 'b m6809 \<Rightarrow> (bool \<times> 'b m6809) option" where
  "m6809_run_loop io budget start_cycle s =
     (if m_cycles_remaining s > 0 then
        (case m6809_run_body io budget start_cycle s of
           (Again, s) \<Rightarrow> m6809_run_loop io budget start_cycle s
         | (Break, s) \<Rightarrow> Some (False, s)
         | (Return, s) \<Rightarrow> Some (True, s))
      else Some (False, s))"

definition m6809_run_for :: "'b bus_ops \<Rightarrow> u64 \<Rightarrow> 'b m6809 \<Rightarrow> (u64 \<times> 'b m6809) option" where
  "m6809_run_for io cycles_to_run s =
     do { let start_cycle = bus_current_cycle io (m_bus s);
          let budget = sint cycles_to_run;
          let s = s\<lparr>m_cycles_remaining := budget\<rparr>;
          (returned, s) \<leftarrow> m6809_run_loop io budget start_cycle s;
          let actual = word_of_int (budget - m_cycles_remaining s);
          Some (actual, if returned then s else m6809_set_bus_cycle io (start_cycle + actual) s) }"

end
