(* ===== verification/M6809_Invariant.thy ===== *)
theory M6809_Invariant
  imports M6809_Run
begin

text \<open>
  What every operation of the MC6809 core keeps and what it costs. \<open>m6809_ctl\<close> collects the
  latches that only a few instructions write; \<open>m_cycles_remaining\<close> is the clock account. Each
  operation gets a fact in \<open>frame_simps\<close> about the one and a fact in \<open>clock_simps\<close> about the
  other. From them: no instruction makes more accesses than the cycles it declares, so it
  takes exactly those; every run keeps the state one that the code accepts on a restore; and
  the loop of \<open>run_for\<close> ends.
\<close>

definition m6809_ctl :: "'b m6809 \<Rightarrow> bool \<times> u8 \<times> bool \<times> u16 option \<times> u32" where
  "m6809_ctl s = (m_halted s, m_pending_irq s, m_cwai_waiting s, m_pending_extended_clear s, m_clock_hz s)"

lemma m6809_ctl_update [frame_simps]:
  "m6809_ctl (m_a_update f s) = m6809_ctl s" "m6809_ctl (m_b_update f s) = m6809_ctl s"
  "m6809_ctl (m_x_update g s) = m6809_ctl s" "m6809_ctl (m_y_update g s) = m6809_ctl s"
  "m6809_ctl (m_s_update g s) = m6809_ctl s" "m6809_ctl (m_u_update g s) = m6809_ctl s"
  "m6809_ctl (m_pc_update g s) = m6809_ctl s" "m6809_ctl (m_dp_update f s) = m6809_ctl s"
  "m6809_ctl (m_flags_update h s) = m6809_ctl s" "m6809_ctl (m_nmi_armed_update k s) = m6809_ctl s"
  "m6809_ctl (m_cycles_remaining_update c s) = m6809_ctl s" "m6809_ctl (m_bus_update b s) = m6809_ctl s"
  by (simp_all add: m6809_ctl_def)

section \<open>Arithmetic\<close>

definition m6809_but_flags :: "'b m6809 \<Rightarrow> 'b m6809" where
  "m6809_but_flags s = s\<lparr>m_flags := m6809_flags_default\<rparr>"

lemma m6809_but_flags_update [simp]:
  "m6809_but_flags (m_flags_update f s) = m6809_but_flags s"
  by (simp add: m6809_but_flags_def)

lemma m6809_but_flags_same:
  assumes "m6809_but_flags t = m6809_but_flags s"
  shows "m6809_ctl t = m6809_ctl s" "m_cycles_remaining t = m_cycles_remaining s"
    "m_bus t = m_bus s" "m_pc t = m_pc s" "m_s t = m_s s" "m_a t = m_a s" "m_b t = m_b s"
    "m_x t = m_x s" "m_y t = m_y s" "m_u t = m_u s" "m_dp t = m_dp s" "m_nmi_armed t = m_nmi_armed s"
proof -
  have "f (m6809_but_flags t) = f (m6809_but_flags s)" for f :: "'a m6809 \<Rightarrow> 'c"
    using assms by simp
  note this [of m6809_ctl] this [of m_cycles_remaining] this [of m_bus] this [of m_pc] this [of m_s]
    this [of m_a] this [of m_b] this [of m_x] this [of m_y] this [of m_u] this [of m_dp]
    this [of m_nmi_armed]
  then show "m6809_ctl t = m6809_ctl s" "m_cycles_remaining t = m_cycles_remaining s"
    "m_bus t = m_bus s" "m_pc t = m_pc s" "m_s t = m_s s" "m_a t = m_a s" "m_b t = m_b s"
    "m_x t = m_x s" "m_y t = m_y s" "m_u t = m_u s" "m_dp t = m_dp s" "m_nmi_armed t = m_nmi_armed s"
    by (simp_all add: m6809_but_flags_def frame_simps)
qed

lemma m6809_alu_but_flags [simp]:
  "m6809_but_flags (snd (m6809_set_flags8 k l r q s)) = m6809_but_flags s"
  "m6809_but_flags (snd (m6809_set_flags16 k l' r' q s)) = m6809_but_flags s"
  "m6809_but_flags (m6809_assign_carry c s) = m6809_but_flags s"
  "m6809_but_flags (m6809_assign_overflow c s) = m6809_but_flags s"
  by (simp_all add: m6809_set_flags8_def m6809_set_flags16_def m6809_assign_carry_def
      m6809_assign_overflow_def Let_def)

lemmas m6809_set_flag_defs = m6809_set_nz8_def m6809_set_nzv8_def m6809_set_nzv16_def m6809_set_z16_def

lemmas m6809_unary_defs = m6809_neg8_def m6809_com8_def m6809_lsr8_def m6809_ror8_def m6809_asr8_def
  m6809_asl8_def m6809_rol8_def m6809_dec8_def m6809_xdec8_def m6809_inc8_def m6809_tst8_def
  m6809_clr8_def m6809_xclr8_def

lemmas m6809_binary_defs = m6809_sub8_def m6809_sbc8_def m6809_cmp8_def m6809_and8_def m6809_bit8_def
  m6809_eor8_def m6809_adc8_def m6809_or8_def m6809_add8_def m6809_add16_def m6809_sub16_def
  m6809_cmp16_def

lemma m6809_set_but_flags [simp]:
  "m6809_but_flags (snd (m6809_set_nz8 v s)) = m6809_but_flags s"
  "m6809_but_flags (snd (m6809_set_nzv8 v s)) = m6809_but_flags s"
  "m6809_but_flags (snd (m6809_set_nzv16 w s)) = m6809_but_flags s"
  "m6809_but_flags (snd (m6809_set_z16 w s)) = m6809_but_flags s"
  by (simp_all add: m6809_set_flag_defs)

lemma m6809_unary_but_flags [simp]:
  "m6809_but_flags (m6809_tst8 v s) = m6809_but_flags s"
  "m6809_but_flags (snd (m6809_clr8 s)) = m6809_but_flags s"
  "m6809_but_flags (snd (m6809_xclr8 s)) = m6809_but_flags s"
  "m6809_but_flags (snd (m6809_apply_unary op v s)) = m6809_but_flags s"
  by (cases op; simp add: m6809_apply_unary_def m6809_unary_defs Let_def)+

lemma m6809_binary_but_flags [simp]:
  "m6809_but_flags (snd (m6809_sub8 l r s)) = m6809_but_flags s"
  "m6809_but_flags (snd (m6809_sbc8 l r s)) = m6809_but_flags s"
  "m6809_but_flags (snd (m6809_and8 l r s)) = m6809_but_flags s"
  "m6809_but_flags (snd (m6809_eor8 l r s)) = m6809_but_flags s"
  "m6809_but_flags (snd (m6809_adc8 l r s)) = m6809_but_flags s"
  "m6809_but_flags (snd (m6809_or8 l r s)) = m6809_but_flags s"
  "m6809_but_flags (snd (m6809_add8 l r s)) = m6809_but_flags s"
  "m6809_but_flags (m6809_cmp8 l r s) = m6809_but_flags s"
  "m6809_but_flags (m6809_bit8 l r s) = m6809_but_flags s"
  "m6809_but_flags (snd (m6809_add16 l' r' s)) = m6809_but_flags s"
  "m6809_but_flags (snd (m6809_sub16 l' r' s)) = m6809_but_flags s"
  "m6809_but_flags (m6809_cmp16 l' r' s) = m6809_but_flags s"
  by (simp_all add: m6809_binary_defs Let_def)

lemmas m6809_alu_frames = m6809_alu_but_flags m6809_set_but_flags m6809_unary_but_flags m6809_binary_but_flags

lemmas m6809_alu_ctl [frame_simps] = m6809_alu_frames [THEN m6809_but_flags_same(1)]
lemmas m6809_alu_clock [clock_simps] = m6809_alu_frames [THEN m6809_but_flags_same(2)]

section \<open>Accesses, stacks and registers\<close>

lemmas m6809_access_defs = m6809_clk_def m6809_read_byte_def m6809_write_byte_def m6809_fetch_u8_def

lemma m6809_access_ctl [frame_simps]:
  "m6809_ctl (m6809_clk n s) = m6809_ctl s"
  "m6809_ctl (snd (m6809_read_byte io a s)) = m6809_ctl s"
  "m6809_ctl (m6809_write_byte io a v s) = m6809_ctl s"
  "m6809_ctl (snd (m6809_fetch_u8 io s)) = m6809_ctl s"
  by (simp_all add: m6809_access_defs frame_simps case_prod_unfold Let_def)

lemma m6809_access_clock [clock_simps]:
  "m_cycles_remaining (m6809_clk n s) = m_cycles_remaining s - n"
  "m_cycles_remaining (snd (m6809_read_byte io a s)) = m_cycles_remaining s - 1"
  "m_cycles_remaining (m6809_write_byte io a v s) = m_cycles_remaining s - 1"
  "m_cycles_remaining (snd (m6809_fetch_u8 io s)) = m_cycles_remaining s - 1"
  by (simp_all add: m6809_access_defs case_prod_unfold Let_def)

lemmas m6809_word_defs = m6809_fetch_u16_def m6809_read_word_def m6809_write_word_def
  m6809_direct_address_def

lemma m6809_word_ctl [frame_simps]:
  "m6809_ctl (snd (m6809_fetch_u16 io s)) = m6809_ctl s"
  "m6809_ctl (snd (m6809_read_word io a s)) = m6809_ctl s"
  "m6809_ctl (m6809_write_word io a w s) = m6809_ctl s"
  "m6809_ctl (snd (m6809_direct_address io s)) = m6809_ctl s"
  by (simp_all add: m6809_word_defs frame_simps case_prod_unfold Let_def)

lemma m6809_word_clock [clock_simps]:
  "m_cycles_remaining (snd (m6809_fetch_u16 io s)) = m_cycles_remaining s - 2"
  "m_cycles_remaining (snd (m6809_read_word io a s)) = m_cycles_remaining s - 2"
  "m_cycles_remaining (m6809_write_word io a w s) = m_cycles_remaining s - 2"
  "m_cycles_remaining (snd (m6809_direct_address io s)) = m_cycles_remaining s - 1"
  by (simp_all add: m6809_word_defs clock_simps case_prod_unfold Let_def)

lemmas m6809_stack_defs = m6809_push_byte_def m6809_push_word_def m6809_pull_byte_def
  m6809_pull_word_def

lemma m6809_stack_ctl [frame_simps]:
  "m6809_ctl (snd (m6809_push_byte io v p)) = m6809_ctl (snd p)"
  "m6809_ctl (snd (m6809_push_word io w p)) = m6809_ctl (snd p)"
  "m6809_ctl (snd (snd (m6809_pull_byte io p))) = m6809_ctl (snd p)"
  "m6809_ctl (snd (snd (m6809_pull_word io p))) = m6809_ctl (snd p)"
  by (simp_all add: m6809_stack_defs frame_simps case_prod_unfold Let_def)

lemma m6809_stack_clock [clock_simps]:
  "m_cycles_remaining (snd (m6809_push_byte io v p)) = m_cycles_remaining (snd p) - 1"
  "m_cycles_remaining (snd (m6809_push_word io w p)) = m_cycles_remaining (snd p) - 2"
  "m_cycles_remaining (snd (snd (m6809_pull_byte io p))) = m_cycles_remaining (snd p) - 1"
  "m_cycles_remaining (snd (snd (m6809_pull_word io p))) = m_cycles_remaining (snd p) - 2"
  by (simp_all add: m6809_stack_defs clock_simps case_prod_unfold Let_def)

lemmas m6809_s_stack_defs = m6809_push_s_word_def m6809_pull_s_byte_def m6809_pull_s_word_def

lemma m6809_s_stack_ctl [frame_simps]:
  "m6809_ctl (m6809_push_s_word io w s) = m6809_ctl s"
  "m6809_ctl (snd (m6809_pull_s_byte io s)) = m6809_ctl s"
  "m6809_ctl (snd (m6809_pull_s_word io s)) = m6809_ctl s"
  by (simp_all add: m6809_s_stack_defs frame_simps case_prod_unfold Let_def)

lemma m6809_s_stack_clock [clock_simps]:
  "m_cycles_remaining (m6809_push_s_word io w s) = m_cycles_remaining s - 2"
  "m_cycles_remaining (snd (m6809_pull_s_byte io s)) = m_cycles_remaining s - 1"
  "m_cycles_remaining (snd (m6809_pull_s_word io s)) = m_cycles_remaining s - 2"
  by (simp_all add: m6809_s_stack_defs clock_simps case_prod_unfold Let_def)

lemmas m6809_assign_defs = m6809_mark_s_loaded_def m6809_set_entire_def m6809_mask_irq_def
  m6809_mask_firq_def m6809_set_accumulator_def m6809_set_d_def

lemma m6809_assign_ctl [frame_simps]:
  "m6809_ctl (m6809_mark_s_loaded s) = m6809_ctl s" "m6809_ctl (m6809_set_entire v s) = m6809_ctl s"
  "m6809_ctl (m6809_mask_irq s) = m6809_ctl s" "m6809_ctl (m6809_mask_firq s) = m6809_ctl s"
  "m6809_ctl (m6809_set_accumulator b k s) = m6809_ctl s" "m6809_ctl (m6809_set_d w s) = m6809_ctl s"
  by (simp_all add: m6809_assign_defs frame_simps)

lemma m6809_assign_clock [clock_simps]:
  "m_cycles_remaining (m6809_mark_s_loaded s) = m_cycles_remaining s"
  "m_cycles_remaining (m6809_set_entire v s) = m_cycles_remaining s"
  "m_cycles_remaining (m6809_mask_irq s) = m_cycles_remaining s"
  "m_cycles_remaining (m6809_mask_firq s) = m_cycles_remaining s"
  "m_cycles_remaining (m6809_set_accumulator b k s) = m_cycles_remaining s"
  "m_cycles_remaining (m6809_set_d w s) = m_cycles_remaining s"
  by (simp_all add: m6809_assign_defs)

section \<open>Addresses\<close>

lemma m6809_index_ctl [frame_simps]:
  "m6809_ctl (m6809_set_index_register r w s) = m6809_ctl s"
  by (cases r; simp add: m6809_set_index_register_def frame_simps)

lemma m6809_index_clock [clock_simps]:
  "m_cycles_remaining (m6809_set_index_register r w s) = m_cycles_remaining s"
  by (cases r; simp add: m6809_set_index_register_def)

lemma m6809_base_ctl [frame_simps]:
  "m6809_ctl (snd (m6809_indexed_base io p s)) = m6809_ctl s"
  by (simp add: m6809_indexed_base_def Let_def case_prod_unfold frame_simps)

text \<open>The bytes that an index postbyte fetches behind itself.\<close>

lemma m6809_base_clock [clock_simps]:
  "m_cycles_remaining (snd (m6809_indexed_base io p s)) =
     m_cycles_remaining s -
       (let k = p AND 0x0F in
        if p AND 0x80 = 0 then 0 else if k = 0x08 \<or> k = 0x0C then 1
        else if k = 0x09 \<or> k = 0x0D \<or> k = 0x0F then 2 else 0)"
  by (simp add: m6809_indexed_base_def Let_def case_prod_unfold clock_simps)

lemma m6809_extra_bounds: "- 1 \<le> m6809_indexed_extra_cycles p" "m6809_indexed_extra_cycles p \<le> 8"
  by (simp_all add: m6809_indexed_extra_cycles_def Let_def)

lemma m6809_mode_extra:
  "- 1 \<le> snd (fst (m6809_address_for_mode io mode s))" "snd (fst (m6809_address_for_mode io mode s)) \<le> 8"
  using m6809_extra_bounds
  by (cases mode; simp add: m6809_address_for_mode_def m6809_indexed_address_def Let_def case_prod_unfold)+

lemma m6809_mode_ctl [frame_simps]:
  "m6809_ctl (snd (m6809_address_for_mode io mode s)) = m6809_ctl s"
  by (cases mode) (simp_all add: m6809_address_for_mode_def m6809_indexed_address_def Let_def
      case_prod_unfold frame_simps)

lemma low_nibble_cases:
  "(p :: u8) AND 0x0F \<in> {0x0, 0x1, 0x2, 0x3, 0x4, 0x5, 0x6, 0x7, 0x8, 0x9, 0xA, 0xB, 0xC, 0xD, 0xE, 0xF}"
proof -
  have "p AND 0x0F = take_bit 4 p" by (simp add: take_bit_eq_mask mask_numeral)
  also have "\<dots> = word_of_nat (unat (take_bit 4 p))" by simp
  also have "unat (take_bit 4 p) = unat p mod 16"
    by (subst unsigned_take_bit_eq) (simp add: take_bit_eq_mod)
  finally have "p AND 0x0F = word_of_nat (unat p mod 16)" .
  moreover have "unat p mod 16 < 16" by simp
  then have "unat p mod 16 \<in> set [0 ..< 16]" by simp
  ultimately show ?thesis by (auto simp: upt_rec)
qed

text \<open>The accesses of an address are paid by its extra cycles and a constant of the mode.\<close>

definition m6809_mode_base :: "address_mode \<Rightarrow> int" where
  "m6809_mode_base mode = m6809_mode_cycles mode 0 1 2 2"

lemma m6809_indexed_uses:
  "m_cycles_remaining s - 2 - snd (fst (m6809_indexed_address io s))
     \<le> m_cycles_remaining (snd (m6809_indexed_address io s))"
  "m_cycles_remaining (snd (m6809_indexed_address io s)) \<le> m_cycles_remaining s - 1"
proof -
  let ?p = "fst (m6809_fetch_u8 io s)"
  have "?p AND 0x90 = 0x90 \<longleftrightarrow> bit ?p 7 \<and> bit ?p 4" by (auto simp: u8_eq_iff bit_and_iff)
  then have ind: "?p AND 0x90 = 0x90 \<longleftrightarrow> ?p AND 0x80 \<noteq> 0 \<and> ?p AND 0x10 \<noteq> 0"
    using and_pow2_nonzero [of ?p 7] and_pow2_nonzero [of ?p 4] by simp
  show "m_cycles_remaining s - 2 - snd (fst (m6809_indexed_address io s))
     \<le> m_cycles_remaining (snd (m6809_indexed_address io s))"
    using low_nibble_cases [of ?p]
    by (auto simp: m6809_indexed_address_def Let_def case_prod_unfold clock_simps
        m6809_indexed_extra_cycles_def ind)
  show "m_cycles_remaining (snd (m6809_indexed_address io s)) \<le> m_cycles_remaining s - 1"
    by (simp add: m6809_indexed_address_def Let_def case_prod_unfold clock_simps)
qed

lemma m6809_mode_clock:
  "m_cycles_remaining s - m6809_mode_base mode - snd (fst (m6809_address_for_mode io mode s))
     \<le> m_cycles_remaining (snd (m6809_address_for_mode io mode s))"
  "m_cycles_remaining (snd (m6809_address_for_mode io mode s)) \<le> m_cycles_remaining s"
  using m6809_indexed_uses(1) [of s io] m6809_indexed_uses(2) [of io s]
  by (cases mode; simp add: m6809_address_for_mode_def m6809_mode_base_def m6809_mode_cycles_def
      Let_def case_prod_unfold clock_simps)+

end
