(* ===== verification/M6809_Steps.thy ===== *)
theory M6809_Steps
  imports M6809_Invariant
begin

text \<open>
  One instruction of the MC6809 core: what it costs and what it keeps. An instruction returns
  its number of cycles before \<open>finish_instruction\<close> charges what its accesses have not; here
  is that the accesses never exceed the number, so that it is exact.
\<close>

section \<open>Registers on a stack\<close>

lemma m6809_push_if_ctl [frame_simps]:
  "m6809_ctl (snd (if c then m6809_push_byte io v p else p)) = m6809_ctl (snd p)"
  "m6809_ctl (snd (if c then m6809_push_word io w p else p)) = m6809_ctl (snd p)"
  by (simp_all add: frame_simps)

lemma m6809_push_if_clock [clock_simps]:
  "m_cycles_remaining (snd (if c then m6809_push_byte io v p else p)) =
     m_cycles_remaining (snd p) - of_bool c"
  "m_cycles_remaining (snd (if c then m6809_push_word io w p else p)) =
     m_cycles_remaining (snd p) - (if c then 2 else 0)"
  by (simp_all add: clock_simps)

lemma m6809_set_stack_frame [frame_simps, clock_simps]:
  "m6809_ctl (m6809_set_stack_pointer h p) = m6809_ctl (snd p)"
  "m_cycles_remaining (m6809_set_stack_pointer h p) = m_cycles_remaining (snd p)"
  by (simp_all add: m6809_set_stack_pointer_def case_prod_unfold frame_simps)

lemma m6809_pull_if_ctl:
  assumes "\<And>v s. m6809_ctl (f v s) = m6809_ctl s"
  shows "m6809_ctl (snd (m6809_pull_byte_if io c f p)) = m6809_ctl (snd p)"
  using assms by (simp add: m6809_pull_byte_if_def case_prod_unfold Let_def frame_simps)

lemma m6809_pull_word_if_ctl:
  assumes "\<And>v s. m6809_ctl (f v s) = m6809_ctl s"
  shows "m6809_ctl (snd (m6809_pull_word_if io c f p)) = m6809_ctl (snd p)"
  using assms by (simp add: m6809_pull_word_if_def case_prod_unfold Let_def frame_simps)

lemma m6809_pull_if_clock:
  assumes "\<And>v s. m_cycles_remaining (f v s) = m_cycles_remaining s"
  shows "m_cycles_remaining (snd (m6809_pull_byte_if io c f p)) = m_cycles_remaining (snd p) - of_bool c"
  using assms by (simp add: m6809_pull_byte_if_def case_prod_unfold Let_def clock_simps)

lemma m6809_pull_word_if_clock:
  assumes "\<And>v s. m_cycles_remaining (f v s) = m_cycles_remaining s"
  shows "m_cycles_remaining (snd (m6809_pull_word_if io c f p)) =
    m_cycles_remaining (snd p) - (if c then 2 else 0)"
  using assms by (simp add: m6809_pull_word_if_def case_prod_unfold Let_def clock_simps)

lemma m6809_registers_ctl [frame_simps]:
  "m6809_ctl (m6809_push_registers io h k s) = m6809_ctl s"
  "m6809_ctl (m6809_pull_registers io h k s) = m6809_ctl s"
  by (simp_all add: m6809_push_registers_def m6809_pull_registers_def Let_def frame_simps
      m6809_pull_if_ctl m6809_pull_word_if_ctl)

lemma m6809_registers_clock [clock_simps]:
  "m_cycles_remaining (m6809_push_registers io h k s) = m_cycles_remaining s - m6809_push_pull_bytes k"
  "m_cycles_remaining (m6809_pull_registers io h k s) = m_cycles_remaining s - m6809_push_pull_bytes k"
  by (simp_all add: m6809_push_registers_def m6809_pull_registers_def Let_def clock_simps
      m6809_pull_if_clock m6809_pull_word_if_clock m6809_push_pull_bytes_def)

lemma m6809_push_pull_bounds: "0 \<le> m6809_push_pull_bytes k" "m6809_push_pull_bytes k \<le> 12"
  by (simp_all add: m6809_push_pull_bytes_def)

lemma m6809_mask_bytes:
  "m6809_push_pull_bytes ENTIRE_STATE_MASK = 12" "m6809_push_pull_bytes PARTIAL_STATE_MASK = 3"
  by (simp_all add: m6809_push_pull_bytes_def ENTIRE_STATE_MASK_def PARTIAL_STATE_MASK_def)

section \<open>What fits an instruction\<close>

text \<open>
  An instruction that keeps the latches, spends \<open>used\<close> cycles on its accesses and returns enough
  of them to pay for these and for the \<open>k\<close> bytes of its opcode.
\<close>

definition m6809_fits :: "int \<Rightarrow> 'b m6809 \<Rightarrow> int \<times> 'b m6809 \<Rightarrow> bool" where
  "m6809_fits k s p \<longleftrightarrow>
     m6809_ctl (snd p) = m6809_ctl s
     \<and> m_cycles_remaining s - (fst p - k) \<le> m_cycles_remaining (snd p)
     \<and> m_cycles_remaining (snd p) \<le> m_cycles_remaining s
     \<and> 1 \<le> fst p \<and> fst p \<le> 20"

lemmas fits_defs = m6809_fits_def Let_def case_prod_unfold

lemma m6809_unary_clock [clock_simps]:
  "m_cycles_remaining (snd (m6809_read_mode_u8 io Immediate s)) = m_cycles_remaining s - 1"
  "m_cycles_remaining (snd (m6809_read_mode_u16 io Immediate s)) = m_cycles_remaining s - 2"
  by (simp_all add: m6809_read_mode_u8_def m6809_read_mode_u16_def case_prod_unfold Let_def clock_simps)

lemma m6809_operand_ctl [frame_simps]:
  "m6809_ctl (snd (m6809_read_mode_u8 io mode s)) = m6809_ctl s"
  "m6809_ctl (snd (m6809_read_mode_u16 io mode s)) = m6809_ctl s"
  "m6809_ctl (snd (m6809_write_mode_u8 io mode v s)) = m6809_ctl s"
  "m6809_ctl (snd (m6809_write_mode_u16 io mode w s)) = m6809_ctl s"
  by (simp_all add: m6809_read_mode_u8_def m6809_read_mode_u16_def m6809_write_mode_u8_def
      m6809_write_mode_u16_def case_prod_unfold Let_def frame_simps)

text \<open>The accesses of an operand of \<open>n\<close> bytes.\<close>

definition m6809_operand_fits :: "address_mode \<Rightarrow> int \<Rightarrow> 'b m6809 \<Rightarrow> int \<Rightarrow> 'b m6809 \<Rightarrow> bool" where
  "m6809_operand_fits mode n s extra t \<longleftrightarrow>
     m_cycles_remaining s - (m6809_mode_base mode + n + extra) \<le> m_cycles_remaining t
     \<and> m_cycles_remaining t \<le> m_cycles_remaining s \<and> - 1 \<le> extra \<and> extra \<le> 8"

lemma m6809_operand_clock:
  "m6809_operand_fits mode 1 s (snd (fst (m6809_read_mode_u8 io mode s))) (snd (m6809_read_mode_u8 io mode s))"
  "m6809_operand_fits mode 2 s (snd (fst (m6809_read_mode_u16 io mode s))) (snd (m6809_read_mode_u16 io mode s))"
  "m6809_operand_fits mode 1 s (fst (m6809_write_mode_u8 io mode v s)) (snd (m6809_write_mode_u8 io mode v s))"
  "m6809_operand_fits mode 2 s (fst (m6809_write_mode_u16 io mode w s)) (snd (m6809_write_mode_u16 io mode w s))"
  using m6809_mode_clock(1) [of s mode io] m6809_mode_clock(2) [of io mode s] m6809_mode_extra [of io mode s]
  by (cases mode; simp add: m6809_operand_fits_def m6809_read_mode_u8_def m6809_read_mode_u16_def
      m6809_write_mode_u8_def m6809_write_mode_u16_def m6809_mode_base_def m6809_mode_cycles_def
      case_prod_unfold Let_def clock_simps)+

lemmas operand_of = m6809_operand_clock [unfolded m6809_operand_fits_def m6809_mode_base_def
  m6809_mode_cycles_def]

lemma m6809_alu8_fits:
  assumes "\<And>l r s. m6809_but_flags (snd (operation l r s)) = m6809_but_flags s"
  shows "m6809_fits 1 s (m6809_alu8 io mode b operation s)"
  using operand_of(1) [of s mode io] m6809_but_flags_same(1,2) [OF assms]
  by (cases mode; simp add: m6809_alu8_def fits_defs frame_simps clock_simps m6809_mode_cycles_def)

lemma m6809_compare_fits:
  "m6809_fits 1 s (m6809_cmp8_mode io mode b s)" "m6809_fits 1 s (m6809_bit8_mode io mode b s)"
  "m6809_fits 1 s (m6809_ld8_mode io mode b s)"
  using operand_of(1) [of s mode io]
  by (cases mode; simp add: m6809_cmp8_mode_def m6809_bit8_mode_def m6809_ld8_mode_def fits_defs frame_simps clock_simps
      m6809_mode_cycles_def)+

lemma m6809_word_fits:
  "m6809_fits 1 s (m6809_subd_mode io mode s)" "m6809_fits 1 s (m6809_addd_mode io mode s)"
  "m6809_fits 1 s (m6809_cmpx_mode io mode s)" "m6809_fits 1 s (m6809_ldd_mode io mode s)"
  "m6809_fits 1 s (m6809_ldx_mode io mode s)" "m6809_fits 1 s (m6809_ldu_mode io mode s)"
  "m6809_fits 2 s (m6809_cmpd_mode io mode s)" "m6809_fits 2 s (m6809_cmp_register_mode io mode w s)"
  "m6809_fits 2 s (m6809_xadd16_mode io mode w s)" "m6809_fits 2 s (m6809_ldy io mode s)"
  "m6809_fits 2 s (m6809_lds io mode s)"
  using operand_of(2) [of s mode io]
  by (cases mode; simp add: m6809_subd_mode_def m6809_addd_mode_def m6809_cmpd_mode_def
      m6809_cmpx_mode_def m6809_ldd_mode_def m6809_ldx_mode_def m6809_ldu_mode_def
      m6809_cmp_register_mode_def m6809_xadd16_mode_def m6809_ld_register_mode_def m6809_ldy_def
      m6809_lds_def fits_defs frame_simps clock_simps m6809_mode_cycles_def)+

lemma m6809_xst16_frame [frame_simps, clock_simps]:
  "m6809_ctl (m6809_xst16_immediate io w s) = m6809_ctl s"
  "m_cycles_remaining (m6809_xst16_immediate io w s) = m_cycles_remaining s - 2"
  by (simp_all add: m6809_xst16_immediate_def Let_def case_prod_unfold frame_simps clock_simps)

lemma m6809_st8_fits: "m6809_fits 1 s (m6809_st8_mode io mode b s)"
  using operand_of(3) [of "snd (m6809_set_nzv8 (m6809_accumulator b s) s)" mode io "m6809_accumulator b s"]
  by (cases mode; simp add: m6809_st8_mode_def fits_defs frame_simps clock_simps m6809_mode_cycles_def)

lemma m6809_std_fits: "m6809_fits 1 s (m6809_std_mode io mode s)"
  using operand_of(4) [of "snd (m6809_set_nzv16 (m6809_d s) s)" mode io "m6809_d s"]
  by (cases mode; simp add: m6809_std_mode_def fits_defs frame_simps clock_simps m6809_mode_cycles_def)

lemmas mode_uses = m6809_mode_clock [unfolded m6809_mode_base_def m6809_mode_cycles_def] m6809_mode_extra

lemma m6809_store16_fits:
  "k \<le> c - 2 \<Longrightarrow> c \<le> 9 \<Longrightarrow> 1 \<le> k \<Longrightarrow> m6809_fits k s (m6809_store16 io mode reg c s)"
  using mode_uses(1) [of s mode io] mode_uses(2-4) [of io mode s]
  by (cases mode; simp add: m6809_store16_def fits_defs frame_simps clock_simps m6809_mode_cycles_def)

lemma m6809_address_fits:
  "m6809_fits 1 s (m6809_jsr_mode io mode s)" "m6809_fits 1 s (m6809_lea io Indexed r s)"
  "6 \<le> c \<Longrightarrow> c \<le> 7 \<Longrightarrow> mode = Extended \<longrightarrow> c = 7 \<Longrightarrow> m6809_fits 1 s (m6809_memory_unary io mode op c s)"
proof -
  note uses = mode_uses(1) [of s mode io] mode_uses(2-4) [of io mode s]
  show "m6809_fits 1 s (m6809_jsr_mode io mode s)"
    using uses by (cases mode; simp add: m6809_jsr_mode_def fits_defs frame_simps clock_simps
      m6809_mode_cycles_def)
  show "m6809_fits 1 s (m6809_lea io Indexed r s)"
    using mode_uses(1) [of s Indexed io] mode_uses(2-4) [of io Indexed s]
    by (simp add: m6809_lea_def fits_defs frame_simps clock_simps)
  show "m6809_fits 1 s (m6809_memory_unary io mode op c s)"
    if "6 \<le> c" "c \<le> 7" "mode = Extended \<longrightarrow> c = 7"
    using uses that
    by (cases op; cases mode; simp add: m6809_memory_unary_def fits_defs frame_simps clock_simps)
qed

lemma m6809_register_unary_fits: "m6809_fits 1 s (m6809_register_unary a op s)"
  by (cases op; simp add: m6809_register_unary_def fits_defs frame_simps clock_simps)

lemma m6809_branch_fits:
  "m6809_fits 1 s (m6809_short_branch io b s)" "m6809_fits 1 s (m6809_short_bsr io s)"
  "m6809_fits 1 s (m6809_long_bsr io s)" "m6809_fits 1 s (m6809_long_branch io True 5 s)"
  "m6809_fits 2 s (m6809_long_branch io b 6 s)"
  by (simp_all add: m6809_short_branch_def m6809_short_bsr_def m6809_long_bsr_def
      m6809_long_branch_def fits_defs frame_simps clock_simps)

lemma m6809_push_or_pull_fits: "m6809_fits 1 s (m6809_push_or_pull io h push s)"
  using m6809_push_pull_bounds [of "fst (m6809_fetch_u8 io s)"]
  by (simp add: m6809_push_or_pull_def fits_defs frame_simps clock_simps)

lemma m6809_transfer_frame [frame_simps, clock_simps]:
  "m6809_ctl (m6809_write_transfer_register r w b s) = m6809_ctl s"
  "m_cycles_remaining (m6809_write_transfer_register r w b s) = m_cycles_remaining s"
  by (simp_all add: m6809_write_transfer_register_def Let_def frame_simps clock_simps)

lemma m6809_transfer_fits:
  "m6809_fits 1 s (m6809_exg io s)" "m6809_fits 1 s (m6809_tfr io s)" "m6809_fits 1 s (m6809_x18 io s)"
  by (simp_all add: m6809_exg_def m6809_tfr_def m6809_x18_def fits_defs frame_simps clock_simps)

lemma m6809_single_frame [frame_simps, clock_simps]:
  "m6809_ctl (m6809_daa s) = m6809_ctl s" "m6809_ctl (m6809_sex s) = m6809_ctl s"
  "m6809_ctl (m6809_mul s) = m6809_ctl s" "m6809_ctl (m6809_orcc io s) = m6809_ctl s"
  "m6809_ctl (m6809_andcc io s) = m6809_ctl s"
  "m_cycles_remaining (m6809_daa s) = m_cycles_remaining s"
  "m_cycles_remaining (m6809_sex s) = m_cycles_remaining s"
  "m_cycles_remaining (m6809_mul s) = m_cycles_remaining s"
  "m_cycles_remaining (m6809_orcc io s) = m_cycles_remaining s - 1"
  "m_cycles_remaining (m6809_andcc io s) = m_cycles_remaining s - 1"
  by (simp_all add: m6809_daa_def m6809_sex_def m6809_mul_def m6809_orcc_def m6809_andcc_def
      Let_def case_prod_unfold frame_simps clock_simps)

lemma m6809_jump_frame [frame_simps, clock_simps]:
  "m6809_ctl (m6809_jump_vector io w s) = m6809_ctl s"
  "m_cycles_remaining (m6809_jump_vector io w s) = m_cycles_remaining s - 2"
  by (simp_all add: m6809_jump_vector_def case_prod_unfold Let_def frame_simps clock_simps)

lemmas m6809_software_interrupt_defs = m6809_swi_def m6809_swi2_def m6809_swi3_def m6809_x_swi2_def
  m6809_x_firq_def m6809_x_reset_def

lemma m6809_software_interrupt_frame [frame_simps, clock_simps]:
  "m6809_ctl (m6809_software_interrupt io w i f e s) = m6809_ctl s"
  "m_cycles_remaining (m6809_software_interrupt io w i f e s) = m_cycles_remaining s - 14"
  by (simp_all add: m6809_software_interrupt_def Let_def frame_simps clock_simps m6809_mask_bytes)

lemma m6809_rti_fits: "m6809_fits 1 s (m6809_rti io s)"
  by (simp add: m6809_rti_def fits_defs frame_simps clock_simps)

lemma m6809_test_fits: "m6809_fits 2 s (m6809_test_accumulator io b s)"
  by (simp add: m6809_test_accumulator_def fits_defs frame_simps clock_simps)

section \<open>One instruction\<close>

text \<open>
  What the code accepts on a restore, over the latches; and what every instruction does,
  those that change the latches included.
\<close>

definition m6809_ctl_ok :: "bool \<times> u8 \<times> bool \<times> u16 option \<times> u32 \<Rightarrow> bool" where
  "m6809_ctl_ok = (\<lambda>(halted, pending, waiting, clear, hz). pending AND - 8 = 0 \<and> (waiting \<longrightarrow> halted))"

lemma m6809_validate_ok: "m6809_validate_state s = Inr () \<longleftrightarrow> m6809_ctl_ok (m6809_ctl s)"
  by (simp add: m6809_validate_state_def m6809_ctl_ok_def m6809_ctl_def)

definition m6809_meets :: "int \<Rightarrow> 'b m6809 \<Rightarrow> int \<times> 'b m6809 \<Rightarrow> bool" where
  "m6809_meets k s p \<longleftrightarrow>
     (m6809_ctl_ok (m6809_ctl s) \<longrightarrow> m6809_ctl_ok (m6809_ctl (snd p)))
     \<and> m_cycles_remaining s - (fst p - k) \<le> m_cycles_remaining (snd p)
     \<and> m_cycles_remaining (snd p) \<le> m_cycles_remaining s
     \<and> 1 \<le> fst p \<and> fst p \<le> 20"

lemma fits_meets: "m6809_fits k s p \<Longrightarrow> m6809_meets k s p"
  by (simp add: m6809_fits_def m6809_meets_def)

lemma m6809_halt_ctl [frame_simps]:
  "m6809_ctl (m_halted_update h s) = (case m6809_ctl s of (a, p, w, x, c) \<Rightarrow> (h a, p, w, x, c))"
  "m6809_ctl (m_cwai_waiting_update h s) = (case m6809_ctl s of (a, p, w, x, c) \<Rightarrow> (a, p, h w, x, c))"
  "m6809_ctl (m_pending_irq_update i s) = (case m6809_ctl s of (a, p, w, x, c) \<Rightarrow> (a, i p, w, x, c))"
  "m6809_ctl (m_pending_extended_clear_update e s) =
     (case m6809_ctl s of (a, p, w, x, c) \<Rightarrow> (a, p, w, e x, c))"
  by (simp_all add: m6809_ctl_def)

lemma m6809_waiting_meets:
  "m6809_meets 1 s (2, m6809_sync s)" "m6809_meets 1 s (1, s\<lparr>m_halted := True\<rparr>)"
  "m6809_meets 1 s (20, m6809_cwai io s)" "m6809_meets 1 s (m6809_begin_extended_clear io s)"
  by (simp_all add: m6809_sync_def m6809_cwai_def m6809_begin_extended_clear_def m6809_meets_def
      m6809_ctl_ok_def Let_def case_prod_unfold frame_simps clock_simps m6809_mask_bytes)

lemma m6809_row1_meets: "m6809_meets 1 s (m6809_execute_row1 io opcode s)"
proof -
  have "m6809_fits 1 s (2, s)" "m6809_fits 1 s (2, m6809_daa s)" "m6809_fits 1 s (3, m6809_orcc io s)"
    "m6809_fits 1 s (3, m6809_andcc io s)" "m6809_fits 1 s (2, m6809_sex s)" "m6809_fits 1 s (1, s)"
    by (simp_all add: fits_defs frame_simps clock_simps)
  note rules = this [THEN fits_meets] m6809_transfer_fits [THEN fits_meets]
    m6809_branch_fits [THEN fits_meets] m6809_waiting_meets
  show ?thesis by (simp add: m6809_execute_row1_def rules)
qed

lemma m6809_row3_meets: "m6809_meets 1 s (m6809_execute_row3 io opcode s)"
proof -
  have "m6809_fits 1 s (4, m6809_andcc io (m6809_clk 1 s))" "m6809_fits 1 s (19, m6809_swi io s)"
    "m6809_fits 1 s (case m6809_pull_s_word io s of (pc, s) \<Rightarrow> (5, s\<lparr>m_pc := pc\<rparr>))"
    "m6809_fits 1 s (3, s\<lparr>m_x := m_x s + ucast (m_b s)\<rparr>)" "m6809_fits 1 s (11, m6809_mul s)"
    "m6809_fits 1 s (19, m6809_x_reset io s)"
    by (simp_all add: fits_defs frame_simps clock_simps m6809_software_interrupt_defs)
  note rules = this [THEN fits_meets] m6809_address_fits(2) [THEN fits_meets]
    m6809_push_or_pull_fits [THEN fits_meets] m6809_rti_fits [THEN fits_meets] m6809_waiting_meets
  show ?thesis by (simp add: m6809_execute_row3_def Let_def rules)
qed

lemma m6809_load_store_alu_fits: "m6809_fits 1 s (m6809_load_store_alu io opcode s)"
  by (simp add: m6809_load_store_alu_def Let_def m6809_alu8_fits m6809_compare_fits
      m6809_word_fits m6809_st8_fits m6809_std_fits m6809_store16_fits m6809_stx_mode_def
      m6809_stu_mode_def m6809_address_fits)

lemma m6809_base_meets: "m6809_meets 1 s (m6809_execute_base io opcode s)"
proof -
  have "m6809_fits 1 s (case m6809_direct_address io s of (pc, s) \<Rightarrow> (3, s\<lparr>m_pc := pc\<rparr>))"
    "m6809_fits 1 s (case m6809_fetch_u16 io s of (pc, s) \<Rightarrow> (4, s\<lparr>m_pc := pc\<rparr>))"
    by (simp_all add: fits_defs frame_simps clock_simps)
  moreover have "m6809_fits 1 s (case m6809_address_for_mode io Indexed s of
      ((address, extra_cycles), s) \<Rightarrow> (3 + extra_cycles, s\<lparr>m_pc := address\<rparr>))"
    using mode_uses(1) [of s Indexed io] mode_uses(2-4) [of io Indexed s]
    by (simp add: fits_defs frame_simps clock_simps)
  ultimately have rules: "m6809_meets 1 s (case m6809_direct_address io s of (pc, s) \<Rightarrow> (3, s\<lparr>m_pc := pc\<rparr>))"
    "m6809_meets 1 s (case m6809_fetch_u16 io s of (pc, s) \<Rightarrow> (4, s\<lparr>m_pc := pc\<rparr>))"
    "m6809_meets 1 s (case m6809_address_for_mode io Indexed s of
      ((address, extra_cycles), s) \<Rightarrow> (3 + extra_cycles, s\<lparr>m_pc := address\<rparr>))"
    by (simp_all add: fits_meets)
  show ?thesis
    by (simp add: m6809_execute_base_def Let_def case_prod_unfold rules [unfolded case_prod_unfold] m6809_row1_meets m6809_row3_meets
        m6809_waiting_meets m6809_load_store_alu_fits [THEN fits_meets]
        m6809_address_fits [THEN fits_meets] m6809_branch_fits [THEN fits_meets]
        m6809_register_unary_fits [THEN fits_meets])
qed

lemma m6809_page_fits:
  "m6809_fits 2 s (m6809_execute_page2 io opcode s)" "m6809_fits 2 s (m6809_execute_page3 io opcode s)"
proof -
  have "m6809_fits 2 s (20, m6809_x_swi2 io s)" "m6809_fits 2 s (20, m6809_swi2 io s)"
    "m6809_fits 2 s (20, m6809_x_firq io s)" "m6809_fits 2 s (20, m6809_swi3 io s)"
    "m6809_fits 2 s (2, s)"
    by (simp_all add: fits_defs frame_simps clock_simps m6809_software_interrupt_defs)
  note rules = this m6809_branch_fits m6809_word_fits m6809_store16_fits m6809_test_fits
  show "m6809_fits 2 s (m6809_execute_page2 io opcode s)"
    by (simp add: m6809_execute_page2_def Let_def rules m6809_st_register_mode_def)
  show "m6809_fits 2 s (m6809_execute_page3 io opcode s)"
    by (simp add: m6809_execute_page3_def Let_def rules m6809_st_register_mode_def)
qed

text \<open>The number that an instruction returns pays for every access it made.\<close>

lemma m6809_meets_fetch:
  assumes "m6809_meets k (snd (m6809_fetch_u8 io s)) p"
  shows "m6809_meets (k - 1) s p"
  using assms by (simp add: m6809_meets_def frame_simps clock_simps)

lemma m6809_dispatch_meets: "m6809_meets 0 s (m6809_dispatch io s)"
proof -
  let ?s = "snd (m6809_fetch_u8 io s)"
  have "m6809_meets 1 ?s (m6809_execute_page2 io c (snd (m6809_fetch_u8 io ?s)))"
    "m6809_meets 1 ?s (m6809_execute_page3 io c (snd (m6809_fetch_u8 io ?s)))" for c
    using m6809_meets_fetch [OF fits_meets, OF m6809_page_fits(1)]
      m6809_meets_fetch [OF fits_meets, OF m6809_page_fits(2)] by simp_all
  then have "m6809_meets 1 ?s (m6809_dispatch io s)"
    by (simp add: m6809_dispatch_def Let_def case_prod_unfold m6809_base_meets)
  from m6809_meets_fetch [OF this] show ?thesis by simp
qed

section \<open>Interrupts\<close>

lemma m6809_enter_frame [frame_simps, clock_simps]:
  "m6809_ctl (m6809_enter_service io e k s) = (case m6809_ctl s of (a, p, w, x, c) \<Rightarrow> (False, p, False, x, c))"
  "m_cycles_remaining (m6809_enter_service io e k s) =
     m_cycles_remaining s - (if m_cwai_waiting s then 0 else m6809_push_pull_bytes k)"
  by (simp_all add: m6809_enter_service_def Let_def frame_simps clock_simps split: prod.splits)

lemma m6809_pending_of_ctl: "m_pending_irq s = (case m6809_ctl s of (h, p, w, x, c) \<Rightarrow> p)"
  by (simp add: m6809_ctl_def)

lemma m6809_pending_mask:
  assumes "n AND - 8 = (0 :: u8)"
  shows "(n AND m) AND - 8 = 0" "m AND - 8 = 0 \<Longrightarrow> (n OR m) AND - 8 = 0"
proof -
  have "(n AND m) AND - 8 = (n AND - 8) AND m" by (simp only: ac_simps)
  then show "(n AND m) AND - 8 = 0" using assms by simp
  show "(n OR m) AND - 8 = 0" if "m AND - 8 = 0"
    using assms that by (simp add: bit.conj_disj_distrib2)
qed

lemma m6809_service_meets:
  "m6809_meets 0 s (19, m6809_service_nmi io s)" "m6809_meets 0 s (10, m6809_service_firq io s)"
  "m6809_meets 0 s (19, m6809_service_irq io s)"
  by (auto simp: m6809_service_nmi_def m6809_service_firq_def m6809_service_irq_def m6809_meets_def
      m6809_ctl_ok_def Let_def frame_simps clock_simps m6809_mask_bytes m6809_pending_of_ctl
      m6809_pending_mask split: prod.splits)

end
