(* ===== verification/M6809_Progress.thy ===== *)
theory M6809_Progress
  imports M6809_Steps
begin

text \<open>
  The execution loop of the MC6809 core: every step takes exactly the cycles it declares, one
  to twenty of them; \<open>step\<close> and a round of \<open>run_for\<close> keep the state one that a restore accepts.
\<close>

section \<open>One step\<close>

text \<open>
  The cycles of the next step: the second half of an extended CLR, an interrupt, or an
  instruction.
\<close>

definition m6809_cost :: "'b bus_ops \<Rightarrow> 'b m6809 \<Rightarrow> int" where
  "m6809_cost io s =
     (if m_pending_extended_clear s \<noteq> None then 3
      else case fst (m6809_check_interrupts io s) of Some cycles \<Rightarrow> cycles
        | None \<Rightarrow> fst (m6809_dispatch io s))"

lemma m6809_finish_frame [frame_simps]:
  "m6809_ctl (m6809_finish_instruction a c s) = m6809_ctl s"
  by (simp add: m6809_finish_instruction_def Let_def frame_simps)

lemma m6809_finish_meets:
  assumes "m6809_meets 0 s (c, t)"
  shows "m_cycles_remaining (m6809_finish_instruction (m_cycles_remaining s) c t) =
      m_cycles_remaining s - c"
    "1 \<le> c" "c \<le> 20"
    "m6809_ctl_ok (m6809_ctl s) \<Longrightarrow>
       m6809_ctl_ok (m6809_ctl (m6809_finish_instruction (m_cycles_remaining s) c t))"
  using assms by (auto simp: m6809_meets_def m6809_finish_instruction_def Let_def frame_simps)

lemma m6809_clear_meets:
  "m6809_meets 0 s (3, snd (m6809_clr8 (m6809_write_byte io a 0 (s\<lparr>m_pending_extended_clear := None\<rparr>))))"
  by (auto simp: m6809_meets_def m6809_ctl_ok_def frame_simps clock_simps split: prod.splits)

lemma m6809_check_cases:
  obtains "m6809_check_interrupts io s = (None, s)" "\<not> m6809_serviceable s"
  | c t where "m6809_check_interrupts io s = (Some c, t)" "m6809_meets 0 s (c, t)"
      "\<not> m_halted t" "\<not> m_cwai_waiting t" "m6809_serviceable s"
proof -
  have woken: "\<not> m_halted t \<and> \<not> m_cwai_waiting t"
    if "t = m6809_service_nmi io s \<or> t = m6809_service_firq io s \<or> t = m6809_service_irq io s" for t
  proof -
    have "\<exists>p x c. m6809_ctl t = (False, p, False, x, c)"
      using that by (auto simp: m6809_service_nmi_def m6809_service_firq_def m6809_service_irq_def
          Let_def frame_simps split: prod.splits)
    then show ?thesis by (simp add: m6809_ctl_def)
  qed
  show ?thesis
  proof (cases "m6809_serviceable s")
    case True
    then have "\<exists>c t. m6809_check_interrupts io s = (Some c, t) \<and> m6809_meets 0 s (c, t)
        \<and> \<not> m_halted t \<and> \<not> m_cwai_waiting t"
      unfolding m6809_check_interrupts_def m6809_serviceable_def
      by (auto simp: m6809_service_meets woken)
    with True that(2) show ?thesis by blast
  next
    case False
    with that(1) show ?thesis
      by (auto simp: m6809_check_interrupts_def m6809_serviceable_def)
  qed
qed

lemma m6809_execute_cases:
  "\<exists>t. m6809_meets 0 s (m6809_cost io s, t)
     \<and> m6809_execute_one io s = m6809_finish_instruction (m_cycles_remaining s) (m6809_cost io s) t"
proof (cases "m_pending_extended_clear s")
  case (Some a)
  then show ?thesis
    using m6809_clear_meets [of s io a]
    by (auto simp: m6809_execute_one_def m6809_cost_def Let_def)
next
  case None
  show ?thesis
  proof (rule m6809_check_cases [of io s])
    assume "m6809_check_interrupts io s = (None, s)"
    with None show ?thesis
      using m6809_dispatch_meets [of s io]
      by (intro exI [of _ "snd (m6809_dispatch io s)"])
        (simp add: m6809_execute_one_def m6809_cost_def Let_def case_prod_unfold)
  next
    fix c t assume "m6809_check_interrupts io s = (Some c, t)" "m6809_meets 0 s (c, t)"
    with None show ?thesis
      by (intro exI [of _ t]) (simp add: m6809_execute_one_def m6809_cost_def Let_def)
  qed
qed

lemma m6809_execute_one_effect:
  "m_cycles_remaining (m6809_execute_one io s) = m_cycles_remaining s - m6809_cost io s"
  "1 \<le> m6809_cost io s" "m6809_cost io s \<le> 20"
  "m6809_ctl_ok (m6809_ctl s) \<Longrightarrow> m6809_ctl_ok (m6809_ctl (m6809_execute_one io s))"
  using m6809_execute_cases [of s io] m6809_finish_meets by fastforce+

section \<open>Running\<close>

lemma m6809_drain_effect:
  "m6809_ctl (m6809_drain_wait io s) = m6809_ctl s"
  "m_cycles_remaining (m6809_drain_wait io s) =
     m_cycles_remaining s - fst (bus_drain_wait_cycles io (m_bus s))"
  by (simp_all add: m6809_drain_wait_def case_prod_unfold Let_def frame_simps clock_simps)

lemma m6809_set_cycle_effect:
  "m6809_ctl (m6809_set_bus_cycle io c s) = m6809_ctl s"
  "m_cycles_remaining (m6809_set_bus_cycle io c s) = m_cycles_remaining s"
  by (simp_all add: m6809_set_bus_cycle_def frame_simps)

lemma m6809_sample_effect:
  "m_cycles_remaining (m6809_sample io s) = m_cycles_remaining s"
  "m6809_ctl_ok (m6809_ctl s) \<Longrightarrow> m6809_ctl_ok (m6809_ctl (m6809_sample io s))"
  by (auto simp: m6809_sample_def Let_def frame_simps m6809_ctl_ok_def m6809_pending_mask
      m6809_pending_of_ctl PENDING_NMI_def PENDING_IRQ_def split: prod.splits)

lemma m6809_step_valid:
  assumes "m6809_ctl_ok (m6809_ctl s)"
  shows "m6809_ctl_ok (m6809_ctl (m6809_step io s))"
proof -
  have "m6809_ctl_ok (m6809_ctl (m6809_execute_one io (s\<lparr>m_cycles_remaining := 2 ^ 63 - 1\<rparr>)))"
    using assms by (intro m6809_execute_one_effect) (simp add: frame_simps)
  then show ?thesis
    by (simp add: m6809_step_def Let_def m6809_set_cycle_effect m6809_drain_effect frame_simps
        m6809_execute_one_effect(4))
qed

lemma m6809_run_body_valid:
  assumes "m6809_ctl_ok (m6809_ctl s)"
  shows "m6809_ctl_ok (m6809_ctl (snd (m6809_run_body io budget start s)))"
proof -
  let ?u = "m6809_sample io s"
  let ?v = "if m_halted ?u \<and> \<not> m_cwai_waiting ?u then ?u\<lparr>m_halted := False\<rparr> else ?u"
  have u: "m6809_ctl_ok (m6809_ctl ?u)" using assms by (rule m6809_sample_effect(2))
  then have "m6809_ctl_ok (m6809_ctl ?v)" by (simp add: m6809_ctl_ok_def m6809_ctl_def)
  then have "m6809_ctl_ok (m6809_ctl (m6809_execute_one io ?v))"
    by (rule m6809_execute_one_effect(4))
  with u show ?thesis
    by (simp only: m6809_run_body_def Let_def m6809_set_cycle_effect m6809_drain_effect frame_simps
        snd_conv if_distrib [of snd] if_distrib [of m6809_ctl] if_distrib [of m6809_ctl_ok] simp_thms)
      (simp only: if_split simp_thms)
qed

text \<open>How a round ends the loop.\<close>

definition m6809_idle :: "'b m6809 \<Rightarrow> bool" where
  "m6809_idle s \<longleftrightarrow>
     m_halted s \<and> (m_cwai_waiting s \<and> \<not> m6809_serviceable s \<or> m_pending_irq s = 0)"

lemma m6809_set_cycle_idle:
  "m6809_idle (m6809_set_bus_cycle io c s) = m6809_idle s"
  by (simp add: m6809_idle_def m6809_set_bus_cycle_def m6809_serviceable_def)

lemma m6809_run_body_ends:
  assumes "m6809_run_body io budget start s = (r, t)"
  shows "r = Return \<Longrightarrow> m6809_idle t"
    "r = Break \<Longrightarrow> m_pending_extended_clear t \<noteq> None
       \<or> bus_reset_pending io (m_bus t) \<or> bus_cpu_should_yield io (m_bus t)"
proof -
  have idle: "m6809_idle (m6809_sample io s)"
    if "m_halted (m6809_sample io s) \<and> (m_cwai_waiting (m6809_sample io s)
      \<and> \<not> m6809_serviceable (m6809_sample io s) \<or> m_pending_irq (m6809_sample io s) = 0)"
    using that by (simp add: m6809_idle_def)
  show "m6809_idle t" if "r = Return"
    using assms that idle
    by (auto simp: m6809_run_body_def Let_def m6809_set_cycle_idle split: if_split_asm)
  show "m_pending_extended_clear t \<noteq> None
       \<or> bus_reset_pending io (m_bus t) \<or> bus_cpu_should_yield io (m_bus t)" if "r = Break"
    using assms that by (auto simp: m6809_run_body_def Let_def split: if_split_asm)
qed

end
