(* ===== verification/M6809_Guard.thy ===== *)
theory M6809_Guard
  imports M6809_Progress
begin

text \<open>
  The MC6809 core on a bus with an invariant: whatever program runs, the invariant holds after
  every instruction (each operation gets a rule), and \<open>run_for\<close> returns for every budget,
  because every round of its loop takes at least a cycle.
\<close>

section \<open>What leaves the bus alone\<close>

lemmas m6809_alu_bus [simp] = m6809_alu_frames [THEN m6809_but_flags_same(3)]

lemma m6809_assign_bus [simp]:
  "m_bus (m6809_clk n s) = m_bus s" "m_bus (m6809_mark_s_loaded s) = m_bus s"
  "m_bus (m6809_set_entire v s) = m_bus s" "m_bus (m6809_mask_irq s) = m_bus s"
  "m_bus (m6809_mask_firq s) = m_bus s" "m_bus (m6809_set_accumulator b k s) = m_bus s"
  "m_bus (m6809_set_d w s) = m_bus s" "m_bus (m6809_finish_instruction a c s) = m_bus s"
  "m_bus (m6809_write_transfer_register r w b s) = m_bus s"
  "m_bus (m6809_set_stack_pointer h p) = m_bus (snd p)"
  by (simp_all add: m6809_clk_def m6809_assign_defs m6809_finish_instruction_def Let_def
      m6809_write_transfer_register_def m6809_set_stack_pointer_def case_prod_unfold)

lemma m6809_single_bus [simp]:
  "m_bus (m6809_set_index_register r w s) = m_bus s" "m_bus (m6809_daa s) = m_bus s"
  "m_bus (m6809_sex s) = m_bus s" "m_bus (m6809_mul s) = m_bus s" "m_bus (m6809_sync s) = m_bus s"
  "m_bus (snd (m6809_register_unary a op s)) = m_bus s"
  by (cases r; simp add: m6809_set_index_register_def)
    (simp_all add: m6809_daa_def m6809_sex_def m6809_mul_def m6809_sync_def
      m6809_register_unary_def Let_def case_prod_unfold split: unary_op.split)

section \<open>The two halves of a round\<close>

definition m6809_first_half :: "'b bus_ops \<Rightarrow> (int \<Rightarrow> u64) \<Rightarrow> 'b m6809 \<Rightarrow> 'b m6809" where
  "m6809_first_half io cycle s =
     (let s = (if m_halted s \<and> \<not> m_cwai_waiting s then s\<lparr>m_halted := False\<rparr> else s);
          s = m6809_drain_wait io (m6809_execute_one io s)
      in m6809_set_bus_cycle io (cycle (m_cycles_remaining s)) s)"

definition m6809_second_half :: "'b bus_ops \<Rightarrow> (int \<Rightarrow> u64) \<Rightarrow> 'b m6809 \<Rightarrow> 'b m6809" where
  "m6809_second_half io cycle s =
     (let s = m6809_drain_wait io (s\<lparr>m_bus := bus_on_instruction_end io (m_bus s)\<rparr>)
      in m6809_set_bus_cycle io (cycle (m_cycles_remaining s)) s)"

lemma m6809_run_body_halves:
  "m6809_run_body io budget start s =
     (let cycle = (\<lambda>left. start + word_of_int (budget - left)); s = m6809_sample io s in
      if m_halted s \<and> (m_cwai_waiting s \<and> \<not> m6809_serviceable s \<or> m_pending_irq s = 0)
      then (Return, m6809_set_bus_cycle io (cycle (m_cycles_remaining s)) s)
      else let s = m6809_first_half io cycle s in
        if m_pending_extended_clear s \<noteq> None then (Break, s)
        else let s = m6809_second_half io cycle s in
          (if bus_reset_pending io (m_bus s) \<or> bus_cpu_should_yield io (m_bus s) then Break else Again, s))"
  by (simp add: m6809_run_body_def m6809_first_half_def m6809_second_half_def Let_def)

section \<open>The invariant of the bus\<close>

context guarded_bus begin

lemma m6809_access_ok:
  "ok (m_bus s) \<Longrightarrow> ok (m_bus (snd (m6809_read_byte io a s)))"
  "ok (m_bus s) \<Longrightarrow> ok (m_bus (m6809_write_byte io a v s))"
  "ok (m_bus s) \<Longrightarrow> ok (m_bus (snd (m6809_fetch_u8 io s)))"
  by (simp_all add: m6809_access_defs case_prod_unfold Let_def read_ok write_ok fetch_ok)

lemma m6809_word_ok:
  "ok (m_bus s) \<Longrightarrow> ok (m_bus (snd (m6809_fetch_u16 io s)))"
  "ok (m_bus s) \<Longrightarrow> ok (m_bus (snd (m6809_read_word io a s)))"
  "ok (m_bus s) \<Longrightarrow> ok (m_bus (m6809_write_word io a w s))"
  "ok (m_bus s) \<Longrightarrow> ok (m_bus (snd (m6809_direct_address io s)))"
  by (simp_all add: m6809_word_defs case_prod_unfold Let_def m6809_access_ok)

lemma m6809_stack_ok:
  "ok (m_bus (snd p)) \<Longrightarrow> ok (m_bus (snd (m6809_push_byte io v p)))"
  "ok (m_bus (snd p)) \<Longrightarrow> ok (m_bus (snd (m6809_push_word io w p)))"
  "ok (m_bus (snd p)) \<Longrightarrow> ok (m_bus (snd (snd (m6809_pull_byte io p))))"
  "ok (m_bus (snd p)) \<Longrightarrow> ok (m_bus (snd (snd (m6809_pull_word io p))))"
  by (simp_all add: m6809_stack_defs case_prod_unfold Let_def m6809_access_ok)

lemma m6809_s_stack_ok:
  "ok (m_bus s) \<Longrightarrow> ok (m_bus (m6809_push_s_word io w s))"
  "ok (m_bus s) \<Longrightarrow> ok (m_bus (snd (m6809_pull_s_byte io s)))"
  "ok (m_bus s) \<Longrightarrow> ok (m_bus (snd (m6809_pull_s_word io s)))"
  by (simp_all add: m6809_s_stack_defs case_prod_unfold Let_def m6809_stack_ok)

lemma m6809_push_if_ok:
  "ok (m_bus (snd p)) \<Longrightarrow> ok (m_bus (snd (if c then m6809_push_byte io v p else p)))"
  "ok (m_bus (snd p)) \<Longrightarrow> ok (m_bus (snd (if c then m6809_push_word io w p else p)))"
  by (simp_all add: m6809_stack_ok)

lemma m6809_pull_if_ok:
  assumes "ok (m_bus (snd p))" "\<And>v s. m_bus (f v s) = m_bus s" "\<And>v s. m_bus (g v s) = m_bus s"
  shows "ok (m_bus (snd (m6809_pull_byte_if io c f p)))" "ok (m_bus (snd (m6809_pull_word_if io c g p)))"
  using assms by (simp_all add: m6809_pull_byte_if_def m6809_pull_word_if_def case_prod_unfold Let_def
      m6809_stack_ok)

lemma m6809_registers_ok:
  "ok (m_bus s) \<Longrightarrow> ok (m_bus (m6809_push_registers io h k s))"
  "ok (m_bus s) \<Longrightarrow> ok (m_bus (m6809_pull_registers io h k s))"
  by (simp_all only: m6809_push_registers_def m6809_pull_registers_def Let_def m6809_assign_bus)
    (intro m6809_push_if_ok m6809_pull_if_ok; simp)+

lemma m6809_address_ok:
  "ok (m_bus s) \<Longrightarrow> ok (m_bus (snd (m6809_indexed_base io p s)))"
  "ok (m_bus s) \<Longrightarrow> ok (m_bus (snd (m6809_indexed_address io s)))"
  "ok (m_bus s) \<Longrightarrow> ok (m_bus (snd (m6809_address_for_mode io mode s)))"
proof -
  show base: "ok (m_bus s) \<Longrightarrow> ok (m_bus (snd (m6809_indexed_base io p s)))" for s p
    by (simp add: m6809_indexed_base_def Let_def case_prod_unfold m6809_access_ok m6809_word_ok)
  show indexed: "ok (m_bus s) \<Longrightarrow> ok (m_bus (snd (m6809_indexed_address io s)))" for s
    by (simp add: m6809_indexed_address_def Let_def case_prod_unfold m6809_access_ok m6809_word_ok base)
  show "ok (m_bus s) \<Longrightarrow> ok (m_bus (snd (m6809_address_for_mode io mode s)))"
    by (cases mode) (simp_all add: m6809_address_for_mode_def Let_def case_prod_unfold m6809_word_ok indexed)
qed

lemma m6809_operand_ok:
  assumes "ok (m_bus s)"
  shows "ok (m_bus (snd (m6809_read_mode_u8 io mode s)))" "ok (m_bus (snd (m6809_read_mode_u16 io mode s)))"
    "ok (m_bus (snd (m6809_write_mode_u8 io mode v s)))" "ok (m_bus (snd (m6809_write_mode_u16 io mode w s)))"
  using assms
  by (simp_all add: m6809_read_mode_u8_def m6809_read_mode_u16_def m6809_write_mode_u8_def
      m6809_write_mode_u16_def case_prod_unfold Let_def m6809_access_ok m6809_word_ok m6809_address_ok)

lemmas m6809_parts_ok = m6809_access_ok m6809_word_ok m6809_stack_ok m6809_s_stack_ok
  m6809_registers_ok m6809_address_ok m6809_operand_ok

lemma m6809_operand8_ok:
  assumes "ok (m_bus s)"
  shows "ok (m_bus (snd (m6809_cmp8_mode io mode b s)))" "ok (m_bus (snd (m6809_bit8_mode io mode b s)))"
    "ok (m_bus (snd (m6809_ld8_mode io mode b s)))" "ok (m_bus (snd (m6809_st8_mode io mode b s)))"
    "ok (m_bus (snd (m6809_test_accumulator io b s)))"
  using assms
  by (simp_all add: m6809_cmp8_mode_def m6809_bit8_mode_def m6809_ld8_mode_def m6809_st8_mode_def
      m6809_test_accumulator_def Let_def case_prod_unfold m6809_parts_ok)

lemma m6809_alu8_ok:
  assumes "ok (m_bus s)" "\<And>l r s. m_bus (snd (operation l r s)) = m_bus s"
  shows "ok (m_bus (snd (m6809_alu8 io mode b operation s)))"
  using assms by (simp add: m6809_alu8_def Let_def case_prod_unfold m6809_parts_ok)

lemma m6809_operand16_ok:
  assumes "ok (m_bus s)"
  shows "ok (m_bus (snd (m6809_subd_mode io mode s)))" "ok (m_bus (snd (m6809_addd_mode io mode s)))"
    "ok (m_bus (snd (m6809_cmpd_mode io mode s)))" "ok (m_bus (snd (m6809_cmpx_mode io mode s)))"
    "ok (m_bus (snd (m6809_ldd_mode io mode s)))" "ok (m_bus (snd (m6809_ldx_mode io mode s)))"
    "ok (m_bus (snd (m6809_ldu_mode io mode s)))" "ok (m_bus (snd (m6809_cmp_register_mode io mode w s)))"
    "ok (m_bus (snd (m6809_xadd16_mode io mode w s)))" "ok (m_bus (snd (m6809_ldy io mode s)))"
    "ok (m_bus (snd (m6809_lds io mode s)))"
  using assms
  by (simp_all add: m6809_subd_mode_def m6809_addd_mode_def m6809_cmpd_mode_def m6809_cmpx_mode_def
      m6809_ldd_mode_def m6809_ldx_mode_def m6809_ldu_mode_def m6809_cmp_register_mode_def
      m6809_xadd16_mode_def m6809_ld_register_mode_def m6809_ldy_def m6809_lds_def Let_def
      case_prod_unfold m6809_parts_ok)

lemma m6809_store_ok:
  assumes "ok (m_bus s)"
  shows "ok (m_bus (snd (m6809_std_mode io mode s)))" "ok (m_bus (snd (m6809_store16 io mode reg c s)))"
proof -
  have xst: "ok (m_bus (m6809_xst16_immediate io w u))" if "ok (m_bus u)" for w u
    using that by (simp add: m6809_xst16_immediate_def Let_def case_prod_unfold m6809_parts_ok)
  show "ok (m_bus (snd (m6809_std_mode io mode s)))" "ok (m_bus (snd (m6809_store16 io mode reg c s)))"
    using assms by (simp_all add: m6809_std_mode_def m6809_store16_def Let_def case_prod_unfold
        m6809_parts_ok xst)
qed

lemma m6809_flow_ok:
  assumes "ok (m_bus s)"
  shows "ok (m_bus (snd (m6809_jsr_mode io mode s)))" "ok (m_bus (snd (m6809_lea io mode r s)))"
    "ok (m_bus (snd (m6809_short_branch io c s)))" "ok (m_bus (snd (m6809_long_branch io c n s)))"
    "ok (m_bus (snd (m6809_short_bsr io s)))" "ok (m_bus (snd (m6809_long_bsr io s)))"
    "ok (m_bus (snd (m6809_push_or_pull io h push s)))" "ok (m_bus (snd (m6809_exg io s)))"
    "ok (m_bus (snd (m6809_tfr io s)))" "ok (m_bus (snd (m6809_x18 io s)))"
    "ok (m_bus (m6809_orcc io s))" "ok (m_bus (m6809_andcc io s))"
    "ok (m_bus (snd (m6809_begin_extended_clear io s)))" "ok (m_bus (m6809_jump_vector io w s))"
    "ok (m_bus (snd (m6809_rti io s)))" "ok (m_bus (m6809_cwai io s))"
  using assms
  by (simp_all add: m6809_jsr_mode_def m6809_lea_def m6809_short_branch_def m6809_long_branch_def
      m6809_short_bsr_def m6809_long_bsr_def m6809_push_or_pull_def m6809_exg_def m6809_tfr_def
      m6809_x18_def m6809_orcc_def m6809_andcc_def m6809_begin_extended_clear_def
      m6809_jump_vector_def m6809_rti_def m6809_cwai_def Let_def case_prod_unfold m6809_parts_ok)

lemma m6809_memory_unary_ok:
  "ok (m_bus s) \<Longrightarrow> ok (m_bus (snd (m6809_memory_unary io mode op n s)))"
  by (cases op) (simp_all add: m6809_memory_unary_def Let_def case_prod_unfold m6809_parts_ok)

lemma m6809_software_interrupt_ok:
  assumes "ok (m_bus s)"
  shows "ok (m_bus (m6809_software_interrupt io w i f e s))"
  using assms by (simp add: m6809_software_interrupt_def Let_def m6809_flow_ok m6809_registers_ok)

lemma m6809_service_ok:
  assumes "ok (m_bus s)"
  shows "ok (m_bus (m6809_service_nmi io s))" "ok (m_bus (m6809_service_firq io s))"
    "ok (m_bus (m6809_service_irq io s))"
proof -
  have "ok (m_bus (m6809_enter_service io e k s))" for e k
    using assms by (simp add: m6809_enter_service_def Let_def m6809_registers_ok)
  then show "ok (m_bus (m6809_service_nmi io s))" "ok (m_bus (m6809_service_firq io s))"
    "ok (m_bus (m6809_service_irq io s))"
    by (simp_all add: m6809_service_nmi_def m6809_service_firq_def m6809_service_irq_def Let_def
        m6809_flow_ok irq_ok firq_ok nmi_ok)
qed

lemmas m6809_instructions_ok = m6809_operand8_ok m6809_alu8_ok m6809_operand16_ok m6809_store_ok
  m6809_flow_ok m6809_memory_unary_ok m6809_software_interrupt_ok

lemma m6809_rows_ok:
  assumes "ok (m_bus s)"
  shows "ok (m_bus (snd (m6809_execute_row1 io opcode s)))" "ok (m_bus (snd (m6809_execute_row3 io opcode s)))"
    "ok (m_bus (snd (m6809_load_store_alu io opcode s)))"
  using assms
  by (simp_all add: m6809_execute_row1_def m6809_execute_row3_def m6809_load_store_alu_def
      m6809_stx_mode_def m6809_stu_mode_def m6809_software_interrupt_defs Let_def case_prod_unfold
      m6809_instructions_ok m6809_parts_ok)

lemma m6809_pages_ok:
  assumes "ok (m_bus s)"
  shows "ok (m_bus (snd (m6809_execute_base io opcode s)))" "ok (m_bus (snd (m6809_execute_page2 io opcode s)))"
    "ok (m_bus (snd (m6809_execute_page3 io opcode s)))"
  using assms
  by (simp_all add: m6809_execute_base_def m6809_execute_page2_def m6809_execute_page3_def
      m6809_st_register_mode_def m6809_software_interrupt_defs Let_def case_prod_unfold
      m6809_rows_ok m6809_instructions_ok m6809_parts_ok)

lemma m6809_execute_one_ok:
  assumes "ok (m_bus s)"
  shows "ok (m_bus (m6809_execute_one io s))"
proof -
  have "ok (m_bus (snd (m6809_dispatch io s)))"
    using assms by (simp add: m6809_dispatch_def Let_def case_prod_unfold m6809_pages_ok m6809_access_ok)
  moreover have "ok (m_bus (snd (m6809_check_interrupts io s)))"
    using assms by (simp add: m6809_check_interrupts_def m6809_service_ok)
  ultimately have "m_pending_extended_clear s = None \<Longrightarrow> ?thesis"
    by (rule_tac m6809_check_cases [of io s])
      (simp_all add: m6809_execute_one_def Let_def case_prod_unfold)
  moreover have "m_pending_extended_clear s = Some a \<Longrightarrow> ?thesis" for a
    using assms by (simp add: m6809_execute_one_def Let_def m6809_access_ok)
  ultimately show ?thesis by (cases "m_pending_extended_clear s") simp_all
qed

text \<open>A round of the loop keeps the invariant, and takes a cycle when it continues the loop.\<close>

lemma m6809_drain_bus_ok:
  assumes "ok (m_bus s)"
  shows "ok (m_bus (m6809_drain_wait io s))"
    "m_cycles_remaining (m6809_drain_wait io s) \<le> m_cycles_remaining s"
    "ok (m_bus (m6809_set_bus_cycle io c s))"
  using assms drain_ok drain_positive cycle_ok
  by (simp_all add: m6809_drain_wait_def m6809_set_bus_cycle_def Let_def case_prod_unfold clock_simps)

lemma m6809_round_ok:
  assumes "ok (m_bus s)"
  shows "ok (m_bus (m6809_sample io s))"
    "ok (m_bus (m6809_first_half io c (m6809_sample io s)))"
    "m_cycles_remaining (m6809_first_half io c (m6809_sample io s)) < m_cycles_remaining s"
proof -
  let ?u = "m6809_sample io s"
  let ?v = "if m_halted ?u \<and> \<not> m_cwai_waiting ?u then ?u\<lparr>m_halted := False\<rparr> else ?u"
  show u: "ok (m_bus ?u)" using assms by (simp add: m6809_sample_def Let_def)
  then have "ok (m_bus (m6809_execute_one io ?v))" by (intro m6809_execute_one_ok) simp
  note w = m6809_drain_bus_ok [OF this]
  show "ok (m_bus (m6809_first_half io c ?u))"
    unfolding m6809_first_half_def Let_def by (rule m6809_drain_bus_ok [OF w(1)])
  have "m_cycles_remaining ?v = m_cycles_remaining s" by (simp add: m6809_sample_effect)
  then have "m_cycles_remaining (m6809_drain_wait io (m6809_execute_one io ?v)) < m_cycles_remaining s"
    using w(2) m6809_execute_one_effect(1,2) [of io ?v] by linarith
  then show "m_cycles_remaining (m6809_first_half io c ?u) < m_cycles_remaining s"
    by (simp only: m6809_first_half_def Let_def m6809_set_cycle_effect)
qed

lemma m6809_second_half_ok:
  assumes "ok (m_bus s)"
  shows "ok (m_bus (m6809_second_half io c s))"
    "m_cycles_remaining (m6809_second_half io c s) \<le> m_cycles_remaining s"
proof -
  have "ok (m_bus (s\<lparr>m_bus := bus_on_instruction_end io (m_bus s)\<rparr>))"
    using instruction_end_ok assms by simp
  note d = m6809_drain_bus_ok [OF this]
  show "ok (m_bus (m6809_second_half io c s))"
    unfolding m6809_second_half_def Let_def by (rule m6809_drain_bus_ok [OF d(1)])
  show "m_cycles_remaining (m6809_second_half io c s) \<le> m_cycles_remaining s"
    using d(2) by (simp add: m6809_second_half_def Let_def m6809_set_cycle_effect)
qed

lemma m6809_run_body_ok:
  assumes "ok (m_bus s)" "m6809_run_body io budget start s = (r, t)"
  shows "ok (m_bus t)" "r = Again \<Longrightarrow> m_cycles_remaining t < m_cycles_remaining s"
proof -
  let ?c = "\<lambda>left. start + word_of_int (budget - left)"
  note half = m6809_round_ok [OF assms(1)] m6809_second_half_ok [OF m6809_round_ok(2) [OF assms(1)]]
  have idle: "ok (m_bus (m6809_set_bus_cycle io d (m6809_sample io s)))" for d
    by (rule m6809_drain_bus_ok [OF half(1)])
  show "ok (m_bus t)"
    using assms(2) half idle unfolding m6809_run_body_halves Let_def by (auto split: if_split_asm)
  show "m_cycles_remaining t < m_cycles_remaining s" if "r = Again"
    using assms(2) that half(3) [of ?c] half(5) [of ?c ?c] unfolding m6809_run_body_halves Let_def
    by (auto split: if_split_asm)
qed

lemma m6809_run_loop_returns:
  assumes "m6809_ctl_ok (m6809_ctl s)" "ok (m_bus s)"
  shows "\<exists>returned t. m6809_run_loop io budget c s = Some (returned, t)
    \<and> m6809_ctl_ok (m6809_ctl t) \<and> ok (m_bus t)
    \<and> (if returned then m6809_idle t
       else m_cycles_remaining t \<le> 0 \<or> m_pending_extended_clear t \<noteq> None
         \<or> bus_reset_pending io (m_bus t) \<or> bus_cpu_should_yield io (m_bus t))"
  using assms
proof (induction "nat (m_cycles_remaining s)" arbitrary: s rule: less_induct)
  case less
  show ?case
  proof (cases "m_cycles_remaining s > 0")
    case False
    then have "m6809_run_loop io budget c s = Some (False, s)" by (subst m6809_run_loop.simps) simp
    with False less.prems show ?thesis by (intro exI [of _ False] exI [of _ s]) simp
  next
    case True
    obtain r t where body: "m6809_run_body io budget c s = (r, t)" by (cases "m6809_run_body io budget c s")
    have t: "m6809_ctl_ok (m6809_ctl t)"
      using m6809_run_body_valid [OF less.prems(1), of io budget c] by (simp add: body)
    note bus = m6809_run_body_ok [OF less.prems(2) body]
    note ends = m6809_run_body_ends [OF body]
    show ?thesis
    proof (cases r)
      case Again
      with True bus(2) have "nat (m_cycles_remaining t) < nat (m_cycles_remaining s)" by simp
      from less.hyps [OF this t bus(1)] Again body True show ?thesis
        by (subst m6809_run_loop.simps) auto
    next
      case Break
      with True body t bus(1) ends show ?thesis by (subst m6809_run_loop.simps) auto
    next
      case Return
      with True body t bus(1) ends show ?thesis by (subst m6809_run_loop.simps) auto
    qed
  qed
qed

lemma m6809_run_for_returns:
  assumes "m6809_ctl_ok (m6809_ctl s)" "ok (m_bus s)"
  shows "\<exists>t. m6809_run_for io cycles s = Some (word_of_int (sint cycles - m_cycles_remaining t), t)
    \<and> m6809_ctl_ok (m6809_ctl t) \<and> ok (m_bus t)"
proof -
  let ?s = "s\<lparr>m_cycles_remaining := sint cycles\<rparr>"
  have "m6809_ctl_ok (m6809_ctl ?s)" "ok (m_bus ?s)" using assms by (simp_all add: frame_simps)
  from m6809_run_loop_returns [OF this, of "sint cycles" "bus_current_cycle io (m_bus s)"]
  show ?thesis by (fastforce simp: m6809_run_for_def Let_def m6809_set_cycle_effect
        intro: m6809_drain_bus_ok)
qed

end

end
