(* ===== verification/Fm7_Memory.thy ===== *)
theory Fm7_Memory
  imports Bus_Interface Bytes Save_Restore
begin

text \<open>
  The memory of the main processor of the FM-7 and FM-77AV: \<open>crates/machine_fm7/src/memory.rs\<close>.
  The FM-7 has a flat map with one bank to switch; the FM-77AV puts the initiator ROM, a
  relocatable window and the paging unit (MMR) in front of it. Arrays and vectors are lists.
  An index outside one is a panic in the code, and \<open>None\<close> here, in every read and write; the
  invariant \<open>fm7_memory_ok\<close> and the lemmas of \<open>Fm7_Memory_Properties\<close> rule it out. ROM images come
  from files and are arguments.
\<close>

section \<open>Constants and state\<close>

datatype fm7_model = Fm7 | Fm77Av

datatype boot_mode = BootBasic | BootDos

definition fm7_has_boot_ram :: "fm7_model \<Rightarrow> bool" where
  "fm7_has_boot_ram model = (case model of Fm7 \<Rightarrow> False | Fm77Av \<Rightarrow> True)"

definition LOWER_RAM_SIZE :: nat where "LOWER_RAM_SIZE = 0x8000"
definition UPPER_RAM_SIZE :: nat where "UPPER_RAM_SIZE = 0x7C00"
definition BASIC_ROM_WINDOW_SIZE :: nat where "BASIC_ROM_WINDOW_SIZE = 0x7C00"
definition BIOS_WORK_SIZE :: nat where "BIOS_WORK_SIZE = 0x80"
definition BOOT_ROM_SIZE :: nat where "BOOT_ROM_SIZE = 0x200"
definition VECTOR_RAM_SIZE :: nat where "VECTOR_RAM_SIZE = 0x1E"
definition AV_RAM_PAGE0_SIZE :: nat where "AV_RAM_PAGE0_SIZE = 0x10000"
definition INITIATOR_ROM_SIZE :: nat where "INITIATOR_ROM_SIZE = 0x2000"
definition BOOT_RAM_SIZE :: nat where "BOOT_RAM_SIZE = 0x200"
definition MMR_PAGE_REGISTER_COUNT :: nat where "MMR_PAGE_REGISTER_COUNT = 64"
definition BOOT_RAM_SEED_LENGTH :: nat where "BOOT_RAM_SEED_LENGTH = 0x1E0"
definition BOOT_RAM_RESET_VECTOR_OFFSET :: nat where "BOOT_RAM_RESET_VECTOR_OFFSET = 0x1FE"
definition INITIATOR_RESET_VECTOR_OFFSET :: nat where "INITIATOR_RESET_VECTOR_OFFSET = 0x1FFE"
definition WINDOW_OFFSET_STRIDE :: nat where "WINDOW_OFFSET_STRIDE = 256"
definition PAGE_SIZE :: nat where "PAGE_SIZE = 0x1000"
definition MMR_BANK_MASK :: u8 where "MMR_BANK_MASK = 0x3F"
definition MMR_SEGMENT_MASK :: u8 where "MMR_SEGMENT_MASK = 0x03"
definition CONTROL_MMR_ENABLE :: u8 where "CONTROL_MMR_ENABLE = 0x80"
definition CONTROL_WINDOW_ENABLE :: u8 where "CONTROL_WINDOW_ENABLE = 0x40"
definition CONTROL_BOOT_RAM_WRITE :: u8 where "CONTROL_BOOT_RAM_WRITE = 0x01"
definition FM7_OPEN_BUS :: u8 where "FM7_OPEN_BUS = 0xFF"

definition FM7_RESET_VECTOR :: "u8 list" where "FM7_RESET_VECTOR = [0xFE, 0x00]"

lemmas fm7_sizes = LOWER_RAM_SIZE_def UPPER_RAM_SIZE_def BASIC_ROM_WINDOW_SIZE_def
  BIOS_WORK_SIZE_def BOOT_ROM_SIZE_def VECTOR_RAM_SIZE_def AV_RAM_PAGE0_SIZE_def
  INITIATOR_ROM_SIZE_def BOOT_RAM_SIZE_def MMR_PAGE_REGISTER_COUNT_def BOOT_RAM_SEED_LENGTH_def
  BOOT_RAM_RESET_VECTOR_OFFSET_def INITIATOR_RESET_VECTOR_OFFSET_def WINDOW_OFFSET_STRIDE_def
  PAGE_SIZE_def

text \<open>\<open>Fm7MemoryState\<close>: what a save state holds; \<open>Fm7Memory\<close> adds the model and the ROMs.\<close>

record fm7_memory_state =
  f7_lower_ram :: "u8 list"
  f7_upper_ram :: "u8 list"
  f7_bios_work :: "u8 list"
  f7_vector_ram :: "u8 list"
  f7_basic_rom_mapped :: bool
  f7_av_ram_page0 :: "u8 list"
  f7_boot_ram :: "u8 list"
  f7_mmr_page_registers :: "u8 list"
  f7_mmr_current_segment :: u8
  f7_mmr_window_offset :: u8
  f7_mmr_enabled :: bool
  f7_window_enabled :: bool
  f7_boot_ram_write :: bool
  f7_initiator_enabled :: bool

record fm7_memory = fm7_memory_state +
  f7_model :: fm7_model
  f7_basic_rom :: "u8 list"
  f7_boot_rom :: "u8 list"
  f7_reset_vector :: "u8 list"
  f7_initiator_rom :: "u8 list"

section \<open>Creation\<close>

definition fm7_basic_rom_mapped_at_reset :: "boot_mode \<Rightarrow> bool" where
  "fm7_basic_rom_mapped_at_reset mode = (case mode of BootBasic \<Rightarrow> True | BootDos \<Rightarrow> False)"

definition fm7_copy_prefix :: "u8 list \<Rightarrow> u8 list \<Rightarrow> u8 list" where
  "fm7_copy_prefix source dest =
     (let len = min (length source) (length dest) in take len source @ drop len dest)"

definition fm7_memory_empty :: "fm7_model \<Rightarrow> boot_mode \<Rightarrow> fm7_memory" where
  "fm7_memory_empty model mode =
     (let has_av = fm7_has_boot_ram model in
      \<lparr> f7_lower_ram = replicate LOWER_RAM_SIZE 0, f7_upper_ram = replicate UPPER_RAM_SIZE 0,
        f7_bios_work = replicate BIOS_WORK_SIZE 0, f7_vector_ram = replicate VECTOR_RAM_SIZE 0,
        f7_basic_rom_mapped = fm7_basic_rom_mapped_at_reset mode,
        f7_av_ram_page0 = (if has_av then replicate AV_RAM_PAGE0_SIZE 0 else []),
        f7_boot_ram = replicate BOOT_RAM_SIZE 0,
        f7_mmr_page_registers = replicate MMR_PAGE_REGISTER_COUNT 0,
        f7_mmr_current_segment = 0, f7_mmr_window_offset = 0, f7_mmr_enabled = False,
        f7_window_enabled = False, f7_boot_ram_write = True, f7_initiator_enabled = has_av,
        f7_model = model, f7_basic_rom = replicate BASIC_ROM_WINDOW_SIZE 0,
        f7_boot_rom = replicate BOOT_ROM_SIZE 0, f7_reset_vector = FM7_RESET_VECTOR,
        f7_initiator_rom = (if has_av then replicate INITIATOR_ROM_SIZE 0 else []) \<rparr>)"

text \<open>The ROM images that the loader found (\<open>LoadedRoms\<close>), as far as the memory uses them.\<close>

record fm7_roms =
  roms_model :: fm7_model
  roms_fbasic :: "u8 list"
  roms_boot_bas :: "u8 list option"
  roms_boot_dos :: "u8 list option"
  roms_initiate :: "u8 list option"

definition fm7_seed_boot_ram :: "boot_mode \<Rightarrow> fm7_memory \<Rightarrow> fm7_memory" where
  "fm7_seed_boot_ram mode m =
     (let source_offset = (case mode of BootBasic \<Rightarrow> 0x1800 | BootDos \<Rightarrow> 0x1A00);
          stop = source_offset + BOOT_RAM_SEED_LENGTH;
          m = (if stop \<le> length (f7_initiator_rom m)
               then m\<lparr>f7_boot_ram :=
                        take BOOT_RAM_SEED_LENGTH (drop source_offset (f7_initiator_rom m))
                        @ drop BOOT_RAM_SEED_LENGTH (f7_boot_ram m)\<rparr>
               else m)
      in m\<lparr>f7_boot_ram := (f7_boot_ram m)
             [BOOT_RAM_RESET_VECTOR_OFFSET := FM7_RESET_VECTOR ! 0,
              BOOT_RAM_RESET_VECTOR_OFFSET + 1 := FM7_RESET_VECTOR ! 1]\<rparr>)"

definition fm7_memory_new :: "fm7_roms \<Rightarrow> boot_mode \<Rightarrow> fm7_memory" where
  "fm7_memory_new roms mode =
     (let m = fm7_memory_empty (roms_model roms) mode;
          m = m\<lparr>f7_basic_rom := fm7_copy_prefix (roms_fbasic roms) (f7_basic_rom m)\<rparr>
      in case roms_model roms of
           Fm7 \<Rightarrow>
             (case (case mode of BootBasic \<Rightarrow> roms_boot_bas roms | BootDos \<Rightarrow> roms_boot_dos roms) of
                Some boot_image \<Rightarrow> m\<lparr>f7_boot_rom := fm7_copy_prefix boot_image (f7_boot_rom m)\<rparr>
              | None \<Rightarrow> m)
         | Fm77Av \<Rightarrow>
             (case roms_initiate roms of
                Some initiator \<Rightarrow>
                  fm7_seed_boot_ram mode
                    (m\<lparr>f7_initiator_rom := fm7_copy_prefix initiator (f7_initiator_rom m)\<rparr>)
              | None \<Rightarrow> m))"

section \<open>Capture and restore\<close>

definition fm7_memory_capture_state :: "fm7_memory \<Rightarrow> fm7_memory_state" where
  "fm7_memory_capture_state m = fm7_memory_state.truncate m"

definition fm7_memory_validate ::
  "fm7_model \<Rightarrow> fm7_memory_state \<Rightarrow> validation_error + unit" where
  "fm7_memory_validate model st =
     (let expected_av_ram = (if fm7_has_boot_ram model then AV_RAM_PAGE0_SIZE else 0) in
      if length (f7_lower_ram st) \<noteq> LOWER_RAM_SIZE \<or> length (f7_upper_ram st) \<noteq> UPPER_RAM_SIZE
         \<or> length (f7_av_ram_page0 st) \<noteq> expected_av_ram
         \<or> f7_mmr_current_segment st AND NOT MMR_SEGMENT_MASK \<noteq> 0
      then Inl ''FM-7 memory state is invalid'' else Inr ())"

definition fm7_memory_restore_state ::
  "fm7_memory_state \<Rightarrow> fm7_memory \<Rightarrow> (validation_error + unit) \<times> fm7_memory" where
  "fm7_memory_restore_state st m =
     (case fm7_memory_validate (f7_model m) st of
        Inl e \<Rightarrow> (Inl e, m)
      | Inr _ \<Rightarrow> (Inr (), fm7_memory_state.extend st (fm7_memory_state.more m)))"

section \<open>The flat map of the FM-7\<close>

definition fm7_flat_read :: "fm7_memory \<Rightarrow> u16 \<Rightarrow> u8 option" where
  "fm7_flat_read m address =
     (if address \<le> 0x7FFF then list_get (f7_lower_ram m) (unat address)
      else if address \<le> 0xFBFF then
        (let index = unat (address - 0x8000)
         in if f7_basic_rom_mapped m then list_get (f7_basic_rom m) index
            else list_get (f7_upper_ram m) index)
      else if address \<le> 0xFC7F then list_get (f7_bios_work m) (unat (address - 0xFC00))
      else if address \<le> 0xFDFF then Some FM7_OPEN_BUS
      else if address \<le> 0xFFDF then list_get (f7_boot_rom m) (unat (address - 0xFE00))
      else if address \<le> 0xFFFD then list_get (f7_vector_ram m) (unat (address - 0xFFE0))
      else list_get (f7_reset_vector m) (unat (address - 0xFFFE)))"

definition fm7_flat_write :: "u16 \<Rightarrow> u8 \<Rightarrow> fm7_memory \<Rightarrow> fm7_memory option" where
  "fm7_flat_write address value m =
     (if address \<le> 0x7FFF then map_option (\<lambda>ram. m\<lparr>f7_lower_ram := ram\<rparr>)
                (list_put (f7_lower_ram m) (unat address) value)
      else if address \<le> 0xFBFF then
        (if \<not> f7_basic_rom_mapped m
         then map_option (\<lambda>ram. m\<lparr>f7_upper_ram := ram\<rparr>)
                    (list_put (f7_upper_ram m) (unat (address - 0x8000)) value)
      else Some m)
      else if address \<le> 0xFC7F
      then map_option (\<lambda>ram. m\<lparr>f7_bios_work := ram\<rparr>)
                 (list_put (f7_bios_work m) (unat (address - 0xFC00)) value)
      else if address \<le> 0xFFDF then Some m
      else if address \<le> 0xFFFD
      then map_option (\<lambda>ram. m\<lparr>f7_vector_ram := ram\<rparr>)
                 (list_put (f7_vector_ram m) (unat (address - 0xFFE0)) value)
      else Some m)"

section \<open>The translation of the FM-77AV\<close>

definition fm7_in_initiator :: "u16 \<Rightarrow> bool" where
  "fm7_in_initiator address \<longleftrightarrow> 0x6000 \<le> address \<and> address \<le> 0x7FFF \<or> 0xFFFE \<le> address"

definition fm7_in_window :: "u16 \<Rightarrow> bool" where
  "fm7_in_window address \<longleftrightarrow> 0x7C00 \<le> address \<and> address \<le> 0x7FFF"

definition fm7_window_physical_address :: "fm7_memory \<Rightarrow> u16 \<Rightarrow> nat" where
  "fm7_window_physical_address m address =
     (unat (f7_mmr_window_offset m) * WINDOW_OFFSET_STRIDE + unat address) AND (AV_RAM_PAGE0_SIZE - 1)"

definition fm7_mmr_translate :: "fm7_memory \<Rightarrow> u16 \<Rightarrow> (u8 \<times> u16) option" where
  "fm7_mmr_translate m address =
     (let block = unat (drop_bit 12 address);
          index = push_bit 4 (unat (f7_mmr_current_segment m)) OR block
      in map_option (\<lambda>register. (register AND MMR_BANK_MASK, address AND 0x0FFF))
           (list_get (f7_mmr_page_registers m) index))"

definition fm7_compatible_image_address :: "u8 \<Rightarrow> u16 \<Rightarrow> u16" where
  "fm7_compatible_image_address bank offset = push_bit 12 (ucast (bank AND 0x0F)) OR offset"

text \<open>The outer option is the panic, the inner one the result of the function.\<close>

definition fm7_direct_vram_target :: "fm7_memory \<Rightarrow> u16 \<Rightarrow> u16 option option" where
  "fm7_direct_vram_target m address =
     (if f7_initiator_enabled m \<and> fm7_in_initiator address then Some None
      else if f7_window_enabled m \<and> fm7_in_window address then Some None
      else if f7_mmr_enabled m \<and> address < 0xFC00 then
        map_option (\<lambda>(bank, offset).
            if 0x10 \<le> bank \<and> bank \<le> 0x1F
            then Some (push_bit 12 (ucast (bank AND 0x0F)) OR offset) else None)
          (fm7_mmr_translate m address)
      else Some None)"

definition fm7_av_normal_read :: "fm7_memory \<Rightarrow> u16 \<Rightarrow> u8 option" where
  "fm7_av_normal_read m address =
     (if address \<le> 0x7FFF then list_get (f7_lower_ram m) (unat address)
      else if address \<le> 0xFBFF then
        (let index = unat (address - 0x8000)
         in if f7_basic_rom_mapped m then list_get (f7_basic_rom m) index
            else list_get (f7_upper_ram m) index)
      else if address \<le> 0xFC7F then list_get (f7_bios_work m) (unat (address - 0xFC00))
      else if address \<le> 0xFDFF then Some FM7_OPEN_BUS
      else if address \<le> 0xFFDF then list_get (f7_boot_ram m) (unat (address - 0xFE00))
      else if address \<le> 0xFFFD then list_get (f7_vector_ram m) (unat (address - 0xFFE0))
      else list_get (f7_boot_ram m) (unat (address - 0xFE00)))"

definition fm7_write_boot_ram :: "u16 \<Rightarrow> u8 \<Rightarrow> fm7_memory \<Rightarrow> fm7_memory option" where
  "fm7_write_boot_ram address value m =
     (if f7_boot_ram_write m
      then map_option (\<lambda>ram. m\<lparr>f7_boot_ram := ram\<rparr>)
                 (list_put (f7_boot_ram m) (unat (address - 0xFE00)) value)
      else Some m)"

definition fm7_av_normal_write :: "u16 \<Rightarrow> u8 \<Rightarrow> fm7_memory \<Rightarrow> fm7_memory option" where
  "fm7_av_normal_write address value m =
     (if address \<le> 0x7FFF then map_option (\<lambda>ram. m\<lparr>f7_lower_ram := ram\<rparr>)
                (list_put (f7_lower_ram m) (unat address) value)
      else if address \<le> 0xFBFF then
        (if \<not> f7_basic_rom_mapped m
         then map_option (\<lambda>ram. m\<lparr>f7_upper_ram := ram\<rparr>)
                    (list_put (f7_upper_ram m) (unat (address - 0x8000)) value)
      else Some m)
      else if address \<le> 0xFC7F
      then map_option (\<lambda>ram. m\<lparr>f7_bios_work := ram\<rparr>)
                 (list_put (f7_bios_work m) (unat (address - 0xFC00)) value)
      else if address \<le> 0xFDFF then Some m
      else if address \<le> 0xFFDF then fm7_write_boot_ram address value m
      else if address \<le> 0xFFFD
      then map_option (\<lambda>ram. m\<lparr>f7_vector_ram := ram\<rparr>)
                 (list_put (f7_vector_ram m) (unat (address - 0xFFE0)) value)
      else fm7_write_boot_ram address value m)"

definition fm7_read_physical_bank :: "fm7_memory \<Rightarrow> u8 \<Rightarrow> u16 \<Rightarrow> u8 option" where
  "fm7_read_physical_bank m bank offset =
     (if bank \<le> 0x0F then list_get (f7_av_ram_page0 m) (unat bank * PAGE_SIZE + unat offset)
      else if bank \<le> 0x2F then Some FM7_OPEN_BUS
      else fm7_av_normal_read m (fm7_compatible_image_address bank offset))"

definition fm7_write_physical_bank :: "u8 \<Rightarrow> u16 \<Rightarrow> u8 \<Rightarrow> fm7_memory \<Rightarrow> fm7_memory option" where
  "fm7_write_physical_bank bank offset value m =
     (if bank \<le> 0x0F then
        map_option (\<lambda>ram. m\<lparr>f7_av_ram_page0 := ram\<rparr>)
                   (list_put (f7_av_ram_page0 m) (unat bank * PAGE_SIZE + unat offset) value)
      else if bank \<le> 0x2F then Some m
      else fm7_av_normal_write (fm7_compatible_image_address bank offset) value m)"

definition fm7_av_read :: "fm7_memory \<Rightarrow> u16 \<Rightarrow> u8 option" where
  "fm7_av_read m address =
     (if f7_initiator_enabled m \<and> 0x6000 \<le> address \<and> address \<le> 0x7FFF then
        list_get (f7_initiator_rom m) (unat (address - 0x6000))
      else if f7_initiator_enabled m \<and> 0xFFFE \<le> address then
        list_get (f7_initiator_rom m) (INITIATOR_RESET_VECTOR_OFFSET + unat (address - 0xFFFE))
      else if f7_window_enabled m \<and> fm7_in_window address then
        list_get (f7_av_ram_page0 m) (fm7_window_physical_address m address)
      else if f7_mmr_enabled m \<and> address < 0xFC00 then
        Option.bind (fm7_mmr_translate m address) (\<lambda>(bank, offset). fm7_read_physical_bank m bank offset)
      else fm7_av_normal_read m address)"

definition fm7_av_write :: "u16 \<Rightarrow> u8 \<Rightarrow> fm7_memory \<Rightarrow> fm7_memory option" where
  "fm7_av_write address value m =
     (if f7_initiator_enabled m \<and> fm7_in_initiator address then Some m
      else if f7_window_enabled m \<and> fm7_in_window address then
        map_option (\<lambda>ram. m\<lparr>f7_av_ram_page0 := ram\<rparr>)
                   (list_put (f7_av_ram_page0 m) (fm7_window_physical_address m address) value)
      else if f7_mmr_enabled m \<and> address < 0xFC00 then
        Option.bind (fm7_mmr_translate m address)
          (\<lambda>(bank, offset). fm7_write_physical_bank bank offset value m)
      else fm7_av_normal_write address value m)"

definition fm7_memory_read :: "fm7_memory \<Rightarrow> u16 \<Rightarrow> u8 option" where
  "fm7_memory_read m address =
     (case f7_model m of Fm7 \<Rightarrow> fm7_flat_read m address | Fm77Av \<Rightarrow> fm7_av_read m address)"

definition fm7_memory_write :: "u16 \<Rightarrow> u8 \<Rightarrow> fm7_memory \<Rightarrow> fm7_memory option" where
  "fm7_memory_write address value m =
     (case f7_model m of Fm7 \<Rightarrow> fm7_flat_write address value m
      | Fm77Av \<Rightarrow> fm7_av_write address value m)"

section \<open>Banking registers\<close>

definition fm7_map_rom :: "fm7_memory \<Rightarrow> fm7_memory" where
  "fm7_map_rom m = m\<lparr>f7_basic_rom_mapped := True\<rparr>"

definition fm7_map_ram :: "fm7_memory \<Rightarrow> fm7_memory" where
  "fm7_map_ram m = m\<lparr>f7_basic_rom_mapped := False\<rparr>"

definition fm7_set_initiator_enabled :: "bool \<Rightarrow> fm7_memory \<Rightarrow> fm7_memory" where
  "fm7_set_initiator_enabled enabled m = m\<lparr>f7_initiator_enabled := enabled\<rparr>"

definition fm7_write_mmr_page_register :: "u8 \<Rightarrow> u8 \<Rightarrow> fm7_memory \<Rightarrow> fm7_memory option" where
  "fm7_write_mmr_page_register block_index value m =
     (let index = push_bit 4 (unat (f7_mmr_current_segment m)) OR unat (block_index AND 0x0F)
      in map_option (\<lambda>registers. m\<lparr>f7_mmr_page_registers := registers\<rparr>)
           (list_put (f7_mmr_page_registers m) index value))"

definition fm7_read_mmr_page_register :: "fm7_memory \<Rightarrow> u8 \<Rightarrow> u8 option" where
  "fm7_read_mmr_page_register m block_index =
     (let index = push_bit 4 (unat (f7_mmr_current_segment m)) OR unat (block_index AND 0x0F)
      in list_get (f7_mmr_page_registers m) index)"

definition fm7_set_mmr_segment :: "u8 \<Rightarrow> fm7_memory \<Rightarrow> fm7_memory" where
  "fm7_set_mmr_segment value m = m\<lparr>f7_mmr_current_segment := value AND MMR_SEGMENT_MASK\<rparr>"

definition fm7_set_mmr_window_offset :: "u8 \<Rightarrow> fm7_memory \<Rightarrow> fm7_memory" where
  "fm7_set_mmr_window_offset value m = m\<lparr>f7_mmr_window_offset := value\<rparr>"

definition fm7_write_mmr_control :: "u8 \<Rightarrow> fm7_memory \<Rightarrow> fm7_memory" where
  "fm7_write_mmr_control value m =
     m\<lparr>f7_mmr_enabled := (value AND CONTROL_MMR_ENABLE \<noteq> 0),
       f7_window_enabled := (value AND CONTROL_WINDOW_ENABLE \<noteq> 0),
       f7_boot_ram_write := (value AND CONTROL_BOOT_RAM_WRITE \<noteq> 0)\<rparr>"

definition fm7_read_mmr_control :: "fm7_memory \<Rightarrow> u8" where
  "fm7_read_mmr_control m =
     (if f7_mmr_enabled m then CONTROL_MMR_ENABLE else 0)
     OR (if f7_window_enabled m then CONTROL_WINDOW_ENABLE else 0)
     OR (if f7_boot_ram_write m then CONTROL_BOOT_RAM_WRITE else 0)"

definition fm7_mmr_translation_active :: "fm7_memory \<Rightarrow> bool" where
  "fm7_mmr_translation_active m \<longleftrightarrow> f7_mmr_enabled m \<or> f7_window_enabled m"

end
