(* ===== verification/Fm7_Memory_Properties.thy ===== *)
theory Fm7_Memory_Properties
  imports Fm7_Memory
begin

text \<open>
  What the FM-7 memory promises. An address resolves to one cell of one array, a ROM cell or
  nothing (\<open>fm7_locate\<close>), and reads and writes are exactly a look at and an update of
  that cell, and panic when it is outside its array; every index is inside on the states that the
  machine builds, keeps and accepts from a save state. The paging unit, the window and the boot sequence are read off
  from there.
\<close>

section \<open>Cells\<close>

datatype fm7_cell =
  LowerRam nat | UpperRam nat | BiosWork nat | VectorRam nat | Page0 nat | BootRam nat
  | BasicRom nat | BootRom nat | ResetVector nat | InitiatorRom nat | OpenBus

definition fm7_cell_ok :: "fm7_memory \<Rightarrow> fm7_cell \<Rightarrow> bool" where
  "fm7_cell_ok m c =
     (case c of LowerRam i \<Rightarrow> i < length (f7_lower_ram m) | UpperRam i \<Rightarrow> i < length (f7_upper_ram m)
      | BiosWork i \<Rightarrow> i < length (f7_bios_work m) | VectorRam i \<Rightarrow> i < length (f7_vector_ram m)
      | Page0 i \<Rightarrow> i < length (f7_av_ram_page0 m) | BootRam i \<Rightarrow> i < length (f7_boot_ram m)
      | BasicRom i \<Rightarrow> i < length (f7_basic_rom m) | BootRom i \<Rightarrow> i < length (f7_boot_rom m)
      | ResetVector i \<Rightarrow> i < length (f7_reset_vector m)
      | InitiatorRom i \<Rightarrow> i < length (f7_initiator_rom m) | OpenBus \<Rightarrow> True)"

definition fm7_content :: "fm7_memory \<Rightarrow> fm7_cell \<Rightarrow> u8" where
  "fm7_content m c =
     (case c of LowerRam i \<Rightarrow> f7_lower_ram m ! i | UpperRam i \<Rightarrow> f7_upper_ram m ! i
      | BiosWork i \<Rightarrow> f7_bios_work m ! i | VectorRam i \<Rightarrow> f7_vector_ram m ! i
      | Page0 i \<Rightarrow> f7_av_ram_page0 m ! i | BootRam i \<Rightarrow> f7_boot_ram m ! i
      | BasicRom i \<Rightarrow> f7_basic_rom m ! i | BootRom i \<Rightarrow> f7_boot_rom m ! i
      | ResetVector i \<Rightarrow> f7_reset_vector m ! i | InitiatorRom i \<Rightarrow> f7_initiator_rom m ! i
      | OpenBus \<Rightarrow> FM7_OPEN_BUS)"

definition fm7_store :: "fm7_cell \<Rightarrow> u8 \<Rightarrow> fm7_memory \<Rightarrow> fm7_memory" where
  "fm7_store c v m =
     (case c of LowerRam i \<Rightarrow> m\<lparr>f7_lower_ram := (f7_lower_ram m)[i := v]\<rparr>
      | UpperRam i \<Rightarrow> m\<lparr>f7_upper_ram := (f7_upper_ram m)[i := v]\<rparr>
      | BiosWork i \<Rightarrow> m\<lparr>f7_bios_work := (f7_bios_work m)[i := v]\<rparr>
      | VectorRam i \<Rightarrow> m\<lparr>f7_vector_ram := (f7_vector_ram m)[i := v]\<rparr>
      | Page0 i \<Rightarrow> m\<lparr>f7_av_ram_page0 := (f7_av_ram_page0 m)[i := v]\<rparr>
      | BootRam i \<Rightarrow> (if f7_boot_ram_write m then m\<lparr>f7_boot_ram := (f7_boot_ram m)[i := v]\<rparr> else m)
      | _ \<Rightarrow> m)"

definition fm7_writable :: "fm7_memory \<Rightarrow> fm7_cell \<Rightarrow> bool" where
  "fm7_writable m c \<longleftrightarrow>
     (case c of LowerRam i \<Rightarrow> True | UpperRam i \<Rightarrow> True | BiosWork i \<Rightarrow> True | VectorRam i \<Rightarrow> True
      | Page0 i \<Rightarrow> True | BootRam i \<Rightarrow> f7_boot_ram_write m | _ \<Rightarrow> False)"

text \<open>The cell of an address in the flat map, and the one that the FM-77AV translates to.\<close>

definition fm7_image_cell :: "fm7_memory \<Rightarrow> u16 \<Rightarrow> fm7_cell" where
  "fm7_image_cell m a =
     (if a \<le> 0x7FFF then LowerRam (unat a)
      else if a \<le> 0xFBFF then
        (if f7_basic_rom_mapped m then BasicRom (unat (a - 0x8000)) else UpperRam (unat (a - 0x8000)))
      else if a \<le> 0xFC7F then BiosWork (unat (a - 0xFC00))
      else if a \<le> 0xFDFF then OpenBus
      else if a \<le> 0xFFDF then
        (case f7_model m of Fm7 \<Rightarrow> BootRom (unat (a - 0xFE00)) | Fm77Av \<Rightarrow> BootRam (unat (a - 0xFE00)))
      else if a \<le> 0xFFFD then VectorRam (unat (a - 0xFFE0))
      else (case f7_model m of Fm7 \<Rightarrow> ResetVector (unat (a - 0xFFFE))
        | Fm77Av \<Rightarrow> BootRam (unat (a - 0xFE00))))"

definition fm7_bank_cell :: "fm7_memory \<Rightarrow> u8 \<Rightarrow> u16 \<Rightarrow> fm7_cell" where
  "fm7_bank_cell m bank offset =
     (if bank \<le> 0x0F then Page0 (unat bank * PAGE_SIZE + unat offset)
      else if bank \<le> 0x2F then OpenBus
      else fm7_image_cell m (fm7_compatible_image_address bank offset))"

text \<open>The bank and the offset that the page register of a block names.\<close>

definition fm7_page_index :: "fm7_memory \<Rightarrow> u16 \<Rightarrow> nat" where
  "fm7_page_index m a = push_bit 4 (unat (f7_mmr_current_segment m)) OR unat (drop_bit 12 a)"

definition fm7_page :: "fm7_memory \<Rightarrow> u16 \<Rightarrow> u8 \<times> u16" where
  "fm7_page m a = ((f7_mmr_page_registers m ! fm7_page_index m a) AND MMR_BANK_MASK, a AND 0x0FFF)"

definition fm7_locate :: "fm7_memory \<Rightarrow> u16 \<Rightarrow> fm7_cell" where
  "fm7_locate m a =
     (if f7_model m = Fm7 then fm7_image_cell m a
      else if f7_initiator_enabled m \<and> 0x6000 \<le> a \<and> a \<le> 0x7FFF then InitiatorRom (unat (a - 0x6000))
      else if f7_initiator_enabled m \<and> 0xFFFE \<le> a
      then InitiatorRom (INITIATOR_RESET_VECTOR_OFFSET + unat (a - 0xFFFE))
      else if f7_window_enabled m \<and> fm7_in_window a then Page0 (fm7_window_physical_address m a)
      else if f7_mmr_enabled m \<and> a < 0xFC00
      then fm7_bank_cell m (fst (fm7_page m a)) (snd (fm7_page m a))
      else fm7_image_cell m a)"

lemma fm7_content_simps [simp]:
  "fm7_content m (LowerRam i) = f7_lower_ram m ! i" "fm7_content m (UpperRam i) = f7_upper_ram m ! i"
  "fm7_content m (BiosWork i) = f7_bios_work m ! i" "fm7_content m (VectorRam i) = f7_vector_ram m ! i"
  "fm7_content m (Page0 i) = f7_av_ram_page0 m ! i" "fm7_content m (BootRam i) = f7_boot_ram m ! i"
  "fm7_content m (BasicRom i) = f7_basic_rom m ! i" "fm7_content m (BootRom i) = f7_boot_rom m ! i"
  "fm7_content m (ResetVector i) = f7_reset_vector m ! i"
  "fm7_content m (InitiatorRom i) = f7_initiator_rom m ! i" "fm7_content m OpenBus = FM7_OPEN_BUS"
  by (simp_all add: fm7_content_def)

lemma fm7_store_simps [simp]:
  "fm7_store (LowerRam i) v m = m\<lparr>f7_lower_ram := (f7_lower_ram m)[i := v]\<rparr>"
  "fm7_store (UpperRam i) v m = m\<lparr>f7_upper_ram := (f7_upper_ram m)[i := v]\<rparr>"
  "fm7_store (BiosWork i) v m = m\<lparr>f7_bios_work := (f7_bios_work m)[i := v]\<rparr>"
  "fm7_store (VectorRam i) v m = m\<lparr>f7_vector_ram := (f7_vector_ram m)[i := v]\<rparr>"
  "fm7_store (Page0 i) v m = m\<lparr>f7_av_ram_page0 := (f7_av_ram_page0 m)[i := v]\<rparr>"
  "fm7_store (BootRam i) v m =
     (if f7_boot_ram_write m then m\<lparr>f7_boot_ram := (f7_boot_ram m)[i := v]\<rparr> else m)"
  "fm7_store (BasicRom i) v m = m" "fm7_store (BootRom i) v m = m" "fm7_store (ResetVector i) v m = m"
  "fm7_store (InitiatorRom i) v m = m" "fm7_store OpenBus v m = m"
  by (simp_all add: fm7_store_def)

section \<open>Reads and writes are a look at and an update of the cell\<close>

text \<open>A look at a cell and an update of one, with the panic outside the arrays.\<close>

definition fm7_peek :: "fm7_memory \<Rightarrow> fm7_cell \<Rightarrow> u8 option" where
  "fm7_peek m c = (if fm7_cell_ok m c then Some (fm7_content m c) else None)"

definition fm7_poke :: "fm7_cell \<Rightarrow> u8 \<Rightarrow> fm7_memory \<Rightarrow> fm7_memory option" where
  "fm7_poke c v m = (if fm7_cell_ok m c \<or> \<not> fm7_writable m c then Some (fm7_store c v m) else None)"

lemma fm7_peek_simps [simp]:
  "fm7_peek m (LowerRam i) = list_get (f7_lower_ram m) i"
  "fm7_peek m (UpperRam i) = list_get (f7_upper_ram m) i"
  "fm7_peek m (BiosWork i) = list_get (f7_bios_work m) i"
  "fm7_peek m (VectorRam i) = list_get (f7_vector_ram m) i"
  "fm7_peek m (Page0 i) = list_get (f7_av_ram_page0 m) i"
  "fm7_peek m (BootRam i) = list_get (f7_boot_ram m) i"
  "fm7_peek m (BasicRom i) = list_get (f7_basic_rom m) i"
  "fm7_peek m (BootRom i) = list_get (f7_boot_rom m) i"
  "fm7_peek m (ResetVector i) = list_get (f7_reset_vector m) i"
  "fm7_peek m (InitiatorRom i) = list_get (f7_initiator_rom m) i"
  "fm7_peek m OpenBus = Some FM7_OPEN_BUS"
  by (simp_all add: fm7_peek_def fm7_cell_ok_def list_get_def)

lemma fm7_poke_simps [simp]:
  "fm7_poke (LowerRam i) v m = map_option (\<lambda>ram. m\<lparr>f7_lower_ram := ram\<rparr>) (list_put (f7_lower_ram m) i v)"
  "fm7_poke (UpperRam i) v m = map_option (\<lambda>ram. m\<lparr>f7_upper_ram := ram\<rparr>) (list_put (f7_upper_ram m) i v)"
  "fm7_poke (BiosWork i) v m = map_option (\<lambda>ram. m\<lparr>f7_bios_work := ram\<rparr>) (list_put (f7_bios_work m) i v)"
  "fm7_poke (VectorRam i) v m = map_option (\<lambda>ram. m\<lparr>f7_vector_ram := ram\<rparr>) (list_put (f7_vector_ram m) i v)"
  "fm7_poke (Page0 i) v m = map_option (\<lambda>ram. m\<lparr>f7_av_ram_page0 := ram\<rparr>) (list_put (f7_av_ram_page0 m) i v)"
  "fm7_poke (BootRam i) v m =
     (if f7_boot_ram_write m then map_option (\<lambda>ram. m\<lparr>f7_boot_ram := ram\<rparr>) (list_put (f7_boot_ram m) i v)
      else Some m)"
  "fm7_poke (BasicRom i) v m = Some m" "fm7_poke (BootRom i) v m = Some m"
  "fm7_poke (ResetVector i) v m = Some m" "fm7_poke (InitiatorRom i) v m = Some m"
  "fm7_poke OpenBus v m = Some m"
  by (simp_all add: fm7_poke_def fm7_cell_ok_def fm7_writable_def list_put_def)

lemma fm7_flat_cell:
  assumes "f7_model m = Fm7"
  shows "fm7_flat_read m a = fm7_peek m (fm7_image_cell m a)"
    "fm7_flat_write a v m = fm7_poke (fm7_image_cell m a) v m"
  using assms order_trans [of a "0xFDFF" "0xFFDF"]
  by (auto simp: fm7_flat_read_def fm7_flat_write_def fm7_image_cell_def Let_def)

lemma fm7_av_normal_cell:
  assumes "f7_model m = Fm77Av"
  shows "fm7_av_normal_read m a = fm7_peek m (fm7_image_cell m a)"
    "fm7_av_normal_write a v m = fm7_poke (fm7_image_cell m a) v m"
  using assms
  by (auto simp: fm7_av_normal_read_def fm7_av_normal_write_def fm7_write_boot_ram_def
      fm7_image_cell_def Let_def)

lemma fm7_bank_cell:
  assumes "f7_model m = Fm77Av"
  shows "fm7_read_physical_bank m bank offset = fm7_peek m (fm7_bank_cell m bank offset)"
    "fm7_write_physical_bank bank offset v m = fm7_poke (fm7_bank_cell m bank offset) v m"
  using fm7_av_normal_cell [OF assms]
  by (simp_all add: fm7_read_physical_bank_def fm7_write_physical_bank_def fm7_bank_cell_def)

section \<open>Every index is inside its array\<close>

definition fm7_memory_ok :: "fm7_memory \<Rightarrow> bool" where
  "fm7_memory_ok m \<longleftrightarrow>
     length (f7_lower_ram m) = LOWER_RAM_SIZE \<and> length (f7_upper_ram m) = UPPER_RAM_SIZE
     \<and> length (f7_bios_work m) = BIOS_WORK_SIZE \<and> length (f7_vector_ram m) = VECTOR_RAM_SIZE
     \<and> length (f7_boot_ram m) = BOOT_RAM_SIZE \<and> length (f7_boot_rom m) = BOOT_ROM_SIZE
     \<and> length (f7_basic_rom m) = BASIC_ROM_WINDOW_SIZE \<and> length (f7_reset_vector m) = 2
     \<and> length (f7_mmr_page_registers m) = MMR_PAGE_REGISTER_COUNT
     \<and> length (f7_av_ram_page0 m) = (if f7_model m = Fm77Av then AV_RAM_PAGE0_SIZE else 0)
     \<and> length (f7_initiator_rom m) = (if f7_model m = Fm77Av then INITIATOR_ROM_SIZE else 0)
     \<and> f7_mmr_current_segment m AND NOT MMR_SEGMENT_MASK = 0"

lemma fm7_segment_bound:
  assumes "seg AND NOT MMR_SEGMENT_MASK = (0 :: u8)"
  shows "unat seg < 4"
proof -
  have "seg = seg AND 3"
    using assms word_ao_dist2 [of seg 3 "NOT 3"] by (simp add: MMR_SEGMENT_MASK_def word_bw_assocs)
  then have "seg = take_bit 2 seg" by (simp add: take_bit_eq_mask mask_numeral)
  then have "unat seg = unat seg mod 4"
    by (metis take_bit_eq_mod unsigned_take_bit_eq power2_eq_square mult_2 numeral_Bit0 one_add_one)
  then show ?thesis by (metis mod_less_divisor zero_less_numeral)
qed

lemma fm7_register_index:
  assumes "block < 16"
  shows "push_bit 4 seg OR block = 16 * seg + (block :: nat)"
proof -
  have "block = take_bit 4 block" using assms by (simp add: take_bit_eq_mod)
  moreover have "push_bit 4 seg AND take_bit 4 block = 0"
    by (rule bit_eqI) (auto simp: bit_simps)
  ultimately have "push_bit 4 seg AND block = 0" by simp
  then show ?thesis by (simp add: disjunctive_add_eq_or [symmetric] push_bit_eq_mult)
qed

lemma fm7_block_bound: "unat (drop_bit 12 (a :: u16)) < 16"
  using unat_u16_less [of a]
  by (subst unsigned_drop_bit_eq) (simp add: drop_bit_eq_div take_bit_eq_mod less_mult_imp_div_less)

lemma fm7_offset_bound: "unat (a AND 0x0FFF :: u16) < 0x1000"
proof -
  have "a AND 0x0FFF = take_bit 12 a" by (simp add: take_bit_eq_mask mask_numeral)
  moreover have "unat (take_bit 12 a) < 0x1000"
    by (subst unsigned_take_bit_eq) (simp add: take_bit_eq_mod)
  ultimately show ?thesis by simp
qed

lemma fm7_window_mod:
  "fm7_window_physical_address m a = (unat (f7_mmr_window_offset m) * 256 + unat a) mod 0x10000"
proof -
  have "(x :: nat) AND (2 ^ 16 - 1) = x mod 2 ^ 16" for x
    by (simp only: mask_eq_exp_minus_1 [symmetric] take_bit_eq_mask [symmetric] take_bit_eq_mod)
  then show ?thesis by (simp add: fm7_window_physical_address_def fm7_sizes)
qed

lemma fm7_image_cell_ok:
  assumes "fm7_memory_ok m"
  shows "fm7_cell_ok m (fm7_image_cell m a)"
proof -
  have "unat a < 65536" by (rule unat_u16_less)
  moreover have "unat (a - 0x8000) = unat a - 0x8000" if "\<not> a \<le> 0x7FFF"
    using that by (subst unat_sub) (simp_all add: word_le_nat_alt)
  moreover have "unat (a - 0xFC00) = unat a - 0xFC00" if "\<not> a \<le> 0xFBFF"
    using that by (subst unat_sub) (simp_all add: word_le_nat_alt)
  moreover have "unat (a - 0xFE00) = unat a - 0xFE00" if "\<not> a \<le> 0xFDFF"
    using that by (subst unat_sub) (simp_all add: word_le_nat_alt)
  moreover have "unat (a - 0xFFE0) = unat a - 0xFFE0" if "\<not> a \<le> 0xFFDF"
    using that by (subst unat_sub) (simp_all add: word_le_nat_alt)
  moreover have "unat (a - 0xFFFE) = unat a - 0xFFFE" if "\<not> a \<le> 0xFFFD"
    using that by (subst unat_sub) (simp_all add: word_le_nat_alt)
  ultimately show ?thesis
    using assms
    by (cases "f7_model m")
      (auto simp: fm7_image_cell_def fm7_cell_ok_def fm7_memory_ok_def fm7_sizes word_le_nat_alt)
qed

lemma fm7_register_bound:
  assumes "fm7_memory_ok m" "block < 16"
  shows "push_bit 4 (unat (f7_mmr_current_segment m)) OR block < length (f7_mmr_page_registers m)"
  using assms fm7_segment_bound [of "f7_mmr_current_segment m"]
  by (simp add: fm7_register_index fm7_memory_ok_def fm7_sizes)

lemma fm7_locate_ok:
  assumes "fm7_memory_ok m"
  shows "fm7_cell_ok m (fm7_locate m a)"
proof -
  note image = fm7_image_cell_ok [OF assms]
  have window: "fm7_window_physical_address m a < 0x10000" by (simp add: fm7_window_mod)
  have bank: "fm7_cell_ok m (fm7_bank_cell m b (a AND 0x0FFF))" if "f7_model m \<noteq> Fm7" for b
  proof -
    have "f7_model m = Fm77Av" using that by (cases "f7_model m") simp_all
    then show ?thesis
    using image that assms fm7_offset_bound [of a]
    by (auto simp: fm7_bank_cell_def fm7_cell_ok_def [of m "Page0 i" for i]
        fm7_cell_ok_def [of m OpenBus] fm7_memory_ok_def fm7_sizes word_le_nat_alt)
  qed
  have rom: "fm7_cell_ok m (InitiatorRom (unat (a - 0x6000)))"
    if "f7_model m \<noteq> Fm7" "0x6000 \<le> a" "a \<le> 0x7FFF"
  proof -
    have "unat (a - 0x6000) = unat a - 0x6000" using that by (subst unat_sub) simp_all
    with that assms show ?thesis
      by (cases "f7_model m") (auto simp: fm7_cell_ok_def fm7_memory_ok_def fm7_sizes word_le_nat_alt)
  qed
  have vector: "fm7_cell_ok m (InitiatorRom (INITIATOR_RESET_VECTOR_OFFSET + unat (a - 0xFFFE)))"
    if "f7_model m \<noteq> Fm7" "0xFFFE \<le> a"
  proof -
    have "unat (a - 0xFFFE) = unat a - 0xFFFE" using that by (subst unat_sub) simp_all
    with that assms unat_u16_less [of a] show ?thesis
      by (cases "f7_model m") (auto simp: fm7_cell_ok_def fm7_memory_ok_def fm7_sizes word_le_nat_alt)
  qed
  show ?thesis
    using assms image window bank rom vector unfolding fm7_locate_def
    by (cases "f7_model m")
      (auto simp: fm7_page_def fm7_cell_ok_def [of m "Page0 i" for i]
        fm7_memory_ok_def fm7_sizes)
qed

lemma fm7_translate:
  assumes "fm7_memory_ok m"
  shows "fm7_mmr_translate m a = Some (fm7_page m a)"
  using fm7_register_bound [OF assms fm7_block_bound [of a]]
  by (simp add: fm7_mmr_translate_def fm7_page_def fm7_page_index_def list_get_def Let_def)

text \<open>No access panics, and each is a look at or an update of its cell.\<close>

lemma fm7_read_cell:
  assumes "fm7_memory_ok m"
  shows "fm7_memory_read m a = Some (fm7_content m (fm7_locate m a))"
proof -
  have "fm7_memory_read m a = fm7_peek m (fm7_locate m a)"
    using fm7_flat_cell(1) [of m a] fm7_av_normal_cell(1) [of m a] fm7_bank_cell(1) [of m]
    by (cases "f7_model m")
      (simp_all add: fm7_memory_read_def fm7_locate_def fm7_av_read_def fm7_translate [OF assms]
        case_prod_unfold if_distrib [of "fm7_peek m"] cong: if_cong)
  then show ?thesis by (simp add: fm7_peek_def fm7_locate_ok [OF assms])
qed

lemma fm7_write_cell:
  assumes "fm7_memory_ok m"
  shows "fm7_memory_write a v m = Some (fm7_store (fm7_locate m a) v m)"
proof -
  have "fm7_memory_write a v m = fm7_poke (fm7_locate m a) v m"
    using fm7_flat_cell(2) [of m a v] fm7_av_normal_cell(2) [of m a v] fm7_bank_cell(2) [of m]
    by (cases "f7_model m")
      (auto simp: fm7_memory_write_def fm7_locate_def fm7_av_write_def fm7_in_initiator_def
        fm7_translate [OF assms] case_prod_unfold)
  then show ?thesis by (simp add: fm7_poke_def fm7_locate_ok [OF assms])
qed

lemma fm7_vram_target:
  assumes "fm7_memory_ok m"
  shows "\<exists>target. fm7_direct_vram_target m a = Some target"
  by (simp add: fm7_direct_vram_target_def fm7_translate [OF assms])

section \<open>Stores\<close>

lemma fm7_store_ok [simp]: "fm7_memory_ok (fm7_store c v m) = fm7_memory_ok m"
  by (cases c) (simp_all add: fm7_memory_ok_def)

lemma fm7_store_banking [simp]:
  "f7_model (fm7_store c v m) = f7_model m"
  "f7_basic_rom_mapped (fm7_store c v m) = f7_basic_rom_mapped m"
  "f7_mmr_page_registers (fm7_store c v m) = f7_mmr_page_registers m"
  "f7_mmr_current_segment (fm7_store c v m) = f7_mmr_current_segment m"
  "f7_mmr_window_offset (fm7_store c v m) = f7_mmr_window_offset m"
  "f7_mmr_enabled (fm7_store c v m) = f7_mmr_enabled m"
  "f7_window_enabled (fm7_store c v m) = f7_window_enabled m"
  "f7_boot_ram_write (fm7_store c v m) = f7_boot_ram_write m"
  "f7_initiator_enabled (fm7_store c v m) = f7_initiator_enabled m"
  by (cases c; simp)+

lemma fm7_store_locate [simp]: "fm7_locate (fm7_store c v m) a = fm7_locate m a"
  by (simp only: fm7_locate_def fm7_bank_cell_def fm7_image_cell_def fm7_page_def fm7_page_index_def
      fm7_window_physical_address_def fm7_store_banking)

lemma fm7_content_store:
  assumes "fm7_cell_ok m c"
  shows "fm7_content (fm7_store c v m) d =
    (if d = c \<and> fm7_writable m c then v else fm7_content m d)"
  using assms by (cases c; cases d; simp add: fm7_cell_ok_def fm7_writable_def nth_list_update)

lemma fm7_read_write:
  assumes "fm7_memory_ok m"
  shows "fm7_memory_read (fm7_store (fm7_locate m a) v m) b =
    (if fm7_locate m b = fm7_locate m a \<and> fm7_writable m (fm7_locate m a) then Some v
     else fm7_memory_read m b)"
  using assms by (simp add: fm7_read_cell fm7_content_store [OF fm7_locate_ok [OF assms]])

section \<open>Paging and the window\<close>

text \<open>Page registers: a bank of sixteen for each of four segments.\<close>

lemma fm7_block_low: "unat (k AND 0x0F :: u8) < 16"
proof -
  have "k AND 0x0F = take_bit 4 k" by (simp add: take_bit_eq_mask mask_numeral)
  moreover have "unat (take_bit 4 k) < 16"
    by (subst unsigned_take_bit_eq) (simp add: take_bit_eq_mod)
  ultimately show ?thesis by simp
qed

lemma fm7_set_segment_ok: "fm7_memory_ok m \<Longrightarrow> fm7_memory_ok (fm7_set_mmr_segment v m)"
  by (simp add: fm7_memory_ok_def fm7_set_mmr_segment_def word_bw_assocs)

lemma fm7_page_register_index:
  assumes "fm7_memory_ok m"
  shows "fm7_read_mmr_page_register m j =
     Some (f7_mmr_page_registers m ! (16 * unat (f7_mmr_current_segment m) + unat (j AND 0x0F)))"
  "fm7_write_mmr_page_register k v m =
     Some (m\<lparr>f7_mmr_page_registers := (f7_mmr_page_registers m)
         [16 * unat (f7_mmr_current_segment m) + unat (k AND 0x0F) := v]\<rparr>)"
  using fm7_register_bound [OF assms fm7_block_low]
  by (simp_all add: fm7_read_mmr_page_register_def fm7_write_mmr_page_register_def Let_def
      fm7_register_index [OF fm7_block_low] list_get_def list_put_def)

lemma fm7_page_register_write:
  assumes "fm7_memory_ok m" "fm7_write_mmr_page_register k v m = Some m'"
  shows "fm7_read_mmr_page_register (fm7_set_mmr_segment s' m') j =
    (if s' AND 3 = f7_mmr_current_segment m \<and> j AND 0x0F = k AND 0x0F then Some v
     else fm7_read_mmr_page_register (fm7_set_mmr_segment s' m) j)"
proof -
  let ?i = "16 * unat (f7_mmr_current_segment m) + unat (k AND 0x0F)"
  let ?j = "16 * unat (s' AND 3) + unat (j AND 0x0F)"
  have m': "m' = m\<lparr>f7_mmr_page_registers := (f7_mmr_page_registers m)[?i := v]\<rparr>"
    using assms(2) by (simp add: fm7_page_register_index(2) [OF assms(1)])
  then have "fm7_memory_ok m'" using assms(1) by (simp add: fm7_memory_ok_def)
  then have ok: "fm7_memory_ok (fm7_set_mmr_segment s' m')" by (rule fm7_set_segment_ok)
  have "?i < length (f7_mmr_page_registers m)"
    using fm7_register_bound [OF assms(1) fm7_block_low [of k]]
    by (simp only: fm7_register_index [OF fm7_block_low])
  then have "(f7_mmr_page_registers m)[?i := v] ! ?j =
      (if ?i = ?j then v else f7_mmr_page_registers m ! ?j)"
    by (rule nth_list_update)
  moreover have "?i = ?j \<longleftrightarrow>
      unat (f7_mmr_current_segment m) = unat (s' AND 3) \<and> unat (k AND 0x0F) = unat (j AND 0x0F)"
    using fm7_block_low [of k] fm7_block_low [of j] by presburger
  moreover have "unat (f7_mmr_current_segment m) = unat (s' AND 3) \<longleftrightarrow> s' AND 3 = f7_mmr_current_segment m"
    "unat (k AND 0x0F) = unat (j AND 0x0F) \<longleftrightarrow> j AND 0x0F = k AND 0x0F"
    by (metis word_unat_eq_iff)+
  ultimately show ?thesis
    using fm7_page_register_index(1) [OF ok] fm7_page_register_index(1) [OF fm7_set_segment_ok [OF assms(1)]]
    by (simp add: fm7_set_mmr_segment_def MMR_SEGMENT_MASK_def m')
qed

lemma fm7_control_bits: "fm7_read_mmr_control (fm7_write_mmr_control v m) = v AND 0xC1"
  using and_pow2_nonzero [of v 7] and_pow2_nonzero [of v 6] and_pow2_nonzero [of v 0]
  by (simp add: fm7_read_mmr_control_def fm7_write_mmr_control_def CONTROL_MMR_ENABLE_def
      CONTROL_WINDOW_ENABLE_def CONTROL_BOOT_RAM_WRITE_def u8_eq_iff bit_and_iff bit_or_iff)

lemma fm7_nibble_id:
  assumes "unat (k :: u8) < 16"
  shows "k AND 0x0F = k"
proof -
  have "k AND 0x0F = take_bit 4 k" by (simp add: take_bit_eq_mask mask_numeral)
  moreover have "unat (take_bit 4 k) = unat k"
    using assms by (subst unsigned_take_bit_eq) (simp add: take_bit_nat_eq_self)
  ultimately show ?thesis by (metis word_unat_eq_iff)
qed

lemma fm7_block_byte:
  "ucast (drop_bit 12 a :: u16) AND 0x0F = (ucast (drop_bit 12 a) :: u8)"
  "ucast (ucast (drop_bit 12 a :: u16) :: u8) = drop_bit 12 a"
proof -
  have byte: "unat (ucast (drop_bit 12 a) :: u8) = unat (drop_bit 12 a)"
    using fm7_block_bound [of a] by (subst unsigned_ucast_eq) (simp add: take_bit_nat_eq_self)
  moreover have "unat (ucast (ucast (drop_bit 12 a) :: u8) :: u16) = unat (ucast (drop_bit 12 a) :: u8)"
    using unat_u8_less [of "ucast (drop_bit 12 a)"]
    by (subst unsigned_ucast_eq) (simp add: take_bit_nat_eq_self)
  ultimately show "ucast (ucast (drop_bit 12 a :: u16) :: u8) = drop_bit 12 a"
    by (metis word_unat_eq_iff)
  show "ucast (drop_bit 12 a) AND 0x0F = (ucast (drop_bit 12 a) :: u8)"
    using fm7_block_bound [of a] byte by (intro fm7_nibble_id) simp
qed

text \<open>With paging on, an address resolves through the register of its 4 KiB block.\<close>

lemma fm7_paging:
  assumes "fm7_memory_ok m" "f7_model m = Fm77Av" "f7_mmr_enabled m" "\<not> f7_initiator_enabled m"
    "\<not> f7_window_enabled m" "a < 0xFC00"
    and page: "fm7_read_mmr_page_register m (ucast (drop_bit 12 a)) = Some register"
  shows "fm7_locate m a = fm7_bank_cell m (register AND 0x3F) (a AND 0x0FFF)"
proof -
  have "unat (ucast (drop_bit 12 a) AND 0x0F :: u8) = unat (drop_bit 12 a)"
    using fm7_block_bound [of a]
    by (simp only: fm7_block_byte(1)) (subst unsigned_ucast_eq, simp add: take_bit_nat_eq_self)
  then have "register = f7_mmr_page_registers m ! fm7_page_index m a"
    using page by (simp add: fm7_page_register_index(1) [OF assms(1)] fm7_page_index_def
        fm7_register_index [OF fm7_block_bound])
  then show ?thesis
    using assms by (simp add: fm7_locate_def fm7_page_def MMR_BANK_MASK_def)
qed

text \<open>
  The identity mapping of the blocks to the banks 30 to 3F makes paging transparent: the image
  address of a block's own bank is the address.
\<close>

lemma fm7_image_address: "fm7_compatible_image_address (0x30 OR ucast (drop_bit 12 a)) (a AND 0x0FFF) = a"
proof -
  have "(0x30 OR ucast (drop_bit 12 a)) AND 0x0F = (ucast (drop_bit 12 a) :: u8)"
    by (simp add: word_ao_dist fm7_block_byte)
  moreover have "push_bit 12 (drop_bit 12 a) OR (a AND 0x0FFF) = a"
  proof -
    have "a AND 0x0FFF = take_bit 12 a" by (simp add: take_bit_eq_mask mask_numeral)
    moreover have "push_bit 12 (drop_bit 12 a) OR take_bit 12 a = a"
      by (rule bit_word_eqI) (auto simp: bit_or_iff bit_push_bit_iff bit_drop_bit_eq bit_take_bit_iff not_le)
    ultimately show ?thesis by simp
  qed
  ultimately show ?thesis by (simp add: fm7_compatible_image_address_def fm7_block_byte)
qed

lemma fm7_identity_paging:
  assumes "fm7_memory_ok m" "f7_model m = Fm77Av" "f7_mmr_enabled m" "\<not> f7_initiator_enabled m"
    "\<not> f7_window_enabled m" "a < 0xFC00"
    and identity: "fm7_read_mmr_page_register m (ucast (drop_bit 12 a)) = Some (0x30 OR ucast (drop_bit 12 a))"
  shows "fm7_locate m a = fm7_image_cell m a"
proof -
  let ?b = "0x30 OR ucast (drop_bit 12 a) :: u8"
  have "?b AND 0x3F = ?b"
    by (auto simp: u8_eq_iff bit_and_iff bit_or_iff bit_ucast_iff bit_drop_bit_eq dest: bit_imp_le_length)
  moreover have "\<not> ?b \<le> 0x2F"
  proof -
    have "0x30 \<le> ?b" by (rule le_word_or2)
    then show ?thesis by (simp add: word_le_nat_alt)
  qed
  moreover from this have "\<not> ?b \<le> 0x0F" using order_trans [of ?b "0x0F" "0x2F"] by auto
  ultimately show ?thesis
    by (simp add: fm7_paging [OF assms(1-6) identity] fm7_bank_cell_def fm7_image_address)
qed

text \<open>
  The direct-VRAM window: the addresses that the bus takes away from the memory are those that
  the memory leaves open.
\<close>

lemma fm7_direct_vram_open:
  assumes "fm7_memory_ok m" "f7_model m = Fm77Av" "fm7_direct_vram_target m a = Some (Some t)"
  shows "fm7_locate m a = OpenBus"
proof -
  let ?b = "fst (fm7_page m a)"
  have hit: "\<not> (f7_initiator_enabled m \<and> fm7_in_initiator a)" "\<not> (f7_window_enabled m \<and> fm7_in_window a)"
    "f7_mmr_enabled m" "a < 0xFC00" "0x10 \<le> ?b" "?b \<le> 0x1F"
    using assms(3) by (auto simp: fm7_direct_vram_target_def fm7_translate [OF assms(1)] case_prod_unfold
        split: if_splits)
  have "\<not> ?b \<le> 0x0F" "?b \<le> 0x2F" using hit(5,6) by (auto simp: word_le_nat_alt)
  then show ?thesis
    using assms(2) hit(1-4) by (auto simp: fm7_locate_def fm7_in_initiator_def fm7_bank_cell_def)
qed

section \<open>What the operations keep\<close>

lemma fm7_operations_ok:
  "fm7_memory_ok m \<Longrightarrow> fm7_memory_write a v m = Some n \<Longrightarrow> fm7_memory_ok n"
  "fm7_memory_ok m \<Longrightarrow> fm7_memory_ok (fm7_map_rom m)" "fm7_memory_ok m \<Longrightarrow> fm7_memory_ok (fm7_map_ram m)"
  "fm7_memory_ok m \<Longrightarrow> fm7_memory_ok (fm7_set_initiator_enabled e m)"
  "fm7_memory_ok m \<Longrightarrow> fm7_write_mmr_page_register k v m = Some n \<Longrightarrow> fm7_memory_ok n"
  "fm7_memory_ok m \<Longrightarrow> fm7_memory_ok (fm7_set_mmr_segment v m)"
  "fm7_memory_ok m \<Longrightarrow> fm7_memory_ok (fm7_set_mmr_window_offset v m)"
  "fm7_memory_ok m \<Longrightarrow> fm7_memory_ok (fm7_write_mmr_control v m)"
proof -
  assume ok: "fm7_memory_ok m"
  show "fm7_memory_ok n" if "fm7_memory_write a v m = Some n"
    using ok that by (auto simp: fm7_write_cell)
  show "fm7_memory_ok n" if "fm7_write_mmr_page_register k v m = Some n"
  proof -
    have "n = m\<lparr>f7_mmr_page_registers := (f7_mmr_page_registers m)
        [16 * unat (f7_mmr_current_segment m) + unat (k AND 0x0F) := v]\<rparr>"
      using that by (simp add: fm7_page_register_index(2) [OF ok])
    then show ?thesis using ok by (simp add: fm7_memory_ok_def)
  qed
qed (simp_all add: fm7_set_segment_ok, simp_all add: fm7_memory_ok_def fm7_map_rom_def fm7_map_ram_def
  fm7_set_initiator_enabled_def fm7_set_mmr_window_offset_def fm7_write_mmr_control_def)

lemma fm7_copy_prefix_length [simp]: "length (fm7_copy_prefix s d) = length d"
  by (simp add: fm7_copy_prefix_def Let_def)

lemma fm7_memory_empty_ok: "fm7_memory_ok (fm7_memory_empty model mode)"
  by (cases model) (simp_all add: fm7_memory_ok_def fm7_memory_empty_def fm7_has_boot_ram_def
      Let_def fm7_sizes FM7_RESET_VECTOR_def)

lemma fm7_seed_boot_ram_ok:
  "fm7_memory_ok m \<Longrightarrow> fm7_memory_ok (fm7_seed_boot_ram mode m)"
  by (cases mode) (simp_all add: fm7_memory_ok_def fm7_seed_boot_ram_def Let_def fm7_sizes)

lemma fm7_memory_new_ok: "fm7_memory_ok (fm7_memory_new roms mode)"
proof -
  have copies: "fm7_memory_ok (m\<lparr>f7_basic_rom := fm7_copy_prefix r (f7_basic_rom m)\<rparr>)"
    "fm7_memory_ok (m\<lparr>f7_boot_rom := fm7_copy_prefix r (f7_boot_rom m)\<rparr>)"
    "fm7_memory_ok (m\<lparr>f7_initiator_rom := fm7_copy_prefix r (f7_initiator_rom m)\<rparr>)"
    if "fm7_memory_ok m" for m r
    using that by (simp_all add: fm7_memory_ok_def)
  have boot: "fm7_memory_ok (case roms_model roms of
      Fm7 \<Rightarrow> (case image of Some r \<Rightarrow> m\<lparr>f7_boot_rom := fm7_copy_prefix r (f7_boot_rom m)\<rparr> | None \<Rightarrow> m)
    | Fm77Av \<Rightarrow> (case roms_initiate roms of
        Some r \<Rightarrow> fm7_seed_boot_ram mode (m\<lparr>f7_initiator_rom := fm7_copy_prefix r (f7_initiator_rom m)\<rparr>)
      | None \<Rightarrow> m))" if "fm7_memory_ok m" for m image
    using that by (auto intro: copies fm7_seed_boot_ram_ok split: fm7_model.splits option.splits)
  show ?thesis
    unfolding fm7_memory_new_def Let_def by (rule boot [OF copies(1) [OF fm7_memory_empty_ok]])
qed

lemma fm7_validate_iff:
  "fm7_memory_validate model st = Inr () \<longleftrightarrow>
     length (f7_lower_ram st) = LOWER_RAM_SIZE \<and> length (f7_upper_ram st) = UPPER_RAM_SIZE
     \<and> length (f7_av_ram_page0 st) = (if model = Fm77Av then AV_RAM_PAGE0_SIZE else 0)
     \<and> f7_mmr_current_segment st AND NOT MMR_SEGMENT_MASK = 0"
  by (cases model) (auto simp: fm7_memory_validate_def fm7_has_boot_ram_def)

section \<open>Boot\<close>

lemma fm7_new_flat:
  assumes "roms_model roms = Fm7"
  shows "f7_model (fm7_memory_new roms mode) = Fm7"
    "fm7_memory_read (fm7_memory_new roms mode) 0xFFFE = Some 0xFE"
    "fm7_memory_read (fm7_memory_new roms mode) 0xFFFF = Some 0x00"
  using assms
  by (auto simp: fm7_memory_new_def Let_def fm7_memory_empty_def fm7_memory_read_def fm7_flat_read_def
      FM7_RESET_VECTOR_def list_get_def split: option.splits)

text \<open>
  The FM-77AV starts in the initiator ROM, whose last two bytes are the vector; once the
  initiator is switched off the vector is the boot entry, as on the FM-7.
\<close>

lemma fm7_seed_vector:
  assumes "fm7_memory_ok m"
  shows "f7_boot_ram (fm7_seed_boot_ram mode m) ! 0x1FE = 0xFE"
    "f7_boot_ram (fm7_seed_boot_ram mode m) ! 0x1FF = 0x00"
  using assms
  by (cases mode; simp add: fm7_seed_boot_ram_def Let_def fm7_memory_ok_def fm7_sizes
      FM7_RESET_VECTOR_def nth_list_update)+

lemma fm7_new_av:
  fixes roms :: fm7_roms and mode :: boot_mode
  assumes "roms_model roms = Fm77Av" "roms_initiate roms = Some r" "length r = INITIATOR_ROM_SIZE"
  defines "m \<equiv> fm7_memory_new roms mode"
  shows "f7_model m = Fm77Av"
    "fm7_memory_read m 0xFFFE = Some (r ! 0x1FFE)" "fm7_memory_read m 0xFFFF = Some (r ! 0x1FFF)"
    "fm7_memory_read (fm7_set_initiator_enabled False m) 0xFFFE = Some 0xFE"
    "fm7_memory_read (fm7_set_initiator_enabled False m) 0xFFFF = Some 0x00"
proof -
  let ?e = "fm7_memory_empty Fm77Av mode"
  let ?b = "?e\<lparr>f7_basic_rom := fm7_copy_prefix (roms_fbasic roms) (f7_basic_rom ?e)\<rparr>"
  let ?i = "?b\<lparr>f7_initiator_rom := fm7_copy_prefix r (f7_initiator_rom ?b)\<rparr>"
  have ok: "fm7_memory_ok ?i"
    using fm7_memory_empty_ok [of Fm77Av mode] by (simp add: fm7_memory_ok_def)
  have m: "m = fm7_seed_boot_ram mode ?i"
    using assms by (simp add: m_def fm7_memory_new_def Let_def)
  have keeps: "f7_model (fm7_seed_boot_ram mode s) = f7_model s"
    "f7_initiator_enabled (fm7_seed_boot_ram mode s) = f7_initiator_enabled s"
    "f7_window_enabled (fm7_seed_boot_ram mode s) = f7_window_enabled s"
    "f7_mmr_enabled (fm7_seed_boot_ram mode s) = f7_mmr_enabled s"
    "f7_initiator_rom (fm7_seed_boot_ram mode s) = f7_initiator_rom s" for s
    by (simp_all add: fm7_seed_boot_ram_def Let_def)
  have flags: "f7_model ?i = Fm77Av" "f7_initiator_enabled ?i" "\<not> f7_window_enabled ?i"
    "\<not> f7_mmr_enabled ?i" "f7_initiator_rom ?i = r"
    using assms(3) by (simp_all add: fm7_memory_empty_def fm7_has_boot_ram_def Let_def fm7_copy_prefix_def)
  show "f7_model m = Fm77Av" using flags(1) by (simp add: m keeps)
  show "fm7_memory_read m 0xFFFE = Some (r ! 0x1FFE)" "fm7_memory_read m 0xFFFF = Some (r ! 0x1FFF)"
    using flags assms(3)
    by (simp_all add: m keeps fm7_memory_read_def fm7_av_read_def fm7_sizes list_get_def)
  have m_ok: "fm7_memory_ok (fm7_set_initiator_enabled False m)"
    unfolding m by (intro fm7_operations_ok(4) fm7_seed_boot_ram_ok ok)
  have "fm7_locate (fm7_set_initiator_enabled False m) 0xFFFE = BootRam 0x1FE"
    "fm7_locate (fm7_set_initiator_enabled False m) 0xFFFF = BootRam 0x1FF"
    using flags by (simp_all add: fm7_locate_def fm7_image_cell_def fm7_set_initiator_enabled_def m keeps)
  then show "fm7_memory_read (fm7_set_initiator_enabled False m) 0xFFFE = Some 0xFE"
    "fm7_memory_read (fm7_set_initiator_enabled False m) 0xFFFF = Some 0x00"
    using fm7_seed_vector [OF ok, of mode]
    by (simp_all only: fm7_read_cell [OF m_ok] fm7_content_simps) (simp_all add: fm7_set_initiator_enabled_def m)
qed

section \<open>The properties\<close>

text \<open>
  C10 The FM-7 memory refines a store of cells. Every address resolves to one cell, inside its
  array; a read returns what the cell holds; a write returns and keeps the arrays, and after it every
  address that resolves to the same cell reads the value when the cell can be written, while every
  other address reads what it did. No read and no write panics. This is the behaviour of both models,
  under every setting of the bank, the initiator ROM, the window and the paging unit, aliases included.
\<close>

theorem fm7_memory_refines_cells:
  assumes "fm7_memory_ok m"
  shows "fm7_cell_ok m (fm7_locate m a) \<and> fm7_memory_read m a = Some (fm7_content m (fm7_locate m a))
    \<and> (\<exists>n. fm7_memory_write a v m = Some n \<and> fm7_memory_ok n
        \<and> fm7_memory_read n b =
            (if fm7_locate m b = fm7_locate m a \<and> fm7_writable m (fm7_locate m a) then Some v
             else fm7_memory_read m b))"
  using fm7_locate_ok [OF assms] fm7_read_cell [OF assms] fm7_write_cell [OF assms]
    fm7_read_write [OF assms] assms by simp

theorem fm7_memory_refines_cells_witness:
  "\<exists>n. fm7_memory_write 0x1234 0x5A (fm7_memory_empty Fm77Av BootDos) = Some n
    \<and> fm7_memory_read n 0x1234 = Some 0x5A"
proof -
  let ?m = "fm7_memory_empty Fm77Av BootDos"
  have "fm7_locate ?m 0x1234 = LowerRam 0x1234"
    by (simp add: fm7_locate_def fm7_memory_empty_def fm7_has_boot_ram_def Let_def fm7_image_cell_def)
  then show ?thesis
    using fm7_memory_refines_cells [of ?m "0x1234" "0x5A" "0x1234", OF fm7_memory_empty_ok]
    by (auto simp: fm7_writable_def)
qed

text \<open>
  Paging is transparent when every block is mapped to its own bank of the compatible image
  (30 to 3F): reads and writes are those with the paging unit switched off.
\<close>

theorem fm7_identity_paging_transparent:
  assumes "fm7_memory_ok m" "f7_model m = Fm77Av" "f7_mmr_enabled m" "\<not> f7_initiator_enabled m"
      "\<not> f7_window_enabled m"
    and identity: "\<And>k. k < 16 \<Longrightarrow> fm7_read_mmr_page_register m k = Some (0x30 OR k)"
  defines "off \<equiv> m\<lparr>f7_mmr_enabled := False\<rparr>"
  shows "fm7_memory_read m a = fm7_memory_read off a
    \<and> fm7_memory_write a v m =
        map_option (\<lambda>n. n\<lparr>f7_mmr_enabled := True\<rparr>) (fm7_memory_write a v off)"
proof -
  have off: "fm7_memory_ok off" using assms(1) by (simp add: off_def fm7_memory_ok_def)
  have same: "fm7_image_cell off a = fm7_image_cell m a" "fm7_content off c = fm7_content m c" for a c
    by (simp_all add: off_def fm7_image_cell_def fm7_content_def cong: fm7_cell.case_cong)
  have "fm7_locate m a = fm7_image_cell m a"
  proof (cases "a < 0xFC00")
    case True
    have "ucast (drop_bit 12 a) < (16 :: u8)"
      using fm7_block_bound [of a]
      by (simp only: word_less_nat_alt) (subst unsigned_ucast_eq, simp add: take_bit_nat_eq_self)
    then show ?thesis
      by (rule fm7_identity_paging [OF assms(1-5) True identity])
  next
    case False
    then show ?thesis using assms(2-5) by (simp add: fm7_locate_def)
  qed
  moreover have "fm7_locate off a = fm7_image_cell m a"
    using assms(2-5) by (simp add: fm7_locate_def same) (simp add: off_def)
  moreover have "fm7_store c v m = (fm7_store c v off)\<lparr>f7_mmr_enabled := True\<rparr>" for c
    using assms(3) by (cases c) (simp_all add: off_def)
  ultimately show ?thesis
    by (simp add: fm7_read_cell [OF assms(1)] fm7_write_cell [OF assms(1)] fm7_read_cell [OF off]
        fm7_write_cell [OF off] same)
qed

theorem fm7_identity_paging_transparent_witness:
  "\<exists>m. f7_mmr_enabled m \<and> (\<forall>a. fm7_memory_read m a = fm7_memory_read (m\<lparr>f7_mmr_enabled := False\<rparr>) a)"
proof -
  let ?m = "(fm7_memory_empty Fm77Av BootBasic)\<lparr>f7_mmr_enabled := True, f7_initiator_enabled := False,
    f7_mmr_page_registers := map (\<lambda>k. 0x30 OR word_of_nat (k mod 16)) [0 ..< 64]\<rparr>"
  have ok: "fm7_memory_ok ?m"
    using fm7_memory_empty_ok [of Fm77Av BootBasic] by (simp add: fm7_memory_ok_def fm7_sizes)
  have "fm7_read_mmr_page_register ?m k = Some (0x30 OR k)" if "k < 16" for k
  proof -
    have small: "unat k < 16" using that by (simp add: word_less_nat_alt)
    then show ?thesis using fm7_nibble_id [OF small]
      by (simp add: fm7_page_register_index(1) [OF ok]) (simp add: fm7_memory_empty_def Let_def)
  qed
  then have "fm7_memory_read ?m a = fm7_memory_read (?m\<lparr>f7_mmr_enabled := False\<rparr>) a" for a
    using fm7_identity_paging_transparent [OF ok, of a 0]
    by (simp add: fm7_memory_empty_def Let_def)
  then show ?thesis by (intro exI [of _ ?m]) simp
qed

text \<open>
  C40 A save state of the memory restores it: on a machine of the same model with the same ROMs
  the result is the captured memory, bit for bit; a state that fails the checks is an
  error and changes nothing.
\<close>

theorem fm7_memory_save_restore:
  assumes "fm7_memory_ok m" "fm7_memory_state.more m = fm7_memory_state.more n"
  shows "fm7_memory_restore_state (fm7_memory_capture_state m) n = (Inr (), m)
    \<and> (fm7_memory_validate (f7_model n) st \<noteq> Inr () \<longrightarrow>
         (\<exists>e. fm7_memory_restore_state st n = (Inl e, n)))"
proof -
  have "f7_model n = f7_model m" using assms(2) by (cases m; cases n) simp
  then have "fm7_memory_validate (f7_model n) (fm7_memory_capture_state m) = Inr ()"
    using assms(1) by (simp add: fm7_validate_iff fm7_memory_ok_def fm7_memory_capture_state_def
        fm7_memory_state.defs)
  moreover have "fm7_memory_state.extend (fm7_memory_capture_state m) (fm7_memory_state.more n) = m"
    using assms(2) by (cases m; cases n) (simp add: fm7_memory_capture_state_def fm7_memory_state.defs)
  ultimately show ?thesis by (auto simp: fm7_memory_restore_state_def split: sum.splits)
qed

theorem fm7_memory_save_restore_witness:
  "fm7_memory_restore_state (fm7_memory_capture_state (fm7_memory_empty Fm7 BootBasic))
     (fm7_map_ram (fm7_memory_empty Fm7 BootBasic)) = (Inr (), fm7_memory_empty Fm7 BootBasic)"
  using fm7_memory_save_restore [of "fm7_memory_empty Fm7 BootBasic"
      "fm7_map_ram (fm7_memory_empty Fm7 BootBasic)", OF fm7_memory_empty_ok]
  by (simp add: fm7_map_ram_def)

end
