(* ===== verification/Fm7_Interrupts.thy ===== *)
theory Fm7_Interrupts
  imports Bus_Interface
begin

text \<open>
  The interrupt sources of the FM-7's main processor: \<open>crates/machine_fm7/src/interrupt.rs\<close>.
  The two cached lines exist for the trace; \<open>fm7_lines_ok\<close> is that every operation leaves
  them equal to the lines that the processor sees. The trace itself is not modelled.
\<close>

definition IRQ_MASK_KEYBOARD :: u8 where "IRQ_MASK_KEYBOARD = 0x01"
definition IRQ_MASK_PRINTER :: u8 where "IRQ_MASK_PRINTER = 0x02"
definition IRQ_MASK_TIMER :: u8 where "IRQ_MASK_TIMER = 0x04"
definition IRQ_MASK_FDC :: u8 where "IRQ_MASK_FDC = 0x10"
definition IRQ_STATUS_KEYBOARD :: u8 where "IRQ_STATUS_KEYBOARD = 0x01"
definition IRQ_STATUS_PRINTER :: u8 where "IRQ_STATUS_PRINTER = 0x02"
definition IRQ_STATUS_TIMER :: u8 where "IRQ_STATUS_TIMER = 0x04"
definition IRQ_STATUS_EXTERNAL :: u8 where "IRQ_STATUS_EXTERNAL = 0x08"
definition FIRQ_STATUS_SUB_ATTENTION :: u8 where "FIRQ_STATUS_SUB_ATTENTION = 0x01"
definition FIRQ_STATUS_BREAK :: u8 where "FIRQ_STATUS_BREAK = 0x02"

lemmas fm7_irq_masks = IRQ_MASK_KEYBOARD_def IRQ_MASK_PRINTER_def IRQ_MASK_TIMER_def IRQ_MASK_FDC_def
  IRQ_STATUS_KEYBOARD_def IRQ_STATUS_PRINTER_def IRQ_STATUS_TIMER_def IRQ_STATUS_EXTERNAL_def
  FIRQ_STATUS_SUB_ATTENTION_def FIRQ_STATUS_BREAK_def

record fm7_interrupts =
  fi_mask :: u8
  fi_timer_pending :: bool
  fi_keyboard_pending :: bool
  fi_printer_pending :: bool
  fi_fdc_pending :: bool
  fi_opn_pending :: bool
  fi_break_pending :: bool
  fi_sub_attention :: bool
  fi_irq_line :: bool
  fi_firq_line :: bool

definition fm7_interrupts_new :: fm7_interrupts where
  "fm7_interrupts_new =
     \<lparr> fi_mask = 0, fi_timer_pending = False, fi_keyboard_pending = False, fi_printer_pending = False,
       fi_fdc_pending = False, fi_opn_pending = False, fi_break_pending = False,
       fi_sub_attention = False, fi_irq_line = False, fi_firq_line = False \<rparr>"

definition fm7_irq_enabled :: "u8 \<Rightarrow> fm7_interrupts \<Rightarrow> bool" where
  "fm7_irq_enabled source s \<longleftrightarrow> fi_mask s AND source \<noteq> 0"

definition fm7_irq_line :: "fm7_interrupts \<Rightarrow> bool" where
  "fm7_irq_line s \<longleftrightarrow>
     fi_keyboard_pending s \<and> fm7_irq_enabled IRQ_MASK_KEYBOARD s
     \<or> fi_printer_pending s \<and> fm7_irq_enabled IRQ_MASK_PRINTER s
     \<or> fi_timer_pending s \<and> fm7_irq_enabled IRQ_MASK_TIMER s
     \<or> fi_fdc_pending s \<and> fm7_irq_enabled IRQ_MASK_FDC s
     \<or> fi_opn_pending s"

definition fm7_firq_line :: "fm7_interrupts \<Rightarrow> bool" where
  "fm7_firq_line s \<longleftrightarrow> fi_break_pending s \<or> fi_sub_attention s"

definition fm7_sync_irq_line :: "fm7_interrupts \<Rightarrow> fm7_interrupts" where
  "fm7_sync_irq_line s =
     (let new_line = fm7_irq_line s
      in if new_line \<noteq> fi_irq_line s then s\<lparr>fi_irq_line := new_line\<rparr> else s)"

definition fm7_sync_firq_line :: "fm7_interrupts \<Rightarrow> fm7_interrupts" where
  "fm7_sync_firq_line s =
     (let new_line = fm7_firq_line s
      in if new_line \<noteq> fi_firq_line s then s\<lparr>fi_firq_line := new_line\<rparr> else s)"

section \<open>Sources\<close>

definition fm7_write_mask :: "u8 \<Rightarrow> fm7_interrupts \<Rightarrow> fm7_interrupts" where
  "fm7_write_mask value s = fm7_sync_irq_line (s\<lparr>fi_mask := value\<rparr>)"

definition fm7_set_timer_pending :: "bool \<Rightarrow> fm7_interrupts \<Rightarrow> fm7_interrupts" where
  "fm7_set_timer_pending pending s = fm7_sync_irq_line (s\<lparr>fi_timer_pending := pending\<rparr>)"

definition fm7_set_fdc_pending :: "bool \<Rightarrow> fm7_interrupts \<Rightarrow> fm7_interrupts" where
  "fm7_set_fdc_pending pending s = fm7_sync_irq_line (s\<lparr>fi_fdc_pending := pending\<rparr>)"

definition fm7_set_keyboard_pending :: "bool \<Rightarrow> fm7_interrupts \<Rightarrow> fm7_interrupts" where
  "fm7_set_keyboard_pending pending s = fm7_sync_irq_line (s\<lparr>fi_keyboard_pending := pending\<rparr>)"

definition fm7_set_opn_pending :: "bool \<Rightarrow> fm7_interrupts \<Rightarrow> fm7_interrupts" where
  "fm7_set_opn_pending pending s = fm7_sync_irq_line (s\<lparr>fi_opn_pending := pending\<rparr>)"

definition fm7_set_break :: "bool \<Rightarrow> fm7_interrupts \<Rightarrow> fm7_interrupts" where
  "fm7_set_break pressed s = fm7_sync_firq_line (s\<lparr>fi_break_pending := pressed\<rparr>)"

definition fm7_ack_timer :: "fm7_interrupts \<Rightarrow> fm7_interrupts" where
  "fm7_ack_timer s = fm7_sync_irq_line (s\<lparr>fi_timer_pending := False\<rparr>)"

definition fm7_raise_sub_attention :: "fm7_interrupts \<Rightarrow> fm7_interrupts" where
  "fm7_raise_sub_attention s = fm7_sync_firq_line (s\<lparr>fi_sub_attention := True\<rparr>)"

definition fm7_read_status :: "fm7_interrupts \<Rightarrow> u8 \<times> fm7_interrupts" where
  "fm7_read_status s =
     (let value = 0xFF :: u8;
          value = (if fi_keyboard_pending s then value AND NOT IRQ_STATUS_KEYBOARD else value);
          value = (if fi_printer_pending s then value AND NOT IRQ_STATUS_PRINTER else value);
          value = (if fi_timer_pending s then value AND NOT IRQ_STATUS_TIMER else value);
          value = (if fi_fdc_pending s \<or> fi_opn_pending s then value AND NOT IRQ_STATUS_EXTERNAL
                   else value)
      in (value, fm7_sync_irq_line (s\<lparr>fi_timer_pending := False, fi_printer_pending := False\<rparr>)))"

definition fm7_read_firq_status :: "fm7_interrupts \<Rightarrow> u8 \<times> fm7_interrupts" where
  "fm7_read_firq_status s =
     (let value = 0xFF :: u8;
          value = (if fi_sub_attention s then value AND NOT FIRQ_STATUS_SUB_ATTENTION else value);
          value = (if fi_break_pending s then value AND NOT FIRQ_STATUS_BREAK else value)
      in (value, fm7_sync_firq_line (s\<lparr>fi_sub_attention := False\<rparr>)))"

section \<open>The cached lines are the lines\<close>

definition fm7_lines_ok :: "fm7_interrupts \<Rightarrow> bool" where
  "fm7_lines_ok s \<longleftrightarrow> fi_irq_line s = fm7_irq_line s \<and> fi_firq_line s = fm7_firq_line s"

lemmas fm7_line_defs = fm7_irq_line_def fm7_firq_line_def fm7_irq_enabled_def

lemma fm7_sync_lines:
  "fm7_sync_irq_line s = s\<lparr>fi_irq_line := fm7_irq_line s\<rparr>"
  "fm7_sync_firq_line s = s\<lparr>fi_firq_line := fm7_firq_line s\<rparr>"
  by (auto simp: fm7_sync_irq_line_def fm7_sync_firq_line_def Let_def)

lemmas fm7_source_defs = fm7_write_mask_def fm7_set_timer_pending_def fm7_set_fdc_pending_def
  fm7_set_keyboard_pending_def fm7_set_opn_pending_def fm7_set_break_def fm7_ack_timer_def
  fm7_raise_sub_attention_def fm7_read_status_def fm7_read_firq_status_def

lemma fm7_lines_new: "fm7_lines_ok fm7_interrupts_new"
  by (simp add: fm7_lines_ok_def fm7_interrupts_new_def fm7_line_defs)

lemma fm7_lines_kept:
  assumes "fm7_lines_ok s"
  shows "fm7_lines_ok (fm7_write_mask v s)" "fm7_lines_ok (fm7_set_timer_pending b s)"
    "fm7_lines_ok (fm7_set_fdc_pending b s)" "fm7_lines_ok (fm7_set_keyboard_pending b s)"
    "fm7_lines_ok (fm7_set_opn_pending b s)" "fm7_lines_ok (fm7_set_break b s)"
    "fm7_lines_ok (fm7_ack_timer s)" "fm7_lines_ok (fm7_raise_sub_attention s)"
    "fm7_lines_ok (snd (fm7_read_status s))" "fm7_lines_ok (snd (fm7_read_firq_status s))"
  using assms by (simp_all add: fm7_source_defs Let_def fm7_sync_lines fm7_lines_ok_def fm7_line_defs)

text \<open>
  The status register shows every source, masked or not, active low; reading it acknowledges
  the timer and the printer and leaves the other sources to assert the line.
\<close>

lemma fm7_status_bits:
  "bit (fst (fm7_read_status s)) 0 \<longleftrightarrow> \<not> fi_keyboard_pending s"
  "bit (fst (fm7_read_status s)) 1 \<longleftrightarrow> \<not> fi_printer_pending s"
  "bit (fst (fm7_read_status s)) 2 \<longleftrightarrow> \<not> fi_timer_pending s"
  "bit (fst (fm7_read_status s)) 3 \<longleftrightarrow> \<not> (fi_fdc_pending s \<or> fi_opn_pending s)"
  by (simp_all add: fm7_read_status_def Let_def fm7_irq_masks)

lemma fm7_status_acknowledges:
  "fm7_irq_line (snd (fm7_read_status s)) \<longleftrightarrow>
     fi_keyboard_pending s \<and> fm7_irq_enabled IRQ_MASK_KEYBOARD s
     \<or> fi_fdc_pending s \<and> fm7_irq_enabled IRQ_MASK_FDC s \<or> fi_opn_pending s"
  by (simp add: fm7_read_status_def Let_def fm7_sync_lines fm7_line_defs)

end
