(* ===== verification/Fm7_Bus.thy ===== *)
theory Fm7_Bus
  imports Fm7_Memory_Properties Fm7_Interrupts
begin

text \<open>
  The bus of the FM-7's main processor: the parts of \<open>crates/machine_fm7/src/bus.rs\<close> and
  \<open>bus/main_io.rs\<close> that decode its address space, charge its wait cycles, run its clocks and
  connect its interrupts, and the adapter \<open>MainBusView\<close> that offers them to the core.

  The devices behind the I/O page (keyboard, cassette, floppy, sound, kanji ROM, video) and the
  address space of the display processor are not modelled: their state is \<open>'d\<close> and their
  operations are the functions of \<open>fm7_devices\<close>, arguments of the definitions. Their types say what
  the code gives them to work on: themselves, the handshake with the display processor
  and the interrupt sources, but neither the main memory nor the wait account. Every theorem
  holds for all of them.

  A panic of the code (an index outside an array) is \<open>None\<close> in every access. The interface of the
  core has no room for it, so the adapter records it in \<open>fb_panicked\<close>, a field that the code does
  not have and that nothing clears.
\<close>

section \<open>State\<close>

text \<open>The shared RAM is an array of 128 bytes; the type keeps its length, as in the code.\<close>

typedef shared_ram = "{bytes :: u8 list. length bytes = 128}"
  morphisms shared_bytes Shared_Ram
  by (rule exI [of _ "replicate 128 0"]) simp

definition shared_ram_new :: shared_ram where
  "shared_ram_new = Shared_Ram (replicate 128 0)"

definition shared_ram_update :: "nat \<Rightarrow> u8 \<Rightarrow> shared_ram \<Rightarrow> shared_ram" where
  "shared_ram_update i v ram = Shared_Ram ((shared_bytes ram)[i := v])"

lemma shared_ram_length [simp]: "length (shared_bytes ram) = 128"
  using shared_bytes [of ram] by simp

lemma shared_ram_bytes [simp]:
  "shared_bytes shared_ram_new = replicate 128 0"
  "shared_bytes (shared_ram_update i v ram) = (shared_bytes ram)[i := v]"
  by (simp_all add: shared_ram_new_def shared_ram_update_def Shared_Ram_inverse)

text \<open>What the two processors share.\<close>

record fm7_sub =
  fs_shared_ram :: shared_ram
  fs_clock_credit :: u64
  fs_clock_hz :: u32
  fs_cycle_steal_enabled :: bool
  fs_vram_access_flag :: bool
  fs_halt_requested :: bool
  fs_halted :: bool
  fs_busy :: bool
  fs_cancel_request :: bool

type_synonym 'd fm7_side = "'d \<times> fm7_sub \<times> fm7_interrupts"

record 'd fm7_bus =
  fb_model :: fm7_model
  fb_boot_mode :: boot_mode
  fb_main_clock_hz :: u32
  fb_memory :: fm7_memory
  fb_current_cycle :: u64
  fb_wait_cycles :: int
  fb_clock_fast :: bool
  fb_clock_reanchor_pending :: bool
  fb_io_wait_counter :: u8
  fb_io_wait_long_phase :: bool
  fb_sub :: fm7_sub
  fb_interrupts :: fm7_interrupts
  fb_devices :: 'd
  fb_panicked :: bool

text \<open>The cycle and the clock that a device sees.\<close>

type_synonym fm7_context = "u64 \<times> u32"

record 'd fm7_devices =
  dev_keycode_high :: "'d \<Rightarrow> bool"
  dev_keyboard_low :: "'d \<Rightarrow> u8 \<times> 'd"
  dev_port_read :: "u8 \<Rightarrow> fm7_context \<Rightarrow> 'd fm7_side \<Rightarrow> u8 \<times> 'd fm7_side"
  dev_port_write :: "u8 \<Rightarrow> u8 \<Rightarrow> fm7_context \<Rightarrow> 'd fm7_side \<Rightarrow> 'd fm7_side"
  dev_sub_read :: "u16 \<Rightarrow> fm7_context \<Rightarrow> 'd fm7_side \<Rightarrow> u8 \<times> 'd fm7_side"
  dev_sub_write :: "u16 \<Rightarrow> u8 \<Rightarrow> fm7_context \<Rightarrow> 'd fm7_side \<Rightarrow> 'd fm7_side"

section \<open>Clocks\<close>

definition fm7_has_mmr :: "fm7_model \<Rightarrow> bool" where
  "fm7_has_mmr model = (case model of Fm7 \<Rightarrow> False | Fm77Av \<Rightarrow> True)"

definition fm7_main_clock_hz :: "fm7_model \<Rightarrow> u32" where
  "fm7_main_clock_hz model = 1798000"

definition fm7_main_clock_slow_hz :: "fm7_model \<Rightarrow> u32" where
  "fm7_main_clock_slow_hz model = 1095000"

definition fm7_main_clock_mmr_hz :: "fm7_model \<Rightarrow> u32" where
  "fm7_main_clock_mmr_hz model = (case model of Fm7 \<Rightarrow> 1798000 | Fm77Av \<Rightarrow> 1565000)"

definition fm7_sub_clock_hz :: "fm7_model \<Rightarrow> u32" where
  "fm7_sub_clock_hz model = 2000000"

definition fm7_sub_clock_slow_hz :: "fm7_model \<Rightarrow> u32" where
  "fm7_sub_clock_slow_hz model = 999000"

definition fm7_cycle_steal_default :: "fm7_model \<Rightarrow> bool" where
  "fm7_cycle_steal_default model = (case model of Fm7 \<Rightarrow> False | Fm77Av \<Rightarrow> True)"

definition VRAM_CONTENTION_DIVISOR :: u32 where "VRAM_CONTENTION_DIVISOR = 3"

definition fm7_cpu_clock_hz :: "'d fm7_bus \<Rightarrow> u32" where
  "fm7_cpu_clock_hz s =
     (if fb_clock_fast s then
        (if fm7_has_mmr (fb_model s) \<and> fm7_mmr_translation_active (fb_memory s)
         then fm7_main_clock_mmr_hz (fb_model s) else fb_main_clock_hz s)
      else fm7_main_clock_slow_hz (fb_model s))"

definition fm7_note_main_clock_change :: "'d fm7_bus \<Rightarrow> 'd fm7_bus" where
  "fm7_note_main_clock_change s =
     s\<lparr>fb_sub := (fb_sub s)\<lparr>fs_clock_credit := 0\<rparr>, fb_clock_reanchor_pending := True\<rparr>"

definition fm7_bus_write_mmr_control :: "u8 \<Rightarrow> 'd fm7_bus \<Rightarrow> 'd fm7_bus" where
  "fm7_bus_write_mmr_control value s =
     (let before = fm7_cpu_clock_hz s;
          s = s\<lparr>fb_memory := fm7_write_mmr_control value (fb_memory s)\<rparr>
      in if fm7_cpu_clock_hz s \<noteq> before then fm7_note_main_clock_change s else s)"

definition fm7_take_clock_reanchor :: "'d fm7_bus \<Rightarrow> bool \<times> 'd fm7_bus" where
  "fm7_take_clock_reanchor s = (fb_clock_reanchor_pending s, s\<lparr>fb_clock_reanchor_pending := False\<rparr>)"

text \<open>The intermediate results of the code are 128 bits wide and cannot overflow.\<close>

definition fm7_sub_cycles_for_main_units :: "u64 \<Rightarrow> 'd fm7_bus \<Rightarrow> u64 \<times> 'd fm7_bus" where
  "fm7_sub_cycles_for_main_units main_units s =
     (let main_hz = unat (max (fm7_cpu_clock_hz s) 1);
          total = unat (fs_clock_credit (fb_sub s)) + unat main_units * unat (fs_clock_hz (fb_sub s));
          sub_cycles = total div main_hz;
          s = s\<lparr>fb_sub := (fb_sub s)\<lparr>fs_clock_credit := word_of_nat (total mod main_hz)\<rparr>\<rparr>
      in (if sub_cycles < 2 ^ 64 then word_of_nat sub_cycles else - 1, s))"

definition fm7_update_sub_clock :: "'d fm7_bus \<Rightarrow> 'd fm7_bus" where
  "fm7_update_sub_clock s =
     (let base = (if fb_clock_fast s then fm7_sub_clock_hz (fb_model s)
                  else fm7_sub_clock_slow_hz (fb_model s));
          effective = (if \<not> fs_cycle_steal_enabled (fb_sub s) \<and> fs_vram_access_flag (fb_sub s)
                       then max (base div VRAM_CONTENTION_DIVISOR) 1 else base)
      in if effective \<noteq> fs_clock_hz (fb_sub s)
         then s\<lparr>fb_sub := (fb_sub s)\<lparr>fs_clock_hz := effective, fs_clock_credit := 0\<rparr>\<rparr> else s)"

definition fm7_set_vram_access_flag :: "bool \<Rightarrow> 'd fm7_bus \<Rightarrow> 'd fm7_bus" where
  "fm7_set_vram_access_flag active s =
     fm7_update_sub_clock (s\<lparr>fb_sub := (fb_sub s)\<lparr>fs_vram_access_flag := active\<rparr>\<rparr>)"

definition fm7_set_cycle_steal :: "bool \<Rightarrow> 'd fm7_bus \<Rightarrow> 'd fm7_bus" where
  "fm7_set_cycle_steal enabled s =
     fm7_update_sub_clock (s\<lparr>fb_sub := (fb_sub s)\<lparr>fs_cycle_steal_enabled := enabled\<rparr>\<rparr>)"

section \<open>Wait cycles\<close>

definition fm7_charges_io_wait :: "u16 \<Rightarrow> bool" where
  "fm7_charges_io_wait address \<longleftrightarrow>
     0xFD00 \<le> address \<and> address \<le> 0xFDFF \<or> 0xFFE0 \<le> address \<and> address \<le> 0xFFFF"

definition fm7_charge_main_access_wait :: "u16 \<Rightarrow> 'd fm7_bus \<Rightarrow> 'd fm7_bus" where
  "fm7_charge_main_access_wait address s =
     (if \<not> fb_clock_fast s \<or> \<not> fm7_charges_io_wait address then s
      else
        let period = (if fm7_mmr_translation_active (fb_memory s) \<and> fb_io_wait_long_phase s
                      then 3 else 2);
            s = s\<lparr>fb_io_wait_counter := fb_io_wait_counter s + 1\<rparr>
        in if fb_io_wait_counter s \<ge> period
           then s\<lparr>fb_wait_cycles := fb_wait_cycles s + 1, fb_io_wait_counter := 0,
                  fb_io_wait_long_phase := \<not> fb_io_wait_long_phase s\<rparr>
           else s)"

section \<open>The I/O page\<close>

definition fm7_context :: "'d fm7_bus \<Rightarrow> fm7_context" where
  "fm7_context s = (fb_current_cycle s, fm7_cpu_clock_hz s)"

definition fm7_side :: "'d fm7_bus \<Rightarrow> 'd fm7_side" where
  "fm7_side s = (fb_devices s, fb_sub s, fb_interrupts s)"

definition fm7_set_side :: "'d fm7_side \<Rightarrow> 'd fm7_bus \<Rightarrow> 'd fm7_bus" where
  "fm7_set_side side s =
     (let (d, b, i) = side in s\<lparr>fb_devices := d, fb_sub := b, fb_interrupts := i\<rparr>)"

definition fm7_device_read ::
  "(fm7_context \<Rightarrow> 'd fm7_side \<Rightarrow> u8 \<times> 'd fm7_side) \<Rightarrow> 'd fm7_bus \<Rightarrow> u8 \<times> 'd fm7_bus" where
  "fm7_device_read f s = (let (value, side) = f (fm7_context s) (fm7_side s) in (value, fm7_set_side side s))"

definition fm7_device_write ::
  "(fm7_context \<Rightarrow> 'd fm7_side \<Rightarrow> 'd fm7_side) \<Rightarrow> 'd fm7_bus \<Rightarrow> 'd fm7_bus" where
  "fm7_device_write f s = fm7_set_side (f (fm7_context s) (fm7_side s)) s"

definition fm7_sub_busy_bit :: "'d fm7_bus \<Rightarrow> u8" where
  "fm7_sub_busy_bit s = (if fs_busy (fb_sub s) then 0x80 else 0)"

definition fm7_read_av_boot_mode :: "'d fm7_bus \<Rightarrow> u8" where
  "fm7_read_av_boot_mode s = (case fb_boot_mode s of BootBasic \<Rightarrow> 0xFE | BootDos \<Rightarrow> 0xFF)"

definition fm7_av_io_read :: "'d fm7_devices \<Rightarrow> u8 \<Rightarrow> 'd fm7_bus \<Rightarrow> (u8 option \<times> 'd fm7_bus) option" where
  "fm7_av_io_read dev port s =
     (if \<not> fm7_has_mmr (fb_model s) then Some (None, s)
      else if port = 0x0B then Some (Some (fm7_read_av_boot_mode s), s)
      else if port = 0x12 \<or> port = 0x16 \<or> port = 0x17
      then Some (apfst Some (fm7_device_read (dev_port_read dev port) s))
      else if 0x80 \<le> port \<and> port \<le> 0x8F
      then map_option (\<lambda>value. (Some value, s)) (fm7_read_mmr_page_register (fb_memory s) (port - 0x80))
      else if port = 0x93 then Some (Some (fm7_read_mmr_control (fb_memory s)), s)
      else Some (None, s))"

definition fm7_main_io_read ::
  "'d fm7_devices \<Rightarrow> u8 \<Rightarrow> 'd fm7_bus \<Rightarrow> ((u8 \<times> bool) \<times> 'd fm7_bus) option" where
  "fm7_main_io_read dev port s =
     (if port = 0x00 then
        Some ((0x7E OR (if fb_clock_fast s then 0x01 else 0)
               OR (if dev_keycode_high dev (fb_devices s) then 0x80 else 0), True), s)
      else if port = 0x01 then
        (let (value, d) = dev_keyboard_low dev (fb_devices s);
             s = s\<lparr>fb_devices := d\<rparr>
         in Some ((value, True), s\<lparr>fb_interrupts := fm7_set_keyboard_pending False (fb_interrupts s)\<rparr>))
      else if port = 0x03 then
        (let (value, i) = fm7_read_status (fb_interrupts s) in Some ((value, True), s\<lparr>fb_interrupts := i\<rparr>))
      else if port = 0x04 then
        (let (status, i) = fm7_read_firq_status (fb_interrupts s); s = s\<lparr>fb_interrupts := i\<rparr>
         in Some (((status AND NOT 0x80) OR fm7_sub_busy_bit s, True), s))
      else if port = 0x05 then Some ((0x7E OR fm7_sub_busy_bit s, True), s)
      else if port = 0x0F then Some ((FM7_OPEN_BUS, True), s\<lparr>fb_memory := fm7_map_rom (fb_memory s)\<rparr>)
      else if port = 0x02 \<or> port = 0x0E \<or> 0x18 \<le> port \<and> port \<le> 0x1F \<or> port = 0x22 \<or> port = 0x23
              \<or> 0x38 \<le> port \<and> port \<le> 0x3F
      then (let (value, s) = fm7_device_read (dev_port_read dev port) s in Some ((value, True), s))
      else map_option (\<lambda>(result, s). (case result of Some value \<Rightarrow> (value, True)
             | None \<Rightarrow> (FM7_OPEN_BUS, False), s)) (fm7_av_io_read dev port s))"

definition fm7_av_io_write ::
  "'d fm7_devices \<Rightarrow> u8 \<Rightarrow> u8 \<Rightarrow> 'd fm7_bus \<Rightarrow> (bool \<times> 'd fm7_bus) option" where
  "fm7_av_io_write dev port value s =
     (if \<not> fm7_has_mmr (fb_model s) then Some (False, s)
      else if port = 0x10 then
        Some (True, s\<lparr>fb_memory := fm7_set_initiator_enabled (value AND 0x02 = 0) (fb_memory s)\<rparr>)
      else if port = 0x12 \<or> 0x30 \<le> port \<and> port \<le> 0x34 \<or> port = 0x13 \<or> port = 0x15 \<or> port = 0x16
              \<or> port = 0x17
      then Some (True, fm7_device_write (dev_port_write dev port value) s)
      else if 0x80 \<le> port \<and> port \<le> 0x8F then
        map_option (\<lambda>m. (True, s\<lparr>fb_memory := m\<rparr>))
          (fm7_write_mmr_page_register (port - 0x80) value (fb_memory s))
      else if port = 0x90 then Some (True, s\<lparr>fb_memory := fm7_set_mmr_segment value (fb_memory s)\<rparr>)
      else if port = 0x92
      then Some (True, s\<lparr>fb_memory := fm7_set_mmr_window_offset value (fb_memory s)\<rparr>)
      else if port = 0x93 then Some (True, fm7_bus_write_mmr_control value s)
      else Some (False, s))"

definition fm7_write_sub_control :: "u8 \<Rightarrow> 'd fm7_bus \<Rightarrow> 'd fm7_bus" where
  "fm7_write_sub_control value s =
     (let s = s\<lparr>fb_sub := (fb_sub s)\<lparr>fs_halt_requested := (value AND 0x80 \<noteq> 0)\<rparr>\<rparr>
      in if value AND 0x40 \<noteq> 0 then s\<lparr>fb_sub := (fb_sub s)\<lparr>fs_cancel_request := True\<rparr>\<rparr> else s)"

definition fm7_main_io_write ::
  "'d fm7_devices \<Rightarrow> u8 \<Rightarrow> u8 \<Rightarrow> 'd fm7_bus \<Rightarrow> (bool \<times> 'd fm7_bus) option" where
  "fm7_main_io_write dev port value s =
     (if port = 0x01 \<or> port = 0x04 then Some (True, s)
      else if port = 0x02
      then Some (True, s\<lparr>fb_interrupts := fm7_write_mask value (fb_interrupts s)\<rparr>)
      else if port = 0x05 then Some (True, fm7_write_sub_control value s)
      else if port = 0x0F then Some (True, s\<lparr>fb_memory := fm7_map_ram (fb_memory s)\<rparr>)
      else if port = 0x00 \<or> port = 0x03 \<or> port = 0x0D \<or> port = 0x0E \<or> 0x18 \<le> port \<and> port \<le> 0x1F
              \<or> port = 0x20 \<or> port = 0x21 \<or> port = 0x37 \<or> 0x38 \<le> port \<and> port \<le> 0x3F
      then Some (True, fm7_device_write (dev_port_write dev port value) s)
      else fm7_av_io_write dev port value s)"

section \<open>Reads and writes\<close>

definition fm7_shared_ram_byte :: "u8 \<Rightarrow> fm7_sub \<Rightarrow> u8 option" where
  "fm7_shared_ram_byte index b = list_get (shared_bytes (fs_shared_ram b)) (unat index AND (128 - 1))"

definition fm7_set_shared_ram_byte :: "u8 \<Rightarrow> u8 \<Rightarrow> fm7_sub \<Rightarrow> fm7_sub option" where
  "fm7_set_shared_ram_byte index value b =
     (let i = unat index AND (128 - 1)
      in if i < length (shared_bytes (fs_shared_ram b))
         then Some (b\<lparr>fs_shared_ram := shared_ram_update i value (fs_shared_ram b)\<rparr>) else None)"

definition fm7_read_byte ::
  "'d fm7_devices \<Rightarrow> u16 \<Rightarrow> 'd fm7_bus \<Rightarrow> ((u8 \<times> bool) \<times> 'd fm7_bus) option" where
  "fm7_read_byte dev address s =
     (let s = fm7_charge_main_access_wait address s in
      if 0xFD00 \<le> address \<and> address \<le> 0xFDFF
      then fm7_main_io_read dev (ucast (address AND 0x00FF)) s
      else if 0xFC80 \<le> address \<and> address \<le> 0xFCFF then
        (if fs_halted (fb_sub s)
         then map_option (\<lambda>value. ((value, True), s))
                (fm7_shared_ram_byte (ucast (address AND 0x007F)) (fb_sub s))
         else Some ((FM7_OPEN_BUS, True), s))
      else
        Option.bind (fm7_direct_vram_target (fb_memory s) address) (\<lambda>target. case target of
          Some sub_address \<Rightarrow>
            (if fs_halted (fb_sub s)
             then (let (value, s) = fm7_device_read (dev_sub_read dev sub_address) s in Some ((value, True), s))
             else Some ((FM7_OPEN_BUS, True), s))
        | None \<Rightarrow> map_option (\<lambda>value. ((value, True), s)) (fm7_memory_read (fb_memory s) address)))"

definition fm7_write_byte ::
  "'d fm7_devices \<Rightarrow> u16 \<Rightarrow> u8 \<Rightarrow> 'd fm7_bus \<Rightarrow> (bool \<times> 'd fm7_bus) option" where
  "fm7_write_byte dev address value s =
     (let s = fm7_charge_main_access_wait address s in
      if 0xFD00 \<le> address \<and> address \<le> 0xFDFF
      then fm7_main_io_write dev (ucast (address AND 0x00FF)) value s
      else if 0xFC80 \<le> address \<and> address \<le> 0xFCFF then
        (if fs_halted (fb_sub s)
         then map_option (\<lambda>b. (True, s\<lparr>fb_sub := b\<rparr>))
                (fm7_set_shared_ram_byte (ucast (address AND 0x007F)) value (fb_sub s))
         else Some (True, s))
      else
        Option.bind (fm7_direct_vram_target (fb_memory s) address) (\<lambda>target. case target of
          Some sub_address \<Rightarrow>
            Some (True, if fs_halted (fb_sub s)
                        then fm7_device_write (dev_sub_write dev sub_address value) s else s)
        | None \<Rightarrow> map_option (\<lambda>m. (True, s\<lparr>fb_memory := m\<rparr>)) (fm7_memory_write address value (fb_memory s))))"

section \<open>Creation and the adapter of the processor\<close>

definition fm7_sub_new :: "fm7_model \<Rightarrow> fm7_sub" where
  "fm7_sub_new model =
     \<lparr> fs_shared_ram = shared_ram_new, fs_clock_credit = 0, fs_clock_hz = fm7_sub_clock_hz model,
       fs_cycle_steal_enabled = fm7_cycle_steal_default model, fs_vram_access_flag = False,
       fs_halt_requested = False, fs_halted = False, fs_busy = False, fs_cancel_request = False \<rparr>"

definition fm7_bus_new :: "fm7_model \<Rightarrow> boot_mode \<Rightarrow> 'd \<Rightarrow> 'd fm7_bus" where
  "fm7_bus_new model mode d =
     \<lparr> fb_model = model, fb_boot_mode = mode, fb_main_clock_hz = fm7_main_clock_hz model,
       fb_memory = fm7_memory_empty model mode, fb_current_cycle = 0, fb_wait_cycles = 0,
       fb_clock_fast = True, fb_clock_reanchor_pending = False, fb_io_wait_counter = 0,
       fb_io_wait_long_phase = False, fb_sub = fm7_sub_new model,
       fb_interrupts = fm7_interrupts_new, fb_devices = d, fb_panicked = False \<rparr>"

text \<open>The ROMs of the display processor and the kanji ROM go to the devices.\<close>

definition fm7_load_roms :: "('d \<Rightarrow> 'd) \<Rightarrow> fm7_roms \<Rightarrow> 'd fm7_bus \<Rightarrow> 'd fm7_bus" where
  "fm7_load_roms install roms s =
     s\<lparr>fb_memory := fm7_memory_new roms (fb_boot_mode s), fb_devices := install (fb_devices s)\<rparr>"

text \<open>A panicking access, as the core would see it, and the record of it.\<close>

definition fm7_view_read :: "'d fm7_devices \<Rightarrow> u32 \<Rightarrow> 'd fm7_bus \<Rightarrow> u8 \<times> 'd fm7_bus" where
  "fm7_view_read dev address s =
     (case fm7_read_byte dev (ucast address) s of
        Some ((value, handled), s) \<Rightarrow> (value, s) | None \<Rightarrow> (0, s\<lparr>fb_panicked := True\<rparr>))"

definition fm7_view_write :: "'d fm7_devices \<Rightarrow> u32 \<Rightarrow> u8 \<Rightarrow> 'd fm7_bus \<Rightarrow> 'd fm7_bus" where
  "fm7_view_write dev address value s =
     (case fm7_write_byte dev (ucast address) value s of
        Some (handled, s) \<Rightarrow> s | None \<Rightarrow> s\<lparr>fb_panicked := True\<rparr>)"

text \<open>\<open>MainBusView\<close>, with the default bodies of the trait where it has no method.\<close>

definition fm7_main_view :: "'d fm7_devices \<Rightarrow> 'd fm7_bus bus_ops" where
  "fm7_main_view dev =
     \<lparr> bus_read_byte = fm7_view_read dev, bus_write_byte = fm7_view_write dev,
       bus_io_read_byte = (\<lambda>port s. (0xFF, s)),
       bus_io_write_byte = (\<lambda>port value s. s),
       bus_has_irq = (\<lambda>s. fm7_irq_line (fb_interrupts s)),
       bus_acknowledge_irq = (\<lambda>s. (0, s)),
       bus_acknowledge_firq = (\<lambda>s. s),
       bus_has_nmi = (\<lambda>s. False),
       bus_acknowledge_nmi = (\<lambda>s. s),
       bus_notify_reti = (\<lambda>s. s),
       bus_current_cycle = fb_current_cycle,
       bus_set_current_cycle = (\<lambda>cycle s. s\<lparr>fb_current_cycle := cycle\<rparr>),
       bus_drain_wait_cycles = (\<lambda>s. (fb_wait_cycles s, s\<lparr>fb_wait_cycles := 0\<rparr>)),
       bus_on_instruction_end = (\<lambda>s. s),
       bus_fetch_opcode_byte = fm7_view_read dev,
       bus_reset_pending = (\<lambda>s. False),
       bus_cpu_should_yield = (\<lambda>s. False) \<rparr>"

text \<open>The sub-processor side of the handshake.\<close>

definition fm7_set_sub_halted :: "bool \<Rightarrow> 'd fm7_bus \<Rightarrow> 'd fm7_bus" where
  "fm7_set_sub_halted halted s =
     (let s = s\<lparr>fb_sub := (fb_sub s)\<lparr>fs_halted := halted\<rparr>\<rparr>
      in if halted then s\<lparr>fb_sub := (fb_sub s)\<lparr>fs_busy := True\<rparr>\<rparr> else s)"

definition fm7_handshake_active :: "'d fm7_bus \<Rightarrow> bool" where
  "fm7_handshake_active s \<longleftrightarrow> fs_halt_requested (fb_sub s) \<or> fs_cancel_request (fb_sub s)"

end
