(* ===== verification/M6809_Stack.thy ===== *)
theory M6809_Stack
  imports M6809_Progress
begin

text \<open>
  The MC6809 core with its stack in a window of memory: what it pushes it pulls. PSHS and PULS
  with one mask restore the registers of the mask, and an interrupt whose handler returns at
  once gives the interrupted program every register back.
\<close>

section \<open>Bytes on a stack\<close>

primrec holds :: "(u16 \<Rightarrow> u8) \<Rightarrow> u16 \<Rightarrow> u8 list \<Rightarrow> bool" where
  "holds M sp [] \<longleftrightarrow> True"
| "holds M sp (v # vs) \<longleftrightarrow> M sp = v \<and> holds M (sp + 1) vs"

lemma holds_nth: "holds M sp vs \<longleftrightarrow> (\<forall>i < length vs. M (sp + word_of_nat i) = vs ! i)"
proof (induction vs arbitrary: sp)
  case (Cons v vs)
  show ?case
    by (auto simp: Cons less_Suc_eq_0_disj add.assoc)
qed simp

lemma holds_append: "holds M sp (vs @ ws) \<longleftrightarrow> holds M sp vs \<and> holds M (sp + word_of_nat (length vs)) ws"
  by (induction vs arbitrary: sp) (simp_all add: add.assoc add.commute)

lemma holds_push:
  assumes "holds M sp vs" "length vs < 65536"
  shows "holds (M(sp - 1 := v)) (sp - 1) (v # vs)"
proof -
  have "sp + word_of_nat i \<noteq> sp - 1" if "i < length vs" for i
  proof
    assume "sp + word_of_nat i = sp - 1"
    then have "word_of_nat i = (- 1 :: u16)" by (simp only: diff_conv_add_uminus add_left_cancel)
    then have "unat (word_of_nat i :: u16) = 65535" by (simp add: unsigned_minus_1_eq_mask mask_numeral)
    moreover have "unat (word_of_nat i :: u16) = i"
      using that assms(2) by (simp add: unsigned_of_nat take_bit_nat_eq_self)
    ultimately show False using that assms(2) by simp
  qed
  then have "holds (M(sp - 1 := v)) sp vs" using assms(1) by (simp add: holds_nth)
  then show ?thesis by simp
qed

text \<open>The bytes that a mask selects, from the lowest address on.\<close>

definition m6809_frame :: "bool \<Rightarrow> u8 \<Rightarrow> 'b m6809 \<Rightarrow> u8 list" where
  "m6809_frame hardware k s =
     (if k AND 0x01 \<noteq> 0 then [m6809_compress (m_flags s)] else [])
     @ (if k AND 0x02 \<noteq> 0 then [m_a s] else []) @ (if k AND 0x04 \<noteq> 0 then [m_b s] else [])
     @ (if k AND 0x08 \<noteq> 0 then [m_dp s] else [])
     @ (if k AND 0x10 \<noteq> 0 then [hi8 (m_x s), lo8 (m_x s)] else [])
     @ (if k AND 0x20 \<noteq> 0 then [hi8 (m_y s), lo8 (m_y s)] else [])
     @ (if k AND 0x40 \<noteq> 0 then (let w = if hardware then m_u s else m_s s in [hi8 w, lo8 w]) else [])
     @ (if k AND 0x80 \<noteq> 0 then [hi8 (m_pc s), lo8 (m_pc s)] else [])"

lemma m6809_frame_length: "length (m6809_frame h k s) \<le> 12"
  by (simp add: m6809_frame_def Let_def)

text \<open>The registers \<open>r\<close> after a load of those that a mask selects from the registers of \<open>s\<close>.\<close>

definition m6809_reload :: "bool \<Rightarrow> u8 \<Rightarrow> 'b m6809 \<Rightarrow> m6809_state \<Rightarrow> m6809_state" where
  "m6809_reload h k s r =
     (let r = (if k AND 0x01 \<noteq> 0 then r\<lparr>m_flags := m_flags s\<rparr> else r);
          r = (if k AND 0x02 \<noteq> 0 then r\<lparr>m_a := m_a s\<rparr> else r);
          r = (if k AND 0x04 \<noteq> 0 then r\<lparr>m_b := m_b s\<rparr> else r);
          r = (if k AND 0x08 \<noteq> 0 then r\<lparr>m_dp := m_dp s\<rparr> else r);
          r = (if k AND 0x10 \<noteq> 0 then r\<lparr>m_x := m_x s\<rparr> else r);
          r = (if k AND 0x20 \<noteq> 0 then r\<lparr>m_y := m_y s\<rparr> else r);
          r = (if k AND 0x40 \<noteq> 0 then (if h then r\<lparr>m_u := m_u s\<rparr> else r\<lparr>m_s := m_s s, m_nmi_armed := True\<rparr>) else r);
          r = (if k AND 0x80 \<noteq> 0 then r\<lparr>m_pc := m_pc s\<rparr> else r)
      in r)"

section \<open>Pushing\<close>

text \<open>A state that differs in its bus and clock only.\<close>

definition m6809_moved :: "'b m6809 \<Rightarrow> 'b m6809 \<Rightarrow> bool" where
  "m6809_moved s t \<longleftrightarrow> m6809_capture_state t = m6809_capture_state s"

lemma m6809_moved_fields:
  assumes "m6809_moved s t"
  shows "m_a t = m_a s" "m_b t = m_b s" "m_x t = m_x s" "m_y t = m_y s" "m_s t = m_s s" "m_u t = m_u s"
    "m_pc t = m_pc s" "m_dp t = m_dp s" "m_flags t = m_flags s" "m_halted t = m_halted s"
    "m_pending_irq t = m_pending_irq s" "m_nmi_armed t = m_nmi_armed s"
    "m_cwai_waiting t = m_cwai_waiting s" "m_pending_extended_clear t = m_pending_extended_clear s"
  using assms by (simp_all add: m6809_moved_def m6809_capture_state_def m6809_state.defs)

lemma m6809_moved_access:
  "m6809_moved s (snd (m6809_read_byte io a s))" "m6809_moved s (m6809_write_byte io a v s)"
  "m6809_moved s (snd (m6809_push_byte io v (sp, s)))"
  by (simp_all add: m6809_moved_def m6809_read_byte_def m6809_write_byte_def m6809_push_byte_def
      m6809_clk_def case_prod_unfold Let_def m6809_capture_state_def m6809_state.defs)

lemma m6809_moved_trans: "m6809_moved s t \<Longrightarrow> m6809_moved t u \<Longrightarrow> m6809_moved s u"
  by (simp add: m6809_moved_def)

text \<open>The twelve bytes below a stack pointer, where a frame goes, and a memory equal elsewhere.\<close>

definition m6809_below :: "u16 \<Rightarrow> u16 set" where
  "m6809_below base = {base - word_of_nat n |n. 1 \<le> n \<and> n \<le> 12}"

definition m6809_elsewhere :: "u16 \<Rightarrow> (u16 \<Rightarrow> u8) \<Rightarrow> (u16 \<Rightarrow> u8) \<Rightarrow> bool" where
  "m6809_elsewhere base M N \<longleftrightarrow> (\<forall>a. a \<notin> m6809_below base \<longrightarrow> N a = M a)"

lemma m6809_elsewhere_write:
  "m6809_elsewhere base M N \<Longrightarrow> a \<in> m6809_below base \<Longrightarrow> m6809_elsewhere base M (N(a := v))"
  by (auto simp: m6809_elsewhere_def)

context ram_window begin

text \<open>
  A stack that has grown by the bytes \<open>vs\<close> below \<open>base\<close>, and whose room below \<open>base\<close> is in the window.
\<close>

definition m6809_grown :: "'b m6809 \<Rightarrow> u16 \<Rightarrow> u8 list \<Rightarrow> u16 \<times> 'b m6809 \<Rightarrow> bool" where
  "m6809_grown s base vs p \<longleftrightarrow>
     m6809_moved s (snd p) \<and> ok (m_bus (snd p)) \<and> fst p = base - word_of_nat (length vs)
     \<and> holds (peek (m_bus (snd p))) (fst p) vs \<and> length vs \<le> 12
     \<and> m6809_elsewhere base (peek (m_bus s)) (peek (m_bus (snd p)))"

lemma m6809_push_byte_grown:
  assumes "m6809_grown s base vs p" "length vs < 12" "\<And>n. n \<le> 12 \<Longrightarrow> base - word_of_nat n \<in> ram"
  shows "m6809_grown s base (v # vs) (m6809_push_byte io v p)"
proof -
  obtain sp t where p: "p = (sp, t)" by (cases p)
  have grown: "m6809_moved s t" "ok (m_bus t)" "sp = base - word_of_nat (length vs)"
      "holds (peek (m_bus t)) sp vs" "m6809_elsewhere base (peek (m_bus s)) (peek (m_bus t))"
    using assms(1) by (auto simp: m6809_grown_def p)
  have sp: "sp - 1 = base - word_of_nat (length (v # vs))"
    by (simp add: grown(3) algebra_simps)
  have "length (v # vs) \<le> 12" using assms(2) by simp
  then have ram: "sp - 1 \<in> ram" unfolding sp by (rule assms(3))
  let ?t = "m6809_write_byte io (sp - 1) v t"
  have "m_bus ?t = bus_write_byte io (ucast (sp - 1)) v (m_bus t)"
    by (simp add: m6809_write_byte_def m6809_clk_def)
  then have "ok (m_bus ?t)" and peek: "peek (m_bus ?t) = (peek (m_bus t))(sp - 1 := v)"
    using window_write_ok [OF grown(2) ram] window_write [OF grown(2) ram] by simp_all
  moreover have "holds (peek (m_bus ?t)) (sp - 1) (v # vs)"
    unfolding peek using grown(4) assms(2) by (intro holds_push) simp_all
  moreover have "m6809_moved s ?t"
    by (rule m6809_moved_trans [OF grown(1) m6809_moved_access(2)])
  moreover have "sp - 1 \<in> m6809_below base"
    unfolding sp m6809_below_def using assms(2) by fastforce
  then have "m6809_elsewhere base (peek (m_bus s)) (peek (m_bus ?t))"
    unfolding peek using grown(5) by (rule m6809_elsewhere_write [rotated])
  ultimately show ?thesis
    using sp \<open>length (v # vs) \<le> 12\<close>
    unfolding m6809_grown_def p m6809_push_byte_def Let_def case_prod_conv fst_conv snd_conv by blast
qed

lemma m6809_push_word_grown:
  assumes "m6809_grown s base vs p" "length vs < 11" "\<And>n. n \<le> 12 \<Longrightarrow> base - word_of_nat n \<in> ram"
  shows "m6809_grown s base (hi8 w # lo8 w # vs) (m6809_push_word io w p)"
proof -
  have "m6809_grown s base (lo8 w # vs) (m6809_push_byte io (lo8 w) p)"
    using assms by (intro m6809_push_byte_grown) auto
  then have "m6809_grown s base (hi8 w # lo8 w # vs)
      (m6809_push_byte io (hi8 w) (m6809_push_byte io (lo8 w) p))"
    using assms by (intro m6809_push_byte_grown) auto
  then show ?thesis by (simp add: m6809_push_word_def case_prod_unfold)
qed

lemma m6809_push_if_grown:
  assumes "m6809_grown s base vs p" "\<And>n. n \<le> 12 \<Longrightarrow> base - word_of_nat n \<in> ram"
  shows "length vs < 12 \<Longrightarrow> m6809_grown s base ((if c then [v] else []) @ vs)
      (if c then m6809_push_byte io v p else p)"
    "length vs < 11 \<Longrightarrow> m6809_grown s base ((if c then [hi8 w, lo8 w] else []) @ vs)
      (if c then m6809_push_word io w p else p)"
  using assms by (auto intro: m6809_push_byte_grown m6809_push_word_grown)

lemma m6809_push_registers_grown:
  assumes "ok (m_bus s)" and room: "\<And>n. n \<le> 12 \<Longrightarrow> m6809_stack_pointer h s - word_of_nat n \<in> ram"
  shows "\<exists>p. m6809_push_registers io h k s = m6809_set_stack_pointer h p
    \<and> m6809_grown s (m6809_stack_pointer h s) (m6809_frame h k s) p"
proof -
  let ?sp = "m6809_stack_pointer h s"
  note byte = m6809_push_if_grown(1) [OF _ room] and word = m6809_push_if_grown(2) [OF _ room]
  have p0: "m6809_grown s ?sp [] (?sp, s)"
    using assms(1) by (simp add: m6809_grown_def m6809_moved_def m6809_elsewhere_def)
  define p1 where "p1 = (if k AND 0x80 \<noteq> 0 then m6809_push_word io (m_pc s) (?sp, s) else (?sp, s))"
  define p2 where "p2 = (if k AND 0x40 \<noteq> 0 then m6809_push_word io (if h then m_u s else m_s s) p1 else p1)"
  define p3 where "p3 = (if k AND 0x20 \<noteq> 0 then m6809_push_word io (m_y s) p2 else p2)"
  define p4 where "p4 = (if k AND 0x10 \<noteq> 0 then m6809_push_word io (m_x s) p3 else p3)"
  define p5 where "p5 = (if k AND 0x08 \<noteq> 0 then m6809_push_byte io (m_dp s) p4 else p4)"
  define p6 where "p6 = (if k AND 0x04 \<noteq> 0 then m6809_push_byte io (m_b s) p5 else p5)"
  define p7 where "p7 = (if k AND 0x02 \<noteq> 0 then m6809_push_byte io (m_a s) p6 else p6)"
  define p8 where "p8 = (if k AND 0x01 \<noteq> 0 then m6809_push_byte io (m6809_compress (m_flags s)) p7 else p7)"
  note defs = p1_def p2_def p3_def p4_def p5_def p6_def p7_def p8_def
  define vs1 where "vs1 = (if k AND 0x80 \<noteq> 0 then [hi8 (m_pc s), lo8 (m_pc s)] else []) @ []"
  define vs2 where "vs2 = (if k AND 0x40 \<noteq> 0 then [hi8 (if h then m_u s else m_s s), lo8 (if h then m_u s else m_s s)] else []) @ vs1"
  define vs3 where "vs3 = (if k AND 0x20 \<noteq> 0 then [hi8 (m_y s), lo8 (m_y s)] else []) @ vs2"
  define vs4 where "vs4 = (if k AND 0x10 \<noteq> 0 then [hi8 (m_x s), lo8 (m_x s)] else []) @ vs3"
  define vs5 where "vs5 = (if k AND 0x08 \<noteq> 0 then [m_dp s] else []) @ vs4"
  define vs6 where "vs6 = (if k AND 0x04 \<noteq> 0 then [m_b s] else []) @ vs5"
  define vs7 where "vs7 = (if k AND 0x02 \<noteq> 0 then [m_a s] else []) @ vs6"
  define vs8 where "vs8 = (if k AND 0x01 \<noteq> 0 then [m6809_compress (m_flags s)] else []) @ vs7"
  note frames = vs1_def vs2_def vs3_def vs4_def vs5_def vs6_def vs7_def vs8_def
  have p1: "m6809_grown s ?sp vs1 p1" unfolding p1_def vs1_def by (rule word [OF p0]) (auto simp: frames)
  have p2: "m6809_grown s ?sp vs2 p2" unfolding p2_def vs2_def by (rule word [OF p1]) (auto simp: frames)
  have p3: "m6809_grown s ?sp vs3 p3" unfolding p3_def vs3_def by (rule word [OF p2]) (auto simp: frames)
  have p4: "m6809_grown s ?sp vs4 p4" unfolding p4_def vs4_def by (rule word [OF p3]) (auto simp: frames)
  have p5: "m6809_grown s ?sp vs5 p5" unfolding p5_def vs5_def by (rule byte [OF p4]) (auto simp: frames)
  have p6: "m6809_grown s ?sp vs6 p6" unfolding p6_def vs6_def by (rule byte [OF p5]) (auto simp: frames)
  have p7: "m6809_grown s ?sp vs7 p7" unfolding p7_def vs7_def by (rule byte [OF p6]) (auto simp: frames)
  have p8: "m6809_grown s ?sp vs8 p8" unfolding p8_def vs8_def by (rule byte [OF p7]) (auto simp: frames)
  have "m6809_push_registers io h k s = m6809_set_stack_pointer h p8"
    by (simp only: m6809_push_registers_def Let_def defs)
  moreover have "vs8 = m6809_frame h k s"
    by (simp only: m6809_frame_def Let_def frames append_Nil2)
  ultimately show ?thesis using p8 by blast
qed

text \<open>
  A stack on which the bytes \<open>vs\<close> are left below \<open>base\<close>, in a memory \<open>M\<close>, with the registers \<open>r\<close>
  as loaded so far.
\<close>

definition m6809_left ::
  "(u16 \<Rightarrow> u8) \<Rightarrow> u16 \<Rightarrow> u8 list \<Rightarrow> m6809_state \<Rightarrow> u16 \<times> 'b m6809 \<Rightarrow> bool" where
  "m6809_left M base vs r p \<longleftrightarrow>
     ok (m_bus (snd p)) \<and> peek (m_bus (snd p)) = M \<and> holds M (fst p) vs
     \<and> fst p = base - word_of_nat (length vs) \<and> length vs \<le> 12 \<and> m6809_capture_state (snd p) = r"

lemma m6809_pull_byte_left:
  assumes "m6809_left M base (v # vs) r p" "\<And>n. n \<le> 12 \<Longrightarrow> base - word_of_nat n \<in> ram"
  shows "fst (m6809_pull_byte io p) = v" "m6809_left M base vs r (snd (m6809_pull_byte io p))"
proof -
  obtain sp t where p: "p = (sp, t)" by (cases p)
  have left: "ok (m_bus t)" "peek (m_bus t) = M" "M sp = v" "holds M (sp + 1) vs"
      "sp = base - word_of_nat (length (v # vs))" "length (v # vs) \<le> 12" "m6809_capture_state t = r"
    using assms(1) by (auto simp: m6809_left_def p)
  have ram: "sp \<in> ram" unfolding left(5) using left(6) by (rule assms(2))
  have above: "sp + 1 = base - word_of_nat (length vs)" by (simp add: left(5))
  have bus: "m_bus (snd (m6809_read_byte io sp t)) = snd (bus_read_byte io (ucast sp) (m_bus t))"
    by (simp add: m6809_read_byte_def m6809_clk_def case_prod_unfold Let_def)
  have "fst (m6809_read_byte io sp t) = v"
    using window_read [OF left(1) ram] left(2,3)
    by (simp add: m6809_read_byte_def case_prod_unfold Let_def)
  then show "fst (m6809_pull_byte io p) = v"
    by (simp add: p m6809_pull_byte_def case_prod_unfold Let_def)
  have "m6809_capture_state (snd (m6809_read_byte io sp t)) = r"
    using m6809_moved_access(1) [of t io sp] left(7) by (simp add: m6809_moved_def)
  then show "m6809_left M base vs r (snd (m6809_pull_byte io p))"
    using window_read_ok [OF left(1) ram] window_read_keeps [OF left(1) ram] left(2,4,6) above
    unfolding p m6809_pull_byte_def m6809_left_def case_prod_unfold Let_def fst_conv snd_conv bus
    by simp
qed

lemma m6809_pull_word_left:
  assumes "m6809_left M base (hi8 w # lo8 w # vs) r p" "\<And>n. n \<le> 12 \<Longrightarrow> base - word_of_nat n \<in> ram"
  shows "fst (m6809_pull_word io p) = w" "m6809_left M base vs r (snd (m6809_pull_word io p))"
proof -
  note high = m6809_pull_byte_left [OF assms]
  note low = m6809_pull_byte_left [OF high(2) assms(2)]
  show "fst (m6809_pull_word io p) = w" "m6809_left M base vs r (snd (m6809_pull_word io p))"
    using high(1) low by (simp_all add: m6809_pull_word_def case_prod_unfold Let_def)
qed

text \<open>A pulled value goes into a register: \<open>f\<close> on the processor and \<open>g\<close> on its registers.\<close>

lemma m6809_pull_if_left:
  assumes store: "\<And>s. m_bus (f s) = m_bus s" "\<And>s. m6809_capture_state (f s) = g (m6809_capture_state s)"
    and room: "\<And>n. n \<le> 12 \<Longrightarrow> base - word_of_nat n \<in> ram"
  shows "m6809_left M base ((if c then [v] else []) @ vs) r p \<Longrightarrow> F v = f \<Longrightarrow>
      m6809_left M base vs (if c then g r else r) (m6809_pull_byte_if io c F p)"
    "m6809_left M base ((if c then [hi8 w, lo8 w] else []) @ vs) r p \<Longrightarrow> G w = f \<Longrightarrow>
      m6809_left M base vs (if c then g r else r) (m6809_pull_word_if io c G p)"
proof -
  have stored: "m6809_left M base vs (g r) (fst q, f (snd q))" if "m6809_left M base vs r q" for q
    using that store by (auto simp: m6809_left_def)
  show "m6809_left M base vs (if c then g r else r) (m6809_pull_byte_if io c F p)"
    if "m6809_left M base ((if c then [v] else []) @ vs) r p" "F v = f"
    using that stored m6809_pull_byte_left [OF _ room, of M v vs r p]
    by (cases c) (simp_all add: m6809_pull_byte_if_def case_prod_unfold Let_def)
  show "m6809_left M base vs (if c then g r else r) (m6809_pull_word_if io c G p)"
    if "m6809_left M base ((if c then [hi8 w, lo8 w] else []) @ vs) r p" "G w = f"
    using that stored m6809_pull_word_left [OF _ room, of M w vs r p]
    by (cases c) (simp_all add: m6809_pull_word_if_def case_prod_unfold Let_def)
qed

lemma m6809_stores:
  fixes s :: "'c m6809"
  shows "m_bus (m_flags_update f s) = m_bus s" "m_bus (m6809_mark_s_loaded s) = m_bus s"
    "m6809_capture_state (m_flags_update f s) = m_flags_update f (m6809_capture_state s)"
    "m6809_capture_state (m_a_update a s) = m_a_update a (m6809_capture_state s)"
    "m6809_capture_state (m_b_update a s) = m_b_update a (m6809_capture_state s)"
    "m6809_capture_state (m_dp_update a s) = m_dp_update a (m6809_capture_state s)"
    "m6809_capture_state (m_x_update w s) = m_x_update w (m6809_capture_state s)"
    "m6809_capture_state (m_y_update w s) = m_y_update w (m6809_capture_state s)"
    "m6809_capture_state (m_u_update w s) = m_u_update w (m6809_capture_state s)"
    "m6809_capture_state (m_s_update w s) = m_s_update w (m6809_capture_state s)"
    "m6809_capture_state (m_pc_update w s) = m_pc_update w (m6809_capture_state s)"
    "m6809_capture_state (m_halted_update i s) = m_halted_update i (m6809_capture_state s)"
    "m6809_capture_state (m_cwai_waiting_update i s) = m_cwai_waiting_update i (m6809_capture_state s)"
    "m6809_capture_state (m_pending_irq_update a s) = m_pending_irq_update a (m6809_capture_state s)"
    "m6809_capture_state (m_bus_update k s) = m6809_capture_state s"
    "m6809_capture_state (m6809_mark_s_loaded s) = (m6809_capture_state s)\<lparr>m_nmi_armed := True\<rparr>"
  by (simp_all add: m6809_capture_state_def m6809_state.defs m6809_mark_s_loaded_def)

lemma m6809_pull_registers_left:
  assumes left: "m6809_left M base (m6809_frame h k s) r (m6809_stack_pointer h t, t)"
    and room: "\<And>n. n \<le> 12 \<Longrightarrow> base - word_of_nat n \<in> ram"
  shows "\<exists>q. m6809_pull_registers io h k t = m6809_set_stack_pointer h q
    \<and> m6809_left M base [] (m6809_reload h k s r) q"
proof -
  define vs7 where "vs7 = (if k AND 0x80 \<noteq> 0 then [hi8 (m_pc s), lo8 (m_pc s)] else []) @ []"
  define vs6 where "vs6 = (if k AND 0x40 \<noteq> 0 then [hi8 (if h then m_u s else m_s s), lo8 (if h then m_u s else m_s s)] else []) @ vs7"
  define vs5 where "vs5 = (if k AND 0x20 \<noteq> 0 then [hi8 (m_y s), lo8 (m_y s)] else []) @ vs6"
  define vs4 where "vs4 = (if k AND 0x10 \<noteq> 0 then [hi8 (m_x s), lo8 (m_x s)] else []) @ vs5"
  define vs3 where "vs3 = (if k AND 0x08 \<noteq> 0 then [m_dp s] else []) @ vs4"
  define vs2 where "vs2 = (if k AND 0x04 \<noteq> 0 then [m_b s] else []) @ vs3"
  define vs1 where "vs1 = (if k AND 0x02 \<noteq> 0 then [m_a s] else []) @ vs2"
  define vs0 where "vs0 = (if k AND 0x01 \<noteq> 0 then [m6809_compress (m_flags s)] else []) @ vs1"
  note frames = vs0_def vs1_def vs2_def vs3_def vs4_def vs5_def vs6_def vs7_def
  define q1 where "q1 = m6809_pull_byte_if io (k AND 0x01 \<noteq> 0) (\<lambda>v. m_flags_update (m6809_expand v)) (m6809_stack_pointer h t, t)"
  define q2 where "q2 = m6809_pull_byte_if io (k AND 0x02 \<noteq> 0) (\<lambda>v s. s\<lparr>m_a := v\<rparr>) q1"
  define q3 where "q3 = m6809_pull_byte_if io (k AND 0x04 \<noteq> 0) (\<lambda>v s. s\<lparr>m_b := v\<rparr>) q2"
  define q4 where "q4 = m6809_pull_byte_if io (k AND 0x08 \<noteq> 0) (\<lambda>v s. s\<lparr>m_dp := v\<rparr>) q3"
  define q5 where "q5 = m6809_pull_word_if io (k AND 0x10 \<noteq> 0) (\<lambda>v s. s\<lparr>m_x := v\<rparr>) q4"
  define q6 where "q6 = m6809_pull_word_if io (k AND 0x20 \<noteq> 0) (\<lambda>v s. s\<lparr>m_y := v\<rparr>) q5"
  define q7 where "q7 = m6809_pull_word_if io (k AND 0x40 \<noteq> 0) (\<lambda>v s. if h then s\<lparr>m_u := v\<rparr> else m6809_mark_s_loaded (s\<lparr>m_s := v\<rparr>)) q6"
  define q8 where "q8 = m6809_pull_word_if io (k AND 0x80 \<noteq> 0) (\<lambda>v s. s\<lparr>m_pc := v\<rparr>) q7"
  note defs = q1_def q2_def q3_def q4_def q5_def q6_def q7_def q8_def
  define r1 where "r1 = (if k AND 0x01 \<noteq> 0 then r\<lparr>m_flags := m_flags s\<rparr> else r)"
  define r2 where "r2 = (if k AND 0x02 \<noteq> 0 then r1\<lparr>m_a := m_a s\<rparr> else r1)"
  define r3 where "r3 = (if k AND 0x04 \<noteq> 0 then r2\<lparr>m_b := m_b s\<rparr> else r2)"
  define r4 where "r4 = (if k AND 0x08 \<noteq> 0 then r3\<lparr>m_dp := m_dp s\<rparr> else r3)"
  define r5 where "r5 = (if k AND 0x10 \<noteq> 0 then r4\<lparr>m_x := m_x s\<rparr> else r4)"
  define r6 where "r6 = (if k AND 0x20 \<noteq> 0 then r5\<lparr>m_y := m_y s\<rparr> else r5)"
  define r7 where "r7 = (if k AND 0x40 \<noteq> 0 then (if h then r6\<lparr>m_u := m_u s\<rparr> else r6\<lparr>m_s := m_s s, m_nmi_armed := True\<rparr>) else r6)"
  define r8 where "r8 = (if k AND 0x80 \<noteq> 0 then r7\<lparr>m_pc := m_pc s\<rparr> else r7)"
  note regs = r1_def r2_def r3_def r4_def r5_def r6_def r7_def r8_def
  have l0: "m6809_left M base vs0 r (m6809_stack_pointer h t, t)"
    using left by (simp only: frames m6809_frame_def Let_def append_Nil2)
  have l1: "m6809_left M base vs1 r1 q1" unfolding q1_def r1_def
    by (rule m6809_pull_if_left(1) [OF _ _ room l0[unfolded vs0_def] refl, where g = "\<lambda>r. r\<lparr>m_flags := m_flags s\<rparr>"]) (simp_all add: m6809_stores)
  have l2: "m6809_left M base vs2 r2 q2" unfolding q2_def r2_def
    by (rule m6809_pull_if_left(1) [OF _ _ room l1[unfolded vs1_def] refl, where g = "\<lambda>r. r\<lparr>m_a := m_a s\<rparr>"]) (simp_all add: m6809_stores)
  have l3: "m6809_left M base vs3 r3 q3" unfolding q3_def r3_def
    by (rule m6809_pull_if_left(1) [OF _ _ room l2[unfolded vs2_def] refl, where g = "\<lambda>r. r\<lparr>m_b := m_b s\<rparr>"]) (simp_all add: m6809_stores)
  have l4: "m6809_left M base vs4 r4 q4" unfolding q4_def r4_def
    by (rule m6809_pull_if_left(1) [OF _ _ room l3[unfolded vs3_def] refl, where g = "\<lambda>r. r\<lparr>m_dp := m_dp s\<rparr>"]) (simp_all add: m6809_stores)
  have l5: "m6809_left M base vs5 r5 q5" unfolding q5_def r5_def
    by (rule m6809_pull_if_left(2) [OF _ _ room l4[unfolded vs4_def] refl, where g = "\<lambda>r. r\<lparr>m_x := m_x s\<rparr>"]) (simp_all add: m6809_stores)
  have l6: "m6809_left M base vs6 r6 q6" unfolding q6_def r6_def
    by (rule m6809_pull_if_left(2) [OF _ _ room l5[unfolded vs5_def] refl, where g = "\<lambda>r. r\<lparr>m_y := m_y s\<rparr>"]) (simp_all add: m6809_stores)
  have l7: "m6809_left M base vs7 r7 q7" unfolding q7_def r7_def
    by (rule m6809_pull_if_left(2) [OF _ _ room l6[unfolded vs6_def] refl, where g = "\<lambda>r. (if h then r\<lparr>m_u := m_u s\<rparr> else r\<lparr>m_s := m_s s, m_nmi_armed := True\<rparr>)"]) (simp_all add: m6809_stores)
  have l8: "m6809_left M base [] r8 q8" unfolding q8_def r8_def
    by (rule m6809_pull_if_left(2) [OF _ _ room l7[unfolded vs7_def] refl, where g = "\<lambda>r. r\<lparr>m_pc := m_pc s\<rparr>"]) (simp_all add: m6809_stores)
  have "m6809_pull_registers io h k t = m6809_set_stack_pointer h q8"
    by (simp only: m6809_pull_registers_def Let_def defs)
  moreover have "r8 = m6809_reload h k s r" by (simp only: m6809_reload_def Let_def regs)
  ultimately show ?thesis using l8 by blast
qed

text \<open>
  PULS after PSHS with the same mask: whatever ran in between, as long as the stack pointer and the
  window are what the push left, the selected registers are those pushed, the others those of the
  moment, and the stack pointer is back.
\<close>

lemma m6809_push_pull:
  assumes "ok (m_bus s)" and room: "\<And>n. n \<le> 12 \<Longrightarrow> m6809_stack_pointer h s - word_of_nat n \<in> ram"
    and "ok (m_bus t)" "peek (m_bus t) = peek (m_bus (m6809_push_registers io h k s))"
    and "m6809_stack_pointer h t = m6809_stack_pointer h (m6809_push_registers io h k s)"
  shows "m6809_capture_state (m6809_pull_registers io h k t) =
      (if h then (m6809_reload h k s (m6809_capture_state t))\<lparr>m_s := m_s s\<rparr>
       else (m6809_reload h k s (m6809_capture_state t))\<lparr>m_u := m_u s\<rparr>)"
    "ok (m_bus (m6809_pull_registers io h k t))"
    "peek (m_bus (m6809_pull_registers io h k t)) = peek (m_bus t)"
proof -
  let ?sp = "m6809_stack_pointer h s"
  obtain p where push: "m6809_push_registers io h k s = m6809_set_stack_pointer h p"
    and grown: "m6809_grown s ?sp (m6809_frame h k s) p"
    using m6809_push_registers_grown [OF assms(1) room, of k] by blast
  have "m6809_stack_pointer h t = fst p" "peek (m_bus t) = peek (m_bus (snd p))"
    using assms(4,5) by (auto simp: push m6809_set_stack_pointer_def m6809_stack_pointer_def case_prod_unfold)
  then have "m6809_left (peek (m_bus t)) ?sp (m6809_frame h k s) (m6809_capture_state t)
      (m6809_stack_pointer h t, t)"
    using grown assms(3) by (auto simp: m6809_left_def m6809_grown_def)
  from m6809_pull_registers_left [OF this room] obtain q
    where pull: "m6809_pull_registers io h k t = m6809_set_stack_pointer h q"
      and q: "m6809_left (peek (m_bus t)) ?sp [] (m6809_reload h k s (m6809_capture_state t)) q"
    by blast
  show "m6809_capture_state (m6809_pull_registers io h k t) =
      (if h then (m6809_reload h k s (m6809_capture_state t))\<lparr>m_s := m_s s\<rparr>
       else (m6809_reload h k s (m6809_capture_state t))\<lparr>m_u := m_u s\<rparr>)"
    "ok (m_bus (m6809_pull_registers io h k t))"
    "peek (m_bus (m6809_pull_registers io h k t)) = peek (m_bus t)"
    using q by (simp_all add: pull m6809_set_stack_pointer_def m6809_left_def case_prod_unfold
        m6809_stores m6809_stack_pointer_def)
qed

end

section \<open>RTI\<close>

text \<open>RTI is a PULS of everything or of the return address, as the stacked E flag says.\<close>

lemma m6809_read_byte_s:
  "m6809_read_byte io a (s\<lparr>m_s := x\<rparr>) =
     (fst (m6809_read_byte io a s), (snd (m6809_read_byte io a s))\<lparr>m_s := x\<rparr>)"
  by (simp add: m6809_read_byte_def m6809_clk_def case_prod_unfold Let_def)

lemma m6809_rti_pulls:
  "m6809_rti io s =
     (if bit (fst (m6809_read_byte io (m_s s) s)) 7
      then (15, m6809_pull_registers io True ENTIRE_STATE_MASK s)
      else (6, m6809_pull_registers io True PARTIAL_STATE_MASK s))"
  by (simp add: m6809_rti_def m6809_pull_registers_def m6809_s_stack_defs m6809_stack_defs
      m6809_pull_byte_if_def m6809_pull_word_if_def m6809_set_stack_pointer_def m6809_stack_pointer_def
      ENTIRE_STATE_MASK_def PARTIAL_STATE_MASK_def Let_def case_prod_unfold m6809_read_byte_def
      m6809_clk_def)

section \<open>An interrupt and its return\<close>

context ram_window begin

lemma m6809_window_word:
  assumes "ok (m_bus s)" "a \<in> ram" "a + 1 \<in> ram"
  shows "fst (m6809_read_word io a s) = le16 (peek (m_bus s) (a + 1)) (peek (m_bus s) a)"
    "ok (m_bus (snd (m6809_read_word io a s)))"
    "peek (m_bus (snd (m6809_read_word io a s))) = peek (m_bus s)"
    "m6809_capture_state (snd (m6809_read_word io a s)) = m6809_capture_state s"
  using assms window_read window_read_ok window_read_keeps
  by (simp_all add: m6809_read_word_def m6809_read_byte_def m6809_clk_def case_prod_unfold Let_def
      m6809_capture_state_def m6809_state.defs)

lemma m6809_finish_capture [simp]:
  "m6809_capture_state (m6809_finish_instruction a c s) = m6809_capture_state s"
  by (simp add: m6809_finish_instruction_def Let_def m6809_capture_state_def m6809_state.defs)

text \<open>The state in which the code stacks the registers.\<close>

definition m6809_entered :: "'b m6809 \<Rightarrow> 'b m6809" where
  "m6809_entered s =
     m6809_set_entire True (s\<lparr>m_halted := False, m_cwai_waiting := False\<rparr>)"

lemma m6809_irq_entry:
  assumes "ok (m_bus s)" "\<not> m_cwai_waiting s"
    and room: "\<And>n. n \<le> 12 \<Longrightarrow> m_s s - word_of_nat n \<in> ram"
    and vector: "VECTOR_IRQ \<in> ram" "VECTOR_IRQ + 1 \<in> ram"
  defines "u \<equiv> m6809_push_registers io True ENTIRE_STATE_MASK (m6809_entered s)"
  defines "t \<equiv> m6809_service_irq io s"
  shows "ok (m_bus t)" "peek (m_bus t) = peek (m_bus u)"
    "m6809_capture_state t = (m6809_capture_state s)
       \<lparr>m_s := m_s u, m_pc := le16 (peek (m_bus u) (VECTOR_IRQ + 1)) (peek (m_bus u) VECTOR_IRQ),
        m_flags := (m_flags s)\<lparr>cc_entire := True, cc_irq_mask := True\<rparr>, m_halted := False,
        m_cwai_waiting := False, m_pending_irq := m_pending_irq s AND NOT PENDING_IRQ\<rparr>"
    "m_s u = m_s s - 12" "bit (peek (m_bus u) (m_s u)) 7"
    "m6809_elsewhere (m_s s) (peek (m_bus s)) (peek (m_bus u))"
proof -
  let ?e = "m6809_entered s"
  have e: "m_bus ?e = m_bus s" "m_s ?e = m_s s"
    by (simp_all add: m6809_entered_def m6809_set_entire_def)
  obtain p where push: "u = m6809_set_stack_pointer True p"
    and grown: "m6809_grown ?e (m_s s) (m6809_frame True ENTIRE_STATE_MASK ?e) p"
    using m6809_push_registers_grown [of ?e True ENTIRE_STATE_MASK] assms(1) room
    by (auto simp: u_def e m6809_stack_pointer_def)
  have "length (m6809_frame True ENTIRE_STATE_MASK ?e) = 12"
    by (simp add: m6809_frame_def ENTIRE_STATE_MASK_def Let_def)
  then show sp: "m_s u = m_s s - 12"
    using grown by (simp add: push m6809_set_stack_pointer_def case_prod_unfold m6809_grown_def)
  have "holds (peek (m_bus (snd p))) (fst p) (m6809_frame True ENTIRE_STATE_MASK ?e)"
    using grown by (auto simp only: m6809_grown_def)
  then have "peek (m_bus (snd p)) (fst p) = m6809_compress (m_flags ?e)"
    by (simp add: m6809_frame_def ENTIRE_STATE_MASK_def)
  then show "bit (peek (m_bus u) (m_s u)) 7"
    by (simp add: push m6809_set_stack_pointer_def case_prod_unfold m6809_entered_def m6809_set_entire_def)
  show "m6809_elsewhere (m_s s) (peek (m_bus s)) (peek (m_bus u))"
    using grown by (simp add: push m6809_set_stack_pointer_def case_prod_unfold m6809_grown_def e)
  have u: "ok (m_bus u)" "m6809_capture_state u = (m6809_capture_state ?e)\<lparr>m_s := m_s u\<rparr>"
    using grown by (simp_all add: push m6809_set_stack_pointer_def case_prod_unfold m6809_grown_def
        m6809_moved_def m6809_stores)
  have t: "t = (let w = snd (m6809_read_word io VECTOR_IRQ (m6809_mask_irq u));
      pc = fst (m6809_read_word io VECTOR_IRQ (m6809_mask_irq u))
    in w\<lparr>m_pc := pc, m_pending_irq := m_pending_irq w AND NOT PENDING_IRQ,
         m_bus := snd (bus_acknowledge_irq io (m_bus w))\<rparr>)"
    using assms(2) by (simp add: t_def u_def m6809_service_irq_def m6809_enter_service_def
        m6809_entered_def m6809_jump_vector_def Let_def case_prod_unfold)
  have m: "m_bus (m6809_mask_irq u) = m_bus u"
    "m6809_capture_state (m6809_mask_irq u) =
      (m6809_capture_state u)\<lparr>m_flags := (m_flags u)\<lparr>cc_irq_mask := True\<rparr>\<rparr>"
    by (simp_all add: m6809_mask_irq_def m6809_stores) (simp add: m6809_capture_state_def m6809_state.defs)
  note w = m6809_window_word [of "m6809_mask_irq u", unfolded m, OF u(1) vector]
  show "ok (m_bus t)" "peek (m_bus t) = peek (m_bus u)"
    using window_acknowledge_ok [OF w(2)] window_acknowledge [OF w(2)] w(3) by (simp_all add: t Let_def)
  have fields: "m_pending_irq x = m_pending_irq (m6809_capture_state x)" "m_flags x = m_flags (m6809_capture_state x)"
    for x :: "'a m6809" by (simp_all add: m6809_capture_state_def m6809_state.defs)
  show "m6809_capture_state t = (m6809_capture_state s)
       \<lparr>m_s := m_s u, m_pc := le16 (peek (m_bus u) (VECTOR_IRQ + 1)) (peek (m_bus u) VECTOR_IRQ),
        m_flags := (m_flags s)\<lparr>cc_entire := True, cc_irq_mask := True\<rparr>, m_halted := False,
        m_cwai_waiting := False, m_pending_irq := m_pending_irq s AND NOT PENDING_IRQ\<rparr>"
    using w(1,4) u(2) fields(2) [of u]
    by (simp add: t Let_def m6809_stores fields(1) [of "snd (m6809_read_word io VECTOR_IRQ (m6809_mask_irq u))"] m)
      (simp add: m6809_entered_def m6809_set_entire_def m6809_stores fields [of s])
qed

lemma m6809_execute_rti:
  assumes "ok (m_bus s)" "m_pc s \<in> ram" "peek (m_bus s) (m_pc s) = 0x3B"
    and "m_pending_extended_clear s = None" "m_pending_irq s = 0"
  shows "\<exists>t. m6809_execute_one io s = m6809_finish_instruction (m_cycles_remaining s) (fst (m6809_rti io t)) (snd (m6809_rti io t))
    \<and> m6809_capture_state t = (m6809_capture_state s)\<lparr>m_pc := m_pc s + 1\<rparr>
    \<and> ok (m_bus t) \<and> peek (m_bus t) = peek (m_bus s)"
proof -
  let ?t = "snd (m6809_fetch_u8 io s)"
  have fetch: "fst (m6809_fetch_u8 io s) = 0x3B" "ok (m_bus ?t)" "peek (m_bus ?t) = peek (m_bus s)"
    "m6809_capture_state ?t = (m6809_capture_state s)\<lparr>m_pc := m_pc s + 1\<rparr>"
    using window_fetch [OF assms(1,2)] window_fetch_ok [OF assms(1,2)] window_fetch_keeps [OF assms(1,2)] assms(3)
    by (simp_all add: m6809_fetch_u8_def m6809_clk_def case_prod_unfold Let_def
        m6809_capture_state_def m6809_state.defs)
  have "m6809_check_interrupts io s = (None, s)"
    using assms(5) by (simp add: m6809_check_interrupts_def)
  moreover have "m6809_dispatch io s = m6809_rti io ?t"
    using fetch(1) by (simp add: m6809_dispatch_def Let_def case_prod_unfold m6809_execute_base_def
        m6809_execute_row3_def)
  ultimately have "m6809_execute_one io s = m6809_finish_instruction (m_cycles_remaining s)
      (fst (m6809_rti io ?t)) (snd (m6809_rti io ?t))"
    using assms(4) by (simp add: m6809_execute_one_def Let_def case_prod_unfold)
  with fetch show ?thesis by blast
qed

lemma m6809_irq_return:
  assumes "ok (m_bus s)" "m_pending_extended_clear s = None" "m_pending_irq s = PENDING_IRQ"
    "\<not> cc_irq_mask (m_flags s)" "\<not> m_cwai_waiting s"
    and room: "\<And>n. n \<le> 12 \<Longrightarrow> m_s s - word_of_nat n \<in> ram"
    and vector: "VECTOR_IRQ \<in> ram" "VECTOR_IRQ + 1 \<in> ram"
    and apart: "VECTOR_IRQ \<notin> m6809_below (m_s s)" "VECTOR_IRQ + 1 \<notin> m6809_below (m_s s)"
  defines "handler \<equiv> le16 (peek (m_bus s) (VECTOR_IRQ + 1)) (peek (m_bus s) VECTOR_IRQ)"
  assumes handler: "handler \<in> ram" "handler \<notin> m6809_below (m_s s)" "peek (m_bus s) handler = 0x3B"
  shows "m6809_capture_state (m6809_execute_one io (m6809_execute_one io s)) =
      (m6809_capture_state s)\<lparr>m_flags := (m_flags s)\<lparr>cc_entire := True\<rparr>, m_halted := False,
        m_pending_irq := 0\<rparr>"
proof -
  let ?e = "m6809_entered s"
  let ?u = "m6809_push_registers io True ENTIRE_STATE_MASK ?e"
  define M where "M = peek (m_bus ?u)"
  note entry = m6809_irq_entry [OF assms(1,5) room vector]
  have M: "M VECTOR_IRQ = peek (m_bus s) VECTOR_IRQ" "M (VECTOR_IRQ + 1) = peek (m_bus s) (VECTOR_IRQ + 1)"
    "M handler = 0x3B"
    using entry(6) apart handler(2,3) by (auto simp: m6809_elsewhere_def M_def)
  have first: "m6809_execute_one io s = m6809_finish_instruction (m_cycles_remaining s) 19 (m6809_service_irq io s)"
    using assms(2-4) by (simp add: m6809_execute_one_def m6809_check_interrupts_def Let_def
        PENDING_IRQ_def PENDING_NMI_def PENDING_FIRQ_def)
  let ?v = "m6809_execute_one io s"
  have bus: "ok (m_bus ?v)" "peek (m_bus ?v) = M"
    using entry(1,2) by (simp_all add: first m6809_finish_instruction_def Let_def M_def)
  have v: "m6809_capture_state ?v = (m6809_capture_state s)
      \<lparr>m_s := m_s s - 12, m_pc := handler, m_flags := (m_flags s)\<lparr>cc_entire := True, cc_irq_mask := True\<rparr>,
       m_halted := False, m_cwai_waiting := False, m_pending_irq := 0\<rparr>"
    using entry(3,4) assms(3) M(1,2) by (simp add: first handler_def M_def PENDING_IRQ_def)
  have fields: "m_pc x = m_pc (m6809_capture_state x)" "m_s x = m_s (m6809_capture_state x)"
    "m_pending_irq x = m_pending_irq (m6809_capture_state x)"
    "m_pending_extended_clear x = m_pending_extended_clear (m6809_capture_state x)"
    for x :: "'a m6809" by (simp_all add: m6809_capture_state_def m6809_state.defs)
  have pc: "m_pc ?v = handler" "m_pending_irq ?v = 0" "m_pending_extended_clear ?v = None"
    using assms(2) by (simp_all add: fields [of ?v] v) (simp add: fields(4) [of s, symmetric])
  obtain w where second: "m6809_execute_one io ?v = m6809_finish_instruction (m_cycles_remaining ?v)
        (fst (m6809_rti io w)) (snd (m6809_rti io w))"
    and w: "m6809_capture_state w = (m6809_capture_state ?v)\<lparr>m_pc := m_pc ?v + 1\<rparr>"
      "ok (m_bus w)" "peek (m_bus w) = M"
    using m6809_execute_rti [OF bus(1) _ _ pc(3,2)] handler(1) M(3) bus(2) pc(1) by auto
  have sp: "m_s w = m_s ?u" using entry(4) by (simp add: fields(2) [of w] w(1) v)
  have e: "m_bus ?e = m_bus s" "m_s ?e = m_s s"
    by (simp_all add: m6809_entered_def m6809_set_entire_def)
  note pull = m6809_push_pull [of ?e True w ENTIRE_STATE_MASK, unfolded e m6809_stack_pointer_def if_True,
      OF assms(1) room w(2) w(3) [unfolded M_def] sp]
  have "m_s w \<in> ram" using room [of 12] entry(4) by (simp add: sp)
  then have "fst (m6809_read_byte io (m_s w) w) = M (m_s w)"
    using window_read [OF w(2)] w(3) by (simp add: m6809_read_byte_def case_prod_unfold Let_def)
  then have "m6809_rti io w = (15, m6809_pull_registers io True ENTIRE_STATE_MASK w)"
    using entry(5) by (simp add: m6809_rti_pulls M_def sp)
  then have "m6809_capture_state (m6809_execute_one io ?v) =
      (m6809_reload True ENTIRE_STATE_MASK ?e (m6809_capture_state w))\<lparr>m_s := m_s s\<rparr>"
    using pull(1) by (simp add: second)
  also have "\<dots> = (m6809_capture_state s)\<lparr>m_flags := (m_flags s)\<lparr>cc_entire := True\<rparr>,
      m_halted := False, m_pending_irq := 0\<rparr>"
    using assms(5)
    by (simp add: w(1) v m6809_reload_def ENTIRE_STATE_MASK_def m6809_entered_def m6809_set_entire_def)
      (simp add: m6809_capture_state_def m6809_state.defs)
  finally show ?thesis .
qed

end

end
