(* ===== verification/Fm7_Bus_Properties.thy ===== *)
theory Fm7_Bus_Properties
  imports Fm7_Bus M6809_Guard M6809_Stack
begin

text \<open>
  The FM-7's main bus under its processor. It keeps its invariant (array sizes, banking that
  fits the model, waits that are not negative) through every access, whatever the devices
  behind the I/O page do, so the processor runs on it for every budget and no program can
  drive an access out of its array: every access returns, none panics; its plain RAM is a window for a stack, so interrupts
  return; and its clocks and waits add up.
\<close>

section \<open>The invariant\<close>

definition fm7_bus_ok :: "'d fm7_bus \<Rightarrow> bool" where
  "fm7_bus_ok s \<longleftrightarrow>
     fm7_memory_ok (fb_memory s) \<and> f7_model (fb_memory s) = fb_model s
     \<and> (fb_model s = Fm7 \<longrightarrow> \<not> f7_mmr_enabled (fb_memory s))
     \<and> 0 \<le> fb_wait_cycles s \<and> fb_io_wait_counter s < 3 \<and> \<not> fb_panicked s"

text \<open>An access returns, and leaves the invariant.\<close>

definition fm7_lands :: "('a \<times> 'd fm7_bus) option \<Rightarrow> bool" where
  "fm7_lands access \<longleftrightarrow> (case access of Some result \<Rightarrow> fm7_bus_ok (snd result) | None \<Rightarrow> False)"

lemma fm7_lands_simps [simp]: "fm7_lands (Some result) = fm7_bus_ok (snd result)" "\<not> fm7_lands None"
  by (simp_all add: fm7_lands_def)

lemma fm7_landsE:
  assumes "fm7_lands access"
  obtains r t where "access = Some (r, t)" "fm7_bus_ok t"
  using assms by (cases access) auto

lemma fm7_bus_ok_cong:
  assumes "fm7_bus_ok s" "fb_memory t = fb_memory s" "fb_model t = fb_model s"
    "fb_wait_cycles t = fb_wait_cycles s" "fb_io_wait_counter t = fb_io_wait_counter s"
    "fb_panicked t = fb_panicked s"
  shows "fm7_bus_ok t"
  using assms by (simp add: fm7_bus_ok_def)

lemma fm7_memory_bank_ok:
  assumes "fm7_bus_ok s" "fm7_memory_ok m" "f7_model m = f7_model (fb_memory s)"
    "fb_model s = Fm7 \<Longrightarrow> f7_mmr_enabled m = f7_mmr_enabled (fb_memory s)"
  shows "fm7_bus_ok (s\<lparr>fb_memory := m\<rparr>)"
  using assms by (simp add: fm7_bus_ok_def)

lemma fm7_bank_frame [simp]:
  "f7_model (fm7_map_rom m) = f7_model m" "f7_model (fm7_map_ram m) = f7_model m"
  "f7_model (fm7_set_initiator_enabled e m) = f7_model m"
  "f7_model (fm7_set_mmr_segment v m) = f7_model m"
  "f7_model (fm7_set_mmr_window_offset v m) = f7_model m"
  "f7_model (fm7_write_mmr_control v m) = f7_model m"
  "f7_mmr_enabled (fm7_map_rom m) = f7_mmr_enabled m" "f7_mmr_enabled (fm7_map_ram m) = f7_mmr_enabled m"
  by (simp_all add: fm7_map_rom_def fm7_map_ram_def fm7_set_initiator_enabled_def
      fm7_set_mmr_segment_def fm7_set_mmr_window_offset_def fm7_write_mmr_control_def)

lemma fm7_store_bus_ok:
  "fm7_bus_ok s \<Longrightarrow> fm7_bus_ok (s\<lparr>fb_memory := fm7_store c v (fb_memory s)\<rparr>)"
  by (simp add: fm7_bus_ok_def)

lemma fm7_charge_ok:
  assumes "fm7_bus_ok s"
  shows "fm7_bus_ok (fm7_charge_main_access_wait a s)"
proof -
  have "unat (fb_io_wait_counter s) < 3" using assms by (simp add: fm7_bus_ok_def word_less_nat_alt)
  then have "unat (fb_io_wait_counter s + 1) = unat (fb_io_wait_counter s) + 1"
    by (simp add: unat_word_ariths)
  then show ?thesis
    using assms
    by (auto simp: fm7_charge_main_access_wait_def Let_def fm7_bus_ok_def word_less_nat_alt word_le_nat_alt)
qed

lemma fm7_charge_frame [simp]:
  "fb_memory (fm7_charge_main_access_wait a s) = fb_memory s"
  "fb_model (fm7_charge_main_access_wait a s) = fb_model s"
  "fb_sub (fm7_charge_main_access_wait a s) = fb_sub s"
  "fb_interrupts (fm7_charge_main_access_wait a s) = fb_interrupts s"
  by (simp_all add: fm7_charge_main_access_wait_def Let_def)

lemma fm7_device_ok:
  assumes "fm7_bus_ok s"
  shows "fm7_bus_ok (snd (fm7_device_read f s))" "fm7_bus_ok (fm7_device_write g s)"
    "fm7_bus_ok (s\<lparr>fb_interrupts := i\<rparr>)" "fm7_bus_ok (s\<lparr>fb_sub := b\<rparr>)" "fm7_bus_ok (s\<lparr>fb_devices := d\<rparr>)"
  using assms
  by (simp_all add: fm7_bus_ok_def fm7_device_read_def fm7_device_write_def fm7_set_side_def
      Let_def case_prod_unfold)

lemma fm7_mmr_control_ok:
  assumes "fm7_bus_ok s" "fb_model s = Fm77Av"
  shows "fm7_bus_ok (fm7_bus_write_mmr_control v s)"
  using assms fm7_operations_ok(8) [of "fb_memory s" v]
  by (simp add: fm7_bus_write_mmr_control_def Let_def fm7_note_main_clock_change_def fm7_bus_ok_def)

lemma fm7_page_registers_ok:
  assumes "fm7_bus_ok s"
  shows "\<exists>v. fm7_read_mmr_page_register (fb_memory s) k = Some v"
    "\<exists>m. fm7_write_mmr_page_register k v (fb_memory s) = Some m \<and> fm7_bus_ok (s\<lparr>fb_memory := m\<rparr>)"
proof -
  have ok: "fm7_memory_ok (fb_memory s)" using assms by (simp add: fm7_bus_ok_def)
  note index = fm7_page_register_index [OF ok]
  show "\<exists>v. fm7_read_mmr_page_register (fb_memory s) k = Some v" by (simp add: index)
  show "\<exists>m. fm7_write_mmr_page_register k v (fb_memory s) = Some m \<and> fm7_bus_ok (s\<lparr>fb_memory := m\<rparr>)"
    using fm7_operations_ok(5) [OF ok] assms by (simp add: index fm7_bus_ok_def)
qed

lemma fm7_av_io_ok:
  assumes "fm7_bus_ok s"
  shows "fm7_lands (fm7_av_io_read dev port s)" "fm7_lands (fm7_av_io_write dev port v s)"
proof -
  obtain w where "fm7_read_mmr_page_register (fb_memory s) (port - 0x80) = Some w"
    using fm7_page_registers_ok(1) [OF assms] by blast
  then show "fm7_lands (fm7_av_io_read dev port s)"
    using fm7_device_ok [OF assms] assms by (simp add: fm7_av_io_read_def)
  show "fm7_lands (fm7_av_io_write dev port v s)"
  proof (cases "fb_model s")
    case Fm77Av
    have "fm7_memory_ok (fb_memory s)" using assms by (simp add: fm7_bus_ok_def)
    note kept = fm7_operations_ok [OF this]
    have bank: "fm7_bus_ok (s\<lparr>fb_memory := fm7_set_initiator_enabled e (fb_memory s)\<rparr>)"
      "fm7_bus_ok (s\<lparr>fb_memory := fm7_set_mmr_segment v (fb_memory s)\<rparr>)"
      "fm7_bus_ok (s\<lparr>fb_memory := fm7_set_mmr_window_offset v (fb_memory s)\<rparr>)" for e
      by (rule fm7_memory_bank_ok [OF assms]; simp add: kept Fm77Av)+
    obtain m where "fm7_write_mmr_page_register (port - 0x80) v (fb_memory s) = Some m"
      "fm7_bus_ok (s\<lparr>fb_memory := m\<rparr>)"
      using fm7_page_registers_ok(2) [OF assms] by blast
    then show ?thesis
      using fm7_device_ok(2) [OF assms] fm7_mmr_control_ok [OF assms Fm77Av] assms
      by (simp add: fm7_av_io_write_def bank)
  qed (simp add: fm7_av_io_write_def fm7_has_mmr_def assms)
qed

lemma fm7_main_io_ok:
  assumes "fm7_bus_ok s"
  shows "fm7_lands (fm7_main_io_read dev port s)" "fm7_lands (fm7_main_io_write dev port v s)"
proof -
  have m: "fm7_memory_ok (fb_memory s)" using assms by (simp add: fm7_bus_ok_def)
  have map: "fm7_bus_ok (s\<lparr>fb_memory := fm7_map_rom (fb_memory s)\<rparr>)"
    "fm7_bus_ok (s\<lparr>fb_memory := fm7_map_ram (fb_memory s)\<rparr>)"
    using fm7_memory_bank_ok [OF assms fm7_operations_ok(2) [OF m]]
      fm7_memory_bank_ok [OF assms fm7_operations_ok(3) [OF m]] by simp_all
  have keyboard: "fm7_bus_ok (s\<lparr>fb_devices := d, fb_interrupts := i\<rparr>)" for d i
    using assms by (simp add: fm7_bus_ok_def)
  have control: "fm7_bus_ok (fm7_write_sub_control v s)"
    using assms by (simp add: fm7_bus_ok_def fm7_write_sub_control_def Let_def)
  obtain r t where av: "fm7_av_io_read dev port s = Some (r, t)" "fm7_bus_ok t"
    using fm7_av_io_ok(1) [OF assms, of dev port] by (rule fm7_landsE)
  show "fm7_lands (fm7_main_io_read dev port s)"
    using fm7_device_ok [OF assms] av assms
    by (simp add: fm7_main_io_read_def Let_def case_prod_unfold map keyboard)
  show "fm7_lands (fm7_main_io_write dev port v s)"
    using fm7_device_ok [OF assms] fm7_av_io_ok(2) [OF assms] assms
    by (simp add: fm7_main_io_write_def map control)
qed

lemma fm7_shared_ram_ok:
  "\<exists>v. fm7_shared_ram_byte k b = Some v" "\<exists>c. fm7_set_shared_ram_byte k v b = Some c"
proof -
  have "(x :: nat) AND (2 ^ 7 - 1) < 128" for x
    by (simp only: mask_eq_exp_minus_1 [symmetric] take_bit_eq_mask [symmetric] take_bit_eq_mod) simp
  then have index: "x AND 127 < 128" for x :: nat by simp
  then show "\<exists>v. fm7_shared_ram_byte k b = Some v" "\<exists>c. fm7_set_shared_ram_byte k v b = Some c"
    by (simp_all add: fm7_shared_ram_byte_def fm7_set_shared_ram_byte_def list_get_def Let_def)
qed

lemma fm7_access_ok:
  assumes "fm7_bus_ok s"
  shows "fm7_lands (fm7_read_byte dev a s)" "fm7_lands (fm7_write_byte dev a v s)"
proof -
  define t where "t = fm7_charge_main_access_wait a s"
  have t: "fm7_bus_ok t" using fm7_charge_ok [OF assms] by (simp add: t_def)
  then have m: "fm7_memory_ok (fb_memory t)" by (simp add: fm7_bus_ok_def)
  obtain target where target: "fm7_direct_vram_target (fb_memory t) a = Some target"
    using fm7_vram_target [OF m] by blast
  obtain w where w: "fm7_shared_ram_byte (ucast (a AND 0x007F)) (fb_sub t) = Some w"
    using fm7_shared_ram_ok(1) by blast
  obtain b where b: "fm7_set_shared_ram_byte (ucast (a AND 0x007F)) v (fb_sub t) = Some b"
    using fm7_shared_ram_ok(2) by blast
  show "fm7_lands (fm7_read_byte dev a s)"
    using t fm7_main_io_ok(1) [OF t] fm7_device_ok(1) [OF t]
    by (simp add: fm7_read_byte_def t_def [symmetric] Let_def case_prod_unfold target w
        fm7_read_cell [OF m] split: option.split)
  show "fm7_lands (fm7_write_byte dev a v s)"
    using t fm7_main_io_ok(2) [OF t] fm7_device_ok(2,4) [OF t] fm7_store_bus_ok [OF t]
    by (simp add: fm7_write_byte_def t_def [symmetric] Let_def target b
        fm7_write_cell [OF m] split: option.split)
qed

lemma fm7_view_ok:
  assumes "fm7_bus_ok s"
  shows "fm7_bus_ok (snd (fm7_view_read dev a s))" "fm7_bus_ok (fm7_view_write dev a v s)"
  using fm7_access_ok(1) [OF assms, of dev "ucast a"] fm7_access_ok(2) [OF assms, of dev "ucast a" v]
  by (auto simp: fm7_view_read_def fm7_view_write_def elim: fm7_landsE)

interpretation fm7_guard: guarded_bus "fm7_main_view dev" fm7_bus_ok
  by unfold_locales
    (auto simp: fm7_main_view_def fm7_view_ok, auto simp: fm7_bus_ok_def)

section \<open>The plain RAM of the FM-7\<close>

text \<open>Lower RAM, BIOS work RAM and the interrupt vectors.\<close>

definition fm7_plain_ram :: "u16 set" where
  "fm7_plain_ram = {a. a \<le> 0x7FFF \<or> 0xFC00 \<le> a \<and> a \<le> 0xFC7F \<or> 0xFFE0 \<le> a \<and> a \<le> 0xFFFD}"

lemma fm7_plain_nat:
  "a \<in> fm7_plain_ram \<longleftrightarrow> unat a \<le> 0x7FFF \<or> 0xFC00 \<le> unat a \<and> unat a \<le> 0xFC7F
     \<or> 0xFFE0 \<le> unat a \<and> unat a \<le> 0xFFFD"
  by (simp add: fm7_plain_ram_def word_le_nat_alt)

lemma fm7_plain_ranges:
  assumes "a \<in> fm7_plain_ram"
  shows "\<not> (0xFD00 \<le> a \<and> a \<le> 0xFDFF)" "\<not> (0xFC80 \<le> a \<and> a \<le> 0xFCFF)"
  using assms by (auto simp: fm7_plain_nat word_le_nat_alt)

definition fm7_plain_cell :: "u16 \<Rightarrow> fm7_cell" where
  "fm7_plain_cell a =
     (if unat a \<le> 0x7FFF then LowerRam (unat a) else if unat a \<le> 0xFC7F then BiosWork (unat a - 0xFC00)
      else VectorRam (unat a - 0xFFE0))"

lemma fm7_image_nat:
  assumes "f7_model m = Fm7"
  shows "fm7_image_cell m a =
     (if unat a \<le> 0x7FFF then LowerRam (unat a)
      else if unat a \<le> 0xFBFF then
        (if f7_basic_rom_mapped m then BasicRom (unat a - 0x8000) else UpperRam (unat a - 0x8000))
      else if unat a \<le> 0xFC7F then BiosWork (unat a - 0xFC00)
      else if unat a \<le> 0xFDFF then OpenBus
      else if unat a \<le> 0xFFDF then BootRom (unat a - 0xFE00)
      else if unat a \<le> 0xFFFD then VectorRam (unat a - 0xFFE0) else ResetVector (unat a - 0xFFFE))"
proof -
  have "unat (a - k) = unat a - unat k" if "unat k \<le> unat a" for k :: u16
    using that by (simp add: unat_sub word_le_nat_alt)
  from this [of "0x8000"] this [of "0xFC00"] this [of "0xFE00"] this [of "0xFFE0"] this [of "0xFFFE"] show ?thesis
    using assms by (simp add: fm7_image_cell_def word_le_nat_alt)
qed

lemma fm7_plain_locate:
  assumes "f7_model m = Fm7" "a \<in> fm7_plain_ram"
  shows "fm7_locate m b = fm7_locate m a \<longleftrightarrow> b = a" "fm7_writable m (fm7_locate m a)"
proof -
  have "b = a" if "unat b = unat a" using that by (simp add: word_unat_eq_iff)
  then show "fm7_locate m b = fm7_locate m a \<longleftrightarrow> b = a"
    using assms by (auto simp: fm7_locate_def fm7_image_nat fm7_plain_nat split: if_split_asm)
  show "fm7_writable m (fm7_locate m a)"
    using assms by (auto simp: fm7_locate_def fm7_image_nat fm7_plain_nat fm7_writable_def)
qed

definition fm7_flat_ok :: "'d fm7_bus \<Rightarrow> bool" where
  "fm7_flat_ok s \<longleftrightarrow> fm7_bus_ok s \<and> fb_model s = Fm7"

text \<open>The byte that an address of the memory shows.\<close>

definition fm7_shown :: "'d fm7_bus \<Rightarrow> u16 \<Rightarrow> u8" where
  "fm7_shown s a = fm7_content (fb_memory s) (fm7_locate (fb_memory s) a)"

lemma fm7_shown:
  assumes "fm7_bus_ok s"
  shows "fm7_memory_read (fb_memory s) a = Some (fm7_shown s a)"
  using fm7_read_cell [of "fb_memory s" a] assms by (simp add: fm7_shown_def fm7_bus_ok_def)

lemma fm7_flat_memory: "fm7_flat_ok s \<Longrightarrow> fm7_memory_ok (fb_memory s)"
  by (simp add: fm7_flat_ok_def fm7_bus_ok_def)

lemma fm7_plain_access:
  assumes "fm7_flat_ok s" "a \<in> fm7_plain_ram"
  shows "fm7_read_byte dev a s = Some ((fm7_shown s a, True), fm7_charge_main_access_wait a s)"
    "fm7_write_byte dev a v s = Some (True, (fm7_charge_main_access_wait a s)
       \<lparr>fb_memory := fm7_store (fm7_locate (fb_memory s) a) v (fb_memory s)\<rparr>)"
proof -
  have "fm7_direct_vram_target (fb_memory s) a = Some None"
    using assms(1) by (simp add: fm7_direct_vram_target_def fm7_flat_ok_def fm7_bus_ok_def)
  then show "fm7_read_byte dev a s = Some ((fm7_shown s a, True), fm7_charge_main_access_wait a s)"
    "fm7_write_byte dev a v s = Some (True, (fm7_charge_main_access_wait a s)
       \<lparr>fb_memory := fm7_store (fm7_locate (fb_memory s) a) v (fb_memory s)\<rparr>)"
    using fm7_plain_ranges [OF assms(2)] fm7_read_cell [OF fm7_flat_memory [OF assms(1)]]
      fm7_write_cell [OF fm7_flat_memory [OF assms(1)]]
    by (auto simp: fm7_read_byte_def fm7_write_byte_def fm7_shown_def Let_def)
qed

lemma fm7_plain_write:
  assumes "fm7_flat_ok s" "a \<in> fm7_plain_ram"
  shows "fm7_shown (t\<lparr>fb_memory := fm7_store (fm7_locate (fb_memory s) a) v (fb_memory s)\<rparr>)
    = (fm7_shown s)(a := v)"
proof -
  have m: "fm7_memory_ok (fb_memory s)" "f7_model (fb_memory s) = Fm7"
    using assms(1) by (simp_all add: fm7_flat_ok_def fm7_bus_ok_def)
  show ?thesis
    by (rule ext) (simp add: fm7_shown_def fm7_content_store [OF fm7_locate_ok [OF m(1)]]
        fm7_plain_locate [OF m(2) assms(2)])
qed

lemma fm7_flat_ok_access:
  assumes "fm7_flat_ok s"
  shows "fm7_flat_ok (fm7_charge_main_access_wait a s)"
    "fm7_flat_ok ((fm7_charge_main_access_wait a s)
       \<lparr>fb_memory := fm7_store c v (fb_memory s)\<rparr>)"
  using assms fm7_charge_ok [of s a] fm7_store_bus_ok [OF fm7_charge_ok [of s a], of c v]
  by (simp_all add: fm7_flat_ok_def)

lemma fm7_plain_view:
  assumes "fm7_flat_ok s" "a \<in> fm7_plain_ram"
  shows "fm7_view_read dev (ucast a) s = (fm7_shown s a, fm7_charge_main_access_wait a s)"
    "fm7_view_write dev (ucast a) v s = (fm7_charge_main_access_wait a s)
       \<lparr>fb_memory := fm7_store (fm7_locate (fb_memory s) a) v (fb_memory s)\<rparr>"
  by (simp_all add: fm7_view_read_def fm7_view_write_def ucast_back fm7_plain_access [OF assms])

lemma fm7_shown_charge [simp]: "fm7_shown (fm7_charge_main_access_wait a s) = fm7_shown s"
  by (simp add: fm7_shown_def fun_eq_iff)

interpretation fm7_window: ram_window "fm7_main_view dev" fm7_flat_ok fm7_shown fm7_plain_ram
  by unfold_locales
    (simp_all add: fm7_main_view_def fm7_plain_view fm7_flat_ok_access fm7_plain_write)

end
