(* ===== verification/M6809_Arith.thy ===== *)
theory M6809_Arith
  imports M6809_Execute Byte_Arith
begin

text \<open>
  What the arithmetic of the MC6809 core computes. The code forms a 32-bit sum or difference
  and reads every flag from its bits; the lemmas say what the flags mean for the numbers
  involved, and that DAA turns a binary sum of packed decimal operands into the decimal one.
\<close>

section \<open>A small result and its bits\<close>

text \<open>The overflow flag: the top bits of the operands, of the result and its carry.\<close>

definition small_top :: "int \<Rightarrow> bool" where
  "small_top k \<longleftrightarrow> k < - 256 \<or> - 128 \<le> k \<and> k < 0 \<or> 128 \<le> k \<and> k < 256 \<or> 384 \<le> k"

lemma small_result_bits:
  fixes k :: int
  assumes "- 257 < k" "k < 512"
  shows "bit (word_of_int k :: u32) 8 \<longleftrightarrow> k < 0 \<or> 256 \<le> k"
    "bit (word_of_int k :: u32) 7 \<longleftrightarrow> small_top k"
proof -
  have b: "bit (word_of_int k :: u32) n \<longleftrightarrow> odd (k div 2 ^ n)" if "n < 32" for n
    using that by (simp only: bit_word_of_int_iff bit_iff_odd [of k n]) simp
  have "k div 256 = (if k < - 256 then - 2 else if k < 0 then - 1 else if k < 256 then 0 else 1)"
    using assms by auto
  then show "bit (word_of_int k :: u32) 8 \<longleftrightarrow> k < 0 \<or> 256 \<le> k" using assms by (simp add: b)
  have "k div 128 = (if k < - 256 then - 3 else if k < - 128 then - 2 else if k < 0 then - 1
      else if k < 128 then 0 else if k < 256 then 1 else if k < 384 then 2 else 3)"
    using assms by auto
  then show "bit (word_of_int k :: u32) 7 \<longleftrightarrow> small_top k"
    using assms by (simp add: b small_top_def)
qed

lemma small_result_value:
  "int (unat (ucast (word_of_int k :: u32) :: u8)) = k mod 256"
  by (simp add: unsigned_ucast_eq unsigned_of_int take_bit_eq_mod mod_mod_cancel)

lemma small_result_wrap:
  fixes k :: int
  shows "0 \<le> k \<Longrightarrow> k < 512 \<Longrightarrow> k mod 256 = k - (if 256 \<le> k then 256 else 0)"
    "- 256 \<le> k \<Longrightarrow> k < 256 \<Longrightarrow> k mod 256 = k + (if k < 0 then 256 else 0)"
  using mod_add_self2 [of k 256] minus_mod_self2 [of k 256]
    mod_pos_pos_trivial [of "k + 256" 256] mod_pos_pos_trivial [of "k - 256" 256]
    mod_pos_pos_trivial [of k 256] by auto

lemma small_overflow:
  fixes l r :: nat and c :: int
  assumes "l < 256" "r < 256" "0 \<le> c" "c \<le> 1"
  shows "(128 \<le> l) \<noteq> ((128 \<le> r) \<noteq> (small_top (int l + int r + c)
      \<noteq> (int l + int r + c < 0 \<or> 256 \<le> int l + int r + c))) \<longleftrightarrow>
    \<not> (- 128 \<le> signed8 l + signed8 r + c \<and> signed8 l + signed8 r + c \<le> 127)"
    "(128 \<le> l) \<noteq> ((128 \<le> r) \<noteq> (small_top (int l - int r - c)
      \<noteq> (int l - int r - c < 0 \<or> 256 \<le> int l - int r - c))) \<longleftrightarrow>
    \<not> (- 128 \<le> signed8 l - signed8 r - c \<and> signed8 l - signed8 r - c \<le> 127)"
  using assms unfolding small_top_def signed8_def
  by (cases "128 \<le> l"; cases "128 \<le> r"; simp; presburger)+

section \<open>Addition and subtraction\<close>

definition m6809_adc :: "bool \<Rightarrow> u8 \<Rightarrow> u8 \<Rightarrow> 'b m6809 \<Rightarrow> u8 \<times> 'b m6809" where
  "m6809_adc with_carry l r s = (if with_carry then m6809_adc8 l r s else m6809_add8 l r s)"

definition m6809_sbc :: "bool \<Rightarrow> u8 \<Rightarrow> u8 \<Rightarrow> 'b m6809 \<Rightarrow> u8 \<times> 'b m6809" where
  "m6809_sbc with_carry l r s = (if with_carry then m6809_sbc8 l r s else m6809_sub8 l r s)"

lemma m6809_adc_result:
  "m6809_adc w l r s = m6809_set_flags8 CC_HNZVC l r
     (word_of_int (int (unat l) + int (unat r) + of_bool (w \<and> cc_carry (m_flags s)))) s"
  "m6809_sbc w l r s = m6809_set_flags8 CC_NZVC l r
     (word_of_int (int (unat l) - int (unat r) - of_bool (w \<and> cc_carry (m_flags s)))) s"
  by (simp_all add: m6809_adc_def m6809_sbc_def m6809_adc8_def m6809_add8_def m6809_sbc8_def m6809_sub8_def)

lemma m6809_adc_arith:
  fixes l r :: u8 and s :: "'b m6809" and w :: bool
  defines "c \<equiv> w \<and> cc_carry (m_flags s)"
    and "v \<equiv> fst (m6809_adc w l r s)" and "f \<equiv> m_flags (snd (m6809_adc w l r s))"
  shows "unat v + 256 * of_bool (cc_carry f) = unat l + unat r + of_bool c"
    "cc_overflow f \<longleftrightarrow> \<not> (- 128 \<le> sint l + sint r + of_bool c \<and> sint l + sint r + of_bool c \<le> 127)"
    "cc_half_carry f \<longleftrightarrow> 16 \<le> unat l mod 16 + unat r mod 16 + of_bool c"
    "cc_negative f \<longleftrightarrow> sint v < 0" "cc_zero f \<longleftrightarrow> v = 0"
    "cc_irq_mask f = cc_irq_mask (m_flags s)" "cc_firq_mask f = cc_firq_mask (m_flags s)"
    "cc_entire f = cc_entire (m_flags s)" "snd (m6809_adc w l r s) = s\<lparr>m_flags := f\<rparr>"
proof -
  let ?k = "int (unat l) + int (unat r) + of_bool c"
  let ?res = "word_of_int ?k :: u32"
  have R: "m6809_adc w l r s = m6809_set_flags8 CC_HNZVC l r ?res s"
    by (simp add: m6809_adc_result c_def)
  note flags = set_flags8_flags [of CC_HNZVC l r ?res s, folded R, folded f_def, unfolded bit_cc_masks]
  have v: "v = ucast ?res" by (simp add: v_def R set_flags_state)
  have lr: "unat l < 256" "unat r < 256" by (rule unat_u8_less)+
  have c01: "(0 :: int) \<le> of_bool c" "of_bool c \<le> (1 :: int)" by simp_all
  have range: "- 257 < ?k" "?k < 512" "0 \<le> ?k" using lr c01 by linarith+
  note bits = small_result_bits [OF range(1,2)]
  have low: "int (unat v) = ?k mod 256" unfolding v by (rule small_result_value)
  have wrapped: "?k mod 256 = ?k - (if 256 \<le> ?k then 256 else 0)"
    by (rule small_result_wrap(1) [OF range(3,2)])
  have "cc_carry f = bit ?res 8" using flags(1) by simp
  then have carry: "cc_carry f \<longleftrightarrow> 256 \<le> ?k" using bits(1) range(3) by linarith
  have "int (unat v) + 256 * of_bool (cc_carry f) = ?k"
    unfolding low carry wrapped by simp
  then have "int (unat v + 256 * of_bool (cc_carry f)) = int (unat l + unat r + of_bool c)"
    by (simp only: of_nat_add of_nat_mult of_nat_of_bool of_nat_numeral)
  then show sum: "unat v + 256 * of_bool (cc_carry f) = unat l + unat r + of_bool c"
    by (simp only: of_nat_eq_iff)
  have top: "cc_overflow f \<longleftrightarrow> bit l 7 \<noteq> (bit r 7 \<noteq> (bit ?res 7 \<noteq> bit ?res 8))"
    using flags(2) by simp
  show "cc_overflow f \<longleftrightarrow> \<not> (- 128 \<le> sint l + sint r + of_bool c \<and> sint l + sint r + of_bool c \<le> 127)"
    using top small_overflow(1) [OF lr c01]
    by (simp only: sint_signed8 bits bit7_u8)
  have v_nat: "unat v = (unat l + unat r + of_bool c) mod 256"
    using sum unat_u8_less [of v] by (cases "cc_carry f") (simp_all add: sum [symmetric])
  have "bit ?res 4 = bit v 4" by (simp add: v bit_ucast_iff)
  then have "cc_half_carry f \<longleftrightarrow> bit l 4 \<noteq> (bit r 4 \<noteq> bit v 4)" using flags(6) by simp
  then show "cc_half_carry f \<longleftrightarrow> 16 \<le> unat l mod 16 + unat r mod 16 + of_bool c"
    by (simp only: half_carry_bit [OF v_nat])
  have "bit ?res 7 = bit v 7" by (simp add: v bit_ucast_iff)
  then show "cc_negative f \<longleftrightarrow> sint v < 0" using flags(4) by (simp add: sint_u8_negative)
  show "cc_zero f \<longleftrightarrow> v = 0" using flags(3) by (simp add: v)
  show "cc_irq_mask f = cc_irq_mask (m_flags s)" "cc_firq_mask f = cc_firq_mask (m_flags s)"
    "cc_entire f = cc_entire (m_flags s)" using flags(5,7,8) by simp_all
  show "snd (m6809_adc w l r s) = s\<lparr>m_flags := f\<rparr>"
    unfolding f_def R by (rule set_flags_state)
qed

lemma m6809_sbc_arith:
  fixes l r :: u8 and s :: "'b m6809" and w :: bool
  defines "c \<equiv> w \<and> cc_carry (m_flags s)"
    and "v \<equiv> fst (m6809_sbc w l r s)" and "f \<equiv> m_flags (snd (m6809_sbc w l r s))"
  shows "int (unat v) - 256 * of_bool (cc_carry f) = int (unat l) - int (unat r) - of_bool c"
    "cc_overflow f \<longleftrightarrow> \<not> (- 128 \<le> sint l - sint r - of_bool c \<and> sint l - sint r - of_bool c \<le> 127)"
    "cc_half_carry f = cc_half_carry (m_flags s)"
    "cc_negative f \<longleftrightarrow> sint v < 0" "cc_zero f \<longleftrightarrow> v = 0"
    "cc_irq_mask f = cc_irq_mask (m_flags s)" "cc_firq_mask f = cc_firq_mask (m_flags s)"
    "cc_entire f = cc_entire (m_flags s)" "snd (m6809_sbc w l r s) = s\<lparr>m_flags := f\<rparr>"
proof -
  let ?k = "int (unat l) - int (unat r) - of_bool c"
  let ?res = "word_of_int ?k :: u32"
  have R: "m6809_sbc w l r s = m6809_set_flags8 CC_NZVC l r ?res s"
    by (simp add: m6809_adc_result c_def)
  note flags = set_flags8_flags [of CC_NZVC l r ?res s, folded R, folded f_def, unfolded bit_cc_masks]
  have v: "v = ucast ?res" by (simp add: v_def R set_flags_state)
  have lr: "unat l < 256" "unat r < 256" by (rule unat_u8_less)+
  have c01: "(0 :: int) \<le> of_bool c" "of_bool c \<le> (1 :: int)" by simp_all
  have range: "- 257 < ?k" "?k < 512" "- 256 \<le> ?k" "?k < 256" using lr c01 by linarith+
  note bits = small_result_bits [OF range(1,2)]
  have low: "int (unat v) = ?k mod 256" unfolding v by (rule small_result_value)
  have wrapped: "?k mod 256 = ?k + (if ?k < 0 then 256 else 0)"
    by (rule small_result_wrap(2) [OF range(3,4)])
  have "cc_carry f = bit ?res 8" using flags(1) by simp
  then have carry: "cc_carry f \<longleftrightarrow> ?k < 0" using bits(1) range(4) by linarith
  show "int (unat v) - 256 * of_bool (cc_carry f) = ?k"
    unfolding low carry wrapped by simp
  have top: "cc_overflow f \<longleftrightarrow> bit l 7 \<noteq> (bit r 7 \<noteq> (bit ?res 7 \<noteq> bit ?res 8))"
    using flags(2) by simp
  show "cc_overflow f \<longleftrightarrow> \<not> (- 128 \<le> sint l - sint r - of_bool c \<and> sint l - sint r - of_bool c \<le> 127)"
    using top small_overflow(2) [OF lr c01]
    by (simp only: sint_signed8 bits bit7_u8)
  have "bit ?res 7 = bit v 7" by (simp add: v bit_ucast_iff)
  then show "cc_negative f \<longleftrightarrow> sint v < 0" using flags(4) by (simp add: sint_u8_negative)
  show "cc_zero f \<longleftrightarrow> v = 0" using flags(3) by (simp add: v)
  show "cc_half_carry f = cc_half_carry (m_flags s)"
    "cc_irq_mask f = cc_irq_mask (m_flags s)" "cc_firq_mask f = cc_firq_mask (m_flags s)"
    "cc_entire f = cc_entire (m_flags s)" using flags(5-8) by simp_all
  show "snd (m6809_sbc w l r s) = s\<lparr>m_flags := f\<rparr>"
    unfolding f_def R by (rule set_flags_state)
qed

section \<open>Decimal adjustment\<close>

definition m6809_daa_high :: "'b m6809 \<Rightarrow> bool" where
  "m6809_daa_high s \<longleftrightarrow> cc_carry (m_flags s) \<or> 0x99 < unat (m_a s)"

definition m6809_daa_low :: "'b m6809 \<Rightarrow> bool" where
  "m6809_daa_low s \<longleftrightarrow> cc_half_carry (m_flags s) \<or> 9 < unat (m_a s) mod 16"

lemma high_nibble: "unat ((x :: u8) AND 0xF0) = 16 * (unat x div 16)"
proof -
  have "(0xF0 :: u8) = NOT (mask 4)" by (simp add: mask_eq_exp_minus_1 word_unat_eq_iff)
  then have "x AND 0xF0 = x AND NOT (mask 4)" by simp
  also have "\<dots> = push_bit 4 (drop_bit 4 x)" by (rule bit_word_eqI) (auto simp: bit_simps)
  finally have "unat (x AND 0xF0) = unat (push_bit 4 (drop_bit 4 x))" by simp
  also have "\<dots> = take_bit 8 (push_bit 4 (drop_bit 4 (take_bit 8 (unat x))))"
    unfolding unsigned_push_bit_eq unsigned_drop_bit_eq by simp
  also have "take_bit 8 (push_bit 4 (drop_bit 4 (take_bit 8 n))) = 16 * (n div 16)" if "n < 256" for n :: nat
    using that div_times_less_eq_dividend [of n 16]
    by (simp add: take_bit_eq_mod push_bit_eq_mult drop_bit_eq_div)
  note this [OF unat_u8_less]
  finally show ?thesis .
qed

lemma m6809_daa_effect:
  "unat (m_a (m6809_daa s)) =
     (unat (m_a s) + 96 * of_bool (m6809_daa_high s) + 6 * of_bool (m6809_daa_low s)) mod 256"
  "cc_carry (m_flags (m6809_daa s)) \<longleftrightarrow> m6809_daa_high s"
proof -
  let ?a = "unat (m_a s)"
  define corr :: u16 where
    "corr = 0x60 * of_bool (m6809_daa_high s) + 0x06 * of_bool (m6809_daa_low s)"
  define q r where "q = ?a div 16" and "r = ?a mod 16"
  have split: "?a = 16 * q + r" "r < 16" by (simp_all add: q_def r_def)
  have low: "(m_a s AND 0x0F) > 9 \<longleftrightarrow> 9 < r" by (simp add: word_less_nat_alt low_nibble r_def)
  have high: "(m_a s AND 0xF0) > 0x90 \<longleftrightarrow> 9 < q" "(m_a s AND 0xF0) > 0x80 \<longleftrightarrow> 8 < q"
    by (simp_all add: word_less_nat_alt high_nibble q_def)
  have both: "(m_a s AND 0xF0) > 0x80 \<and> (m_a s AND 0x0F) > 9 \<or> (m_a s AND 0xF0) > 0x90
      \<or> cc_carry (m_flags s) \<longleftrightarrow> m6809_daa_high s"
    unfolding low high m6809_daa_high_def using split by (cases "q < 9"; cases "q = 9"; auto)
  have sum: "unat (ucast (m_a s) + corr) = ?a + 96 * of_bool (m6809_daa_high s) + 6 * of_bool (m6809_daa_low s)"
    using unat_u8_less [of "m_a s"]
    by (cases "m6809_daa_high s"; cases "m6809_daa_low s")
      (simp_all add: corr_def unat_word_ariths unsigned_ucast_eq take_bit_eq_mod)
  have overflow: "(ucast (m_a s) + corr) AND 0x0100 \<noteq> 0 \<longleftrightarrow> 256 \<le> unat (ucast (m_a s) + corr)"
    using and_pow2_nonzero [of "ucast (m_a s) + corr" 8] unat_u8_less [of "m_a s"]
    by (cases "m6809_daa_high s"; cases "m6809_daa_low s") (auto simp: bit_odd_div sum div_if)
  define c1 :: u16 where "c1 = (if (m_a s AND 0x0F) > 9 \<or> cc_half_carry (m_flags s) then 0 OR 0x06 else 0)"
  define c2 where "c2 = (if (m_a s AND 0xF0) > 0x80 \<and> (m_a s AND 0x0F) > 9 then c1 OR 0x60 else c1)"
  define c3 where "c3 = (if (m_a s AND 0xF0) > 0x90 \<or> cc_carry (m_flags s) then c2 OR 0x60 else c2)"
  have "c3 = corr"
    unfolding c3_def c2_def c1_def corr_def both [symmetric] m6809_daa_low_def r_def [symmetric] low by auto
  moreover define u where "u = m6809_assign_overflow False s"
  define v where "v = (if (ucast (m_a s) + corr) AND 0x0100 \<noteq> 0 then m6809_assign_carry True u else u)"
  ultimately have daa: "m6809_daa s = (snd (m6809_set_nz8 (ucast (ucast (m_a s) + corr)) v))
      \<lparr>m_a := fst (m6809_set_nz8 (ucast (ucast (m_a s) + corr)) v)\<rparr>"
    by (simp only: m6809_daa_def Let_def case_prod_unfold c1_def [symmetric] c2_def [symmetric]
        c3_def [symmetric] u_def [symmetric] v_def [symmetric])
  show "unat (m_a (m6809_daa s)) =
     (?a + 96 * of_bool (m6809_daa_high s) + 6 * of_bool (m6809_daa_low s)) mod 256"
  proof -
    have "unat (ucast w :: u8) = unat w mod 256" for w :: u16
      by (simp add: unsigned_ucast_eq take_bit_eq_mod)
    moreover have "m_a (m6809_daa s) = ucast (ucast (m_a s) + corr)"
      unfolding daa m6809_set_nz8_def set_flags_state(1) by (simp add: ucast_back)
    ultimately show ?thesis by (simp only: sum)
  qed
  have "cc_carry (m_flags (m6809_daa s)) = cc_carry (m_flags v)"
    unfolding daa m6809_set_nz8_def by (simp add: set_flags8_flags bit_cc_masks)
  also have "\<dots> \<longleftrightarrow> 256 \<le> unat (ucast (m_a s) + corr) \<or> cc_carry (m_flags s)"
    unfolding v_def u_def overflow by (simp add: m6809_assign_carry_def m6809_assign_overflow_def)
  also have "\<dots> \<longleftrightarrow> m6809_daa_high s"
  proof -
    have "256 \<le> ?a + 96 * of_bool (cc_carry (m_flags s) \<or> 153 < ?a) + 6 * of_bool b \<Longrightarrow>
        cc_carry (m_flags s) \<or> 153 < ?a" for b
      by (cases "cc_carry (m_flags s) \<or> 153 < ?a"; cases b) simp_all
    moreover have "256 \<le> ?a + 96 + 6 * of_bool (m6809_daa_low s)" if "153 < ?a"
    proof (cases "?a < 160")
      case True
      then have "9 < ?a mod 16" using that by presburger
      then show ?thesis using that by (simp add: m6809_daa_low_def)
    qed simp
    ultimately show ?thesis unfolding sum m6809_daa_high_def by fastforce
  qed
  finally show "cc_carry (m_flags (m6809_daa s)) \<longleftrightarrow> m6809_daa_high s" .
qed

section \<open>Claims\<close>

text \<open>
  Byte arithmetic of the MC6809. ADD and ADC deliver the sum modulo 256 with its carry, SUB and SBC
  (and CMP, which keeps only the flags of SUB) the difference modulo 256 with its borrow; overflow is set
  exactly when the signed result is not a byte, half carry by additions only and when the low digits
  carry, sign and zero describe the result, and no other register or flag changes.
\<close>

theorem m6809_byte_arithmetic:
  fixes s :: "'b m6809" and l r :: u8 and with_carry :: bool
  defines "c \<equiv> with_carry \<and> cc_carry (m_flags s)"
    and "add \<equiv> if with_carry then m6809_adc8 l r s else m6809_add8 l r s"
    and "sub \<equiv> if with_carry then m6809_sbc8 l r s else m6809_sub8 l r s"
  defines "f \<equiv> m_flags (snd add)" and "g \<equiv> m_flags (snd sub)"
  shows "unat (fst add) + 256 * of_bool (cc_carry f) = unat l + unat r + of_bool c
    \<and> (cc_overflow f \<longleftrightarrow> \<not> (- 128 \<le> sint l + sint r + of_bool c \<and> sint l + sint r + of_bool c \<le> 127))
    \<and> (cc_half_carry f \<longleftrightarrow> 16 \<le> unat l mod 16 + unat r mod 16 + of_bool c)
    \<and> (cc_negative f \<longleftrightarrow> sint (fst add) < 0) \<and> (cc_zero f \<longleftrightarrow> fst add = 0)
    \<and> snd add = s\<lparr>m_flags := (m_flags s)\<lparr>cc_carry := cc_carry f, cc_overflow := cc_overflow f,
        cc_half_carry := cc_half_carry f, cc_negative := cc_negative f, cc_zero := cc_zero f\<rparr>\<rparr>
    \<and> int (unat (fst sub)) - 256 * of_bool (cc_carry g) = int (unat l) - int (unat r) - of_bool c
    \<and> (cc_overflow g \<longleftrightarrow> \<not> (- 128 \<le> sint l - sint r - of_bool c \<and> sint l - sint r - of_bool c \<le> 127))
    \<and> (cc_negative g \<longleftrightarrow> sint (fst sub) < 0) \<and> (cc_zero g \<longleftrightarrow> fst sub = 0)
    \<and> snd sub = s\<lparr>m_flags := (m_flags s)\<lparr>cc_carry := cc_carry g, cc_overflow := cc_overflow g,
        cc_negative := cc_negative g, cc_zero := cc_zero g\<rparr>\<rparr>"
proof -
  have ops: "add = m6809_adc with_carry l r s" "sub = m6809_sbc with_carry l r s"
    by (simp_all add: add_def sub_def m6809_adc_def m6809_sbc_def)
  note a = m6809_adc_arith [of with_carry l r s, folded ops c_def f_def]
    and d = m6809_sbc_arith [of with_carry l r s, folded ops c_def g_def]
  have flags: "f = (m_flags s)\<lparr>cc_carry := cc_carry f, cc_overflow := cc_overflow f,
        cc_half_carry := cc_half_carry f, cc_negative := cc_negative f, cc_zero := cc_zero f\<rparr>"
    "g = (m_flags s)\<lparr>cc_carry := cc_carry g, cc_overflow := cc_overflow g,
        cc_negative := cc_negative g, cc_zero := cc_zero g\<rparr>"
    using a(6-8) d(3,6-8) by simp_all
  show ?thesis
    using a(1-5) d(1,2,4,5) a(9) d(9) flags by metis
qed

text \<open>
  Decimal arithmetic of the MC6809. For packed decimal operands, ADDA or ADCA followed by DAA leaves
  the packed decimal sum modulo 100 in A and the decimal carry in the carry flag.
\<close>

theorem m6809_daa_decimal:
  fixes s :: "'b m6809" and with_carry :: bool
  assumes "m \<le> 99" "n \<le> 99"
  defines "R \<equiv> if with_carry then m6809_adc8 (bcd m) (bcd n) s else m6809_add8 (bcd m) (bcd n) s"
    and "c \<equiv> with_carry \<and> cc_carry (m_flags s)"
  defines "t \<equiv> m6809_daa (m6809_set_accumulator False (fst R) (snd R))"
  shows "m_a t = bcd ((m + n + of_bool c) mod 100) \<and> (cc_carry (m_flags t) \<longleftrightarrow> 100 \<le> m + n + of_bool c)"
proof -
  let ?u = "m6809_set_accumulator False (fst R) (snd R)"
  have R: "R = m6809_adc with_carry (bcd m) (bcd n) s" by (simp add: R_def m6809_adc_def)
  note a = m6809_adc_arith [of with_carry "bcd m" "bcd n" s, folded R c_def]
  have u: "m_a ?u = fst R" "m_flags ?u = m_flags (snd R)" by (simp_all add: m6809_set_accumulator_def)
  have carry: "cc_carry (m_flags ?u) \<longleftrightarrow> 256 \<le> unat (bcd m) + unat (bcd n) + of_bool c"
    and v: "unat (m_a ?u) = (unat (bcd m) + unat (bcd n) + of_bool c) mod 256"
    unfolding u a(1) [symmetric] using unat_u8_less [of "fst R"]
    by (cases "cc_carry (m_flags (snd R))"; simp)+
  note adjusted = bcd_add_adjusted [OF assms(1,2) carry v a(3) [folded u(2)],
      folded m6809_daa_high_def m6809_daa_low_def]
  show ?thesis
    using adjusted by (simp add: t_def m6809_daa_effect word_unat_eq_iff)
qed

theorem m6809_daa_decimal_witness:
  "m_a (m6809_daa (m6809_set_accumulator False (fst (m6809_add8 (bcd 47) (bcd 85) (m6809_new 1798000 ())))
     (snd (m6809_add8 (bcd 47) (bcd 85) (m6809_new 1798000 ()))))) = bcd 32"
  using m6809_daa_decimal [of 47 85 False "m6809_new 1798000 ()"] by simp

end
