(* ===== verification/Fm7_Properties.thy ===== *)
theory Fm7_Properties
  imports Fm7_Bus_Properties M6809_Arith
begin

text \<open>
  The FM-7's main processor on its bus: it runs, it boots where the ROMs say, its interrupts
  return, and its clocks and waits add up.
\<close>

section \<open>Running\<close>

text \<open>A machine whose I/O page has no device, for concrete runs.\<close>

definition fm7_no_devices :: "unit fm7_devices" where
  "fm7_no_devices =
     \<lparr> dev_keycode_high = (\<lambda>d. False), dev_keyboard_low = (\<lambda>d. (0xFF, d)),
       dev_port_read = (\<lambda>port c side. (0xFF, side)), dev_port_write = (\<lambda>port v c side. side),
       dev_sub_read = (\<lambda>a c side. (0xFF, side)), dev_sub_write = (\<lambda>a v c side. side) \<rparr>"

lemma fm7_bus_new_ok: "fm7_bus_ok (fm7_bus_new model mode d)"
  using fm7_memory_empty_ok [of model mode]
  by (simp add: fm7_bus_ok_def fm7_bus_new_def fm7_memory_empty_def Let_def)

text \<open>
  C9 The FM-7's main processor always stops at its budget, and never panics. From a valid processor state
  and a bus in its invariant, \<open>run_for\<close> returns for every budget, reports the cycles it took, and
  leaves a state that \<open>validate_state\<close> accepts on a bus in its invariant. No access that any program
  makes on the way, to the memory, the page registers or the shared RAM, is outside its array,
  whatever the devices do: each of them returned, for the adapter would have recorded the panic.
\<close>

theorem fm7_main_cpu_returns:
  assumes "m6809_validate_state s = Inr ()" "fm7_bus_ok (m_bus s)"
  shows "\<exists>t. m6809_run_for (fm7_main_view dev) cycles s = Some (word_of_int (sint cycles - m_cycles_remaining t), t)
    \<and> m6809_validate_state t = Inr () \<and> fm7_bus_ok (m_bus t) \<and> \<not> fb_panicked (m_bus t)"
proof -
  obtain t where "m6809_run_for (fm7_main_view dev) cycles s = Some (word_of_int (sint cycles - m_cycles_remaining t), t)"
    "m6809_validate_state t = Inr ()" "fm7_bus_ok (m_bus t)"
    using fm7_guard.m6809_run_for_returns [of s dev cycles] assms by (auto simp: m6809_validate_ok)
  moreover from this(3) have "\<not> fb_panicked (m_bus t)" by (simp add: fm7_bus_ok_def)
  ultimately show ?thesis by blast
qed

theorem fm7_main_cpu_returns_witness:
  "\<exists>t. m6809_run_for (fm7_main_view fm7_no_devices) 1000 (m6809_new 1798000 (fm7_bus_new Fm77Av BootDos ()))
      = Some (word_of_int (sint (1000 :: u64) - m_cycles_remaining t), t)
    \<and> m6809_validate_state t = Inr () \<and> fm7_bus_ok (m_bus t) \<and> \<not> fb_panicked (m_bus t)"
  by (rule fm7_main_cpu_returns)
    (simp_all add: m6809_new_def m6809_reset_def m6809_state_default_def m6809_state.defs m6809.defs
      m6809_validate_state_def fm7_bus_new_ok Let_def)

section \<open>Interrupts\<close>

lemma m6809_below_lower:
  assumes "0x000C \<le> sp" "sp \<le> 0x7FFF"
  shows "n \<le> 12 \<Longrightarrow> sp - word_of_nat n \<in> fm7_plain_ram"
    "a \<in> m6809_below sp \<Longrightarrow> unat sp - 12 \<le> unat a \<and> unat a < unat sp"
proof -
  have sp: "12 \<le> unat sp" "unat sp \<le> 0x7FFF" using assms by (simp_all add: word_le_nat_alt)
  have diff: "unat (sp - word_of_nat n) = unat sp - n" if "n \<le> 12" for n
  proof -
    have n: "unat (word_of_nat n :: u16) = n" using that by (simp add: unsigned_of_nat take_bit_nat_eq_self)
    then have "word_of_nat n \<le> sp" using that sp by (simp add: word_le_nat_alt)
    then show ?thesis by (simp add: unat_sub n)
  qed
  show "sp - word_of_nat n \<in> fm7_plain_ram" if "n \<le> 12"
    using sp diff [OF that] unfolding fm7_plain_nat by linarith
  show "unat sp - 12 \<le> unat a \<and> unat a < unat sp" if "a \<in> m6809_below sp"
    using that diff sp by (auto simp: m6809_below_def)
qed

text \<open>
  C25 An interrupt on the FM-7 returns. With the stack in the lower RAM, an IRQ whose handler
  (below 8000 and outside the twelve bytes under the stack pointer) is RTI gives every register
  back in two steps: all twelve bytes of the machine state pass through the machine's memory,
  the latch is acknowledged, and the E flag records that the whole state was stacked. No access
  of the two steps panics.
\<close>

theorem fm7_irq_returns:
  assumes "fm7_bus_ok (m_bus s)" "fb_model (m_bus s) = Fm7"
    and "m_pending_extended_clear s = None" "m_pending_irq s = PENDING_IRQ"
    and "\<not> cc_irq_mask (m_flags s)" "\<not> m_cwai_waiting s"
    and stack: "0x000C \<le> m_s s" "m_s s \<le> 0x7FFF"
    and vector: "fm7_memory_read (fb_memory (m_bus s)) 0xFFF8 = Some high"
      "fm7_memory_read (fb_memory (m_bus s)) 0xFFF9 = Some low"
    and handler: "handler = le16 low high"
      "handler \<le> 0x7FFF" "m_s s \<le> handler \<or> unat handler < unat (m_s s) - 12"
      "fm7_memory_read (fb_memory (m_bus s)) handler = Some 0x3B"
  shows "m6809_capture_state (m6809_execute_one (fm7_main_view dev) (m6809_execute_one (fm7_main_view dev) s)) =
      (m6809_capture_state s)\<lparr>m_flags := (m_flags s)\<lparr>cc_entire := True\<rparr>, m_halted := False,
        m_pending_irq := 0\<rparr>
    \<and> \<not> fb_panicked (m_bus (m6809_execute_one (fm7_main_view dev) (m6809_execute_one (fm7_main_view dev) s)))"
proof
  have "fm7_bus_ok (m_bus (m6809_execute_one (fm7_main_view dev) (m6809_execute_one (fm7_main_view dev) s)))"
    using assms(1) by (intro fm7_guard.m6809_execute_one_ok)
  then show "\<not> fb_panicked (m_bus (m6809_execute_one (fm7_main_view dev) (m6809_execute_one (fm7_main_view dev) s)))"
    by (simp add: fm7_bus_ok_def)
  have irq: "VECTOR_IRQ = 0xFFF8" "(0xFFF8 :: u16) + 1 = 0xFFF9" by (simp_all add: VECTOR_IRQ_def)
  have shown: "fm7_shown (m_bus s) 0xFFF8 = high" "fm7_shown (m_bus s) 0xFFF9 = low"
    "fm7_shown (m_bus s) handler = 0x3B"
    using vector handler(4) by (simp_all add: fm7_shown [OF assms(1)])
  have high: "0xFFF8 \<in> fm7_plain_ram" "0xFFF9 \<in> fm7_plain_ram" by (simp_all add: fm7_plain_nat)
  have apart: "a \<notin> m6809_below (m_s s)" if "unat (m_s s) \<le> unat a \<or> unat a < unat (m_s s) - 12" for a
    using m6809_below_lower(2) [OF stack, of a] that by linarith
  have "unat (m_s s) \<le> 0x7FFF" using stack(2) by (simp add: word_le_nat_alt)
  then have "0xFFF8 \<notin> m6809_below (m_s s)" "0xFFF9 \<notin> m6809_below (m_s s)" by (intro apart; simp)+
  moreover have "handler \<notin> m6809_below (m_s s)" "handler \<in> fm7_plain_ram"
    using handler(2,3) by (auto intro!: apart simp: word_le_nat_alt fm7_plain_nat)
  ultimately show "m6809_capture_state (m6809_execute_one (fm7_main_view dev) (m6809_execute_one (fm7_main_view dev) s)) =
      (m6809_capture_state s)\<lparr>m_flags := (m_flags s)\<lparr>cc_entire := True\<rparr>, m_halted := False,
        m_pending_irq := 0\<rparr>"
    using fm7_window.m6809_irq_return [of s dev, OF _ assms(3-6) m6809_below_lower(1) [OF stack]]
      assms(1,2) high
    unfolding irq shown(1,2) handler(1) [symmetric] by (simp add: fm7_flat_ok_def shown(3))
qed

text \<open>A machine with an RTI at 2000, to which the IRQ vector points, and a pending IRQ.\<close>

definition fm7_demo_memory :: fm7_memory where
  "fm7_demo_memory = (fm7_memory_empty Fm7 BootBasic)
     \<lparr>f7_lower_ram := (replicate LOWER_RAM_SIZE 0)[0x2000 := 0x3B],
      f7_vector_ram := (replicate VECTOR_RAM_SIZE 0)[0x18 := 0x20]\<rparr>"

definition fm7_irq_demo :: "unit fm7_bus m6809" where
  "fm7_irq_demo =
     (m6809_new 1798000 ((fm7_bus_new Fm7 BootBasic ())\<lparr>fb_memory := fm7_demo_memory\<rparr>))
       \<lparr>m_s := 0x1000, m_x := 0x1234, m_flags := m6809_flags_new 0, m_pending_irq := PENDING_IRQ\<rparr>"

lemma fm7_irq_demo_state:
  "m_s fm7_irq_demo = 0x1000" "m_pending_irq fm7_irq_demo = PENDING_IRQ"
  "m_flags fm7_irq_demo = m6809_flags_new 0" "\<not> m_cwai_waiting fm7_irq_demo"
  "m_pending_extended_clear fm7_irq_demo = None"
  "m_bus fm7_irq_demo = (fm7_bus_new Fm7 BootBasic ())\<lparr>fb_memory := fm7_demo_memory\<rparr>"
  by (simp_all add: fm7_irq_demo_def Let_def m6809_new_def m6809_reset_def m6809_state_default_def
      m6809_state.defs m6809.defs)

lemma fm7_demo_memory:
  "fm7_memory_ok fm7_demo_memory" "f7_model fm7_demo_memory = Fm7" "\<not> f7_mmr_enabled fm7_demo_memory"
  "fm7_memory_read fm7_demo_memory 0x2000 = Some 0x3B" "fm7_memory_read fm7_demo_memory 0xFFF8 = Some 0x20"
  "fm7_memory_read fm7_demo_memory 0xFFF9 = Some 0x00"
  by (simp_all add: fm7_demo_memory_def fm7_memory_ok_def fm7_memory_read_def fm7_flat_read_def
      fm7_memory_empty_def fm7_has_boot_ram_def Let_def fm7_sizes list_get_def FM7_RESET_VECTOR_def)

theorem fm7_irq_returns_witness:
  "m6809_capture_state (m6809_execute_one (fm7_main_view fm7_no_devices)
       (m6809_execute_one (fm7_main_view fm7_no_devices) fm7_irq_demo)) =
     (m6809_capture_state fm7_irq_demo)\<lparr>m_flags := (m_flags fm7_irq_demo)\<lparr>cc_entire := True\<rparr>,
       m_halted := False, m_pending_irq := 0\<rparr>
   \<and> \<not> fb_panicked (m_bus (m6809_execute_one (fm7_main_view fm7_no_devices)
       (m6809_execute_one (fm7_main_view fm7_no_devices) fm7_irq_demo)))"
proof -
  have "fm7_bus_ok (m_bus fm7_irq_demo)"
    using fm7_bus_new_ok [of Fm7 BootBasic "()"]
    unfolding fm7_irq_demo_state(6)
    by (intro fm7_memory_bank_ok fm7_demo_memory(1)) (simp_all add: fm7_bus_new_def fm7_demo_memory
        fm7_memory_empty_def Let_def)
  then show ?thesis
    by (rule fm7_irq_returns [where handler = "0x2000" and high = "0x20" and low = "0x00"])
      (simp_all add: fm7_irq_demo_state fm7_demo_memory m6809_flags_new_def fm7_bus_new_def le16_def)
qed

section \<open>Boot\<close>

lemma fm7_top_read:
  assumes "0xFE00 \<le> a" "fm7_memory_read (fb_memory s) a = Some v"
  shows "fm7_view_read dev (ucast a) s = (v, fm7_charge_main_access_wait a s)"
proof -
  have "\<not> a < 0xFC00" "\<not> a \<le> 0xFDFF" "\<not> a \<le> 0xFCFF"
    using assms(1) by (simp_all add: word_le_nat_alt word_less_nat_alt)
  then show ?thesis
    using assms(2) by (simp add: fm7_view_read_def ucast_back fm7_read_byte_def fm7_direct_vram_target_def Let_def)
qed

lemma fm7_reset_reads:
  assumes "fm7_memory_read (fb_memory b) 0xFFFE = Some high" "fm7_memory_read (fb_memory b) 0xFFFF = Some low"
  shows "m6809_reset_with_bus (fm7_main_view dev) (m6809_new hz b) =
     (m6809_new hz (fm7_charge_main_access_wait 0xFFFF (fm7_charge_main_access_wait 0xFFFE b)))
       \<lparr>m_pc := le16 low high\<rparr>"
  using fm7_top_read [of "0xFFFE" b high dev] fm7_top_read [of "0xFFFF" "fm7_charge_main_access_wait 0xFFFE b" low dev]
    assms
  by (simp add: m6809_reset_with_bus_def m6809_read_word_untracked_def fm7_main_view_def
      VECTOR_RESET_def Let_def m6809_new_def m6809_reset_def m6809_state_default_def m6809_state.defs
      m6809.defs)

text \<open>
  C38 Where the machines start. After the ROMs are loaded, a reset fetches the vector from the bus: an FM-7
  continues at FE00, in its boot ROM, and an FM-77AV at the word in the last two bytes of the
  initiator ROM; switching the initiator off uncovers the vector FE00 of the boot RAM. The
  interrupts are masked, the stack is not armed for NMI, and the two reads cost one wait cycle and do not
  panic.
\<close>

theorem fm7_boots:
  fixes roms :: fm7_roms and mode :: boot_mode and dev :: "'d fm7_devices" and d :: 'd
    and install :: "'d \<Rightarrow> 'd" and hz :: u32
  defines "b \<equiv> fm7_load_roms install roms (fm7_bus_new (roms_model roms) mode d)"
  assumes "roms_model roms = Fm77Av \<Longrightarrow> roms_initiate roms = Some r \<and> length r = INITIATOR_ROM_SIZE"
  defines "t \<equiv> m6809_reset_with_bus (fm7_main_view dev) (m6809_new hz b)"
  shows "m_pc t = (case roms_model roms of Fm7 \<Rightarrow> 0xFE00 | Fm77Av \<Rightarrow> le16 (r ! 0x1FFF) (r ! 0x1FFE))
    \<and> fm7_memory_read (fm7_set_initiator_enabled False (fb_memory (m_bus t))) 0xFFFE = Some 0xFE
    \<and> fm7_memory_read (fm7_set_initiator_enabled False (fb_memory (m_bus t))) 0xFFFF = Some 0x00
    \<and> cc_irq_mask (m_flags t) \<and> cc_firq_mask (m_flags t) \<and> \<not> m_nmi_armed t
    \<and> fb_wait_cycles (m_bus t) = 1 \<and> \<not> fb_panicked (m_bus t)"
proof -
  let ?m = "fm7_memory_new roms mode"
  have b: "fb_memory b = ?m" "fb_wait_cycles b = 0" "fb_clock_fast b" "fb_io_wait_counter b = 0"
    "\<not> fb_io_wait_long_phase b" "\<not> fb_panicked b"
    by (simp_all add: b_def fm7_load_roms_def fm7_bus_new_def)
  have new: "m_bus (m6809_new hz x) = x" "cc_irq_mask (m_flags (m6809_new hz x))"
    "cc_firq_mask (m_flags (m6809_new hz x))" "\<not> m_nmi_armed (m6809_new hz x)" for x :: "'d fm7_bus"
    by (simp_all add: m6809_new_def m6809_reset_def m6809_state_default_def m6809_state.defs m6809.defs Let_def)
  have "fb_wait_cycles (fm7_charge_main_access_wait 0xFFFF (fm7_charge_main_access_wait 0xFFFE b)) = 1"
    by (simp add: fm7_charge_main_access_wait_def fm7_charges_io_wait_def Let_def b word_le_nat_alt)
  moreover have "\<not> fb_panicked (fm7_charge_main_access_wait 0xFFFF (fm7_charge_main_access_wait 0xFFFE b))"
    by (simp add: fm7_charge_main_access_wait_def Let_def b)
  moreover obtain high low where
    "fm7_memory_read ?m 0xFFFE = Some high" "fm7_memory_read ?m 0xFFFF = Some low"
    "le16 low high = (case roms_model roms of Fm7 \<Rightarrow> 0xFE00 | Fm77Av \<Rightarrow> le16 (r ! 0x1FFF) (r ! 0x1FFE))"
    "fm7_memory_read (fm7_set_initiator_enabled False ?m) 0xFFFE = Some 0xFE"
    "fm7_memory_read (fm7_set_initiator_enabled False ?m) 0xFFFF = Some 0x00"
  proof (cases "roms_model roms")
    case Fm7
    note new = fm7_new_flat [OF this, of mode]
    have "fm7_memory_read (fm7_set_initiator_enabled False ?m) a = fm7_memory_read ?m a" for a
      using new(1) by (simp add: fm7_set_initiator_enabled_def fm7_memory_read_def fm7_flat_read_def Let_def)
    then show ?thesis using that [OF new(2,3)] new(2,3) by (simp add: Fm7 le16_def)
  next
    case Fm77Av
    with assms(2) have "roms_initiate roms = Some r" "length r = INITIATOR_ROM_SIZE" by simp_all
    note new = fm7_new_av [OF Fm77Av this, of mode]
    show ?thesis using that [OF new(2,3)] new(4,5) by (simp add: Fm77Av)
  qed
  ultimately show ?thesis
    by (simp add: t_def fm7_reset_reads new b)
qed

definition fm7_demo_roms :: fm7_roms where
  "fm7_demo_roms =
     \<lparr> roms_model = Fm77Av, roms_fbasic = [], roms_boot_bas = None, roms_boot_dos = None,
       roms_initiate = Some ((replicate INITIATOR_ROM_SIZE 0)[0x1FFE := 0x60, 0x1FFF := 0x12]) \<rparr>"

theorem fm7_boots_witness:
  "m_pc (m6809_reset_with_bus (fm7_main_view fm7_no_devices)
     (m6809_new 1798000 (fm7_load_roms id fm7_demo_roms (fm7_bus_new Fm77Av BootBasic ())))) = 0x6012"
proof -
  let ?r = "(replicate INITIATOR_ROM_SIZE 0)[0x1FFE := 0x60, 0x1FFF := 0x12] :: u8 list"
  have "roms_initiate fm7_demo_roms = Some ?r \<and> length ?r = INITIATOR_ROM_SIZE"
    by (simp add: fm7_demo_roms_def)
  moreover have "?r ! 0x1FFF = 0x12" "?r ! 0x1FFE = 0x60" by (simp_all add: fm7_sizes)
  ultimately show ?thesis
    using fm7_boots [of fm7_demo_roms ?r fm7_no_devices 1798000 id BootBasic "()"]
    by (simp add: fm7_demo_roms_def le16_def)
qed

section \<open>Waits and clocks\<close>

text \<open>The charges of a sequence of accesses.\<close>

definition fm7_charges :: "u16 list \<Rightarrow> 'd fm7_bus \<Rightarrow> 'd fm7_bus" where
  "fm7_charges = fold fm7_charge_main_access_wait"

definition fm7_wait_phase :: "'d fm7_bus \<Rightarrow> nat" where
  "fm7_wait_phase s = unat (fb_io_wait_counter s) + (if fb_io_wait_long_phase s then 2 else 0)"

definition fm7_wait_phase_ok :: "'d fm7_bus \<Rightarrow> bool" where
  "fm7_wait_phase_ok s \<longleftrightarrow> unat (fb_io_wait_counter s) < (if fb_io_wait_long_phase s then 3 else 2)"

lemma wait_counter_cases:
  fixes x :: u8
  shows "unat x < 3 \<Longrightarrow> x = 0 \<or> x = 1 \<or> x = 2" "unat x < 2 \<Longrightarrow> x = 0 \<or> x = 1"
  by (auto simp: word_unat_eq_iff)

lemma fm7_charge_step:
  fixes s :: "'d fm7_bus" and a :: u16
  assumes "fb_clock_fast s" "fm7_charges_io_wait a"
  defines "t \<equiv> fm7_charge_main_access_wait a s"
  shows "fm7_mmr_translation_active (fb_memory s) \<Longrightarrow> fm7_wait_phase_ok s \<Longrightarrow>
      fb_wait_cycles t = fb_wait_cycles s + (if fm7_wait_phase s = 1 \<or> fm7_wait_phase s = 4 then 1 else 0)
      \<and> fm7_wait_phase t = (fm7_wait_phase s + 1) mod 5 \<and> fm7_wait_phase_ok t"
    "\<not> fm7_mmr_translation_active (fb_memory s) \<Longrightarrow> unat (fb_io_wait_counter s) < 2 \<Longrightarrow>
      fb_wait_cycles t = fb_wait_cycles s + (if unat (fb_io_wait_counter s) = 1 then 1 else 0)
      \<and> unat (fb_io_wait_counter t) = (unat (fb_io_wait_counter s) + 1) mod 2"
proof -
  assume mmr: "fm7_mmr_translation_active (fb_memory s)" and "fm7_wait_phase_ok s"
  then consider "fb_io_wait_counter s = 0" | "fb_io_wait_counter s = 1"
    | "fb_io_wait_counter s = 2" "fb_io_wait_long_phase s"
    using wait_counter_cases [of "fb_io_wait_counter s"]
    by (cases "fb_io_wait_long_phase s") (auto simp: fm7_wait_phase_ok_def)
  then show "fb_wait_cycles t = fb_wait_cycles s + (if fm7_wait_phase s = 1 \<or> fm7_wait_phase s = 4 then 1 else 0)
      \<and> fm7_wait_phase t = (fm7_wait_phase s + 1) mod 5 \<and> fm7_wait_phase_ok t"
    using assms mmr
    by cases (cases "fb_io_wait_long_phase s"; simp add: fm7_charge_main_access_wait_def Let_def
        fm7_wait_phase_def fm7_wait_phase_ok_def word_le_nat_alt)+
next
  assume mmr: "\<not> fm7_mmr_translation_active (fb_memory s)" and "unat (fb_io_wait_counter s) < 2"
  from wait_counter_cases(2) [OF this(2)]
  show "fb_wait_cycles t = fb_wait_cycles s + (if unat (fb_io_wait_counter s) = 1 then 1 else 0)
      \<and> unat (fb_io_wait_counter t) = (unat (fb_io_wait_counter s) + 1) mod 2"
    using assms mmr by (elim disjE) (simp_all add: fm7_charge_main_access_wait_def Let_def word_le_nat_alt)
qed

lemma fm7_charge_fixed [simp]:
  "fb_clock_fast (fm7_charge_main_access_wait a s) = fb_clock_fast s"
  by (simp add: fm7_charge_main_access_wait_def Let_def)

lemma fm7_charge_skipped:
  "\<not> fb_clock_fast s \<or> \<not> fm7_charges_io_wait a \<Longrightarrow> fm7_charge_main_access_wait a s = s"
  by (auto simp: fm7_charge_main_access_wait_def)

definition fm7_waits_in :: "nat \<Rightarrow> nat" where
  "fm7_waits_in q = q div 5 + (q + 3) div 5"

lemma fm7_waits_step:
  assumes "p < 5"
  shows "int (fm7_waits_in ((p + 1) mod 5 + n)) - int (fm7_waits_in ((p + 1) mod 5)) + (if p = 1 \<or> p = 4 then 1 else 0)
    = int (fm7_waits_in (p + Suc n)) - int (fm7_waits_in p)"
proof -
  have "p = 0 \<or> p = 1 \<or> p = 2 \<or> p = 3 \<or> p = 4" using assms by auto
  moreover have "(5 + n) div 5 = Suc (n div 5)" "(8 + n) div 5 = Suc ((n + 3) div 5)" by presburger+
  ultimately show ?thesis by (elim disjE) (simp_all add: fm7_waits_in_def)
qed

lemma fm7_wait_phase_less: "fm7_wait_phase_ok s \<Longrightarrow> fm7_wait_phase s < 5"
  by (simp add: fm7_wait_phase_ok_def fm7_wait_phase_def split: if_splits)

lemma fm7_charges_rate:
  "\<not> fb_clock_fast s \<Longrightarrow> fm7_charges as s = s"
  "fb_clock_fast s \<Longrightarrow> \<not> fm7_mmr_translation_active (fb_memory s) \<Longrightarrow> unat (fb_io_wait_counter s) < 2 \<Longrightarrow>
     fb_wait_cycles (fm7_charges as s) = fb_wait_cycles s
       + int ((unat (fb_io_wait_counter s) + length (filter fm7_charges_io_wait as)) div 2)"
  "fb_clock_fast s \<Longrightarrow> fm7_mmr_translation_active (fb_memory s) \<Longrightarrow> fm7_wait_phase_ok s \<Longrightarrow>
     fb_wait_cycles (fm7_charges as s) = fb_wait_cycles s
       + (int (fm7_waits_in (fm7_wait_phase s + length (filter fm7_charges_io_wait as)))
          - int (fm7_waits_in (fm7_wait_phase s)))"
proof (induction as arbitrary: s)
  case Nil
  { case 1 then show ?case by (simp add: fm7_charges_def) next
    case 2 then show ?case by (simp add: fm7_charges_def) next
    case 3 then show ?case by (simp add: fm7_charges_def) }
next
  case (Cons a as)
  have step: "fm7_charges (a # as) s = fm7_charges as (fm7_charge_main_access_wait a s)" for s :: "'a fm7_bus"
    by (simp add: fm7_charges_def)
  { case 1 then show ?case using Cons.IH(1) by (simp add: step fm7_charge_skipped)
  next
    case 2
    show ?case
    proof (cases "fm7_charges_io_wait a")
      case True
      note s = fm7_charge_step(2) [OF 2(1) True 2(2,3)]
      have "unat (fb_io_wait_counter s) = 0 \<or> unat (fb_io_wait_counter s) = 1" using 2(3) by auto
      then show ?thesis using Cons.IH(2) [of "fm7_charge_main_access_wait a s"] s 2 True
        by (elim disjE) (simp_all add: step)
    qed (use 2 Cons.IH(2) in \<open>simp add: step fm7_charge_skipped\<close>)
  next
    case 3
    show ?case
    proof (cases "fm7_charges_io_wait a")
      case True
      note s = fm7_charge_step(1) [OF 3(1) True 3(2,3)]
      show ?thesis
        using Cons.IH(3) [of "fm7_charge_main_access_wait a s"] s 3 True
          fm7_waits_step [OF fm7_wait_phase_less [OF 3(3)], of "length (filter fm7_charges_io_wait as)"]
        by (simp add: step)
    qed (use 3 Cons.IH(3) in \<open>simp add: step fm7_charge_skipped\<close>)
  }
qed

text \<open>
  The price of the I/O page. At the slow clock an access costs nothing. At the fast clock, of a
  sequence of accesses only those to the I/O page and the vectors count: with translation off every
  second one costs a wait cycle, and with the paging unit or the window on two of every five do (the
  second and the fifth), wherever in this pattern the sequence starts.
\<close>

theorem fm7_wait_rate:
  fixes s :: "'d fm7_bus" and addresses :: "u16 list"
  defines "n \<equiv> length (filter fm7_charges_io_wait addresses)"
    and "waits \<equiv> fb_wait_cycles (fm7_charges addresses s) - fb_wait_cycles s"
  shows "(\<not> fb_clock_fast s \<longrightarrow> waits = 0)
    \<and> (fb_clock_fast s \<and> \<not> fm7_mmr_translation_active (fb_memory s) \<and> unat (fb_io_wait_counter s) < 2
        \<longrightarrow> waits = int ((unat (fb_io_wait_counter s) + n) div 2))
    \<and> (fb_clock_fast s \<and> fm7_mmr_translation_active (fb_memory s) \<and> fm7_wait_phase_ok s
        \<longrightarrow> waits = int ((fm7_wait_phase s + n) div 5 + (fm7_wait_phase s + n + 3) div 5 - (fm7_wait_phase s + 3) div 5))"
proof -
  have "(k + 3) div 5 \<le> (k + n + 3) div 5" for k by (rule div_le_mono) simp
  moreover have "p div 5 = 0" if "p < 5" for p :: nat using that by simp
  ultimately have "int (fm7_waits_in (p + n)) - int (fm7_waits_in p)
      = int ((p + n) div 5 + (p + n + 3) div 5 - (p + 3) div 5)" if "p < 5" for p
    using that by (simp add: fm7_waits_in_def of_nat_diff trans_le_add2)
  then show ?thesis
    using fm7_charges_rate [where s = s and as = addresses] fm7_wait_phase_less [of s]
    by (auto simp: waits_def n_def)
qed

theorem fm7_wait_rate_witness:
  "fb_wait_cycles (fm7_charges [0xFD05, 0x1000, 0xFD02, 0xFD00] (fm7_bus_new Fm7 BootBasic ())) = 1"
  using fm7_wait_rate [of "fm7_bus_new Fm7 BootBasic ()" "[0xFD05, 0x1000, 0xFD02, 0xFD00]"]
  by (simp add: fm7_bus_new_def fm7_mmr_translation_active_def fm7_memory_empty_def Let_def
      fm7_charges_io_wait_def word_le_nat_alt)

text \<open>The display processor's cycles for a sequence of slices of the main processor.\<close>

primrec fm7_sub_slices :: "u64 list \<Rightarrow> 'd fm7_bus \<Rightarrow> nat \<times> 'd fm7_bus" where
  "fm7_sub_slices [] s = (0, s)"
| "fm7_sub_slices (u # us) s =
     (let (k, s) = fm7_sub_cycles_for_main_units u s; (total, s) = fm7_sub_slices us s
      in (unat k + total, s))"

text \<open>
  The rates of the display clock: each is at most twice every clock of the main processor, which are
  1095 kHz and more.
\<close>

lemma fm7_sub_clock_rates:
  "unat (fs_clock_hz (fb_sub (fm7_update_sub_clock s))) \<in> {2000000, 666666, 999000, 333000}"
proof -
  have rates: "max (2000000 div 3 :: u32) 1 = 666666" "max (999000 div 3 :: u32) 1 = 333000" by simp_all
  show ?thesis
    by (simp add: fm7_update_sub_clock_def fm7_sub_clock_hz_def fm7_sub_clock_slow_hz_def
        VRAM_CONTENTION_DIVISOR_def Let_def rates)
qed

lemma fm7_sub_clock_fits:
  assumes "1095000 \<le> fm7_cpu_clock_hz s"
  shows "unat (fs_clock_hz (fb_sub (fm7_update_sub_clock s))) \<le> 2 * unat (fm7_cpu_clock_hz s)"
  using fm7_sub_clock_rates [of s] assms by (auto simp: word_le_nat_alt)

text \<open>A change of the display clock drops the credit; keeping the clock keeps it.\<close>

lemma fm7_update_sub_clock_credit:
  "fs_clock_credit (fb_sub (fm7_update_sub_clock s)) =
     (if fs_clock_hz (fb_sub (fm7_update_sub_clock s)) = fs_clock_hz (fb_sub s)
      then fs_clock_credit (fb_sub s) else 0)"
  by (auto simp: fm7_update_sub_clock_def Let_def)

lemma fm7_flags_credit:
  "fs_clock_credit (fb_sub (fm7_set_vram_access_flag active s)) =
     (if fs_clock_hz (fb_sub (fm7_set_vram_access_flag active s)) = fs_clock_hz (fb_sub s)
      then fs_clock_credit (fb_sub s) else 0)"
  "fs_clock_credit (fb_sub (fm7_set_cycle_steal enabled s)) =
     (if fs_clock_hz (fb_sub (fm7_set_cycle_steal enabled s)) = fs_clock_hz (fb_sub s)
      then fs_clock_credit (fb_sub s) else 0)"
  by (simp_all add: fm7_set_vram_access_flag_def fm7_set_cycle_steal_def fm7_update_sub_clock_credit)

lemma fm7_sub_cycles_step:
  fixes s :: "'d fm7_bus"
  assumes clock: "0 < fm7_cpu_clock_hz s"
    "unat (fs_clock_hz (fb_sub s)) \<le> 2 * unat (fm7_cpu_clock_hz s)"
    and credit: "unat (fs_clock_credit (fb_sub s)) < unat (fm7_cpu_clock_hz s)" and u: "unat u < 2 ^ 62"
  defines "k \<equiv> fst (fm7_sub_cycles_for_main_units u s)" and "t \<equiv> snd (fm7_sub_cycles_for_main_units u s)"
  shows "unat k * unat (fm7_cpu_clock_hz s) + unat (fs_clock_credit (fb_sub t))
      = unat (fs_clock_credit (fb_sub s)) + unat u * unat (fs_clock_hz (fb_sub s))"
    "unat (fs_clock_credit (fb_sub t)) < unat (fm7_cpu_clock_hz s)"
    "fm7_cpu_clock_hz t = fm7_cpu_clock_hz s" "fs_clock_hz (fb_sub t) = fs_clock_hz (fb_sub s)"
proof -
  let ?hz = "unat (fm7_cpu_clock_hz s)" and ?rate = "unat (fs_clock_hz (fb_sub s))"
  let ?total = "unat (fs_clock_credit (fb_sub s)) + unat u * ?rate"
  have hz: "1 \<le> ?hz" "?hz < 2 ^ 32"
    using clock(1) unsigned_less [of "fm7_cpu_clock_hz s", where ?'a = nat] by (simp_all add: word_less_nat_alt)
  then have "1 \<le> fm7_cpu_clock_hz s" by (simp add: word_le_nat_alt)
  then have "max (fm7_cpu_clock_hz s) 1 = fm7_cpu_clock_hz s" by (rule max.absorb1)
  then have eq: "fm7_sub_cycles_for_main_units u s =
      (if ?total div ?hz < 2 ^ 64 then word_of_nat (?total div ?hz) else - 1,
       s\<lparr>fb_sub := (fb_sub s)\<lparr>fs_clock_credit := word_of_nat (?total mod ?hz)\<rparr>\<rparr>)"
    by (simp add: fm7_sub_cycles_for_main_units_def Let_def)
  have "unat u * ?rate \<le> 2 ^ 62 * (2 * ?hz)" using u clock(2) by (intro mult_mono) simp_all
  then have "?total < ?hz * (1 + 2 ^ 63)" using credit by simp
  then have "?total div ?hz < 2 ^ 64"
    using less_mult_imp_div_less [of ?total "1 + 2 ^ 63" ?hz] by (simp add: mult.commute)
  then have k: "unat k = ?total div ?hz"
    by (simp add: k_def eq unsigned_of_nat take_bit_nat_eq_self)
  have "?total mod ?hz < ?hz" using hz by (intro mod_less_divisor) simp
  then have "?total mod ?hz < 2 ^ 64" using hz(2) by simp
  then have t: "unat (fs_clock_credit (fb_sub t)) = ?total mod ?hz"
    by (simp add: t_def eq unsigned_of_nat take_bit_nat_eq_self)
  show "unat k * ?hz + unat (fs_clock_credit (fb_sub t)) = ?total" by (simp add: k t)
  show "unat (fs_clock_credit (fb_sub t)) < ?hz" using hz by (simp add: t)
  show "fm7_cpu_clock_hz t = fm7_cpu_clock_hz s" by (simp add: t_def eq fm7_cpu_clock_hz_def)
  show "fs_clock_hz (fb_sub t) = fs_clock_hz (fb_sub s)" by (simp add: t_def eq)
qed

lemma fm7_sub_slices_exact:
  fixes s :: "'d fm7_bus"
  assumes "0 < fm7_cpu_clock_hz s" "unat (fs_clock_hz (fb_sub s)) \<le> 2 * unat (fm7_cpu_clock_hz s)"
    and "unat (fs_clock_credit (fb_sub s)) < unat (fm7_cpu_clock_hz s)" and "\<forall>u \<in> set slices. unat u < 2 ^ 62"
  shows "fst (fm7_sub_slices slices s) * unat (fm7_cpu_clock_hz s)
      + unat (fs_clock_credit (fb_sub (snd (fm7_sub_slices slices s))))
      = unat (fs_clock_credit (fb_sub s)) + sum_list (map unat slices) * unat (fs_clock_hz (fb_sub s))
    \<and> unat (fs_clock_credit (fb_sub (snd (fm7_sub_slices slices s)))) < unat (fm7_cpu_clock_hz s)"
  using assms
proof (induction slices arbitrary: s)
  case (Cons u us)
  have u: "unat u < 2 ^ 62" using Cons.prems(4) by simp
  note step = fm7_sub_cycles_step [OF Cons.prems(1-3) u]
  define k t where "k = fst (fm7_sub_cycles_for_main_units u s)" and "t = snd (fm7_sub_cycles_for_main_units u s)"
  note step = step [folded k_def t_def]
  have rest: "\<forall>u \<in> set us. unat u < 2 ^ 62" using Cons.prems(4) by simp
  have split: "fm7_sub_slices (u # us) s = (unat k + fst (fm7_sub_slices us t), snd (fm7_sub_slices us t))"
    by (simp add: k_def t_def case_prod_unfold Let_def)
  note IH = Cons.IH [OF _ _ _ rest, of t, unfolded step(3,4), OF Cons.prems(1,2) step(2)]
  then show ?case
    using step(1) unfolding split fst_conv snd_conv by (simp add: algebra_simps del: of_nat_unat)
qed simp

text \<open>
  C39 The clock of the display processor. While neither clock changes, slicing a run of the main
  processor in any way (slices below 2 to the 62 cycles) gives the display processor the same time,
  at any display clock up to twice the main clock, which every rate the machine sets is (2 MHz,
  999 kHz, and a third of either during contention): its cycles and the credit carried over account for
  every main cycle exactly, without rounding or drift, and the credit never reaches a whole cycle. A
  change of the contention flag or of cycle stealing that changes the display clock drops the
  credit, which is less than one display cycle; one that does not keeps it.
\<close>

theorem fm7_sub_clock_exact:
  fixes s :: "'d fm7_bus" and slices :: "u64 list"
  assumes "0 < fm7_cpu_clock_hz s" "unat (fs_clock_hz (fb_sub s)) \<le> 2 * unat (fm7_cpu_clock_hz s)"
    and "unat (fs_clock_credit (fb_sub s)) < unat (fm7_cpu_clock_hz s)" and "\<forall>u \<in> set slices. unat u < 2 ^ 62"
  defines "t \<equiv> snd (fm7_sub_slices slices s)"
  shows "fst (fm7_sub_slices slices s) * unat (fm7_cpu_clock_hz s) + unat (fs_clock_credit (fb_sub t))
      = unat (fs_clock_credit (fb_sub s)) + sum_list (map unat slices) * unat (fs_clock_hz (fb_sub s))
    \<and> unat (fs_clock_credit (fb_sub t)) < unat (fm7_cpu_clock_hz s)
    \<and> unat (fs_clock_hz (fb_sub (fm7_update_sub_clock s))) \<in> {2000000, 666666, 999000, 333000}
    \<and> fs_clock_credit (fb_sub (fm7_set_vram_access_flag active t)) =
        (if fs_clock_hz (fb_sub (fm7_set_vram_access_flag active t)) = fs_clock_hz (fb_sub t)
         then fs_clock_credit (fb_sub t) else 0)
    \<and> fs_clock_credit (fb_sub (fm7_set_cycle_steal enabled t)) =
        (if fs_clock_hz (fb_sub (fm7_set_cycle_steal enabled t)) = fs_clock_hz (fb_sub t)
         then fs_clock_credit (fb_sub t) else 0)"
  unfolding t_def
  by (intro conjI fm7_sub_slices_exact [OF assms(1-4), THEN conjunct1]
      fm7_sub_slices_exact [OF assms(1-4), THEN conjunct2] fm7_sub_clock_rates fm7_flags_credit)

text \<open>An FM-7 whose display processor contends for the video memory, at a third of its clock.\<close>

theorem fm7_sub_clock_exact_witness:
  defines "s \<equiv> fm7_set_vram_access_flag True (fm7_bus_new Fm7 BootBasic ())"
  shows "fst (fm7_sub_slices [1000, 1, 12] s) * 1798000
     + unat (fs_clock_credit (fb_sub (snd (fm7_sub_slices [1000, 1, 12] s)))) = 1013 * 666666"
proof -
  have third: "max (2000000 div 3 :: u32) 1 = 666666" by simp
  have "fm7_cpu_clock_hz s = 1798000" "fs_clock_hz (fb_sub s) = 666666" "fs_clock_credit (fb_sub s) = 0"
    by (simp_all add: s_def fm7_set_vram_access_flag_def fm7_update_sub_clock_def fm7_bus_new_def fm7_sub_new_def
        fm7_sub_clock_hz_def fm7_cycle_steal_default_def VRAM_CONTENTION_DIVISOR_def Let_def third
        fm7_cpu_clock_hz_def fm7_has_mmr_def fm7_main_clock_hz_def)
  then show ?thesis
    using fm7_sub_clock_exact [of s "[1000, 1, 12]"] by (simp add: word_less_nat_alt del: fm7_sub_slices.simps)
qed

section \<open>Cycles\<close>

text \<open>
  C26 Every step of the MC6809 takes the cycles it declares: the second half of an extended CLR takes
  three, an accepted interrupt what its service returns, an instruction what its opcode
  returns, whatever bytes it reads on the way; always between one and twenty. So the budget of a
  run counts down at each step, and no step overdraws it by more than nineteen cycles.
\<close>

theorem m6809_step_takes_declared_cycles:
  "m_cycles_remaining (m6809_execute_one io s) = m_cycles_remaining s -
     (if m_pending_extended_clear s \<noteq> None then 3
      else case fst (m6809_check_interrupts io s) of Some cycles \<Rightarrow> cycles
        | None \<Rightarrow> fst (m6809_dispatch io s))
   \<and> m_cycles_remaining s - 20 \<le> m_cycles_remaining (m6809_execute_one io s)
   \<and> m_cycles_remaining (m6809_execute_one io s) < m_cycles_remaining s"
  using m6809_execute_one_effect(1-3) [where io = io and s = s] by (simp add: m6809_cost_def)

section \<open>A restored paging unit\<close>

text \<open>
  A flaw of the restore. The state of an FM-7, which has no paging unit, is accepted with the
  paging unit switched on; the bus then sends every address below FC00 whose page register names a
  video bank to the display processor, so a read of RAM returns FF while the processor
  is not halted, although the memory itself still shows the byte.
\<close>

theorem fm7_restored_paging_diverts:
  fixes s :: "'d fm7_bus"
  assumes "fm7_bus_ok s" "fb_model s = Fm7" "\<not> fs_halted (fb_sub s)"
  defines "st \<equiv> (fm7_memory_capture_state (fb_memory s))
      \<lparr>f7_mmr_enabled := True, f7_window_enabled := False, f7_initiator_enabled := False,
       f7_mmr_page_registers := replicate 64 0x10\<rparr>"
  defines "m \<equiv> snd (fm7_memory_restore_state st (fb_memory s))"
  shows "fst (fm7_memory_restore_state st (fb_memory s)) = Inr ()
    \<and> fm7_memory_read m 0x1234 = fm7_memory_read (fb_memory s) 0x1234
    \<and> (\<exists>t. fm7_read_byte dev 0x1234 (s\<lparr>fb_memory := m\<rparr>) = Some ((0xFF, True), t))"
proof -
  let ?old = "fb_memory s"
  have ok: "fm7_memory_ok ?old" "f7_model ?old = Fm7" using assms(1,2) by (simp_all add: fm7_bus_ok_def)
  have "fm7_memory_validate (f7_model ?old) st = Inr ()"
    using ok by (simp add: fm7_validate_iff fm7_memory_ok_def st_def fm7_memory_capture_state_def
        fm7_memory_state.defs)
  then have restored: "fm7_memory_restore_state st ?old = (Inr (), ?old\<lparr>f7_mmr_enabled := True,
      f7_window_enabled := False, f7_initiator_enabled := False, f7_mmr_page_registers := replicate 64 0x10\<rparr>)"
    by (cases ?old) (simp add: fm7_memory_restore_state_def st_def fm7_memory_capture_state_def
        fm7_memory_state.defs)
  let ?k = "push_bit 4 (unat (f7_mmr_current_segment ?old)) OR 1 :: nat"
  have "?k < 64" using fm7_register_bound [OF ok(1), of 1] ok(1) by (simp add: fm7_memory_ok_def fm7_sizes)
  then have "fm7_direct_vram_target m 0x1234 = Some (Some (0x0000 OR (0x1234 AND 0x0FFF)))"
    by (simp add: m_def restored fm7_direct_vram_target_def fm7_mmr_translate_def Let_def MMR_BANK_MASK_def
        word_le_nat_alt word_less_nat_alt list_get_def)
  then show ?thesis
    using ok assms(3)
    by (simp add: restored m_def fm7_memory_read_def fm7_flat_read_def fm7_read_byte_def Let_def
        word_le_nat_alt FM7_OPEN_BUS_def)
qed

theorem fm7_restored_paging_diverts_witness:
  "fst (fm7_memory_restore_state ((fm7_memory_capture_state (fm7_memory_empty Fm7 BootBasic))
      \<lparr>f7_mmr_enabled := True, f7_window_enabled := False, f7_initiator_enabled := False,
       f7_mmr_page_registers := replicate 64 0x10\<rparr>) (fm7_memory_empty Fm7 BootBasic)) = Inr ()"
  using fm7_restored_paging_diverts [OF fm7_bus_new_ok, of Fm7 BootBasic "()"]
  by (simp add: fm7_bus_new_def fm7_sub_new_def)

end
