(* ===== verification/Disk_Io.thy ===== *)
theory Disk_Io
  imports Bytes
begin

text \<open>
  Access to the sectors of a drive: the trait \<open>DiskIo\<close> of \<open>common/src/dos.rs\<close> as a record of
  operations on a disk state, calls that change a state and can fail or panic, and the hard
  disk image of \<open>device/src/disk.rs\<close> behind the adapter of \<open>user_interface/src/copy.rs\<close>.

  A call takes the state and returns a result with the new state: \<open>None\<close> is a panic of the host,
  \<open>Inl\<close> an error, \<open>Inr\<close> a value. The state of a failed call is kept, as a method with \<open>&mut\<close>
  arguments keeps what it has done before it fails.

  The locale \<open>flat_disk\<close> is the contract of a drive whose sectors lie one after the other. The
  file system relies on it, and the hard disk image is an instance.
\<close>

section \<open>Calls\<close>

type_synonym ('s, 'e, 'a) call = "'s \<Rightarrow> (('e + 'a) \<times> 's) option"
type_synonym ('s, 'a) io = "('s, u16, 'a) call"
type_synonym ('s, 'a) disk_call = "('s, u8, 'a) call"

definition io_return :: "'a \<Rightarrow> ('s, 'e, 'a) call" where
  "io_return x s = Some (Inr x, s)"

definition io_fail :: "'e \<Rightarrow> ('s, 'e, 'a) call" where
  "io_fail e s = Some (Inl e, s)"

definition io_bind :: "('s, 'e, 'a) call \<Rightarrow> ('a \<Rightarrow> ('s, 'e, 'b) call) \<Rightarrow> ('s, 'e, 'b) call" where
  "io_bind m k s =
     Option.bind (m s) (\<lambda>(r, s'). case r of Inl e \<Rightarrow> Some (Inl e, s') | Inr x \<Rightarrow> k x s')"

text \<open>\<open>ok_or\<close>, and an \<open>Option\<close> whose absence is a panic.\<close>

definition io_ok_or :: "'e \<Rightarrow> 'a option \<Rightarrow> ('s, 'e, 'a) call" where
  "io_ok_or e v = (case v of None \<Rightarrow> io_fail e | Some x \<Rightarrow> io_return x)"

definition io_expect :: "'a option \<Rightarrow> ('s, 'e, 'a) call" where
  "io_expect v s = map_option (\<lambda>x. (Inr x, s)) v"

text \<open>The result of a call as a value, for code that looks at it.\<close>

definition io_attempt :: "('s, 'e, 'a) call \<Rightarrow> ('s, 'f, 'e + 'a) call" where
  "io_attempt m s = map_option (\<lambda>(r, s'). (Inr r, s')) (m s)"

text \<open>Reading and changing a state, and a call on the second part of a state.\<close>

definition io_gets :: "('s \<Rightarrow> 'a) \<Rightarrow> ('s, 'e, 'a) call" where
  "io_gets f s = Some (Inr (f s), s)"

definition io_modify :: "('s \<Rightarrow> 's) \<Rightarrow> ('s, 'e, unit) call" where
  "io_modify f s = Some (Inr (), f s)"

definition io_second :: "('c \<Rightarrow> ('s, 'e, 'a) call) \<Rightarrow> ('c \<times> 's, 'e, 'a) call" where
  "io_second m cs = map_option (\<lambda>(r, s'). (r, (fst cs, s'))) (m (fst cs) (snd cs))"

text \<open>\<open>map_err\<close>, and a disk call whose error becomes the DOS error 1Fh (general failure).\<close>

definition io_map_err :: "('e \<Rightarrow> 'f) \<Rightarrow> ('s, 'e, 'a) call \<Rightarrow> ('s, 'f, 'a) call" where
  "io_map_err f m s = map_option (\<lambda>(r, s'). (case r of Inl e \<Rightarrow> Inl (f e) | Inr x \<Rightarrow> Inr x, s')) (m s)"

definition io_disk :: "('s, 'a) disk_call \<Rightarrow> ('s, 'a) io" where
  "io_disk m = io_map_err (\<lambda>_. 0x1F) m"

text \<open>Evaluation of a composed call, part by part.\<close>

lemmas io_defs = io_bind_def io_return_def io_fail_def io_ok_or_def io_expect_def io_attempt_def
  io_gets_def io_modify_def io_second_def io_map_err_def io_disk_def

lemma io_map_err_Some:
  "m s = Some (Inr x, s') \<Longrightarrow> io_map_err f m s = Some (Inr x, s')"
  "m s = Some (Inl e, s') \<Longrightarrow> io_map_err f m s = Some (Inl (f e), s')"
  by (simp_all add: io_map_err_def)

lemma io_disk_Some:
  "m s = Some (Inr x, s') \<Longrightarrow> io_disk m s = Some (Inr x, s')"
  "m s = Some (Inl e, s') \<Longrightarrow> io_disk m s = Some (Inl 0x1F, s')"
  by (simp_all add: io_disk_def io_map_err_def)

lemma io_bind_eq_Some_iff:
  "io_bind m k s = Some (Inr y, t) \<longleftrightarrow> (\<exists>x s'. m s = Some (Inr x, s') \<and> k x s' = Some (Inr y, t))"
proof (cases "m s")
  case (Some p)
  then show ?thesis
    by (cases p; cases "fst p") (auto simp: io_bind_def)
qed (simp add: io_bind_def)

lemma io_bind_not_None:
  "io_bind m k s \<noteq> None \<longleftrightarrow>
     m s \<noteq> None \<and> (\<forall>x s'. m s = Some (Inr x, s') \<longrightarrow> k x s' \<noteq> None)"
  by (cases "m s") (auto simp: io_bind_def split: sum.splits)

lemma io_bind_assoc: "io_bind (io_bind m f) g = io_bind m (\<lambda>x. io_bind (f x) g)"
  by (rule ext) (auto simp: io_bind_def split: option.splits sum.splits bind_splits)

lemma io_bind_mono [partial_function_mono]:
  assumes "mono_option (\<lambda>f. B f s)" and "\<And>y t. mono_option (\<lambda>f. C y f t)"
  shows "mono_option (\<lambda>f. io_bind (B f) (\<lambda>y. C y f) s)"
  unfolding io_bind_def
proof (rule bind_mono [OF assms(1)])
  fix p
  show "mono_option (\<lambda>f. case p of (r, s') \<Rightarrow> (case r of Inl e \<Rightarrow> Some (Inl e, s') | Inr x \<Rightarrow> C x f s'))"
    by (cases p; cases "fst p") (simp_all add: assms(2) option.const_mono)
qed

section \<open>The trait\<close>

record 'd disk_io =
  io_read_sectors :: "u8 \<Rightarrow> u32 \<Rightarrow> u32 \<Rightarrow> ('d, u8 list) disk_call"
  io_write_sectors :: "u8 \<Rightarrow> u32 \<Rightarrow> u8 list \<Rightarrow> ('d, unit) disk_call"
  io_sector_size :: "u8 \<Rightarrow> 'd \<Rightarrow> u16 option"
  io_total_sectors :: "u8 \<Rightarrow> 'd \<Rightarrow> u32 option"
  io_drive_geometry :: "u8 \<Rightarrow> 'd \<Rightarrow> (u16 \<times> u8 \<times> u8) option"

text \<open>
  A drive \<open>dev\<close> with sectors of \<open>size\<close> bytes whose contents are one string of bytes. In the states
  \<open>good\<close>, accesses within the contents succeed, a read changes nothing and a write replaces the
  bytes of its sectors and nothing else.
\<close>

locale flat_disk =
  fixes io :: "'d disk_io" and dev :: u8 and sector :: nat
    and good :: "'d \<Rightarrow> bool" and contents :: "'d \<Rightarrow> u8 list"
  assumes sector_bounds: "0 < sector" "sector < 65536"
    and reports_size: "good d \<Longrightarrow> io_sector_size io dev d = Some (of_nat sector)"
    and reads: "\<lbrakk>good d; (unat lba + unat count) * sector \<le> length (contents d)\<rbrakk> \<Longrightarrow>
      io_read_sectors io dev lba count d =
        Some (Inr (take (unat count * sector) (drop (unat lba * sector) (contents d))), d)"
    and writes: "\<lbrakk>good d; length bytes = n * sector; (unat lba + n) * sector \<le> length (contents d)\<rbrakk> \<Longrightarrow>
      \<exists>d'. io_write_sectors io dev lba bytes d = Some (Inr (), d') \<and> good d' \<and>
        contents d' = copy_into (unat lba * sector) bytes (contents d)"
    and addressable: "good d \<Longrightarrow> length (contents d) \<le> 2 ^ 32 * sector"

end
