(* ===== verification/Fat_Bpb.thy ===== *)
theory Fat_Bpb
  imports Bytes
begin

text \<open>
  The BIOS parameter block of a FAT volume (\<open>dos/src/filesystem/fat_bpb.rs\<close>), the source of the block
  for a drive (\<open>dos/src/drive_map.rs\<close>) and the blocks that the FM Towns driver selects
  (\<open>dos/src/drive_map/fm_towns.rs\<close>).

  A division by zero is \<open>None\<close>. No product or sum of the layout exceeds 32 bits.
\<close>

section \<open>The block\<close>

record bpb =
  bpb_bytes_per_sector :: u16
  bpb_sectors_per_cluster :: u8
  bpb_reserved_sectors :: u16
  bpb_num_fats :: u8
  bpb_root_entry_count :: u16
  bpb_total_sectors_16 :: u16
  bpb_media_descriptor :: u8
  bpb_sectors_per_fat :: u16
  bpb_total_sectors_32 :: u32

definition bpb_with_valid_sizes :: "bpb \<Rightarrow> bpb option" where
  "bpb_with_valid_sizes b =
     (if is_power_of_two (bpb_bytes_per_sector b) \<and> is_power_of_two (bpb_sectors_per_cluster b)
      then Some b else None)"

definition bpb_from_parameter_block :: "u8 list \<Rightarrow> bpb option" where
  "bpb_from_parameter_block block =
     (if length block < 25 then None
      else bpb_with_valid_sizes
        \<lparr> bpb_bytes_per_sector = u16_at 0 block, bpb_sectors_per_cluster = block ! 2,
          bpb_reserved_sectors = u16_at 3 block, bpb_num_fats = block ! 5,
          bpb_root_entry_count = u16_at 6 block, bpb_total_sectors_16 = u16_at 8 block,
          bpb_media_descriptor = block ! 10, bpb_sectors_per_fat = u16_at 11 block,
          bpb_total_sectors_32 = u32_at 21 block \<rparr>)"

definition bpb_parse :: "u8 list \<Rightarrow> bpb option" where
  "bpb_parse sector = (if length sector < 62 then None else bpb_from_parameter_block (drop 11 sector))"

definition bpb_has_signature :: "u8 list \<Rightarrow> nat \<Rightarrow> u8 list \<Rightarrow> bool" where
  "bpb_has_signature sector offset signature \<longleftrightarrow>
     list_get sector 0 = Some 0x60 \<and> offset + length signature \<le> length sector \<and>
     take (length signature) (drop offset sector) = signature"

definition hudson_signature :: "u8 list" where
  "hudson_signature = [0x48, 0x75, 0x64, 0x73, 0x6F, 0x6E, 0x20, 0x73, 0x6F, 0x66, 0x74]"

definition ipl_signature :: "u8 list" where
  "ipl_signature = [0x58, 0x36, 0x38, 0x49, 0x50, 0x4C]"

definition is_human68k_boot_sector :: "u8 list \<Rightarrow> bool" where
  "is_human68k_boot_sector sector \<longleftrightarrow>
     bpb_has_signature sector 2 hudson_signature \<or> bpb_has_signature sector 3 ipl_signature"

definition bpb_parse_human68k :: "u8 list \<Rightarrow> bpb option" where
  "bpb_parse_human68k sector =
     (if \<not> bpb_has_signature sector 2 hudson_signature then None
      else if length sector < 0x12 + 12 then None
      else
        let block = take 12 (drop 0x12 sector) in
        bpb_with_valid_sizes
          \<lparr> bpb_bytes_per_sector = le16 (block ! 1) (block ! 0), bpb_sectors_per_cluster = block ! 2,
            bpb_reserved_sectors = le16 (block ! 5) (block ! 4), bpb_num_fats = block ! 3,
            bpb_root_entry_count = le16 (block ! 7) (block ! 6),
            bpb_total_sectors_16 = le16 (block ! 9) (block ! 8), bpb_media_descriptor = block ! 10,
            bpb_sectors_per_fat = ucast (block ! 11), bpb_total_sectors_32 = 0 \<rparr>)"

section \<open>The layout of the volume\<close>

definition bpb_total_sectors :: "bpb \<Rightarrow> u32" where
  "bpb_total_sectors b =
     (if bpb_total_sectors_16 b \<noteq> 0 then ucast (bpb_total_sectors_16 b) else bpb_total_sectors_32 b)"

definition checked_div :: "u32 \<Rightarrow> u32 \<Rightarrow> u32 option" where
  "checked_div a b = (if b = 0 then None else Some (a div b))"

definition div_ceil :: "u32 \<Rightarrow> u32 \<Rightarrow> u32 option" where
  "div_ceil a b =
     (if b = 0 then None else Some (if a mod b = 0 then a div b else a div b + 1))"

definition bpb_root_dir_sectors :: "bpb \<Rightarrow> u32 option" where
  "bpb_root_dir_sectors b = div_ceil (ucast (bpb_root_entry_count b) * 32) (ucast (bpb_bytes_per_sector b))"

definition bpb_first_root_sector :: "bpb \<Rightarrow> u32" where
  "bpb_first_root_sector b =
     ucast (bpb_reserved_sectors b) + ucast (bpb_num_fats b) * ucast (bpb_sectors_per_fat b)"

definition bpb_first_data_sector :: "bpb \<Rightarrow> u32 option" where
  "bpb_first_data_sector b = map_option (\<lambda>n. bpb_first_root_sector b + n) (bpb_root_dir_sectors b)"

definition saturating_sub :: "'a::len word \<Rightarrow> 'a word \<Rightarrow> 'a word" where
  "saturating_sub a b = (if a < b then 0 else a - b)"

definition bpb_data_cluster_count :: "bpb \<Rightarrow> u32 option" where
  "bpb_data_cluster_count b =
     do { first \<leftarrow> bpb_first_data_sector b;
          checked_div (saturating_sub (bpb_total_sectors b) first) (ucast (bpb_sectors_per_cluster b)) }"

definition bpb_is_fat16 :: "bpb \<Rightarrow> bool option" where
  "bpb_is_fat16 b = map_option (\<lambda>n. 4085 \<le> n) (bpb_data_cluster_count b)"

definition bpb_cluster_size :: "bpb \<Rightarrow> u32" where
  "bpb_cluster_size b = ucast (bpb_bytes_per_sector b) * ucast (bpb_sectors_per_cluster b)"

definition bpb_is_supported :: "bpb \<Rightarrow> u16 \<Rightarrow> bool option" where
  "bpb_is_supported b physical =
     (if physical = 0 \<or> bpb_bytes_per_sector b < physical \<or> bpb_bytes_per_sector b mod physical \<noteq> 0
      then Some False
      else if bpb_reserved_sectors b = 0 \<or> bpb_num_fats b = 0 \<or> bpb_root_entry_count b = 0 \<or>
        bpb_sectors_per_fat b = 0 \<or> bpb_total_sectors b = 0
      then Some False
      else map_option (\<lambda>first. first < bpb_total_sectors b) (bpb_first_data_sector b))"

definition bpb_has_valid_initial_fat_entries :: "bpb \<Rightarrow> u8 list \<Rightarrow> bool option" where
  "bpb_has_valid_initial_fat_entries b fat =
     map_option (\<lambda>fat16.
       if fat16 then 4 \<le> length fat \<and> fat ! 0 = bpb_media_descriptor b \<and> fat ! 1 = 0xFF \<and>
         fat ! 2 = 0xFF \<and> fat ! 3 = 0xFF
       else 3 \<le> length fat \<and> fat ! 0 = bpb_media_descriptor b \<and> fat ! 1 = 0xFF \<and> fat ! 2 = 0xFF)
     (bpb_is_fat16 b)"

section \<open>The source of the block\<close>

datatype bpb_source =
    BootRecord | BootRecordOrDefault | DefaultBpb | DriverBpb | FmTownsFloppy

record drive_geometry =
  dg_bpb_source :: bpb_source
  dg_default_bpb :: bpb
  dg_bpb :: bpb

definition drive_geometry_new :: "bpb_source \<Rightarrow> bpb \<Rightarrow> drive_geometry" where
  "drive_geometry_new source block =
     \<lparr> dg_bpb_source = source, dg_default_bpb = block, dg_bpb = block \<rparr>"

section \<open>FM Towns floppies\<close>

definition floppy_bpb :: bpb where
  "floppy_bpb =
     \<lparr> bpb_bytes_per_sector = 0x400, bpb_sectors_per_cluster = 1, bpb_reserved_sectors = 1,
       bpb_num_fats = 2, bpb_root_entry_count = 0xC0, bpb_total_sectors_16 = 0x4D0,
       bpb_media_descriptor = 0x01, bpb_sectors_per_fat = 2, bpb_total_sectors_32 = 0 \<rparr>"

definition floppy_2hd_512_bpb :: bpb where
  "floppy_2hd_512_bpb =
     \<lparr> bpb_bytes_per_sector = 0x200, bpb_sectors_per_cluster = 1, bpb_reserved_sectors = 1,
       bpb_num_fats = 2, bpb_root_entry_count = 0xE0, bpb_total_sectors_16 = 0x960,
       bpb_media_descriptor = 0x02, bpb_sectors_per_fat = 7, bpb_total_sectors_32 = 0 \<rparr>"

definition floppy_1440k_bpb :: bpb where
  "floppy_1440k_bpb =
     \<lparr> bpb_bytes_per_sector = 0x200, bpb_sectors_per_cluster = 1, bpb_reserved_sectors = 1,
       bpb_num_fats = 2, bpb_root_entry_count = 0xE0, bpb_total_sectors_16 = 0xB40,
       bpb_media_descriptor = 0xF0, bpb_sectors_per_fat = 9, bpb_total_sectors_32 = 0 \<rparr>"

definition floppy_2dd_bpb :: "u8 \<Rightarrow> u8 \<Rightarrow> u16 \<Rightarrow> u16 \<Rightarrow> u16 \<Rightarrow> bpb" where
  "floppy_2dd_bpb fat_id sectors_per_cluster root_entry_count total_sectors sectors_per_fat =
     \<lparr> bpb_bytes_per_sector = 0x200, bpb_sectors_per_cluster = sectors_per_cluster,
       bpb_reserved_sectors = 1, bpb_num_fats = 2, bpb_root_entry_count = root_entry_count,
       bpb_total_sectors_16 = total_sectors, bpb_media_descriptor = fat_id,
       bpb_sectors_per_fat = sectors_per_fat, bpb_total_sectors_32 = 0 \<rparr>"

definition floppy_2dd_bpbs :: "bpb list" where
  "floppy_2dd_bpbs =
     [floppy_2dd_bpb 0xF8 2 0x70 0x2D0 2, floppy_2dd_bpb 0xF9 2 0x70 0x5A0 3,
      floppy_2dd_bpb 0xFA 2 0x70 0x280 1, floppy_2dd_bpb 0xFB 2 0x70 0x500 2,
      floppy_2dd_bpb 0xFC 1 0x40 0x168 2, floppy_2dd_bpb 0xFD 2 0x70 0x2D0 2,
      floppy_2dd_bpb 0xFE 1 0x40 0x140 1, floppy_2dd_bpb 0xFF 2 0x70 0x280 1]"

definition floppy_128_bpb :: bpb where
  "floppy_128_bpb =
     \<lparr> bpb_bytes_per_sector = 0x80, bpb_sectors_per_cluster = 4, bpb_reserved_sectors = 1,
       bpb_num_fats = 2, bpb_root_entry_count = 0x44, bpb_total_sectors_16 = 0x7D2,
       bpb_media_descriptor = 0x00, bpb_sectors_per_fat = 6, bpb_total_sectors_32 = 0 \<rparr>"

definition floppy_1440k_mode_1024_bpb :: bpb where
  "floppy_1440k_mode_1024_bpb =
     \<lparr> bpb_bytes_per_sector = 0x400, bpb_sectors_per_cluster = 1, bpb_reserved_sectors = 1,
       bpb_num_fats = 2, bpb_root_entry_count = 0xC0, bpb_total_sectors_16 = 0x9A0,
       bpb_media_descriptor = 0x03, bpb_sectors_per_fat = 4, bpb_total_sectors_32 = 0 \<rparr>"

datatype floppy_drive_mode = FloppyTwoHd u16 | FloppyTwoDd | FloppyHighDensity

definition floppy_mode_of_format :: "u16 \<Rightarrow> u8 \<Rightarrow> floppy_drive_mode" where
  "floppy_mode_of_format sector_size sectors_per_track =
     (if sector_size = 512 \<and> sectors_per_track = 18 then FloppyHighDensity
      else if sector_size = 512 \<and> sectors_per_track \<le> 9 then FloppyTwoDd
      else FloppyTwoHd sector_size)"

definition floppy_media_bpb :: "u8 \<Rightarrow> u16 \<Rightarrow> u8 \<Rightarrow> bpb option" where
  "floppy_media_bpb fat_id sector_size sectors_per_track =
     (case floppy_mode_of_format sector_size sectors_per_track of
        FloppyHighDensity \<Rightarrow>
          (if fat_id = 0xF0 then Some floppy_1440k_bpb
           else if fat_id = 0xFE then Some floppy_1440k_mode_1024_bpb else None)
      | FloppyTwoDd \<Rightarrow>
          (if fat_id < 0xF8 then None else Some (floppy_2dd_bpbs ! unat (fat_id - 0xF8)))
      | FloppyTwoHd bytes \<Rightarrow>
          (if fat_id \<noteq> 0xFE \<and> fat_id \<noteq> 0xF9 then None
           else if bytes = 1024 then Some floppy_bpb
           else if bytes = 512 then Some floppy_2hd_512_bpb
           else if bytes = 128 then Some floppy_128_bpb
           else None))"

end
