(* ===== verification/Fat_Volume.thy ===== *)
theory Fat_Volume
  imports Disk_Io Fat_Bpb
begin

text \<open>
  A mounted FAT12 or FAT16 volume (\<open>dos/src/filesystem/fat.rs\<close>): mounting, the entries of the
  cached FAT, allocation and release of clusters, and the access to clusters and sectors.

  A method with \<open>&self\<close> takes the volume as an argument and runs on the disk state, a method with
  \<open>&mut self\<close> and a disk runs on the pair of both. Sums and products of sector numbers are \<open>u32\<close> and
  wrap as in release builds.
\<close>

section \<open>The volume\<close>

record fat_volume =
  fv_device_id :: u8
  fv_partition_offset :: u32
  fv_bpb :: bpb
  fv_first_root_sector :: u32
  fv_first_data_sector :: u32
  fv_data_cluster_count :: u32
  fv_is_fat16 :: bool
  fv_fat_cache :: "u8 list"
  fv_fat_dirty :: bool
  fv_sector_ratio :: u32
  fv_human68k :: bool

text \<open>\<open>validate_state\<close>. The product of two 16-bit numbers does not overflow \<open>usize\<close>.\<close>

definition fat_validate_state :: "fat_volume \<Rightarrow> (string + unit) option" where
  "fat_validate_state v =
     (let b = fv_bpb v; invalid = Inl ''HLE DOS FAT volume state is invalid'' in
      if fv_sector_ratio v = 0 \<or> bpb_bytes_per_sector b = 0 \<or> bpb_sectors_per_cluster b = 0 \<or>
        length (fv_fat_cache v) \<noteq> unat (bpb_sectors_per_fat b) * unat (bpb_bytes_per_sector b) \<or>
        fv_first_root_sector v \<noteq> bpb_first_root_sector b
      then Some invalid
      else do { first \<leftarrow> bpb_first_data_sector b;
                count \<leftarrow> bpb_data_cluster_count b;
                fat16 \<leftarrow> bpb_is_fat16 b;
                Some (if fv_first_data_sector v \<noteq> first \<or> fv_data_cluster_count v \<noteq> count \<or>
                        fv_is_fat16 v \<noteq> fat16
                      then invalid else Inr ()) })"

section \<open>Mounting\<close>

definition fat_read_boot_record ::
  "'d disk_io \<Rightarrow> u8 \<Rightarrow> u32 \<Rightarrow> u16 \<Rightarrow> ('d, u8 list option) io" where
  "fat_read_boot_record io dev offset physical =
     io_bind (io_expect (div_ceil 512 (ucast physical))) (\<lambda>count.
     io_bind (io_attempt (io_disk (io_read_sectors io dev offset count))) (\<lambda>r.
     io_return (case r of Inl _ \<Rightarrow> None | Inr bytes \<Rightarrow> Some bytes)))"

text \<open>\<open>Option::filter\<close> with the check that the block is usable, which can panic.\<close>

definition bpb_filter_supported :: "u16 \<Rightarrow> bpb option \<Rightarrow> bpb option option" where
  "bpb_filter_supported physical b =
     (case b of None \<Rightarrow> Some None
      | Some b \<Rightarrow> map_option (\<lambda>ok. if ok then Some b else None) (bpb_is_supported b physical))"

definition fat_boot_record_bpb :: "u8 list \<Rightarrow> u16 \<Rightarrow> bpb option option" where
  "fat_boot_record_bpb boot_record physical =
     do { dos \<leftarrow> bpb_filter_supported physical (bpb_parse boot_record);
          case dos of
            Some b \<Rightarrow> Some (Some b)
          | None \<Rightarrow> bpb_filter_supported physical (bpb_parse_human68k boot_record) }"

definition fat_fm_towns_floppy_bpb :: "'d disk_io \<Rightarrow> u8 \<Rightarrow> u32 \<Rightarrow> u16 \<Rightarrow> ('d, bpb) io" where
  "fat_fm_towns_floppy_bpb io dev offset physical =
     io_bind (io_gets (io_drive_geometry io dev)) (\<lambda>geometry.
     io_bind (io_ok_or 0x1F geometry) (\<lambda>(_, _, sectors_per_track).
     io_bind (io_disk (io_read_sectors io dev (offset + 1) 1)) (\<lambda>fat_sector.
     io_bind (io_ok_or 0x1F (list_get fat_sector 0)) (\<lambda>fat_id.
     io_bind (io_ok_or 0x1A (floppy_media_bpb fat_id physical sectors_per_track)) (\<lambda>b.
     io_bind (io_expect (bpb_is_supported b physical)) (\<lambda>ok.
     if ok then io_return b else io_fail 0x1F))))))"

definition fat_validated_default_bpb ::
  "'d disk_io \<Rightarrow> u8 \<Rightarrow> u32 \<Rightarrow> u16 \<Rightarrow> bpb \<Rightarrow> ('d, bpb) io" where
  "fat_validated_default_bpb io dev offset physical block =
     (if physical \<noteq> bpb_bytes_per_sector block then io_fail 0x1F
      else
        io_bind (io_gets (io_drive_geometry io dev)) (\<lambda>geometry.
        io_bind (io_ok_or 0x1F geometry) (\<lambda>(cylinders, heads, sectors_per_track).
        if (ucast cylinders * ucast heads * ucast sectors_per_track :: u32) \<noteq> bpb_total_sectors block
        then io_fail 0x1F
        else
          io_bind (io_disk (io_read_sectors io dev (offset + ucast (bpb_reserved_sectors block)) 1)) (\<lambda>fat.
          io_bind (io_expect (bpb_has_valid_initial_fat_entries block fat)) (\<lambda>ok.
          if ok then io_return block else io_fail 0x1F)))))"

text \<open>The block of the drive's rule, the \<open>match\<close> of \<open>mount\<close>.\<close>

definition fat_supported_bpb :: "bpb \<Rightarrow> u16 \<Rightarrow> ('d, bpb) io" where
  "fat_supported_bpb b physical =
     io_bind (io_expect (bpb_is_supported b physical)) (\<lambda>ok.
     if ok then io_return b else io_fail 0x1F)"

definition fat_select_bpb ::
  "'d disk_io \<Rightarrow> u8 \<Rightarrow> u32 \<Rightarrow> drive_geometry \<Rightarrow> u16 \<Rightarrow> u8 list option \<Rightarrow> ('d, bpb) io" where
  "fat_select_bpb io dev offset geometry physical boot_record =
     (case dg_bpb_source geometry of
        BootRecord \<Rightarrow>
          io_bind (io_ok_or 0x1F boot_record) (\<lambda>record.
          io_bind (io_expect (fat_boot_record_bpb record physical)) (\<lambda>b.
          io_ok_or 0x1F b))
      | BootRecordOrDefault \<Rightarrow>
          io_bind (io_ok_or 0x1F boot_record) (\<lambda>record.
          io_bind (io_expect (fat_boot_record_bpb record physical)) (\<lambda>b.
          case b of
            Some b \<Rightarrow> io_return b
          | None \<Rightarrow> fat_validated_default_bpb io dev offset physical (dg_default_bpb geometry)))
      | DefaultBpb \<Rightarrow> fat_supported_bpb (dg_default_bpb geometry) physical
      | FmTownsFloppy \<Rightarrow> fat_fm_towns_floppy_bpb io dev offset physical
      | DriverBpb \<Rightarrow> fat_supported_bpb (dg_bpb geometry) physical)"

definition fat_mount :: "'d disk_io \<Rightarrow> u8 \<Rightarrow> u32 \<Rightarrow> drive_geometry \<Rightarrow> ('d, fat_volume) io" where
  "fat_mount io dev offset geometry =
     io_bind (io_gets (io_sector_size io dev)) (\<lambda>reported.
     io_bind (io_ok_or 0x1F reported) (\<lambda>physical.
     io_bind (fat_read_boot_record io dev offset physical) (\<lambda>boot_record.
     io_bind (fat_select_bpb io dev offset geometry physical boot_record) (\<lambda>b.
     io_bind (io_expect (checked_div (ucast (bpb_bytes_per_sector b)) (ucast physical))) (\<lambda>ratio.
     io_bind (io_expect (bpb_first_data_sector b)) (\<lambda>first_data.
     io_bind (io_expect (bpb_data_cluster_count b)) (\<lambda>count.
     io_bind (io_expect (bpb_is_fat16 b)) (\<lambda>fat16.
     io_bind (io_disk (io_read_sectors io dev (offset + ucast (bpb_reserved_sectors b) * ratio)
       (ucast (bpb_sectors_per_fat b) * ratio))) (\<lambda>fat.
     io_return
       \<lparr> fv_device_id = dev, fv_partition_offset = offset, fv_bpb = b,
         fv_first_root_sector = bpb_first_root_sector b, fv_first_data_sector = first_data,
         fv_data_cluster_count = count, fv_is_fat16 = fat16, fv_fat_cache = fat,
         fv_fat_dirty = False, fv_sector_ratio = ratio,
         fv_human68k = (case boot_record of None \<Rightarrow> False | Some record \<Rightarrow> is_human68k_boot_sector record)
       \<rparr>)))))))))"

section \<open>Entries of the FAT\<close>

definition fat_read_entry :: "fat_volume \<Rightarrow> u16 \<Rightarrow> u16" where
  "fat_read_entry v cluster =
     (let cache = fv_fat_cache v in
      if fv_is_fat16 v then
        let offset = unat cluster * 2 in
        if length cache \<le> offset + 1 then 0xFFFF else le16 (cache ! offset) (cache ! (offset + 1))
      else
        let offset = unat cluster * 3 div 2 in
        if length cache \<le> offset + 1 then 0xFFF
        else
          let pair = le16 (cache ! offset) (cache ! (offset + 1)) in
          if cluster AND 1 \<noteq> 0 then drop_bit 4 pair else pair AND 0x0FFF)"

definition fat_write_entry :: "u16 \<Rightarrow> u16 \<Rightarrow> fat_volume \<Rightarrow> fat_volume" where
  "fat_write_entry cluster entry v =
     (let cache = fv_fat_cache v in
      if fv_is_fat16 v then
        let offset = unat cluster * 2 in
        if length cache \<le> offset + 1 then v
        else v\<lparr> fv_fat_cache := cache[offset := lo8 entry, offset + 1 := hi8 entry], fv_fat_dirty := True \<rparr>
      else
        let offset = unat cluster * 3 div 2 in
        if length cache \<le> offset + 1 then v
        else
          let existing = le16 (cache ! offset) (cache ! (offset + 1));
              pair = (if cluster AND 1 \<noteq> 0
                      then (existing AND 0x000F) OR push_bit 4 (entry AND 0x0FFF)
                      else (existing AND 0xF000) OR (entry AND 0x0FFF)) in
          v\<lparr> fv_fat_cache := cache[offset := lo8 pair, offset + 1 := hi8 pair], fv_fat_dirty := True \<rparr>)"

definition fat_end_of_chain :: "fat_volume \<Rightarrow> u16" where
  "fat_end_of_chain v = (if fv_is_fat16 v then 0xFFF8 else 0x0FF8)"

definition fat_next_cluster :: "fat_volume \<Rightarrow> u16 \<Rightarrow> u16 option" where
  "fat_next_cluster v cluster =
     (let entry = fat_read_entry v cluster in
      if fat_end_of_chain v \<le> entry \<or> entry < 2 then None else Some entry)"

definition fat_is_data_cluster :: "fat_volume \<Rightarrow> u16 \<Rightarrow> bool" where
  "fat_is_data_cluster v cluster \<longleftrightarrow>
     2 \<le> cluster \<and> (ucast cluster :: u32) < fv_data_cluster_count v + 2"

definition fat_next_chain_cluster :: "fat_volume \<Rightarrow> u16 \<Rightarrow> u16 + u16 option" where
  "fat_next_chain_cluster v cluster =
     (let entry = fat_read_entry v cluster in
      if fat_end_of_chain v \<le> entry then Inr None
      else if fat_is_data_cluster v entry then Inr (Some entry)
      else Inl 0x1F)"

section \<open>Allocation\<close>

text \<open>The candidates of a loop \<open>for candidate in 2..max\<close>.\<close>

definition fat_candidates :: "u16 \<Rightarrow> u16 list" where
  "fat_candidates max_cluster = map of_nat [2..<unat max_cluster]"

definition fat_allocate_cluster :: "u16 \<Rightarrow> fat_volume \<Rightarrow> u16 option \<times> fat_volume" where
  "fat_allocate_cluster after v =
     (let max_cluster = ucast (fv_data_cluster_count v) + 2;
          marker = (if fv_is_fat16 v then 0xFFFF else 0x0FFF) in
      case List.find (\<lambda>c. fat_read_entry v c = 0) (fat_candidates max_cluster) of
        None \<Rightarrow> (None, v)
      | Some c \<Rightarrow>
          let v1 = fat_write_entry c marker v in
          (Some c, if 2 \<le> after then fat_write_entry after c v1 else v1))"

partial_function (option) fat_free_loop :: "u16 \<Rightarrow> fat_volume \<Rightarrow> fat_volume option" where
  "fat_free_loop cluster v =
     (if cluster < 2 then Some v
      else
        let n = fat_next_cluster v cluster; v1 = fat_write_entry cluster 0 v in
        case n of None \<Rightarrow> Some v1 | Some c \<Rightarrow> fat_free_loop c v1)"

definition fat_free_chain :: "u16 \<Rightarrow> fat_volume \<Rightarrow> fat_volume option" where
  "fat_free_chain start v = fat_free_loop start v"

definition fat_total_cluster_count :: "fat_volume \<Rightarrow> u16" where
  "fat_total_cluster_count v = ucast (min (fv_data_cluster_count v) 0xFFFF)"

definition saturating_add16 :: "u16 \<Rightarrow> u16 \<Rightarrow> u16" where
  "saturating_add16 a b = (if a + b < a then 0xFFFF else a + b)"

definition fat_free_cluster_count :: "fat_volume \<Rightarrow> u16" where
  "fat_free_cluster_count v =
     foldl (\<lambda>free c. if fat_read_entry v c = 0 then saturating_add16 free 1 else free) 0
       (fat_candidates (saturating_add16 (fat_total_cluster_count v) 2))"

section \<open>Clusters and sectors on the disk\<close>

definition fat_logical_sector_lba :: "fat_volume \<Rightarrow> u32 \<Rightarrow> u32" where
  "fat_logical_sector_lba v sector = fv_partition_offset v + sector * fv_sector_ratio v"

definition fat_cluster_to_lba :: "fat_volume \<Rightarrow> u16 \<Rightarrow> u32" where
  "fat_cluster_to_lba v cluster =
     fv_partition_offset v + fv_first_data_sector v * fv_sector_ratio v +
     ucast (saturating_sub cluster 2) * ucast (bpb_sectors_per_cluster (fv_bpb v)) * fv_sector_ratio v"

definition fat_root_dir_lba :: "fat_volume \<Rightarrow> u32" where
  "fat_root_dir_lba v = fv_partition_offset v + fv_first_root_sector v * fv_sector_ratio v"

definition fat_root_dir_sectors :: "fat_volume \<Rightarrow> u32 option" where
  "fat_root_dir_sectors v = bpb_root_dir_sectors (fv_bpb v)"

definition fat_read_cluster :: "'d disk_io \<Rightarrow> fat_volume \<Rightarrow> u16 \<Rightarrow> ('d, u8 list) io" where
  "fat_read_cluster io v cluster =
     io_disk (io_read_sectors io (fv_device_id v) (fat_cluster_to_lba v cluster)
       (ucast (bpb_sectors_per_cluster (fv_bpb v)) * fv_sector_ratio v))"

definition fat_write_cluster :: "'d disk_io \<Rightarrow> fat_volume \<Rightarrow> u16 \<Rightarrow> u8 list \<Rightarrow> ('d, unit) io" where
  "fat_write_cluster io v cluster bytes =
     io_disk (io_write_sectors io (fv_device_id v) (fat_cluster_to_lba v cluster) bytes)"

definition fat_read_sector_abs :: "'d disk_io \<Rightarrow> fat_volume \<Rightarrow> u32 \<Rightarrow> ('d, u8 list) io" where
  "fat_read_sector_abs io v lba = io_disk (io_read_sectors io (fv_device_id v) lba (fv_sector_ratio v))"

definition fat_write_sector_abs :: "'d disk_io \<Rightarrow> fat_volume \<Rightarrow> u32 \<Rightarrow> u8 list \<Rightarrow> ('d, unit) io" where
  "fat_write_sector_abs io v lba bytes = io_disk (io_write_sectors io (fv_device_id v) lba bytes)"

text \<open>The copies of the FAT from number \<open>i\<close> on.\<close>

fun fat_flush_copies :: "'d disk_io \<Rightarrow> fat_volume \<Rightarrow> u32 \<Rightarrow> nat \<Rightarrow> ('d, unit) io" where
  "fat_flush_copies io v i 0 = io_return ()"
| "fat_flush_copies io v i (Suc n) =
     io_bind (io_disk (io_write_sectors io (fv_device_id v)
       (fv_partition_offset v + ucast (bpb_reserved_sectors (fv_bpb v)) * fv_sector_ratio v +
        i * ucast (bpb_sectors_per_fat (fv_bpb v)) * fv_sector_ratio v) (fv_fat_cache v)))
     (\<lambda>_. fat_flush_copies io v (i + 1) n)"

definition fat_flush :: "'d disk_io \<Rightarrow> (fat_volume \<times> 'd, unit) io" where
  "fat_flush io =
     io_bind (io_gets fst) (\<lambda>v.
     if \<not> fv_fat_dirty v then io_return ()
     else
       io_bind (io_second (\<lambda>v. fat_flush_copies io v 0 (unat (bpb_num_fats (fv_bpb v))))) (\<lambda>_.
       io_modify (map_prod (\<lambda>v. v\<lparr> fv_fat_dirty := False \<rparr>) id)))"

end
