(* ===== verification/Fat_Entries.thy ===== *)
theory Fat_Entries
  imports Fat_Volume
begin

text \<open>
  The FAT as an array. Entry \<open>c\<close> of a FAT with entries of \<open>w\<close> bits is the bits \<open>c * w\<close> to
  \<open>c * w + w - 1\<close> of the byte string, low bit first, for both formats: this is what the packing
  of two FAT12 entries in three bytes amounts to. Reading an entry after a write follows from it.
\<close>

section \<open>Bits of a byte string\<close>

definition byte_bit :: "u8 list \<Rightarrow> nat \<Rightarrow> bool" where
  "byte_bit bs p \<longleftrightarrow> p div 8 < length bs \<and> bit (bs ! (p div 8)) (p mod 8)"

lemma bit_pair:
  assumes "o1 + 1 < length bs"
  shows "bit (le16 (bs ! o1) (bs ! (o1 + 1))) i \<longleftrightarrow> i < 16 \<and> byte_bit bs (8 * o1 + i)"
proof -
  consider "i < 8" | j where "j < 8" "i = j + 8" | "16 \<le> i"
  proof -
    assume "i < 8 \<Longrightarrow> thesis" "16 \<le> i \<Longrightarrow> thesis" and "\<And>j. j < 8 \<Longrightarrow> i = j + 8 \<Longrightarrow> thesis"
    from this(1,2) this(3) [of "i - 8"] show thesis by linarith
  qed
  then show ?thesis
  proof cases
    case 1
    then show ?thesis using assms by (simp add: bit_le16 byte_bit_def)
  next
    case 2
    then have "(8 * o1 + i) div 8 = o1 + 1" "(8 * o1 + i) mod 8 = j" by simp_all
    then show ?thesis using assms 2 by (simp add: bit_le16 byte_bit_def)
  next
    case 3
    then show ?thesis by (simp add: bit_le16)
  qed
qed

lemma byte_bit_update_pair:
  assumes "o1 + 1 < length bs"
  shows "byte_bit (bs[o1 := lo8 q, o1 + 1 := hi8 q]) p \<longleftrightarrow>
    (if 8 * o1 \<le> p \<and> p < 8 * o1 + 16 then bit q (p - 8 * o1) else byte_bit bs p)"
proof -
  consider "p < 8 * o1" | "8 * o1 + 16 \<le> p" | "8 * o1 \<le> p" "p < 8 * o1 + 8"
    | "8 * o1 + 8 \<le> p" "p < 8 * o1 + 16" by linarith
  then show ?thesis
  proof cases
    case 1
    then have "p div 8 < o1" by (simp add: less_mult_imp_div_less mult.commute)
    then show ?thesis using 1 by (simp add: byte_bit_def)
  next
    case 2
    then have "o1 + 1 < p div 8" by linarith
    then show ?thesis using 2 by (simp add: byte_bit_def)
  next
    case 3
    then obtain j where "p = 8 * o1 + j" "j < 8" by (metis le_Suc_ex nat_add_left_cancel_less)
    then show ?thesis using assms by (simp add: byte_bit_def bit_lo8)
  next
    case 4
    then obtain j where j: "p = 8 * o1 + 8 + j" by (metis le_Suc_ex)
    then have "j < 8" using 4 by simp
    have p: "p = j + (o1 + 1) * 8" using j by simp
    have "p div 8 = o1 + 1" "p mod 8 = j" unfolding p
      using \<open>j < 8\<close> by (simp_all only: div_mult_self1 mod_mult_self1) simp_all
    moreover have "p - 8 * o1 = j + 8" using j by simp
    ultimately have "p div 8 = o1 + 1" "p mod 8 = j" "p - 8 * o1 = j + 8" by simp_all
    then show ?thesis using assms 4 \<open>j < 8\<close> by (simp add: byte_bit_def bit_hi8)
  qed
qed

section \<open>Entries as bits\<close>

definition fat_width :: "fat_volume \<Rightarrow> nat" where
  "fat_width v = (if fv_is_fat16 v then 16 else 12)"

definition fat_offset :: "fat_volume \<Rightarrow> u16 \<Rightarrow> nat" where
  "fat_offset v c = (if fv_is_fat16 v then unat c * 2 else unat c * 3 div 2)"

text \<open>The cached FAT holds the entry. An entry it does not hold reads as an end of chain.\<close>

definition fat_slot :: "fat_volume \<Rightarrow> u16 \<Rightarrow> bool" where
  "fat_slot v c \<longleftrightarrow> fat_offset v c + 1 < length (fv_fat_cache v)"

lemma odd_cluster: "(c :: u16) AND 1 \<noteq> 0 \<longleftrightarrow> odd (unat c)"
proof -
  have "c AND 1 \<noteq> 0 \<longleftrightarrow> bit c 0"
    using and_pow2_nonzero [of c 0] by simp
  then show ?thesis
    by (simp add: bit_odd_div)
qed

lemma fat_read_no_slot: "\<not> fat_slot v c \<Longrightarrow> fat_read_entry v c = (if fv_is_fat16 v then 0xFFFF else 0xFFF)"
  by (cases "fv_is_fat16 v") (simp_all add: fat_slot_def fat_offset_def fat_read_entry_def Let_def not_less)

lemma bit_0xFFF: "bit (0xFFF :: u16) j \<longleftrightarrow> j < 12"
proof -
  have "(0xFFF :: u16) = mask 12" by (simp add: mask_eq_exp_minus_1)
  then show ?thesis by (simp only: bit_mask_iff) auto
qed

lemma bit_0xF000: "bit (0xF000 :: u16) j \<longleftrightarrow> 12 \<le> j \<and> j < 16"
proof -
  have "(0xF000 :: u16) = push_bit 12 (mask 4)" by (simp add: mask_eq_exp_minus_1 push_bit_eq_mult)
  then show ?thesis by (simp only: bit_push_bit_iff bit_mask_iff) auto
qed

lemma bit_0xF: "bit (0xF :: u16) j \<longleftrightarrow> j < 4"
proof -
  have "(0xF :: u16) = mask 4" by (simp add: mask_eq_exp_minus_1)
  then show ?thesis by (simp only: bit_mask_iff) auto
qed

lemma fat12_position:
  "8 * (n * 3 div 2) + (if odd n then 4 else 0) = n * 12" for n :: nat
  by (cases "even n") (simp_all, presburger+)

lemma bit_fat_read_entry:
  assumes "fat_slot v c"
  shows "bit (fat_read_entry v c) j \<longleftrightarrow>
    j < fat_width v \<and> byte_bit (fv_fat_cache v) (unat c * fat_width v + j)"
proof (cases "fv_is_fat16 v")
  case True
  then show ?thesis
    using assms bit_pair [of "unat c * 2" "fv_fat_cache v" j]
    by (simp add: fat_slot_def fat_offset_def fat_read_entry_def Let_def fat_width_def mult.assoc mult.commute)
next
  case False
  define p where "p = unat c * 3 div 2"
  have slot: "p + 1 < length (fv_fat_cache v)"
    using assms False by (simp add: fat_slot_def fat_offset_def p_def)
  have read: "fat_read_entry v c =
      (let pair = le16 (fv_fat_cache v ! p) (fv_fat_cache v ! (p + 1)) in
       if odd (unat c) then drop_bit 4 pair else pair AND 0x0FFF)"
    using slot False by (simp add: fat_read_entry_def Let_def p_def odd_cluster)
  have pos: "8 * p + (if odd (unat c) then 4 else 0) = unat c * 12"
    unfolding p_def by (rule fat12_position)
  show ?thesis
  proof (cases "odd (unat c)")
    case True
    have e: "8 * p + (j + 4) = unat c * 12 + j" using pos True by simp
    show ?thesis
      using True False bit_pair [OF slot, of "j + 4", unfolded e]
      by (auto simp: read Let_def bit_drop_bit_eq fat_width_def add.commute [of 4])
  next
    case even: False
    have e: "8 * p + j = unat c * 12 + j" using pos even by simp
    show ?thesis
      using False bit_pair [OF slot, of j, unfolded e]
      unfolding read Let_def if_not_P [OF even] bit_and_iff bit_0xFFF
      by (auto simp: fat_width_def)
  qed
qed

lemma fat_write_entry_update:
  obtains cache dirty where "fat_write_entry c x v = v\<lparr> fv_fat_cache := cache, fv_fat_dirty := dirty \<rparr>"
    and "length cache = length (fv_fat_cache v)"
proof (cases "fv_is_fat16 v")
  case True
  then show ?thesis
    by (cases "length (fv_fat_cache v) \<le> unat c * 2 + 1")
      (auto simp: fat_write_entry_def Let_def not_le intro: that [of "fv_fat_dirty v" "fv_fat_cache v"] that)
next
  case False
  then show ?thesis
    by (cases "length (fv_fat_cache v) \<le> unat c * 3 div 2 + 1")
      (auto simp: fat_write_entry_def Let_def not_le intro: that [of "fv_fat_dirty v" "fv_fat_cache v"] that)
qed

lemma fat_write_entry_fields [simp]:
  "fv_is_fat16 (fat_write_entry c x v) = fv_is_fat16 v"
  "fv_bpb (fat_write_entry c x v) = fv_bpb v"
  "fv_device_id (fat_write_entry c x v) = fv_device_id v"
  "fv_partition_offset (fat_write_entry c x v) = fv_partition_offset v"
  "fv_first_root_sector (fat_write_entry c x v) = fv_first_root_sector v"
  "fv_first_data_sector (fat_write_entry c x v) = fv_first_data_sector v"
  "fv_data_cluster_count (fat_write_entry c x v) = fv_data_cluster_count v"
  "fv_sector_ratio (fat_write_entry c x v) = fv_sector_ratio v"
  "fv_human68k (fat_write_entry c x v) = fv_human68k v"
  "length (fv_fat_cache (fat_write_entry c x v)) = length (fv_fat_cache v)"
  by (rule fat_write_entry_update [of c x v], simp)+

lemma fat_width_write [simp]: "fat_width (fat_write_entry c x v) = fat_width v"
  by (simp add: fat_width_def)

lemma fat_slot_write [simp]: "fat_slot (fat_write_entry c x v) c' = fat_slot v c'"
  by (simp add: fat_slot_def fat_offset_def)

lemma fat_write_no_slot: "\<not> fat_slot v c \<Longrightarrow> fat_write_entry c x v = v"
  by (cases "fv_is_fat16 v") (simp_all add: fat_slot_def fat_offset_def fat_write_entry_def Let_def not_less)

lemma byte_bit_fat_write_entry:
  assumes "fat_slot v c"
  shows "byte_bit (fv_fat_cache (fat_write_entry c x v)) p \<longleftrightarrow>
    (if unat c * fat_width v \<le> p \<and> p < unat c * fat_width v + fat_width v
     then bit x (p - unat c * fat_width v) else byte_bit (fv_fat_cache v) p)"
proof (cases "fv_is_fat16 v")
  case True
  then show ?thesis
    using assms byte_bit_update_pair [of "unat c * 2" "fv_fat_cache v" x p]
    by (simp add: fat_slot_def fat_offset_def fat_write_entry_def Let_def fat_width_def mult.assoc mult.commute)
next
  case False
  define q where "q = unat c * 3 div 2"
  define pair where "pair = le16 (fv_fat_cache v ! q) (fv_fat_cache v ! (q + 1))"
  have slot: "q + 1 < length (fv_fat_cache v)"
    using assms False by (simp add: fat_slot_def fat_offset_def q_def)
  define new where "new = (if odd (unat c) then (pair AND 0x000F) OR push_bit 4 (x AND 0x0FFF)
      else (pair AND 0xF000) OR (x AND 0x0FFF))"
  have cache: "fv_fat_cache (fat_write_entry c x v) = (fv_fat_cache v)[q := lo8 new, q + 1 := hi8 new]"
    using slot False by (simp add: fat_write_entry_def Let_def q_def pair_def new_def odd_cluster)
  have pos: "8 * q + (if odd (unat c) then 4 else 0) = unat c * 12"
    unfolding q_def by (rule fat12_position)
  have old: "bit pair i \<longleftrightarrow> i < 16 \<and> byte_bit (fv_fat_cache v) (8 * q + i)" for i
    unfolding pair_def by (rule bit_pair [OF slot])
  show ?thesis
  proof (cases "odd (unat c)")
    case True
    have bits: "i < 16 \<Longrightarrow> bit new i \<longleftrightarrow> (if i < 4 then byte_bit (fv_fat_cache v) (8 * q + i) else bit x (i - 4))" for i
      unfolding new_def if_P [OF True] bit_or_iff bit_and_iff bit_push_bit_iff bit_0xF bit_0xFFF old by auto
    show ?thesis
      using True False pos bits [of "p - 8 * q"]
      unfolding cache byte_bit_update_pair [OF slot] by (auto simp: fat_width_def)
  next
    case even: False
    have bits: "i < 16 \<Longrightarrow> bit new i \<longleftrightarrow> (if i < 12 then bit x i else byte_bit (fv_fat_cache v) (8 * q + i))" for i
      unfolding new_def if_not_P [OF even] bit_or_iff bit_and_iff bit_0xF000 bit_0xFFF old by auto
    show ?thesis
      using even False pos bits [of "p - 8 * q"]
      unfolding cache byte_bit_update_pair [OF slot] by (auto simp: fat_width_def)
  qed
qed

section \<open>The FAT as an array\<close>

lemma fat_read_write:
  "fat_read_entry (fat_write_entry c x v) c' =
     (if c' = c \<and> fat_slot v c then take_bit (fat_width v) x else fat_read_entry v c')"
proof (cases "fat_slot v c")
  case slot: True
  show ?thesis
  proof (cases "fat_slot v c'")
    case slot': True
    let ?w = "fat_width v"
    have other: "\<not> (unat c * ?w \<le> unat c' * ?w + j \<and> unat c' * ?w + j < unat c * ?w + ?w)"
      if "c' \<noteq> c" "j < ?w" for j
    proof -
      have "unat c' \<noteq> unat c" using that by (simp add: word_unat_eq_iff)
      then consider "unat c' + 1 \<le> unat c" | "unat c + 1 \<le> unat c'" by linarith
      then show ?thesis
      proof cases
        case 1
        then have "(unat c' + 1) * ?w \<le> unat c * ?w" by (rule mult_le_mono1)
        then show ?thesis using that by simp
      next
        case 2
        then have "(unat c + 1) * ?w \<le> unat c' * ?w" by (rule mult_le_mono1)
        then show ?thesis by simp
      qed
    qed
    show ?thesis
    proof (rule bit_eqI)
      fix j assume "possible_bit TYPE(16 word) j"
      show "bit (fat_read_entry (fat_write_entry c x v) c') j \<longleftrightarrow>
          bit (if c' = c \<and> fat_slot v c then take_bit ?w x else fat_read_entry v c') j"
        using slot slot' other [of j]
        by (auto simp: bit_fat_read_entry byte_bit_fat_write_entry bit_take_bit_iff)
    qed
  next
    case False
    then show ?thesis
      using slot by (auto simp: fat_read_no_slot)
  qed
qed (simp add: fat_write_no_slot)

lemma fat_read_write_same:
  "fat_slot v c \<Longrightarrow> fat_read_entry (fat_write_entry c x v) c = take_bit (fat_width v) x"
  by (simp add: fat_read_write)

lemma fat_read_write_other:
  "c' \<noteq> c \<Longrightarrow> fat_read_entry (fat_write_entry c x v) c' = fat_read_entry v c'"
  by (simp add: fat_read_write)

lemma fat_read_entry_width: "take_bit (fat_width v) (fat_read_entry v c) = fat_read_entry v c"
proof (cases "fat_slot v c")
  case True
  then show ?thesis
    by (intro bit_eqI) (auto simp: bit_take_bit_iff bit_fat_read_entry)
next
  case False
  then show ?thesis
    by (auto simp: fat_read_no_slot fat_width_def take_bit_eq_mask mask_eq_exp_minus_1)
qed

end
