(* ===== verification/Fat_Chain.thy ===== *)
theory Fat_Chain
  imports Fat_Entries
begin

text \<open>
  Cluster chains: which clusters a chain visits, what \<open>free_chain\<close> and \<open>allocate_cluster\<close> do to the
  FAT, and what \<open>free_cluster_count\<close> counts. A chain is described by the list of its clusters, as
  for linked lists, and in a damaged FAT by the clusters that its links reach.
\<close>

section \<open>Links\<close>

definition fat_link :: "fat_volume \<Rightarrow> u16 \<Rightarrow> u16 option" where
  "fat_link v entry = (if fat_end_of_chain v \<le> entry \<or> entry < 2 then None else Some entry)"

lemma fat_next_cluster_link: "fat_next_cluster v c = fat_link v (fat_read_entry v c)"
  by (simp add: fat_next_cluster_def fat_link_def Let_def)

lemma fat_end_of_chain_write [simp]: "fat_end_of_chain (fat_write_entry c x v) = fat_end_of_chain v"
  by (simp add: fat_end_of_chain_def)

lemma fat_link_write [simp]: "fat_link (fat_write_entry c x v) = fat_link v"
  by (simp add: fat_link_def fun_eq_iff)

lemma fat_link_0 [simp]: "fat_link v 0 = None"
  by (simp add: fat_link_def)

lemma fat_next_cluster_write:
  "fat_next_cluster (fat_write_entry c x v) c' =
     (if c' = c \<and> fat_slot v c then fat_link v (take_bit (fat_width v) x) else fat_next_cluster v c')"
  by (simp add: fat_next_cluster_link fat_read_write)

lemma fat_next_cluster_Some:
  assumes "fat_next_cluster v c = Some n"
  shows "2 \<le> n" "n < fat_end_of_chain v" "fat_slot v c" "fat_read_entry v c = n"
proof -
  show "2 \<le> n" "n < fat_end_of_chain v" "fat_read_entry v c = n"
    using assms by (auto simp: fat_next_cluster_link fat_link_def not_le not_less split: if_splits)
  show "fat_slot v c"
  proof (rule ccontr)
    assume "\<not> fat_slot v c"
    then show False
      using assms by (auto simp: fat_next_cluster_link fat_link_def fat_read_no_slot
          fat_end_of_chain_def split: if_splits)
  qed
qed

definition fat_reaches :: "fat_volume \<Rightarrow> u16 \<Rightarrow> u16 \<Rightarrow> bool" where
  "fat_reaches v c c' \<longleftrightarrow> (c, c') \<in> {(x, y). fat_next_cluster v x = Some y}\<^sup>*"

lemma fat_reaches_refl [simp]: "fat_reaches v c c"
  by (simp add: fat_reaches_def)

lemma fat_reaches_end: "fat_next_cluster v c = None \<Longrightarrow> fat_reaches v c c' \<longleftrightarrow> c' = c"
  unfolding fat_reaches_def by (auto elim: converse_rtranclE)

lemma fat_reaches_step:
  assumes "fat_next_cluster v c = Some n"
    and same: "\<And>x. x \<noteq> c \<Longrightarrow> fat_next_cluster v1 x = fat_next_cluster v x"
    and cut: "fat_next_cluster v1 c = None"
  shows "fat_reaches v c c' \<longleftrightarrow> c' = c \<or> fat_reaches v1 n c'"
proof
  let ?E = "\<lambda>v. {(x, y). fat_next_cluster v x = Some y}"
  show "c' = c \<or> fat_reaches v1 n c'" if "fat_reaches v c c'"
    using that unfolding fat_reaches_def
  proof (induction rule: rtrancl_induct)
    case (step y z)
    show ?case
    proof (cases "y = c")
      case True
      then show ?thesis using step.hyps assms(1) by simp
    next
      case False
      then have "(y, z) \<in> ?E v1" using step.hyps same by simp
      then show ?thesis using step.IH False by (auto intro: rtrancl_into_rtrancl)
    qed
  qed simp
  have sub: "?E v1 \<subseteq> ?E v"
    using same cut by (auto) (metis option.distinct(1))
  show "fat_reaches v c c'" if "c' = c \<or> fat_reaches v1 n c'"
    using that assms(1) rtrancl_mono [OF sub] unfolding fat_reaches_def
    by (auto intro: converse_rtrancl_into_rtrancl)
qed

section \<open>Releasing a chain\<close>

lemma fat_free_step:
  assumes "fat_next_cluster v c = Some n"
  shows "card {x. fat_next_cluster (fat_write_entry c 0 v) x \<noteq> None} < card {x. fat_next_cluster v x \<noteq> None}"
proof (rule psubset_card_mono)
  show "{x. fat_next_cluster (fat_write_entry c 0 v) x \<noteq> None} \<subset> {x. fat_next_cluster v x \<noteq> None}"
    using assms fat_next_cluster_Some(3) [OF assms] by (auto simp: fat_next_cluster_write)
qed simp

lemma fat_free_loop_frees:
  "2 \<le> start \<Longrightarrow> \<exists>v'. fat_free_loop start v = Some v' \<and> 
     (\<exists>cache dirty. v' = v\<lparr> fv_fat_cache := cache, fv_fat_dirty := dirty \<rparr>
        \<and> length cache = length (fv_fat_cache v)) \<and>
     (\<forall>c. fat_read_entry v' c = (if fat_reaches v start c \<and> fat_slot v c then 0 else fat_read_entry v c))"
proof (induction "card {x. fat_next_cluster v x \<noteq> None}" arbitrary: start v rule: less_induct)
  case less
  let ?v1 = "fat_write_entry start 0 v"
  have loop: "\<not> start < 2" using less.prems by simp
  show ?case
  proof (cases "fat_next_cluster v start")
    case None
    have "fat_free_loop start v = Some ?v1"
      using loop None by (subst fat_free_loop.simps) simp
    moreover have "\<exists>cache dirty. ?v1 = v\<lparr> fv_fat_cache := cache, fv_fat_dirty := dirty \<rparr>
        \<and> length cache = length (fv_fat_cache v)"
      by (rule fat_write_entry_update [of start 0 v]) blast
    ultimately show ?thesis
      using None by (auto simp: fat_read_write fat_reaches_end)
  next
    case (Some n)
    note slot = fat_next_cluster_Some(3) [OF Some]
    obtain v' where v': "fat_free_loop n ?v1 = Some v'"
      and fields: "\<exists>cache dirty. v' = ?v1\<lparr> fv_fat_cache := cache, fv_fat_dirty := dirty \<rparr>
        \<and> length cache = length (fv_fat_cache ?v1)"
      and entries: "\<forall>c. fat_read_entry v' c = (if fat_reaches ?v1 n c \<and> fat_slot ?v1 c then 0
        else fat_read_entry ?v1 c)"
      using less.hyps [OF fat_free_step [OF Some] fat_next_cluster_Some(1) [OF Some]] by blast
    have "fat_free_loop start v = Some v'"
      using loop Some v' by (subst fat_free_loop.simps) simp
    moreover have "fat_reaches v start c \<longleftrightarrow> c = start \<or> fat_reaches ?v1 n c" for c
      by (rule fat_reaches_step [OF Some]) (simp_all add: fat_next_cluster_write slot)
    moreover have "\<exists>cache dirty. v' = v\<lparr> fv_fat_cache := cache, fv_fat_dirty := dirty \<rparr>
        \<and> length cache = length (fv_fat_cache v)"
      using fields by (rule_tac fat_write_entry_update [of start 0 v]) auto
    ultimately show ?thesis
      using entries slot by (auto simp: fat_read_write)
  qed
qed

section \<open>Chains\<close>

primrec fat_chain :: "fat_volume \<Rightarrow> u16 option \<Rightarrow> u16 list \<Rightarrow> bool" where
  "fat_chain v p [] \<longleftrightarrow> p = None"
| "fat_chain v p (c # cs) \<longleftrightarrow> p = Some c \<and> fat_chain v (fat_next_cluster v c) cs"

lemma fat_chain_unique: "\<lbrakk>fat_chain v p cs; fat_chain v p cs'\<rbrakk> \<Longrightarrow> cs = cs'"
proof (induction cs arbitrary: p cs')
  case Nil
  then show ?case by (cases cs') auto
next
  case (Cons c cs)
  then show ?case by (cases cs') auto
qed

lemma fat_chain_append_Cons:
  "fat_chain v p (as @ c # bs) \<Longrightarrow> fat_chain v (Some c) (c # bs)"
  by (induction as arbitrary: p) auto

lemma fat_chain_distinct: "fat_chain v p cs \<Longrightarrow> distinct cs"
proof (induction cs arbitrary: p)
  case (Cons c cs)
  have "c \<notin> set cs"
  proof
    assume "c \<in> set cs"
    then obtain as bs where cs: "cs = as @ c # bs" by (meson split_list)
    have "fat_chain v (Some c) (c # bs)"
      using Cons.prems cs fat_chain_append_Cons by fastforce
    moreover have "fat_chain v (Some c) (c # cs)" using Cons.prems by simp
    ultimately have "c # bs = c # cs" by (rule fat_chain_unique)
    then show False using cs by simp
  qed
  then show ?case using Cons by auto
qed simp

lemma fat_chain_reaches: "fat_chain v (Some c) cs \<Longrightarrow> {x. fat_reaches v c x} = set cs"
proof (induction cs arbitrary: c)
  case (Cons a cs)
  then have a: "a = c" by simp
  show ?case
  proof (cases "fat_next_cluster v c")
    case None
    then have "cs = []" using Cons.prems a by (cases cs) simp_all
    then show ?thesis using a None by (simp add: fat_reaches_end)
  next
    case (Some n)
    have "fat_reaches v c x \<longleftrightarrow> c = x \<or> fat_reaches v n x" for x
      unfolding fat_reaches_def using Some
      by (auto elim: converse_rtranclE intro: converse_rtrancl_into_rtrancl)
    then show ?thesis
      using Cons Some a by auto
  qed
qed simp

lemma fat_chain_update:
  "\<lbrakk>\<forall>c\<in>set cs. fat_next_cluster v' c = fat_next_cluster v c\<rbrakk> \<Longrightarrow> fat_chain v' p cs = fat_chain v p cs"
  by (induction cs arbitrary: p) auto

lemma fat_chain_snoc:
  "fat_chain v p (cs @ [l]) \<Longrightarrow> fat_next_cluster v l = None"
  by (induction cs arbitrary: p) auto

text \<open>Linking a cluster that ends a chain to the end of another.\<close>

lemma fat_chain_extend:
  assumes "fat_chain v p (cs @ [l])"
    and "\<And>x. x \<in> set cs \<Longrightarrow> fat_next_cluster v' x = fat_next_cluster v x"
    and "fat_next_cluster v' l = Some c" and "fat_next_cluster v' c = None"
  shows "fat_chain v' p (cs @ [l, c])"
  using assms by (induction cs arbitrary: p) auto

section \<open>Allocation\<close>

text \<open>
  A volume whose cluster numbers are all smaller than the end of chain marks of its format. The
  format follows from the cluster count, so this bounds only FAT16 volumes.
\<close>

definition fat_numbered :: "fat_volume \<Rightarrow> bool" where
  "fat_numbered v \<longleftrightarrow> fv_is_fat16 v = (4085 \<le> fv_data_cluster_count v) \<and>
     unat (fv_data_cluster_count v) \<le> 65526"

lemma fat_numbered_write [simp]: "fat_numbered (fat_write_entry c x v) = fat_numbered v"
  by (simp add: fat_numbered_def)

definition fat_marker :: "fat_volume \<Rightarrow> u16" where
  "fat_marker v = (if fv_is_fat16 v then 0xFFFF else 0x0FFF)"

lemma take_bit_marker [simp]: "take_bit (fat_width v) (fat_marker v) = fat_marker v"
  by (simp add: fat_width_def fat_marker_def take_bit_eq_mask mask_eq_exp_minus_1)

lemma fat_link_marker [simp]: "fat_link v (fat_marker v) = None"
  by (simp add: fat_link_def fat_marker_def fat_end_of_chain_def)

lemma fat_read_0_slot: "fat_read_entry v c = 0 \<Longrightarrow> fat_slot v c"
  by (rule ccontr) (auto simp: fat_read_no_slot split: if_splits)

lemma set_fat_candidates: "set (fat_candidates m) = {c. 2 \<le> c \<and> c < m}"
proof -
  have "c \<in> of_nat ` {2..<unat m} \<longleftrightarrow> 2 \<le> c \<and> c < m" for c
  proof
    assume "c \<in> of_nat ` {2..<unat m}"
    then obtain n where n: "c = of_nat n" "2 \<le> n" "n < unat m" by auto
    then have "unat c = n"
      using unat_u16_less [of m] by (simp add: unsigned_of_nat take_bit_nat_eq_self)
    then show "2 \<le> c \<and> c < m" using n by (simp add: word_le_nat_alt word_less_nat_alt)
  next
    assume "2 \<le> c \<and> c < m"
    then have "unat c \<in> {2..<unat m}" by (simp add: word_le_nat_alt word_less_nat_alt)
    moreover have "c = of_nat (unat c)" by simp
    ultimately show "c \<in> of_nat ` {2..<unat m}" by blast
  qed
  then show ?thesis by (auto simp: fat_candidates_def)
qed

lemma distinct_fat_candidates: "distinct (fat_candidates m)"
proof -
  have "inj_on (of_nat :: nat \<Rightarrow> u16) {2..<unat m}"
    using unat_u16_less [of m] by (auto simp: inj_on_def of_nat_eq_iff take_bit_nat_eq_self word_of_nat_eq_iff)
  then show ?thesis by (simp add: fat_candidates_def distinct_map)
qed

lemma fat_max_cluster:
  assumes "fat_numbered v"
  shows "unat (ucast (fv_data_cluster_count v) + 2 :: u16) = unat (fv_data_cluster_count v) + 2"
proof -
  have "unat (ucast (fv_data_cluster_count v) :: u16) = unat (fv_data_cluster_count v)"
    using assms by (simp add: fat_numbered_def unsigned_ucast_eq take_bit_nat_eq_self)
  then show ?thesis
    using assms by (simp add: fat_numbered_def unat_word_ariths)
qed

lemma fat_is_data_cluster_iff:
  assumes "fat_numbered v"
  shows "fat_is_data_cluster v c \<longleftrightarrow> 2 \<le> c \<and> unat c < unat (fv_data_cluster_count v) + 2"
proof -
  have "unat (fv_data_cluster_count v + 2) = unat (fv_data_cluster_count v) + 2"
    using assms by (simp add: fat_numbered_def unat_word_ariths)
  moreover have "unat (ucast c :: u32) = unat c"
    using unat_u16_less [of c] by (simp add: unsigned_ucast_eq take_bit_nat_eq_self)
  ultimately show ?thesis
    by (simp add: fat_is_data_cluster_def word_less_nat_alt)
qed

lemma fat_candidates_data:
  assumes "fat_numbered v"
  shows "set (fat_candidates (ucast (fv_data_cluster_count v) + 2)) = {c. fat_is_data_cluster v c}"
  using assms
  by (auto simp: set_fat_candidates fat_is_data_cluster_iff word_less_nat_alt fat_max_cluster)

lemma fat_data_cluster_link:
  assumes "fat_numbered v" "fat_is_data_cluster v c"
  shows "fat_link v c = Some c" "take_bit (fat_width v) c = c"
proof -
  have less: "unat c < unat (fv_data_cluster_count v) + 2" "2 \<le> c"
    using assms by (simp_all add: fat_is_data_cluster_iff)
  have bound: "unat c < (if fv_is_fat16 v then 0xFFF8 else 0xFF8)"
    using assms(1) less(1) by (auto simp: fat_numbered_def word_le_nat_alt)
  then show "fat_link v c = Some c"
    using less(2) by (auto simp: fat_link_def fat_end_of_chain_def word_le_nat_alt word_less_nat_alt split: if_splits)
  have "take_bit (fat_width v) (unat c) = unat c"
    using bound by (auto simp: fat_width_def intro!: take_bit_nat_eq_self split: if_splits)
  then show "take_bit (fat_width v) c = c"
    by (metis unsigned_take_bit_eq unsigned_word_eqI)
qed

lemma fat_allocate_None:
  "fat_allocate_cluster after v = (None, v') \<longleftrightarrow>
     v' = v \<and> (\<forall>c\<in>set (fat_candidates (ucast (fv_data_cluster_count v) + 2)). fat_read_entry v c \<noteq> 0)"
proof (cases "List.find (\<lambda>c. fat_read_entry v c = 0) (fat_candidates (ucast (fv_data_cluster_count v) + 2))")
  case None
  then have "\<forall>c\<in>set (fat_candidates (ucast (fv_data_cluster_count v) + 2)). fat_read_entry v c \<noteq> 0"
    by (auto simp: find_None_iff)
  then show ?thesis using None by (auto simp: fat_allocate_cluster_def Let_def)
next
  case (Some c)
  then have "c \<in> set (fat_candidates (ucast (fv_data_cluster_count v) + 2))" "fat_read_entry v c = 0"
    by (auto simp: find_Some_iff)
  then show ?thesis using Some by (auto simp: fat_allocate_cluster_def Let_def)
qed

lemma fat_allocate_Some:
  assumes "fat_allocate_cluster after v = (Some c, v')"
  shows "c \<in> set (fat_candidates (ucast (fv_data_cluster_count v) + 2))"
    and "fat_read_entry v c = 0"
    and "v' = (if 2 \<le> after then fat_write_entry after c (fat_write_entry c (fat_marker v) v)
               else fat_write_entry c (fat_marker v) v)"
proof -
  have found: "List.find (\<lambda>c. fat_read_entry v c = 0) (fat_candidates (ucast (fv_data_cluster_count v) + 2)) = Some c"
    using assms by (auto simp: fat_allocate_cluster_def Let_def split: option.splits)
  then show "c \<in> set (fat_candidates (ucast (fv_data_cluster_count v) + 2))" "fat_read_entry v c = 0"
    by (auto simp: find_Some_iff)
  show "v' = (if 2 \<le> after then fat_write_entry after c (fat_write_entry c (fat_marker v) v)
               else fat_write_entry c (fat_marker v) v)"
    using assms found by (auto simp: fat_allocate_cluster_def Let_def fat_marker_def)
qed

lemma fat_allocate_fields:
  assumes "fat_allocate_cluster after v = (r, v')"
  shows "fv_is_fat16 v' = fv_is_fat16 v" "fv_bpb v' = fv_bpb v" "fv_device_id v' = fv_device_id v"
    "fv_partition_offset v' = fv_partition_offset v" "fv_first_root_sector v' = fv_first_root_sector v"
    "fv_first_data_sector v' = fv_first_data_sector v"
    "fv_data_cluster_count v' = fv_data_cluster_count v" "fv_sector_ratio v' = fv_sector_ratio v"
    "fv_human68k v' = fv_human68k v" "length (fv_fat_cache v') = length (fv_fat_cache v)"
proof -
  have "v' = v \<or> (\<exists>c x. v' = fat_write_entry c x v) \<or> (\<exists>c x d y. v' = fat_write_entry d y (fat_write_entry c x v))"
  proof (cases r)
    case None
    then show ?thesis using assms fat_allocate_None by blast
  next
    case (Some c)
    have "v' = (if 2 \<le> after then fat_write_entry after c (fat_write_entry c (fat_marker v) v)
        else fat_write_entry c (fat_marker v) v)"
      using assms Some by (intro fat_allocate_Some(3)) simp
    then show ?thesis by (cases "2 \<le> after") (simp_all only: if_True if_False, blast+)
  qed
  then show "fv_is_fat16 v' = fv_is_fat16 v" "fv_bpb v' = fv_bpb v" "fv_device_id v' = fv_device_id v"
    "fv_partition_offset v' = fv_partition_offset v" "fv_first_root_sector v' = fv_first_root_sector v"
    "fv_first_data_sector v' = fv_first_data_sector v"
    "fv_data_cluster_count v' = fv_data_cluster_count v" "fv_sector_ratio v' = fv_sector_ratio v"
    "fv_human68k v' = fv_human68k v" "length (fv_fat_cache v') = length (fv_fat_cache v)"
    by auto
qed

text \<open>The entries after an allocation behind an entry that is not free.\<close>

lemma fat_allocate_entries:
  assumes "fat_numbered v" and "fat_allocate_cluster after v = (Some c, v')"
    and "2 \<le> after \<Longrightarrow> fat_read_entry v after \<noteq> 0"
  shows "fat_read_entry v' x =
    (if x = c then fat_marker v else if x = after \<and> 2 \<le> after \<and> fat_slot v after then c
     else fat_read_entry v x)"
proof -
  note c = fat_allocate_Some [OF assms(2)]
  have data: "fat_is_data_cluster v c"
    using c(1) by (simp add: fat_candidates_data [OF assms(1)])
  have "2 \<le> after \<Longrightarrow> after \<noteq> c" using assms(3) c(2) by auto
  then show ?thesis
    using fat_read_0_slot [OF c(2)] fat_data_cluster_link(2) [OF assms(1) data]
    by (auto simp: c(3) fat_read_write)
qed

section \<open>Counting free clusters\<close>

definition fat_free_set :: "fat_volume \<Rightarrow> u16 set" where
  "fat_free_set v = {c. fat_is_data_cluster v c \<and> fat_read_entry v c = 0}"

lemma saturating_add16_less:
  assumes "unat a + unat b < 65536"
  shows "saturating_add16 a b = a + b"
proof -
  have "unat (a + b) = unat a + unat b" using assms by (simp add: unat_word_ariths)
  then show ?thesis by (simp add: saturating_add16_def word_less_nat_alt)
qed

lemma saturating_count:
  "k + length xs < 65536 \<Longrightarrow>
   foldl (\<lambda>free c. if P c then saturating_add16 free 1 else free) (of_nat k) xs =
     of_nat (k + length (filter P xs))"
proof (induction xs arbitrary: k)
  case (Cons x xs)
  have "unat (of_nat k :: u16) = k"
    using Cons.prems by (simp add: unsigned_of_nat take_bit_nat_eq_self)
  then have "saturating_add16 (of_nat k) 1 = of_nat (k + 1)"
    using Cons.prems by (subst saturating_add16_less) (simp_all add: add.commute)
  then show ?case
    using Cons.IH [of "k + 1"] Cons.IH [of k] Cons.prems by simp
qed simp

lemma fat_free_cluster_count_card:
  assumes "fat_numbered v"
  shows "fat_free_cluster_count v = of_nat (card (fat_free_set v))"
proof -
  let ?n = "ucast (fv_data_cluster_count v) + 2 :: u16"
  have small: "min (fv_data_cluster_count v) 0xFFFF = fv_data_cluster_count v"
    using assms by (simp add: fat_numbered_def min_def word_le_nat_alt)
  have n: "unat ?n = unat (fv_data_cluster_count v) + 2" by (rule fat_max_cluster [OF assms])
  have "unat (ucast (fv_data_cluster_count v) :: u16) = unat (fv_data_cluster_count v)"
    using assms by (simp add: fat_numbered_def unsigned_ucast_eq take_bit_nat_eq_self)
  then have bound: "saturating_add16 (fat_total_cluster_count v) 2 = ?n"
    unfolding fat_total_cluster_count_def small
    using assms by (intro saturating_add16_less) (simp add: fat_numbered_def)
  have len: "length (fat_candidates ?n) < 65536"
    using assms by (simp only: fat_candidates_def length_map length_upt n) (simp add: fat_numbered_def)
  have "fat_free_cluster_count v = of_nat (0 + length (filter (\<lambda>c. fat_read_entry v c = 0) (fat_candidates ?n)))"
    unfolding fat_free_cluster_count_def bound
    using saturating_count [of 0 "fat_candidates ?n" "\<lambda>c. fat_read_entry v c = 0"] len by simp
  also have "length (filter (\<lambda>c. fat_read_entry v c = 0) (fat_candidates ?n)) = card (fat_free_set v)"
    by (simp add: distinct_length_filter distinct_fat_candidates fat_candidates_data [OF assms]
        fat_free_set_def Int_def conj_commute)
  finally show ?thesis by simp
qed

end
