(* ===== verification/Fat_Layout.thy ===== *)
theory Fat_Layout
  imports Fat_Chain
begin

text \<open>
  The data area of a volume on a flat disk: where a cluster lies, what reading and writing one does,
  and the copies of the FAT. The lemmas are proved once for every \<open>flat_disk\<close>.
\<close>

section \<open>The layout\<close>

definition fat_cluster_size :: "fat_volume \<Rightarrow> nat" where
  "fat_cluster_size v = unat (bpb_cluster_size (fv_bpb v))"

lemma unat_ucast_u8_u32 [simp]: "unat (ucast (x :: u8) :: u32) = unat x"
  using unat_u8_less [of x] by (simp add: unsigned_ucast_eq take_bit_nat_eq_self)

lemma unat_ucast_u16_u32 [simp]: "unat (ucast (x :: u16) :: u32) = unat x"
  using unat_u16_less [of x] by (simp add: unsigned_ucast_eq take_bit_nat_eq_self)

lemma unat_mult_u32: "unat a * unat b < 2 ^ 32 \<Longrightarrow> unat (a * b :: u32) = unat a * unat b"
  by (simp add: unat_word_ariths)

lemma unat_add_u32: "unat a + unat b < 2 ^ 32 \<Longrightarrow> unat (a + b :: u32) = unat a + unat b"
  by (simp add: unat_word_ariths)

lemma fat_cluster_size_eq:
  "fat_cluster_size v = unat (bpb_bytes_per_sector (fv_bpb v)) * unat (bpb_sectors_per_cluster (fv_bpb v))"
proof -
  have "unat (bpb_bytes_per_sector (fv_bpb v)) * unat (bpb_sectors_per_cluster (fv_bpb v)) \<le> 65535 * 255"
    using unat_u16_less [of "bpb_bytes_per_sector (fv_bpb v)"] unat_u8_less [of "bpb_sectors_per_cluster (fv_bpb v)"]
    by (intro mult_le_mono) linarith+
  then show ?thesis
    by (simp add: fat_cluster_size_def bpb_cluster_size_def unat_mult_u32)
qed

text \<open>
  The volume \<open>v\<close> lies on a disk of \<open>len\<close> bytes with physical sectors of \<open>sector\<close> bytes: its logical
  sectors are whole physical ones, and its data clusters are on the disk. No sector number wraps.
\<close>

definition fat_layout :: "nat \<Rightarrow> nat \<Rightarrow> fat_volume \<Rightarrow> bool" where
  "fat_layout sector len v \<longleftrightarrow>
     0 < sector \<and> 0 < unat (bpb_sectors_per_cluster (fv_bpb v)) \<and> 0 < unat (fv_sector_ratio v) \<and>
     unat (fv_sector_ratio v) * sector = unat (bpb_bytes_per_sector (fv_bpb v)) \<and>
     0 < unat (fv_data_cluster_count v) \<and>
     (unat (fv_partition_offset v) + unat (fv_first_data_sector v) * unat (fv_sector_ratio v) +
       unat (fv_data_cluster_count v) * unat (bpb_sectors_per_cluster (fv_bpb v)) * unat (fv_sector_ratio v)) * sector \<le> len \<and>
     len \<le> 2 ^ 32 * sector \<and> fat_numbered v"

lemma fat_layout_cong:
  assumes "fat_layout sector len v" and "fv_bpb v' = fv_bpb v" "fv_sector_ratio v' = fv_sector_ratio v"
    "fv_data_cluster_count v' = fv_data_cluster_count v" "fv_partition_offset v' = fv_partition_offset v"
    "fv_first_data_sector v' = fv_first_data_sector v" "fv_is_fat16 v' = fv_is_fat16 v"
  shows "fat_layout sector len v'"
  using assms by (simp add: fat_layout_def fat_numbered_def)

text \<open>The first physical sector of the data area and of a cluster, as numbers.\<close>

definition fat_data_start :: "fat_volume \<Rightarrow> nat" where
  "fat_data_start v = unat (fv_partition_offset v) + unat (fv_first_data_sector v) * unat (fv_sector_ratio v)"

definition fat_cluster_sectors :: "fat_volume \<Rightarrow> nat" where
  "fat_cluster_sectors v = unat (bpb_sectors_per_cluster (fv_bpb v)) * unat (fv_sector_ratio v)"

definition fat_cluster_start :: "nat \<Rightarrow> fat_volume \<Rightarrow> u16 \<Rightarrow> nat" where
  "fat_cluster_start sector v c =
     fat_data_start v * sector + (unat c - 2) * fat_cluster_size v"

lemma fat_cluster_size_sectors:
  "fat_layout sector len v \<Longrightarrow> fat_cluster_size v = fat_cluster_sectors v * sector"
  by (simp add: fat_layout_def fat_cluster_size_eq fat_cluster_sectors_def)

lemma fat_cluster_size_pos: "fat_layout sector len v \<Longrightarrow> 0 < fat_cluster_size v"
  by (auto simp: fat_cluster_size_sectors fat_cluster_sectors_def) (auto simp: fat_layout_def)

lemma fat_cluster_on_disk:
  assumes "fat_layout sector len v" "fat_is_data_cluster v c"
  shows "fat_cluster_start sector v c + fat_cluster_size v \<le> len"
    and "unat (fat_cluster_to_lba v c) * sector = fat_cluster_start sector v c"
    and "unat (ucast (bpb_sectors_per_cluster (fv_bpb v)) * fv_sector_ratio v :: u32) * sector = fat_cluster_size v"
proof -
  let ?m = "unat (fv_data_cluster_count v)" and ?k = "fat_cluster_sectors v"
  note lay = assms(1) [unfolded fat_layout_def]
  have c: "2 \<le> unat c" "unat c < ?m + 2"
    using assms fat_is_data_cluster_iff [of v c] by (auto simp: fat_layout_def word_le_nat_alt)
  have "(unat c - 2 + 1) * ?k \<le> ?m * ?k"
    using c by (intro mult_le_mono1) linarith
  then have k: "(unat c - 2) * ?k + ?k \<le> ?m * ?k" by simp
  have fits: "(fat_data_start v + ?m * ?k) * sector \<le> len"
    using lay by (simp add: fat_data_start_def fat_cluster_sectors_def mult.assoc)
  have "(fat_data_start v + ((unat c - 2) * ?k + ?k)) * sector \<le> (fat_data_start v + ?m * ?k) * sector"
    using k by (intro mult_le_mono1) simp
  then have total: "(fat_data_start v + ((unat c - 2) * ?k + ?k)) * sector \<le> len"
    using fits by linarith
  then show "fat_cluster_start sector v c + fat_cluster_size v \<le> len"
    using fat_cluster_size_sectors [OF assms(1)] by (simp add: fat_cluster_start_def algebra_simps)
  have "(fat_data_start v + ((unat c - 2) * ?k + ?k)) * sector \<le> 2 ^ 32 * sector"
    using total lay by linarith
  then have bound: "fat_data_start v + ((unat c - 2) * ?k + ?k) \<le> 2 ^ 32"
    using lay by (meson mult_le_cancel2)
  have kpos: "0 < ?k" using lay by (simp add: fat_cluster_sectors_def)
  have less: "fat_data_start v + (unat c - 2) * ?k < 2 ^ 32" using bound kpos by linarith
  have k32: "?k < 2 ^ 32"
  proof -
    have "?k * sector = fat_cluster_size v" using fat_cluster_size_sectors [OF assms(1)] by simp
    moreover have "fat_cluster_size v < 2 ^ 32"
      unfolding fat_cluster_size_def using unsigned_less [of "bpb_cluster_size (fv_bpb v)", where ?'a = nat] by simp
    moreover have "?k \<le> ?k * sector" using lay by simp
    ultimately show ?thesis by linarith
  qed
  have spc: "unat (ucast (bpb_sectors_per_cluster (fv_bpb v)) * fv_sector_ratio v :: u32) = ?k"
    using k32 by (simp add: unat_mult_u32 fat_cluster_sectors_def)
  then show "unat (ucast (bpb_sectors_per_cluster (fv_bpb v)) * fv_sector_ratio v :: u32) * sector = fat_cluster_size v"
    using fat_cluster_size_sectors [OF assms(1)] by simp
  have "saturating_sub c 2 = c - 2" "unat (c - 2) = unat c - 2"
    using c(1) by (simp_all add: saturating_sub_def word_less_nat_alt unat_sub_if' word_le_nat_alt)
  then have sub: "unat (saturating_sub c 2) = unat c - 2" by simp
  have off: "unat (ucast (saturating_sub c 2) * ucast (bpb_sectors_per_cluster (fv_bpb v)) * fv_sector_ratio v :: u32)
      = (unat c - 2) * ?k"
    using less unat_mult_u32 [of "ucast (saturating_sub c 2)" "ucast (bpb_sectors_per_cluster (fv_bpb v)) * fv_sector_ratio v"]
    by (simp add: sub spc mult.assoc)
  have first: "unat (fv_partition_offset v + fv_first_data_sector v * fv_sector_ratio v) = fat_data_start v"
    using less unfolding fat_data_start_def
    by (subst unat_add_u32; (subst unat_mult_u32)?) simp_all
  have "unat (fat_cluster_to_lba v c) = fat_data_start v + (unat c - 2) * ?k"
    using less unfolding fat_cluster_to_lba_def by (subst unat_add_u32) (simp_all add: off first)
  then show "unat (fat_cluster_to_lba v c) * sector = fat_cluster_start sector v c"
    using fat_cluster_size_sectors [OF assms(1)] by (simp add: fat_cluster_start_def algebra_simps)
qed

text \<open>Different clusters do not overlap.\<close>

lemma fat_clusters_apart:
  assumes "fat_layout sector len v" "fat_is_data_cluster v c" "fat_is_data_cluster v c'" "c \<noteq> c'"
  shows "fat_cluster_start sector v c + fat_cluster_size v \<le> fat_cluster_start sector v c' \<or>
    fat_cluster_start sector v c' + fat_cluster_size v \<le> fat_cluster_start sector v c"
proof -
  have ge: "2 \<le> unat c" "2 \<le> unat c'"
    using assms fat_is_data_cluster_iff by (auto simp: fat_layout_def word_le_nat_alt)
  have "unat c \<noteq> unat c'" using assms(4) by (simp add: word_unat_eq_iff)
  then consider "unat c - 2 + 1 \<le> unat c' - 2" | "unat c' - 2 + 1 \<le> unat c - 2"
    using ge by linarith
  then show ?thesis
  proof cases
    case 1
    then have "(unat c - 2 + 1) * fat_cluster_size v \<le> (unat c' - 2) * fat_cluster_size v"
      by (rule mult_le_mono1)
    then show ?thesis by (simp add: fat_cluster_start_def)
  next
    case 2
    then have "(unat c' - 2 + 1) * fat_cluster_size v \<le> (unat c - 2) * fat_cluster_size v"
      by (rule mult_le_mono1)
    then show ?thesis by (simp add: fat_cluster_start_def)
  qed
qed

section \<open>Clusters on a flat disk\<close>

context flat_disk
begin

definition cluster_data :: "fat_volume \<Rightarrow> 'd \<Rightarrow> u16 \<Rightarrow> u8 list" where
  "cluster_data v d c = take (fat_cluster_size v) (drop (fat_cluster_start sector v c) (contents d))"

definition on_disk :: "fat_volume \<Rightarrow> 'd \<Rightarrow> bool" where
  "on_disk v d \<longleftrightarrow> good d \<and> fv_device_id v = dev \<and> fat_layout sector (length (contents d)) v"

lemma length_cluster_data:
  "\<lbrakk>on_disk v d; fat_is_data_cluster v c\<rbrakk> \<Longrightarrow> length (cluster_data v d c) = fat_cluster_size v"
  using fat_cluster_on_disk(1) [of sector "length (contents d)" v c]
  by (simp add: on_disk_def cluster_data_def)

lemma read_cluster:
  assumes "on_disk v d" "fat_is_data_cluster v c"
  shows "fat_read_cluster io v c d = Some (Inr (cluster_data v d c), d)"
proof -
  have lay: "good d" "fv_device_id v = dev" "fat_layout sector (length (contents d)) v"
    using assms(1) by (simp_all add: on_disk_def)
  note pos = fat_cluster_on_disk [OF lay(3) assms(2)]
  show ?thesis
    unfolding fat_read_cluster_def lay(2)
    using reads [OF lay(1), of "fat_cluster_to_lba v c"
        "ucast (bpb_sectors_per_cluster (fv_bpb v)) * fv_sector_ratio v"] pos
    by (intro io_disk_Some) (simp add: add_mult_distrib cluster_data_def)
qed

lemma write_cluster:
  assumes "on_disk v d" "fat_is_data_cluster v c" "length bytes = fat_cluster_size v"
  obtains d' where "fat_write_cluster io v c bytes d = Some (Inr (), d')" "on_disk v d'"
    "contents d' = copy_into (fat_cluster_start sector v c) bytes (contents d)"
    "cluster_data v d' c = bytes"
    "\<And>c'. \<lbrakk>fat_is_data_cluster v c'; c' \<noteq> c\<rbrakk> \<Longrightarrow> cluster_data v d' c' = cluster_data v d c'"
proof -
  have lay: "good d" "fv_device_id v = dev" "fat_layout sector (length (contents d)) v"
    using assms(1) by (simp_all add: on_disk_def)
  note pos = fat_cluster_on_disk [OF lay(3) assms(2)]
  have len: "length bytes = fat_cluster_sectors v * sector"
    using assms(3) fat_cluster_size_sectors [OF lay(3)] by simp
  have fits: "(unat (fat_cluster_to_lba v c) + fat_cluster_sectors v) * sector \<le> length (contents d)"
    using pos fat_cluster_size_sectors [OF lay(3)] by (simp add: add_mult_distrib)
  obtain d' where d': "io_write_sectors io dev (fat_cluster_to_lba v c) bytes d = Some (Inr (), d')" "good d'"
    "contents d' = copy_into (fat_cluster_start sector v c) bytes (contents d)"
    using writes [OF lay(1) len fits] pos by auto
  have within: "fat_cluster_start sector v c + length bytes \<le> length (contents d)"
    using pos(1) assms(3) by simp
  show ?thesis
  proof (rule that)
    show "fat_write_cluster io v c bytes d = Some (Inr (), d')"
      unfolding fat_write_cluster_def lay(2) using d'(1) by (rule io_disk_Some)
    show "on_disk v d'"
      using lay d' within by (simp add: on_disk_def)
    show "contents d' = copy_into (fat_cluster_start sector v c) bytes (contents d)" by fact
    show "cluster_data v d' c = bytes"
      using slice_copy_into_same [OF within] by (simp add: cluster_data_def d'(3) assms(3))
    show "cluster_data v d' c' = cluster_data v d c'" if "fat_is_data_cluster v c'" "c' \<noteq> c" for c'
      using fat_clusters_apart [OF lay(3) assms(2) that(1)] that(2) within
      by (simp add: cluster_data_def d'(3) slice_copy_into_other assms(3) disj_commute)
  qed
qed

end

section \<open>The copies of the FAT\<close>

text \<open>The first sector of the FAT area as a number, and the area that all copies take.\<close>

definition fat_area_start :: "fat_volume \<Rightarrow> nat" where
  "fat_area_start v =
     unat (fv_partition_offset v) + unat (bpb_reserved_sectors (fv_bpb v)) * unat (fv_sector_ratio v)"

definition fat_copy_sectors :: "fat_volume \<Rightarrow> nat" where
  "fat_copy_sectors v = unat (bpb_sectors_per_fat (fv_bpb v)) * unat (fv_sector_ratio v)"

definition fat_area :: "nat \<Rightarrow> nat \<Rightarrow> fat_volume \<Rightarrow> bool" where
  "fat_area sector len v \<longleftrightarrow>
     length (fv_fat_cache v) = fat_copy_sectors v * sector \<and>
     (fat_area_start v + unat (bpb_num_fats (fv_bpb v)) * fat_copy_sectors v) * sector \<le> len \<and>
     len \<le> 2 ^ 32 * sector \<and> 0 < fat_copy_sectors v"

lemma concat_replicate_Suc: "concat (replicate (Suc n) xs) = xs @ concat (replicate n xs)"
  by simp

lemma length_concat_replicate [simp]: "length (concat (replicate n xs)) = n * length xs"
  by (induction n) simp_all

context flat_disk
begin

lemma fat_copy_lba:
  assumes "fat_area sector (length (contents d)) v" "k < unat (bpb_num_fats (fv_bpb v))" "unat i = k"
  shows "unat (fv_partition_offset v + ucast (bpb_reserved_sectors (fv_bpb v)) * fv_sector_ratio v +
    i * ucast (bpb_sectors_per_fat (fv_bpb v)) * fv_sector_ratio v) = fat_area_start v + k * fat_copy_sectors v"
    and "(fat_area_start v + k * fat_copy_sectors v + fat_copy_sectors v) * sector \<le> length (contents d)"
proof -
  let ?F = "fat_copy_sectors v"
  have "(k + 1) * ?F \<le> unat (bpb_num_fats (fv_bpb v)) * ?F" using assms(2) by (intro mult_le_mono1) linarith
  then have "(fat_area_start v + (k * ?F + ?F)) * sector \<le> (fat_area_start v + unat (bpb_num_fats (fv_bpb v)) * ?F) * sector"
    by (intro mult_le_mono1) simp
  moreover have "(fat_area_start v + unat (bpb_num_fats (fv_bpb v)) * ?F) * sector \<le> length (contents d)"
    using assms(1) by (simp add: fat_area_def)
  ultimately have fits: "(fat_area_start v + (k * ?F + ?F)) * sector \<le> length (contents d)"
    by (rule order_trans)
  then show "(fat_area_start v + k * ?F + ?F) * sector \<le> length (contents d)" by (simp add: add.assoc)
  have "length (contents d) \<le> 2 ^ 32 * sector"
    using assms(1) by (simp add: fat_area_def)
  with fits have "(fat_area_start v + (k * ?F + ?F)) * sector \<le> 2 ^ 32 * sector"
    by (rule order_trans)
  then have "fat_area_start v + (k * ?F + ?F) \<le> 2 ^ 32" using sector_bounds(1) by (meson mult_le_cancel2)
  moreover have "0 < ?F" using assms(1) by (simp add: fat_area_def)
  ultimately have less: "fat_area_start v + k * ?F < 2 ^ 32" by linarith
  have start: "unat (fv_partition_offset v + ucast (bpb_reserved_sectors (fv_bpb v)) * fv_sector_ratio v) = fat_area_start v"
    using less unfolding fat_area_start_def by (subst unat_add_u32; (subst unat_mult_u32)?) simp_all
  have "k * unat (bpb_sectors_per_fat (fv_bpb v)) < 256 * 65536"
    using assms(2) unat_u8_less [of "bpb_num_fats (fv_bpb v)"] unat_u16_less [of "bpb_sectors_per_fat (fv_bpb v)"]
    by (intro mult_strict_mono') linarith+
  then have "unat (i * ucast (bpb_sectors_per_fat (fv_bpb v)) :: u32) = k * unat (bpb_sectors_per_fat (fv_bpb v))"
    using assms(3) by (simp add: unat_mult_u32)
  then have "unat (i * ucast (bpb_sectors_per_fat (fv_bpb v)) * fv_sector_ratio v) = k * ?F"
    using less by (subst unat_mult_u32) (simp_all add: fat_copy_sectors_def mult.assoc)
  then show "unat (fv_partition_offset v + ucast (bpb_reserved_sectors (fv_bpb v)) * fv_sector_ratio v +
    i * ucast (bpb_sectors_per_fat (fv_bpb v)) * fv_sector_ratio v) = fat_area_start v + k * ?F"
    using less start by (subst unat_add_u32) simp_all
qed

lemma flush_copies:
  assumes "fv_device_id v = dev"
  shows "\<lbrakk>good d; fat_area sector (length (contents d)) v; unat i + n = unat (bpb_num_fats (fv_bpb v))\<rbrakk> \<Longrightarrow>
    \<exists>d'. fat_flush_copies io v i n d = Some (Inr (), d') \<and> good d' \<and>
      contents d' = copy_into ((fat_area_start v + unat i * fat_copy_sectors v) * sector)
        (concat (replicate n (fv_fat_cache v))) (contents d)"
proof (induction n arbitrary: i d)
  case 0
  then show ?case by (simp add: io_return_def)
next
  case (Suc n)
  let ?F = "fat_copy_sectors v" and ?c = "fv_fat_cache v"
  let ?pos = "(fat_area_start v + unat i * ?F) * sector"
  let ?lba = "fv_partition_offset v + ucast (bpb_reserved_sectors (fv_bpb v)) * fv_sector_ratio v +
    i * ucast (bpb_sectors_per_fat (fv_bpb v)) * fv_sector_ratio v"
  have i: "unat i < unat (bpb_num_fats (fv_bpb v))" using Suc.prems(3) by simp
  note lba = fat_copy_lba [OF Suc.prems(2) i refl]
  have len: "length ?c = ?F * sector" using Suc.prems(2) by (simp add: fat_area_def)
  have "(unat ?lba + ?F) * sector \<le> length (contents d)" using lba by (simp add: add.assoc)
  from writes [OF Suc.prems(1) len this] lba(1) obtain d1 where
    d1: "io_write_sectors io dev ?lba ?c d = Some (Inr (), d1)" "good d1" "contents d1 = copy_into ?pos ?c (contents d)"
    by auto
  have within: "?pos + length ?c \<le> length (contents d)"
    using lba(2) len by (simp add: add_mult_distrib)
  have len1: "length (contents d1) = length (contents d)" using within by (simp add: d1(3))
  have nxt: "unat (i + 1) = unat i + 1"
    using i unat_u8_less [of "bpb_num_fats (fv_bpb v)"] by (simp add: unat_word_ariths)
  obtain d' where d': "fat_flush_copies io v (i + 1) n d1 = Some (Inr (), d')" "good d'"
    "contents d' = copy_into ((fat_area_start v + (unat i + 1) * ?F) * sector) (concat (replicate n ?c)) (contents d1)"
    using Suc.IH [of d1 "i + 1"] d1(2) Suc.prems(2,3) by (auto simp: len1 nxt)
  have flush: "fat_flush_copies io v i (Suc n) d = Some (Inr (), d')"
    using d1(1) d'(1) assms by (simp add: io_defs)
  have bound: "?pos + (length ?c + n * length ?c) \<le> length (contents d)"
  proof -
    have "(fat_area_start v + unat (bpb_num_fats (fv_bpb v)) * ?F) * sector \<le> length (contents d)"
      using Suc.prems(2) by (simp add: fat_area_def)
    then show ?thesis unfolding Suc.prems(3) [symmetric] len by (simp add: algebra_simps)
  qed
  have "contents d' = copy_into (?pos + length ?c) (drop (length ?c) (?c @ concat (replicate n ?c)))
      (copy_into ?pos (take (length ?c) (?c @ concat (replicate n ?c))) (contents d))"
    unfolding d'(3) d1(3) by (simp add: len algebra_simps)
  also have "\<dots> = copy_into ?pos (?c @ concat (replicate n ?c)) (contents d)"
    using bound by (intro copy_into_split) simp_all
  finally show ?case using flush d'(2) by auto
qed

lemma flush:
  assumes "good d" "fv_device_id v = dev" "fat_area sector (length (contents d)) v" "fv_fat_dirty v"
  shows "\<exists>d'. fat_flush io (v, d) = Some (Inr (), (v\<lparr> fv_fat_dirty := False \<rparr>, d')) \<and> good d' \<and>
    contents d' = copy_into (fat_area_start v * sector)
      (concat (replicate (unat (bpb_num_fats (fv_bpb v))) (fv_fat_cache v))) (contents d)"
  using flush_copies [OF assms(2,1,3), of 0 "unat (bpb_num_fats (fv_bpb v))"] assms(4)
  by (auto simp: fat_flush_def io_defs)

end

section \<open>What mounting establishes\<close>

lemma bpb_supported_sizes:
  assumes "bpb_is_supported b physical = Some True"
  shows "physical \<noteq> 0" "physical \<le> bpb_bytes_per_sector b" "bpb_bytes_per_sector b mod physical = 0"
    "bpb_sectors_per_fat b \<noteq> 0" "bpb_num_fats b \<noteq> 0" "bpb_reserved_sectors b \<noteq> 0"
  using assms by (auto simp: bpb_is_supported_def not_less split: if_splits)

lemma fat_select_bpb_sizes:
  fixes io :: "'d disk_io"
  assumes "fat_select_bpb io dev offset geometry physical boot_record d = Some (Inr b, d')"
  shows "physical = bpb_bytes_per_sector b \<or> bpb_is_supported b physical = Some True"
proof -
  have filter: "bpb_filter_supported physical p = Some (Some b) \<Longrightarrow> bpb_is_supported b physical = Some True" for p
    by (auto simp: bpb_filter_supported_def split: option.splits if_splits)
  then have boot: "fat_boot_record_bpb record1 physical = Some (Some b) \<Longrightarrow> bpb_is_supported b physical = Some True" for record1
    by (auto simp: fat_boot_record_bpb_def Option.bind_eq_Some_conv split: option.splits)
  have supported: "fat_supported_bpb x physical s = Some (Inr b, t) \<Longrightarrow> bpb_is_supported b physical = Some True"
    for x and s t :: 'd
    by (auto simp: fat_supported_bpb_def io_bind_eq_Some_iff io_return_def io_fail_def io_expect_def
        split: option.splits if_splits)
  have default: "fat_validated_default_bpb io dev offset physical x s = Some (Inr b, t) \<Longrightarrow> physical = bpb_bytes_per_sector b"
    for x s t
    by (auto simp: fat_validated_default_bpb_def io_bind_eq_Some_iff io_return_def io_fail_def split: if_splits prod.splits)
  have towns: "fat_fm_towns_floppy_bpb io dev offset physical s = Some (Inr b, t) \<Longrightarrow> bpb_is_supported b physical = Some True"
    for s t
    by (auto simp: fat_fm_towns_floppy_bpb_def io_bind_eq_Some_iff io_return_def io_fail_def io_expect_def
        split: if_splits prod.splits)
  show ?thesis
    using assms
    by (auto simp: fat_select_bpb_def io_bind_eq_Some_iff io_expect_def io_ok_or_def io_return_def io_fail_def
        dest: boot supported default towns split: bpb_source.splits option.splits)
qed

end
