(* ===== verification/Fat_Dir.thy ===== *)
theory Fat_Dir
  imports Fat_Volume
begin

text \<open>
  Directories of a FAT volume (\<open>dos/src/filesystem/fat_dir.rs\<close>): directory entries and their 32
  bytes, names in 8.3 form and in the 18.3 form of Human68k, search, and the creation, update and
  deletion of entries. \<open>is_shift_jis_lead_byte\<close> and its counterpart are from \<open>common/src/jis.rs\<close>.

  A name is a list of 11 bytes, the reserved bytes a list of 10. An index out of the range of a
  sector that a disk returns is a panic.
\<close>

section \<open>Entries\<close>

record dir_entry =
  de_name :: "u8 list"
  de_attribute :: u8
  de_reserved :: "u8 list"
  de_time :: u16
  de_date :: u16
  de_start_cluster :: u16
  de_file_size :: u32
  de_sector :: u32
  de_offset :: u16

definition dir_entry_to_bytes :: "dir_entry \<Rightarrow> u8 list" where
  "dir_entry_to_bytes e =
     (let name = (case de_name e of
                    [] \<Rightarrow> []
                  | b # bs \<Rightarrow> (if b = 0xE5 then 0x05 else b) # bs) in
      name @ [de_attribute e] @ de_reserved e @ u16_to_le_bytes (de_time e) @
      u16_to_le_bytes (de_date e) @ u16_to_le_bytes (de_start_cluster e) @
      u32_to_le_bytes (de_file_size e))"

text \<open>The bytes up to the last one that is no space.\<close>

definition trim_spaces :: "u8 list \<Rightarrow> u8 list" where
  "trim_spaces bs = rev (dropWhile (\<lambda>b. b = 0x20) (rev bs))"

definition human68k_name_continuation :: "u8 list \<Rightarrow> u8 list" where
  "human68k_name_continuation reserved = takeWhile (\<lambda>b. b \<noteq> 0) reserved"

definition human68k_display_name :: "dir_entry \<Rightarrow> u8 list" where
  "human68k_display_name e =
     (let base = trim_spaces (take 8 (de_name e) @ human68k_name_continuation (de_reserved e));
          extension = trim_spaces (drop 8 (de_name e)) in
      if extension = [] then base else base @ 0x2E # extension)"

definition is_shift_jis_lead_byte :: "u8 \<Rightarrow> bool" where
  "is_shift_jis_lead_byte b \<longleftrightarrow> 0x81 \<le> b \<and> b \<le> 0x9F \<or> 0xE0 \<le> b \<and> b \<le> 0xFC"

definition is_shift_jis_trail_byte :: "u8 \<Rightarrow> bool" where
  "is_shift_jis_trail_byte b \<longleftrightarrow> 0x40 \<le> b \<and> b \<le> 0x7E \<or> 0x80 \<le> b \<and> b \<le> 0xFC"

text \<open>The ASCII bytes that a name must not have: \<open>" * + , . / : ; < = > ? [ \ ] |\<close>\<close>

definition is_invalid_ascii_name_byte :: "u8 \<Rightarrow> bool" where
  "is_invalid_ascii_name_byte b \<longleftrightarrow>
     b \<in> {0x22, 0x2A, 0x2B, 0x2C, 0x2E, 0x2F, 0x3A, 0x3B, 0x3C, 0x3D, 0x3E, 0x3F, 0x5B, 0x5C, 0x5D, 0x7C}"

fun is_valid_fcb_bytes :: "u8 list \<Rightarrow> bool" where
  "is_valid_fcb_bytes [] = True"
| "is_valid_fcb_bytes (b # bs) =
     (if b \<le> 0x20 \<or> is_invalid_ascii_name_byte b then False
      else if is_shift_jis_lead_byte b then
        (case bs of [] \<Rightarrow> False | t # rest \<Rightarrow> is_shift_jis_trail_byte t \<and> is_valid_fcb_bytes rest)
      else if 0x80 \<le> b \<and> \<not> (0xA1 \<le> b \<and> b \<le> 0xDF) then False
      else is_valid_fcb_bytes bs)"

definition is_valid_fcb_field :: "u8 list \<Rightarrow> bool" where
  "is_valid_fcb_field field = is_valid_fcb_bytes (trim_spaces field)"

definition dot_name :: "u8 list" where
  "dot_name = 0x2E # replicate 10 0x20"

definition dotdot_name :: "u8 list" where
  "dotdot_name = 0x2E # 0x2E # replicate 9 0x20"

definition is_valid_entry_name :: "u8 list \<Rightarrow> u8 list \<Rightarrow> bool" where
  "is_valid_entry_name name continuation =
     (if length name \<noteq> 11 \<or> 10 < length continuation then False
      else if name = dot_name \<or> name = dotdot_name then True
      else if name ! 0 = 0x20 then False
      else is_valid_fcb_field (take 8 name @ continuation) \<and> is_valid_fcb_field (drop 8 name))"

definition is_valid_fcb_name :: "u8 list \<Rightarrow> bool" where
  "is_valid_fcb_name name = is_valid_entry_name name []"

definition is_valid_human68k_name :: "u8 list \<Rightarrow> u8 list \<Rightarrow> bool" where
  "is_valid_human68k_name name reserved =
     is_valid_entry_name name (human68k_name_continuation reserved)"

definition parse_entry :: "u8 list \<Rightarrow> u32 \<Rightarrow> u16 \<Rightarrow> bool \<Rightarrow> dir_entry option" where
  "parse_entry bytes sector offset human68k =
     (if length bytes < 32 then None
      else if bytes ! 0 = 0 \<or> bytes ! 0 = 0xE5 then None
      else
        let name = (if bytes ! 0 = 0x05 then (take 11 bytes)[0 := 0xE5] else take 11 bytes);
            attribute = bytes ! 11; reserved = take 10 (drop 12 bytes) in
        if attribute AND 0xC0 \<noteq> 0 \<or> attribute = 0x0F then None
        else if \<not> (is_valid_fcb_name name \<or> human68k \<and> is_valid_human68k_name name reserved) then None
        else Some
          \<lparr> de_name = name, de_attribute = attribute, de_reserved = reserved,
            de_time = u16_at 22 bytes, de_date = u16_at 24 bytes, de_start_cluster = u16_at 26 bytes,
            de_file_size = u32_at 28 bytes, de_sector = sector, de_offset = offset \<rparr>)"

section \<open>Names\<close>

definition to_ascii_uppercase :: "u8 \<Rightarrow> u8" where
  "to_ascii_uppercase b = (if 0x61 \<le> b \<and> b \<le> 0x7A then b - 0x20 else b)"

text \<open>
  The copy loop of \<open>name_to_fcb\<close> into a field with room for \<open>n\<close> bytes: the bytes it stores and the
  rest of the source. The base stops at a dot, the extension does not.
\<close>

fun fcb_copy :: "bool \<Rightarrow> nat \<Rightarrow> u8 list \<Rightarrow> u8 list \<times> u8 list" where
  "fcb_copy stop_at_dot 0 src = ([], src)"
| "fcb_copy stop_at_dot (Suc n) [] = ([], [])"
| "fcb_copy stop_at_dot (Suc n) (b # src) =
     (if stop_at_dot \<and> b = 0x2E then ([], b # src)
      else if b = 0x2A then (replicate (Suc n) 0x3F, b # src)
      else let (out, rest) = fcb_copy stop_at_dot n src in (b # out, rest))"

definition pad_field :: "nat \<Rightarrow> u8 list \<Rightarrow> u8 list" where
  "pad_field n bs = bs @ replicate (n - length bs) 0x20"

definition name_to_fcb :: "u8 list \<Rightarrow> u8 list" where
  "name_to_fcb name =
     (if name = [0x2A, 0x2E, 0x2A] \<or> name = [0x2A] then replicate 11 0x3F
      else
        let (base, rest) = fcb_copy True 8 (map to_ascii_uppercase name);
            extension = drop 1 (dropWhile (\<lambda>b. b \<noteq> 0x2E) rest) in
        pad_field 8 base @ pad_field 3 (fst (fcb_copy False 3 extension)))"

definition fcb_to_display_name :: "u8 list \<Rightarrow> u8 list" where
  "fcb_to_display_name fcb =
     (let base = trim_spaces (take 8 fcb); extension = trim_spaces (take 3 (drop 8 fcb)) in
      if extension = [] then base else base @ 0x2E # extension)"

definition matches_pattern :: "u8 list \<Rightarrow> u8 list \<Rightarrow> bool" where
  "matches_pattern name pattern \<longleftrightarrow> (\<forall>i\<in>set [0..<11]. pattern ! i = 0x3F \<or> pattern ! i = name ! i)"

section \<open>The sectors of a directory\<close>

text \<open>The chain of a subdirectory from a cluster on, with the clusters counted so far.\<close>

partial_function (option) dir_chain_sectors ::
  "fat_volume \<Rightarrow> u16 \<Rightarrow> u32 \<Rightarrow> u32 list \<Rightarrow> (u16 + u32 list) option" where
  "dir_chain_sectors v cluster cluster_count sectors =
     (let n = cluster_count + 1 in
      if fv_data_cluster_count v < n then Some (Inl 0x1F)
      else
        let found = sectors @ map (\<lambda>i. fat_cluster_to_lba v cluster + of_nat i * fv_sector_ratio v)
              [0..<unat (bpb_sectors_per_cluster (fv_bpb v))] in
        case fat_next_chain_cluster v cluster of
          Inl e \<Rightarrow> Some (Inl e)
        | Inr None \<Rightarrow> Some (Inr found)
        | Inr (Some c) \<Rightarrow> dir_chain_sectors v c n found)"

definition dir_sectors :: "fat_volume \<Rightarrow> u16 \<Rightarrow> (u16 + u32 list) option" where
  "dir_sectors v dir_cluster =
     (if dir_cluster = 0 then
        map_option (\<lambda>count. Inr (map (\<lambda>i. fat_root_dir_lba v + of_nat i * fv_sector_ratio v) [0..<unat count]))
          (fat_root_dir_sectors v)
      else if \<not> fat_is_data_cluster v dir_cluster then Some (Inl 0x1F)
      else dir_chain_sectors v dir_cluster 0 [])"

definition io_of_result :: "('e + 'a) option \<Rightarrow> ('s, 'e, 'a) call" where
  "io_of_result r s = map_option (\<lambda>x. (x, s)) r"

definition entries_per_sector :: "fat_volume \<Rightarrow> nat" where
  "entries_per_sector v = unat (bpb_bytes_per_sector (fv_bpb v)) div 32"

section \<open>Search\<close>

text \<open>
  \<open>for_each_entry\<close> with a callback that keeps a state of its own. The callback returns \<open>Some\<close> of
  the entry to stop with. \<open>ScanEnd\<close> is the end of the directory.
\<close>

datatype scan_result = ScanContinue | ScanEnd | ScanReturn dir_entry

type_synonym 'a entry_callback = "dir_entry \<Rightarrow> 'a \<Rightarrow> dir_entry option \<times> 'a"

fun scan_sector ::
  "bool \<Rightarrow> u32 \<Rightarrow> u8 list \<Rightarrow> 'a entry_callback \<Rightarrow> nat list \<Rightarrow> 'a \<Rightarrow> (scan_result \<times> 'a) option" where
  "scan_sector human68k lba bytes callback [] acc = Some (ScanContinue, acc)"
| "scan_sector human68k lba bytes callback (i # is) acc =
     do { first \<leftarrow> list_get bytes (i * 32);
          if first = 0 then Some (ScanEnd, acc)
          else if first = 0xE5 then scan_sector human68k lba bytes callback is acc
          else do {
            slot \<leftarrow> slice_range (i * 32) (i * 32 + 32) bytes;
            case parse_entry slot lba (of_nat (i * 32)) human68k of
              None \<Rightarrow> scan_sector human68k lba bytes callback is acc
            | Some e \<Rightarrow>
                (case callback e acc of
                   (None, acc') \<Rightarrow> scan_sector human68k lba bytes callback is acc'
                 | (Some r, acc') \<Rightarrow> Some (ScanReturn r, acc')) } }"

fun scan_sectors ::
  "'d disk_io \<Rightarrow> fat_volume \<Rightarrow> 'a entry_callback \<Rightarrow> u32 list \<Rightarrow> 'a \<Rightarrow> ('d, dir_entry option \<times> 'a) io" where
  "scan_sectors io v callback [] acc = io_return (None, acc)"
| "scan_sectors io v callback (lba # lbas) acc =
     io_bind (fat_read_sector_abs io v lba) (\<lambda>bytes.
     io_bind (io_expect (scan_sector (fv_human68k v) lba bytes callback [0..<entries_per_sector v] acc))
       (\<lambda>(r, acc').
        case r of
          ScanContinue \<Rightarrow> scan_sectors io v callback lbas acc'
        | ScanEnd \<Rightarrow> io_return (None, acc')
        | ScanReturn e \<Rightarrow> io_return (Some e, acc')))"

definition for_each_entry ::
  "'d disk_io \<Rightarrow> fat_volume \<Rightarrow> u16 \<Rightarrow> 'a entry_callback \<Rightarrow> 'a \<Rightarrow> ('d, dir_entry option \<times> 'a) io" where
  "for_each_entry io v dir_cluster callback acc =
     io_bind (io_of_result (dir_sectors v dir_cluster)) (\<lambda>lbas. scan_sectors io v callback lbas acc)"

definition find_entry :: "'d disk_io \<Rightarrow> fat_volume \<Rightarrow> u16 \<Rightarrow> u8 list \<Rightarrow> ('d, dir_entry option) io" where
  "find_entry io v dir_cluster name =
     io_bind (for_each_entry io v dir_cluster
       (\<lambda>e acc. (if de_name e = name then Some e else None, acc)) ()) (\<lambda>(r, _). io_return r)"

definition find_matching_callback :: "u8 list \<Rightarrow> u8 \<Rightarrow> u16 \<Rightarrow> u16 entry_callback" where
  "find_matching_callback pattern attr_mask start_index e index =
     (if index < start_index then (None, index + 1)
      else if de_attribute e AND 0x08 \<noteq> 0 \<and> attr_mask AND 0x08 = 0 then (None, index + 1)
      else if attr_mask = 0x08 \<and> de_attribute e AND 0x08 = 0 then (None, index + 1)
      else if de_attribute e AND 0x02 \<noteq> 0 \<and> attr_mask AND 0x02 = 0 then (None, index + 1)
      else if de_attribute e AND 0x04 \<noteq> 0 \<and> attr_mask AND 0x04 = 0 then (None, index + 1)
      else if de_attribute e AND 0x10 \<noteq> 0 \<and> attr_mask AND 0x10 = 0 then (None, index + 1)
      else if matches_pattern (de_name e) pattern then (Some e, index + 1)
      else (None, index + 1))"

definition find_matching ::
  "'d disk_io \<Rightarrow> fat_volume \<Rightarrow> u16 \<Rightarrow> u8 list \<Rightarrow> u8 \<Rightarrow> u16 \<Rightarrow> ('d, (dir_entry \<times> u16) option) io" where
  "find_matching io v dir_cluster pattern attr_mask start_index =
     io_bind (for_each_entry io v dir_cluster (find_matching_callback pattern attr_mask start_index) 0)
       (\<lambda>(r, index). io_return (map_option (\<lambda>e. (e, index)) r))"

section \<open>Changing entries\<close>

text \<open>The first free slot of a sector.\<close>

fun free_slot :: "u8 list \<Rightarrow> nat list \<Rightarrow> nat option option" where
  "free_slot bytes [] = Some None"
| "free_slot bytes (i # is) =
     do { first \<leftarrow> list_get bytes (i * 32);
          if first = 0 \<or> first = 0xE5 then Some (Some (i * 32)) else free_slot bytes is }"

definition patch_range :: "nat \<Rightarrow> u8 list \<Rightarrow> u8 list \<Rightarrow> u8 list option" where
  "patch_range pos bs bytes = (if pos + length bs \<le> length bytes then Some (copy_into pos bs bytes) else None)"

text \<open>The loop over the sectors of the directory; \<open>None\<close> when there is no free slot.\<close>

fun create_entry_in :: "'d disk_io \<Rightarrow> fat_volume \<Rightarrow> dir_entry \<Rightarrow> u32 list \<Rightarrow> ('d, dir_entry option) io" where
  "create_entry_in io v e [] = io_return None"
| "create_entry_in io v e (lba # lbas) =
     io_bind (fat_read_sector_abs io v lba) (\<lambda>bytes.
     io_bind (io_expect (free_slot bytes [0..<entries_per_sector v])) (\<lambda>slot.
     case slot of
       None \<Rightarrow> create_entry_in io v e lbas
     | Some offset \<Rightarrow>
         io_bind (io_expect (patch_range offset (dir_entry_to_bytes e) bytes)) (\<lambda>new_sector.
         io_bind (fat_write_sector_abs io v lba new_sector) (\<lambda>_.
         io_return (Some (e\<lparr> de_sector := lba, de_offset := of_nat offset \<rparr>))))))"

partial_function (option) fat_last_cluster :: "fat_volume \<Rightarrow> u16 \<Rightarrow> u16 option" where
  "fat_last_cluster v cluster =
     (case fat_next_cluster v cluster of None \<Rightarrow> Some cluster | Some c \<Rightarrow> fat_last_cluster v c)"

definition io_first :: "('c \<Rightarrow> 'a \<times> 'c) \<Rightarrow> ('c \<times> 's, 'e, 'a) call" where
  "io_first f cs = (let (x, c) = f (fst cs) in Some (Inr x, (c, snd cs)))"

definition fat_cluster_bytes :: "fat_volume \<Rightarrow> nat" where
  "fat_cluster_bytes v =
     unat (bpb_sectors_per_cluster (fv_bpb v)) * unat (bpb_bytes_per_sector (fv_bpb v))"

definition create_entry ::
  "'d disk_io \<Rightarrow> u16 \<Rightarrow> dir_entry \<Rightarrow> (fat_volume \<times> 'd, dir_entry) io" where
  "create_entry io dir_cluster e =
     io_bind (io_gets fst) (\<lambda>v.
     io_bind (io_of_result (dir_sectors v dir_cluster)) (\<lambda>lbas.
     io_bind (io_second (\<lambda>_. create_entry_in io v e lbas)) (\<lambda>created.
     case created of
       Some c \<Rightarrow> io_return c
     | None \<Rightarrow>
         if dir_cluster = 0 then io_fail 0x05
         else
           io_bind (io_expect (fat_last_cluster v dir_cluster)) (\<lambda>last_cluster.
           io_bind (io_first (fat_allocate_cluster last_cluster)) (\<lambda>allocated.
           io_bind (io_ok_or 0x05 allocated) (\<lambda>new_cluster.
           io_bind (io_attempt (io_second (\<lambda>v1.
             fat_write_cluster io v1 new_cluster (replicate (fat_cluster_bytes v1) 0)))) (\<lambda>written.
           case written of
             Inl error \<Rightarrow>
               io_bind (io_first (\<lambda>v1. ((), fat_write_entry new_cluster 0
                 (fat_write_entry last_cluster (if fv_is_fat16 v1 then 0xFFFF else 0x0FFF) v1)))) (\<lambda>_.
               io_fail error)
           | Inr _ \<Rightarrow>
               io_bind (io_gets fst) (\<lambda>v1.
               io_bind (io_expect (patch_range 0 (dir_entry_to_bytes e)
                 (replicate (unat (bpb_bytes_per_sector (fv_bpb v1))) 0))) (\<lambda>sector.
               io_bind (io_second (\<lambda>_. fat_write_sector_abs io v1 (fat_cluster_to_lba v1 new_cluster) sector)) (\<lambda>_.
               io_return (e\<lparr> de_sector := fat_cluster_to_lba v1 new_cluster, de_offset := 0 \<rparr>)))))))))))"

definition update_entry :: "'d disk_io \<Rightarrow> fat_volume \<Rightarrow> dir_entry \<Rightarrow> ('d, unit) io" where
  "update_entry io v e =
     (let offset = unat (de_offset e); bytes = dir_entry_to_bytes e in
      io_bind (fat_read_sector_abs io v (de_sector e)) (\<lambda>sector.
      io_bind (io_expect (patch_range offset (take 12 bytes) sector)) (\<lambda>sector1.
      io_bind (io_expect (patch_range (offset + 22) (drop 22 bytes) sector1)) (\<lambda>sector2.
      fat_write_sector_abs io v (de_sector e) sector2))))"

definition write_dir_entry :: "'d disk_io \<Rightarrow> fat_volume \<Rightarrow> dir_entry \<Rightarrow> ('d, unit) io" where
  "write_dir_entry io v e =
     io_bind (fat_read_sector_abs io v (de_sector e)) (\<lambda>sector.
     io_bind (io_expect (patch_range (unat (de_offset e)) (dir_entry_to_bytes e) sector)) (\<lambda>sector1.
     fat_write_sector_abs io v (de_sector e) sector1))"

definition delete_entry :: "'d disk_io \<Rightarrow> fat_volume \<Rightarrow> dir_entry \<Rightarrow> ('d, unit) io" where
  "delete_entry io v e =
     io_bind (fat_read_sector_abs io v (de_sector e)) (\<lambda>sector.
     io_bind (io_expect (patch_range (unat (de_offset e)) [0xE5] sector)) (\<lambda>sector1.
     fat_write_sector_abs io v (de_sector e) sector1))"

section \<open>Subdirectories\<close>

definition free_chain_io :: "u16 \<Rightarrow> (fat_volume \<times> 'd, unit) io" where
  "free_chain_io start = (\<lambda>(v, d). map_option (\<lambda>v'. (Inr (), (v', d))) (fat_free_chain start v))"

definition directory_entry :: "u8 list \<Rightarrow> u16 \<Rightarrow> u16 \<Rightarrow> u16 \<Rightarrow> dir_entry" where
  "directory_entry name time date cluster =
     \<lparr> de_name = name, de_attribute = 0x10, de_reserved = replicate 10 0, de_time = time,
       de_date = date, de_start_cluster = cluster, de_file_size = 0, de_sector = 0, de_offset = 0 \<rparr>"

text \<open>The rollback of a failed \<open>create_entry\<close>: the new cluster is released and the FAT flushed.\<close>

definition create_entry_or_rollback ::
  "'d disk_io \<Rightarrow> u16 \<Rightarrow> u16 \<Rightarrow> dir_entry \<Rightarrow> (fat_volume \<times> 'd, dir_entry) io" where
  "create_entry_or_rollback io new_cluster dir_cluster e =
     io_bind (io_attempt (create_entry io dir_cluster e)) (\<lambda>r.
     case r of
       Inr created \<Rightarrow> io_return created
     | Inl error \<Rightarrow>
         io_bind (free_chain_io new_cluster) (\<lambda>_.
         io_bind (io_attempt (fat_flush io)) (\<lambda>_ :: u16 + unit.
         io_fail error)))"

definition create_subdirectory ::
  "'d disk_io \<Rightarrow> u16 \<Rightarrow> u8 list \<Rightarrow> u16 \<Rightarrow> u16 \<Rightarrow> (fat_volume \<times> 'd, dir_entry) io" where
  "create_subdirectory io parent_cluster fcb_name time date =
     io_bind (io_second (\<lambda>v. find_entry io v parent_cluster fcb_name)) (\<lambda>existing.
     if existing \<noteq> None then io_fail 0x05
     else
       io_bind (io_first (fat_allocate_cluster 0)) (\<lambda>allocated.
       io_bind (io_ok_or 0x05 allocated) (\<lambda>new_cluster.
       io_bind (io_attempt (io_second (\<lambda>v.
         fat_write_cluster io v new_cluster (replicate (fat_cluster_bytes v) 0)))) (\<lambda>written.
       case written of
         Inl _ \<Rightarrow> io_bind (free_chain_io new_cluster) (\<lambda>_. io_fail 0x1F)
       | Inr _ \<Rightarrow>
           io_bind (create_entry_or_rollback io new_cluster new_cluster
             (directory_entry dot_name time date new_cluster)) (\<lambda>_.
           io_bind (create_entry_or_rollback io new_cluster new_cluster
             (directory_entry dotdot_name time date parent_cluster)) (\<lambda>_.
           io_bind (create_entry_or_rollback io new_cluster parent_cluster
             (directory_entry fcb_name time date new_cluster)) (\<lambda>created.
           io_bind (io_map_err (\<lambda>_. 0x1F) (fat_flush io)) (\<lambda>_.
           io_return created))))))))"

end
