(* ===== verification/Fat_File.thy ===== *)
theory Fat_File
  imports Fat_Dir
begin

text \<open>
  Files of a FAT volume (\<open>dos/src/filesystem/fat_file.rs\<close>): the read cursor and the writer with their
  cached cluster, the reading of a whole chain, and the creation and replacement of a file.

  The cursor and the writer have \<open>&mut self\<close> methods: their calls run on the cursor paired with the
  disk, and on the writer paired with volume and disk.
\<close>

section \<open>Reading through a cursor\<close>

record fat_cursor =
  fc_start_cluster :: u16
  fc_file_size :: u32
  fc_position :: u32
  fc_cached_index :: u32
  fc_cached_cluster :: u16

definition fat_cursor_with_position :: "u16 \<Rightarrow> u32 \<Rightarrow> u32 \<Rightarrow> fat_cursor" where
  "fat_cursor_with_position start_cluster file_size pos =
     \<lparr> fc_start_cluster = start_cluster, fc_file_size = file_size, fc_position = pos,
       fc_cached_index = 0, fc_cached_cluster = 0 \<rparr>"

definition fat_cursor_new :: "dir_entry \<Rightarrow> fat_cursor" where
  "fat_cursor_new e = fat_cursor_with_position (de_start_cluster e) (de_file_size e) 0"

definition fat_cursor_remaining :: "fat_cursor \<Rightarrow> u32" where
  "fat_cursor_remaining cur = saturating_sub (fc_file_size cur) (fc_position cur)"

text \<open>The loop of \<open>cluster_for_index\<close>: \<open>n\<close> links from a cluster.\<close>

fun fat_walk :: "fat_volume \<Rightarrow> u16 \<Rightarrow> nat \<Rightarrow> u16 option" where
  "fat_walk v cluster 0 = Some cluster"
| "fat_walk v cluster (Suc n) =
     (case fat_next_cluster v cluster of None \<Rightarrow> None | Some c \<Rightarrow> fat_walk v c n)"

definition fat_cursor_cluster_for_index ::
  "fat_volume \<Rightarrow> u32 \<Rightarrow> fat_cursor \<Rightarrow> (u16 + u16) \<times> fat_cursor" where
  "fat_cursor_cluster_for_index v target cur =
     (if fc_start_cluster cur < 2 then (Inl 0x1F, cur)
      else if target = 0
      then (Inr (fc_start_cluster cur),
            cur\<lparr> fc_cached_index := 0, fc_cached_cluster := fc_start_cluster cur \<rparr>)
      else
        let (index, cluster) =
              (if 2 \<le> fc_cached_cluster cur \<and> fc_cached_index cur \<le> target
               then (fc_cached_index cur, fc_cached_cluster cur) else (0, fc_start_cluster cur)) in
        case fat_walk v cluster (unat target - unat index) of
          None \<Rightarrow> (Inl 0x1F, cur)
        | Some c \<Rightarrow> (Inr c, cur\<lparr> fc_cached_index := target, fc_cached_cluster := c \<rparr>))"

definition io_cursor :: "('c \<Rightarrow> ('e + 'a) \<times> 'c) \<Rightarrow> ('c \<times> 's, 'e, 'a) call" where
  "io_cursor f cs = (let (r, c) = f (fst cs) in Some (r, (c, snd cs)))"

definition checked_mod :: "u32 \<Rightarrow> u32 \<Rightarrow> u32 option" where
  "checked_mod a b = (if b = 0 then None else Some (a mod b))"

text \<open>The loop of \<open>read_chunk\<close>. \<open>wanted\<close> is \<open>bytes_to_read\<close>, \<open>result\<close> the bytes read so far.\<close>

partial_function (option) fat_cursor_loop ::
  "'d disk_io \<Rightarrow> fat_volume \<Rightarrow> u32 \<Rightarrow> u8 list \<Rightarrow> fat_cursor \<times> 'd \<Rightarrow> ((u16 + u8 list) \<times> (fat_cursor \<times> 'd)) option" where
  "fat_cursor_loop io v wanted result s =
     (if unat wanted \<le> length result then Some (Inr result, s)
      else
        io_bind (io_gets (\<lambda>s. fc_position (fst s))) (\<lambda>pos.
        io_bind (io_expect (checked_div pos (bpb_cluster_size (fv_bpb v)))) (\<lambda>index.
        io_bind (io_expect (checked_mod pos (bpb_cluster_size (fv_bpb v)))) (\<lambda>offset.
        io_bind (io_cursor (fat_cursor_cluster_for_index v index)) (\<lambda>cluster.
        io_bind (io_second (\<lambda>_. fat_read_cluster io v cluster)) (\<lambda>bytes.
        io_bind (io_gets (\<lambda>_. min (bpb_cluster_size (fv_bpb v) - offset) (wanted - of_nat (length result))))
          (\<lambda>available.
        io_bind (io_expect (slice_range (unat offset) (unat offset + unat available) bytes)) (\<lambda>part.
        io_bind (io_modify (map_prod (\<lambda>cur. cur\<lparr> fc_position := fc_position cur + available \<rparr>) id)) (\<lambda>_ t.
        fat_cursor_loop io v wanted (result @ part) t)))))))) s)"

definition fat_cursor_read_chunk ::
  "'d disk_io \<Rightarrow> fat_volume \<Rightarrow> nat \<Rightarrow> (fat_cursor \<times> 'd, u8 list) io" where
  "fat_cursor_read_chunk io v max_bytes s =
     (let cur = fst s in
      if fc_file_size cur \<le> fc_position cur \<or> max_bytes = 0 then Some (Inr [], s)
      else if fc_start_cluster cur < 2 then Some (Inl 0x1F, s)
      else fat_cursor_loop io v (min (of_nat max_bytes) (fat_cursor_remaining cur)) [] s)"

section \<open>Writing\<close>

record fat_writer =
  fw_start_cluster :: u16
  fw_position :: u32
  fw_cached_index :: u32
  fw_cached_cluster :: u16

definition fat_writer_new :: "u16 \<Rightarrow> u32 \<Rightarrow> fat_writer" where
  "fat_writer_new start_cluster pos =
     \<lparr> fw_start_cluster = start_cluster, fw_position = pos, fw_cached_index = 0,
       fw_cached_cluster = 0 \<rparr>"

definition fat_writer_current_cluster :: "fat_writer \<Rightarrow> u16" where
  "fat_writer_current_cluster w =
     (if 2 \<le> fw_cached_cluster w then fw_cached_cluster w else fw_start_cluster w)"

definition fat_zero_cluster :: "'d disk_io \<Rightarrow> fat_volume \<Rightarrow> u16 \<Rightarrow> ('d, unit) io" where
  "fat_zero_cluster io v cluster =
     fat_write_cluster io v cluster (replicate (unat (bpb_cluster_size (fv_bpb v))) 0)"

text \<open>Allocation of a zeroed cluster behind another, as both allocations of the writer do it.\<close>

definition fat_allocate_zeroed :: "'d disk_io \<Rightarrow> u16 \<Rightarrow> (fat_volume \<times> 'd, u16) io" where
  "fat_allocate_zeroed io after =
     io_bind (io_first (fat_allocate_cluster after)) (\<lambda>allocated.
     io_bind (io_ok_or 0x1F allocated) (\<lambda>cluster.
     io_bind (io_second (\<lambda>v. fat_zero_cluster io v cluster)) (\<lambda>_.
     io_return cluster)))"

fun fat_extend_walk :: "'d disk_io \<Rightarrow> u16 \<Rightarrow> nat \<Rightarrow> (fat_volume \<times> 'd, u16) io" where
  "fat_extend_walk io cluster 0 = io_return cluster"
| "fat_extend_walk io cluster (Suc n) =
     io_bind (io_gets (\<lambda>s. fat_next_cluster (fst s) cluster)) (\<lambda>following.
     case following of
       Some c \<Rightarrow> fat_extend_walk io c n
     | None \<Rightarrow> io_bind (fat_allocate_zeroed io cluster) (\<lambda>c. fat_extend_walk io c n))"

definition fat_writer_seek :: "'d disk_io \<Rightarrow> u32 \<Rightarrow> (fat_writer \<times> fat_volume \<times> 'd, u16) io" where
  "fat_writer_seek io target =
     io_bind (io_gets fst) (\<lambda>w.
     let (index, cluster) =
           (if 2 \<le> fw_cached_cluster w \<and> fw_cached_index w \<le> target
            then (fw_cached_index w, fw_cached_cluster w) else (0, fw_start_cluster w)) in
     io_bind (io_second (\<lambda>_. fat_extend_walk io cluster (unat target - unat index))) (\<lambda>c.
     io_bind (io_modify (map_prod (\<lambda>w. w\<lparr> fw_cached_index := target, fw_cached_cluster := c \<rparr>) id)) (\<lambda>_.
     io_return c)))"

definition fat_writer_cluster_for_index :: "'d disk_io \<Rightarrow> u32 \<Rightarrow> (fat_writer \<times> fat_volume \<times> 'd, u16) io" where
  "fat_writer_cluster_for_index io target =
     io_bind (io_gets (\<lambda>s. fw_start_cluster (fst s))) (\<lambda>start.
     if start < 2 then
       io_bind (io_second (\<lambda>_. fat_allocate_zeroed io 0)) (\<lambda>first_cluster.
       io_bind (io_modify (map_prod (\<lambda>w. w\<lparr> fw_start_cluster := first_cluster, fw_cached_index := 0,
         fw_cached_cluster := first_cluster \<rparr>) id)) (\<lambda>_.
       if target = 0 then io_return first_cluster else fat_writer_seek io target))
     else fat_writer_seek io target)"

text \<open>
  One round of \<open>write_chunk\<close> with the bytes that are left: a whole cluster is written, a part of
  one is read, patched and written back. It returns the bytes that remain.
\<close>

definition fat_write_part ::
  "'d disk_io \<Rightarrow> u8 list \<Rightarrow> (fat_writer \<times> fat_volume \<times> 'd, u8 list) io" where
  "fat_write_part io bytes =
     io_bind (io_gets (\<lambda>s. (fw_position (fst s), bpb_cluster_size (fv_bpb (fst (snd s)))))) (\<lambda>(pos, cluster_size).
     io_bind (io_expect (checked_div pos cluster_size)) (\<lambda>index.
     io_bind (io_expect (checked_mod pos cluster_size)) (\<lambda>offset32.
     io_bind (fat_writer_cluster_for_index io index) (\<lambda>cluster.
     let offset = unat offset32; n = min (unat cluster_size - offset) (length bytes) in
     io_bind
       (if offset = 0 \<and> n = unat cluster_size
        then io_second (\<lambda>_. io_second (\<lambda>v. fat_write_cluster io v cluster (take n bytes)))
        else
          io_bind (io_second (\<lambda>_. io_second (\<lambda>v. fat_read_cluster io v cluster))) (\<lambda>old.
          io_bind (io_expect (patch_range offset (take n bytes) old)) (\<lambda>patched.
          io_second (\<lambda>_. io_second (\<lambda>v. fat_write_cluster io v cluster patched))))) (\<lambda>_.
     io_bind (io_modify (map_prod (\<lambda>w. w\<lparr> fw_position := fw_position w + of_nat n \<rparr>) id)) (\<lambda>_.
     io_return (drop n bytes)))))))"

partial_function (option) fat_write_loop ::
  "'d disk_io \<Rightarrow> u8 list \<Rightarrow> fat_writer \<times> fat_volume \<times> 'd \<Rightarrow> ((u16 + unit) \<times> (fat_writer \<times> fat_volume \<times> 'd)) option" where
  "fat_write_loop io bytes s =
     (if bytes = [] then Some (Inr (), s)
      else io_bind (fat_write_part io bytes) (\<lambda>rest t. fat_write_loop io rest t) s)"

definition fat_write_chunk :: "'d disk_io \<Rightarrow> u8 list \<Rightarrow> (fat_writer \<times> fat_volume \<times> 'd, unit) io" where
  "fat_write_chunk io bytes s = fat_write_loop io bytes s"

section \<open>Reading a whole chain\<close>

text \<open>\<open>visited\<close> has an element for every data cluster.\<close>

partial_function (option) fat_read_chain_loop ::
  "'d disk_io \<Rightarrow> fat_volume \<Rightarrow> nat \<Rightarrow> u16 \<Rightarrow> bool list \<Rightarrow> u8 list \<Rightarrow> 'd \<Rightarrow> ((u16 + u8 list) \<times> 'd) option" where
  "fat_read_chain_loop io v file_size cluster visited bytes d =
     io_bind (io_expect (list_get visited (unat (cluster - 2)))) (\<lambda>flag d1.
     if flag then io_fail 0x1F d1
     else
       io_bind (fat_read_cluster io v cluster) (\<lambda>cluster_data.
       io_bind (io_gets (\<lambda>_. bytes @ take (min (file_size - length bytes) (length cluster_data)) cluster_data))
         (\<lambda>read d2.
       if length read = file_size then io_return read d2
       else
         io_bind (io_of_result (Some (fat_next_chain_cluster v cluster))) (\<lambda>following.
         io_bind (io_ok_or 0x1F following) (\<lambda>c d3.
         fat_read_chain_loop io v file_size c (visited[unat (cluster - 2) := True]) read d3)) d2)) d1) d"

definition fat_read_chain :: "'d disk_io \<Rightarrow> fat_volume \<Rightarrow> u16 \<Rightarrow> u32 \<Rightarrow> ('d, u8 list) io" where
  "fat_read_chain io v start_cluster file_size d =
     (if file_size = 0 then Some (Inr [], d)
      else if unat (fv_data_cluster_count v) * unat (bpb_cluster_size (fv_bpb v)) < unat file_size \<or>
        \<not> fat_is_data_cluster v start_cluster
      then Some (Inl 0x1F, d)
      else fat_read_chain_loop io v (unat file_size) start_cluster
             (replicate (unat (fv_data_cluster_count v)) False) [] d)"

definition fat_read_all :: "'d disk_io \<Rightarrow> fat_volume \<Rightarrow> dir_entry \<Rightarrow> ('d, u8 list) io" where
  "fat_read_all io v e = fat_read_chain io v (de_start_cluster e) (de_file_size e)"

section \<open>Creating and replacing files\<close>

record file_create_options =
  fo_attributes :: u8
  fo_time :: u16
  fo_date :: u16

text \<open>\<open>if start_cluster >= 2 { vol.free_chain(start_cluster) }\<close>\<close>

definition free_chain_if :: "u16 \<Rightarrow> (fat_volume \<times> 'd, unit) io" where
  "free_chain_if start = (if 2 \<le> start then free_chain_io start else io_return ())"

definition update_file_entry_in_place ::
  "'d disk_io \<Rightarrow> dir_entry \<Rightarrow> file_create_options \<Rightarrow> u16 \<Rightarrow> u32 \<Rightarrow> (fat_volume \<times> 'd, unit) io" where
  "update_file_entry_in_place io existing options start_cluster file_size =
     (let updated = existing\<lparr> de_attribute := fo_attributes options, de_time := fo_time options,
            de_date := fo_date options, de_start_cluster := start_cluster, de_file_size := file_size \<rparr> in
      io_bind (io_attempt (io_second (\<lambda>v. update_entry io v updated))) (\<lambda>r.
      case r of
        Inr _ \<Rightarrow> io_return ()
      | Inl error \<Rightarrow>
          io_bind (free_chain_if start_cluster) (\<lambda>_.
          io_bind (io_attempt (io_second (\<lambda>v. delete_entry io v updated))) (\<lambda>_ :: u16 + unit.
          io_fail error))))"

text \<open>A call on a new writer. It returns the result of the call with the writer.\<close>

definition with_new_writer ::
  "(fat_writer \<times> 's, 'e, 'a) call \<Rightarrow> ('s, 'e, ('e + 'a) \<times> fat_writer) call" where
  "with_new_writer m s = map_option (\<lambda>(r, w, s'). (Inr (r, w), s')) (m (fat_writer_new 0 0, s))"

definition create_or_replace_file ::
  "'d disk_io \<Rightarrow> u16 \<Rightarrow> u8 list \<Rightarrow> u8 list \<Rightarrow> file_create_options \<Rightarrow> (fat_volume \<times> 'd, unit) io" where
  "create_or_replace_file io dir_cluster fcb_name bytes options =
     io_bind (io_second (\<lambda>v. find_entry io v dir_cluster fcb_name)) (\<lambda>existing.
     io_bind
       (case existing of
          None \<Rightarrow> io_return ()
        | Some e \<Rightarrow> if de_attribute e AND 0x10 \<noteq> 0 then io_fail 0x05
                    else free_chain_if (de_start_cluster e)) (\<lambda>_.
     io_bind (with_new_writer (fat_write_chunk io bytes)) (\<lambda>(r, w).
     case r of
       Inl error \<Rightarrow>
         io_bind (free_chain_if (fw_start_cluster w)) (\<lambda>_.
         io_bind (case existing of
             None \<Rightarrow> io_return (Inr ())
           | Some e \<Rightarrow> io_attempt (io_second (\<lambda>v. delete_entry io v e))) (\<lambda>_ :: u16 + unit.
         io_fail error))
     | Inr _ \<Rightarrow>
         (case existing of
            Some e \<Rightarrow> update_file_entry_in_place io e options (fw_start_cluster w) (fw_position w)
          | None \<Rightarrow>
              io_bind (io_attempt (create_entry io dir_cluster
                \<lparr> de_name = fcb_name, de_attribute = fo_attributes options,
                  de_reserved = replicate 10 0, de_time = fo_time options, de_date = fo_date options,
                  de_start_cluster = fw_start_cluster w, de_file_size = fw_position w,
                  de_sector = 0, de_offset = 0 \<rparr>)) (\<lambda>created.
              case created of
                Inr _ \<Rightarrow> io_return ()
              | Inl error \<Rightarrow>
                  io_bind (free_chain_if (fw_start_cluster w)) (\<lambda>_. io_fail error))))))"

end
