(* ===== verification/Fat_Content.thy ===== *)
theory Fat_Content
  imports Fat_Layout Fat_File
begin

text \<open>
  The contents of files on a flat disk: reading a chain, and reading through a cursor. A file of a volume is described by the list of its clusters.
\<close>

section \<open>Reading a chain\<close>

fun fat_linked :: "fat_volume \<Rightarrow> u16 list \<Rightarrow> bool" where
  "fat_linked v [] = True"
| "fat_linked v [c] = True"
| "fat_linked v (c # c' # cs) = (fat_read_entry v c = c' \<and> fat_linked v (c' # cs))"

definition fat_file_clusters :: "fat_volume \<Rightarrow> u16 list \<Rightarrow> bool" where
  "fat_file_clusters v cs \<longleftrightarrow> fat_linked v cs \<and> distinct cs \<and> (\<forall>c\<in>set cs. fat_is_data_cluster v c)"

lemma fat_linked_Cons: "fat_linked v (c # cs) \<longleftrightarrow> (cs = [] \<or> fat_read_entry v c = hd cs \<and> fat_linked v cs)"
  by (cases cs) auto

lemma fat_linked_append:
  "fat_linked v (cs @ [l]) \<longleftrightarrow> fat_linked v cs \<and> (cs = [] \<or> fat_read_entry v (last cs) = l)"
proof (induction cs)
  case (Cons a cs)
  then show ?case by (cases cs) auto
qed simp

lemma fat_linked_cong:
  "(\<And>c. c \<in> set (butlast cs) \<Longrightarrow> fat_read_entry v' c = fat_read_entry v c) \<Longrightarrow> fat_linked v' cs = fat_linked v cs"
proof (induction cs)
  case (Cons a cs)
  then show ?case by (cases cs) auto
qed simp

lemma fat_next_chain_data:
  assumes "fat_numbered v" "fat_read_entry v c = c'" "fat_is_data_cluster v c'"
  shows "fat_next_chain_cluster v c = Inr (Some c')" "fat_next_cluster v c = Some c'"
  using fat_data_cluster_link(1) [OF assms(1,3)] assms(2,3)
  by (auto simp: fat_next_chain_cluster_def Let_def fat_link_def fat_next_cluster_link split: if_splits)

context flat_disk
begin

definition file_bytes :: "fat_volume \<Rightarrow> 'd \<Rightarrow> u16 list \<Rightarrow> u8 list" where
  "file_bytes v d cs = concat (map (cluster_data v d) cs)"

lemma file_bytes_simps [simp]:
  "file_bytes v d [] = []" "file_bytes v d (c # cs) = cluster_data v d c @ file_bytes v d cs"
  "file_bytes v d (cs @ cs') = file_bytes v d cs @ file_bytes v d cs'"
  by (simp_all add: file_bytes_def)

lemma length_file_bytes:
  "\<lbrakk>on_disk v d; \<forall>c\<in>set cs. fat_is_data_cluster v c\<rbrakk> \<Longrightarrow>
   length (file_bytes v d cs) = length cs * fat_cluster_size v"
  by (induction cs) (simp_all add: length_cluster_data)

lemma on_disk_numbered: "on_disk v d \<Longrightarrow> fat_numbered v"
  by (simp add: on_disk_def fat_layout_def)

lemma data_cluster_index:
  assumes "on_disk v d" "fat_is_data_cluster v c"
  shows "unat (c - 2) < unat (fv_data_cluster_count v)" "2 \<le> unat c" "unat (c - 2) = unat c - 2"
proof -
  have c: "2 \<le> unat c" "unat c < unat (fv_data_cluster_count v) + 2"
    using fat_is_data_cluster_iff [OF on_disk_numbered [OF assms(1)]] assms(2)
    by (auto simp: word_le_nat_alt)
  then show "2 \<le> unat c" "unat (c - 2) = unat c - 2"
    by (simp_all add: unat_sub_if' word_le_nat_alt)
  then show "unat (c - 2) < unat (fv_data_cluster_count v)" using c by linarith
qed

lemma read_chain_loop:
  assumes "on_disk v d"
  shows "\<lbrakk>rest \<noteq> []; fat_linked v rest; distinct (pre @ rest); \<forall>c\<in>set (pre @ rest). fat_is_data_cluster v c;
    length visited = unat (fv_data_cluster_count v);
    \<forall>c. fat_is_data_cluster v c \<longrightarrow> (visited ! unat (c - 2) \<longleftrightarrow> c \<in> set pre);
    length pre * fat_cluster_size v < size1; size1 \<le> length (pre @ rest) * fat_cluster_size v\<rbrakk> \<Longrightarrow>
    fat_read_chain_loop io v size1 (hd rest) visited (file_bytes v d pre) d =
      Some (Inr (take size1 (file_bytes v d (pre @ rest))), d)"
proof (induction rest arbitrary: pre visited)
  case (Cons c rest)
  let ?K = "fat_cluster_size v"
  have data: "fat_is_data_cluster v c" using Cons.prems(4) by simp
  have flag: "list_get visited (unat (c - 2)) = Some False"
    using data_cluster_index(1) [OF assms data] Cons.prems(3,5,6) data by (simp add: list_get_def)
  have pre: "length (file_bytes v d pre) = length pre * ?K"
    using Cons.prems(4) by (intro length_file_bytes [OF assms]) simp
  have len: "length (cluster_data v d c) = ?K"
    by (rule length_cluster_data [OF assms data])
  let ?read = "file_bytes v d pre @ take (min (size1 - length pre * ?K) ?K) (cluster_data v d c)"
  have read: "fat_read_cluster io v c d = Some (Inr (cluster_data v d c), d)"
    by (rule read_cluster [OF assms data])
  show ?case
  proof (cases "size1 \<le> length pre * ?K + ?K")
    case True
    then have "length ?read = size1" using pre len Cons.prems(7) by simp
    moreover have "take size1 (file_bytes v d (pre @ c # rest)) = ?read"
      using True pre len Cons.prems(7) by simp
    ultimately show ?thesis
      using flag read pre len
      by (subst fat_read_chain_loop.simps) (simp add: io_defs)
  next
    case False
    have rest: "rest \<noteq> []" using False Cons.prems(8) by (cases rest) auto
    then have entry: "fat_read_entry v c = hd rest" "fat_linked v rest"
      using Cons.prems(2) by (simp_all add: fat_linked_Cons)
    have "fat_is_data_cluster v (hd rest)" using Cons.prems(4) rest by simp
    then have nxt: "fat_next_chain_cluster v c = Inr (Some (hd rest))"
      using fat_next_chain_data(1) [OF on_disk_numbered [OF assms] entry(1)] by simp
    have cat: "?read = file_bytes v d (pre @ [c])"
      using False len by simp
    have more: "length ?read \<noteq> size1"
      using False pre len by simp
    have vis: "\<forall>x. fat_is_data_cluster v x \<longrightarrow> (visited[unat (c - 2) := True] ! unat (x - 2) \<longleftrightarrow> x \<in> set (pre @ [c]))"
    proof (intro allI impI)
      fix x assume x: "fat_is_data_cluster v x"
      have "unat (x - 2) = unat (c - 2) \<longleftrightarrow> x = c"
        using data_cluster_index(2,3) [OF assms data] data_cluster_index(2,3) [OF assms x]
        by (auto simp: word_unat_eq_iff)
      then show "visited[unat (c - 2) := True] ! unat (x - 2) \<longleftrightarrow> x \<in> set (pre @ [c])"
        using Cons.prems(5,6) data_cluster_index(1) [OF assms x] data_cluster_index(1) [OF assms data] x
        by (auto simp: nth_list_update)
    qed
    have "fat_read_chain_loop io v size1 (hd rest) (visited[unat (c - 2) := True]) (file_bytes v d (pre @ [c])) d =
        Some (Inr (take size1 (file_bytes v d ((pre @ [c]) @ rest))), d)"
      using Cons.prems False vis rest entry(2) by (intro Cons.IH) auto
    then show ?thesis
      using flag read pre len more nxt cat
      by (subst fat_read_chain_loop.simps) (simp add: io_defs io_of_result_def)
  qed
qed simp

lemma read_chain:
  assumes "on_disk v d" "fat_file_clusters v cs" "cs \<noteq> []" "0 < unat n" "unat n \<le> length cs * fat_cluster_size v"
  shows "fat_read_chain io v (hd cs) n d = Some (Inr (take (unat n) (file_bytes v d cs)), d)"
proof -
  have data: "\<forall>c\<in>set cs. fat_is_data_cluster v c" and "distinct cs"
    using assms(2) by (simp_all add: fat_file_clusters_def)
  have "card (set cs) \<le> card ((\<lambda>i. i + 2) ` {..<unat (fv_data_cluster_count v)})"
  proof -
    have "unat ` set cs \<subseteq> (\<lambda>i. i + 2) ` {..<unat (fv_data_cluster_count v)}"
    proof
      fix x assume "x \<in> unat ` set cs"
      then obtain c where "c \<in> set cs" "x = unat c" by auto
      then have "x = unat (c - 2) + 2" "unat (c - 2) < unat (fv_data_cluster_count v)"
        using data data_cluster_index [OF assms(1), of c] by auto
      then show "x \<in> (\<lambda>i. i + 2) ` {..<unat (fv_data_cluster_count v)}" by auto
    qed
    moreover have "card (unat ` set cs) = card (set cs)"
      by (intro card_image) (simp add: inj_on_def word_unat_eq_iff)
    ultimately show ?thesis by (metis card_mono finite_imageI finite_lessThan)
  qed
  also have "\<dots> \<le> unat (fv_data_cluster_count v)" by (rule order_trans [OF card_image_le]) simp_all
  finally have "length cs \<le> unat (fv_data_cluster_count v)"
    using \<open>distinct cs\<close> by (simp add: distinct_card)
  then have "length cs * fat_cluster_size v \<le> unat (fv_data_cluster_count v) * fat_cluster_size v"
    by (rule mult_le_mono1)
  then have small: "\<not> unat (fv_data_cluster_count v) * unat (bpb_cluster_size (fv_bpb v)) < unat n"
    using assms(5) unfolding fat_cluster_size_def by linarith
  have hd: "fat_is_data_cluster v (hd cs)" using data assms(3) by simp
  have "n \<noteq> 0" using assms(4) by auto
  have "fat_read_chain_loop io v (unat n) (hd cs) (replicate (unat (fv_data_cluster_count v)) False) (file_bytes v d []) d =
      Some (Inr (take (unat n) (file_bytes v d ([] @ cs))), d)"
    using assms data_cluster_index(1) [OF assms(1)]
    by (intro read_chain_loop) (simp_all add: fat_file_clusters_def)
  then show ?thesis
    using small hd \<open>n \<noteq> 0\<close> by (simp add: fat_read_chain_def)
qed

end

section \<open>Reading through a cursor\<close>

text \<open>
  The read cursor on a flat disk: whatever sizes its reads have, it delivers the bytes of the file
  from its position on, and its cached cluster stays the cluster of the cached index.
\<close>

lemma fat_walk_linked:
  assumes "fat_numbered v" "fat_file_clusters v cs" "i + k < length cs"
  shows "fat_walk v (cs ! i) k = Some (cs ! (i + k))"
  using assms(3)
proof (induction k arbitrary: i)
  case (Suc k)
  have linked: "fat_read_entry v (xs ! j) = xs ! Suc j" if "fat_linked v xs" "Suc j < length xs" for xs j
    using that by (induction xs arbitrary: j rule: fat_linked.induct) (auto simp: nth_Cons split: nat.splits)
  have "fat_read_entry v (cs ! i) = cs ! Suc i"
    using assms(2) Suc.prems by (intro linked) (simp_all add: fat_file_clusters_def)
  moreover have "fat_is_data_cluster v (cs ! Suc i)"
    using assms(2) Suc.prems by (simp add: fat_file_clusters_def)
  ultimately have "fat_next_cluster v (cs ! i) = Some (cs ! Suc i)"
    by (rule fat_next_chain_data(2) [OF assms(1)])
  then show ?case using Suc.IH [of "Suc i"] Suc.prems by simp
qed simp

text \<open>A cursor on the file with clusters \<open>cs\<close> and \<open>n\<close> bytes.\<close>

definition cursor_on :: "fat_cursor \<Rightarrow> u16 list \<Rightarrow> nat \<Rightarrow> bool" where
  "cursor_on cur cs n \<longleftrightarrow> fc_start_cluster cur = hd cs \<and> unat (fc_file_size cur) = n \<and>
     (fc_cached_cluster cur < 2 \<or>
      unat (fc_cached_index cur) < length cs \<and> fc_cached_cluster cur = cs ! unat (fc_cached_index cur))"

lemma cursor_seek:
  assumes "fat_numbered v" "fat_file_clusters v cs" "cursor_on cur cs n" "unat target < length cs"
  obtains cur' where "fat_cursor_cluster_for_index v target cur = (Inr (cs ! unat target), cur')"
    "cursor_on cur' cs n" "fc_position cur' = fc_position cur"
proof -
  have cs: "cs \<noteq> []" using assms(4) by auto
  have start: "fc_start_cluster cur = cs ! 0" "\<not> fc_start_cluster cur < 2"
    using assms(2,3) cs by (auto simp: cursor_on_def hd_conv_nth fat_file_clusters_def fat_is_data_cluster_def not_less)
  show ?thesis
  proof (cases "target = 0")
    case True
    let ?cur = "cur\<lparr> fc_cached_index := 0, fc_cached_cluster := fc_start_cluster cur \<rparr>"
    show ?thesis
    proof (rule that [of ?cur])
      show "fat_cursor_cluster_for_index v target cur = (Inr (cs ! unat target), ?cur)"
        using True start by (simp add: fat_cursor_cluster_for_index_def)
      show "cursor_on ?cur cs n" using assms(3) cs start by (simp add: cursor_on_def)
    qed simp
  next
    case False
    let ?cur = "cur\<lparr> fc_cached_index := target, fc_cached_cluster := cs ! unat target \<rparr>"
    have "fat_cursor_cluster_for_index v target cur = (Inr (cs ! unat target), ?cur)"
    proof (cases "2 \<le> fc_cached_cluster cur \<and> fc_cached_index cur \<le> target")
      case True
      then have "fc_cached_cluster cur = cs ! unat (fc_cached_index cur)"
        "unat (fc_cached_index cur) \<le> unat target"
        using assms(3) by (auto simp: cursor_on_def word_le_nat_alt word_less_nat_alt)
      then show ?thesis
        using True False start fat_walk_linked [OF assms(1,2), of "unat (fc_cached_index cur)" "unat target - unat (fc_cached_index cur)"] assms(4)
        by (simp add: fat_cursor_cluster_for_index_def)
    next
      case other: False
      then show ?thesis
        using False start fat_walk_linked [OF assms(1,2), of 0 "unat target"] assms(4)
        unfolding fat_cursor_cluster_for_index_def if_not_P [OF other] by simp
    qed
    moreover have "cursor_on ?cur cs n" using assms(3,4) by (simp add: cursor_on_def)
    ultimately show ?thesis using that by simp
  qed
qed

text \<open>A file read in chunks of given lengths.\<close>

primrec fat_read_chunks ::
  "'d disk_io \<Rightarrow> fat_volume \<Rightarrow> nat list \<Rightarrow> (fat_cursor \<times> 'd, u8 list list) io" where
  "fat_read_chunks io v [] = io_return []"
| "fat_read_chunks io v (k # ks) =
     io_bind (fat_cursor_read_chunk io v k) (\<lambda>bytes.
     io_bind (fat_read_chunks io v ks) (\<lambda>rest.
     io_return (bytes # rest)))"

text \<open>The slices of lengths \<open>ks\<close> of a string of bytes.\<close>

primrec slices :: "nat list \<Rightarrow> 'a list \<Rightarrow> 'a list list" where
  "slices [] xs = []"
| "slices (k # ks) xs = take k xs # slices ks (drop k xs)"

lemma concat_slices: "concat (slices ks xs) = take (sum_list ks) xs"
  by (induction ks arbitrary: xs) (simp_all add: take_add)

context flat_disk
begin

lemma slice_of_file:
  assumes "on_disk v d" "\<forall>c\<in>set cs. fat_is_data_cluster v c" "i < length cs" "j + m \<le> fat_cluster_size v"
  shows "take m (drop j (cluster_data v d (cs ! i))) =
    take m (drop (i * fat_cluster_size v + j) (file_bytes v d cs))"
  using assms(2,3)
proof (induction cs arbitrary: i)
  case (Cons c cs)
  have len: "length (cluster_data v d c) = fat_cluster_size v"
    using Cons.prems(1) by (intro length_cluster_data [OF assms(1)]) simp
  show ?case
  proof (cases i)
    case 0
    then show ?thesis using len assms(4) by simp
  next
    case (Suc i')
    then show ?thesis using Cons.IH [of i'] Cons.prems len by (simp add: add.assoc)
  qed
qed simp

lemma cursor_loop:
  assumes "on_disk v d" "fat_file_clusters v cs" "n \<le> length cs * fat_cluster_size v"
  shows "\<lbrakk>cursor_on cur cs n; unat (fc_position cur) + (unat wanted - length bytes) \<le> n;
    length bytes \<le> unat wanted\<rbrakk> \<Longrightarrow>
   \<exists>cur'. fat_cursor_loop io v wanted bytes (cur, d) =
       Some (Inr (bytes @ take (unat wanted - length bytes) (drop (unat (fc_position cur)) (file_bytes v d cs))), (cur', d)) \<and>
     cursor_on cur' cs n \<and> unat (fc_position cur') = unat (fc_position cur) + (unat wanted - length bytes)"
proof (induction "unat wanted - length bytes" arbitrary: bytes cur rule: less_induct)
  case less
  let ?K = "fat_cluster_size v" and ?S = "bpb_cluster_size (fv_bpb v)" and ?p = "unat (fc_position cur)"
  show ?case
  proof (cases "unat wanted \<le> length bytes")
    case True
    then show ?thesis
      using less.prems(1) by (subst fat_cursor_loop.simps) simp
  next
    case False
    have K: "0 < ?K" using assms(1) fat_cluster_size_pos by (auto simp: on_disk_def)
    then have S: "?S \<noteq> 0" "unat ?S = ?K" by (auto simp: fat_cluster_size_def)
    have idx: "unat (fc_position cur div ?S) = ?p div ?K" and off: "unat (fc_position cur mod ?S) = ?p mod ?K"
      using S(2) by (simp_all add: unat_div_distrib unat_mod_distrib)
    define rest where "rest = unat wanted - length bytes"
    have rest: "0 < rest" "?p + rest \<le> n" using False less.prems(2) by (simp_all add: rest_def)
    define m where "m = min (?K - ?p mod ?K) rest"
    have m: "0 < m" "m \<le> rest" "?p mod ?K + m \<le> ?K"
      using rest mod_less_divisor [OF K, of ?p] by (auto simp: m_def)
    have "?p < length cs * ?K" using rest assms(3) by linarith
    then have inside: "?p div ?K < length cs" by (simp add: less_mult_imp_div_less)
    obtain cur1 where seek: "fat_cursor_cluster_for_index v (fc_position cur div ?S) cur = (Inr (cs ! (?p div ?K)), cur1)"
      and cur1: "cursor_on cur1 cs n" "fc_position cur1 = fc_position cur"
      using cursor_seek [OF on_disk_numbered [OF assms(1)] assms(2) less.prems(1)] idx inside by metis
    have data: "fat_is_data_cluster v (cs ! (?p div ?K))"
      using assms(2) inside by (simp add: fat_file_clusters_def)
    have read: "fat_read_cluster io v (cs ! (?p div ?K)) d = Some (Inr (cluster_data v d (cs ! (?p div ?K))), d)"
      by (rule read_cluster [OF assms(1) data])
    have len: "length (cluster_data v d (cs ! (?p div ?K))) = ?K"
      by (rule length_cluster_data [OF assms(1) data])
    have avail: "unat (min (?S - fc_position cur mod ?S) (wanted - of_nat (length bytes))) = m"
    proof -
      have "unat (?S - fc_position cur mod ?S) = ?K - ?p mod ?K"
        using S(2) off mod_less_divisor [OF K, of ?p] by (simp add: unat_sub_if')
      moreover have "unat (of_nat (length bytes) :: u32) = length bytes"
        using False unsigned_less [of wanted, where ?'a = nat]
        by (simp add: unsigned_of_nat take_bit_nat_eq_self)
      then have "unat (wanted - of_nat (length bytes)) = rest"
        using False by (simp add: unat_sub_if' rest_def)
      ultimately show ?thesis by (auto simp: min_def word_le_nat_alt m_def)
    qed
    let ?part = "take m (drop (?p mod ?K) (cluster_data v d (cs ! (?p div ?K))))"
    have part: "slice_range (?p mod ?K) (?p mod ?K + m) (cluster_data v d (cs ! (?p div ?K))) = Some ?part"
      using m len by (simp add: slice_range_def)
    have slice: "?part = take m (drop ?p (file_bytes v d cs))"
      using slice_of_file [OF assms(1) _ inside m(3)] assms(2) by (simp add: fat_file_clusters_def)
    let ?avail = "min (?S - fc_position cur mod ?S) (wanted - of_nat (length bytes))"
    let ?cur = "cur1\<lparr> fc_position := fc_position cur1 + ?avail \<rparr>"
    have step: "fat_cursor_loop io v wanted bytes (cur, d) = fat_cursor_loop io v wanted (bytes @ ?part) (?cur, d)"
      using False S off seek read avail part cur1(2)
      by (subst fat_cursor_loop.simps) (simp add: io_defs checked_div_def checked_mod_def io_cursor_def)
    have "?p + m < 2 ^ 32"
      using m(2) rest(2) less.prems(1) unsigned_less [of "fc_file_size cur", where ?'a = nat]
      by (simp add: cursor_on_def)
    then have pos: "unat (fc_position ?cur) = ?p + m"
      using avail cur1(2) by (simp add: unat_word_ariths)
    have "length ?part = m" using m(3) len by simp
    then have len': "length (bytes @ ?part) = length bytes + m" by simp
    have left: "unat wanted - length (bytes @ ?part) = rest - m" using len' by (simp add: rest_def)
    obtain cur' where loop: "fat_cursor_loop io v wanted (bytes @ ?part) (?cur, d) =
        Some (Inr ((bytes @ ?part) @ take (rest - m) (drop (?p + m) (file_bytes v d cs))), (cur', d))"
      and cur': "cursor_on cur' cs n" "unat (fc_position cur') = ?p + m + (rest - m)"
    proof -
      have "cursor_on ?cur cs n" using cur1(1) by (simp add: cursor_on_def)
      moreover have "unat wanted - length (bytes @ ?part) < unat wanted - length bytes"
        unfolding left using m(1,2) by (simp add: rest_def)
      moreover have "unat (fc_position ?cur) + (unat wanted - length (bytes @ ?part)) \<le> n"
        unfolding left pos using m(2) rest(2) by simp
      moreover have "length (bytes @ ?part) \<le> unat wanted"
        unfolding len' using m(2) False by (simp add: rest_def)
      ultimately have "\<exists>cur'. fat_cursor_loop io v wanted (bytes @ ?part) (?cur, d) =
          Some (Inr ((bytes @ ?part) @ take (rest - m) (drop (?p + m) (file_bytes v d cs))), (cur', d)) \<and>
          cursor_on cur' cs n \<and> unat (fc_position cur') = ?p + m + (rest - m)"
        using less.hyps [of "bytes @ ?part" ?cur] unfolding left pos by blast
      then show ?thesis using that by blast
    qed
    have "take m (drop ?p (file_bytes v d cs)) @ take (rest - m) (drop (?p + m) (file_bytes v d cs)) =
        take rest (drop ?p (file_bytes v d cs))"
      using m(2) take_add [of m "rest - m" "drop ?p (file_bytes v d cs)"] by (simp add: add.commute)
    then have "(bytes @ ?part) @ take (rest - m) (drop (?p + m) (file_bytes v d cs)) =
        bytes @ take rest (drop ?p (file_bytes v d cs))"
      by (simp add: slice)
    then show ?thesis
      using step loop cur' m(2) by (auto simp: rest_def [symmetric])
  qed
qed

text \<open>A read delivers the bytes from the position on, at most as many as asked for and left.\<close>

lemma cursor_read_chunk:
  assumes "on_disk v d" "fat_file_clusters v cs" "cs \<noteq> [] \<or> n = 0" "n \<le> length cs * fat_cluster_size v"
    and "cursor_on cur cs n" "unat (fc_position cur) \<le> n" "k < 2 ^ 32"
  shows "\<exists>cur'. fat_cursor_read_chunk io v k (cur, d) =
      Some (Inr (take k (drop (unat (fc_position cur)) (take n (file_bytes v d cs)))), (cur', d)) \<and>
    cursor_on cur' cs n \<and> unat (fc_position cur') = min (unat (fc_position cur) + k) n"
proof -
  let ?p = "unat (fc_position cur)"
  have size1: "unat (fc_file_size cur) = n" using assms(5) by (simp add: cursor_on_def)
  show ?thesis
  proof (cases "n \<le> ?p \<or> k = 0")
    case True
    then show ?thesis
      using assms(5,6) size1
      by (intro exI [of _ cur]) (auto simp: fat_cursor_read_chunk_def word_le_nat_alt Let_def)
  next
    case False
    then have cs: "cs \<noteq> []" using assms(3) by auto
    have start: "\<not> fc_start_cluster cur < 2"
      using assms(2,5) cs by (auto simp: cursor_on_def fat_file_clusters_def fat_is_data_cluster_def not_less)
    let ?wanted = "min (of_nat k) (fat_cursor_remaining cur)"
    have "unat (fat_cursor_remaining cur) = n - ?p"
      using False size1 by (simp add: fat_cursor_remaining_def saturating_sub_def word_less_nat_alt unat_sub_if')
    moreover have "unat (of_nat k :: u32) = k"
      using assms(7) by (simp add: unsigned_of_nat take_bit_nat_eq_self)
    ultimately have wanted: "unat ?wanted = min k (n - ?p)"
      by (auto simp: min_def word_le_nat_alt)
    have le: "?p + min k (n - ?p) \<le> n" using assms(6) by linarith
    obtain cur' where loop: "fat_cursor_loop io v ?wanted [] (cur, d) =
        Some (Inr (take (min k (n - ?p)) (drop ?p (file_bytes v d cs))), (cur', d))"
      and cur': "cursor_on cur' cs n" "unat (fc_position cur') = ?p + min k (n - ?p)"
      using cursor_loop [OF assms(1,2,4,5), of ?wanted "[]"] le unfolding wanted by auto
    have "take k (drop ?p (take n (file_bytes v d cs))) = take (min k (n - ?p)) (drop ?p (file_bytes v d cs))"
      by (simp add: drop_take)
    then show ?thesis
      using loop cur' False start size1
      by (intro exI [of _ cur']) (auto simp: fat_cursor_read_chunk_def word_le_nat_alt Let_def)
  qed
qed

lemma cursor_read_chunks:
  "\<lbrakk>on_disk v d; fat_file_clusters v cs; cs \<noteq> [] \<or> n = 0; n \<le> length cs * fat_cluster_size v;
    cursor_on cur cs n; unat (fc_position cur) \<le> n; \<forall>k\<in>set ks. k < 2 ^ 32\<rbrakk> \<Longrightarrow>
   \<exists>cur'. fat_read_chunks io v ks (cur, d) =
     Some (Inr (slices ks (drop (unat (fc_position cur)) (take n (file_bytes v d cs)))), (cur', d))"
proof (induction ks arbitrary: cur)
  case Nil
  then show ?case by (simp add: io_return_def)
next
  case (Cons k ks)
  let ?p = "unat (fc_position cur)"
  obtain cur1 where
    first: "fat_cursor_read_chunk io v k (cur, d) =
      Some (Inr (take k (drop ?p (take n (file_bytes v d cs)))), (cur1, d))"
    and cur1: "cursor_on cur1 cs n" "unat (fc_position cur1) = min (?p + k) n"
    using cursor_read_chunk [OF Cons.prems(1-6), of k] Cons.prems(7) by auto
  have rest: "drop (min (?p + k) n) (take n (file_bytes v d cs)) = drop k (drop ?p (take n (file_bytes v d cs)))"
    by (auto simp: min_def add.commute)
  obtain cur2 where "fat_read_chunks io v ks (cur1, d) =
      Some (Inr (slices ks (drop (min (?p + k) n) (take n (file_bytes v d cs)))), (cur2, d))"
    using Cons.IH [OF Cons.prems(1-4) cur1(1)] cur1(2) Cons.prems(7) by auto
  then show ?case
    using first unfolding rest by (simp add: io_bind_def io_return_def)
qed

end

end
