(* ===== verification/Fat_Writer.thy ===== *)
theory Fat_Writer
  imports Fat_Content
begin

text \<open>
  The writer of a new file on a flat disk: it takes free clusters, links them in order and stores
  the bytes in them, and it changes no other entry of the FAT and no other byte of the disk.
\<close>

section \<open>What a change of the FAT keeps\<close>

definition fat_same :: "fat_volume \<Rightarrow> fat_volume \<Rightarrow> bool" where
  "fat_same v v' \<longleftrightarrow>
     v' = v\<lparr> fv_fat_cache := fv_fat_cache v', fv_fat_dirty := fv_fat_dirty v' \<rparr> \<and>
     length (fv_fat_cache v') = length (fv_fat_cache v)"

lemma fat_sameD:
  assumes "fat_same v v'"
  shows "fv_bpb v' = fv_bpb v" "fv_device_id v' = fv_device_id v"
    "fv_partition_offset v' = fv_partition_offset v" "fv_first_root_sector v' = fv_first_root_sector v"
    "fv_first_data_sector v' = fv_first_data_sector v" "fv_data_cluster_count v' = fv_data_cluster_count v"
    "fv_is_fat16 v' = fv_is_fat16 v" "fv_sector_ratio v' = fv_sector_ratio v"
    "fv_human68k v' = fv_human68k v" "length (fv_fat_cache v') = length (fv_fat_cache v)"
proof -
  obtain cache dirty where v': "v' = v\<lparr> fv_fat_cache := cache, fv_fat_dirty := dirty \<rparr>"
    and len: "length cache = length (fv_fat_cache v)"
  proof (rule that [of "fv_fat_dirty v'" "fv_fat_cache v'"])
    show "v' = v\<lparr> fv_fat_cache := fv_fat_cache v', fv_fat_dirty := fv_fat_dirty v' \<rparr>"
      using assms unfolding fat_same_def by (rule conjunct1)
    show "length (fv_fat_cache v') = length (fv_fat_cache v)"
      using assms unfolding fat_same_def by (rule conjunct2)
  qed
  then show "fv_bpb v' = fv_bpb v" "fv_device_id v' = fv_device_id v"
    "fv_partition_offset v' = fv_partition_offset v" "fv_first_root_sector v' = fv_first_root_sector v"
    "fv_first_data_sector v' = fv_first_data_sector v" "fv_data_cluster_count v' = fv_data_cluster_count v"
    "fv_is_fat16 v' = fv_is_fat16 v" "fv_sector_ratio v' = fv_sector_ratio v"
    "fv_human68k v' = fv_human68k v" "length (fv_fat_cache v') = length (fv_fat_cache v)"
    by simp_all
qed

lemma fat_same_refl [simp]: "fat_same v v"
  by (simp add: fat_same_def)

lemma fat_sameI:
  "\<lbrakk>fv_bpb v' = fv_bpb v; fv_device_id v' = fv_device_id v; fv_partition_offset v' = fv_partition_offset v;
    fv_first_root_sector v' = fv_first_root_sector v; fv_first_data_sector v' = fv_first_data_sector v;
    fv_data_cluster_count v' = fv_data_cluster_count v; fv_is_fat16 v' = fv_is_fat16 v;
    fv_sector_ratio v' = fv_sector_ratio v; fv_human68k v' = fv_human68k v;
    length (fv_fat_cache v') = length (fv_fat_cache v)\<rbrakk> \<Longrightarrow> fat_same v v'"
  by (simp add: fat_same_def)

lemma fat_same_trans: "\<lbrakk>fat_same a b; fat_same b c\<rbrakk> \<Longrightarrow> fat_same a c"
  by (rule fat_sameI) (simp_all add: fat_sameD [of b c] fat_sameD [of a b])

lemma fat_same_allocate: "fat_allocate_cluster after v = (r, v') \<Longrightarrow> fat_same v v'"
  by (rule fat_sameI) (simp_all add: fat_allocate_fields)

lemma fat_same_derived:
  assumes "fat_same v v'"
  shows "fat_cluster_size v' = fat_cluster_size v" "fat_cluster_start n v' c = fat_cluster_start n v c"
    "fat_is_data_cluster v' c = fat_is_data_cluster v c" "fat_layout n len v' = fat_layout n len v"
    "fat_slot v' c = fat_slot v c" "fat_marker v' = fat_marker v" "fat_link v' x = fat_link v x"
    "fat_numbered v' = fat_numbered v"
  using fat_sameD [OF assms]
  by (simp_all add: fat_cluster_size_def fat_cluster_start_def fat_data_start_def fat_is_data_cluster_def
      fat_layout_def fat_numbered_def fat_slot_def fat_offset_def fat_marker_def fat_link_def fat_end_of_chain_def)

lemma fat_marker_not_0 [simp]: "fat_marker v \<noteq> 0"
  by (simp add: fat_marker_def)

section \<open>Allocation of a zeroed cluster\<close>

text \<open>A file written in several chunks.\<close>

primrec fat_write_chunks ::
  "'d disk_io \<Rightarrow> u8 list list \<Rightarrow> (fat_writer \<times> fat_volume \<times> 'd, unit) io" where
  "fat_write_chunks io [] = io_return ()"
| "fat_write_chunks io (bytes # chunks) = io_bind (fat_write_chunk io bytes) (\<lambda>_. fat_write_chunks io chunks)"

context flat_disk
begin

lemma cluster_data_same: "fat_same v v' \<Longrightarrow> cluster_data v' = cluster_data v"
  by (auto simp: cluster_data_def fun_eq_iff fat_same_derived)

lemma file_bytes_same: "fat_same v v' \<Longrightarrow> file_bytes v' = file_bytes v"
  by (auto simp: file_bytes_def fun_eq_iff cluster_data_same)

lemma on_disk_same: "fat_same v v' \<Longrightarrow> on_disk v' d = on_disk v d"
  by (simp add: on_disk_def fat_same_derived fat_sameD)

definition cluster_range :: "fat_volume \<Rightarrow> u16 \<Rightarrow> nat set" where
  "cluster_range v c = {fat_cluster_start sector v c ..< fat_cluster_start sector v c + fat_cluster_size v}"

lemma allocate_zeroed:
  assumes "on_disk v d" "fat_free_set v \<noteq> {}" "2 \<le> after \<Longrightarrow> fat_read_entry v after \<noteq> 0"
  obtains c v' d' where "fat_allocate_zeroed io after (v, d) = Some (Inr c, (v', d'))"
    "c \<in> fat_free_set v" "fat_same v v'" "on_disk v' d'" "length (contents d') = length (contents d)"
    "\<And>x. fat_read_entry v' x = (if x = c then fat_marker v
      else if x = after \<and> 2 \<le> after \<and> fat_slot v after then c else fat_read_entry v x)"
    "cluster_data v d' c = replicate (fat_cluster_size v) 0"
    "\<And>x. fat_is_data_cluster v x \<Longrightarrow> x \<noteq> c \<Longrightarrow> cluster_data v d' x = cluster_data v d x"
    "\<And>p. p < length (contents d) \<Longrightarrow> p \<notin> cluster_range v c \<Longrightarrow> contents d' ! p = contents d ! p"
proof -
  note num = on_disk_numbered [OF assms(1)]
  obtain r v' where alloc: "fat_allocate_cluster after v = (r, v')" by (cases "fat_allocate_cluster after v")
  have "r \<noteq> None"
    using alloc assms(2) fat_allocate_None [of after v v'] fat_candidates_data [OF num]
    by (auto simp: fat_free_set_def)
  then obtain c where c: "r = Some c" by auto
  note alloc = alloc [unfolded c]
  have free: "c \<in> fat_free_set v"
    using fat_allocate_Some(1,2) [OF alloc] fat_candidates_data [OF num] by (simp add: fat_free_set_def)
  then have data: "fat_is_data_cluster v c" by (simp add: fat_free_set_def)
  have same: "fat_same v v'" using alloc by (rule fat_same_allocate)
  obtain d' where d': "fat_write_cluster io v' c (replicate (fat_cluster_size v) 0) d = Some (Inr (), d')"
    "on_disk v' d'" "contents d' = copy_into (fat_cluster_start sector v' c) (replicate (fat_cluster_size v) 0) (contents d)"
    "cluster_data v' d' c = replicate (fat_cluster_size v) 0"
    "\<And>x. \<lbrakk>fat_is_data_cluster v' x; x \<noteq> c\<rbrakk> \<Longrightarrow> cluster_data v' d' x = cluster_data v' d x"
    using write_cluster [of v' d c "replicate (fat_cluster_size v) 0"] assms(1) data same
    by (auto simp: fat_same_derived on_disk_same)
  have within: "fat_cluster_start sector v c + length (replicate (fat_cluster_size v) (0 :: u8)) \<le> length (contents d)"
    using fat_cluster_on_disk(1) [of sector "length (contents d)" v c] assms(1) data by (simp add: on_disk_def)
  show ?thesis
  proof (rule that)
    show "fat_allocate_zeroed io after (v, d) = Some (Inr c, (v', d'))"
      using alloc d'(1) same
      by (simp add: fat_allocate_zeroed_def fat_zero_cluster_def io_defs io_first_def fat_cluster_size_def fat_sameD)
    show "c \<in> fat_free_set v" "fat_same v v'" "on_disk v' d'" by fact+
    show "length (contents d') = length (contents d)"
      using within by (simp add: d'(3) fat_same_derived [OF same])
    show "fat_read_entry v' x = (if x = c then fat_marker v
      else if x = after \<and> 2 \<le> after \<and> fat_slot v after then c else fat_read_entry v x)" for x
      using fat_allocate_entries [OF num alloc assms(3)] by simp
    show "cluster_data v d' c = replicate (fat_cluster_size v) 0"
      using d'(4) cluster_data_same [OF same] by simp
    show "cluster_data v d' x = cluster_data v d x" if "fat_is_data_cluster v x" "x \<noteq> c" for x
      using d'(5) [of x] cluster_data_same [OF same] that by (simp add: fat_same_derived [OF same])
    show "contents d' ! p = contents d ! p" if "p < length (contents d)" "p \<notin> cluster_range v c" for p
      using that nth_copy_into [OF within that(1)]
      by (auto simp: d'(3) fat_same_derived [OF same] cluster_range_def)
  qed
qed

section \<open>The file under construction\<close>

text \<open>
  The clusters \<open>cs\<close> were free and are now one file; everything else is as it was. This holds from
  the start (\<open>cs = []\<close>) through every write.
\<close>

definition grown :: "fat_volume \<Rightarrow> 'd \<Rightarrow> fat_volume \<Rightarrow> 'd \<Rightarrow> u16 list \<Rightarrow> bool" where
  "grown v0 d0 v d cs \<longleftrightarrow>
     on_disk v d \<and> fat_same v0 v \<and> length (contents d) = length (contents d0) \<and>
     fat_file_clusters v cs \<and> set cs \<subseteq> fat_free_set v0 \<and>
     (cs \<noteq> [] \<longrightarrow> fat_read_entry v (last cs) = fat_marker v) \<and>
     (\<forall>x. x \<notin> set cs \<longrightarrow> fat_read_entry v x = fat_read_entry v0 x) \<and>
     (\<forall>p<length (contents d0). p \<notin> (\<Union>c\<in>set cs. cluster_range v0 c) \<longrightarrow> contents d ! p = contents d0 ! p)"

lemma grown_start: "on_disk v d \<Longrightarrow> grown v d v d []"
  by (simp add: grown_def fat_file_clusters_def)

lemma grown_on_disk: "grown v0 d0 v d cs \<Longrightarrow> on_disk v d"
  by (simp add: grown_def)

lemma grown_same: "grown v0 d0 v d cs \<Longrightarrow> fat_same v0 v"
  by (simp add: grown_def)

lemma grown_data: "\<lbrakk>grown v0 d0 v d cs; c \<in> set cs\<rbrakk> \<Longrightarrow> fat_is_data_cluster v c"
  by (simp add: grown_def fat_file_clusters_def)

lemma grown_entry_nonzero:
  assumes "grown v0 d0 v d cs" "c \<in> set cs"
  shows "fat_read_entry v c \<noteq> 0"
proof -
  have files: "fat_linked v cs" "\<forall>c\<in>set cs. fat_is_data_cluster v c"
    and last: "fat_read_entry v (last cs) = fat_marker v"
    using assms by (auto simp: grown_def fat_file_clusters_def)
  have "fat_read_entry v c \<noteq> 0" if "fat_linked v xs" "set xs \<subseteq> set cs" "xs \<noteq> []" "last xs = last cs" "c \<in> set xs" for xs
    using that
  proof (induction xs)
    case (Cons a xs)
    show ?case
    proof (cases "xs = []")
      case True
      then show ?thesis using Cons.prems last by auto
    next
      case False
      then have "fat_read_entry v a = hd xs" "fat_linked v xs"
        using Cons.prems(1) by (simp_all add: fat_linked_Cons)
      moreover have "fat_is_data_cluster v (hd xs)" using files(2) Cons.prems(2) hd_in_set [OF False] by auto
      then have "hd xs \<noteq> 0" by (auto simp: fat_is_data_cluster_def)
      ultimately show ?thesis
        using Cons False by auto
    qed
  qed simp
  from this [of cs] files(1) assms(2) show ?thesis by (cases cs) auto
qed

lemma grown_free_set:
  assumes "grown v0 d0 v d cs"
  shows "fat_free_set v = fat_free_set v0 - set cs"
proof -
  have entry: "x \<notin> set cs \<Longrightarrow> fat_read_entry v x = fat_read_entry v0 x" for x
    using assms by (simp add: grown_def)
  have "x \<in> fat_free_set v \<longleftrightarrow> x \<in> fat_free_set v0 - set cs" for x
    using grown_entry_nonzero [OF assms, of x] entry [of x] fat_same_derived(3) [OF grown_same [OF assms], of x]
    by (cases "x \<in> set cs") (simp_all add: fat_free_set_def)
  then show ?thesis by blast
qed

lemma grown_slot:
  assumes "grown v0 d0 v d cs" "c \<in> set cs"
  shows "fat_slot v c"
proof -
  have "fat_read_entry v0 c = 0" using assms by (auto simp: grown_def fat_free_set_def)
  then show ?thesis
    using fat_read_0_slot fat_same_derived(5) [OF grown_same [OF assms(1)]] by blast
qed

lemma grown_chain_end:
  "\<lbrakk>grown v0 d0 v d cs; cs \<noteq> []\<rbrakk> \<Longrightarrow> fat_next_cluster v (last cs) = None"
  by (simp add: grown_def fat_next_cluster_link)

text \<open>Taking one more cluster.\<close>

lemma grown_allocate:
  assumes "grown v0 d0 v d cs" "length cs < card (fat_free_set v0)"
  obtains c v' d' where
    "fat_allocate_zeroed io (if cs = [] then 0 else last cs) (v, d) = Some (Inr c, (v', d'))"
    "grown v0 d0 v' d' (cs @ [c])"
    "file_bytes v' d' (cs @ [c]) = file_bytes v d cs @ replicate (fat_cluster_size v) 0"
proof -
  let ?after = "if cs = [] then 0 else last cs"
  have same: "fat_same v0 v" by (rule grown_same [OF assms(1)])
  have "card (set cs) < card (fat_free_set v0)"
    using assms by (simp add: grown_def fat_file_clusters_def distinct_card)
  then have "fat_free_set v0 - set cs \<noteq> {}"
    by (metis Diff_eq_empty_iff card_mono finite not_le)
  then have free: "fat_free_set v \<noteq> {}" by (simp add: grown_free_set [OF assms(1)])
  have "2 \<le> ?after \<Longrightarrow> fat_read_entry v ?after \<noteq> 0"
    using grown_entry_nonzero [OF assms(1)] by (cases "cs = []") auto
  then obtain c v' d' where alloc: "fat_allocate_zeroed io ?after (v, d) = Some (Inr c, (v', d'))"
    and c: "c \<in> fat_free_set v" and same': "fat_same v v'" and disk: "on_disk v' d'"
    and len: "length (contents d') = length (contents d)"
    and entries: "\<And>x. fat_read_entry v' x = (if x = c then fat_marker v
      else if x = ?after \<and> 2 \<le> ?after \<and> fat_slot v ?after then c else fat_read_entry v x)"
    and zero: "cluster_data v d' c = replicate (fat_cluster_size v) 0"
    and others: "\<And>x. fat_is_data_cluster v x \<Longrightarrow> x \<noteq> c \<Longrightarrow> cluster_data v d' x = cluster_data v d x"
    and bytes: "\<And>p. p < length (contents d) \<Longrightarrow> p \<notin> cluster_range v c \<Longrightarrow> contents d' ! p = contents d ! p"
    using allocate_zeroed [OF grown_on_disk [OF assms(1)] free] by blast
  have fresh: "c \<notin> set cs" "c \<in> fat_free_set v0" "fat_is_data_cluster v c"
    using c grown_free_set [OF assms(1)] by (auto simp: fat_free_set_def)
  have lst: "cs \<noteq> [] \<Longrightarrow> 2 \<le> last cs \<and> fat_slot v (last cs)"
    using grown_slot [OF assms(1)] grown_data [OF assms(1), of "last cs"] by (simp add: fat_is_data_cluster_def)
  show ?thesis
  proof (rule that [OF alloc])
    have files: "fat_linked v cs" "distinct cs" "\<forall>c\<in>set cs. fat_is_data_cluster v c"
      using assms(1) by (simp_all add: grown_def fat_file_clusters_def)
    have but: "x \<noteq> last cs" if "x \<in> set (butlast cs)" for x
      using that files(2) by (metis append_butlast_last_id butlast.simps(1) distinct_butlast empty_iff
        in_set_butlastD list.set(1) not_distinct_conv_prefix)
    have "fat_linked v' cs = fat_linked v cs"
    proof (rule fat_linked_cong)
      fix x assume "x \<in> set (butlast cs)"
      then show "fat_read_entry v' x = fat_read_entry v x"
        using but [of x] fresh(1) by (auto simp: entries dest: in_set_butlastD)
    qed
    then have linked: "fat_linked v' cs" using files(1) by simp
    have "fat_linked v' (cs @ [c])"
      unfolding fat_linked_append using linked lst fresh(1) by (auto simp: entries)
    then have clusters: "fat_file_clusters v' (cs @ [c])"
      using files fresh by (auto simp: fat_file_clusters_def fat_same_derived [OF same'])
    have "contents d' ! p = contents d0 ! p"
      if "p < length (contents d0)" "p \<notin> (\<Union>c\<in>set (cs @ [c]). cluster_range v0 c)" for p
      using that assms(1) bytes [of p]
      by (simp add: grown_def cluster_range_def fat_same_derived [OF same])
    moreover have "fat_read_entry v' x = fat_read_entry v0 x" if "x \<notin> set (cs @ [c])" for x
      using that assms(1) lst by (auto simp: grown_def entries)
    ultimately show "grown v0 d0 v' d' (cs @ [c])"
      using disk fat_same_trans [OF same same'] len assms(1) clusters fresh(2)
      by (simp add: grown_def entries fat_same_derived [OF same'])
    have "map (cluster_data v d') cs = map (cluster_data v d) cs"
      using files(3) fresh(1) others by auto
    then have "concat (map (cluster_data v d') cs) = concat (map (cluster_data v d) cs)"
      by (rule arg_cong)
    then show "file_bytes v' d' (cs @ [c]) = file_bytes v d cs @ replicate (fat_cluster_size v) 0"
      by (simp add: file_bytes_same [OF same'] file_bytes_def zero)
  qed
qed

section \<open>The writer\<close>

text \<open>A writer that has written \<open>n\<close> bytes to the clusters \<open>cs\<close> and stands on the last of them.\<close>

definition writer_at :: "fat_writer \<Rightarrow> u16 list \<Rightarrow> nat \<Rightarrow> bool" where
  "writer_at w cs n \<longleftrightarrow> unat (fw_position w) = n \<and>
     (if cs = [] then fw_start_cluster w = 0 \<and> fw_cached_cluster w = 0
      else fw_start_cluster w = hd cs \<and> fw_cached_cluster w = last cs \<and>
           unat (fw_cached_index w) = length cs - 1)"

lemma clusters_bound:
  assumes "grown v0 d0 v d cs"
  shows "length cs < 65536"
proof -
  have "distinct cs" using assms by (simp add: grown_def fat_file_clusters_def)
  then have "length cs = card (set cs)" by (simp add: distinct_card)
  also have "\<dots> \<le> card (UNIV - {0 :: u16})"
  proof (rule card_mono)
    have "0 \<notin> set cs"
      using grown_data [OF assms, of 0] by (auto simp: fat_is_data_cluster_def)
    then show "set cs \<subseteq> UNIV - {0}" by auto
  qed simp
  also have "\<dots> < 65536" by (simp add: card_Diff_singleton card_word)
  finally show ?thesis .
qed

lemma writer_seek_stay:
  assumes "grown v0 d0 v d cs" "cs \<noteq> []" "writer_at w cs n" "unat target = length cs - 1"
  shows "fat_writer_cluster_for_index io target (w, v, d) = Some (Inr (last cs), (w, v, d))"
proof -
  have "\<not> hd cs < 2" "2 \<le> last cs"
    using grown_data [OF assms(1)] assms(2) by (simp_all add: fat_is_data_cluster_def not_less)
  moreover have "fw_cached_index w = target"
    using assms by (simp add: writer_at_def word_unat_eq_iff)
  ultimately show ?thesis
    using assms(2,3)
    by (simp add: fat_writer_cluster_for_index_def fat_writer_seek_def io_defs writer_at_def)
qed

lemma writer_seek_first:
  assumes "grown v0 d0 v d []" "writer_at w [] n" "0 < card (fat_free_set v0)"
  obtains c w1 v1 d1 where
    "fat_writer_cluster_for_index io 0 (w, v, d) = Some (Inr c, (w1, v1, d1))"
    "grown v0 d0 v1 d1 [c]" "writer_at w1 [c] n"
    "file_bytes v1 d1 [c] = replicate (fat_cluster_size v) 0"
proof -
  obtain c v1 d1 where c: "fat_allocate_zeroed io 0 (v, d) = Some (Inr c, (v1, d1))"
    "grown v0 d0 v1 d1 [c]" "file_bytes v1 d1 [c] = replicate (fat_cluster_size v) 0"
    using grown_allocate [OF assms(1)] assms(3) by auto
  let ?w = "w\<lparr> fw_start_cluster := c, fw_cached_index := 0, fw_cached_cluster := c \<rparr>"
  show ?thesis
  proof (rule that [of c ?w])
    show "fat_writer_cluster_for_index io 0 (w, v, d) = Some (Inr c, (?w, v1, d1))"
      using assms(2) c(1) by (simp add: fat_writer_cluster_for_index_def io_defs writer_at_def)
    show "writer_at ?w [c] n" using assms(2) by (simp add: writer_at_def)
  qed fact+
qed

lemma writer_seek_next:
  assumes "grown v0 d0 v d cs" "cs \<noteq> []" "writer_at w cs n" "unat target = length cs"
    and "length cs < card (fat_free_set v0)"
  obtains c w1 v1 d1 where
    "fat_writer_cluster_for_index io target (w, v, d) = Some (Inr c, (w1, v1, d1))"
    "grown v0 d0 v1 d1 (cs @ [c])" "writer_at w1 (cs @ [c]) n"
    "file_bytes v1 d1 (cs @ [c]) = file_bytes v d cs @ replicate (fat_cluster_size v) 0"
proof -
  obtain c v1 d1 where c: "fat_allocate_zeroed io (last cs) (v, d) = Some (Inr c, (v1, d1))"
    "grown v0 d0 v1 d1 (cs @ [c])"
    "file_bytes v1 d1 (cs @ [c]) = file_bytes v d cs @ replicate (fat_cluster_size v) 0"
    using grown_allocate [OF assms(1,5)] assms(2) by auto
  have ge: "\<not> hd cs < 2" "2 \<le> last cs"
    using grown_data [OF assms(1)] assms(2) by (simp_all add: fat_is_data_cluster_def not_less)
  have steps: "fw_cached_index w \<le> target" "unat target - unat (fw_cached_index w) = Suc 0"
    using assms(2-4) by (cases cs; simp add: writer_at_def word_le_nat_alt)+
  have "fat_extend_walk io (last cs) (Suc 0) (v, d) = Some (Inr c, (v1, d1))"
    using c(1) grown_chain_end [OF assms(1,2)] by (simp add: io_defs)
  then have "fat_writer_cluster_for_index io target (w, v, d) =
      Some (Inr c, (w\<lparr> fw_cached_index := target, fw_cached_cluster := c \<rparr>, v1, d1))"
    using ge steps assms(2,3)
    by (simp add: fat_writer_cluster_for_index_def fat_writer_seek_def io_defs writer_at_def
        del: fat_extend_walk.simps)
  moreover have "writer_at (w\<lparr> fw_cached_index := target, fw_cached_cluster := c \<rparr>) (cs @ [c]) n"
    using assms(2-4) by (simp add: writer_at_def)
  ultimately show ?thesis using that c(2,3) by blast
qed

text \<open>
  The seek before the byte number \<open>n\<close>: the writer stands on the cluster of that byte, a new one if
  the clusters so far are full.
\<close>

lemma writer_seek:
  assumes "grown v0 d0 v d cs" "writer_at w cs n" "length bytes = n"
    and "take n (file_bytes v d cs) = bytes"
    and "(length cs - 1) * fat_cluster_size v \<le> n" "n \<le> length cs * fat_cluster_size v"
    and "n < card (fat_free_set v0) * fat_cluster_size v"
    and "unat target = n div fat_cluster_size v"
  obtains c w1 v1 d1 pre where
    "fat_writer_cluster_for_index io target (w, v, d) = Some (Inr c, (w1, v1, d1))"
    "grown v0 d0 v1 d1 (pre @ [c])" "writer_at w1 (pre @ [c]) n"
    "take n (file_bytes v1 d1 (pre @ [c])) = bytes" "length pre = n div fat_cluster_size v"
proof -
  let ?K = "fat_cluster_size v"
  have K: "0 < ?K" using grown_on_disk [OF assms(1)] fat_cluster_size_pos by (auto simp: on_disk_def)
  consider "cs = []" | "cs \<noteq> []" "n = length cs * ?K" | "cs \<noteq> []" "n < length cs * ?K"
    using assms(6) by linarith
  then show ?thesis
  proof cases
    case 1
    then have n: "n = 0" using assms(6) by simp
    then have "target = 0" using assms(8) by (simp add: unat_eq_zero)
    have "0 < card (fat_free_set v0)" using assms(7) n by (cases "card (fat_free_set v0)") auto
    then obtain c w1 v1 d1 where
      "fat_writer_cluster_for_index io 0 (w, v, d) = Some (Inr c, (w1, v1, d1))"
      "grown v0 d0 v1 d1 [c]" "writer_at w1 [c] n"
      using writer_seek_first assms(1,2) 1 by metis
    then show ?thesis
      using that [of c w1 v1 d1 "[]"] \<open>target = 0\<close> n assms(3) by simp
  next
    case 2
    then have t: "unat target = length cs" using assms(8) K by simp
    have "length cs < card (fat_free_set v0)" using assms(7) 2(2) K by simp
    then obtain c w1 v1 d1 where c:
      "fat_writer_cluster_for_index io target (w, v, d) = Some (Inr c, (w1, v1, d1))"
      "grown v0 d0 v1 d1 (cs @ [c])" "writer_at w1 (cs @ [c]) n"
      "file_bytes v1 d1 (cs @ [c]) = file_bytes v d cs @ replicate ?K 0"
      using writer_seek_next [OF assms(1) 2(1) assms(2) t] by metis
    have "length (file_bytes v d cs) = n"
      using length_file_bytes [OF grown_on_disk [OF assms(1)]] grown_data [OF assms(1)] 2(2) by simp
    then have "take n (file_bytes v1 d1 (cs @ [c])) = bytes"
      using c(4) assms(4) by simp
    moreover have "length cs = n div ?K" using 2(2) K by simp
    ultimately show ?thesis by (rule that [OF c(1-3)])
  next
    case 3
    have "n div ?K < length cs" using 3(2) by (simp add: less_mult_imp_div_less)
    moreover have "length cs - 1 \<le> n div ?K"
      using assms(5) K by (metis div_le_mono nonzero_mult_div_cancel_right not_gr0)
    ultimately have t: "n div ?K = length cs - 1" by linarith
    have "fat_writer_cluster_for_index io target (w, v, d) = Some (Inr (last cs), (w, v, d))"
      using assms(8) t by (intro writer_seek_stay [OF assms(1) 3(1) assms(2)]) simp
    then show ?thesis
      using that [of "last cs" w v d "butlast cs"] assms 3(1) t by simp
  qed
qed

lemma grown_write_cluster:
  assumes "grown v0 d0 v d (pre @ [c])" "length bytes = fat_cluster_size v"
  obtains d' where "fat_write_cluster io v c bytes d = Some (Inr (), d')"
    "grown v0 d0 v d' (pre @ [c])" "file_bytes v d' (pre @ [c]) = file_bytes v d pre @ bytes"
proof -
  have data: "fat_is_data_cluster v c" by (rule grown_data [OF assms(1)]) simp
  have disk: "on_disk v d" by (rule grown_on_disk [OF assms(1)])
  obtain d' where d': "fat_write_cluster io v c bytes d = Some (Inr (), d')" "on_disk v d'"
    "contents d' = copy_into (fat_cluster_start sector v c) bytes (contents d)"
    "cluster_data v d' c = bytes"
    "\<And>x. \<lbrakk>fat_is_data_cluster v x; x \<noteq> c\<rbrakk> \<Longrightarrow> cluster_data v d' x = cluster_data v d x"
    using write_cluster [OF disk data assms(2)] by metis
  have within: "fat_cluster_start sector v c + length bytes \<le> length (contents d)"
    using fat_cluster_on_disk(1) [of sector "length (contents d)" v c] disk data assms(2)
    by (simp add: on_disk_def)
  have same: "fat_same v0 v" by (rule grown_same [OF assms(1)])
  have "contents d' ! p = contents d0 ! p"
    if "p < length (contents d0)" "p \<notin> (\<Union>c\<in>set (pre @ [c]). cluster_range v0 c)" for p
  proof -
    have "p < length (contents d)" "contents d ! p = contents d0 ! p"
      using that assms(1) by (auto simp: grown_def)
    moreover have "\<not> (fat_cluster_start sector v c \<le> p \<and> p < fat_cluster_start sector v c + length bytes)"
      using that(2) assms(2) by (auto simp: cluster_range_def fat_same_derived [OF same])
    ultimately show ?thesis
      using nth_copy_into [OF within] by (auto simp: d'(3))
  qed
  then have grown: "grown v0 d0 v d' (pre @ [c])"
    using assms(1) d'(2,3) within by (simp add: grown_def)
  have "c \<notin> set pre" using assms(1) by (simp add: grown_def fat_file_clusters_def)
  then have "map (cluster_data v d') pre = map (cluster_data v d) pre"
    using d'(5) grown_data [OF assms(1)] by auto
  then have "concat (map (cluster_data v d') pre) = concat (map (cluster_data v d) pre)"
    by (rule arg_cong)
  then have "file_bytes v d' (pre @ [c]) = file_bytes v d pre @ bytes"
    by (simp add: file_bytes_def d'(4))
  then show ?thesis using that d'(1) grown by blast
qed

lemma write_part:
  assumes "grown v0 d0 v d cs" "writer_at w cs n" "length before = n"
    and "take n (file_bytes v d cs) = before"
    and "(length cs - 1) * fat_cluster_size v \<le> n" "n \<le> length cs * fat_cluster_size v"
    and "bytes \<noteq> []" "n + length bytes \<le> card (fat_free_set v0) * fat_cluster_size v"
    and "n + length bytes < 2 ^ 32"
  obtains k w1 v1 d1 cs1 where
    "fat_write_part io bytes (w, v, d) = Some (Inr (drop k bytes), (w1, v1, d1))"
    "0 < k" "k \<le> length bytes" "grown v0 d0 v1 d1 cs1" "writer_at w1 cs1 (n + k)" "cs1 \<noteq> []"
    "take (n + k) (file_bytes v1 d1 cs1) = before @ take k bytes"
    "(length cs1 - 1) * fat_cluster_size v < n + k" "n + k \<le> length cs1 * fat_cluster_size v"
proof -
  let ?K = "fat_cluster_size v" and ?S = "bpb_cluster_size (fv_bpb v)" and ?p = "fw_position w"
  have K: "0 < ?K" using grown_on_disk [OF assms(1)] fat_cluster_size_pos by (auto simp: on_disk_def)
  then have S: "?S \<noteq> 0" "unat ?S = ?K" by (auto simp: fat_cluster_size_def)
  have p: "unat ?p = n" using assms(2) by (simp add: writer_at_def)
  have idx: "unat (?p div ?S) = n div ?K" and off: "unat (?p mod ?S) = n mod ?K"
    using p S(2) by (simp_all add: unat_div_distrib unat_mod_distrib)
  define k where "k = min (?K - n mod ?K) (length bytes)"
  have k: "0 < k" "k \<le> length bytes" "n mod ?K + k \<le> ?K"
    using assms(7) mod_less_divisor [OF K, of n] by (auto simp: k_def)
  have "n < card (fat_free_set v0) * ?K" using assms(7,8) by (cases bytes) auto
  then obtain c w1 v1 d1 pre where
    seek: "fat_writer_cluster_for_index io (?p div ?S) (w, v, d) = Some (Inr c, (w1, v1, d1))"
    and grown1: "grown v0 d0 v1 d1 (pre @ [c])" and at1: "writer_at w1 (pre @ [c]) n"
    and before: "take n (file_bytes v1 d1 (pre @ [c])) = before" and pre: "length pre = n div ?K"
    using writer_seek [OF assms(1-6) _ idx] by metis
  have K1: "fat_cluster_size v1 = ?K"
    using fat_same_derived(1) grown_same [OF grown1] grown_same [OF assms(1)] by metis
  have data: "fat_is_data_cluster v1 c" by (rule grown_data [OF grown1]) simp
  have old: "length (cluster_data v1 d1 c) = ?K"
    using length_cluster_data [OF grown_on_disk [OF grown1] data] K1 by simp
  let ?X = "copy_into (n mod ?K) (take k bytes) (cluster_data v1 d1 c)"
  have X: "length ?X = fat_cluster_size v1" using old k K1 by simp
  obtain d2 where d2: "fat_write_cluster io v1 c ?X d1 = Some (Inr (), d2)"
    "grown v0 d0 v1 d2 (pre @ [c])" "file_bytes v1 d2 (pre @ [c]) = file_bytes v1 d1 pre @ ?X"
    using grown_write_cluster [OF grown1 X] by metis
  have read: "fat_read_cluster io v1 c d1 = Some (Inr (cluster_data v1 d1 c), d1)"
    by (rule read_cluster [OF grown_on_disk [OF grown1] data])
  let ?w = "w1\<lparr> fw_position := fw_position w1 + of_nat k \<rparr>"
  have whole: "n mod ?K = 0 \<Longrightarrow> k = ?K \<Longrightarrow> ?X = take k bytes"
    using old k(2) by (simp add: copy_into_def)
  have patch: "patch_range (n mod ?K) (take k bytes) (cluster_data v1 d1 c) = Some ?X"
    using k old by (simp add: patch_range_def)
  have part: "fat_write_part io bytes (w, v, d) = Some (Inr (drop k bytes), (?w, v1, d2))"
  proof (cases "n mod ?K = 0 \<and> k = ?K")
    case True
    then have "fat_write_cluster io v1 c (take k bytes) d1 = Some (Inr (), d2)"
      using d2(1) whole by simp
    moreover have k0: "min ?K (length bytes) = k" using True by (simp add: k_def)
    ultimately show ?thesis
      using True seek S off k0
      unfolding fat_write_part_def
      by (simp add: io_defs checked_div_def checked_mod_def Let_def k_def [symmetric])
  next
    case False
    show ?thesis
    proof (cases "n mod ?K = 0")
      case True
      have "min ?K (length bytes) = k" "k \<noteq> ?K" using True False by (simp_all add: k_def)
      then show ?thesis
        using True seek S off read patch d2(1)
        unfolding fat_write_part_def
        by (simp add: io_defs checked_div_def checked_mod_def Let_def)
    next
      case inner: False
      then show ?thesis
        using seek S off read patch d2(1)
        unfolding fat_write_part_def
        by (simp add: io_defs checked_div_def checked_mod_def Let_def k_def [symmetric])
    qed
  qed
  have pre_len: "length (file_bytes v1 d1 pre) = length pre * ?K"
    using length_file_bytes [OF grown_on_disk [OF grown1], of pre] grown_data [OF grown1] K1 by simp
  define q where "q = n mod ?K"
  have n: "n = length pre * ?K + q" using pre by (simp add: q_def)
  have b: "before = file_bytes v1 d1 pre @ take q (cluster_data v1 d1 c)"
    using before unfolding n by (simp add: pre_len)
  have "take (n + k) (file_bytes v1 d2 (pre @ [c])) = file_bytes v1 d1 pre @ take (q + k) ?X"
    unfolding n d2(3) by (simp add: pre_len)
  also have "take (q + k) ?X = take q (cluster_data v1 d1 c) @ take k bytes"
    unfolding q_def [symmetric] using k old by (simp add: copy_into_def q_def [symmetric])
  finally have content: "take (n + k) (file_bytes v1 d2 (pre @ [c])) = before @ take k bytes"
    using b by simp
  have "unat (fw_position w1) = n" using at1 by (simp add: writer_at_def)
  then have "unat (fw_position ?w) = n + k"
    using k(2) assms(9) by (simp add: unat_word_ariths unsigned_of_nat take_bit_nat_eq_self)
  then have at: "writer_at ?w (pre @ [c]) (n + k)" using at1 by (simp add: writer_at_def)
  show ?thesis
  proof (rule that [OF part k(1,2) d2(2) at _ content])
    show "(length (pre @ [c]) - 1) * ?K < n + k" unfolding n using k(1) by simp
    show "n + k \<le> length (pre @ [c]) * ?K" unfolding n using k(3) by (simp add: q_def)
  qed simp
qed

section \<open>Writing any number of chunks\<close>

text \<open>The bytes \<open>before\<close> are written to the clusters \<open>cs\<close>, as few as hold them.\<close>

definition written ::
  "fat_volume \<Rightarrow> 'd \<Rightarrow> fat_writer \<Rightarrow> fat_volume \<Rightarrow> 'd \<Rightarrow> u16 list \<Rightarrow> u8 list \<Rightarrow> bool" where
  "written v0 d0 w v d cs before \<longleftrightarrow>
     grown v0 d0 v d cs \<and> writer_at w cs (length before) \<and>
     take (length before) (file_bytes v d cs) = before \<and>
     length before \<le> length cs * fat_cluster_size v \<and>
     (cs \<noteq> [] \<longrightarrow> (length cs - 1) * fat_cluster_size v < length before)"

lemma written_start:
  assumes "on_disk v d"
  shows "written v d (fat_writer_new 0 0) v d [] []"
  using grown_start [OF assms] by (simp add: written_def writer_at_def fat_writer_new_def)

lemma write_loop:
  "\<lbrakk>written v0 d0 w v d cs before;
    length before + length bytes \<le> card (fat_free_set v0) * fat_cluster_size v0;
    length before + length bytes < 2 ^ 32\<rbrakk> \<Longrightarrow>
   \<exists>w1 v1 d1 cs1. fat_write_loop io bytes (w, v, d) = Some (Inr (), (w1, v1, d1)) \<and>
     written v0 d0 w1 v1 d1 cs1 (before @ bytes)"
proof (induction "length bytes" arbitrary: bytes w v d cs before rule: less_induct)
  case less
  show ?case
  proof (cases "bytes = []")
    case True
    then show ?thesis
      using less.prems(1) by (subst fat_write_loop.simps) auto
  next
    case False
    have grown: "grown v0 d0 v d cs" and at: "writer_at w cs (length before)"
      and content: "take (length before) (file_bytes v d cs) = before"
      and upper: "length before \<le> length cs * fat_cluster_size v"
      and lower: "(length cs - 1) * fat_cluster_size v \<le> length before"
      using less.prems(1) by (cases "cs = []"; auto simp: written_def)+
    have K: "fat_cluster_size v = fat_cluster_size v0"
      by (rule fat_same_derived(1) [OF grown_same [OF grown]])
    obtain k w1 v1 d1 cs1 where
      part: "fat_write_part io bytes (w, v, d) = Some (Inr (drop k bytes), (w1, v1, d1))"
      and k: "0 < k" "k \<le> length bytes" and grown1: "grown v0 d0 v1 d1 cs1"
      and at1: "writer_at w1 cs1 (length before + k)" and ne: "cs1 \<noteq> []"
      and content1: "take (length before + k) (file_bytes v1 d1 cs1) = before @ take k bytes"
      and bounds: "(length cs1 - 1) * fat_cluster_size v < length before + k"
        "length before + k \<le> length cs1 * fat_cluster_size v"
      using write_part [OF grown at refl content lower upper False] less.prems(2,3) K by metis
    have K1: "fat_cluster_size v1 = fat_cluster_size v"
      using fat_same_derived(1) [OF grown_same [OF grown1]] K by simp
    have w1: "written v0 d0 w1 v1 d1 cs1 (before @ take k bytes)"
      using grown1 at1 content1 bounds k(2) by (simp add: written_def K1)
    have "\<exists>w2 v2 d2 cs2. fat_write_loop io (drop k bytes) (w1, v1, d1) = Some (Inr (), (w2, v2, d2)) \<and>
        written v0 d0 w2 v2 d2 cs2 ((before @ take k bytes) @ drop k bytes)"
      using less.prems(2,3) k by (intro less.hyps [OF _ w1]) simp_all
    then show ?thesis
      using part False by (subst fat_write_loop.simps) (simp add: io_defs)
  qed
qed

lemma write_chunks:
  "\<lbrakk>written v0 d0 w v d cs before;
    length before + length (concat chunks) \<le> card (fat_free_set v0) * fat_cluster_size v0;
    length before + length (concat chunks) < 2 ^ 32\<rbrakk> \<Longrightarrow>
   \<exists>w1 v1 d1 cs1. fat_write_chunks io chunks (w, v, d) = Some (Inr (), (w1, v1, d1)) \<and>
     written v0 d0 w1 v1 d1 cs1 (before @ concat chunks)"
proof (induction chunks arbitrary: w v d cs before)
  case Nil
  then show ?case by (auto simp: io_return_def)
next
  case (Cons bytes chunks)
  obtain w1 v1 d1 cs1 where
    first: "fat_write_loop io bytes (w, v, d) = Some (Inr (), (w1, v1, d1))"
      "written v0 d0 w1 v1 d1 cs1 (before @ bytes)"
    using write_loop [OF Cons.prems(1), of bytes] Cons.prems(2,3) by auto
  have "\<exists>w2 v2 d2 cs2. fat_write_chunks io chunks (w1, v1, d1) = Some (Inr (), (w2, v2, d2)) \<and>
      written v0 d0 w2 v2 d2 cs2 ((before @ bytes) @ concat chunks)"
    using Cons.prems(2,3) by (intro Cons.IH [OF first(2)]) simp_all
  then show ?case
    using first(1) by (simp add: fat_write_chunk_def io_bind_def)
qed

text \<open>A written file reads back.\<close>

lemma written_reads:
  assumes "written v0 d0 w v d cs bytes" "bytes \<noteq> []" "length bytes < 2 ^ 32"
  shows "fat_read_chain io v (fw_start_cluster w) (fw_position w) d = Some (Inr bytes, d)"
proof -
  have cs: "cs \<noteq> []" using assms(1,2) by (auto simp: written_def)
  have grown: "grown v0 d0 v d cs" and start: "fw_start_cluster w = hd cs"
    and pos: "unat (fw_position w) = length bytes"
    and content: "take (length bytes) (file_bytes v d cs) = bytes"
    and len: "length bytes \<le> length cs * fat_cluster_size v"
    using assms(1) cs by (simp_all add: written_def writer_at_def)
  have "fat_read_chain io v (hd cs) (fw_position w) d =
      Some (Inr (take (unat (fw_position w)) (file_bytes v d cs)), d)"
    using grown cs len pos assms(2)
    by (intro read_chain) (simp_all add: grown_def)
  then show ?thesis using start pos content by simp
qed

text \<open>Everything but the clusters of the file is as before.\<close>

lemma written_frame:
  assumes "written v0 d0 w v d cs bytes"
  shows "fat_same v0 v" "set cs \<subseteq> fat_free_set v0" "distinct cs"
    "length (contents d) = length (contents d0)" "good d"
    "fat_free_set v = fat_free_set v0 - set cs"
    "\<And>x. x \<notin> set cs \<Longrightarrow> fat_read_entry v x = fat_read_entry v0 x"
    "\<And>p. \<lbrakk>p < length (contents d0); \<forall>c\<in>set cs. p \<notin> cluster_range v0 c\<rbrakk> \<Longrightarrow> contents d ! p = contents d0 ! p"
proof -
  have grown: "grown v0 d0 v d cs" using assms by (simp add: written_def)
  show "fat_free_set v = fat_free_set v0 - set cs" by (rule grown_free_set [OF grown])
  show "good d" using grown_on_disk [OF grown] by (simp add: on_disk_def)
  show "fat_same v0 v" "set cs \<subseteq> fat_free_set v0" "distinct cs"
    "length (contents d) = length (contents d0)"
    "\<And>x. x \<notin> set cs \<Longrightarrow> fat_read_entry v x = fat_read_entry v0 x"
    "\<And>p. \<lbrakk>p < length (contents d0); \<forall>c\<in>set cs. p \<notin> cluster_range v0 c\<rbrakk> \<Longrightarrow> contents d ! p = contents d0 ! p"
    using grown by (simp_all add: grown_def fat_file_clusters_def)
qed

end

end
