(* ===== verification/Fat_Names.thy ===== *)
theory Fat_Names
  imports Fat_Dir
begin

text \<open>
  Directory entries as bytes and names in their stored and displayed forms: an entry is read back as
  it was stored, and what \<open>name_to_fcb\<close> makes of a displayed name.
\<close>

section \<open>Trimmed fields\<close>

lemma trim_spaces_Nil [simp]: "trim_spaces [] = []"
  by (simp add: trim_spaces_def)

lemma trim_spaces_snoc:
  "trim_spaces (bs @ [b]) = (if b = 0x20 then trim_spaces bs else bs @ [b])"
  by (simp add: trim_spaces_def)

lemma trim_spaces_pad: "bs = trim_spaces bs @ replicate (length bs - length (trim_spaces bs)) 0x20"
proof (induction bs rule: rev_induct)
  case (snoc b bs)
  have "length (trim_spaces bs) \<le> length bs"
    by (simp add: trim_spaces_def) (metis length_dropWhile_le length_rev)
  then have "replicate (Suc (length bs) - length (trim_spaces bs)) (0x20 :: u8) =
      replicate (length bs - length (trim_spaces bs)) 0x20 @ [0x20]"
    by (simp add: Suc_diff_le replicate_append_same)
  then show ?case
    using snoc by (simp add: trim_spaces_snoc)
qed simp

lemma length_trim_spaces: "length (trim_spaces bs) \<le> length bs"
  by (metis trim_spaces_pad length_append le_add1)

lemma pad_trim_spaces: "pad_field (length bs) (trim_spaces bs) = bs"
  using trim_spaces_pad [of bs] by (simp add: pad_field_def)

lemma trim_spaces_Cons: "b \<noteq> 0x20 \<Longrightarrow> trim_spaces (b # bs) = b # trim_spaces bs"
  by (induction bs rule: rev_induct) (simp_all add: trim_spaces_snoc flip: append_Cons, simp add: trim_spaces_def)

lemma valid_bytes_set: "is_valid_fcb_bytes bs \<Longrightarrow> \<forall>b\<in>set bs. 0x20 < b \<and> b \<noteq> 0x2E \<and> b \<noteq> 0x2A"
proof (induction bs rule: is_valid_fcb_bytes.induct)
  case (2 b bs)
  show ?case
  proof (cases "is_shift_jis_lead_byte b")
    case True
    then obtain t rest where "bs = t # rest" "is_shift_jis_trail_byte t" "is_valid_fcb_bytes rest" "\<not> b \<le> 0x20"
      "\<not> is_invalid_ascii_name_byte b"
      using 2(3) by (auto split: if_splits list.splits)
    moreover from this have "0x20 < t \<and> t \<noteq> 0x2E \<and> t \<noteq> 0x2A"
      by (auto simp: is_shift_jis_trail_byte_def word_le_nat_alt word_less_nat_alt)
    moreover have "\<forall>b\<in>set rest. 0x20 < b \<and> b \<noteq> 0x2E \<and> b \<noteq> 0x2A"
      using 2(1) True calculation by auto
    ultimately show ?thesis by (auto simp: not_le is_invalid_ascii_name_byte_def)
  next
    case False
    then have "is_valid_fcb_bytes bs" "\<not> b \<le> 0x20" "\<not> is_invalid_ascii_name_byte b"
      using "2.prems" by (auto split: if_splits)
    moreover from this have "\<forall>b\<in>set bs. 0x20 < b \<and> b \<noteq> 0x2E \<and> b \<noteq> 0x2A"
      using "2.IH"(2) "2.prems" False by (simp split: if_splits)
    moreover have "b \<noteq> 0x2E \<and> b \<noteq> 0x2A"
      using calculation(3) by (auto simp: is_invalid_ascii_name_byte_def)
    ultimately show ?thesis by (simp add: not_le)
  qed
qed simp

lemma valid_name_first:
  assumes "is_valid_entry_name name continuation"
  shows "length name = 11" "0x20 < name ! 0"
proof -
  show len: "length name = 11" using assms by (auto simp: is_valid_entry_name_def split: if_splits)
  show "0x20 < name ! 0"
  proof (cases "name = dot_name \<or> name = dotdot_name")
    case True
    then show ?thesis by (auto simp: dot_name_def dotdot_name_def)
  next
    case False
    obtain b bs where name: "name = b # bs" using len by (cases name) auto
    have "b \<noteq> 0x20" "is_valid_fcb_field (take 8 name @ continuation)"
      using assms False by (auto simp: is_valid_entry_name_def name split: if_splits)
    then have "is_valid_fcb_bytes (b # trim_spaces (take 7 bs @ continuation))"
      by (simp add: is_valid_fcb_field_def name trim_spaces_Cons)
    then show ?thesis using valid_bytes_set by (fastforce simp: name)
  qed
qed

section \<open>Entries\<close>

lemma valid_name_not_escape:
  "is_valid_fcb_name name \<or> human68k \<and> is_valid_human68k_name name reserved \<Longrightarrow> 0x20 < name ! 0"
  using valid_name_first by (auto simp: is_valid_fcb_name_def is_valid_human68k_name_def)

text \<open>A name that starts with 05 is stored as if it started with E5.\<close>

lemma parse_dir_entry_to_bytes:
  assumes "length (de_name e) = 11" "length (de_reserved e) = 10"
    and "de_attribute e AND 0xC0 = 0" "de_attribute e \<noteq> 0x0F" "de_name e ! 0 \<noteq> 0x05"
  shows "parse_entry (dir_entry_to_bytes e) (de_sector e) (de_offset e) human68k =
      (if is_valid_fcb_name (de_name e) \<or> human68k \<and> is_valid_human68k_name (de_name e) (de_reserved e)
       then Some e else None)"
    and "length (dir_entry_to_bytes e) = 32"
proof -
  obtain b bs where name: "de_name e = b # bs" "length bs = 10"
    using assms(1) by (cases "de_name e") auto
  let ?b = "if b = 0xE5 then 0x05 else b"
  let ?tail = "de_reserved e @ u16_to_le_bytes (de_time e) @ u16_to_le_bytes (de_date e) @
    u16_to_le_bytes (de_start_cluster e) @ u32_to_le_bytes (de_file_size e)"
  have bytes: "dir_entry_to_bytes e = ?b # bs @ de_attribute e # ?tail"
    by (simp add: dir_entry_to_bytes_def name(1))
  show len: "length (dir_entry_to_bytes e) = 32"
    by (simp add: bytes name(2) assms(2))
  have b: "b \<noteq> 0x05" using assms(5) by (simp add: name(1))
  have name': "(if ?b = 0x05 then (take 11 (dir_entry_to_bytes e))[0 := 0xE5] else take 11 (dir_entry_to_bytes e)) = de_name e"
    using b by (simp add: bytes name)
  have at: "dir_entry_to_bytes e ! 0 = ?b" "dir_entry_to_bytes e ! 11 = de_attribute e"
    "take 10 (drop 12 (dir_entry_to_bytes e)) = de_reserved e"
    "u16_at 22 (dir_entry_to_bytes e) = de_time e" "u16_at 24 (dir_entry_to_bytes e) = de_date e"
    "u16_at 26 (dir_entry_to_bytes e) = de_start_cluster e" "u32_at 28 (dir_entry_to_bytes e) = de_file_size e"
    by (simp_all add: bytes nth_Cons' nth_append name(2) assms(2) u16_at_def u32_at_def u16_to_le_bytes_def
        u32_to_le_bytes_def)
  show "parse_entry (dir_entry_to_bytes e) (de_sector e) (de_offset e) human68k =
      (if is_valid_fcb_name (de_name e) \<or> human68k \<and> is_valid_human68k_name (de_name e) (de_reserved e)
       then Some e else None)"
  proof (cases "b = 0")
    case True
    then show ?thesis
      using valid_name_not_escape [of "de_name e" human68k "de_reserved e"]
      by (auto simp: parse_entry_def at name(1))
  next
    case False
    then show ?thesis
      using assms(3,4) b unfolding parse_entry_def Let_def at name' by (simp add: len)
  qed
qed

section \<open>Names\<close>

text \<open>Copying a field that fits and has no special byte, before a dot or the end.\<close>

lemma fcb_copy_field:
  assumes "length bs \<le> n" "\<forall>b\<in>set bs. b \<noteq> 0x2E \<and> b \<noteq> 0x2A" "rest = [] \<or> stop_at_dot \<and> hd rest = 0x2E"
  shows "fcb_copy stop_at_dot n (bs @ rest) = (bs, rest)"
  using assms
proof (induction bs arbitrary: n)
  case Nil
  then show ?case by (cases n; cases rest) auto
next
  case (Cons b bs)
  then obtain m where "n = Suc m" by (cases n) auto
  then show ?case using Cons by simp
qed

lemma upper_special: "to_ascii_uppercase b = 0x2E \<longleftrightarrow> b = 0x2E" "to_ascii_uppercase b = 0x2A \<longleftrightarrow> b = 0x2A"
  "to_ascii_uppercase b = 0x20 \<longleftrightarrow> b = 0x20"
  by (auto simp: to_ascii_uppercase_def diff_eq_eq)

lemma map_upper_pad: "map to_ascii_uppercase (pad_field n bs) = pad_field n (map to_ascii_uppercase bs)"
  by (simp add: pad_field_def map_replicate to_ascii_uppercase_def)

lemma name_to_fcb_display:
  assumes "is_valid_fcb_name fcb" "fcb \<noteq> dot_name" "fcb \<noteq> dotdot_name"
  shows "name_to_fcb (fcb_to_display_name fcb) = map to_ascii_uppercase fcb"
proof -
  let ?base = "trim_spaces (take 8 fcb)" and ?ext = "trim_spaces (drop 8 fcb)"
  let ?up = "map to_ascii_uppercase"
  have len: "length fcb = 11" using assms(1) valid_name_first(1) by (auto simp: is_valid_fcb_name_def)
  have valid: "is_valid_fcb_bytes ?base" "is_valid_fcb_bytes ?ext" "fcb ! 0 \<noteq> 0x20"
    using assms by (auto simp: is_valid_fcb_name_def is_valid_entry_name_def is_valid_fcb_field_def split: if_splits)
  have base: "\<forall>b\<in>set (?up ?base). b \<noteq> 0x2E \<and> b \<noteq> 0x2A" and ext: "\<forall>b\<in>set (?up ?ext). b \<noteq> 0x2E \<and> b \<noteq> 0x2A"
    using valid_bytes_set [OF valid(1)] valid_bytes_set [OF valid(2)] by (auto simp: upper_special)
  have lens: "length (?up ?base) \<le> 8" "length (?up ?ext) \<le> 3"
    using length_trim_spaces [of "take 8 fcb"] length_trim_spaces [of "drop 8 fcb"] len by simp_all
  have display: "fcb_to_display_name fcb = ?base @ (if ?ext = [] then [] else 0x2E # ?ext)"
    using len by (simp add: fcb_to_display_name_def)
  have nonempty: "?base \<noteq> []" 
    using valid(3) len by (cases fcb) (auto simp: trim_spaces_Cons)
  have star: "0x2A \<notin> set ?base" using valid_bytes_set [OF valid(1)] by auto
  have special: "fcb_to_display_name fcb \<noteq> [0x2A, 0x2E, 0x2A]" "fcb_to_display_name fcb \<noteq> [0x2A]"
    using nonempty star by (cases ?base; simp add: display)+
  have up: "?up (fcb_to_display_name fcb) = ?up ?base @ (if ?ext = [] then [] else 0x2E # ?up ?ext)"
    by (simp add: display to_ascii_uppercase_def)
  have copy: "fcb_copy True 8 (?up (fcb_to_display_name fcb)) = (?up ?base, if ?ext = [] then [] else 0x2E # ?up ?ext)"
    unfolding up using base lens(1) by (intro fcb_copy_field) auto
  have copy': "fst (fcb_copy False 3 (?up ?ext)) = ?up ?ext"
    using fcb_copy_field [OF lens(2) ext, of "[]" False] by simp
  have copy0: "fst (fcb_copy False 3 []) = []" using fcb_copy_field [of "[]" 3 "[]" False] by simp
  have "name_to_fcb (fcb_to_display_name fcb) = pad_field 8 (?up ?base) @ pad_field 3 (?up ?ext)"
    using special copy0 by (simp add: name_to_fcb_def copy copy')
  also have "\<dots> = ?up (pad_field 8 ?base @ pad_field 3 ?ext)" by (simp add: map_upper_pad)
  also have "pad_field 8 ?base @ pad_field 3 ?ext = fcb"
    using pad_trim_spaces [of "take 8 fcb"] pad_trim_spaces [of "drop 8 fcb"] len by simp
  finally show ?thesis .
qed

end
