(* ===== verification/Fat_Directory.thy ===== *)
theory Fat_Directory
  imports Fat_Writer Fat_Names
begin

text \<open>
  The root directory on a flat disk as a list of slots of 32 bytes: searching it, and creating a
  file in it. The lemmas are proved once for every \<open>flat_disk\<close>.
\<close>

section \<open>Slots\<close>

text \<open>A slot is the sector it lies in, its offset there, and its bytes.\<close>

type_synonym dir_slot = "u32 \<times> nat \<times> u8 list"

fun slot_free :: "dir_slot \<Rightarrow> bool" where
  "slot_free (lba, offset, bytes) \<longleftrightarrow> bytes ! 0 = 0 \<or> bytes ! 0 = 0xE5"

fun dir_scan :: "bool \<Rightarrow> u8 list \<Rightarrow> dir_slot list \<Rightarrow> scan_result" where
  "dir_scan human68k name [] = ScanContinue"
| "dir_scan human68k name ((lba, offset, bytes) # slots) =
     (if bytes ! 0 = 0 then ScanEnd
      else case parse_entry bytes lba (of_nat offset) human68k of
        None \<Rightarrow> dir_scan human68k name slots
      | Some e \<Rightarrow> if de_name e = name then ScanReturn e else dir_scan human68k name slots)"

definition dir_found :: "bool \<Rightarrow> u8 list \<Rightarrow> dir_slot list \<Rightarrow> dir_entry option" where
  "dir_found human68k name slots =
     (case dir_scan human68k name slots of ScanReturn e \<Rightarrow> Some e | _ \<Rightarrow> None)"

definition sector_slot :: "u32 \<Rightarrow> u8 list \<Rightarrow> nat \<Rightarrow> dir_slot" where
  "sector_slot lba bytes i = (lba, i * 32, take 32 (drop (i * 32) bytes))"

lemma dir_scan_append:
  "dir_scan h name (xs @ ys) = (case dir_scan h name xs of ScanContinue \<Rightarrow> dir_scan h name ys | r \<Rightarrow> r)"
  by (induction h name xs rule: dir_scan.induct) (auto split: option.splits)

lemma dir_scan_used:
  assumes "dir_found h name (xs @ ys) = None" "\<forall>s\<in>set xs. \<not> slot_free s"
  shows "dir_scan h name xs = ScanContinue"
proof -
  have "dir_scan h name xs \<noteq> ScanEnd" using assms(2)
    by (induction h name xs rule: dir_scan.induct) (auto split: option.splits)
  then show ?thesis
    using assms(1) by (auto simp: dir_found_def dir_scan_append split: scan_result.splits)
qed

lemma parse_entry_first: "parse_entry bytes lba offset h = Some e \<Longrightarrow> bytes ! 0 \<noteq> 0 \<and> bytes ! 0 \<noteq> 0xE5"
  by (auto simp: parse_entry_def split: if_splits)

text \<open>Storing an entry with a new name in the first free slot makes it the one that is found.\<close>

lemma dir_found_update:
  assumes "dir_found h name slots = None" "n < length slots" "\<forall>j<n. \<not> slot_free (slots ! j)"
    and "parse_entry bytes lba (of_nat offset) h = Some e" "de_name e = name"
  shows "dir_found h name (slots[n := (lba, offset, bytes)]) = Some e"
proof -
  have "\<forall>s\<in>set (take n slots). \<not> slot_free s"
  proof
    fix s assume "s \<in> set (take n slots)"
    then obtain j where "j < n" "s = slots ! j" by (auto simp: in_set_conv_nth)
    then show "\<not> slot_free s" using assms(3) by blast
  qed
  then have "dir_scan h name (take n slots) = ScanContinue"
    using assms(1) by (intro dir_scan_used [where ys = "drop n slots"]) simp_all
  moreover have "dir_scan h name ((lba, offset, bytes) # drop (Suc n) slots) = ScanReturn e"
    using assms(4,5) parse_entry_first [OF assms(4)] by simp
  ultimately show ?thesis
    using assms(2) by (simp add: dir_found_def upd_conv_take_nth_drop dir_scan_append)
qed

lemma scan_sector_slots:
  "\<forall>i\<in>set is. i * 32 + 32 \<le> length bytes \<Longrightarrow>
   scan_sector h lba bytes (\<lambda>e acc. (if de_name e = name then Some e else None, acc)) is () =
     Some (dir_scan h name (map (sector_slot lba bytes) is), ())"
proof (induction "is")
  case (Cons i "is")
  have len: "i * 32 + 32 \<le> length bytes" using Cons.prems by simp
  have first: "list_get bytes (i * 32) = Some (bytes ! (i * 32))" using len by (simp add: list_get_def)
  have slice: "slice_range (i * 32) (i * 32 + 32) bytes = Some (take 32 (drop (i * 32) bytes))"
    using len by (simp add: slice_range_def)
  have nth: "take 32 (drop (i * 32) bytes) ! 0 = bytes ! (i * 32)" using len by simp
  show ?case
  proof (cases "bytes ! (i * 32) = 0xE5")
    case True
    then have "parse_entry (take 32 (drop (i * 32) bytes)) lba (of_nat (i * 32)) h = None"
      using nth by (simp add: parse_entry_def)
    then show ?thesis using Cons first nth True by (simp add: sector_slot_def)
  next
    case False
    then show ?thesis
      using Cons first slice nth by (auto simp: sector_slot_def split: option.splits)
  qed
qed simp

lemma free_slot_slots:
  "\<forall>i\<in>set is. i * 32 + 32 \<le> length bytes \<Longrightarrow>
   free_slot bytes is = Some (map_option (fst \<circ> snd) (List.find slot_free (map (sector_slot lba bytes) is)))"
proof (induction "is")
  case (Cons i "is")
  have len: "i * 32 + 32 \<le> length bytes" using Cons.prems by simp
  have first: "list_get bytes (i * 32) = Some (bytes ! (i * 32))" using len by (simp add: list_get_def)
  have nth: "take 32 (drop (i * 32) bytes) ! 0 = bytes ! (i * 32)" using len by simp
  show ?case using Cons first nth by (simp add: sector_slot_def)
qed simp

text \<open>Numbering the slots of several sectors through.\<close>

lemma concat_map_upt:
  "concat (map (\<lambda>i. map (f i) [0..<m]) [0..<n]) = map (\<lambda>k. f (k div m) (k mod m)) [0..<n * m]"
proof (cases "m = 0")
  case False
  show ?thesis
  proof (induction n)
    case (Suc n)
    have "[0..<Suc n * m] = [0..<n * m] @ [n * m..<n * m + m]"
      by (subst upt_add_eq_append [symmetric]) (simp_all add: add.commute)
    moreover have "[n * m..<n * m + m] = map (\<lambda>j. j + n * m) [0..<m]"
      by (simp add: map_add_upt add.commute)
    moreover have "map (\<lambda>j. f ((j + n * m) div m) ((j + n * m) mod m)) [0..<m] = map (f n) [0..<m]"
      using False by (intro map_cong) simp_all
    ultimately show ?case using Suc by (simp add: o_def)
  qed simp
qed simp

lemma find_append:
  "List.find p (xs @ ys) = (case List.find p xs of None \<Rightarrow> List.find p ys | Some x \<Rightarrow> Some x)"
  by (induction xs) simp_all

text \<open>Patching a part of a part of a list is patching the list.\<close>

lemma copy_into_nested:
  assumes "p + n \<le> length xs" "k + length bs \<le> n"
  shows "copy_into p (copy_into k bs (take n (drop p xs))) xs = copy_into (p + k) bs xs"
proof (rule nth_equalityI)
  have len: "length (copy_into k bs (take n (drop p xs))) = n"
    using assms by simp
  show "length (copy_into p (copy_into k bs (take n (drop p xs))) xs) = length (copy_into (p + k) bs xs)"
    using assms len by simp
  fix i assume i: "i < length (copy_into p (copy_into k bs (take n (drop p xs))) xs)"
  then show "copy_into p (copy_into k bs (take n (drop p xs))) xs ! i = copy_into (p + k) bs xs ! i"
    using assms len by (auto simp: nth_copy_into)
qed

section \<open>The root directory\<close>

text \<open>
  The root directory lies before the data area, and a sector holds whole slots. Its first sector and
  the number of its sectors, as numbers.
\<close>

definition fat_root_count :: "fat_volume \<Rightarrow> nat" where
  "fat_root_count v = (case fat_root_dir_sectors v of None \<Rightarrow> 0 | Some count \<Rightarrow> unat count)"

definition fat_root_layout :: "fat_volume \<Rightarrow> bool" where
  "fat_root_layout v \<longleftrightarrow> unat (bpb_bytes_per_sector (fv_bpb v)) mod 32 = 0 \<and> fat_root_dir_sectors v \<noteq> None \<and>
     unat (fv_first_root_sector v) + fat_root_count v \<le> unat (fv_first_data_sector v)"

definition fat_root_start :: "fat_volume \<Rightarrow> nat" where
  "fat_root_start v = unat (fv_partition_offset v) + unat (fv_first_root_sector v) * unat (fv_sector_ratio v)"

definition fat_root_lba :: "fat_volume \<Rightarrow> nat \<Rightarrow> u32" where
  "fat_root_lba v i = fat_root_dir_lba v + of_nat i * fv_sector_ratio v"

definition fat_root_lbas :: "fat_volume \<Rightarrow> u32 list" where
  "fat_root_lbas v = map (fat_root_lba v) [0..<fat_root_count v]"

lemma dir_sectors_root: "fat_root_layout v \<Longrightarrow> dir_sectors v 0 = Some (Inr (fat_root_lbas v))"
  by (auto simp: dir_sectors_def fat_root_lbas_def fat_root_lba_def fat_root_layout_def fat_root_count_def)

text \<open>The slots of the root directory, and the position of the first.\<close>

definition fat_root_slots :: "fat_volume \<Rightarrow> nat" where
  "fat_root_slots v = fat_root_count v * entries_per_sector v"

context flat_disk
begin

definition sector_data :: "fat_volume \<Rightarrow> 'd \<Rightarrow> u32 \<Rightarrow> u8 list" where
  "sector_data v d lba =
     take (unat (bpb_bytes_per_sector (fv_bpb v))) (drop (unat lba * sector) (contents d))"

definition sector_on_disk :: "fat_volume \<Rightarrow> 'd \<Rightarrow> u32 \<Rightarrow> bool" where
  "sector_on_disk v d lba \<longleftrightarrow>
     unat lba * sector + unat (bpb_bytes_per_sector (fv_bpb v)) \<le> length (contents d)"

definition dir_slots :: "fat_volume \<Rightarrow> 'd \<Rightarrow> u32 list \<Rightarrow> dir_slot list" where
  "dir_slots v d lbas =
     concat (map (\<lambda>lba. map (sector_slot lba (sector_data v d lba)) [0..<entries_per_sector v]) lbas)"

definition root_slots :: "fat_volume \<Rightarrow> 'd \<Rightarrow> dir_slot list" where
  "root_slots v d = dir_slots v d (fat_root_lbas v)"

lemma read_sector:
  assumes "on_disk v d" "sector_on_disk v d lba"
  shows "fat_read_sector_abs io v lba d = Some (Inr (sector_data v d lba), d)"
proof -
  have lay: "good d" "fv_device_id v = dev" "unat (fv_sector_ratio v) * sector = unat (bpb_bytes_per_sector (fv_bpb v))"
    using assms(1) by (simp_all add: on_disk_def fat_layout_def)
  show ?thesis
    unfolding fat_read_sector_abs_def lay(2)
    using reads [OF lay(1), of lba "fv_sector_ratio v"] assms(2) lay(3)
    by (intro io_disk_Some) (simp add: sector_on_disk_def sector_data_def add_mult_distrib)
qed

lemma write_sector:
  assumes "on_disk v d" "sector_on_disk v d lba" "length bytes = unat (bpb_bytes_per_sector (fv_bpb v))"
  obtains d' where "fat_write_sector_abs io v lba bytes d = Some (Inr (), d')" "on_disk v d'"
    "contents d' = copy_into (unat lba * sector) bytes (contents d)"
proof -
  have lay: "good d" "fv_device_id v = dev" "length bytes = unat (fv_sector_ratio v) * sector"
    using assms by (simp_all add: on_disk_def fat_layout_def)
  have "(unat lba + unat (fv_sector_ratio v)) * sector \<le> length (contents d)"
    using assms(2,3) lay(3) by (simp add: sector_on_disk_def add_mult_distrib)
  from writes [OF lay(1,3) this] obtain d' where d': "io_write_sectors io dev lba bytes d = Some (Inr (), d')"
    "good d'" "contents d' = copy_into (unat lba * sector) bytes (contents d)" by blast
  have "length (contents d') = length (contents d)"
    using assms(2,3) by (simp add: d'(3) sector_on_disk_def)
  then have "on_disk v d'" using assms(1) d'(2) by (simp add: on_disk_def)
  moreover have "fat_write_sector_abs io v lba bytes d = Some (Inr (), d')"
    unfolding fat_write_sector_abs_def lay(2) using d'(1) by (rule io_disk_Some)
  ultimately show ?thesis using d'(3) by (intro that)
qed

lemma length_sector_data:
  "sector_on_disk v d lba \<Longrightarrow> length (sector_data v d lba) = unat (bpb_bytes_per_sector (fv_bpb v))"
  by (simp add: sector_on_disk_def sector_data_def)

lemma slots_in_sector:
  assumes "sector_on_disk v d lba"
  shows "\<forall>i\<in>set [0..<entries_per_sector v]. i * 32 + 32 \<le> length (sector_data v d lba)"
proof
  fix i assume "i \<in> set [0..<entries_per_sector v]"
  then have "Suc i * 32 \<le> entries_per_sector v * 32" by (intro mult_le_mono1) simp
  also have "\<dots> \<le> unat (bpb_bytes_per_sector (fv_bpb v))" by (simp add: entries_per_sector_def)
  finally show "i * 32 + 32 \<le> length (sector_data v d lba)" by (simp add: length_sector_data [OF assms])
qed

lemma scan_sectors_slots:
  assumes "on_disk v d" "\<forall>lba\<in>set lbas. sector_on_disk v d lba"
  shows "scan_sectors io v (\<lambda>e acc. (if de_name e = name then Some e else None, acc)) lbas () d =
    Some (Inr (dir_found (fv_human68k v) name (dir_slots v d lbas), ()), d)"
  using assms(2)
proof (induction lbas)
  case Nil
  then show ?case by (simp add: io_return_def dir_found_def dir_slots_def)
next
  case (Cons lba lbas)
  have on: "sector_on_disk v d lba" using Cons.prems by simp
  show ?case
    using Cons read_sector [OF assms(1) on] scan_sector_slots [OF slots_in_sector [OF on], of "fv_human68k v" lba name]
    by (auto simp: io_bind_def io_expect_def io_return_def dir_found_def dir_slots_def dir_scan_append
        split: scan_result.splits)
qed

lemma create_entry_in_slots:
  assumes "on_disk v d" "\<forall>lba\<in>set lbas. sector_on_disk v d lba" "length (dir_entry_to_bytes e) = 32"
    and "List.find slot_free (dir_slots v d lbas) = Some (lba, offset, bytes)"
  shows "\<exists>d'. create_entry_in io v e lbas d = Some (Inr (Some (e\<lparr> de_sector := lba, de_offset := of_nat offset \<rparr>)), d') \<and>
    on_disk v d' \<and> contents d' = copy_into (unat lba * sector + offset) (dir_entry_to_bytes e) (contents d)"
  using assms(2,4)
proof (induction lbas)
  case Nil
  then show ?case by (simp add: dir_slots_def)
next
  case (Cons lba0 lbas)
  let ?bytes = "sector_data v d lba0" and ?is = "[0..<entries_per_sector v]"
  have on: "sector_on_disk v d lba0" using Cons.prems by simp
  note read = read_sector [OF assms(1) on]
  note fits = slots_in_sector [OF on]
  note slot = free_slot_slots [OF fits, of lba0]
  have slots: "dir_slots v d (lba0 # lbas) = map (sector_slot lba0 ?bytes) ?is @ dir_slots v d lbas"
    by (simp add: dir_slots_def)
  show ?case
  proof (cases "List.find slot_free (map (sector_slot lba0 ?bytes) ?is)")
    case None
    then have "List.find slot_free (dir_slots v d lbas) = Some (lba, offset, bytes)"
      using Cons.prems(2) unfolding slots by (simp add: find_append)
    then show ?thesis
      using Cons read slot None by (simp add: io_bind_def io_expect_def)
  next
    case (Some s)
    then have s: "s = (lba, offset, bytes)" using Cons.prems(2) unfolding slots by (simp add: find_append)
    obtain i where i: "i \<in> set ?is" "lba = lba0" "offset = i * 32"
      using Some unfolding s by (auto simp: find_Some_iff sector_slot_def)
    have len: "offset + length (dir_entry_to_bytes e) \<le> length ?bytes" using fits i by (simp add: assms(3))
    let ?new = "copy_into offset (dir_entry_to_bytes e) ?bytes"
    have "length ?new = unat (bpb_bytes_per_sector (fv_bpb v))"
      using len length_sector_data [OF on] by simp
    from write_sector [OF assms(1) on this] obtain d' where
      d': "fat_write_sector_abs io v lba0 ?new d = Some (Inr (), d')" "on_disk v d'"
      "contents d' = copy_into (unat lba0 * sector) ?new (contents d)" by metis
    have "contents d' = copy_into (unat lba * sector + offset) (dir_entry_to_bytes e) (contents d)"
      using on len length_sector_data [OF on] unfolding d'(3) i(2) sector_data_def
      by (intro copy_into_nested) (simp_all add: sector_on_disk_def)
    then show ?thesis
      using read slot Some s d'(1,2) i(2) len by (auto simp: io_bind_def io_expect_def io_return_def patch_range_def)
  qed
qed

section \<open>Positions in the root directory\<close>

lemma root_lba:
  assumes "on_disk v d" "fat_root_layout v" "i < fat_root_count v"
  shows "unat (fat_root_lba v i) = fat_root_start v + i * unat (fv_sector_ratio v)"
    and "(fat_root_start v + Suc i * unat (fv_sector_ratio v)) * sector \<le> fat_data_start v * sector"
    and "fat_data_start v * sector \<le> length (contents d)"
proof -
  let ?r = "unat (fv_sector_ratio v)" and ?f = "unat (fv_first_root_sector v)"
  have lay: "fat_layout sector (length (contents d)) v" using assms(1) by (simp add: on_disk_def)
  have "(?f + Suc i) * ?r \<le> unat (fv_first_data_sector v) * ?r"
    using assms(2,3) by (intro mult_le_mono1) (simp add: fat_root_layout_def)
  then have le: "fat_root_start v + Suc i * ?r \<le> fat_data_start v"
    by (simp add: fat_root_start_def fat_data_start_def add_mult_distrib)
  then show "(fat_root_start v + Suc i * ?r) * sector \<le> fat_data_start v * sector" by (rule mult_le_mono1)
  let ?data = "unat (fv_data_cluster_count v) * unat (bpb_sectors_per_cluster (fv_bpb v)) * ?r"
  have "fat_data_start v * sector \<le> (fat_data_start v + ?data) * sector" by (rule mult_le_mono1) simp
  moreover have "(fat_data_start v + ?data) * sector \<le> length (contents d)" "length (contents d) \<le> 2 ^ 32 * sector"
    using lay by (simp_all add: fat_layout_def fat_data_start_def)
  ultimately show "fat_data_start v * sector \<le> length (contents d)" by linarith
  then have "fat_data_start v * sector \<le> 2 ^ 32 * sector"
    using \<open>length (contents d) \<le> 2 ^ 32 * sector\<close> by linarith
  then have "fat_data_start v \<le> 2 ^ 32" using sector_bounds(1) by (meson mult_le_cancel2)
  moreover have "0 < ?r" using lay by (simp add: fat_layout_def)
  ultimately have less: "fat_root_start v + i * ?r < 2 ^ 32" using le by simp
  have "i < 2 ^ 32"
    using assms(3) unsigned_less [of "the (fat_root_dir_sectors v)", where ?'a = nat]
    by (auto simp: fat_root_count_def split: option.splits)
  then have i: "unat (of_nat i :: u32) = i" by (simp add: unsigned_of_nat take_bit_nat_eq_self)
  then have "unat (of_nat i * fv_sector_ratio v) = i * ?r" using less by (subst unat_mult_u32) simp_all
  moreover have "unat (fat_root_dir_lba v) = fat_root_start v"
    using less unfolding fat_root_dir_lba_def fat_root_start_def
    by (subst unat_add_u32; (subst unat_mult_u32)?) simp_all
  ultimately show "unat (fat_root_lba v i) = fat_root_start v + i * ?r"
    using less unfolding fat_root_lba_def by (subst unat_add_u32) simp_all
qed

lemma root_sector_on_disk:
  assumes "on_disk v d" "fat_root_layout v" "i < fat_root_count v"
  shows "sector_on_disk v d (fat_root_lba v i)"
proof -
  have "unat (fv_sector_ratio v) * sector = unat (bpb_bytes_per_sector (fv_bpb v))"
    using assms(1) by (simp add: on_disk_def fat_layout_def)
  then show ?thesis
    using root_lba [OF assms] by (simp add: sector_on_disk_def algebra_simps)
qed

definition root_slot :: "fat_volume \<Rightarrow> 'd \<Rightarrow> nat \<Rightarrow> dir_slot" where
  "root_slot v d k =
     (fat_root_lba v (k div entries_per_sector v), k mod entries_per_sector v * 32,
      take 32 (drop (fat_root_start v * sector + k * 32) (contents d)))"

lemma root_slot_position:
  assumes "on_disk v d" "fat_root_layout v" "k < fat_root_slots v"
  shows "unat (fat_root_lba v (k div entries_per_sector v)) * sector + k mod entries_per_sector v * 32 =
      fat_root_start v * sector + k * 32"
    and "k mod entries_per_sector v * 32 + 32 \<le> unat (bpb_bytes_per_sector (fv_bpb v))"
    and "fat_root_start v * sector + k * 32 + 32 \<le> fat_data_start v * sector"
proof -
  let ?m = "entries_per_sector v"
  have m: "0 < ?m" using assms(3) by (cases ?m) (simp_all add: fat_root_slots_def)
  have i: "k div ?m < fat_root_count v"
    using assms(3) by (simp add: fat_root_slots_def less_mult_imp_div_less)
  have bytes: "unat (bpb_bytes_per_sector (fv_bpb v)) = ?m * 32"
    using assms(2) by (auto simp: fat_root_layout_def entries_per_sector_def)
  have ratio: "unat (fv_sector_ratio v) * sector = ?m * 32"
    using assms(1) bytes by (simp add: on_disk_def fat_layout_def)
  note lba = root_lba [OF assms(1,2) i]
  have mod: "k mod ?m < ?m" using m by simp
  have "k mod ?m * 32 + 32 = (k mod ?m + 1) * 32" by simp
  also have "\<dots> \<le> ?m * 32" using mod by (intro mult_le_mono1) simp
  finally show off: "k mod ?m * 32 + 32 \<le> unat (bpb_bytes_per_sector (fv_bpb v))" by (simp add: bytes)
  have "k div ?m * unat (fv_sector_ratio v) * sector + k mod ?m * 32 = (k div ?m * ?m + k mod ?m) * 32"
    unfolding mult.assoc ratio by (simp only: add_mult_distrib mult.assoc)
  then have eq: "k div ?m * unat (fv_sector_ratio v) * sector + k mod ?m * 32 = k * 32"
    by (simp only: div_mult_mod_eq)
  then show pos: "unat (fat_root_lba v (k div ?m)) * sector + k mod ?m * 32 = fat_root_start v * sector + k * 32"
    unfolding lba(1) by (simp add: add_mult_distrib)
  have "Suc (k div ?m) * unat (fv_sector_ratio v) * sector = k div ?m * unat (fv_sector_ratio v) * sector + ?m * 32"
    unfolding mult.assoc ratio by simp
  then have "fat_root_start v * sector + (k * 32 - k mod ?m * 32 + ?m * 32) \<le> fat_data_start v * sector"
    using lba(2) eq by (simp add: add_mult_distrib)
  then show "fat_root_start v * sector + k * 32 + 32 \<le> fat_data_start v * sector"
    using off bytes eq by linarith
qed

lemma root_slots_eq:
  assumes "on_disk v d" "fat_root_layout v"
  shows "root_slots v d = map (root_slot v d) [0..<fat_root_slots v]"
proof -
  let ?m = "entries_per_sector v"
  have "root_slots v d = concat (map (\<lambda>i. map ((\<lambda>i. sector_slot (fat_root_lba v i) (sector_data v d (fat_root_lba v i))) i) [0..<?m])
      [0..<fat_root_count v])"
    by (simp add: root_slots_def dir_slots_def fat_root_lbas_def o_def)
  also have "\<dots> = map (\<lambda>k. sector_slot (fat_root_lba v (k div ?m)) (sector_data v d (fat_root_lba v (k div ?m))) (k mod ?m))
      [0..<fat_root_slots v]"
    unfolding concat_map_upt fat_root_slots_def ..
  also have "\<dots> = map (root_slot v d) [0..<fat_root_slots v]"
  proof (intro map_cong refl)
    fix k assume "k \<in> set [0..<fat_root_slots v]"
    then have k: "k < fat_root_slots v" by simp
    note pos = root_slot_position [OF assms k]
    have "take 32 (drop (k mod ?m * 32) (sector_data v d (fat_root_lba v (k div ?m)))) =
        take 32 (drop (fat_root_start v * sector + k * 32) (contents d))"
      using pos(2) unfolding sector_data_def drop_take drop_drop take_take pos(1) [symmetric]
      by (simp add: add.commute min_def)
    then show "sector_slot (fat_root_lba v (k div ?m)) (sector_data v d (fat_root_lba v (k div ?m))) (k mod ?m) = root_slot v d k"
      by (simp add: sector_slot_def root_slot_def)
  qed
  finally show ?thesis .
qed

text \<open>What the root directory holds depends on the bytes before the data area only.\<close>

lemma root_slots_cong:
  assumes "on_disk v d" "on_disk v d'" "fat_root_layout v" "length (contents d') = length (contents d)"
    and "\<And>p. p < fat_data_start v * sector \<Longrightarrow> contents d' ! p = contents d ! p"
  shows "root_slots v d' = root_slots v d"
proof -
  have "root_slot v d' k = root_slot v d k" if "k < fat_root_slots v" for k
  proof -
    note pos = root_slot_position(3) [OF assms(1,3) that]
    have "take 32 (drop (fat_root_start v * sector + k * 32) (contents d')) =
        take 32 (drop (fat_root_start v * sector + k * 32) (contents d))"
    proof (rule nth_equalityI)
      fix i assume "i < length (take 32 (drop (fat_root_start v * sector + k * 32) (contents d')))"
      then have "i < 32" "fat_root_start v * sector + k * 32 + i < length (contents d)"
        using assms(4) by (simp_all, linarith)
      then show "take 32 (drop (fat_root_start v * sector + k * 32) (contents d')) ! i =
          take 32 (drop (fat_root_start v * sector + k * 32) (contents d)) ! i"
        using assms(4) pos by (simp add: assms(5))
    qed (simp add: assms(4))
    then show ?thesis by (simp add: root_slot_def)
  qed
  then show ?thesis using root_slots_eq [OF assms(1,3)] root_slots_eq [OF assms(2,3)] by simp
qed

lemma root_slots_write:
  assumes "on_disk v d" "on_disk v d'" "fat_root_layout v" "k < fat_root_slots v" "length bytes = 32"
    and "contents d' = copy_into (fat_root_start v * sector + k * 32) bytes (contents d)"
  shows "root_slots v d' = (root_slots v d)[k := (fst (root_slot v d k), fst (snd (root_slot v d k)), bytes)]"
proof -
  let ?at = "\<lambda>j. fat_root_start v * sector + j * 32"
  have fits: "?at j + 32 \<le> length (contents d)" if "j < fat_root_slots v" for j
  proof -
    have "0 < fat_root_count v" using assms(4) by (cases "fat_root_count v") (simp_all add: fat_root_slots_def)
    then show ?thesis
      using root_slot_position(3) [OF assms(1,3) that] root_lba(3) [OF assms(1,3), of 0] by linarith
  qed
  have other: "take 32 (drop (?at j) (contents d')) = take 32 (drop (?at j) (contents d))"
    if "j \<noteq> k" "j < fat_root_slots v" for j
    using that fits [OF assms(4)] assms(5) unfolding assms(6)
    by (intro slice_copy_into_other) (simp_all add: nat_neq_iff, linarith)
  have same: "take 32 (drop (?at k) (contents d')) = bytes"
    using slice_copy_into_same [of "?at k" bytes "contents d"] fits [OF assms(4)] assms(5) by (simp add: assms(6))
  show ?thesis
    unfolding root_slots_eq [OF assms(1,3)] root_slots_eq [OF assms(2,3)]
    using other same by (intro nth_equalityI) (auto simp: nth_list_update root_slot_def assms(4))
qed

end

section \<open>Searching and creating\<close>

lemma dir_entry_to_bytes_place [simp]:
  "dir_entry_to_bytes (e\<lparr> de_sector := lba, de_offset := offset \<rparr>) = dir_entry_to_bytes e"
  by (simp add: dir_entry_to_bytes_def)

text \<open>An entry that the volume reads back wherever it is stored.\<close>

definition fat_good_entry :: "bool \<Rightarrow> dir_entry \<Rightarrow> bool" where
  "fat_good_entry human68k e \<longleftrightarrow> length (de_reserved e) = 10 \<and> de_attribute e AND 0xC0 = 0 \<and>
     de_attribute e \<noteq> 0x0F \<and>
     (is_valid_fcb_name (de_name e) \<or> human68k \<and> is_valid_human68k_name (de_name e) (de_reserved e))"

lemma fat_good_entry_bytes:
  assumes "fat_good_entry h e"
  shows "length (dir_entry_to_bytes e) = 32"
    and "parse_entry (dir_entry_to_bytes e) lba offset h = Some (e\<lparr> de_sector := lba, de_offset := offset \<rparr>)"
proof -
  let ?e = "e\<lparr> de_sector := lba, de_offset := offset \<rparr>"
  have valid: "is_valid_fcb_name (de_name e) \<or> h \<and> is_valid_human68k_name (de_name e) (de_reserved e)"
    using assms by (simp add: fat_good_entry_def)
  have "0x20 < de_name e ! 0" by (rule valid_name_not_escape [OF valid])
  then have "de_name e ! 0 \<noteq> 0x05" by auto
  moreover have "length (de_name e) = 11"
    using valid valid_name_first(1) by (auto simp: is_valid_fcb_name_def is_valid_human68k_name_def)
  ultimately have "length (de_name ?e) = 11" "length (de_reserved ?e) = 10" "de_attribute ?e AND 0xC0 = 0"
    "de_attribute ?e \<noteq> 0x0F" "de_name ?e ! 0 \<noteq> 0x05"
    using assms by (simp_all add: fat_good_entry_def)
  from parse_dir_entry_to_bytes [OF this] valid
  show "length (dir_entry_to_bytes e) = 32"
    and "parse_entry (dir_entry_to_bytes e) lba offset h = Some (e\<lparr> de_sector := lba, de_offset := offset \<rparr>)"
    by simp_all
qed

context flat_disk
begin

lemma find_entry_root:
  assumes "on_disk v d" "fat_root_layout v"
  shows "find_entry io v 0 name d = Some (Inr (dir_found (fv_human68k v) name (root_slots v d)), d)"
proof -
  have "\<forall>lba\<in>set (fat_root_lbas v). sector_on_disk v d lba"
    using root_sector_on_disk [OF assms] by (auto simp: fat_root_lbas_def)
  from scan_sectors_slots [OF assms(1) this] show ?thesis
    by (simp add: find_entry_def for_each_entry_def dir_sectors_root [OF assms(2)] io_of_result_def io_bind_def
        io_return_def root_slots_def)
qed

lemma create_entry_root:
  assumes "on_disk v d" "fat_root_layout v" "fat_good_entry (fv_human68k v) e"
    and "dir_found (fv_human68k v) (de_name e) (root_slots v d) = None" "\<exists>s\<in>set (root_slots v d). slot_free s"
  obtains d' k e' where "create_entry io 0 e (v, d) = Some (Inr e', (v, d'))" "on_disk v d'" "k < fat_root_slots v"
    "contents d' = copy_into (fat_root_start v * sector + k * 32) (dir_entry_to_bytes e) (contents d)"
    "dir_found (fv_human68k v) (de_name e) (root_slots v d') = Some e'"
    "e' = e\<lparr> de_sector := de_sector e', de_offset := de_offset e' \<rparr>"
    "slot_free (root_slots v d ! k)" "\<forall>j<k. \<not> slot_free (root_slots v d ! j)"
    "root_slots v d' = (root_slots v d)[k := (de_sector e', fst (snd (root_slot v d k)), dir_entry_to_bytes e)]"
proof -
  let ?slots = "root_slots v d" and ?bytes = "dir_entry_to_bytes e"
  note good = fat_good_entry_bytes [OF assms(3)]
  have sectors: "\<forall>lba\<in>set (fat_root_lbas v). sector_on_disk v d lba"
    using root_sector_on_disk [OF assms(1,2)] by (auto simp: fat_root_lbas_def)
  obtain s where "List.find slot_free ?slots = Some s"
    using assms(5) by (cases "List.find slot_free ?slots") (auto simp: find_None_iff)
  then obtain k where k: "k < length ?slots" "?slots ! k = s" "slot_free s" "\<forall>j<k. \<not> slot_free (?slots ! j)"
    and find: "List.find slot_free ?slots = Some s"
    by (auto simp: find_Some_iff)
  have k': "k < fat_root_slots v" using k(1) root_slots_eq [OF assms(1,2)] by simp
  have s: "s = root_slot v d k" using k(2) k' root_slots_eq [OF assms(1,2)] by simp
  obtain lba offset old where split: "root_slot v d k = (lba, offset, old)" by (cases "root_slot v d k") auto
  let ?e = "e\<lparr> de_sector := lba, de_offset := of_nat offset \<rparr>"
  obtain d' where d': "create_entry_in io v e (fat_root_lbas v) d = Some (Inr (Some ?e), d')" "on_disk v d'"
    "contents d' = copy_into (unat lba * sector + offset) ?bytes (contents d)"
    using create_entry_in_slots [OF assms(1) sectors good(1), of lba offset old] find
    by (auto simp: s split root_slots_def)
  have pos: "unat lba * sector + offset = fat_root_start v * sector + k * 32"
    using root_slot_position(1) [OF assms(1,2) k'] split by (simp add: root_slot_def)
  have slots': "root_slots v d' = ?slots[k := (lba, offset, ?bytes)]"
    using root_slots_write [OF assms(1) d'(2) assms(2) k' good(1)] d'(3) by (simp add: pos split)
  have "dir_found (fv_human68k v) (de_name e) (root_slots v d') = Some ?e"
    unfolding slots' using assms(4) k good(2) by (intro dir_found_update) simp_all
  moreover have "create_entry io 0 e (v, d) = Some (Inr ?e, (v, d'))"
    using d'(1) by (simp add: create_entry_def dir_sectors_root [OF assms(2)] io_of_result_def io_bind_def io_gets_def
        io_second_def io_return_def)
  ultimately show ?thesis
    using d'(2,3) k' pos k slots' by (intro that [of ?e d' k]) (simp_all add: split)
qed

text \<open>A root directory without a free slot takes no entry, and is left alone.\<close>

lemma create_entry_in_full:
  assumes "on_disk v d" "\<forall>lba\<in>set lbas. sector_on_disk v d lba" "\<forall>s\<in>set (dir_slots v d lbas). \<not> slot_free s"
  shows "create_entry_in io v e lbas d = Some (Inr None, d)"
  using assms(2,3)
proof (induction lbas)
  case Nil
  then show ?case by (simp add: io_return_def)
next
  case (Cons lba lbas)
  have on: "sector_on_disk v d lba" using Cons.prems by simp
  have "\<forall>s\<in>set (map (sector_slot lba (sector_data v d lba)) [0..<entries_per_sector v]). \<not> slot_free s"
    using Cons.prems(2) by (simp add: dir_slots_def)
  then have "List.find slot_free (map (sector_slot lba (sector_data v d lba)) [0..<entries_per_sector v]) = None"
    by (simp add: find_None_iff)
  then show ?case
    using Cons read_sector [OF assms(1) on] free_slot_slots [OF slots_in_sector [OF on], of lba]
    by (simp add: io_bind_def io_expect_def dir_slots_def)
qed

lemma create_entry_root_full:
  assumes "on_disk v d" "fat_root_layout v" "\<forall>s\<in>set (root_slots v d). \<not> slot_free s"
  shows "create_entry io 0 e (v, d) = Some (Inl 0x05, (v, d))"
proof -
  have "\<forall>lba\<in>set (fat_root_lbas v). sector_on_disk v d lba"
    using root_sector_on_disk [OF assms(1,2)] by (auto simp: fat_root_lbas_def)
  from create_entry_in_full [OF assms(1) this] show ?thesis
    using assms(3) by (simp add: create_entry_def dir_sectors_root [OF assms(2)] io_of_result_def io_defs root_slots_def)
qed

text \<open>The contents of a written file do not depend on what lies before the data area.\<close>

lemma written_reads_elsewhere:
  assumes "written v0 d0 w v d cs bytes" "length bytes < 2 ^ 32" "on_disk v d'"
    and "length (contents d') = length (contents d)"
    and "\<And>p. \<lbrakk>fat_data_start v * sector \<le> p; p < length (contents d)\<rbrakk> \<Longrightarrow> contents d' ! p = contents d ! p"
  shows "fat_read_chain io v (fw_start_cluster w) (fw_position w) d' = Some (Inr bytes, d')"
proof (cases "bytes = []")
  case True
  then have "unat (fw_position w) = 0" using assms(1) by (simp add: written_def writer_at_def)
  then show ?thesis using True by (simp add: fat_read_chain_def unsigned_eq_0_iff)
next
  case False
  have grown: "grown v0 d0 v d cs" and pos: "unat (fw_position w) = length bytes"
    and content: "take (length bytes) (file_bytes v d cs) = bytes"
    and len: "length bytes \<le> length cs * fat_cluster_size v"
    using assms(1) by (simp_all add: written_def writer_at_def)
  have cs: "cs \<noteq> []" using len False by auto
  have start: "fw_start_cluster w = hd cs" using assms(1) cs by (simp add: written_def writer_at_def)
  have data: "\<forall>c\<in>set cs. fat_is_data_cluster v c" and disk: "on_disk v d"
    using grown by (simp_all add: grown_def fat_file_clusters_def)
  have "cluster_data v d' c = cluster_data v d c" if "c \<in> set cs" for c
  proof -
    have "fat_cluster_start sector v c + fat_cluster_size v \<le> length (contents d)"
      using disk data that fat_cluster_on_disk(1) by (auto simp: on_disk_def)
    moreover have "fat_data_start v * sector \<le> fat_cluster_start sector v c" by (simp add: fat_cluster_start_def)
    ultimately show ?thesis
      unfolding cluster_data_def using assms(4)
      by (intro nth_equalityI) (simp_all add: assms(5))
  qed
  then have "file_bytes v d' cs = file_bytes v d cs" by (simp add: file_bytes_def cong: map_cong)
  moreover have "fat_read_chain io v (hd cs) (fw_position w) d' =
      Some (Inr (take (unat (fw_position w)) (file_bytes v d' cs)), d')"
    using grown cs len pos False
    by (intro read_chain [OF assms(3)]) (simp_all add: grown_def)
  ultimately show ?thesis using start pos content by simp
qed

end

end
