(* ===== verification/Fat_Create.thy ===== *)
theory Fat_Create
  imports Fat_Directory
begin

text \<open>
  Creating a file in the root directory of a flat disk, and what it leaves alone.
\<close>

section \<open>The other entries of the directory\<close>

text \<open>Behind the first slot that was never used there are no others.\<close>

definition dir_closed :: "dir_slot list \<Rightarrow> bool" where
  "dir_closed slots \<longleftrightarrow>
     (\<forall>i j. i \<le> j \<longrightarrow> j < length slots \<longrightarrow> snd (snd (slots ! i)) ! 0 = 0 \<longrightarrow> snd (snd (slots ! j)) ! 0 = 0)"

lemma dir_scan_unused:
  "\<forall>s\<in>set slots. snd (snd s) ! 0 = 0 \<Longrightarrow> dir_found h name slots = None"
  by (cases slots) (auto simp: dir_found_def)

lemma dir_found_append:
  "dir_scan h name xs = ScanContinue \<Longrightarrow> dir_found h name (xs @ ys) = dir_found h name ys"
  "dir_scan h name xs \<noteq> ScanContinue \<Longrightarrow> dir_found h name (xs @ ys) = dir_found h name xs"
  by (auto simp: dir_found_def dir_scan_append split: scan_result.splits)

lemma dir_found_other:
  assumes "dir_closed slots" "k < length slots" "slot_free (slots ! k)"
    and "parse_entry bytes lba (of_nat offset) h = Some e" "de_name e \<noteq> other"
  shows "dir_found h other (slots[k := (lba, offset, bytes)]) = dir_found h other slots"
proof -
  let ?pre = "take k slots" and ?post = "drop (Suc k) slots"
  obtain lba0 offset0 old where old: "slots ! k = (lba0, offset0, old)" by (cases "slots ! k") auto
  have slots: "slots = ?pre @ (lba0, offset0, old) # ?post"
    using id_take_nth_drop [OF assms(2)] old by simp
  have new: "slots[k := (lba, offset, bytes)] = ?pre @ (lba, offset, bytes) # ?post"
    using assms(2) by (simp add: upd_conv_take_nth_drop)
  have skip: "dir_found h other ((lba, offset, bytes) # ?post) = dir_found h other ?post"
    using assms(4,5) parse_entry_first [OF assms(4)] by (simp add: dir_found_def)
  have "dir_found h other ((lba0, offset0, old) # ?post) = dir_found h other ?post"
  proof (cases "old ! 0 = 0")
    case True
    have "\<forall>s\<in>set ?post. snd (snd s) ! 0 = 0"
    proof
      fix s assume "s \<in> set ?post"
      then obtain j where j: "j < length ?post" "s = slots ! (Suc k + j)" by (auto simp: in_set_conv_nth)
      have "snd (snd (slots ! k)) ! 0 = 0" using True old by simp
      moreover have "k \<le> Suc k + j" "Suc k + j < length slots" using j(1) assms(2) by simp_all
      ultimately have "snd (snd (slots ! (Suc k + j))) ! 0 = 0"
        using assms(1) unfolding dir_closed_def by blast
      then show "snd (snd s) ! 0 = 0" using j(2) by simp
    qed
    from dir_scan_unused [OF this] show ?thesis using True by (simp add: dir_found_def)
  next
    case False
    then have "old ! 0 = 0xE5" using assms(3) old by simp
    then have "parse_entry old lba0 (of_nat offset0) h = None" by (simp add: parse_entry_def)
    then show ?thesis using False by (simp add: dir_found_def)
  qed
  then show ?thesis
    unfolding new by (subst (2) slots) (cases "dir_scan h other ?pre = ScanContinue"; simp add: dir_found_append skip)
qed

section \<open>A new file\<close>

text \<open>The entry that is stored for the file of a writer.\<close>

definition new_file_entry :: "u8 list \<Rightarrow> file_create_options \<Rightarrow> fat_writer \<Rightarrow> dir_entry" where
  "new_file_entry name options w =
     \<lparr> de_name = name, de_attribute = fo_attributes options, de_reserved = replicate 10 0,
       de_time = fo_time options, de_date = fo_date options, de_start_cluster = fw_start_cluster w,
       de_file_size = fw_position w, de_sector = 0, de_offset = 0 \<rparr>"

context flat_disk
begin

lemma fat_root_lba_same: "fat_same v v' \<Longrightarrow> fat_root_lba v' = fat_root_lba v"
  by (simp add: fun_eq_iff fat_root_lba_def fat_root_dir_lba_def fat_sameD)

lemma root_slots_same: "fat_same v v' \<Longrightarrow> root_slots v' = root_slots v"
  by (auto simp: fun_eq_iff root_slots_def dir_slots_def sector_data_def fat_root_lbas_def fat_root_lba_same
      fat_root_count_def fat_root_dir_sectors_def fat_root_dir_lba_def entries_per_sector_def fat_sameD)

lemma fat_root_layout_same: "fat_same v v' \<Longrightarrow> fat_root_layout v' = fat_root_layout v"
  by (simp add: fat_root_layout_def fat_root_count_def fat_root_dir_sectors_def fat_sameD)

lemma fat_root_places_same:
  assumes "fat_same v v'"
  shows "fat_root_slots v' = fat_root_slots v" "fat_root_start v' = fat_root_start v"
    "fat_data_start v' = fat_data_start v"
  using fat_sameD [OF assms]
  by (simp_all add: fat_root_slots_def fat_root_count_def fat_root_dir_sectors_def entries_per_sector_def
      fat_root_start_def fat_data_start_def)

text \<open>Writing file data leaves the root directory alone.\<close>

lemma written_root:
  assumes "on_disk v d" "fat_root_layout v" "written v d w v1 d1 cs bytes"
  shows "root_slots v1 d1 = root_slots v d" "on_disk v1 d1" "fat_root_layout v1"
proof -
  note frame = written_frame [OF assms(3)]
  have disk1: "on_disk v d1" using assms(1) frame(4,5) by (simp add: on_disk_def)
  show "on_disk v1 d1" using disk1 on_disk_same [OF frame(1)] by simp
  show "fat_root_layout v1" using assms(2) fat_root_layout_same [OF frame(1)] by simp
  have "contents d1 ! p = contents d ! p" if "p < fat_data_start v * sector" for p
  proof (cases "p < length (contents d)")
    case True
    then show ?thesis
      using that by (intro frame(8)) (auto simp: cluster_range_def fat_cluster_start_def)
  next
    case False
    then show ?thesis
      using assms(1) that by (auto simp: on_disk_def fat_layout_def fat_data_start_def add_mult_distrib)
  qed
  then have "root_slots v d1 = root_slots v d"
    using root_slots_cong [OF assms(1) disk1 assms(2) frame(4)] by blast
  then show "root_slots v1 d1 = root_slots v d" by (simp add: root_slots_same [OF frame(1)])
qed

lemma create_new_file:
  assumes "on_disk v d" "fat_root_layout v"
    and "dir_found (fv_human68k v) name (root_slots v d) = None" "\<exists>s\<in>set (root_slots v d). slot_free s"
    and "is_valid_fcb_name name" "fo_attributes options AND 0xC0 = 0" "fo_attributes options \<noteq> 0x0F"
    and "length bytes \<le> card (fat_free_set v) * fat_cluster_size v" "length bytes < 2 ^ 32"
  obtains w v1 d1 cs d2 k e where
    "create_or_replace_file io 0 name bytes options (v, d) = Some (Inr (), (v1, d2))"
    "written v d w v1 d1 cs bytes" "on_disk v1 d2" "length (contents d2) = length (contents d1)"
    "\<And>p. \<lbrakk>fat_data_start v * sector \<le> p; p < length (contents d)\<rbrakk> \<Longrightarrow> contents d2 ! p = contents d1 ! p"
    "e = (new_file_entry name options w)\<lparr> de_sector := de_sector e, de_offset := de_offset e \<rparr>"
    "dir_found (fv_human68k v) name (root_slots v1 d2) = Some e"
    "fat_read_all io v1 e d2 = Some (Inr bytes, d2)"
    "k < length (root_slots v d)" "slot_free (root_slots v d ! k)" "\<forall>j<k. \<not> slot_free (root_slots v d ! j)"
    "root_slots v1 d2 = (root_slots v d)[k := (de_sector e, fst (snd (root_slot v1 d1 k)), dir_entry_to_bytes e)]"
proof -
  obtain w v1 d1 cs where
    run: "fat_write_loop io bytes (fat_writer_new 0 0, v, d) = Some (Inr (), (w, v1, d1))"
    and written: "written v d w v1 d1 cs bytes"
    using write_loop [OF written_start [OF assms(1)], of bytes] assms(8,9) by auto
  note frame = written_frame [OF written]
  note root = written_root [OF assms(1,2) written]
  let ?e = "new_file_entry name options w"
  have human: "fv_human68k v1 = fv_human68k v" by (rule fat_sameD(9) [OF frame(1)])
  have good: "fat_good_entry (fv_human68k v1) ?e"
    using assms(5-7) by (simp add: fat_good_entry_def new_file_entry_def)
  have none: "dir_found (fv_human68k v1) (de_name ?e) (root_slots v1 d1) = None"
    using assms(3) by (simp add: human root(1) new_file_entry_def)
  have free: "\<exists>s\<in>set (root_slots v1 d1). slot_free s" using assms(4) root(1) by simp
  obtain d2 k e where
    create: "create_entry io 0 ?e (v1, d1) = Some (Inr e, (v1, d2))" "on_disk v1 d2" "k < fat_root_slots v1"
    "contents d2 = copy_into (fat_root_start v1 * sector + k * 32) (dir_entry_to_bytes ?e) (contents d1)"
    "dir_found (fv_human68k v1) (de_name ?e) (root_slots v1 d2) = Some e"
    "e = ?e\<lparr> de_sector := de_sector e, de_offset := de_offset e \<rparr>"
    "slot_free (root_slots v1 d1 ! k)" "\<forall>j<k. \<not> slot_free (root_slots v1 d1 ! j)"
    "root_slots v1 d2 = (root_slots v1 d1)[k := (de_sector e, fst (snd (root_slot v1 d1 k)), dir_entry_to_bytes ?e)]"
    by (rule create_entry_root [OF root(2,3) good none free])
  note place = root_slot_position(3) [OF root(2,3) create(3)]
  note bytes32 = fat_good_entry_bytes(1) [OF good]
  have "0 < fat_root_count v1" using create(3) by (cases "fat_root_count v1") (simp_all add: fat_root_slots_def)
  then have fits: "fat_root_start v1 * sector + k * 32 + 32 \<le> length (contents d1)"
    using place root_lba(3) [OF root(2,3), of 0] by linarith
  have len: "length (contents d2) = length (contents d1)" using fits by (simp add: create(4) bytes32)
  have rest: "contents d2 ! p = contents d1 ! p" if "fat_data_start v1 * sector \<le> p" "p < length (contents d1)" for p
    unfolding create(4) using that place fits bytes32 by (subst nth_copy_into) simp_all
  have fields: "de_start_cluster e = fw_start_cluster w" "de_file_size e = fw_position w"
    by (subst create(6), simp add: new_file_entry_def)+
  have "fat_read_all io v1 e d2 = Some (Inr bytes, d2)"
    unfolding fat_read_all_def fields
    using rest by (intro written_reads_elsewhere [OF written assms(9) create(2) len])
  moreover have "create_or_replace_file io 0 name bytes options (v, d) = Some (Inr (), (v1, d2))"
    using find_entry_root [OF assms(1,2), of name] assms(3) run create(1)
    by (simp add: create_or_replace_file_def io_defs with_new_writer_def fat_write_chunk_def new_file_entry_def)
  moreover have "dir_entry_to_bytes e = dir_entry_to_bytes ?e"
    by (subst create(6)) simp
  moreover have "k < length (root_slots v d)"
    using create(3) unfolding root(1) [symmetric] root_slots_eq [OF root(2,3)] by simp
  ultimately show ?thesis
    using written create(2,5,6,7,8,9) len rest
    by (intro that [of v1 d2 w d1 cs e k])
      (simp_all add: human root(1) new_file_entry_def fat_root_places_same [OF frame(1)] frame(4))
qed

text \<open>Releasing the chain of a written file takes the FAT back to what it was.\<close>

lemma linked_chain:
  assumes "fat_numbered v"
  shows "\<lbrakk>cs \<noteq> []; fat_linked v cs; \<forall>c\<in>set cs. fat_is_data_cluster v c; fat_read_entry v (last cs) = fat_marker v\<rbrakk> \<Longrightarrow>
    fat_chain v (Some (hd cs)) cs"
proof (induction cs)
  case (Cons c cs)
  show ?case
  proof (cases "cs = []")
    case True
    then show ?thesis using Cons.prems by (simp add: fat_next_cluster_link)
  next
    case False
    then have "fat_read_entry v c = hd cs" using Cons.prems(2) by (simp add: fat_linked_Cons)
    then have "fat_next_cluster v c = Some (hd cs)"
      using False Cons.prems(3) by (intro fat_next_chain_data(2) [OF assms]) simp_all
    then show ?thesis using False Cons by (simp add: fat_linked_Cons)
  qed
qed simp

lemma written_released:
  assumes "written v0 d0 w v d cs bytes"
  obtains v' where "free_chain_if (fw_start_cluster w) (v, d) = Some (Inr (), (v', d))" "fat_same v0 v'"
    "\<And>c. fat_read_entry v' c = fat_read_entry v0 c"
proof (cases "cs = []")
  case True
  then have "fw_start_cluster w = 0" using assms by (simp add: written_def writer_at_def)
  then show ?thesis
    using written_frame(1,7) [OF assms] True by (intro that [of v]) (simp_all add: free_chain_if_def io_return_def)
next
  case False
  note frame = written_frame [OF assms]
  have grown: "grown v0 d0 v d cs" and start: "fw_start_cluster w = hd cs"
    using assms False by (simp_all add: written_def writer_at_def)
  have linked: "fat_linked v cs" "\<forall>c\<in>set cs. fat_is_data_cluster v c" "fat_read_entry v (last cs) = fat_marker v"
    using grown False by (simp_all add: grown_def fat_file_clusters_def)
  have numbered: "fat_numbered v" using on_disk_numbered [OF grown_on_disk [OF grown]] .
  have two: "2 \<le> hd cs" using False linked(2) by (simp add: fat_is_data_cluster_iff [OF numbered])
  have reach: "fat_reaches v (hd cs) c \<longleftrightarrow> c \<in> set cs" for c
    using fat_chain_reaches [OF linked_chain [OF numbered False linked]] by blast
  obtain v' where v': "fat_free_loop (hd cs) v = Some v'"
    "\<exists>cache dirty. v' = v\<lparr> fv_fat_cache := cache, fv_fat_dirty := dirty \<rparr> \<and> length cache = length (fv_fat_cache v)"
    "\<forall>c. fat_read_entry v' c = (if fat_reaches v (hd cs) c \<and> fat_slot v c then 0 else fat_read_entry v c)"
    using fat_free_loop_frees [OF two, of v] by blast
  have entry: "fat_read_entry v' c = fat_read_entry v0 c" for c
  proof (cases "c \<in> set cs")
    case True
    then have "fat_read_entry v0 c = 0" using frame(2) by (auto simp: fat_free_set_def)
    moreover have "fat_slot v c = fat_slot v0 c" by (rule fat_same_derived [OF frame(1)])
    ultimately show ?thesis using True reach v'(3) by (simp add: fat_read_0_slot)
  next
    case False
    then show ?thesis using reach v'(3) frame(7) by simp
  qed
  have "fat_same v v'" using v'(2) by (auto simp: fat_same_def)
  then have "fat_same v0 v'" by (rule fat_same_trans [OF frame(1)])
  then show ?thesis
    using v'(1) two entry by (intro that [of v']) (simp_all add: start free_chain_if_def free_chain_io_def fat_free_chain_def)
qed

text \<open>Creating a file when the root directory is full.\<close>

lemma create_new_file_full:
  assumes "on_disk v d" "fat_root_layout v"
    and "dir_found (fv_human68k v) name (root_slots v d) = None" "\<forall>s\<in>set (root_slots v d). \<not> slot_free s"
    and "length bytes \<le> card (fat_free_set v) * fat_cluster_size v" "length bytes < 2 ^ 32"
  obtains w v1 v2 d1 cs where
    "create_or_replace_file io 0 name bytes options (v, d) = Some (Inl 0x05, (v2, d1))"
    "written v d w v1 d1 cs bytes" "fat_same v v2" "\<And>c. fat_read_entry v2 c = fat_read_entry v c"
    "root_slots v2 d1 = root_slots v d" "on_disk v2 d1"
proof -
  obtain w v1 d1 cs where
    run: "fat_write_loop io bytes (fat_writer_new 0 0, v, d) = Some (Inr (), (w, v1, d1))"
    and written: "written v d w v1 d1 cs bytes"
    using write_loop [OF written_start [OF assms(1)], of bytes] assms(5,6) by auto
  note root = written_root [OF assms(1,2) written]
  obtain v2 where v2: "free_chain_if (fw_start_cluster w) (v1, d1) = Some (Inr (), (v2, d1))" "fat_same v v2"
    "\<And>c. fat_read_entry v2 c = fat_read_entry v c"
    by (rule written_released [OF written]) (rule that)
  have "create_entry io 0 (new_file_entry name options w) (v1, d1) = Some (Inl 0x05, (v1, d1))"
    using assms(4) by (intro create_entry_root_full [OF root(2,3)]) (simp add: root(1))
  then have "create_or_replace_file io 0 name bytes options (v, d) = Some (Inl 0x05, (v2, d1))"
    using find_entry_root [OF assms(1,2), of name] assms(3) run v2(1)
    by (simp add: create_or_replace_file_def io_defs with_new_writer_def fat_write_chunk_def new_file_entry_def)
  moreover have "on_disk v d1"
    using assms(1) written_frame(4,5) [OF written] by (simp add: on_disk_def)
  then have "on_disk v2 d1" using on_disk_same [OF v2(2)] by simp
  moreover have "root_slots v2 d1 = root_slots v d"
    using root(1) root_slots_same [OF v2(2)] root_slots_same [OF written_frame(1) [OF written]] by simp
  ultimately show ?thesis using written v2(2,3) by (intro that) simp_all
qed

text \<open>A file whose clusters are in use keeps its contents.\<close>

lemma written_keeps:
  assumes "on_disk v d" "written v d w v1 d1 cs bytes" "on_disk v1 d2" "length (contents d2) = length (contents d1)"
    and "\<And>p. \<lbrakk>fat_data_start v * sector \<le> p; p < length (contents d)\<rbrakk> \<Longrightarrow> contents d2 ! p = contents d1 ! p"
    and "fat_file_clusters v cs'" "\<forall>c\<in>set cs'. fat_read_entry v c \<noteq> 0"
  shows "fat_file_clusters v1 cs'" "file_bytes v1 d2 cs' = file_bytes v d cs'"
proof -
  note frame = written_frame [OF assms(2)]
  have fresh: "c \<notin> set cs" if "c \<in> set cs'" for c
    using that assms(7) frame(2) by (auto simp: fat_free_set_def)
  have data: "\<forall>c\<in>set cs'. fat_is_data_cluster v c" using assms(6) by (simp add: fat_file_clusters_def)
  have "fat_linked v1 cs' = fat_linked v cs'"
    using fresh frame(7) by (intro fat_linked_cong) (auto dest: in_set_butlastD)
  then show "fat_file_clusters v1 cs'"
    using assms(6) by (simp add: fat_file_clusters_def fat_same_derived [OF frame(1)])
  have lay: "fat_layout sector (length (contents d)) v" using assms(1) by (simp add: on_disk_def)
  have "cluster_data v d2 c = cluster_data v d c" if c: "c \<in> set cs'" for c
  proof -
    have fits: "fat_cluster_start sector v c + fat_cluster_size v \<le> length (contents d)"
      using data c fat_cluster_on_disk(1) [OF lay] by blast
    have "contents d1 ! p = contents d ! p"
      if p: "fat_cluster_start sector v c \<le> p" "p < fat_cluster_start sector v c + fat_cluster_size v" for p
    proof (rule frame(8))
      show "p < length (contents d)" using p fits by simp
      show "\<forall>x\<in>set cs. p \<notin> cluster_range v x"
      proof
        fix x assume x: "x \<in> set cs"
        then have "fat_is_data_cluster v x" "c \<noteq> x" using frame(2) fresh [OF c] by (auto simp: fat_free_set_def)
        then have "fat_cluster_start sector v c + fat_cluster_size v \<le> fat_cluster_start sector v x \<or>
            fat_cluster_start sector v x + fat_cluster_size v \<le> fat_cluster_start sector v c"
          using data c by (intro fat_clusters_apart [OF lay]) auto
        then show "p \<notin> cluster_range v x" using p by (auto simp: cluster_range_def)
      qed
    qed
    then show ?thesis
      using fits assms(4) frame(4)
      unfolding cluster_data_def
      by (intro nth_equalityI) (simp_all add: assms(5) fat_cluster_start_def)
  qed
  then have "file_bytes v d2 cs' = file_bytes v d cs'" by (simp add: file_bytes_def cong: map_cong)
  then show "file_bytes v1 d2 cs' = file_bytes v d cs'"
    by (simp add: file_bytes_same [OF frame(1)])
qed

end

end
