(* ===== verification/Hdd_Image.thy ===== *)
theory Hdd_Image
  imports Disk_Io
begin

text \<open>
  Hard disk images: \<open>device/src/disk.rs\<close> with the formats of \<open>disk/nhd.rs\<close>, \<open>hdi.rs\<close>, \<open>thd.rs\<close>, \<open>raw.rs\<close> and
  \<open>at_flat.rs\<close>, the geometry of the PC-98 IDE BIOS from \<open>disk/pc98_ide.rs\<close>, and the adapter
  \<open>FileImageDiskIo\<close> of \<open>user_interface/src/copy.rs\<close> over a hard disk image.

  Offsets and lengths (\<open>usize\<close>, \<open>u64\<close>) are natural numbers: an offset is at most the product of a
  \<open>u32\<close> and a \<open>u16\<close> plus a \<open>u32\<close>, which 64 bits hold.
\<close>

section \<open>Geometry\<close>

record hdd_geometry =
  hg_cylinders :: u16
  hg_heads :: u8
  hg_sectors_per_track :: u8
  hg_sector_size :: u16

definition hdd_total_sectors :: "hdd_geometry \<Rightarrow> u32" where
  "hdd_total_sectors g = ucast (hg_cylinders g) * ucast (hg_heads g) * ucast (hg_sectors_per_track g)"

definition hdd_total_bytes :: "hdd_geometry \<Rightarrow> nat" where
  "hdd_total_bytes g = unat (hdd_total_sectors g) * unat (hg_sector_size g)"

definition sasi_hdd_types :: "(u8 \<times> u8 \<times> u16) list" where
  "sasi_hdd_types = [(33, 4, 153), (33, 4, 310), (33, 6, 310), (33, 8, 310), (33, 4, 615),
     (33, 6, 615), (33, 8, 615)]"

definition hdd_sasi_media_type :: "hdd_geometry \<Rightarrow> u8 option" where
  "hdd_sasi_media_type g =
     (if hg_sector_size g \<noteq> 256 then None
      else map_option of_nat
        (position (\<lambda>(spt, heads, cylinders). hg_sectors_per_track g = spt \<and> hg_heads g = heads
           \<and> hg_cylinders g = cylinders) sasi_hdd_types))"

definition hdd_sasi_legacy_sense_type :: "hdd_geometry \<Rightarrow> u8 option" where
  "hdd_sasi_legacy_sense_type g =
     map_option (\<lambda>i. [0x00, 0x01, 0x02, 0x03, 0x04, 0x04, 0x05] ! unat i) (hdd_sasi_media_type g)"

definition hdd_sasi_new_sense_type :: "hdd_geometry \<Rightarrow> u8 option" where
  "hdd_sasi_new_sense_type g =
     map_option (\<lambda>i. [0x00, 0x01, 0x02, 0x03, 0x05, 0x05, 0x07] ! unat i) (hdd_sasi_media_type g)"

datatype hdd_format = Hdd_Nhd | Hdd_Hdi | Hdd_Thd | Hdd_Raw | Hdd_AtFlat

record hdd_image =
  img_geometry :: hdd_geometry
  img_format :: hdd_format
  img_data :: "u8 list"
  img_header :: "u8 list"

datatype hdd_error =
    HddTooSmall string nat nat
  | HddInvalidSignature string string
  | HddInvalidGeometry string u32
  | HddDataTruncated nat nat
  | HddUnrecognizedFormat

definition hdd_validate_geometry :: "u32 \<Rightarrow> u32 \<Rightarrow> u32 \<Rightarrow> u16 \<Rightarrow> hdd_error + unit" where
  "hdd_validate_geometry cylinders heads sectors_per_track sector_size =
     (if cylinders = 0 then Inl (HddInvalidGeometry ''cylinders'' cylinders)
      else if heads = 0 then Inl (HddInvalidGeometry ''heads'' heads)
      else if sectors_per_track = 0 then Inl (HddInvalidGeometry ''sectors_per_track'' sectors_per_track)
      else if sector_size = 0 \<or> \<not> is_power_of_two sector_size
      then Inl (HddInvalidGeometry ''sector_size'' (ucast sector_size))
      else Inr ())"

section \<open>Headers\<close>

definition nhd_signature :: "u8 list" where
  "nhd_signature = [0x54, 0x39, 0x38, 0x48, 0x44, 0x44, 0x49, 0x4D, 0x41, 0x47, 0x45, 0x2E, 0x52, 0x30, 0]"

definition nhd_synth_header :: "hdd_geometry \<Rightarrow> u8 list" where
  "nhd_synth_header g =
     copy_into 0x11C (u16_to_le_bytes (hg_sector_size g))
       (copy_into 0x11A (u16_to_le_bytes (ucast (hg_sectors_per_track g)))
       (copy_into 0x118 (u16_to_le_bytes (ucast (hg_heads g)))
       (copy_into 0x114 (u32_to_le_bytes (ucast (hg_cylinders g)))
       (copy_into 0x110 (u32_to_le_bytes 512)
       (copy_into 0 nhd_signature (replicate 512 0))))))"

definition hdi_synth_header :: "hdd_geometry \<Rightarrow> u8 list" where
  "hdi_synth_header g =
     copy_into 28 (u32_to_le_bytes (ucast (hg_cylinders g)))
       (copy_into 24 (u32_to_le_bytes (ucast (hg_heads g)))
       (copy_into 20 (u32_to_le_bytes (ucast (hg_sectors_per_track g)))
       (copy_into 16 (u32_to_le_bytes (ucast (hg_sector_size g)))
       (copy_into 12 (u32_to_le_bytes (hdd_total_sectors g))
       (copy_into 8 (u32_to_le_bytes 32) (replicate 32 0))))))"

definition thd_synth_header :: "hdd_geometry \<Rightarrow> u8 list" where
  "thd_synth_header g = copy_into 0 (u16_to_le_bytes (hg_cylinders g)) (replicate 256 0)"

definition hdd_synthesize_default_header :: "hdd_format \<Rightarrow> hdd_geometry \<Rightarrow> u8 list" where
  "hdd_synthesize_default_header format g =
     (case format of
        Hdd_Nhd \<Rightarrow> nhd_synth_header g
      | Hdd_Hdi \<Rightarrow> hdi_synth_header g
      | Hdd_Thd \<Rightarrow> thd_synth_header g
      | Hdd_Raw \<Rightarrow> []
      | Hdd_AtFlat \<Rightarrow> [])"

definition hdd_from_raw :: "hdd_geometry \<Rightarrow> hdd_format \<Rightarrow> u8 list \<Rightarrow> hdd_image" where
  "hdd_from_raw g format bytes =
     \<lparr> img_geometry = g, img_format = format, img_data = bytes,
       img_header = hdd_synthesize_default_header format g \<rparr>"

section \<open>Parsers\<close>

text \<open>The end of \<open>from_nhd\<close>, \<open>from_hdi\<close> and \<open>from_thd\<close>: the data of the geometry behind the header.\<close>

definition hdd_take_data :: "hdd_format \<Rightarrow> hdd_geometry \<Rightarrow> nat \<Rightarrow> u8 list \<Rightarrow> hdd_error + hdd_image" where
  "hdd_take_data format g start bytes =
     (let expected = hdd_total_bytes g in
      if length bytes < start + expected then Inl (HddDataTruncated (start + expected) (length bytes))
      else Inr \<lparr> img_geometry = g, img_format = format, img_data = take expected (drop start bytes),
                 img_header = take start bytes \<rparr>)"

definition hdd_from_nhd :: "u8 list \<Rightarrow> hdd_error + hdd_image" where
  "hdd_from_nhd bytes =
     (if length bytes < 512 then Inl (HddTooSmall ''NHD'' 512 (length bytes))
      else if take 15 bytes \<noteq> nhd_signature then Inl (HddInvalidSignature ''NHD'' ''T98HDDIMAGE.R0'')
      else
        let header_size = u32_at 0x110 bytes; cylinders = u32_at 0x114 bytes;
            heads = u16_at 0x118 bytes; sectors_per_track = u16_at 0x11A bytes;
            sector_size = u16_at 0x11C bytes in
        case hdd_validate_geometry cylinders (ucast heads) (ucast sectors_per_track) sector_size of
          Inl e \<Rightarrow> Inl e
        | Inr _ \<Rightarrow>
            hdd_take_data Hdd_Nhd
              \<lparr> hg_cylinders = ucast cylinders, hg_heads = ucast heads,
                hg_sectors_per_track = ucast sectors_per_track, hg_sector_size = sector_size \<rparr>
              (unat header_size) bytes)"

definition hdd_from_hdi :: "u8 list \<Rightarrow> hdd_error + hdd_image" where
  "hdd_from_hdi bytes =
     (if length bytes < 32 then Inl (HddTooSmall ''HDI'' 32 (length bytes))
      else
        let header_size = u32_at 8 bytes; sector_size = u32_at 16 bytes;
            sectors_per_track = u32_at 20 bytes; heads = u32_at 24 bytes; cylinders = u32_at 28 bytes in
        case hdd_validate_geometry cylinders heads sectors_per_track (ucast sector_size) of
          Inl e \<Rightarrow> Inl e
        | Inr _ \<Rightarrow>
            hdd_take_data Hdd_Hdi
              \<lparr> hg_cylinders = ucast cylinders, hg_heads = ucast heads,
                hg_sectors_per_track = ucast sectors_per_track, hg_sector_size = ucast sector_size \<rparr>
              (unat header_size) bytes)"

definition hdd_from_thd :: "u8 list \<Rightarrow> hdd_error + hdd_image" where
  "hdd_from_thd bytes =
     (if length bytes < 256 then Inl (HddTooSmall ''THD'' 256 (length bytes))
      else
        let cylinders = u16_at 0 bytes in
        if cylinders = 0 then Inl (HddInvalidGeometry ''cylinders'' (ucast cylinders))
        else hdd_take_data Hdd_Thd
               \<lparr> hg_cylinders = cylinders, hg_heads = 8, hg_sectors_per_track = 33, hg_sector_size = 256 \<rparr>
               256 bytes)"

definition hdd_from_raw_flat :: "u8 list \<Rightarrow> hdd_error + hdd_image" where
  "hdd_from_raw_flat bytes =
     (let cylinder_bytes = 8 * 32 * 512; cylinders = length bytes div cylinder_bytes in
      if bytes = [] \<or> length bytes mod cylinder_bytes \<noteq> 0
      then Inl (HddInvalidGeometry ''raw image size (must be a nonzero multiple of 128 KiB)''
             (of_nat (length bytes)))
      else if 65535 < cylinders then Inl (HddInvalidGeometry ''raw image cylinders'' (of_nat cylinders))
      else Inr (hdd_from_raw
             \<lparr> hg_cylinders = of_nat cylinders, hg_heads = 8, hg_sectors_per_track = 32,
               hg_sector_size = 512 \<rparr> Hdd_Raw bytes))"

definition hdd_from_at_flat :: "u8 list \<Rightarrow> hdd_error + hdd_image" where
  "hdd_from_at_flat bytes =
     (let cylinder_bytes = 16 * 63 * 512; cylinders = length bytes div cylinder_bytes in
      if bytes = [] \<or> length bytes mod cylinder_bytes \<noteq> 0
      then Inl (HddInvalidGeometry ''AT flat image size (must be a nonzero multiple of 504 KiB)''
             (of_nat (length bytes)))
      else if 1023 < cylinders
      then Inl (HddInvalidGeometry ''AT flat image cylinders (the CHS ceiling is 1023)'' (of_nat cylinders))
      else Inr (hdd_from_raw
             \<lparr> hg_cylinders = of_nat cylinders, hg_heads = 16, hg_sectors_per_track = 63,
               hg_sector_size = 512 \<rparr> Hdd_AtFlat bytes))"

text \<open>
  \<open>load_hdd_image\<close>. Its path argument is the extension of the path, lower-cased, as bytes of text.
\<close>

definition load_hdd_image :: "string option \<Rightarrow> u8 list \<Rightarrow> hdd_error + hdd_image" where
  "load_hdd_image extension bytes =
     (if 15 \<le> length bytes \<and> take 15 bytes = nhd_signature then hdd_from_nhd bytes
      else case extension of
        None \<Rightarrow> Inl HddUnrecognizedFormat
      | Some e \<Rightarrow>
          if e = ''nhd'' then hdd_from_nhd bytes
          else if e = ''hdi'' then hdd_from_hdi bytes
          else if e = ''thd'' then hdd_from_thd bytes
          else if e \<in> {''h0'', ''h1'', ''h2'', ''h3'', ''h4''} then hdd_from_raw_flat bytes
          else if e = ''hdd'' then hdd_from_at_flat bytes
          else Inl HddUnrecognizedFormat)"

definition hdd_to_bytes :: "hdd_image \<Rightarrow> u8 list" where
  "hdd_to_bytes im = img_header im @ img_data im"

section \<open>Sectors\<close>

definition hdd_read_sector :: "hdd_image \<Rightarrow> u32 \<Rightarrow> u8 list option" where
  "hdd_read_sector im lba =
     (let ss = unat (hg_sector_size (img_geometry im)); offset = unat lba * ss in
      if hdd_total_sectors (img_geometry im) \<le> lba then None
      else if length (img_data im) < offset + ss then None
      else Some (take ss (drop offset (img_data im))))"

definition hdd_write_sector :: "u32 \<Rightarrow> u8 list \<Rightarrow> hdd_image \<Rightarrow> bool \<times> hdd_image" where
  "hdd_write_sector lba bytes im =
     (let ss = unat (hg_sector_size (img_geometry im)); offset = unat lba * ss in
      if hdd_total_sectors (img_geometry im) \<le> lba then (False, im)
      else if length bytes \<noteq> ss then (False, im)
      else if length (img_data im) < offset + ss then (False, im)
      else (True, im\<lparr> img_data := copy_into offset bytes (img_data im) \<rparr>))"

fun hdd_format_sectors :: "u32 \<Rightarrow> nat \<Rightarrow> hdd_image \<Rightarrow> bool \<times> hdd_image" where
  "hdd_format_sectors lba 0 im = (True, im)"
| "hdd_format_sectors lba (Suc n) im =
     (let ss = unat (hg_sector_size (img_geometry im)); offset = unat lba * ss in
      if hdd_total_sectors (img_geometry im) \<le> lba then (False, im)
      else if length (img_data im) < offset + ss then (False, im)
      else hdd_format_sectors (lba + 1) n
             (im\<lparr> img_data := copy_into offset (replicate ss 0xE5) (img_data im) \<rparr>))"

definition hdd_format_track :: "u32 \<Rightarrow> u8 \<Rightarrow> hdd_image \<Rightarrow> bool \<times> hdd_image" where
  "hdd_format_track start_lba sectors_per_track im =
     hdd_format_sectors start_lba (unat sectors_per_track) im"

end
