(* ===== verification/Hdd_Disk.thy ===== *)
theory Hdd_Disk
  imports Hdd_Image
begin

text \<open>
  Hard disk images behind the interfaces that use them: \<open>FileImageDiskIo\<close> of
  \<open>user_interface/src/copy.rs\<close>, which gives the file system an image file (for a hard disk image;
  its floppy variant is not modelled), and \<open>MountedHdd\<close> of \<open>device/src/disk.rs\<close>, an image bound
  to its file. The adapter is an instance of \<open>flat_disk\<close> for every sector size.
\<close>

section \<open>The adapter for the file system\<close>

definition ide_bios_geometry :: "hdd_geometry \<Rightarrow> hdd_geometry" where
  "ide_bios_geometry g =
     (if hg_sector_size g \<noteq> 512 then g
      else \<lparr> hg_cylinders = ucast (min (hdd_total_sectors g div 136) 65535), hg_heads = 8,
             hg_sectors_per_track = 17, hg_sector_size = 512 \<rparr>)"

definition is_ide_image_format :: "hdd_format \<Rightarrow> bool" where
  "is_ide_image_format f = (case f of Hdd_Nhd \<Rightarrow> True | Hdd_Hdi \<Rightarrow> True | Hdd_Thd \<Rightarrow> False
     | Hdd_Raw \<Rightarrow> False | Hdd_AtFlat \<Rightarrow> False)"

definition hdd_chs_geometry :: "hdd_image \<Rightarrow> hdd_geometry" where
  "hdd_chs_geometry im =
     (if is_ide_image_format (img_format im) then ide_bios_geometry (img_geometry im)
      else img_geometry im)"

record file_image_disk =
  fid_image :: hdd_image
  fid_drive_da :: u8

fun file_image_read_from :: "hdd_image \<Rightarrow> u32 \<Rightarrow> nat \<Rightarrow> u8 + u8 list" where
  "file_image_read_from im lba 0 = Inr []"
| "file_image_read_from im lba (Suc n) =
     (case hdd_read_sector im lba of
        None \<Rightarrow> Inl 0x40
      | Some bytes \<Rightarrow>
          (case file_image_read_from im (lba + 1) n of
             Inl e \<Rightarrow> Inl e
           | Inr rest \<Rightarrow> Inr (bytes @ rest)))"

definition file_image_read_sectors ::
  "u8 \<Rightarrow> u32 \<Rightarrow> u32 \<Rightarrow> (file_image_disk, u8 list) disk_call" where
  "file_image_read_sectors da lba count d =
     Some (if da \<noteq> fid_drive_da d then Inl 0x40
           else file_image_read_from (fid_image d) lba (unat count), d)"

fun file_image_write_from ::
  "u32 \<Rightarrow> nat \<Rightarrow> nat \<Rightarrow> u8 list \<Rightarrow> hdd_image \<Rightarrow> (u8 + unit) \<times> hdd_image" where
  "file_image_write_from lba ss 0 bytes im = (Inr (), im)"
| "file_image_write_from lba ss (Suc n) bytes im =
     (case hdd_write_sector lba (take ss bytes) im of
        (False, im') \<Rightarrow> (Inl 0x40, im')
      | (True, im') \<Rightarrow> file_image_write_from (lba + 1) ss n (drop ss bytes) im')"

definition file_image_write_sectors ::
  "u8 \<Rightarrow> u32 \<Rightarrow> u8 list \<Rightarrow> (file_image_disk, unit) disk_call" where
  "file_image_write_sectors da lba bytes d =
     (let ss = unat (hg_sector_size (img_geometry (fid_image d))) in
      if da \<noteq> fid_drive_da d then Some (Inl 0x40, d)
      else if ss = 0 then (if bytes = [] then None else Some (Inl 0x40, d))
      else if length bytes mod ss \<noteq> 0 then Some (Inl 0x40, d)
      else
        let (r, im) = file_image_write_from lba ss (length bytes div ss) bytes (fid_image d) in
        Some (r, d\<lparr> fid_image := im \<rparr>))"

definition file_image_disk_io :: "file_image_disk disk_io" where
  "file_image_disk_io =
     \<lparr> io_read_sectors = file_image_read_sectors,
       io_write_sectors = file_image_write_sectors,
       io_sector_size = (\<lambda>da d. if da \<noteq> fid_drive_da d then None
          else Some (hg_sector_size (img_geometry (fid_image d)))),
       io_total_sectors = (\<lambda>da d. if da \<noteq> fid_drive_da d then None
          else Some (hdd_total_sectors (img_geometry (fid_image d)))),
       io_drive_geometry = (\<lambda>da d. if da \<noteq> fid_drive_da d then None
          else let g = hdd_chs_geometry (fid_image d) in
            Some (hg_cylinders g, hg_heads g, hg_sectors_per_track g)) \<rparr>"

section \<open>An image bound to its file\<close>

text \<open>
  The file behind a mount is an argument: \<open>write_at\<close> writes bytes at an offset of the file and
  reports success, \<open>replace_all\<close> replaces the file, \<open>flush_file\<close> empties its buffers. A mount
  without a file has no backend; the reason why a file could not be opened is not kept.
\<close>

record 'b disk_backend =
  backend_write_at :: "nat \<Rightarrow> u8 list \<Rightarrow> 'b \<Rightarrow> bool \<times> 'b"
  backend_replace_atomic :: "u8 list \<Rightarrow> 'b \<Rightarrow> bool \<times> 'b"
  backend_flush :: "'b \<Rightarrow> bool \<times> 'b"

record 'b mounted_hdd =
  mh_image :: hdd_image
  mh_backend :: "'b option"
  mh_unwritable :: bool
  mh_dirty :: bool
  mh_read_only :: bool

definition mh_read_sector :: "'b mounted_hdd \<Rightarrow> u32 \<Rightarrow> u8 list option" where
  "mh_read_sector m lba = hdd_read_sector (mh_image m) lba"

text \<open>The common end of \<open>write_sector\<close> and \<open>format_track\<close>: write through, or mark the image dirty.\<close>

definition mh_write_through ::
  "'b disk_backend \<Rightarrow> nat \<Rightarrow> u8 list \<Rightarrow> 'b mounted_hdd \<Rightarrow> 'b mounted_hdd" where
  "mh_write_through be offset bytes m =
     (case mh_backend m of
        None \<Rightarrow> m\<lparr> mh_dirty := True \<rparr>
      | Some b \<Rightarrow>
          (case backend_write_at be offset bytes b of
             (True, b') \<Rightarrow> m\<lparr> mh_backend := Some b' \<rparr>
           | (False, b') \<Rightarrow> m\<lparr> mh_backend := Some b', mh_dirty := True \<rparr>))"

definition mh_write_sector ::
  "'b disk_backend \<Rightarrow> u32 \<Rightarrow> u8 list \<Rightarrow> 'b mounted_hdd \<Rightarrow> bool \<times> 'b mounted_hdd" where
  "mh_write_sector be lba bytes m =
     (if mh_read_only m then (True, m)
      else case hdd_write_sector lba bytes (mh_image m) of
        (False, im) \<Rightarrow> (False, m\<lparr> mh_image := im \<rparr>)
      | (True, im) \<Rightarrow>
          (True, mh_write_through be
             (length (img_header im) + unat lba * unat (hg_sector_size (img_geometry im))) bytes
             (m\<lparr> mh_image := im \<rparr>)))"

definition mh_format_track ::
  "'b disk_backend \<Rightarrow> u32 \<Rightarrow> u8 \<Rightarrow> 'b mounted_hdd \<Rightarrow> bool \<times> 'b mounted_hdd" where
  "mh_format_track be start_lba sectors_per_track m =
     (if mh_read_only m then (True, m)
      else case hdd_format_track start_lba sectors_per_track (mh_image m) of
        (False, im) \<Rightarrow> (False, m\<lparr> mh_image := im \<rparr>)
      | (True, im) \<Rightarrow>
          (let ss = unat (hg_sector_size (img_geometry im)) in
           (True, mh_write_through be (length (img_header im) + unat start_lba * ss)
              (replicate (unat sectors_per_track * ss) 0xE5) (m\<lparr> mh_image := im \<rparr>))))"

definition mh_flush_if_dirty :: "'b disk_backend \<Rightarrow> 'b mounted_hdd \<Rightarrow> bool \<times> 'b mounted_hdd" where
  "mh_flush_if_dirty be m =
     (if \<not> mh_dirty m then (True, m)
      else case mh_backend m of
        None \<Rightarrow> (\<not> mh_unwritable m, m)
      | Some b \<Rightarrow>
          (case backend_replace_atomic be (hdd_to_bytes (mh_image m)) b of
             (False, b') \<Rightarrow> (False, m\<lparr> mh_backend := Some b' \<rparr>)
           | (True, b') \<Rightarrow> (True, m\<lparr> mh_backend := Some b', mh_dirty := False \<rparr>)))"

definition mh_flush :: "'b disk_backend \<Rightarrow> 'b mounted_hdd \<Rightarrow> bool \<times> 'b mounted_hdd" where
  "mh_flush be m =
     (let (dirty_ok, m1) = mh_flush_if_dirty be m in
      case mh_backend m1 of
        None \<Rightarrow> (dirty_ok, m1)
      | Some b \<Rightarrow>
          (case backend_flush be b of
             (True, b') \<Rightarrow> (dirty_ok, m1\<lparr> mh_backend := Some b' \<rparr>)
           | (False, b') \<Rightarrow> (False, m1\<lparr> mh_backend := Some b', mh_dirty := True \<rparr>)))"

section \<open>The contract of a flat disk\<close>

definition file_image_good :: "nat \<Rightarrow> file_image_disk \<Rightarrow> bool" where
  "file_image_good n d \<longleftrightarrow> fid_drive_da d = 0x80 \<and> unat (hg_sector_size (img_geometry (fid_image d))) = n
     \<and> length (img_data (fid_image d)) = hdd_total_bytes (img_geometry (fid_image d))"

definition file_image_contents :: "file_image_disk \<Rightarrow> u8 list" where
  "file_image_contents d = img_data (fid_image d)"

lemma unat_add_1_u32: "unat (w :: u32) + 1 < 2 ^ 32 \<Longrightarrow> unat (w + 1) = unat w + 1"
  by (simp add: unat_word_ariths)

lemma hdd_total_sectors_less: "unat (hdd_total_sectors g) < 2 ^ 32"
  using unsigned_less [of "hdd_total_sectors g", where ?'a = nat] by simp

text \<open>An access that fits in an image with all its data is within the sector count.\<close>

lemma hdd_fits:
  assumes "length (img_data im) = hdd_total_bytes (img_geometry im)"
    and "n = unat (hg_sector_size (img_geometry im))" "0 < n"
    and "(unat lba + k) * n \<le> length (img_data im)"
  shows "unat lba + k \<le> unat (hdd_total_sectors (img_geometry im))"
  using assms by (simp add: hdd_total_bytes_def)

lemma hdd_read_sector_in:
  assumes "length (img_data im) = hdd_total_bytes (img_geometry im)"
    and "n = unat (hg_sector_size (img_geometry im))" "0 < n"
    and "(unat lba + 1) * n \<le> length (img_data im)"
  shows "hdd_read_sector im lba = Some (take n (drop (unat lba * n) (img_data im)))"
proof -
  have "unat lba + 1 \<le> unat (hdd_total_sectors (img_geometry im))"
    by (rule hdd_fits [OF assms])
  then have "\<not> hdd_total_sectors (img_geometry im) \<le> lba"
    by (simp add: word_le_nat_alt)
  then show ?thesis
    using assms(2,4) by (simp add: hdd_read_sector_def Let_def add.commute)
qed

lemma hdd_write_sector_in:
  assumes "length (img_data im) = hdd_total_bytes (img_geometry im)"
    and "n = unat (hg_sector_size (img_geometry im))" "0 < n"
    and "(unat lba + 1) * n \<le> length (img_data im)" and "length bytes = n"
  shows "hdd_write_sector lba bytes im =
    (True, im\<lparr> img_data := copy_into (unat lba * n) bytes (img_data im) \<rparr>)"
proof -
  have "unat lba + 1 \<le> unat (hdd_total_sectors (img_geometry im))"
    by (rule hdd_fits [OF assms(1-4)])
  then have "\<not> hdd_total_sectors (img_geometry im) \<le> lba"
    by (simp add: word_le_nat_alt)
  then show ?thesis
    using assms(2,4,5) by (simp add: hdd_write_sector_def Let_def add.commute)
qed

lemma file_image_read_from_in:
  assumes "length (img_data im) = hdd_total_bytes (img_geometry im)"
    and "n = unat (hg_sector_size (img_geometry im))" "0 < n"
    and "(unat lba + k) * n \<le> length (img_data im)"
  shows "file_image_read_from im lba k = Inr (take (k * n) (drop (unat lba * n) (img_data im)))"
  using assms(4)
proof (induction k arbitrary: lba)
  case (Suc k)
  have fits: "unat lba + Suc k \<le> unat (hdd_total_sectors (img_geometry im))"
    by (rule hdd_fits [OF assms(1-3) Suc.prems])
  have one: "(unat lba + 1) * n \<le> length (img_data im)"
    using Suc.prems by (rule le_trans [rotated]) (simp add: mult_le_mono1)
  show ?case
  proof (cases k)
    case 0
    then show ?thesis
      by (simp add: hdd_read_sector_in [OF assms(1-3) one])
  next
    case (Suc j)
    have nxt: "unat (lba + 1) = unat lba + 1"
      using fits hdd_total_sectors_less [of "img_geometry im"] Suc by (intro unat_add_1_u32) linarith
    have "file_image_read_from im (lba + 1) k =
        Inr (take (k * n) (drop ((unat lba + 1) * n) (img_data im)))"
      using Suc.IH [of "lba + 1"] \<open>(unat lba + Suc k) * n \<le> _\<close> by (simp add: nxt)
    then show ?thesis
      by (simp add: hdd_read_sector_in [OF assms(1-3) one] take_add add.commute)
  qed
qed simp

lemma file_image_write_from_in:
  assumes "length (img_data im) = hdd_total_bytes (img_geometry im)"
    and "n = unat (hg_sector_size (img_geometry im))" "0 < n"
    and "(unat lba + k) * n \<le> length (img_data im)" and "length bytes = k * n"
  shows "file_image_write_from lba n k bytes im =
    (Inr (), im\<lparr> img_data := copy_into (unat lba * n) bytes (img_data im) \<rparr>)"
  using assms
proof (induction k arbitrary: lba bytes im)
  case (Suc k)
  let ?im = "im\<lparr> img_data := copy_into (unat lba * n) (take n bytes) (img_data im) \<rparr>"
  have fits: "unat lba + Suc k \<le> unat (hdd_total_sectors (img_geometry im))"
    by (rule hdd_fits [OF Suc.prems(1-4)])
  have one: "(unat lba + 1) * n \<le> length (img_data im)"
    using Suc.prems(4) by (rule le_trans [rotated]) (simp add: mult_le_mono1)
  have step: "hdd_write_sector lba (take n bytes) im = (True, ?im)"
    using Suc.prems(5) by (intro hdd_write_sector_in [OF Suc.prems(1-3) one]) simp
  show ?case
  proof (cases k)
    case 0
    then show ?thesis
      using Suc.prems(5) step by simp
  next
    case (Suc j)
    have nxt: "unat (lba + 1) = unat lba + 1" "unat (1 + lba) = unat lba + 1"
      using fits hdd_total_sectors_less [of "img_geometry im"] Suc unat_add_1_u32 [of lba]
      by (simp_all add: add.commute)
    have len: "length (copy_into (unat lba * n) (take n bytes) (img_data im)) = length (img_data im)"
      using one Suc.prems(5) by (simp add: add.commute)
    have "file_image_write_from (lba + 1) n k (drop n bytes) ?im =
        (Inr (), ?im\<lparr> img_data := copy_into (unat lba * n + n) (drop n bytes) (img_data ?im) \<rparr>)"
      using Suc.prems(1-3,5) \<open>(unat lba + Suc k) * n \<le> _\<close> len
      by (subst Suc.IH) (simp_all add: nxt algebra_simps)
    moreover have "copy_into (unat lba * n + n) (drop n bytes) (img_data ?im) =
        copy_into (unat lba * n) bytes (img_data im)"
      using Suc.prems(4,5) by (simp add: copy_into_split add_mult_distrib)
    ultimately show ?thesis
      using step by simp
  qed
qed simp

lemma file_image_flat_disk:
  assumes "0 < n" "n < 65536"
  shows "flat_disk file_image_disk_io 0x80 n (file_image_good n) file_image_contents"
proof
  fix lba count :: u32 and d assume good: "file_image_good n d"
    and fits: "(unat lba + unat count) * n \<le> length (file_image_contents d)"
  then show "io_read_sectors file_image_disk_io 0x80 lba count d =
      Some (Inr (take (unat count * n) (drop (unat lba * n) (file_image_contents d))), d)"
    using assms
    by (simp add: file_image_disk_io_def file_image_read_sectors_def file_image_good_def
        file_image_contents_def file_image_read_from_in)
next
  fix lba :: u32 and bytes :: "u8 list" and k d assume good: "file_image_good n d"
    and len: "length bytes = k * n" and fits: "(unat lba + k) * n \<le> length (file_image_contents d)"
  let ?im = "(fid_image d)\<lparr> img_data := copy_into (unat lba * n) bytes (img_data (fid_image d)) \<rparr>"
  have "io_write_sectors file_image_disk_io 0x80 lba bytes d = Some (Inr (), d\<lparr> fid_image := ?im \<rparr>)"
    using good len fits assms
    by (simp add: file_image_disk_io_def file_image_write_sectors_def file_image_good_def
        file_image_contents_def file_image_write_from_in)
  moreover have "length (img_data ?im) = length (img_data (fid_image d))"
    using fits len by (simp add: file_image_contents_def add_mult_distrib)
  ultimately show "\<exists>d'. io_write_sectors file_image_disk_io 0x80 lba bytes d = Some (Inr (), d') \<and>
      file_image_good n d' \<and> file_image_contents d' = copy_into (unat lba * n) bytes (file_image_contents d)"
    using good by (intro exI [of _ "d\<lparr> fid_image := ?im \<rparr>"])
      (simp add: file_image_good_def file_image_contents_def)
next
  fix d assume "file_image_good n d"
  then show "io_sector_size file_image_disk_io 0x80 d = Some (of_nat n)"
    by (auto simp: file_image_disk_io_def file_image_good_def)
  show "length (file_image_contents d) \<le> 2 ^ 32 * n"
    using \<open>file_image_good n d\<close> hdd_total_sectors_less [of "img_geometry (fid_image d)"]
    by (auto simp: file_image_good_def file_image_contents_def hdd_total_bytes_def)
qed (use assms in auto)

text \<open>Images of the SASI drives have sectors of 256 bytes.\<close>

interpretation sasi_image: flat_disk file_image_disk_io "0x80" 256 "file_image_good 256" file_image_contents
  by (rule file_image_flat_disk) simp_all

end
