(* ===== verification/Fat_Mount.thy ===== *)
theory Fat_Mount
  imports Fat_Layout Fat_Create Fat_Content Hdd_Disk
begin

text \<open>
  Mounting a volume of a hard disk image: what a successful \<open>mount\<close> has read and established, and
  that a mount after a flush sees the FAT that was flushed.
\<close>

text \<open>
  Images of the IDE drives have sectors of 512 bytes. The interpretation brings the lemmas about
  clusters, files and the FAT to them.
\<close>

interpretation ide_image: flat_disk file_image_disk_io "0x80" 512 "file_image_good 512" file_image_contents
  by (rule file_image_flat_disk) simp_all

section \<open>Reads of an image\<close>

lemma file_image_read_from_length:
  "file_image_read_from im lba n = Inr bytes \<Longrightarrow>
   length bytes = n * unat (hg_sector_size (img_geometry im))"
  by (induction n arbitrary: lba bytes)
    (auto simp: hdd_read_sector_def Let_def split: option.splits sum.splits if_splits)

lemma file_image_read_sectors_Some:
  assumes "io_read_sectors file_image_disk_io da lba count d = Some (r, d')"
  shows "d' = d" and "r = Inr bytes \<Longrightarrow>
    length bytes = unat count * unat (hg_sector_size (img_geometry (fid_image d)))"
  using assms file_image_read_from_length [of "fid_image d" lba "unat count" bytes]
  by (auto simp: file_image_disk_io_def file_image_read_sectors_def split: if_splits)

lemma io_disk_read_Some:
  assumes "io_disk (io_read_sectors file_image_disk_io da lba count) d = Some (Inr bytes, d')"
  shows "d' = d \<and> length bytes = unat count * unat (hg_sector_size (img_geometry (fid_image d)))"
proof -
  obtain r where r: "io_read_sectors file_image_disk_io da lba count d = Some (r, d')"
      "(case r of Inl e \<Rightarrow> Inl 0x1F | Inr x \<Rightarrow> Inr x) = (Inr bytes :: u16 + u8 list)"
    using assms by (auto simp: io_disk_def io_map_err_def)
  then have "r = Inr bytes" by (cases r) auto
  then show ?thesis using file_image_read_sectors_Some [OF r(1)] by simp
qed

lemma io_read_only:
  "io_gets f d = Some (r, d') \<Longrightarrow> d' = d" "io_expect x d = Some (r, d') \<Longrightarrow> d' = d"
  "io_ok_or e x d = Some (r, d') \<Longrightarrow> d' = d" "io_return y d = Some (r, d') \<Longrightarrow> d' = d"
  by (auto simp: io_defs split: option.splits)

lemma fat_read_boot_record_read_only:
  assumes "fat_read_boot_record file_image_disk_io dev offset physical d = Some (Inr r, d')"
  shows "d' = d"
proof -
  obtain count s result s' where
    cnt: "io_expect (div_ceil 512 (ucast physical)) d = Some (Inr count :: u16 + u32, s)"
    and att: "io_attempt (io_disk (io_read_sectors file_image_disk_io dev offset count)) s = Some (Inr result :: u16 + (u16 + u8 list), s')"
    and ret: "io_return (case result of Inl _ \<Rightarrow> None | Inr bytes \<Rightarrow> Some bytes) s' = Some (Inr r :: u16 + u8 list option, d')"
    using assms by (auto simp: fat_read_boot_record_def io_bind_eq_Some_iff)
  have "s' = s"
    using att by (auto simp: io_attempt_def io_disk_def io_map_err_def dest: file_image_read_sectors_Some(1))
  then show ?thesis
    using io_read_only(2) [OF cnt] io_read_only(4) [OF ret] by simp
qed

lemma fat_select_bpb_read_only:
  assumes "fat_select_bpb file_image_disk_io dev offset geometry physical boot_record d = Some (Inr b, d')"
  shows "d' = d"
proof -
  have supported: "fat_supported_bpb x physical s = Some (Inr b, t) \<Longrightarrow> t = s"
    for x and s t :: file_image_disk
    by (auto simp: fat_supported_bpb_def io_bind_eq_Some_iff io_return_def io_fail_def io_expect_def
        split: option.splits if_splits)
  have default: "fat_validated_default_bpb file_image_disk_io dev offset physical x s = Some (Inr b, t) \<Longrightarrow> t = s"
    for x s t
    by (auto simp: fat_validated_default_bpb_def io_bind_eq_Some_iff io_return_def io_fail_def io_gets_def
        dest!: io_disk_read_Some io_read_only split: if_splits prod.splits)
  have towns: "fat_fm_towns_floppy_bpb file_image_disk_io dev offset physical s = Some (Inr b, t) \<Longrightarrow> t = s"
    for s t
    by (auto simp: fat_fm_towns_floppy_bpb_def io_bind_eq_Some_iff io_return_def io_fail_def io_gets_def
        dest!: io_disk_read_Some io_read_only split: if_splits prod.splits)
  show ?thesis
    using assms
    by (auto simp: fat_select_bpb_def io_bind_eq_Some_iff
        dest!: supported default towns io_read_only
        split: bpb_source.splits option.splits)
qed

section \<open>The result of mounting\<close>

lemma fat_mount_Some:
  assumes "fat_mount file_image_disk_io dev offset g d = Some (Inr v, d')"
  obtains physical record1 b ratio first_data count fat16 fat where
    "d' = d" "io_sector_size file_image_disk_io dev d = Some physical"
    "fat_read_boot_record file_image_disk_io dev offset physical d = Some (Inr record1, d)"
    "fat_select_bpb file_image_disk_io dev offset g physical record1 d = Some (Inr b, d)"
    "checked_div (ucast (bpb_bytes_per_sector b)) (ucast physical) = Some ratio"
    "bpb_first_data_sector b = Some first_data" "bpb_data_cluster_count b = Some count"
    "bpb_is_fat16 b = Some fat16"
    "io_disk (io_read_sectors file_image_disk_io dev (offset + ucast (bpb_reserved_sectors b) * ratio)
       (ucast (bpb_sectors_per_fat b) * ratio)) d = Some (Inr fat, d)"
    "v = \<lparr> fv_device_id = dev, fv_partition_offset = offset, fv_bpb = b,
         fv_first_root_sector = bpb_first_root_sector b, fv_first_data_sector = first_data,
         fv_data_cluster_count = count, fv_is_fat16 = fat16, fv_fat_cache = fat,
         fv_fat_dirty = False, fv_sector_ratio = ratio,
         fv_human68k = (case record1 of None \<Rightarrow> False | Some record \<Rightarrow> is_human68k_boot_sector record) \<rparr>"
proof -
  obtain reported s0 physical s1 record1 s2 b s3 ratio s4 first_data s5 count s6 fat16 s7 fat s8 where
    steps: "io_gets (io_sector_size file_image_disk_io dev) d = Some (Inr reported :: u16 + u16 option, s0)"
    "io_ok_or (0x1F :: u16) reported s0 = Some (Inr physical, s1)"
    "fat_read_boot_record file_image_disk_io dev offset physical s1 = Some (Inr record1, s2)"
    "fat_select_bpb file_image_disk_io dev offset g physical record1 s2 = Some (Inr b, s3)"
    "io_expect (checked_div (ucast (bpb_bytes_per_sector b)) (ucast physical)) s3 = Some (Inr ratio :: u16 + u32, s4)"
    "io_expect (bpb_first_data_sector b) s4 = Some (Inr first_data :: u16 + u32, s5)"
    "io_expect (bpb_data_cluster_count b) s5 = Some (Inr count :: u16 + u32, s6)"
    "io_expect (bpb_is_fat16 b) s6 = Some (Inr fat16 :: u16 + bool, s7)"
    "io_disk (io_read_sectors file_image_disk_io dev (offset + ucast (bpb_reserved_sectors b) * ratio)
       (ucast (bpb_sectors_per_fat b) * ratio)) s7 = Some (Inr fat, s8)"
    "io_return \<lparr> fv_device_id = dev, fv_partition_offset = offset, fv_bpb = b,
         fv_first_root_sector = bpb_first_root_sector b, fv_first_data_sector = first_data,
         fv_data_cluster_count = count, fv_is_fat16 = fat16, fv_fat_cache = fat,
         fv_fat_dirty = False, fv_sector_ratio = ratio,
         fv_human68k = (case record1 of None \<Rightarrow> False | Some record \<Rightarrow> is_human68k_boot_sector record)
       \<rparr> s8 = Some (Inr v :: u16 + fat_volume, d')"
    using assms unfolding fat_mount_def io_bind_eq_Some_iff by blast
  have same: "s0 = d" "s1 = s0" "s2 = s1" "s3 = s2" "s4 = s3" "s5 = s4" "s6 = s5" "s7 = s6" "s8 = s7" "d' = s8"
    using steps(3,4) io_disk_read_Some [OF steps(9)]
      io_read_only(1) [OF steps(1)] io_read_only(3) [OF steps(2)] io_read_only(2) [OF steps(5)]
      io_read_only(2) [OF steps(6)] io_read_only(2) [OF steps(7)] io_read_only(2) [OF steps(8)]
      io_read_only(4) [OF steps(10)]
    by (auto dest: fat_read_boot_record_read_only fat_select_bpb_read_only)
  show ?thesis
    by (rule that [of physical record1 b ratio first_data count fat16 fat])
      (use steps same in \<open>auto simp: io_gets_def io_ok_or_def io_expect_def io_return_def io_fail_def split: option.splits\<close>)
qed

lemma fat_ratio_sectors:
  fixes bytes physical n :: u16
  assumes "checked_div (ucast bytes) (ucast physical) = Some ratio" "physical \<noteq> 0" "bytes mod physical = 0"
    and "bytes \<noteq> 0"
  shows "ratio \<noteq> 0" "unat ratio * unat physical = unat bytes"
    "unat (ucast n * ratio) = unat n * unat ratio"
proof -
  have ratio: "ratio = ucast bytes div ucast physical"
    using assms(1) by (auto simp: checked_div_def split: if_splits)
  then have r: "unat ratio = unat bytes div unat physical"
    by (simp add: unat_div_distrib)
  have "unat bytes mod unat physical = 0"
    using assms(3) by (metis unat_0 unat_mod_distrib)
  then show eq: "unat ratio * unat physical = unat bytes" unfolding r by (simp add: mod_0_imp_dvd)
  then show "ratio \<noteq> 0" using assms(4) by (cases "ratio = 0") (auto simp: unsigned_eq_0_iff)
  have "unat ratio \<le> 65535"
    using unat_u16_less [of bytes] div_le_dividend [of "unat bytes" "unat physical"] unfolding r by linarith
  moreover have "unat n \<le> 65535" using unat_u16_less [of n] by simp
  ultimately have "unat n * unat ratio \<le> 65535 * 65535" by (rule mult_le_mono [rotated])
  then show "unat (ucast n * ratio) = unat n * unat ratio" by (simp add: unat_mult_u32)
qed

lemma fat_mount_sizes:
  assumes "fat_select_bpb io dev offset g physical record1 d = Some (Inr b, d')"
    and "bpb_first_data_sector b \<noteq> None" "physical \<noteq> 0"
  shows "bpb_bytes_per_sector b mod physical = 0" "bpb_bytes_per_sector b \<noteq> 0"
proof -
  show "bpb_bytes_per_sector b mod physical = 0"
    using fat_select_bpb_sizes [OF assms(1)] bpb_supported_sizes(3) [of b physical] by auto
  show "bpb_bytes_per_sector b \<noteq> 0"
    using assms(2) by (auto simp: bpb_first_data_sector_def bpb_root_dir_sectors_def div_ceil_def split: if_splits)
qed

lemma fat_mount_validates:
  assumes "fat_mount file_image_disk_io dev offset g d = Some (Inr v, d')"
  shows "d' = d" "fat_validate_state v = Some (Inr ())" "\<not> fv_fat_dirty v"
proof -
  obtain physical record1 b ratio first_data count fat16 fat where
    "d' = d" and size1: "io_sector_size file_image_disk_io dev d = Some physical"
    and select: "fat_select_bpb file_image_disk_io dev offset g physical record1 d = Some (Inr b, d)"
    and ratio: "checked_div (ucast (bpb_bytes_per_sector b)) (ucast physical) = Some ratio"
    and layout: "bpb_first_data_sector b = Some first_data" "bpb_data_cluster_count b = Some count"
      "bpb_is_fat16 b = Some fat16"
    and fat: "io_disk (io_read_sectors file_image_disk_io dev (offset + ucast (bpb_reserved_sectors b) * ratio)
       (ucast (bpb_sectors_per_fat b) * ratio)) d = Some (Inr fat, d)"
    and v: "v = \<lparr> fv_device_id = dev, fv_partition_offset = offset, fv_bpb = b,
         fv_first_root_sector = bpb_first_root_sector b, fv_first_data_sector = first_data,
         fv_data_cluster_count = count, fv_is_fat16 = fat16, fv_fat_cache = fat,
         fv_fat_dirty = False, fv_sector_ratio = ratio,
         fv_human68k = (case record1 of None \<Rightarrow> False | Some record \<Rightarrow> is_human68k_boot_sector record) \<rparr>"
    using fat_mount_Some [OF assms] by metis
  show "d' = d" by fact
  show "\<not> fv_fat_dirty v" by (simp add: v)
  have physical: "physical \<noteq> 0" using ratio by (auto simp: checked_div_def split: if_splits)
  note sizes = fat_mount_sizes [OF select _ physical]
  note secs = fat_ratio_sectors [OF ratio physical sizes]
  have "hg_sector_size (img_geometry (fid_image d)) = physical"
    using size1 by (auto simp: file_image_disk_io_def split: if_splits)
  then have "length fat = unat (bpb_sectors_per_fat b) * unat (bpb_bytes_per_sector b)"
    using io_disk_read_Some [OF fat] secs(2,3) layout(1) by (simp add: mult.assoc)
  moreover have "bpb_sectors_per_cluster b \<noteq> 0"
    using layout(2) by (auto simp: bpb_data_cluster_count_def checked_div_def Option.bind_eq_Some_conv split: if_splits)
  ultimately show "fat_validate_state v = Some (Inr ())"
    using secs(1) sizes(2) layout by (simp add: v fat_validate_state_def Let_def)
qed

section \<open>Mounting again after a flush\<close>

text \<open>The drives whose block does not depend on the FAT on the disk.\<close>

definition bpb_from_boot_record :: "drive_geometry \<Rightarrow> bool" where
  "bpb_from_boot_record g \<longleftrightarrow> dg_bpb_source g \<in> {BootRecord, DefaultBpb, DriverBpb}"

lemma fat_select_bpb_state:
  assumes "bpb_from_boot_record g" "fat_select_bpb io dev offset g physical record1 d = Some (Inr b, d)"
  shows "fat_select_bpb io dev offset g physical record1 d1 = Some (Inr b, d1)"
    and "bpb_is_supported b physical = Some True"
proof -
  have filter: "bpb_is_supported c physical = Some True" if "bpb_filter_supported physical p = Some (Some c)" for p c
    using that by (auto simp: bpb_filter_supported_def split: option.splits if_splits)
  have boot: "bpb_is_supported c physical = Some True" if "fat_boot_record_bpb bs physical = Some (Some c)" for bs c
    using that filter
    by (auto simp: fat_boot_record_bpb_def Option.bind_eq_Some_conv split: option.splits)
  show "fat_select_bpb io dev offset g physical record1 d1 = Some (Inr b, d1)"
    using assms
    by (cases "dg_bpb_source g")
      (auto simp: bpb_from_boot_record_def fat_select_bpb_def fat_supported_bpb_def io_bind_def
        io_expect_def io_ok_or_def io_return_def io_fail_def split: option.splits if_splits bind_splits)
  show "bpb_is_supported b physical = Some True"
  proof (cases "dg_bpb_source g = BootRecord")
    case True
    then obtain bs where "fat_boot_record_bpb bs physical = Some (Some b)"
      using assms(2) unfolding fat_select_bpb_def
      by (cases record1) (auto simp: io_bind_eq_Some_iff io_expect_def io_ok_or_def io_return_def io_fail_def
          split: option.split_asm)
    then show ?thesis by (rule boot)
  next
    case False
    then show ?thesis
      using assms
      by (auto simp: bpb_from_boot_record_def fat_select_bpb_def fat_supported_bpb_def io_bind_eq_Some_iff
          io_expect_def io_return_def io_fail_def split: option.splits if_splits)
  qed
qed

lemma fat_mount_intro:
  assumes "io_sector_size io dev d = Some physical"
    "fat_read_boot_record io dev offset physical d = Some (Inr record1, d)"
    "fat_select_bpb io dev offset g physical record1 d = Some (Inr b, d)"
    "checked_div (ucast (bpb_bytes_per_sector b)) (ucast physical) = Some ratio"
    "bpb_first_data_sector b = Some first_data" "bpb_data_cluster_count b = Some count"
    "bpb_is_fat16 b = Some fat16"
    "io_disk (io_read_sectors io dev (offset + ucast (bpb_reserved_sectors b) * ratio)
       (ucast (bpb_sectors_per_fat b) * ratio)) d = Some (Inr fat, d)"
  shows "fat_mount io dev offset g d =
    Some (Inr \<lparr> fv_device_id = dev, fv_partition_offset = offset, fv_bpb = b,
         fv_first_root_sector = bpb_first_root_sector b, fv_first_data_sector = first_data,
         fv_data_cluster_count = count, fv_is_fat16 = fat16, fv_fat_cache = fat,
         fv_fat_dirty = False, fv_sector_ratio = ratio,
         fv_human68k = (case record1 of None \<Rightarrow> False | Some record \<Rightarrow> is_human68k_boot_sector record) \<rparr>, d)"
  using assms(2,3,8)
  by (simp add: fat_mount_def io_bind_def io_gets_def io_ok_or_def io_expect_def io_return_def assms(1,4-7))

lemma take_drop_copy_into_append:
  "p + length xs + length ys \<le> length zs \<Longrightarrow> take (length xs) (drop p (copy_into p (xs @ ys) zs)) = xs"
  by (simp add: copy_into_def)

lemma ide_boot_record:
  assumes "file_image_good 512 d" "(unat offset + 1) * 512 \<le> length (file_image_contents d)"
  shows "fat_read_boot_record file_image_disk_io 0x80 offset 512 d =
    Some (Inr (Some (take 512 (drop (unat offset * 512) (file_image_contents d)))), d)"
  using ide_image.reads [OF assms(1), of offset 1] assms(2)
  by (simp add: fat_read_boot_record_def div_ceil_def io_defs)

lemma ide_flush_remount:
  assumes "fat_mount file_image_disk_io 0x80 offset g d = Some (Inr v0, d)" "bpb_from_boot_record g"
    and "file_image_good 512 d" "fat_area 512 (length (file_image_contents d)) v"
    and "v = v0\<lparr> fv_fat_cache := cache, fv_fat_dirty := True \<rparr>"
  shows "\<exists>d'. fat_flush file_image_disk_io (v, d) = Some (Inr (), (v0\<lparr> fv_fat_cache := cache \<rparr>, d')) \<and>
    file_image_contents d' = copy_into (fat_area_start v * 512)
      (concat (replicate (unat (bpb_num_fats (fv_bpb v))) cache)) (file_image_contents d) \<and>
    fat_mount file_image_disk_io 0x80 offset g d' = Some (Inr (v0\<lparr> fv_fat_cache := cache \<rparr>), d')"
proof -
  obtain physical record1 b ratio first_data count fat16 fat where
    size1: "io_sector_size file_image_disk_io 0x80 d = Some physical"
    and boot: "fat_read_boot_record file_image_disk_io 0x80 offset physical d = Some (Inr record1, d)"
    and select: "fat_select_bpb file_image_disk_io 0x80 offset g physical record1 d = Some (Inr b, d)"
    and ratio: "checked_div (ucast (bpb_bytes_per_sector b)) (ucast physical) = Some ratio"
    and layout: "bpb_first_data_sector b = Some first_data" "bpb_data_cluster_count b = Some count"
      "bpb_is_fat16 b = Some fat16"
    and v0: "v0 = \<lparr> fv_device_id = 0x80, fv_partition_offset = offset, fv_bpb = b,
         fv_first_root_sector = bpb_first_root_sector b, fv_first_data_sector = first_data,
         fv_data_cluster_count = count, fv_is_fat16 = fat16, fv_fat_cache = fat,
         fv_fat_dirty = False, fv_sector_ratio = ratio,
         fv_human68k = (case record1 of None \<Rightarrow> False | Some record \<Rightarrow> is_human68k_boot_sector record) \<rparr>"
    using fat_mount_Some [OF assms(1)] by metis
  have fields: "fv_device_id v = 0x80" "fv_partition_offset v = offset" "fv_bpb v = b" "fv_sector_ratio v = ratio"
    "fv_fat_cache v = cache" "fv_fat_dirty v"
    by (simp_all add: assms(5) v0)
  have physical: "physical = 512" using size1 ide_image.reports_size [OF assms(3)] by simp
  note supported = bpb_supported_sizes [OF fat_select_bpb_state(2) [OF assms(2) select]]
  have bytes: "bpb_bytes_per_sector b \<noteq> 0" using supported(1,2) by auto
  note secs = fat_ratio_sectors [OF ratio supported(1,3) bytes]
  note area = assms(4) [unfolded fat_area_def fields]
  obtain m where m: "unat (bpb_num_fats b) = Suc m"
    using supported(5) by (cases "unat (bpb_num_fats b)") (auto simp: unsigned_eq_0_iff)
  obtain d' where d': "fat_flush file_image_disk_io (v, d) = Some (Inr (), (v\<lparr> fv_fat_dirty := False \<rparr>, d'))"
    "file_image_good 512 d'" "file_image_contents d' = copy_into (fat_area_start v * 512)
      (concat (replicate (unat (bpb_num_fats b)) cache)) (file_image_contents d)"
    using ide_image.flush [OF assms(3) fields(1) assms(4) fields(6)] fields by auto
  let ?F = "fat_copy_sectors v" and ?s = "fat_area_start v"
  have all: "?s * 512 + Suc m * (?F * 512) \<le> length (file_image_contents d)"
    using area by (simp add: m algebra_simps)
  have len: "length cache = ?F * 512" using area by simp
  have same: "length (file_image_contents d') = length (file_image_contents d)"
    using all by (simp add: d'(3) m len)
  have lba: "unat (offset + ucast (bpb_reserved_sectors b) * ratio) = ?s"
    using ide_image.fat_copy_lba(1) [OF assms(4), of 0 0] by (simp add: fields m)
  have cnt: "unat (ucast (bpb_sectors_per_fat b) * ratio) = ?F"
    by (simp add: secs(3) fat_copy_sectors_def fields)
  have "1 \<le> unat (bpb_reserved_sectors b) * unat ratio"
    using supported(6) secs(1) by (simp add: Suc_le_eq unat_gt_0)
  then have start: "unat offset + 1 \<le> ?s" by (simp add: fat_area_start_def fields)
  have first: "unat offset * 512 + 512 \<le> ?s * 512" using start by linarith
  have first_len: "(unat offset + 1) * 512 \<le> length (file_image_contents d)" using first all by simp
  have "take 512 (drop (unat offset * 512) (file_image_contents d')) =
      take 512 (drop (unat offset * 512) (file_image_contents d))"
    using first all unfolding d'(3) by (intro slice_copy_into_other) (simp_all add: m len)
  then have boot': "fat_read_boot_record file_image_disk_io 0x80 offset 512 d' = Some (Inr record1, d')"
    using boot ide_boot_record [OF assms(3) first_len] ide_boot_record [OF d'(2), of offset] first_len same
    by (simp add: physical)
  have "io_read_sectors file_image_disk_io 0x80 (offset + ucast (bpb_reserved_sectors b) * ratio)
       (ucast (bpb_sectors_per_fat b) * ratio) d' = Some (Inr (take (length cache) (drop (?s * 512) (file_image_contents d'))), d')"
    using all len by (subst ide_image.reads [OF d'(2)]) (simp_all add: lba cnt same add_mult_distrib)
  moreover have "take (length cache) (drop (?s * 512) (file_image_contents d')) = cache"
    using all unfolding d'(3) m replicate_Suc concat.simps by (intro take_drop_copy_into_append) (simp add: len)
  ultimately have fat': "io_disk (io_read_sectors file_image_disk_io 0x80 (offset + ucast (bpb_reserved_sectors b) * ratio)
       (ucast (bpb_sectors_per_fat b) * ratio)) d' = Some (Inr cache, d')"
    by (intro io_disk_Some) simp
  have size': "io_sector_size file_image_disk_io 0x80 d' = Some 512"
    using ide_image.reports_size [OF d'(2)] by simp
  have "fat_mount file_image_disk_io 0x80 offset g d' = Some (Inr (v0\<lparr> fv_fat_cache := cache \<rparr>), d')"
    using fat_mount_intro [OF size' boot' fat_select_bpb_state(1) [OF assms(2) select [unfolded physical]]
        ratio [unfolded physical] layout fat'] by (simp add: v0)
  then show ?thesis
    using d'(1,3) by (auto simp: assms(5) v0)
qed

end
