(* ===== verification/Fat_Properties.thy ===== *)
theory Fat_Properties
  imports Fat_Mount Fat_Names
begin

text \<open>
  The properties of the FAT file system on hard disk images, with a small FAT12 volume on an image
  of sixteen sectors as the input of the witnesses.
\<close>

section \<open>Volumes on IDE images\<close>

definition ide_volume :: "fat_volume \<Rightarrow> file_image_disk \<Rightarrow> bool" where
  "ide_volume v d \<longleftrightarrow> file_image_good 512 d \<and> fv_device_id v = 0x80 \<and>
     fat_layout 512 (length (file_image_contents d)) v"

lemma ide_volume_on_disk: "ide_volume v d = ide_image.on_disk v d"
  by (simp add: ide_volume_def ide_image.on_disk_def)

lemma ide_volume_numbered: "ide_volume v d \<Longrightarrow> fat_numbered v"
  by (simp add: ide_volume_def fat_layout_def)

text \<open>The offsets of the bytes of a cluster in the image.\<close>

definition ide_cluster_range :: "fat_volume \<Rightarrow> u16 \<Rightarrow> nat set" where
  "ide_cluster_range v c =
     {fat_cluster_start 512 v c ..< fat_cluster_start 512 v c + fat_cluster_size v}"

lemma ide_cluster_range_eq: "ide_cluster_range v c = ide_image.cluster_range v c"
  by (simp add: ide_cluster_range_def ide_image.cluster_range_def)

lemma finite_fat_free_set [simp]: "finite (fat_free_set v)"
  by simp

lemma unat_free_cluster_count:
  assumes "fat_numbered v"
  shows "unat (fat_free_cluster_count v) = card (fat_free_set v)"
proof -
  have "fat_free_set v \<subseteq> set (fat_candidates (ucast (fv_data_cluster_count v) + 2))"
    unfolding fat_candidates_data [OF assms] by (auto simp: fat_free_set_def)
  then have "card (fat_free_set v) \<le> length (fat_candidates (ucast (fv_data_cluster_count v) + 2))"
    by (metis card_length card_mono finite_set le_trans)
  also have "\<dots> < 65536" using unat_u16_less [of "ucast (fv_data_cluster_count v) + 2"] by (simp add: fat_candidates_def)
  finally have "card (fat_free_set v) < 65536" .
  then show ?thesis
    by (simp add: fat_free_cluster_count_card [OF assms] unsigned_of_nat take_bit_nat_eq_self)
qed

section \<open>A sample volume\<close>

definition sample_bpb :: bpb where
  "sample_bpb =
     \<lparr> bpb_bytes_per_sector = 512, bpb_sectors_per_cluster = 1, bpb_reserved_sectors = 1, bpb_num_fats = 2,
       bpb_root_entry_count = 16, bpb_total_sectors_16 = 16, bpb_media_descriptor = 0xFE,
       bpb_sectors_per_fat = 1, bpb_total_sectors_32 = 0 \<rparr>"

definition sample_volume :: fat_volume where
  "sample_volume =
     \<lparr> fv_device_id = 0x80, fv_partition_offset = 0, fv_bpb = sample_bpb, fv_first_root_sector = 3,
       fv_first_data_sector = 4, fv_data_cluster_count = 12, fv_is_fat16 = False,
       fv_fat_cache = replicate 512 0, fv_fat_dirty = False, fv_sector_ratio = 1, fv_human68k = False \<rparr>"

definition sample_disk :: file_image_disk where
  "sample_disk =
     \<lparr> fid_image = \<lparr> img_geometry = \<lparr> hg_cylinders = 1, hg_heads = 2, hg_sectors_per_track = 8, hg_sector_size = 512 \<rparr>,
         img_format = Hdd_Nhd, img_data = replicate 8192 0, img_header = [] \<rparr>,
       fid_drive_da = 0x80 \<rparr>"

lemma sample_ide_volume: "ide_volume sample_volume sample_disk"
  by (simp add: ide_volume_def file_image_good_def file_image_contents_def fat_layout_def fat_numbered_def
      sample_volume_def sample_bpb_def sample_disk_def hdd_total_bytes_def hdd_total_sectors_def)

lemma sample_free_set: "2 \<in> fat_free_set sample_volume"
  by (simp add: fat_free_set_def fat_is_data_cluster_def fat_read_entry_def Let_def sample_volume_def le16_def)

lemma sample_free: "0 < unat (fat_free_cluster_count sample_volume)"
  using sample_free_set
  by (simp add: unat_free_cluster_count [OF ide_volume_numbered [OF sample_ide_volume]] card_gt_0_iff) auto

lemma sample_cluster_size: "fat_cluster_size sample_volume = 512"
  by (simp add: fat_cluster_size_eq sample_volume_def sample_bpb_def)

section \<open>Writing and reading files\<close>

text \<open>
  C5 A file written to a volume on an IDE image, in any number of chunks that fit in its free
  clusters, is there: the writer ends at the length of the file, and reading the chain it has built
  gives the bytes in their order.
\<close>

theorem fat_file_round_trip:
  assumes "ide_volume v d"
    and "length (concat chunks) \<le> unat (fat_free_cluster_count v) * fat_cluster_size v"
    and "length (concat chunks) < 2 ^ 32"
  shows "\<exists>w v' d'.
    fat_write_chunks file_image_disk_io chunks (fat_writer_new 0 0, v, d) = Some (Inr (), (w, v', d')) \<and>
    unat (fw_position w) = length (concat chunks) \<and>
    fat_read_chain file_image_disk_io v' (fw_start_cluster w) (fw_position w) d' = Some (Inr (concat chunks), d')"
proof -
  have "ide_image.written v d (fat_writer_new 0 0) v d [] []"
    using assms(1) by (intro ide_image.written_start) (simp add: ide_volume_on_disk)
  then obtain w v' d' cs where
    run: "fat_write_chunks file_image_disk_io chunks (fat_writer_new 0 0, v, d) = Some (Inr (), (w, v', d'))"
    and written: "ide_image.written v d w v' d' cs (concat chunks)"
    using ide_image.write_chunks [of v d "fat_writer_new 0 0" v d "[]" "[]" chunks] assms(2,3)
    by (auto simp: unat_free_cluster_count [OF ide_volume_numbered [OF assms(1)]])
  have pos: "unat (fw_position w) = length (concat chunks)"
    using written by (simp add: ide_image.written_def ide_image.writer_at_def)
  have "fat_read_chain file_image_disk_io v' (fw_start_cluster w) (fw_position w) d' = Some (Inr (concat chunks), d')"
  proof (cases "concat chunks = []")
    case True
    then show ?thesis using pos unfolding True by (simp add: fat_read_chain_def unsigned_eq_0_iff)
  next
    case False
    then show ?thesis by (rule ide_image.written_reads [OF written _ assms(3)])
  qed
  then show ?thesis using run pos by blast
qed

theorem fat_file_round_trip_witness:
  "\<exists>w v' d'.
    fat_write_chunks file_image_disk_io [[1], [2, 3]] (fat_writer_new 0 0, sample_volume, sample_disk) =
      Some (Inr (), (w, v', d')) \<and>
    unat (fw_position w) = 3 \<and>
    fat_read_chain file_image_disk_io v' (fw_start_cluster w) (fw_position w) d' = Some (Inr [1, 2, 3], d')"
  using fat_file_round_trip [OF sample_ide_volume, of "[[1], [2, 3]]"] sample_free
  by (simp add: sample_cluster_size numeral_3_eq_3)

text \<open>
  C6 Writing a file takes as few free clusters as hold it, in a chain of distinct clusters, and nothing
  else: every other entry of the FAT and every byte of the disk outside of these clusters is as before.
\<close>

theorem fat_file_write_frame:
  assumes "ide_volume v d"
    and "length (concat chunks) \<le> unat (fat_free_cluster_count v) * fat_cluster_size v"
    and "length (concat chunks) < 2 ^ 32"
    and "fat_write_chunks file_image_disk_io chunks (fat_writer_new 0 0, v, d) = Some (r, (w, v', d'))"
  shows "\<exists>cs. fat_file_clusters v' cs \<and> (cs = [] \<or> fw_start_cluster w = hd cs) \<and> set cs \<subseteq> fat_free_set v \<and>
    length cs = (length (concat chunks) + (fat_cluster_size v - 1)) div fat_cluster_size v \<and>
    fat_free_set v' = fat_free_set v - set cs \<and>
    (\<forall>c. c \<in> set cs \<or> fat_read_entry v' c = fat_read_entry v c) \<and>
    (\<forall>p<length (file_image_contents d).
       (\<exists>c\<in>set cs. p \<in> ide_cluster_range v c) \<or> file_image_contents d' ! p = file_image_contents d ! p)"
proof -
  let ?K = "fat_cluster_size v" and ?n = "length (concat chunks)"
  have "ide_image.written v d (fat_writer_new 0 0) v d [] []"
    using assms(1) by (intro ide_image.written_start) (simp add: ide_volume_on_disk)
  then obtain cs where written: "ide_image.written v d w v' d' cs (concat chunks)"
    using ide_image.write_chunks [of v d "fat_writer_new 0 0" v d "[]" "[]" chunks] assms(2-4)
    by (auto simp: unat_free_cluster_count [OF ide_volume_numbered [OF assms(1)]])
  have K: "fat_cluster_size v' = ?K"
    by (rule fat_same_derived(1) [OF ide_image.written_frame(1) [OF written]])
  have pos: "0 < ?K" using assms(1) by (auto simp: ide_volume_def intro: fat_cluster_size_pos)
  have bounds: "?n \<le> length cs * ?K" "cs \<noteq> [] \<Longrightarrow> (length cs - 1) * ?K < ?n"
    using written by (simp_all add: ide_image.written_def K)
  have "length cs = (?n + (?K - 1)) div ?K"
  proof (cases cs)
    case Nil
    then have "?n = 0" using bounds(1) by simp
    then show ?thesis using pos unfolding Nil by (simp only: \<open>?n = 0\<close>) simp
  next
    case (Cons c cs')
    then have "length cs' * ?K < ?n" "?n \<le> (length cs' + 1) * ?K" using bounds by simp_all
    then have "(?n + (?K - 1)) div ?K = length cs' + 1"
      using pos by (intro div_nat_eqI) (simp_all add: algebra_simps)
    then show ?thesis using Cons by simp
  qed
  moreover have "fat_file_clusters v' cs" "cs = [] \<or> fw_start_cluster w = hd cs"
    using written by (cases cs; simp add: ide_image.written_def ide_image.grown_def ide_image.writer_at_def)+
  moreover have "\<forall>p<length (file_image_contents d).
      (\<exists>c\<in>set cs. p \<in> ide_cluster_range v c) \<or> file_image_contents d' ! p = file_image_contents d ! p"
    using ide_image.written_frame(8) [OF written] unfolding ide_cluster_range_eq by blast
  moreover have "\<forall>c. c \<in> set cs \<or> fat_read_entry v' c = fat_read_entry v c"
    using ide_image.written_frame(7) [OF written] by blast
  ultimately show ?thesis
    using ide_image.written_frame(2,6) [OF written] by blast
qed

theorem fat_file_write_frame_witness:
  "\<exists>w v' d' cs.
    fat_write_chunks file_image_disk_io [[1], [2, 3]] (fat_writer_new 0 0, sample_volume, sample_disk) =
      Some (Inr (), (w, v', d')) \<and>
    fat_file_clusters v' cs \<and> set cs \<subseteq> fat_free_set sample_volume \<and> length cs = 1"
proof -
  have "ide_image.written sample_volume sample_disk (fat_writer_new 0 0) sample_volume sample_disk [] []"
    using sample_ide_volume by (intro ide_image.written_start) (simp add: ide_volume_on_disk)
  then obtain w v' d' where
    run: "fat_write_chunks file_image_disk_io [[1], [2, 3]] (fat_writer_new 0 0, sample_volume, sample_disk) =
      Some (Inr (), (w, v', d'))"
    using ide_image.write_chunks [of sample_volume sample_disk "fat_writer_new 0 0" sample_volume sample_disk "[]" "[]"
        "[[1], [2, 3]]"] sample_free
    by (auto simp: sample_cluster_size unat_free_cluster_count [OF ide_volume_numbered [OF sample_ide_volume]])
  then show ?thesis
    using fat_file_write_frame [OF sample_ide_volume _ _ run] sample_free
    by (auto simp: sample_cluster_size)
qed

text \<open>
  C15 Reading a file whose well-formed chain covers its size through a cursor in chunks of any lengths
  gives the slices of the bytes that reading the whole chain gives, and changes nothing on the disk.
\<close>

theorem fat_cursor_reads_slices:
  assumes "ide_volume v d" "fat_file_clusters v cs" "cs \<noteq> []" "de_start_cluster e = hd cs"
    and "0 < de_file_size e" "unat (de_file_size e) \<le> length cs * fat_cluster_size v"
    and "\<forall>k\<in>set ks. k < 2 ^ 32"
  shows "\<exists>bytes cur. fat_read_all file_image_disk_io v e d = Some (Inr bytes, d) \<and>
    length bytes = unat (de_file_size e) \<and>
    fat_read_chunks file_image_disk_io v ks (fat_cursor_new e, d) = Some (Inr (slices ks bytes), (cur, d))"
proof -
  let ?n = "unat (de_file_size e)" and ?cur = "fat_cursor_new e"
  have disk: "ide_image.on_disk v d" using assms(1) by (simp add: ide_volume_on_disk)
  have data: "\<forall>c\<in>set cs. fat_is_data_cluster v c" using assms(2) by (simp add: fat_file_clusters_def)
  have pos: "0 < ?n" using assms(5) by (simp add: word_less_nat_alt)
  have "fat_read_all file_image_disk_io v e d = Some (Inr (take ?n (ide_image.file_bytes v d cs)), d)"
    unfolding fat_read_all_def assms(4) by (rule ide_image.read_chain [OF disk assms(2,3) pos assms(6)])
  moreover have "length (take ?n (ide_image.file_bytes v d cs)) = ?n"
    using assms(6) by (simp add: ide_image.length_file_bytes [OF disk data])
  moreover have "cursor_on ?cur cs ?n" "fc_position ?cur = 0"
    by (simp_all add: cursor_on_def fat_cursor_new_def fat_cursor_with_position_def assms(4))
  then have "\<exists>cur. fat_read_chunks file_image_disk_io v ks (?cur, d) =
      Some (Inr (slices ks (take ?n (ide_image.file_bytes v d cs))), (cur, d))"
    using ide_image.cursor_read_chunks [OF disk assms(2) disjI1 [OF assms(3)] assms(6), of ?cur ks] assms(7) by simp
  ultimately show ?thesis by blast
qed

definition sample_entry :: dir_entry where
  "sample_entry =
     \<lparr> de_name = replicate 11 0x41, de_attribute = 0x20, de_reserved = replicate 10 0, de_time = 0,
       de_date = 0, de_start_cluster = 2, de_file_size = 5, de_sector = 3, de_offset = 0 \<rparr>"

theorem fat_cursor_reads_slices_witness:
  "\<exists>bytes cur. fat_read_all file_image_disk_io sample_volume sample_entry sample_disk = Some (Inr bytes, sample_disk) \<and>
    length bytes = 5 \<and>
    fat_read_chunks file_image_disk_io sample_volume [2, 9] (fat_cursor_new sample_entry, sample_disk) =
      Some (Inr [take 2 bytes, take 9 (drop 2 bytes)], (cur, sample_disk))"
  using fat_cursor_reads_slices [OF sample_ide_volume, of "[2]" sample_entry "[2, 9]"]
  by (simp add: fat_file_clusters_def fat_is_data_cluster_def sample_cluster_size sample_entry_def)
    (simp add: sample_volume_def)

section \<open>The FAT\<close>

text \<open>
  C16 The entries of a FAT12 or FAT16 table are independent: writing one is read back in the width of
  the format, and every other entry keeps its value, though two FAT12 entries share a byte.
\<close>

theorem fat_entries_independent:
  "fat_read_entry (fat_write_entry c x v) c' =
     (if c' = c \<and> fat_slot v c then take_bit (fat_width v) x else fat_read_entry v c')"
  by (rule fat_read_write)

text \<open>
  C13 Releasing a chain always ends, on a table with cycles too: it frees the clusters that are reachable
  from its start and changes no other entry.
\<close>

theorem fat_free_chain_frees_reachable:
  "\<exists>v'. fat_free_chain start v = Some v' \<and> fat_same v v' \<and>
     (\<forall>c. fat_read_entry v' c =
       (if 2 \<le> start \<and> fat_reaches v start c \<and> fat_slot v c then 0 else fat_read_entry v c))"
proof (cases "2 \<le> start")
  case True
  obtain v' where v': "fat_free_loop start v = Some v'"
    "\<exists>cache dirty. v' = v\<lparr> fv_fat_cache := cache, fv_fat_dirty := dirty \<rparr> \<and> length cache = length (fv_fat_cache v)"
    "\<forall>c. fat_read_entry v' c = (if fat_reaches v start c \<and> fat_slot v c then 0 else fat_read_entry v c)"
    using fat_free_loop_frees [OF True, of v] by blast
  have "fat_same v v'" using v'(2) by (auto simp: fat_same_def)
  then show ?thesis using True v'(1,3) by (simp add: fat_free_chain_def)
next
  case False
  then have "fat_free_loop start v = Some v" by (subst fat_free_loop.simps) (simp add: not_le)
  moreover have "fat_same v v" by (simp add: fat_same_def)
  ultimately show ?thesis using False by (simp add: fat_free_chain_def)
qed

lemma nth_fat_candidates: "i < unat m - 2 \<Longrightarrow> fat_candidates m ! i = of_nat (i + 2)"
  by (simp add: fat_candidates_def add.commute)

lemma fat_allocate_lowest:
  assumes "fat_numbered v" "fat_allocate_cluster after v = (Some c, v')" "c' \<in> fat_free_set v"
  shows "c \<le> c'"
proof -
  let ?m = "ucast (fv_data_cluster_count v) + 2 :: u16"
  have "List.find (\<lambda>c. fat_read_entry v c = 0) (fat_candidates ?m) = Some c"
    using assms(2) by (auto simp: fat_allocate_cluster_def Let_def split: option.splits)
  then obtain i where i: "i < length (fat_candidates ?m)" "fat_candidates ?m ! i = c"
    "\<forall>j<i. fat_read_entry v (fat_candidates ?m ! j) \<noteq> 0"
    by (auto simp: find_Some_iff)
  have "c' \<in> set (fat_candidates ?m)" "fat_read_entry v c' = 0"
    using assms(3) by (simp_all add: fat_candidates_data [OF assms(1)] fat_free_set_def)
  then obtain j where j: "j < length (fat_candidates ?m)" "fat_candidates ?m ! j = c'"
    by (auto simp: in_set_conv_nth)
  have le: "i \<le> j" using i(3) j \<open>fat_read_entry v c' = 0\<close> by (meson not_le)
  have len: "length (fat_candidates ?m) = unat ?m - 2" by (simp add: fat_candidates_def)
  have eqs: "c = of_nat (i + 2)" "c' = of_nat (j + 2)"
    using i(1,2) j nth_fat_candidates [of i ?m] nth_fat_candidates [of j ?m] by (simp_all add: len)
  have "unat c = i + 2" "unat c' = j + 2"
    using i(1) j(1) unat_u16_less [of ?m] unfolding eqs len
    by (simp_all only: unsigned_of_nat) (simp_all add: take_bit_nat_eq_self)
  then show ?thesis using le by (simp add: word_le_nat_alt)
qed

text \<open>
  C14 On a volume of at most 65526 clusters, allocation behind a cluster in use takes the free cluster with the lowest number, marks it as the
  end of a chain, links it behind the given one, changes no other entry, and lowers the count of
  free clusters by one. It fails exactly when that count is zero, and then changes nothing.
\<close>

theorem fat_allocate_takes_lowest:
  assumes "fat_numbered v" "after < 2 \<or> fat_read_entry v after \<noteq> 0"
  shows "case fat_allocate_cluster after v of
    (None, v') \<Rightarrow> v' = v \<and> fat_free_cluster_count v = 0
  | (Some c, v') \<Rightarrow>
      c \<in> fat_free_set v \<and> (\<forall>c'\<in>fat_free_set v. c \<le> c') \<and> fat_same v v' \<and>
      (\<forall>x. fat_read_entry v' x =
        (if x = c then fat_marker v else if x = after \<and> 2 \<le> after \<and> fat_slot v after then c
         else fat_read_entry v x)) \<and>
      unat (fat_free_cluster_count v) = unat (fat_free_cluster_count v') + 1"
proof (cases "fat_allocate_cluster after v")
  case alloc: (Pair r v')
  show ?thesis
  proof (cases r)
    case None
    then have "v' = v" "\<forall>c\<in>set (fat_candidates (ucast (fv_data_cluster_count v) + 2)). fat_read_entry v c \<noteq> 0"
      using alloc fat_allocate_None by auto
    then have "fat_free_set v = {}" "v' = v"
      by (auto simp: fat_candidates_data [OF assms(1)] fat_free_set_def)
    then show ?thesis using alloc None fat_free_cluster_count_card [OF assms(1)] by simp
  next
    case (Some c)
    note alloc' = alloc [unfolded Some]
    have ok: "2 \<le> after \<Longrightarrow> fat_read_entry v after \<noteq> 0" using assms(2) by auto
    note entries = fat_allocate_entries [OF assms(1) alloc' ok]
    have free: "c \<in> fat_free_set v"
      using fat_allocate_Some(1,2) [OF alloc'] by (simp add: fat_candidates_data [OF assms(1)] fat_free_set_def)
    have same: "fat_same v v'" by (rule fat_same_allocate [OF alloc'])
    have numbered: "fat_numbered v'" using assms(1) fat_sameD [OF same] by (simp add: fat_numbered_def)
    have c0: "c \<noteq> 0" using free by (auto simp: fat_free_set_def fat_is_data_cluster_def)
    have marker: "fat_marker v \<noteq> 0" by (simp add: fat_marker_def)
    have "fat_free_set v' = fat_free_set v - {c}"
      using ok c0 marker fat_sameD(6) [OF same] by (auto simp: fat_free_set_def entries fat_is_data_cluster_def)
    then have "card (fat_free_set v) = card (fat_free_set v') + 1"
      using card.remove [OF finite_fat_free_set free] by simp
    then show ?thesis
      using alloc Some free same entries fat_allocate_lowest [OF assms(1) alloc']
      by (simp add: unat_free_cluster_count [OF assms(1)] unat_free_cluster_count [OF numbered])
  qed
qed

lemma sample_allocate: "\<exists>v'. fat_allocate_cluster 0 sample_volume = (Some 2, v')"
  by (simp add: fat_allocate_cluster_def fat_candidates_def sample_volume_def Let_def fat_read_entry_def
      upt_conv_Cons le16_def)

theorem fat_allocate_takes_lowest_witness:
  "\<exists>v'. fat_allocate_cluster 0 sample_volume = (Some 2, v') \<and> fat_read_entry v' 2 = 0x0FFF \<and>
    unat (fat_free_cluster_count sample_volume) = unat (fat_free_cluster_count v') + 1"
proof -
  obtain v' where v': "fat_allocate_cluster 0 sample_volume = (Some 2, v')" using sample_allocate by blast
  have "fat_marker sample_volume = 0x0FFF" by (simp add: fat_marker_def sample_volume_def)
  then show ?thesis
    using fat_allocate_takes_lowest [OF ide_volume_numbered [OF sample_ide_volume], of 0] v' by simp
qed

section \<open>Mounting\<close>

text \<open>
  C8 A volume that mounting returns, from any image and by any rule for the parameter block, is one that
  \<open>validate_state\<close> accepts. Mounting writes nothing and leaves the cached FAT clean.
\<close>

theorem fat_mount_valid:
  assumes "fat_mount file_image_disk_io dev offset geometry d = Some (Inr v, d')"
  shows "d' = d \<and> fat_validate_state v = Some (Inr ()) \<and> \<not> fv_fat_dirty v"
  using fat_mount_validates [OF assms] by simp

definition sample_geometry :: drive_geometry where
  "sample_geometry = drive_geometry_new DriverBpb sample_bpb"

lemma sample_bpb_layout:
  "bpb_is_supported sample_bpb 512 = Some True" "bpb_first_root_sector sample_bpb = 3"
  "bpb_first_data_sector sample_bpb = Some 4" "bpb_data_cluster_count sample_bpb = Some 12"
  "bpb_is_fat16 sample_bpb = Some False"
  by (simp_all add: bpb_is_supported_def bpb_first_data_sector_def bpb_root_dir_sectors_def div_ceil_def
      bpb_first_root_sector_def bpb_total_sectors_def bpb_data_cluster_count_def bpb_is_fat16_def
      checked_div_def saturating_sub_def sample_bpb_def)

lemma sample_mount:
  "fat_mount file_image_disk_io 0x80 0 sample_geometry sample_disk = Some (Inr sample_volume, sample_disk)"
proof -
  have good: "file_image_good 512 sample_disk" using sample_ide_volume by (simp add: ide_volume_def)
  have contents: "file_image_contents sample_disk = replicate 8192 0"
    by (simp add: sample_disk_def file_image_contents_def)
  have size1: "io_sector_size file_image_disk_io 0x80 sample_disk = Some 512"
    using ide_image.reports_size [OF good] by simp
  have boot: "fat_read_boot_record file_image_disk_io 0x80 0 512 sample_disk = Some (Inr (Some (replicate 512 0)), sample_disk)"
    using ide_boot_record [OF good, of 0] by (simp add: contents)
  have select: "fat_select_bpb file_image_disk_io 0x80 0 sample_geometry 512 (Some (replicate 512 0)) sample_disk =
      Some (Inr sample_bpb, sample_disk)"
    by (simp add: fat_select_bpb_def sample_geometry_def drive_geometry_new_def fat_supported_bpb_def
        sample_bpb_layout io_defs)
  have ratio: "checked_div (ucast (bpb_bytes_per_sector sample_bpb)) (ucast (512 :: u16)) = Some 1"
    by (simp add: checked_div_def sample_bpb_def)
  have fat: "io_disk (io_read_sectors file_image_disk_io 0x80 (0 + ucast (bpb_reserved_sectors sample_bpb) * 1)
      (ucast (bpb_sectors_per_fat sample_bpb) * 1)) sample_disk = Some (Inr (replicate 512 0), sample_disk)"
    by (intro io_disk_Some) (simp add: ide_image.reads [OF good] contents sample_bpb_def)
  show ?thesis
    using fat_mount_intro [OF size1 boot select ratio sample_bpb_layout(3-5) fat]
    by (simp add: sample_volume_def sample_bpb_layout(2) is_human68k_boot_sector_def bpb_has_signature_def list_get_def)
qed

theorem fat_mount_valid_witness:
  "fat_mount file_image_disk_io 0x80 0 sample_geometry sample_disk = Some (Inr sample_volume, sample_disk) \<and>
   fat_validate_state sample_volume = Some (Inr ())"
  using fat_mount_valid [OF sample_mount] sample_mount by simp

text \<open>
  C7 Flushing a changed FAT writes it to every copy of the FAT on the disk, one behind the other, and to
  nothing else, and mounting the disk again gives the volume with the changed FAT.
\<close>

theorem fat_flush_remount:
  assumes "fat_mount file_image_disk_io 0x80 offset geometry d = Some (Inr v, d)"
    and "bpb_from_boot_record geometry" "file_image_good 512 d"
    and "fat_area 512 (length (file_image_contents d)) (v\<lparr> fv_fat_cache := fat, fv_fat_dirty := True \<rparr>)"
  shows "\<exists>d'. fat_flush file_image_disk_io (v\<lparr> fv_fat_cache := fat, fv_fat_dirty := True \<rparr>, d) =
      Some (Inr (), (v\<lparr> fv_fat_cache := fat \<rparr>, d')) \<and>
    file_image_contents d' = copy_into (fat_area_start v * 512)
      (concat (replicate (unat (bpb_num_fats (fv_bpb v))) fat)) (file_image_contents d) \<and>
    fat_mount file_image_disk_io 0x80 offset geometry d' = Some (Inr (v\<lparr> fv_fat_cache := fat \<rparr>), d')"
  using ide_flush_remount [OF assms(1-4) refl] by (simp add: fat_area_start_def)

theorem fat_flush_remount_witness:
  "\<exists>d'. file_image_contents d' = copy_into 512 (concat (replicate 2 (replicate 512 7))) (replicate 8192 0) \<and>
    fat_mount file_image_disk_io 0x80 0 sample_geometry d' =
      Some (Inr (sample_volume\<lparr> fv_fat_cache := replicate 512 7 \<rparr>), d')"
proof -
  have area: "fat_area 512 (length (file_image_contents sample_disk))
      (sample_volume\<lparr> fv_fat_cache := replicate 512 7, fv_fat_dirty := True \<rparr>)"
    by (simp add: fat_area_def fat_copy_sectors_def fat_area_start_def sample_volume_def sample_bpb_def
        sample_disk_def file_image_contents_def)
  have good: "file_image_good 512 sample_disk" using sample_ide_volume by (simp add: ide_volume_def)
  have record_source: "bpb_from_boot_record sample_geometry"
    by (simp add: bpb_from_boot_record_def sample_geometry_def drive_geometry_new_def)
  have facts: "fat_area_start sample_volume * 512 = 512" "unat (bpb_num_fats (fv_bpb sample_volume)) = 2"
    "file_image_contents sample_disk = replicate 8192 0"
    by (simp_all add: fat_area_start_def sample_volume_def sample_bpb_def sample_disk_def file_image_contents_def)
  show ?thesis
    using fat_flush_remount [OF sample_mount record_source good area] unfolding facts by blast
qed

section \<open>Directory entries\<close>

text \<open>
  C17 A directory entry is read back exactly as it was stored, an E5 as the first byte of its name
  included, when its name is one that the volume accepts; an entry with another name is stored all the
  same, and reads as no entry at all. The attribute is a valid one (upper two bits clear) that does not
  mark a part of a long name, and the name does not start with 05, which stands for E5 on the disk.
\<close>

theorem dir_entry_round_trip:
  assumes "length (de_name e) = 11" "length (de_reserved e) = 10"
    and "de_attribute e AND 0xC0 = 0" "de_attribute e \<noteq> 0x0F" "de_name e ! 0 \<noteq> 0x05"
  shows "length (dir_entry_to_bytes e) = 32 \<and>
    parse_entry (dir_entry_to_bytes e) (de_sector e) (de_offset e) human68k =
      (if is_valid_fcb_name (de_name e) \<or> human68k \<and> is_valid_human68k_name (de_name e) (de_reserved e)
       then Some e else None)"
  using parse_dir_entry_to_bytes [OF assms] by simp

theorem dir_entry_round_trip_witness:
  "length (dir_entry_to_bytes sample_entry) = 32 \<and>
   parse_entry (dir_entry_to_bytes sample_entry) 3 0 False = Some sample_entry"
proof -
  have "is_valid_fcb_name (de_name sample_entry)"
    unfolding sample_entry_def by code_simp
  then show ?thesis
    using dir_entry_round_trip [of sample_entry False] by (simp add: sample_entry_def)
qed

text \<open>
  C18 Turning a stored name into a displayed one and back gives the name with its lower-case letters
  made upper-case, and so the name itself exactly when it has none: trail bytes of two-byte
  characters that are lower-case letters are changed too, and such a name is not found by its path.
\<close>

theorem fcb_display_round_trip:
  assumes "is_valid_fcb_name fcb" "fcb \<noteq> dot_name" "fcb \<noteq> dotdot_name"
  shows "name_to_fcb (fcb_to_display_name fcb) = map to_ascii_uppercase fcb \<and>
    (name_to_fcb (fcb_to_display_name fcb) = fcb \<longleftrightarrow> (\<forall>b\<in>set fcb. b < 0x61 \<or> 0x7A < b))"
proof -
  have upper: "to_ascii_uppercase b = b \<longleftrightarrow> b < 0x61 \<or> 0x7A < b" for b
  proof
    assume "to_ascii_uppercase b = b"
    then show "b < 0x61 \<or> 0x7A < b" by (auto simp: to_ascii_uppercase_def not_le split: if_splits)
  qed (auto simp: to_ascii_uppercase_def)
  have "map to_ascii_uppercase fcb = fcb \<longleftrightarrow> (\<forall>b\<in>set fcb. to_ascii_uppercase b = b)"
    by (induction fcb) auto
  then show ?thesis using name_to_fcb_display [OF assms] by (simp add: upper)
qed

text \<open>\<open>FILE.X\<close>, and a name with the two-byte character 83 64.\<close>

theorem fcb_display_round_trip_witness:
  "name_to_fcb (fcb_to_display_name [0x46, 0x49, 0x4C, 0x45, 0x20, 0x20, 0x20, 0x20, 0x58, 0x20, 0x20]) =
     [0x46, 0x49, 0x4C, 0x45, 0x20, 0x20, 0x20, 0x20, 0x58, 0x20, 0x20] \<and>
   name_to_fcb (fcb_to_display_name (0x83 # 0x64 # replicate 9 0x20)) = 0x83 # 0x44 # replicate 9 0x20"
proof -
  have valid: "is_valid_fcb_name [0x46, 0x49, 0x4C, 0x45, 0x20, 0x20, 0x20, 0x20, 0x58, 0x20, 0x20]"
    "is_valid_fcb_name (0x83 # 0x64 # replicate 9 0x20)"
    by code_simp+
  have upper: "map to_ascii_uppercase [0x46, 0x49, 0x4C, 0x45, 0x20, 0x20, 0x20, 0x20, 0x58, 0x20, 0x20] =
      [0x46, 0x49, 0x4C, 0x45, 0x20, 0x20, 0x20, 0x20, 0x58, 0x20, 0x20]"
    "map to_ascii_uppercase (0x83 # 0x64 # replicate 9 0x20) = 0x83 # 0x44 # replicate 9 0x20"
    by (simp_all add: to_ascii_uppercase_def map_replicate)
  show ?thesis
    using fcb_display_round_trip [OF valid(1)] fcb_display_round_trip [OF valid(2)] unfolding upper
    by (simp add: dot_name_def dotdot_name_def)
qed

end
