(* ===== verification/Drive_Map.thy ===== *)
theory Drive_Map
  imports Disk_Io Fat_Bpb
begin

text \<open>
  Where a volume starts: the devices and entries of the drive map (\<open>dos/src/drive_map.rs\<close>), the
  drives of a PC-98 (\<open>drive_map/pc98.rs\<close>), and the partition tables of the PC-98, of PC/AT disks
  and of the FM Towns (\<open>filesystem/fat_partition.rs\<close>, \<open>mbr_partition.rs\<close>, \<open>towns_partition.rs\<close>).
\<close>

section \<open>Devices\<close>

record guest_block_unit =
  gbu_header_segment :: u16
  gbu_header_offset :: u16
  gbu_unit :: u8

record guest_cdrom_device =
  gcd_header_segment :: u16
  gcd_header_offset :: u16

datatype drive_device =
    DeviceFloppy u8
  | DeviceFixedDisk u8
  | DeviceMemoryImage u8
  | DeviceCdrom
  | DeviceGuestDriver guest_block_unit
  | DeviceGuestCdrom guest_cdrom_device
  | DeviceVirtual

fun disk_device_id :: "drive_device \<Rightarrow> u8 option" where
  "disk_device_id (DeviceFloppy i) = Some i"
| "disk_device_id (DeviceFixedDisk i) = Some i"
| "disk_device_id (DeviceMemoryImage i) = Some i"
| "disk_device_id DeviceCdrom = None"
| "disk_device_id (DeviceGuestDriver g) = None"
| "disk_device_id (DeviceGuestCdrom g) = None"
| "disk_device_id DeviceVirtual = None"

fun device_is_floppy :: "drive_device \<Rightarrow> bool" where
  "device_is_floppy (DeviceFloppy i) = True"
| "device_is_floppy (DeviceFixedDisk i) = False"
| "device_is_floppy (DeviceMemoryImage i) = False"
| "device_is_floppy DeviceCdrom = False"
| "device_is_floppy (DeviceGuestDriver g) = False"
| "device_is_floppy (DeviceGuestCdrom g) = False"
| "device_is_floppy DeviceVirtual = False"

datatype partition_scheme = Unpartitioned | Pc98Partitions | MasterBootRecord | FmTownsPartition u8

record drive_entry =
  drv_device :: drive_device
  drv_unit :: u8
  drv_partition_scheme :: partition_scheme
  drv_geometry :: "drive_geometry option"

definition virtual_drive_bpb :: bpb where
  "virtual_drive_bpb =
     \<lparr> bpb_bytes_per_sector = 512, bpb_sectors_per_cluster = 1, bpb_reserved_sectors = 1,
       bpb_num_fats = 1, bpb_root_entry_count = 16, bpb_total_sectors_16 = 4,
       bpb_media_descriptor = 0xF8, bpb_sectors_per_fat = 1, bpb_total_sectors_32 = 0 \<rparr>"

definition virtual_drive_entry :: drive_entry where
  "virtual_drive_entry =
     \<lparr> drv_device = DeviceVirtual, drv_unit = 0, drv_partition_scheme = Unpartitioned,
       drv_geometry = Some (drive_geometry_new DefaultBpb virtual_drive_bpb) \<rparr>"

definition cdrom_drive_entry :: drive_entry where
  "cdrom_drive_entry =
     \<lparr> drv_device = DeviceCdrom, drv_unit = 0, drv_partition_scheme = Unpartitioned,
       drv_geometry = None \<rparr>"

section \<open>PC-98 drives\<close>

definition pc98_floppy_2hd_bpb :: bpb where
  "pc98_floppy_2hd_bpb =
     \<lparr> bpb_bytes_per_sector = 1024, bpb_sectors_per_cluster = 1, bpb_reserved_sectors = 1,
       bpb_num_fats = 2, bpb_root_entry_count = 192, bpb_total_sectors_16 = 1232,
       bpb_media_descriptor = 0xFE, bpb_sectors_per_fat = 2, bpb_total_sectors_32 = 0 \<rparr>"

definition pc98_floppy_2dd_bpb :: bpb where
  "pc98_floppy_2dd_bpb =
     \<lparr> bpb_bytes_per_sector = 512, bpb_sectors_per_cluster = 2, bpb_reserved_sectors = 1,
       bpb_num_fats = 2, bpb_root_entry_count = 112, bpb_total_sectors_16 = 1280,
       bpb_media_descriptor = 0xFE, bpb_sectors_per_fat = 3, bpb_total_sectors_32 = 0 \<rparr>"

definition pc98_fixed_disk_bpb :: bpb where
  "pc98_fixed_disk_bpb =
     \<lparr> bpb_bytes_per_sector = 512, bpb_sectors_per_cluster = 4, bpb_reserved_sectors = 1,
       bpb_num_fats = 2, bpb_root_entry_count = 512, bpb_total_sectors_16 = 16365,
       bpb_media_descriptor = 0xF8, bpb_sectors_per_fat = 8, bpb_total_sectors_32 = 0 \<rparr>"

definition pc98_drive_entry :: "u8 \<Rightarrow> drive_entry option" where
  "pc98_drive_entry device_id =
     (let entry = (\<lambda>device scheme geometry.
            Some \<lparr> drv_device = device, drv_unit = device_id AND 0x0F,
                   drv_partition_scheme = scheme, drv_geometry = Some geometry \<rparr>) in
      if device_id AND 0xF0 = 0x90 then entry (DeviceFloppy device_id) Unpartitioned
          (drive_geometry_new BootRecordOrDefault pc98_floppy_2hd_bpb)
      else if device_id AND 0xF0 = 0x70 then entry (DeviceFloppy device_id) Unpartitioned
          (drive_geometry_new BootRecord pc98_floppy_2dd_bpb)
      else if device_id AND 0xF0 = 0x80 then entry (DeviceFixedDisk device_id) Pc98Partitions
          (drive_geometry_new BootRecord pc98_fixed_disk_bpb)
      else None)"

section \<open>PC-98 partition tables\<close>

record pc98_partition_entry =
  pe_mid :: u8
  pe_sid :: u8
  pe_data_start_sector :: u8
  pe_data_start_head :: u8
  pe_data_start_cylinder :: u16

definition is_dos_partition :: "pc98_partition_entry \<Rightarrow> bool" where
  "is_dos_partition e \<longleftrightarrow> pe_sid e AND 0x80 \<noteq> 0 \<and> pe_mid e AND 0x70 = 0x20"

text \<open>The entries from number \<open>i\<close> on, at most \<open>n\<close> of them.\<close>

fun pc98_partitions_from :: "u8 list \<Rightarrow> nat \<Rightarrow> nat \<Rightarrow> pc98_partition_entry list" where
  "pc98_partitions_from sector i 0 = []"
| "pc98_partitions_from sector i (Suc n) =
     (let d = drop (i * 32) sector in
      if length sector < i * 32 + 32 then []
      else if d ! 0 = 0 \<and> d ! 1 = 0 then []
      else \<lparr> pe_mid = d ! 0, pe_sid = d ! 1, pe_data_start_sector = d ! 8, pe_data_start_head = d ! 9,
             pe_data_start_cylinder = u16_at 10 d \<rparr> # pc98_partitions_from sector (i + 1) n)"

definition pc98_parse_partition_table :: "u8 list \<Rightarrow> pc98_partition_entry list" where
  "pc98_parse_partition_table sector = pc98_partitions_from sector 0 16"

definition chs_to_lba :: "u16 \<Rightarrow> u8 \<Rightarrow> u8 \<Rightarrow> u8 \<Rightarrow> u8 \<Rightarrow> u32" where
  "chs_to_lba cylinder head sector heads sectors_per_track =
     (ucast cylinder * ucast heads + ucast head) * ucast sectors_per_track + ucast sector"

definition pc98_find_partition_offset :: "'d disk_io \<Rightarrow> u8 \<Rightarrow> ('d, u32) io" where
  "pc98_find_partition_offset io dev =
     io_bind (io_disk (io_read_sectors io dev 1 1)) (\<lambda>sector.
     io_bind (io_gets (io_drive_geometry io dev)) (\<lambda>geometry.
     io_bind (io_ok_or 0x1F geometry) (\<lambda>(_, heads, spt).
     io_return (case List.find is_dos_partition (pc98_parse_partition_table sector) of
         Some e \<Rightarrow> chs_to_lba (pe_data_start_cylinder e) (pe_data_start_head e)
                     (pe_data_start_sector e) heads spt
       | None \<Rightarrow> 0))))"

section \<open>Master boot records\<close>

record mbr_partition_entry =
  mbr_status :: u8
  mbr_type :: u8
  mbr_start_lba :: u32

definition is_fat_partition :: "mbr_partition_entry \<Rightarrow> bool" where
  "is_fat_partition e \<longleftrightarrow> mbr_type e \<in> {0x01, 0x04, 0x06, 0x0E}"

fun mbr_partitions_from :: "u8 list \<Rightarrow> nat \<Rightarrow> nat \<Rightarrow> mbr_partition_entry list" where
  "mbr_partitions_from sector i 0 = []"
| "mbr_partitions_from sector i (Suc n) =
     (let offset = 0x1BE + i * 16; e = drop offset sector in
      if length sector < offset + 16 then []
      else if e ! 4 = 0 then mbr_partitions_from sector (i + 1) n
      else \<lparr> mbr_status = e ! 0, mbr_type = e ! 4, mbr_start_lba = u32_at 8 e \<rparr>
             # mbr_partitions_from sector (i + 1) n)"

definition mbr_parse_partition_table :: "u8 list \<Rightarrow> mbr_partition_entry list" where
  "mbr_parse_partition_table sector = mbr_partitions_from sector 0 4"

definition find_mbr_partition_offset :: "'d disk_io \<Rightarrow> u8 \<Rightarrow> ('d, u32) io" where
  "find_mbr_partition_offset io dev =
     io_bind (io_disk (io_read_sectors io dev 0 1)) (\<lambda>sector.
     if length sector < 512 \<or> sector ! 510 \<noteq> 0x55 \<or> sector ! 511 \<noteq> 0xAA then io_return 0
     else
       let entries = mbr_parse_partition_table sector in
       if entries = [] then io_return 0
       else
         let fat_entries = filter is_fat_partition entries;
             active = List.find (\<lambda>e. mbr_status e AND 0x80 \<noteq> 0) fat_entries in
         case (case active of Some e \<Rightarrow> Some e | None \<Rightarrow> list_get fat_entries 0) of
           Some e \<Rightarrow> io_return (mbr_start_lba e)
         | None \<Rightarrow> io_fail 0x1F)"

section \<open>FM Towns partition tables\<close>

record towns_partition_entry =
  tpe_system_type :: u8
  tpe_start_sector :: u32
  tpe_sector_count :: u32

definition towns_is_ms_dos :: "towns_partition_entry \<Rightarrow> bool" where
  "towns_is_ms_dos e \<longleftrightarrow> tpe_system_type e = 1"

definition towns_parse_table :: "u8 list \<Rightarrow> towns_partition_entry list option" where
  "towns_parse_table sector =
     (if length sector < 0x20 + 10 * 0x30 then None
      else if take 6 sector \<noteq> [0x95, 0x78, 0x8E, 0x6D, 0x92, 0xCA] \<and>
        take 6 sector \<noteq> [0x8F, 0xBC, 0x89, 0xBA, 0x82, 0x62] then None
      else Some (map (\<lambda>i. let e = drop (0x20 + i * 0x30) sector in
        \<lparr> tpe_system_type = e ! 1, tpe_start_sector = u32_at 2 e AND 0x00FFFFFF,
          tpe_sector_count = u32_at 6 e \<rparr>) [0..<10]))"

definition towns_ms_dos_partition :: "towns_partition_entry list \<Rightarrow> u8 \<Rightarrow> towns_partition_entry option" where
  "towns_ms_dos_partition entries i = list_get (filter towns_is_ms_dos entries) (unat i)"

definition towns_ms_dos_partition_count :: "towns_partition_entry list \<Rightarrow> nat" where
  "towns_ms_dos_partition_count entries = length (filter towns_is_ms_dos entries)"

definition towns_read_partition_table :: "'d disk_io \<Rightarrow> u8 \<Rightarrow> ('d, towns_partition_entry list) io" where
  "towns_read_partition_table io dev =
     io_bind (io_disk (io_read_sectors io dev 1 1)) (\<lambda>sector. io_ok_or 0x1F (towns_parse_table sector))"

definition towns_find_partition_offset :: "'d disk_io \<Rightarrow> u8 \<Rightarrow> u8 \<Rightarrow> ('d, u32) io" where
  "towns_find_partition_offset io dev i =
     io_bind (towns_read_partition_table io dev) (\<lambda>entries.
     io_ok_or 0x0F (map_option tpe_start_sector (towns_ms_dos_partition entries i)))"

definition volume_start :: "'d disk_io \<Rightarrow> partition_scheme \<Rightarrow> u8 \<Rightarrow> ('d, u32) io" where
  "volume_start io scheme dev =
     (case scheme of
        Unpartitioned \<Rightarrow> io_return 0
      | Pc98Partitions \<Rightarrow> pc98_find_partition_offset io dev
      | MasterBootRecord \<Rightarrow> find_mbr_partition_offset io dev
      | FmTownsPartition i \<Rightarrow> towns_find_partition_offset io dev i)"

end
