(* ===== verification/Fat_Api.thy ===== *)
theory Fat_Api
  imports Fat_File Drive_Map
begin

text \<open>
  The facade over a FAT volume (\<open>dos/src/filesystem/fat_api.rs\<close>): mounting a drive, paths, listing,
  reading and writing files by path, and making directories. A \<open>FatFs\<close> is the volume paired with
  the disk it borrows.
\<close>

datatype fat_error =
    FatIo | FatNotFound | FatAlreadyExists | FatNotADirectory | FatIsADirectory | FatDiskFull
  | FatInvalidName | FatInvalidPath | FatUnknownMedia | FatOther u16

definition fat_map_err :: "u16 \<Rightarrow> fat_error" where
  "fat_map_err code =
     (if code = 0x02 \<or> code = 0x03 then FatNotFound
      else if code = 0x05 then FatAlreadyExists
      else if code = 0x08 then FatDiskFull
      else if code = 0x0F then FatIo
      else if code = 0x12 then FatIsADirectory
      else if code = 0x1F then FatIo
      else FatOther code)"

record fat_metadata =
  md_name :: "u8 list"
  md_full_name :: "u8 list"
  md_fcb_name :: "u8 list"
  md_size :: u32
  md_attributes :: u8
  md_time :: u16
  md_date :: u16
  md_start_cluster :: u16
  md_root :: bool

definition md_is_dir :: "fat_metadata \<Rightarrow> bool" where
  "md_is_dir m \<longleftrightarrow> md_attributes m AND 0x10 \<noteq> 0"

definition md_is_volume_label :: "fat_metadata \<Rightarrow> bool" where
  "md_is_volume_label m \<longleftrightarrow> md_attributes m AND 0x08 \<noteq> 0"

type_synonym ('d, 'a) fatfs = "(fat_volume \<times> 'd, fat_error, 'a) call"

section \<open>Paths\<close>

text \<open>The components from a position on, with the bytes of the current one.\<close>

fun split_components :: "u8 list \<Rightarrow> u8 list \<Rightarrow> u8 list list" where
  "split_components current [] = (if current = [] then [] else [current])"
| "split_components current (b # bs) =
     (if b = 0 then (if current = [] then [] else [current])
      else if b = 0x5C \<or> b = 0x2F then
        (if current = [] then split_components [] bs else current # split_components [] bs)
      else split_components (current @ [b]) bs)"

definition is_ascii_uppercase :: "u8 \<Rightarrow> bool" where
  "is_ascii_uppercase b \<longleftrightarrow> 0x41 \<le> b \<and> b \<le> 0x5A"

definition split_dos_path :: "u8 list \<Rightarrow> fat_error + u8 list list" where
  "split_dos_path path =
     (if 2 \<le> length path \<and> path ! 1 = 0x3A then
        (if \<not> is_ascii_uppercase (to_ascii_uppercase (path ! 0)) then Inl FatInvalidPath
         else Inr (split_components [] (drop 2 path)))
      else Inr (split_components [] path))"

section \<open>Mounting\<close>

text \<open>The result of a call that failed stands for an early \<open>return false\<close>.\<close>

definition holds_no_fat :: "'d disk_io \<Rightarrow> u8 \<Rightarrow> u32 \<Rightarrow> ('d, 'e, bool) call" where
  "holds_no_fat io dev start =
     io_bind (io_gets (io_sector_size io dev)) (\<lambda>reported.
     case reported of
       None \<Rightarrow> io_return False
     | Some physical \<Rightarrow>
         io_bind (io_attempt (fat_read_boot_record io dev start physical)) (\<lambda>r.
         case r of
           Inl _ \<Rightarrow> io_return False
         | Inr None \<Rightarrow> io_return False
         | Inr (Some record) \<Rightarrow>
             io_bind (io_expect (fat_boot_record_bpb record physical)) (\<lambda>b.
             if b \<noteq> None then io_return False
             else
               io_bind (io_attempt (io_read_sectors io dev (start + 1) 1)) (\<lambda>fat_sector.
               io_return (case fat_sector of
                   Inl _ \<Rightarrow> False
                 | Inr bytes \<Rightarrow>
                     \<not> (3 \<le> length bytes \<and> bytes ! 1 = 0xFF \<and> bytes ! 2 = 0xFF \<and> 0xF0 \<le> bytes ! 0))))))"

definition fatfs_mount :: "'d disk_io \<Rightarrow> drive_entry \<Rightarrow> ('d, fat_error, fat_volume) call" where
  "fatfs_mount io entry =
     io_bind (io_ok_or FatIo (disk_device_id (drv_device entry))) (\<lambda>dev.
     io_bind (io_ok_or FatIo (drv_geometry entry)) (\<lambda>geometry.
     io_bind (io_map_err fat_map_err (volume_start io (drv_partition_scheme entry) dev)) (\<lambda>offset.
     io_bind (io_attempt (fat_mount io dev offset geometry)) (\<lambda>r.
     case r of
       Inr v \<Rightarrow> io_return v
     | Inl code \<Rightarrow>
         if device_is_floppy (drv_device entry) then
           io_bind (holds_no_fat io dev offset) (\<lambda>no_fat.
           io_fail (if no_fat then FatUnknownMedia else fat_map_err code))
         else io_fail (fat_map_err code)))))"

section \<open>Walking paths\<close>

datatype missing_component = MissingError | MissingReturnNone

fun walk_dir_parts ::
  "'d disk_io \<Rightarrow> missing_component \<Rightarrow> u16 \<Rightarrow> u8 list list \<Rightarrow> ('d, u16 option) fatfs" where
  "walk_dir_parts io missing cluster [] = io_return (Some cluster)"
| "walk_dir_parts io missing cluster (part # parts) =
     io_bind (io_map_err fat_map_err (io_second (\<lambda>v. find_entry io v cluster (name_to_fcb part)))) (\<lambda>found.
     case found of
       None \<Rightarrow> (case missing of MissingError \<Rightarrow> io_fail FatNotFound | MissingReturnNone \<Rightarrow> io_return None)
     | Some e \<Rightarrow>
         if de_attribute e AND 0x10 \<noteq> 0 then walk_dir_parts io missing (de_start_cluster e) parts
         else io_fail FatNotADirectory)"

definition walk_to_parent :: "'d disk_io \<Rightarrow> u8 list list \<Rightarrow> ('d, u16 \<times> u8 list) fatfs" where
  "walk_to_parent io parts =
     io_bind (walk_dir_parts io MissingError 0 (butlast parts)) (\<lambda>walked.
     io_bind (io_ok_or FatNotFound walked) (\<lambda>cluster.
     io_return (cluster, name_to_fcb (last parts))))"

definition try_walk_to_parent :: "'d disk_io \<Rightarrow> u8 list list \<Rightarrow> ('d, (u16 \<times> u8 list) option) fatfs" where
  "try_walk_to_parent io parts =
     io_bind (walk_dir_parts io MissingReturnNone 0 (butlast parts)) (\<lambda>walked.
     io_return (map_option (\<lambda>cluster. (cluster, name_to_fcb (last parts))) walked))"

definition resolve_dir_cluster :: "'d disk_io \<Rightarrow> u8 list \<Rightarrow> ('d, u16) fatfs" where
  "resolve_dir_cluster io path =
     io_bind (io_of_result (Some (split_dos_path path))) (\<lambda>parts.
     io_bind (walk_dir_parts io MissingError 0 parts) (\<lambda>walked.
     io_ok_or FatNotFound walked))"

section \<open>Operations\<close>

definition metadata_from_entry :: "fat_volume \<Rightarrow> dir_entry \<Rightarrow> fat_metadata" where
  "metadata_from_entry v e =
     \<lparr> md_name = fcb_to_display_name (de_name e),
       md_full_name = (if fv_human68k v then human68k_display_name e else fcb_to_display_name (de_name e)),
       md_fcb_name = de_name e, md_size = de_file_size e, md_attributes = de_attribute e,
       md_time = de_time e, md_date = de_date e, md_start_cluster = de_start_cluster e,
       md_root = False \<rparr>"

definition root_metadata :: fat_metadata where
  "root_metadata =
     \<lparr> md_name = [], md_full_name = [], md_fcb_name = replicate 11 0x20, md_size = 0,
       md_attributes = 0x10, md_time = 0, md_date = 0, md_start_cluster = 0, md_root = True \<rparr>"

definition fatfs_stat :: "'d disk_io \<Rightarrow> u8 list \<Rightarrow> ('d, fat_metadata option) fatfs" where
  "fatfs_stat io path =
     io_bind (io_of_result (Some (split_dos_path path))) (\<lambda>parts.
     if parts = [] then io_return (Some root_metadata)
     else
       io_bind (try_walk_to_parent io parts) (\<lambda>walked.
       case walked of
         None \<Rightarrow> io_return None
       | Some (parent_cluster, leaf) \<Rightarrow>
           io_bind (io_map_err fat_map_err (io_second (\<lambda>v. find_entry io v parent_cluster leaf))) (\<lambda>found.
           io_gets (\<lambda>s. map_option (metadata_from_entry (fst s)) found))))"

partial_function (option) list_cluster_loop ::
  "'d disk_io \<Rightarrow> u16 \<Rightarrow> fat_metadata list \<Rightarrow> u16 \<Rightarrow> fat_volume \<times> 'd
     \<Rightarrow> ((fat_error + fat_metadata list) \<times> (fat_volume \<times> 'd)) option" where
  "list_cluster_loop io dir_cluster out index s =
     io_bind (io_map_err fat_map_err
       (io_second (\<lambda>v. find_matching io v dir_cluster (replicate 11 0x3F) 0x1E index))) (\<lambda>found t.
     case found of
       None \<Rightarrow> Some (Inr out, t)
     | Some (e, next_index) \<Rightarrow>
         list_cluster_loop io dir_cluster
           (if de_name e \<noteq> dot_name \<and> de_name e \<noteq> dotdot_name
            then out @ [metadata_from_entry (fst t) e] else out) next_index t) s"

definition list_cluster_dir :: "'d disk_io \<Rightarrow> u16 \<Rightarrow> ('d, fat_metadata list) fatfs" where
  "list_cluster_dir io dir_cluster s = list_cluster_loop io dir_cluster [] 0 s"

definition fatfs_list_dir :: "'d disk_io \<Rightarrow> u8 list \<Rightarrow> ('d, fat_metadata list) fatfs" where
  "fatfs_list_dir io path = io_bind (resolve_dir_cluster io path) (list_cluster_dir io)"

definition fatfs_list_entry_dir :: "'d disk_io \<Rightarrow> fat_metadata \<Rightarrow> ('d, fat_metadata list) fatfs" where
  "fatfs_list_entry_dir io directory =
     (if \<not> md_is_dir directory then io_fail FatNotADirectory
      else
        io_bind (io_gets (\<lambda>s. fat_is_data_cluster (fst s) (md_start_cluster directory))) (\<lambda>in_data.
        if \<not> md_root directory \<and> \<not> in_data then io_fail FatIo
        else list_cluster_dir io (md_start_cluster directory)))"

definition fatfs_read_entry :: "'d disk_io \<Rightarrow> fat_metadata \<Rightarrow> ('d, u8 list) fatfs" where
  "fatfs_read_entry io file =
     (if md_is_dir file then io_fail FatIsADirectory
      else
        io_bind (io_gets (\<lambda>s. fat_is_data_cluster (fst s) (md_start_cluster file))) (\<lambda>in_data.
        if 0 < md_size file \<and> \<not> in_data then io_fail FatIo
        else io_map_err fat_map_err
               (io_second (\<lambda>v. fat_read_chain io v (md_start_cluster file) (md_size file)))))"

definition fatfs_read_file :: "'d disk_io \<Rightarrow> u8 list \<Rightarrow> ('d, u8 list) fatfs" where
  "fatfs_read_file io path =
     io_bind (io_of_result (Some (split_dos_path path))) (\<lambda>parts.
     if parts = [] then io_fail FatIsADirectory
     else
       io_bind (walk_to_parent io parts) (\<lambda>(parent_cluster, leaf).
       io_bind (io_map_err fat_map_err (io_second (\<lambda>v. find_entry io v parent_cluster leaf))) (\<lambda>found.
       io_bind (io_ok_or FatNotFound found) (\<lambda>e.
       if de_attribute e AND 0x10 \<noteq> 0 then io_fail FatIsADirectory
       else io_map_err fat_map_err (io_second (\<lambda>v. fat_read_all io v e))))))"

definition fatfs_write_file ::
  "'d disk_io \<Rightarrow> u8 list \<Rightarrow> u8 list \<Rightarrow> file_create_options \<Rightarrow> ('d, unit) fatfs" where
  "fatfs_write_file io path bytes options =
     io_bind (io_of_result (Some (split_dos_path path))) (\<lambda>parts.
     if parts = [] then io_fail FatInvalidPath
     else
       io_bind (walk_to_parent io parts) (\<lambda>(parent_cluster, leaf).
       io_map_err fat_map_err (create_or_replace_file io parent_cluster leaf bytes options)))"

fun mkdir_parts :: "'d disk_io \<Rightarrow> u16 \<Rightarrow> u16 \<Rightarrow> u16 \<Rightarrow> u8 list list \<Rightarrow> ('d, unit) fatfs" where
  "mkdir_parts io time date parent_cluster [] = io_return ()"
| "mkdir_parts io time date parent_cluster (part # parts) =
     (let fcb = name_to_fcb part in
      io_bind (io_map_err fat_map_err (io_second (\<lambda>v. find_entry io v parent_cluster fcb))) (\<lambda>found.
      case found of
        Some e \<Rightarrow>
          if de_attribute e AND 0x10 = 0 then io_fail FatNotADirectory
          else mkdir_parts io time date (de_start_cluster e) parts
      | None \<Rightarrow>
          io_bind (io_map_err fat_map_err (create_subdirectory io parent_cluster fcb time date)) (\<lambda>created.
          mkdir_parts io time date (de_start_cluster created) parts)))"

definition fatfs_mkdir_p :: "'d disk_io \<Rightarrow> u8 list \<Rightarrow> u16 \<Rightarrow> u16 \<Rightarrow> ('d, unit) fatfs" where
  "fatfs_mkdir_p io path time date =
     io_bind (io_of_result (Some (split_dos_path path))) (\<lambda>parts. mkdir_parts io time date 0 parts)"

definition fatfs_flush :: "'d disk_io \<Rightarrow> ('d, unit) fatfs" where
  "fatfs_flush io = io_map_err fat_map_err (fat_flush io)"

end
