(* ===== verification/Fat_Api_Properties.thy ===== *)
theory Fat_Api_Properties
  imports Fat_Properties Fat_Api
begin

text \<open>
  Files in the root directory by path, on volumes of IDE images: writing a new file, reading it back,
  and what happens to the others. The witnesses use the small volume of the file system properties.
\<close>

section \<open>Root directories that hold files\<close>

text \<open>
  The first byte of a slot of the root directory tells whether it is free. Behind the first slot that
  was never used there are only such slots.
\<close>

definition ide_slot_byte :: "fat_volume \<Rightarrow> file_image_disk \<Rightarrow> nat \<Rightarrow> u8" where
  "ide_slot_byte v d n = file_image_contents d ! (fat_root_start v * 512 + n * 32)"

definition ide_root_has_room :: "fat_volume \<Rightarrow> file_image_disk \<Rightarrow> bool" where
  "ide_root_has_room v d \<longleftrightarrow> (\<exists>n<fat_root_slots v. ide_slot_byte v d n = 0 \<or> ide_slot_byte v d n = 0xE5)"

definition ide_root_closed :: "fat_volume \<Rightarrow> file_image_disk \<Rightarrow> bool" where
  "ide_root_closed v d \<longleftrightarrow>
     (\<forall>i j. i \<le> j \<longrightarrow> j < fat_root_slots v \<longrightarrow> ide_slot_byte v d i = 0 \<longrightarrow> ide_slot_byte v d j = 0)"

text \<open>A volume on an image whose root directory lies before its data area and is closed.\<close>

definition ide_root_volume :: "fat_volume \<Rightarrow> file_image_disk \<Rightarrow> bool" where
  "ide_root_volume v d \<longleftrightarrow> ide_volume v d \<and> fat_root_layout v \<and> ide_root_closed v d"

text \<open>An entry of the root directory whose file lies in clusters that are in use.\<close>

definition ide_root_file :: "fat_volume \<Rightarrow> file_image_disk \<Rightarrow> u8 list \<Rightarrow> dir_entry \<Rightarrow> bool" where
  "ide_root_file v d name e \<longleftrightarrow>
     find_entry file_image_disk_io v 0 name d = Some (Inr (Some e), d) \<and> de_attribute e AND 0x10 = 0 \<and>
     (\<exists>cs. fat_file_clusters v cs \<and> (\<forall>c\<in>set cs. fat_read_entry v c \<noteq> 0) \<and>
       (if cs = [] then de_file_size e = 0 else de_start_cluster e = hd cs) \<and>
       unat (de_file_size e) \<le> length cs * fat_cluster_size v)"

lemma ide_slot_byte_eq:
  assumes "ide_image.on_disk v d" "fat_root_layout v" "k < fat_root_slots v"
  shows "snd (snd (ide_image.root_slots v d ! k)) ! 0 = ide_slot_byte v d k"
proof -
  have "0 < fat_root_count v" using assms(3) by (cases "fat_root_count v") (simp_all add: fat_root_slots_def)
  then have "fat_root_start v * 512 + k * 32 \<le> length (file_image_contents d)"
    using ide_image.root_slot_position(3) [OF assms] ide_image.root_lba(3) [OF assms(1,2), of 0] by linarith
  then show ?thesis
    using assms(3) by (simp add: ide_image.root_slots_eq [OF assms(1,2)] ide_image.root_slot_def ide_slot_byte_def)
qed

lemma ide_root_closed_eq:
  assumes "ide_image.on_disk v d" "fat_root_layout v"
  shows "ide_root_closed v d = dir_closed (ide_image.root_slots v d)"
  using ide_slot_byte_eq [OF assms] ide_image.root_slots_eq [OF assms]
  unfolding ide_root_closed_def dir_closed_def by (auto dest: le_less_trans)

lemma ide_root_has_room_eq:
  assumes "ide_image.on_disk v d" "fat_root_layout v"
  shows "ide_root_has_room v d \<longleftrightarrow> (\<exists>s\<in>set (ide_image.root_slots v d). slot_free s)"
proof -
  have free: "slot_free s \<longleftrightarrow> snd (snd s) ! 0 = 0 \<or> snd (snd s) ! 0 = 0xE5" for s by (cases s) simp
  have "length (ide_image.root_slots v d) = fat_root_slots v" by (simp add: ide_image.root_slots_eq [OF assms])
  then show ?thesis
    using ide_slot_byte_eq [OF assms]
    unfolding ide_root_has_room_def free by (metis in_set_conv_nth)
qed

text \<open>Filling the first free slot keeps the directory closed.\<close>

lemma dir_closed_update:
  assumes "dir_closed slots" "\<forall>j<k. \<not> slot_free (slots ! j)" "k < length slots" "bytes ! 0 \<noteq> 0"
  shows "dir_closed (slots[k := (lba, offset, bytes)])"
  unfolding dir_closed_def
proof (intro allI impI)
  fix i j assume ij: "i \<le> j" "j < length (slots[k := (lba, offset, bytes)])"
    and zero: "snd (snd (slots[k := (lba, offset, bytes)] ! i)) ! 0 = 0"
  have i: "i \<noteq> k" "snd (snd (slots ! i)) ! 0 = 0"
    using zero assms(3,4) by (auto simp: nth_list_update split: if_splits)
  have "\<not> i < k" using assms(2) i(2) by (cases "slots ! i") auto
  then have "j \<noteq> k" using ij(1) i(1) by simp
  moreover have "snd (snd (slots ! j)) ! 0 = 0"
    using assms(1) ij i(2) unfolding dir_closed_def length_list_update by blast
  ultimately show "snd (snd (slots[k := (lba, offset, bytes)] ! j)) ! 0 = 0" by simp
qed

section \<open>Paths of files in the root directory\<close>

lemma fatfs_write_file_root:
  assumes "split_dos_path path = Inr [name]"
    and "create_or_replace_file io 0 (name_to_fcb name) bytes options s = Some (Inr (), s')"
  shows "fatfs_write_file io path bytes options s = Some (Inr (), s')"
  using assms by (simp add: fatfs_write_file_def walk_to_parent_def io_defs io_of_result_def)

lemma fatfs_read_file_root:
  assumes "split_dos_path path = Inr [name]"
    and "find_entry io v 0 (name_to_fcb name) d = Some (Inr (Some e), d)" "de_attribute e AND 0x10 = 0"
    and "fat_read_all io v e d = Some (Inr bytes, d)"
  shows "fatfs_read_file io path (v, d) = Some (Inr bytes, (v, d))"
  using assms by (simp add: fatfs_read_file_def walk_to_parent_def io_defs io_of_result_def)

lemma fatfs_stat_root:
  assumes "split_dos_path path = Inr [name]"
    and "find_entry io v 0 (name_to_fcb name) d = Some (Inr found, d)"
  shows "fatfs_stat io path (v, d) = Some (Inr (map_option (metadata_from_entry v) found), (v, d))"
  using assms by (simp add: fatfs_stat_def try_walk_to_parent_def io_defs io_of_result_def)

text \<open>Reading an entry whose file lies in clusters that are in use.\<close>

lemma ide_file_reads:
  assumes "ide_image.on_disk v d" "fat_file_clusters v cs"
    and "if cs = [] then de_file_size e = 0 else de_start_cluster e = hd cs"
    and "unat (de_file_size e) \<le> length cs * fat_cluster_size v"
  shows "fat_read_all file_image_disk_io v e d =
    Some (Inr (take (unat (de_file_size e)) (ide_image.file_bytes v d cs)), d)"
proof (cases "de_file_size e = 0")
  case True
  then show ?thesis by (simp add: fat_read_all_def fat_read_chain_def)
next
  case False
  then have cs: "cs \<noteq> []" "de_start_cluster e = hd cs" using assms(3) by (auto split: if_splits)
  then show ?thesis
    using False unfolding fat_read_all_def
    by (simp add: ide_image.read_chain [OF assms(1,2) cs(1) _ assms(4)] unat_gt_0)
qed

text \<open>Everything that writing a new file in the root directory does.\<close>

lemma ide_write_root_file:
  assumes "ide_root_volume v d" "split_dos_path path = Inr [name]" "is_valid_fcb_name (name_to_fcb name)"
    and "find_entry file_image_disk_io v 0 (name_to_fcb name) d = Some (Inr None, d)" "ide_root_has_room v d"
    and "fo_attributes options AND 0xC0 = 0" "fo_attributes options \<noteq> 0x0F"
    and "length bytes \<le> unat (fat_free_cluster_count v) * fat_cluster_size v" "length bytes < 2 ^ 32"
  obtains w v1 d1 cs d2 k e where
    "fatfs_write_file file_image_disk_io path bytes options (v, d) = Some (Inr (), (v1, d2))"
    "ide_root_volume v1 d2" "ide_image.written v d w v1 d1 cs bytes"
    "length (file_image_contents d2) = length (file_image_contents d1)"
    "\<And>p. \<lbrakk>fat_data_start v * 512 \<le> p; p < length (file_image_contents d)\<rbrakk> \<Longrightarrow>
       file_image_contents d2 ! p = file_image_contents d1 ! p"
    "e = (new_file_entry (name_to_fcb name) options w)\<lparr> de_sector := de_sector e, de_offset := de_offset e \<rparr>"
    "find_entry file_image_disk_io v1 0 (name_to_fcb name) d2 = Some (Inr (Some e), d2)"
    "fat_read_all file_image_disk_io v1 e d2 = Some (Inr bytes, d2)"
    "\<And>other. other \<noteq> name_to_fcb name \<Longrightarrow> find_entry file_image_disk_io v1 0 other d2 =
       map_option (\<lambda>(r, _). (r, d2)) (find_entry file_image_disk_io v 0 other d)"
    "\<And>i j. \<lbrakk>i < j; j < fat_root_slots v; ide_slot_byte v d i = 0; ide_slot_byte v d j = 0\<rbrakk> \<Longrightarrow>
       ide_root_has_room v1 d2"
proof -
  have disk: "ide_image.on_disk v d" and layout: "fat_root_layout v" and closed: "dir_closed (ide_image.root_slots v d)"
    using assms(1) ide_root_closed_eq by (auto simp: ide_root_volume_def ide_volume_on_disk)
  have none: "dir_found (fv_human68k v) (name_to_fcb name) (ide_image.root_slots v d) = None"
    using assms(4) by (simp add: ide_image.find_entry_root [OF disk layout])
  have room: "\<exists>s\<in>set (ide_image.root_slots v d). slot_free s"
    using assms(5) by (simp add: ide_root_has_room_eq [OF disk layout])
  have volume: "ide_volume v d" using assms(1) by (simp add: ide_root_volume_def)
  have fits: "length bytes \<le> card (fat_free_set v) * fat_cluster_size v"
    using assms(8) by (simp add: unat_free_cluster_count [OF ide_volume_numbered [OF volume]])
  obtain w v1 d1 cs d2 k e where
    run: "create_or_replace_file file_image_disk_io 0 (name_to_fcb name) bytes options (v, d) = Some (Inr (), (v1, d2))"
    and written: "ide_image.written v d w v1 d1 cs bytes"
    and after: "ide_image.on_disk v1 d2" "length (file_image_contents d2) = length (file_image_contents d1)"
      "\<And>p. \<lbrakk>fat_data_start v * 512 \<le> p; p < length (file_image_contents d)\<rbrakk> \<Longrightarrow>
         file_image_contents d2 ! p = file_image_contents d1 ! p"
      "e = (new_file_entry (name_to_fcb name) options w)\<lparr> de_sector := de_sector e, de_offset := de_offset e \<rparr>"
      "dir_found (fv_human68k v) (name_to_fcb name) (ide_image.root_slots v1 d2) = Some e"
      "fat_read_all file_image_disk_io v1 e d2 = Some (Inr bytes, d2)"
    and slot: "k < length (ide_image.root_slots v d)" "slot_free (ide_image.root_slots v d ! k)"
      "\<forall>j<k. \<not> slot_free (ide_image.root_slots v d ! j)"
      "ide_image.root_slots v1 d2 = (ide_image.root_slots v d)
         [k := (de_sector e, fst (snd (ide_image.root_slot v1 d1 k)), dir_entry_to_bytes e)]"
    by (rule ide_image.create_new_file [OF disk layout none room assms(3,6,7) fits assms(9)]) (rule that)
  have same: "fat_same v v1" by (rule ide_image.written_frame(1) [OF written])
  have layout1: "fat_root_layout v1" using layout ide_image.fat_root_layout_same [OF same] by simp
  have human: "fv_human68k v1 = fv_human68k v" by (rule fat_sameD(9) [OF same])
  have good: "fat_good_entry (fv_human68k v) e"
    using assms(3,6,7) by (subst after(4)) (simp add: fat_good_entry_def new_file_entry_def)
  have name: "de_name e = name_to_fcb name" by (subst after(4)) (simp add: new_file_entry_def)
  let ?offset = "fst (snd (ide_image.root_slot v1 d1 k))"
  note parse = fat_good_entry_bytes(2) [OF good, of "de_sector e" "of_nat ?offset"]
  have "dir_closed (ide_image.root_slots v1 d2)"
    unfolding slot(4) using closed slot(1,3) parse_entry_first [OF parse] by (intro dir_closed_update) simp_all
  then have "ide_root_volume v1 d2"
    using after(1) layout1 ide_root_closed_eq [OF after(1) layout1]
    by (simp add: ide_root_volume_def ide_volume_on_disk)
  moreover have "find_entry file_image_disk_io v1 0 other d2 =
      map_option (\<lambda>(r, _). (r, d2)) (find_entry file_image_disk_io v 0 other d)"
    if "other \<noteq> name_to_fcb name" for other
  proof -
    have "dir_found (fv_human68k v) other (ide_image.root_slots v1 d2) =
        dir_found (fv_human68k v) other (ide_image.root_slots v d)"
      unfolding slot(4) by (rule dir_found_other [OF closed slot(1,2) parse]) (use that name in simp)
    then show ?thesis
      by (simp add: ide_image.find_entry_root [OF disk layout] ide_image.find_entry_root [OF after(1) layout1] human)
  qed
  moreover have "ide_root_has_room v1 d2"
    if ij: "i < j" "j < fat_root_slots v" "ide_slot_byte v d i = 0" "ide_slot_byte v d j = 0" for i j
  proof -
    have j: "j < length (ide_image.root_slots v d)" using ij(2) by (simp add: ide_image.root_slots_eq [OF disk layout])
    have bytes: "snd (snd (ide_image.root_slots v d ! n)) ! 0 = 0" if "n = i \<or> n = j" for n
      using that ij ide_slot_byte_eq [OF disk layout, of n] by auto
    have free: "slot_free (ide_image.root_slots v d ! n)" if "n = i \<or> n = j" for n
      using bytes [OF that] by (cases "ide_image.root_slots v d ! n") simp
    then have "k \<le> i" using slot(3) not_le by blast
    then have "ide_image.root_slots v1 d2 ! j = ide_image.root_slots v d ! j" using ij(1) by (simp add: slot(4))
    then have "slot_free (ide_image.root_slots v1 d2 ! j)" using free by simp
    moreover have "j < length (ide_image.root_slots v1 d2)" using j by (simp add: slot(4))
    ultimately show ?thesis unfolding ide_root_has_room_eq [OF after(1) layout1] using nth_mem by blast
  qed
  ultimately show ?thesis
    using fatfs_write_file_root [OF assms(2) run] written after
    by (intro that [of v1 d2 w d1 cs e]) (simp_all add: ide_image.find_entry_root [OF after(1) layout1] human)
qed

text \<open>The new file lies in clusters that are in use, and so does every file that was there.\<close>

lemma ide_new_root_file:
  assumes "ide_image.written v d w v1 d1 cs bytes"
    and "find_entry file_image_disk_io v1 0 name d2 = Some (Inr (Some e), d2)" "de_attribute e AND 0x10 = 0"
    and "de_start_cluster e = fw_start_cluster w" "de_file_size e = fw_position w"
  shows "ide_root_file v1 d2 name e"
proof -
  have grown: "ide_image.grown v d v1 d1 cs" and place: "ide_image.writer_at w cs (length bytes)"
    and len: "length bytes \<le> length cs * fat_cluster_size v1"
    using assms(1) by (simp_all add: ide_image.written_def)
  have clusters: "fat_file_clusters v1 cs" using grown by (simp add: ide_image.grown_def)
  have "fat_read_entry v1 c \<noteq> 0" if "c \<in> set cs" for c
    using that clusters ide_image.written_frame(6) [OF assms(1)]
    by (auto simp: fat_file_clusters_def fat_free_set_def)
  moreover have "if cs = [] then de_file_size e = 0 else de_start_cluster e = hd cs"
    using place len assms(4,5) by (cases cs) (simp_all add: ide_image.writer_at_def unsigned_eq_0_iff)
  moreover have "unat (de_file_size e) \<le> length cs * fat_cluster_size v1"
    using place len assms(5) by (simp add: ide_image.writer_at_def)
  ultimately show ?thesis
    unfolding ide_root_file_def using assms(2,3) clusters by blast
qed

text \<open>
  C1 Writing a new file in the root directory of a volume on an IDE image, when a slot and enough
  clusters are free, succeeds; reading the path then gives the bytes, and its metadata are the name,
  the length and the attributes it was written with. The directory stays well formed, so that the
  next file can be written.
\<close>

theorem fatfs_root_file_round_trip:
  assumes "ide_root_volume v d" "split_dos_path path = Inr [name]" "is_valid_fcb_name (name_to_fcb name)"
    and "find_entry file_image_disk_io v 0 (name_to_fcb name) d = Some (Inr None, d)" "ide_root_has_room v d"
    and "fo_attributes options AND 0xD0 = 0" "fo_attributes options \<noteq> 0x0F"
    and "length bytes \<le> unat (fat_free_cluster_count v) * fat_cluster_size v" "length bytes < 2 ^ 32"
  shows "\<exists>v' d' m. fatfs_write_file file_image_disk_io path bytes options (v, d) = Some (Inr (), (v', d')) \<and>
    ide_root_volume v' d' \<and> (\<exists>e. ide_root_file v' d' (name_to_fcb name) e) \<and>
    fatfs_read_file file_image_disk_io path (v', d') = Some (Inr bytes, (v', d')) \<and>
    fatfs_stat file_image_disk_io path (v', d') = Some (Inr (Some m), (v', d')) \<and>
    md_fcb_name m = name_to_fcb name \<and> unat (md_size m) = length bytes \<and>
    md_attributes m = fo_attributes options \<and> md_time m = fo_time options \<and> md_date m = fo_date options"
proof -
  have bits: "fo_attributes options AND 0xC0 = 0" "fo_attributes options AND 0x10 = 0"
  proof -
    have "fo_attributes options AND 0xC0 = (fo_attributes options AND 0xD0) AND 0xC0"
      "fo_attributes options AND 0x10 = (fo_attributes options AND 0xD0) AND 0x10"
      by (simp_all add: and.assoc)
    then show "fo_attributes options AND 0xC0 = 0" "fo_attributes options AND 0x10 = 0"
      using assms(6) by simp_all
  qed
  obtain w v1 d1 cs d2 k e where
    run: "fatfs_write_file file_image_disk_io path bytes options (v, d) = Some (Inr (), (v1, d2))" "ide_root_volume v1 d2"
    and written: "ide_image.written v d w v1 d1 cs bytes"
    and e: "e = (new_file_entry (name_to_fcb name) options w)\<lparr> de_sector := de_sector e, de_offset := de_offset e \<rparr>"
      "find_entry file_image_disk_io v1 0 (name_to_fcb name) d2 = Some (Inr (Some e), d2)"
      "fat_read_all file_image_disk_io v1 e d2 = Some (Inr bytes, d2)"
    by (rule ide_write_root_file [OF assms(1-5) bits(1) assms(7-9)]) (rule that)
  have fields: "de_attribute e = fo_attributes options" "de_name e = name_to_fcb name" "de_time e = fo_time options"
      "de_date e = fo_date options" "de_file_size e = fw_position w"
    by (subst e(1), simp add: new_file_entry_def)+
  have "unat (fw_position w) = length bytes"
    using written by (simp add: ide_image.written_def ide_image.writer_at_def)
  moreover have "de_start_cluster e = fw_start_cluster w" by (subst e(1)) (simp add: new_file_entry_def)
  then have "ide_root_file v1 d2 (name_to_fcb name) e"
    using bits(2) fields by (intro ide_new_root_file [OF written e(2)]) simp_all
  ultimately show ?thesis
    using run fatfs_stat_root [OF assms(2) e(2)] fatfs_read_file_root [OF assms(2) e(2) _ e(3)] bits(2) fields
    by (intro exI [of _ v1] exI [of _ d2] exI [of _ "metadata_from_entry v1 e"])
      (auto simp: metadata_from_entry_def)
qed

text \<open>The names \<open>A.B\<close> and \<open>C\<close>, with the attribute of an archived file.\<close>

definition sample_options :: file_create_options where
  "sample_options = \<lparr> fo_attributes = 0x20, fo_time = 0x6000, fo_date = 0x5821 \<rparr>"

lemma sample_paths:
  "split_dos_path [0x41, 0x2E, 0x42] = Inr [[0x41, 0x2E, 0x42]]" "split_dos_path [0x43] = Inr [[0x43]]"
  "is_valid_fcb_name (name_to_fcb [0x41, 0x2E, 0x42])" "is_valid_fcb_name (name_to_fcb [0x43])"
  "name_to_fcb [0x43] \<noteq> name_to_fcb [0x41, 0x2E, 0x42]"
  by code_simp+

lemma sample_root:
  "fat_root_layout sample_volume" "fat_root_slots sample_volume = 16" "fat_root_start sample_volume = 3"
  by (simp_all add: fat_root_layout_def fat_root_slots_def fat_root_count_def fat_root_dir_sectors_def
      bpb_root_dir_sectors_def div_ceil_def entries_per_sector_def fat_root_start_def sample_volume_def sample_bpb_def)

lemma sample_on_disk: "ide_image.on_disk sample_volume sample_disk"
  using sample_ide_volume by (simp add: ide_volume_on_disk)

lemma sample_slot_byte: "n < 16 \<Longrightarrow> ide_slot_byte sample_volume sample_disk n = 0"
  by (simp add: ide_slot_byte_def sample_root file_image_contents_def sample_disk_def)

lemma sample_root_volume: "ide_root_volume sample_volume sample_disk"
  using sample_slot_byte sample_ide_volume
  by (simp add: ide_root_volume_def ide_root_closed_def sample_root)

lemma sample_room: "ide_root_has_room sample_volume sample_disk"
  using sample_slot_byte [of 0] by (auto simp: ide_root_has_room_def sample_root intro!: exI [of _ 0])

lemma sample_absent: "find_entry file_image_disk_io sample_volume 0 name sample_disk = Some (Inr None, sample_disk)"
proof -
  have "\<forall>s\<in>set (ide_image.root_slots sample_volume sample_disk). snd (snd s) ! 0 = 0"
    using ide_slot_byte_eq [OF sample_on_disk sample_root(1)] sample_slot_byte
    by (auto simp: in_set_conv_nth ide_image.root_slots_eq [OF sample_on_disk sample_root(1)] sample_root)
  from dir_scan_unused [OF this] show ?thesis
    by (simp add: ide_image.find_entry_root [OF sample_on_disk sample_root(1)])
qed

theorem fatfs_root_file_round_trip_witness:
  "\<exists>v' d' m. fatfs_write_file file_image_disk_io [0x41, 0x2E, 0x42] [7, 8, 9] sample_options (sample_volume, sample_disk) =
      Some (Inr (), (v', d')) \<and>
    fatfs_read_file file_image_disk_io [0x41, 0x2E, 0x42] (v', d') = Some (Inr [7, 8, 9], (v', d')) \<and>
    fatfs_stat file_image_disk_io [0x41, 0x2E, 0x42] (v', d') = Some (Inr (Some m), (v', d')) \<and> unat (md_size m) = 3"
  using fatfs_root_file_round_trip [OF sample_root_volume sample_paths(1,3) sample_absent sample_room,
      of sample_options "[7, 8, 9]"] sample_free
  by (fastforce simp: sample_options_def sample_cluster_size)

text \<open>
  C2 Writing a new file in the root directory leaves the files that were there: each keeps its entry,
  its clusters and its contents, and reading its path gives what it gave before.
\<close>

theorem fatfs_write_keeps_other_files:
  assumes "ide_root_volume v d" "split_dos_path path = Inr [name]" "is_valid_fcb_name (name_to_fcb name)"
    and "find_entry file_image_disk_io v 0 (name_to_fcb name) d = Some (Inr None, d)" "ide_root_has_room v d"
    and "fo_attributes options AND 0xC0 = 0" "fo_attributes options \<noteq> 0x0F"
    and "length bytes \<le> unat (fat_free_cluster_count v) * fat_cluster_size v" "length bytes < 2 ^ 32"
    and "fatfs_write_file file_image_disk_io path bytes options (v, d) = Some (r, (v', d'))"
    and "split_dos_path path' = Inr [other]" "ide_root_file v d (name_to_fcb other) e"
  shows "ide_root_file v' d' (name_to_fcb other) e \<and>
    (\<exists>old. fatfs_read_file file_image_disk_io path' (v, d) = Some (Inr old, (v, d)) \<and>
      fatfs_read_file file_image_disk_io path' (v', d') = Some (Inr old, (v', d')))"
proof -
  obtain w v1 d1 cs d2 where
    run: "fatfs_write_file file_image_disk_io path bytes options (v, d) = Some (Inr (), (v1, d2))" "ide_root_volume v1 d2"
    and written: "ide_image.written v d w v1 d1 cs bytes"
    and after: "length (file_image_contents d2) = length (file_image_contents d1)"
      "\<And>p. \<lbrakk>fat_data_start v * 512 \<le> p; p < length (file_image_contents d)\<rbrakk> \<Longrightarrow>
         file_image_contents d2 ! p = file_image_contents d1 ! p"
    and keep: "\<And>other. other \<noteq> name_to_fcb name \<Longrightarrow> find_entry file_image_disk_io v1 0 other d2 =
         map_option (\<lambda>(r, _). (r, d2)) (find_entry file_image_disk_io v 0 other d)"
    by (rule ide_write_root_file [OF assms(1-9)]) (rule that)
  have state: "v' = v1" "d' = d2" using run(1) assms(10) by simp_all
  obtain old_cs where old: "find_entry file_image_disk_io v 0 (name_to_fcb other) d = Some (Inr (Some e), d)"
      "de_attribute e AND 0x10 = 0" "fat_file_clusters v old_cs" "\<forall>c\<in>set old_cs. fat_read_entry v c \<noteq> 0"
      "if old_cs = [] then de_file_size e = 0 else de_start_cluster e = hd old_cs"
      "unat (de_file_size e) \<le> length old_cs * fat_cluster_size v"
    using assms(12) unfolding ide_root_file_def by blast
  have disk: "ide_image.on_disk v d" "ide_image.on_disk v1 d2"
    using assms(1) run(2) by (simp_all add: ide_root_volume_def ide_volume_on_disk)
  have "name_to_fcb other \<noteq> name_to_fcb name" using old(1) assms(4) by auto
  from keep [OF this] have found: "find_entry file_image_disk_io v1 0 (name_to_fcb other) d2 = Some (Inr (Some e), d2)"
    using old(1) by simp
  note kept = ide_image.written_keeps [OF disk(1) written disk(2) after old(3,4)]
  have size1: "fat_cluster_size v1 = fat_cluster_size v"
    by (rule fat_same_derived(1) [OF ide_image.written_frame(1) [OF written]])
  have entries: "\<forall>c\<in>set old_cs. fat_read_entry v1 c \<noteq> 0"
    using old(4) ide_image.written_frame(2,7) [OF written] by (fastforce simp: fat_free_set_def)
  have fits: "unat (de_file_size e) \<le> length old_cs * fat_cluster_size v1" using old(6) size1 by simp
  have "ide_root_file v1 d2 (name_to_fcb other) e"
    unfolding ide_root_file_def using found old(2,5) kept(1) entries fits by blast
  moreover have "fatfs_read_file file_image_disk_io path' (v, d) =
      Some (Inr (take (unat (de_file_size e)) (ide_image.file_bytes v d old_cs)), (v, d))"
    by (rule fatfs_read_file_root [OF assms(11) old(1,2) ide_file_reads [OF disk(1) old(3,5,6)]])
  moreover have "fatfs_read_file file_image_disk_io path' (v1, d2) =
      Some (Inr (take (unat (de_file_size e)) (ide_image.file_bytes v d old_cs)), (v1, d2))"
    using fatfs_read_file_root [OF assms(11) found old(2) ide_file_reads [OF disk(2) kept(1) old(5) fits]]
    by (simp add: kept(2))
  ultimately show ?thesis unfolding state by blast
qed

text \<open>\<open>A.B\<close> is written before \<open>C\<close>.\<close>

theorem fatfs_write_keeps_other_files_witness:
  "\<exists>v1 d1 v2 d2 old.
    fatfs_write_file file_image_disk_io [0x41, 0x2E, 0x42] [7, 8, 9] sample_options (sample_volume, sample_disk) =
      Some (Inr (), (v1, d1)) \<and>
    fatfs_write_file file_image_disk_io [0x43] [] sample_options (v1, d1) = Some (Inr (), (v2, d2)) \<and>
    fatfs_read_file file_image_disk_io [0x41, 0x2E, 0x42] (v1, d1) = Some (Inr old, (v1, d1)) \<and>
    fatfs_read_file file_image_disk_io [0x41, 0x2E, 0x42] (v2, d2) = Some (Inr old, (v2, d2))"
proof -
  have options: "fo_attributes sample_options AND 0xC0 = 0" "fo_attributes sample_options \<noteq> 0x0F"
    "fo_attributes sample_options AND 0x10 = 0"
    by (simp_all add: sample_options_def)
  have fits: "length [7, 8, 9 :: u8] \<le> unat (fat_free_cluster_count sample_volume) * fat_cluster_size sample_volume"
    "length [7, 8, 9 :: u8] < 2 ^ 32"
    using sample_free by (simp_all add: sample_cluster_size)
  obtain w v1 d0 cs d1 e where
    run: "fatfs_write_file file_image_disk_io [0x41, 0x2E, 0x42] [7, 8, 9] sample_options (sample_volume, sample_disk) =
      Some (Inr (), (v1, d1))" "ide_root_volume v1 d1"
    and written: "ide_image.written sample_volume sample_disk w v1 d0 cs [7, 8, 9]"
    and e: "e = (new_file_entry (name_to_fcb [0x41, 0x2E, 0x42]) sample_options w)\<lparr> de_sector := de_sector e, de_offset := de_offset e \<rparr>"
      "find_entry file_image_disk_io v1 0 (name_to_fcb [0x41, 0x2E, 0x42]) d1 = Some (Inr (Some e), d1)"
    and keep: "\<And>other. other \<noteq> name_to_fcb [0x41, 0x2E, 0x42] \<Longrightarrow> find_entry file_image_disk_io v1 0 other d1 =
         map_option (\<lambda>(r, _). (r, d1)) (find_entry file_image_disk_io sample_volume 0 other sample_disk)"
    and room1: "\<And>i j. \<lbrakk>i < j; j < fat_root_slots sample_volume; ide_slot_byte sample_volume sample_disk i = 0;
         ide_slot_byte sample_volume sample_disk j = 0\<rbrakk> \<Longrightarrow> ide_root_has_room v1 d1"
    by (rule ide_write_root_file [OF sample_root_volume sample_paths(1,3) sample_absent sample_room options(1,2) fits])
      (rule that)
  have room: "ide_root_has_room v1 d1"
    using room1 [of 0 1] by (simp add: sample_root sample_slot_byte)
  have "de_attribute e = fo_attributes sample_options" "de_start_cluster e = fw_start_cluster w"
    "de_file_size e = fw_position w"
    by (subst e(1), simp add: new_file_entry_def)+
  then have old: "ide_root_file v1 d1 (name_to_fcb [0x41, 0x2E, 0x42]) e"
    using options(3) by (intro ide_new_root_file [OF written e(2)]) simp_all
  have absent: "find_entry file_image_disk_io v1 0 (name_to_fcb [0x43]) d1 = Some (Inr None, d1)"
    using keep [OF sample_paths(5)] by (simp add: sample_absent)
  have none: "length ([] :: u8 list) \<le> unat (fat_free_cluster_count v1) * fat_cluster_size v1"
    "length ([] :: u8 list) < 2 ^ 32"
    by simp_all
  obtain v2 d2 where
    second: "fatfs_write_file file_image_disk_io [0x43] [] sample_options (v1, d1) = Some (Inr (), (v2, d2))"
    by (rule ide_write_root_file [OF run(2) sample_paths(2,4) absent room options(1,2) none]) (rule that)
  show ?thesis
    using fatfs_write_keeps_other_files [OF run(2) sample_paths(2,4) absent room options(1,2) none second
        sample_paths(1) old] run(1) second by blast
qed

section \<open>A full root directory\<close>

text \<open>
  C12 When no slot of the root directory is free, writing a new file fails and takes nothing: every
  entry of the FAT and of the directory is as it was, and only bytes of free clusters have changed.
  The error it reports is that the file already exists.
\<close>

theorem fatfs_root_full_takes_nothing:
  assumes "ide_volume v d" "fat_root_layout v" "split_dos_path path = Inr [name]"
    and "find_entry file_image_disk_io v 0 (name_to_fcb name) d = Some (Inr None, d)" "\<not> ide_root_has_room v d"
    and "length bytes \<le> unat (fat_free_cluster_count v) * fat_cluster_size v" "length bytes < 2 ^ 32"
  shows "\<exists>v' d'. fatfs_write_file file_image_disk_io path bytes options (v, d) = Some (Inl FatAlreadyExists, (v', d')) \<and>
    (\<forall>c. fat_read_entry v' c = fat_read_entry v c) \<and>
    (\<forall>other. find_entry file_image_disk_io v' 0 other d' =
       map_option (\<lambda>(r, _). (r, d')) (find_entry file_image_disk_io v 0 other d)) \<and>
    (\<forall>p<length (file_image_contents d). (\<exists>c\<in>fat_free_set v. p \<in> ide_cluster_range v c) \<or>
       file_image_contents d' ! p = file_image_contents d ! p)"
proof -
  have disk: "ide_image.on_disk v d" using assms(1) by (simp add: ide_volume_on_disk)
  have none: "dir_found (fv_human68k v) (name_to_fcb name) (ide_image.root_slots v d) = None"
    using assms(4) by (simp add: ide_image.find_entry_root [OF disk assms(2)])
  have full: "\<forall>s\<in>set (ide_image.root_slots v d). \<not> slot_free s"
    using assms(5) unfolding ide_root_has_room_eq [OF disk assms(2)] by blast
  have fits: "length bytes \<le> card (fat_free_set v) * fat_cluster_size v"
    using assms(6) by (simp add: unat_free_cluster_count [OF ide_volume_numbered [OF assms(1)]])
  obtain w v1 v2 d1 cs where
    run: "create_or_replace_file file_image_disk_io 0 (name_to_fcb name) bytes options (v, d) = Some (Inl 0x05, (v2, d1))"
    and written: "ide_image.written v d w v1 d1 cs bytes"
    and same: "fat_same v v2" "\<And>c. fat_read_entry v2 c = fat_read_entry v c"
    and slots: "ide_image.root_slots v2 d1 = ide_image.root_slots v d" and disk2: "ide_image.on_disk v2 d1"
    by (rule ide_image.create_new_file_full [OF disk assms(2) none full fits assms(7)]) (rule that)
  have "fatfs_write_file file_image_disk_io path bytes options (v, d) = Some (Inl FatAlreadyExists, (v2, d1))"
    using run assms(3)
    by (simp add: fatfs_write_file_def walk_to_parent_def io_defs io_of_result_def fat_map_err_def)
  moreover have layout2: "fat_root_layout v2" using assms(2) ide_image.fat_root_layout_same [OF same(1)] by simp
  then have "\<forall>other. find_entry file_image_disk_io v2 0 other d1 =
      map_option (\<lambda>(r, _). (r, d1)) (find_entry file_image_disk_io v 0 other d)"
    by (simp add: ide_image.find_entry_root [OF disk assms(2)] ide_image.find_entry_root [OF disk2]
        slots fat_sameD(9) [OF same(1)])
  moreover have "\<forall>p<length (file_image_contents d). (\<exists>c\<in>fat_free_set v. p \<in> ide_cluster_range v c) \<or>
      file_image_contents d1 ! p = file_image_contents d ! p"
    using ide_image.written_frame(2,8) [OF written] unfolding ide_cluster_range_eq by blast
  ultimately show ?thesis using same(2) by blast
qed

text \<open>The small volume with sixteen slots that are in use: their bytes are 41.\<close>

definition sample_full_disk :: file_image_disk where
  "sample_full_disk = sample_disk\<lparr> fid_image := (fid_image sample_disk)
     \<lparr> img_data := replicate 1536 0 @ replicate 512 0x41 @ replicate 6144 0 \<rparr> \<rparr>"

lemma sample_full_volume: "ide_volume sample_volume sample_full_disk"
  using sample_ide_volume
  by (simp add: ide_volume_def file_image_good_def file_image_contents_def sample_full_disk_def sample_disk_def)

lemma sample_full_on_disk: "ide_image.on_disk sample_volume sample_full_disk"
  using sample_full_volume by (simp add: ide_volume_on_disk)

lemma sample_full_slot: "k < 16 \<Longrightarrow> snd (snd (ide_image.root_slot sample_volume sample_full_disk k)) = replicate 32 0x41"
  by (simp add: ide_image.root_slot_def sample_root sample_full_disk_def sample_disk_def file_image_contents_def)

lemma sample_full_no_room: "\<not> ide_root_has_room sample_volume sample_full_disk"
proof -
  have "\<not> slot_free s" if s: "s \<in> set (ide_image.root_slots sample_volume sample_full_disk)" for s
  proof -
    have "snd (snd s) = replicate 32 0x41"
      using s sample_full_slot by (auto simp: ide_image.root_slots_eq [OF sample_full_on_disk sample_root(1)] sample_root)
    then show ?thesis by (cases s) simp
  qed
  then show ?thesis unfolding ide_root_has_room_eq [OF sample_full_on_disk sample_root(1)] by blast
qed

lemma dir_scan_no_entry:
  "\<forall>s\<in>set slots. snd (snd s) = replicate 32 0x41 \<Longrightarrow> dir_scan h name slots = ScanContinue"
  by (induction slots) (auto simp: parse_entry_def)

lemma sample_full_absent:
  "find_entry file_image_disk_io sample_volume 0 name sample_full_disk = Some (Inr None, sample_full_disk)"
proof -
  have "\<forall>s\<in>set (ide_image.root_slots sample_volume sample_full_disk). snd (snd s) = replicate 32 0x41"
    using sample_full_slot by (auto simp: ide_image.root_slots_eq [OF sample_full_on_disk sample_root(1)] sample_root)
  from dir_scan_no_entry [OF this] show ?thesis
    by (simp add: ide_image.find_entry_root [OF sample_full_on_disk sample_root(1)] dir_found_def)
qed

theorem fatfs_root_full_takes_nothing_witness:
  "\<exists>v' d'. fatfs_write_file file_image_disk_io [0x43] [1, 2] sample_options (sample_volume, sample_full_disk) =
      Some (Inl FatAlreadyExists, (v', d')) \<and>
    fat_read_entry v' 2 = fat_read_entry sample_volume 2"
  using fatfs_root_full_takes_nothing [OF sample_full_volume sample_root(1) sample_paths(2) sample_full_absent
      sample_full_no_room, of "[1, 2]"] sample_free
  by (fastforce simp: sample_cluster_size)

end
