(* ===== verification/Spec2Isabelle.thy ===== *)
theory Spec2Isabelle
  imports Z80_Instructions Pc88_Properties Pc88_Scheduler I8259A_Properties I8253_Properties
    D88_Properties Pc88_Fdc_Status M6809_Guard Fm7_Properties Fat_Api_Properties
begin

text \<open>
  Verification library of neetan, an emulator of Japanese personal computers written in
  Rust (\<open>crates/\<close>). The program is a set of processor cores and device models, each with a
  state that can be saved, which machines compose over a bus and drive with an event
  scheduler; an emulated DOS gives guests and host tools a FAT file system on disk images.
  This library models two processor cores completely, the devices and buses around them in
  two machines, devices of others, and the file system with the images below it, each in the
  order of the code.

  \<^bold>\<open>Parts and theories.\<close>
  \<^item> \<open>Prelude\<close>: machine integers as words, bytes and pairs of bytes, rotations.
  \<^item> \<open>Bus_Interface\<close>: the trait \<open>Bus\<close> of \<open>common/src/lib.rs\<close> as a record of operations on a
    bus state, and the locale \<open>memory_bus\<close>, the contract of a bus with memory behind it.
  \<^item> \<open>Save_Restore\<close>: \<open>restore_root\<close> and \<open>restore_transactionally\<close> of \<open>save_state/src/lib.rs\<close>, with
    the locale \<open>restore_target\<close>.
  \<^item> \<open>Z80_State\<close>, \<open>Z80_Alu\<close>, \<open>Z80_Access\<close>, \<open>Z80_Base\<close>, \<open>Z80_Prefixed\<close>, \<open>Z80_Run\<close>: the Z80 core of
    \<open>cpu/src/z80.rs\<close> and \<open>cpu/src/z80/\<close>: registers and flags, arithmetic, memory and port
    accesses with their clocks, the opcode pages without prefix, with CB, ED, DD and FD,
    interrupts, and \<open>execute_one\<close>, \<open>step\<close> and \<open>run_for\<close>. The record \<open>z80\<close> extends \<open>z80_state\<close>, the part
    that is saved.
  \<^item> \<open>M6809_State\<close>, \<open>M6809_Alu\<close>, \<open>M6809_Access\<close>, \<open>M6809_Interrupt\<close>, \<open>M6809_Execute\<close>, \<open>M6809_Run\<close>: the
    MC6809 core of \<open>cpu/src/m6809.rs\<close> and \<open>cpu/src/m6809/\<close>, in the same order: registers, flags and
    arithmetic, cycle accounting and addressing modes, stacking and interrupts with CWAI and SYNC,
    the three opcode pages, and the run loop with the split extended CLR.
  \<^item> \<open>I8255\<close>, \<open>Pc80s31k\<close>, \<open>Pc88_Disk\<close>: the disk unit of the PC-8801: parallel interface,
    memory and mailbox (\<open>device/src/i8255.rs\<close>, \<open>pc80s31k.rs\<close>), and the bus that its Z80 sees
    with its ports and clock coupling (\<open>machine_88/src/bus.rs\<close>, \<open>bus/sub_io_*.rs\<close>, \<open>machine.rs\<close>).
  \<^item> \<open>Fm7_Memory\<close>, \<open>Fm7_Interrupts\<close>, \<open>Fm7_Bus\<close>: the main side of the FM-7 and the FM-77AV
    (\<open>machine_fm7/src/memory.rs\<close>, \<open>interrupt.rs\<close>, \<open>bus.rs\<close>, \<open>bus/main_io.rs\<close>): initiator, window and
    paging unit, interrupt sources, and the bus the main processor sees with its I/O page, wait
    cycles and the clock coupling to the display processor.
  \<^item> \<open>Bytes\<close>, \<open>D88\<close>: lists of bytes, and the D88 disk image of \<open>device/src/floppy/d88.rs\<close>: parser,
    serializer, sector lookup, sector writes and FORMAT TRACK.
  \<^item> \<open>Upd765a\<close>: the uPD765A floppy disk controller of \<open>device/src/upd765a_fdc.rs\<close>, on its three
    platforms. \<open>Pc88_Fdc\<close>: mounted disks with their backing (\<open>device/src/floppy.rs\<close>), the drives, and
    the transfers between the controller and the disks of the PC-8801's disk unit
    (\<open>machine_88/src/bus/sub_fdc.rs\<close>).
  \<^item> \<open>Stack_Vec\<close>, \<open>Scheduler\<close>, \<open>Pc88_Scheduler\<close>: the fixed-capacity vector of \<open>stack_vec\<close>, the
    shared scheduler state of \<open>common/src/scheduler.rs\<close> and the PC-8801 scheduler over it.
  \<^item> \<open>I8259A\<close>, \<open>I8253\<close>: the interrupt controllers and the interval timer of the PC-98
    (\<open>device/src/i8259a_pic.rs\<close>, \<open>i8253_pit.rs\<close>).
  \<^item> \<open>Disk_Io\<close>: the trait \<open>DiskIo\<close> of \<open>common/src/dos.rs\<close> as a record of operations on a disk state,
    calls that can fail or panic, and the locale \<open>flat_disk\<close>, the contract of a drive whose sectors
    lie one after the other. \<open>Hdd_Image\<close>, \<open>Hdd_Disk\<close>: hard disk images (\<open>device/src/disk.rs\<close> and the
    formats under \<open>disk/\<close>), an image bound to its host file (\<open>MountedHdd\<close>), and the adapter
    \<open>FileImageDiskIo\<close> of \<open>user_interface/src/copy.rs\<close>.
  \<^item> \<open>Fat_Bpb\<close>, \<open>Fat_Volume\<close>, \<open>Fat_Dir\<close>, \<open>Fat_File\<close>, \<open>Fat_Api\<close>: the FAT12 and FAT16 file system of
    \<open>dos/src/filesystem/\<close> (\<open>fat_bpb.rs\<close>, \<open>fat.rs\<close>, \<open>fat_dir.rs\<close>, \<open>fat_file.rs\<close>, \<open>fat_api.rs\<close>): parameter
    blocks, the mounted volume with its cached FAT, directories and names, the cursor and the
    writer of files, and the facade by path. \<open>Drive_Map\<close>: drives and partition tables
    (\<open>dos/src/drive_map.rs\<close>, \<open>drive_map/pc98.rs\<close>, \<open>fat_partition.rs\<close>, \<open>mbr_partition.rs\<close>,
    \<open>towns_partition.rs\<close>).

  \<^bold>\<open>Conventions.\<close> A method with \<open>&mut self\<close> is a function that takes the state last and
  returns it last. A panic (an index out of range, \<open>unreachable!\<close>, \<open>assert!\<close>, a division by
  zero) and a loop that does not end are the value \<open>None\<close> of an option; on the bus of the FM-7,
  whose interface to the core has no room for it, a panic sets a flag for good. A \<open>Result\<close> is a sum. A
  call of the file system takes the state of volume and disk and returns the result with the new
  state, also when it fails, as the code keeps what it has done before an error. A
  loop without a bound of its own is \<open>partial_function (option)\<close>; no definition uses fuel.
  Unsigned integers are words of their width and wrap as \<open>wrapping_\<close> operations and release
  builds do; where a count is an \<open>int\<close> or a \<open>nat\<close> instead, the theory says why no wrap
  occurs.

  \<^bold>\<open>What the lemmas show.\<close>
  \<^item> \<open>Z80_Invariant\<close>, \<open>Z80_Steps\<close>, \<open>Z80_Progress\<close>: every operation of the core keeps the state one
    that \<open>validate_state\<close> accepts and takes clocks within stated bounds; which opcodes panic;
    exactly when an instruction returns.
  \<^item> \<open>Z80_Memory\<close>: on every \<open>memory_bus\<close>, what stack accesses and LDIR do to memory; on
    every bus with ROM (\<open>rom_bus\<close>) the ROM never changes and \<open>run_for\<close> returns.
  \<^item> \<open>Byte_Arith\<close>, \<open>Z80_Arith\<close>, \<open>Z80_Arith16\<close>, \<open>Z80_Instructions\<close>, \<open>Z80_Properties\<close>: arithmetic,
    decimal adjustment, interrupts and whole runs, on the disk unit's bus where memory is involved.
  \<^item> \<open>M6809_Invariant\<close>, \<open>M6809_Steps\<close>, \<open>M6809_Progress\<close>: the control fields stay consistent, every step
    takes the cycles it declares, the run loop ends. \<open>M6809_Guard\<close>, \<open>M6809_Stack\<close>, \<open>M6809_Arith\<close>: a bus
    with an invariant of its own is never left in another state (\<open>guarded_bus\<close>), stacking on a bus
    with a window of RAM (\<open>ram_window\<close>) is undone by RTI, and what the arithmetic computes.
  \<^item> \<open>Pc88_Properties\<close>: the mailbox is a pair of crossed 8255s, memory can be saved and
    restored, and how main clocks become sub clocks.
  \<^item> \<open>Fm7_Memory_Properties\<close>, \<open>Fm7_Bus_Properties\<close>, \<open>Fm7_Properties\<close>: the memory refines a store of
    cells under every banking setting, and no access of the processor is outside its array; wait
    cycles, clock coupling, boot, interrupts and whole runs of the main processor.
  \<^item> \<open>Stack_Vec\<close>: programs on the vector refine programs on bounded lists and never read an
    uninitialised slot. \<open>Scheduler\<close>, \<open>Pc88_Scheduler\<close>: the contract \<open>event_queue\<close>, its consequences
    for a main loop, and both schedulers as its instances.
  \<^item> \<open>I8259A_Properties\<close>: priority resolution against a specification of when a level must be
    delivered, reachable states, the cached query, nested interrupts. \<open>I8253_Properties\<close>: bounds and meaning of the count, latches, packed decimal.
  \<^item> \<open>D88_Lookup\<close>, \<open>D88_Codec\<close>, \<open>D88_Properties\<close>: the outward search finds the nearest sector, writes
    are read back, and serializing and parsing are inverse on disks that the format can hold.
  \<^item> \<open>Upd765a_Invariant\<close>, \<open>Upd765a_Properties\<close>: the buffer positions stay within their arrays,
    command bytes assemble to the commands, seeks are reported. \<open>Pc88_Fdc_Invariant\<close>,
    \<open>Pc88_Fdc_Properties\<close>, \<open>Pc88_Fdc_Status\<close>: exactly when an access panics (the write-back of a
    formatted disk that the D88 file cannot hold), READ DATA delivers the sectors of the disk, and
    the write protection that the status never reports.
  \<^item> \<open>Fat_Entries\<close>, \<open>Fat_Chain\<close>: the FAT as an array of bits whose entries do not overlap, chains,
    reachability, release, allocation and the count of free clusters. \<open>Fat_Layout\<close>, \<open>Fat_Content\<close>,
    \<open>Fat_Writer\<close>: on every \<open>flat_disk\<close>, where clusters lie, the copies of the FAT, the contents of a
    chain, reading through a cursor, and what a writer has built after any number of chunks.
    \<open>Fat_Names\<close>: entries and names as bytes. \<open>Fat_Directory\<close>, \<open>Fat_Create\<close>: a root directory as a list of slots, searching it, and all that creating a file in it does, a full
    directory included. \<open>Fat_Mount\<close>, \<open>Fat_Properties\<close>: the same for volumes on hard disk images, and
    what mounting establishes. \<open>Fat_Api_Properties\<close>: files of the root directory by path, written,
    read back, and left alone by later writes.

  \<^bold>\<open>Interfaces.\<close> \<open>memory_bus\<close>, \<open>framed_bus\<close> and \<open>rom_bus\<close> are interpreted on the disk unit's bus,
  \<open>guarded_bus\<close> and \<open>ram_window\<close> on the bus of the FM-7's main processor,
  \<open>restore_target\<close> on both processors, \<open>event_queue\<close> on the shared scheduler state and on the PC-8801
  scheduler, \<open>flat_disk\<close> on the adapter of hard disk images with the sector sizes of SASI and IDE
  disks (\<open>sasi_image\<close>, \<open>ide_image\<close>). The floppy controller of the disk unit is a record of operations
  (\<open>fdc_ops\<close>) and an argument of its bus; the properties of the processor assume nothing of it.
  \<open>Pc88_Fdc\<close> models the controller that the machine has there. The devices behind the I/O page of the
  FM-7 and the host file behind a mounted floppy or hard disk image are such arguments too.

  \<^bold>\<open>Not modelled.\<close> The x86 and 68000 processors, the other devices and the machines
  built from them, sound synthesis, the DOS kernel and its shell, the ISO 9660 file system, the
  interpreter of the automation scripts and the user interface, each a program of its own size;
  of \<open>cpu_68k\<close> most is generated. Tracing, the byte encoding of save states and the debug-build
  checks of arithmetic overflow are left out of the modelled parts. Of the floppy
  side, the formats other than D88 with the NFD metadata, the AT and X68000 front ends of the
  controller and the dual controller of the PC-98 are not modelled; of the FM-7, the devices behind
  the I/O page, the address space of the display processor, events, video and sound; of the disks,
  the X68000 format, the migrations and the formatting of images, and the floppy variant of the adapter; of the
  drive map, the discovery of drives in guest memory.
\<close>

end
